(* ===== verification/Prelude.thy ===== *)
theory Prelude
  imports Main "HOL-Library.Word"
begin

text \<open>
  Shared vocabulary of the development: Go's fallible, effectful functions as error-state
  actions, Go's time and integer conversions, decimal printing and parsing, and the
  fact collections the component theories extend.
\<close>

named_theorems act_simps \<open>evaluation of the action combinators on a state\<close>
named_theorems frame_simps \<open>fields an operation leaves alone\<close>

section \<open>Actions: a Go function that may fail and that changes a state\<close>

text \<open>
  A Go function \<open>func (s *Service) Op(...) (T, error)\<close> becomes an action: from the state
  before the call to the error or the result, together with the state after it. The state
  after an error is kept, because Go does not roll back the effects that came before it.
\<close>

type_synonym ('s, 'e, 'a) act = "'s \<Rightarrow> ('e + 'a) \<times> 's"

definition ret_a :: "'a \<Rightarrow> ('s, 'e, 'a) act" where
  "ret_a a = (\<lambda>s. (Inr a, s))"

definition throw_a :: "'e \<Rightarrow> ('s, 'e, 'a) act" where
  "throw_a e = (\<lambda>s. (Inl e, s))"

text \<open>\<open>x, err := m(); if err != nil { return err }; f(x)\<close>\<close>

definition bind_a :: "('s, 'e, 'a) act \<Rightarrow> ('a \<Rightarrow> ('s, 'e, 'b) act) \<Rightarrow> ('s, 'e, 'b) act" where
  "bind_a m f = (\<lambda>s. case m s of (Inl e, s') \<Rightarrow> (Inl e, s') | (Inr a, s') \<Rightarrow> f a s')"

definition seq_a :: "('s, 'e, 'a) act \<Rightarrow> ('s, 'e, 'b) act \<Rightarrow> ('s, 'e, 'b) act" where
  "seq_a m k = bind_a m (\<lambda>_. k)"

text \<open>\<open>x, err := m()\<close>, with the error inspected by the continuation.\<close>

definition try_a :: "('s, 'e, 'a) act \<Rightarrow> ('e + 'a \<Rightarrow> ('s, 'f, 'b) act) \<Rightarrow> ('s, 'f, 'b) act" where
  "try_a m k = (\<lambda>s. case m s of (r, s') \<Rightarrow> k r s')"

text \<open>\<open>_ = m()\<close>: the error is dropped, the effect is kept.\<close>

definition ignore_a :: "('s, 'e, 'a) act \<Rightarrow> ('s, 'f, unit) act" where
  "ignore_a m = (\<lambda>s. (Inr (), snd (m s)))"

text \<open>\<open>if !ok { return err }\<close>\<close>

definition guard_a :: "bool \<Rightarrow> 'e \<Rightarrow> ('s, 'e, unit) act" where
  "guard_a ok e = (if ok then ret_a () else throw_a e)"

definition when_a :: "bool \<Rightarrow> ('s, 'e, unit) act \<Rightarrow> ('s, 'e, unit) act" where
  "when_a b m = (if b then m else ret_a ())"

text \<open>\<open>fmt.Errorf(... %w, err)\<close>: the error is wrapped, the state is untouched.\<close>

definition wrap_a :: "('e \<Rightarrow> 'f) \<Rightarrow> ('s, 'e, 'a) act \<Rightarrow> ('s, 'f, 'a) act" where
  "wrap_a g m = (\<lambda>s. case m s of (Inl e, s') \<Rightarrow> (Inl (g e), s') | (Inr a, s') \<Rightarrow> (Inr a, s'))"

text \<open>An action on one component of a larger state.\<close>

definition zoom_a :: "('w \<Rightarrow> 's) \<Rightarrow> ('s \<Rightarrow> 'w \<Rightarrow> 'w) \<Rightarrow> ('s, 'e, 'a) act \<Rightarrow> ('w, 'e, 'a) act" where
  "zoom_a sel put m = (\<lambda>w. case m (sel w) of (r, s') \<Rightarrow> (r, put s' w))"

text \<open>An assignment to the state.\<close>

definition modify_a :: "('s \<Rightarrow> 's) \<Rightarrow> ('s, 'e, unit) act" where
  "modify_a f = (\<lambda>s. (Inr (), f s))"

lemma act_run [act_simps]:
  "ret_a a s = (Inr a, s)"
  "throw_a e s = (Inl e, s)"
  "bind_a m f s = (case m s of (Inl e, s') \<Rightarrow> (Inl e, s') | (Inr a, s') \<Rightarrow> f a s')"
  "seq_a m k s = (case m s of (Inl e, s') \<Rightarrow> (Inl e, s') | (Inr _, s') \<Rightarrow> k s')"
  "try_a m k' s = (case m s of (r, s') \<Rightarrow> k' r s')"
  "ignore_a m s = (Inr (), snd (m s))"
  "guard_a ok e s = (if ok then (Inr (), s) else (Inl e, s))"
  "when_a b m' s = (if b then m' s else (Inr (), s))"
  "wrap_a g m s = (case m s of (Inl e, s') \<Rightarrow> (Inl (g e), s') | (Inr a, s') \<Rightarrow> (Inr a, s'))"
  "zoom_a sel put m w = (case m (sel w) of (r, s') \<Rightarrow> (r, put s' w))"
  "modify_a h s = (Inr (), h s)"
  by (auto simp: modify_a_def ret_a_def throw_a_def bind_a_def seq_a_def try_a_def ignore_a_def guard_a_def
      when_a_def wrap_a_def zoom_a_def split: prod.splits sum.splits)

text \<open>Elimination rules: how a sequence of calls can have returned.\<close>

lemma bind_aE:
  assumes "bind_a m f s = (r, s')"
  obtains (err) e where "m s = (Inl e, s')" "r = Inl e"
        | (ok) a t where "m s = (Inr a, t)" "f a t = (r, s')"
  using assms by (auto simp: act_simps split: prod.splits sum.splits)

lemma seq_aE:
  assumes "seq_a m k s = (r, s')"
  obtains (err) e where "m s = (Inl e, s')" "r = Inl e"
        | (ok) a t where "m s = (Inr a, t)" "k t = (r, s')"
  using assms by (auto simp: act_simps split: prod.splits sum.splits)

lemma bind_a_Inr:
  "bind_a m f s = (Inr b, s') \<longleftrightarrow> (\<exists>a t. m s = (Inr a, t) \<and> f a t = (Inr b, s'))"
  by (auto simp: act_simps split: prod.splits sum.splits)

lemma seq_a_Inr:
  "seq_a m k s = (Inr b, s') \<longleftrightarrow> (\<exists>a t. m s = (Inr a, t) \<and> k t = (Inr b, s'))"
  by (auto simp: act_simps split: prod.splits sum.splits)

lemma bind_a_assoc: "bind_a (bind_a m f) g = bind_a m (\<lambda>x. bind_a (f x) g)"
  by (auto simp: bind_a_def fun_eq_iff split: prod.splits sum.splits)

lemma bind_ret_left: "bind_a (ret_a a) k = k a"
  by (simp add: bind_a_def ret_a_def)

lemma bind_seq_ret: "bind_a (seq_a m (ret_a a)) k = seq_a m (k a)"
  by (auto simp: seq_a_def bind_a_def ret_a_def fun_eq_iff split: prod.split sum.split)

lemma bind_a_if: "bind_a (if b then m else m') k = (if b then bind_a m k else bind_a m' k)"
  by simp

section \<open>What an action leaves alone\<close>

text \<open>
  \<open>preserves f m\<close>: the action never changes the observation \<open>f\<close> of the state, whatever it
  returns. \<open>preserves_err f m\<close>: it does not change it when it returns an error, which is
  what "a failed operation has no effect on the stored rows" means.
\<close>

definition preserves :: "('s \<Rightarrow> 'o) \<Rightarrow> ('s, 'e, 'a) act \<Rightarrow> bool" where
  "preserves f m \<longleftrightarrow> (\<forall>s. f (snd (m s)) = f s)"

definition preserves_err :: "('s \<Rightarrow> 'o) \<Rightarrow> ('s, 'e, 'a) act \<Rightarrow> bool" where
  "preserves_err f m \<longleftrightarrow> (\<forall>s e s'. m s = (Inl e, s') \<longrightarrow> f s' = f s)"

named_theorems frame_intros \<open>composition rules for preserves and preserves_err\<close>

lemma preservesD: "preserves f m \<Longrightarrow> m s = (r, s') \<Longrightarrow> f s' = f s"
  by (metis preserves_def snd_conv)

lemma preserves_errD: "preserves_err f m \<Longrightarrow> m s = (Inl e, s') \<Longrightarrow> f s' = f s"
  by (auto simp: preserves_err_def)

lemma preserves_imp_err: "preserves f m \<Longrightarrow> preserves_err f m"
  by (auto simp: preserves_err_def preserves_def) (metis snd_conv)

lemma preserves_ret [frame_intros]: "preserves f (ret_a a)"
  and preserves_throw [frame_intros]: "preserves f (throw_a e)"
  and preserves_guard [frame_intros]: "preserves f (guard_a ok e)"
  by (auto simp: preserves_def act_simps)

lemma preserves_bind [frame_intros]:
  "preserves f m \<Longrightarrow> (\<And>a. preserves f (k a)) \<Longrightarrow> preserves f (bind_a m k)"
  by (auto simp: preserves_def act_simps split: prod.splits sum.splits) (metis snd_conv)+

lemma preserves_seq [frame_intros]:
  "preserves f m \<Longrightarrow> preserves f k \<Longrightarrow> preserves f (seq_a m k)"
  by (simp add: seq_a_def preserves_bind)

lemma preserves_try [frame_intros]:
  "preserves f m \<Longrightarrow> (\<And>r. preserves f (k r)) \<Longrightarrow> preserves f (try_a m k)"
  by (auto simp: preserves_def act_simps split: prod.splits) (metis snd_conv)

lemma preserves_ignore [frame_intros]: "preserves f m \<Longrightarrow> preserves f (ignore_a m)"
  by (auto simp: preserves_def act_simps)

lemma preserves_when [frame_intros]: "preserves f m \<Longrightarrow> preserves f (when_a b m)"
  by (auto simp: preserves_def act_simps)

lemma preserves_wrap [frame_intros]: "preserves f m \<Longrightarrow> preserves f (wrap_a g m)"
  by (auto simp: preserves_def act_simps split: prod.splits sum.splits) (metis snd_conv)+

lemma preserves_if [frame_intros]:
  "(b \<Longrightarrow> preserves f m) \<Longrightarrow> (\<not> b \<Longrightarrow> preserves f k) \<Longrightarrow> preserves f (if b then m else k)"
  by auto

lemma preserves_modify [frame_intros]: "(\<And>s. f (g s) = f s) \<Longrightarrow> preserves f (modify_a g)"
  by (simp add: preserves_def act_simps)

text \<open>
  A failed sequence: the part before the failing call must preserve the observation, the
  failing call only has to preserve it when it fails.
\<close>

lemma preserves_err_bind:
  "preserves f m \<Longrightarrow> (\<And>a. preserves_err f (k a)) \<Longrightarrow> preserves_err f (bind_a m k)"
  unfolding preserves_err_def
  by (auto elim!: bind_aE dest: preservesD)

lemma preserves_err_seq:
  "preserves f m \<Longrightarrow> preserves_err f k \<Longrightarrow> preserves_err f (seq_a m k)"
  by (simp add: seq_a_def preserves_err_bind)

lemma preserves_err_try:
  "preserves f m \<Longrightarrow> (\<And>r. preserves_err f (k r)) \<Longrightarrow> preserves_err f (try_a m k)"
  unfolding preserves_err_def preserves_def
  by (auto simp: act_simps split: prod.splits) (metis snd_conv)

lemma preserves_err_last:
  "preserves_err f m \<Longrightarrow> (\<And>a s. isl (fst (k a s)) = False) \<Longrightarrow> preserves_err f (bind_a m k)"
  unfolding preserves_err_def by (auto elim!: bind_aE) (metis fst_conv sum.disc(1))

lemma preserves_err_if:
  "(b \<Longrightarrow> preserves_err f m) \<Longrightarrow> (\<not> b \<Longrightarrow> preserves_err f k) \<Longrightarrow> preserves_err f (if b then m else k)"
  by auto

lemma preserves_err_ret: "preserves_err f (ret_a a)"
  and preserves_err_throw: "preserves_err f (throw_a e)"
  by (auto simp: preserves_err_def act_simps)

section \<open>How an action moves what it changes\<close>

text \<open>
  \<open>moves f P m\<close>: whatever \<open>m\<close> returns, the observation \<open>f\<close> goes from its value before to its
  value after in a way the relation \<open>P\<close> allows. For a reflexive and transitive \<open>P\<close> this is closed
  under sequencing; for a merely reflexive one, an action with a single effect moves its
  observation once.
\<close>

definition moves :: "('s \<Rightarrow> 'o) \<Rightarrow> ('o \<Rightarrow> 'o \<Rightarrow> bool) \<Rightarrow> ('s, 'e, 'a) act \<Rightarrow> bool" where
  "moves f P m \<longleftrightarrow> (\<forall>s. P (f s) (f (snd (m s))))"

lemma movesD: "moves f P m \<Longrightarrow> m s = (r, s') \<Longrightarrow> P (f s) (f s')"
  by (metis moves_def snd_conv)

lemma moves_mono: "moves f P m \<Longrightarrow> (\<And>x y. P x y \<Longrightarrow> Q x y) \<Longrightarrow> moves f Q m"
  by (auto simp: moves_def)

lemma moves_refl: "reflp P \<Longrightarrow> preserves f m \<Longrightarrow> moves f P m"
  by (auto simp: moves_def preserves_def reflp_def)

lemma moves_bind_pre:
  "preserves f m \<Longrightarrow> (\<And>a. moves f P (k a)) \<Longrightarrow> reflp P \<Longrightarrow> moves f P (bind_a m k)"
  unfolding moves_def preserves_def
  by (auto simp: act_simps reflp_def split: prod.splits sum.splits) (metis snd_conv)+

lemma moves_bind_post:
  "moves f P m \<Longrightarrow> (\<And>a. preserves f (k a)) \<Longrightarrow> moves f P (bind_a m k)"
  unfolding moves_def preserves_def
  by (auto simp: act_simps split: prod.splits sum.splits) (metis snd_conv)+

lemma moves_bind_trans:
  "moves f P m \<Longrightarrow> (\<And>a. moves f P (k a)) \<Longrightarrow> transp P \<Longrightarrow> moves f P (bind_a m k)"
  unfolding moves_def transp_def
  by (auto simp: act_simps split: prod.splits sum.splits) (metis snd_conv)+

lemma moves_seq_pre: "preserves f m \<Longrightarrow> moves f P k \<Longrightarrow> reflp P \<Longrightarrow> moves f P (seq_a m k)"
  by (simp add: seq_a_def moves_bind_pre)

lemma moves_seq_post: "moves f P m \<Longrightarrow> preserves f k \<Longrightarrow> moves f P (seq_a m k)"
  by (simp add: seq_a_def moves_bind_post)

lemma moves_seq_trans: "moves f P m \<Longrightarrow> moves f P k \<Longrightarrow> transp P \<Longrightarrow> moves f P (seq_a m k)"
  by (simp add: seq_a_def moves_bind_trans)

lemma moves_try_pre:
  "preserves f m \<Longrightarrow> (\<And>r. moves f P (k r)) \<Longrightarrow> moves f P (try_a m k)"
  unfolding moves_def preserves_def
  by (auto simp: act_simps split: prod.splits) (metis snd_conv)

lemma moves_try_post:
  "moves f P m \<Longrightarrow> (\<And>r. preserves f (k r)) \<Longrightarrow> moves f P (try_a m k)"
  unfolding moves_def preserves_def
  by (auto simp: act_simps split: prod.splits) (metis snd_conv)

lemma moves_wrap: "moves f P m \<Longrightarrow> moves f P (wrap_a g m)"
  unfolding moves_def by (auto simp: act_simps split: prod.splits sum.splits) (metis snd_conv)+

lemma moves_ignore: "moves f P m \<Longrightarrow> moves f P (ignore_a m)"
  by (auto simp: moves_def act_simps)

lemma moves_if:
  "(b \<Longrightarrow> moves f P m) \<Longrightarrow> (\<not> b \<Longrightarrow> moves f P k) \<Longrightarrow> moves f P (if b then m else k)"
  by auto

text \<open>An action on a component, seen through the component and through the others.\<close>

lemma preserves_zoom:
  "preserves g m \<Longrightarrow> (\<And>d w. f (put d w) = g d) \<Longrightarrow> (\<And>w. f w = g (sel w)) \<Longrightarrow>
   preserves f (zoom_a sel put m)"
  unfolding preserves_def by (auto simp: act_simps split: prod.splits) (metis snd_conv)

lemma preserves_zoom_other:
  "(\<And>d w. f (put d w) = f w) \<Longrightarrow> preserves f (zoom_a sel put m)"
  unfolding preserves_def by (auto simp: act_simps split: prod.splits)

lemma moves_zoom:
  "moves g P m \<Longrightarrow> (\<And>d w. f (put d w) = g d) \<Longrightarrow> (\<And>w. f w = g (sel w)) \<Longrightarrow>
   moves f P (zoom_a sel put m)"
  unfolding moves_def by (auto simp: act_simps split: prod.splits) (metis snd_conv)

section \<open>Invariants and results\<close>

text \<open>
  \<open>inv_a I m Q\<close>: run from a state with \<open>I\<close>, the action ends in a state with \<open>I\<close>, also when it
  fails, and a result it returns satisfies \<open>Q\<close>.
\<close>

definition inv_a :: "('s \<Rightarrow> bool) \<Rightarrow> ('s, 'e, 'a) act \<Rightarrow> ('a \<Rightarrow> bool) \<Rightarrow> bool" where
  "inv_a I m Q \<longleftrightarrow> (\<forall>s r s'. m s = (r, s') \<longrightarrow> I s \<longrightarrow> I s' \<and> (\<forall>a. r = Inr a \<longrightarrow> Q a))"

named_theorems inv_intros \<open>composition rules for invariants\<close>

lemma inv_aD: "inv_a I m Q \<Longrightarrow> m s = (r, s') \<Longrightarrow> I s \<Longrightarrow> I s'"
  and inv_aD_result: "inv_a I m Q \<Longrightarrow> m s = (Inr a, s') \<Longrightarrow> I s \<Longrightarrow> Q a"
  by (auto simp: inv_a_def)

lemma inv_snd: "inv_a I m Q \<Longrightarrow> I s \<Longrightarrow> I (snd (m s))"
  by (metis inv_aD prod.collapse)

lemma inv_weaken: "inv_a I m Q \<Longrightarrow> (\<And>a. Q a \<Longrightarrow> R a) \<Longrightarrow> inv_a I m R"
  by (auto simp: inv_a_def)

lemma inv_ret [inv_intros]: "Q a \<Longrightarrow> inv_a I (ret_a a) Q"
  and inv_throw [inv_intros]: "inv_a I (throw_a e) Q"
  by (auto simp: inv_a_def act_simps)

lemma inv_bind [inv_intros]:
  "inv_a I m R \<Longrightarrow> (\<And>a. R a \<Longrightarrow> inv_a I (k a) Q) \<Longrightarrow> inv_a I (bind_a m k) Q"
  unfolding inv_a_def by (auto elim!: bind_aE; blast)

lemma inv_seq [inv_intros]:
  "inv_a I m (\<lambda>_. True) \<Longrightarrow> inv_a I k Q \<Longrightarrow> inv_a I (seq_a m k) Q"
  unfolding inv_a_def by (auto elim!: seq_aE; blast)

lemma inv_seq_post:
  "inv_a I m R \<Longrightarrow> (\<And>a. R a \<Longrightarrow> inv_a I k Q) \<Longrightarrow> inv_a I (seq_a m k) Q"
  unfolding inv_a_def by (auto elim!: seq_aE; blast)

lemma inv_try [inv_intros]:
  "inv_a I m R \<Longrightarrow> (\<And>r. (\<And>a. r = Inr a \<Longrightarrow> R a) \<Longrightarrow> inv_a I (k r) Q) \<Longrightarrow> inv_a I (try_a m k) Q"
  unfolding inv_a_def by (auto simp: act_simps split: prod.splits; blast)

lemma inv_ignore [inv_intros]: "inv_a I m (\<lambda>_. True) \<Longrightarrow> inv_a I (ignore_a m) (\<lambda>_. True)"
  unfolding inv_a_def by (auto simp: act_simps) (metis prod.collapse)

lemma inv_wrap [inv_intros]: "inv_a I m Q \<Longrightarrow> inv_a I (wrap_a g m) Q"
  unfolding inv_a_def by (auto simp: act_simps split: prod.splits sum.splits)

lemma inv_when [inv_intros]:
  "(b \<Longrightarrow> inv_a I m (\<lambda>_. True)) \<Longrightarrow> inv_a I (when_a b m) (\<lambda>_. True)"
  unfolding inv_a_def by (auto simp: act_simps)

lemma inv_if [inv_intros]:
  "(b \<Longrightarrow> inv_a I m Q) \<Longrightarrow> (\<not> b \<Longrightarrow> inv_a I k Q) \<Longrightarrow> inv_a I (if b then m else k) Q"
  by auto

lemma inv_modify [inv_intros]: "(\<And>s. I s \<Longrightarrow> I (f s)) \<Longrightarrow> inv_a I (modify_a f) (\<lambda>_. True)"
  by (simp add: inv_a_def act_simps)

lemma inv_zoom:
  "inv_a J m Q \<Longrightarrow> (\<And>w. I w \<Longrightarrow> J (sel w)) \<Longrightarrow> (\<And>d w. I w \<Longrightarrow> J d \<Longrightarrow> I (put d w)) \<Longrightarrow>
   inv_a I (zoom_a sel put m) Q"
  unfolding inv_a_def by (auto simp: act_simps split: prod.splits)

section \<open>Time\<close>

text \<open>
  A \<open>time.Time\<close> is the number of nanoseconds since Go's zero time (year 1), so that
  \<open>t.IsZero()\<close> is \<open>t = 0\<close>; a \<open>time.Duration\<close> is a number of nanoseconds. The Unix epoch is
  62135596800 seconds after the zero time. \<open>int(d.Seconds())\<close> truncates towards zero.
\<close>

type_synonym gotime = int

definition trunc_div :: "int \<Rightarrow> int \<Rightarrow> int" where
  "trunc_div a b = sgn a * sgn b * (\<bar>a\<bar> div \<bar>b\<bar>)"

definition second :: int where "second = 1000000000"

definition dur_secs :: "int \<Rightarrow> int" where
  "dur_secs d = trunc_div d second"

text \<open>\<open>t.Sub(u)\<close> saturates at the range of an int64 of nanoseconds (about 292 years).\<close>

definition time_sub :: "gotime \<Rightarrow> gotime \<Rightarrow> int" where
  "time_sub t u = max (- (2 ^ 63)) (min (2 ^ 63 - 1) (t - u))"

definition unix_milli :: "gotime \<Rightarrow> int" where
  "unix_milli t = t div 1000000 - 62135596800000"

lemma time_sub_ge0 [simp]: "u \<le> t \<Longrightarrow> 0 \<le> time_sub t u"
  by (simp add: time_sub_def)

lemma time_sub_mono: "t \<le> t' \<Longrightarrow> time_sub t u \<le> time_sub t' u"
  by (auto simp: time_sub_def)

lemma time_sub_exact: "\<bar>t - u\<bar> < 2 ^ 63 \<Longrightarrow> time_sub t u = t - u"
  by (auto simp: time_sub_def abs_if split: if_splits)

lemma dur_secs_nonneg: "0 \<le> d \<Longrightarrow> dur_secs d = d div second"
  by (cases "d = 0") (auto simp: dur_secs_def trunc_div_def second_def)

lemma dur_secs_ge0: "0 \<le> d \<Longrightarrow> 0 \<le> dur_secs d"
  by (simp add: dur_secs_nonneg second_def)

lemma dur_secs_mono: "0 \<le> a \<Longrightarrow> a \<le> b \<Longrightarrow> dur_secs a \<le> dur_secs b"
  by (simp add: dur_secs_nonneg second_def zdiv_mono1)

lemma dur_secs_bound:
  assumes "0 \<le> d"
  shows "dur_secs d * second \<le> d \<and> d < (dur_secs d + 1) * second"
proof -
  have "d = d div second * second + d mod second" by simp
  moreover have "0 \<le> d mod second" "d mod second < second"
    by (simp_all add: second_def)
  ultimately have "d div second * second \<le> d" "d < d div second * second + second" by linarith+
  with assms show ?thesis by (simp add: dur_secs_nonneg algebra_simps)
qed

end
