(* ===== verification/Store.thy ===== *)
theory Store
  imports Prelude
begin

text \<open>
  The repositories. Every aggregate of the program is read and written through a Go interface
  with \<open>Create\<close>, \<open>GetByID\<close> and \<open>Update\<close>; a service holds a value of that interface. Here the
  interface value is a record of actions over a store state, its laws are the locale
  \<open>row_repository\<close>, and the MySQL tables of \<open>internal/infrastructure/mysql\<close> interpret it.
\<close>

section \<open>The interface\<close>

record ('d, 'r) repo =
  repo_get :: "int \<Rightarrow> ('d, string, 'r option) act"
  repo_create :: "'r \<Rightarrow> ('d, string, unit) act"
  repo_update :: "'r \<Rightarrow> ('d, string, unit) act"

text \<open>
  What a service may rely on. \<open>row d k\<close> is the row stored under key \<open>k\<close>; \<open>kept old new\<close> is what
  is stored after \<open>Update(new)\<close> over the row \<open>old\<close> (the columns the statement names come from
  \<open>new\<close>, the others from \<open>old\<close>); \<open>fresh new\<close> is what \<open>Create(new)\<close> stores. A call that returns
  an error has not changed any row.
\<close>

locale row_repository =
  fixes R :: "('d, 'r) repo"
    and row :: "'d \<Rightarrow> int \<Rightarrow> 'r option"
    and key :: "'r \<Rightarrow> int"
    and kept :: "'r \<Rightarrow> 'r \<Rightarrow> 'r"
    and fresh :: "'r \<Rightarrow> 'r"
  assumes get_row: "repo_get R k d = (Inr found, d') \<Longrightarrow> found = row d k"
    and get_frame: "repo_get R k d = (r, d') \<Longrightarrow> row d' = row d"
    and update_row: "repo_update R x d = (Inr u, d') \<Longrightarrow>
          row d' = (case row d (key x) of None \<Rightarrow> row d | Some old \<Rightarrow> (row d)(key x \<mapsto> kept old x))"
    and update_err: "repo_update R x d = (Inl e, d') \<Longrightarrow> row d' = row d"
    and create_row: "repo_create R x d = (Inr v, d') \<Longrightarrow>
          row d (key x) = None \<and> row d' = (row d)(key x \<mapsto> fresh x)"
    and create_err: "repo_create R x d = (Inl e, d') \<Longrightarrow> row d' = row d"
begin

lemma preserves_get: "preserves row (repo_get R k)"
  by (auto simp: preserves_def) (metis get_frame prod.collapse)

lemma preserves_err_update: "preserves_err row (repo_update R x)"
  by (auto simp: preserves_err_def dest: update_err)

lemma preserves_err_create: "preserves_err row (repo_create R x)"
  by (auto simp: preserves_err_def dest: create_err)

text \<open>Read, change, write back: the row afterwards, and every other row untouched.\<close>

lemma update_same:
  "repo_update R x d = (Inr u, d') \<Longrightarrow> row d (key x) = Some old \<Longrightarrow> row d' (key x) = Some (kept old x)"
  by (drule update_row) simp

lemma update_other:
  "repo_update R x d = (Inr u, d') \<Longrightarrow> k \<noteq> key x \<Longrightarrow> row d' k = row d k"
  by (drule update_row) (simp split: option.splits)

lemma update_dom:
  "repo_update R x d = (Inr u, d') \<Longrightarrow> dom (row d') = dom (row d)"
  by (drule update_row) (auto split: option.splits)

end

text \<open>
  A repository that stores rows under their own key: neither \<open>Create\<close> nor \<open>Update\<close> writes the
  primary key of a row, so a row found under \<open>k\<close> has key \<open>k\<close>, always.
\<close>

locale keyed_repository = row_repository +
  assumes kept_key: "key (kept old x) = key old"
    and fresh_key: "key (fresh x) = key x"
begin

lemma keyed_update:
  assumes "repo_update R x d = (r, d')" and "\<forall>k y. row d k = Some y \<longrightarrow> key y = k"
  shows "\<forall>k y. row d' k = Some y \<longrightarrow> key y = k"
  using assms by (cases r) (auto dest!: update_err update_row simp: kept_key split: option.splits if_splits)

lemma keyed_create:
  assumes "repo_create R x d = (r, d')" and "\<forall>k y. row d k = Some y \<longrightarrow> key y = k"
  shows "\<forall>k y. row d' k = Some y \<longrightarrow> key y = k"
  using assms by (cases r) (auto dest!: create_err create_row simp: fresh_key split: if_splits)

end

section \<open>A SQL table\<close>

text \<open>
  A table is its rows by primary key and a script of outages: the next statement fails with a
  driver error when the head of the script is \<open>True\<close>, and an exhausted script means a healthy
  connection. A failed statement leaves the rows as they were (a statement is atomic). The
  script is part of the state, so a theorem over all states is a theorem over all patterns of
  database failures.
\<close>

record 'r table =
  rows :: "int \<rightharpoonup> 'r"
  outages :: "bool list"

definition with_link :: "('r table, string, 'a) act \<Rightarrow> ('r table, string, 'a) act" where
  "with_link m t =
     (case outages t of
        [] \<Rightarrow> m t
      | down # rest \<Rightarrow>
          if down then (Inl ''sql: connection lost'', t\<lparr>outages := rest\<rparr>)
          else m (t\<lparr>outages := rest\<rparr>))"

text \<open>\<open>SELECT * FROM t WHERE id = ?\<close>, with \<open>sql.ErrNoRows\<close> turned into a nil row.\<close>

definition sql_get :: "int \<Rightarrow> ('r table, string, 'r option) act" where
  "sql_get k = with_link (\<lambda>t. (Inr (rows t k), t))"

text \<open>\<open>INSERT INTO t (columns) VALUES (...)\<close>: a duplicate primary key is refused.\<close>

definition sql_insert :: "('r \<Rightarrow> int) \<Rightarrow> ('r \<Rightarrow> 'r) \<Rightarrow> 'r \<Rightarrow> ('r table, string, unit) act" where
  "sql_insert key fresh x = with_link (\<lambda>t.
     (case rows t (key x) of
        None \<Rightarrow> (Inr (), t\<lparr>rows := (rows t)(key x \<mapsto> fresh x)\<rparr>)
      | Some _ \<Rightarrow> (Inl ''Error 1062: Duplicate entry'', t)))"

text \<open>\<open>UPDATE t SET columns WHERE id = ?\<close>: a missing row is no error and changes nothing.\<close>

definition sql_update :: "('r \<Rightarrow> int) \<Rightarrow> ('r \<Rightarrow> 'r \<Rightarrow> 'r) \<Rightarrow> 'r \<Rightarrow> ('r table, string, unit) act" where
  "sql_update key kept x = with_link (\<lambda>t.
     (Inr (), (case rows t (key x) of
                 None \<Rightarrow> t
               | Some old \<Rightarrow> t\<lparr>rows := (rows t)(key x \<mapsto> kept old x)\<rparr>)))"

definition table_repo :: "('r \<Rightarrow> int) \<Rightarrow> ('r \<Rightarrow> 'r) \<Rightarrow> ('r \<Rightarrow> 'r \<Rightarrow> 'r) \<Rightarrow> ('r table, 'r) repo" where
  "table_repo key fresh kept =
     \<lparr>repo_get = sql_get, repo_create = sql_insert key fresh, repo_update = sql_update key kept\<rparr>"

lemma table_repo_simps [simp]:
  "repo_get (table_repo key fresh kept) = sql_get"
  "repo_create (table_repo key fresh kept) = sql_insert key fresh"
  "repo_update (table_repo key fresh kept) = sql_update key kept"
  by (simp_all add: table_repo_def)

lemmas sql_defs = sql_get_def sql_insert_def sql_update_def with_link_def

interpretation sql_table: row_repository "table_repo key fresh kept" rows key kept fresh
  for key :: "'r \<Rightarrow> int" and fresh kept
  by unfold_locales (auto simp: sql_defs split: list.splits if_splits option.splits)

text \<open>A healthy connection: every statement runs.\<close>

lemma sql_healthy [simp]:
  "outages t = [] \<Longrightarrow> sql_get k t = (Inr (rows t k), t)"
  "outages t = [] \<Longrightarrow> sql_update key kept x t =
     (Inr (), (case rows t (key x) of
                 None \<Rightarrow> t
               | Some old \<Rightarrow> t\<lparr>rows := (rows t)(key x \<mapsto> kept old x)\<rparr>))"
  "outages t = [] \<Longrightarrow> rows t (key x) = None \<Longrightarrow>
     sql_insert key fresh x t = (Inr (), t\<lparr>rows := (rows t)(key x \<mapsto> fresh x)\<rparr>)"
  by (simp_all add: sql_defs)

section \<open>Append-only tables\<close>

text \<open>
  Event and log tables are only ever inserted into; \<open>_ = repo.Create(...)\<close> drops the error,
  and then the entry is missing.
\<close>

record 'e journal =
  entries :: "'e list"
  journal_outages :: "bool list"

definition journal_add :: "'e \<Rightarrow> ('e journal, string, unit) act" where
  "journal_add e j =
     (case journal_outages j of
        [] \<Rightarrow> (Inr (), j\<lparr>entries := entries j @ [e]\<rparr>)
      | down # rest \<Rightarrow>
          if down then (Inl ''sql: connection lost'', j\<lparr>journal_outages := rest\<rparr>)
          else (Inr (), j\<lparr>entries := entries j @ [e], journal_outages := rest\<rparr>))"

lemma journal_add_entries:
  "entries (snd (journal_add e j)) = entries j \<or> entries (snd (journal_add e j)) = entries j @ [e]"
  by (auto simp: journal_add_def split: list.splits if_splits)

text \<open>Whether the next insert fails.\<close>

definition journal_down :: "'e journal \<Rightarrow> bool" where
  "journal_down j \<longleftrightarrow> (case journal_outages j of [] \<Rightarrow> False | down # _ \<Rightarrow> down)"

lemma journal_add_result:
  "entries (snd (journal_add e j)) = (if journal_down j then entries j else entries j @ [e])"
  by (auto simp: journal_add_def journal_down_def split: list.splits)

lemma journal_add_healthy [simp]:
  "journal_outages j = [] \<Longrightarrow> journal_add e j = (Inr (), j\<lparr>entries := entries j @ [e]\<rparr>)"
  by (simp add: journal_add_def)

section \<open>Tables that are scanned\<close>

text \<open>
  Where the program lists or scans a table (\<open>SELECT ... ORDER BY\<close>), the rows are kept as a list
  in insertion order, with the same outage script. Its rows by key satisfy the repository laws,
  when the statements keep the key.
\<close>

record 'r ltable =
  lrows :: "'r list"
  loutages :: "bool list"

definition on_link :: "('r ltable, string, 'a) act \<Rightarrow> ('r ltable, string, 'a) act" where
  "on_link m t =
     (case loutages t of
        [] \<Rightarrow> m t
      | down # rest \<Rightarrow>
          if down then (Inl ''sql: connection lost'', t\<lparr>loutages := rest\<rparr>)
          else m (t\<lparr>loutages := rest\<rparr>))"

text \<open>Whether the next statement on the table fails.\<close>

definition next_statement_fails :: "'r ltable \<Rightarrow> bool" where
  "next_statement_fails t \<longleftrightarrow> (case loutages t of [] \<Rightarrow> False | down # _ \<Rightarrow> down)"

definition lrow :: "('r \<Rightarrow> int) \<Rightarrow> 'r ltable \<Rightarrow> int \<Rightarrow> 'r option" where
  "lrow key t k = find (\<lambda>r. key r = k) (lrows t)"

definition sel_all :: "('r \<Rightarrow> bool) \<Rightarrow> ('r ltable, string, 'r list) act" where
  "sel_all P = on_link (\<lambda>t. (Inr (filter P (lrows t)), t))"

definition sel_row :: "('r \<Rightarrow> int) \<Rightarrow> int \<Rightarrow> ('r ltable, string, 'r option) act" where
  "sel_row key k = on_link (\<lambda>t. (Inr (lrow key t k), t))"

definition ins_row :: "('r \<Rightarrow> int) \<Rightarrow> ('r \<Rightarrow> 'r) \<Rightarrow> 'r \<Rightarrow> ('r ltable, string, unit) act" where
  "ins_row key fresh x = on_link (\<lambda>t.
     if lrow key t (key x) = None then (Inr (), t\<lparr>lrows := lrows t @ [fresh x]\<rparr>)
     else (Inl ''Error 1062: Duplicate entry'', t))"

lemma ins_row_rows:
  "lrows (snd (ins_row key fresh x t)) =
     (if \<not> next_statement_fails t \<and> lrow key t (key x) = None then lrows t @ [fresh x] else lrows t)"
  by (auto simp: ins_row_def on_link_def next_statement_fails_def lrow_def split: list.splits)

definition upd_rows :: "('r \<Rightarrow> bool) \<Rightarrow> ('r \<Rightarrow> 'r) \<Rightarrow> ('r ltable, string, unit) act" where
  "upd_rows P f = on_link (\<lambda>t. (Inr (), t\<lparr>lrows := map (\<lambda>r. if P r then f r else r) (lrows t)\<rparr>))"

text \<open>\<open>DELETE FROM t WHERE ...\<close>\<close>

definition del_rows :: "('r \<Rightarrow> bool) \<Rightarrow> ('r ltable, string, unit) act" where
  "del_rows P = on_link (\<lambda>t. (Inr (), t\<lparr>lrows := filter (\<lambda>r. \<not> P r) (lrows t)\<rparr>))"

text \<open>\<open>INSERT ... ON DUPLICATE KEY UPDATE\<close>.\<close>

definition upsert_row :: "('r \<Rightarrow> int) \<Rightarrow> ('r \<Rightarrow> 'r) \<Rightarrow> ('r \<Rightarrow> 'r \<Rightarrow> 'r) \<Rightarrow> 'r \<Rightarrow> ('r ltable, string, unit) act" where
  "upsert_row key fresh kept x = on_link (\<lambda>t.
     (Inr (), if lrow key t (key x) = None then t\<lparr>lrows := lrows t @ [fresh x]\<rparr>
              else t\<lparr>lrows := map (\<lambda>r. if key r = key x then kept r x else r) (lrows t)\<rparr>))"

definition ltable_repo :: "('r \<Rightarrow> int) \<Rightarrow> ('r \<Rightarrow> 'r) \<Rightarrow> ('r \<Rightarrow> 'r \<Rightarrow> 'r) \<Rightarrow> ('r ltable, 'r) repo" where
  "ltable_repo key fresh kept =
     \<lparr>repo_get = sel_row key, repo_create = ins_row key fresh,
      repo_update = (\<lambda>x. upd_rows (\<lambda>r. key r = key x) (\<lambda>r. kept r x))\<rparr>"

lemmas lsql_defs = sel_all_def sel_row_def ins_row_def upd_rows_def upsert_row_def on_link_def

lemma find_map_key:
  assumes "\<And>r. key (f r) = key r"
  shows "find (\<lambda>r. key r = k) (map f rs) = map_option f (find (\<lambda>r. key r = k) rs)"
  by (induction rs) (simp_all add: assms)

lemma find_append: "find P (xs @ ys) = (case find P xs of None \<Rightarrow> find P ys | Some x \<Rightarrow> Some x)"
  by (induction xs) simp_all

lemma find_key: "find (\<lambda>r. key r = k) rs = Some r \<Longrightarrow> key r = k"
  by (auto simp: find_Some_iff)

text \<open>Updating the row of a key, seen by key.\<close>

lemma lrow_update:
  assumes "lrows t' = map (\<lambda>r. if key r = key x then kept r x else r) (lrows t)"
    and "\<And>old. key (kept old x) = key old"
  shows "lrow key t' =
    (case lrow key t (key x) of
       None \<Rightarrow> lrow key t | Some old \<Rightarrow> (lrow key t)(key x \<mapsto> kept old x))"
proof
  fix k
  have k: "find (\<lambda>r. key r = k) (lrows t') =
      map_option (\<lambda>r. if key r = key x then kept r x else r) (find (\<lambda>r. key r = k) (lrows t))"
    unfolding assms(1) by (rule find_map_key) (simp add: assms(2))
  show "lrow key t' k =
    (case lrow key t (key x) of
       None \<Rightarrow> lrow key t | Some old \<Rightarrow> (lrow key t)(key x \<mapsto> kept old x)) k"
    using k by (cases "find (\<lambda>r. key r = k) (lrows t)"; cases "k = key x")
      (auto simp: lrow_def dest: find_key split: option.split)
qed

lemma lrow_append:
  assumes "lrows t' = lrows t @ [y]" "lrow key t (key y) = None"
  shows "lrow key t' = (lrow key t)(key y \<mapsto> y)"
  using assms by (auto simp: lrow_def find_append fun_eq_iff split: option.split)

lemma lrow_insert:
  assumes "lrows t' = lrows t @ [fresh x]" "lrow key t (key x) = None" "key (fresh x) = key x"
  shows "lrow key t' = (lrow key t)(key x \<mapsto> fresh x)"
  using lrow_append [OF assms(1), of key] assms(2,3) by simp

lemma lrow_link [simp]: "lrow key (t\<lparr>loutages := os\<rparr>) = lrow key t"
  by (simp add: lrow_def fun_eq_iff)

locale listed_table =
  fixes key :: "'r \<Rightarrow> int" and fresh :: "'r \<Rightarrow> 'r" and kept :: "'r \<Rightarrow> 'r \<Rightarrow> 'r"
  assumes key_kept: "key (kept old x) = key old" and key_fresh: "key (fresh x) = key x"

sublocale listed_table \<subseteq> keyed_repository "ltable_repo key fresh kept" "lrow key" key kept fresh
  by unfold_locales
    (auto simp: ltable_repo_def lsql_defs key_kept key_fresh
      intro!: lrow_update lrow_insert split: list.splits if_splits)

context listed_table begin

lemma upsert_lrow:
  assumes "upsert_row key fresh kept x t = (Inr u, t')"
  shows "lrow key t' = (lrow key t)(key x \<mapsto>
           (case lrow key t (key x) of None \<Rightarrow> fresh x | Some old \<Rightarrow> kept old x))"
proof (cases "lrow key t (key x)")
  case None
  with assms have "lrows t' = lrows t @ [fresh x]"
    by (auto simp: lsql_defs split: list.splits if_splits)
  from lrow_insert [where fresh = fresh, OF this None key_fresh] None show ?thesis by simp
next
  case (Some old)
  with assms have "lrows t' = map (\<lambda>r. if key r = key x then kept r x else r) (lrows t)"
    by (auto simp: lsql_defs split: list.splits if_splits)
  from lrow_update [where kept = kept, OF this key_kept] Some show ?thesis by simp
qed

lemma upsert_err: "upsert_row key fresh kept x t = (Inl e, t') \<Longrightarrow> lrows t' = lrows t"
  by (auto simp: lsql_defs split: list.splits if_splits)

end

text \<open>A healthy connection.\<close>

lemma lsql_healthy [simp]:
  "loutages t = [] \<Longrightarrow> sel_all P t = (Inr (filter P (lrows t)), t)"
  "loutages t = [] \<Longrightarrow> sel_row key k t = (Inr (lrow key t k), t)"
  "loutages t = [] \<Longrightarrow> upd_rows P f t = (Inr (), t\<lparr>lrows := map (\<lambda>r. if P r then f r else r) (lrows t)\<rparr>)"
  "loutages t = [] \<Longrightarrow> upsert_row key fresh kept x t =
     (Inr (), if lrow key t (key x) = None then t\<lparr>lrows := lrows t @ [fresh x]\<rparr>
              else t\<lparr>lrows := map (\<lambda>r. if key r = key x then kept r x else r) (lrows t)\<rparr>)"
  "loutages t = [] \<Longrightarrow> lrow key t (key x) = None \<Longrightarrow>
     ins_row key fresh x t = (Inr (), t\<lparr>lrows := lrows t @ [fresh x]\<rparr>)"
  by (simp_all add: lsql_defs)

end
