(* ===== verification/Decimal.thy ===== *)
theory Decimal
  imports Prelude
begin

text \<open>
  Decimal printing and parsing as \<open>strconv.FormatInt(_, 10)\<close>, \<open>fmt.Sprintf("%d")\<close> and
  \<open>strconv.ParseInt(_, 10, 64)\<close> of Go's standard library do it, with the round trip the queue
  members and the redis keys of the program rely on. Strings are byte lists.
\<close>

definition digit_char :: "nat \<Rightarrow> char" where
  "digit_char d = char_of (48 + d)"

lemma digit_char_simps [simp]:
  "digit_char 0 = CHR ''0''" "digit_char 1 = CHR ''1''" "digit_char 2 = CHR ''2''"
  "digit_char 3 = CHR ''3''" "digit_char 4 = CHR ''4''" "digit_char 5 = CHR ''5''"
  "digit_char 6 = CHR ''6''" "digit_char 7 = CHR ''7''" "digit_char 8 = CHR ''8''"
  "digit_char 9 = CHR ''9''"
  by code_simp+

definition digit_of :: "char \<Rightarrow> nat option" where
  "digit_of c = (if 48 \<le> (of_char c :: nat) \<and> (of_char c :: nat) \<le> 57
                 then Some (of_char c - 48) else None)"

definition is_digit :: "char \<Rightarrow> bool" where
  "is_digit c \<longleftrightarrow> digit_of c \<noteq> None"

fun nat_str :: "nat \<Rightarrow> string" where
  "nat_str n = (if n < 10 then [digit_char n] else nat_str (n div 10) @ [digit_char (n mod 10)])"

declare nat_str.simps [simp del]

definition itoa :: "int \<Rightarrow> string" where
  "itoa i = (if i < 0 then CHR ''-'' # nat_str (nat (- i)) else nat_str (nat i))"

fun digits_val :: "nat \<Rightarrow> string \<Rightarrow> nat option" where
  "digits_val a [] = Some a"
| "digits_val a (c # cs) =
     (case digit_of c of None \<Rightarrow> None | Some d \<Rightarrow> digits_val (10 * a + d) cs)"

definition parse_nat :: "string \<Rightarrow> nat option" where
  "parse_nat s = (if s = [] then None else digits_val 0 s)"

text \<open>\<open>strconv.ParseInt(s, 10, 64)\<close>: an optional sign, digits, and the range of an int64.\<close>

definition parse_int64 :: "string \<Rightarrow> int option" where
  "parse_int64 s =
     (case s of
        [] \<Rightarrow> None
      | c # cs \<Rightarrow>
          if c = CHR ''-'' then
            (case parse_nat cs of
               None \<Rightarrow> None
             | Some n \<Rightarrow> if n \<le> 2 ^ 63 then Some (- int n) else None)
          else
            (case parse_nat (if c = CHR ''+'' then cs else s) of
               None \<Rightarrow> None
             | Some n \<Rightarrow> if n < 2 ^ 63 then Some (int n) else None))"

text \<open>
  \<open>n, _ := strconv.ParseInt(s, 10, 64)\<close>: the value that goes with a dropped error, 0 when there are
  no digits and the end of the range when the number is outside it. The scan stops at the digit that
  leaves the range of a uint64, so what follows it is not looked at.
\<close>

fun digits_clip :: "nat \<Rightarrow> string \<Rightarrow> nat option" where
  "digits_clip a [] = Some a"
| "digits_clip a (c # cs) =
     (case digit_of c of
        None \<Rightarrow> None
      | Some d \<Rightarrow> if 2 ^ 64 \<le> 10 * a + d then Some (2 ^ 64 - 1) else digits_clip (10 * a + d) cs)"

definition parse_value :: "string \<Rightarrow> int" where
  "parse_value s =
     (let ds = (if s \<noteq> [] \<and> (hd s = CHR ''-'' \<or> hd s = CHR ''+'') then tl s else s)
      in if ds = [] then 0
         else case digits_clip 0 ds of
             None \<Rightarrow> 0
           | Some n \<Rightarrow> if hd s = CHR ''-'' then max (- (2 ^ 63)) (- int n) else min (2 ^ 63 - 1) (int n))"

section \<open>Round trip\<close>

lemma digit_of_digit_char [simp]: "d < 10 \<Longrightarrow> digit_of (digit_char d) = Some d"
  by (simp add: digit_of_def digit_char_def)

lemma digits_val_append:
  "digits_val a (xs @ ys) = (case digits_val a xs of None \<Rightarrow> None | Some b \<Rightarrow> digits_val b ys)"
  by (induction xs arbitrary: a) (auto split: option.splits)

lemma digits_val_nat_str [simp]: "digits_val 0 (nat_str n) = Some n"
proof (induction n rule: nat_str.induct)
  case (1 n)
  show ?case
  proof (cases "n < 10")
    case True
    then show ?thesis by (subst nat_str.simps) simp
  next
    case False
    with "1.IH" show ?thesis
      by (subst nat_str.simps) (simp add: digits_val_append)
  qed
qed

lemma nat_str_nonempty [simp]: "nat_str n \<noteq> []"
  by (subst nat_str.simps) simp

lemma parse_nat_nat_str [simp]: "parse_nat (nat_str n) = Some n"
  by (simp add: parse_nat_def)

lemma nat_str_digits: "c \<in> set (nat_str n) \<Longrightarrow> is_digit c"
proof (induction n rule: nat_str.induct)
  case (1 n)
  show ?case
  proof (cases "n < 10")
    case True
    with "1.prems" show ?thesis
      by (subst (asm) nat_str.simps) (auto simp: is_digit_def)
  next
    case False
    with "1.prems" have "c \<in> set (nat_str (n div 10)) \<or> c = digit_char (n mod 10)"
      by (subst (asm) nat_str.simps) auto
    with "1.IH" False show ?thesis by (auto simp: is_digit_def)
  qed
qed

lemma sign_not_digit [simp]:
  "\<not> is_digit CHR ''-''" "\<not> is_digit CHR ''+''" "\<not> is_digit CHR '':''" "\<not> is_digit CHR '',''"
  by (simp_all add: is_digit_def digit_of_def)

lemma nat_str_hd_digit: "is_digit (hd (nat_str n))"
  by (rule nat_str_digits [of _ n]) simp

lemma parse_int64_nat_str:
  assumes "n < 2 ^ 63"
  shows "parse_int64 (nat_str n) = Some (int n)"
proof (cases "nat_str n")
  case Nil
  then show ?thesis by simp
next
  case (Cons c cs)
  with nat_str_hd_digit [of n] have "is_digit c" by simp
  then have "c \<noteq> CHR ''-''" "c \<noteq> CHR ''+''" by auto
  with Cons assms show ?thesis
    using parse_nat_nat_str [of n] by (simp add: parse_int64_def)
qed

definition int64 :: "int \<Rightarrow> bool" where
  "int64 i \<longleftrightarrow> - (2 ^ 63) \<le> i \<and> i < 2 ^ 63"

lemma parse_int64_itoa [simp]:
  assumes "int64 i"
  shows "parse_int64 (itoa i) = Some i"
proof (cases "i < 0")
  case True
  with assms have "nat (- i) \<le> 2 ^ 63" by (simp add: int64_def)
  with True show ?thesis by (simp add: itoa_def parse_int64_def)
next
  case False
  with assms have "nat i < 2 ^ 63" by (simp add: int64_def nat_less_iff)
  with False show ?thesis by (simp add: itoa_def parse_int64_nat_str)
qed

lemma parse_int64_range: "parse_int64 s = Some i \<Longrightarrow> int64 i"
  by (auto simp: parse_int64_def int64_def split: list.splits if_splits option.splits)

lemma itoa_inj: "itoa i = itoa j \<Longrightarrow> int64 i \<Longrightarrow> int64 j \<Longrightarrow> i = j"
  by (metis option.inject parse_int64_itoa)

lemma itoa_no_colon: "CHR '':'' \<notin> set (itoa i)"
  by (auto simp: itoa_def dest: nat_str_digits)

lemma digits_val_mono: "digits_val a s = Some v \<Longrightarrow> a \<le> v"
proof (induction s arbitrary: a)
  case (Cons c cs)
  then obtain d where d: "digit_of c = Some d" "digits_val (10 * a + d) cs = Some v" by (auto split: option.splits)
  from Cons.IH [OF d(2)] show ?case by simp
qed simp

lemma digits_clip_val: "digits_val a s = Some v \<Longrightarrow> v < 2 ^ 64 \<Longrightarrow> digits_clip a s = Some v"
proof (induction s arbitrary: a)
  case (Cons c cs)
  then obtain d where d: "digit_of c = Some d" "digits_val (10 * a + d) cs = Some v" by (auto split: option.splits)
  with digits_val_mono [OF d(2)] Cons show ?case by simp
qed simp

lemma parse_value_itoa:
  assumes "int64 n"
  shows "parse_value (itoa n) = n"
proof -
  have clip: "digits_clip 0 (nat_str k) = Some k" if "k < 2 ^ 64" for k
    using that by (intro digits_clip_val) simp_all
  have hd: "hd (nat_str k) \<noteq> CHR ''-''" "hd (nat_str k) \<noteq> CHR ''+''" for k
    using nat_str_hd_digit [of k] by auto
  show ?thesis
  proof (cases "n < 0")
    case True
    with assms have "nat (- n) < 2 ^ 64" "- (2 ^ 63) \<le> n" by (simp_all add: int64_def)
    with True clip [of "nat (- n)"] show ?thesis by (simp add: parse_value_def itoa_def)
  next
    case False
    with assms have "nat n < 2 ^ 64" "n < 2 ^ 63" by (simp_all add: int64_def)
    with False clip [of "nat n"] hd [of "nat n"] show ?thesis by (simp add: parse_value_def itoa_def)
  qed
qed

text \<open>Sums and products of Go ints wrap.\<close>

definition wrap64 :: "int \<Rightarrow> int" where
  "wrap64 n = sint (word_of_int n :: 64 word)"

lemma wrap64_id: "int64 n \<Longrightarrow> wrap64 n = n"
  by (simp add: wrap64_def int64_def sint_sbintrunc' signed_take_bit_int_eq_self)

end
