(* ===== verification/CallEntity.thy ===== *)
theory CallEntity
  imports Store Decimal
begin

text \<open>
  The call aggregate: \<open>internal/domain/call/entity.go\<close>, the media-type check and the duration
  computation of \<open>internal/domain/call/service.go\<close>, and the rows that the statements of
  \<open>internal/infrastructure/mysql/call_repo.go\<close> store.
\<close>

section \<open>Enumerations\<close>

text \<open>
  Direction, call type and media type arrive from callers as arbitrary strings and are compared
  with constants; the status, the hangup reason and the hanging-up party are only ever set to
  the declared constants.
\<close>

abbreviation DirectionInbound :: string where "DirectionInbound \<equiv> ''inbound''"
abbreviation DirectionOutbound :: string where "DirectionOutbound \<equiv> ''outbound''"

abbreviation CallTypeNormal :: string where "CallTypeNormal \<equiv> ''NORMAL''"
abbreviation CallTypeMonitor :: string where "CallTypeMonitor \<equiv> ''MONITOR''"
abbreviation CallTypeWhisper :: string where "CallTypeWhisper \<equiv> ''WHISPER''"
abbreviation CallTypeBarge :: string where "CallTypeBarge \<equiv> ''BARGE''"
abbreviation CallTypeCoach :: string where "CallTypeCoach \<equiv> ''COACH''"
abbreviation CallTypeIntercept :: string where "CallTypeIntercept \<equiv> ''INTERCEPT''"
abbreviation CallTypeInternal :: string where "CallTypeInternal \<equiv> ''INTERNAL''"

datatype CallStatus =
    CallStatusIVR | CallStatusQueue | CallStatusRinging | CallStatusActive | CallStatusHeld
  | CallStatusConsulting | CallStatusConference | CallStatusCompleted | CallStatusAbandoned
  | CallStatusFailed

datatype HangupBy = HangupByAgent | HangupByCustomer | HangupBySystem

datatype HangupReason =
    HangupNormal | HangupBusy | HangupNoAnswer | HangupReject | HangupAbandon
  | HangupQueueTimeout | HangupQueueOverflow | HangupBlacklist | HangupOffHours
  | HangupIVRHangup | HangupSystemError | HangupTransferFailed | HangupVoicemailCompleted | HangupOther string

fun hangup_reason_str :: "HangupReason \<Rightarrow> string" where
  "hangup_reason_str HangupNormal = ''NORMAL''"
| "hangup_reason_str HangupBusy = ''BUSY''"
| "hangup_reason_str HangupNoAnswer = ''NO_ANSWER''"
| "hangup_reason_str HangupReject = ''REJECT''"
| "hangup_reason_str HangupAbandon = ''ABANDON''"
| "hangup_reason_str HangupQueueTimeout = ''QUEUE_TIMEOUT''"
| "hangup_reason_str HangupQueueOverflow = ''QUEUE_OVERFLOW''"
| "hangup_reason_str HangupBlacklist = ''BLACKLIST''"
| "hangup_reason_str HangupOffHours = ''OFF_HOURS''"
| "hangup_reason_str HangupIVRHangup = ''IVR_HANGUP''"
| "hangup_reason_str HangupSystemError = ''SYSTEM_ERROR''"
| "hangup_reason_str HangupTransferFailed = ''TRANSFER_FAILED''"
| "hangup_reason_str HangupVoicemailCompleted = ''VOICEMAIL_COMPLETED''"
| "hangup_reason_str (HangupOther s) = s"

abbreviation MediaTypeAudio :: string where "MediaTypeAudio \<equiv> ''audio''"
abbreviation MediaTypeVideo :: string where "MediaTypeVideo \<equiv> ''video''"

definition ValidMediaType :: "string \<Rightarrow> bool" where
  "ValidMediaType mt \<longleftrightarrow> mt = MediaTypeAudio \<or> mt = MediaTypeVideo"

section \<open>Records\<close>

record call =
  c_ID :: int
  c_ChannelUUID :: string
  c_TenantID :: int
  c_Direction :: string
  c_CallType :: string
  c_MediaType :: string
  c_Caller :: string
  c_Callee :: string
  c_MaskedCallee :: "string option"
  c_AgentUserID :: "int option"
  c_SkillGroupID :: "int option"
  c_IVRFlowID :: "int option"
  c_PhoneNumberID :: "int option"
  c_CarrierID :: "int option"
  c_SIPTrunkID :: "int option"
  c_ParentCallID :: "int option"
  c_CampaignCaseID :: "int option"
  c_CustomerID :: "int option"
  c_Status :: CallStatus
  c_HangupReason :: "HangupReason option"
  c_HangupBy :: "HangupBy option"
  c_DispositionCode :: "string option"
  c_HoldCount :: int
  c_TransferCount :: int
  c_SatisfactionRating :: "int option"
  c_IVRDurationSec :: int
  c_RingDurationSec :: int
  c_QueueDurationSec :: int
  c_WaitDurationSec :: int
  c_DurationSec :: int
  c_RecordingURL :: "string option"
  c_CustomData :: string
  c_StartedAt :: gotime
  c_AnsweredAt :: "gotime option"
  c_EndedAt :: "gotime option"

text \<open>The fields a Go composite literal \<open>&Call{...}\<close> does not name are zero.\<close>

definition call_zero :: call where
  "call_zero = \<lparr>c_ID = 0, c_ChannelUUID = [], c_TenantID = 0, c_Direction = [], c_CallType = [],
     c_MediaType = [], c_Caller = [], c_Callee = [], c_MaskedCallee = None, c_AgentUserID = None,
     c_SkillGroupID = None, c_IVRFlowID = None, c_PhoneNumberID = None, c_CarrierID = None,
     c_SIPTrunkID = None, c_ParentCallID = None, c_CampaignCaseID = None, c_CustomerID = None,
     c_Status = CallStatusIVR, c_HangupReason = None, c_HangupBy = None, c_DispositionCode = None,
     c_HoldCount = 0, c_TransferCount = 0, c_SatisfactionRating = None, c_IVRDurationSec = 0,
     c_RingDurationSec = 0, c_QueueDurationSec = 0, c_WaitDurationSec = 0, c_DurationSec = 0,
     c_RecordingURL = None, c_CustomData = [], c_StartedAt = 0, c_AnsweredAt = None,
     c_EndedAt = None\<rparr>"

record call_event =
  e_ID :: int
  e_CallID :: int
  e_TenantID :: int
  e_Event :: string
  e_Detail :: string
  e_CreatedAt :: gotime

record ivr_tracking =
  t_ID :: int
  t_CallID :: int
  t_TenantID :: int
  t_IVRFlowID :: int
  t_NodeID :: string
  t_NodeType :: string
  t_NodeName :: string
  t_Variables :: string
  t_ExitName :: string
  t_StatusCode :: int
  t_EnteredAt :: gotime
  t_ExitedAt :: "gotime option"

record callback_request =
  cb_ID :: int
  cb_TenantID :: int
  cb_CallID :: int
  cb_SkillGroupID :: int
  cb_Caller :: string
  cb_Status :: string
  cb_MaxAttempts :: int
  cb_ScheduledAt :: "gotime option"
  cb_AttemptCount :: int
  cb_LastAttemptAt :: "gotime option"
  cb_CompletedAt :: "gotime option"
  cb_CreatedAt :: gotime

section \<open>The rows the SQL statements store\<close>

text \<open>
  \<open>CallRepo.Create\<close> names its columns: \<open>sip_trunk_id\<close> and \<open>hangup_by\<close> are not among them and
  are NULL in a fresh row. \<open>CallRepo.Update\<close> sets the columns listed; every other column,
  \<open>hangup_by\<close> included, keeps its value.
\<close>

definition CallRepo_insert_row :: "call \<Rightarrow> call" where
  "CallRepo_insert_row c = c\<lparr>c_SIPTrunkID := None, c_HangupBy := None\<rparr>"

definition CallRepo_update_row :: "call \<Rightarrow> call \<Rightarrow> call" where
  "CallRepo_update_row old c = old\<lparr>
     c_Status := c_Status c, c_HangupReason := c_HangupReason c,
     c_DispositionCode := c_DispositionCode c, c_AgentUserID := c_AgentUserID c,
     c_SkillGroupID := c_SkillGroupID c, c_CustomerID := c_CustomerID c,
     c_HoldCount := c_HoldCount c, c_TransferCount := c_TransferCount c,
     c_SatisfactionRating := c_SatisfactionRating c,
     c_IVRDurationSec := c_IVRDurationSec c, c_RingDurationSec := c_RingDurationSec c,
     c_QueueDurationSec := c_QueueDurationSec c, c_WaitDurationSec := c_WaitDurationSec c,
     c_DurationSec := c_DurationSec c, c_RecordingURL := c_RecordingURL c,
     c_CustomData := c_CustomData c, c_AnsweredAt := c_AnsweredAt c, c_EndedAt := c_EndedAt c\<rparr>"

definition CallRepo :: "(call table, call) repo" where
  "CallRepo = table_repo c_ID CallRepo_insert_row CallRepo_update_row"

lemma CallRepo_insert_row_simps [simp]:
  "c_ID (CallRepo_insert_row c) = c_ID c"
  "c_TenantID (CallRepo_insert_row c) = c_TenantID c"
  "c_Status (CallRepo_insert_row c) = c_Status c"
  "c_AgentUserID (CallRepo_insert_row c) = c_AgentUserID c"
  "c_HoldCount (CallRepo_insert_row c) = c_HoldCount c"
  "c_TransferCount (CallRepo_insert_row c) = c_TransferCount c"
  "c_HangupReason (CallRepo_insert_row c) = c_HangupReason c"
  "c_AnsweredAt (CallRepo_insert_row c) = c_AnsweredAt c"
  "c_EndedAt (CallRepo_insert_row c) = c_EndedAt c"
  "c_StartedAt (CallRepo_insert_row c) = c_StartedAt c"
  "c_ChannelUUID (CallRepo_insert_row c) = c_ChannelUUID c"
  "c_ParentCallID (CallRepo_insert_row c) = c_ParentCallID c"
  by (simp_all add: CallRepo_insert_row_def)

lemma CallRepo_update_row_simps [simp]:
  "c_ID (CallRepo_update_row old c) = c_ID old"
  "c_TenantID (CallRepo_update_row old c) = c_TenantID old"
  "c_Status (CallRepo_update_row old c) = c_Status c"
  "c_AgentUserID (CallRepo_update_row old c) = c_AgentUserID c"
  "c_SkillGroupID (CallRepo_update_row old c) = c_SkillGroupID c"
  "c_HoldCount (CallRepo_update_row old c) = c_HoldCount c"
  "c_TransferCount (CallRepo_update_row old c) = c_TransferCount c"
  "c_HangupReason (CallRepo_update_row old c) = c_HangupReason c"
  "c_HangupBy (CallRepo_update_row old c) = c_HangupBy old"
  "c_AnsweredAt (CallRepo_update_row old c) = c_AnsweredAt c"
  "c_EndedAt (CallRepo_update_row old c) = c_EndedAt c"
  "c_StartedAt (CallRepo_update_row old c) = c_StartedAt old"
  "c_ChannelUUID (CallRepo_update_row old c) = c_ChannelUUID old"
  "c_DurationSec (CallRepo_update_row old c) = c_DurationSec c"
  "c_WaitDurationSec (CallRepo_update_row old c) = c_WaitDurationSec c"
  by (simp_all add: CallRepo_update_row_def)

section \<open>Durations computed from the event journal\<close>

text \<open>
  \<open>CalculateDurations\<close>: one pass over the events of a call. The three local time stamps start
  as the zero time; a duration is only written once its start has been seen.
\<close>

record dur_scan =
  ds_ivrStart :: gotime
  ds_queueStart :: gotime
  ds_ringStart :: gotime
  ds_call :: call

definition calc_step :: "call_event \<Rightarrow> dur_scan \<Rightarrow> dur_scan" where
  "calc_step e d =
     (if e_Event e = ''call_created'' then d\<lparr>ds_ivrStart := e_CreatedAt e\<rparr>
      else if e_Event e = ''ivr_completed'' then
        (let d' = (if ds_ivrStart d \<noteq> 0
                   then d\<lparr>ds_call := (ds_call d)\<lparr>c_IVRDurationSec := dur_secs (time_sub (e_CreatedAt e) (ds_ivrStart d))\<rparr>\<rparr>
                   else d)
         in d'\<lparr>ds_queueStart := e_CreatedAt e\<rparr>)
      else if e_Event e = ''queue_entered'' then d\<lparr>ds_queueStart := e_CreatedAt e\<rparr>
      else if e_Event e = ''agent_ringing'' then
        (let d' = (if ds_queueStart d \<noteq> 0
                   then d\<lparr>ds_call := (ds_call d)\<lparr>c_QueueDurationSec := dur_secs (time_sub (e_CreatedAt e) (ds_queueStart d))\<rparr>\<rparr>
                   else d)
         in d'\<lparr>ds_ringStart := e_CreatedAt e\<rparr>)
      else if e_Event e = ''call_answered'' then
        (if ds_ringStart d \<noteq> 0
         then d\<lparr>ds_call := (ds_call d)\<lparr>c_RingDurationSec := dur_secs (time_sub (e_CreatedAt e) (ds_ringStart d))\<rparr>\<rparr>
         else d)
      else d)"

definition CalculateDurations :: "call \<Rightarrow> call_event list \<Rightarrow> call" where
  "CalculateDurations c evs =
     ds_call (fold calc_step evs \<lparr>ds_ivrStart = 0, ds_queueStart = 0, ds_ringStart = 0, ds_call = c\<rparr>)"

end
