(* ===== verification/CallService.thy ===== *)
theory CallService
  imports CallEntity
begin

text \<open>
  \<open>internal/domain/call/service.go\<close>: every operation of \<open>CallService\<close>. An operation takes the
  service value (its repository and whether a telephony provider is set), the readings of
  \<open>time.Now()\<close> and \<open>snowflake.NextID()\<close> it consumes, and its arguments.
\<close>

section \<open>Errors\<close>

text \<open>
  The sentinels of \<open>errors.go\<close> that the service returns; \<open>ErrStore\<close> and \<open>ErrMedia\<close> carry the
  error of a repository or of the telephony provider, the latter with the prefix \<open>fmt.Errorf\<close>
  wraps around it.
\<close>

datatype call_error =
    ErrCallNotFound | ErrCallAlreadyEnded | ErrMissingCallee | ErrMissingCaller
  | ErrCallNotActive | ErrCallNotHeld | ErrMissingTransferTarget | ErrMissingDTMF
  | ErrInvalidDTMFDigits | ErrCallbackNotFound | ErrCallNotConsulting
  | ErrMonitorTargetNotActive | ErrMissingMonitorTarget | ErrInvalidMediaType
  | ErrCallIDNotFound int
  | ErrStore string
  | ErrMedia string string

section \<open>The telephony provider\<close>

text \<open>
  \<open>TelephonyProvider\<close> is FreeSWITCH behind the event socket. The state keeps a transcript of
  the commands issued with the replies they got, and a script of replies: the next command is answered by the head of the script, and
  by success once the script is empty.
\<close>

datatype tp_cmd =
    TpOriginate string string string
  | TpHangup string
  | TpHold string
  | TpRetrieve string
  | TpTransfer string string
  | TpSendDTMF string string
  | TpEavesdrop string string
  | TpEavesdropWhisper string string
  | TpEavesdropBarge string string
  | TpIntercept string string
  | TpCoach string string
  | TpConference string string
  | TpWhisperAnnouncement string string

record media =
  transcript :: "(tp_cmd \<times> (string + string)) list"
  replies :: "(string + string) list"

definition media_exec :: "tp_cmd \<Rightarrow> (media, string, string) act" where
  "media_exec cmd m =
     (case replies m of
        [] \<Rightarrow> (Inr [], m\<lparr>transcript := transcript m @ [(cmd, Inr [])]\<rparr>)
      | r # rs \<Rightarrow> (r, m\<lparr>transcript := transcript m @ [(cmd, r)], replies := rs\<rparr>))"

section \<open>The service and its world\<close>

record 'd call_svc =
  svc_calls :: "('d, call) repo"
  svc_tp :: bool

record 'd call_world =
  cw_calls :: 'd
  cw_events :: "call_event journal"
  cw_tracking :: "ivr_tracking journal"
  cw_callbacks :: "callback_request table"
  cw_media :: media

definition on_calls :: "('d, 'e, 'a) act \<Rightarrow> ('d call_world, 'e, 'a) act" where
  "on_calls = zoom_a cw_calls (\<lambda>d w. w\<lparr>cw_calls := d\<rparr>)"

definition on_events :: "(call_event journal, 'e, 'a) act \<Rightarrow> ('d call_world, 'e, 'a) act" where
  "on_events = zoom_a cw_events (\<lambda>d w. w\<lparr>cw_events := d\<rparr>)"

definition on_tracking :: "(ivr_tracking journal, 'e, 'a) act \<Rightarrow> ('d call_world, 'e, 'a) act" where
  "on_tracking = zoom_a cw_tracking (\<lambda>d w. w\<lparr>cw_tracking := d\<rparr>)"

definition on_callbacks :: "(callback_request table, 'e, 'a) act \<Rightarrow> ('d call_world, 'e, 'a) act" where
  "on_callbacks = zoom_a cw_callbacks (\<lambda>d w. w\<lparr>cw_callbacks := d\<rparr>)"

definition on_media :: "(media, 'e, 'a) act \<Rightarrow> ('d call_world, 'e, 'a) act" where
  "on_media = zoom_a cw_media (\<lambda>d w. w\<lparr>cw_media := d\<rparr>)"

text \<open>\<open>c, err := s.calls.GetByID(ctx, id); if err != nil || c == nil { return nil, ErrCallNotFound }\<close>\<close>

definition load_call :: "'d call_svc \<Rightarrow> int \<Rightarrow> ('d call_world, call_error, call) act" where
  "load_call S k = try_a (on_calls (repo_get (svc_calls S) k))
     (\<lambda>r. case r of Inr (Some c) \<Rightarrow> ret_a c | _ \<Rightarrow> throw_a ErrCallNotFound)"

definition save_call :: "'d call_svc \<Rightarrow> call \<Rightarrow> ('d call_world, call_error, unit) act" where
  "save_call S c = wrap_a ErrStore (on_calls (repo_update (svc_calls S) c))"

definition insert_call :: "'d call_svc \<Rightarrow> call \<Rightarrow> ('d call_world, call_error, unit) act" where
  "insert_call S c = wrap_a ErrStore (on_calls (repo_create (svc_calls S) c))"

text \<open>\<open>_ = s.events.Create(ctx, &CallEvent{...})\<close>\<close>

definition emit :: "int \<Rightarrow> call \<Rightarrow> string \<Rightarrow> string \<Rightarrow> gotime \<Rightarrow> ('d call_world, call_error, unit) act" where
  "emit eid c ev detail now = ignore_a (on_events (journal_add
     \<lparr>e_ID = eid, e_CallID = c_ID c, e_TenantID = c_TenantID c, e_Event = ev, e_Detail = detail,
      e_CreatedAt = now\<rparr>))"

text \<open>\<open>if s.tp != nil { if err := s.tp.Cmd(...); err != nil { return fmt.Errorf(...) } }\<close>\<close>

definition tp_call :: "(string \<Rightarrow> call_error) \<Rightarrow> tp_cmd \<Rightarrow> ('d call_world, call_error, string) act" where
  "tp_call g cmd = wrap_a g (on_media (media_exec cmd))"

definition tp_drop :: "tp_cmd \<Rightarrow> ('d call_world, call_error, unit) act" where
  "tp_drop cmd = ignore_a (on_media (media_exec cmd))"

definition tp_if :: "bool \<Rightarrow> (string \<Rightarrow> call_error) \<Rightarrow> tp_cmd \<Rightarrow> ('d call_world, call_error, unit) act" where
  "tp_if b g cmd = when_a b (seq_a (tp_call g cmd) (ret_a ()))"

lemmas call_world_defs =
  on_calls_def on_events_def on_tracking_def on_callbacks_def on_media_def

lemma emit_run:
  "emit eid c ev detail now w = (Inr (), w\<lparr>cw_events := snd (journal_add
     \<lparr>e_ID = eid, e_CallID = c_ID c, e_TenantID = c_TenantID c, e_Event = ev, e_Detail = detail,
      e_CreatedAt = now\<rparr> (cw_events w))\<rparr>)"
  by (simp add: emit_def on_events_def act_simps split: prod.split)

section \<open>Creating calls\<close>

record create_call_input =
  in_TenantID :: int
  in_Direction :: string
  in_CallType :: string
  in_MediaType :: string
  in_Caller :: string
  in_Callee :: string
  in_ChannelUUID :: string
  in_AgentUserID :: "int option"
  in_IVRFlowID :: "int option"
  in_PhoneNumberID :: "int option"
  in_CarrierID :: "int option"
  in_SIPTrunkID :: "int option"
  in_CampaignCaseID :: "int option"

definition resolveMediaType :: "string \<Rightarrow> call_error + string" where
  "resolveMediaType mt =
     (if mt = [] then Inr MediaTypeAudio
      else if \<not> ValidMediaType mt then Inl ErrInvalidMediaType
      else Inr mt)"

definition lift_result :: "'e + 'a \<Rightarrow> ('s, 'e, 'a) act" where
  "lift_result r = (case r of Inl e \<Rightarrow> throw_a e | Inr a \<Rightarrow> ret_a a)"

definition CreateInboundCall ::
  "'d call_svc \<Rightarrow> gotime \<Rightarrow> int \<Rightarrow> int \<Rightarrow> create_call_input \<Rightarrow> ('d call_world, call_error, call) act" where
  "CreateInboundCall S now nid eid inp =
     (let dir = (if in_Direction inp = [] then DirectionInbound else in_Direction inp);
          ct = (if in_CallType inp = [] then CallTypeNormal else in_CallType inp)
      in bind_a (lift_result (resolveMediaType (in_MediaType inp))) (\<lambda>mt.
         let c = call_zero\<lparr>c_ID := nid, c_TenantID := in_TenantID inp, c_Direction := dir,
                   c_CallType := ct, c_MediaType := mt, c_Caller := in_Caller inp,
                   c_Callee := in_Callee inp, c_ChannelUUID := in_ChannelUUID inp,
                   c_IVRFlowID := in_IVRFlowID inp, c_PhoneNumberID := in_PhoneNumberID inp,
                   c_CarrierID := in_CarrierID inp, c_Status := CallStatusIVR,
                   c_StartedAt := now\<rparr>
         in seq_a (insert_call S c)
            (seq_a (emit eid c ''call_created'' (c_Direction c) now)
              (ret_a c))))"

definition CreateOutboundCall ::
  "'d call_svc \<Rightarrow> gotime \<Rightarrow> int \<Rightarrow> int \<Rightarrow> create_call_input \<Rightarrow> ('d call_world, call_error, call) act" where
  "CreateOutboundCall S now nid eid inp =
     (if in_Callee inp = [] then throw_a ErrMissingCallee
      else if in_Caller inp = [] then throw_a ErrMissingCaller
      else
        let ct = (if in_CallType inp = [] then CallTypeNormal else in_CallType inp)
        in bind_a (lift_result (resolveMediaType (in_MediaType inp))) (\<lambda>mt.
           let c = call_zero\<lparr>c_ID := nid, c_TenantID := in_TenantID inp,
                     c_Direction := DirectionOutbound, c_CallType := ct, c_MediaType := mt,
                     c_Caller := in_Caller inp, c_Callee := in_Callee inp,
                     c_AgentUserID := in_AgentUserID inp, c_PhoneNumberID := in_PhoneNumberID inp,
                     c_CarrierID := in_CarrierID inp, c_SIPTrunkID := in_SIPTrunkID inp,
                     c_CampaignCaseID := in_CampaignCaseID inp, c_Status := CallStatusRinging,
                     c_StartedAt := now\<rparr>
           in bind_a (if svc_tp S
                      then bind_a (tp_call ErrStore (TpOriginate (c_Callee c) (c_Caller c) ''default''))
                             (\<lambda>uuid. ret_a (c\<lparr>c_ChannelUUID := uuid\<rparr>))
                      else ret_a c) (\<lambda>c'.
              seq_a (insert_call S c')
              (seq_a (emit eid c' ''call_created'' (c_Direction c') now)
                (ret_a c')))))"

definition CreateInternalCall ::
  "'d call_svc \<Rightarrow> gotime \<Rightarrow> int \<Rightarrow> int \<Rightarrow> create_call_input \<Rightarrow> ('d call_world, call_error, call) act" where
  "CreateInternalCall S now nid eid inp =
     (if in_Callee inp = [] then throw_a ErrMissingCallee
      else if in_Caller inp = [] then throw_a ErrMissingCaller
      else bind_a (lift_result (resolveMediaType (in_MediaType inp))) (\<lambda>mt.
           let c = call_zero\<lparr>c_ID := nid, c_TenantID := in_TenantID inp,
                     c_Direction := DirectionOutbound, c_CallType := CallTypeInternal,
                     c_MediaType := mt, c_Caller := in_Caller inp, c_Callee := in_Callee inp,
                     c_AgentUserID := in_AgentUserID inp, c_Status := CallStatusRinging,
                     c_StartedAt := now\<rparr>
           in seq_a (insert_call S c)
              (seq_a (emit eid c ''call_created'' ''INTERNAL'' now)
                (ret_a c))))"

definition RecordIVRTracking :: "int \<Rightarrow> ivr_tracking \<Rightarrow> ('d call_world, call_error, unit) act" where
  "RecordIVRTracking nid t = wrap_a ErrStore (on_tracking (journal_add (t\<lparr>t_ID := nid\<rparr>)))"

section \<open>The life of a call\<close>

definition EndCall ::
  "'d call_svc \<Rightarrow> gotime \<Rightarrow> int \<Rightarrow> int \<Rightarrow> HangupReason \<Rightarrow> HangupBy option \<Rightarrow> ('d call_world, call_error, call) act" where
  "EndCall S now eid k reason hby =
     bind_a (load_call S k) (\<lambda>c.
     if c_Status c = CallStatusCompleted then throw_a ErrCallAlreadyEnded
     else
       let c1 = c\<lparr>c_Status := CallStatusCompleted, c_HangupReason := Some reason\<rparr>;
           c2 = (case hby of None \<Rightarrow> c1 | Some b \<Rightarrow> c1\<lparr>c_HangupBy := Some b\<rparr>);
           c3 = c2\<lparr>c_EndedAt := Some now, c_DurationSec := dur_secs (time_sub now (c_StartedAt c2))\<rparr>;
           c4 = c3\<lparr>c_WaitDurationSec :=
                    (case c_AnsweredAt c3 of
                       Some a \<Rightarrow> dur_secs (time_sub a (c_StartedAt c3))
                     | None \<Rightarrow> dur_secs (time_sub now (c_StartedAt c3)))\<rparr>
       in seq_a (save_call S c4)
          (seq_a (emit eid c4 ''call_ended'' (hangup_reason_str reason) now)
            (ret_a c4)))"

definition TransitionToQueue ::
  "'d call_svc \<Rightarrow> gotime \<Rightarrow> int \<Rightarrow> int \<Rightarrow> int \<Rightarrow> ('d call_world, call_error, call) act" where
  "TransitionToQueue S now eid k skillGroupID =
     bind_a (load_call S k) (\<lambda>c.
     if c_Status c \<noteq> CallStatusIVR then throw_a ErrCallNotActive
     else
       let c' = c\<lparr>c_Status := CallStatusQueue, c_SkillGroupID := Some skillGroupID\<rparr>
       in seq_a (save_call S c')
          (seq_a (emit eid c' ''queue_entered'' (''skill_group_'' @ itoa skillGroupID) now)
            (ret_a c')))"

definition TransitionToRinging ::
  "'d call_svc \<Rightarrow> gotime \<Rightarrow> int \<Rightarrow> int \<Rightarrow> int \<Rightarrow> ('d call_world, call_error, call) act" where
  "TransitionToRinging S now eid k agentUserID =
     bind_a (load_call S k) (\<lambda>c.
     if c_Status c \<noteq> CallStatusQueue \<and> c_Status c \<noteq> CallStatusIVR then throw_a ErrCallNotActive
     else
       let c' = c\<lparr>c_Status := CallStatusRinging, c_AgentUserID := Some agentUserID\<rparr>
       in seq_a (save_call S c')
          (seq_a (emit eid c' ''agent_ringing'' (''agent_'' @ itoa agentUserID) now)
            (ret_a c')))"

definition TransitionToActive ::
  "'d call_svc \<Rightarrow> gotime \<Rightarrow> int \<Rightarrow> int \<Rightarrow> ('d call_world, call_error, call) act" where
  "TransitionToActive S now eid k =
     bind_a (load_call S k) (\<lambda>c.
     if c_Status c \<noteq> CallStatusRinging \<and> c_Status c \<noteq> CallStatusQueue then throw_a ErrCallNotActive
     else
       let c1 = c\<lparr>c_Status := CallStatusActive\<rparr>;
           c2 = (if c_AnsweredAt c1 = None then c1\<lparr>c_AnsweredAt := Some now\<rparr> else c1);
           c' = c2\<lparr>c_RingDurationSec := dur_secs (time_sub now (c_StartedAt c2)) - c_QueueDurationSec c2
                                        - c_IVRDurationSec c2\<rparr>
       in seq_a (save_call S c')
          (seq_a (emit eid c' ''call_bridged'' ''media_path_established'' now)
            (ret_a c')))"

definition AnswerCall ::
  "'d call_svc \<Rightarrow> gotime \<Rightarrow> int \<Rightarrow> int \<Rightarrow> int \<Rightarrow> ('d call_world, call_error, call) act" where
  "AnswerCall S now eid k agentUserID =
     bind_a (load_call S k) (\<lambda>c.
     if c_Status c \<noteq> CallStatusRinging \<and> c_Status c \<noteq> CallStatusIVR \<and> c_Status c \<noteq> CallStatusQueue
     then throw_a ErrCallNotActive
     else
       let c' = c\<lparr>c_Status := CallStatusActive, c_AnsweredAt := Some now,
                  c_AgentUserID := Some agentUserID,
                  c_WaitDurationSec := dur_secs (time_sub now (c_StartedAt c))\<rparr>
       in seq_a (save_call S c')
          (seq_a (emit eid c' ''call_answered'' (''agent_'' @ itoa agentUserID) now)
            (ret_a c')))"

definition HoldCall ::
  "'d call_svc \<Rightarrow> gotime \<Rightarrow> int \<Rightarrow> int \<Rightarrow> ('d call_world, call_error, call) act" where
  "HoldCall S now eid k =
     bind_a (load_call S k) (\<lambda>c.
     if c_Status c \<noteq> CallStatusActive then throw_a ErrCallNotActive
     else
       let c' = c\<lparr>c_Status := CallStatusHeld, c_HoldCount := c_HoldCount c + 1\<rparr>
       in seq_a (tp_if (svc_tp S) (ErrMedia ''hold failed'') (TpHold (c_ChannelUUID c')))
          (seq_a (save_call S c')
          (seq_a (emit eid c' ''call_held'' [] now)
            (ret_a c'))))"

definition RetrieveCall ::
  "'d call_svc \<Rightarrow> gotime \<Rightarrow> int \<Rightarrow> int \<Rightarrow> ('d call_world, call_error, call) act" where
  "RetrieveCall S now eid k =
     bind_a (load_call S k) (\<lambda>c.
     if c_Status c \<noteq> CallStatusHeld then throw_a ErrCallNotHeld
     else
       let c' = c\<lparr>c_Status := CallStatusActive\<rparr>
       in seq_a (tp_if (svc_tp S) (ErrMedia ''retrieve failed'') (TpRetrieve (c_ChannelUUID c')))
          (seq_a (save_call S c')
          (seq_a (emit eid c' ''call_retrieved'' [] now)
            (ret_a c'))))"

section \<open>Transfers, DTMF, callbacks\<close>

record transfer_target =
  tt_Type :: string
  tt_SkillGroupID :: "int option"
  tt_AgentUserID :: "int option"
  tt_ExternalNum :: string

definition target_detail :: "string \<Rightarrow> transfer_target \<Rightarrow> string" where
  "target_detail prefix t =
     prefix @ tt_Type t @ (if tt_ExternalNum t \<noteq> [] then '':'' @ tt_ExternalNum t else [])"

definition BlindTransfer ::
  "'d call_svc \<Rightarrow> gotime \<Rightarrow> int \<Rightarrow> int \<Rightarrow> transfer_target \<Rightarrow> ('d call_world, call_error, call) act" where
  "BlindTransfer S now eid k target =
     bind_a (load_call S k) (\<lambda>c.
     if c_Status c = CallStatusCompleted \<or> c_Status c = CallStatusFailed then throw_a ErrCallAlreadyEnded
     else if tt_Type target = [] then throw_a ErrMissingTransferTarget
     else
       let c' = c\<lparr>c_TransferCount := c_TransferCount c + 1\<rparr>;
           detail = target_detail [] target
       in seq_a (tp_if (svc_tp S) (ErrMedia ''blind transfer failed'')
                   (TpTransfer (c_ChannelUUID c') detail))
          (seq_a (save_call S c')
          (seq_a (emit eid c' ''blind_transfer'' detail now)
            (ret_a c'))))"

text \<open>\<open>(ch >= '0' && ch <= '9') || ch == '*' || ch == '#' || (ch >= 'A' && ch <= 'D')\<close>, on code points.\<close>

definition dtmf_char :: "char \<Rightarrow> bool" where
  "dtmf_char ch \<longleftrightarrow>
     (48 \<le> (of_char ch :: nat) \<and> (of_char ch :: nat) \<le> 57) \<or> ch = CHR ''*'' \<or> ch = CHR ''#'' \<or>
     (65 \<le> (of_char ch :: nat) \<and> (of_char ch :: nat) \<le> 68)"

definition SendDTMF ::
  "'d call_svc \<Rightarrow> gotime \<Rightarrow> int \<Rightarrow> int \<Rightarrow> string \<Rightarrow> ('d call_world, call_error, unit) act" where
  "SendDTMF S now eid k digits =
     (if digits = [] then throw_a ErrMissingDTMF
      else if \<not> list_all dtmf_char digits then throw_a ErrInvalidDTMFDigits
      else bind_a (load_call S k) (\<lambda>c.
        if c_Status c = CallStatusCompleted \<or> c_Status c = CallStatusFailed then throw_a ErrCallAlreadyEnded
        else seq_a (tp_if (svc_tp S) (ErrMedia ''send DTMF failed'') (TpSendDTMF (c_ChannelUUID c) digits))
             (seq_a (emit eid c ''dtmf_sent'' digits now)
               (ret_a ()))))"

text \<open>
  \<open>callback_requests\<close>: the INSERT leaves out \<open>max_attempts\<close> (the column default 0 stands for it),
  the UPDATE sets the four attempt columns. \<open>GetByID\<close> reports a missing row as an error, which
  the service treats like a nil row.
\<close>

definition CallbackRepo_insert_row :: "callback_request \<Rightarrow> callback_request" where
  "CallbackRepo_insert_row cb = cb\<lparr>cb_MaxAttempts := 0\<rparr>"

definition CallbackRepo_update_row :: "callback_request \<Rightarrow> callback_request \<Rightarrow> callback_request" where
  "CallbackRepo_update_row old cb = old\<lparr>cb_Status := cb_Status cb, cb_AttemptCount := cb_AttemptCount cb,
     cb_LastAttemptAt := cb_LastAttemptAt cb, cb_CompletedAt := cb_CompletedAt cb\<rparr>"

definition RequestCallback ::
  "gotime \<Rightarrow> int \<Rightarrow> callback_request \<Rightarrow> ('d call_world, call_error, unit) act" where
  "RequestCallback now nid cb = wrap_a ErrStore (on_callbacks
     (sql_insert cb_ID CallbackRepo_insert_row
        (cb\<lparr>cb_ID := nid, cb_Status := ''pending'', cb_CreatedAt := now\<rparr>)))"

definition ExecuteCallback ::
  "gotime \<Rightarrow> int \<Rightarrow> bool \<Rightarrow> ('d call_world, call_error, callback_request) act" where
  "ExecuteCallback now k success =
     try_a (on_callbacks (sql_get k)) (\<lambda>r.
     case r of
       Inr (Some cb) \<Rightarrow>
         (let cb1 = cb\<lparr>cb_AttemptCount := cb_AttemptCount cb + 1, cb_LastAttemptAt := Some now\<rparr>;
              cb2 = (if success then cb1\<lparr>cb_Status := ''completed'', cb_CompletedAt := Some now\<rparr>
                     else cb1\<lparr>cb_Status := ''failed''\<rparr>)
          in seq_a (wrap_a ErrStore (on_callbacks (sql_update cb_ID CallbackRepo_update_row cb2)))
               (ret_a cb2))
     | _ \<Rightarrow> throw_a ErrCallbackNotFound)"

definition AttendedTransfer ::
  "'d call_svc \<Rightarrow> gotime \<Rightarrow> int \<Rightarrow> int \<Rightarrow> transfer_target \<Rightarrow> ('d call_world, call_error, call) act" where
  "AttendedTransfer S now eid k target =
     bind_a (load_call S k) (\<lambda>c.
     if c_Status c \<noteq> CallStatusActive \<and> c_Status c \<noteq> CallStatusHeld then throw_a ErrCallNotActive
     else if tt_Type target = [] then throw_a ErrMissingTransferTarget
     else
       let c' = c\<lparr>c_TransferCount := c_TransferCount c + 1\<rparr>;
           detail = target_detail ''attended:'' target
       in seq_a (tp_if (svc_tp S) (ErrMedia ''attended transfer failed'')
                   (TpTransfer (c_ChannelUUID c') detail))
          (seq_a (save_call S c')
          (seq_a (emit eid c' ''attended_transfer'' detail now)
            (ret_a c'))))"

section \<open>Consultation, conference\<close>

definition InitiateConsult ::
  "'d call_svc \<Rightarrow> gotime \<Rightarrow> int \<Rightarrow> int \<Rightarrow> transfer_target \<Rightarrow> ('d call_world, call_error, call) act" where
  "InitiateConsult S now eid k target =
     bind_a (load_call S k) (\<lambda>c.
     if c_Status c \<noteq> CallStatusActive then throw_a ErrCallNotActive
     else if tt_Type target = [] then throw_a ErrMissingTransferTarget
     else
       seq_a (tp_if (svc_tp S \<and> c_ChannelUUID c \<noteq> []) (ErrMedia ''consult hold failed'')
                (TpHold (c_ChannelUUID c)))
       (let c' = c\<lparr>c_Status := CallStatusConsulting\<rparr>
        in seq_a (save_call S c')
           (seq_a (emit eid c' ''consult_initiated'' (tt_Type target) now)
             (ret_a c'))))"

definition CompleteConsultTransfer ::
  "'d call_svc \<Rightarrow> gotime \<Rightarrow> int \<Rightarrow> int \<Rightarrow> ('d call_world, call_error, call) act" where
  "CompleteConsultTransfer S now eid k =
     bind_a (load_call S k) (\<lambda>c.
     if c_Status c \<noteq> CallStatusConsulting then throw_a ErrCallNotConsulting
     else
       let c' = c\<lparr>c_TransferCount := c_TransferCount c + 1, c_Status := CallStatusActive\<rparr>
       in seq_a (save_call S c')
          (seq_a (emit eid c' ''consult_transfer_completed'' [] now)
            (ret_a c')))"

definition CancelConsult ::
  "'d call_svc \<Rightarrow> gotime \<Rightarrow> int \<Rightarrow> int \<Rightarrow> ('d call_world, call_error, call) act" where
  "CancelConsult S now eid k =
     bind_a (load_call S k) (\<lambda>c.
     if c_Status c \<noteq> CallStatusConsulting then throw_a ErrCallNotConsulting
     else
       seq_a (when_a (svc_tp S \<and> c_ChannelUUID c \<noteq> []) (tp_drop (TpRetrieve (c_ChannelUUID c))))
       (let c' = c\<lparr>c_Status := CallStatusActive\<rparr>
        in seq_a (save_call S c')
           (seq_a (emit eid c' ''consult_cancelled'' [] now)
             (ret_a c'))))"

definition StartConference ::
  "'d call_svc \<Rightarrow> gotime \<Rightarrow> int \<Rightarrow> int \<Rightarrow> ('d call_world, call_error, call) act" where
  "StartConference S now eid k =
     bind_a (load_call S k) (\<lambda>c.
     if c_Status c \<noteq> CallStatusActive \<and> c_Status c \<noteq> CallStatusConsulting then throw_a ErrCallNotActive
     else
       let confName = ''conf_'' @ itoa (c_ID c)
       in seq_a (tp_if (svc_tp S \<and> c_ChannelUUID c \<noteq> []) (ErrMedia ''conference failed'')
                   (TpConference (c_ChannelUUID c) confName))
          (let c' = c\<lparr>c_Status := CallStatusConference\<rparr>
           in seq_a (save_call S c')
              (seq_a (emit eid c' ''conference_started'' confName now)
                (ret_a c'))))"

section \<open>Supervision\<close>

definition monitor_call_type :: "string \<Rightarrow> string option" where
  "monitor_call_type mode =
     (if mode = ''listen'' then Some CallTypeMonitor
      else if mode = ''whisper'' then Some CallTypeWhisper
      else if mode = ''barge'' then Some CallTypeBarge
      else if mode = ''intercept'' then Some CallTypeIntercept
      else None)"

definition monitor_cmd :: "string \<Rightarrow> string \<Rightarrow> string \<Rightarrow> tp_cmd option" where
  "monitor_cmd mode spy target =
     (if mode = ''listen'' then Some (TpEavesdrop spy target)
      else if mode = ''whisper'' then Some (TpEavesdropWhisper spy target)
      else if mode = ''barge'' then Some (TpEavesdropBarge spy target)
      else if mode = ''intercept'' then Some (TpIntercept spy target)
      else None)"

text \<open>
  A supervising leg: originate it, apply the mode, and hang it up again when the mode fails;
  after that, create the call record, and hang the leg up when that fails.
\<close>

definition apply_mode ::
  "string \<Rightarrow> tp_cmd \<Rightarrow> string \<Rightarrow> ('d call_world, call_error, unit) act" where
  "apply_mode spy cmd errPrefix =
     try_a (on_media (media_exec cmd)) (\<lambda>r. case r of
       Inl e \<Rightarrow> seq_a (tp_drop (TpHangup spy)) (throw_a (ErrMedia errPrefix e))
     | Inr _ \<Rightarrow> ret_a ())"

definition insert_or_hangup ::
  "'d call_svc \<Rightarrow> call \<Rightarrow> ('d call_world, call_error, unit) act" where
  "insert_or_hangup S c =
     try_a (insert_call S c) (\<lambda>r. case r of
       Inl e \<Rightarrow> seq_a (when_a (svc_tp S \<and> c_ChannelUUID c \<noteq> []) (tp_drop (TpHangup (c_ChannelUUID c))))
                  (throw_a e)
     | Inr _ \<Rightarrow> ret_a ())"

definition MonitorCall ::
  "'d call_svc \<Rightarrow> gotime \<Rightarrow> int \<Rightarrow> int \<Rightarrow> int \<Rightarrow> int \<Rightarrow> int \<Rightarrow> string \<Rightarrow> ('d call_world, call_error, call) act" where
  "MonitorCall S now nid eid tenantID targetCallID supervisorID mode =
     bind_a (load_call S targetCallID) (\<lambda>target.
     if c_Status target \<noteq> CallStatusActive \<and> c_Status target \<noteq> CallStatusConference
     then throw_a ErrMonitorTargetNotActive
     else case monitor_call_type mode of
       None \<Rightarrow> throw_a ErrMissingMonitorTarget
     | Some ct \<Rightarrow>
       let monitor = call_zero\<lparr>c_ID := nid, c_TenantID := tenantID,
                       c_Direction := DirectionOutbound, c_CallType := ct,
                       c_MediaType := MediaTypeAudio, c_AgentUserID := Some supervisorID,
                       c_ParentCallID := Some targetCallID, c_Status := CallStatusActive,
                       c_StartedAt := now\<rparr>
       in bind_a
            (if svc_tp S \<and> c_ChannelUUID target \<noteq> [] then
               bind_a (tp_call (ErrMedia ''monitor originate failed'')
                         (TpOriginate (''user/'' @ itoa supervisorID) ''monitor'' ''default''))
               (\<lambda>spy. seq_a (case monitor_cmd mode spy (c_ChannelUUID target) of
                               None \<Rightarrow> ret_a ()
                             | Some cmd \<Rightarrow> apply_mode spy cmd (''monitor '' @ mode @ '' failed''))
                        (ret_a (monitor\<lparr>c_ChannelUUID := spy\<rparr>)))
             else ret_a monitor)
          (\<lambda>m. seq_a (insert_or_hangup S m)
                (seq_a (emit eid m ''monitor_started'' mode now)
                  (ret_a m))))"

definition CoachCall ::
  "'d call_svc \<Rightarrow> gotime \<Rightarrow> int \<Rightarrow> int \<Rightarrow> int \<Rightarrow> int \<Rightarrow> int \<Rightarrow> int \<Rightarrow> ('d call_world, call_error, call) act" where
  "CoachCall S now nid eid tenantID targetCallID coachID timeoutSec =
     bind_a (load_call S targetCallID) (\<lambda>target.
     if c_Status target \<noteq> CallStatusActive then throw_a ErrMonitorTargetNotActive
     else
       let timeout = (if timeoutSec \<le> 0 then 30 else timeoutSec);
           coach = call_zero\<lparr>c_ID := nid, c_TenantID := tenantID,
                     c_Direction := DirectionOutbound, c_CallType := CallTypeCoach,
                     c_MediaType := MediaTypeAudio, c_AgentUserID := Some coachID,
                     c_ParentCallID := Some targetCallID, c_Status := CallStatusActive,
                     c_StartedAt := now\<rparr>
       in bind_a
            (if svc_tp S \<and> c_ChannelUUID target \<noteq> [] then
               bind_a (tp_call (ErrMedia ''coach originate failed'')
                         (TpOriginate (''user/'' @ itoa coachID) ''coach'' ''default''))
               (\<lambda>leg. seq_a (apply_mode leg (TpCoach leg (c_ChannelUUID target)) ''coach failed'')
                        (ret_a (coach\<lparr>c_ChannelUUID := leg\<rparr>)))
             else ret_a coach)
          (\<lambda>m. seq_a (insert_or_hangup S m)
                (seq_a (emit eid m ''coach_started'' (''timeout='' @ itoa timeout @ ''s'') now)
                  (ret_a m))))"

definition WhisperPreConnect ::
  "'d call_svc \<Rightarrow> gotime \<Rightarrow> int \<Rightarrow> int \<Rightarrow> string \<Rightarrow> ('d call_world, call_error, unit) act" where
  "WhisperPreConnect S now eid k message =
     bind_a (load_call S k) (\<lambda>c.
     seq_a (tp_if (svc_tp S \<and> c_ChannelUUID c \<noteq> []) (ErrMedia ''whisper announcement failed'')
              (TpWhisperAnnouncement (c_ChannelUUID c) message))
     (seq_a (emit eid c ''whisper_pre_connect'' message now)
       (ret_a ())))"

section \<open>Annotations of a call\<close>

definition SetDisposition ::
  "'d call_svc \<Rightarrow> gotime \<Rightarrow> int \<Rightarrow> int \<Rightarrow> string \<Rightarrow> ('d call_world, call_error, call) act" where
  "SetDisposition S now eid k code =
     bind_a (load_call S k) (\<lambda>c.
     let c' = c\<lparr>c_DispositionCode := Some code\<rparr>
     in seq_a (save_call S c')
        (seq_a (emit eid c' ''disposition_set'' code now)
          (ret_a c')))"

definition UpdateDurations :: "'d call_svc \<Rightarrow> call \<Rightarrow> ('d call_world, call_error, unit) act" where
  "UpdateDurations S c = save_call S c"

definition UpdateCustomerID ::
  "'d call_svc \<Rightarrow> int \<Rightarrow> int \<Rightarrow> ('d call_world, call_error, unit) act" where
  "UpdateCustomerID S callID customerID =
     try_a (on_calls (repo_get (svc_calls S) callID)) (\<lambda>r. case r of
       Inr (Some c) \<Rightarrow> save_call S (c\<lparr>c_CustomerID := Some customerID\<rparr>)
     | _ \<Rightarrow> throw_a (ErrCallIDNotFound callID))"

text \<open>\<open>ListEvents\<close>, \<open>GetEvents\<close>: the events of a call, oldest first.\<close>

definition ListEvents :: "int \<Rightarrow> 'd call_world \<Rightarrow> call_event list" where
  "ListEvents callID w = sort_key e_CreatedAt (filter (\<lambda>e. e_CallID e = callID) (entries (cw_events w)))"

end
