(* ===== verification/CallRules.thy ===== *)
theory CallRules
  imports CallService
begin

text \<open>
  The contract of a call repository, the abstract state machine of a call, and the rules that
  relate them: what one operation of \<open>CallService\<close> can do to the table of calls, proved once
  from the contract and interpreted on the MySQL repository.
\<close>

section \<open>The abstract state machine\<close>

text \<open>
  The status of a call as the guards of the operations allow it to change. There is no step out
  of \<open>CallStatusCompleted\<close>, and none into \<open>CallStatusAbandoned\<close> or \<open>CallStatusFailed\<close>.
\<close>

inductive call_step :: "CallStatus \<Rightarrow> CallStatus \<Rightarrow> bool" where
  queued: "call_step CallStatusIVR CallStatusQueue"
| ringing: "s \<in> {CallStatusIVR, CallStatusQueue} \<Longrightarrow> call_step s CallStatusRinging"
| answered: "s \<in> {CallStatusIVR, CallStatusQueue, CallStatusRinging} \<Longrightarrow> call_step s CallStatusActive"
| held: "call_step CallStatusActive CallStatusHeld"
| retrieved: "call_step CallStatusHeld CallStatusActive"
| consulting: "call_step CallStatusActive CallStatusConsulting"
| consulted: "call_step CallStatusConsulting CallStatusActive"
| conference: "s \<in> {CallStatusActive, CallStatusConsulting} \<Longrightarrow> call_step s CallStatusConference"
| ended: "s \<noteq> CallStatusCompleted \<Longrightarrow> call_step s CallStatusCompleted"

code_pred call_step .

inductive_cases call_step_from_completedE: "call_step CallStatusCompleted s"
inductive_cases call_step_to_ivrE: "call_step s CallStatusIVR"

inductive_simps call_step_from_completed [simp]: "call_step CallStatusCompleted s"
inductive_simps call_step_to_ivr [simp]: "call_step s CallStatusIVR"
inductive_simps call_step_to_completed: "call_step s CallStatusCompleted"
inductive_simps call_step_to_held: "call_step s CallStatusHeld"

lemmas call_step_rules = call_step.intros

section \<open>What holds of every stored call\<close>

text \<open>
  A call is completed exactly when its end time and its hangup reason are set; a held call has
  been held at least once; a call in the IVR has no skill group and a queued call has one; a
  conversation is answered or is the leg of a supervisor; the statuses nobody sets do not occur.
\<close>

definition call_inv :: "call \<Rightarrow> bool" where
  "call_inv c \<longleftrightarrow>
     (c_Status c = CallStatusCompleted \<longleftrightarrow> c_EndedAt c \<noteq> None) \<and>
     (c_Status c = CallStatusCompleted \<longleftrightarrow> c_HangupReason c \<noteq> None) \<and>
     0 \<le> c_HoldCount c \<and> 0 \<le> c_TransferCount c \<and>
     (c_Status c = CallStatusHeld \<longrightarrow> 0 < c_HoldCount c) \<and>
     (c_Status c = CallStatusIVR \<longrightarrow> c_SkillGroupID c = None) \<and>
     (c_Status c = CallStatusQueue \<longrightarrow> c_SkillGroupID c \<noteq> None) \<and>
     (c_Status c \<in> {CallStatusActive, CallStatusHeld, CallStatusConsulting, CallStatusConference} \<longrightarrow>
        c_AnsweredAt c \<noteq> None \<or> c_ParentCallID c \<noteq> None) \<and>
     c_Status c \<notin> {CallStatusAbandoned, CallStatusFailed}"

text \<open>What a single operation may do to a stored call.\<close>

definition call_legal :: "call \<Rightarrow> call \<Rightarrow> bool" where
  "call_legal c d \<longleftrightarrow>
     (c_Status d = c_Status c \<or> call_step (c_Status c) (c_Status d)) \<and>
     c_TenantID d = c_TenantID c \<and> c_StartedAt d = c_StartedAt c \<and>
     c_ParentCallID d = c_ParentCallID c \<and>
     c_HoldCount c \<le> c_HoldCount d \<and> c_TransferCount c \<le> c_TransferCount d \<and>
     (c_AnsweredAt c \<noteq> None \<longrightarrow> c_Status c \<in> {CallStatusIVR, CallStatusQueue, CallStatusRinging} \<or>
        c_AnsweredAt d = c_AnsweredAt c) \<and>
     (c_Status c = CallStatusCompleted \<longrightarrow>
        c_EndedAt d = c_EndedAt c \<and> c_HangupReason d = c_HangupReason c \<and>
        c_HoldCount d = c_HoldCount c \<and> c_TransferCount d = c_TransferCount c)"

definition call_born :: "call \<Rightarrow> bool" where
  "call_born c \<longleftrightarrow> c_Status c \<in> {CallStatusIVR, CallStatusRinging} \<or>
     (c_Status c = CallStatusActive \<and> c_ParentCallID c \<noteq> None)"

definition call_table_ok :: "(int \<rightharpoonup> call) \<Rightarrow> bool" where
  "call_table_ok T \<longleftrightarrow> (\<forall>k c. T k = Some c \<longrightarrow> c_ID c = k \<and> call_inv c)"

definition call_evolves :: "(int \<rightharpoonup> call) \<Rightarrow> (int \<rightharpoonup> call) \<Rightarrow> bool" where
  "call_evolves T T' \<longleftrightarrow> (call_table_ok T \<longrightarrow> call_table_ok T' \<and>
     (\<forall>k. (\<forall>c. T k = Some c \<longrightarrow> (\<exists>d. T' k = Some d \<and> call_legal c d)) \<and>
          (\<forall>d. T k = None \<longrightarrow> T' k = Some d \<longrightarrow> call_born d)))"

lemma call_legal_refl [simp]: "call_legal c c"
  by (simp add: call_legal_def)

lemma call_evolves_refl [simp]: "call_evolves T T"
  by (auto simp: call_evolves_def)

lemma call_evolvesD:
  assumes "call_evolves T T'" "call_table_ok T"
  shows "call_table_ok T'" and "T k = Some c \<Longrightarrow> \<exists>d. T' k = Some d \<and> call_legal c d"
    and "T k = None \<Longrightarrow> T' k = Some d \<Longrightarrow> call_born d"
  using assms by (auto simp: call_evolves_def)

lemma reflp_call_evolves [simp]: "reflp call_evolves"
  by (simp add: reflp_def)

lemma call_evolves_update:
  assumes "T k = Some c" "call_table_ok T \<Longrightarrow> c_ID d = c_ID c"
    and "call_table_ok T \<Longrightarrow> call_inv c \<Longrightarrow> call_inv d"
    and "call_inv c \<Longrightarrow> call_legal c d"
  shows "call_evolves T (T(k \<mapsto> d))"
  using assms by (auto simp: call_evolves_def call_table_ok_def)

lemma call_evolves_insert:
  assumes "T (c_ID d) = None" "call_inv d" "call_born d"
  shows "call_evolves T (T(c_ID d \<mapsto> d))"
  using assms by (auto simp: call_evolves_def call_table_ok_def)

section \<open>The contract of a call repository\<close>

locale call_repository = keyed_repository R row c_ID kept fresh
  for R :: "('d, call) repo" and row kept fresh +
  fixes S :: "'d call_svc"
  assumes service: "svc_calls S = R"
    and kept_columns:
      "c_Status (kept old new) = c_Status new \<and> c_HangupReason (kept old new) = c_HangupReason new \<and>
       c_EndedAt (kept old new) = c_EndedAt new \<and> c_AnsweredAt (kept old new) = c_AnsweredAt new \<and>
       c_HoldCount (kept old new) = c_HoldCount new \<and>
       c_TransferCount (kept old new) = c_TransferCount new \<and>
       c_SkillGroupID (kept old new) = c_SkillGroupID new"
    and kept_frame:
      "c_TenantID (kept old new) = c_TenantID old \<and> c_StartedAt (kept old new) = c_StartedAt old \<and>
       c_ParentCallID (kept old new) = c_ParentCallID old"
    and fresh_columns:
      "c_Status (fresh new) = c_Status new \<and> c_HangupReason (fresh new) = c_HangupReason new \<and>
       c_EndedAt (fresh new) = c_EndedAt new \<and> c_AnsweredAt (fresh new) = c_AnsweredAt new \<and>
       c_HoldCount (fresh new) = c_HoldCount new \<and>
       c_TransferCount (fresh new) = c_TransferCount new \<and>
       c_SkillGroupID (fresh new) = c_SkillGroupID new \<and>
       c_ParentCallID (fresh new) = c_ParentCallID new"
begin

text \<open>Reading and emitting leave the table alone.\<close>

lemma preserves_load [frame_intros]: "preserves (\<lambda>w. row (cw_calls w)) (load_call S k)"
  unfolding load_call_def on_calls_def service
  by (intro preserves_try preserves_zoom [where g = row] preserves_get)
    (auto intro: frame_intros split: sum.split option.split)

lemma preserves_media [frame_intros]: "preserves (\<lambda>w. row (cw_calls w)) (on_media m)"
  and preserves_events [frame_intros]: "preserves (\<lambda>w. row (cw_calls w)) (on_events m')"
  and preserves_callbacks [frame_intros]: "preserves (\<lambda>w. row (cw_calls w)) (on_callbacks m'')"
  and preserves_tracking [frame_intros]: "preserves (\<lambda>w. row (cw_calls w)) (on_tracking m3)"
  by (simp_all add: call_world_defs preserves_zoom_other)

lemma preserves_emit [frame_intros]: "preserves (\<lambda>w. row (cw_calls w)) (emit eid c ev detail now)"
  and preserves_tp_call [frame_intros]: "preserves (\<lambda>w. row (cw_calls w)) (tp_call g cmd)"
  and preserves_tp_drop [frame_intros]: "preserves (\<lambda>w. row (cw_calls w)) (tp_drop cmd)"
  and preserves_tp_if [frame_intros]: "preserves (\<lambda>w. row (cw_calls w)) (tp_if b g cmd)"
  and preserves_apply_mode [frame_intros]: "preserves (\<lambda>w. row (cw_calls w)) (apply_mode spy cmd p)"
  and preserves_lift [frame_intros]: "preserves (\<lambda>w. row (cw_calls w)) (lift_result res)"
  by (auto simp: emit_def tp_call_def tp_drop_def tp_if_def apply_mode_def lift_result_def
      intro!: frame_intros split: sum.split)

text \<open>A failed write leaves the table alone; a successful one changes the one row.\<close>

lemma save_call_row:
  assumes "save_call S x w = (Inr u, w')" "row (cw_calls w) (c_ID x) = Some old"
  shows "row (cw_calls w') = (row (cw_calls w))(c_ID x \<mapsto> kept old x)"
  using assms
  by (auto simp: save_call_def on_calls_def service act_simps split: prod.splits sum.splits
      dest!: update_row)

lemma save_call_err: "preserves_err (\<lambda>w. row (cw_calls w)) (save_call S x)"
  by (auto simp: preserves_err_def save_call_def on_calls_def service act_simps
      split: prod.splits sum.splits dest!: update_err)

lemma insert_call_row:
  assumes "insert_call S x w = (Inr u, w')"
  shows "row (cw_calls w) (c_ID x) = None \<and>
         row (cw_calls w') = (row (cw_calls w))(c_ID x \<mapsto> fresh x)"
  using assms
  by (auto simp: insert_call_def on_calls_def service act_simps split: prod.splits sum.splits
      dest!: create_row)

lemma insert_call_err: "preserves_err (\<lambda>w. row (cw_calls w)) (insert_call S x)"
  by (auto simp: preserves_err_def insert_call_def on_calls_def service act_simps
      split: prod.splits sum.splits dest!: create_err)

lemma load_call_row:
  assumes "load_call S k w = (Inr c, w')"
  shows "row (cw_calls w) k = Some c \<and> row (cw_calls w') = row (cw_calls w)"
  using assms
  by (auto simp: load_call_def on_calls_def service act_simps split: prod.splits sum.splits option.splits
      dest: get_row get_frame)

text \<open>The proof obligations of an operation: about the rows it reads and the row it writes.\<close>

lemma moves_load:
  assumes "\<And>c. moves (\<lambda>w. row (cw_calls w)) (\<lambda>T T'. T k = Some c \<longrightarrow> call_evolves T T') (f c)"
  shows "moves (\<lambda>w. row (cw_calls w)) call_evolves (bind_a (load_call S k) f)"
  unfolding moves_def
proof
  fix w
  show "call_evolves (row (cw_calls w)) (row (cw_calls (snd (bind_a (load_call S k) f w))))"
  proof (cases "load_call S k w")
    case (Pair r t)
    show ?thesis
    proof (cases r)
      case (Inl e)
      with Pair preservesD [OF preserves_load Pair] show ?thesis by (simp add: act_simps)
    next
      case (Inr c)
      with Pair load_call_row [of k w c t] assms [of c, unfolded moves_def, rule_format, of t]
      show ?thesis by (simp add: act_simps)
    qed
  qed
qed

lemma reflp_guarded [simp]: "reflp (\<lambda>T T'. T k = Some c \<longrightarrow> call_evolves T T')"
  by (simp add: reflp_def)

lemma moves_save:
  assumes "\<And>T. T k = Some c \<Longrightarrow> call_table_ok T \<Longrightarrow> c_ID c = k \<Longrightarrow> c_ID x = c_ID c"
    and "call_inv c \<Longrightarrow> call_inv (kept c x)" "call_inv c \<Longrightarrow> call_legal c (kept c x)"
  shows "moves (\<lambda>w. row (cw_calls w)) (\<lambda>T T'. T k = Some c \<longrightarrow> call_evolves T T') (save_call S x)"
  unfolding moves_def
proof (intro allI impI)
  fix w :: "'d call_world" assume k: "row (cw_calls w) k = Some c"
  show "call_evolves (row (cw_calls w)) (row (cw_calls (snd (save_call S x w))))"
  proof (cases "call_table_ok (row (cw_calls w))")
    case True
    with k have "c_ID c = k" by (simp add: call_table_ok_def)
    with assms(1) [OF k True] have x: "c_ID x = k" by simp
    obtain r w' where m: "save_call S x w = (r, w')" by (cases "save_call S x w")
    show ?thesis
    proof (cases r)
      case (Inl e)
      with m preserves_errD [OF save_call_err] show ?thesis by simp
    next
      case (Inr u)
      with m k x save_call_row [of x w u w' c]
      show ?thesis using assms by (auto intro!: call_evolves_update simp: kept_key)
    qed
  qed (simp add: call_evolves_def)
qed

lemma moves_insert:
  assumes "call_inv (fresh x)" "call_born (fresh x)"
  shows "moves (\<lambda>w. row (cw_calls w)) call_evolves (insert_call S x)"
  unfolding moves_def
proof
  fix w
  obtain r w' where m: "insert_call S x w = (r, w')" by (cases "insert_call S x w")
  show "call_evolves (row (cw_calls w)) (row (cw_calls (snd (insert_call S x w))))"
  proof (cases r)
    case (Inl e)
    with m preserves_errD [OF insert_call_err] show ?thesis by simp
  next
    case (Inr u)
    with m insert_call_row [of x w u w'] assms call_evolves_insert [of "row (cw_calls w)" "fresh x"]
    show ?thesis by (simp add: fresh_key)
  qed
qed

end

end
