(* ===== verification/CallOps.thy ===== *)
theory CallOps
  imports CallRules
begin

text \<open>
  Every operation of \<open>CallService\<close> against the contract of its repository: how it moves the
  table of calls, whatever the database and the media layer answer.
\<close>

context call_repository begin

lemma moves_throw [intro]: "reflp P \<Longrightarrow> moves (\<lambda>w. row (cw_calls w)) P (throw_a e)"
  and moves_ret [intro]: "reflp P \<Longrightarrow> moves (\<lambda>w. row (cw_calls w)) P (ret_a a)"
  by (simp_all add: moves_refl preserves_throw preserves_ret)

text \<open>Write the changed call, emit the event, return: the tail all mutators share.\<close>

lemma moves_written:
  assumes "c_ID x = c_ID c"
    and "call_inv c \<Longrightarrow> call_inv (kept c x)" "call_inv c \<Longrightarrow> call_legal c (kept c x)"
  shows "moves (\<lambda>w. row (cw_calls w)) (\<lambda>T T'. T k = Some c \<longrightarrow> call_evolves T T')
           (seq_a (save_call S x) (seq_a (emit eid y ev detail now) (ret_a z)))"
  using assms by (intro moves_seq_post moves_save preserves_seq preserves_emit preserves_ret) auto

lemma born_simps:
  "call_born (fresh x) \<longleftrightarrow> call_born x" "call_inv (fresh x) \<longleftrightarrow> call_inv x"
  by (simp_all add: call_born_def call_inv_def fresh_columns)

lemma call_inv_cong:
  assumes "c_Status x = c_Status c" "c_HangupReason x = c_HangupReason c"
    "c_EndedAt x = c_EndedAt c" "c_AnsweredAt x = c_AnsweredAt c" "c_HoldCount x = c_HoldCount c"
    "c_TransferCount x = c_TransferCount c" "c_SkillGroupID x = c_SkillGroupID c"
    "c_ParentCallID x = c_ParentCallID c"
  shows "call_inv x \<longleftrightarrow> call_inv c"
  using assms by (simp add: call_inv_def)

lemma moves_created:
  assumes "call_inv x" "call_born x"
  shows "moves (\<lambda>w. row (cw_calls w)) call_evolves
           (seq_a (insert_call S x) (seq_a (emit eid y ev detail now) (ret_a z)))"
  using assms
  by (intro moves_seq_post moves_insert preserves_seq preserves_emit preserves_ret)
    (simp_all add: born_simps)

lemma moves_after_media:
  "moves (\<lambda>w. row (cw_calls w)) (\<lambda>T T'. T k = Some c \<longrightarrow> call_evolves T T') m \<Longrightarrow>
   moves (\<lambda>w. row (cw_calls w)) (\<lambda>T T'. T k = Some c \<longrightarrow> call_evolves T T') (seq_a (tp_if b g cmd) m)"
  by (rule moves_seq_pre [OF preserves_tp_if]) simp_all

text \<open>One guard after the read, and two.\<close>

lemma moves_guarded:
  assumes "\<And>c. ok c \<Longrightarrow> moves (\<lambda>w. row (cw_calls w)) (\<lambda>T T'. T k = Some c \<longrightarrow> call_evolves T T') (f c)"
  shows "moves (\<lambda>w. row (cw_calls w)) call_evolves
           (bind_a (load_call S k) (\<lambda>c. if \<not> ok c then throw_a e else f c))"
    and "moves (\<lambda>w. row (cw_calls w)) call_evolves
           (bind_a (load_call S k) (\<lambda>c. if \<not> ok c then throw_a e else if b then throw_a e' else f c))"
  by (rule moves_load, rule moves_if, rule moves_throw, simp, rule assms, simp)
     (rule moves_load, rule moves_if, rule moves_throw, simp, rule moves_if, rule moves_throw, simp,
      rule assms, simp)

lemmas row_simps = kept_columns kept_frame kept_key fresh_columns fresh_key
  call_inv_def call_legal_def call_step_rules

section \<open>Status transitions\<close>

lemma moves_EndCall: "moves (\<lambda>w. row (cw_calls w)) call_evolves (EndCall S now eid k reason hby)"
  unfolding EndCall_def Let_def
  by (rule moves_load, rule moves_if, rule moves_throw, simp, rule moves_written)
    (simp_all add: row_simps split: option.split)

lemma moves_TransitionToQueue:
  "moves (\<lambda>w. row (cw_calls w)) call_evolves (TransitionToQueue S now eid k g)"
  unfolding TransitionToQueue_def Let_def
  by (rule moves_guarded(1), rule moves_written) (simp_all add: row_simps)

lemma moves_TransitionToRinging:
  "moves (\<lambda>w. row (cw_calls w)) call_evolves (TransitionToRinging S now eid k a)"
  unfolding TransitionToRinging_def Let_def
  by (rule moves_load, rule moves_if, rule moves_throw, simp, rule moves_written)
    (simp_all add: row_simps, (elim disjE; simp add: row_simps)+)

lemma moves_TransitionToActive:
  "moves (\<lambda>w. row (cw_calls w)) call_evolves (TransitionToActive S now eid k)"
  unfolding TransitionToActive_def Let_def
  by (rule moves_load, rule moves_if, rule moves_throw, simp, rule moves_written)
    (simp_all add: row_simps, (elim disjE; simp add: row_simps)+)

lemma moves_AnswerCall:
  "moves (\<lambda>w. row (cw_calls w)) call_evolves (AnswerCall S now eid k a)"
  unfolding AnswerCall_def Let_def
  by (rule moves_load, rule moves_if, rule moves_throw, simp, rule moves_written)
    (simp_all add: row_simps, (elim disjE; simp add: row_simps)+)

lemma moves_HoldCall: "moves (\<lambda>w. row (cw_calls w)) call_evolves (HoldCall S now eid k)"
  unfolding HoldCall_def Let_def
  by (rule moves_guarded(1), rule moves_after_media, rule moves_written) (simp_all add: row_simps)

lemma moves_RetrieveCall: "moves (\<lambda>w. row (cw_calls w)) call_evolves (RetrieveCall S now eid k)"
  unfolding RetrieveCall_def Let_def
  by (rule moves_guarded(1), rule moves_after_media, rule moves_written) (simp_all add: row_simps)

section \<open>Transfers, consultation, conference\<close>

lemma moves_BlindTransfer:
  "moves (\<lambda>w. row (cw_calls w)) call_evolves (BlindTransfer S now eid k t)"
  unfolding BlindTransfer_def Let_def
  by (rule moves_load, rule moves_if, rule moves_throw, simp, rule moves_if, rule moves_throw, simp,
      rule moves_after_media, rule moves_written)
    (simp_all add: row_simps)

lemma moves_AttendedTransfer:
  "moves (\<lambda>w. row (cw_calls w)) call_evolves (AttendedTransfer S now eid k t)"
  unfolding AttendedTransfer_def Let_def
  by (rule moves_load, rule moves_if, rule moves_throw, simp, rule moves_if, rule moves_throw, simp,
      rule moves_after_media, rule moves_written)
    (simp_all add: row_simps, (elim disjE; simp add: row_simps)+)

lemma moves_InitiateConsult:
  "moves (\<lambda>w. row (cw_calls w)) call_evolves (InitiateConsult S now eid k t)"
  unfolding InitiateConsult_def Let_def
  by (rule moves_guarded(2), rule moves_after_media, rule moves_written) (simp_all add: row_simps)

lemma moves_CompleteConsultTransfer:
  "moves (\<lambda>w. row (cw_calls w)) call_evolves (CompleteConsultTransfer S now eid k)"
  unfolding CompleteConsultTransfer_def Let_def
  by (rule moves_guarded(1), rule moves_written) (simp_all add: row_simps)

lemma moves_CancelConsult:
  "moves (\<lambda>w. row (cw_calls w)) call_evolves (CancelConsult S now eid k)"
  unfolding CancelConsult_def Let_def
  by (rule moves_guarded(1), rule moves_seq_pre, rule preserves_when, rule preserves_tp_drop,
      rule moves_written)
    (simp_all add: row_simps)

lemma moves_StartConference:
  "moves (\<lambda>w. row (cw_calls w)) call_evolves (StartConference S now eid k)"
  unfolding StartConference_def Let_def
  by (rule moves_load, rule moves_if, rule moves_throw, simp, rule moves_after_media, rule moves_written)
    (simp_all add: row_simps, (elim disjE; simp add: row_simps)+)

section \<open>New calls\<close>

lemma moves_CreateInboundCall:
  "moves (\<lambda>w. row (cw_calls w)) call_evolves (CreateInboundCall S now nid eid inp)"
  unfolding CreateInboundCall_def Let_def
  by (rule moves_bind_pre, rule preserves_lift, rule moves_created)
    (simp_all add: call_zero_def call_born_def call_inv_def)

lemma moves_CreateInternalCall:
  "moves (\<lambda>w. row (cw_calls w)) call_evolves (CreateInternalCall S now nid eid inp)"
  unfolding CreateInternalCall_def Let_def
  by (rule moves_if, rule moves_throw, simp, rule moves_if, rule moves_throw, simp,
      rule moves_bind_pre, rule preserves_lift, rule moves_created)
    (simp_all add: call_zero_def call_born_def call_inv_def)

lemma moves_CreateOutboundCall:
  "moves (\<lambda>w. row (cw_calls w)) call_evolves (CreateOutboundCall S now nid eid inp)"
proof -
  have born: "call_born c \<and> call_inv c"
    if "c_Status c = CallStatusRinging" "c_EndedAt c = None" "c_HangupReason c = None"
      "c_HoldCount c = 0" "c_TransferCount c = 0" for c
    using that by (simp add: call_born_def call_inv_def)
  show ?thesis
    unfolding CreateOutboundCall_def Let_def bind_a_if bind_a_assoc
    apply (rule moves_if, rule moves_throw, simp, rule moves_if, rule moves_throw, simp)
    apply (rule moves_bind_pre, rule preserves_lift)
     apply (rule moves_if)
      apply (rule moves_bind_pre, rule preserves_tp_call)
       apply (simp only: bind_ret_left)
       apply (rule moves_created; simp add: born call_zero_def)
      apply simp
     apply (simp only: bind_ret_left)
     apply (rule moves_created; simp add: born call_zero_def)
    apply simp
    done
qed

text \<open>A supervising leg is created active, as the child of the call it supervises.\<close>

lemma moves_insert_or_hangup:
  assumes "call_inv x" "call_born x"
  shows "moves (\<lambda>w. row (cw_calls w)) call_evolves (insert_or_hangup S x)"
  unfolding insert_or_hangup_def
  by (rule moves_try_post, rule moves_insert)
    (use assms in \<open>auto simp: born_simps\<close>, auto intro!: frame_intros split: sum.split)

lemma moves_supervise:
  assumes "\<And>uuid. call_inv (x\<lparr>c_ChannelUUID := uuid\<rparr>) \<and> call_born (x\<lparr>c_ChannelUUID := uuid\<rparr>)"
    and "call_inv x \<and> call_born x"
    and "\<And>spy. preserves (\<lambda>w. row (cw_calls w)) (apply_cmd spy)"
  shows "moves (\<lambda>w. row (cw_calls w)) call_evolves
    (bind_a
       (if b then bind_a (tp_call g cmd) (\<lambda>spy. seq_a (apply_cmd spy) (ret_a (x\<lparr>c_ChannelUUID := spy\<rparr>)))
        else ret_a x)
       (\<lambda>m. seq_a (insert_or_hangup S m) (seq_a (emit eid m ev d now) (ret_a m))))"
proof -
  have tail: "moves (\<lambda>w. row (cw_calls w)) call_evolves
      (seq_a (insert_or_hangup S m) (seq_a (emit eid m ev d now) (ret_a m)))"
    if "call_inv m \<and> call_born m" for m
    using that by (intro moves_seq_post moves_insert_or_hangup preserves_seq preserves_emit preserves_ret) auto
  show ?thesis
    unfolding bind_a_if bind_a_assoc bind_seq_ret bind_ret_left
    by (intro moves_if moves_bind_pre moves_seq_pre preserves_tp_call assms(3) tail assms(1,2)
        reflp_call_evolves)
qed

lemma moves_inspect:
  "(\<And>c. moves (\<lambda>w. row (cw_calls w)) call_evolves (f c)) \<Longrightarrow>
   moves (\<lambda>w. row (cw_calls w)) call_evolves (bind_a (load_call S k) f)"
  by (rule moves_bind_pre [OF preserves_load]) simp_all

lemma preserves_monitor_cmd:
  "preserves (\<lambda>w. row (cw_calls w))
     (case monitor_cmd mode spy t of None \<Rightarrow> ret_a () | Some cmd \<Rightarrow> apply_mode spy cmd p)"
  by (cases "monitor_cmd mode spy t") (simp_all add: frame_intros)

lemma moves_MonitorCall:
  "moves (\<lambda>w. row (cw_calls w)) call_evolves (MonitorCall S now nid eid tn k supervisor mode)"
  unfolding MonitorCall_def Let_def
  apply (rule moves_inspect, rule moves_if, rule moves_throw, simp)
  apply (cases "monitor_call_type mode", simp_all only: option.case)
   apply (rule moves_throw, simp)
  apply (rule moves_supervise)
    apply (simp_all add: call_zero_def call_born_def call_inv_def preserves_monitor_cmd)
  done

lemma moves_CoachCall:
  "moves (\<lambda>w. row (cw_calls w)) call_evolves (CoachCall S now nid eid tn k coach secs)"
  unfolding CoachCall_def Let_def
  by (rule moves_inspect, rule moves_if, rule moves_throw, simp, rule moves_supervise)
    (simp_all add: call_zero_def call_born_def call_inv_def preserves_apply_mode)

section \<open>Annotations, and the operations that do not write a call\<close>

text \<open>Annotations: a written call that agrees with the stored one on what the invariant reads.\<close>

lemma moves_annotated:
  assumes "c_ID x = c_ID c" "c_Status x = c_Status c" "c_HangupReason x = c_HangupReason c"
    "c_EndedAt x = c_EndedAt c" "c_AnsweredAt x = c_AnsweredAt c" "c_HoldCount x = c_HoldCount c"
    "c_TransferCount x = c_TransferCount c" "c_SkillGroupID x = c_SkillGroupID c"
  shows "moves (\<lambda>w. row (cw_calls w)) (\<lambda>T T'. T k = Some c \<longrightarrow> call_evolves T T') (save_call S x)"
proof (rule moves_save)
  show "call_inv (kept c x)" if "call_inv c"
    using that assms call_inv_cong [of "kept c x" c] by (simp add: kept_columns kept_frame)
  show "call_legal c (kept c x)"
    using assms by (simp add: call_legal_def kept_columns kept_frame)
qed (use assms in simp)

lemma moves_SetDisposition:
  "moves (\<lambda>w. row (cw_calls w)) call_evolves (SetDisposition S now eid k code)"
  unfolding SetDisposition_def Let_def
  by (intro moves_load moves_seq_post moves_annotated preserves_seq preserves_emit preserves_ret) simp_all

lemma moves_UpdateCustomerID:
  "moves (\<lambda>w. row (cw_calls w)) call_evolves (UpdateCustomerID S k cust)"
proof -
  have eq: "UpdateCustomerID S k cust =
      try_a (load_call S k) (\<lambda>r. case r of
          Inr c \<Rightarrow> save_call S (c\<lparr>c_CustomerID := Some cust\<rparr>)
        | Inl _ \<Rightarrow> throw_a (ErrCallIDNotFound k))"
    by (auto simp: UpdateCustomerID_def load_call_def fun_eq_iff act_simps
        split: prod.split sum.split option.split)
  have step: "moves (\<lambda>w. row (cw_calls w)) call_evolves
      (bind_a (load_call S k) (\<lambda>c. save_call S (c\<lparr>c_CustomerID := Some cust\<rparr>)))"
    by (intro moves_load moves_annotated) simp_all
  then show ?thesis
    unfolding eq moves_def by (fastforce simp: act_simps split: prod.splits sum.splits)
qed

lemma moves_inert: "preserves (\<lambda>w. row (cw_calls w)) m \<Longrightarrow> moves (\<lambda>w. row (cw_calls w)) call_evolves m"
  by (simp add: moves_refl)

lemma inert_ops:
  "preserves (\<lambda>w. row (cw_calls w)) (SendDTMF S now eid k digits)"
  "preserves (\<lambda>w. row (cw_calls w)) (WhisperPreConnect S now eid k msg)"
  "preserves (\<lambda>w. row (cw_calls w)) (RequestCallback now nid cb)"
  "preserves (\<lambda>w. row (cw_calls w)) (ExecuteCallback now k success)"
  "preserves (\<lambda>w. row (cw_calls w)) (RecordIVRTracking nid t)"
  by (auto simp: SendDTMF_def WhisperPreConnect_def RequestCallback_def ExecuteCallback_def
      RecordIVRTracking_def Let_def intro!: frame_intros split: sum.split option.split)

end

end
