(* ===== verification/CallMachine.thy ===== *)
theory CallMachine
  imports CallOps
begin

text \<open>
  The calls of a tenant as a state machine: any sequence of service operations over the MySQL
  repository, with any pattern of database failures and media replies.
\<close>

section \<open>The service on the MySQL repository\<close>

definition NewCallService :: "('d, call) repo \<Rightarrow> bool \<Rightarrow> 'd call_svc" where
  "NewCallService cr tp = \<lparr>svc_calls = cr, svc_tp = tp\<rparr>"

interpretation mysql_calls:
  call_repository CallRepo rows CallRepo_update_row CallRepo_insert_row "NewCallService CallRepo tp"
  for tp
  by unfold_locales
    (auto simp: CallRepo_def sql_defs NewCallService_def CallRepo_update_row_def CallRepo_insert_row_def
      split: list.splits if_splits option.splits)

section \<open>Requests\<close>

datatype call_op =
    OpInbound create_call_input
  | OpOutbound create_call_input
  | OpInternal create_call_input
  | OpEnd int HangupReason "HangupBy option"
  | OpQueue int int
  | OpRinging int int
  | OpActive int
  | OpAnswer int int
  | OpHold int
  | OpRetrieve int
  | OpBlindTransfer int transfer_target
  | OpAttendedTransfer int transfer_target
  | OpConsult int transfer_target
  | OpConsultComplete int
  | OpConsultCancel int
  | OpConference int
  | OpMonitor int int int string
  | OpCoach int int int int
  | OpWhisper int string
  | OpDTMF int string
  | OpDisposition int string
  | OpCustomer int int
  | OpRequestCallback callback_request
  | OpExecuteCallback int bool
  | OpTracking ivr_tracking

definition done_a :: "('s, 'e, 'a) act \<Rightarrow> ('s, 'e, unit) act" where
  "done_a m = seq_a m (ret_a ())"

fun exec_op :: "'d call_svc \<Rightarrow> gotime \<Rightarrow> int \<Rightarrow> int \<Rightarrow> call_op \<Rightarrow> ('d call_world, call_error, unit) act" where
  "exec_op S now nid eid (OpInbound inp) = done_a (CreateInboundCall S now nid eid inp)"
| "exec_op S now nid eid (OpOutbound inp) = done_a (CreateOutboundCall S now nid eid inp)"
| "exec_op S now nid eid (OpInternal inp) = done_a (CreateInternalCall S now nid eid inp)"
| "exec_op S now nid eid (OpEnd k reason hby) = done_a (EndCall S now eid k reason hby)"
| "exec_op S now nid eid (OpQueue k g) = done_a (TransitionToQueue S now eid k g)"
| "exec_op S now nid eid (OpRinging k a) = done_a (TransitionToRinging S now eid k a)"
| "exec_op S now nid eid (OpActive k) = done_a (TransitionToActive S now eid k)"
| "exec_op S now nid eid (OpAnswer k a) = done_a (AnswerCall S now eid k a)"
| "exec_op S now nid eid (OpHold k) = done_a (HoldCall S now eid k)"
| "exec_op S now nid eid (OpRetrieve k) = done_a (RetrieveCall S now eid k)"
| "exec_op S now nid eid (OpBlindTransfer k t) = done_a (BlindTransfer S now eid k t)"
| "exec_op S now nid eid (OpAttendedTransfer k t) = done_a (AttendedTransfer S now eid k t)"
| "exec_op S now nid eid (OpConsult k t) = done_a (InitiateConsult S now eid k t)"
| "exec_op S now nid eid (OpConsultComplete k) = done_a (CompleteConsultTransfer S now eid k)"
| "exec_op S now nid eid (OpConsultCancel k) = done_a (CancelConsult S now eid k)"
| "exec_op S now nid eid (OpConference k) = done_a (StartConference S now eid k)"
| "exec_op S now nid eid (OpMonitor tn k sv mode) = done_a (MonitorCall S now nid eid tn k sv mode)"
| "exec_op S now nid eid (OpCoach tn k co secs) = done_a (CoachCall S now nid eid tn k co secs)"
| "exec_op S now nid eid (OpWhisper k msg) = WhisperPreConnect S now eid k msg"
| "exec_op S now nid eid (OpDTMF k digits) = SendDTMF S now eid k digits"
| "exec_op S now nid eid (OpDisposition k code) = done_a (SetDisposition S now eid k code)"
| "exec_op S now nid eid (OpCustomer k cust) = UpdateCustomerID S k cust"
| "exec_op S now nid eid (OpRequestCallback cb) = RequestCallback now nid cb"
| "exec_op S now nid eid (OpExecuteCallback k success) = done_a (ExecuteCallback now k success)"
| "exec_op S now nid eid (OpTracking t) = RecordIVRTracking nid t"

text \<open>A request: the clock, two identifiers of the generator, the operation.\<close>

type_synonym call_request = "gotime \<times> int \<times> int \<times> call_op"

fun run_calls :: "'d call_svc \<Rightarrow> call_request list \<Rightarrow> 'd call_world \<Rightarrow> 'd call_world" where
  "run_calls S [] w = w"
| "run_calls S ((now, nid, eid, opn) # rs) w = run_calls S rs (snd (exec_op S now nid eid opn w))"

section \<open>One operation moves the table as the abstract machine allows\<close>

context call_repository begin

lemmas op_moves = moves_CreateInboundCall moves_CreateOutboundCall moves_CreateInternalCall
  moves_EndCall moves_TransitionToQueue moves_TransitionToRinging moves_TransitionToActive
  moves_AnswerCall moves_HoldCall moves_RetrieveCall moves_BlindTransfer moves_AttendedTransfer
  moves_InitiateConsult moves_CompleteConsultTransfer moves_CancelConsult moves_StartConference
  moves_MonitorCall moves_CoachCall moves_SetDisposition moves_UpdateCustomerID
  inert_ops [THEN moves_inert]

lemma moves_done:
  "moves (\<lambda>w. row (cw_calls w)) P m \<Longrightarrow> moves (\<lambda>w. row (cw_calls w)) P (done_a m)"
  unfolding done_a_def by (rule moves_seq_post) (simp_all add: preserves_ret)

lemma exec_op_evolves: "moves (\<lambda>w. row (cw_calls w)) call_evolves (exec_op S now nid eid opn)"
  by (cases opn) (simp_all add: moves_done op_moves)

lemma step_evolves:
  "call_evolves (row (cw_calls w)) (row (cw_calls (snd (exec_op S now nid eid opn w))))"
  using exec_op_evolves [of now nid eid opn] by (simp add: moves_def)

lemma run_table_ok:
  "call_table_ok (row (cw_calls w)) \<Longrightarrow> call_table_ok (row (cw_calls (run_calls S reqs w)))"
proof (induction reqs arbitrary: w)
  case (Cons r reqs)
  obtain now nid eid opn where r: "r = (now, nid, eid, opn)" by (cases r)
  from step_evolves [of w now nid eid opn] Cons.prems
  have "call_table_ok (row (cw_calls (snd (exec_op S now nid eid opn w))))"
    by (simp add: call_evolves_def)
  with Cons.IH show ?case by (simp add: r)
qed simp

text \<open>The life of one row along a run is a chain of legal changes.\<close>

lemma run_row_chain:
  assumes "call_table_ok (row (cw_calls w))" "row (cw_calls w) k = Some c"
  shows "\<exists>d. row (cw_calls (run_calls S reqs w)) k = Some d \<and> call_legal\<^sup>*\<^sup>* c d"
  using assms
proof (induction reqs arbitrary: w c)
  case (Cons r reqs)
  obtain now nid eid opn where r: "r = (now, nid, eid, opn)" by (cases r)
  let ?w = "snd (exec_op S now nid eid opn w)"
  note D = call_evolvesD [OF step_evolves [of w now nid eid opn] Cons.prems(1)]
  from D(2) [OF Cons.prems(2)] D(1)
  obtain d where d: "row (cw_calls ?w) k = Some d" "call_legal c d" "call_table_ok (row (cw_calls ?w))"
    by blast
  from Cons.IH [OF d(3,1)] obtain e
    where "row (cw_calls (run_calls S reqs ?w)) k = Some e" "call_legal\<^sup>*\<^sup>* d e" by auto
  with d(2) show ?case by (auto simp: r intro: converse_rtranclp_into_rtranclp)
qed auto

end

section \<open>A failed operation\<close>

context call_repository begin

lemma err_done: "preserves_err f m \<Longrightarrow> preserves_err f (done_a m)"
  by (auto simp: preserves_err_def done_a_def act_simps split: prod.splits sum.splits)

lemma err_tail:
  "preserves_err f m \<Longrightarrow> preserves_err f (seq_a m (seq_a (emit eid y ev d now) (ret_a z)))"
  by (auto simp: preserves_err_def emit_def act_simps split: prod.splits sum.splits)

lemma err_insert_or_hangup: "preserves_err (\<lambda>w. row (cw_calls w)) (insert_or_hangup S x)"
proof -
  have "row (cw_calls w') = row (cw_calls w)" if h: "insert_or_hangup S x w = (Inl e, w')" for w e w'
  proof (cases "insert_call S x w")
    case (Pair r t)
    with h obtain e' where r: "r = Inl e'"
      by (cases r) (auto simp: insert_or_hangup_def act_simps)
    with Pair have "row (cw_calls t) = row (cw_calls w)"
      by (auto dest: preserves_errD [OF insert_call_err])
    moreover have "preserves (\<lambda>w. row (cw_calls w))
        (seq_a (when_a (svc_tp S \<and> c_ChannelUUID x \<noteq> []) (tp_drop (TpHangup (c_ChannelUUID x))))
          (throw_a e' :: ('d call_world, call_error, unit) act))"
      by (intro frame_intros)
    ultimately show ?thesis
      using h Pair r by (auto simp: insert_or_hangup_def act_simps(5) dest: preservesD)
  qed
  then show ?thesis by (auto simp: preserves_err_def)
qed

lemma preserves_get_call: "preserves (\<lambda>w. row (cw_calls w)) (on_calls (repo_get (svc_calls S) k))"
  unfolding on_calls_def service by (rule preserves_zoom [where g = row, OF preserves_get]) simp_all

lemma err_update_customer:
  "preserves_err (\<lambda>w. row (cw_calls w)) (UpdateCustomerID S k cust)"
  unfolding UpdateCustomerID_def
  by (rule preserves_err_try [OF preserves_get_call])
    (auto intro: preserves_err_throw save_call_err split: sum.split option.split)

lemmas err_rules = err_done preserves_err_throw preserves_err_ret preserves_err_if
  err_tail [OF save_call_err] err_tail [OF insert_call_err] err_tail [OF err_insert_or_hangup]
  preserves_err_bind [OF preserves_load] preserves_err_bind [OF preserves_lift]
  preserves_err_seq [OF preserves_tp_if]

lemma err_creates:
  "preserves_err (\<lambda>w. row (cw_calls w)) (CreateInboundCall S now nid eid inp)"
  "preserves_err (\<lambda>w. row (cw_calls w)) (CreateOutboundCall S now nid eid inp)"
  "preserves_err (\<lambda>w. row (cw_calls w)) (CreateInternalCall S now nid eid inp)"
  unfolding CreateInboundCall_def CreateOutboundCall_def CreateInternalCall_def Let_def
  by (intro err_rules preserves_err_bind preserves_err_seq frame_intros)+

lemma err_transitions:
  "preserves_err (\<lambda>w. row (cw_calls w)) (EndCall S now eid k reason hby)"
  "preserves_err (\<lambda>w. row (cw_calls w)) (TransitionToQueue S now eid k g)"
  "preserves_err (\<lambda>w. row (cw_calls w)) (TransitionToRinging S now eid k a)"
  "preserves_err (\<lambda>w. row (cw_calls w)) (TransitionToActive S now eid k)"
  "preserves_err (\<lambda>w. row (cw_calls w)) (AnswerCall S now eid k a)"
  "preserves_err (\<lambda>w. row (cw_calls w)) (HoldCall S now eid k)"
  "preserves_err (\<lambda>w. row (cw_calls w)) (RetrieveCall S now eid k)"
  unfolding EndCall_def TransitionToQueue_def TransitionToRinging_def TransitionToActive_def AnswerCall_def HoldCall_def RetrieveCall_def Let_def
  by (intro err_rules preserves_err_bind preserves_err_seq frame_intros)+

lemma err_transfers:
  "preserves_err (\<lambda>w. row (cw_calls w)) (BlindTransfer S now eid k t)"
  "preserves_err (\<lambda>w. row (cw_calls w)) (AttendedTransfer S now eid k t)"
  "preserves_err (\<lambda>w. row (cw_calls w)) (InitiateConsult S now eid k t)"
  "preserves_err (\<lambda>w. row (cw_calls w)) (CompleteConsultTransfer S now eid k)"
  "preserves_err (\<lambda>w. row (cw_calls w)) (CancelConsult S now eid k)"
  "preserves_err (\<lambda>w. row (cw_calls w)) (StartConference S now eid k)"
  unfolding BlindTransfer_def AttendedTransfer_def InitiateConsult_def CompleteConsultTransfer_def CancelConsult_def StartConference_def Let_def
  by (intro err_rules preserves_err_bind preserves_err_seq frame_intros)+

lemma err_annotated:
  "preserves_err (\<lambda>w. row (cw_calls w)) (CoachCall S now nid eid tn k co secs)"
  "preserves_err (\<lambda>w. row (cw_calls w)) (SetDisposition S now eid k code)"
  unfolding CoachCall_def SetDisposition_def Let_def
  by (intro err_rules preserves_err_bind preserves_err_seq frame_intros)+

lemma err_MonitorCall:
  "preserves_err (\<lambda>w. row (cw_calls w)) (MonitorCall S now nid eid tn k sv mode)"
  unfolding MonitorCall_def Let_def
  by (cases "monitor_call_type mode"; simp only: option.case)
    (intro err_rules preserves_err_bind frame_intros preserves_monitor_cmd)+

lemma failed_op: "preserves_err (\<lambda>w. row (cw_calls w)) (exec_op S now nid eid opn)"
  by (cases opn)
    (simp_all add: err_done err_creates err_transitions err_transfers err_annotated err_MonitorCall
      err_update_customer inert_ops preserves_imp_err)

end

section \<open>Chains of legal changes\<close>

lemma legal_chain_status: "call_legal\<^sup>*\<^sup>* c d \<Longrightarrow> call_step\<^sup>*\<^sup>* (c_Status c) (c_Status d)"
  by (induction rule: rtranclp_induct) (auto simp: call_legal_def intro: rtranclp.rtrancl_into_rtrancl)

lemma legal_chain_counts:
  "call_legal\<^sup>*\<^sup>* c d \<Longrightarrow> c_HoldCount c \<le> c_HoldCount d \<and> c_TransferCount c \<le> c_TransferCount d"
  by (induction rule: rtranclp_induct) (auto simp: call_legal_def)

lemma legal_chain_completed:
  assumes "call_legal\<^sup>*\<^sup>* c d" "c_Status c = CallStatusCompleted"
  shows "c_Status d = CallStatusCompleted \<and> c_EndedAt d = c_EndedAt c \<and>
         c_HangupReason d = c_HangupReason c \<and> c_HoldCount d = c_HoldCount c \<and>
         c_TransferCount d = c_TransferCount c"
  using assms by (induction rule: rtranclp_induct) (auto simp: call_legal_def)

end
