(* ===== verification/CallLegs.thy ===== *)
theory CallLegs
  imports CallMachine
begin

text \<open>
  Which FreeSWITCH legs the operations of \<open>CallService\<close> leave open: the channels a service has
  originated and not hung up, and the lemma that a failed operation other than
  \<open>CreateOutboundCall\<close> leaves none behind, unless FreeSWITCH refuses the hangup.
\<close>

section \<open>The legs a service has opened\<close>

text \<open>
  A leg is open from the \<open>originate\<close> that returned its (non-empty) channel identifier to the
  first \<open>hangup\<close> for it that FreeSWITCH accepts.
\<close>

fun leg_step :: "tp_cmd \<times> (string + string) \<Rightarrow> string list \<Rightarrow> string list" where
  "leg_step (TpOriginate dest cid ctx, Inr u) L = (if u = [] then L else u # L)"
| "leg_step (TpHangup u, Inr a) L = remove1 u L"
| "leg_step e L = L"

definition open_legs :: "'d call_world \<Rightarrow> string list" where
  "open_legs w = fold leg_step (transcript (cw_media w)) []"

definition legless :: "tp_cmd \<Rightarrow> bool" where
  "legless cmd \<longleftrightarrow> (case cmd of TpOriginate _ _ _ \<Rightarrow> False | TpHangup _ \<Rightarrow> False | _ \<Rightarrow> True)"

lemma leg_step_legless: "legless cmd \<Longrightarrow> leg_step (cmd, r) L = L"
  by (cases cmd) (simp_all add: legless_def)

lemma legs_media:
  assumes "on_media (media_exec cmd) w = (r, w')"
  shows "open_legs w' = leg_step (cmd, r) (open_legs w)"
  using assms
  by (auto simp: on_media_def act_simps media_exec_def open_legs_def split: list.splits)

lemma legs_preserved_media: "legless cmd \<Longrightarrow> preserves open_legs (on_media (media_exec cmd))"
  by (auto simp: preserves_def leg_step_legless) (metis legs_media leg_step_legless prod.collapse)

lemma legs_preserved_others [frame_intros]:
  "preserves open_legs (on_calls m1)" "preserves open_legs (on_events m2)"
  "preserves open_legs (on_callbacks m3)" "preserves open_legs (on_tracking m4)"
  by (simp_all add: call_world_defs preserves_zoom_other open_legs_def)

lemma legs_preserved_parts [frame_intros]:
  "preserves open_legs (load_call S k)" "preserves open_legs (save_call S c)"
  "preserves open_legs (insert_call S c)" "preserves open_legs (emit eid c ev d now)"
  "preserves open_legs (lift_result res)"
  by (auto simp: load_call_def save_call_def insert_call_def emit_def lift_result_def
      intro!: frame_intros split: sum.split option.split)

lemma legs_preserved_cmd [frame_intros]:
  "legless cmd \<Longrightarrow> preserves open_legs (tp_if b g cmd)"
  "legless cmd \<Longrightarrow> preserves open_legs (tp_drop cmd)"
  by (auto simp: tp_if_def tp_call_def tp_drop_def legs_preserved_media intro!: frame_intros)

lemma legs_quiet_ops:
  "preserves open_legs (CreateInboundCall S now nid eid inp)"
  "preserves open_legs (CreateInternalCall S now nid eid inp)"
  "preserves open_legs (EndCall S now eid k reason hby)"
  "preserves open_legs (TransitionToQueue S now eid k g)"
  "preserves open_legs (TransitionToRinging S now eid k a)"
  "preserves open_legs (TransitionToActive S now eid k)"
  "preserves open_legs (AnswerCall S now eid k a)"
  "preserves open_legs (HoldCall S now eid k)"
  "preserves open_legs (RetrieveCall S now eid k)"
  "preserves open_legs (BlindTransfer S now eid k t)"
  "preserves open_legs (AttendedTransfer S now eid k t)"
  "preserves open_legs (InitiateConsult S now eid k t)"
  "preserves open_legs (CompleteConsultTransfer S now eid k)"
  "preserves open_legs (CancelConsult S now eid k)"
  "preserves open_legs (StartConference S now eid k)"
  "preserves open_legs (SetDisposition S now eid k code)"
  unfolding CreateInboundCall_def CreateInternalCall_def EndCall_def TransitionToQueue_def
    TransitionToRinging_def TransitionToActive_def AnswerCall_def HoldCall_def RetrieveCall_def
    BlindTransfer_def AttendedTransfer_def InitiateConsult_def CompleteConsultTransfer_def
    CancelConsult_def StartConference_def SetDisposition_def Let_def
  by (intro frame_intros; simp add: legless_def)+

lemma legs_quiet_others:
  "preserves open_legs (SendDTMF S now eid k digits)"
  "preserves open_legs (WhisperPreConnect S now eid k msg)"
  "preserves open_legs (RequestCallback now nid cb)"
  "preserves open_legs (ExecuteCallback now k success)"
  "preserves open_legs (RecordIVRTracking nid t)"
  "preserves open_legs (UpdateCustomerID S k cust)"
  by (auto simp: SendDTMF_def WhisperPreConnect_def RequestCallback_def ExecuteCallback_def
      RecordIVRTracking_def UpdateCustomerID_def legless_def Let_def intro!: frame_intros
      split: sum.split option.split)

text \<open>
  \<open>refused u w\<close>: the last command was a hangup of \<open>u\<close>, and FreeSWITCH answered it with an error. A failure
  path closes a leg in the sense that it asks for the hangup: the leg is gone, or the hangup was refused.
\<close>

definition refused :: "string \<Rightarrow> 'd call_world \<Rightarrow> bool" where
  "refused u w \<longleftrightarrow> (case rev (transcript (cw_media w)) of (TpHangup v, Inl _) # _ \<Rightarrow> v = u | _ \<Rightarrow> False)"

definition closes :: "string \<Rightarrow> 'd call_world \<Rightarrow> 'd call_world \<Rightarrow> bool" where
  "closes u w w' \<longleftrightarrow> open_legs w' = remove1 u (open_legs w) \<or> open_legs w' = open_legs w \<and> refused u w'"

lemma hangup_closes:
  assumes "on_media (media_exec (TpHangup u)) w = (r, w')"
  shows "closes u w w'"
proof (cases r)
  case (Inl e)
  then have "transcript (cw_media w') = transcript (cw_media w) @ [(TpHangup u, Inl e)]"
    using assms by (auto simp: on_media_def act_simps media_exec_def split: list.splits)
  with Inl legs_media [OF assms] show ?thesis by (simp add: closes_def refused_def)
qed (use legs_media [OF assms] in \<open>simp add: closes_def\<close>)

lemma closes_cong: "open_legs t = open_legs w \<Longrightarrow> closes u t w' \<Longrightarrow> closes u w w'"
  by (simp add: closes_def)

text \<open>A supervising leg: what each of the two failure paths does with it.\<close>

lemma apply_mode_legs:
  assumes "apply_mode spy cmd p w = (r, w')" "legless cmd"
  shows "if isl r then closes spy w w' else open_legs w' = open_legs w"
proof (cases "on_media (media_exec cmd) w")
  case (Pair q t)
  with legs_media [OF Pair] assms(2) have t: "open_legs t = open_legs w"
    by (simp add: leg_step_legless)
  show ?thesis
  proof (cases q)
    case (Inl e)
    obtain q' t' where h: "on_media (media_exec (TpHangup spy)) t = (q', t')" by fastforce
    with Inl Pair assms(1) have "isl r" "w' = t'"
      by (auto simp: apply_mode_def act_simps tp_drop_def)
    with closes_cong [OF t hangup_closes [OF h]] show ?thesis by simp
  qed (use Pair assms(1) t in \<open>auto simp: apply_mode_def act_simps\<close>)
qed

lemma insert_or_hangup_legs:
  assumes "insert_or_hangup S x w = (r, w')"
  shows "if isl r \<and> svc_tp S \<and> c_ChannelUUID x \<noteq> []
           then closes (c_ChannelUUID x) w w' else open_legs w' = open_legs w"
proof (cases "insert_call S x w")
  case (Pair q t)
  have t: "open_legs t = open_legs w"
    using legs_preserved_parts(3) Pair by (rule preservesD)
  show ?thesis
  proof (cases q)
    case (Inl e)
    obtain q' t' where h: "on_media (media_exec (TpHangup (c_ChannelUUID x))) t = (q', t')" by fastforce
    with Inl Pair assms t closes_cong [OF t hangup_closes [OF h]] show ?thesis
      by (auto simp: insert_or_hangup_def act_simps tp_drop_def split: if_splits)
  qed (use Pair assms t in \<open>auto simp: insert_or_hangup_def act_simps\<close>)
qed

lemma tail_legs:
  assumes "seq_a (insert_or_hangup S m) (seq_a (emit eid m ev d now) (ret_a m)) w = (Inl e, w')"
  shows "if svc_tp S \<and> c_ChannelUUID m \<noteq> []
           then closes (c_ChannelUUID m) w w' else open_legs w' = open_legs w"
proof (cases "insert_or_hangup S m w")
  case (Pair q t)
  with assms have "isl q" "w' = t"
    by (auto simp: act_simps emit_def split: sum.splits)
  with insert_or_hangup_legs [OF Pair] show ?thesis by simp
qed

lemma nil_not_open [simp]: "[] \<notin> set (open_legs w)"
proof -
  have "[] \<notin> set (fold leg_step tr L)" if "[] \<notin> set L" for tr L
    using that
  proof (induction tr arbitrary: L)
    case (Cons e tr)
    have "[] \<notin> set (leg_step e L)"
      using Cons.prems by (cases "(e, L)" rule: leg_step.cases) (auto dest: notin_set_remove1)
    with Cons.IH show ?case by simp
  qed simp
  then show ?thesis by (simp add: open_legs_def)
qed

lemma remove1_nil_legs [simp]: "remove1 [] (open_legs w) = open_legs w"
  by (simp add: remove1_idem)

text \<open>What an operation that fails may leave: nothing, or the one leg whose hangup was refused.\<close>

definition legs_left :: "'d call_world \<Rightarrow> 'd call_world \<Rightarrow> bool" where
  "legs_left w w' \<longleftrightarrow> open_legs w' = open_legs w \<or> (\<exists>u. refused u w' \<and> open_legs w' = u # open_legs w)"

lemma closed_leg:
  "closes u t w' \<Longrightarrow> open_legs t = (if u = [] then open_legs w else u # open_legs w) \<Longrightarrow> legs_left w w'"
  by (auto simp: closes_def legs_left_def split: if_splits)

lemma legs_left_cong: "open_legs t = open_legs w \<Longrightarrow> legs_left t w' \<Longrightarrow> legs_left w w'"
  by (simp add: legs_left_def)

lemma legs_left_same: "open_legs w' = open_legs w \<Longrightarrow> legs_left w w'"
  by (simp add: legs_left_def)

lemma supervise_legs:
  assumes run: "bind_a
       (if b then bind_a (tp_call g (TpOriginate dest cid ctx))
                    (\<lambda>spy. seq_a (act spy) (ret_a (x\<lparr>c_ChannelUUID := spy\<rparr>)))
        else ret_a x)
       (\<lambda>m. seq_a (insert_or_hangup S m) (seq_a (emit eid m ev d now) (ret_a m))) w = (Inl e, w')"
    and act: "\<And>spy t r t'. act spy t = (r, t') \<Longrightarrow>
          if isl r then closes spy t t' else open_legs t' = open_legs t"
    and b: "b \<Longrightarrow> svc_tp S" and x: "c_ChannelUUID x = []"
  shows "legs_left w w'"
proof (cases b)
  case False
  with run have "seq_a (insert_or_hangup S x) (seq_a (emit eid x ev d now) (ret_a x)) w = (Inl e, w')"
    by (simp add: bind_ret_left)
  from tail_legs [OF this] x show ?thesis by (simp add: legs_left_same)
next
  case True
  from run [unfolded bind_a_assoc bind_seq_ret] True
  have "bind_a (tp_call g (TpOriginate dest cid ctx)) (\<lambda>spy. seq_a (act spy)
          (seq_a (insert_or_hangup S (x\<lparr>c_ChannelUUID := spy\<rparr>))
            (seq_a (emit eid (x\<lparr>c_ChannelUUID := spy\<rparr>) ev d now) (ret_a (x\<lparr>c_ChannelUUID := spy\<rparr>))))) w
        = (Inl e, w')"
    by (simp add: bind_a_assoc bind_seq_ret)
  then show ?thesis
  proof (cases rule: bind_aE)
    case (err e')
    then obtain e'' where "on_media (media_exec (TpOriginate dest cid ctx)) w = (Inl e'', w')"
      by (auto simp: tp_call_def act_simps split: prod.splits sum.splits)
    from legs_media [OF this] show ?thesis by (simp add: legs_left_same)
  next
    case (ok spy t)
    then have "on_media (media_exec (TpOriginate dest cid ctx)) w = (Inr spy, t)"
      by (auto simp: tp_call_def act_simps split: prod.splits sum.splits)
    from legs_media [OF this]
    have t: "open_legs t = (if spy = [] then open_legs w else spy # open_legs w)" by simp
    from ok(2) show ?thesis
    proof (cases rule: seq_aE)
      case (err e')
      from act [OF err(1)] have "closes spy t w'" by simp
      from closed_leg [OF this t] show ?thesis .
    next
      case (ok a t')
      from act [OF ok(1)] have same: "open_legs t' = open_legs t" by simp
      show ?thesis
      proof (cases "spy = []")
        case True
        with tail_legs [OF ok(2)] t same show ?thesis by (simp add: legs_left_same)
      next
        case False
        with tail_legs [OF ok(2)] True b have "closes spy t' w'" by simp
        from closed_leg [OF closes_cong [OF same this] t] show ?thesis .
      qed
    qed
  qed
qed

lemma monitor_cmd_legs:
  assumes "(case monitor_cmd mode spy tgt of None \<Rightarrow> ret_a () | Some cmd \<Rightarrow> apply_mode spy cmd p) t = (r, t')"
  shows "if isl r then closes spy t t' else open_legs t' = open_legs t"
proof (cases "monitor_cmd mode spy tgt")
  case None
  with assms show ?thesis by (auto simp: act_simps)
next
  case (Some cmd)
  then have "legless cmd" by (auto simp: monitor_cmd_def legless_def split: if_splits)
  with Some assms apply_mode_legs show ?thesis by fastforce
qed

lemma MonitorCall_legs:
  assumes "MonitorCall S now nid eid tn k sv mode w = (Inl e, w')"
  shows "legs_left w w'"
  using assms unfolding MonitorCall_def
proof (cases rule: bind_aE)
  case (err e')
  with legs_preserved_parts(1) show ?thesis by (auto dest: preservesD intro!: legs_left_same)
next
  case (ok target t)
  with legs_preserved_parts(1) have t: "open_legs t = open_legs w" by (auto dest: preservesD)
  show ?thesis
  proof (cases "c_Status target \<noteq> CallStatusActive \<and> c_Status target \<noteq> CallStatusConference")
    case True
    with ok t show ?thesis by (simp add: act_simps legs_left_same)
  next
    case False
    show ?thesis
    proof (cases "monitor_call_type mode")
      case None
      with ok t False show ?thesis by (auto simp: act_simps legs_left_same)
    next
      case (Some ct)
      from ok(2) [unfolded if_not_P [OF False] Some option.case Let_def]
      have "legs_left t w'"
        by (rule supervise_legs) (auto dest: monitor_cmd_legs simp: call_zero_def)
      from legs_left_cong [OF t this] show ?thesis .
    qed
  qed
qed

lemma CoachCall_legs:
  assumes "CoachCall S now nid eid tn k co secs w = (Inl e, w')"
  shows "legs_left w w'"
  using assms unfolding CoachCall_def
proof (cases rule: bind_aE)
  case (err e')
  with legs_preserved_parts(1) show ?thesis by (auto dest: preservesD intro!: legs_left_same)
next
  case (ok target t)
  with legs_preserved_parts(1) have t: "open_legs t = open_legs w" by (auto dest: preservesD)
  show ?thesis
  proof (cases "c_Status target \<noteq> CallStatusActive")
    case True
    with ok t show ?thesis by (simp add: act_simps legs_left_same)
  next
    case False
    from ok(2) [unfolded if_not_P [OF False] Let_def]
    have "legs_left t w'"
      by (rule supervise_legs) (auto dest: apply_mode_legs simp: call_zero_def legless_def)
    from legs_left_cong [OF t this] show ?thesis .
  qed
qed

lemma done_legs:
  assumes "done_a m w = (Inl e, w')" "\<And>e w'. m w = (Inl e, w') \<Longrightarrow> legs_left w w'"
  shows "legs_left w w'"
  using assms by (auto simp: done_a_def act_simps split: prod.splits sum.splits)

lemma exec_op_legs:
  assumes "exec_op S now nid eid opn w = (Inl e, w')" "\<forall>inp. opn \<noteq> OpOutbound inp"
  shows "legs_left w w'"
  using assms
  by (cases opn)
    (auto elim!: done_legs dest: MonitorCall_legs CoachCall_legs
       legs_quiet_ops [THEN preservesD, THEN legs_left_same] legs_quiet_others [THEN preservesD, THEN legs_left_same])

end
