(* ===== verification/CallProps.thy ===== *)
theory CallProps
  imports CallLegs
begin

text \<open>
  The properties of the call service: the invariant of the stored calls, the refinement of the
  abstract state machine, what failures leave behind, and what ending a call computes.
\<close>

section \<open>Concrete worlds\<close>

definition call_world0 :: "(call table) call_world" where
  "call_world0 = \<lparr>cw_calls = \<lparr>rows = Map.empty, outages = []\<rparr>,
     cw_events = \<lparr>entries = [], journal_outages = []\<rparr>,
     cw_tracking = \<lparr>entries = [], journal_outages = []\<rparr>,
     cw_callbacks = \<lparr>rows = Map.empty, outages = []\<rparr>,
     cw_media = \<lparr>transcript = [], replies = []\<rparr>\<rparr>"

definition inbound0 :: create_call_input where
  "inbound0 = \<lparr>in_TenantID = 1, in_Direction = [], in_CallType = [], in_MediaType = [],
     in_Caller = ''100'', in_Callee = ''200'', in_ChannelUUID = ''u1'', in_AgentUserID = None,
     in_IVRFlowID = None, in_PhoneNumberID = None, in_CarrierID = None, in_SIPTrunkID = None,
     in_CampaignCaseID = None\<rparr>"

lemma call_table_ok_empty [simp]: "call_table_ok Map.empty"
  by (simp add: call_table_ok_def)

section \<open>The invariant and the machine\<close>

text \<open>
  C1. Whatever sequence of operations the service runs, with whatever database failures and
  media replies, every stored call keeps the invariant \<open>call_inv\<close> and its own key.
\<close>

theorem call_table_invariant:
  assumes "call_table_ok (rows (cw_calls w))"
  shows "call_table_ok (rows (cw_calls (run_calls (NewCallService CallRepo tp) reqs w)))"
  using assms by (rule mysql_calls.run_table_ok)

theorem call_table_invariant_witness:
  "call_table_ok (rows (cw_calls (run_calls (NewCallService CallRepo True)
     [(5, 1, 2, OpInbound inbound0), (6, 3, 4, OpEnd 1 HangupNormal None)] call_world0)))"
  by (rule call_table_invariant) (simp add: call_world0_def)

text \<open>
  C2. Refinement: along any run, a stored call is never lost, its status only moves along the
  abstract machine \<open>call_step\<close>, and its hold and transfer counters never decrease.
\<close>

theorem call_refines_machine:
  assumes "call_table_ok (rows (cw_calls w))" and "rows (cw_calls w) k = Some c"
  shows "\<exists>d. rows (cw_calls (run_calls (NewCallService CallRepo tp) reqs w)) k = Some d \<and>
           call_step\<^sup>*\<^sup>* (c_Status c) (c_Status d) \<and>
           c_HoldCount c \<le> c_HoldCount d \<and> c_TransferCount c \<le> c_TransferCount d"
  using mysql_calls.run_row_chain [OF assms] legal_chain_status legal_chain_counts by blast

lemma inbound0_run:
  "rows (cw_calls (run_calls (NewCallService CallRepo True) [(5, 1, 2, OpInbound inbound0)] call_world0)) 1 =
   Some (call_zero\<lparr>c_ID := 1, c_TenantID := 1, c_Direction := DirectionInbound,
     c_CallType := CallTypeNormal, c_MediaType := MediaTypeAudio, c_Caller := ''100'', c_Callee := ''200'',
     c_ChannelUUID := ''u1'', c_Status := CallStatusIVR, c_StartedAt := 5\<rparr>)"
  by (simp add: CreateInboundCall_def inbound0_def call_world0_def NewCallService_def CallRepo_def
      done_a_def insert_call_def emit_def call_world_defs act_simps lift_result_def
      resolveMediaType_def CallRepo_insert_row_def call_zero_def Let_def)

definition call_world1 :: "(call table) call_world" where
  "call_world1 = run_calls (NewCallService CallRepo True) [(5, 1, 2, OpInbound inbound0)] call_world0"

lemma call_world1_ok: "call_table_ok (rows (cw_calls call_world1))"
  unfolding call_world1_def by (rule mysql_calls.run_table_ok) (simp add: call_world0_def)

theorem call_refines_machine_witness:
  "\<exists>d. rows (cw_calls (run_calls (NewCallService CallRepo True) [(6, 3, 4, OpQueue 1 9)] call_world1)) 1 = Some d
     \<and> call_step\<^sup>*\<^sup>* CallStatusIVR (c_Status d) \<and> 0 \<le> c_HoldCount d \<and> 0 \<le> c_TransferCount d"
  using call_refines_machine [OF call_world1_ok, of 1 _ True "[(6, 3, 4, OpQueue 1 9)]"] inbound0_run
  by (fastforce simp: call_world1_def call_zero_def)

text \<open>
  A completed call is final: no later sequence of operations changes its status, its end
  time, its hangup reason or its counters.
\<close>

theorem completed_call_is_final:
  assumes "call_table_ok (rows (cw_calls w))" and "rows (cw_calls w) k = Some c"
    and "c_Status c = CallStatusCompleted"
  shows "\<exists>d. rows (cw_calls (run_calls (NewCallService CallRepo tp) reqs w)) k = Some d \<and>
           c_Status d = CallStatusCompleted \<and> c_EndedAt d = c_EndedAt c \<and>
           c_HangupReason d = c_HangupReason c \<and> c_HoldCount d = c_HoldCount c \<and>
           c_TransferCount d = c_TransferCount c"
  using mysql_calls.run_row_chain [OF assms(1,2)] legal_chain_completed assms(3) by blast

definition call_world2 :: "(call table) call_world" where
  "call_world2 = run_calls (NewCallService CallRepo True)
     [(3000000005, 3, 4, OpEnd 1 HangupBusy (Some HangupByAgent))] call_world1"

lemmas call_run_simps = NewCallService_def CallRepo_def done_a_def insert_call_def save_call_def
  load_call_def emit_run call_world_defs act_simps lift_result_def resolveMediaType_def Let_def

lemma call_world1_eq:
  "call_world1 = call_world0\<lparr>
     cw_calls := \<lparr>rows = [1 \<mapsto> call_zero\<lparr>c_ID := 1, c_TenantID := 1, c_Direction := DirectionInbound,
       c_CallType := CallTypeNormal, c_MediaType := MediaTypeAudio, c_Caller := ''100'', c_Callee := ''200'',
       c_ChannelUUID := ''u1'', c_Status := CallStatusIVR, c_StartedAt := 5\<rparr>], outages = []\<rparr>,
     cw_events := \<lparr>entries = [\<lparr>e_ID = 2, e_CallID = 1, e_TenantID = 1, e_Event = ''call_created'',
       e_Detail = DirectionInbound, e_CreatedAt = 5\<rparr>], journal_outages = []\<rparr>\<rparr>"
  by (simp add: call_world1_def CreateInboundCall_def inbound0_def call_world0_def call_run_simps
      CallRepo_insert_row_def call_zero_def)

lemma call_world2_row:
  "\<exists>c. rows (cw_calls call_world2) 1 = Some c \<and> c_Status c = CallStatusCompleted"
  unfolding call_world2_def call_world1_eq
  by (simp add: EndCall_def call_world0_def call_run_simps call_zero_def)

theorem completed_call_is_final_witness:
  "\<exists>d. rows (cw_calls (run_calls (NewCallService CallRepo True)
     [(7, 8, 9, OpHold 1), (8, 10, 11, OpDisposition 1 ''sale'')] call_world2)) 1 = Some d
     \<and> c_Status d = CallStatusCompleted"
proof -
  obtain c where c: "rows (cw_calls call_world2) 1 = Some c" "c_Status c = CallStatusCompleted"
    using call_world2_row by blast
  have "call_table_ok (rows (cw_calls call_world2))"
    unfolding call_world2_def by (rule mysql_calls.run_table_ok [OF call_world1_ok])
  from completed_call_is_final [OF this c] show ?thesis by blast
qed

section \<open>Failures\<close>

text \<open>
  An operation that returns an error has changed no stored call: the checks, the media
  command and the write happen in that order, and the write is the last thing that can fail.
\<close>

theorem failed_operation_keeps_calls:
  assumes "exec_op (NewCallService CallRepo tp) now nid eid opn w = (Inl e, w')"
  shows "rows (cw_calls w') = rows (cw_calls w)"
  using preserves_errD [OF mysql_calls.failed_op assms] by simp

text \<open>
  C28. An operation that returns an error leaves no FreeSWITCH leg behind that was not open
  before: a supervising leg whose mode command or whose insert fails is hung up again. The one exception is a leg
  whose hangup FreeSWITCH refuses: the code drops that error, the hangup is then the last command sent and its leg is the only one
  that stays. The creation of an outbound call is not among the operations here (\<open>outbound_insert_failure_leaks_leg\<close>).
\<close>

theorem failed_operation_closes_legs:
  assumes "exec_op S now nid eid opn w = (Inl e, w')" "\<forall>inp. opn \<noteq> OpOutbound inp"
  shows "open_legs w' = open_legs w \<or> (\<exists>u. refused u w' \<and> open_legs w' = u # open_legs w)"
  using exec_op_legs [OF assms] unfolding legs_left_def .

text \<open>The exception happens: the mode is refused, and so is the hangup of the leg.\<close>

lemma refused_hangup_leaves_leg:
  "open_legs (snd (exec_op (NewCallService CallRepo True) 9 10 11 (OpMonitor 1 1 77 ''listen'')
      (call_world1\<lparr>cw_calls := (cw_calls call_world1)\<lparr>rows := (rows (cw_calls call_world1))
          (1 \<mapsto> (the (rows (cw_calls call_world1) 1))\<lparr>c_Status := CallStatusActive\<rparr>)\<rparr>,
        cw_media := \<lparr>transcript = [], replies = [Inr ''spy'', Inl ''-ERR'', Inl ''-ERR'']\<rparr>\<rparr>))) = [''spy'']"
  by (simp add: MonitorCall_def call_world1_eq call_world0_def call_run_simps call_zero_def
      monitor_call_type_def monitor_cmd_def apply_mode_def tp_call_def tp_drop_def media_exec_def
      itoa_def nat_str.simps open_legs_def)

lemma call_world1_monitor:
  "\<exists>w'. exec_op (NewCallService CallRepo True) 9 10 11 (OpMonitor 1 1 77 ''listen'')
      (call_world1\<lparr>cw_calls := (cw_calls call_world1)\<lparr>rows := (rows (cw_calls call_world1))
          (1 \<mapsto> (the (rows (cw_calls call_world1) 1))\<lparr>c_Status := CallStatusActive\<rparr>)\<rparr>,
        cw_media := \<lparr>transcript = [], replies = [Inr ''spy'', Inl ''-ERR'']\<rparr>\<rparr>) =
      (Inl (ErrMedia ''monitor listen failed'' ''-ERR''), w') \<and>
      transcript (cw_media w') = [(TpOriginate ''user/77'' ''monitor'' ''default'', Inr ''spy''),
        (TpEavesdrop ''spy'' ''u1'', Inl ''-ERR''), (TpHangup ''spy'', Inr [])]"
  by (simp add: MonitorCall_def call_world1_eq call_world0_def call_run_simps call_zero_def
      monitor_call_type_def monitor_cmd_def apply_mode_def tp_call_def tp_drop_def media_exec_def
      itoa_def nat_str.simps)

theorem failed_operation_closes_legs_witness:
  "\<exists>w w' e. exec_op (NewCallService CallRepo True) 9 10 11 (OpMonitor 1 1 77 ''listen'') w = (Inl e, w')
     \<and> transcript (cw_media w') \<noteq> [] \<and> open_legs w' = open_legs w"
proof -
  let ?w = "call_world1\<lparr>cw_calls := (cw_calls call_world1)\<lparr>rows := (rows (cw_calls call_world1))
          (1 \<mapsto> (the (rows (cw_calls call_world1) 1))\<lparr>c_Status := CallStatusActive\<rparr>)\<rparr>,
        cw_media := \<lparr>transcript = [], replies = [Inr ''spy'', Inl ''-ERR'']\<rparr>\<rparr>"
  obtain w' where w': "exec_op (NewCallService CallRepo True) 9 10 11 (OpMonitor 1 1 77 ''listen'') ?w =
      (Inl (ErrMedia ''monitor listen failed'' ''-ERR''), w')"
    and t: "transcript (cw_media w') = [(TpOriginate ''user/77'' ''monitor'' ''default'', Inr ''spy''),
        (TpEavesdrop ''spy'' ''u1'', Inl ''-ERR''), (TpHangup ''spy'', Inr [])]"
    using call_world1_monitor by blast
  from failed_operation_closes_legs [OF w'] t have "open_legs w' = open_legs ?w" by (auto simp: refused_def)
  with t have "transcript (cw_media w') \<noteq> [] \<and> open_legs w' = open_legs ?w" by simp
  with w' show ?thesis by blast
qed

theorem failed_operation_keeps_calls_witness:
  "\<exists>w w' e. exec_op (NewCallService CallRepo True) 9 10 11 (OpMonitor 1 1 77 ''listen'') w = (Inl e, w')
     \<and> rows (cw_calls w) 1 \<noteq> None \<and> rows (cw_calls w') = rows (cw_calls w)"
proof -
  obtain w' where w': "exec_op (NewCallService CallRepo True) 9 10 11 (OpMonitor 1 1 77 ''listen'')
      (call_world1\<lparr>cw_calls := (cw_calls call_world1)\<lparr>rows := (rows (cw_calls call_world1))
          (1 \<mapsto> (the (rows (cw_calls call_world1) 1))\<lparr>c_Status := CallStatusActive\<rparr>)\<rparr>,
        cw_media := \<lparr>transcript = [], replies = [Inr ''spy'', Inl ''-ERR'']\<rparr>\<rparr>) =
      (Inl (ErrMedia ''monitor listen failed'' ''-ERR''), w')"
    using call_world1_monitor by blast
  from failed_operation_keeps_calls [OF w'] w' show ?thesis by fastforce
qed

text \<open>
  \<open>CreateOutboundCall\<close> originates the leg first and does not hang it up when the INSERT
  fails: the error is returned and the leg stays open, with no call record for it.
\<close>

theorem outbound_insert_failure_leaks_leg:
  assumes "in_Callee inp \<noteq> []" "in_Caller inp \<noteq> []" "resolveMediaType (in_MediaType inp) = Inr mt"
    and "replies (cw_media w) = Inr u # rs" "u \<noteq> []" "outages (cw_calls w) = True # os"
  shows "\<exists>e w'. CreateOutboundCall (NewCallService CallRepo True) now nid eid inp w = (Inl e, w') \<and>
           open_legs w' = u # open_legs w \<and> rows (cw_calls w') = rows (cw_calls w)"
  using assms
  by (simp add: CreateOutboundCall_def call_run_simps tp_call_def media_exec_def sql_defs open_legs_def)

theorem outbound_insert_failure_leaks_leg_witness:
  "\<exists>e w'. CreateOutboundCall (NewCallService CallRepo True) 9 10 11 inbound0
      (call_world0\<lparr>cw_calls := \<lparr>rows = Map.empty, outages = [True]\<rparr>,
         cw_media := \<lparr>transcript = [], replies = [Inr ''leg'']\<rparr>\<rparr>) = (Inl e, w') \<and>
      open_legs w' = [''leg''] \<and> rows (cw_calls w') = Map.empty"
  using outbound_insert_failure_leaks_leg [of inbound0 MediaTypeAudio
      "call_world0\<lparr>cw_calls := \<lparr>rows = Map.empty, outages = [True]\<rparr>,
         cw_media := \<lparr>transcript = [], replies = [Inr ''leg'']\<rparr>\<rparr>" "''leg''" "[]" "[]" 9 10 11]
  by (simp add: inbound0_def resolveMediaType_def open_legs_def)

section \<open>Ending a call\<close>

text \<open>
  On a healthy connection \<open>EndCall\<close> of a call that is not completed returns the completed
  call: total duration from the start to now, waiting time to the answer (or to now when never
  answered), and when the clock is in order the waiting time is at most the duration. The
  stored row agrees, except that \<open>hangup_by\<close> keeps its old value: the UPDATE does not name it.
\<close>

theorem EndCall_healthy:
  assumes "outages (cw_calls w) = []" "rows (cw_calls w) k = Some c" "c_ID c = k"
    and "c_Status c \<noteq> CallStatusCompleted"
    and "c_StartedAt c \<le> now" "\<forall>a. c_AnsweredAt c = Some a \<longrightarrow> c_StartedAt c \<le> a \<and> a \<le> now"
  shows "\<exists>d w'. EndCall (NewCallService CallRepo tp) now eid k reason hby w = (Inr d, w') \<and>
     c_Status d = CallStatusCompleted \<and> c_HangupReason d = Some reason \<and> c_EndedAt d = Some now \<and>
     c_DurationSec d = dur_secs (time_sub now (c_StartedAt c)) \<and>
     0 \<le> c_WaitDurationSec d \<and> c_WaitDurationSec d \<le> c_DurationSec d \<and>
     (c_AnsweredAt c = None \<longrightarrow> c_WaitDurationSec d = c_DurationSec d) \<and>
     rows (cw_calls w') = (rows (cw_calls w))(k \<mapsto> CallRepo_update_row c d) \<and>
     c_HangupBy (CallRepo_update_row c d) = c_HangupBy c \<and>
     (\<forall>b. hby = Some b \<longrightarrow> c_HangupBy d = Some b)"
proof -
  have "0 \<le> dur_secs (time_sub a (c_StartedAt c)) \<and>
        dur_secs (time_sub a (c_StartedAt c)) \<le> dur_secs (time_sub now (c_StartedAt c))"
    if "c_StartedAt c \<le> a" "a \<le> now" for a
    using that by (auto intro!: dur_secs_ge0 dur_secs_mono time_sub_mono)
  with assms show ?thesis
    by (auto simp: EndCall_def call_run_simps dur_secs_ge0 split: option.splits)
qed

theorem EndCall_healthy_witness:
  "\<exists>d w'. EndCall (NewCallService CallRepo True) 9000000005 3 1 HangupBusy (Some HangupByAgent) call_world1
      = (Inr d, w') \<and> c_HangupBy d = Some HangupByAgent \<and>
      c_DurationSec d = dur_secs (time_sub 9000000005 5)"
  using EndCall_healthy [of call_world1 1 _ 9000000005 True 3 HangupBusy "Some HangupByAgent"]
  by (fastforce simp: call_world1_eq call_zero_def)

end
