(* ===== verification/Presence.thy ===== *)
theory Presence
  imports Store Decimal
begin

text \<open>
  Agent presence: \<open>AgentPresenceService\<close> of \<open>internal/domain/identity/service.go\<close>, the types of
  \<open>internal/domain/identity/entity.go\<close> and the statements of
  \<open>internal/infrastructure/mysql/agent_presence_repo.go\<close>. An operation takes \<open>now\<close>, where
  \<open>now i\<close> is its \<open>i\<close>-th reading of the clock, and \<open>ids\<close>, the identifiers it draws.
\<close>

section \<open>Types\<close>

datatype AgentPresenceStatus =
    PresenceOffline | PresenceOnline | PresenceIdle | PresenceBreak | PresenceTalking
  | PresenceACW | PresenceDialing

abbreviation WorkModeOnSite :: string where "WorkModeOnSite \<equiv> ''on_site''"
abbreviation WorkModeOffSite :: string where "WorkModeOffSite \<equiv> ''off_site''"
abbreviation WorkModeOffice :: string where "WorkModeOffice \<equiv> ''office''"

record presence =
  p_ID :: int
  p_TenantID :: int
  p_AgentID :: int
  p_Status :: AgentPresenceStatus
  p_SubState :: string
  p_WorkMode :: string
  p_BreakReasonCode :: string
  p_DispositionCode :: string
  p_CurrentCallID :: "int option"
  p_ACWSeconds :: int
  p_CheckedInAt :: "gotime option"
  p_LastStatusAt :: gotime
  p_UpdatedAt :: gotime

record presence_log =
  pl_ID :: int
  pl_TenantID :: int
  pl_AgentID :: int
  pl_Status :: AgentPresenceStatus
  pl_SubState :: string
  pl_WorkMode :: string
  pl_BreakReasonCode :: string
  pl_DurationSec :: int
  pl_CreatedAt :: gotime

text \<open>\<open>ShiftDate\<close> is the formatted day of \<open>CheckInAt\<close> and is not kept apart.\<close>

record shift_log =
  sh_ID :: int
  sh_TenantID :: int
  sh_AgentID :: int
  sh_CheckInAt :: gotime
  sh_CheckOutAt :: "gotime option"
  sh_TotalOnlineSec :: int

datatype presence_error =
  ErrPresenceNotFound | ErrInvalidStateTransition | ErrInvalidWorkMode | ErrPresenceStore string

section \<open>The rows the upsert stores\<close>

text \<open>
  One row per agent. The INSERT names neither \<open>acw_seconds\<close> (0 in a fresh row), the UPDATE
  neither that nor \<open>checked_in_at\<close>.
\<close>

definition Presence_insert_row :: "presence \<Rightarrow> presence" where
  "Presence_insert_row p = p\<lparr>p_ACWSeconds := 0\<rparr>"

definition Presence_update_row :: "presence \<Rightarrow> presence \<Rightarrow> presence" where
  "Presence_update_row old p = old\<lparr>p_Status := p_Status p, p_SubState := p_SubState p,
     p_WorkMode := p_WorkMode p, p_BreakReasonCode := p_BreakReasonCode p,
     p_DispositionCode := p_DispositionCode p, p_CurrentCallID := p_CurrentCallID p,
     p_LastStatusAt := p_LastStatusAt p, p_UpdatedAt := p_UpdatedAt p\<rparr>"

interpretation presence_table: listed_table p_AgentID Presence_insert_row Presence_update_row
  by unfold_locales (simp_all add: Presence_insert_row_def Presence_update_row_def)

section \<open>The service\<close>

text \<open>
  The wrap-up timers: \<open>acwTimers\<close> maps an agent to the cancel function of its timer, here the
  identifier of the goroutine whose channel it closes; a goroutine waits for its deadline or
  its channel, then runs its last step, the deletion from \<open>acwTimers\<close>.
\<close>

datatype sleeper_phase = Waiting | Leaving

record sleeper =
  sl_id :: nat
  sl_agent :: int
  sl_deadline :: gotime
  sl_stopped :: bool
  sl_phase :: sleeper_phase

record presence_world =
  pw_presence :: "presence ltable"
  pw_logs :: "presence_log journal"
  pw_shifts :: "shift_log ltable"
  pw_timers :: "int \<rightharpoonup> nat"
  pw_sleepers :: "sleeper list"
  pw_next :: nat
  pw_hooked :: "(presence \<times> AgentPresenceStatus) list"

record presence_svc =
  ps_shifts :: bool
  ps_acwResolver :: "(int \<Rightarrow> int \<Rightarrow> int) option"
  ps_changeHooks :: nat

type_synonym 'a pact = "(presence_world, presence_error, 'a) act"

definition on_presence :: "(presence ltable, 'e, 'a) act \<Rightarrow> (presence_world, 'e, 'a) act" where
  "on_presence = zoom_a pw_presence (\<lambda>d w. w\<lparr>pw_presence := d\<rparr>)"

definition on_plogs :: "(presence_log journal, 'e, 'a) act \<Rightarrow> (presence_world, 'e, 'a) act" where
  "on_plogs = zoom_a pw_logs (\<lambda>d w. w\<lparr>pw_logs := d\<rparr>)"

definition on_shifts :: "(shift_log ltable, 'e, 'a) act \<Rightarrow> (presence_world, 'e, 'a) act" where
  "on_shifts = zoom_a pw_shifts (\<lambda>d w. w\<lparr>pw_shifts := d\<rparr>)"

definition load_presence :: "int \<Rightarrow> presence pact" where
  "load_presence agentID = try_a (on_presence (sel_row p_AgentID agentID))
     (\<lambda>r. case r of Inr (Some p) \<Rightarrow> ret_a p | _ \<Rightarrow> throw_a ErrPresenceNotFound)"

definition Upsert :: "presence \<Rightarrow> unit pact" where
  "Upsert p = wrap_a ErrPresenceStore
     (on_presence (upsert_row p_AgentID Presence_insert_row Presence_update_row p))"

fun validTransitions :: "AgentPresenceStatus \<Rightarrow> AgentPresenceStatus list" where
  "validTransitions PresenceOffline = [PresenceOnline]"
| "validTransitions PresenceOnline = [PresenceIdle, PresenceOffline]"
| "validTransitions PresenceIdle = [PresenceDialing, PresenceTalking, PresenceBreak, PresenceOffline]"
| "validTransitions PresenceDialing = [PresenceTalking, PresenceACW, PresenceIdle, PresenceOffline]"
| "validTransitions PresenceTalking = [PresenceACW, PresenceIdle, PresenceOffline]"
| "validTransitions PresenceACW = [PresenceIdle, PresenceOffline]"
| "validTransitions PresenceBreak = [PresenceIdle, PresenceOffline]"

definition isValidTransition :: "AgentPresenceStatus \<Rightarrow> AgentPresenceStatus \<Rightarrow> bool" where
  "isValidTransition src dst \<longleftrightarrow> dst \<in> set (validTransitions src)"

definition logTransition :: "gotime \<Rightarrow> gotime \<Rightarrow> int \<Rightarrow> presence \<Rightarrow> unit pact" where
  "logTransition now0 now1 lid p = ignore_a (on_plogs (journal_add
     \<lparr>pl_ID = lid, pl_TenantID = p_TenantID p, pl_AgentID = p_AgentID p, pl_Status = p_Status p,
      pl_SubState = p_SubState p, pl_WorkMode = p_WorkMode p, pl_BreakReasonCode = p_BreakReasonCode p,
      pl_DurationSec = dur_secs (time_sub now0 (p_LastStatusAt p)), pl_CreatedAt = now1\<rparr>))"

definition stop_sleeper :: "nat \<Rightarrow> sleeper list \<Rightarrow> sleeper list" where
  "stop_sleeper i = map (\<lambda>s. if sl_id s = i then s\<lparr>sl_stopped := True\<rparr> else s)"

definition cancelACWTimer :: "int \<Rightarrow> unit pact" where
  "cancelACWTimer agentID = modify_a (\<lambda>w. case pw_timers w agentID of
       None \<Rightarrow> w
     | Some i \<Rightarrow> w\<lparr>pw_sleepers := stop_sleeper i (pw_sleepers w),
                   pw_timers := (pw_timers w)(agentID := None)\<rparr>)"

definition scheduleACWTimeout :: "gotime \<Rightarrow> int \<Rightarrow> int \<Rightarrow> unit pact" where
  "scheduleACWTimeout now agentID seconds = modify_a (\<lambda>w.
     let sl = (case pw_timers w agentID of
                 None \<Rightarrow> pw_sleepers w | Some i \<Rightarrow> stop_sleeper i (pw_sleepers w))
     in w\<lparr>pw_timers := (pw_timers w)(agentID \<mapsto> pw_next w), pw_next := pw_next w + 1,
          pw_sleepers := sl @ [\<lparr>sl_id = pw_next w, sl_agent = agentID,
             sl_deadline = now + seconds * second, sl_stopped = False, sl_phase = Waiting\<rparr>]\<rparr>)"

definition CheckIn ::
  "presence_svc \<Rightarrow> (nat \<Rightarrow> gotime) \<Rightarrow> (nat \<Rightarrow> int) \<Rightarrow> int \<Rightarrow> int \<Rightarrow> string \<Rightarrow> presence pact" where
  "CheckIn S now ids tenantID agentID workMode =
     (let p = \<lparr>p_ID = ids 0, p_TenantID = tenantID, p_AgentID = agentID, p_Status = PresenceOnline,
               p_SubState = [], p_WorkMode = workMode, p_BreakReasonCode = [], p_DispositionCode = [],
               p_CurrentCallID = None, p_ACWSeconds = 0, p_CheckedInAt = Some (now 0),
               p_LastStatusAt = now 0, p_UpdatedAt = now 0\<rparr>
      in seq_a (Upsert p)
         (seq_a (when_a (ps_shifts S) (ignore_a (on_shifts (ins_row sh_ID (\<lambda>x. x)
            \<lparr>sh_ID = ids 1, sh_TenantID = tenantID, sh_AgentID = agentID, sh_CheckInAt = now 0,
             sh_CheckOutAt = None, sh_TotalOnlineSec = 0\<rparr>))))
         (ret_a p)))"

text \<open>\<open>GetOpenShift\<close>: the open shift with the latest check-in.\<close>

definition latest_open_shift :: "int \<Rightarrow> shift_log list \<Rightarrow> shift_log option" where
  "latest_open_shift agentID shs =
     (case filter (\<lambda>s. sh_AgentID s = agentID \<and> sh_CheckOutAt s = None) shs of
        [] \<Rightarrow> None
      | os \<Rightarrow> Some (last (sort_key sh_CheckInAt os)))"

definition closeShift :: "gotime \<Rightarrow> int \<Rightarrow> unit pact" where
  "closeShift now agentID =
     try_a (on_shifts (sel_all (\<lambda>s. sh_AgentID s = agentID)))
       (\<lambda>r. case r of
          Inl _ \<Rightarrow> ret_a ()
        | Inr shs \<Rightarrow> (case latest_open_shift agentID shs of
            None \<Rightarrow> ret_a ()
          | Some sh \<Rightarrow> ignore_a (on_shifts (upd_rows (\<lambda>s. sh_ID s = sh_ID sh)
              (\<lambda>s. s\<lparr>sh_CheckOutAt := Some now,
                     sh_TotalOnlineSec := dur_secs (time_sub now (sh_CheckInAt sh))\<rparr>)))))"

definition CheckOut :: "presence_svc \<Rightarrow> (nat \<Rightarrow> gotime) \<Rightarrow> (nat \<Rightarrow> int) \<Rightarrow> int \<Rightarrow> unit pact" where
  "CheckOut S now ids agentID =
     bind_a (load_presence agentID) (\<lambda>p.
     seq_a (logTransition (now 0) (now 1) (ids 0) p)
     (seq_a (when_a (ps_shifts S) (closeShift (now 2) agentID))
     (Upsert (p\<lparr>p_Status := PresenceOffline, p_SubState := [], p_CurrentCallID := None,
                p_UpdatedAt := now 2, p_LastStatusAt := now 2\<rparr>))))"

definition entered :: "AgentPresenceStatus \<Rightarrow> gotime \<Rightarrow> presence \<Rightarrow> presence" where
  "entered newStatus now p =
     (let p1 = p\<lparr>p_Status := newStatus\<rparr>;
          p2 = (if newStatus \<noteq> PresenceTalking then p1\<lparr>p_SubState := []\<rparr> else p1);
          p3 = (if newStatus = PresenceIdle \<or> newStatus = PresenceOffline
                then p2\<lparr>p_CurrentCallID := None, p_DispositionCode := [], p_BreakReasonCode := []\<rparr>
                else p2)
      in p3\<lparr>p_UpdatedAt := now, p_LastStatusAt := now\<rparr>)"

definition TransitionTo ::
  "presence_svc \<Rightarrow> (nat \<Rightarrow> gotime) \<Rightarrow> (nat \<Rightarrow> int) \<Rightarrow> int \<Rightarrow> AgentPresenceStatus \<Rightarrow> presence pact" where
  "TransitionTo S now ids agentID newStatus =
     bind_a (load_presence agentID) (\<lambda>p.
     if \<not> isValidTransition (p_Status p) newStatus then throw_a ErrInvalidStateTransition
     else
       seq_a (logTransition (now 0) (now 1) (ids 0) p)
       (seq_a (cancelACWTimer agentID)
       (let p' = entered newStatus (now 2) p
        in seq_a (Upsert p')
           (seq_a (modify_a (\<lambda>w. w\<lparr>pw_hooked := pw_hooked w @ replicate (ps_changeHooks S) (p', p_Status p)\<rparr>))
           (ret_a p')))))"

definition SetSubState :: "(nat \<Rightarrow> gotime) \<Rightarrow> int \<Rightarrow> string \<Rightarrow> presence pact" where
  "SetSubState now agentID subState =
     bind_a (load_presence agentID) (\<lambda>p.
     let p' = p\<lparr>p_SubState := subState, p_UpdatedAt := now 0\<rparr>
     in seq_a (Upsert p') (ret_a p'))"

definition SwitchWorkMode :: "(nat \<Rightarrow> gotime) \<Rightarrow> int \<Rightarrow> string \<Rightarrow> presence pact" where
  "SwitchWorkMode now agentID mode =
     (if mode \<noteq> WorkModeOnSite \<and> mode \<noteq> WorkModeOffSite \<and> mode \<noteq> WorkModeOffice
      then throw_a ErrInvalidWorkMode
      else bind_a (load_presence agentID) (\<lambda>p.
        let p' = p\<lparr>p_WorkMode := mode, p_UpdatedAt := now 0\<rparr>
        in seq_a (Upsert p') (ret_a p')))"

definition SetBreak ::
  "presence_svc \<Rightarrow> (nat \<Rightarrow> gotime) \<Rightarrow> (nat \<Rightarrow> int) \<Rightarrow> int \<Rightarrow> string \<Rightarrow> presence pact" where
  "SetBreak S now ids agentID reasonCode =
     bind_a (TransitionTo S now ids agentID PresenceBreak) (\<lambda>p.
     let p' = p\<lparr>p_BreakReasonCode := reasonCode, p_UpdatedAt := now 3\<rparr>
     in seq_a (Upsert p') (ret_a p'))"

definition SetACW ::
  "presence_svc \<Rightarrow> (nat \<Rightarrow> gotime) \<Rightarrow> (nat \<Rightarrow> int) \<Rightarrow> int \<Rightarrow> string \<Rightarrow> presence pact" where
  "SetACW S now ids agentID dispositionCode =
     bind_a (TransitionTo S now ids agentID PresenceACW) (\<lambda>p.
     let p1 = p\<lparr>p_DispositionCode := dispositionCode\<rparr>;
         p2 = (case ps_acwResolver S of
                 None \<Rightarrow> p1
               | Some resolve \<Rightarrow>
                   (let seconds = resolve (p_TenantID p1) agentID
                    in if seconds > 0 then p1\<lparr>p_ACWSeconds := seconds\<rparr> else p1));
         p3 = p2\<lparr>p_UpdatedAt := now 3\<rparr>
     in seq_a (Upsert p3)
        (seq_a (when_a (p_ACWSeconds p3 > 0) (scheduleACWTimeout (now 4) agentID (p_ACWSeconds p3)))
        (ret_a p3)))"

text \<open>\<open>ResetGhostAgents\<close>: one pass over the rows of the tenant, as read at its start.\<close>

definition ghost_active :: "gotime \<Rightarrow> int \<Rightarrow> presence \<Rightarrow> bool" where
  "ghost_active now maxDuration p \<longleftrightarrow>
     (p_Status p = PresenceTalking \<or> p_Status p = PresenceDialing) \<and>
     time_sub now (p_LastStatusAt p) > maxDuration"

definition ghost_idle :: "gotime \<Rightarrow> int \<Rightarrow> presence \<Rightarrow> bool" where
  "ghost_idle now maxDuration p \<longleftrightarrow>
     (p_Status p = PresenceOnline \<or> p_Status p = PresenceIdle \<or> p_Status p = PresenceACW) \<and>
     time_sub now (p_UpdatedAt p) > 3 * maxDuration"

definition ghost_reset :: "AgentPresenceStatus \<Rightarrow> gotime \<Rightarrow> presence \<Rightarrow> presence" where
  "ghost_reset st now p = p\<lparr>p_Status := st, p_SubState := [], p_CurrentCallID := None,
     p_UpdatedAt := now, p_LastStatusAt := now\<rparr>"

definition ghost_dst :: "gotime \<Rightarrow> int \<Rightarrow> presence \<Rightarrow> AgentPresenceStatus option" where
  "ghost_dst now maxDuration p =
     (if ghost_active now maxDuration p then Some PresenceIdle
      else if ghost_idle now maxDuration p then Some PresenceOffline
      else None)"

fun reset_ghosts ::
  "(nat \<Rightarrow> gotime) \<Rightarrow> (nat \<Rightarrow> int) \<Rightarrow> int \<Rightarrow> nat \<Rightarrow> presence list \<Rightarrow> nat \<Rightarrow> nat pact" where
  "reset_ghosts now ids maxDuration i [] n = ret_a n"
| "reset_ghosts now ids maxDuration i (p # ps) n =
     (case ghost_dst (now 0) maxDuration p of
        None \<Rightarrow> reset_ghosts now ids maxDuration i ps n
      | Some st \<Rightarrow>
          seq_a (logTransition (now (2 * i + 1)) (now (2 * i + 2)) (ids i) p)
          (try_a (Upsert (ghost_reset st (now 0) p)) (\<lambda>r.
             reset_ghosts now ids maxDuration (i + 1) ps (case r of Inr _ \<Rightarrow> n + 1 | Inl _ \<Rightarrow> n))))"

definition ResetGhostAgents :: "(nat \<Rightarrow> gotime) \<Rightarrow> (nat \<Rightarrow> int) \<Rightarrow> int \<Rightarrow> int \<Rightarrow> nat pact" where
  "ResetGhostAgents now ids tenantID maxDuration =
     bind_a (wrap_a ErrPresenceStore (on_presence (sel_all (\<lambda>p. p_TenantID p = tenantID))))
       (\<lambda>ps. reset_ghosts now ids maxDuration 0 ps 0)"

section \<open>The timer goroutines\<close>

text \<open>The deadline branch of the select, the channel branch, and the final deletion.\<close>

definition set_phase :: "nat \<Rightarrow> sleeper list \<Rightarrow> sleeper list" where
  "set_phase i = map (\<lambda>s. if sl_id s = i then s\<lparr>sl_phase := Leaving\<rparr> else s)"

definition acw_fire :: "presence_svc \<Rightarrow> (nat \<Rightarrow> gotime) \<Rightarrow> (nat \<Rightarrow> int) \<Rightarrow> sleeper \<Rightarrow> unit pact" where
  "acw_fire S now ids s =
     seq_a (ignore_a (TransitionTo S now ids (sl_agent s) PresenceIdle))
       (modify_a (\<lambda>w. w\<lparr>pw_sleepers := set_phase (sl_id s) (pw_sleepers w)\<rparr>))"

definition acw_leave :: "sleeper \<Rightarrow> unit pact" where
  "acw_leave s = modify_a (\<lambda>w. w\<lparr>pw_sleepers := set_phase (sl_id s) (pw_sleepers w)\<rparr>)"

definition acw_reap :: "sleeper \<Rightarrow> unit pact" where
  "acw_reap s = modify_a (\<lambda>w. w\<lparr>pw_timers := (pw_timers w)(sl_agent s := None),
     pw_sleepers := filter (\<lambda>x. sl_id x \<noteq> sl_id s) (pw_sleepers w)\<rparr>)"

end
