(* ===== verification/PresenceProps.thy ===== *)
theory PresenceProps
  imports Presence
begin

text \<open>
  Agent presence as a state machine: any interleaving of service operations and of the wrap-up
  timer goroutines, with any pattern of database failures.
\<close>

section \<open>Operations and steps\<close>

datatype pres_op =
    PCheckIn int int string
  | PCheckOut int
  | PTransition int AgentPresenceStatus
  | PSubState int string
  | PWorkMode int string
  | PBreak int string
  | PACW int string
  | PGhosts int int

definition unit_a :: "('s, 'e, 'a) act \<Rightarrow> ('s, 'e, unit) act" where
  "unit_a m = seq_a m (ret_a ())"

fun exec_pres :: "presence_svc \<Rightarrow> (nat \<Rightarrow> gotime) \<Rightarrow> (nat \<Rightarrow> int) \<Rightarrow> pres_op \<Rightarrow> unit pact" where
  "exec_pres S now ids (PCheckIn tn a mode) = unit_a (CheckIn S now ids tn a mode)"
| "exec_pres S now ids (PCheckOut a) = CheckOut S now ids a"
| "exec_pres S now ids (PTransition a st) = unit_a (TransitionTo S now ids a st)"
| "exec_pres S now ids (PSubState a sub) = unit_a (SetSubState now a sub)"
| "exec_pres S now ids (PWorkMode a mode) = unit_a (SwitchWorkMode now a mode)"
| "exec_pres S now ids (PBreak a reason) = unit_a (SetBreak S now ids a reason)"
| "exec_pres S now ids (PACW a code) = unit_a (SetACW S now ids a code)"
| "exec_pres S now ids (PGhosts tn dur) = unit_a (ResetGhostAgents now ids tn dur)"

text \<open>A step bears the operation that made it; \<open>None\<close>: a timer goroutine.\<close>

inductive pres_step :: "presence_svc \<Rightarrow> pres_op option \<Rightarrow> presence_world \<Rightarrow> presence_world \<Rightarrow> bool" for S where
  op: "pres_step S (Some opn) w (snd (exec_pres S now ids opn w))"
| fire: "s \<in> set (pw_sleepers w) \<Longrightarrow> sl_phase s = Waiting \<Longrightarrow> sl_deadline s \<le> now 0 \<Longrightarrow>
    pres_step S None w (snd (acw_fire S now ids s w))"
| stopped: "s \<in> set (pw_sleepers w) \<Longrightarrow> sl_phase s = Waiting \<Longrightarrow> sl_stopped s \<Longrightarrow>
    pres_step S None w (snd (acw_leave s w))"
| reap: "s \<in> set (pw_sleepers w) \<Longrightarrow> sl_phase s = Leaving \<Longrightarrow> pres_step S None w (snd (acw_reap s w))"

definition pres_next :: "presence_svc \<Rightarrow> presence_world \<Rightarrow> presence_world \<Rightarrow> bool" where
  "pres_next S w w' \<longleftrightarrow> (\<exists>ev. pres_step S ev w w')"

section \<open>What an operation may do to the rows\<close>

text \<open>
  The status of a row changes along \<open>validTransitions\<close>, or as \<open>E\<close> lets it, the states that the operation at
  work may set an agent to whatever its status: a check-in its own agent to online, a check-out its own to offline; what
  belongs to a break or to wrap-up is gone outside it; nobody sets a current call, and the
  statements do not write the wrap-up seconds.
\<close>

definition forced :: "pres_op option \<Rightarrow> int \<Rightarrow> AgentPresenceStatus set" where
  "forced ev a = (case ev of
       Some (PCheckIn _ b _) \<Rightarrow> if b = a then {PresenceOnline} else {}
     | Some (PCheckOut b) \<Rightarrow> if b = a then {PresenceOffline} else {}
     | _ \<Rightarrow> {})"

definition pres_move :: "(int \<Rightarrow> AgentPresenceStatus set) \<Rightarrow> int \<Rightarrow> AgentPresenceStatus \<Rightarrow> AgentPresenceStatus \<Rightarrow> bool" where
  "pres_move E a src dst \<longleftrightarrow> isValidTransition src dst \<or> dst \<in> E a"

definition pres_inv :: "presence \<Rightarrow> bool" where
  "pres_inv p \<longleftrightarrow>
     (p_BreakReasonCode p \<noteq> [] \<longrightarrow> p_Status p \<in> {PresenceBreak, PresenceOffline, PresenceOnline}) \<and>
     (p_DispositionCode p \<noteq> [] \<longrightarrow> p_Status p \<in> {PresenceACW, PresenceOffline, PresenceOnline}) \<and>
     p_CurrentCallID p = None \<and> p_ACWSeconds p = 0"

definition pres_rows_ok :: "presence list \<Rightarrow> bool" where
  "pres_rows_ok L \<longleftrightarrow> distinct (map p_AgentID L) \<and> (\<forall>p \<in> set L. pres_inv p)"

text \<open>One write per row, and any number of writes that leave the status alone.\<close>

definition pres_evolves :: "(int \<Rightarrow> AgentPresenceStatus set) \<Rightarrow> presence list \<Rightarrow> presence list \<Rightarrow> bool" where
  "pres_evolves E L L' \<longleftrightarrow> (pres_rows_ok L \<longrightarrow> pres_rows_ok L' \<and>
     (\<forall>p \<in> set L. \<exists>q \<in> set L'. p_AgentID q = p_AgentID p \<and>
        (p_Status q = p_Status p \<or> pres_move E (p_AgentID p) (p_Status p) (p_Status q))))"

lemma pres_evolves_refl [simp]: "pres_evolves E L L"
  by (auto simp: pres_evolves_def)

lemma pres_evolvesD:
  assumes "pres_evolves E L L'" "pres_rows_ok L"
  shows "pres_rows_ok L'"
    and "p \<in> set L \<Longrightarrow> \<exists>q \<in> set L'. p_AgentID q = p_AgentID p \<and>
           (p_Status q = p_Status p \<or> pres_move E (p_AgentID p) (p_Status p) (p_Status q))"
  using assms by (auto simp: pres_evolves_def)

lemma update_row_simps [simp]:
  "p_AgentID (Presence_update_row old p) = p_AgentID old"
  "p_Status (Presence_update_row old p) = p_Status p"
  "p_BreakReasonCode (Presence_update_row old p) = p_BreakReasonCode p"
  "p_DispositionCode (Presence_update_row old p) = p_DispositionCode p"
  "p_CurrentCallID (Presence_update_row old p) = p_CurrentCallID p"
  "p_ACWSeconds (Presence_update_row old p) = p_ACWSeconds old"
  "p_AgentID (Presence_insert_row p) = p_AgentID p"
  "p_Status (Presence_insert_row p) = p_Status p"
  "p_BreakReasonCode (Presence_insert_row p) = p_BreakReasonCode p"
  "p_DispositionCode (Presence_insert_row p) = p_DispositionCode p"
  "p_CurrentCallID (Presence_insert_row p) = p_CurrentCallID p"
  "p_ACWSeconds (Presence_insert_row p) = 0"
  by (simp_all add: Presence_update_row_def Presence_insert_row_def)

abbreviation prows :: "presence_world \<Rightarrow> presence list" where
  "prows w \<equiv> lrows (pw_presence w)"

text \<open>What an upsert does to the list of rows.\<close>

definition put_row :: "presence \<Rightarrow> presence list \<Rightarrow> presence list" where
  "put_row x L = (if find (\<lambda>r. p_AgentID r = p_AgentID x) L = None then L @ [Presence_insert_row x]
                  else map (\<lambda>r. if p_AgentID r = p_AgentID x then Presence_update_row r x else r) L)"

lemma Upsert_run:
  "\<exists>r w'. Upsert x w = (r, w') \<and> pw_timers w' = pw_timers w \<and> pw_sleepers w' = pw_sleepers w \<and>
     (r = Inr () \<and> prows w' = put_row x (prows w) \<or> isl r \<and> prows w' = prows w) \<and>
     (loutages (pw_presence w) = [] \<longrightarrow> r = Inr () \<and> loutages (pw_presence w') = [])"
proof (cases "loutages (pw_presence w)")
  case Nil
  then show ?thesis
    by (simp add: Upsert_def on_presence_def act_simps put_row_def lrow_def)
next
  case (Cons down os)
  then show ?thesis
    by (cases down) (simp_all add: Upsert_def on_presence_def act_simps lsql_defs put_row_def lrow_def)
qed

lemma load_run:
  "\<exists>r w'. load_presence a w = (r, w') \<and> pw_timers w' = pw_timers w \<and> pw_sleepers w' = pw_sleepers w \<and>
     prows w' = prows w \<and> (\<forall>p. r = Inr p \<longrightarrow> p \<in> set (prows w) \<and> p_AgentID p = a)"
proof -
  have found: "p \<in> set (prows w) \<and> p_AgentID p = a"
    if "find (\<lambda>r. p_AgentID r = a) (prows w) = Some p" for p
    using that by (auto simp: find_Some_iff)
  show ?thesis
  proof (cases "loutages (pw_presence w)")
    case Nil
    then show ?thesis using found
      by (auto simp: load_presence_def on_presence_def act_simps lrow_def split: option.split)
  next
    case (Cons down os)
    then show ?thesis using found
      by (cases down)
        (auto simp: load_presence_def on_presence_def act_simps lsql_defs lrow_def split: option.split)
  qed
qed

lemma put_row_known:
  assumes "pres_rows_ok L" "p \<in> set L" "p_AgentID x = p_AgentID p"
  shows "put_row x L = map (\<lambda>r. if r = p then Presence_update_row p x else r) L"
proof -
  from assms(2,3) have "find (\<lambda>r. p_AgentID r = p_AgentID x) L \<noteq> None"
    by (auto simp: find_None_iff)
  moreover from assms have "p_AgentID r = p_AgentID x \<longleftrightarrow> r = p" if "r \<in> set L" for r
    using that by (auto simp: pres_rows_ok_def distinct_map inj_on_def)
  ultimately show ?thesis by (auto simp: put_row_def)
qed

lemma put_row_evolves:
  assumes "pres_rows_ok L \<Longrightarrow> p \<in> set L" "p_AgentID x = p_AgentID p"
    and "pres_inv p \<Longrightarrow> pres_inv (Presence_update_row p x)"
    and "p_Status x = p_Status p \<or> pres_move E (p_AgentID p) (p_Status p) (p_Status x)"
  shows "pres_evolves E L (put_row x L)"
proof (cases "pres_rows_ok L")
  case True
  with assms(1) have p: "p \<in> set L" by simp
  let ?f = "\<lambda>r. if r = p then Presence_update_row p x else r"
  have "map p_AgentID (map ?f L) = map p_AgentID L" by simp
  moreover have "\<forall>q \<in> set (map ?f L). pres_inv q"
    using True assms(3) by (auto simp: pres_rows_ok_def)
  ultimately have "pres_rows_ok (map ?f L)"
    using True by (simp only: pres_rows_ok_def)
  moreover have "\<exists>q \<in> set (map ?f L). p_AgentID q = p_AgentID r \<and>
      (p_Status q = p_Status r \<or> pres_move E (p_AgentID r) (p_Status r) (p_Status q))" if "r \<in> set L" for r
    using that assms(4) by (intro bexI [of _ "?f r"]) auto
  ultimately show ?thesis
    by (simp only: put_row_known [OF True p assms(2)] pres_evolves_def) blast
qed (simp add: pres_evolves_def)

text \<open>A second write over the first: the statement overwrites every column it wrote.\<close>

lemma put_row_twice:
  assumes "p \<in> set L" "p_AgentID x = p_AgentID p" "p_AgentID y = p_AgentID p"
  shows "put_row y (put_row x L) = put_row y L"
proof -
  let ?f = "\<lambda>r. if p_AgentID r = p_AgentID p then Presence_update_row r x else r"
  have 1: "put_row x L = map ?f L"
    using assms by (auto simp: put_row_def find_None_iff)
  have 2: "find (\<lambda>r. p_AgentID r = p_AgentID p) (map ?f L) \<noteq> None"
    using assms by (auto simp: find_None_iff)
  have 3: "Presence_update_row (Presence_update_row r x) y = Presence_update_row r y" for r
    by (simp add: Presence_update_row_def)
  show ?thesis
    unfolding 1 using assms 2 by (auto simp: put_row_def find_None_iff 3)
qed

section \<open>The operations\<close>

lemma log_run:
  "\<exists>w'. logTransition t0 t1 lid p w = (Inr (), w') \<and> prows w' = prows w \<and>
     pw_presence w' = pw_presence w \<and>
     pw_timers w' = pw_timers w \<and> pw_sleepers w' = pw_sleepers w"
  by (auto simp: logTransition_def on_plogs_def act_simps split: prod.split)

lemma TransitionTo_run:
  "\<exists>r w'. TransitionTo S now ids a st w = (r, w') \<and>
     (isl r \<and> prows w' = prows w \<or>
      (\<exists>p \<in> set (prows w). p_AgentID p = a \<and> isValidTransition (p_Status p) st \<and>
         r = Inr (entered st (now 2) p) \<and> prows w' = put_row (entered st (now 2) p) (prows w)))"
proof -
  obtain r1 w1 where l: "load_presence a w = (r1, w1)" "prows w1 = prows w"
    "\<forall>p. r1 = Inr p \<longrightarrow> p \<in> set (prows w) \<and> p_AgentID p = a"
    using load_run by blast
  show ?thesis
  proof (cases r1)
    case (Inl e)
    with l show ?thesis by (simp add: TransitionTo_def act_simps)
  next
    case (Inr p)
    show ?thesis
    proof (cases "isValidTransition (p_Status p) st")
      case False
      with l Inr show ?thesis by (simp add: TransitionTo_def act_simps)
    next
      case True
      obtain w2 where g: "logTransition (now 0) (now 1) (ids 0) p w1 = (Inr (), w2)" "prows w2 = prows w1"
        using log_run by blast
      obtain w3 where c: "cancelACWTimer a w2 = (Inr (), w3)" "prows w3 = prows w2"
        by (auto simp: cancelACWTimer_def act_simps split: option.split)
      obtain r4 w4 where u: "Upsert (entered st (now 2) p) w3 = (r4, w4)"
        "r4 = Inr () \<and> prows w4 = put_row (entered st (now 2) p) (prows w3) \<or> isl r4 \<and> prows w4 = prows w3"
        using Upsert_run by blast
      from l Inr True g c u show ?thesis
        by (cases r4) (auto simp: TransitionTo_def act_simps Let_def)
    qed
  qed
qed

lemma entered_simps [simp]:
  "p_AgentID (entered st t p) = p_AgentID p"
  "p_Status (entered st t p) = st"
  "p_TenantID (entered st t p) = p_TenantID p"
  by (simp_all add: entered_def Let_def)

lemma entered_inv:
  assumes "pres_inv p" "isValidTransition (p_Status p) st"
  shows "pres_inv (Presence_update_row p (entered st t p))"
  using assms by (cases "p_Status p") (auto simp: pres_inv_def isValidTransition_def entered_def Let_def)

lemma pres_move_valid: "isValidTransition s t \<Longrightarrow> pres_move E a s t"
  by (simp add: pres_move_def)

lemma moves_TransitionTo: "moves prows (pres_evolves E) (TransitionTo S now ids a st)"
  unfolding moves_def
proof
  fix w
  from TransitionTo_run [of S now ids a st w]
  show "pres_evolves E (prows w) (prows (snd (TransitionTo S now ids a st w)))"
    by (auto intro!: put_row_evolves simp: entered_inv pres_move_valid)
qed

text \<open>A transition followed by a second write of the row it returned.\<close>

lemma transition_then_write:
  assumes x: "\<And>p. p_AgentID (x p) = p_AgentID p \<and> p_Status (x p) = p_Status p"
    and inv: "\<And>p. pres_inv p \<Longrightarrow> isValidTransition (p_Status p) st \<Longrightarrow>
        pres_inv (Presence_update_row p (x (entered st (now 2) p)))"
    and tail: "\<And>p. preserves prows (k p)"
  shows "moves prows (pres_evolves E)
    (bind_a (TransitionTo S now ids a st) (\<lambda>p. seq_a (Upsert (x p)) (k p)))"
  unfolding moves_def
proof
  fix w
  obtain r w1 where t: "TransitionTo S now ids a st w = (r, w1)"
    and d: "isl r \<and> prows w1 = prows w \<or>
      (\<exists>p \<in> set (prows w). p_AgentID p = a \<and> isValidTransition (p_Status p) st \<and>
         r = Inr (entered st (now 2) p) \<and> prows w1 = put_row (entered st (now 2) p) (prows w))"
    using TransitionTo_run by blast
  show "pres_evolves E (prows w) (prows (snd
      (bind_a (TransitionTo S now ids a st) (\<lambda>p. seq_a (Upsert (x p)) (k p)) w)))"
  proof (cases r)
    case (Inl e)
    with t d show ?thesis by (auto simp: act_simps)
  next
    case (Inr q)
    with d obtain p where p: "p \<in> set (prows w)" "p_AgentID p = a" "isValidTransition (p_Status p) st"
      "q = entered st (now 2) p" "prows w1 = put_row q (prows w)" by auto
    obtain r2 w2 where u: "Upsert (x q) w1 = (r2, w2)"
      "r2 = Inr () \<and> prows w2 = put_row (x q) (prows w1) \<or> isl r2 \<and> prows w2 = prows w1"
      using Upsert_run by blast
    have first: "pres_evolves E (prows w) (put_row q (prows w))"
      unfolding p(4) by (rule put_row_evolves) (use p in \<open>auto simp: entered_inv pres_move_valid\<close>)
    have second: "pres_evolves E (prows w) (put_row (x q) (prows w))"
      using p inv [OF _ p(3)] by (intro put_row_evolves [where p = p]) (auto simp: x pres_move_valid)
    have twice: "put_row (x q) (put_row q (prows w)) = put_row (x q) (prows w)"
      using p by (intro put_row_twice) (auto simp: x)
    from tail [of q] have "prows (snd (k q w2)) = prows w2" by (simp add: preserves_def)
    with t Inr u p(5) first second twice show ?thesis
      by (cases r2) (auto simp: act_simps)
  qed
qed

lemma moves_SetBreak: "moves prows (pres_evolves E) (SetBreak S now ids a reason)"
  unfolding SetBreak_def Let_def
  by (rule transition_then_write)
    (auto simp: preserves_ret pres_inv_def isValidTransition_def entered_def Let_def
      elim: validTransitions.elims)

lemma preserves_schedule: "preserves prows (scheduleACWTimeout t a n)"
  by (simp add: scheduleACWTimeout_def preserves_modify Let_def)

lemma moves_SetACW: "moves prows (pres_evolves E) (SetACW S now ids a code)"
  unfolding SetACW_def Let_def
  by (rule transition_then_write)
    (auto simp: pres_inv_def isValidTransition_def entered_def Let_def
      intro!: frame_intros preserves_schedule split: option.split elim: validTransitions.elims)

lemma moves_presence_load:
  assumes "\<And>p. p_AgentID p = a \<Longrightarrow> moves prows (\<lambda>L L'. p \<in> set L \<longrightarrow> pres_evolves E L L') (f p)"
  shows "moves prows (pres_evolves E) (bind_a (load_presence a) f)"
  unfolding moves_def
proof
  fix w
  obtain r w1 where l: "load_presence a w = (r, w1)" "prows w1 = prows w"
    "\<forall>p. r = Inr p \<longrightarrow> p \<in> set (prows w) \<and> p_AgentID p = a"
    using load_run by blast
  show "pres_evolves E (prows w) (prows (snd (bind_a (load_presence a) f w)))"
  proof (cases r)
    case (Inr p)
    with l have "p_AgentID p = a" "p \<in> set (prows w1)" by auto
    with assms [of p, unfolded moves_def, rule_format, of w1] l Inr show ?thesis
      by (simp add: act_simps)
  qed (use l in \<open>simp add: act_simps\<close>)
qed

lemma moves_Upsert:
  assumes "p_AgentID x = p_AgentID p" "pres_inv p \<Longrightarrow> pres_inv (Presence_update_row p x)"
    and "p_Status x = p_Status p \<or> pres_move E (p_AgentID p) (p_Status p) (p_Status x)"
  shows "moves prows (\<lambda>L L'. p \<in> set L \<longrightarrow> pres_evolves E L L') (Upsert x)"
  unfolding moves_def
proof (intro allI impI)
  fix w assume p: "p \<in> set (prows w)"
  obtain r w' where "Upsert x w = (r, w')"
    "r = Inr () \<and> prows w' = put_row x (prows w) \<or> isl r \<and> prows w' = prows w"
    using Upsert_run by blast
  with p assms show "pres_evolves E (prows w) (prows (snd (Upsert x w)))"
    by (auto intro!: put_row_evolves)
qed

lemma reflp_guard [simp]: "reflp (\<lambda>L L'. p \<in> set L \<longrightarrow> pres_evolves E L L')" "reflp (pres_evolves E)"
  by (simp_all add: reflp_def)

lemma preserves_log: "preserves prows (logTransition t0 t1 lid p)"
  unfolding preserves_def by (metis log_run snd_conv)

lemma preserves_on_shifts [frame_intros]: "preserves prows (on_shifts m)"
  by (simp add: on_shifts_def preserves_zoom_other)

lemma preserves_closeShift: "preserves prows (closeShift t a)"
  by (auto simp: closeShift_def intro!: frame_intros split: sum.split option.split)

lemma moves_CheckOut: "PresenceOffline \<in> E a \<Longrightarrow> moves prows (pres_evolves E) (CheckOut S now ids a)"
  unfolding CheckOut_def
  by (intro moves_presence_load moves_seq_pre preserves_log preserves_when preserves_closeShift
      moves_Upsert reflp_guard)
    (auto simp: pres_inv_def pres_move_def)

lemma moves_SetSubState: "moves prows (pres_evolves E) (SetSubState now a sub)"
  unfolding SetSubState_def Let_def
  by (intro moves_presence_load moves_seq_post moves_Upsert preserves_ret) (auto simp: pres_inv_def)

lemma moves_SwitchWorkMode: "moves prows (pres_evolves E) (SwitchWorkMode now a mode)"
  unfolding SwitchWorkMode_def Let_def
  by (intro moves_if moves_presence_load moves_seq_post moves_Upsert preserves_ret moves_refl
      preserves_throw reflp_guard)
    (auto simp: pres_inv_def)

text \<open>A check-in writes over whatever row there is, or makes one.\<close>

lemma put_new_row:
  assumes "find (\<lambda>r. p_AgentID r = p_AgentID x) L = None" "pres_inv (Presence_insert_row x)"
  shows "pres_evolves E L (put_row x L)"
proof -
  have "put_row x L = L @ [Presence_insert_row x]"
    using assms(1) by (simp add: put_row_def)
  moreover have "p_AgentID x \<notin> set (map p_AgentID L)"
    using assms(1) by (auto simp: find_None_iff)
  ultimately show ?thesis
    using assms(2) by (auto simp: pres_evolves_def pres_rows_ok_def)
qed

lemma moves_CheckIn:
  assumes "PresenceOnline \<in> E a"
  shows "moves prows (pres_evolves E) (CheckIn S now ids tn a mode)"
proof -
  define x where "x = \<lparr>p_ID = ids 0, p_TenantID = tn, p_AgentID = a, p_Status = PresenceOnline,
               p_SubState = [], p_WorkMode = mode, p_BreakReasonCode = [], p_DispositionCode = [],
               p_CurrentCallID = None, p_ACWSeconds = 0, p_CheckedInAt = Some (now 0),
               p_LastStatusAt = now 0, p_UpdatedAt = now 0\<rparr>"
  have "pres_evolves E L (put_row x L)" for L
  proof (cases "find (\<lambda>r. p_AgentID r = p_AgentID x) L")
    case None
    then show ?thesis by (rule put_new_row) (simp add: x_def pres_inv_def)
  next
    case (Some p)
    then have "p \<in> set L" "p_AgentID p = p_AgentID x" by (auto simp: find_Some_iff)
    then show ?thesis
      by (intro put_row_evolves [of _ p]) (use assms in \<open>auto simp: x_def pres_inv_def pres_move_def\<close>)
  qed
  then have "moves prows (pres_evolves E) (Upsert x)"
    unfolding moves_def by (metis Upsert_run pres_evolves_refl snd_conv)
  then show ?thesis
    unfolding CheckIn_def Let_def x_def
    by (intro moves_seq_post preserves_seq preserves_when preserves_ignore preserves_on_shifts preserves_ret)
qed

section \<open>Ghost agents\<close>

definition ghost_new :: "gotime \<Rightarrow> int \<Rightarrow> presence \<Rightarrow> presence" where
  "ghost_new now dur p = (case ghost_dst now dur p of
     None \<Rightarrow> p | Some st \<Rightarrow> Presence_update_row p (ghost_reset st now p))"

lemma ghost_new_agent [simp]: "p_AgentID (ghost_new now dur p) = p_AgentID p"
  by (simp add: ghost_new_def split: option.split)

lemma put_ghost:
  assumes "distinct (map p_AgentID L)" "p \<in> set L" "ghost_dst now dur p = Some st"
  shows "put_row (ghost_reset st now p) L = map (\<lambda>r. if r = p then ghost_new now dur p else r) L"
proof -
  from assms(2) have "find (\<lambda>r. p_AgentID r = p_AgentID p) L \<noteq> None"
    by (auto simp: find_None_iff)
  moreover from assms(1,2) have "p_AgentID r = p_AgentID p \<longleftrightarrow> r = p" if "r \<in> set L" for r
    using that by (auto simp: distinct_map inj_on_def)
  ultimately show ?thesis
    using assms(3) by (auto simp: put_row_def ghost_reset_def ghost_new_def)
qed

lemma reset_ghosts_run:
  assumes "distinct (map p_AgentID (prows w))" "distinct ps" "set ps \<subseteq> set (prows w)"
  shows "\<exists>A w'. reset_ghosts now ids dur i ps n w = (Inr (n + length A), w') \<and> distinct A \<and>
     set A \<subseteq> {p \<in> set ps. ghost_dst (now 0) dur p \<noteq> None} \<and>
     (loutages (pw_presence w) = [] \<longrightarrow> set A = {p \<in> set ps. ghost_dst (now 0) dur p \<noteq> None}) \<and>
     prows w' = map (\<lambda>p. if p \<in> set A then ghost_new (now 0) dur p else p) (prows w)"
  using assms
proof (induction ps arbitrary: w i n)
  case Nil
  then show ?case by (auto simp: act_simps intro!: exI [of _ "[]"])
next
  case (Cons p ps)
  show ?case
  proof (cases "ghost_dst (now 0) dur p")
    case None
    from Cons.IH [of w i n] Cons.prems obtain A w' where
      "reset_ghosts now ids dur i ps n w = (Inr (n + length A), w')" "distinct A"
      "set A \<subseteq> {p \<in> set ps. ghost_dst (now 0) dur p \<noteq> None}"
      "loutages (pw_presence w) = [] \<longrightarrow> set A = {p \<in> set ps. ghost_dst (now 0) dur p \<noteq> None}"
      "prows w' = map (\<lambda>p. if p \<in> set A then ghost_new (now 0) dur p else p) (prows w)" by auto
    with None show ?thesis by (intro exI [of _ A] exI [of _ w']) auto
  next
    case (Some st)
    let ?x = "ghost_reset st (now 0) p" and ?f = "\<lambda>r. if r = p then ghost_new (now 0) dur p else r"
    let ?hit = "\<lambda>ps. {p \<in> set ps. ghost_dst (now 0) dur p \<noteq> None}"
    from Cons.prems have p: "p \<in> set (prows w)" "p \<notin> set ps" "distinct ps" "set ps \<subseteq> set (prows w)"
      by auto
    obtain w1 where g: "logTransition (now (2 * i + 1)) (now (2 * i + 2)) (ids i) p w = (Inr (), w1)"
      "pw_presence w1 = pw_presence w"
      using log_run by blast
    obtain r2 w2 where u: "Upsert ?x w1 = (r2, w2)"
      "r2 = Inr () \<and> prows w2 = put_row ?x (prows w1) \<or> isl r2 \<and> prows w2 = prows w1"
      "loutages (pw_presence w1) = [] \<longrightarrow> r2 = Inr () \<and> loutages (pw_presence w2) = []"
      using Upsert_run by blast
    show ?thesis
    proof (cases "isl r2")
      case True
      with u g(2) have rows: "prows w2 = prows w" and sick: "loutages (pw_presence w) \<noteq> []" by auto
      from Cons.IH [of w2 "i + 1" n] Cons.prems p rows obtain A w' where
        "reset_ghosts now ids dur (i + 1) ps n w2 = (Inr (n + length A), w')" "distinct A"
        "set A \<subseteq> ?hit ps" "prows w' = map (\<lambda>p. if p \<in> set A then ghost_new (now 0) dur p else p) (prows w2)"
        by auto
      with True Some g u rows sick show ?thesis
        by (intro exI [of _ A] exI [of _ w']) (auto simp: act_simps split: sum.splits)
    next
      case False
      with u g(2) put_ghost [OF Cons.prems(1) p(1) Some]
      have rows: "r2 = Inr ()" "prows w2 = map ?f (prows w)" by auto
      have fresh: "ghost_new (now 0) dur p \<notin> set ps"
      proof
        assume h: "ghost_new (now 0) dur p \<in> set ps"
        with p Cons.prems(1) have "ghost_new (now 0) dur p = p"
          by (auto simp: distinct_map inj_on_def dest!: subsetD)
        with h p(2) show False by simp
      qed
      have agents: "map p_AgentID (prows w2) = map p_AgentID (prows w)"
        unfolding rows(2) by simp
      have d: "distinct (map p_AgentID (prows w2))"
        unfolding agents by (rule Cons.prems(1))
      have sub: "set ps \<subseteq> set (prows w2)"
      proof
        fix q assume "q \<in> set ps"
        then have "q \<in> set (prows w)" "q \<noteq> p" using p(2,4) by blast+
        then have "q \<in> ?f ` set (prows w)" by force
        then show "q \<in> set (prows w2)" by (simp only: rows(2) set_map)
      qed
      from Cons.IH [OF d p(3) sub, of "i + 1" "n + 1"] obtain A w' where A:
        "reset_ghosts now ids dur (i + 1) ps (n + 1) w2 = (Inr (n + 1 + length A), w')" "distinct A"
        "set A \<subseteq> ?hit ps" "loutages (pw_presence w2) = [] \<longrightarrow> set A = ?hit ps"
        "prows w' = map (\<lambda>p. if p \<in> set A then ghost_new (now 0) dur p else p) (prows w2)"
        by blast
      have "p \<notin> set A" "ghost_new (now 0) dur p \<notin> set A" using A(3) p(2) fresh by auto
      then have "prows w' = map (\<lambda>q. if q \<in> set (p # A) then ghost_new (now 0) dur q else q) (prows w)"
        unfolding A(5) rows(2) by auto
      with A rows g u Some \<open>p \<notin> set A\<close> show ?thesis
        by (intro exI [of _ "p # A"] exI [of _ w']) (auto simp: act_simps)
    qed
  qed
qed

lemma ghost_new_ok:
  assumes "pres_inv p"
  shows "pres_inv (ghost_new now dur p)"
    and "p_Status (ghost_new now dur p) = p_Status p \<or> pres_move E (p_AgentID p) (p_Status p) (p_Status (ghost_new now dur p))"
  using assms
  by (auto simp: ghost_new_def ghost_dst_def ghost_active_def ghost_idle_def ghost_reset_def
      pres_inv_def pres_move_def isValidTransition_def)

lemma ghosts_evolve: "pres_evolves E L (map (\<lambda>p. if p \<in> A then ghost_new now dur p else p) L)"
proof (cases "pres_rows_ok L")
  case True
  let ?f = "\<lambda>p. if p \<in> A then ghost_new now dur p else p"
  have "map p_AgentID (map ?f L) = map p_AgentID L" by simp
  moreover have "\<forall>q \<in> set (map ?f L). pres_inv q"
    using True ghost_new_ok(1) by (auto simp: pres_rows_ok_def)
  ultimately have "pres_rows_ok (map ?f L)"
    using True by (simp only: pres_rows_ok_def)
  moreover have "\<exists>q \<in> set (map ?f L). p_AgentID q = p_AgentID r \<and>
      (p_Status q = p_Status r \<or> pres_move E (p_AgentID r) (p_Status r) (p_Status q))" if "r \<in> set L" for r
    using that True ghost_new_ok(2) [of r] by (intro bexI [of _ "?f r"]) (auto simp: pres_rows_ok_def)
  ultimately show ?thesis by (simp only: pres_evolves_def) blast
qed (simp add: pres_evolves_def)

lemma list_run:
  "\<exists>r w'. wrap_a ErrPresenceStore (on_presence (sel_all (\<lambda>p. p_TenantID p = tn))) w = (r, w') \<and>
     prows w' = prows w \<and> (\<forall>ps. r = Inr ps \<longrightarrow> ps = filter (\<lambda>p. p_TenantID p = tn) (prows w)) \<and>
     (loutages (pw_presence w) = [] \<longrightarrow> \<not> isl r \<and> loutages (pw_presence w') = [])"
proof (cases "loutages (pw_presence w)")
  case (Cons down os)
  then show ?thesis
    by (cases down) (simp_all add: on_presence_def act_simps lsql_defs)
qed (simp add: on_presence_def act_simps lsql_defs)

lemma ResetGhostAgents_run:
  assumes "distinct (map p_AgentID (prows w))"
  shows "\<exists>r w'. ResetGhostAgents now ids tn dur w = (r, w') \<and>
    (isl r \<and> prows w' = prows w \<and> loutages (pw_presence w) \<noteq> [] \<or>
     (\<exists>A. r = Inr (length A) \<and> distinct A \<and>
       set A \<subseteq> {p \<in> set (prows w). p_TenantID p = tn \<and> ghost_dst (now 0) dur p \<noteq> None} \<and>
       (loutages (pw_presence w) = [] \<longrightarrow>
          set A = {p \<in> set (prows w). p_TenantID p = tn \<and> ghost_dst (now 0) dur p \<noteq> None}) \<and>
       prows w' = map (\<lambda>p. if p \<in> set A then ghost_new (now 0) dur p else p) (prows w)))"
proof -
  let ?ps = "filter (\<lambda>p. p_TenantID p = tn) (prows w)"
  obtain r w1 where l: "wrap_a ErrPresenceStore (on_presence (sel_all (\<lambda>p. p_TenantID p = tn))) w = (r, w1)"
    "prows w1 = prows w" "\<forall>ps. r = Inr ps \<longrightarrow> ps = ?ps"
    "loutages (pw_presence w) = [] \<longrightarrow> \<not> isl r \<and> loutages (pw_presence w1) = []"
    using list_run by blast
  show ?thesis
  proof (cases r)
    case (Inl e)
    with l show ?thesis by (auto simp: ResetGhostAgents_def act_simps(3))
  next
    case (Inr ps)
    with l have ps: "ps = ?ps" by simp
    have "distinct (prows w)" using assms by (simp add: distinct_map)
    then have d: "distinct ps" "set ps \<subseteq> set (prows w1)" "distinct (map p_AgentID (prows w1))"
      using ps l assms by auto
    from reset_ghosts_run [OF d(3,1,2), of now ids dur 0 0] obtain A w' where A:
      "reset_ghosts now ids dur 0 ps 0 w1 = (Inr (length A), w')" "distinct A"
      "set A \<subseteq> {p \<in> set ps. ghost_dst (now 0) dur p \<noteq> None}"
      "loutages (pw_presence w1) = [] \<longrightarrow> set A = {p \<in> set ps. ghost_dst (now 0) dur p \<noteq> None}"
      "prows w' = map (\<lambda>p. if p \<in> set A then ghost_new (now 0) dur p else p) (prows w1)" by auto
    have hits: "{p \<in> set ps. ghost_dst (now 0) dur p \<noteq> None} =
        {p \<in> set (prows w). p_TenantID p = tn \<and> ghost_dst (now 0) dur p \<noteq> None}"
      unfolding ps by auto
    have "ResetGhostAgents now ids tn dur w = (Inr (length A), w')"
      using l(1) Inr A(1) by (simp add: ResetGhostAgents_def act_simps(3))
    moreover have "loutages (pw_presence w) = [] \<longrightarrow> loutages (pw_presence w1) = []" using l(4) by blast
    ultimately show ?thesis
      using A(2-5) unfolding hits l(2) by blast
  qed
qed

lemma moves_ResetGhostAgents: "moves prows (pres_evolves E) (ResetGhostAgents now ids tn dur)"
  unfolding moves_def
proof
  fix w
  show "pres_evolves E (prows w) (prows (snd (ResetGhostAgents now ids tn dur w)))"
  proof (cases "pres_rows_ok (prows w)")
    case True
    then have "distinct (map p_AgentID (prows w))" by (simp add: pres_rows_ok_def)
    from ResetGhostAgents_run [OF this, of now ids tn dur] ghosts_evolve show ?thesis by auto
  qed (simp add: pres_evolves_def)
qed

section \<open>Every step\<close>

lemma moves_unit: "moves prows P m \<Longrightarrow> moves prows P (unit_a m)"
  by (simp add: unit_a_def moves_seq_post preserves_ret)

lemma exec_pres_evolves: "moves prows (pres_evolves (forced (Some opn))) (exec_pres S now ids opn)"
  by (cases opn)
    (simp_all add: forced_def moves_unit moves_CheckIn moves_CheckOut moves_TransitionTo moves_SetSubState
      moves_SwitchWorkMode moves_SetBreak moves_SetACW moves_ResetGhostAgents)

lemma fire_evolves: "moves prows (pres_evolves E) (acw_fire S now ids s)"
  unfolding acw_fire_def
  by (rule moves_seq_post)
    (use moves_TransitionTo in \<open>auto simp: moves_def act_simps(6) intro!: preserves_modify\<close>)

lemma pres_step_evolves: "pres_step S ev w w' \<Longrightarrow> pres_evolves (forced ev) (prows w) (prows w')"
proof (induction rule: pres_step.induct)
  case (op opn w now ids)
  show ?case using exec_pres_evolves [of opn S now ids] by (simp add: moves_def)
next
  case (fire s w now ids)
  show ?case using fire_evolves [of _ S now ids s] by (simp add: moves_def)
qed (simp_all add: acw_leave_def acw_reap_def act_simps)

section \<open>Properties\<close>

lemma pres_steps_ok: "(pres_next S)\<^sup>*\<^sup>* w w' \<Longrightarrow> pres_rows_ok (prows w) \<Longrightarrow> pres_rows_ok (prows w')"
  by (induction rule: rtranclp_induct) (auto simp: pres_next_def dest: pres_step_evolves pres_evolvesD(1))

definition agent0 :: presence where
  "agent0 = \<lparr>p_ID = 1, p_TenantID = 1, p_AgentID = 7, p_Status = PresenceACW, p_SubState = [],
     p_WorkMode = WorkModeOnSite, p_BreakReasonCode = [], p_DispositionCode = ''sale'',
     p_CurrentCallID = None, p_ACWSeconds = 0, p_CheckedInAt = Some 1, p_LastStatusAt = 5,
     p_UpdatedAt = 5\<rparr>"

definition sleeper0 :: sleeper where
  "sleeper0 = \<lparr>sl_id = 0, sl_agent = 7, sl_deadline = 100, sl_stopped = False, sl_phase = Waiting\<rparr>"

definition pres_world0 :: presence_world where
  "pres_world0 = \<lparr>pw_presence = \<lparr>lrows = [agent0], loutages = []\<rparr>,
     pw_logs = \<lparr>entries = [], journal_outages = []\<rparr>, pw_shifts = \<lparr>lrows = [], loutages = []\<rparr>,
     pw_timers = [7 \<mapsto> 0], pw_sleepers = [sleeper0], pw_next = 1, pw_hooked = []\<rparr>"

definition pres_svc0 :: presence_svc where
  "pres_svc0 = \<lparr>ps_shifts = True, ps_acwResolver = None, ps_changeHooks = 0\<rparr>"

lemma pres_world0_ok [simp]: "pres_rows_ok (prows pres_world0)"
  by (simp add: pres_rows_ok_def pres_inv_def pres_world0_def agent0_def)

text \<open>
  C8. The presence of an agent is the state machine of \<open>validTransitions\<close>: in one step of the
  system (an operation, or a timer goroutine, whatever the database does) no row disappears, and
  the status of a row stays, or moves along a valid transition, or the step is a check-in of this very
  agent, which sets it online, or its check-out, which sets it offline.
\<close>

theorem presence_step_machine:
  assumes "pres_step S ev w w'" "pres_rows_ok (prows w)" "p \<in> set (prows w)"
  shows "\<exists>q \<in> set (prows w'). p_AgentID q = p_AgentID p \<and>
    (p_Status q = p_Status p \<or> isValidTransition (p_Status p) (p_Status q) \<or>
     (\<exists>tn mode. ev = Some (PCheckIn tn (p_AgentID p) mode)) \<and> p_Status q = PresenceOnline \<or>
     ev = Some (PCheckOut (p_AgentID p)) \<and> p_Status q = PresenceOffline)"
proof -
  obtain q where q: "q \<in> set (prows w')" "p_AgentID q = p_AgentID p"
    "p_Status q = p_Status p \<or> isValidTransition (p_Status p) (p_Status q) \<or> p_Status q \<in> forced ev (p_AgentID p)"
    using pres_evolvesD(2) [OF pres_step_evolves [OF assms(1)] assms(2,3)] unfolding pres_move_def by blast
  have "s \<in> forced ev a \<Longrightarrow> (\<exists>tn mode. ev = Some (PCheckIn tn a mode)) \<and> s = PresenceOnline \<or>
      ev = Some (PCheckOut a) \<and> s = PresenceOffline" for s a
    by (auto simp: forced_def split: option.splits pres_op.splits if_splits)
  with q show ?thesis by blast
qed

theorem presence_step_machine_witness:
  "\<exists>w'. pres_step pres_svc0 (Some (PTransition 7 PresenceIdle)) pres_world0 w' \<and>
    (\<exists>q \<in> set (prows w'). p_AgentID q = 7 \<and>
      (p_Status q = PresenceACW \<or> isValidTransition PresenceACW (p_Status q)))"
proof -
  have st: "pres_step pres_svc0 (Some (PTransition 7 PresenceIdle)) pres_world0
      (snd (exec_pres pres_svc0 (\<lambda>_. 50) (\<lambda>_. 3) (PTransition 7 PresenceIdle) pres_world0))"
    by (rule pres_step.op)
  have "agent0 \<in> set (prows pres_world0)" by (simp add: pres_world0_def)
  from presence_step_machine [OF st pres_world0_ok this] st show ?thesis
    by (auto simp: agent0_def)
qed

text \<open>
  Along any run of operations and timer goroutines: one row per agent; a break reason only
  in a break and a disposition only in wrap-up (both survive a check-out until the next
  working state); no current call and no wrap-up seconds are ever stored.
\<close>

theorem presence_rows_invariant:
  assumes "(pres_next S)\<^sup>*\<^sup>* w w'" "pres_rows_ok (prows w)"
  shows "distinct (map p_AgentID (prows w')) \<and>
    (\<forall>p \<in> set (prows w').
      (p_BreakReasonCode p = [] \<or> p_Status p \<in> {PresenceBreak, PresenceOffline, PresenceOnline}) \<and>
      (p_DispositionCode p = [] \<or> p_Status p \<in> {PresenceACW, PresenceOffline, PresenceOnline}) \<and>
      p_CurrentCallID p = None \<and> p_ACWSeconds p = 0)"
  using pres_steps_ok [OF assms] by (auto simp: pres_rows_ok_def pres_inv_def)

theorem presence_rows_invariant_witness:
  "distinct (map p_AgentID (prows (snd (exec_pres pres_svc0 (\<lambda>_. 50) (\<lambda>_. 3) (PBreak 7 ''tea'') pres_world0))))"
proof -
  have "(pres_next pres_svc0)\<^sup>*\<^sup>* pres_world0
      (snd (exec_pres pres_svc0 (\<lambda>_. 50) (\<lambda>_. 3) (PBreak 7 ''tea'') pres_world0))"
    by (rule r_into_rtranclp) (unfold pres_next_def, rule exI, rule pres_step.op)
  from presence_rows_invariant [OF this pres_world0_ok] show ?thesis by blast
qed

text \<open>
  \<open>ResetGhostAgents\<close> on a healthy connection resets exactly the stale rows of its tenant:
  it returns how many there are, stuck conversations become idle, silent agents offline, and
  every other row is untouched; with a non-negative limit no stale conversation is left.
\<close>

theorem ResetGhostAgents_exact:
  assumes "loutages (pw_presence w) = []" "pres_rows_ok (prows w)" "0 \<le> dur"
  shows "\<exists>w'. ResetGhostAgents now ids tn dur w =
      (Inr (card {p \<in> set (prows w). p_TenantID p = tn \<and> ghost_dst (now 0) dur p \<noteq> None}), w') \<and>
    prows w' = map (\<lambda>p. if p_TenantID p = tn then ghost_new (now 0) dur p else p) (prows w) \<and>
    (\<forall>p \<in> set (prows w'). p_TenantID p = tn \<longrightarrow> \<not> ghost_active (now 0) dur p)"
proof -
  let ?H = "{p \<in> set (prows w). p_TenantID p = tn \<and> ghost_dst (now 0) dur p \<noteq> None}"
  have "distinct (map p_AgentID (prows w))" using assms(2) by (simp add: pres_rows_ok_def)
  from ResetGhostAgents_run [OF this, of now ids tn dur] assms(1) obtain A w' where A:
    "ResetGhostAgents now ids tn dur w = (Inr (length A), w')" "distinct A" "set A = ?H"
    "prows w' = map (\<lambda>p. if p \<in> set A then ghost_new (now 0) dur p else p) (prows w)"
    by auto
  have eq: "prows w' = map (\<lambda>p. if p_TenantID p = tn then ghost_new (now 0) dur p else p) (prows w)"
    unfolding A(3,4) by (auto simp: ghost_new_def)
  have calm: "\<not> ghost_active (now 0) dur (ghost_new (now 0) dur p)" for p
    using assms(3)
    by (auto simp: ghost_new_def ghost_dst_def ghost_active_def ghost_idle_def ghost_reset_def
        split: option.split if_splits)
  have tenant: "p_TenantID (ghost_new (now 0) dur p) = p_TenantID p" for p
    by (auto simp: ghost_new_def Presence_update_row_def split: option.split)
  from A(2,3) have "length A = card ?H" by (metis distinct_card)
  with A(1) eq calm show ?thesis by (auto simp: tenant split: if_splits)
qed

theorem ResetGhostAgents_exact_witness:
  "\<exists>n w'. ResetGhostAgents (\<lambda>_. 1000) (\<lambda>_. 3) 1 10 pres_world0 = (Inr n, w') \<and>
     (\<forall>p \<in> set (prows w'). p_TenantID p = 1 \<longrightarrow> \<not> ghost_active 1000 10 p)"
proof -
  have "loutages (pw_presence pres_world0) = []" by (simp add: pres_world0_def)
  from ResetGhostAgents_exact [OF this pres_world0_ok, of 10 "\<lambda>_. 1000" "\<lambda>_. 3" 1]
  show ?thesis by auto
qed

section \<open>The wrap-up timer and a check-out\<close>

lemma checkout_frame:
  "preserves (\<lambda>w. (pw_presence w, pw_sleepers w)) (logTransition t0 t1 lid p)"
  "preserves (\<lambda>w. (pw_presence w, pw_sleepers w)) (on_shifts m)"
  by (auto simp: logTransition_def on_plogs_def on_shifts_def
      intro!: preserves_ignore preserves_zoom_other)

lemma closeShift_frame: "preserves (\<lambda>w. (pw_presence w, pw_sleepers w)) (closeShift t a)"
  unfolding closeShift_def
  by (auto intro!: frame_intros checkout_frame split: sum.split option.split)

lemma closeShift_ok: "\<exists>w'. closeShift t a w = (Inr (), w')"
proof (cases "on_shifts (sel_all (\<lambda>s. sh_AgentID s = a)) w :: (string + shift_log list) \<times> presence_world")
  case (Pair r w1)
  show ?thesis
  proof (cases r)
    case (Inr shs)
    with Pair show ?thesis
      by (cases "latest_open_shift a shs") (simp_all add: closeShift_def act_simps)
  qed (use Pair in \<open>simp add: closeShift_def act_simps\<close>)
qed

lemma load_healthy:
  assumes "loutages (pw_presence w) = []" "find (\<lambda>r. p_AgentID r = a) (prows w) = Some p"
  shows "load_presence a w = (Inr p, w)"
  using assms by (simp add: load_presence_def on_presence_def act_simps lrow_def)

lemma Upsert_healthy:
  assumes "loutages (pw_presence w) = []"
  shows "\<exists>w'. Upsert x w = (Inr (), w') \<and> prows w' = put_row x (prows w) \<and>
    loutages (pw_presence w') = [] \<and> pw_sleepers w' = pw_sleepers w"
  using assms by (simp add: Upsert_def on_presence_def act_simps put_row_def lrow_def)

lemma find_put_row:
  "find (\<lambda>r. p_AgentID r = p_AgentID x) (put_row x L) =
     Some (case find (\<lambda>r. p_AgentID r = p_AgentID x) L of
             None \<Rightarrow> Presence_insert_row x | Some old \<Rightarrow> Presence_update_row old x)"
proof (cases "find (\<lambda>r. p_AgentID r = p_AgentID x) L")
  case None
  then show ?thesis by (simp add: put_row_def find_append)
next
  case (Some old)
  have "find (\<lambda>r. p_AgentID r = p_AgentID x)
      (map (\<lambda>r. if p_AgentID r = p_AgentID x then Presence_update_row r x else r) L) =
      map_option (\<lambda>r. if p_AgentID r = p_AgentID x then Presence_update_row r x else r)
        (find (\<lambda>r. p_AgentID r = p_AgentID x) L)"
    by (rule find_map_key) simp
  with Some find_key [OF Some] show ?thesis by (simp add: put_row_def)
qed

lemma CheckOut_healthy:
  assumes "loutages (pw_presence w) = []" "find (\<lambda>r. p_AgentID r = a) (prows w) = Some p"
  shows "\<exists>w'. CheckOut S now ids a w = (Inr (), w') \<and> loutages (pw_presence w') = [] \<and>
    pw_sleepers w' = pw_sleepers w \<and>
    (\<exists>q. find (\<lambda>r. p_AgentID r = a) (prows w') = Some q \<and> p_Status q = PresenceOffline)"
proof -
  have a: "p_AgentID p = a" using assms(2) by (rule find_key)
  obtain w1 where g: "logTransition (now 0) (now 1) (ids 0) p w = (Inr (), w1)"
    using log_run by blast
  have f1: "pw_presence w1 = pw_presence w" "pw_sleepers w1 = pw_sleepers w"
    using preservesD [OF checkout_frame(1) g] by simp_all
  obtain w2 where h: "when_a (ps_shifts S) (closeShift (now 2) a) w1 = (Inr (), w2)"
    using closeShift_ok [of "now 2" a w1] by (cases "ps_shifts S") (auto simp: act_simps)
  have f2: "pw_presence w2 = pw_presence w" "pw_sleepers w2 = pw_sleepers w"
    using preservesD [OF preserves_when [OF closeShift_frame] h] f1 by simp_all
  let ?x = "p\<lparr>p_Status := PresenceOffline, p_SubState := [], p_CurrentCallID := None,
                p_UpdatedAt := now 2, p_LastStatusAt := now 2\<rparr>"
  from f2 assms(1) Upsert_healthy [of w2 ?x] obtain w3 where u: "Upsert ?x w2 = (Inr (), w3)"
    "prows w3 = put_row ?x (prows w)" "loutages (pw_presence w3) = []" "pw_sleepers w3 = pw_sleepers w"
    by auto
  have "find (\<lambda>r. p_AgentID r = a) (prows w3) = Some (Presence_update_row p ?x)"
    using find_put_row [of ?x "prows w"] assms(2) a u(2) by simp
  with load_healthy [OF assms] g h u show ?thesis
    by (auto simp: CheckOut_def act_simps(3,4))
qed

lemma CheckIn_healthy:
  assumes "loutages (pw_presence w) = []"
  shows "\<exists>q w'. CheckIn S now ids tn a mode w = (Inr q, w') \<and> loutages (pw_presence w') = [] \<and>
    pw_sleepers w' = pw_sleepers w \<and>
    (\<exists>r. find (\<lambda>r. p_AgentID r = a) (prows w') = Some r \<and> p_Status r = PresenceOnline)"
proof -
  let ?x = "\<lparr>p_ID = ids 0, p_TenantID = tn, p_AgentID = a, p_Status = PresenceOnline,
               p_SubState = [], p_WorkMode = mode, p_BreakReasonCode = [], p_DispositionCode = [],
               p_CurrentCallID = None, p_ACWSeconds = 0, p_CheckedInAt = Some (now 0),
               p_LastStatusAt = now 0, p_UpdatedAt = now 0\<rparr>"
  let ?shift = "when_a (ps_shifts S) (ignore_a (on_shifts (ins_row sh_ID (\<lambda>x. x)
            \<lparr>sh_ID = ids 1, sh_TenantID = tn, sh_AgentID = a, sh_CheckInAt = now 0,
             sh_CheckOutAt = None, sh_TotalOnlineSec = 0\<rparr>))) :: unit pact"
  from assms Upsert_healthy [of w ?x] obtain w1 where u: "Upsert ?x w = (Inr (), w1)"
    "prows w1 = put_row ?x (prows w)" "loutages (pw_presence w1) = []" "pw_sleepers w1 = pw_sleepers w"
    by blast
  obtain w2 where h: "?shift w1 = (Inr (), w2)"
    by (cases "ps_shifts S") (auto simp: act_simps)
  have f2: "pw_presence w2 = pw_presence w1" "pw_sleepers w2 = pw_sleepers w1"
    using preservesD [OF preserves_when [OF preserves_ignore [OF checkout_frame(2)]] h] by simp_all
  have "p_Status (case find (\<lambda>r. p_AgentID r = p_AgentID ?x) (prows w) of
      None \<Rightarrow> Presence_insert_row ?x | Some old \<Rightarrow> Presence_update_row old ?x) = PresenceOnline"
    by (simp split: option.split)
  with find_put_row [of ?x "prows w"] u(2) f2 have
    "\<exists>r. find (\<lambda>r. p_AgentID r = a) (prows w2) = Some r \<and> p_Status r = PresenceOnline" by simp
  moreover have "CheckIn S now ids tn a mode w = (Inr ?x, w2)"
    using u(1) h by (simp add: CheckIn_def Let_def act_simps(1,4))
  ultimately show ?thesis using u f2 by auto
qed

lemma acw_fire_healthy:
  assumes "loutages (pw_presence w) = []" "find (\<lambda>r. p_AgentID r = sl_agent s) (prows w) = Some p"
    and "isValidTransition (p_Status p) PresenceIdle"
  shows "\<exists>w' q. acw_fire S now ids s w = (Inr (), w') \<and>
    find (\<lambda>r. p_AgentID r = sl_agent s) (prows w') = Some q \<and> p_Status q = PresenceIdle"
proof -
  let ?a = "sl_agent s" and ?x = "entered PresenceIdle (now 2) p"
  have a: "p_AgentID p = ?a" using assms(2) by (rule find_key)
  obtain w1 where g: "logTransition (now 0) (now 1) (ids 0) p w = (Inr (), w1)"
    "pw_presence w1 = pw_presence w"
    using log_run by blast
  obtain w2 where c: "cancelACWTimer ?a w1 = (Inr (), w2)" "pw_presence w2 = pw_presence w1"
    by (auto simp: cancelACWTimer_def act_simps split: option.split)
  from g c assms(1) Upsert_healthy [of w2 ?x] obtain w3 where u: "Upsert ?x w2 = (Inr (), w3)"
    "prows w3 = put_row ?x (prows w)" by auto
  have "find (\<lambda>r. p_AgentID r = ?a) (prows w3) = Some (Presence_update_row p ?x)"
    using find_put_row [of ?x "prows w"] assms(2) a u(2) by simp
  with load_healthy [OF assms(1,2)] assms(3) g c u show ?thesis
    by (simp add: acw_fire_def TransitionTo_def act_simps Let_def)
qed

text \<open>
  A check-out during wrap-up does not stop the wrap-up timer: when the agent checks in
  again before the deadline, the old timer later sets the fresh, merely online agent idle, that
  is, ready for calls.
\<close>

theorem checkout_leaves_wrapup_timer:
  assumes "loutages (pw_presence w) = []" "find (\<lambda>r. p_AgentID r = a) (prows w) = Some p"
    and "s \<in> set (pw_sleepers w)" "sl_agent s = a" "sl_phase s = Waiting" "\<not> sl_stopped s"
    and "sl_deadline s \<le> (n3 :: nat \<Rightarrow> gotime) 0"
  shows "\<exists>w1 w2 w3 q r. CheckOut S n1 i1 a w = (Inr (), w1) \<and>
    CheckIn S n2 i2 tn a mode w1 = (Inr q, w2) \<and> p_Status q = PresenceOnline \<and>
    pres_step S None w2 w3 \<and> find (\<lambda>r. p_AgentID r = a) (prows w3) = Some r \<and> p_Status r = PresenceIdle"
proof -
  obtain w1 where w1: "CheckOut S n1 i1 a w = (Inr (), w1)" "loutages (pw_presence w1) = []"
    "pw_sleepers w1 = pw_sleepers w"
    using CheckOut_healthy [OF assms(1,2)] by blast
  obtain q w2 r where w2: "CheckIn S n2 i2 tn a mode w1 = (Inr q, w2)" "loutages (pw_presence w2) = []"
    "pw_sleepers w2 = pw_sleepers w1" "find (\<lambda>r. p_AgentID r = a) (prows w2) = Some r"
    "p_Status r = PresenceOnline"
    using CheckIn_healthy [OF w1(2)] by blast
  have q: "p_Status q = PresenceOnline"
    using w2(1) by (auto simp: CheckIn_def Let_def act_simps split: prod.splits sum.splits if_splits)
  have "isValidTransition (p_Status r) PresenceIdle" using w2(5) by (simp add: isValidTransition_def)
  from acw_fire_healthy [OF w2(2) _ this, of s S n3 i1] w2(4) assms(4) obtain w3 q' where
    w3: "acw_fire S n3 i1 s w2 = (Inr (), w3)" "find (\<lambda>r. p_AgentID r = a) (prows w3) = Some q'"
      "p_Status q' = PresenceIdle" by auto
  have "pres_step S None w2 (snd (acw_fire S n3 i1 s w2))"
    using assms w1(3) w2(3) by (intro pres_step.fire) auto
  with w1(1) w2(1) w3 q show ?thesis by auto
qed

theorem checkout_leaves_wrapup_timer_witness:
  "\<exists>w1 w2 w3 q r. CheckOut pres_svc0 (\<lambda>_. 10) (\<lambda>_. 4) 7 pres_world0 = (Inr (), w1) \<and>
    CheckIn pres_svc0 (\<lambda>_. 20) (\<lambda>_. 5) 1 7 WorkModeOnSite w1 = (Inr q, w2) \<and> p_Status q = PresenceOnline \<and>
    pres_step pres_svc0 None w2 w3 \<and> find (\<lambda>r. p_AgentID r = 7) (prows w3) = Some r \<and> p_Status r = PresenceIdle"
  by (rule checkout_leaves_wrapup_timer [where p = agent0 and s = sleeper0 and ?n3.0 = "\<lambda>_. 200"])
    (simp_all add: pres_world0_def agent0_def sleeper0_def)

end
