(* ===== verification/FlowGraph.thy ===== *)
theory FlowGraph
  imports Prelude
begin

text \<open>
  The IVR flow graph and its validator: \<open>internal/domain/routing/entity.go\<close> (node types, graph)
  and \<open>internal/domain/routing/validator.go\<close>. The exits of a node are a Go map; they are listed
  here in the order one iteration visits them, and every statement holds for every order.
\<close>

section \<open>Graphs\<close>

abbreviation NodeStart :: string where "NodeStart \<equiv> ''start''"
abbreviation NodePlay :: string where "NodePlay \<equiv> ''play''"
abbreviation NodeCollectDTMF :: string where "NodeCollectDTMF \<equiv> ''collect_dtmf''"
abbreviation NodeBranch :: string where "NodeBranch \<equiv> ''branch''"
abbreviation NodeTransferToAgent :: string where "NodeTransferToAgent \<equiv> ''transfer_to_agent''"
abbreviation NodeTransferToExternal :: string where "NodeTransferToExternal \<equiv> ''transfer_to_external''"
abbreviation NodeBlindTransfer :: string where "NodeBlindTransfer \<equiv> ''blind_transfer''"
abbreviation NodeSetVariable :: string where "NodeSetVariable \<equiv> ''set_variable''"
abbreviation NodeVoicemail :: string where "NodeVoicemail \<equiv> ''voicemail''"
abbreviation NodeHangupReason :: string where "NodeHangupReason \<equiv> ''hangup_reason''"
abbreviation NodeFunction :: string where "NodeFunction \<equiv> ''function''"
abbreviation NodeHTTPRequest :: string where "NodeHTTPRequest \<equiv> ''http_request''"
abbreviation NodeJSONParser :: string where "NodeJSONParser \<equiv> ''json_parser''"
abbreviation NodeSMS :: string where "NodeSMS \<equiv> ''sms''"
abbreviation NodeSatisfactionRating :: string where "NodeSatisfactionRating \<equiv> ''satisfaction_rating''"
abbreviation NodeASR :: string where "NodeASR \<equiv> ''asr''"
abbreviation NodeSubFlow :: string where "NodeSubFlow \<equiv> ''sub_flow''"
abbreviation NodeDigitalEmployee :: string where "NodeDigitalEmployee \<equiv> ''digital_employee''"
abbreviation NodeCallback :: string where "NodeCallback \<equiv> ''callback''"
abbreviation NodeNLU :: string where "NodeNLU \<equiv> ''nlu''"
abbreviation NodeQueuePosition :: string where "NodeQueuePosition \<equiv> ''queue_position''"
abbreviation NodeSentimentGate :: string where "NodeSentimentGate \<equiv> ''sentiment_gate''"
abbreviation NodeCustomerLookup :: string where "NodeCustomerLookup \<equiv> ''customer_lookup''"
abbreviation NodeEnd :: string where "NodeEnd \<equiv> ''end''"

definition AllNodeTypes :: "string list" where
  "AllNodeTypes = [NodeStart, NodePlay, NodeCollectDTMF, NodeBranch,
     NodeTransferToAgent, NodeTransferToExternal, NodeBlindTransfer,
     NodeSetVariable, NodeVoicemail, NodeHangupReason,
     NodeFunction, NodeHTTPRequest, NodeJSONParser, NodeSMS,
     NodeSatisfactionRating, NodeASR, NodeSubFlow, NodeDigitalEmployee,
     NodeCallback, NodeNLU, NodeQueuePosition, NodeSentimentGate, NodeCustomerLookup, NodeEnd]"

text \<open>A configuration value is opaque to the validator; \<open>'cfg\<close> stands for it.\<close>

record 'cfg flow_node =
  n_ID :: string
  n_Type :: string
  n_Config :: 'cfg
  n_Exits :: "(string \<times> string) list"

record flow_edge =
  fe_Source :: string
  fe_SourcePort :: string
  fe_Target :: string

record 'cfg flow_graph =
  g_Nodes :: "'cfg flow_node list"
  g_Edges :: "flow_edge list"

datatype flow_error =
    ErrFlowNotFound | ErrFlowCodeExists | ErrFlowLocked | ErrFlowNotLocked | ErrFlowNotOwner
  | ErrFlowNotDraft | ErrInvalidGraph | ErrNoStartNode | ErrNoEndNode | ErrDisconnectedNode
  | ErrInvalidNodeType | ErrVersionNotFound | ErrFlowStore string

section \<open>The breadth-first search\<close>

text \<open>The targets of the first node with the identifier (\<open>break\<close> leaves the inner loop there).\<close>

definition node_targets :: "'cfg flow_node list \<Rightarrow> string \<Rightarrow> string list" where
  "node_targets ns k = (case find (\<lambda>n. n_ID n = k) ns of None \<Rightarrow> [] | Some n \<Rightarrow> map snd (n_Exits n))"

lemma node_targets_known: "t \<in> set (node_targets ns k) \<Longrightarrow> t \<in> (\<Union>n \<in> set ns. snd ` set (n_Exits n))"
proof (cases "find (\<lambda>n. n_ID n = k) ns")
  case (Some n)
  then have "n \<in> set ns" by (auto simp: find_Some_iff)
  then show "t \<in> set (node_targets ns k) \<Longrightarrow> t \<in> (\<Union>n \<in> set ns. snd ` set (n_Exits n))"
    by (auto simp: node_targets_def Some)
qed (simp add: node_targets_def)

function bfs :: "'cfg flow_node list \<Rightarrow> string list \<Rightarrow> string list \<Rightarrow> string list" where
  "bfs ns [] seen = seen"
| "bfs ns (current # queue) seen =
     (if current \<in> set seen then bfs ns queue seen
      else bfs ns (queue @ filter (\<lambda>t. t \<notin> set (current # seen)) (node_targets ns current))
             (current # seen))"
  by pat_completeness auto

text \<open>Each round marks a name that is new, or shortens the queue.\<close>

definition bfs_names :: "'cfg flow_node list \<Rightarrow> string list \<Rightarrow> string set" where
  "bfs_names ns queue = set queue \<union> (\<Union>n \<in> set ns. snd ` set (n_Exits n))"

lemma bfs_names_finite [simp]: "finite (bfs_names ns queue)"
  by (simp add: bfs_names_def)

termination bfs
proof (relation "inv_image (less_than <*lex*> less_than)
    (\<lambda>(ns, queue, seen). (card (bfs_names ns queue - set seen), length queue))", goal_cases)
  case 1
  show ?case by (intro wf_inv_image wf_lex_prod wf_less_than)
next
  case (2 ns current queue seen)
  then have "bfs_names ns queue - set seen \<subseteq> bfs_names ns (current # queue) - set seen"
    by (auto simp: bfs_names_def)
  then have "card (bfs_names ns queue - set seen) \<le> card (bfs_names ns (current # queue) - set seen)"
    by (intro card_mono) simp_all
  then show ?case by (auto simp: in_lex_prod)
next
  case (3 ns current queue seen)
  let ?q = "queue @ filter (\<lambda>t. t \<notin> set (current # seen)) (node_targets ns current)"
  have "bfs_names ns ?q - set (current # seen) \<subset> bfs_names ns (current # queue) - set seen"
  proof
    show "bfs_names ns ?q - set (current # seen) \<subseteq> bfs_names ns (current # queue) - set seen"
      using node_targets_known [of _ ns current] by (auto simp: bfs_names_def)
    show "bfs_names ns ?q - set (current # seen) \<noteq> bfs_names ns (current # queue) - set seen"
      using 3 by (auto simp: bfs_names_def)
  qed
  then have "card (bfs_names ns ?q - set (current # seen)) < card (bfs_names ns (current # queue) - set seen)"
    by (intro psubset_card_mono) simp_all
  then show ?case by simp
qed

section \<open>The validator\<close>

definition count_type :: "string \<Rightarrow> 'cfg flow_node list \<Rightarrow> nat" where
  "count_type ty ns = length (filter (\<lambda>n. n_Type n = ty) ns)"

definition start_of :: "'cfg flow_node list \<Rightarrow> string" where
  "start_of ns = (case find (\<lambda>n. n_Type n = NodeStart) ns of None \<Rightarrow> [] | Some n \<Rightarrow> n_ID n)"

definition ValidateParsed :: "'cfg flow_graph \<Rightarrow> flow_error + 'cfg flow_graph" where
  "ValidateParsed g =
     (let ns = g_Nodes g; ids = map n_ID ns
      in if length ns = 0 then Inl ErrInvalidGraph
         else if \<not> list_all (\<lambda>n. n_Type n \<in> set AllNodeTypes) ns then Inl ErrInvalidNodeType
         else if count_type NodeStart ns \<noteq> 1 then Inl ErrNoStartNode
         else if count_type NodeEnd ns < 1 then Inl ErrNoEndNode
         else if \<not> list_all (\<lambda>n. list_all (\<lambda>e. snd e \<in> set ids) (n_Exits n)) ns then Inl ErrDisconnectedNode
         else if length (bfs ns [start_of ns] []) \<noteq> length ns then Inl ErrDisconnectedNode
         else Inr g)"

text \<open>\<open>json.Unmarshal\<close> is the parameter \<open>unmarshal\<close>: None is its error.\<close>

definition ValidateGraph :: "('raw \<Rightarrow> 'cfg flow_graph option) \<Rightarrow> 'raw \<Rightarrow> flow_error + 'cfg flow_graph" where
  "ValidateGraph unmarshal raw =
     (case unmarshal raw of None \<Rightarrow> Inl ErrInvalidGraph | Some g \<Rightarrow> ValidateParsed g)"

section \<open>The search is reachability\<close>

lemma bfs_distinct: "distinct seen \<Longrightarrow> distinct (bfs ns queue seen)"
  by (induction ns queue seen rule: bfs.induct) simp_all

lemma bfs_contains: "set seen \<union> set queue \<subseteq> set (bfs ns queue seen)"
  by (induction ns queue seen rule: bfs.induct) auto

definition flow_edges :: "'cfg flow_node list \<Rightarrow> (string \<times> string) set" where
  "flow_edges ns = {(k, t). t \<in> set (node_targets ns k)}"

lemma bfs_sound:
  "x \<in> set (bfs ns queue seen) \<Longrightarrow> x \<in> set seen \<or> (\<exists>q \<in> set queue. (q, x) \<in> (flow_edges ns)\<^sup>*)"
proof (induction ns queue seen rule: bfs.induct)
  case (2 ns current queue seen)
  show ?case
  proof (cases "current \<in> set seen")
    case False
    with 2 have "x \<in> set (current # seen) \<or>
      (\<exists>q \<in> set queue \<union> set (node_targets ns current). (q, x) \<in> (flow_edges ns)\<^sup>*)" by fastforce
    moreover have "(current, x) \<in> (flow_edges ns)\<^sup>*"
      if "q \<in> set (node_targets ns current)" "(q, x) \<in> (flow_edges ns)\<^sup>*" for q
      using that by (auto simp: flow_edges_def intro: converse_rtrancl_into_rtrancl)
    ultimately show ?thesis by auto
  qed (use 2 in auto)
qed simp

lemma bfs_closed:
  assumes "\<forall>x \<in> set seen. \<forall>y \<in> set (node_targets ns x). y \<in> set seen \<union> set queue"
  shows "\<forall>x \<in> set (bfs ns queue seen). \<forall>y \<in> set (node_targets ns x). y \<in> set (bfs ns queue seen)"
  using assms
proof (induction ns queue seen rule: bfs.induct)
  case (2 ns current queue seen)
  show ?case
  proof (cases "current \<in> set seen")
    case True
    with 2(3) have "\<forall>x \<in> set seen. \<forall>y \<in> set (node_targets ns x). y \<in> set seen \<union> set queue"
      by auto
    with 2(1) [OF True] True show ?thesis by simp
  next
    case False
    have "\<forall>x \<in> set (current # seen). \<forall>y \<in> set (node_targets ns x).
      y \<in> set (current # seen) \<union>
        set (queue @ filter (\<lambda>t. t \<notin> set (current # seen)) (node_targets ns current))"
      using 2(3) by auto
    with 2(2) [OF False] False show ?thesis by simp
  qed
qed simp

declare bfs.simps [simp del]

lemma bfs_reachable: "set (bfs ns [s] []) = {x. (s, x) \<in> (flow_edges ns)\<^sup>*}"
proof
  show "set (bfs ns [s] []) \<subseteq> {x. (s, x) \<in> (flow_edges ns)\<^sup>*}"
    using bfs_sound [of _ ns "[s]" "[]"] by auto
  have start: "s \<in> set (bfs ns [s] [])" using bfs_contains [of "[]" "[s]" ns] by simp
  have closed: "\<forall>x \<in> set (bfs ns [s] []). \<forall>y \<in> set (node_targets ns x). y \<in> set (bfs ns [s] [])"
    by (rule bfs_closed) simp
  have "x \<in> set (bfs ns [s] [])" if "(s, x) \<in> (flow_edges ns)\<^sup>*" for x
    using that by (induction rule: rtrancl_induct) (use start closed in \<open>auto simp: flow_edges_def\<close>)
  then show "{x. (s, x) \<in> (flow_edges ns)\<^sup>*} \<subseteq> set (bfs ns [s] [])" by auto
qed

section \<open>What a valid graph is\<close>

definition valid_graph :: "'cfg flow_graph \<Rightarrow> bool" where
  "valid_graph g \<longleftrightarrow> (let ns = g_Nodes g in
     distinct (map n_ID ns) \<and>
     (\<forall>n \<in> set ns. n_Type n \<in> set AllNodeTypes) \<and>
     (\<exists>s \<in> set ns. n_Type s = NodeStart \<and> (\<forall>n \<in> set ns. n_Type n = NodeStart \<longrightarrow> n = s) \<and>
        (\<forall>n \<in> set ns. (n_ID s, n_ID n) \<in> (flow_edges ns)\<^sup>*)) \<and>
     (\<exists>n \<in> set ns. n_Type n = NodeEnd) \<and>
     (\<forall>n \<in> set ns. \<forall>e \<in> set (n_Exits n). snd e \<in> n_ID ` set ns))"

lemma count_type_1:
  assumes "count_type ty ns = 1"
  obtains s where "s \<in> set ns" "n_Type s = ty" "\<forall>n \<in> set ns. n_Type n = ty \<longrightarrow> n = s"
    "find (\<lambda>n. n_Type n = ty) ns = Some s"
proof -
  from assms obtain s where s: "filter (\<lambda>n. n_Type n = ty) ns = [s]"
    by (auto simp: count_type_def length_Suc_conv)
  then have "{n \<in> set ns. n_Type n = ty} = {s}" by (metis empty_set list.simps(15) set_filter)
  moreover have "find (\<lambda>n. n_Type n = ty) ns = Some s"
    using s by (induction ns) (auto split: if_splits)
  ultimately show ?thesis using that by blast
qed

lemma count_type_pos: "1 \<le> count_type ty ns \<longleftrightarrow> (\<exists>n \<in> set ns. n_Type n = ty)"
  by (auto simp: count_type_def Suc_le_eq filter_empty_conv)

lemma bfs_within:
  assumes "\<forall>n \<in> set ns. \<forall>e \<in> set (n_Exits n). snd e \<in> n_ID ` set ns" "s \<in> n_ID ` set ns"
  shows "set (bfs ns [s] []) \<subseteq> n_ID ` set ns"
proof
  fix x assume "x \<in> set (bfs ns [s] [])"
  then have "(s, x) \<in> (flow_edges ns)\<^sup>*" by (simp add: bfs_reachable)
  then show "x \<in> n_ID ` set ns"
    by (induction rule: rtrancl_induct)
      (use assms in \<open>auto simp: flow_edges_def dest!: node_targets_known\<close>)
qed

theorem ValidateParsed_valid:
  "(\<exists>r. ValidateParsed g = Inr r) \<longleftrightarrow> valid_graph g"
proof -
  define ns where "ns = g_Nodes g"
  let ?R = "bfs ns [start_of ns] []"
  have dR: "distinct ?R" by (rule bfs_distinct) simp
  have ok: "(\<exists>r. ValidateParsed g = Inr r) \<longleftrightarrow>
      (\<forall>n \<in> set ns. n_Type n \<in> set AllNodeTypes) \<and> count_type NodeStart ns = 1 \<and> 1 \<le> count_type NodeEnd ns \<and>
      (\<forall>n \<in> set ns. \<forall>e \<in> set (n_Exits n). snd e \<in> n_ID ` set ns) \<and> length ?R = length ns"
    by (auto simp: ValidateParsed_def Let_def ns_def list_all_iff count_type_def Suc_le_eq)
  show ?thesis
  proof
    assume "\<exists>r. ValidateParsed g = Inr r"
    with ok have h: "\<forall>n \<in> set ns. n_Type n \<in> set AllNodeTypes" "count_type NodeStart ns = 1"
      "1 \<le> count_type NodeEnd ns" "\<forall>n \<in> set ns. \<forall>e \<in> set (n_Exits n). snd e \<in> n_ID ` set ns"
      "length ?R = length ns" by blast+
    obtain s where s: "s \<in> set ns" "n_Type s = NodeStart" "\<forall>n \<in> set ns. n_Type n = NodeStart \<longrightarrow> n = s"
      "find (\<lambda>n. n_Type n = NodeStart) ns = Some s"
      by (rule count_type_1 [OF h(2)])
    have st: "start_of ns = n_ID s" by (simp add: start_of_def s)
    have "set ?R \<subseteq> n_ID ` set ns" unfolding st by (rule bfs_within [OF h(4)]) (use s(1) in blast)
    moreover have "card (set ?R) = length ns" using h(5) distinct_card [OF dR] by simp
    moreover have "card (n_ID ` set ns) \<le> length ns"
      using card_length [of "map n_ID ns"] by simp
    ultimately have all: "set ?R = n_ID ` set ns"
      by (metis card_seteq finite_imageI finite_set)
    with \<open>card (set ?R) = length ns\<close> have "distinct (map n_ID ns)"
      by (simp add: card_distinct)
    moreover have "\<forall>n \<in> set ns. (n_ID s, n_ID n) \<in> (flow_edges ns)\<^sup>*"
      using all unfolding bfs_reachable st by blast
    moreover have "\<exists>n \<in> set ns. n_Type n = NodeEnd"
      using h(3) by (simp only: count_type_pos)
    ultimately show "valid_graph g"
      unfolding valid_graph_def Let_def ns_def [symmetric] using h(1,4) s(1-3) by blast
  next
    assume "valid_graph g"
    then obtain s where v: "distinct (map n_ID ns)" "\<forall>n \<in> set ns. n_Type n \<in> set AllNodeTypes"
      "s \<in> set ns" "n_Type s = NodeStart" "\<forall>n \<in> set ns. n_Type n = NodeStart \<longrightarrow> n = s"
      "\<forall>n \<in> set ns. (n_ID s, n_ID n) \<in> (flow_edges ns)\<^sup>*" "\<exists>n \<in> set ns. n_Type n = NodeEnd"
      "\<forall>n \<in> set ns. \<forall>e \<in> set (n_Exits n). snd e \<in> n_ID ` set ns"
      unfolding valid_graph_def Let_def ns_def [symmetric] by blast
    have "distinct ns" using v(1) by (simp add: distinct_map)
    then have "card (set (filter (\<lambda>n. n_Type n = NodeStart) ns)) =
        length (filter (\<lambda>n. n_Type n = NodeStart) ns)"
      by (intro distinct_card distinct_filter)
    moreover have "{n \<in> set ns. n_Type n = NodeStart} = {s}" using v(3-5) by blast
    ultimately have "length (filter (\<lambda>n. n_Type n = NodeStart) ns) = card {s}"
      by (simp only: set_filter)
    then have one: "count_type NodeStart ns = 1" by (simp add: count_type_def)
    obtain s' where s': "s' \<in> set ns" "n_Type s' = NodeStart"
      "find (\<lambda>n. n_Type n = NodeStart) ns = Some s'"
      by (rule count_type_1 [OF one])
    with v(5) have "s' = s" by blast
    with s'(3) have st: "start_of ns = n_ID s" by (simp add: start_of_def)
    have "set ?R = n_ID ` set ns"
      unfolding st
    proof
      show "set (bfs ns [n_ID s] []) \<subseteq> n_ID ` set ns"
        by (rule bfs_within [OF v(8)]) (use v(3) in blast)
      show "n_ID ` set ns \<subseteq> set (bfs ns [n_ID s] [])"
        unfolding bfs_reachable using v(6) by blast
    qed
    then have "length ?R = card (set (map n_ID ns))" using distinct_card [OF dR] by simp
    also have "\<dots> = length ns" using distinct_card [OF v(1)] by simp
    finally show "\<exists>r. ValidateParsed g = Inr r"
      unfolding ok using one v(2,7,8) count_type_pos [of NodeEnd ns] by blast
  qed
qed

end
