(* ===== verification/Tables.thy ===== *)
theory Tables
  imports Store
begin

text \<open>
  A service and its tables: the read, insert and update a Go service performs through a
  repository that is one component of its world, and what a sequence of them can do to the rows.
\<close>

section \<open>Read, insert, update inside a world\<close>

text \<open>\<open>x, err := repo.GetByID(id); if err != nil || x == nil { return ErrNotFound }\<close>\<close>

definition fetch_a ::
  "('w \<Rightarrow> 'd) \<Rightarrow> ('d \<Rightarrow> 'w \<Rightarrow> 'w) \<Rightarrow> ('d, 'r) repo \<Rightarrow> 'e \<Rightarrow> int \<Rightarrow> ('w, 'e, 'r) act" where
  "fetch_a get put R e k = try_a (zoom_a get put (repo_get R k))
     (\<lambda>r. case r of Inr (Some x) \<Rightarrow> ret_a x | _ \<Rightarrow> throw_a e)"

definition store_a ::
  "('w \<Rightarrow> 'd) \<Rightarrow> ('d \<Rightarrow> 'w \<Rightarrow> 'w) \<Rightarrow> ('d, 'r) repo \<Rightarrow> (string \<Rightarrow> 'e) \<Rightarrow> 'r \<Rightarrow> ('w, 'e, unit) act" where
  "store_a get put R g x = wrap_a g (zoom_a get put (repo_update R x))"

definition insert_a ::
  "('w \<Rightarrow> 'd) \<Rightarrow> ('d \<Rightarrow> 'w \<Rightarrow> 'w) \<Rightarrow> ('d, 'r) repo \<Rightarrow> (string \<Rightarrow> 'e) \<Rightarrow> 'r \<Rightarrow> ('w, 'e, unit) act" where
  "insert_a get put R g x = wrap_a g (zoom_a get put (repo_create R x))"

section \<open>How rows evolve\<close>

text \<open>
  \<open>I\<close> is an invariant of every row, \<open>E\<close> what one operation may do to a row, \<open>B\<close> what a new row
  looks like; a table in which every row has its key and \<open>I\<close> stays one, rows do not disappear.
\<close>

definition rows_ok :: "('r \<Rightarrow> int) \<Rightarrow> ('r \<Rightarrow> bool) \<Rightarrow> (int \<rightharpoonup> 'r) \<Rightarrow> bool" where
  "rows_ok key I T \<longleftrightarrow> (\<forall>k x. T k = Some x \<longrightarrow> key x = k \<and> I x)"

definition evolves ::
  "('r \<Rightarrow> int) \<Rightarrow> ('r \<Rightarrow> bool) \<Rightarrow> ('r \<Rightarrow> 'r \<Rightarrow> bool) \<Rightarrow> ('r \<Rightarrow> bool) \<Rightarrow> (int \<rightharpoonup> 'r) \<Rightarrow> (int \<rightharpoonup> 'r) \<Rightarrow> bool" where
  "evolves key I E B T T' \<longleftrightarrow> (rows_ok key I T \<longrightarrow> rows_ok key I T' \<and>
     (\<forall>k. (\<forall>x. T k = Some x \<longrightarrow> (\<exists>y. T' k = Some y \<and> E x y)) \<and>
          (\<forall>y. T k = None \<longrightarrow> T' k = Some y \<longrightarrow> B y)))"

lemma evolvesD:
  assumes "evolves key I E B T T'" "rows_ok key I T"
  shows "rows_ok key I T'" and "T k = Some x \<Longrightarrow> \<exists>y. T' k = Some y \<and> E x y"
  using assms by (auto simp: evolves_def)

locale world_table = keyed_repository R row key kept fresh
  for R :: "('d, 'r) repo" and row key kept fresh +
  fixes get :: "'w \<Rightarrow> 'd" and put :: "'d \<Rightarrow> 'w \<Rightarrow> 'w"
    and I :: "'r \<Rightarrow> bool" and E :: "'r \<Rightarrow> 'r \<Rightarrow> bool" and B :: "'r \<Rightarrow> bool"
  assumes get_put: "get (put d w) = d" and E_refl: "E x x"
begin

lemma refl_evolves [simp]: "evolves key I E B T T"
  using E_refl by (auto simp: evolves_def)

lemma reflp_evolves [simp]: "reflp (evolves key I E B)"
  "reflp (\<lambda>T T'. T k = Some x \<longrightarrow> evolves key I E B T T')"
  by (simp_all add: reflp_def)

lemma preserves_fetch [frame_intros]: "preserves (\<lambda>w. row (get w)) (fetch_a get put R e k)"
  unfolding fetch_a_def
  by (intro preserves_try preserves_zoom [where g = row] preserves_get)
    (auto intro: frame_intros simp: get_put split: sum.split option.split)

lemma fetch_row:
  assumes "fetch_a get put R e k w = (Inr x, w')"
  shows "row (get w) k = Some x \<and> row (get w') = row (get w)"
  using assms
  by (auto simp: fetch_a_def act_simps get_put split: prod.splits sum.splits option.splits
      dest: get_row get_frame)

lemma moves_quiet:
  "preserves (\<lambda>w. row (get w)) m \<Longrightarrow> reflp P \<Longrightarrow> moves (\<lambda>w. row (get w)) P m"
  by (simp add: moves_refl)

lemma moves_throw: "reflp P \<Longrightarrow> moves (\<lambda>w. row (get w)) P (throw_a err)"
  and moves_ret: "reflp P \<Longrightarrow> moves (\<lambda>w. row (get w)) P (ret_a a)"
  by (simp_all add: moves_refl preserves_throw preserves_ret)

text \<open>Read a row, then act on it.\<close>

lemma moves_fetch:
  assumes "\<And>x. moves (\<lambda>w. row (get w)) (\<lambda>T T'. T k = Some x \<longrightarrow> evolves key I E B T T') (f x)"
  shows "moves (\<lambda>w. row (get w)) (evolves key I E B) (bind_a (fetch_a get put R e k) f)"
  unfolding moves_def
proof
  fix w
  show "evolves key I E B (row (get w)) (row (get (snd (bind_a (fetch_a get put R e k) f w))))"
  proof (cases "fetch_a get put R e k w")
    case (Pair r t)
    show ?thesis
    proof (cases r)
      case (Inl err)
      with Pair preservesD [OF preserves_fetch Pair] show ?thesis by (simp add: act_simps)
    next
      case (Inr x)
      with Pair fetch_row [of e k w x t] assms [of x, unfolded moves_def, rule_format, of t]
      show ?thesis by (simp add: act_simps)
    qed
  qed
qed

text \<open>Write back a row that was read.\<close>

lemma moves_store:
  assumes "key x = key old" "I old \<Longrightarrow> I (kept old x)" "I old \<Longrightarrow> E old (kept old x)"
  shows "moves (\<lambda>w. row (get w)) (\<lambda>T T'. T k = Some old \<longrightarrow> evolves key I E B T T') (store_a get put R g x)"
  unfolding moves_def
proof (intro allI impI)
  fix w assume k: "row (get w) k = Some old"
  show "evolves key I E B (row (get w)) (row (get (snd (store_a get put R g x w))))"
  proof (cases "repo_update R x (get w)")
    case (Pair r d)
    show ?thesis
    proof (cases r)
      case (Inl err)
      with Pair update_err [of x "get w" err d] show ?thesis
        by (simp add: store_a_def act_simps get_put)
    next
      case (Inr u)
      with Pair have d: "row (get (snd (store_a get put R g x w))) = row d"
        by (simp add: store_a_def act_simps get_put)
      show ?thesis
      proof (cases "rows_ok key I (row (get w))")
        case True
        with k have "key old = k" "I old" by (auto simp: rows_ok_def)
        with assms k update_same [of x "get w" u d old] update_other [of x "get w" u d] Pair Inr
        have "row d = (row (get w))(k \<mapsto> kept old x)" by (auto simp: fun_eq_iff)
        with True k \<open>key old = k\<close> \<open>I old\<close> assms E_refl show ?thesis
          unfolding d by (auto simp: evolves_def rows_ok_def kept_key)
      qed (simp add: evolves_def)
    qed
  qed
qed

lemma moves_insert:
  assumes "I (fresh x)" "B (fresh x)"
  shows "moves (\<lambda>w. row (get w)) (evolves key I E B) (insert_a get put R g x)"
  unfolding moves_def
proof
  fix w
  show "evolves key I E B (row (get w)) (row (get (snd (insert_a get put R g x w))))"
  proof (cases "repo_create R x (get w)")
    case (Pair r d)
    show ?thesis
    proof (cases r)
      case (Inl err)
      with Pair create_err [of x "get w" err d] show ?thesis
        by (simp add: insert_a_def act_simps get_put)
    next
      case (Inr u)
      with Pair create_row [of x "get w" u d]
      have "row (get w) (key x) = None" "row d = (row (get w))(key x \<mapsto> fresh x)" by auto
      with assms E_refl Pair Inr show ?thesis
        by (auto simp: insert_a_def act_simps get_put evolves_def rows_ok_def fresh_key)
    qed
  qed
qed

text \<open>A write under a key no row can have changes nothing.\<close>

lemma moves_store_absent:
  assumes "\<And>y. I y \<Longrightarrow> key y \<noteq> key x"
  shows "moves (\<lambda>w. row (get w)) (evolves key I E B) (store_a get put R g x)"
  unfolding moves_def
proof
  fix w
  show "evolves key I E B (row (get w)) (row (get (snd (store_a get put R g x w))))"
  proof (cases "rows_ok key I (row (get w))")
    case True
    with assms have none: "row (get w) (key x) = None"
      by (metis not_None_eq rows_ok_def)
    have "row (snd (repo_update R x (get w))) = row (get w)"
    proof (cases "repo_update R x (get w)")
      case (Pair r d)
      with none update_row [of x "get w" _ d] update_err [of x "get w" _ d] show ?thesis
        by (cases r) auto
    qed
    then show ?thesis
      using refl_evolves by (auto simp: store_a_def act_simps get_put split: prod.splits sum.splits)
  qed (simp add: evolves_def)
qed

text \<open>The shape most operations have: read, check, write back, return.\<close>

lemma moves_stored:
  assumes "key x = key old" "I old \<Longrightarrow> I (kept old x)" "I old \<Longrightarrow> E old (kept old x)"
    and "preserves (\<lambda>w. row (get w)) m"
  shows "moves (\<lambda>w. row (get w)) (\<lambda>T T'. T k = Some old \<longrightarrow> evolves key I E B T T')
    (seq_a (store_a get put R g x) m)"
  using assms by (intro moves_seq_post moves_store)

lemma moves_inserted:
  assumes "I (fresh x)" "B (fresh x)" "preserves (\<lambda>w. row (get w)) m"
  shows "moves (\<lambda>w. row (get w)) (evolves key I E B) (seq_a (insert_a get put R g x) m)"
  using assms by (intro moves_seq_post moves_insert)

end

section \<open>Invariants of scanned tables\<close>

lemma inv_on_link:
  assumes "\<And>t. I (lrows t) \<Longrightarrow> I (lrows (snd (m t))) \<and> (\<forall>a. fst (m t) = Inr a \<longrightarrow> Q a)"
  shows "inv_a (\<lambda>t. I (lrows t)) (on_link m) Q"
  unfolding inv_a_def on_link_def
proof (intro allI impI)
  fix s :: "'a ltable" and r s'
  assume h: "(case loutages s of [] \<Rightarrow> m s
      | down # rest \<Rightarrow> if down then (Inl ''sql: connection lost'', s\<lparr>loutages := rest\<rparr>)
                      else m (s\<lparr>loutages := rest\<rparr>)) = (r, s')" and I: "I (lrows s)"
  show "I (lrows s') \<and> (\<forall>a. r = Inr a \<longrightarrow> Q a)"
  proof (cases "loutages s")
    case Nil
    with h I assms [of s] show ?thesis by auto
  next
    case (Cons down rest)
    with h I assms [of "s\<lparr>loutages := rest\<rparr>"] show ?thesis by (cases down) auto
  qed
qed

abbreviation all_rows :: "('r \<Rightarrow> bool) \<Rightarrow> 'r ltable \<Rightarrow> bool" where
  "all_rows P t \<equiv> \<forall>x \<in> set (lrows t). P x"

lemma inv_sel_all: "inv_a (all_rows P) (sel_all q) (\<lambda>xs. \<forall>x \<in> set xs. P x \<and> q x)"
  unfolding sel_all_def by (rule inv_on_link) auto

lemma inv_sel_row: "inv_a (all_rows P) (sel_row key k) (\<lambda>r. \<forall>x. r = Some x \<longrightarrow> P x \<and> key x = k)"
  unfolding sel_row_def by (rule inv_on_link) (auto simp: lrow_def find_Some_iff)

lemma inv_upd_rows:
  "(\<And>old. P old \<Longrightarrow> q old \<Longrightarrow> P (f old)) \<Longrightarrow> inv_a (all_rows P) (upd_rows q f) (\<lambda>_. True)"
  unfolding upd_rows_def by (rule inv_on_link) auto

lemma inv_ins_row: "P (fresh x) \<Longrightarrow> inv_a (all_rows P) (ins_row key fresh x) (\<lambda>_. True)"
  unfolding ins_row_def by (rule inv_on_link) auto

lemma inv_upsert:
  "P (fresh x) \<Longrightarrow> (\<And>old. P old \<Longrightarrow> P (kept old x)) \<Longrightarrow>
   inv_a (all_rows P) (upsert_row key fresh kept x) (\<lambda>_. True)"
  unfolding upsert_row_def by (rule inv_on_link) auto

end
