(* ===== verification/IVRFlowService.thy ===== *)
theory IVRFlowService
  imports FlowGraph Tables
begin

text \<open>
  The editing life of an IVR flow: \<open>IVRFlowService\<close> of \<open>internal/domain/routing/service.go\<close>
  over the statements of \<open>internal/infrastructure/mysql/ivr_flow_repo.go\<close>. The raw JSON of a
  graph is a value of type \<open>'raw\<close>, parsed by the parameter \<open>unmarshal\<close>.
\<close>

section \<open>Rows\<close>

datatype FlowStatus =
    FlowStatusDraft | FlowStatusPublishing | FlowStatusPublished | FlowStatusEditing
  | FlowStatusPublishedWithDraft | FlowStatusFailed | FlowStatusArchived

abbreviation FlowTypeMain :: string where "FlowTypeMain \<equiv> ''main''"
abbreviation FlowTypeSub :: string where "FlowTypeSub \<equiv> ''sub''"
abbreviation FlowTypeSurvey :: string where "FlowTypeSurvey \<equiv> ''survey''"

record 'raw ivr_flow =
  f_ID :: int
  f_TenantID :: int
  f_Code :: string
  f_Name :: string
  f_FlowType :: string
  f_Version :: int
  f_Graph :: 'raw
  f_Status :: FlowStatus
  f_LockedBy :: "int option"
  f_LockedAt :: "gotime option"
  f_LockExpiresAt :: "gotime option"
  f_PublishedAt :: "gotime option"
  f_CreatedAt :: gotime
  f_UpdatedAt :: gotime

record 'raw ivr_flow_version =
  v_IVRFlowID :: int
  v_TenantID :: int
  v_Version :: int
  v_Graph :: 'raw
  v_PublishedBy :: int
  v_PublishedAt :: gotime

text \<open>Neither the INSERT nor the UPDATE of \<open>ivr_flows\<close> names \<open>lock_expires_at\<close>.\<close>

definition IVRFlowRepo_insert_row :: "'raw ivr_flow \<Rightarrow> 'raw ivr_flow" where
  "IVRFlowRepo_insert_row f = f\<lparr>f_LockExpiresAt := None\<rparr>"

definition IVRFlowRepo_update_row :: "'raw ivr_flow \<Rightarrow> 'raw ivr_flow \<Rightarrow> 'raw ivr_flow" where
  "IVRFlowRepo_update_row old f = old\<lparr>f_Name := f_Name f, f_Version := f_Version f, f_Graph := f_Graph f,
     f_Status := f_Status f, f_LockedBy := f_LockedBy f, f_LockedAt := f_LockedAt f,
     f_PublishedAt := f_PublishedAt f, f_UpdatedAt := f_UpdatedAt f\<rparr>"

interpretation flow_table: listed_table f_ID IVRFlowRepo_insert_row IVRFlowRepo_update_row
  by unfold_locales (simp_all add: IVRFlowRepo_insert_row_def IVRFlowRepo_update_row_def)

record 'raw flow_world =
  fw_flows :: "'raw ivr_flow ltable"
  fw_versions :: "'raw ivr_flow_version ltable"

type_synonym ('raw, 'a) fact = "('raw flow_world, flow_error, 'a) act"

definition on_flows :: "('raw ivr_flow ltable, 'e, 'a) act \<Rightarrow> ('raw flow_world, 'e, 'a) act" where
  "on_flows = zoom_a fw_flows (\<lambda>d w. w\<lparr>fw_flows := d\<rparr>)"

definition on_versions :: "('raw ivr_flow_version ltable, 'e, 'a) act \<Rightarrow> ('raw flow_world, 'e, 'a) act" where
  "on_versions = zoom_a fw_versions (\<lambda>d w. w\<lparr>fw_versions := d\<rparr>)"

definition load_flow :: "int \<Rightarrow> ('raw, 'raw ivr_flow) fact" where
  "load_flow k = try_a (on_flows (sel_row f_ID k))
     (\<lambda>r. case r of Inr (Some f) \<Rightarrow> ret_a f | _ \<Rightarrow> throw_a ErrFlowNotFound)"

definition save_flow :: "'raw ivr_flow \<Rightarrow> ('raw, unit) fact" where
  "save_flow f = wrap_a ErrFlowStore
     (on_flows (upd_rows (\<lambda>r. f_ID r = f_ID f) (\<lambda>old. IVRFlowRepo_update_row old f)))"

text \<open>
  \<open>GetByCode\<close> returns the address of a local variable next to a driver error, and its callers
  drop the error: a failed query looks like an existing flow. The version argument is unused.
\<close>

definition code_taken :: "int \<Rightarrow> string \<Rightarrow> ('raw, bool) fact" where
  "code_taken tenantID code =
     try_a (on_flows (sel_all (\<lambda>f. f_TenantID f = tenantID \<and> f_Code f = code)))
       (\<lambda>r. ret_a (case r of Inl _ \<Rightarrow> True | Inr fs \<Rightarrow> fs \<noteq> []))"

definition insert_flow :: "'raw ivr_flow \<Rightarrow> ('raw, unit) fact" where
  "insert_flow f = wrap_a ErrFlowStore (on_flows (ins_row f_ID IVRFlowRepo_insert_row f))"

text \<open>\<open>ivr_flow_versions\<close> numbers its rows itself; the lowest row of a version is found.\<close>

definition append_version :: "'raw ivr_flow_version \<Rightarrow> ('raw, unit) fact" where
  "append_version v = wrap_a ErrFlowStore (on_versions (on_link (\<lambda>t. (Inr (), t\<lparr>lrows := lrows t @ [v]\<rparr>))))"

definition load_version :: "int \<Rightarrow> int \<Rightarrow> ('raw, 'raw ivr_flow_version) fact" where
  "load_version flowID version =
     try_a (on_versions (sel_all (\<lambda>v. v_IVRFlowID v = flowID \<and> v_Version v = version)))
       (\<lambda>r. case r of Inr (v # _) \<Rightarrow> ret_a v | _ \<Rightarrow> throw_a ErrVersionNotFound)"

definition check_graph :: "('raw \<Rightarrow> 'cfg flow_graph option) \<Rightarrow> 'raw \<Rightarrow> ('raw, unit) fact" where
  "check_graph unmarshal raw =
     (case ValidateGraph unmarshal raw of Inl e \<Rightarrow> throw_a e | Inr _ \<Rightarrow> ret_a ())"

section \<open>The operations\<close>

record 'raw create_flow_input =
  fi_TenantID :: int
  fi_Code :: string
  fi_Name :: string
  fi_FlowType :: string
  fi_Graph :: 'raw

definition CreateFlow ::
  "('raw \<Rightarrow> 'cfg flow_graph option) \<Rightarrow> gotime \<Rightarrow> int \<Rightarrow> 'raw create_flow_input \<Rightarrow> ('raw, 'raw ivr_flow) fact" where
  "CreateFlow unmarshal now nid inp =
     bind_a (code_taken (fi_TenantID inp) (fi_Code inp)) (\<lambda>taken.
     if taken then throw_a ErrFlowCodeExists
     else seq_a (check_graph unmarshal (fi_Graph inp))
       (let f = \<lparr>f_ID = nid, f_TenantID = fi_TenantID inp, f_Code = fi_Code inp, f_Name = fi_Name inp,
                 f_FlowType = (if fi_FlowType inp = [] then FlowTypeMain else fi_FlowType inp),
                 f_Version = 1, f_Graph = fi_Graph inp, f_Status = FlowStatusDraft, f_LockedBy = None,
                 f_LockedAt = None, f_LockExpiresAt = None, f_PublishedAt = None, f_CreatedAt = now,
                 f_UpdatedAt = now\<rparr>
        in seq_a (insert_flow f) (ret_a f)))"

definition Publish ::
  "('raw \<Rightarrow> 'cfg flow_graph option) \<Rightarrow> gotime \<Rightarrow> int \<Rightarrow> int \<Rightarrow> ('raw, 'raw ivr_flow) fact" where
  "Publish unmarshal now k userID =
     bind_a (load_flow k) (\<lambda>f.
     if f_Status f \<noteq> FlowStatusDraft \<and> f_Status f \<noteq> FlowStatusPublishedWithDraft
     then throw_a ErrFlowNotDraft
     else seq_a (check_graph unmarshal (f_Graph f))
       (let f' = f\<lparr>f_Status := FlowStatusPublished, f_PublishedAt := Some now, f_UpdatedAt := now,
                   f_Version := f_Version f + 1\<rparr>
        in seq_a (save_flow f')
           (seq_a (ignore_a (append_version \<lparr>v_IVRFlowID = f_ID f', v_TenantID = f_TenantID f',
               v_Version = f_Version f', v_Graph = f_Graph f', v_PublishedBy = userID,
               v_PublishedAt = now\<rparr>))
           (ret_a f'))))"

definition lockTTL :: int where "lockTTL = 30 * 60 * second"

definition Lock :: "gotime \<Rightarrow> int \<Rightarrow> int \<Rightarrow> ('raw, 'raw ivr_flow) fact" where
  "Lock now k userID =
     bind_a (load_flow k) (\<lambda>f.
     if (case f_LockedBy f of
           None \<Rightarrow> False
         | Some owner \<Rightarrow> owner \<noteq> userID \<and>
             (case f_LockExpiresAt f of None \<Rightarrow> True | Some expires \<Rightarrow> now < expires))
     then throw_a ErrFlowLocked
     else
       let f' = f\<lparr>f_LockedBy := Some userID, f_LockedAt := Some now,
                  f_LockExpiresAt := Some (now + lockTTL), f_UpdatedAt := now\<rparr>
       in seq_a (save_flow f') (ret_a f'))"

definition RefreshLock :: "gotime \<Rightarrow> int \<Rightarrow> int \<Rightarrow> ('raw, 'raw ivr_flow) fact" where
  "RefreshLock now k userID =
     bind_a (load_flow k) (\<lambda>f.
     if f_LockedBy f \<noteq> Some userID then throw_a ErrFlowNotOwner
     else
       let f' = f\<lparr>f_LockExpiresAt := Some (now + lockTTL), f_UpdatedAt := now\<rparr>
       in seq_a (save_flow f') (ret_a f'))"

definition Unlock :: "gotime \<Rightarrow> int \<Rightarrow> int \<Rightarrow> ('raw, 'raw ivr_flow) fact" where
  "Unlock now k userID =
     bind_a (load_flow k) (\<lambda>f.
     if f_LockedBy f = None then throw_a ErrFlowNotLocked
     else if f_LockedBy f \<noteq> Some userID then throw_a ErrFlowNotOwner
     else
       let f' = f\<lparr>f_LockedBy := None, f_LockedAt := None, f_LockExpiresAt := None, f_UpdatedAt := now\<rparr>
       in seq_a (save_flow f') (ret_a f'))"

definition Clone :: "gotime \<Rightarrow> int \<Rightarrow> int \<Rightarrow> string \<Rightarrow> string \<Rightarrow> ('raw, 'raw ivr_flow) fact" where
  "Clone now nid k newCode newName =
     bind_a (load_flow k) (\<lambda>f.
     bind_a (code_taken (f_TenantID f) newCode) (\<lambda>taken.
     if taken then throw_a ErrFlowCodeExists
     else
       let c = \<lparr>f_ID = nid, f_TenantID = f_TenantID f, f_Code = newCode, f_Name = newName,
                f_FlowType = f_FlowType f, f_Version = 1, f_Graph = f_Graph f,
                f_Status = FlowStatusDraft, f_LockedBy = None, f_LockedAt = None,
                f_LockExpiresAt = None, f_PublishedAt = None, f_CreatedAt = now, f_UpdatedAt = now\<rparr>
       in seq_a (insert_flow c) (ret_a c)))"

definition Rollback :: "gotime \<Rightarrow> int \<Rightarrow> int \<Rightarrow> ('raw, 'raw ivr_flow) fact" where
  "Rollback now k version =
     bind_a (load_flow k) (\<lambda>f.
     bind_a (load_version k version) (\<lambda>v.
       let f' = f\<lparr>f_Graph := v_Graph v, f_Status := FlowStatusDraft, f_UpdatedAt := now\<rparr>
       in seq_a (save_flow f') (ret_a f')))"

section \<open>Requests\<close>

datatype 'raw flow_op =
    FCreate "'raw create_flow_input"
  | FPublish int int
  | FLock int int
  | FRefreshLock int int
  | FUnlock int int
  | FClone int string string
  | FRollback int int

fun exec_flow ::
  "('raw \<Rightarrow> 'cfg flow_graph option) \<Rightarrow> gotime \<Rightarrow> int \<Rightarrow> 'raw flow_op \<Rightarrow> ('raw, 'raw ivr_flow) fact" where
  "exec_flow unmarshal now nid (FCreate inp) = CreateFlow unmarshal now nid inp"
| "exec_flow unmarshal now nid (FPublish k u) = Publish unmarshal now k u"
| "exec_flow unmarshal now nid (FLock k u) = Lock now k u"
| "exec_flow unmarshal now nid (FRefreshLock k u) = RefreshLock now k u"
| "exec_flow unmarshal now nid (FUnlock k u) = Unlock now k u"
| "exec_flow unmarshal now nid (FClone k code name) = Clone now nid k code name"
| "exec_flow unmarshal now nid (FRollback k ver) = Rollback now k ver"

fun run_flows ::
  "('raw \<Rightarrow> 'cfg flow_graph option) \<Rightarrow> (gotime \<times> int \<times> 'raw flow_op) list \<Rightarrow> 'raw flow_world \<Rightarrow> 'raw flow_world" where
  "run_flows unmarshal [] w = w"
| "run_flows unmarshal ((now, nid, opn) # ops) w =
     run_flows unmarshal ops (snd (exec_flow unmarshal now nid opn w))"

section \<open>What the operations keep\<close>

text \<open>An invariant of the two tables that holds row by row.\<close>

definition rows_inv ::
  "('raw ivr_flow \<Rightarrow> bool) \<Rightarrow> ('raw ivr_flow_version \<Rightarrow> bool) \<Rightarrow> 'raw flow_world \<Rightarrow> bool" where
  "rows_inv P V w \<longleftrightarrow> (\<forall>f \<in> set (lrows (fw_flows w)). P f) \<and> (\<forall>v \<in> set (lrows (fw_versions w)). V v)"

lemma inv_load_flow: "inv_a (rows_inv P V) (load_flow k) (\<lambda>f. P f \<and> f_ID f = k)"
proof -
  have "inv_a (\<lambda>t. \<forall>f \<in> set (lrows t). P f) (sel_row f_ID k) (\<lambda>r. \<forall>f. r = Some f \<longrightarrow> P f \<and> f_ID f = k)"
    unfolding sel_row_def
    by (rule inv_on_link) (auto simp: lrow_def find_Some_iff)
  then have "inv_a (rows_inv P V) (on_flows (sel_row f_ID k)) (\<lambda>r. \<forall>f. r = Some f \<longrightarrow> P f \<and> f_ID f = k)"
    unfolding on_flows_def by (rule inv_zoom) (auto simp: rows_inv_def)
  then show ?thesis
    unfolding load_flow_def
    by (rule inv_try) (auto intro!: inv_intros split: sum.split option.split)
qed

lemma inv_load_version: "inv_a (rows_inv P V) (load_version k n) V"
proof -
  have "inv_a (\<lambda>t. \<forall>v \<in> set (lrows t). V v) (sel_all q) (\<lambda>vs. \<forall>v \<in> set vs. V v)" for q
    unfolding sel_all_def by (rule inv_on_link) auto
  then have "inv_a (rows_inv P V) (on_versions (sel_all q)) (\<lambda>vs. \<forall>v \<in> set vs. V v)" for q
    unfolding on_versions_def by (rule inv_zoom) (auto simp: rows_inv_def)
  then show ?thesis
    unfolding load_version_def
    by (rule inv_try) (auto intro!: inv_intros split: sum.split list.split)
qed

lemma inv_save_flow:
  assumes "\<And>old. P old \<Longrightarrow> f_ID old = f_ID f \<Longrightarrow> P (IVRFlowRepo_update_row old f)"
  shows "inv_a (rows_inv P V) (save_flow f) (\<lambda>_. True)"
proof -
  have "inv_a (\<lambda>t. \<forall>f \<in> set (lrows t). P f)
      (upd_rows (\<lambda>r. f_ID r = f_ID f) (\<lambda>old. IVRFlowRepo_update_row old f)) (\<lambda>_. True)"
    unfolding upd_rows_def by (rule inv_on_link) (use assms in auto)
  then have "inv_a (rows_inv P V)
      (on_flows (upd_rows (\<lambda>r. f_ID r = f_ID f) (\<lambda>old. IVRFlowRepo_update_row old f))) (\<lambda>_. True)"
    unfolding on_flows_def by (rule inv_zoom) (auto simp: rows_inv_def)
  then show ?thesis unfolding save_flow_def by (rule inv_wrap)
qed

lemma inv_insert_flow:
  assumes "P (IVRFlowRepo_insert_row f)"
  shows "inv_a (rows_inv P V) (insert_flow f) (\<lambda>_. True)"
proof -
  have "inv_a (\<lambda>t. \<forall>f \<in> set (lrows t). P f) (ins_row f_ID IVRFlowRepo_insert_row f) (\<lambda>_. True)"
    unfolding ins_row_def by (rule inv_on_link) (use assms in auto)
  then have "inv_a (rows_inv P V) (on_flows (ins_row f_ID IVRFlowRepo_insert_row f)) (\<lambda>_. True)"
    unfolding on_flows_def by (rule inv_zoom) (auto simp: rows_inv_def)
  then show ?thesis unfolding insert_flow_def by (rule inv_wrap)
qed

lemma inv_append_version:
  assumes "V v"
  shows "inv_a (rows_inv P V) (append_version v) (\<lambda>_. True)"
proof -
  have "inv_a (\<lambda>t. \<forall>v \<in> set (lrows t). V v)
      (on_link (\<lambda>t. (Inr (), t\<lparr>lrows := lrows t @ [v]\<rparr>))) (\<lambda>_. True)"
    by (rule inv_on_link) (use assms in auto)
  then have "inv_a (rows_inv P V)
      (on_versions (on_link (\<lambda>t. (Inr (), t\<lparr>lrows := lrows t @ [v]\<rparr>)))) (\<lambda>_. True)"
    unfolding on_versions_def by (rule inv_zoom) (auto simp: rows_inv_def)
  then show ?thesis unfolding append_version_def by (rule inv_wrap)
qed

lemma inv_code_taken: "inv_a (rows_inv P V) (code_taken tn code) (\<lambda>_. True)"
proof -
  have "inv_a (\<lambda>t. \<forall>f \<in> set (lrows t). P f) (sel_all q) (\<lambda>_. True)" for q
    unfolding sel_all_def by (rule inv_on_link) auto
  then have "inv_a (rows_inv P V) (on_flows (sel_all q)) (\<lambda>_. True)" for q
    unfolding on_flows_def by (rule inv_zoom) (auto simp: rows_inv_def)
  then show ?thesis
    unfolding code_taken_def by (rule inv_try) (auto intro: inv_intros)
qed

lemma inv_check_graph:
  "inv_a I (check_graph unmarshal raw) (\<lambda>_. \<exists>g. ValidateGraph unmarshal raw = Inr g)"
  by (auto simp: check_graph_def intro: inv_intros split: sum.split)

lemmas flow_rules = inv_load_flow inv_load_version inv_save_flow inv_insert_flow inv_append_version
  inv_code_taken

end
