(* ===== verification/IVRFlowProps.thy ===== *)
theory IVRFlowProps
  imports IVRFlowService
begin

text \<open>
  The properties of the flow editor: what the validator decides, that every stored flow and
  every published version is a valid graph, and who can release an editing lock.
\<close>

section \<open>Validity of everything stored\<close>

definition graph_ok :: "('raw \<Rightarrow> 'cfg flow_graph option) \<Rightarrow> 'raw \<Rightarrow> bool" where
  "graph_ok unmarshal raw \<longleftrightarrow> (\<exists>g. unmarshal raw = Some g \<and> valid_graph g)"

lemma validate_ok: "(\<exists>g. ValidateGraph unmarshal raw = Inr g) \<longleftrightarrow> graph_ok unmarshal raw"
  using ValidateParsed_valid by (auto simp: ValidateGraph_def graph_ok_def split: option.splits)

text \<open>
  C27. \<open>ValidateGraph\<close> accepts exactly the graphs with distinct node identifiers, known node
  types, one start node from which every node is reachable along the exits, an end node, and no
  exit to a node that is not there; the search ends for every input.
\<close>

theorem ValidateGraph_decides:
  "(\<exists>g. ValidateGraph unmarshal raw = Inr g) \<longleftrightarrow> (\<exists>g. unmarshal raw = Some g \<and> valid_graph g)"
  using validate_ok by (simp add: graph_ok_def)

abbreviation flows_valid :: "('raw \<Rightarrow> 'cfg flow_graph option) \<Rightarrow> 'raw flow_world \<Rightarrow> bool" where
  "flows_valid unmarshal \<equiv>
     rows_inv (\<lambda>f. graph_ok unmarshal (f_Graph f)) (\<lambda>v. graph_ok unmarshal (v_Graph v))"

lemma check_ok: "inv_a I (check_graph unmarshal raw) (\<lambda>_. graph_ok unmarshal raw)"
  using inv_check_graph by (simp add: validate_ok)

lemma update_graph [simp]: "f_Graph (IVRFlowRepo_update_row old f) = f_Graph f"
  and insert_graph [simp]: "f_Graph (IVRFlowRepo_insert_row f) = f_Graph f"
  by (simp_all add: IVRFlowRepo_update_row_def IVRFlowRepo_insert_row_def)

lemma exec_flow_valid: "inv_a (flows_valid unmarshal) (exec_flow unmarshal now nid opn) (\<lambda>_. True)"
proof (cases opn)
  case (FCreate inp)
  then show ?thesis
    by (auto simp: CreateFlow_def Let_def
        intro!: inv_bind [OF inv_code_taken] inv_if inv_throw inv_seq_post [OF check_ok]
          inv_seq [OF inv_insert_flow] inv_ret)
next
  case (FPublish k u)
  then show ?thesis
    by (auto simp: Publish_def Let_def
        intro!: inv_bind [OF inv_load_flow] inv_if inv_throw inv_seq_post [OF check_ok]
          inv_seq [OF inv_save_flow] inv_seq [OF inv_ignore [OF inv_append_version]] inv_ret)
next
  case (FClone k code name)
  then show ?thesis
    by (auto simp: Clone_def Let_def
        intro!: inv_bind [OF inv_load_flow] inv_bind [OF inv_code_taken] inv_if inv_throw
          inv_seq [OF inv_insert_flow] inv_ret)
next
  case (FRollback k ver)
  then show ?thesis
    by (auto simp: Rollback_def Let_def
        intro!: inv_bind [OF inv_load_flow] inv_bind [OF inv_load_version] inv_seq [OF inv_save_flow] inv_ret)
qed (auto simp: Lock_def RefreshLock_def Unlock_def Let_def
      intro!: inv_bind [OF inv_load_flow] inv_if inv_throw inv_seq [OF inv_save_flow] inv_ret)

text \<open>
  Every flow and every published version in the database is a valid graph, along any run
  of creations, publications, locks, clones and rollbacks: a rollback restores a graph that was
  valid when it was published.
\<close>

theorem stored_flows_valid:
  assumes "flows_valid unmarshal w"
  shows "flows_valid unmarshal (run_flows unmarshal ops w)"
  using assms
proof (induction ops arbitrary: w)
  case (Cons r ops)
  obtain now nid opn where r: "r = (now, nid, opn)" by (cases r)
  have "flows_valid unmarshal (snd (exec_flow unmarshal now nid opn w))"
    using exec_flow_valid Cons.prems by (rule inv_snd)
  with Cons.IH show ?case by (simp add: r)
qed simp

definition graph0 :: "unit flow_graph" where
  "graph0 = \<lparr>g_Nodes =
     [\<lparr>n_ID = ''s'', n_Type = NodeStart, n_Config = (), n_Exits = [(''default'', ''p'')]\<rparr>,
      \<lparr>n_ID = ''p'', n_Type = NodePlay, n_Config = (), n_Exits = [(''default'', ''e''), (''retry'', ''p'')]\<rparr>,
      \<lparr>n_ID = ''e'', n_Type = NodeEnd, n_Config = (), n_Exits = []\<rparr>], g_Edges = []\<rparr>"

lemma graph0_parts:
  "g_Nodes graph0 \<noteq> []" "length (g_Nodes graph0) = 3"
  "list_all (\<lambda>n. n_Type n \<in> set AllNodeTypes) (g_Nodes graph0)"
  "count_type NodeStart (g_Nodes graph0) = 1" "count_type NodeEnd (g_Nodes graph0) = 1"
  "list_all (\<lambda>n. list_all (\<lambda>e. snd e \<in> set (map n_ID (g_Nodes graph0))) (n_Exits n)) (g_Nodes graph0)"
  "start_of (g_Nodes graph0) = ''s''"
  "bfs (g_Nodes graph0) [''s''] [] = [''e'', ''p'', ''s'']"
  by (simp_all add: graph0_def AllNodeTypes_def count_type_def start_of_def node_targets_def bfs.simps)

lemma graph0_ok: "graph_ok (\<lambda>_. Some graph0) ''g''"
proof -
  have "ValidateGraph (\<lambda>_. Some graph0) ''g'' = Inr graph0"
    unfolding ValidateGraph_def ValidateParsed_def Let_def option.case
    by (simp only: graph0_parts) simp
  then have "\<exists>g. ValidateGraph (\<lambda>_. Some graph0) ''g'' = Inr g" by (rule exI)
  then show ?thesis by (simp only: validate_ok)
qed

definition flow0 :: "string ivr_flow" where
  "flow0 = \<lparr>f_ID = 1, f_TenantID = 1, f_Code = ''main'', f_Name = ''Main'', f_FlowType = FlowTypeMain,
     f_Version = 1, f_Graph = ''g'', f_Status = FlowStatusDraft, f_LockedBy = Some 5,
     f_LockedAt = Some 10, f_LockExpiresAt = None, f_PublishedAt = None, f_CreatedAt = 1, f_UpdatedAt = 1\<rparr>"

definition flow_world0 :: "string flow_world" where
  "flow_world0 = \<lparr>fw_flows = \<lparr>lrows = [flow0], loutages = []\<rparr>, fw_versions = \<lparr>lrows = [], loutages = []\<rparr>\<rparr>"

theorem stored_flows_valid_witness:
  "flows_valid (\<lambda>_. Some graph0)
     (run_flows (\<lambda>_. Some graph0) [(5, 0, FPublish 1 5), (6, 0, FRollback 1 2)] flow_world0)"
proof -
  have "flows_valid (\<lambda>_. Some graph0) flow_world0"
    by (simp add: rows_inv_def flow_world0_def flow0_def graph0_ok)
  then show ?thesis
    by (rule stored_flows_valid [of "\<lambda>_. Some graph0" flow_world0
          "[(5, 0, FPublish 1 5), (6, 0, FRollback 1 2)]"])
qed

section \<open>Editing locks\<close>

fun flow_user :: "'raw flow_op \<Rightarrow> int option" where
  "flow_user (FPublish k u) = Some u"
| "flow_user (FLock k u) = Some u"
| "flow_user (FRefreshLock k u) = Some u"
| "flow_user (FUnlock k u) = Some u"
| "flow_user opn = None"

abbreviation held_by :: "int \<Rightarrow> int \<Rightarrow> 'raw flow_world \<Rightarrow> bool" where
  "held_by k u \<equiv> rows_inv
     (\<lambda>f. f_LockExpiresAt f = None \<and> (f_ID f = k \<longrightarrow> f_LockedBy f = Some u)) (\<lambda>_. True)"

lemma row_lock_simps [simp]:
  "f_ID (IVRFlowRepo_update_row old f) = f_ID old"
  "f_LockedBy (IVRFlowRepo_update_row old f) = f_LockedBy f"
  "f_LockExpiresAt (IVRFlowRepo_update_row old f) = f_LockExpiresAt old"
  "f_ID (IVRFlowRepo_insert_row f) = f_ID f"
  "f_LockedBy (IVRFlowRepo_insert_row f) = f_LockedBy f"
  "f_LockExpiresAt (IVRFlowRepo_insert_row f) = None"
  by (simp_all add: IVRFlowRepo_update_row_def IVRFlowRepo_insert_row_def)

lemma exec_flow_held:
  assumes "nid \<noteq> k" "flow_user opn \<noteq> Some u"
  shows "inv_a (held_by k u) (exec_flow unmarshal now nid opn) (\<lambda>_. True)"
proof (cases opn)
  case (FCreate inp)
  then show ?thesis using assms
    by (auto simp: CreateFlow_def Let_def
        intro!: inv_bind [OF inv_code_taken] inv_if inv_throw inv_seq_post [OF inv_check_graph]
          inv_seq [OF inv_insert_flow] inv_ret)
next
  case (FPublish k' u')
  then show ?thesis
    by (auto simp: Publish_def Let_def
        intro!: inv_bind [OF inv_load_flow] inv_if inv_throw inv_seq_post [OF inv_check_graph]
          inv_seq [OF inv_save_flow] inv_seq [OF inv_ignore [OF inv_append_version]] inv_ret)
next
  case (FClone k' code name)
  then show ?thesis using assms
    by (auto simp: Clone_def Let_def
        intro!: inv_bind [OF inv_load_flow] inv_bind [OF inv_code_taken] inv_if inv_throw
          inv_seq [OF inv_insert_flow] inv_ret)
next
  case (FRollback k' ver)
  then show ?thesis
    by (auto simp: Rollback_def Let_def
        intro!: inv_bind [OF inv_load_flow] inv_bind [OF inv_load_version] inv_seq [OF inv_save_flow] inv_ret)
next
  case (FLock k' u')
  with assms show ?thesis
    by (auto simp: Lock_def Let_def
        intro!: inv_bind [OF inv_load_flow] inv_if inv_throw inv_seq [OF inv_save_flow] inv_ret
        split: option.splits)
qed (use assms in \<open>auto simp: RefreshLock_def Unlock_def Let_def
      intro!: inv_bind [OF inv_load_flow] inv_if inv_throw inv_seq [OF inv_save_flow] inv_ret\<close>)

lemma run_flows_held:
  assumes "held_by k u w" "\<forall>(now, nid, opn) \<in> set ops. nid \<noteq> k \<and> flow_user opn \<noteq> Some u"
  shows "held_by k u (run_flows unmarshal ops w)"
  using assms
proof (induction ops arbitrary: w)
  case (Cons r ops)
  obtain now nid opn where r: "r = (now, nid, opn)" by (cases r)
  have "held_by k u (snd (exec_flow unmarshal now nid opn w))"
    using exec_flow_held [of nid k opn u] Cons.prems r by (auto intro: inv_snd)
  with Cons.IH Cons.prems(2) show ?case by (simp add: r)
qed simp

text \<open>
  An editing lock is released by its owner only: whatever the other users do, and however
  much time passes, the flow stays locked by its owner and every attempt of another user to
  lock it fails. The thirty minutes of \<open>lockTTL\<close> never take effect, because no statement writes
  \<open>lock_expires_at\<close>.
\<close>

theorem lock_never_expires:
  assumes "\<forall>f \<in> set (lrows (fw_flows w)). f_LockExpiresAt f = None \<and> (f_ID f = k \<longrightarrow> f_LockedBy f = Some u)"
    and "\<forall>(now, nid, opn) \<in> set ops. nid \<noteq> k \<and> flow_user opn \<noteq> Some u"
    and "v \<noteq> u"
  shows "(\<forall>f \<in> set (lrows (fw_flows (run_flows unmarshal ops w))). f_ID f = k \<longrightarrow> f_LockedBy f = Some u) \<and>
    (\<exists>e. fst (Lock later k v (run_flows unmarshal ops w)) = Inl e)"
proof
  let ?w = "run_flows unmarshal ops w"
  have h: "held_by k u ?w"
    by (rule run_flows_held) (use assms in \<open>auto simp: rows_inv_def\<close>)
  then show "\<forall>f \<in> set (lrows (fw_flows ?w)). f_ID f = k \<longrightarrow> f_LockedBy f = Some u"
    by (simp add: rows_inv_def)
  have "inv_a (held_by k u) (Lock later k v) (\<lambda>_. False)"
    unfolding Lock_def Let_def
    by (rule inv_bind [OF inv_load_flow]) (use assms(3) in \<open>auto intro: inv_throw\<close>)
  with h show "\<exists>e. fst (Lock later k v ?w) = Inl e"
    by (cases "Lock later k v ?w"; cases "fst (Lock later k v ?w)") (auto dest: inv_aD_result)
qed

theorem lock_never_expires_witness:
  "\<exists>e. fst (Lock (10 + 48 * lockTTL) 1 9 (run_flows (\<lambda>_. Some graph0)
      [(20, 2, FLock 1 8), (30, 3, FPublish 1 7)] flow_world0)) = Inl e"
  using lock_never_expires [of flow_world0 1 5 "[(20, 2, FLock 1 8), (30, 3, FPublish 1 7)]" 9
      "\<lambda>_. Some graph0" "10 + 48 * lockTTL"]
  by (simp add: flow_world0_def flow0_def)

end
