(* ===== verification/Campaign.thy ===== *)
theory Campaign
  imports Complex_Main Tables
begin

text \<open>
  Outbound campaigns: \<open>CampaignService\<close> of \<open>internal/domain/campaign/service.go\<close>, the do-not-call
  list of \<open>internal/domain/integration/service.go\<close>, and the statements of
  \<open>internal/infrastructure/mysql/campaign_repo.go\<close> and \<open>dnc_repo.go\<close>. The two float64 settings
  of a campaign are rationals; the service only stores them.
\<close>

section \<open>Types\<close>

abbreviation DialingModePredictive :: string where "DialingModePredictive \<equiv> ''predictive''"
abbreviation DialingModePreview :: string where "DialingModePreview \<equiv> ''preview''"
abbreviation DialingModeProgressive :: string where "DialingModeProgressive \<equiv> ''progressive''"
abbreviation DialingModePower :: string where "DialingModePower \<equiv> ''power''"

datatype CampaignStatus =
    CampaignStatusDraft | CampaignStatusRunning | CampaignStatusPaused | CampaignStatusCompleted
  | CampaignStatusAborted

datatype CaseStatus =
  CaseStatusPending | CaseStatusDialing | CaseStatusCompleted | CaseStatusFailed | CaseStatusSkipped

record campaign =
  g_ID :: int
  g_TenantID :: int
  g_Name :: string
  g_DialingMode :: string
  g_SkillGroupID :: int
  g_CLIPolicyID :: "int option"
  g_Status :: "CampaignStatus option"
  g_RatioMultiplier :: rat
  g_MaxAbandonRate :: rat
  g_PreviewTimeoutSec :: int
  g_ConcurrentLimit :: int
  g_MaxRetries :: int
  g_RetryIntervalSec :: int
  g_Timezone :: string
  g_ScheduleDays :: string
  g_ScheduleStartHour :: int
  g_ScheduleEndHour :: int
  g_TotalCases :: int
  g_CompletedCases :: int
  g_SuccessCases :: int
  g_FailedCases :: int
  g_StartedAt :: "gotime option"
  g_CompletedAt :: "gotime option"
  g_CreatedAt :: gotime
  g_UpdatedAt :: gotime

text \<open>
  The zero \<open>Campaign\<close>: its status is the empty string, which is none of the constants and is
  \<open>None\<close> here.
\<close>

definition campaign_zero :: campaign where
  "campaign_zero = \<lparr>g_ID = 0, g_TenantID = 0, g_Name = [], g_DialingMode = [], g_SkillGroupID = 0,
     g_CLIPolicyID = None, g_Status = None, g_RatioMultiplier = 0, g_MaxAbandonRate = 0,
     g_PreviewTimeoutSec = 0, g_ConcurrentLimit = 0, g_MaxRetries = 0, g_RetryIntervalSec = 0,
     g_Timezone = [], g_ScheduleDays = [], g_ScheduleStartHour = 0, g_ScheduleEndHour = 0,
     g_TotalCases = 0, g_CompletedCases = 0, g_SuccessCases = 0, g_FailedCases = 0,
     g_StartedAt = None, g_CompletedAt = None, g_CreatedAt = 0, g_UpdatedAt = 0\<rparr>"

record campaign_case =
  k_ID :: int
  k_CampaignID :: int
  k_TenantID :: int
  k_PhoneNumber :: string
  k_CustomerName :: string
  k_CustomData :: string
  k_Status :: CaseStatus
  k_AttemptCount :: int
  k_AgentUserID :: "int option"
  k_CallID :: "int option"
  k_DurationSec :: int
  k_DispositionCode :: string
  k_NextAttemptAt :: "gotime option"
  k_CompletedAt :: "gotime option"
  k_CreatedAt :: gotime
  k_UpdatedAt :: gotime

record dnc_entry =
  dnc_ID :: int
  dnc_TenantID :: int
  dnc_Number :: string
  dnc_Reason :: string
  dnc_Source :: string
  dnc_ExpiresAt :: "gotime option"
  dnc_CreatedAt :: gotime

datatype campaign_error =
    ErrCampaignNotFound | ErrCaseNotFound | ErrCampaignNotDraft | ErrCampaignNotRunning
  | ErrInvalidDialingMode | ErrCampaignNoCases | ErrDNCBlocked | ErrCampaignStore string

section \<open>The rows the statements store\<close>

text \<open>
  The INSERT of a campaign leaves its schedule to the defaults of the database, the UPDATE
  leaves it alone, with the tenant, the mode, the skill group and the creation time. The case
  statements never write \<open>call_id\<close> and \<open>completed_at\<close>.
\<close>

record schedule_columns =
  sd_Timezone :: string
  sd_Days :: string
  sd_StartHour :: int
  sd_EndHour :: int

definition CampaignRepo_insert_row :: "schedule_columns \<Rightarrow> campaign \<Rightarrow> campaign" where
  "CampaignRepo_insert_row d c = c\<lparr>g_Timezone := sd_Timezone d, g_ScheduleDays := sd_Days d,
     g_ScheduleStartHour := sd_StartHour d, g_ScheduleEndHour := sd_EndHour d\<rparr>"

definition CampaignRepo_update_row :: "campaign \<Rightarrow> campaign \<Rightarrow> campaign" where
  "CampaignRepo_update_row old c = old\<lparr>g_Name := g_Name c, g_Status := g_Status c,
     g_RatioMultiplier := g_RatioMultiplier c, g_MaxAbandonRate := g_MaxAbandonRate c,
     g_PreviewTimeoutSec := g_PreviewTimeoutSec c, g_ConcurrentLimit := g_ConcurrentLimit c,
     g_MaxRetries := g_MaxRetries c, g_RetryIntervalSec := g_RetryIntervalSec c,
     g_TotalCases := g_TotalCases c, g_CompletedCases := g_CompletedCases c,
     g_SuccessCases := g_SuccessCases c, g_FailedCases := g_FailedCases c,
     g_UpdatedAt := g_UpdatedAt c, g_StartedAt := g_StartedAt c, g_CompletedAt := g_CompletedAt c\<rparr>"

definition CampaignCaseRepo_insert_row :: "campaign_case \<Rightarrow> campaign_case" where
  "CampaignCaseRepo_insert_row k = k\<lparr>k_CallID := None, k_CompletedAt := None\<rparr>"

definition CampaignCaseRepo_update_row :: "campaign_case \<Rightarrow> campaign_case \<Rightarrow> campaign_case" where
  "CampaignCaseRepo_update_row old k = old\<lparr>k_Status := k_Status k, k_AttemptCount := k_AttemptCount k,
     k_AgentUserID := k_AgentUserID k, k_DurationSec := k_DurationSec k,
     k_DispositionCode := k_DispositionCode k, k_NextAttemptAt := k_NextAttemptAt k,
     k_UpdatedAt := k_UpdatedAt k\<rparr>"

section \<open>The world and the repository calls\<close>

record campaign_world =
  gw_campaigns :: "campaign ltable"
  gw_cases :: "campaign_case ltable"
  gw_dnc :: "dnc_entry ltable"

type_synonym 'a gact = "(campaign_world, campaign_error, 'a) act"

definition put_campaigns :: "campaign ltable \<Rightarrow> campaign_world \<Rightarrow> campaign_world" where
  "put_campaigns d w = w\<lparr>gw_campaigns := d\<rparr>"

definition put_cases :: "campaign_case ltable \<Rightarrow> campaign_world \<Rightarrow> campaign_world" where
  "put_cases d w = w\<lparr>gw_cases := d\<rparr>"

definition put_dnc :: "dnc_entry ltable \<Rightarrow> campaign_world \<Rightarrow> campaign_world" where
  "put_dnc d w = w\<lparr>gw_dnc := d\<rparr>"

lemma campaign_lenses [simp]:
  "gw_campaigns (put_campaigns d w) = d" "gw_cases (put_campaigns d w) = gw_cases w"
  "gw_dnc (put_campaigns d w) = gw_dnc w"
  "gw_campaigns (put_cases c w) = gw_campaigns w" "gw_cases (put_cases c w) = c"
  "gw_dnc (put_cases c w) = gw_dnc w"
  "gw_campaigns (put_dnc n w) = gw_campaigns w" "gw_cases (put_dnc n w) = gw_cases w"
  "gw_dnc (put_dnc n w) = n"
  by (simp_all add: put_campaigns_def put_cases_def put_dnc_def)

definition CampaignRepo :: "schedule_columns \<Rightarrow> (campaign ltable, campaign) repo" where
  "CampaignRepo d = ltable_repo g_ID (CampaignRepo_insert_row d) CampaignRepo_update_row"

definition CampaignCaseRepo :: "(campaign_case ltable, campaign_case) repo" where
  "CampaignCaseRepo = ltable_repo k_ID CampaignCaseRepo_insert_row CampaignCaseRepo_update_row"

definition load_campaign :: "schedule_columns \<Rightarrow> int \<Rightarrow> campaign gact" where
  "load_campaign d = fetch_a gw_campaigns put_campaigns (CampaignRepo d) ErrCampaignNotFound"

definition save_campaign :: "schedule_columns \<Rightarrow> campaign \<Rightarrow> unit gact" where
  "save_campaign d = store_a gw_campaigns put_campaigns (CampaignRepo d) ErrCampaignStore"

definition load_case :: "int \<Rightarrow> campaign_case gact" where
  "load_case = fetch_a gw_cases put_cases CampaignCaseRepo ErrCaseNotFound"

definition save_case :: "campaign_case \<Rightarrow> unit gact" where
  "save_case = store_a gw_cases put_cases CampaignCaseRepo ErrCampaignStore"

text \<open>
  \<open>c, _ := s.campaigns.GetByID(...); if c != nil\<close>: with the error dropped, a failed query yields
  the zero campaign, which is not nil.
\<close>

definition peek_campaign :: "schedule_columns \<Rightarrow> int \<Rightarrow> campaign option gact" where
  "peek_campaign d k = try_a (zoom_a gw_campaigns put_campaigns (repo_get (CampaignRepo d) k))
     (\<lambda>r. ret_a (case r of Inl _ \<Rightarrow> Some campaign_zero | Inr found \<Rightarrow> found))"

section \<open>The do-not-call list\<close>

text \<open>\<open>GetByNumber\<close>: one row of the number, whichever comes first, and nil when the query fails.\<close>

definition GetByNumber :: "int \<Rightarrow> string \<Rightarrow> dnc_entry option gact" where
  "GetByNumber tenantID number =
     try_a (zoom_a gw_dnc put_dnc (sel_all (\<lambda>e. dnc_TenantID e = tenantID \<and> dnc_Number e = number)))
       (\<lambda>r. ret_a (case r of Inr (e # _) \<Rightarrow> Some e | _ \<Rightarrow> None))"

definition CheckDNC :: "gotime \<Rightarrow> int \<Rightarrow> string \<Rightarrow> unit gact" where
  "CheckDNC now tenantID number =
     bind_a (GetByNumber tenantID number) (\<lambda>found.
     case found of
       None \<Rightarrow> ret_a ()
     | Some entry \<Rightarrow>
         if (case dnc_ExpiresAt entry of None \<Rightarrow> False | Some t \<Rightarrow> t < now) then ret_a ()
         else throw_a ErrDNCBlocked)"

text \<open>\<open>CheckNumbers\<close>: the numbers with an entry that has not expired at the database's clock.\<close>

definition dnc_active :: "gotime \<Rightarrow> int \<Rightarrow> dnc_entry \<Rightarrow> bool" where
  "dnc_active dbnow tenantID e \<longleftrightarrow> dnc_TenantID e = tenantID \<and>
     (case dnc_ExpiresAt e of None \<Rightarrow> True | Some t \<Rightarrow> dbnow < t)"

definition CheckBatch :: "gotime \<Rightarrow> int \<Rightarrow> string list \<Rightarrow> string list gact" where
  "CheckBatch dbnow tenantID numbers =
     (if numbers = [] then ret_a []
      else wrap_a ErrCampaignStore (bind_a
        (zoom_a gw_dnc put_dnc (sel_all (\<lambda>e. dnc_active dbnow tenantID e \<and> dnc_Number e \<in> set numbers)))
        (\<lambda>es. ret_a (map dnc_Number es))))"

text \<open>The table has a unique key on tenant and number.\<close>

definition AddEntry :: "gotime \<Rightarrow> int \<Rightarrow> dnc_entry \<Rightarrow> unit gact" where
  "AddEntry now nid e = wrap_a ErrCampaignStore (zoom_a gw_dnc put_dnc (on_link (\<lambda>t.
     if \<exists>r \<in> set (lrows t). dnc_ID r = nid \<or> dnc_TenantID r = dnc_TenantID e \<and> dnc_Number r = dnc_Number e
     then (Inl ''Error 1062: Duplicate entry'', t)
     else (Inr (), t\<lparr>lrows := lrows t @ [e\<lparr>dnc_ID := nid, dnc_CreatedAt := now\<rparr>]\<rparr>))))"

definition RemoveEntry :: "int \<Rightarrow> unit gact" where
  "RemoveEntry k = wrap_a ErrCampaignStore (zoom_a gw_dnc put_dnc
     (on_link (\<lambda>t. (Inr (), t\<lparr>lrows := filter (\<lambda>e. dnc_ID e \<noteq> k) (lrows t)\<rparr>))))"

section \<open>Campaigns\<close>

record create_campaign_input =
  gi_TenantID :: int
  gi_Name :: string
  gi_DialingMode :: string
  gi_SkillGroupID :: int
  gi_CLIPolicyID :: "int option"

definition CreateCampaign ::
  "schedule_columns \<Rightarrow> gotime \<Rightarrow> int \<Rightarrow> create_campaign_input \<Rightarrow> campaign gact" where
  "CreateCampaign d now nid inp =
     (if gi_DialingMode inp \<notin> {DialingModePredictive, DialingModePreview, DialingModeProgressive, DialingModePower}
      then throw_a ErrInvalidDialingMode
      else
        let c0 = campaign_zero\<lparr>g_ID := nid, g_TenantID := gi_TenantID inp, g_Name := gi_Name inp,
                   g_DialingMode := gi_DialingMode inp, g_SkillGroupID := gi_SkillGroupID inp,
                   g_CLIPolicyID := gi_CLIPolicyID inp, g_Status := Some CampaignStatusDraft,
                   g_MaxRetries := 3, g_RetryIntervalSec := 300, g_CreatedAt := now, g_UpdatedAt := now\<rparr>;
            c = (if gi_DialingMode inp = DialingModePredictive then
                   c0\<lparr>g_RatioMultiplier := 3 / 2, g_MaxAbandonRate := 3, g_ConcurrentLimit := 10\<rparr>
                 else if gi_DialingMode inp = DialingModePreview then
                   c0\<lparr>g_PreviewTimeoutSec := 30, g_RatioMultiplier := 1\<rparr>
                 else if gi_DialingMode inp = DialingModeProgressive then
                   c0\<lparr>g_RatioMultiplier := 1, g_ConcurrentLimit := 1\<rparr>
                 else c0\<lparr>g_RatioMultiplier := 3, g_ConcurrentLimit := 10\<rparr>)
        in seq_a (insert_a gw_campaigns put_campaigns (CampaignRepo d) ErrCampaignStore c) (ret_a c))"

definition UpdateCampaign :: "schedule_columns \<Rightarrow> gotime \<Rightarrow> campaign \<Rightarrow> unit gact" where
  "UpdateCampaign d now c = save_campaign d (c\<lparr>g_UpdatedAt := now\<rparr>)"

definition pending_count :: "int \<Rightarrow> nat gact" where
  "pending_count campaignID = bind_a
     (wrap_a ErrCampaignStore (zoom_a gw_cases put_cases
        (sel_all (\<lambda>k. k_CampaignID k = campaignID \<and> k_Status k = CaseStatusPending))))
     (\<lambda>ks. ret_a (length ks))"

definition StartCampaign :: "schedule_columns \<Rightarrow> gotime \<Rightarrow> int \<Rightarrow> campaign gact" where
  "StartCampaign d now k =
     bind_a (load_campaign d k) (\<lambda>c.
     if g_Status c \<noteq> Some CampaignStatusDraft \<and> g_Status c \<noteq> Some CampaignStatusPaused
     then throw_a ErrCampaignNotDraft
     else bind_a (pending_count (g_ID c)) (\<lambda>pending.
       if pending = 0 then throw_a ErrCampaignNoCases
       else
         let c' = c\<lparr>g_Status := Some CampaignStatusRunning, g_StartedAt := Some now, g_UpdatedAt := now\<rparr>
         in seq_a (save_campaign d c') (ret_a c')))"

definition PauseCampaign :: "schedule_columns \<Rightarrow> gotime \<Rightarrow> int \<Rightarrow> campaign gact" where
  "PauseCampaign d now k =
     bind_a (load_campaign d k) (\<lambda>c.
     if g_Status c \<noteq> Some CampaignStatusRunning then throw_a ErrCampaignNotRunning
     else
       let c' = c\<lparr>g_Status := Some CampaignStatusPaused, g_UpdatedAt := now\<rparr>
       in seq_a (save_campaign d c') (ret_a c'))"

definition AbortCampaign :: "schedule_columns \<Rightarrow> gotime \<Rightarrow> int \<Rightarrow> campaign gact" where
  "AbortCampaign d now k =
     bind_a (load_campaign d k) (\<lambda>c.
     if g_Status c \<noteq> Some CampaignStatusRunning \<and> g_Status c \<noteq> Some CampaignStatusPaused
     then throw_a ErrCampaignNotRunning
     else
       let c' = c\<lparr>g_Status := Some CampaignStatusAborted, g_CompletedAt := Some now, g_UpdatedAt := now\<rparr>
       in seq_a (save_campaign d c') (ret_a c'))"

definition autoComplete :: "gotime \<Rightarrow> campaign \<Rightarrow> campaign" where
  "autoComplete now c =
     (if g_Status c = Some CampaignStatusRunning \<and> 0 < g_TotalCases c \<and> g_TotalCases c \<le> g_CompletedCases c
      then c\<lparr>g_Status := Some CampaignStatusCompleted, g_CompletedAt := Some now\<rparr>
      else c)"

section \<open>Cases\<close>

record case_input =
  ki_PhoneNumber :: string
  ki_CustomerName :: string
  ki_CustomData :: string

definition new_case :: "gotime \<Rightarrow> int \<Rightarrow> int \<Rightarrow> int \<Rightarrow> case_input \<Rightarrow> campaign_case" where
  "new_case now nid campaignID tenantID inp =
     \<lparr>k_ID = nid, k_CampaignID = campaignID, k_TenantID = tenantID, k_PhoneNumber = ki_PhoneNumber inp,
      k_CustomerName = ki_CustomerName inp, k_CustomData = ki_CustomData inp, k_Status = CaseStatusPending,
      k_AttemptCount = 0, k_AgentUserID = None, k_CallID = None, k_DurationSec = 0, k_DispositionCode = [],
      k_NextAttemptAt = None, k_CompletedAt = None, k_CreatedAt = now, k_UpdatedAt = now\<rparr>"

text \<open>\<open>BulkCreate\<close>: one transaction; the first failing INSERT rolls all of them back.\<close>

fun bulk_insert :: "campaign_case list \<Rightarrow> campaign_case list \<Rightarrow> campaign_case list option" where
  "bulk_insert rs [] = Some rs"
| "bulk_insert rs (k # ks) =
     (if \<exists>r \<in> set rs. k_ID r = k_ID k then None
      else bulk_insert (rs @ [CampaignCaseRepo_insert_row k]) ks)"

definition BulkCreate :: "campaign_case list \<Rightarrow> unit gact" where
  "BulkCreate ks = wrap_a ErrCampaignStore (zoom_a gw_cases put_cases (on_link (\<lambda>t.
     case bulk_insert (lrows t) ks of
       None \<Rightarrow> (Inl ''Error 1062: Duplicate entry'', t)
     | Some rs \<Rightarrow> (Inr (), t\<lparr>lrows := rs\<rparr>))))"

text \<open>
  \<open>ImportCases\<close>: \<open>withDNC\<close> tells whether a do-not-call service is wired; an error of the batch
  check blocks nothing. \<open>ids\<close> are the identifiers drawn for the cases kept, in order.
\<close>

definition importable :: "string list \<Rightarrow> case_input list \<Rightarrow> case_input list" where
  "importable blocked inputs =
     filter (\<lambda>i. ki_PhoneNumber i \<noteq> [] \<and> ki_PhoneNumber i \<notin> set blocked) inputs"

definition blocked_numbers :: "bool \<Rightarrow> gotime \<Rightarrow> int \<Rightarrow> case_input list \<Rightarrow> string list gact" where
  "blocked_numbers withDNC dbnow tenantID inputs =
     (let numbers = filter (\<lambda>n. n \<noteq> []) (map ki_PhoneNumber inputs)
      in if withDNC \<and> numbers \<noteq> []
         then try_a (CheckBatch dbnow tenantID numbers) (\<lambda>r. ret_a (case r of Inr ns \<Rightarrow> ns | Inl _ \<Rightarrow> []))
         else ret_a [])"

definition ImportCases ::
  "schedule_columns \<Rightarrow> bool \<Rightarrow> gotime \<Rightarrow> gotime \<Rightarrow> (nat \<Rightarrow> int) \<Rightarrow> int \<Rightarrow> case_input list \<Rightarrow> unit gact" where
  "ImportCases d withDNC dbnow now ids campaignID inputs =
     bind_a (load_campaign d campaignID) (\<lambda>c.
     bind_a (blocked_numbers withDNC dbnow (g_TenantID c) inputs) (\<lambda>blocked.
     let kept = importable blocked inputs;
         validCases = map (\<lambda>(i, inp). new_case now (ids i) campaignID (g_TenantID c) inp) (enumerate 0 kept)
     in if validCases = [] then ret_a ()
        else seq_a (BulkCreate validCases)
          (save_campaign d (c\<lparr>g_TotalCases := g_TotalCases c + int (length validCases), g_UpdatedAt := now\<rparr>))))"

definition GetNextCase :: "gotime \<Rightarrow> int \<Rightarrow> campaign_case option gact" where
  "GetNextCase dbnow campaignID =
     bind_a (wrap_a ErrCampaignStore (zoom_a gw_cases put_cases (sel_all
        (\<lambda>k. k_CampaignID k = campaignID \<and> k_Status k = CaseStatusPending \<and>
             (case k_NextAttemptAt k of None \<Rightarrow> True | Some t \<Rightarrow> t \<le> dbnow)))))
      (\<lambda>ks. ret_a (case sort_key k_ID ks of [] \<Rightarrow> None | k # _ \<Rightarrow> Some k))"

definition MarkCaseCompleted ::
  "schedule_columns \<Rightarrow> gotime \<Rightarrow> int \<Rightarrow> string \<Rightarrow> int \<Rightarrow> campaign_case gact" where
  "MarkCaseCompleted d now caseID dispositionCode durationSec =
     bind_a (load_case caseID) (\<lambda>cs.
     if k_Status cs = CaseStatusCompleted then ret_a cs
     else
       let cs' = cs\<lparr>k_Status := CaseStatusCompleted, k_DispositionCode := dispositionCode,
                    k_DurationSec := durationSec, k_AttemptCount := k_AttemptCount cs + 1,
                    k_CompletedAt := Some now, k_UpdatedAt := now\<rparr>
       in seq_a (save_case cs')
          (bind_a (peek_campaign d (k_CampaignID cs')) (\<lambda>found.
             seq_a (case found of
                      None \<Rightarrow> ret_a ()
                    | Some c \<Rightarrow>
                        let c1 = c\<lparr>g_CompletedCases := g_CompletedCases c + 1\<rparr>;
                            c2 = (if durationSec > 0 then c1\<lparr>g_SuccessCases := g_SuccessCases c1 + 1\<rparr> else c1);
                            c3 = autoComplete now (c2\<lparr>g_UpdatedAt := now\<rparr>)
                        in ignore_a (save_campaign d c3))
                   (ret_a cs'))))"

text \<open>\<open>now 0\<close>, \<open>now 1\<close>: the two readings of the clock on either branch.\<close>

definition MarkCaseFailed :: "schedule_columns \<Rightarrow> (nat \<Rightarrow> gotime) \<Rightarrow> int \<Rightarrow> campaign_case gact" where
  "MarkCaseFailed d now caseID =
     bind_a (load_case caseID) (\<lambda>cs.
     let cs1 = cs\<lparr>k_AttemptCount := k_AttemptCount cs + 1, k_UpdatedAt := now 0\<rparr>
     in bind_a (peek_campaign d (k_CampaignID cs1)) (\<lambda>found.
        let maxRetries = (case found of None \<Rightarrow> 3 | Some c \<Rightarrow> g_MaxRetries c);
            retryInterval = (case found of None \<Rightarrow> 300 | Some c \<Rightarrow> g_RetryIntervalSec c)
        in if k_AttemptCount cs1 \<ge> maxRetries then
             let cs2 = cs1\<lparr>k_Status := CaseStatusFailed, k_CompletedAt := Some (now 1)\<rparr>
             in seq_a (case found of
                         None \<Rightarrow> ret_a ()
                       | Some c \<Rightarrow> ignore_a (save_campaign d (autoComplete (now 1)
                           (c\<lparr>g_CompletedCases := g_CompletedCases c + 1, g_FailedCases := g_FailedCases c + 1,
                              g_UpdatedAt := now 1\<rparr>))))
                 (seq_a (save_case cs2) (ret_a cs2))
           else
             let cs2 = cs1\<lparr>k_Status := CaseStatusPending,
                           k_NextAttemptAt := Some (now 1 + retryInterval * second)\<rparr>
             in seq_a (save_case cs2) (ret_a cs2)))"

definition DialCase :: "gotime \<Rightarrow> int \<Rightarrow> int \<Rightarrow> unit gact" where
  "DialCase now campaignID caseID =
     bind_a (load_case caseID) (\<lambda>cs.
     if k_CampaignID cs \<noteq> campaignID then throw_a ErrCaseNotFound
     else save_case (cs\<lparr>k_Status := CaseStatusDialing, k_AttemptCount := k_AttemptCount cs + 1,
                        k_UpdatedAt := now\<rparr>))"

definition SkipCase :: "schedule_columns \<Rightarrow> gotime \<Rightarrow> int \<Rightarrow> int \<Rightarrow> unit gact" where
  "SkipCase d now campaignID caseID =
     bind_a (load_case caseID) (\<lambda>cs.
     if k_CampaignID cs \<noteq> campaignID then throw_a ErrCaseNotFound
     else
       seq_a (save_case (cs\<lparr>k_Status := CaseStatusSkipped, k_UpdatedAt := now, k_CompletedAt := Some now\<rparr>))
       (bind_a (peek_campaign d campaignID) (\<lambda>found.
          case found of
            None \<Rightarrow> ret_a ()
          | Some c \<Rightarrow> ignore_a (save_campaign d (autoComplete now
              (c\<lparr>g_CompletedCases := g_CompletedCases c + 1, g_FailedCases := g_FailedCases c + 1,
                 g_UpdatedAt := now\<rparr>))))))"

end
