(* ===== verification/CampaignProps.thy ===== *)
theory CampaignProps
  imports Campaign
begin

text \<open>
  Properties of outbound campaigns: the campaign table and the case table as instances of
  \<open>world_table\<close>, the status machine and the counters of a campaign, the retry budget of a case,
  imports, and what the do-not-call checks let through.
\<close>

section \<open>The two tables\<close>

definition campaign_ok :: "campaign \<Rightarrow> bool" where
  "campaign_ok c \<longleftrightarrow> g_ID c \<noteq> 0 \<and> 0 \<le> g_SuccessCases c \<and> 0 \<le> g_FailedCases c \<and>
     g_SuccessCases c + g_FailedCases c \<le> g_CompletedCases c \<and> 0 \<le> g_TotalCases c"

definition campaign_finished :: "campaign \<Rightarrow> bool" where
  "campaign_finished c \<longleftrightarrow> g_Status c \<in> {Some CampaignStatusCompleted, Some CampaignStatusAborted}"

inductive campaign_edge :: "campaign \<Rightarrow> campaign \<Rightarrow> bool" where
  stay: "g_Status y = g_Status x \<Longrightarrow> g_CompletedAt y = g_CompletedAt x \<Longrightarrow> campaign_edge x y"
| start: "g_Status x \<in> {Some CampaignStatusDraft, Some CampaignStatusPaused} \<Longrightarrow>
    g_Status y = Some CampaignStatusRunning \<Longrightarrow> campaign_edge x y"
| pause: "g_Status x = Some CampaignStatusRunning \<Longrightarrow> g_Status y = Some CampaignStatusPaused \<Longrightarrow>
    campaign_edge x y"
| abort: "g_Status x \<in> {Some CampaignStatusRunning, Some CampaignStatusPaused} \<Longrightarrow>
    g_Status y = Some CampaignStatusAborted \<Longrightarrow> g_CompletedAt y \<noteq> None \<Longrightarrow> campaign_edge x y"
| complete: "g_Status x = Some CampaignStatusRunning \<Longrightarrow> g_Status y = Some CampaignStatusCompleted \<Longrightarrow>
    g_CompletedAt y \<noteq> None \<Longrightarrow> 0 < g_TotalCases y \<Longrightarrow> g_TotalCases y \<le> g_CompletedCases y \<Longrightarrow>
    campaign_edge x y"

inductive_cases campaign_edgeE: "campaign_edge x y"

definition campaign_evolves :: "campaign \<Rightarrow> campaign \<Rightarrow> bool" where
  "campaign_evolves x y \<longleftrightarrow> campaign_edge x y \<and> g_TenantID y = g_TenantID x \<and>
     g_DialingMode y = g_DialingMode x \<and> g_SkillGroupID y = g_SkillGroupID x \<and>
     g_CreatedAt y = g_CreatedAt x \<and> g_RatioMultiplier y = g_RatioMultiplier x \<and>
     g_MaxAbandonRate y = g_MaxAbandonRate x \<and> g_ConcurrentLimit y = g_ConcurrentLimit x \<and>
     g_MaxRetries y = g_MaxRetries x \<and> g_RetryIntervalSec y = g_RetryIntervalSec x \<and>
     g_TotalCases x \<le> g_TotalCases y \<and>
     g_CompletedCases x \<le> g_CompletedCases y \<and> g_CompletedCases y \<le> g_CompletedCases x + 1"

definition campaign_born :: "campaign \<Rightarrow> bool" where
  "campaign_born c \<longleftrightarrow> g_Status c = Some CampaignStatusDraft \<and> g_TotalCases c = 0 \<and> g_CompletedCases c = 0"

text \<open>
  A stored case: the attempts are counted, and neither its call nor its completion time is there,
  whatever its status.
\<close>

definition case_ok :: "campaign_case \<Rightarrow> bool" where
  "case_ok k \<longleftrightarrow> 0 \<le> k_AttemptCount k \<and> k_CallID k = None \<and> k_CompletedAt k = None"

definition case_evolves :: "campaign_case \<Rightarrow> campaign_case \<Rightarrow> bool" where
  "case_evolves x y \<longleftrightarrow> k_CampaignID y = k_CampaignID x \<and> k_TenantID y = k_TenantID x \<and>
     k_PhoneNumber y = k_PhoneNumber x \<and> k_CreatedAt y = k_CreatedAt x \<and>
     (k_AttemptCount y = k_AttemptCount x \<or> k_AttemptCount y = k_AttemptCount x + 1) \<and>
     (k_Status y = CaseStatusFailed \<longrightarrow> k_Status x = CaseStatusFailed \<or> k_AttemptCount y = k_AttemptCount x + 1)"

definition case_born :: "campaign_case \<Rightarrow> bool" where
  "case_born k \<longleftrightarrow> k_Status k = CaseStatusPending \<and> k_AttemptCount k = 0 \<and> k_PhoneNumber k \<noteq> []"

lemmas row_defs = CampaignRepo_insert_row_def CampaignRepo_update_row_def
  CampaignCaseRepo_insert_row_def CampaignCaseRepo_update_row_def

interpretation campaign_rows: listed_table g_ID "CampaignRepo_insert_row d" CampaignRepo_update_row for d
  by unfold_locales (simp_all add: row_defs)

interpretation case_rows: listed_table k_ID CampaignCaseRepo_insert_row CampaignCaseRepo_update_row
  by unfold_locales (simp_all add: row_defs)

interpretation campaigns: world_table "CampaignRepo d" "lrow g_ID" g_ID CampaignRepo_update_row
    "CampaignRepo_insert_row d" gw_campaigns put_campaigns campaign_ok campaign_evolves campaign_born for d
  unfolding CampaignRepo_def
  by unfold_locales (simp_all add: campaign_evolves_def campaign_edge.stay)

interpretation cases: world_table CampaignCaseRepo "lrow k_ID" k_ID CampaignCaseRepo_update_row
    CampaignCaseRepo_insert_row gw_cases put_cases case_ok case_evolves case_born
  unfolding CampaignCaseRepo_def
  by unfold_locales (simp_all add: case_evolves_def)

abbreviation campaigns_of :: "campaign_world \<Rightarrow> int \<rightharpoonup> campaign" where
  "campaigns_of w \<equiv> lrow g_ID (gw_campaigns w)"

abbreviation cases_of :: "campaign_world \<Rightarrow> int \<rightharpoonup> campaign_case" where
  "cases_of w \<equiv> lrow k_ID (gw_cases w)"

abbreviation campaigns_evolve :: "(int \<rightharpoonup> campaign) \<Rightarrow> (int \<rightharpoonup> campaign) \<Rightarrow> bool" where
  "campaigns_evolve \<equiv> evolves g_ID campaign_ok campaign_evolves campaign_born"

abbreviation cases_evolve :: "(int \<rightharpoonup> campaign_case) \<Rightarrow> (int \<rightharpoonup> campaign_case) \<Rightarrow> bool" where
  "cases_evolve \<equiv> evolves k_ID case_ok case_evolves case_born"

section \<open>Calls that leave a table alone\<close>

lemma preserves_store_other:
  "(\<And>d w. f (put d w) = f w) \<Longrightarrow> preserves f (store_a get put R g x)"
  and preserves_fetch_other:
  "(\<And>d w. f (put d w) = f w) \<Longrightarrow> preserves f (fetch_a get put R e k)"
  and preserves_insert_other:
  "(\<And>d w. f (put d w) = f w) \<Longrightarrow> preserves f (insert_a get put R g x)"
  unfolding store_a_def fetch_a_def insert_a_def
  by (auto intro!: preserves_wrap preserves_try preserves_zoom_other frame_intros
      split: sum.split option.split)

lemma campaigns_quiet [frame_intros]:
  "preserves campaigns_of (load_case k)" "preserves campaigns_of (save_case x)"
  "preserves campaigns_of (BulkCreate ks)" "preserves campaigns_of (CheckBatch t n ns)"
  "preserves campaigns_of (pending_count k)" "preserves campaigns_of (GetNextCase t k)"
  by (auto simp: load_case_def save_case_def BulkCreate_def CheckBatch_def pending_count_def GetNextCase_def
      intro!: preserves_store_other preserves_fetch_other frame_intros preserves_zoom_other)

lemma campaigns_load [frame_intros]: "preserves campaigns_of (load_campaign d k)"
  unfolding load_campaign_def by (rule campaigns.preserves_fetch)

lemma campaigns_peek [frame_intros]: "preserves campaigns_of (peek_campaign d k)"
  unfolding peek_campaign_def
  by (intro preserves_try preserves_zoom [where g = "lrow g_ID"] frame_intros)
    (simp_all add: campaigns.preserves_get)

lemma cases_quiet [frame_intros]:
  "preserves cases_of (load_campaign d k)" "preserves cases_of (save_campaign d x)"
  "preserves cases_of (insert_a gw_campaigns put_campaigns R g x)"
  "preserves cases_of (peek_campaign d k)" "preserves cases_of (CheckBatch t n ns)"
  by (auto simp: load_campaign_def save_campaign_def peek_campaign_def CheckBatch_def
      intro!: preserves_store_other preserves_fetch_other preserves_insert_other frame_intros preserves_zoom_other)

lemma preserves_zoom_rows:
  assumes "\<And>t. lrows (snd (m t)) = lrows t"
  shows "preserves cases_of (zoom_a gw_cases put_cases m)"
proof (rule preserves_zoom [where g = "lrow k_ID"])
  show "preserves (lrow k_ID) m" using assms by (auto simp: preserves_def lrow_def)
qed simp_all

lemma sel_all_lrows [simp]: "lrows (snd (sel_all P t)) = lrows t"
  by (auto simp: lsql_defs split: list.splits)

lemma cases_reads [frame_intros]:
  "preserves cases_of (load_case k)" "preserves cases_of (pending_count k)"
  "preserves cases_of (GetNextCase t k)"
  unfolding load_case_def pending_count_def GetNextCase_def
  by (auto intro!: cases.preserves_fetch frame_intros preserves_zoom_rows)

lemma campaigns_dnc [frame_intros]:
  "preserves campaigns_of (blocked_numbers b t n inputs)" "preserves cases_of (blocked_numbers b t n inputs)"
  unfolding blocked_numbers_def Let_def by (intro frame_intros | simp)+

section \<open>The campaign table under every operation\<close>

lemma moves_load_campaign:
  assumes "\<And>c. moves campaigns_of (\<lambda>T T'. T k = Some c \<longrightarrow> campaigns_evolve T T') (f c)"
  shows "moves campaigns_of campaigns_evolve (bind_a (load_campaign d k) f)"
  unfolding load_campaign_def using assms by (rule campaigns.moves_fetch)

lemma moves_save_campaign:
  assumes "g_ID c = g_ID old" "campaign_ok old \<Longrightarrow> campaign_ok (CampaignRepo_update_row old c)"
    and "campaign_ok old \<Longrightarrow> campaign_evolves old (CampaignRepo_update_row old c)"
  shows "moves campaigns_of (\<lambda>T T'. T k = Some old \<longrightarrow> campaigns_evolve T T') (save_campaign d c)"
  unfolding save_campaign_def using assms by (rule campaigns.moves_store)

lemma moves_save_zero:
  assumes "g_ID c = 0"
  shows "moves campaigns_of campaigns_evolve (save_campaign d c)"
  unfolding save_campaign_def by (rule campaigns.moves_store_absent) (simp add: assms campaign_ok_def)

lemma campaign_quiet_moves:
  "preserves campaigns_of m \<Longrightarrow> moves campaigns_of campaigns_evolve m"
  "preserves campaigns_of m \<Longrightarrow> moves campaigns_of (\<lambda>T T'. T k = Some c \<longrightarrow> campaigns_evolve T T') m"
  by (rule moves_refl; simp)+

text \<open>A campaign looked at with its error dropped.\<close>

lemma peek_row:
  assumes "peek_campaign d k w = (r, w')"
  shows "campaigns_of w' = campaigns_of w \<and>
    (r = Inr (Some campaign_zero) \<or> r = Inr (campaigns_of w k))"
  using assms preservesD [OF campaigns_peek assms]
  by (auto simp: peek_campaign_def act_simps split: prod.splits sum.splits dest: campaigns.get_row)

lemma moves_peek:
  assumes "\<And>c. moves campaigns_of (\<lambda>T T'. T k = Some c \<longrightarrow> campaigns_evolve T T') (f (Some c))"
    and "preserves campaigns_of (f None)"
    and "moves campaigns_of campaigns_evolve (f (Some campaign_zero))"
  shows "moves campaigns_of campaigns_evolve (bind_a (peek_campaign d k) f)"
  unfolding moves_def
proof
  fix w
  obtain r t where p: "peek_campaign d k w = (r, t)" by (cases "peek_campaign d k w")
  from peek_row [OF p] have t: "campaigns_of t = campaigns_of w"
    and r: "r = Inr (Some campaign_zero) \<or> r = Inr (campaigns_of w k)" by auto
  show "campaigns_evolve (campaigns_of w) (campaigns_of (snd (bind_a (peek_campaign d k) f w)))"
  proof (cases "campaigns_of w k")
    case None
    with r p t assms(3) [unfolded moves_def, rule_format, of t] assms(2) [unfolded preserves_def, rule_format, of t]
    show ?thesis by (auto simp: act_simps)
  next
    case (Some c)
    with r p t assms(3) [unfolded moves_def, rule_format, of t] assms(1) [unfolded moves_def, rule_format, of t c]
    show ?thesis by (auto simp: act_simps)
  qed
qed

lemmas campaign_effect = campaign_ok_def campaign_evolves_def row_defs autoComplete_def

text \<open>A case settled in a running campaign.\<close>

lemma settled_ok:
  assumes "c' = autoComplete now (c\<lparr>g_CompletedCases := g_CompletedCases c + 1, g_SuccessCases := s,
      g_FailedCases := n, g_UpdatedAt := now\<rparr>)"
    and "g_SuccessCases c \<le> s" "g_FailedCases c \<le> n" "s + n \<le> g_SuccessCases c + g_FailedCases c + 1"
  shows "g_ID c' = g_ID c" "campaign_ok c \<Longrightarrow> campaign_ok (CampaignRepo_update_row c c')"
    and "campaign_ok c \<Longrightarrow> campaign_evolves c (CampaignRepo_update_row c c')"
  using assms by (auto simp: campaign_effect intro: campaign_edge.stay campaign_edge.complete)

lemma moves_settle:
  assumes "\<And>c. g_SuccessCases c \<le> s c \<and> g_FailedCases c \<le> n c \<and>
      s c + n c \<le> g_SuccessCases c + g_FailedCases c + 1"
    and "preserves campaigns_of m"
  shows "moves campaigns_of campaigns_evolve (bind_a (peek_campaign d k) (\<lambda>found.
     seq_a (case found of None \<Rightarrow> ret_a () | Some c \<Rightarrow> ignore_a (save_campaign d (autoComplete now
        (c\<lparr>g_CompletedCases := g_CompletedCases c + 1, g_SuccessCases := s c, g_FailedCases := n c,
           g_UpdatedAt := now\<rparr>)))) m))"
proof (rule moves_peek)
  fix c
  note ok = settled_ok [OF refl, of c "s c" "n c" now] assms(1) [of c]
  show "moves campaigns_of (\<lambda>T T'. T k = Some c \<longrightarrow> campaigns_evolve T T')
     (seq_a (case Some c of None \<Rightarrow> ret_a () | Some c \<Rightarrow> ignore_a (save_campaign d (autoComplete now
        (c\<lparr>g_CompletedCases := g_CompletedCases c + 1, g_SuccessCases := s c, g_FailedCases := n c,
           g_UpdatedAt := now\<rparr>)))) m)"
    unfolding option.case
    by (intro moves_seq_post moves_ignore moves_save_campaign assms(2)) (use ok in auto)
next
  show "preserves campaigns_of (seq_a (case None of None \<Rightarrow> ret_a () | Some c \<Rightarrow> ignore_a (save_campaign d
      (autoComplete now (c\<lparr>g_CompletedCases := g_CompletedCases c + 1, g_SuccessCases := s c,
         g_FailedCases := n c, g_UpdatedAt := now\<rparr>)))) m)"
    by (simp add: preserves_seq preserves_ret assms(2))
next
  show "moves campaigns_of campaigns_evolve
     (seq_a (case Some campaign_zero of None \<Rightarrow> ret_a () | Some c \<Rightarrow> ignore_a (save_campaign d
        (autoComplete now (c\<lparr>g_CompletedCases := g_CompletedCases c + 1, g_SuccessCases := s c,
           g_FailedCases := n c, g_UpdatedAt := now\<rparr>)))) m)"
    unfolding option.case
    by (intro moves_seq_post moves_ignore moves_save_zero assms(2))
      (simp add: autoComplete_def campaign_zero_def)
qed

datatype campaign_op =
    GCreate create_campaign_input | GStart int | GPause int | GAbort int
  | GImport bool gotime "nat \<Rightarrow> int" int "case_input list"
  | GNext gotime int | GCaseCompleted int string int | GCaseFailed int | GDial int int | GSkip int int

text \<open>
  One request: the clock readings it makes, the identifier it draws and what it asks for. Its
  result is reduced to whether it failed.
\<close>

definition drop_result :: "('s, 'e, 'a) act \<Rightarrow> ('s, 'e, unit) act" where
  "drop_result m = bind_a m (\<lambda>_. ret_a ())"

fun exec_campaign :: "schedule_columns \<Rightarrow> (nat \<Rightarrow> gotime) \<Rightarrow> int \<Rightarrow> campaign_op \<Rightarrow> unit gact" where
  "exec_campaign d now nid (GCreate inp) = drop_result (CreateCampaign d (now 0) nid inp)"
| "exec_campaign d now nid (GStart k) = drop_result (StartCampaign d (now 0) k)"
| "exec_campaign d now nid (GPause k) = drop_result (PauseCampaign d (now 0) k)"
| "exec_campaign d now nid (GAbort k) = drop_result (AbortCampaign d (now 0) k)"
| "exec_campaign d now nid (GImport withDNC dbnow ids k inputs) = ImportCases d withDNC dbnow (now 0) ids k inputs"
| "exec_campaign d now nid (GNext dbnow k) = drop_result (GetNextCase dbnow k)"
| "exec_campaign d now nid (GCaseCompleted k code dur) = drop_result (MarkCaseCompleted d (now 0) k code dur)"
| "exec_campaign d now nid (GCaseFailed k) = drop_result (MarkCaseFailed d now k)"
| "exec_campaign d now nid (GDial k cs) = DialCase (now 0) k cs"
| "exec_campaign d now nid (GSkip k cs) = SkipCase d (now 0) k cs"

lemma moves_drop: "moves f P m \<Longrightarrow> moves f P (drop_result m)"
  unfolding drop_result_def by (rule moves_bind_post) (simp_all add: preserves_ret)

lemma preserves_drop [frame_intros]: "preserves f m \<Longrightarrow> preserves f (drop_result m)"
  unfolding drop_result_def by (intro frame_intros)

lemma moves_create_campaign:
  "nid \<noteq> 0 \<Longrightarrow> moves campaigns_of campaigns_evolve (CreateCampaign d now nid inp)"
  unfolding CreateCampaign_def Let_def
  by (intro moves_if campaigns.moves_throw campaigns.moves_inserted preserves_ret)
    (auto simp: campaign_ok_def campaign_born_def row_defs campaign_zero_def)

lemma moves_saved:
  assumes "g_ID c' = g_ID c" "campaign_ok c \<Longrightarrow> campaign_ok (CampaignRepo_update_row c c')"
    "campaign_ok c \<Longrightarrow> campaign_evolves c (CampaignRepo_update_row c c')" "preserves campaigns_of m"
  shows "moves campaigns_of (\<lambda>T T'. T k = Some c \<longrightarrow> campaigns_evolve T T') (seq_a (save_campaign d c') m)"
  using assms by (intro moves_seq_post moves_save_campaign)

lemma moves_status_ops:
  "moves campaigns_of campaigns_evolve (StartCampaign d now k)"
  "moves campaigns_of campaigns_evolve (PauseCampaign d now k)"
  "moves campaigns_of campaigns_evolve (AbortCampaign d now k)"
  unfolding StartCampaign_def PauseCampaign_def AbortCampaign_def Let_def
  by ((rule moves_load_campaign moves_if moves_saved moves_bind_pre campaign_quiet_moves preserves_throw
        preserves_ret campaigns_quiet campaigns.reflp_evolves)+,
      auto simp: campaign_effect preserves_ret intro: campaign_edge.start campaign_edge.pause campaign_edge.abort)+

lemma moves_import: "moves campaigns_of campaigns_evolve (ImportCases d b dbnow now ids k inputs)"
  unfolding ImportCases_def Let_def
  by (intro moves_load_campaign moves_bind_pre campaigns_dnc campaigns.reflp_evolves moves_if
      campaign_quiet_moves preserves_ret moves_seq_pre campaigns_quiet moves_save_campaign)
    (auto simp: campaign_effect intro: campaign_edge.stay)

lemma completed_shape:
  "autoComplete now ((if dur > 0 then c1\<lparr>g_SuccessCases := g_SuccessCases c1 + 1\<rparr> else c1)\<lparr>g_UpdatedAt := now\<rparr>) =
   autoComplete now (c\<lparr>g_CompletedCases := g_CompletedCases c + 1,
     g_SuccessCases := g_SuccessCases c + of_bool (dur > (0::int)), g_FailedCases := g_FailedCases c, g_UpdatedAt := now\<rparr>)"
  if "c1 = c\<lparr>g_CompletedCases := g_CompletedCases c + 1\<rparr>"
  using that by (intro arg_cong [where f = "autoComplete now"]) simp

lemma moves_case_completed: "moves campaigns_of campaigns_evolve (MarkCaseCompleted d now k code dur)"
  unfolding MarkCaseCompleted_def Let_def completed_shape [OF refl]
  by (intro moves_bind_pre campaigns_quiet campaigns.reflp_evolves moves_if campaign_quiet_moves
      preserves_ret moves_seq_pre moves_settle) (auto simp: frame_intros)

lemma failed_shape:
  "c\<lparr>g_CompletedCases := g_CompletedCases c + 1, g_FailedCases := g_FailedCases c + 1, g_UpdatedAt := now\<rparr> =
   c\<lparr>g_CompletedCases := g_CompletedCases c + 1, g_SuccessCases := g_SuccessCases c,
     g_FailedCases := g_FailedCases c + 1, g_UpdatedAt := now\<rparr>"
  by simp

lemma moves_skip: "moves campaigns_of campaigns_evolve (SkipCase d now k cs)"
proof -
  have settle: "moves campaigns_of campaigns_evolve (bind_a (peek_campaign d k) (\<lambda>found.
     seq_a (case found of None \<Rightarrow> ret_a () | Some c \<Rightarrow> ignore_a (save_campaign d (autoComplete now
        (c\<lparr>g_CompletedCases := g_CompletedCases c + 1, g_SuccessCases := g_SuccessCases c,
           g_FailedCases := g_FailedCases c + 1, g_UpdatedAt := now\<rparr>)))) (ret_a ())))"
    by (intro moves_settle preserves_ret) simp
  have unit_end: "seq_a m (ret_a ()) = m" for m :: "unit gact"
    by (auto simp: fun_eq_iff act_simps split: prod.split sum.split)
  show ?thesis
    unfolding SkipCase_def failed_shape
    by (rule moves_bind_pre moves_if moves_seq_pre campaigns_quiet campaigns.reflp_evolves
        campaigns.moves_throw settle [unfolded unit_end])+
qed

lemma moves_case_failed: "moves campaigns_of campaigns_evolve (MarkCaseFailed d now k)"
proof -
  have tail: "preserves campaigns_of (seq_a (save_case x) (ret_a x))" for x
    by (intro frame_intros)
  show ?thesis
    unfolding MarkCaseFailed_def Let_def failed_shape
  proof (rule moves_bind_pre [OF campaigns_quiet(1) _ campaigns.reflp_evolves(1)], rule moves_peek, goal_cases)
    case (1 cs c)
    note ok = settled_ok [OF refl, of c "g_SuccessCases c" "g_FailedCases c + 1" "now 1"]
    show ?case unfolding option.case
      by (rule moves_if moves_seq_post moves_ignore moves_save_campaign tail campaign_quiet_moves)+
        (use ok in \<open>simp_all add: tail campaign_quiet_moves\<close>)
  next
    case (2 cs)
    show ?case unfolding option.case by (intro frame_intros tail)
  next
    case (3 cs)
    show ?case unfolding option.case
      by (rule moves_if moves_seq_post moves_ignore moves_save_zero tail campaign_quiet_moves)+
        (simp_all add: autoComplete_def campaign_zero_def tail campaign_quiet_moves)
  qed
qed

lemma exec_campaign_moves:
  assumes "nid \<noteq> 0"
  shows "moves campaigns_of campaigns_evolve (exec_campaign d now nid opn)"
  by (cases opn) (simp_all add: moves_drop moves_create_campaign [OF assms] moves_status_ops moves_import
      moves_case_completed moves_case_failed moves_skip campaign_quiet_moves campaigns_quiet DialCase_def
      preserves_bind preserves_if preserves_throw)

section \<open>The case table under every operation\<close>

lemma case_quiet_moves:
  "preserves cases_of m \<Longrightarrow> moves cases_of cases_evolve m"
  "preserves cases_of m \<Longrightarrow> moves cases_of (\<lambda>T T'. T k = Some c \<longrightarrow> cases_evolve T T') m"
  by (rule moves_refl; simp)+

lemma moves_load_case:
  assumes "\<And>c. moves cases_of (\<lambda>T T'. T k = Some c \<longrightarrow> cases_evolve T T') (f c)"
  shows "moves cases_of cases_evolve (bind_a (load_case k) f)"
  unfolding load_case_def using assms by (rule cases.moves_fetch)

lemma moves_save_case:
  assumes "k_ID c = k_ID old" "case_ok old \<Longrightarrow> case_ok (CampaignCaseRepo_update_row old c)"
    and "case_ok old \<Longrightarrow> case_evolves old (CampaignCaseRepo_update_row old c)"
  shows "moves cases_of (\<lambda>T T'. T k = Some old \<longrightarrow> cases_evolve T T') (save_case c)"
  unfolding save_case_def using assms by (rule cases.moves_store)

text \<open>A bulk insert adds rows under new keys, all of them or none.\<close>

lemma bulk_insert_rows:
  "bulk_insert rs ks = Some rs' \<longleftrightarrow>
   rs' = rs @ map CampaignCaseRepo_insert_row ks \<and> distinct (map k_ID ks) \<and>
   (\<forall>k \<in> set ks. \<forall>r \<in> set rs. k_ID r \<noteq> k_ID k)"
proof (induction ks arbitrary: rs)
  case (Cons k ks)
  show ?case
  proof (cases "\<exists>r \<in> set rs. k_ID r = k_ID k")
    case False
    then show ?thesis by (auto simp: Cons.IH row_defs)
  qed auto
qed auto

lemma bulk_evolves:
  assumes "lrows t' = lrows t @ map CampaignCaseRepo_insert_row ks"
    and "\<And>k. k \<in> set ks \<Longrightarrow> case_ok (CampaignCaseRepo_insert_row k) \<and> case_born (CampaignCaseRepo_insert_row k)"
  shows "cases_evolve (lrow k_ID t) (lrow k_ID t')"
proof -
  have r: "lrow k_ID t' k = (case lrow k_ID t k of
      None \<Rightarrow> find (\<lambda>r. k_ID r = k) (map CampaignCaseRepo_insert_row ks) | Some x \<Rightarrow> Some x)" for k
    by (simp add: lrow_def assms(1) find_append)
  have new: "find (\<lambda>r. k_ID r = k) (map CampaignCaseRepo_insert_row ks) = Some y \<Longrightarrow>
      k_ID y = k \<and> case_ok y \<and> case_born y" for k y
    using assms(2) by (fastforce simp: find_Some_iff dest: nth_mem)
  show ?thesis
    unfolding evolves_def rows_ok_def r
    by (auto simp: cases.E_refl split: option.splits dest!: new)
qed

lemma moves_BulkCreate:
  assumes "\<And>k. k \<in> set ks \<Longrightarrow> case_ok (CampaignCaseRepo_insert_row k) \<and> case_born (CampaignCaseRepo_insert_row k)"
  shows "moves cases_of cases_evolve (BulkCreate ks)"
  unfolding BulkCreate_def
proof (intro moves_wrap moves_zoom [where g = "lrow k_ID"])
  show "moves (lrow k_ID) cases_evolve (on_link (\<lambda>t.
     case bulk_insert (lrows t) ks of
       None \<Rightarrow> (Inl ''Error 1062: Duplicate entry'', t) | Some rs \<Rightarrow> (Inr (), t\<lparr>lrows := rs\<rparr>)))"
    unfolding moves_def on_link_def
    by (auto split: list.splits option.splits simp: bulk_insert_rows intro!: bulk_evolves assms)
qed simp_all

lemma new_case_ok:
  assumes "k \<in> set (map (\<lambda>(i, inp). new_case now (ids i) cid tid inp) (enumerate 0 (importable blocked inputs)))"
  shows "case_ok (CampaignCaseRepo_insert_row k) \<and> case_born (CampaignCaseRepo_insert_row k)"
  using assms
  by (auto simp: case_ok_def case_born_def row_defs new_case_def importable_def in_set_enumerate_eq
      dest!: nth_mem)

lemma cases_import: "moves cases_of cases_evolve (ImportCases d b dbnow now ids k inputs)"
  unfolding ImportCases_def Let_def
  by (rule moves_bind_pre cases_quiet campaigns_dnc cases.reflp_evolves moves_if moves_seq_post
      moves_BulkCreate new_case_ok case_quiet_moves preserves_ret | assumption)+

lemmas case_effect = case_ok_def case_evolves_def row_defs

lemma cases_settle [frame_intros]:
  "preserves cases_of (case found of None \<Rightarrow> ret_a () | Some c \<Rightarrow> ignore_a (save_campaign d (f c)))"
  by (cases found) (simp_all add: preserves_ret preserves_ignore cases_quiet)

lemma cases_single_ops:
  "moves cases_of cases_evolve (MarkCaseCompleted d (now 0) k code dur)"
  "moves cases_of cases_evolve (DialCase (now 0) j k)"
  "moves cases_of cases_evolve (SkipCase d (now 0) j k)"
  unfolding MarkCaseCompleted_def DialCase_def SkipCase_def Let_def
  by ((rule moves_load_case moves_if moves_seq_post moves_save_case cases_settle frame_intros cases_quiet
        case_quiet_moves)+;
      auto simp: case_effect)+

lemma cases_failed: "moves cases_of cases_evolve (MarkCaseFailed d now k)"
  unfolding MarkCaseFailed_def Let_def
proof (rule moves_load_case, rule moves_bind_pre [OF cases_quiet(4) _ cases.reflp_evolves(2)], goal_cases)
  case (1 cs found)
  show ?case
    by (rule moves_if, rule moves_seq_pre [OF cases_settle _ cases.reflp_evolves(2)])
      (rule moves_seq_post moves_save_case preserves_ret, auto simp: case_effect moves_save_case preserves_ret)+
qed

lemma exec_campaign_cases: "moves cases_of cases_evolve (exec_campaign d now nid opn)"
proof (cases opn)
  case (GCreate inp)
  then show ?thesis
    by (simp add: CreateCampaign_def Let_def case_quiet_moves preserves_drop preserves_if preserves_throw
        preserves_seq preserves_ret cases_quiet)
next
  case (GCaseCompleted k code dur)
  then show ?thesis by (simp add: moves_drop cases_single_ops)
next
  case (GCaseFailed k)
  then show ?thesis by (simp add: moves_drop cases_failed)
qed (auto simp: StartCampaign_def PauseCampaign_def AbortCampaign_def Let_def cases_import cases_single_ops
    intro!: case_quiet_moves frame_intros cases_quiet cases_reads)

section \<open>The machine of a campaign\<close>

text \<open>
  C7. One request moves every campaign along its status machine (draft and paused campaigns
  start, running ones pause, running or paused ones abort, a running one completes when its last
  case is settled), counts at most one settled case and never loses one, keeps success and
  failure within the settled cases, and keeps its tenant, mode, skill group and dialing settings;
  a new campaign is an empty draft. All this whatever the database does, and whether the request
  fails or not.
\<close>

theorem campaign_machine:
  assumes "rows_ok g_ID campaign_ok (campaigns_of w)" and "nid \<noteq> 0"
    and "exec_campaign d now nid opn w = (r, w')"
  shows "rows_ok g_ID campaign_ok (campaigns_of w') \<and>
    (\<forall>k c. campaigns_of w k = Some c \<longrightarrow> (\<exists>c'. campaigns_of w' k = Some c' \<and> campaign_evolves c c')) \<and>
    (\<forall>k c. campaigns_of w k = None \<longrightarrow> campaigns_of w' k = Some c \<longrightarrow> campaign_born c)"
  using movesD [OF exec_campaign_moves [OF assms(2)] assms(3)] assms(1) unfolding evolves_def by blast

primrec run_campaign ::
  "schedule_columns \<Rightarrow> ((nat \<Rightarrow> gotime) \<times> int \<times> campaign_op) list \<Rightarrow> campaign_world \<Rightarrow> campaign_world" where
  "run_campaign d [] w = w"
| "run_campaign d (q # qs) w =
     run_campaign d qs (snd (exec_campaign d (fst q) (fst (snd q)) (snd (snd q)) w))"

lemma exec_campaign_row:
  assumes "rows_ok g_ID campaign_ok (campaigns_of w)" "nid \<noteq> 0"
  shows "rows_ok g_ID campaign_ok (campaigns_of (snd (exec_campaign d now nid opn w)))"
    and "campaigns_of w k = Some c \<Longrightarrow>
      \<exists>c'. campaigns_of (snd (exec_campaign d now nid opn w)) k = Some c' \<and> campaign_evolves c c'"
  using evolvesD [OF exec_campaign_moves [OF assms(2), unfolded moves_def, rule_format] assms(1)] by blast+

lemma finished_stays:
  "campaign_evolves c c' \<Longrightarrow> campaign_finished c \<Longrightarrow>
   campaign_finished c' \<and> g_Status c' = g_Status c \<and> g_CompletedAt c' = g_CompletedAt c"
  by (auto simp: campaign_evolves_def campaign_finished_def elim!: campaign_edgeE)

text \<open>
  A completed or aborted campaign stays so, with its completion time, along any run of
  requests and database failures; its counters only grow and stay consistent.
\<close>

theorem finished_campaign_is_final:
  assumes "rows_ok g_ID campaign_ok (campaigns_of w)" and "\<forall>q \<in> set qs. fst (snd q) \<noteq> 0"
    and "campaigns_of w k = Some c" and "campaign_finished c"
  shows "\<exists>c'. campaigns_of (run_campaign d qs w) k = Some c' \<and> g_Status c' = g_Status c \<and>
    g_CompletedAt c' = g_CompletedAt c \<and> g_CompletedCases c \<le> g_CompletedCases c' \<and>
    g_SuccessCases c' + g_FailedCases c' \<le> g_CompletedCases c'"
  using assms
proof (induction qs arbitrary: w c)
  case Nil
  then show ?case by (auto simp: rows_ok_def campaign_ok_def)
next
  case (Cons q qs)
  obtain now nid opn where q: "q = (now, nid, opn)" by (cases q)
  from Cons.prems q have nid: "nid \<noteq> 0" by simp
  note row = exec_campaign_row [OF Cons.prems(1) nid, where d = d and now = now and opn = opn]
  from row(2) [OF Cons.prems(3)] obtain c1 where
    c1: "campaigns_of (snd (exec_campaign d now nid opn w)) k = Some c1" "campaign_evolves c c1" by blast
  from finished_stays [OF c1(2) Cons.prems(4)] have "campaign_finished c1"
    and same: "g_Status c1 = g_Status c" "g_CompletedAt c1 = g_CompletedAt c" by auto
  from Cons.IH [OF row(1) _ c1(1) this(1)] Cons.prems(2) obtain c2 where
    "campaigns_of (run_campaign d (q # qs) w) k = Some c2" "g_Status c2 = g_Status c1"
    "g_CompletedAt c2 = g_CompletedAt c1" "g_CompletedCases c1 \<le> g_CompletedCases c2"
    "g_SuccessCases c2 + g_FailedCases c2 \<le> g_CompletedCases c2"
    by (auto simp: q)
  with same c1(2) show ?case by (auto simp: campaign_evolves_def)
qed

text \<open>
  One request changes a stored case by at most one attempt, fails it only while counting
  one, and never its campaign, number or creation time. No stored case ever carries its call or
  its completion time, although \<open>MarkCaseCompleted\<close>, \<open>MarkCaseFailed\<close> and \<open>SkipCase\<close> set it.
\<close>

theorem case_machine:
  assumes "rows_ok k_ID case_ok (cases_of w)" and "exec_campaign d now nid opn w = (r, w')"
  shows "rows_ok k_ID case_ok (cases_of w') \<and>
    (\<forall>k x. cases_of w k = Some x \<longrightarrow> (\<exists>y. cases_of w' k = Some y \<and> case_evolves x y)) \<and>
    (\<forall>k y. cases_of w k = None \<longrightarrow> cases_of w' k = Some y \<longrightarrow> case_born y)"
  using movesD [OF exec_campaign_cases assms(2)] assms(1) unfolding evolves_def by blast

section \<open>A failed attempt\<close>

lemma peek_result:
  "fst (peek_campaign d k w) = Inr (if next_statement_fails (gw_campaigns w) then Some campaign_zero
                                    else campaigns_of w k)"
  by (auto simp: peek_campaign_def CampaignRepo_def ltable_repo_def lsql_defs act_simps next_statement_fails_def
      split: list.split)

lemma gw_cases_peek [simp]: "gw_cases (snd (peek_campaign d k w)) = gw_cases w"
  by (auto simp: peek_campaign_def act_simps split: prod.split)

lemma gw_cases_save_campaign [simp]: "gw_cases (snd (save_campaign d c w)) = gw_cases w"
  by (auto simp: save_campaign_def store_a_def act_simps split: prod.split sum.split)

lemma load_case_healthy:
  "loutages (gw_cases w) = [] \<Longrightarrow> cases_of w k = Some cs \<Longrightarrow> load_case k w = (Inr cs, put_cases (gw_cases w) w)"
  by (simp add: load_case_def fetch_a_def CampaignCaseRepo_def ltable_repo_def act_simps)

lemma put_cases_same [simp]: "put_cases (gw_cases w) w = w"
  by (simp add: put_cases_def)

lemma save_case_healthy:
  assumes "loutages (gw_cases w) = []" "cases_of w (k_ID x) = Some old"
  shows "\<exists>w'. save_case x w = (Inr (), w') \<and> gw_campaigns w' = gw_campaigns w \<and>
    cases_of w' = (cases_of w)(k_ID x \<mapsto> CampaignCaseRepo_update_row old x)"
  using assms lrow_update [of _ k_ID x CampaignCaseRepo_update_row "gw_cases w"]
  by (auto simp: save_case_def store_a_def CampaignCaseRepo_def ltable_repo_def act_simps row_defs)

text \<open>
  A failed attempt, with the case table reachable: the case is counted, and goes back to
  pending after the retry interval while attempts are left, or fails for good. The budget is
  the campaign's \<open>MaxRetries\<close>, three when there is no such campaign, and zero when the campaign
  cannot be read: one lost query fails the case at its first attempt, and the campaign does not
  count it.
\<close>

theorem MarkCaseFailed_outcome:
  assumes "loutages (gw_cases w) = []" and "cases_of w k = Some cs"
    and "budget = (if next_statement_fails (gw_campaigns w) then 0
       else case campaigns_of w (k_CampaignID cs) of None \<Rightarrow> 3 | Some c \<Rightarrow> g_MaxRetries c)"
  shows "\<exists>cs' w'. MarkCaseFailed d now k w = (Inr cs', w') \<and>
    cases_of w' = (cases_of w)(k \<mapsto> CampaignCaseRepo_update_row cs cs') \<and>
    k_AttemptCount cs' = k_AttemptCount cs + 1 \<and>
    (if budget \<le> k_AttemptCount cs + 1 then k_Status cs' = CaseStatusFailed
     else k_Status cs' = CaseStatusPending \<and> k_NextAttemptAt cs' \<noteq> None \<and> campaigns_of w' = campaigns_of w)"
proof -
  let ?cid = "k_CampaignID cs"
  obtain found w1 where peek: "peek_campaign d ?cid w = (Inr found, w1)"
    and found: "found = (if next_statement_fails (gw_campaigns w) then Some campaign_zero else campaigns_of w ?cid)"
    using peek_result [of d ?cid w] by (cases "peek_campaign d ?cid w") auto
  have w1: "gw_cases w1 = gw_cases w" "campaigns_of w1 = campaigns_of w"
    using gw_cases_peek [of d ?cid w] peek_row [OF peek] by (simp_all add: peek)
  have id: "k_ID cs = k" using assms(2) by (auto simp: lrow_def dest: find_key)
  have budget: "budget = (case found of None \<Rightarrow> 3 | Some c \<Rightarrow> g_MaxRetries c)"
    using found assms(3) by (simp add: campaign_zero_def)
  have save: "\<exists>w'. save_case x t = (Inr (), w') \<and> gw_campaigns w' = gw_campaigns t \<and>
      cases_of w' = (cases_of w)(k \<mapsto> CampaignCaseRepo_update_row cs x)"
    if "k_ID x = k" "gw_cases t = gw_cases w" for x t
    using save_case_healthy [of t x cs] assms(1,2) that by simp
  show ?thesis
  proof (cases "budget \<le> k_AttemptCount cs + 1")
    case True
    define cs' where "cs' = cs\<lparr>k_AttemptCount := k_AttemptCount cs + 1, k_UpdatedAt := now 0,
      k_Status := CaseStatusFailed, k_CompletedAt := Some (now 1)\<rparr>"
    define w2 where "w2 = snd (((case found of None \<Rightarrow> ret_a () | Some c \<Rightarrow> ignore_a (save_campaign d
      (autoComplete (now 1) (c\<lparr>g_CompletedCases := g_CompletedCases c + 1,
        g_FailedCases := g_FailedCases c + 1, g_UpdatedAt := now 1\<rparr>)))) :: unit gact) w1)"
    have "gw_cases w2 = gw_cases w" by (cases found) (simp_all add: w2_def act_simps w1)
    from save [OF _ this, of cs'] id obtain w' where
      "save_case cs' w2 = (Inr (), w')" "cases_of w' = (cases_of w)(k \<mapsto> CampaignCaseRepo_update_row cs cs')"
      by (auto simp: cs'_def)
    moreover from calculation True budget peek have "MarkCaseFailed d now k w = (Inr cs', w')"
      by (cases found) (simp_all add: MarkCaseFailed_def Let_def act_simps load_case_healthy assms(1,2)
          cs'_def w2_def)
    ultimately show ?thesis using True by (auto simp: cs'_def)
  next
    case False
    define cs' where "cs' = cs\<lparr>k_AttemptCount := k_AttemptCount cs + 1, k_UpdatedAt := now 0,
      k_Status := CaseStatusPending, k_NextAttemptAt :=
        Some (now 1 + (case found of None \<Rightarrow> 300 | Some c \<Rightarrow> g_RetryIntervalSec c) * second)\<rparr>"
    from save [of cs' w1] id w1 obtain w' where
      "save_case cs' w1 = (Inr (), w')" "cases_of w' = (cases_of w)(k \<mapsto> CampaignCaseRepo_update_row cs cs')"
      "gw_campaigns w' = gw_campaigns w1"
      by (auto simp: cs'_def)
    moreover from calculation False budget peek have "MarkCaseFailed d now k w = (Inr cs', w')"
      by (simp add: MarkCaseFailed_def Let_def act_simps load_case_healthy assms(1,2) cs'_def)
    ultimately show ?thesis using False w1 by (auto simp: cs'_def)
  qed
qed

section \<open>Imports\<close>

definition actively_listed :: "gotime \<Rightarrow> int \<Rightarrow> campaign_world \<Rightarrow> string \<Rightarrow> bool" where
  "actively_listed dbnow tid w n \<longleftrightarrow> (\<exists>e \<in> set (lrows (gw_dnc w)). dnc_active dbnow tid e \<and> dnc_Number e = n)"

lemma on_link_eq:
  "on_link m t = (if next_statement_fails t then (Inl ''sql: connection lost'', t\<lparr>loutages := tl (loutages t)\<rparr>)
                  else m (t\<lparr>loutages := tl (loutages t)\<rparr>))"
  by (cases t) (auto simp: next_statement_fails_def on_link_def split: list.splits)

lemma CheckBatch_result:
  assumes "ns \<noteq> []"
  shows "fst (CheckBatch dbnow tid ns w) =
    (if next_statement_fails (gw_dnc w) then Inl (ErrCampaignStore ''sql: connection lost'')
     else Inr (map dnc_Number (filter (\<lambda>e. dnc_active dbnow tid e \<and> dnc_Number e \<in> set ns) (lrows (gw_dnc w)))))"
  using assms by (simp add: CheckBatch_def act_simps sel_all_def on_link_eq)

lemma importable_listed:
  "importable (map dnc_Number (filter (\<lambda>e. dnc_active dbnow tid e \<and>
     dnc_Number e \<in> set (filter (\<lambda>n. n \<noteq> []) (map ki_PhoneNumber inputs))) (lrows (gw_dnc w)))) inputs =
   filter (\<lambda>i. ki_PhoneNumber i \<noteq> [] \<and> \<not> actively_listed dbnow tid w (ki_PhoneNumber i)) inputs"
  unfolding importable_def actively_listed_def by (rule filter_cong) (auto simp: image_iff)

lemma CheckBatch_others [simp]:
  "gw_campaigns (snd (CheckBatch dbnow tid ns w)) = gw_campaigns w"
  "gw_cases (snd (CheckBatch dbnow tid ns w)) = gw_cases w"
  by (auto simp: CheckBatch_def act_simps split: prod.split sum.split)

lemma blocked_numbers_result:
  obtains ns w' where "blocked_numbers withDNC dbnow tid inputs w = (Inr ns, w')"
    "gw_campaigns w' = gw_campaigns w" "gw_cases w' = gw_cases w"
    "importable ns inputs = filter (\<lambda>i. ki_PhoneNumber i \<noteq> [] \<and> \<not> (withDNC \<and>
       \<not> next_statement_fails (gw_dnc w) \<and> actively_listed dbnow tid w (ki_PhoneNumber i))) inputs"
proof -
  let ?ns = "filter (\<lambda>n. n \<noteq> []) (map ki_PhoneNumber inputs)"
  obtain r t where c: "CheckBatch dbnow tid ?ns w = (r, t)" by (cases "CheckBatch dbnow tid ?ns w")
  note ot = CheckBatch_others [of dbnow tid ?ns w, unfolded c snd_conv]
  show thesis
  proof (cases "withDNC \<and> ?ns \<noteq> []")
    case True
    show thesis
    proof (rule that)
      show "blocked_numbers withDNC dbnow tid inputs w = (Inr (case r of Inr ns \<Rightarrow> ns | Inl _ \<Rightarrow> []), t)"
        using True c by (simp add: blocked_numbers_def Let_def act_simps)
      show "gw_campaigns t = gw_campaigns w" "gw_cases t = gw_cases w" by (fact ot)+
      show "importable (case r of Inr ns \<Rightarrow> ns | Inl _ \<Rightarrow> []) inputs =
        filter (\<lambda>i. ki_PhoneNumber i \<noteq> [] \<and> \<not> (withDNC \<and> \<not> next_statement_fails (gw_dnc w) \<and>
          actively_listed dbnow tid w (ki_PhoneNumber i))) inputs"
      proof (cases "next_statement_fails (gw_dnc w)")
        case True
        with \<open>withDNC \<and> ?ns \<noteq> []\<close> c CheckBatch_result [of ?ns dbnow tid w] show ?thesis
          by (simp add: importable_def)
      next
        case False
        with True c CheckBatch_result [of ?ns dbnow tid w]
        have "r = Inr (map dnc_Number (filter (\<lambda>e. dnc_active dbnow tid e \<and> dnc_Number e \<in> set ?ns) (lrows (gw_dnc w))))"
          by simp
        with True False show ?thesis by (simp only: sum.case importable_listed) simp
      qed
    qed
  next
    case False
    have none: "importable [] inputs = filter (\<lambda>i. ki_PhoneNumber i \<noteq> [] \<and> \<not> (withDNC \<and>
       \<not> next_statement_fails (gw_dnc w) \<and> actively_listed dbnow tid w (ki_PhoneNumber i))) inputs"
      unfolding importable_def by (rule filter_cong) (use False in \<open>auto simp: filter_empty_conv\<close>)
    have "blocked_numbers withDNC dbnow tid inputs w = (Inr [], w)"
      using False by (auto simp: blocked_numbers_def Let_def act_simps)
    from that [OF this refl refl none] show thesis .
  qed
qed

lemma load_campaign_healthy:
  "loutages (gw_campaigns w) = [] \<Longrightarrow> campaigns_of w k = Some c \<Longrightarrow> load_campaign d k w = (Inr c, w)"
  by (simp add: load_campaign_def fetch_a_def CampaignRepo_def ltable_repo_def act_simps put_campaigns_def)

lemma save_campaign_healthy:
  assumes "loutages (gw_campaigns w) = []" "campaigns_of w (g_ID x) = Some old"
  shows "\<exists>w'. save_campaign d x w = (Inr (), w') \<and> gw_cases w' = gw_cases w \<and>
    campaigns_of w' = (campaigns_of w)(g_ID x \<mapsto> CampaignRepo_update_row old x)"
  using assms lrow_update [of _ g_ID x CampaignRepo_update_row "gw_campaigns w"]
  by (auto simp: save_campaign_def store_a_def CampaignRepo_def ltable_repo_def act_simps row_defs)

lemma BulkCreate_healthy:
  assumes "loutages (gw_cases w) = []" "distinct (map k_ID ks)"
    and "\<And>k r. k \<in> set ks \<Longrightarrow> r \<in> set (lrows (gw_cases w)) \<Longrightarrow> k_ID r \<noteq> k_ID k"
  shows "\<exists>w'. BulkCreate ks w = (Inr (), w') \<and> gw_campaigns w' = gw_campaigns w \<and>
    lrows (gw_cases w') = lrows (gw_cases w) @ map CampaignCaseRepo_insert_row ks"
proof -
  have "bulk_insert (lrows (gw_cases w)) ks = Some (lrows (gw_cases w) @ map CampaignCaseRepo_insert_row ks)"
    using assms by (auto simp: bulk_insert_rows)
  with assms(1) show ?thesis by (simp add: BulkCreate_def act_simps on_link_def)
qed

lemma new_case_row [simp]: "CampaignCaseRepo_insert_row (new_case now i cid tid inp) = new_case now i cid tid inp"
  by (simp add: row_defs new_case_def)

lemma ImportCases_run:
  assumes "load_campaign d k w = (Inr c, w)" "blocked_numbers withDNC dbnow (g_TenantID c) inputs w = (Inr ns, w1)"
    and "importable ns inputs = kept"
    and "ks = map (\<lambda>(i, inp). new_case now (ids i) k (g_TenantID c) inp) (enumerate 0 kept)"
  shows "ImportCases d withDNC dbnow now ids k inputs w =
    (if ks = [] then (Inr (), w1)
     else seq_a (BulkCreate ks)
       (save_campaign d (c\<lparr>g_TotalCases := g_TotalCases c + int (length ks), g_UpdatedAt := now\<rparr>)) w1)"
  unfolding ImportCases_def bind_a_def Let_def assms(1) prod.case sum.case assms(2) assms(3)
    assms(4) [symmetric] by (simp add: act_run)

text \<open>
  An import with the campaign and case tables reachable: exactly the inputs with a number
  that no active do-not-call entry of the tenant blocks are appended, in order, as pending cases
  without attempts, and the campaign's total grows by their number. When the do-not-call query
  fails, nothing is blocked.
\<close>

theorem ImportCases_stores:
  assumes "loutages (gw_campaigns w) = []" and "loutages (gw_cases w) = []"
    and "campaigns_of w k = Some c" and "inj ids"
    and "\<forall>i. \<forall>r \<in> set (lrows (gw_cases w)). k_ID r \<noteq> ids i"
    and "kept = filter (\<lambda>i. ki_PhoneNumber i \<noteq> [] \<and> \<not> (withDNC \<and> \<not> next_statement_fails (gw_dnc w) \<and>
       actively_listed dbnow (g_TenantID c) w (ki_PhoneNumber i))) inputs"
  shows "\<exists>w'. ImportCases d withDNC dbnow now ids k inputs w = (Inr (), w') \<and>
    lrows (gw_cases w') = lrows (gw_cases w) @
      map (\<lambda>(i, inp). new_case now (ids i) k (g_TenantID c) inp) (enumerate 0 kept) \<and>
    (\<exists>c'. campaigns_of w' k = Some c' \<and> g_TotalCases c' = g_TotalCases c + int (length kept) \<and>
       g_Status c' = g_Status c)"
proof -
  obtain ns w1 where b: "blocked_numbers withDNC dbnow (g_TenantID c) inputs w = (Inr ns, w1)"
    and w1: "gw_campaigns w1 = gw_campaigns w" "gw_cases w1 = gw_cases w"
    and kept: "importable ns inputs = kept"
    using blocked_numbers_result [of withDNC dbnow "g_TenantID c" inputs w] assms(6) by metis
  let ?ks = "map (\<lambda>(i, inp). new_case now (ids i) k (g_TenantID c) inp) (enumerate 0 kept)"
  have id: "g_ID c = k" using assms(3) by (auto simp: lrow_def dest: find_key)
  have ids: "map k_ID ?ks = map ids [0..<length kept]"
    by (rule nth_equalityI) (simp_all add: new_case_def nth_enumerate_eq)
  have fresh: "distinct (map k_ID ?ks)"
    unfolding ids using assms(4) by (simp add: distinct_map inj_on_subset [OF assms(4)])
  show ?thesis
  proof (cases "?ks = []")
    case True
    with ImportCases_run [OF load_campaign_healthy [OF assms(1,3)] b kept refl, of d now ids]
    have "ImportCases d withDNC dbnow now ids k inputs w = (Inr (), w1)" by simp
    moreover from True have "kept = []" by (simp add: enumerate_eq_zip)
    ultimately show ?thesis using w1 assms(3) by simp
  next
    case False
    have "\<exists>w2. BulkCreate ?ks w1 = (Inr (), w2) \<and> gw_campaigns w2 = gw_campaigns w1 \<and>
        lrows (gw_cases w2) = lrows (gw_cases w1) @ map CampaignCaseRepo_insert_row ?ks"
      by (rule BulkCreate_healthy [OF _ fresh]) (use assms(2,5) w1 in \<open>auto simp: new_case_def\<close>)
    then obtain w2 where w2: "BulkCreate ?ks w1 = (Inr (), w2)" "gw_campaigns w2 = gw_campaigns w"
      "lrows (gw_cases w2) = lrows (gw_cases w) @ map CampaignCaseRepo_insert_row ?ks"
      using w1 by auto
    have same: "map CampaignCaseRepo_insert_row ?ks = ?ks" by auto
    let ?c = "c\<lparr>g_TotalCases := g_TotalCases c + int (length kept), g_UpdatedAt := now\<rparr>"
    from save_campaign_healthy [of w2 ?c c d] w2(2) assms(1,3) id obtain w3 where
      w3: "save_campaign d ?c w2 = (Inr (), w3)" "gw_cases w3 = gw_cases w2"
      "campaigns_of w3 = (campaigns_of w2)(k \<mapsto> CampaignRepo_update_row c ?c)" by auto
    have "length ?ks = length kept" by simp
    with ImportCases_run [OF load_campaign_healthy [OF assms(1,3)] b kept refl, of d now ids] False w2(1) w3(1)
    have "ImportCases d withDNC dbnow now ids k inputs w = (Inr (), w3)"
      by (simp only: if_False act_run prod.case sum.case)
    with w3 w2(3) same show ?thesis by (simp add: row_defs)
  qed
qed

section \<open>The do-not-call list\<close>

datatype dnc_op = DAdd dnc_entry | DRemove int

fun exec_dnc :: "gotime \<Rightarrow> int \<Rightarrow> dnc_op \<Rightarrow> unit gact" where
  "exec_dnc now nid (DAdd e) = AddEntry now nid e"
| "exec_dnc now nid (DRemove k) = RemoveEntry k"

primrec run_dnc :: "(gotime \<times> int \<times> dnc_op) list \<Rightarrow> campaign_world \<Rightarrow> campaign_world" where
  "run_dnc [] w = w"
| "run_dnc (q # qs) w = run_dnc qs (snd (exec_dnc (fst q) (fst (snd q)) (snd (snd q)) w))"

definition dnc_unique :: "campaign_world \<Rightarrow> bool" where
  "dnc_unique w \<longleftrightarrow> distinct (map (\<lambda>e. (dnc_TenantID e, dnc_Number e)) (lrows (gw_dnc w)))"

lemma exec_dnc_unique:
  assumes "dnc_unique w"
  shows "dnc_unique (snd (exec_dnc now nid opn w))"
proof (cases opn)
  case (DAdd e)
  then show ?thesis
    using assms by (auto simp: dnc_unique_def AddEntry_def act_simps on_link_def split: list.splits)
next
  case (DRemove k)
  then show ?thesis
    using assms by (auto simp: dnc_unique_def RemoveEntry_def act_simps on_link_def distinct_map_filter
        split: list.splits)
qed

lemma run_dnc_unique: "dnc_unique w \<Longrightarrow> dnc_unique (run_dnc qs w)"
  by (induction qs arbitrary: w) (auto intro: exec_dnc_unique)

lemma unique_entry:
  fixes w :: campaign_world
  assumes "dnc_unique w"
  shows "filter (\<lambda>e. dnc_TenantID e = t \<and> dnc_Number e = n) (lrows (gw_dnc w)) \<in>
    insert [] ((\<lambda>e. [e]) ` set (lrows (gw_dnc w)))"
  using assms unfolding dnc_unique_def
proof (induction "lrows (gw_dnc w)" arbitrary: w)
  case (Cons e es)
  obtain w' :: campaign_world where w': "lrows (gw_dnc w') = es"
    by (rule that [of "put_dnc \<lparr>lrows = es, loutages = []\<rparr> undefined"]) simp
  have none: "dnc_TenantID e = t \<Longrightarrow> dnc_Number e = n \<Longrightarrow>
      filter (\<lambda>e. dnc_TenantID e = t \<and> dnc_Number e = n) es = []"
    using Cons.prems Cons.hyps(2) [symmetric] by (force simp: filter_empty_conv image_iff)
  from Cons.hyps(1) [of w'] Cons.prems Cons.hyps(2) [symmetric] w' none show ?case by auto
qed simp

lemma CheckDNC_result:
  "fst (CheckDNC now t n w) = Inl ErrDNCBlocked \<longleftrightarrow> \<not> next_statement_fails (gw_dnc w) \<and>
   (case filter (\<lambda>e. dnc_TenantID e = t \<and> dnc_Number e = n) (lrows (gw_dnc w)) of
      [] \<Rightarrow> False | e # _ \<Rightarrow> (case dnc_ExpiresAt e of None \<Rightarrow> True | Some x \<Rightarrow> now \<le> x))"
proof (cases "next_statement_fails (gw_dnc w)")
  case True
  then show ?thesis by (simp add: CheckDNC_def GetByNumber_def act_simps sel_all_def on_link_eq)
next
  case False
  then show ?thesis
    by (auto simp: CheckDNC_def GetByNumber_def act_simps sel_all_def on_link_eq
        split: list.split option.split if_splits)
qed

text \<open>
  On any list the service has built (entries added and removed, under failures), \<open>CheckDNC\<close>
  blocks a number exactly when \<open>CheckBatch\<close> would list it at the same time of the clock, except
  for an entry that expires at that very instant. Neither blocks when its query fails: the
  single check lets the number pass, the batch check returns an error, which \<open>ImportCases\<close> drops.
\<close>

theorem dnc_checks_agree:
  assumes "lrows (gw_dnc w0) = []" and "w = run_dnc qs w0"
    and "\<forall>e \<in> set (lrows (gw_dnc w)). dnc_ExpiresAt e \<noteq> Some now"
  shows "fst (CheckDNC now t n w) = Inl ErrDNCBlocked \<longleftrightarrow>
    (\<exists>ns. fst (CheckBatch now t [n] w) = Inr ns \<and> n \<in> set ns)"
proof -
  let ?es = "filter (\<lambda>e. dnc_TenantID e = t \<and> dnc_Number e = n) (lrows (gw_dnc w))"
  have "dnc_unique w0" using assms(1) by (simp add: dnc_unique_def)
  then have "dnc_unique w" unfolding assms(2) by (rule run_dnc_unique)
  from unique_entry [OF this, of t n] have one: "?es = [] \<or> (\<exists>e \<in> set (lrows (gw_dnc w)). ?es = [e])" by auto
  have "(\<exists>ns. fst (CheckBatch now t [n] w) = Inr ns \<and> n \<in> set ns) \<longleftrightarrow>
      \<not> next_statement_fails (gw_dnc w) \<and> (\<exists>e \<in> set ?es. dnc_active now t e)"
    by (auto simp: CheckBatch_result dnc_active_def)
  moreover have "(\<exists>e \<in> set ?es. dnc_active now t e) \<longleftrightarrow>
      (case ?es of [] \<Rightarrow> False | e # _ \<Rightarrow> (case dnc_ExpiresAt e of None \<Rightarrow> True | Some x \<Rightarrow> now \<le> x))"
  proof (cases "?es = []")
    case False
    with one obtain e where e: "e \<in> set (lrows (gw_dnc w))" "?es = [e]" by auto
    then have "e \<in> set ?es" by simp
    then have "dnc_TenantID e = t" by simp
    with e assms(3) show ?thesis by (auto simp: dnc_active_def split: option.splits)
  qed simp
  ultimately show ?thesis by (simp add: CheckDNC_result)
qed

section \<open>A concrete world\<close>

definition schedule0 :: schedule_columns where
  "schedule0 = \<lparr>sd_Timezone = ''UTC'', sd_Days = ''mon,tue'', sd_StartHour = 9, sd_EndHour = 18\<rparr>"

definition campaign1 :: campaign where
  "campaign1 = campaign_zero\<lparr>g_ID := 1, g_TenantID := 7, g_Status := Some CampaignStatusRunning,
     g_MaxRetries := 3, g_RetryIntervalSec := 60, g_TotalCases := 1\<rparr>"

definition campaign2 :: campaign where
  "campaign2 = campaign1\<lparr>g_ID := 2, g_Status := Some CampaignStatusAborted, g_CompletedAt := Some 4\<rparr>"

definition case1 :: campaign_case where
  "case1 = new_case 5 10 1 7 \<lparr>ki_PhoneNumber = ''100'', ki_CustomerName = [], ki_CustomData = []\<rparr>"

definition campaign_world0 :: campaign_world where
  "campaign_world0 = \<lparr>gw_campaigns = \<lparr>lrows = [campaign1, campaign2], loutages = []\<rparr>,
     gw_cases = \<lparr>lrows = [case1], loutages = []\<rparr>, gw_dnc = \<lparr>lrows = [], loutages = []\<rparr>\<rparr>"

lemmas world0_defs = campaign_world0_def campaign1_def campaign2_def case1_def campaign_zero_def new_case_def

lemma world0_rows:
  "rows_ok g_ID campaign_ok (campaigns_of campaign_world0)" "rows_ok k_ID case_ok (cases_of campaign_world0)"
  "campaigns_of campaign_world0 1 = Some campaign1" "campaigns_of campaign_world0 2 = Some campaign2"
  "cases_of campaign_world0 10 = Some case1" "loutages (gw_campaigns campaign_world0) = []"
  "loutages (gw_cases campaign_world0) = []" "campaign_finished campaign2"
  by (auto simp: rows_ok_def lrow_def world0_defs campaign_ok_def case_ok_def campaign_finished_def split: if_splits)

theorem campaign_machine_witness:
  "\<exists>c'. campaigns_of (snd (exec_campaign schedule0 (\<lambda>_. 9) 3 (GCaseCompleted 10 ''ok'' 30) campaign_world0)) 1 =
     Some c' \<and> campaign_evolves campaign1 c'"
  using campaign_machine [OF world0_rows(1), of 3 schedule0 "\<lambda>_. 9" "GCaseCompleted 10 ''ok'' 30"] world0_rows(3)
  by (metis prod.collapse zero_neq_numeral)

theorem finished_campaign_is_final_witness:
  "\<exists>c'. campaigns_of (run_campaign schedule0 [(\<lambda>_. 9, 3, GStart 2), (\<lambda>_. 10, 4, GPause 2)] campaign_world0) 2 =
     Some c' \<and> g_Status c' = Some CampaignStatusAborted \<and> g_CompletedAt c' = Some 4"
  using finished_campaign_is_final [OF world0_rows(1) _ world0_rows(4,8),
      of "[(\<lambda>_. 9, 3, GStart 2), (\<lambda>_. 10, 4, GPause 2)]" schedule0]
  by (auto simp: campaign2_def)

theorem case_machine_witness:
  "\<exists>y. cases_of (snd (exec_campaign schedule0 (\<lambda>_. 9) 3 (GCaseCompleted 10 ''ok'' 30) campaign_world0)) 10 =
     Some y \<and> case_evolves case1 y"
  using case_machine [OF world0_rows(2), of schedule0 "\<lambda>_. 9" 3 "GCaseCompleted 10 ''ok'' 30"] world0_rows(5)
  by (metis prod.collapse)

theorem MarkCaseFailed_outcome_witness:
  "\<exists>cs' w'. MarkCaseFailed schedule0 (\<lambda>_. 9) 10
       (put_campaigns \<lparr>lrows = [campaign1], loutages = [True]\<rparr> campaign_world0) = (Inr cs', w') \<and>
     k_AttemptCount cs' = 1 \<and> k_Status cs' = CaseStatusFailed"
proof -
  let ?w = "put_campaigns \<lparr>lrows = [campaign1], loutages = [True]\<rparr> campaign_world0"
  have "loutages (gw_cases ?w) = []" "cases_of ?w 10 = Some case1" using world0_rows by simp_all
  from MarkCaseFailed_outcome [OF this refl, of schedule0 "\<lambda>_. 9"] obtain cs' w' where
    "MarkCaseFailed schedule0 (\<lambda>_. 9) 10 ?w = (Inr cs', w')" "k_AttemptCount cs' = 1"
    "k_Status cs' = CaseStatusFailed"
    by (auto simp: next_statement_fails_def case1_def new_case_def)
  then show ?thesis by blast
qed

theorem ImportCases_stores_witness:
  "\<exists>w'. ImportCases schedule0 True 5 6 (\<lambda>i. 20 + int i) 1
      [\<lparr>ki_PhoneNumber = ''200'', ki_CustomerName = [], ki_CustomData = []\<rparr>,
       \<lparr>ki_PhoneNumber = [], ki_CustomerName = [], ki_CustomData = []\<rparr>] campaign_world0 = (Inr (), w') \<and>
    length (lrows (gw_cases w')) = 2"
proof -
  let ?in = "[\<lparr>ki_PhoneNumber = ''200'', ki_CustomerName = [], ki_CustomData = []\<rparr>,
       \<lparr>ki_PhoneNumber = [], ki_CustomerName = [], ki_CustomData = []\<rparr>]"
  have "inj (\<lambda>i. 20 + int i)" by (simp add: inj_on_def)
  moreover have "\<forall>i. \<forall>r \<in> set (lrows (gw_cases campaign_world0)). k_ID r \<noteq> 20 + int i"
    by (simp add: world0_defs)
  moreover have "[hd ?in] = filter (\<lambda>i. ki_PhoneNumber i \<noteq> [] \<and> \<not> (True \<and>
      \<not> next_statement_fails (gw_dnc campaign_world0) \<and>
      actively_listed 5 (g_TenantID campaign1) campaign_world0 (ki_PhoneNumber i))) ?in"
    by (simp add: actively_listed_def campaign_world0_def)
  ultimately obtain w' where
    "ImportCases schedule0 True 5 6 (\<lambda>i. 20 + int i) 1 ?in campaign_world0 = (Inr (), w')"
    "lrows (gw_cases w') = lrows (gw_cases campaign_world0) @
      map (\<lambda>(i, inp). new_case 6 (20 + int i) 1 (g_TenantID campaign1) inp) (enumerate 0 [hd ?in])"
    using ImportCases_stores [OF world0_rows(6,7,3)] by blast
  then show ?thesis by (simp add: campaign_world0_def)
qed

theorem dnc_checks_agree_witness:
  "\<exists>w. (fst (CheckDNC 50 7 ''100'' w) = Inl ErrDNCBlocked) =
      (\<exists>ns. fst (CheckBatch 50 7 [''100''] w) = Inr ns \<and> ''100'' \<in> set ns) \<and> lrows (gw_dnc w) \<noteq> []"
proof -
  let ?e = "\<lparr>dnc_ID = 0, dnc_TenantID = 7, dnc_Number = ''100'', dnc_Reason = [], dnc_Source = [],
    dnc_ExpiresAt = Some 60, dnc_CreatedAt = 0\<rparr>"
  let ?w = "run_dnc [(5, 3, DAdd ?e)] campaign_world0"
  have w: "lrows (gw_dnc ?w) = [?e\<lparr>dnc_ID := 3, dnc_CreatedAt := 5\<rparr>]"
    by (simp add: AddEntry_def act_simps on_link_def campaign_world0_def put_dnc_def)
  have "lrows (gw_dnc campaign_world0) = []" by (simp add: campaign_world0_def)
  from dnc_checks_agree [OF this refl, of "[(5, 3, DAdd ?e)]" 50 7 "''100''"] show ?thesis
    unfolding w by (intro exI [of _ ?w]) (simp add: w del: run_dnc.simps)
qed

section \<open>The next case\<close>

text \<open>The case offered is a due, pending one with the smallest identifier, and nothing claims it.\<close>

definition case_due :: "gotime \<Rightarrow> int \<Rightarrow> campaign_case \<Rightarrow> bool" where
  "case_due dbnow cid k \<longleftrightarrow> k_CampaignID k = cid \<and> k_Status k = CaseStatusPending \<and>
     (case k_NextAttemptAt k of None \<Rightarrow> True | Some t \<Rightarrow> t \<le> dbnow)"

lemma sort_key_head:
  "sort_key f xs = y # ys \<Longrightarrow> y \<in> set xs \<and> (\<forall>x \<in> set xs. f y \<le> f x)"
  by (metis list.set_intros(1) set_sort sorted_sort_key list.simps(9) sorted_simps(2) set_ConsD
      order_refl image_eqI list.set_map)

lemma GetNextCase_result:
  assumes "GetNextCase dbnow cid w = (Inr r, w')"
  shows "case r of None \<Rightarrow> \<not> (\<exists>k \<in> set (lrows (gw_cases w)). case_due dbnow cid k)
    | Some k \<Rightarrow> k \<in> set (lrows (gw_cases w)) \<and> case_due dbnow cid k \<and>
        (\<forall>j \<in> set (lrows (gw_cases w)). case_due dbnow cid j \<longrightarrow> k_ID k \<le> k_ID j)"
proof -
  let ?due = "filter (case_due dbnow cid) (lrows (gw_cases w))"
  have "r = (case sort_key k_ID ?due of [] \<Rightarrow> None | k # _ \<Rightarrow> Some k)"
    using assms
    by (auto simp: GetNextCase_def act_simps sel_all_def on_link_eq case_due_def [abs_def]
        split: if_splits prod.splits sum.splits)
  moreover have "sort_key k_ID ?due = [] \<longleftrightarrow> ?due = []" by (metis length_0_conv length_sort)
  ultimately show ?thesis
    by (auto simp: filter_empty_conv split: list.splits dest: sort_key_head)
qed

end
