(* ===== verification/GoStrings.thy ===== *)
theory GoStrings
  imports Prelude
begin

text \<open>
  What the program uses of Go's \<open>strings\<close> package, on strings of bytes: case mapping of ASCII
  letters, prefixes, substrings, replacement of a suffix.
\<close>

definition lower_char :: "char \<Rightarrow> char" where
  "lower_char c = (if 65 \<le> (of_char c :: nat) \<and> (of_char c :: nat) \<le> 90 then char_of ((of_char c :: nat) + 32) else c)"

definition strings_ToLower :: "string \<Rightarrow> string" where
  "strings_ToLower s = map lower_char s"

fun strings_HasPrefix :: "string \<Rightarrow> string \<Rightarrow> bool" where
  "strings_HasPrefix s [] = True"
| "strings_HasPrefix [] (p # ps) = False"
| "strings_HasPrefix (c # cs) (p # ps) = (c = p \<and> strings_HasPrefix cs ps)"

fun strings_Contains :: "string \<Rightarrow> string \<Rightarrow> bool" where
  "strings_Contains [] sub = (sub = [])"
| "strings_Contains (c # cs) sub = (strings_HasPrefix (c # cs) sub \<or> strings_Contains cs sub)"

definition upper_char :: "char \<Rightarrow> char" where
  "upper_char c = (if 97 \<le> (of_char c :: nat) \<and> (of_char c :: nat) \<le> 122 then char_of ((of_char c :: nat) - 32) else c)"

definition strings_ToUpper :: "string \<Rightarrow> string" where
  "strings_ToUpper s = map upper_char s"

lemma HasPrefix_take: "strings_HasPrefix s p \<Longrightarrow> take (length p) s = p"
  by (induction s p rule: strings_HasPrefix.induct) auto

lemma Contains_window: "strings_Contains s sub \<Longrightarrow> \<exists>i. take (length sub) (drop i s) = sub"
proof (induction s sub rule: strings_Contains.induct)
  case (2 c cs sub)
  then consider "strings_HasPrefix (c # cs) sub" | i where "take (length sub) (drop i cs) = sub" by auto
  then show ?case
  proof cases
    case 1
    then show ?thesis by (intro exI [of _ 0]) (simp add: HasPrefix_take)
  next
    case 2
    then show ?thesis by (intro exI [of _ "Suc i"]) simp
  qed
qed (auto intro: exI [of _ 0])

lemma HasPrefix_iff: "strings_HasPrefix s p \<longleftrightarrow> (\<exists>t. s = p @ t)"
  by (induction s p rule: strings_HasPrefix.induct) auto

lemma Contains_iff: "strings_Contains s sub \<longleftrightarrow> (\<exists>a b. s = a @ sub @ b)"
proof (induction s sub rule: strings_Contains.induct)
  case (2 c cs sub)
  show ?case
  proof
    assume "strings_Contains (c # cs) sub"
    then consider t where "c # cs = sub @ t" | a b where "cs = a @ sub @ b"
      using 2 by (auto simp: HasPrefix_iff)
    then show "\<exists>a b. c # cs = a @ sub @ b"
    proof cases
      case 1
      then show ?thesis by (intro exI [of _ "[]"] exI [of _ t]) simp
    next
      case 2
      then show ?thesis by (intro exI [of _ "c # a"] exI [of _ b]) simp
    qed
  next
    assume "\<exists>a b. c # cs = a @ sub @ b"
    then obtain a b where ab: "c # cs = a @ sub @ b" by blast
    show "strings_Contains (c # cs) sub"
    proof (cases a)
      case Nil
      with ab have "strings_HasPrefix (c # cs) sub" by (auto simp: HasPrefix_iff)
      then show ?thesis by simp
    next
      case (Cons x xs)
      with ab have "cs = xs @ sub @ b" by simp
      with 2 show ?thesis by auto
    qed
  qed
qed auto

section \<open>Searching\<close>

text \<open>\<open>strings.Index\<close> and \<open>strings.Cut\<close>: what comes before the first occurrence and what comes after it.\<close>

fun cut_at :: "string \<Rightarrow> string \<Rightarrow> (string \<times> string) option" where
  "cut_at sub s = (if strings_HasPrefix s sub then Some ([], drop (length sub) s)
     else case s of [] \<Rightarrow> None | c # cs \<Rightarrow> map_option (\<lambda>(a, b). (c # a, b)) (cut_at sub cs))"

declare cut_at.simps [simp del]

lemma cut_at_skip: "c \<noteq> h \<Longrightarrow> cut_at (h # sub) (c # cs) = map_option (\<lambda>(a, b). (c # a, b)) (cut_at (h # sub) cs)"
  by (subst cut_at.simps) simp

lemma cut_at_miss: "\<not> strings_HasPrefix (c # cs) sub \<Longrightarrow>
    cut_at sub (c # cs) = map_option (\<lambda>(a, b). (c # a, b)) (cut_at sub cs)"
  by (subst cut_at.simps) simp

lemma cut_at_hit: "strings_HasPrefix s sub \<Longrightarrow> cut_at sub s = Some ([], drop (length sub) s)"
  by (subst cut_at.simps) simp

lemma cut_at_skips: "h \<notin> set v \<Longrightarrow>
    cut_at (h # sub) (v @ s) = map_option (\<lambda>(a, b). (v @ a, b)) (cut_at (h # sub) s)"
proof (induction v)
  case (Cons c v)
  then show ?case by (cases "cut_at (h # sub) s") (auto simp: cut_at_skip)
qed (simp add: case_prod_unfold option.map_ident)

end
