(* ===== verification/Dialer.thy ===== *)
theory Dialer
  imports CampaignProps GoStrings
begin

text \<open>
  The outbound dialer, \<open>internal/application/dialer/service.go\<close>: one loop per started campaign,
  a goroutine per dialed case, and the counters they share under the mutex. A \<open>*dialerState\<close> is an
  index into a heap of states, because the loop keeps its own pointer while the results of the
  goroutines go to whatever state \<open>s.active\<close> holds for the campaign. The float64 rates are
  rationals. The wall clock of a time zone is the parameter \<open>wall\<close>, what \<open>dialFn\<close> replied is the
  argument of the step that runs a goroutine.
\<close>

section \<open>State\<close>

text \<open>A loop waits for its ticker, is inside the \<open>for\<close> of a batch, or has returned.\<close>

datatype dial_phase = Waiting | Dialing campaign nat | Returned

record dialer_state =
  dl_campaignID :: int
  dl_mode :: string
  dl_activeCalls :: int
  dl_abandonCount :: int
  dl_totalDialed :: int
  dl_startedAt :: gotime
  dl_stopped :: bool
  dl_phase :: dial_phase

record dialer_world =
  dw_campaign :: campaign_world
  dw_states :: "dialer_state list"
  dw_active :: "int \<rightharpoonup> nat"
  dw_inflight :: "(campaign \<times> campaign_case) list"
  dw_freq :: "string \<times> int \<Rightarrow> int"
  dw_redis :: "bool list"

datatype dialer_error = DialerAlreadyActive int | DialerCampaign campaign_error

type_synonym 'a dact = "(dialer_world, dialer_error, 'a) act"

definition put_dw_campaign :: "campaign_world \<Rightarrow> dialer_world \<Rightarrow> dialer_world" where
  "put_dw_campaign g w = w\<lparr>dw_campaign := g\<rparr>"

definition on_campaign :: "'a gact \<Rightarrow> 'a dact" where
  "on_campaign m = wrap_a DialerCampaign (zoom_a dw_campaign put_dw_campaign m)"

text \<open>\<open>state.f = ...\<close> under the mutex.\<close>

definition upd_state :: "nat \<Rightarrow> (dialer_state \<Rightarrow> dialer_state) \<Rightarrow> dialer_world \<Rightarrow> dialer_world" where
  "upd_state r f w = (if r < length (dw_states w)
     then w\<lparr>dw_states := (dw_states w)[r := f (dw_states w ! r)]\<rparr> else w)"

section \<open>Rates and slots\<close>

definition calcAbandonRate :: "int \<Rightarrow> int \<Rightarrow> rat" where
  "calcAbandonRate abandoned dialed = (if dialed = 0 then 0 else of_int abandoned / of_int dialed * 100)"

text \<open>\<open>int(f)\<close> truncates towards zero.\<close>

definition trunc_rat :: "rat \<Rightarrow> int" where
  "trunc_rat r = (if 0 \<le> r then \<lfloor>r\<rfloor> else \<lceil>r\<rceil>)"

definition limited_slots :: "campaign \<Rightarrow> dialer_state \<Rightarrow> int" where
  "limited_slots c st =
     (let slots = trunc_rat (g_RatioMultiplier c) - dl_activeCalls st
      in if 0 < g_ConcurrentLimit c \<and> g_ConcurrentLimit c - dl_activeCalls st < slots
         then g_ConcurrentLimit c - dl_activeCalls st else slots)"

definition at_limit :: "campaign \<Rightarrow> dialer_state \<Rightarrow> bool" where
  "at_limit c st \<longleftrightarrow> 0 < g_ConcurrentLimit c \<and> g_ConcurrentLimit c \<le> dl_activeCalls st"

definition throttled_slots :: "campaign \<Rightarrow> dialer_state \<Rightarrow> int \<Rightarrow> int" where
  "throttled_slots c st slots =
     (let abandonRate = calcAbandonRate (dl_abandonCount st) (dl_totalDialed st)
      in if 0 < g_MaxAbandonRate c \<and> g_MaxAbandonRate c < abandonRate then
           let overshoot = abandonRate / g_MaxAbandonRate c
           in if 2 \<le> overshoot then 0
              else let s = trunc_rat (of_int slots / overshoot) in if s < 1 then 1 else s
         else slots)"

definition dialPredictive_slots :: "campaign \<Rightarrow> dialer_state \<Rightarrow> int" where
  "dialPredictive_slots c st =
     (if at_limit c st then 0 else throttled_slots c st (limited_slots c st))"

definition dialPower_slots :: "campaign \<Rightarrow> dialer_state \<Rightarrow> int" where
  "dialPower_slots c st = (if at_limit c st then 0 else limited_slots c st)"

definition dialProgressive_slots :: "dialer_state \<Rightarrow> int" where
  "dialProgressive_slots st = (if 1 \<le> dl_activeCalls st then 0 else 1)"

text \<open>The number of iterations of the batch's \<open>for\<close>; none in preview mode or an unknown one.\<close>

definition batch_slots :: "campaign \<Rightarrow> dialer_state \<Rightarrow> nat" where
  "batch_slots c st = nat (
     if dl_mode st = DialingModePredictive then dialPredictive_slots c st
     else if dl_mode st = DialingModeProgressive then dialProgressive_slots st
     else if dl_mode st = DialingModePower then dialPower_slots c st
     else 0)"

section \<open>The dialing schedule\<close>

text \<open>
  \<open>wall tz t\<close> is the weekday (Sunday is 0) and the hour of \<open>t\<close> in the named zone, or in the
  server's zone when the name is empty or unknown.
\<close>

definition weekday_name :: "nat \<Rightarrow> string" where
  "weekday_name d = [''sunday'', ''monday'', ''tuesday'', ''wednesday'', ''thursday'', ''friday'', ''saturday''] ! (d mod 7)"

definition isWithinSchedule :: "(string \<Rightarrow> gotime \<Rightarrow> nat \<times> int) \<Rightarrow> gotime \<Rightarrow> campaign \<Rightarrow> bool" where
  "isWithinSchedule wall now c =
     (let (weekday, hour) = wall (g_Timezone c) now;
          (startHour, endHour) =
            (if g_ScheduleStartHour c = 0 \<and> g_ScheduleEndHour c = 0 then (9, 20)
             else (g_ScheduleStartHour c, g_ScheduleEndHour c))
      in if g_ScheduleDays c \<noteq> [] \<and>
            \<not> strings_Contains (strings_ToLower (g_ScheduleDays c)) (weekday_name weekday) then False
         else \<not> (hour < startHour \<or> endHour \<le> hour))"

section \<open>Starting and stopping\<close>

definition StartDialing :: "schedule_columns \<Rightarrow> gotime \<Rightarrow> int \<Rightarrow> unit dact" where
  "StartDialing d now k =
     bind_a (on_campaign (load_campaign d k)) (\<lambda>c w.
     if dw_active w k \<noteq> None then (Inl (DialerAlreadyActive k), w)
     else
       let st = \<lparr>dl_campaignID = k, dl_mode = g_DialingMode c, dl_activeCalls = 0, dl_abandonCount = 0,
                 dl_totalDialed = 0, dl_startedAt = now, dl_stopped = False, dl_phase = Waiting\<rparr>
       in (Inr (), w\<lparr>dw_states := dw_states w @ [st], dw_active := (dw_active w)(k \<mapsto> length (dw_states w))\<rparr>))"

definition StopDialing :: "int \<Rightarrow> dialer_world \<Rightarrow> dialer_world" where
  "StopDialing k w =
     (case dw_active w k of
        None \<Rightarrow> w
      | Some r \<Rightarrow> upd_state r (\<lambda>st. st\<lparr>dl_stopped := True\<rparr>) (w\<lparr>dw_active := (dw_active w)(k := None)\<rparr>))"

section \<open>Results\<close>

definition counted_result :: "bool \<Rightarrow> dialer_state \<Rightarrow> dialer_state" where
  "counted_result answered st =
     (let st1 = st\<lparr>dl_activeCalls := max 0 (dl_activeCalls st - 1)\<rparr>
      in if answered then st1 else st1\<lparr>dl_abandonCount := dl_abandonCount st1 + 1\<rparr>)"

definition RecordCallResult ::
  "schedule_columns \<Rightarrow> (nat \<Rightarrow> gotime) \<Rightarrow> int \<Rightarrow> int \<Rightarrow> bool \<Rightarrow> int \<Rightarrow> string \<Rightarrow> unit dact" where
  "RecordCallResult d now campaignID caseID answered durationSec dispositionCode =
     seq_a (modify_a (\<lambda>w. case dw_active w campaignID of
              None \<Rightarrow> w | Some r \<Rightarrow> upd_state r (counted_result answered) w))
       (if answered then ignore_a (on_campaign (MarkCaseCompleted d (now 0) caseID dispositionCode durationSec))
        else ignore_a (on_campaign (MarkCaseFailed d now caseID)))"

text \<open>
  \<open>IncrAndCheck\<close>: a counter per number and day. The script \<open>dw_redis\<close> tells which of the next
  commands fail; a failed \<open>INCR\<close> allows the call.
\<close>

definition IncrAndCheck :: "int \<Rightarrow> string \<Rightarrow> int \<Rightarrow> (dialer_world, string, bool \<times> int) act" where
  "IncrAndCheck day phone limit w =
     (case dw_redis w of
        True # rest \<Rightarrow> (Inl ''redis: connection lost'', w\<lparr>dw_redis := rest\<rparr>)
      | rs \<Rightarrow>
          let count = dw_freq w (phone, day) + 1;
              w' = w\<lparr>dw_freq := (dw_freq w)((phone, day) := count), dw_redis := tl rs\<rparr>
          in (Inr (\<not> limit < count, count), w'))"

definition frequency_allows :: "bool \<Rightarrow> int \<Rightarrow> int \<Rightarrow> string \<Rightarrow> bool dact" where
  "frequency_allows withChecker day maxDaily phone =
     (if withChecker \<and> 0 < maxDaily
      then try_a (IncrAndCheck day phone maxDaily)
             (\<lambda>r. ret_a (case r of Inl _ \<Rightarrow> True | Inr (allowed, _) \<Rightarrow> allowed))
      else ret_a True)"

text \<open>
  \<open>dialCase\<close>, the body of one goroutine: \<open>reply\<close> is what \<open>dialFn\<close> returned, \<open>True\<close> for no error.
\<close>

definition dialCase ::
  "schedule_columns \<Rightarrow> (nat \<Rightarrow> gotime) \<Rightarrow> int \<Rightarrow> bool \<Rightarrow> int \<Rightarrow> bool \<Rightarrow> campaign \<Rightarrow> campaign_case \<Rightarrow> unit dact" where
  "dialCase d now day withChecker maxDaily reply c cs =
     bind_a (frequency_allows withChecker day maxDaily (k_PhoneNumber cs)) (\<lambda>allowed.
     if \<not> allowed then RecordCallResult d now (g_ID c) (k_ID cs) False 0 ''frequency_limit''
     else RecordCallResult d now (g_ID c) (k_ID cs) reply 0 (if reply then ''connected'' else ''dial_failed''))"

section \<open>Batches\<close>

text \<open>\<open>dialBatch\<close> up to its loop: what the tick of the loop with state \<open>r\<close> decides.\<close>

definition set_loop_phase :: "nat \<Rightarrow> dial_phase \<Rightarrow> dialer_world \<Rightarrow> dialer_world" where
  "set_loop_phase r p = upd_state r (\<lambda>st. st\<lparr>dl_phase := p\<rparr>)"

definition dialBatch ::
  "schedule_columns \<Rightarrow> (string \<Rightarrow> gotime \<Rightarrow> nat \<times> int) \<Rightarrow> gotime \<Rightarrow> nat \<Rightarrow> unit dact" where
  "dialBatch d wall now r w =
     (let k = dl_campaignID (dw_states w ! r)
      in try_a (on_campaign (load_campaign d k)) (\<lambda>res.
         case res of
           Inl _ \<Rightarrow> (ret_a () :: unit dact)
         | Inr c \<Rightarrow>
             if g_Status c \<noteq> Some CampaignStatusRunning then modify_a (StopDialing k)
             else if \<not> isWithinSchedule wall now c then ret_a ()
             else modify_a (\<lambda>w. set_loop_phase r (Dialing c (batch_slots c (dw_states w ! r))) w)) w)"

text \<open>One iteration: take the next case, count it, start its goroutine.\<close>

definition dial_next :: "gotime \<Rightarrow> nat \<Rightarrow> campaign \<Rightarrow> nat \<Rightarrow> unit dact" where
  "dial_next dbnow r c n =
     (case n of
        0 \<Rightarrow> modify_a (set_loop_phase r Waiting)
      | Suc m \<Rightarrow> try_a (on_campaign (GetNextCase dbnow (g_ID c))) (\<lambda>res.
          case res of
            Inr (Some cs) \<Rightarrow> modify_a (\<lambda>w. upd_state r (\<lambda>st. st\<lparr>dl_activeCalls := dl_activeCalls st + 1,
                dl_totalDialed := dl_totalDialed st + 1, dl_phase := Dialing c m\<rparr>)
                (w\<lparr>dw_inflight := dw_inflight w @ [(c, cs)]\<rparr>))
          | _ \<Rightarrow> modify_a (set_loop_phase r Waiting)))"

section \<open>Preview mode\<close>

definition PreviewAccept :: "schedule_columns \<Rightarrow> int \<Rightarrow> unit dact" where
  "PreviewAccept d caseID =
     bind_a (on_campaign (load_case caseID)) (\<lambda>cs.
     try_a (on_campaign (load_campaign d (k_CampaignID cs))) (\<lambda>res.
     let tenantID = (case res of Inl _ \<Rightarrow> k_TenantID cs | Inr c \<Rightarrow> g_TenantID c);
         c = campaign_zero\<lparr>g_ID := k_CampaignID cs, g_TenantID := tenantID\<rparr>
     in modify_a (\<lambda>w. (case dw_active w (k_CampaignID cs) of
            None \<Rightarrow> w
          | Some r \<Rightarrow> upd_state r (\<lambda>st. st\<lparr>dl_activeCalls := dl_activeCalls st + 1,
                        dl_totalDialed := dl_totalDialed st + 1\<rparr>) w)
          \<lparr>dw_inflight := dw_inflight w @ [(c, cs)]\<rparr>)))"

definition PreviewSkip :: "schedule_columns \<Rightarrow> (nat \<Rightarrow> gotime) \<Rightarrow> int \<Rightarrow> unit dact" where
  "PreviewSkip d now caseID = on_campaign (bind_a (MarkCaseFailed d now caseID) (\<lambda>_. ret_a ()))"

section \<open>Statistics\<close>

record dialer_stats =
  st_CampaignID :: int
  st_Mode :: string
  st_ActiveCalls :: int
  st_TotalDialed :: int
  st_ConnectedCalls :: int
  st_AbandonCount :: int
  st_AbandonRate :: rat
  st_ConnectRate :: rat
  st_IsRunning :: bool
  st_StartedAt :: gotime
  st_UptimeSeconds :: int

definition GetStats :: "gotime \<Rightarrow> int \<Rightarrow> dialer_world \<Rightarrow> dialer_stats" where
  "GetStats now k w =
     (case dw_active w k of
        None \<Rightarrow> \<lparr>st_CampaignID = k, st_Mode = [], st_ActiveCalls = 0, st_TotalDialed = 0,
                 st_ConnectedCalls = 0, st_AbandonCount = 0, st_AbandonRate = 0, st_ConnectRate = 0,
                 st_IsRunning = False, st_StartedAt = 0, st_UptimeSeconds = 0\<rparr>
      | Some r \<Rightarrow>
          let st = dw_states w ! r;
              answered = max 0 (dl_totalDialed st - dl_abandonCount st)
          in \<lparr>st_CampaignID = k, st_Mode = dl_mode st, st_ActiveCalls = dl_activeCalls st,
              st_TotalDialed = dl_totalDialed st, st_ConnectedCalls = answered,
              st_AbandonCount = dl_abandonCount st,
              st_AbandonRate = calcAbandonRate (dl_abandonCount st) (dl_totalDialed st),
              st_ConnectRate = calcAbandonRate answered (dl_totalDialed st), st_IsRunning = True,
              st_StartedAt = dl_startedAt st,
              st_UptimeSeconds = (if dl_startedAt st = 0 then 0 else dur_secs (time_sub now (dl_startedAt st)))\<rparr>)"

section \<open>The dialer as a machine\<close>

text \<open>
  The moves of the loops and goroutines, in any order the scheduler chooses: each move is a
  critical section of the code together with the service call next to it. A closed \<open>stopCh\<close> and a
  tick can both be ready, so a stopped loop may still start a batch before it returns.
  \<open>DRequest\<close> is a request to the campaign service itself.
\<close>

datatype dial_event =
    DStart gotime int
  | DStop int
  | DTick gotime nat
  | DIterate gotime nat
  | DReturn nat
  | DGoroutine nat "nat \<Rightarrow> gotime" int bool
  | DPreviewAccept int
  | DPreviewSkip "nat \<Rightarrow> gotime" int
  | DRequest "nat \<Rightarrow> gotime" int campaign_op

record dialer_config =
  dc_columns :: schedule_columns
  dc_wall :: "string \<Rightarrow> gotime \<Rightarrow> nat \<times> int"
  dc_withChecker :: bool
  dc_maxDaily :: int

fun dial_step :: "dialer_config \<Rightarrow> dial_event \<Rightarrow> dialer_world \<Rightarrow> dialer_world" where
  "dial_step cf (DStart now k) w = snd (StartDialing (dc_columns cf) now k w)"
| "dial_step cf (DStop k) w = StopDialing k w"
| "dial_step cf (DTick now r) w =
     (if r < length (dw_states w) \<and> dl_phase (dw_states w ! r) = Waiting
      then snd (dialBatch (dc_columns cf) (dc_wall cf) now r w) else w)"
| "dial_step cf (DIterate dbnow r) w =
     (if r < length (dw_states w)
      then (case dl_phase (dw_states w ! r) of
              Dialing c n \<Rightarrow> snd (dial_next dbnow r c n w) | _ \<Rightarrow> w)
      else w)"
| "dial_step cf (DReturn r) w =
     (if r < length (dw_states w) \<and> dl_phase (dw_states w ! r) = Waiting \<and> dl_stopped (dw_states w ! r)
      then set_loop_phase r Returned w else w)"
| "dial_step cf (DGoroutine i now day reply) w =
     (if i < length (dw_inflight w)
      then (case dw_inflight w ! i of (c, cs) \<Rightarrow>
         snd (dialCase (dc_columns cf) now day (dc_withChecker cf) (dc_maxDaily cf) reply c cs
           (w\<lparr>dw_inflight := take i (dw_inflight w) @ drop (Suc i) (dw_inflight w)\<rparr>)))
      else w)"
| "dial_step cf (DPreviewAccept k) w = snd (PreviewAccept (dc_columns cf) k w)"
| "dial_step cf (DPreviewSkip now k) w = snd (PreviewSkip (dc_columns cf) now k w)"
| "dial_step cf (DRequest now nid opn) w = snd (on_campaign (exec_campaign (dc_columns cf) now nid opn) w)"

primrec dial_run :: "dialer_config \<Rightarrow> dial_event list \<Rightarrow> dialer_world \<Rightarrow> dialer_world" where
  "dial_run cf [] w = w"
| "dial_run cf (e # es) w = dial_run cf es (dial_step cf e w)"

end
