(* ===== verification/DialerProps.thy ===== *)
theory DialerProps
  imports Dialer
begin

text \<open>
  Properties of the dialer: the slots of a batch, the bound on simultaneous calls along every
  interleaving, when a batch dials at all, and which cases it dials.
\<close>

section \<open>Slots\<close>

lemma limited_slots_bounds:
  "limited_slots c st \<le> trunc_rat (g_RatioMultiplier c) - dl_activeCalls st"
  "0 < g_ConcurrentLimit c \<Longrightarrow> limited_slots c st \<le> g_ConcurrentLimit c - dl_activeCalls st"
  by (auto simp: limited_slots_def Let_def)

definition over_abandon :: "campaign \<Rightarrow> dialer_state \<Rightarrow> bool" where
  "over_abandon c st \<longleftrightarrow> 0 < g_MaxAbandonRate c \<and>
     g_MaxAbandonRate c < calcAbandonRate (dl_abandonCount st) (dl_totalDialed st)"

lemma trunc_rat_le: "0 \<le> s \<Longrightarrow> 1 \<le> q \<Longrightarrow> trunc_rat (of_int s / q) \<le> s"
proof -
  assume "0 \<le> s" "1 \<le> (q :: rat)"
  then have "0 \<le> of_int s / q" "of_int s / q \<le> of_int s" by (auto simp: field_simps intro: mult_right_mono [of 1 q "of_int s", simplified])
  then show ?thesis by (simp add: trunc_rat_def) (metis floor_mono floor_of_int)
qed

lemma trunc_rat_neg: "s < 0 \<Longrightarrow> 1 \<le> q \<Longrightarrow> trunc_rat (of_int s / q) \<le> 0"
proof -
  assume a: "s < 0" "1 \<le> (q :: rat)"
  then have "of_int s / q < 0" by (simp add: divide_neg_pos)
  then show ?thesis by (simp add: trunc_rat_def ceiling_le_iff)
qed

lemma throttled_bounds:
  "throttled_slots c st slots \<le> max 1 slots" "\<not> over_abandon c st \<Longrightarrow> throttled_slots c st slots = slots"
proof -
  show "\<not> over_abandon c st \<Longrightarrow> throttled_slots c st slots = slots"
    by (auto simp: throttled_slots_def over_abandon_def Let_def)
  show "throttled_slots c st slots \<le> max 1 slots"
  proof (cases "over_abandon c st")
    case True
    let ?q = "calcAbandonRate (dl_abandonCount st) (dl_totalDialed st) / g_MaxAbandonRate c"
    from True have "1 \<le> ?q" by (simp add: over_abandon_def field_simps)
    then have "trunc_rat (of_int slots / ?q) \<le> max 1 slots"
      using trunc_rat_le [of slots ?q] trunc_rat_neg [of slots ?q] by (cases "slots < 0") auto
    then show ?thesis by (auto simp: throttled_slots_def Let_def)
  qed (auto simp: throttled_slots_def over_abandon_def Let_def)
qed

lemma predictive_limit:
  "0 < g_ConcurrentLimit c \<Longrightarrow> 0 < dialPredictive_slots c st \<Longrightarrow>
   dl_activeCalls st + dialPredictive_slots c st \<le> g_ConcurrentLimit c"
  using limited_slots_bounds(2) [of c st] throttled_bounds(1) [of c st "limited_slots c st"]
  by (auto simp: dialPredictive_slots_def at_limit_def split: if_splits)

text \<open>
  A batch never dials past the campaign's concurrency limit when it has one; past the
  ratio only when the abandon rate is over its limit (the throttle raises zero or negative slots
  to one); in progressive mode one call and only with none active; and not at all once the
  abandon rate is twice its limit.
\<close>

theorem batch_slots_bounds:
  assumes "0 < batch_slots c st" and "0 \<le> dl_activeCalls st"
  shows "(0 < g_ConcurrentLimit c \<longrightarrow> dl_activeCalls st + int (batch_slots c st) \<le> g_ConcurrentLimit c) \<and>
    (dl_mode st \<noteq> DialingModeProgressive \<and> (dl_mode st = DialingModePredictive \<longrightarrow> \<not> over_abandon c st) \<longrightarrow>
       dl_activeCalls st + int (batch_slots c st) \<le> trunc_rat (g_RatioMultiplier c)) \<and>
    (dl_mode st = DialingModeProgressive \<longrightarrow> dl_activeCalls st = 0 \<and> batch_slots c st = 1) \<and>
    (dl_mode st = DialingModePredictive \<and> 0 < g_MaxAbandonRate c \<longrightarrow>
       calcAbandonRate (dl_abandonCount st) (dl_totalDialed st) < 2 * g_MaxAbandonRate c)"
proof (intro conjI impI)
  have pos: "0 < dialPredictive_slots c st" if "dl_mode st = DialingModePredictive"
    using assms(1) that by (simp add: batch_slots_def)
  assume lim: "0 < g_ConcurrentLimit c"
  show "dl_activeCalls st + int (batch_slots c st) \<le> g_ConcurrentLimit c"
    using assms lim predictive_limit [OF lim pos] limited_slots_bounds(2) [OF lim, of st]
    by (auto simp: batch_slots_def dialPower_slots_def dialProgressive_slots_def split: if_splits)
next
  assume "dl_mode st \<noteq> DialingModeProgressive \<and> (dl_mode st = DialingModePredictive \<longrightarrow> \<not> over_abandon c st)"
  then show "dl_activeCalls st + int (batch_slots c st) \<le> trunc_rat (g_RatioMultiplier c)"
    using assms(1) limited_slots_bounds(1) [of c st] throttled_bounds(2) [of c st]
    by (auto simp: batch_slots_def dialPower_slots_def dialPredictive_slots_def split: if_splits)
next
  assume "dl_mode st = DialingModeProgressive"
  then show "dl_activeCalls st = 0" "batch_slots c st = 1"
    using assms by (auto simp: batch_slots_def dialProgressive_slots_def split: if_splits)
next
  assume "dl_mode st = DialingModePredictive \<and> 0 < g_MaxAbandonRate c"
  then show "calcAbandonRate (dl_abandonCount st) (dl_totalDialed st) < 2 * g_MaxAbandonRate c"
    using assms(1)
    by (auto simp: batch_slots_def dialPredictive_slots_def throttled_slots_def Let_def field_simps split: if_splits)
qed

definition dialer_state0 :: dialer_state where
  "dialer_state0 = \<lparr>dl_campaignID = 1, dl_mode = DialingModePower, dl_activeCalls = 0, dl_abandonCount = 0,
     dl_totalDialed = 0, dl_startedAt = 5, dl_stopped = False, dl_phase = Waiting\<rparr>"

definition power_campaign :: campaign where
  "power_campaign = campaign1\<lparr>g_DialingMode := DialingModePower, g_RatioMultiplier := 3, g_ConcurrentLimit := 2\<rparr>"

lemma power_slots0 [simp]: "batch_slots power_campaign dialer_state0 = 2"
  by (simp add: batch_slots_def dialer_state0_def dialPower_slots_def at_limit_def limited_slots_def
      power_campaign_def trunc_rat_def)

theorem batch_slots_bounds_witness:
  "dl_activeCalls dialer_state0 + int (batch_slots power_campaign dialer_state0) \<le> 2"
proof -
  have "0 < batch_slots power_campaign dialer_state0" "0 \<le> dl_activeCalls dialer_state0"
    by (simp_all add: power_slots0) (simp add: dialer_state0_def)
  from conjunct1 [OF batch_slots_bounds [OF this]] show ?thesis
    by (simp add: power_campaign_def)
qed

section \<open>Calls in flight, along every interleaving\<close>

abbreviation table_of :: "dialer_world \<Rightarrow> int \<rightharpoonup> campaign" where
  "table_of w \<equiv> campaigns_of (dw_campaign w)"

definition reserved :: "dialer_state \<Rightarrow> int" where
  "reserved st = (case dl_phase st of Dialing _ n \<Rightarrow> int n | _ \<Rightarrow> 0)"

text \<open>
  \<open>a\<close>: the previews accepted so far. Accepting one counts a call as active without asking for a slot.
\<close>

definition state_ok :: "nat \<Rightarrow> (int \<rightharpoonup> campaign) \<Rightarrow> dialer_state \<Rightarrow> bool" where
  "state_ok a T st \<longleftrightarrow> 0 \<le> dl_activeCalls st \<and> (\<exists>row. T (dl_campaignID st) = Some row \<and>
     (0 < g_ConcurrentLimit row \<longrightarrow> dl_activeCalls st + reserved st \<le> g_ConcurrentLimit row + int a) \<and>
     (\<forall>c n. dl_phase st = Dialing c n \<longrightarrow> g_ID c = dl_campaignID st))"

definition dialer_ok :: "nat \<Rightarrow> dialer_world \<Rightarrow> bool" where
  "dialer_ok a w \<longleftrightarrow> rows_ok g_ID campaign_ok (table_of w) \<and> (\<forall>st \<in> set (dw_states w). state_ok a (table_of w) st)"

lemma state_ok_evolves:
  assumes "state_ok a T st" "campaigns_evolve T T'" "rows_ok g_ID campaign_ok T"
  shows "state_ok a T' st"
proof -
  from assms(1) obtain row where row: "T (dl_campaignID st) = Some row"
    "0 < g_ConcurrentLimit row \<Longrightarrow> dl_activeCalls st + reserved st \<le> g_ConcurrentLimit row + int a"
    "0 \<le> dl_activeCalls st" "\<And>c n. dl_phase st = Dialing c n \<Longrightarrow> g_ID c = dl_campaignID st"
    by (auto simp: state_ok_def)
  from evolvesD(2) [OF assms(2,3) row(1)] obtain row' where
    "T' (dl_campaignID st) = Some row'" "g_ConcurrentLimit row' = g_ConcurrentLimit row"
    by (auto simp: campaign_evolves_def)
  with row show ?thesis by (simp add: state_ok_def)
qed

text \<open>A call into the campaign service changes nothing else of the dialer.\<close>

lemma dw_on_campaign [simp]:
  "dw_states (snd (on_campaign m w)) = dw_states w" "dw_active (snd (on_campaign m w)) = dw_active w"
  "dw_inflight (snd (on_campaign m w)) = dw_inflight w"
  "dw_campaign (snd (on_campaign m w)) = snd (m (dw_campaign w))"
  by (auto simp: on_campaign_def act_simps put_dw_campaign_def split: prod.split sum.split)

lemma dialer_ok_campaign:
  assumes "dialer_ok a w" "moves campaigns_of campaigns_evolve m"
  shows "dialer_ok a (snd (on_campaign m w))"
proof -
  have e: "campaigns_evolve (table_of w) (table_of (snd (on_campaign m w)))"
    using assms(2) by (simp add: moves_def)
  with assms(1) evolvesD(1) [OF e] state_ok_evolves [OF _ e] show ?thesis
    by (simp add: dialer_ok_def)
qed

lemma dialer_ok_upd:
  assumes "dialer_ok a w" "\<And>st. r < length (dw_states w) \<Longrightarrow> st = dw_states w ! r \<Longrightarrow>
      state_ok a (table_of w) st \<Longrightarrow> state_ok a (table_of w) (f st)"
  shows "dialer_ok a (upd_state r f w)"
  using assms set_update_subset_insert [of "dw_states w" r "f (dw_states w ! r)"]
  by (auto simp: dialer_ok_def upd_state_def)

lemma dialer_ok_other [simp]:
  "dialer_ok a (w\<lparr>dw_active := b\<rparr>) = dialer_ok a w" "dialer_ok a (w\<lparr>dw_inflight := i\<rparr>) = dialer_ok a w"
  "dialer_ok a (w\<lparr>dw_freq := f, dw_redis := s\<rparr>) = dialer_ok a w" "dialer_ok a (w\<lparr>dw_redis := s\<rparr>) = dialer_ok a w"
  "dialer_ok a (w\<lparr>dw_freq := f\<rparr>) = dialer_ok a w"
  by (simp_all add: dialer_ok_def)

lemma on_campaign_cases:
  assumes "dialer_ok a w" "moves campaigns_of campaigns_evolve m" "on_campaign m w = (r, w')"
  shows "dialer_ok a w'"
  using dialer_ok_campaign [OF assms(1,2)] by (simp add: assms(3))

lemma load_campaign_row:
  assumes "on_campaign (load_campaign d k) w = (Inr c, w')"
  shows "table_of w k = Some c \<and> table_of w' = table_of w \<and> g_ID c = k \<and> dw_states w' = dw_states w"
proof -
  obtain t where t: "load_campaign d k (dw_campaign w) = (Inr c, t)" "dw_campaign w' = t"
    using assms by (auto simp: on_campaign_def act_simps put_dw_campaign_def split: prod.splits sum.splits)
  from campaigns.fetch_row [OF t(1) [unfolded load_campaign_def]] t(2) have
    row: "table_of w k = Some c" "table_of w' = table_of w" by auto
  moreover from row(1) have "g_ID c = k" by (auto simp: lrow_def dest: find_key)
  moreover from dw_on_campaign(1) [of "load_campaign d k" w] have "dw_states w' = dw_states w"
    by (simp add: assms)
  ultimately show ?thesis by simp
qed

subsection \<open>Every move\<close>

lemma StartDialing_ok:
  assumes "dialer_ok a w"
  shows "dialer_ok a (snd (StartDialing d now k w))"
proof (cases "on_campaign (load_campaign d k) w")
  case (Pair res w1)
  have w1: "dialer_ok a w1"
    by (rule on_campaign_cases [OF assms campaign_quiet_moves(1) [OF campaigns_load] Pair])
  show ?thesis
  proof (cases res)
    case (Inr c)
    with load_campaign_row [of d k w c w1] Pair w1 show ?thesis
      by (auto simp: StartDialing_def act_simps Let_def dialer_ok_def state_ok_def reserved_def)
  qed (use Pair w1 in \<open>simp add: StartDialing_def act_simps\<close>)
qed

lemma StopDialing_ok: "dialer_ok a w \<Longrightarrow> dialer_ok a (StopDialing k w)"
  by (auto simp: StopDialing_def state_ok_def reserved_def split: option.split intro!: dialer_ok_upd)

lemma set_loop_phase_ok:
  assumes "dialer_ok a w" "p \<in> {Waiting, Returned}"
  shows "dialer_ok a (set_loop_phase r p w)"
  unfolding set_loop_phase_def
proof (rule dialer_ok_upd [OF assms(1)])
  fix st assume "state_ok a (table_of w) st"
  then obtain row where row: "table_of w (dl_campaignID st) = Some row" "0 \<le> dl_activeCalls st"
    "0 < g_ConcurrentLimit row \<longrightarrow> dl_activeCalls st + reserved st \<le> g_ConcurrentLimit row + int a"
    by (auto simp: state_ok_def)
  have "0 \<le> reserved st" by (simp add: reserved_def split: dial_phase.split)
  with row assms(2) show "state_ok a (table_of w) (st\<lparr>dl_phase := p\<rparr>)"
    by (auto simp: state_ok_def reserved_def)
qed

lemma dialBatch_ok:
  assumes ok: "dialer_ok a w" and r: "r < length (dw_states w)"
  shows "dialer_ok a (snd (dialBatch d wall now r w))"
proof (cases "on_campaign (load_campaign d (dl_campaignID (dw_states w ! r))) w")
  case (Pair res w1)
  have w1: "dialer_ok a w1"
    by (rule on_campaign_cases [OF ok campaign_quiet_moves(1) [OF campaigns_load] Pair])
  show ?thesis
  proof (cases res)
    case (Inl e)
    with Pair w1 show ?thesis by (simp add: dialBatch_def act_simps)
  next
    case (Inr c)
    from load_campaign_row [OF Pair [unfolded Inr]] r have
      c: "table_of w1 (dl_campaignID (dw_states w1 ! r)) = Some c" "g_ID c = dl_campaignID (dw_states w1 ! r)"
      by auto
    have "dialer_ok a (set_loop_phase r (Dialing c (batch_slots c (dw_states w1 ! r))) w1)"
      unfolding set_loop_phase_def
    proof (rule dialer_ok_upd [OF w1])
      fix st assume st: "st = dw_states w1 ! r" "state_ok a (table_of w1) st"
      then have "0 \<le> dl_activeCalls st" and
        lim: "0 < g_ConcurrentLimit c \<longrightarrow> dl_activeCalls st + reserved st \<le> g_ConcurrentLimit c + int a"
        using c by (auto simp: state_ok_def)
      moreover have "0 \<le> reserved st" by (simp add: reserved_def split: dial_phase.split)
      moreover have "0 < g_ConcurrentLimit c \<longrightarrow>
          dl_activeCalls st + int (batch_slots c st) \<le> g_ConcurrentLimit c + int a"
      proof (cases "batch_slots c st")
        case 0
        with lim \<open>0 \<le> reserved st\<close> show ?thesis by auto
      next
        case (Suc n)
        then have "0 < batch_slots c st" by simp
        then show ?thesis
          using predictive_limit [of c st] limited_slots_bounds(2) [of c st] \<open>0 \<le> dl_activeCalls st\<close>
          by (auto simp: batch_slots_def dialPower_slots_def dialProgressive_slots_def split: if_splits)
      qed
      ultimately show "state_ok a (table_of w1) (st\<lparr>dl_phase := Dialing c (batch_slots c (dw_states w1 ! r))\<rparr>)"
        using c st(1) by (simp add: state_ok_def reserved_def)
    qed
    with Pair Inr w1 show ?thesis
      by (simp add: dialBatch_def act_simps StopDialing_ok)
  qed
qed

lemma campaigns_next: "moves campaigns_of campaigns_evolve (GetNextCase t k)"
  by (rule campaign_quiet_moves(1)) (rule campaigns_quiet)

lemma dial_next_ok:
  assumes ok: "dialer_ok a w" and phase: "dl_phase (dw_states w ! r) = Dialing c n"
  shows "dialer_ok a (snd (dial_next t r c n w))"
proof (cases n)
  case 0
  with ok show ?thesis by (simp add: dial_next_def act_simps set_loop_phase_ok)
next
  case (Suc m)
  obtain res w1 where step: "on_campaign (GetNextCase t (g_ID c)) w = (res, w1)"
    by (cases "on_campaign (GetNextCase t (g_ID c)) w")
  have w1: "dialer_ok a w1" by (rule on_campaign_cases [OF ok campaigns_next step])
  from dw_on_campaign(1) [of "GetNextCase t (g_ID c)" w] step have same: "dw_states w1 = dw_states w" by simp
  have "dialer_ok a (upd_state r (\<lambda>st. st\<lparr>dl_activeCalls := dl_activeCalls st + 1,
      dl_totalDialed := dl_totalDialed st + 1, dl_phase := Dialing c m\<rparr>) (w1\<lparr>dw_inflight := i\<rparr>))" for i
  proof (rule dialer_ok_upd)
    fix st assume "st = dw_states (w1\<lparr>dw_inflight := i\<rparr>) ! r"
      and "state_ok a (table_of (w1\<lparr>dw_inflight := i\<rparr>)) st"
    with phase same Suc show "state_ok a (table_of (w1\<lparr>dw_inflight := i\<rparr>)) (st\<lparr>dl_activeCalls := dl_activeCalls st + 1,
      dl_totalDialed := dl_totalDialed st + 1, dl_phase := Dialing c m\<rparr>)"
      by (auto simp: state_ok_def reserved_def)
  qed (simp add: w1)
  with Suc step w1 show ?thesis
    by (auto simp: dial_next_def act_simps set_loop_phase_ok split: sum.split option.split)
qed

lemma state_ok_counted: "state_ok a T st \<Longrightarrow> state_ok a T (counted_result b st)"
proof -
  assume a: "state_ok a T st"
  have same: "dl_campaignID (counted_result b st) = dl_campaignID st" "dl_phase (counted_result b st) = dl_phase st"
    "dl_activeCalls (counted_result b st) = max 0 (dl_activeCalls st - 1)"
    by (simp_all add: counted_result_def Let_def)
  with a have "max 0 (dl_activeCalls st - 1) \<le> dl_activeCalls st" by (simp add: state_ok_def)
  with a same show ?thesis unfolding state_ok_def reserved_def by fastforce
qed

lemma result_ok: "dialer_ok a w \<Longrightarrow> dialer_ok a (snd (RecordCallResult d now k cs b dur code w))"
proof -
  assume ok: "dialer_ok a w"
  have "dialer_ok a (case dw_active w k of None \<Rightarrow> w | Some r \<Rightarrow> upd_state r (counted_result b) w)"
    using ok by (auto simp: state_ok_counted split: option.split intro!: dialer_ok_upd)
  then show ?thesis
    by (auto simp: RecordCallResult_def act_simps
        intro!: dialer_ok_campaign moves_case_completed moves_case_failed)
qed

lemma dialCase_ok:
  assumes "dialer_ok a w"
  shows "dialer_ok a (snd (dialCase d now day b maxDaily reply c cs w))"
proof -
  have freq: "dialer_ok a (snd (frequency_allows b day maxDaily p w))" for p
    using assms by (auto simp: frequency_allows_def IncrAndCheck_def act_simps Let_def
        split: list.split bool.split)
  show ?thesis
    using freq [of "k_PhoneNumber cs"]
    by (auto simp: dialCase_def act_simps result_ok split: prod.split sum.split)
qed

lemma dialer_ok_more: "dialer_ok a w \<Longrightarrow> dialer_ok (Suc a) w"
  by (fastforce simp: dialer_ok_def state_ok_def)

lemma PreviewAccept_ok:
  assumes "dialer_ok a w"
  shows "dialer_ok (Suc a) (snd (PreviewAccept d k w))"
proof -
  have load: "dialer_ok a (snd (on_campaign (load_campaign d j) v))" if "dialer_ok a v" for j v
    by (rule dialer_ok_campaign [OF that campaign_quiet_moves(1) [OF campaigns_load]])
  have case_ok: "dialer_ok a (snd (on_campaign (load_case k) w))"
    by (rule dialer_ok_campaign [OF assms campaign_quiet_moves(1)]) (rule campaigns_quiet)
  have count: "dialer_ok (Suc a) ((case dw_active v j of None \<Rightarrow> v
      | Some r \<Rightarrow> upd_state r (\<lambda>st. st\<lparr>dl_activeCalls := dl_activeCalls st + 1, dl_totalDialed := dl_totalDialed st + 1\<rparr>) v)
      \<lparr>dw_inflight := i\<rparr>)" if v: "dialer_ok a v" for v j i
  proof -
    have "dialer_ok (Suc a) (upd_state r (\<lambda>st. st\<lparr>dl_activeCalls := dl_activeCalls st + 1, dl_totalDialed := dl_totalDialed st + 1\<rparr>) v)" for r
      using v set_update_subset_insert [of "dw_states v" r]
      by (fastforce simp: dialer_ok_def upd_state_def state_ok_def reserved_def)
    with dialer_ok_more [OF v] show ?thesis by (auto split: option.split)
  qed
  obtain rc w1 where 1: "on_campaign (load_case k) w = (rc, w1)" by fastforce
  with case_ok have w1: "dialer_ok a w1" by simp
  show ?thesis
  proof (cases rc)
    case (Inl e)
    with 1 dialer_ok_more [OF w1] show ?thesis by (simp add: PreviewAccept_def act_simps)
  next
    case (Inr cs)
    obtain rg w2 where 2: "on_campaign (load_campaign d (k_CampaignID cs)) w1 = (rg, w2)" by fastforce
    with load [OF w1, of "k_CampaignID cs"] have "dialer_ok a w2" by simp
    from count [OF this] 1 2 Inr show ?thesis by (simp add: PreviewAccept_def act_simps Let_def)
  qed
qed

text \<open>The previews accepted in a run.\<close>

definition previews_accepted :: "dial_event list \<Rightarrow> nat" where
  "previews_accepted es = length (filter (\<lambda>e. case e of DPreviewAccept _ \<Rightarrow> True | _ \<Rightarrow> False) es)"

lemma accepts_simps [simp]:
  "previews_accepted [] = 0" "previews_accepted (e # es) = (case e of DPreviewAccept _ \<Rightarrow> Suc (previews_accepted es) | _ \<Rightarrow> previews_accepted es)"
  by (simp_all add: previews_accepted_def split: dial_event.split)

lemma dial_step_ok:
  assumes "dialer_ok a w" "\<And>now nid opn. e = DRequest now nid opn \<Longrightarrow> nid \<noteq> 0"
  shows "dialer_ok (case e of DPreviewAccept _ \<Rightarrow> Suc a | _ \<Rightarrow> a) (dial_step cf e w)"
proof (cases e)
  case (DGoroutine i now day reply)
  then show ?thesis by (simp add: assms(1) dialCase_ok split: prod.split)
next
  case (DPreviewSkip now k)
  then show ?thesis
    using dialer_ok_campaign [OF assms(1) moves_drop [OF moves_case_failed]]
    by (simp add: PreviewSkip_def drop_result_def)
next
  case (DRequest now nid opn)
  then show ?thesis
    using dialer_ok_campaign [OF assms(1) exec_campaign_moves [OF assms(2)]] by simp
qed (simp_all add: assms(1) StartDialing_ok StopDialing_ok dialBatch_ok dial_next_ok set_loop_phase_ok PreviewAccept_ok
    split: dial_phase.split)

lemma dial_run_ok:
  assumes "dialer_ok a w" "\<forall>e \<in> set es. \<forall>now nid opn. e = DRequest now nid opn \<longrightarrow> nid \<noteq> 0"
  shows "dialer_ok (a + previews_accepted es) (dial_run cf es w)"
  using assms
proof (induction es arbitrary: a w)
  case (Cons e es)
  let ?a = "case e of DPreviewAccept _ \<Rightarrow> Suc a | _ \<Rightarrow> a"
  from Cons.prems(2) have step: "dialer_ok ?a (dial_step cf e w)" by (intro dial_step_ok [OF Cons.prems(1)]) auto
  have "dialer_ok (?a + previews_accepted es) (dial_run cf es (dial_step cf e w))"
    by (rule Cons.IH [OF step]) (use Cons.prems(2) in auto)
  then show ?case by (cases e) simp_all
qed simp

text \<open>
  C19. Whatever the interleaving of loops, goroutines, starts, stops, previews and campaign requests, and
  whatever the database does, the calls a dialer state counts as active are never negative and exceed the
  concurrency limit of its campaign, when it has one, at most by the number of previews accepted in the run:
  accepting a preview counts a call without asking for a slot, everything else keeps to the limit.
\<close>

theorem active_calls_bounded:
  assumes "dw_states w = []" and "rows_ok g_ID campaign_ok (table_of w)"
    and "\<forall>e \<in> set es. \<forall>now nid opn. e = DRequest now nid opn \<longrightarrow> nid \<noteq> 0"
    and "st \<in> set (dw_states (dial_run cf es w))"
  shows "0 \<le> dl_activeCalls st \<and> (\<exists>row. table_of (dial_run cf es w) (dl_campaignID st) = Some row \<and>
    (0 < g_ConcurrentLimit row \<longrightarrow> dl_activeCalls st \<le> g_ConcurrentLimit row + int (previews_accepted es)))"
proof -
  have "dialer_ok 0 w" using assms(1,2) by (simp add: dialer_ok_def)
  from dial_run_ok [OF this assms(3), of cf] assms(4) have "state_ok (previews_accepted es) (table_of (dial_run cf es w)) st"
    by (simp add: dialer_ok_def)
  moreover have "0 \<le> reserved st" by (simp add: reserved_def split: dial_phase.split)
  ultimately show ?thesis by (fastforce simp: state_ok_def)
qed

section \<open>When a batch dials\<close>

lemma upd_state_nth:
  "dw_states (upd_state r f w) ! q = (if q = r \<and> r < length (dw_states w) then f (dw_states w ! r) else dw_states w ! q)"
  by (auto simp: upd_state_def nth_list_update)

lemma StopDialing_phase [simp]: "dl_phase (dw_states (StopDialing k w) ! q) = dl_phase (dw_states w ! q)"
  by (auto simp: StopDialing_def upd_state_nth split: option.split)

lemma StopDialing_active [simp]: "dw_active (StopDialing k w) = (dw_active w)(k := None)"
  by (auto simp: StopDialing_def upd_state_def split: option.split)

text \<open>
  A loop that ticks starts dialing only when its campaign is running and the clock of the
  campaign's zone is inside the schedule, and then with the slots of its state at that moment; the
  tick itself places no call. A campaign found not running is removed from the active ones.
\<close>

theorem tick_gate:
  assumes "r < length (dw_states w)" and "dl_phase (dw_states w ! r) = Waiting"
    and "k = dl_campaignID (dw_states w ! r)" and "w' = dial_step cf (DTick now r) w"
  shows "dw_inflight w' = dw_inflight w \<and>
    (\<forall>c n. dl_phase (dw_states w' ! r) = Dialing c n \<longrightarrow>
       table_of w k = Some c \<and> g_Status c = Some CampaignStatusRunning \<and>
       isWithinSchedule (dc_wall cf) now c \<and> n = batch_slots c (dw_states w ! r)) \<and>
    (\<forall>c t. load_campaign (dc_columns cf) k (dw_campaign w) = (Inr c, t) \<longrightarrow>
       g_Status c \<noteq> Some CampaignStatusRunning \<longrightarrow> dw_active w' k = None)"
proof -
  obtain res w1 where load: "on_campaign (load_campaign (dc_columns cf) k) w = (res, w1)"
    by (cases "on_campaign (load_campaign (dc_columns cf) k) w")
  have w1: "dw_states w1 = dw_states w" "dw_inflight w1 = dw_inflight w"
    using dw_on_campaign [of "load_campaign (dc_columns cf) k" w] load by simp_all
  have w': "w' = snd ((case res of Inl _ \<Rightarrow> (ret_a () :: unit dact)
       | Inr c \<Rightarrow> if g_Status c \<noteq> Some CampaignStatusRunning then modify_a (StopDialing k)
             else if \<not> isWithinSchedule (dc_wall cf) now c then ret_a ()
             else modify_a (\<lambda>w. set_loop_phase r (Dialing c (batch_slots c (dw_states w ! r))) w)) w1)"
    unfolding assms(4) using assms(1,2) load by (simp add: dialBatch_def Let_def act_simps assms(3) [symmetric])
  show ?thesis
  proof (cases res)
    case (Inl e)
    have "load_campaign (dc_columns cf) k (dw_campaign w) \<noteq> (Inr c, t)" for c t
      using load Inl by (auto simp: on_campaign_def act_simps split: prod.splits sum.splits)
    with w' Inl w1 assms(2) show ?thesis by (simp add: act_simps)
  next
    case (Inr c)
    note row = load_campaign_row [OF load [unfolded Inr]]
    have same: "load_campaign (dc_columns cf) k (dw_campaign w) = (Inr c', t) \<Longrightarrow> c' = c" for c' t
      using load Inr by (auto simp: on_campaign_def act_simps split: prod.splits sum.splits)
    show ?thesis
    proof (cases "g_Status c = Some CampaignStatusRunning")
      case True
      with w' Inr w1 row assms(1,2) same show ?thesis
        by (auto simp: act_simps set_loop_phase_def upd_state_nth) (auto simp: upd_state_def w1 split: if_splits)
    next
      case False
      then have "w' = StopDialing k w1" using w' Inr by (simp add: act_simps)
      moreover have "dw_inflight (StopDialing k w1) = dw_inflight w1"
        by (auto simp: StopDialing_def upd_state_def split: option.split)
      ultimately show ?thesis using w1 assms(2) by simp
    qed
  qed
qed

section \<open>Schedules written as the schema writes them\<close>

definition day_abbreviations :: "string list" where
  "day_abbreviations = [''mon'', ''tue'', ''wed'', ''thu'', ''fri'', ''sat'', ''sun'']"

fun join_comma :: "string list \<Rightarrow> string" where
  "join_comma [] = []"
| "join_comma [x] = x"
| "join_comma (x # y # ys) = x @ CHR '','' # join_comma (y # ys)"

lemma join_comma_every_fourth:
  assumes "\<forall>x \<in> set xs. length x = 3"
  shows "4 * j + 3 < length (join_comma xs) \<Longrightarrow> join_comma xs ! (4 * j + 3) = CHR '',''"
  using assms
proof (induction xs arbitrary: j rule: join_comma.induct)
  case (3 x y ys)
  show ?case
  proof (cases j)
    case (Suc i)
    with 3 have "join_comma (y # ys) ! (4 * i + 3) = CHR '',''" by simp
    with Suc 3(3) show ?thesis by (simp add: nth_append add.commute)
  qed (use 3 in \<open>auto simp: nth_append\<close>)
qed auto

lemma lower_join: "set xs \<subseteq> set day_abbreviations \<Longrightarrow> strings_ToLower (join_comma xs) = join_comma xs"
proof (induction xs rule: join_comma.induct)
  case (2 x)
  then show ?case by (auto simp: day_abbreviations_def strings_ToLower_def lower_char_def)
next
  case (3 x y ys)
  then have "x \<in> set day_abbreviations" by simp
  then have "map lower_char x = x" by (auto simp: day_abbreviations_def lower_char_def)
  with 3 show ?case by (simp add: strings_ToLower_def lower_char_def)
qed (simp add: strings_ToLower_def)

lemma weekday_shape: "6 \<le> length (weekday_name d) \<and> CHR '','' \<notin> set (weekday_name d)"
proof -
  have "d mod 7 < 7" by simp
  then have "d mod 7 = 0 \<or> d mod 7 = 1 \<or> d mod 7 = 2 \<or> d mod 7 = 3 \<or> d mod 7 = 4 \<or> d mod 7 = 5 \<or> d mod 7 = 6"
    by linarith
  then show ?thesis by (auto simp: weekday_name_def)
qed

text \<open>
  With the days of a campaign written as the database schema writes them, a comma-separated
  set of \<open>mon\<close>, \<open>tue\<close>, ..., the campaign is never within its schedule, so its loop never dials: the
  code looks for the full name of the weekday inside that text.
\<close>

theorem abbreviated_days_never_dial:
  assumes "set days \<subseteq> set day_abbreviations" and "days \<noteq> []" and "g_ScheduleDays c = join_comma days"
  shows "\<not> isWithinSchedule wall now c"
proof -
  have len: "\<forall>x \<in> set days. length x = 3" using assms(1) by (auto simp: day_abbreviations_def)
  have "\<not> strings_Contains (join_comma days) (weekday_name d)" for d
  proof
    assume "strings_Contains (join_comma days) (weekday_name d)"
    then obtain i where w: "take (length (weekday_name d)) (drop i (join_comma days)) = weekday_name d"
      using Contains_window by blast
    define j where "j = 3 - i mod 4"
    have "i = 4 * (i div 4) + i mod 4" "i mod 4 < 4" by simp_all
    then have j: "j \<le> 3" "i + j = 4 * (i div 4) + 3"
      unfolding j_def by arith+
    from arg_cong [OF w, of length] weekday_shape [of d] have "i + 5 < length (join_comma days)"
      by (auto simp: min_def split: if_splits)
    with j join_comma_every_fourth [OF len, of "i div 4"] have "join_comma days ! (i + j) = CHR '',''" by auto
    moreover have "weekday_name d ! j = join_comma days ! (i + j)"
    proof -
      have "j < length (weekday_name d)" "i \<le> length (join_comma days)"
        using j(1) weekday_shape [of d] \<open>i + 5 < length (join_comma days)\<close> by simp_all
      then have "take (length (weekday_name d)) (drop i (join_comma days)) ! j = join_comma days ! (i + j)"
        by (simp only: nth_take nth_drop)
      then show ?thesis by (simp only: w)
    qed
    moreover have "weekday_name d ! j \<in> set (weekday_name d)" using j weekday_shape [of d] by (intro nth_mem) linarith
    ultimately show False using weekday_shape [of d] by simp
  qed
  moreover have "join_comma days \<noteq> []"
  proof -
    obtain x xs where "days = x # xs" using assms(2) by (cases days) auto
    with len show ?thesis by (cases xs) auto
  qed
  ultimately show ?thesis
    by (simp add: isWithinSchedule_def assms(3) lower_join [OF assms(1)] split: prod.split)
qed

section \<open>Which cases a batch dials\<close>

lemma next_case_again:
  assumes "loutages (gw_cases g) = []" "GetNextCase t k g = (r, g')"
  shows "g' = g"
  using assms by (auto simp: GetNextCase_def act_simps put_cases_def split: prod.splits sum.splits)

text \<open>
  Nothing marks a case as taken when it is offered: a batch of \<open>n\<close> slots that no result
  overtakes dials one and the same case \<open>n\<close> times.
\<close>

theorem batch_repeats_case:
  assumes "r < length (dw_states w)" and "dl_phase (dw_states w ! r) = Dialing c n"
    and "loutages (gw_cases (dw_campaign w)) = []"
    and "fst (GetNextCase t (g_ID c) (dw_campaign w)) = Inr (Some cs)"
  shows "dw_inflight (dial_run cf (replicate n (DIterate t r)) w) = dw_inflight w @ replicate n (c, cs)"
  using assms
proof (induction n arbitrary: w)
  case (Suc n)
  let ?w = "dial_step cf (DIterate t r) w"
  obtain g' where g: "GetNextCase t (g_ID c) (dw_campaign w) = (Inr (Some cs), g')"
    using Suc.prems(4) by (cases "GetNextCase t (g_ID c) (dw_campaign w)") auto
  have "g' = dw_campaign w" by (rule next_case_again [OF Suc.prems(3) g])
  with g have "on_campaign (GetNextCase t (g_ID c)) w = (Inr (Some cs), w)"
    by (simp add: on_campaign_def act_simps put_dw_campaign_def)
  with Suc.prems(1,2) have w: "?w = upd_state r (\<lambda>st. st\<lparr>dl_activeCalls := dl_activeCalls st + 1,
      dl_totalDialed := dl_totalDialed st + 1, dl_phase := Dialing c n\<rparr>)
      (w\<lparr>dw_inflight := dw_inflight w @ [(c, cs)]\<rparr>)"
    by (simp add: dial_next_def act_simps)
  have "dl_phase (dw_states ?w ! r) = Dialing c n" "r < length (dw_states ?w)"
    "dw_campaign ?w = dw_campaign w" "dw_inflight ?w = dw_inflight w @ [(c, cs)]"
    using Suc.prems(1) unfolding w by (simp_all add: upd_state_def)
  with Suc.IH [of ?w] Suc.prems(3,4) show ?case by simp
qed simp

section \<open>Concrete runs\<close>

definition dialer_world0 :: dialer_world where
  "dialer_world0 = \<lparr>dw_campaign = put_campaigns \<lparr>lrows = [power_campaign], loutages = []\<rparr> campaign_world0,
     dw_states = [], dw_active = (\<lambda>_. None), dw_inflight = [], dw_freq = (\<lambda>_. 0), dw_redis = []\<rparr>"

definition dialer_world1 :: dialer_world where
  "dialer_world1 = dialer_world0\<lparr>dw_states := [dialer_state0], dw_active := [1 \<mapsto> 0]\<rparr>"

definition dialer_config0 :: dialer_config where
  "dialer_config0 = \<lparr>dc_columns = schedule0, dc_wall = (\<lambda>_ _. (1, 10)), dc_withChecker = False, dc_maxDaily = 0\<rparr>"

lemma dialer_world0_rows:
  "rows_ok g_ID campaign_ok (table_of dialer_world0)" "table_of dialer_world0 1 = Some power_campaign"
  by (auto simp: rows_ok_def lrow_def dialer_world0_def power_campaign_def campaign1_def campaign_zero_def
      campaign_ok_def split: if_splits)

lemma start_world0:
  "dial_step dialer_config0 (DStart 5 1) dialer_world0 = dialer_world1"
  by (simp add: StartDialing_def on_campaign_def act_simps load_campaign_def fetch_a_def CampaignRepo_def
      ltable_repo_def dialer_world0_def dialer_world1_def dialer_state0_def put_dw_campaign_def lrow_def
      power_campaign_def campaign1_def campaign_zero_def dialer_config0_def put_campaigns_def fun_eq_iff)

theorem active_calls_bounded_witness:
  "0 \<le> dl_activeCalls dialer_state0 \<and> (\<exists>row. table_of (dial_run dialer_config0 [DStart 5 1] dialer_world0) 1 =
     Some row \<and> (0 < g_ConcurrentLimit row \<longrightarrow> dl_activeCalls dialer_state0 \<le> g_ConcurrentLimit row))"
proof -
  have "dw_states dialer_world0 = []" by (simp add: dialer_world0_def)
  moreover have "dialer_state0 \<in> set (dw_states (dial_run dialer_config0 [DStart 5 1] dialer_world0))"
    unfolding dial_run.simps start_world0 by (simp add: dialer_world1_def)
  ultimately show ?thesis
    using active_calls_bounded [of dialer_world0 "[DStart 5 1]" dialer_state0 dialer_config0] dialer_world0_rows(1)
    by (simp add: dialer_state0_def)
qed

theorem tick_gate_witness:
  "dw_inflight (dial_step dialer_config0 (DTick 9 0) dialer_world1) = []"
proof -
  have "0 < length (dw_states dialer_world1)" "dl_phase (dw_states dialer_world1 ! 0) = Waiting"
    by (simp_all add: dialer_world1_def dialer_state0_def)
  from conjunct1 [OF tick_gate [OF this refl refl, of dialer_config0 9]] show ?thesis
    by (simp add: dialer_world1_def dialer_world0_def)
qed

theorem abbreviated_days_never_dial_witness:
  "\<not> isWithinSchedule (\<lambda>_ _. (1, 10)) 9 (campaign1\<lparr>g_ScheduleDays := ''mon,tue,wed,thu,fri''\<rparr>)"
proof -
  have "g_ScheduleDays (campaign1\<lparr>g_ScheduleDays := ''mon,tue,wed,thu,fri''\<rparr>) =
      join_comma [''mon'', ''tue'', ''wed'', ''thu'', ''fri'']" by simp
  from abbreviated_days_never_dial [OF _ _ this] show ?thesis by (simp add: day_abbreviations_def)
qed

theorem batch_repeats_case_witness:
  "dw_inflight (dial_run dialer_config0 (replicate 2 (DIterate 9 0))
     (dialer_world1\<lparr>dw_states := [dialer_state0\<lparr>dl_phase := Dialing power_campaign 2\<rparr>]\<rparr>)) =
   [(power_campaign, case1), (power_campaign, case1)]"
proof -
  let ?w = "dialer_world1\<lparr>dw_states := [dialer_state0\<lparr>dl_phase := Dialing power_campaign 2\<rparr>]\<rparr>"
  have "fst (GetNextCase 9 (g_ID power_campaign) (dw_campaign ?w)) = Inr (Some case1)"
    by (simp add: GetNextCase_def act_simps dialer_world1_def dialer_world0_def power_campaign_def world0_defs
        sort_key_def)
  moreover have "0 < length (dw_states ?w)" "dl_phase (dw_states ?w ! 0) = Dialing power_campaign 2"
    "loutages (gw_cases (dw_campaign ?w)) = []" "dw_inflight ?w = []"
    by (simp_all add: dialer_world1_def dialer_world0_def campaign_world0_def)
  ultimately show ?thesis using batch_repeats_case [of 0 ?w power_campaign 2 9 case1 dialer_config0]
    by (simp add: numeral_2_eq_2)
qed

end
