(* ===== verification/IVREngine.thy ===== *)
theory IVREngine
  imports Complex_Main FlowGraph Decimal GoStrings "HOL-Library.AList"
begin

text \<open>
  The interpreter of IVR flows: \<open>internal/application/ivr\<close> (\<open>engine.go\<close> and the node handlers). A
  session walks a flow graph from its start node; each node runs a handler that reads and writes the
  session's variables, talks to FreeSWITCH and names the exit to follow.
\<close>

section \<open>Configurations\<close>

text \<open>
  The configuration of a node, as \<open>json.Unmarshal\<close> leaves it in the handler's struct. \<open>CEmpty\<close> is an
  absent configuration or one of another shape: the handlers that drop the error of the parser work
  with zero values then. \<open>CMalformed\<close> is an error the handler looks at. A Go map in a configuration is
  the list of its entries in the order an iteration visits them.
\<close>

record play_config =
  pc_AudioFile :: string
  pc_TTSText :: string

record dtmf_config =
  dc_MinDigits :: int
  dc_MaxDigits :: int
  dc_TimeoutSec :: int
  dc_TermChar :: string
  dc_RetryCount :: int
  dc_PromptAudioID :: string
  dc_FailAudioID :: string

record voicemail_config =
  vc_MaxDurationSec :: int
  vc_BeepFile :: string
  vc_StoragePath :: string

record branch_condition =
  bc_Name :: string
  bc_Variable :: string
  bc_Operator :: string
  bc_Value :: string

record agent_config =
  ta_SkillGroupID :: string
  ta_RoutingStrategy :: string
  ta_QueuePriority :: int
  ta_QueueMusicID :: string

record external_config =
  te_Number :: string
  te_CallerID :: string
  te_TimeoutSec :: int

record callback_config =
  cb_PromptAudioID :: string
  cb_ConfirmKey :: string
  cb_RejectKey :: string
  cb_CallbackNumber :: string

record http_config =
  hc_URL :: string
  hc_Method :: string
  hc_Headers :: "(string \<times> string) list"
  hc_Body :: string
  hc_OutputVar :: string

record sms_config =
  sm_To :: string
  sm_TemplateCode :: string
  sm_TemplateParams :: "(string \<times> string) list"
  sm_APIEndpoint :: string

record subflow_config =
  sf_FlowID :: string
  sf_InputVars :: "(string \<times> string) list"
  sf_OutputVars :: "string list"

record employee_config =
  de_ID :: string
  de_SceneID :: string
  de_MaxTurns :: int
  de_TransferOnFailure :: bool

record sentiment_config =
  se_NegativeThreshold :: rat
  se_SourceVar :: string

datatype node_config =
    CEmpty
  | CMalformed
  | CStart "(string \<times> string) list"
  | CPlay play_config
  | CSetVar "(string \<times> string) list"
  | CHangup string
  | CDTMF dtmf_config
  | CVoicemail voicemail_config
  | CCsat string int
  | CASR int
  | CBranch "branch_condition list"
  | CAgent agent_config
  | CExternal external_config
  | CBlind string string
  | CCallback callback_config
  | CFunction http_config
  | CHTTP http_config
  | CJSON string "(string \<times> string) list"
  | CSMS sms_config
  | CSubFlow subflow_config
  | CEmployee employee_config
  | CNLU rat
  | CQueue string
  | CSentiment sentiment_config

type_synonym ivr_node = "node_config flow_node"
type_synonym ivr_graph = "node_config flow_graph"

section \<open>Session and surroundings\<close>

record session =
  se_CallID :: int
  se_TenantID :: int
  se_FlowID :: int
  se_CallUUID :: string
  se_ESL :: bool

record node_visit =
  nv_NodeID :: string
  nv_NodeType :: string
  nv_ExitName :: string

datatype http_body = NoBody | TextBody string | SmsBody string string "(string \<times> string) list"

record http_request =
  hr_Method :: string
  hr_URL :: string
  hr_Headers :: "(string \<times> string) list"
  hr_Body :: http_body

text \<open>
  What a session does to the outside, in order. \<open>HttpRedirect u\<close>: the HTTP client has followed a redirect
  to \<open>u\<close>, which no code of the engine looks at.
\<close>

datatype ivr_effect =
    PlayAudio string string
  | HangupCall string
  | TransferCall string string
  | StartRecording string string
  | SendCommand string
  | HttpDo http_request
  | HttpRedirect string
  | AcdEnqueue int int int
  | SaveContext int

text \<open>
  The variables of the session (a Go map, kept as its entries), its history, the effects so far and
  the replies FreeSWITCH will give: \<open>Inl\<close> an error, \<open>Inr\<close> a response; when the script is exhausted a
  command is answered with the empty response.
\<close>

record ivr_state =
  st_vars :: "(string \<times> string) list"
  st_history :: "node_visit list"
  st_trace :: "ivr_effect list"
  st_replies :: "(string + string) list"

datatype ivr_error =
    IvrNoStart
  | IvrNoHandler string
  | IvrNoExit string string
  | IvrNoTarget string string
  | IvrTooManySteps
  | IvrNoLoader
  | IvrLoad

type_synonym 'a iact = "(ivr_state, ivr_error, 'a) act"

text \<open>
  The code around the engine: the iteration order of a map with given entries, \<open>url.Parse\<close> (scheme and
  host name), whether \<open>http.NewRequest\<close> accepts a method and a URL, the HTTP exchange (the URLs the servers redirect to,
  one after the other, and the last answer: status, body),
  \<open>json.Unmarshal\<close> into a map (each value as \<open>%v\<close> prints it), and the providers, wired or nil, each
  with \<open>None\<close> or \<open>Inl\<close> for an error.
\<close>

record ivr_env =
  en_order :: "(string \<times> string) list \<Rightarrow> (string \<times> string) list"
  en_url :: "string \<Rightarrow> (string \<times> string) option"
  en_request :: "string \<Rightarrow> string \<Rightarrow> bool"
  en_http :: "http_request \<Rightarrow> string list \<times> (int \<times> string) option"
  en_json :: "string \<Rightarrow> (string \<times> string) list option"
  en_asr :: "(string \<Rightarrow> string + string) option"
  en_nlu :: "(string \<Rightarrow> (string \<times> rat) option) option"
  en_sentiment :: "(string \<Rightarrow> rat option) option"
  en_crm :: "(int \<Rightarrow> string \<Rightarrow> (string \<times> string) option) option"
  en_queue :: "(int \<Rightarrow> int option) option"
  en_aht :: int
  en_acd :: "(int \<Rightarrow> int \<Rightarrow> int \<Rightarrow> string option) option"
  en_sink :: bool
  en_loader :: "(int \<Rightarrow> ivr_graph option) option"

definition var :: "string \<Rightarrow> ivr_state \<Rightarrow> string" where
  "var k st = (case map_of (st_vars st) k of None \<Rightarrow> [] | Some v \<Rightarrow> v)"

definition setv :: "string \<Rightarrow> string \<Rightarrow> ivr_state \<Rightarrow> ivr_state" where
  "setv k v st = st\<lparr>st_vars := AList.update k v (st_vars st)\<rparr>"

definition set_var :: "string \<Rightarrow> string \<Rightarrow> unit iact" where
  "set_var k v = modify_a (setv k v)"

definition set_vars :: "(string \<times> string) list \<Rightarrow> unit iact" where
  "set_vars kvs = modify_a (fold (\<lambda>kv. setv (fst kv) (snd kv)) kvs)"

text \<open>Continue with the state as it is.\<close>

definition with_state :: "(ivr_state \<Rightarrow> 'a iact) \<Rightarrow> 'a iact" where
  "with_state f = (\<lambda>st. f st st)"

definition emit_effect :: "ivr_effect \<Rightarrow> unit iact" where
  "emit_effect e = modify_a (\<lambda>st. st\<lparr>st_trace := st_trace st @ [e]\<rparr>)"

definition esl_cmd :: "ivr_effect \<Rightarrow> (string + string) iact" where
  "esl_cmd e st = (let st' = st\<lparr>st_trace := st_trace st @ [e]\<rparr>
     in case st_replies st of
          [] \<Rightarrow> (Inr (Inr []), st')
        | r # rs \<Rightarrow> (Inr r, st'\<lparr>st_replies := rs\<rparr>))"

definition on_line :: "session \<Rightarrow> bool" where
  "on_line s \<longleftrightarrow> se_ESL s \<and> se_CallUUID s \<noteq> []"

definition or_else :: "string \<Rightarrow> string \<Rightarrow> string" where
  "or_else s d = (if s = [] then d else s)"

definition or_int :: "int \<Rightarrow> int \<Rightarrow> int" where
  "or_int i d = (if i = 0 then d else i)"

section \<open>Strings\<close>

text \<open>\<open>strings.ReplaceAll\<close> for a pattern that is not empty, as here.\<close>

function replace_all :: "string \<Rightarrow> string \<Rightarrow> string \<Rightarrow> string" where
  "replace_all pat new s =
     (if s = [] \<or> pat = [] then s
      else if strings_HasPrefix s pat then new @ replace_all pat new (drop (length pat) s)
      else hd s # replace_all pat new (tl s))"
  by pat_completeness auto
termination
  by (relation "measure (\<lambda>(pat, new, s). length s)") (auto simp: neq_Nil_conv)

declare replace_all.simps [simp del]

definition interpolateVars :: "ivr_env \<Rightarrow> string \<Rightarrow> (string \<times> string) list \<Rightarrow> string" where
  "interpolateVars env s vars =
     fold (\<lambda>kv s. replace_all (''${'' @ fst kv @ ''}'') (snd kv) s) (en_order env vars) s"

definition interp :: "ivr_env \<Rightarrow> string \<Rightarrow> ivr_state \<Rightarrow> string" where
  "interp env s st = interpolateVars env s (st_vars st)"

definition TrimRight :: "char \<Rightarrow> string \<Rightarrow> string" where
  "TrimRight c s = rev (dropWhile (\<lambda>x. x = c) (rev s))"

definition TrimPrefix :: "string \<Rightarrow> string \<Rightarrow> string" where
  "TrimPrefix p s = (if strings_HasPrefix s p then drop (length p) s else s)"

text \<open>The digits written from the end of a buffer; nothing for a negative number.\<close>

function int_digits :: "int \<Rightarrow> string \<Rightarrow> string" where
  "int_digits n acc = (if n \<le> 0 then acc else int_digits (n div 10) (digit_char (nat (n mod 10)) # acc))"
  by pat_completeness auto
termination
  by (relation "measure (\<lambda>(n, acc). nat n)") auto

declare int_digits.simps [simp del]

definition appendInt :: "string \<Rightarrow> int \<Rightarrow> string" where
  "appendInt b n = (if n = 0 then b @ ''0'' else b @ int_digits n [])"

definition appendFloat :: "string \<Rightarrow> rat \<Rightarrow> string" where
  "appendFloat b f =
     (let b0 = (if f < 0 then b @ ''-'' else b);
          g = \<bar>f\<bar>;
          whole = \<lfloor>g\<rfloor>;
          frac = \<lfloor>(g - of_int whole) * 100\<rfloor>;
          b1 = appendInt b0 whole @ ''.''
      in appendInt (if frac < 10 then b1 @ ''0'' else b1) frac)"

text \<open>\<open>strconv.FormatFloat(f, 'f', 2, 64)\<close>: two decimals, ties to even.\<close>

definition round_even :: "rat \<Rightarrow> int" where
  "round_even x = (let n = \<lfloor>x\<rfloor>; d = x - of_int n
     in if d < 1 / 2 then n else if d > 1 / 2 then n + 1 else if even n then n else n + 1)"

definition FormatFloat2 :: "rat \<Rightarrow> string" where
  "FormatFloat2 f =
     (let h = round_even (\<bar>f\<bar> * 100)
      in (if f < 0 then ''-'' else []) @ itoa (h div 100) @ ''.'' @
         (if h mod 100 < 10 then ''0'' else []) @ itoa (h mod 100))"

section \<open>Basic nodes\<close>

type_synonym handler = "session \<Rightarrow> ivr_node \<Rightarrow> string iact"

definition StartHandler :: handler where
  "StartHandler s n =
     seq_a (set_vars (case n_Config n of CStart kvs \<Rightarrow> kvs | _ \<Rightarrow> [])) (ret_a ''default'')"

definition play_file :: "node_config \<Rightarrow> string" where
  "play_file c = (case c of
      CPlay p \<Rightarrow> if pc_AudioFile p = [] \<and> pc_TTSText p \<noteq> [] then ''say:'' @ pc_TTSText p else pc_AudioFile p
    | _ \<Rightarrow> [])"

definition PlayHandler :: handler where
  "PlayHandler s n =
     (if on_line s \<and> play_file (n_Config n) \<noteq> [] then
        bind_a (esl_cmd (PlayAudio (se_CallUUID s) (play_file (n_Config n)))) (\<lambda>r. case r of
          Inl err \<Rightarrow> seq_a (set_var ''play_error'' err) (ret_a ''error'')
        | Inr _ \<Rightarrow> ret_a ''default'')
      else ret_a ''default'')"

definition SetVariableHandler :: handler where
  "SetVariableHandler s n =
     seq_a (set_vars (case n_Config n of CSetVar kvs \<Rightarrow> kvs | _ \<Rightarrow> [])) (ret_a ''default'')"

definition HangupReasonHandler :: handler where
  "HangupReasonHandler s n =
     (let reason = (case n_Config n of CHangup r \<Rightarrow> r | _ \<Rightarrow> [])
      in seq_a (when_a (reason \<noteq> []) (set_var ''hangup_reason'' reason))
         (seq_a (when_a (on_line s) (ignore_a (esl_cmd (HangupCall (se_CallUUID s)))))
         (ret_a ''default'')))"

definition EndHandler :: handler where
  "EndHandler s n = ret_a []"

section \<open>Interaction\<close>

definition silence :: string where "silence = ''silence_stream://250''"

definition dtmf_zero :: dtmf_config where
  "dtmf_zero = \<lparr>dc_MinDigits = 0, dc_MaxDigits = 0, dc_TimeoutSec = 0, dc_TermChar = [], dc_RetryCount = 0,
     dc_PromptAudioID = [], dc_FailAudioID = []\<rparr>"

definition dtmf_defaults :: "dtmf_config \<Rightarrow> dtmf_config" where
  "dtmf_defaults c = (let lo = or_int (dc_MinDigits c) 1 in c\<lparr>
     dc_MinDigits := lo, dc_MaxDigits := or_int (dc_MaxDigits c) lo, dc_TimeoutSec := or_int (dc_TimeoutSec c) 10,
     dc_TermChar := or_else (dc_TermChar c) ''#'', dc_RetryCount := or_int (dc_RetryCount c) 3\<rparr>)"

definition broadcast :: "session \<Rightarrow> string \<Rightarrow> ivr_effect" where
  "broadcast s cmd = SendCommand (''uuid_broadcast '' @ se_CallUUID s @ '' '' @ cmd @ '' both'')"

definition dtmf_command :: "dtmf_config \<Rightarrow> string" where
  "dtmf_command c = ''play_and_get_digits '' @ itoa (dc_MinDigits c) @ '' '' @ itoa (dc_MaxDigits c) @ '' '' @
     itoa (dc_RetryCount c) @ '' '' @ itoa (dc_TimeoutSec c * 1000) @ '' '' @ dc_TermChar c @ '' '' @
     or_else (dc_PromptAudioID c) silence @ '' '' @ or_else (dc_FailAudioID c) silence @
     '' dtmf_result '' @ [CHR 0x5C] @ ''d+''"

text \<open>A prompt whose answer goes into a variable; no answer is a timeout.\<close>

definition ask :: "session \<Rightarrow> string \<Rightarrow> string \<Rightarrow> string iact" where
  "ask s cmd answer =
     (if on_line s then
        bind_a (esl_cmd (broadcast s cmd)) (\<lambda>r. case r of
          Inl _ \<Rightarrow> seq_a (set_var answer []) (ret_a ''timeout'')
        | Inr resp \<Rightarrow> seq_a (set_var answer resp) (ret_a ''success''))
      else seq_a (set_var answer []) (ret_a ''success''))"

definition CollectDTMFHandler :: handler where
  "CollectDTMFHandler s n =
     ask s (dtmf_command (dtmf_defaults (case n_Config n of CDTMF c \<Rightarrow> c | _ \<Rightarrow> dtmf_zero))) ''dtmf_input''"

definition voicemail_path :: "session \<Rightarrow> voicemail_config \<Rightarrow> string" where
  "voicemail_path s c = or_else (vc_StoragePath c)
     (''/recordings/voicemail/'' @ itoa (se_TenantID s) @ ''_'' @ itoa (se_CallID s) @ ''.wav'')"

definition VoicemailHandler :: handler where
  "VoicemailHandler s n =
     (let c = (case n_Config n of CVoicemail c \<Rightarrow> c
                | _ \<Rightarrow> \<lparr>vc_MaxDurationSec = 0, vc_BeepFile = [], vc_StoragePath = []\<rparr>);
          path = voicemail_path s c
      in if on_line s then
           seq_a (when_a (vc_BeepFile c \<noteq> []) (ignore_a (esl_cmd (PlayAudio (se_CallUUID s) (vc_BeepFile c)))))
           (bind_a (esl_cmd (StartRecording (se_CallUUID s) path)) (\<lambda>r. case r of
              Inl err \<Rightarrow> seq_a (set_var ''voicemail_error'' err) (ret_a ''error'')
            | Inr _ \<Rightarrow> seq_a (set_var ''voicemail_file'' path) (ret_a ''default'')))
         else ret_a ''default'')"

definition SatisfactionRatingHandler :: handler where
  "SatisfactionRatingHandler s n =
     (case (case n_Config n of CCsat p m \<Rightarrow> (p, m) | _ \<Rightarrow> ([], 0)) of (prompt, max_rating) \<Rightarrow>
        ask s (''play_and_get_digits 1 1 3 5000 # '' @ or_else prompt silence @ '' silence_stream://250 csat_result [1-''
               @ itoa (or_int max_rating 5) @ '']'') ''csat_rating'')"

definition ASRHandler :: "ivr_env \<Rightarrow> handler" where
  "ASRHandler env s n =
     (let timeout_ms = or_int (case n_Config n of CASR t \<Rightarrow> t | _ \<Rightarrow> 0) 10000;
          audio = ''/tmp/asr_'' @ itoa (se_CallID s) @ ''.wav'';
          nothing = seq_a (set_var ''asr_result'' []) (ret_a ''success'')
      in if on_line s then
           bind_a (esl_cmd (SendCommand (''uuid_record '' @ se_CallUUID s @ '' start '' @ audio @ '' '' @
                       itoa (trunc_div timeout_ms 1000)))) (\<lambda>r. case r of
             Inl _ \<Rightarrow> seq_a (set_var ''asr_result'' []) (ret_a ''error'')
           | Inr _ \<Rightarrow> seq_a (set_var ''asr_audio_file'' audio) (case en_asr env of
               None \<Rightarrow> nothing
             | Some transcribe \<Rightarrow> (case transcribe audio of
                 Inl err \<Rightarrow> seq_a (set_var ''asr_result'' []) (seq_a (set_var ''asr_error'' err) (ret_a ''error''))
               | Inr txt \<Rightarrow> seq_a (set_var ''asr_result'' txt) (ret_a ''success''))))
         else nothing)"

text \<open>\<open>for i := 0; i <= len(s)-len(substr); i++ { if s[i:i+len(substr)] == substr ... }\<close>\<close>

fun contains_from :: "string \<Rightarrow> string \<Rightarrow> nat \<Rightarrow> nat \<Rightarrow> bool" where
  "contains_from s sub i 0 = False"
| "contains_from s sub i (Suc left) = (take (length sub) (drop i s) = sub \<or> contains_from s sub (Suc i) left)"

definition contains :: "string \<Rightarrow> string \<Rightarrow> bool" where
  "contains s sub = contains_from s sub 0 (if length sub \<le> length s then Suc (length s - length sub) else 0)"

definition evaluateCondition :: "string \<Rightarrow> string \<Rightarrow> string \<Rightarrow> bool" where
  "evaluateCondition actual opr expected =
     (if opr = ''eq'' \<or> opr = ''=='' then actual = expected
      else if opr = ''ne'' \<or> opr = ''!='' then actual \<noteq> expected
      else if opr = ''contains'' then 0 < length actual \<and> 0 < length expected \<and> contains actual expected
      else if opr = ''starts_with'' then length expected \<le> length actual \<and> take (length expected) actual = expected
      else if opr = ''ends_with'' then length expected \<le> length actual \<and> drop (length actual - length expected) actual = expected
      else if opr = ''empty'' then actual = []
      else if opr = ''not_empty'' then actual \<noteq> []
      else False)"

fun first_match :: "ivr_state \<Rightarrow> branch_condition list \<Rightarrow> string" where
  "first_match st [] = ''default''"
| "first_match st (c # cs) =
     (if evaluateCondition (var (bc_Variable c) st) (bc_Operator c) (bc_Value c) then bc_Name c else first_match st cs)"

definition BranchHandler :: handler where
  "BranchHandler s n = with_state (\<lambda>st. ret_a (first_match st (case n_Config n of CBranch cs \<Rightarrow> cs | _ \<Rightarrow> [])))"

end
