(* ===== verification/IVRRun.thy ===== *)
theory IVRRun
  imports IVREngine
begin

text \<open>
  The node handlers that route calls and reach other systems, the registry of \<open>DefaultEngine\<close>, and
  \<open>Execute\<close>, with \<open>SubFlow\<close> nodes running it on another flow.
\<close>

section \<open>Routing\<close>

definition agent_zero :: agent_config where
  "agent_zero = \<lparr>ta_SkillGroupID = [], ta_RoutingStrategy = [], ta_QueuePriority = 0, ta_QueueMusicID = []\<rparr>"

text \<open>The last part of the three transfers: one command, its error kept in a variable.\<close>

definition transfer_with :: "session \<Rightarrow> ivr_effect \<Rightarrow> string iact" where
  "transfer_with s e =
     (if on_line s then
        bind_a (esl_cmd e) (\<lambda>r. case r of
          Inl err \<Rightarrow> seq_a (set_var ''transfer_error'' err) (ret_a ''error'')
        | Inr _ \<Rightarrow> ret_a ''success'')
      else ret_a ''success'')"

definition TransferToAgentHandler :: "ivr_env \<Rightarrow> handler" where
  "TransferToAgentHandler env s n =
     (let c = (case n_Config n of CAgent c \<Rightarrow> c | _ \<Rightarrow> agent_zero);
          sg = parse_value (ta_SkillGroupID c)
      in seq_a (set_vars [(''transfer_skill_group'', ta_SkillGroupID c), (''transfer_strategy'', ta_RoutingStrategy c),
                          (''queue_priority'', itoa (ta_QueuePriority c))])
         (seq_a (when_a (on_line s \<and> ta_QueueMusicID c \<noteq> [])
                  (ignore_a (esl_cmd (PlayAudio (se_CallUUID s) (ta_QueueMusicID c)))))
         (case en_acd env of
            Some enqueue \<Rightarrow>
              if 0 < sg \<and> 0 < se_CallID s then
                seq_a (when_a (en_sink env) (emit_effect (SaveContext (se_CallID s))))
                (seq_a (emit_effect (AcdEnqueue (se_CallID s) sg (ta_QueuePriority c)))
                (case enqueue (se_CallID s) sg (ta_QueuePriority c) of
                   Some err \<Rightarrow> seq_a (set_var ''transfer_error'' err) (ret_a ''error'')
                 | None \<Rightarrow> ret_a ''success''))
              else transfer_with s (TransferCall (se_CallUUID s) (''callcenter:'' @ ta_SkillGroupID c @ ''@default''))
          | None \<Rightarrow> transfer_with s (TransferCall (se_CallUUID s) (''callcenter:'' @ ta_SkillGroupID c @ ''@default'')))))"

definition external_command :: "session \<Rightarrow> external_config \<Rightarrow> string \<Rightarrow> string" where
  "external_command s c callerID = ''uuid_transfer '' @ se_CallUUID s @ '' -both '' @ [CHR 0x27] @
     ''bridge:{origination_caller_id_number='' @ callerID @ '',call_timeout='' @ itoa (or_int (te_TimeoutSec c) 30) @ ''}'' @
     ''sofia/external/'' @ te_Number c @ [CHR 0x27] @ '' inline''"

definition TransferToExternalHandler :: handler where
  "TransferToExternalHandler s n =
     (let c = (case n_Config n of CExternal c \<Rightarrow> c | _ \<Rightarrow> \<lparr>te_Number = [], te_CallerID = [], te_TimeoutSec = 0\<rparr>)
      in seq_a (set_var ''transfer_external_number'' (te_Number c))
         (with_state (\<lambda>st. transfer_with s (SendCommand (external_command s c
            (or_else (te_CallerID c) (var ''caller_number'' st)))))))"

definition BlindTransferHandler :: handler where
  "BlindTransferHandler s n =
     (case (case n_Config n of CBlind t ty \<Rightarrow> (t, ty) | _ \<Rightarrow> ([], [])) of (target, ty) \<Rightarrow>
        seq_a (set_var ''blind_transfer_target'' target)
        (transfer_with s (TransferCall (se_CallUUID s)
           (if ty = ''agent'' \<or> ty = ''extension'' then ''user/'' @ target
            else if ty = ''number'' then ''sofia/external/'' @ target
            else target))))"

definition callback_zero :: callback_config where
  "callback_zero = \<lparr>cb_PromptAudioID = [], cb_ConfirmKey = [], cb_RejectKey = [], cb_CallbackNumber = []\<rparr>"

definition CallbackHandler :: handler where
  "CallbackHandler s n =
     (let c = (case n_Config n of CCallback c \<Rightarrow> c | _ \<Rightarrow> callback_zero);
          confirm = or_else (cb_ConfirmKey c) ''1''; reject = or_else (cb_RejectKey c) ''2''
      in with_state (\<lambda>st.
         seq_a (set_var ''callback_number'' (or_else (cb_CallbackNumber c) (var ''caller_number'' st)))
         (if on_line s then
            seq_a (when_a (cb_PromptAudioID c \<noteq> []) (ignore_a (esl_cmd (PlayAudio (se_CallUUID s) (cb_PromptAudioID c)))))
            (bind_a (esl_cmd (broadcast s (''play_and_get_digits 1 1 3 5000 # silence_stream://250 silence_stream://250 cb_choice [''
                        @ confirm @ reject @ '']''))) (\<lambda>r.
               if r = Inr confirm then seq_a (set_var ''callback_requested'' ''true'') (ret_a ''confirm'')
               else ret_a ''reject''))
          else ret_a ''reject'')))"

section \<open>Requests to other systems\<close>

definition blocked_host :: "string \<Rightarrow> bool" where
  "blocked_host host \<longleftrightarrow> host = ''localhost'' \<or> host = ''127.0.0.1'' \<or> host = ''::1'' \<or>
     strings_HasPrefix host ''10.'' \<or> strings_HasPrefix host ''192.168.'' \<or> strings_HasPrefix host ''169.254.'' \<or>
     (strings_HasPrefix host ''172.'' \<and> 4 < length host)"

text \<open>No error.\<close>

definition validateURL :: "ivr_env \<Rightarrow> string \<Rightarrow> bool" where
  "validateURL env raw =
     (case en_url env raw of
        None \<Rightarrow> False
      | Some (scheme, host) \<Rightarrow>
          (strings_ToLower scheme = ''http'' \<or> strings_ToLower scheme = ''https'') \<and>
          \<not> blocked_host (strings_ToLower host))"

text \<open>
  \<open>ivrHTTPClient.Do\<close>: the request, then the redirects it is answered with. A client without
  \<open>CheckRedirect\<close> follows them wherever they lead and gives up after ten requests.
\<close>

definition http_do :: "ivr_env \<Rightarrow> http_request \<Rightarrow> ((int \<times> string) option) iact" where
  "http_do env rq = seq_a (emit_effect (HttpDo rq))
     (seq_a (modify_a (\<lambda>st. st\<lparr>st_trace := st_trace st @ map HttpRedirect (take 9 (fst (en_http env rq)))\<rparr>))
     (ret_a (if 10 \<le> length (fst (en_http env rq)) then None else snd (en_http env rq))))"

definition succeeded :: "int \<Rightarrow> bool" where
  "succeeded code \<longleftrightarrow> 200 \<le> code \<and> code < 300"

definition set_output :: "string \<Rightarrow> string \<Rightarrow> unit iact" where
  "set_output k v = when_a (k \<noteq> []) (set_var k v)"

definition http_zero :: http_config where
  "http_zero = \<lparr>hc_URL = [], hc_Method = [], hc_Headers = [], hc_Body = [], hc_OutputVar = []\<rparr>"

definition interp_headers :: "ivr_env \<Rightarrow> ivr_state \<Rightarrow> (string \<times> string) list \<Rightarrow> (string \<times> string) list" where
  "interp_headers env st hs = map (\<lambda>(k, v). (k, interp env v st)) hs"

definition with_content_type :: "(string \<times> string) list \<Rightarrow> (string \<times> string) list" where
  "with_content_type hs =
     (if list_ex (\<lambda>(k, v). strings_ToLower k = ''content-type'' \<and> v \<noteq> []) hs then hs
      else hs @ [(''Content-Type'', ''application/json'')])"

definition FunctionHandler :: "ivr_env \<Rightarrow> handler" where
  "FunctionHandler env s n =
     (let c = (case n_Config n of CFunction c \<Rightarrow> c | _ \<Rightarrow> http_zero)
      in if hc_URL c = [] then ret_a ''error''
         else with_state (\<lambda>st.
           let url = interp env (hc_URL c) st; meth = or_else (hc_Method c) ''POST'';
               rq = \<lparr>hr_Method = meth, hr_URL = url, hr_Headers = with_content_type (interp_headers env st (hc_Headers c)),
                     hr_Body = TextBody (interp env (hc_Body c) st)\<rparr>;
               failed = seq_a (set_output (hc_OutputVar c) []) (ret_a ''error'')
           in if \<not> en_request env meth url then failed
              else if \<not> validateURL env url then failed
              else bind_a (http_do env rq) (\<lambda>r. case r of
                     None \<Rightarrow> failed
                   | Some (code, body) \<Rightarrow> seq_a (set_output (hc_OutputVar c) (take 65536 body))
                       (ret_a (if succeeded code then ''success'' else ''error'')))))"

definition HTTPRequestHandler :: "ivr_env \<Rightarrow> handler" where
  "HTTPRequestHandler env s n =
     (let c = (case n_Config n of CHTTP c \<Rightarrow> c | _ \<Rightarrow> http_zero)
      in if hc_URL c = [] then ret_a ''error''
         else with_state (\<lambda>st.
           let url = interp env (hc_URL c) st; meth = or_else (hc_Method c) ''GET'';
               body = interp env (hc_Body c) st;
               rq = \<lparr>hr_Method = meth, hr_URL = url, hr_Headers = interp_headers env st (hc_Headers c),
                     hr_Body = (if body = [] then NoBody else TextBody body)\<rparr>
           in if \<not> en_request env meth url then ret_a ''error''
              else if \<not> validateURL env url then ret_a ''error''
              else bind_a (http_do env rq) (\<lambda>r. case r of
                     None \<Rightarrow> ret_a ''error''
                   | Some (code, resp) \<Rightarrow> seq_a (set_output (hc_OutputVar c) (take 65536 resp))
                       (seq_a (set_var ''http_status_code'' (itoa code))
                       (ret_a (if succeeded code then ''success'' else ''error''))))))"

definition JSONParserHandler :: "ivr_env \<Rightarrow> handler" where
  "JSONParserHandler env s n =
     (case (case n_Config n of CJSON src ms \<Rightarrow> (src, ms) | _ \<Rightarrow> ([], [])) of (source, mappings) \<Rightarrow>
        with_state (\<lambda>st.
          if var source st = [] then ret_a ''error''
          else case en_json env (var source st) of
            None \<Rightarrow> ret_a ''error''
          | Some data \<Rightarrow> seq_a (set_vars (map (\<lambda>(path, target).
                (target, case map_of data (TrimPrefix ''$.'' path) of None \<Rightarrow> [] | Some v \<Rightarrow> v)) mappings))
              (ret_a ''success'')))"

definition SMSHandler :: "ivr_env \<Rightarrow> handler" where
  "SMSHandler env s n =
     (let c = (case n_Config n of CSMS c \<Rightarrow> c
                | _ \<Rightarrow> \<lparr>sm_To = [], sm_TemplateCode = [], sm_TemplateParams = [], sm_APIEndpoint = []\<rparr>)
      in with_state (\<lambda>st.
         let to = or_else (sm_To c) (var ''caller_number'' st);
             params = map (\<lambda>(k, v). (k, interp env v st)) (sm_TemplateParams c);
             endpoint = sm_APIEndpoint c;
             rq = \<lparr>hr_Method = ''POST'', hr_URL = endpoint, hr_Headers = [(''Content-Type'', ''application/json'')],
                   hr_Body = SmsBody to (sm_TemplateCode c) params\<rparr>;
             sent = seq_a (set_var ''sms_sent'' ''true'') (ret_a ''success'')
         in if endpoint = [] then sent
            else if \<not> en_request env ''POST'' endpoint then ret_a ''error''
            else if \<not> validateURL env endpoint then ret_a ''error''
            else bind_a (http_do env rq) (\<lambda>r. case r of None \<Rightarrow> ret_a ''error'' | Some _ \<Rightarrow> sent)))"

definition DigitalEmployeeHandler :: handler where
  "DigitalEmployeeHandler s n =
     (let c = (case n_Config n of CEmployee c \<Rightarrow> c
                | _ \<Rightarrow> \<lparr>de_ID = [], de_SceneID = [], de_MaxTurns = 0, de_TransferOnFailure = False\<rparr>)
      in seq_a (set_vars [(''digital_employee_id'', de_ID c), (''digital_employee_scene'', de_SceneID c)])
         (seq_a (when_a (0 < de_MaxTurns c) (set_var ''digital_employee_max_turns'' (itoa (de_MaxTurns c))))
         (seq_a (when_a (de_TransferOnFailure c) (set_var ''digital_employee_transfer_on_failure'' ''true''))
         (ret_a ''success''))))"

section \<open>Providers\<close>

definition format_confidence :: "rat \<Rightarrow> string" where
  "format_confidence f = TrimRight CHR ''.'' (TrimRight CHR ''0'' (appendFloat [] f))"

definition NLUHandler :: "ivr_env \<Rightarrow> handler" where
  "NLUHandler env s n = with_state (\<lambda>st.
     let txt = var ''asr_result'' st; c = (case n_Config n of CNLU m \<Rightarrow> m | _ \<Rightarrow> 0);
         min_conf = (if c \<le> 0 then 6 / 10 else c)
     in if txt = [] then ret_a ''fallback''
        else case en_nlu env of
          None \<Rightarrow> ret_a ''fallback''
        | Some classify \<Rightarrow> (case classify txt of
            None \<Rightarrow> ret_a ''fallback''
          | Some (intent, confidence) \<Rightarrow>
              if confidence < min_conf then ret_a ''fallback''
              else seq_a (set_vars [(''nlu_intent'', intent), (''nlu_confidence'', format_confidence confidence)])
                (ret_a (if map_of (n_Exits n) intent \<noteq> None then intent else ''default''))))"

definition QueuePositionHandler :: "ivr_env \<Rightarrow> handler" where
  "QueuePositionHandler env s n =
     (let position = (\<lambda>depth wait. set_vars [(''queue_position'', itoa depth), (''est_wait_sec'', itoa wait)]);
          sg = parse_value (case n_Config n of CQueue g \<Rightarrow> g | _ \<Rightarrow> []);
          aht = (if en_aht env \<le> 0 then 180 else en_aht env)
      in if n_Config n = CMalformed then ret_a ''error''
         else case en_queue env of
           None \<Rightarrow> seq_a (position 0 0) (ret_a ''default'')
         | Some queue_len \<Rightarrow>
             if sg = 0 then seq_a (position 0 0) (ret_a ''default'')
             else (case queue_len sg of
                 None \<Rightarrow> seq_a (position 0 0) (ret_a ''error'')
               | Some depth \<Rightarrow> seq_a (position depth (depth * aht))
                   (ret_a (if depth = 0 then ''empty'' else ''default''))))"

definition SentimentGateHandler :: "ivr_env \<Rightarrow> handler" where
  "SentimentGateHandler env s n = with_state (\<lambda>st.
     let c = (case n_Config n of CSentiment c \<Rightarrow> c | _ \<Rightarrow> \<lparr>se_NegativeThreshold = 0, se_SourceVar = []\<rparr>);
         threshold = (if se_NegativeThreshold c = 0 then - (1 / 2) else se_NegativeThreshold c);
         txt = var (or_else (se_SourceVar c) ''last_utterance'') st
     in if n_Config n = CMalformed then ret_a ''error''
        else if txt = [] then seq_a (set_var ''sentiment_score'' ''0'') (ret_a ''neutral'')
        else case en_sentiment env of
          None \<Rightarrow> seq_a (set_var ''sentiment_score'' ''0'') (ret_a ''neutral'')
        | Some analyze \<Rightarrow> (case analyze txt of
            None \<Rightarrow> seq_a (set_var ''sentiment_score'' ''0'') (ret_a ''error'')
          | Some score \<Rightarrow> seq_a (set_var ''sentiment_score'' (FormatFloat2 score))
              (ret_a (if score \<le> threshold then ''negative''
                      else if - threshold \<le> score then ''positive'' else ''neutral''))))"

definition CustomerLookupHandler :: "ivr_env \<Rightarrow> handler" where
  "CustomerLookupHandler env s n = with_state (\<lambda>st.
     let phone = var ''caller_number'' st
     in case en_crm env of
          None \<Rightarrow> seq_a (set_var ''customer_level'' ''unknown'') (ret_a ''default'')
        | Some lookup \<Rightarrow>
            if phone = [] then seq_a (set_var ''customer_level'' ''unknown'') (ret_a ''default'')
            else (case lookup (se_TenantID s) phone of
                None \<Rightarrow> seq_a (set_var ''customer_level'' ''unknown'') (ret_a ''not_found'')
              | Some (name, level) \<Rightarrow> seq_a (set_vars [(''customer_name'', name), (''customer_level'', level)])
                  (ret_a (if level = ''svip'' then ''svip'' else if level = ''vip'' then ''vip'' else ''default''))))"

section \<open>The engine\<close>

text \<open>A registered handler; the \<open>SubFlow\<close> handler holds the engine itself.\<close>

datatype registered = Plain handler | SubFlow

type_synonym ivr_engine = "string \<rightharpoonup> registered"

definition RegisterHandler :: "string \<Rightarrow> registered \<Rightarrow> ivr_engine \<Rightarrow> ivr_engine" where
  "RegisterHandler ty h e = e(ty \<mapsto> h)"

definition default_handlers :: "ivr_env \<Rightarrow> (string \<times> registered) list" where
  "default_handlers env =
     [(NodeStart, Plain StartHandler), (NodePlay, Plain PlayHandler), (NodeCollectDTMF, Plain CollectDTMFHandler),
      (NodeBranch, Plain BranchHandler), (NodeSetVariable, Plain SetVariableHandler),
      (NodeHangupReason, Plain HangupReasonHandler), (NodeEnd, Plain EndHandler),
      (NodeFunction, Plain (FunctionHandler env)), (NodeHTTPRequest, Plain (HTTPRequestHandler env)),
      (NodeJSONParser, Plain (JSONParserHandler env)), (NodeSMS, Plain (SMSHandler env)),
      (NodeSatisfactionRating, Plain SatisfactionRatingHandler), (NodeASR, Plain (ASRHandler env)),
      (NodeVoicemail, Plain VoicemailHandler), (NodeTransferToAgent, Plain (TransferToAgentHandler env)),
      (NodeTransferToExternal, Plain TransferToExternalHandler), (NodeBlindTransfer, Plain BlindTransferHandler),
      (NodeSubFlow, SubFlow), (NodeDigitalEmployee, Plain DigitalEmployeeHandler), (NodeCallback, Plain CallbackHandler),
      (NodeNLU, Plain (NLUHandler env)), (NodeQueuePosition, Plain (QueuePositionHandler env)),
      (NodeSentimentGate, Plain (SentimentGateHandler env)), (NodeCustomerLookup, Plain (CustomerLookupHandler env))]"

definition DefaultEngine :: "ivr_env \<Rightarrow> ivr_engine" where
  "DefaultEngine env = fold (\<lambda>(ty, h). RegisterHandler ty h) (default_handlers env) Map.empty"

text \<open>The node map and the start node: of equal identifiers, and of start nodes, the last one counts.\<close>

definition node_map :: "ivr_graph \<Rightarrow> string \<rightharpoonup> ivr_node" where
  "node_map g = map_of (rev (map (\<lambda>n. (n_ID n, n)) (g_Nodes g)))"

definition start_node :: "ivr_graph \<Rightarrow> ivr_node option" where
  "start_node g = find (\<lambda>n. n_Type n = NodeStart) (rev (g_Nodes g))"

definition next_node :: "ivr_graph \<Rightarrow> ivr_node \<Rightarrow> string \<Rightarrow> ivr_error + ivr_node" where
  "next_node g n exit =
     (case (case map_of (n_Exits n) exit of Some t \<Rightarrow> Some t | None \<Rightarrow> map_of (n_Exits n) ''default'') of
        None \<Rightarrow> Inl (IvrNoExit (n_ID n) exit)
      | Some t \<Rightarrow> (case node_map g t of None \<Rightarrow> Inl (IvrNoTarget (n_ID n) t) | Some m \<Rightarrow> Inr m))"

definition visit_node :: "ivr_node \<Rightarrow> string \<Rightarrow> ivr_state \<Rightarrow> ivr_state" where
  "visit_node n exit st = st\<lparr>st_history := st_history st @
     [\<lparr>nv_NodeID = n_ID n, nv_NodeType = n_Type n, nv_ExitName = exit\<rparr>]\<rparr>"

text \<open>
  The two halves of \<open>SubFlowHandler.Handle\<close> around \<open>Execute\<close>: what it does first, ending at once with
  an exit or going into the graph of the flow, and what it takes over from the session of the sub-flow.
\<close>

definition subflow_of :: "ivr_node \<Rightarrow> subflow_config" where
  "subflow_of n = (case n_Config n of CSubFlow c \<Rightarrow> c | _ \<Rightarrow> \<lparr>sf_FlowID = [], sf_InputVars = [], sf_OutputVars = []\<rparr>)"

definition subflow_input :: "ivr_env \<Rightarrow> subflow_config \<Rightarrow> ivr_state \<Rightarrow> ivr_state" where
  "subflow_input env c st = setv ''subflow_id'' (sf_FlowID c)
     (fold (\<lambda>(k, v) st. setv (''subflow_'' @ k) (interp env v st) st) (sf_InputVars c) st)"

definition subflow_target :: "ivr_env \<Rightarrow> subflow_config \<Rightarrow> string + (int \<times> ivr_graph)" where
  "subflow_target env c =
     (case en_loader env of
        None \<Rightarrow> Inl ''default''
      | Some load \<Rightarrow> (case parse_int64 (sf_FlowID c) of
          None \<Rightarrow> Inl ''error''
        | Some k \<Rightarrow> (case load k of None \<Rightarrow> Inl ''error'' | Some g \<Rightarrow> Inr (k, g))))"

definition subflow_enter :: "ivr_state \<Rightarrow> ivr_state" where
  "subflow_enter st = st\<lparr>st_history := []\<rparr>"

definition subflow_leave :: "subflow_config \<Rightarrow> ivr_state \<Rightarrow> (ivr_error + unit) \<times> ivr_state \<Rightarrow> string \<times> ivr_state" where
  "subflow_leave c st out =
     (let outer = (snd out)\<lparr>st_vars := st_vars st, st_history := st_history st\<rparr>
      in case fst out of
           Inl _ \<Rightarrow> (''error'', outer)
         | Inr _ \<Rightarrow> (''default'', fold (\<lambda>k s. case map_of (st_vars (snd out)) k of None \<Rightarrow> s | Some v \<Rightarrow> setv k v s)
                                  (sf_OutputVars c) outer))"

definition maxSteps :: nat where "maxSteps = 1000"

text \<open>
  The loop of \<open>Execute\<close> at a node. It is bounded by 1000 steps, but a \<open>SubFlow\<close> node starts another
  loop, and nothing bounds how deep: \<open>None\<close> means that the run does not return.
\<close>

partial_function (option) ivr_loop ::
  "ivr_env \<Rightarrow> ivr_engine \<Rightarrow> session \<Rightarrow> ivr_graph \<Rightarrow> nat \<Rightarrow> ivr_node \<Rightarrow> ivr_state \<Rightarrow>
     ((ivr_error + unit) \<times> ivr_state) option" where
  "ivr_loop env eng s g step n st =
     (if maxSteps \<le> step then Some (Inl IvrTooManySteps, st)
      else if n_Type n = NodeEnd then Some (Inr (), visit_node n [] st)
      else case eng (n_Type n) of
        None \<Rightarrow> Some (Inl (IvrNoHandler (n_Type n)), st)
      | Some h \<Rightarrow>
          Option.bind
            (case h of
               Plain handle \<Rightarrow> Some (handle s n st)
             | SubFlow \<Rightarrow>
                 (let c = subflow_of n; st1 = subflow_input env c st
                  in case subflow_target env c of
                       Inl exit \<Rightarrow> Some (Inr exit, st1)
                     | Inr (k, sub) \<Rightarrow> (case start_node sub of
                         None \<Rightarrow> Some (Inr ''error'', st1)
                       | Some start \<Rightarrow>
                           Option.bind (ivr_loop env eng (s\<lparr>se_FlowID := k\<rparr>) sub 0 start (subflow_enter st1))
                             (\<lambda>out. Some (apfst Inr (subflow_leave c st1 out))))))
            (\<lambda>out. case out of
               (Inl e, st') \<Rightarrow> Some (Inl e, st')
             | (Inr exit, st') \<Rightarrow> (case next_node g n exit of
                 Inl e \<Rightarrow> Some (Inl e, visit_node n exit st')
               | Inr m \<Rightarrow> ivr_loop env eng s g (Suc step) m (visit_node n exit st'))))"

definition Execute ::
  "ivr_env \<Rightarrow> ivr_engine \<Rightarrow> session \<Rightarrow> ivr_graph \<Rightarrow> ivr_state \<Rightarrow> ((ivr_error + unit) \<times> ivr_state) option" where
  "Execute env eng s g st =
     (case start_node g of None \<Rightarrow> Some (Inl IvrNoStart, st) | Some n \<Rightarrow> ivr_loop env eng s g 0 n st)"

definition ExecuteFlow ::
  "ivr_env \<Rightarrow> ivr_engine \<Rightarrow> session \<Rightarrow> int \<Rightarrow> ivr_state \<Rightarrow> ((ivr_error + unit) \<times> ivr_state) option" where
  "ExecuteFlow env eng s flowID st =
     (case en_loader env of
        None \<Rightarrow> Some (Inl IvrNoLoader, st)
      | Some load \<Rightarrow> (case load flowID of
          None \<Rightarrow> Some (Inl IvrLoad, st) | Some g \<Rightarrow> Execute env eng s g st))"

definition NewSession :: "int \<Rightarrow> int \<Rightarrow> int \<Rightarrow> string \<Rightarrow> bool \<Rightarrow> session" where
  "NewSession callID tenantID flowID callUUID esl =
     \<lparr>se_CallID = callID, se_TenantID = tenantID, se_FlowID = flowID, se_CallUUID = callUUID, se_ESL = esl\<rparr>"

definition session_vars :: "(string \<times> string) list \<Rightarrow> (string + string) list \<Rightarrow> ivr_state" where
  "session_vars sysVars replies = \<lparr>st_vars = sysVars, st_history = [], st_trace = [], st_replies = replies\<rparr>"

end
