(* ===== verification/Lifecycle.thy ===== *)
theory Lifecycle
  imports CallProps Presence CampaignProps IVRRun
begin

text \<open>
  The orchestration of a call's life: \<open>internal/application/lifecycle/service.go\<close> and
  \<open>esl_events.go\<close>, over the models of the call service, the agents' presence and the campaigns, with
  the tenant concurrency counter of \<open>internal/infrastructure/redis/concurrency.go\<close>. What it sends
  to the outside (FreeSWITCH, the agents' sockets, webhooks, the event bus, quality inspection,
  surveys, tickets) is recorded in the world as it is issued; the code drops the replies.
\<close>

section \<open>World and wiring\<close>

record recording =
  r_ID :: int
  r_TenantID :: int
  r_CallID :: int
  r_AgentUserID :: "int option"
  r_FileName :: string
  r_FilePath :: string
  r_DurationSec :: int
  r_EncryptionAlgo :: string
  r_EncryptionKeyID :: string
  r_CreatedAt :: gotime

record queue_snapshot =
  q_ID :: int
  q_TenantID :: int
  q_SkillGroupID :: int
  q_WaitingCount :: int
  q_SnapshotAt :: gotime

datatype esl_cmd =
    EslHangup string
  | EslAnnounce string string
  | EslRecord string string

text \<open>Messages to the agents, the webhooks and the bus, and the effects of the post-call hooks.\<close>

datatype outgoing =
    NotifyAgent int string int
  | DeliverWebhook string int
  | PublishEvent string int
  | TriggerSurvey int int
  | RecordInteraction int string
  | RememberAgent int string int int
  | AutoInspect int int
  | AutoTicket int string int

record lc_world =
  lw_call :: "(call table) call_world"
  lw_presence :: presence_world
  lw_campaign :: campaign_world
  lw_recordings :: "recording journal"
  lw_snapshots :: "queue_snapshot journal"
  lw_slots :: "int \<Rightarrow> int"
  lw_repeats :: "int \<times> string \<Rightarrow> int"
  lw_redis :: "bool list"
  lw_esl :: "esl_cmd list"
  lw_sent :: "outgoing list"
  lw_hooks :: "(call \<times> bool) list"
  lw_ivr :: "ivr_effect list"

datatype lc_error = LcCall call_error | LcTooManyCalls int | LcPresence presence_error | LcNoReturn

type_synonym 'a lact = "(lc_world, lc_error, 'a) act"

text \<open>
  The optional collaborators, wired or nil. \<open>lc_customer\<close> is \<open>FindByPhone\<close> of the CRM; \<open>lc_ivr\<close> is the
  IVR engine: what it finds around it when it runs the flow of a call, what FreeSWITCH answers to it, and the texts of its errors.
\<close>

record lc_config =
  lc_calls :: "(call table) call_svc"
  lc_presence :: "presence_svc option"
  lc_columns :: schedule_columns
  lc_esl :: bool
  lc_recording :: bool
  lc_encryption :: "string option"
  lc_snapshots :: bool
  lc_notifier :: bool
  lc_webhook :: bool
  lc_publisher :: bool
  lc_campaign :: bool
  lc_csat :: bool
  lc_customer :: "(int \<Rightarrow> string \<Rightarrow> int option) option"
  lc_familiar :: "(int \<Rightarrow> int) option"
  lc_qa :: bool
  lc_repeatThreshold :: "int option"
  lc_concurrency :: "(int \<Rightarrow> int) option"
  lc_announce :: "int \<Rightarrow> bool"
  lc_ivr :: "(call \<Rightarrow> ivr_env \<times> (string + string) list \<times> (ivr_error \<Rightarrow> string)) option"

definition on_call :: "((call table) call_world, call_error, 'a) act \<Rightarrow> 'a lact" where
  "on_call m = wrap_a LcCall (zoom_a lw_call (\<lambda>c w. w\<lparr>lw_call := c\<rparr>) m)"

definition on_agents :: "'a pact \<Rightarrow> 'a lact" where
  "on_agents m = wrap_a LcPresence (zoom_a lw_presence (\<lambda>p w. w\<lparr>lw_presence := p\<rparr>) m)"

definition send :: "bool \<Rightarrow> outgoing \<Rightarrow> unit lact" where
  "send wired msg = modify_a (\<lambda>w. if wired then w\<lparr>lw_sent := lw_sent w @ [msg]\<rparr> else w)"

definition esl_send :: "bool \<Rightarrow> esl_cmd \<Rightarrow> unit lact" where
  "esl_send wired cmd = modify_a (\<lambda>w. if wired then w\<lparr>lw_esl := lw_esl w @ [cmd]\<rparr> else w)"

section \<open>The concurrency counter\<close>

text \<open>
  \<open>INCR\<close> and \<open>DECR\<close> on the tenant's key. The script tells which of the next commands fail; the code
  does not look at the result of a \<open>DECR\<close>.
\<close>

definition redis_add :: "int \<Rightarrow> int \<Rightarrow> (lc_world, string, int) act" where
  "redis_add t d w =
     (case lw_redis w of
        True # rest \<Rightarrow> (Inl ''redis: connection lost'', w\<lparr>lw_redis := rest\<rparr>)
      | rs \<Rightarrow> (Inr (lw_slots w t + d), w\<lparr>lw_slots := (lw_slots w)(t := lw_slots w t + d), lw_redis := tl rs\<rparr>))"

definition Acquire :: "int \<Rightarrow> int \<Rightarrow> (lc_world, string, bool) act" where
  "Acquire t maxConcurrent =
     bind_a (redis_add t 1) (\<lambda>val.
     if 0 < maxConcurrent \<and> maxConcurrent < val then seq_a (ignore_a (redis_add t (- 1))) (ret_a False)
     else ret_a True)"

definition Release :: "int \<Rightarrow> unit lact" where
  "Release t = ignore_a (redis_add t (- 1))"

definition checkConcurrencyLimit :: "lc_config \<Rightarrow> int \<Rightarrow> unit lact" where
  "checkConcurrencyLimit cf t =
     (case lc_concurrency cf of
        None \<Rightarrow> ret_a ()
      | Some limit_of \<Rightarrow>
          if limit_of t \<le> 0 then ret_a ()
          else try_a (Acquire t (limit_of t))
            (\<lambda>r. case r of Inr False \<Rightarrow> throw_a (LcTooManyCalls t) | _ \<Rightarrow> ret_a ()))"

section \<open>Ending a call\<close>

definition recording_path :: "call \<Rightarrow> string" where
  "recording_path c = ''/recordings/'' @ itoa (c_TenantID c) @ ''/'' @ itoa (c_ID c) @ ''.wav''"

definition save_recording :: "lc_config \<Rightarrow> gotime \<Rightarrow> int \<Rightarrow> call \<Rightarrow> call lact" where
  "save_recording cf now nid c =
     (case c_AnsweredAt c of
        Some answered \<Rightarrow>
          if lc_recording cf \<and> c_ChannelUUID c \<noteq> [] then
            let rec = \<lparr>r_ID = nid, r_TenantID = c_TenantID c, r_CallID = c_ID c, r_AgentUserID = c_AgentUserID c,
                       r_FileName = itoa (c_ID c) @ ''.wav'', r_FilePath = recording_path c,
                       r_DurationSec = (case c_EndedAt c of None \<Rightarrow> 0 | Some e \<Rightarrow> dur_secs (time_sub e answered)),
                       r_EncryptionAlgo = (if lc_encryption cf = None then [] else ''AES-256-GCM''),
                       r_EncryptionKeyID = (case lc_encryption cf of None \<Rightarrow> [] | Some k \<Rightarrow> k),
                       r_CreatedAt = now\<rparr>;
                c' = c\<lparr>c_RecordingURL := Some (recording_path c)\<rparr>
            in seq_a (ignore_a (zoom_a lw_recordings (\<lambda>j w. w\<lparr>lw_recordings := j\<rparr>) (journal_add rec)))
               (seq_a (ignore_a (on_call (UpdateDurations (lc_calls cf) c'))) (ret_a c'))
          else ret_a c
      | None \<Rightarrow> ret_a c)"

definition count_durations :: "lc_config \<Rightarrow> int \<Rightarrow> call \<Rightarrow> call lact" where
  "count_durations cf k c w =
     (let events = ListEvents k (lw_call w)
      in if events \<noteq> [] then
           let c' = CalculateDurations c events
           in seq_a (ignore_a (on_call (UpdateDurations (lc_calls cf) c'))) (ret_a c') w
         else (Inr c, w))"

definition agent_to_acw :: "lc_config \<Rightarrow> (nat \<Rightarrow> gotime) \<Rightarrow> (nat \<Rightarrow> int) \<Rightarrow> call \<Rightarrow> unit lact" where
  "agent_to_acw cf now ids c =
     (case (lc_presence cf, c_AgentUserID c) of
        (Some P, Some agent) \<Rightarrow> ignore_a (on_agents (SetACW P now ids agent []))
      | _ \<Rightarrow> ret_a ())"

definition notify_agent :: "lc_config \<Rightarrow> string \<Rightarrow> call \<Rightarrow> unit lact" where
  "notify_agent cf event c =
     (case c_AgentUserID c of None \<Rightarrow> ret_a () | Some a \<Rightarrow> send (lc_notifier cf) (NotifyAgent a event (c_ID c)))"

text \<open>\<open>go func() { s.postCallHooksAsync(c) }()\<close>: the goroutine waits to be scheduled.\<close>

definition spawn_hooks :: "call \<Rightarrow> unit lact" where
  "spawn_hooks c = modify_a (\<lambda>w. w\<lparr>lw_hooks := lw_hooks w @ [(c, False)]\<rparr>)"

definition EndCall_lc ::
  "lc_config \<Rightarrow> (nat \<Rightarrow> gotime) \<Rightarrow> (nat \<Rightarrow> int) \<Rightarrow> int \<Rightarrow> HangupReason \<Rightarrow> HangupBy option \<Rightarrow> call lact" where
  "EndCall_lc cf now ids k reason hby =
     bind_a (on_call (EndCall (lc_calls cf) (now 0) (ids 0) k reason hby)) (\<lambda>c.
     seq_a (esl_send (lc_esl cf \<and> c_ChannelUUID c \<noteq> []) (EslHangup (c_ChannelUUID c)))
     (bind_a (save_recording cf (now 1) (ids 1) c) (\<lambda>c1.
     bind_a (count_durations cf k c1) (\<lambda>c2.
     seq_a (agent_to_acw cf (\<lambda>i. now (i + 2)) (\<lambda>i. ids (i + 2)) c2)
     (seq_a (notify_agent cf ''call.ended'' c2)
     (seq_a (spawn_hooks c2)
     (seq_a (when_a (lc_concurrency cf \<noteq> None) (Release (c_TenantID c2)))
     (seq_a (send (lc_publisher cf) (PublishEvent ''ccc.call.ended'' (c_ID c2)))
     (ret_a c2)))))))))"

section \<open>Answering, queueing, ringing\<close>

definition AnswerCall_lc ::
  "lc_config \<Rightarrow> (nat \<Rightarrow> gotime) \<Rightarrow> (nat \<Rightarrow> int) \<Rightarrow> int \<Rightarrow> int \<Rightarrow> call lact" where
  "AnswerCall_lc cf now ids k agentUserID =
     bind_a (on_call (AnswerCall (lc_calls cf) (now 0) (ids 0) k agentUserID)) (\<lambda>c.
     seq_a (case lc_presence cf of
              None \<Rightarrow> ret_a ()
            | Some P \<Rightarrow> ignore_a (on_agents
                (TransitionTo P (\<lambda>i. now (i + 1)) (\<lambda>i. ids (i + 1)) agentUserID PresenceTalking)))
     (seq_a (when_a (c_ChannelUUID c \<noteq> [])
        (seq_a (esl_send (lc_esl cf \<and> lc_announce cf (c_TenantID c))
                  (EslAnnounce (c_ChannelUUID c) ''ivr/recording_announce.wav''))
           (esl_send (lc_esl cf) (EslRecord (c_ChannelUUID c) (recording_path c)))))
     (seq_a (send (lc_notifier cf) (NotifyAgent agentUserID ''call.answered'' (c_ID c)))
     (seq_a (send (lc_webhook cf) (DeliverWebhook ''call.answered'' (c_ID c)))
     (seq_a (send (lc_publisher cf) (PublishEvent ''ccc.call.answered'' (c_ID c)))
     (ret_a c))))))"

definition TransitionCallToQueue ::
  "lc_config \<Rightarrow> (nat \<Rightarrow> gotime) \<Rightarrow> (nat \<Rightarrow> int) \<Rightarrow> int \<Rightarrow> int \<Rightarrow> call lact" where
  "TransitionCallToQueue cf now ids k skillGroupID =
     bind_a (on_call (TransitionToQueue (lc_calls cf) (now 0) (ids 0) k skillGroupID)) (\<lambda>c.
     seq_a (when_a (lc_snapshots cf) (ignore_a (zoom_a lw_snapshots (\<lambda>j w. w\<lparr>lw_snapshots := j\<rparr>)
        (journal_add \<lparr>q_ID = ids 1, q_TenantID = c_TenantID c, q_SkillGroupID = skillGroupID,
           q_WaitingCount = 1, q_SnapshotAt = now 1\<rparr>))))
     (seq_a (notify_agent cf ''call.queued'' c) (ret_a c)))"

definition TransitionCallToRinging ::
  "lc_config \<Rightarrow> (nat \<Rightarrow> gotime) \<Rightarrow> (nat \<Rightarrow> int) \<Rightarrow> int \<Rightarrow> int \<Rightarrow> call lact" where
  "TransitionCallToRinging cf now ids k agentUserID =
     bind_a (on_call (TransitionToRinging (lc_calls cf) (now 0) (ids 0) k agentUserID)) (\<lambda>c.
     seq_a (case lc_presence cf of
              None \<Rightarrow> ret_a ()
            | Some P \<Rightarrow> ignore_a (on_agents
                (TransitionTo P (\<lambda>i. now (i + 1)) (\<lambda>i. ids (i + 1)) agentUserID PresenceDialing)))
     (seq_a (send (lc_notifier cf) (NotifyAgent agentUserID ''call.ringing'' (c_ID c))) (ret_a c)))"

section \<open>Inbound calls\<close>

definition ivr_failed :: "gotime \<Rightarrow> call \<Rightarrow> int \<Rightarrow> string \<Rightarrow> ivr_tracking" where
  "ivr_failed now c flow err = \<lparr>t_ID = 0, t_CallID = c_ID c, t_TenantID = c_TenantID c, t_IVRFlowID = flow,
     t_NodeID = ''error'', t_NodeType = ''error'', t_NodeName = [], t_Variables = [], t_ExitName = err,
     t_StatusCode = 0, t_EnteredAt = now, t_ExitedAt = Some now\<rparr>"

text \<open>
  The flow of the call, run by the engine of \<open>IVRRun\<close>. The error of a run is only tracked. What the run sends (commands to FreeSWITCH,
  requests, the entry of a queue) is recorded in \<open>lw_ivr\<close>. A run that does not return (flows that lead back to themselves through
  \<open>SubFlow\<close> nodes) is the error \<open>LcNoReturn\<close>: the request is never answered, and nothing after the run happens.
\<close>

definition run_ivr :: "lc_config \<Rightarrow> gotime \<Rightarrow> int \<Rightarrow> call \<Rightarrow> unit lact" where
  "run_ivr cf now nid c =
     (case (lc_ivr cf, c_IVRFlowID c) of
        (Some ivr_of, Some flow) \<Rightarrow>
          (case ivr_of c of (env, answers, text_of) \<Rightarrow>
            (case ExecuteFlow env (DefaultEngine env) (NewSession (c_ID c) (c_TenantID c) flow (c_ChannelUUID c) (lc_esl cf)) flow
                (session_vars [(''caller_number'', c_Caller c), (''callee_number'', c_Callee c), (''call_id'', itoa (c_ID c))] answers) of
               None \<Rightarrow> throw_a LcNoReturn
             | Some (r, st) \<Rightarrow>
                 seq_a (modify_a (\<lambda>w. w\<lparr>lw_ivr := lw_ivr w @ st_trace st\<rparr>))
                   (case r of
                      Inl err \<Rightarrow> ignore_a (on_call (RecordIVRTracking nid (ivr_failed now c flow (text_of err))))
                    | Inr _ \<Rightarrow> ret_a ())))
      | _ \<Rightarrow> ret_a ())"

definition HandleInboundCall ::
  "lc_config \<Rightarrow> (nat \<Rightarrow> gotime) \<Rightarrow> (nat \<Rightarrow> int) \<Rightarrow> create_call_input \<Rightarrow> call lact" where
  "HandleInboundCall cf now ids inp =
     seq_a (checkConcurrencyLimit cf (in_TenantID inp))
     (bind_a (on_call (CreateInboundCall (lc_calls cf) (now 0) (ids 0) (ids 1) inp)) (\<lambda>c.
     seq_a (run_ivr cf (now 1) (ids 2) c)
     (seq_a (send (lc_webhook cf) (DeliverWebhook ''call.created'' (c_ID c)))
     (seq_a (send (lc_publisher cf) (PublishEvent ''ccc.call.created'' (c_ID c)))
     (ret_a c)))))"

section \<open>After the call\<close>

text \<open>
  \<open>postCallHooksAsync\<close>, the body of the goroutine. \<open>today\<close> numbers the calls of a caller in the
  repeat-call counter; the campaign write-back and the customer link go to the services.
\<close>

definition link_customer :: "lc_config \<Rightarrow> call \<Rightarrow> call lact" where
  "link_customer cf c =
     (case (lc_customer cf, c_AgentUserID c) of
        (Some find_by_phone, Some agent) \<Rightarrow>
          (let phone = (if c_Direction c = DirectionOutbound then c_Callee c else c_Caller c)
           in case find_by_phone (c_TenantID c) phone of
                None \<Rightarrow> ret_a c
              | Some customer \<Rightarrow>
                  (let c' = (if c_CustomerID c = None then c\<lparr>c_CustomerID := Some customer\<rparr> else c)
                   in seq_a (when_a (c_CustomerID c = None)
                          (ignore_a (on_call (UpdateCustomerID (lc_calls cf) (c_ID c) customer))))
                      (seq_a (send True (RecordInteraction customer (c_Direction c))) (ret_a c'))))
      | _ \<Rightarrow> ret_a c)"

definition write_back_case :: "lc_config \<Rightarrow> (nat \<Rightarrow> gotime) \<Rightarrow> call \<Rightarrow> unit lact" where
  "write_back_case cf now c =
     (case c_CampaignCaseID c of
        None \<Rightarrow> ret_a ()
      | Some k \<Rightarrow>
          when_a (lc_campaign cf) (modify_a (\<lambda>w. w\<lparr>lw_campaign :=
            (case c_AnsweredAt c of
               Some answered \<Rightarrow>
                 snd (MarkCaseCompleted (lc_columns cf) (now 0) k ''completed''
                   (case c_EndedAt c of None \<Rightarrow> 0 | Some e \<Rightarrow> dur_secs (time_sub e answered)) (lw_campaign w))
             | None \<Rightarrow> snd (MarkCaseFailed (lc_columns cf) now k (lw_campaign w)))\<rparr>)))"

definition remember_agent :: "lc_config \<Rightarrow> call \<Rightarrow> unit lact" where
  "remember_agent cf c =
     (case (lc_familiar cf, c_AgentUserID c) of
        (Some days_of, Some agent) \<Rightarrow>
          send (c_Direction c = DirectionInbound \<and> c_Caller c \<noteq> [])
            (RememberAgent (c_TenantID c) (c_Caller c) agent
               (if days_of (c_TenantID c) > 0 then days_of (c_TenantID c) else 30))
      | _ \<Rightarrow> ret_a ())"

text \<open>\<open>INCR\<close> on the counter of the caller's calls of the day; the first one sets the expiry of the key, whose result the code drops.\<close>

definition IncrAndGet :: "int \<Rightarrow> string \<Rightarrow> (lc_world, string, int) act" where
  "IncrAndGet t caller w =
     (case lw_redis w of
        True # rest \<Rightarrow> (Inl ''redis: connection lost'', w\<lparr>lw_redis := rest\<rparr>)
      | rs \<Rightarrow>
          (let n = lw_repeats w (t, caller) + 1
           in (Inr n, w\<lparr>lw_repeats := (lw_repeats w)((t, caller) := n), lw_redis := (if n = 1 then tl (tl rs) else tl rs)\<rparr>)))"

definition escalate_repeats :: "lc_config \<Rightarrow> call \<Rightarrow> unit lact" where
  "escalate_repeats cf c =
     (case lc_repeatThreshold cf of
        None \<Rightarrow> ret_a ()
      | Some threshold \<Rightarrow>
          when_a (c_Direction c = DirectionInbound \<and> c_Caller c \<noteq> [])
            (try_a (IncrAndGet (c_TenantID c) (c_Caller c)) (\<lambda>r. case r of
               Inl _ \<Rightarrow> ret_a ()
             | Inr n \<Rightarrow> send (0 < threshold \<and> threshold \<le> n) (AutoTicket (c_TenantID c) (c_Caller c) (c_ID c)))))"

definition postCallHooksAsync :: "lc_config \<Rightarrow> (nat \<Rightarrow> gotime) \<Rightarrow> call \<Rightarrow> unit lact" where
  "postCallHooksAsync cf now c =
     seq_a (send (lc_csat cf) (TriggerSurvey (c_TenantID c) (c_ID c)))
     (seq_a (send (lc_webhook cf) (DeliverWebhook ''call.ended'' (c_ID c)))
     (bind_a (link_customer cf c) (\<lambda>c1.
     seq_a (write_back_case cf now c1)
     (seq_a (remember_agent cf c1)
     (seq_a (send (lc_qa cf \<and> c_AnsweredAt c1 \<noteq> None) (AutoInspect (c_TenantID c1) (c_ID c1)))
     (escalate_repeats cf c1))))))"

section \<open>Events of the switch\<close>

record esl_event =
  ev_Name :: string
  ev_ChannelUUID :: string
  ev_HangupCause :: string
  ev_Disposition :: string

definition mapHangupCause :: "string \<Rightarrow> HangupReason" where
  "mapHangupCause cause =
     (let u = strings_ToUpper cause
      in if u = ''NORMAL_CLEARING'' then HangupNormal
         else if u = ''USER_BUSY'' then HangupBusy
         else if u = ''NO_ANSWER'' \<or> u = ''NO_USER_RESPONSE'' then HangupNoAnswer
         else if u = ''CALL_REJECTED'' then HangupReject
         else if u = ''ORIGINATOR_CANCEL'' \<or> u = ''RECOVERY_ON_TIMER_EXPIRE'' then HangupAbandon
         else if u = ''EXCHANGE_ROUTING_ERROR'' \<or> u = ''DESTINATION_OUT_OF_ORDER'' then HangupSystemError
         else HangupNormal)"

definition inferHangupBy :: "esl_event \<Rightarrow> call \<Rightarrow> HangupBy" where
  "inferHangupBy ev c =
     (let cause = strings_ToUpper (ev_HangupCause ev);
          inbound = (c_Direction c = DirectionInbound)
      in if cause = ''ORIGINATOR_CANCEL'' then (if inbound then HangupByCustomer else HangupByAgent)
         else if cause = ''NORMAL_CLEARING'' then
           (let disposition = strings_ToLower (ev_Disposition ev)
            in if disposition = ''send_bye'' then (if inbound then HangupByAgent else HangupByCustomer)
               else if disposition = ''recv_bye'' then (if inbound then HangupByCustomer else HangupByAgent)
               else HangupByCustomer)
         else HangupBySystem)"

text \<open>
  \<open>SELECT * FROM calls WHERE channel_uuid = ? LIMIT 1\<close>: \<open>hit\<close> is the key of the row the database
  comes upon first; it counts when that row has the channel.
\<close>

definition FindByChannelUUID :: "int option \<Rightarrow> string \<Rightarrow> call option lact" where
  "FindByChannelUUID hit uuid = on_call (wrap_a ErrStore (on_calls (with_link (\<lambda>t.
     (Inr (case hit of
             None \<Rightarrow> None
           | Some k \<Rightarrow> (case rows t k of
               None \<Rightarrow> None | Some c \<Rightarrow> if c_ChannelUUID c = uuid then Some c else None)), t)))))"

definition HandleESLEvent ::
  "lc_config \<Rightarrow> (nat \<Rightarrow> gotime) \<Rightarrow> (nat \<Rightarrow> int) \<Rightarrow> int option \<Rightarrow> esl_event \<Rightarrow> unit lact" where
  "HandleESLEvent cf now ids hit ev =
     (if ev_ChannelUUID ev = [] then ret_a ()
      else try_a (FindByChannelUUID hit (ev_ChannelUUID ev)) (\<lambda>r. case r of
        Inr (Some c) \<Rightarrow>
          if ev_Name ev = ''CHANNEL_ANSWER'' then
            (case (c_AnsweredAt c, c_AgentUserID c) of
               (None, Some agent) \<Rightarrow> ignore_a (AnswerCall_lc cf now ids (c_ID c) agent)
             | _ \<Rightarrow> ret_a ())
          else if ev_Name ev = ''CHANNEL_BRIDGE'' then
            when_a (c_Status c = CallStatusRinging \<or> c_Status c = CallStatusQueue)
              (ignore_a (on_call (TransitionToActive (lc_calls cf) (now 0) (ids 0) (c_ID c))))
          else if ev_Name ev = ''CHANNEL_PARK'' then
            (case c_SkillGroupID c of
               Some sg \<Rightarrow> when_a (c_Status c = CallStatusIVR) (ignore_a (TransitionCallToQueue cf now ids (c_ID c) sg))
             | None \<Rightarrow> ret_a ())
          else if ev_Name ev = ''CHANNEL_HANGUP'' \<or> ev_Name ev = ''CHANNEL_HANGUP_COMPLETE'' then
            when_a (c_Status c \<noteq> CallStatusCompleted)
              (ignore_a (EndCall_lc cf now ids (c_ID c) (mapHangupCause (ev_HangupCause ev)) (Some (inferHangupBy ev c))))
          else ret_a ()
      | _ \<Rightarrow> ret_a ()))"

section \<open>Requests\<close>

text \<open>
  What the handlers, the listener of the switch and the scheduler of goroutines ask for, in any
  order; \<open>LCall\<close> is an operation of the call service that does not go through the orchestration.
\<close>

datatype lc_request =
    LInbound create_call_input
  | LEnd int HangupReason "HangupBy option"
  | LAnswer int int
  | LQueue int int
  | LRinging int int
  | LSwitch "int option" esl_event
  | LHook nat
  | LCall call_op

fun lc_exec :: "lc_config \<Rightarrow> (nat \<Rightarrow> gotime) \<Rightarrow> (nat \<Rightarrow> int) \<Rightarrow> lc_request \<Rightarrow> unit lact" where
  "lc_exec cf now ids (LInbound inp) = drop_result (HandleInboundCall cf now ids inp)"
| "lc_exec cf now ids (LEnd k reason hby) = drop_result (EndCall_lc cf now ids k reason hby)"
| "lc_exec cf now ids (LAnswer k agent) = drop_result (AnswerCall_lc cf now ids k agent)"
| "lc_exec cf now ids (LQueue k sg) = drop_result (TransitionCallToQueue cf now ids k sg)"
| "lc_exec cf now ids (LRinging k agent) = drop_result (TransitionCallToRinging cf now ids k agent)"
| "lc_exec cf now ids (LSwitch hit ev) = HandleESLEvent cf now ids hit ev"
| "lc_exec cf now ids (LHook i) = (\<lambda>w.
     if i < length (lw_hooks w) \<and> \<not> snd (lw_hooks w ! i)
     then postCallHooksAsync cf now (fst (lw_hooks w ! i))
            (w\<lparr>lw_hooks := (lw_hooks w)[i := (fst (lw_hooks w ! i), True)]\<rparr>)
     else (Inr (), w))"
| "lc_exec cf now ids (LCall opn) = on_call (exec_op (lc_calls cf) (now 0) (ids 0) (ids 1) opn)"

primrec lc_run ::
  "lc_config \<Rightarrow> ((nat \<Rightarrow> gotime) \<times> (nat \<Rightarrow> int) \<times> lc_request) list \<Rightarrow> lc_world \<Rightarrow> lc_world" where
  "lc_run cf [] w = w"
| "lc_run cf (q # qs) w = lc_run cf qs (snd (lc_exec cf (fst q) (fst (snd q)) (snd (snd q)) w))"

end
