(* ===== verification/LifecycleProps.thy ===== *)
theory LifecycleProps
  imports Lifecycle
begin

text \<open>
  Properties of the orchestration: the post-call effects run at most once per call, what the
  events of the switch do, and what the concurrency counter counts.
\<close>

abbreviation lc_rows :: "lc_world \<Rightarrow> int \<rightharpoonup> call" where
  "lc_rows w \<equiv> rows (cw_calls (lw_call w))"

definition hooks_of :: "int \<Rightarrow> lc_world \<Rightarrow> nat" where
  "hooks_of k w = length (filter (\<lambda>h. c_ID (fst h) = k) (lw_hooks w))"

definition is_completed :: "(int \<rightharpoonup> call) \<Rightarrow> int \<Rightarrow> bool" where
  "is_completed T k \<longleftrightarrow> (\<exists>c. T k = Some c \<and> c_Status c = CallStatusCompleted)"

text \<open>The stored calls are well formed, and a call has hooks only when it is completed, and then once.\<close>

definition lc_ok :: "lc_world \<Rightarrow> bool" where
  "lc_ok w \<longleftrightarrow> call_table_ok (lc_rows w) \<and> (\<forall>k. hooks_of k w \<le> of_bool (is_completed (lc_rows w) k))"

definition lc_config_ok :: "lc_config \<Rightarrow> bool" where
  "lc_config_ok cf \<longleftrightarrow> (\<exists>tp. lc_calls cf = NewCallService CallRepo tp)"

lemma completed_persists:
  assumes "call_evolves T T'" "call_table_ok T" "is_completed T k"
  shows "is_completed T' k"
proof -
  from assms(3) obtain c where c: "T k = Some c" "c_Status c = CallStatusCompleted"
    by (auto simp: is_completed_def)
  from call_evolvesD(2) [OF assms(1,2) c(1)] obtain d where "T' k = Some d" "call_legal c d" by blast
  with c(2) show ?thesis by (auto simp: is_completed_def call_legal_def elim: call_step.cases)
qed

lemma lc_ok_evolves:
  assumes "lc_ok w" "call_evolves (lc_rows w) (lc_rows w')" "lw_hooks w' = lw_hooks w"
  shows "lc_ok w'"
  unfolding lc_ok_def
proof (intro conjI allI)
  from assms(1) have ok: "call_table_ok (lc_rows w)" by (simp add: lc_ok_def)
  show "call_table_ok (lc_rows w')" by (rule call_evolvesD(1) [OF assms(2) ok])
  fix k
  have "hooks_of k w' = hooks_of k w" by (simp add: hooks_of_def assms(3))
  also have "\<dots> \<le> of_bool (is_completed (lc_rows w) k)" using assms(1) by (simp add: lc_ok_def)
  also have "\<dots> \<le> of_bool (is_completed (lc_rows w') k)"
    using completed_persists [OF assms(2) ok, of k] by auto
  finally show "hooks_of k w' \<le> of_bool (is_completed (lc_rows w') k)" .
qed

lemma lc_ok_same:
  assumes "lc_ok w" "lc_rows w' = lc_rows w" "lw_hooks w' = lw_hooks w"
  shows "lc_ok w'"
  using assms(1) _ assms(3) by (rule lc_ok_evolves) (simp add: assms(2))

section \<open>Steps that keep the invariant\<close>

named_theorems lc_intros \<open>preservation of the invariant of the orchestration\<close>

lemma lc_on_call:
  assumes "moves (\<lambda>w. rows (cw_calls w)) call_evolves m"
  shows "inv_a lc_ok (on_call m) (\<lambda>_. True)"
  unfolding inv_a_def
proof (intro allI impI conjI)
  fix w r w' assume run: "on_call m w = (r, w')" and ok: "lc_ok w"
  from run have "lw_call w' = snd (m (lw_call w))" "lw_hooks w' = lw_hooks w"
    by (auto simp: on_call_def act_simps split: prod.splits sum.splits)
  with assms have "call_evolves (lc_rows w) (lc_rows w')" by (simp add: moves_def)
  with ok show "lc_ok w'" by (rule lc_ok_evolves) fact
qed simp

lemma lc_modify [lc_intros]:
  "(\<And>w. lc_rows (f w) = lc_rows w \<and> lw_hooks (f w) = lw_hooks w) \<Longrightarrow> inv_a lc_ok (modify_a f) (\<lambda>_. True)"
  by (rule inv_modify) (auto intro: lc_ok_same)

lemma lc_quiet:
  assumes "preserves (\<lambda>w. (lc_rows w, lw_hooks w)) m"
  shows "inv_a lc_ok m (\<lambda>_. True)"
  unfolding inv_a_def using preservesD [OF assms] by (auto intro: lc_ok_same)

lemma lc_sends [lc_intros]:
  "inv_a lc_ok (send b msg) (\<lambda>_. True)" "inv_a lc_ok (esl_send b cmd) (\<lambda>_. True)"
  "inv_a lc_ok (notify_agent cf ev c) (\<lambda>_. True)"
  by (auto simp: send_def esl_send_def notify_agent_def split: option.split intro!: lc_modify inv_ret)

lemma lc_redis: "preserves (\<lambda>w. (lc_rows w, lw_hooks w)) (redis_add t d)"
  by (auto simp: preserves_def redis_add_def split: list.split bool.split)

lemma lc_repeats: "preserves (\<lambda>w. (lc_rows w, lw_hooks w)) (IncrAndGet t caller)"
  by (auto simp: preserves_def IncrAndGet_def Let_def split: list.split bool.split)

lemma lc_counters [lc_intros]:
  "inv_a lc_ok (Release t) (\<lambda>_. True)" "inv_a lc_ok (checkConcurrencyLimit cf t) (\<lambda>_. True)"
proof -
  show "inv_a lc_ok (Release t) (\<lambda>_. True)"
    unfolding Release_def by (intro lc_quiet frame_intros lc_redis)
  have acquire: "preserves (\<lambda>w. (lc_rows w, lw_hooks w)) (Acquire t n)" for n
    unfolding Acquire_def by (intro frame_intros lc_redis)
  show "inv_a lc_ok (checkConcurrencyLimit cf t) (\<lambda>_. True)"
    unfolding checkConcurrencyLimit_def
    by (cases "lc_concurrency cf")
      (auto intro!: lc_quiet frame_intros acquire split: sum.split bool.split)
qed

lemma lc_agents [lc_intros]: "inv_a lc_ok (on_agents m) (\<lambda>_. True)"
  unfolding on_agents_def by (intro lc_quiet frame_intros preserves_zoom_other) simp

lemma lc_journals [lc_intros]:
  "inv_a lc_ok (zoom_a lw_recordings (\<lambda>j w. w\<lparr>lw_recordings := j\<rparr>) m) (\<lambda>_. True)"
  "inv_a lc_ok (zoom_a lw_snapshots (\<lambda>j w. w\<lparr>lw_snapshots := j\<rparr>) m') (\<lambda>_. True)"
  by (intro lc_quiet preserves_zoom_other; simp)+

lemmas call_moves = mysql_calls.op_moves

section \<open>The end of a call\<close>

definition agrees :: "call \<Rightarrow> call \<Rightarrow> bool" where
  "agrees r c \<longleftrightarrow> c_Status r = c_Status c \<and> c_EndedAt r = c_EndedAt c \<and> c_HangupReason r = c_HangupReason c \<and>
     c_HoldCount r = c_HoldCount c \<and> c_TransferCount r = c_TransferCount c \<and>
     c_AnsweredAt r = c_AnsweredAt c \<and> c_SkillGroupID r = c_SkillGroupID c \<and>
     c_ChannelUUID r = c_ChannelUUID c"

lemma agrees_trans: "agrees r c \<Longrightarrow> agrees c d \<Longrightarrow> agrees r d"
  by (simp add: agrees_def)

definition tracks :: "int \<Rightarrow> call \<Rightarrow> lc_world \<Rightarrow> bool" where
  "tracks k c w \<longleftrightarrow> c_ID c = k \<and> (\<exists>r. lc_rows w k = Some r \<and> agrees r c)"

lemma agrees_row:
  assumes "agrees r c"
  shows "agrees (CallRepo_update_row r c) r" "agrees (CallRepo_update_row r c) c"
    "c_ParentCallID (CallRepo_update_row r c) = c_ParentCallID r" "c_TenantID (CallRepo_update_row r c) = c_TenantID r"
    "c_StartedAt (CallRepo_update_row r c) = c_StartedAt r" "c_ID (CallRepo_update_row r c) = c_ID r"
  using assms by (simp_all add: agrees_def CallRepo_update_row_def)

lemma agrees_inv: "agrees r c \<Longrightarrow> c_ParentCallID r = c_ParentCallID c \<Longrightarrow> call_inv r = call_inv c"
  by (rule mysql_calls.call_inv_cong) (simp_all only: agrees_def)

lemma agrees_legal:
  assumes "agrees r c" "call_inv r"
  shows "call_inv (CallRepo_update_row r c)" "call_legal r (CallRepo_update_row r c)"
proof -
  note ag = agrees_row [OF assms(1)]
  show "call_inv (CallRepo_update_row r c)" using agrees_inv [OF ag(1,3)] assms(2) by simp
  from ag(1) show "call_legal r (CallRepo_update_row r c)"
    unfolding call_legal_def agrees_def by (simp add: ag(3-6))
qed

lemma update_tracks:
  assumes "lc_calls cf = NewCallService CallRepo tp" "lc_ok w" "tracks k c w" "agrees c c'" "c_ID c' = c_ID c"
    and "on_call (UpdateDurations (lc_calls cf) c') w = (r, w')"
  shows "lc_ok w'" and "tracks k c' w'" and "lw_hooks w' = lw_hooks w"
proof -
  from assms(3) obtain row where row: "c_ID c = k" "lc_rows w k = Some row" "agrees row c"
    by (auto simp: tracks_def)
  have ag: "agrees row c'" by (rule agrees_trans [OF row(3) assms(4)])
  from assms(2) row(2) have inv: "call_inv row" by (auto simp: lc_ok_def call_table_ok_def)
  have hooks: "lw_hooks w' = lw_hooks w" "lw_call w' = snd (UpdateDurations (lc_calls cf) c' (lw_call w))"
    using assms(6) by (auto simp: on_call_def act_simps split: prod.splits sum.splits)
  show "lw_hooks w' = lw_hooks w" by (fact hooks(1))
  have cases: "lc_rows w' = lc_rows w \<or> lc_rows w' = (lc_rows w)(k \<mapsto> CallRepo_update_row row c')"
    using row assms(5) unfolding hooks(2)
    by (auto simp: UpdateDurations_def save_call_def assms(1) NewCallService_def CallRepo_def on_calls_def
        act_simps sql_defs split: list.splits)
  have "call_evolves (lc_rows w) (lc_rows w')"
    using cases
  proof
    assume "lc_rows w' = (lc_rows w)(k \<mapsto> CallRepo_update_row row c')"
    moreover have "call_evolves (lc_rows w) ((lc_rows w)(k \<mapsto> CallRepo_update_row row c'))"
      by (rule call_evolves_update [where T = "lc_rows w", OF row(2)])
        (use agrees_legal [OF ag inv] agrees_row [OF ag] in simp_all)
    ultimately show ?thesis by simp
  qed simp
  from lc_ok_evolves [OF assms(2) this hooks(1)] show "lc_ok w'" .
  from cases row(1,2) assms(5) ag agrees_row(2) [OF ag] show "tracks k c' w'"
    by (auto simp: tracks_def)
qed

text \<open>What follows the end of a call up to the hooks keeps track of its row.\<close>

definition keeps_track :: "int \<Rightarrow> nat \<Rightarrow> lc_world \<times> call \<Rightarrow> bool" where
  "keeps_track k n wc \<longleftrightarrow> lc_ok (fst wc) \<and> tracks k (snd wc) (fst wc) \<and> hooks_of k (fst wc) = n"

lemma keeps_quiet:
  assumes "preserves (\<lambda>w. (lc_rows w, lw_hooks w)) m" "m w = (r, w')" "keeps_track k n (w, c)"
  shows "keeps_track k n (w', c)"
proof -
  from preservesD [OF assms(1,2)] have "lc_rows w' = lc_rows w" "lw_hooks w' = lw_hooks w" by auto
  with assms(3) show ?thesis by (auto simp: keeps_track_def tracks_def hooks_of_def intro: lc_ok_same)
qed

lemma quiet_parts:
  "preserves (\<lambda>w. (lc_rows w, lw_hooks w)) (send b msg)"
  "preserves (\<lambda>w. (lc_rows w, lw_hooks w)) (esl_send b cmd)"
  "preserves (\<lambda>w. (lc_rows w, lw_hooks w)) (notify_agent cf ev c)"
  "preserves (\<lambda>w. (lc_rows w, lw_hooks w)) (on_agents m)"
  "preserves (\<lambda>w. (lc_rows w, lw_hooks w)) (agent_to_acw cf now ids c)"
  "preserves (\<lambda>w. (lc_rows w, lw_hooks w)) (Release t)"
  "preserves (\<lambda>w. (lc_rows w, lw_hooks w)) (zoom_a lw_recordings (\<lambda>j w. w\<lparr>lw_recordings := j\<rparr>) mr)"
  by (auto simp: send_def esl_send_def notify_agent_def on_agents_def agent_to_acw_def Release_def
      split: option.split intro!: frame_intros preserves_zoom_other lc_redis)

lemma keeps_updated:
  assumes "lc_calls cf = NewCallService CallRepo tp" "keeps_track k n (w, c)" "agrees c c'" "c_ID c' = c_ID c"
    and "on_call (UpdateDurations (lc_calls cf) c') w = (r, w')"
  shows "keeps_track k n (w', c')"
  using update_tracks [OF assms(1) _ _ assms(3,4,5), of k] assms(2)
  by (auto simp: keeps_track_def hooks_of_def)

lemma keeps_recording:
  assumes "lc_calls cf = NewCallService CallRepo tp" "keeps_track k n (w, c)"
    and "save_recording cf now nid c w = (r, w')"
  shows "\<exists>c'. r = Inr c' \<and> agrees c c' \<and> keeps_track k n (w', c')"
proof (cases "(\<exists>t. c_AnsweredAt c = Some t) \<and> lc_recording cf \<and> c_ChannelUUID c \<noteq> []")
  case False
  with assms(2,3) show ?thesis
    by (auto simp: save_recording_def act_simps agrees_def split: option.splits if_splits)
next
  case True
  then obtain t where t: "c_AnsweredAt c = Some t" by blast
  let ?c = "c\<lparr>c_RecordingURL := Some (recording_path c)\<rparr>"
  from True t assms(3) obtain rc w1 where w1: "w1 = snd (zoom_a lw_recordings (\<lambda>j w. w\<lparr>lw_recordings := j\<rparr>) (journal_add rc) w)"
    and w': "w' = snd (on_call (UpdateDurations (lc_calls cf) ?c) w1)" and r: "r = Inr ?c"
    by (auto simp: save_recording_def act_simps Let_def)
  have k1: "keeps_track k n (w1, c)"
    unfolding w1 by (rule keeps_quiet [OF quiet_parts(7) _ assms(2)]) (rule surjective_pairing)
  have ag: "agrees c ?c" "c_ID ?c = c_ID c" by (simp_all add: agrees_def)
  from keeps_updated [OF assms(1) k1 this surjective_pairing] r ag(1) show ?thesis unfolding w' by blast
qed

lemma calc_step_agrees: "agrees c (ds_call d) \<and> c_ID (ds_call d) = c_ID c \<Longrightarrow>
    agrees c (ds_call (calc_step e d)) \<and> c_ID (ds_call (calc_step e d)) = c_ID c"
  by (simp add: calc_step_def agrees_def Let_def)

lemma CalculateDurations_agrees: "agrees c (CalculateDurations c evs) \<and> c_ID (CalculateDurations c evs) = c_ID c"
proof -
  have "agrees c (ds_call d) \<and> c_ID (ds_call d) = c_ID c \<Longrightarrow>
      agrees c (ds_call (fold calc_step evs d)) \<and> c_ID (ds_call (fold calc_step evs d)) = c_ID c" for d
    by (induction evs arbitrary: d) (use calc_step_agrees in auto)
  then show ?thesis by (simp add: CalculateDurations_def agrees_def)
qed

lemma keeps_durations:
  assumes "lc_calls cf = NewCallService CallRepo tp" "keeps_track k n (w, c)"
    and "count_durations cf j c w = (r, w')"
  shows "\<exists>c'. r = Inr c' \<and> agrees c c' \<and> keeps_track k n (w', c')"
proof (cases "ListEvents j (lw_call w) = []")
  case True
  with assms(3) have "r = Inr c" "w' = w" by (simp_all add: count_durations_def)
  with assms(2) show ?thesis by (simp add: agrees_def)
next
  case False
  let ?c = "CalculateDurations c (ListEvents j (lw_call w))"
  from False assms(3) have "w' = snd (on_call (UpdateDurations (lc_calls cf) ?c) w)" "r = Inr ?c"
    by (auto simp: count_durations_def act_simps Let_def)
  with keeps_updated [OF assms(1,2) CalculateDurations_agrees [THEN conjunct1] CalculateDurations_agrees [THEN conjunct2]
      surjective_pairing] CalculateDurations_agrees [THEN conjunct1] show ?thesis by blast
qed

text \<open>A call that has been ended, and its row.\<close>

lemma EndCall_ended:
  assumes "lc_calls cf = NewCallService CallRepo tp" "lc_ok w"
    and "on_call (EndCall (lc_calls cf) now eid k reason hby) w = (Inr c, w')"
  shows "keeps_track k 0 (w', c) \<and> c_Status c = CallStatusCompleted \<and> \<not> is_completed (lc_rows w) k"
proof -
  obtain t where run: "EndCall (lc_calls cf) now eid k reason hby (lw_call w) = (Inr c, t)" "lw_call w' = t"
    "lw_hooks w' = lw_hooks w"
    using assms(3) by (auto simp: on_call_def act_simps split: prod.splits sum.splits)
  from run(1) obtain old t0 t1 u c1 where
    load: "load_call (NewCallService CallRepo tp) k (lw_call w) = (Inr old, t0)" and
    saved: "save_call (NewCallService CallRepo tp) c1 t0 = (Inr u, t1)" and
    t: "rows (cw_calls t) = rows (cw_calls t1)" "c = c1" "c_ID c1 = c_ID old" "c_ChannelUUID c1 = c_ChannelUUID old"
      "c_Status c1 = CallStatusCompleted" "c_Status old \<noteq> CallStatusCompleted"
    unfolding EndCall_def Let_def assms(1)
    by (elim bind_a_Inr [THEN iffD1, elim_format] exE conjE)
      (auto simp: seq_a_Inr emit_run act_run(1,2) split: if_splits option.splits)
  from mysql_calls.load_call_row [OF load] have row0: "lc_rows w k = Some old" "rows (cw_calls t0) = lc_rows w" by auto
  have old: "lc_rows w k = Some old" "c_Status old \<noteq> CallStatusCompleted" "c_ID c = c_ID old"
    "c_Status c = CallStatusCompleted" using row0 t by simp_all
  from assms(2) old(1) have id: "c_ID old = k" "call_table_ok (lc_rows w)"
    by (auto simp: lc_ok_def call_table_ok_def)
  have "call_evolves (lc_rows w) (rows (cw_calls t))"
    using movesD [OF mysql_calls.moves_EndCall run(1) [unfolded assms(1)]] .
  from lc_ok_evolves [OF assms(2)] this run(2,3) have ok: "lc_ok w'" by simp
  from mysql_calls.save_call_row [OF saved] row0 t(3) id(1) have "rows (cw_calls t1) = (lc_rows w)(k \<mapsto> CallRepo_update_row old c1)" by simp
  then have row: "lc_rows w' k = Some (CallRepo_update_row old c)" using t(1,2) run(2) by simp
  moreover have "agrees (CallRepo_update_row old c) c"
    using t(2,4) by (simp add: agrees_def CallRepo_update_row_def)
  ultimately have "tracks k c w'" using old(3) id by (auto simp: tracks_def)
  moreover have nc: "\<not> is_completed (lc_rows w) k" using old(1,2) by (simp add: is_completed_def)
  then have "hooks_of k w \<le> 0" using assms(2) by (metis lc_ok_def of_bool_eq(1))
  then have "hooks_of k w' = 0" using run(3) by (simp add: hooks_of_def)
  ultimately show ?thesis using ok old(4) nc by (simp add: keeps_track_def)
qed

lemma spawn_ok:
  assumes "keeps_track k 0 (w, c)" "c_Status c = CallStatusCompleted"
  shows "lc_ok (w\<lparr>lw_hooks := lw_hooks w @ [(c, False)]\<rparr>)"
proof -
  from assms obtain r where r: "lc_ok w" "c_ID c = k" "lc_rows w k = Some r" "c_Status r = CallStatusCompleted"
    "hooks_of k w = 0"
    by (auto simp: keeps_track_def tracks_def agrees_def)
  have "hooks_of j (w\<lparr>lw_hooks := lw_hooks w @ [(c, False)]\<rparr>) = (if j = k then Suc (hooks_of j w) else hooks_of j w)" for j
    using r(2) by (simp add: hooks_of_def)
  with r show ?thesis by (auto simp: lc_ok_def is_completed_def)
qed

lemma best_effort:
  "\<exists>w'. agent_to_acw cf now ids c w = (Inr (), w')" "\<exists>w'. notify_agent cf ev c w = (Inr (), w')"
  by (auto simp: agent_to_acw_def notify_agent_def send_def act_run split: option.split)

abbreviation lc_tail :: "lc_config \<Rightarrow> call \<Rightarrow> call lact" where
  "lc_tail cf c \<equiv> seq_a (when_a (lc_concurrency cf \<noteq> None) (Release (c_TenantID c)))
     (seq_a (send (lc_publisher cf) (PublishEvent ''ccc.call.ended'' (c_ID c))) (ret_a c))"

lemma EndCall_lc_run:
  assumes "lc_calls cf = NewCallService CallRepo tp" "lc_ok w"
    and "on_call (EndCall (lc_calls cf) (now 0) (ids 0) k reason hby) w = (Inr c, w1)"
  obtains c4 w6 where "keeps_track k 0 (w6, c4)" "agrees c c4"
    "EndCall_lc cf now ids k reason hby w = lc_tail cf c4 (w6\<lparr>lw_hooks := lw_hooks w6 @ [(c4, False)]\<rparr>)"
proof -
  from EndCall_ended [OF assms] have k1: "keeps_track k 0 (w1, c)" by simp
  obtain r2 w2 where s2: "esl_send (lc_esl cf \<and> c_ChannelUUID c \<noteq> []) (EslHangup (c_ChannelUUID c)) w1 = (Inr r2, w2)"
    by (simp add: esl_send_def act_simps)
  have k2: "keeps_track k 0 (w2, c)" by (rule keeps_quiet [OF quiet_parts(2) s2 k1])
  obtain r3 w3 where s3: "save_recording cf (now 1) (ids 1) c w2 = (r3, w3)"
    by (cases "save_recording cf (now 1) (ids 1) c w2")
  from keeps_recording [OF assms(1) k2 s3] obtain c3 where c3: "r3 = Inr c3" "agrees c c3" "keeps_track k 0 (w3, c3)" by blast
  obtain r4 w4 where s4: "count_durations cf k c3 w3 = (r4, w4)" by (cases "count_durations cf k c3 w3")
  from keeps_durations [OF assms(1) c3(3) s4] obtain c4 where c4: "r4 = Inr c4" "agrees c3 c4" "keeps_track k 0 (w4, c4)" by blast
  obtain w5 where s5: "agent_to_acw cf (\<lambda>i. now (i + 2)) (\<lambda>i. ids (i + 2)) c4 w4 = (Inr (), w5)"
    using best_effort(1) by blast
  have k5: "keeps_track k 0 (w5, c4)" by (rule keeps_quiet [OF quiet_parts(5) s5 c4(3)])
  obtain w6 where s6: "notify_agent cf ''call.ended'' c4 w5 = (Inr (), w6)"
    using best_effort(2) by blast
  have k6: "keeps_track k 0 (w6, c4)" by (rule keeps_quiet [OF quiet_parts(3) s6 k5])
  have "EndCall_lc cf now ids k reason hby w = lc_tail cf c4 (w6\<lparr>lw_hooks := lw_hooks w6 @ [(c4, False)]\<rparr>)"
    unfolding EndCall_lc_def spawn_hooks_def
    by (simp only: act_run(3) assms(3) prod.case sum.case)
      (simp only: act_run(3,4,11) s2 s3 c3(1) s4 c4(1) s5 s6 prod.case sum.case)
  with k6 agrees_trans [OF c3(2) c4(2)] show thesis by (rule that)
qed

lemma inv_tail: "inv_a lc_ok (lc_tail cf c) (\<lambda>_. True)"
  by (intro inv_intros lc_intros) simp_all

lemma inv_EndCall_lc:
  assumes "lc_calls cf = NewCallService CallRepo tp"
  shows "inv_a lc_ok (EndCall_lc cf now ids k reason hby) (\<lambda>_. True)"
  unfolding inv_a_def
proof (intro allI impI conjI)
  fix w r w' assume run: "EndCall_lc cf now ids k reason hby w = (r, w')" and ok: "lc_ok w"
  obtain re w1 where ended: "on_call (EndCall (lc_calls cf) (now 0) (ids 0) k reason hby) w = (re, w1)"
    by (cases "on_call (EndCall (lc_calls cf) (now 0) (ids 0) k reason hby) w")
  show "lc_ok w'"
  proof (cases re)
    case (Inl e)
    with run ended have "w' = w1" by (simp add: EndCall_lc_def act_run(3))
    with inv_aD [OF lc_on_call [OF mysql_calls.moves_EndCall] ended [unfolded assms] ok] show ?thesis by simp
  next
    case (Inr c)
    from EndCall_ended [OF assms ok ended [unfolded Inr]] have "c_Status c = CallStatusCompleted" by simp
    moreover obtain c4 w6 where c4: "keeps_track k 0 (w6, c4)" "agrees c c4"
      "EndCall_lc cf now ids k reason hby w = lc_tail cf c4 (w6\<lparr>lw_hooks := lw_hooks w6 @ [(c4, False)]\<rparr>)"
      using EndCall_lc_run [where now = now and ids = ids, OF assms ok ended [unfolded Inr]] by blast
    ultimately have "lc_ok (w6\<lparr>lw_hooks := lw_hooks w6 @ [(c4, False)]\<rparr>)"
      by (intro spawn_ok) (simp_all add: agrees_def)
    from inv_snd [OF inv_tail this, of cf c4] c4(3) run show ?thesis by (metis snd_conv)
  qed
qed simp

section \<open>Every request\<close>

lemma inv_cases_lc:
  "(\<And>x. found = Some x \<Longrightarrow> inv_a I (f x) Q) \<Longrightarrow> inv_a I m Q \<Longrightarrow> inv_a I (case found of None \<Rightarrow> m | Some x \<Rightarrow> f x) Q"
  by (cases found) auto

lemma inv_lc_calls:
  assumes "lc_calls cf = NewCallService CallRepo tp"
  shows "inv_a lc_ok (AnswerCall_lc cf now ids k agent) (\<lambda>_. True)"
    "inv_a lc_ok (TransitionCallToQueue cf now ids k sg) (\<lambda>_. True)"
    "inv_a lc_ok (TransitionCallToRinging cf now ids k agent) (\<lambda>_. True)"
    "inv_a lc_ok (on_call (TransitionToActive (lc_calls cf) t eid k)) (\<lambda>_. True)"
    "inv_a lc_ok (on_call (exec_op (lc_calls cf) t nid eid opn)) (\<lambda>_. True)"
  unfolding AnswerCall_lc_def TransitionCallToQueue_def TransitionCallToRinging_def assms
  by (rule lc_on_call call_moves mysql_calls.exec_op_evolves inv_bind inv_seq inv_cases_lc inv_ret inv_when
        inv_ignore lc_intros TrueI)+

lemma inv_HandleInboundCall:
  assumes "lc_config_ok cf"
  shows "inv_a lc_ok (HandleInboundCall cf now ids inp) (\<lambda>_. True)"
proof -
  from assms obtain tp where S: "lc_calls cf = NewCallService CallRepo tp" by (auto simp: lc_config_ok_def)
  have tracking: "inv_a lc_ok (on_call (RecordIVRTracking n t)) (\<lambda>_. True)" for n t
    by (rule lc_on_call) (rule call_moves)
  have ivr: "inv_a lc_ok (run_ivr cf t n c) (\<lambda>_. True)" for t n c
    unfolding run_ivr_def
    by (auto split: option.split sum.split prod.split intro!: inv_seq inv_throw inv_ret inv_ignore tracking lc_modify)
  show ?thesis
    unfolding HandleInboundCall_def
    by (intro inv_seq inv_bind [where R = "\<lambda>_. True"] lc_intros ivr inv_ret TrueI)
      (simp add: S lc_on_call call_moves)
qed

lemma inv_HandleESLEvent:
  assumes "lc_calls cf = NewCallService CallRepo tp"
  shows "inv_a lc_ok (HandleESLEvent cf now ids hit ev) (\<lambda>_. True)"
proof -
  have find: "inv_a lc_ok (FindByChannelUUID hit uuid) (\<lambda>_. True)" for uuid
    unfolding FindByChannelUUID_def
    by (rule lc_on_call, rule moves_refl)
      (auto simp: reflp_def on_calls_def with_link_def preserves_def act_run split: list.split option.split)
  show ?thesis
    unfolding HandleESLEvent_def
    by (auto intro!: inv_if inv_try [OF find] inv_ret inv_ignore inv_when inv_cases_lc inv_lc_calls [OF assms]
        inv_EndCall_lc [OF assms] split: sum.split option.split)
qed

lemma inv_postCallHooks:
  assumes "lc_calls cf = NewCallService CallRepo tp"
  shows "inv_a lc_ok (postCallHooksAsync cf now c) (\<lambda>_. True)"
proof -
  have link: "inv_a lc_ok (link_customer cf c) (\<lambda>_. True)"
    unfolding link_customer_def Let_def assms
    by (auto intro!: inv_ret inv_seq inv_when inv_ignore lc_intros lc_on_call call_moves split: option.split)
  show ?thesis
    unfolding postCallHooksAsync_def
    by (intro inv_seq inv_bind [OF link] lc_intros)
      (auto simp: write_back_case_def remember_agent_def escalate_repeats_def Let_def
        intro!: lc_intros inv_ret inv_when inv_try [OF lc_quiet [OF lc_repeats]] split: option.split sum.split)
qed

lemma hooks_of_cong: "map fst (lw_hooks v) = map fst (lw_hooks w) \<Longrightarrow> hooks_of k v = hooks_of k w"
proof -
  assume "map fst (lw_hooks v) = map fst (lw_hooks w)"
  moreover have "hooks_of k x = length (filter (\<lambda>c. c_ID c = k) (map fst (lw_hooks x)))" for x
    by (simp add: hooks_of_def filter_map o_def)
  ultimately show ?thesis by (simp only:)
qed

lemma lc_exec_ok:
  assumes "lc_config_ok cf"
  shows "inv_a lc_ok (lc_exec cf now ids q) (\<lambda>_. True)"
proof -
  from assms obtain tp where S: "lc_calls cf = NewCallService CallRepo tp" by (auto simp: lc_config_ok_def)
  have drop: "inv_a lc_ok (drop_result m) (\<lambda>_. True)" if "inv_a lc_ok m (\<lambda>_. True)" for m :: "call lact"
    unfolding drop_result_def using that by (auto intro!: inv_bind inv_ret)
  show ?thesis
  proof (cases q)
    case (LHook i)
    have "hooks_of k (w\<lparr>lw_hooks := (lw_hooks w)[i := (fst (lw_hooks w ! i), True)]\<rparr>) = hooks_of k w"
      if "i < length (lw_hooks w)" for k w
    proof -
      have "map fst ((lw_hooks w)[i := (fst (lw_hooks w ! i), True)]) = map fst (lw_hooks w)"
        by (metis fst_conv list_update_id map_update nth_map that)
      then show ?thesis by (intro hooks_of_cong) simp
    qed
    then have "lc_ok w \<Longrightarrow> i < length (lw_hooks w) \<Longrightarrow>
        lc_ok (w\<lparr>lw_hooks := (lw_hooks w)[i := (fst (lw_hooks w ! i), True)]\<rparr>)" for w
      by (simp add: lc_ok_def)
    with LHook show ?thesis
      using inv_postCallHooks [OF S, unfolded inv_a_def, rule_format]
      unfolding inv_a_def by (auto simp: split_def)
  qed (simp_all add: drop inv_HandleInboundCall [OF assms] inv_EndCall_lc [OF S] inv_lc_calls [OF S]
      inv_HandleESLEvent [OF S])
qed

section \<open>At most once\<close>

text \<open>
  C5. Along any run of requests, events of the switch, hook goroutines and direct operations of
  the call service that do not overlap on a call, with any statements failing and any IVR flows run for the inbound calls:
  the post-call effects are started at most once for a call, and only for a call that is stored as completed.
  (Two requests that overlap can start them twice: \<open>overlapping_ends_start_twice\<close> below.)
\<close>

theorem post_call_effects_once:
  assumes "lc_config_ok cf" and "call_table_ok (lc_rows w)" and "lw_hooks w = []"
  shows "length (filter (\<lambda>h. c_ID (fst h) = k) (lw_hooks (lc_run cf qs w))) \<le> 1 \<and>
    (\<forall>h \<in> set (lw_hooks (lc_run cf qs w)). \<exists>c. lc_rows (lc_run cf qs w) (c_ID (fst h)) = Some c \<and>
       c_Status c = CallStatusCompleted)"
proof -
  have run: "lc_ok w' \<Longrightarrow> lc_ok (lc_run cf qs w')" for w'
    by (induction qs arbitrary: w') (auto intro: inv_snd [OF lc_exec_ok [OF assms(1)]])
  have "lc_ok w" using assms(2,3) by (simp add: lc_ok_def hooks_of_def)
  from run [OF this] have ok: "lc_ok (lc_run cf qs w)" .
  then have bound: "hooks_of j (lc_run cf qs w) \<le> of_bool (is_completed (lc_rows (lc_run cf qs w)) j)" for j
    by (simp add: lc_ok_def)
  have "is_completed (lc_rows (lc_run cf qs w)) (c_ID (fst h))" if "h \<in> set (lw_hooks (lc_run cf qs w))" for h
  proof -
    have "hooks_of (c_ID (fst h)) (lc_run cf qs w) \<noteq> 0"
      using that by (auto simp: hooks_of_def filter_empty_conv)
    with bound [of "c_ID (fst h)"] show ?thesis by (cases "is_completed (lc_rows (lc_run cf qs w)) (c_ID (fst h))") auto
  qed
  moreover have "hooks_of k (lc_run cf qs w) \<le> 1" by (rule order_trans [OF bound [of k]]) simp
  ultimately show ?thesis by (auto simp: hooks_of_def is_completed_def)
qed

section \<open>Events of the switch\<close>

text \<open>
  A parked channel never moves a call: a call in the IVR has no skill group, so the branch
  that would queue it is never taken, on any table of calls the service can have built.
\<close>

theorem park_event_is_dead:
  assumes "call_table_ok (lc_rows w)" and "ev_Name ev = ''CHANNEL_PARK''"
    and "HandleESLEvent cf now ids hit ev w = (r, w')"
  shows "r = Inr () \<and> lc_rows w' = lc_rows w \<and> lw_sent w' = lw_sent w \<and> lw_snapshots w' = lw_snapshots w"
proof (cases "ev_ChannelUUID ev = []")
  case True
  with assms(3) show ?thesis by (simp add: HandleESLEvent_def act_run)
next
  case False
  obtain res w1 where f: "FindByChannelUUID hit (ev_ChannelUUID ev) w = (res, w1)"
    by (cases "FindByChannelUUID hit (ev_ChannelUUID ev) w")
  then have same: "lc_rows w1 = lc_rows w" "lw_sent w1 = lw_sent w" "lw_snapshots w1 = lw_snapshots w"
    by (auto simp: FindByChannelUUID_def on_call_def on_calls_def act_run with_link_def split: list.splits if_splits)
  have found: "\<exists>k. lc_rows w k = Some c" if "res = Inr (Some c)" for c
    using f that
    by (auto simp: FindByChannelUUID_def on_call_def on_calls_def act_run with_link_def
        split: list.splits if_splits option.splits)
  have idle: "c_SkillGroupID c = None \<or> c_Status c \<noteq> CallStatusIVR" if "res = Inr (Some c)" for c
    using found [OF that] assms(1) by (auto simp: call_table_ok_def call_inv_def)
  have names: "ev_Name ev \<noteq> ''CHANNEL_ANSWER''" "ev_Name ev \<noteq> ''CHANNEL_BRIDGE''" using assms(2) by simp_all
  show ?thesis
  proof (cases "\<exists>c. res = Inr (Some c)")
    case True
    then obtain c where c: "res = Inr (Some c)" by blast
    from idle [OF c] assms(3) False f c names assms(2) same show ?thesis
      by (auto simp: HandleESLEvent_def act_run split: option.splits)
  next
    case other: False
    with assms(3) False f same show ?thesis
      by (auto simp: HandleESLEvent_def act_run split: sum.splits option.splits)
  qed
qed

lemma mysql_EndCall_healthy:
  assumes "outages (cw_calls w) = []" "rows (cw_calls w) k = Some c" "c_ID c = k" "c_Status c \<noteq> CallStatusCompleted"
  shows "\<exists>d w'. EndCall (NewCallService CallRepo tp) now eid k reason hby w = (Inr d, w') \<and>
    c_Status d = CallStatusCompleted \<and> c_HangupReason d = Some reason \<and> c_ChannelUUID d = c_ChannelUUID c \<and>
    outages (cw_calls w') = []"
  using assms by (auto simp: EndCall_def call_run_simps split: option.splits)

definition lc_up :: "lc_world \<Rightarrow> bool" where
  "lc_up w \<longleftrightarrow> outages (cw_calls (lw_call w)) = []"

lemma find_up:
  assumes "lc_up w" "lc_rows w k = Some c" "c_ChannelUUID c = uuid"
  shows "FindByChannelUUID (Some k) uuid w = (Inr (Some c), w)"
proof -
  have "(lw_call w)\<lparr>cw_calls := cw_calls (lw_call w)\<rparr> = lw_call w" by simp
  with assms show ?thesis
    by (simp add: FindByChannelUUID_def on_call_def on_calls_def act_run with_link_def lc_up_def)
qed

definition hangup_event :: "string \<Rightarrow> esl_event \<Rightarrow> bool" where
  "hangup_event uuid ev \<longleftrightarrow> ev_ChannelUUID ev = uuid \<and> uuid \<noteq> [] \<and>
     (ev_Name ev = ''CHANNEL_HANGUP'' \<or> ev_Name ev = ''CHANNEL_HANGUP_COMPLETE'')"

lemma hangup_event_run:
  assumes "hangup_event uuid ev" "FindByChannelUUID hit uuid w = (Inr (Some c), w)"
  shows "HandleESLEvent cf now ids hit ev w = (if c_Status c = CallStatusCompleted then (Inr (), w)
    else (Inr (), snd (EndCall_lc cf now ids (c_ID c) (mapHangupCause (ev_HangupCause ev)) (Some (inferHangupBy ev c)) w)))"
  using assms by (auto simp: HandleESLEvent_def hangup_event_def act_run)

lemma tail_up: "lc_rows (snd (lc_tail cf c v)) = lc_rows v"
proof -
  have "preserves (\<lambda>w. (lc_rows w, lw_hooks w)) (lc_tail cf c)"
    by (intro frame_intros quiet_parts)
  then show ?thesis by (simp add: preserves_def)
qed

lemma up_on_call:
  "inv_a (\<lambda>w. outages (cw_calls w) = []) m (\<lambda>_. True) \<Longrightarrow> inv_a lc_up (on_call m) (\<lambda>_. True)"
  unfolding on_call_def lc_up_def by (intro inv_wrap inv_zoom) auto

lemma up_save: "inv_a (\<lambda>w. outages (cw_calls w) = []) (save_call (NewCallService CallRepo tp) c) (\<lambda>_. True)"
  unfolding inv_a_def by (auto simp: call_run_simps split: option.splits)

lemma up_parts:
  "inv_a (\<lambda>w. outages (cw_calls w) = []) (load_call (NewCallService CallRepo tp) k) (\<lambda>_. True)"
  "inv_a (\<lambda>w. outages (cw_calls w) = []) (emit eid c ev detail now) (\<lambda>_. True)"
  unfolding inv_a_def by (auto simp: call_run_simps split: option.splits)

lemma up_EndCall: "inv_a (\<lambda>w. outages (cw_calls w) = []) (EndCall (NewCallService CallRepo tp) now eid k reason hby) (\<lambda>_. True)"
  unfolding EndCall_def Let_def
  by (intro inv_bind [OF up_parts(1)] inv_if inv_throw inv_seq up_save up_parts(2) inv_ret TrueI)

lemma up_EndCall_lc:
  assumes "lc_calls cf = NewCallService CallRepo tp"
  shows "inv_a lc_up (EndCall_lc cf now ids k reason hby) (\<lambda>_. True)"
proof -
  have quiet: "preserves (\<lambda>w. lw_call w) m \<Longrightarrow> inv_a lc_up m (\<lambda>_. True)" for m :: "'a lact"
    unfolding inv_a_def lc_up_def using preservesD by fastforce
  have redis: "preserves (\<lambda>w. lw_call w) (redis_add t d)" for t d
    by (auto simp: preserves_def redis_add_def split: list.split bool.split)
  have parts: "preserves (\<lambda>w. lw_call w) (esl_send b cmd)" "preserves (\<lambda>w. lw_call w) (agent_to_acw cf now' ids' c)"
    "preserves (\<lambda>w. lw_call w) (notify_agent cf ev c)" "preserves (\<lambda>w. lw_call w) (spawn_hooks c)"
    "preserves (\<lambda>w. lw_call w) (Release t)" "preserves (\<lambda>w. lw_call w) (send b msg)"
    "preserves (\<lambda>w. lw_call w) (zoom_a lw_recordings (\<lambda>j w. w\<lparr>lw_recordings := j\<rparr>) mr)"
    for b cmd now' ids' c ev t msg and mr :: "(recording journal, lc_error, unit) act"
    by (auto simp: esl_send_def agent_to_acw_def notify_agent_def spawn_hooks_def Release_def send_def on_agents_def
        intro!: frame_intros preserves_zoom_other redis split: option.split)
  have ignored: "inv_a lc_up (ignore_a (zoom_a lw_recordings (\<lambda>j w. w\<lparr>lw_recordings := j\<rparr>) (journal_add x)) :: unit lact) (\<lambda>_. True)" for x
    by (rule quiet) (intro frame_intros preserves_zoom_other, simp)
  have upd: "inv_a lc_up (ignore_a (on_call (UpdateDurations (lc_calls cf) c)) :: unit lact) (\<lambda>_. True)" for c
    unfolding UpdateDurations_def assms by (intro inv_ignore up_on_call up_save)
  have saved: "inv_a lc_up (save_recording cf t n c) (\<lambda>_. True)" for t n c
    unfolding save_recording_def Let_def
    by (auto intro!: inv_ret inv_seq ignored upd split: option.split)
  have counted: "inv_a lc_up (count_durations cf k c) (\<lambda>_. True)" for c
  proof -
    have "inv_a lc_up (seq_a (ignore_a (on_call (UpdateDurations (lc_calls cf) c'))) (ret_a c') :: call lact) (\<lambda>_. True)" for c'
      by (intro inv_seq upd inv_ret TrueI)
    then show ?thesis unfolding inv_a_def count_durations_def Let_def by (auto split: if_splits)
  qed
  have ended: "inv_a (\<lambda>w. outages (cw_calls w) = []) (EndCall (lc_calls cf) t n k reason hby) (\<lambda>_. True)" for t n
    unfolding assms by (rule up_EndCall)
  show ?thesis
    unfolding EndCall_lc_def
    by (rule inv_bind [where R = "\<lambda>_. True"] inv_seq inv_when saved counted inv_ret TrueI
        up_on_call ended | rule quiet, rule parts)+
qed


section \<open>The concurrency counter\<close>

text \<open>
  The slot taken for an inbound call is not given back when the call cannot be created: with
  a limit for the tenant and the counter reachable, a creation that fails below the limit leaves
  the tenant's counter one higher and no call behind, and nothing ever lowers it again for it.
\<close>

theorem failed_inbound_leaks_slot:
  assumes "lc_calls cf = NewCallService CallRepo tp" and "lc_concurrency cf = Some limit_of"
    and "0 < limit_of (in_TenantID inp)" and "lw_slots w (in_TenantID inp) < limit_of (in_TenantID inp)"
    and "lw_redis w = []" and "HandleInboundCall cf now ids inp w = (Inl e, w')" and "e \<noteq> LcNoReturn"
  shows "lw_slots w' = (lw_slots w)(in_TenantID inp := lw_slots w (in_TenantID inp) + 1) \<and>
    lc_rows w' = lc_rows w \<and> lw_hooks w' = lw_hooks w \<and> lw_sent w' = lw_sent w"
proof -
  let ?t = "in_TenantID inp" and ?w = "w\<lparr>lw_slots := (lw_slots w)(in_TenantID inp := lw_slots w (in_TenantID inp) + 1)\<rparr>"
  have gate: "checkConcurrencyLimit cf ?t w = (Inr (), ?w)"
    using assms(2-5) by (simp add: checkConcurrencyLimit_def Acquire_def redis_add_def act_run)
  obtain r w1 where create: "on_call (CreateInboundCall (lc_calls cf) (now 0) (ids 0) (ids 1) inp) ?w = (r, w1)"
    by (cases "on_call (CreateInboundCall (lc_calls cf) (now 0) (ids 0) (ids 1) inp) ?w")
  show ?thesis
  proof (cases r)
    case (Inr c)
    have sends: "\<exists>v. send b msg x = (Inr (), v)" for b msg x by (simp add: send_def act_run)
    obtain q w2 where ran: "run_ivr cf (now 1) (ids 2) c w1 = (q, w2)" by force
    then have "q = Inr () \<or> q = Inl LcNoReturn"
      by (auto simp: run_ivr_def act_run split: prod.splits option.splits sum.splits)
    then have "fst (HandleInboundCall cf now ids inp w) = Inl LcNoReturn \<or> \<not> isl (fst (HandleInboundCall cf now ids inp w))"
      unfolding HandleInboundCall_def
      by (elim disjE) (simp_all add: act_run gate create Inr ran send_def del: One_nat_def)
    with assms(6,7) show ?thesis by simp
  next
    case (Inl e')
    with assms(6) gate create have w': "w' = w1" "e = e'"
      by (simp_all add: HandleInboundCall_def act_run del: One_nat_def)
    from create Inl obtain t where t: "CreateInboundCall (NewCallService CallRepo tp) (now 0) (ids 0) (ids 1) inp (lw_call w) =
        (Inl (case e' of LcCall x \<Rightarrow> x), t)" "w1 = ?w\<lparr>lw_call := t\<rparr>"
      by (auto simp: on_call_def act_run assms(1) split: prod.splits sum.splits)
    from t(1) have "exec_op (NewCallService CallRepo tp) (now 0) (ids 0) (ids 1) (OpInbound inp) (lw_call w) =
        (Inl (case e' of LcCall x \<Rightarrow> x), t)"
      by (simp add: done_a_def act_run)
    from preserves_errD [OF mysql_calls.failed_op this] t(2) show ?thesis by (simp add: w')
  qed
qed

section \<open>Concrete runs\<close>

definition lc_config0 :: lc_config where
  "lc_config0 = \<lparr>lc_calls = NewCallService CallRepo True, lc_presence = None, lc_columns = schedule0, lc_esl = True,
     lc_recording = True, lc_encryption = None, lc_snapshots = True, lc_notifier = True, lc_webhook = True,
     lc_publisher = True, lc_campaign = True, lc_csat = True, lc_customer = None, lc_familiar = None, lc_qa = True,
     lc_repeatThreshold = None, lc_concurrency = Some (\<lambda>_. 5), lc_announce = (\<lambda>_. False), lc_ivr = None\<rparr>"

definition presence_world_empty :: presence_world where
  "presence_world_empty = \<lparr>pw_presence = \<lparr>lrows = [], loutages = []\<rparr>, pw_logs = \<lparr>entries = [], journal_outages = []\<rparr>,
     pw_shifts = \<lparr>lrows = [], loutages = []\<rparr>, pw_timers = (\<lambda>_. None), pw_sleepers = [], pw_next = 0, pw_hooked = []\<rparr>"

definition lc_world_of :: "(call table) call_world \<Rightarrow> lc_world" where
  "lc_world_of cw = \<lparr>lw_call = cw, lw_presence = presence_world_empty, lw_campaign = campaign_world0,
     lw_recordings = \<lparr>entries = [], journal_outages = []\<rparr>, lw_snapshots = \<lparr>entries = [], journal_outages = []\<rparr>,
     lw_slots = (\<lambda>_. 0), lw_repeats = (\<lambda>_. 0), lw_redis = [], lw_esl = [], lw_sent = [], lw_hooks = [], lw_ivr = []\<rparr>"

lemma lc_config0_ok: "lc_config_ok lc_config0" "lc_calls lc_config0 = NewCallService CallRepo True"
  "lc_concurrency lc_config0 = Some (\<lambda>_. 5)"
  by (auto simp: lc_config_ok_def lc_config0_def)

lemma lc_world_of_parts [simp]:
  "lw_call (lc_world_of cw) = cw" "lw_hooks (lc_world_of cw) = []" "lw_redis (lc_world_of cw) = []"
  "lw_slots (lc_world_of cw) = (\<lambda>_. 0)" "lw_sent (lc_world_of cw) = []"
  by (simp_all add: lc_world_of_def)

lemma lc_world1_ok: "lc_ok (lc_world_of call_world1)" "lc_up (lc_world_of call_world1)"
  using call_world1_ok by (simp_all add: lc_ok_def hooks_of_def lc_up_def call_world1_eq call_world0_def)

text \<open>
  A request that has read a call and goes on after others have run: it works with the row it has read. Two requests to end
  one call that have both read it before either writes both go on: the post-call effects start twice, and the slot of the
  tenant is released twice. The runs above are of requests that do not overlap.
\<close>

definition having_read :: "call \<Rightarrow> lc_config \<Rightarrow> lc_config" where
  "having_read c cf = cf\<lparr>lc_calls := (lc_calls cf)\<lparr>svc_calls := (svc_calls (lc_calls cf))\<lparr>repo_get := (\<lambda>_ t. (Inr (Some c), t))\<rparr>\<rparr>\<rparr>"

lemma overlapping_ends_start_twice:
  assumes "lc_rows (lc_world_of call_world1) 1 = Some c"
  shows "\<exists>c1 w1 c2 w2. EndCall_lc (having_read c lc_config0) (\<lambda>_. 9) (\<lambda>_. 4) 1 HangupNormal None (lc_world_of call_world1) = (Inr c1, w1) \<and>
    EndCall_lc (having_read c lc_config0) (\<lambda>_. 10) (\<lambda>_. 5) 1 HangupNormal None w1 = (Inr c2, w2) \<and>
    hooks_of 1 w2 = 2 \<and> lw_slots w2 1 = - 2"
proof -
  have c: "c = the (rows (cw_calls call_world1) 1)" using assms by simp
  show ?thesis
    unfolding c
    by (simp add: EndCall_lc_def having_read_def lc_config0_def EndCall_def call_run_simps on_call_def act_run act_simps call_world1_eq call_world0_def
        lc_world_of_def esl_send_def save_recording_def count_durations_def ListEvents_def UpdateDurations_def CalculateDurations_def calc_step_def
        agent_to_acw_def notify_agent_def spawn_hooks_def Release_def redis_add_def send_def hooks_of_def call_zero_def sql_defs CallRepo_update_row_def)
qed

theorem post_call_effects_once_witness:
  "length (filter (\<lambda>h. c_ID (fst h) = 1) (lw_hooks (lc_run lc_config0
     [(\<lambda>_. 9, \<lambda>_. 4, LEnd 1 HangupNormal None), (\<lambda>_. 10, \<lambda>_. 5, LEnd 1 HangupBusy None)] (lc_world_of call_world1)))) \<le> 1"
  using conjunct1 [OF post_call_effects_once [OF lc_config0_ok(1), of "lc_world_of call_world1" 1
     "[(\<lambda>_. 9, \<lambda>_. 4, LEnd 1 HangupNormal None), (\<lambda>_. 10, \<lambda>_. 5, LEnd 1 HangupBusy None)]"]] call_world1_ok
  by (simp del: lc_run.simps)

definition switch_event :: "string \<Rightarrow> string \<Rightarrow> esl_event" where
  "switch_event name cause = \<lparr>ev_Name = name, ev_ChannelUUID = ''u1'', ev_HangupCause = cause, ev_Disposition = []\<rparr>"

theorem park_event_is_dead_witness:
  "lc_rows (snd (HandleESLEvent lc_config0 (\<lambda>_. 9) (\<lambda>_. 4) (Some 1) (switch_event ''CHANNEL_PARK'' [])
     (lc_world_of call_world1))) = lc_rows (lc_world_of call_world1)"
proof -
  have "call_table_ok (lc_rows (lc_world_of call_world1))" using call_world1_ok by simp
  moreover have "ev_Name (switch_event ''CHANNEL_PARK'' []) = ''CHANNEL_PARK''" by (simp add: switch_event_def)
  ultimately show ?thesis using park_event_is_dead by (metis prod.collapse)
qed

lemma user_busy_mapped: "mapHangupCause ''user_busy'' = HangupBusy"
  by code_simp


theorem failed_inbound_leaks_slot_witness:
  "\<exists>e w'. HandleInboundCall lc_config0 (\<lambda>_. 9) (\<lambda>_. 4) inbound0
      (lc_world_of (call_world0\<lparr>cw_calls := \<lparr>rows = Map.empty, outages = [True]\<rparr>\<rparr>)) = (Inl e, w') \<and>
    lw_slots w' 1 = 1 \<and> lc_rows w' = Map.empty"
proof -
  let ?w = "lc_world_of (call_world0\<lparr>cw_calls := \<lparr>rows = Map.empty, outages = [True]\<rparr>\<rparr>)"
  have "\<exists>x. fst (HandleInboundCall lc_config0 (\<lambda>_. 9) (\<lambda>_. 4) inbound0 ?w) = Inl (LcCall x)"
    by (simp add: HandleInboundCall_def act_run checkConcurrencyLimit_def lc_config0_def Acquire_def redis_add_def
        inbound0_def CreateInboundCall_def call_run_simps on_call_def sql_defs)
  then obtain e w' where run: "HandleInboundCall lc_config0 (\<lambda>_. 9) (\<lambda>_. 4) inbound0 ?w = (Inl e, w')" "e \<noteq> LcNoReturn"
    by (metis prod.collapse lc_error.distinct(5))
  have "(0::int) < 5" "lw_slots ?w (in_TenantID inbound0) < 5" "lw_redis ?w = []" by simp_all
  from failed_inbound_leaks_slot [OF lc_config0_ok(2,3) this run] run(1) show ?thesis
    by (auto simp: inbound0_def)
qed

end
