(* ===== verification/Acd.thy ===== *)
theory Acd
  imports Complex_Main Presence CallEntity "HOL-Library.List_Lexorder" "HOL-Library.Char_ord"
begin

text \<open>
  The dispatcher of queued calls: \<open>internal/application/acd/service.go\<close>. Its state is kept in Redis:
  one sorted set per skill group, the set of groups ever used, a claim with an expiry per agent, the
  round-robin cursors and plain string keys. The calls themselves and the agents' presence belong to
  the backend, a type parameter here; \<open>AcdProps\<close> plugs in the model of \<open>lifecycle.Service\<close>.
\<close>

section \<open>Sorted sets\<close>

text \<open>
  Redis orders the entries of a ZSET by score and, for equal scores, by the bytes of the member. A
  score is a float64; those the program computes are integers below \<open>2 ^ 53\<close> as long as a priority
  stays below 900000, so they are exact and modelled as \<open>int\<close>.
\<close>

datatype zentry = ZEntry (z_score: int) (z_member: string)

instantiation zentry :: linorder
begin

definition less_eq_zentry :: "zentry \<Rightarrow> zentry \<Rightarrow> bool" where
  "less_eq_zentry x y \<longleftrightarrow> z_score x < z_score y \<or> (z_score x = z_score y \<and> z_member x \<le> z_member y)"

definition less_zentry :: "zentry \<Rightarrow> zentry \<Rightarrow> bool" where
  "less_zentry x y \<longleftrightarrow> z_score x < z_score y \<or> (z_score x = z_score y \<and> z_member x < z_member y)"

instance
  by standard (auto simp: less_eq_zentry_def less_zentry_def zentry.expand)

end

type_synonym zset = "zentry list"

text \<open>\<open>ZADD key score member\<close> moves a member that is there; \<open>ZREM\<close> tells how many it removed.\<close>

definition zrem :: "string \<Rightarrow> zset \<Rightarrow> zset" where
  "zrem m q = filter (\<lambda>x. z_member x \<noteq> m) q"

definition zadd :: "int \<Rightarrow> string \<Rightarrow> zset \<Rightarrow> zset" where
  "zadd s m q = insort (ZEntry s m) (zrem m q)"

definition zset_ok :: "zset \<Rightarrow> bool" where
  "zset_ok q \<longleftrightarrow> sorted q \<and> distinct (map z_member q)"

lemma zset_ok_Nil [simp]: "zset_ok []"
  by (simp add: zset_ok_def)

lemma set_zrem [simp]: "set (zrem m q) = {x \<in> set q. z_member x \<noteq> m}"
  by (simp add: zrem_def)

lemma zrem_absent: "m \<notin> z_member ` set q \<Longrightarrow> zrem m q = q"
  by (auto simp: zrem_def intro!: filter_True)

lemma zset_ok_zrem [simp]: "zset_ok q \<Longrightarrow> zset_ok (zrem m q)"
  by (auto simp: zset_ok_def zrem_def distinct_map_filter sorted_filter [where f = "\<lambda>x. x", simplified])

lemma set_zadd [simp]: "set (zadd s m q) = insert (ZEntry s m) {x \<in> set q. z_member x \<noteq> m}"
  by (simp add: zadd_def set_insort_key)

lemma distinct_insort_member:
  "distinct (map z_member (insort x q)) = (z_member x \<notin> z_member ` set q \<and> distinct (map z_member q))"
  by (induction q) (auto simp: set_insort_key)

lemma zset_ok_zadd [simp]: "zset_ok q \<Longrightarrow> zset_ok (zadd s m q)"
  using zset_ok_zrem [of q m] by (auto simp: zset_ok_def zadd_def sorted_insort distinct_insort_member)

lemma zrem_head: "zset_ok (x # q) \<Longrightarrow> zrem (z_member x) (x # q) = q"
  by (auto simp: zset_ok_def zrem_def intro!: filter_True) (metis image_eqI)

text \<open>An entry put back where it was: the queue is as before.\<close>

lemma zadd_head: "zset_ok (x # q) \<Longrightarrow> zadd (z_score x) (z_member x) q = x # q"
  by (auto simp: zset_ok_def zadd_def zrem_absent insort_is_Cons)

section \<open>The world\<close>

datatype RoutingPolicy =
    RoutingPolicyRoundRobin | RoutingPolicyLeastRecent | RoutingPolicyRandom
  | RoutingPolicySkillWeight | RoutingPolicyFamiliar

record skill_group =
  sg_ID :: int
  sg_TenantID :: int
  sg_Code :: string
  sg_Name :: string
  sg_Description :: string
  sg_RoutingPolicy :: RoutingPolicy
  sg_Priority :: int
  sg_MaxQueueSize :: int
  sg_MaxWaitSec :: int
  sg_OverflowGroup :: "int option"
  sg_Status :: string
  sg_CreatedAt :: gotime
  sg_UpdatedAt :: gotime

text \<open>
  \<open>aw_redis\<close> tells which of the next Redis commands fail; \<open>aw_routed\<close> is the log line
  \<open>acd: routed call to agent\<close> with the time of the claim; \<open>aw_backend\<close> is everything behind
  \<open>LifecycleService\<close>, \<open>PresenceRepo\<close> and \<open>CallLookup\<close>.
\<close>

record 'l acd_world =
  aw_queues :: "int \<Rightarrow> zset"
  aw_active :: "string list"
  aw_claims :: "int \<Rightarrow> gotime option"
  aw_cursors :: "int \<Rightarrow> int"
  aw_strings :: "string \<Rightarrow> (string \<times> gotime) option"
  aw_redis :: "bool list"
  aw_routed :: "(int \<times> int \<times> gotime) list"
  aw_backend :: 'l

datatype acd_error = AcdNoRedis | AcdQueueFull int int | AcdZAdd string | AcdRegister string

type_synonym ('l, 'e, 'a) aact = "('l acd_world, 'e, 'a) act"

text \<open>The readings of the clock and the identifiers a call into the backend uses.\<close>

type_synonym env = "(nat \<Rightarrow> gotime) \<times> (nat \<Rightarrow> int)"

text \<open>
  The collaborators. A lookup that fails and one that finds nothing are both \<open>None\<close> where the code
  does not tell them apart.
\<close>

record 'l acd_config =
  ac_rdb :: bool
  ac_ring :: "env \<Rightarrow> int \<Rightarrow> int \<Rightarrow> ('l, string, call) act"
  ac_end :: "env \<Rightarrow> int \<Rightarrow> HangupReason \<Rightarrow> HangupBy option \<Rightarrow> ('l, string, call) act"
  ac_presence :: "int list \<Rightarrow> ('l, string, presence list) act"
  ac_members :: "int \<Rightarrow> int list option"
  ac_group :: "int \<Rightarrow> skill_group option"
  ac_calls :: "(int \<Rightarrow> ('l, string, call option) act) option"

definition on_backend :: "('l, 'e, 'a) act \<Rightarrow> ('l, 'e, 'a) aact" where
  "on_backend = zoom_a aw_backend (\<lambda>b w. w\<lparr>aw_backend := b\<rparr>)"

section \<open>Redis commands\<close>

definition redis :: "('l acd_world \<Rightarrow> 'a \<times> 'l acd_world) \<Rightarrow> ('l, string, 'a) aact" where
  "redis f w =
     (case aw_redis w of
        True # rest \<Rightarrow> (Inl ''redis: connection lost'', w\<lparr>aw_redis := rest\<rparr>)
      | rs \<Rightarrow> (case f (w\<lparr>aw_redis := tl rs\<rparr>) of (a, w') \<Rightarrow> (Inr a, w')))"

definition ZAdd :: "int \<Rightarrow> int \<Rightarrow> string \<Rightarrow> ('l, string, unit) aact" where
  "ZAdd g score m = redis (\<lambda>w. ((), w\<lparr>aw_queues := (aw_queues w)(g := zadd score m (aw_queues w g))\<rparr>))"

definition ZRem :: "int \<Rightarrow> string \<Rightarrow> ('l, string, nat) aact" where
  "ZRem g m = redis (\<lambda>w. (length (aw_queues w g) - length (zrem m (aw_queues w g)),
     w\<lparr>aw_queues := (aw_queues w)(g := zrem m (aw_queues w g))\<rparr>))"

definition ZCard :: "int \<Rightarrow> ('l, string, int) aact" where
  "ZCard g = redis (\<lambda>w. (int (length (aw_queues w g)), w))"

definition ZRange :: "int \<Rightarrow> ('l, string, zset) aact" where
  "ZRange g = redis (\<lambda>w. (aw_queues w g, w))"

definition SAdd :: "int \<Rightarrow> ('l, string, unit) aact" where
  "SAdd g = redis (\<lambda>w. ((), w\<lparr>aw_active := List.insert (itoa g) (aw_active w)\<rparr>))"

definition SMembers :: "('l, string, string list) aact" where
  "SMembers = redis (\<lambda>w. (aw_active w, w))"

text \<open>\<open>SETNX key 1 ttl\<close>: an expired key is gone.\<close>

definition agentClaimTTL :: int where "agentClaimTTL = 30 * second"

definition claimed :: "gotime \<Rightarrow> int \<Rightarrow> 'l acd_world \<Rightarrow> bool" where
  "claimed t agent w \<longleftrightarrow> (case aw_claims w agent of None \<Rightarrow> False | Some e \<Rightarrow> t < e)"

definition SetNX :: "gotime \<Rightarrow> int \<Rightarrow> ('l, string, bool) aact" where
  "SetNX t agent = redis (\<lambda>w. if claimed t agent w then (False, w)
     else (True, w\<lparr>aw_claims := (aw_claims w)(agent := Some (t + agentClaimTTL))\<rparr>))"

definition DelClaim :: "int \<Rightarrow> ('l, string, unit) aact" where
  "DelClaim agent = redis (\<lambda>w. ((), w\<lparr>aw_claims := (aw_claims w)(agent := None)\<rparr>))"

definition Incr :: "int \<Rightarrow> ('l, string, int) aact" where
  "Incr g = redis (\<lambda>w. (aw_cursors w g + 1, w\<lparr>aw_cursors := (aw_cursors w)(g := aw_cursors w g + 1)\<rparr>))"

definition GetStr :: "gotime \<Rightarrow> string \<Rightarrow> ('l, string, string option) aact" where
  "GetStr t key = redis (\<lambda>w. (case aw_strings w key of
     None \<Rightarrow> None | Some (v, e) \<Rightarrow> if t < e then Some v else None, w))"

definition SetStr :: "string \<Rightarrow> string \<Rightarrow> gotime \<Rightarrow> ('l, string, unit) aact" where
  "SetStr key v e = redis (\<lambda>w. ((), w\<lparr>aw_strings := (aw_strings w)(key \<mapsto> (v, e))\<rparr>))"

section \<open>Queue members\<close>

definition scoreFor :: "int \<Rightarrow> gotime \<Rightarrow> int" where
  "scoreFor priority ts = - priority * 10 ^ 10 + unix_milli ts"

definition memberFor :: "int \<Rightarrow> gotime \<Rightarrow> string" where
  "memberFor callID enqueuedAt = itoa callID @ '':'' @ itoa (unix_milli enqueuedAt)"

text \<open>\<open>strings.IndexByte(s, ':')\<close> with the two slices around it.\<close>

fun split_colon :: "string \<Rightarrow> (string \<times> string) option" where
  "split_colon [] = None"
| "split_colon (c # cs) = (if c = CHR '':'' then Some ([], cs)
     else map_option (\<lambda>(a, b). (c # a, b)) (split_colon cs))"

definition parseMember :: "string \<Rightarrow> int \<times> int \<times> bool" where
  "parseMember member =
     (case split_colon member of
        None \<Rightarrow> (case parse_int64 member of None \<Rightarrow> (0, 0, False) | Some i \<Rightarrow> (i, 0, True))
      | Some (a, b) \<Rightarrow>
          (case parse_int64 a of
             None \<Rightarrow> (0, 0, False)
           | Some i \<Rightarrow> (case parse_int64 b of None \<Rightarrow> (i, 0, False) | Some ms \<Rightarrow> (i, ms, True))))"

section \<open>Enqueue\<close>

definition enqueue_here :: "gotime \<Rightarrow> int \<Rightarrow> int \<Rightarrow> int \<Rightarrow> ('l, acd_error, unit) aact" where
  "enqueue_here now callID g priority =
     seq_a (wrap_a AcdZAdd (ZAdd g (scoreFor priority now) (memberFor callID now)))
           (wrap_a AcdRegister (SAdd g))"

text \<open>\<open>qLen, _ := ZCard(...)\<close>: an unreadable queue counts as empty.\<close>

definition queue_length :: "int \<Rightarrow> 'l acd_world \<Rightarrow> int \<times> 'l acd_world" where
  "queue_length g w = (case ZCard g w of (Inr n, w') \<Rightarrow> (n, w') | (Inl _, w') \<Rightarrow> (0, w'))"

text \<open>
  The overflow chain is followed by recursion, with nothing that bounds it: the model is partial,
  and \<open>None\<close> means that the call does not return.
\<close>

partial_function (option) Enqueue ::
  "'l acd_config \<Rightarrow> gotime \<Rightarrow> int \<Rightarrow> int \<Rightarrow> int \<Rightarrow> 'l acd_world \<Rightarrow> ((acd_error + unit) \<times> 'l acd_world) option" where
  "Enqueue cf now callID g priority w =
     (if \<not> ac_rdb cf then Some (Inl AcdNoRedis, w)
      else case ac_group cf g of
        None \<Rightarrow> Some (enqueue_here now callID g priority w)
      | Some sg \<Rightarrow>
          if 0 < sg_MaxQueueSize sg then
            if sg_MaxQueueSize sg \<le> fst (queue_length g w) then
              (case sg_OverflowGroup sg of
                 Some backup \<Rightarrow> Enqueue cf now callID backup priority (snd (queue_length g w))
               | None \<Rightarrow> Some (Inl (AcdQueueFull g (sg_MaxQueueSize sg)), snd (queue_length g w)))
            else Some (enqueue_here now callID g priority (snd (queue_length g w)))
          else Some (enqueue_here now callID g priority w))"

section \<open>Expiry of waiting calls\<close>

definition wait_deadline :: "gotime \<Rightarrow> skill_group \<Rightarrow> int" where
  "wait_deadline now sg = unix_milli (now - sg_MaxWaitSec sg * second)"

definition expire_entry :: "'l acd_config \<Rightarrow> env \<Rightarrow> int \<Rightarrow> int \<Rightarrow> string \<Rightarrow> ('l, string, unit) aact" where
  "expire_entry cf e g deadline member =
     (case parseMember member of
        (callID, enqueuedAt, ok) \<Rightarrow>
          if \<not> ok then ignore_a (ZRem g member)
          else if enqueuedAt = 0 then ret_a ()
          else if deadline < enqueuedAt then ret_a ()
          else try_a (ZRem g member) (\<lambda>r. case r of
                 Inr (Suc _) \<Rightarrow> ignore_a (on_backend (ac_end cf e callID HangupQueueTimeout (Some HangupBySystem)))
               | _ \<Rightarrow> ret_a ()))"

primrec expire_entries ::
  "'l acd_config \<Rightarrow> (nat \<Rightarrow> env) \<Rightarrow> int \<Rightarrow> int \<Rightarrow> string list \<Rightarrow> ('l, string, unit) aact" where
  "expire_entries cf es g deadline [] = ret_a ()"
| "expire_entries cf es g deadline (m # ms) =
     seq_a (expire_entry cf (es 0) g deadline m) (expire_entries cf (\<lambda>i. es (Suc i)) g deadline ms)"

definition expireQueued ::
  "'l acd_config \<Rightarrow> gotime \<Rightarrow> (nat \<Rightarrow> env) \<Rightarrow> int \<Rightarrow> skill_group \<Rightarrow> ('l, string, unit) aact" where
  "expireQueued cf now es g sg =
     (if sg_MaxWaitSec sg \<le> 0 then ret_a ()
      else try_a (ZRange g) (\<lambda>r. case r of
             Inl _ \<Rightarrow> ret_a ()
           | Inr zs \<Rightarrow> expire_entries cf es g (wait_deadline now sg) (map z_member zs)))"

section \<open>Choosing an agent\<close>

definition familiarKey :: "int \<Rightarrow> string \<Rightarrow> string" where
  "familiarKey tenantID caller = ''acd:last_agent:'' @ itoa tenantID @ '':'' @ caller"

definition lookupFamiliarAgent :: "'l acd_config \<Rightarrow> gotime \<Rightarrow> int \<Rightarrow> ('l, string, int) aact" where
  "lookupFamiliarAgent cf now callID =
     (case ac_calls cf of
        None \<Rightarrow> ret_a 0
      | Some get \<Rightarrow> try_a (on_backend (get callID)) (\<lambda>r. case r of
          Inr (Some c) \<Rightarrow>
            if c_Caller c = [] then ret_a 0
            else try_a (GetStr now (familiarKey (c_TenantID c) (c_Caller c))) (\<lambda>v. case v of
                   Inr (Some s) \<Rightarrow> ret_a (parse_value s)
                 | _ \<Rightarrow> ret_a 0)
        | _ \<Rightarrow> ret_a 0))"

text \<open>The idle members, in the order of the membership, each with the time of its last status.\<close>

definition idle_candidates :: "int list \<Rightarrow> presence list \<Rightarrow> (int \<times> gotime) list" where
  "idle_candidates members ps = concat (map (\<lambda>a.
     (case map_of (rev (map (\<lambda>p. (p_AgentID p, p)) ps)) a of
        None \<Rightarrow> []
      | Some p \<Rightarrow> if p_Status p = PresenceIdle then [(a, p_LastStatusAt p)] else [])) members)"

fun longest_idle :: "(int \<times> gotime) \<Rightarrow> (int \<times> gotime) list \<Rightarrow> int \<times> gotime" where
  "longest_idle best [] = best"
| "longest_idle best (c # cs) = longest_idle (if snd c < snd best then c else best) cs"

definition go_mod :: "int \<Rightarrow> int \<Rightarrow> int" where
  "go_mod a b = a - b * trunc_div a b"

text \<open>\<open>rng.Intn(n)\<close> is the draw \<open>rnd\<close> modulo \<open>n\<close>; 0 means that no agent was found.\<close>

definition pickAgent ::
  "'l acd_config \<Rightarrow> gotime \<Rightarrow> nat \<Rightarrow> skill_group \<Rightarrow> int \<Rightarrow> ('l, string, int) aact" where
  "pickAgent cf now rnd sg callID =
     (case ac_members cf (sg_ID sg) of
        None \<Rightarrow> throw_a ''members''
      | Some members \<Rightarrow>
          bind_a (on_backend (ac_presence cf members)) (\<lambda>ps.
          case idle_candidates members ps of
            [] \<Rightarrow> ret_a 0
          | best # rest \<Rightarrow>
              (let cs = best # rest in
               case sg_RoutingPolicy sg of
                 RoutingPolicyRandom \<Rightarrow> ret_a (fst (cs ! (rnd mod length cs)))
               | RoutingPolicyRoundRobin \<Rightarrow> try_a (Incr (sg_ID sg)) (\<lambda>r. case r of
                     Inl _ \<Rightarrow> ret_a (fst best)
                   | Inr idx \<Rightarrow> ret_a (fst (cs ! nat (go_mod (idx - 1) (int (length cs))))))
               | RoutingPolicyFamiliar \<Rightarrow> bind_a (lookupFamiliarAgent cf now callID) (\<lambda>preferred.
                     if 0 < preferred \<and> preferred \<in> set (map fst cs) then ret_a preferred
                     else ret_a (fst (longest_idle best rest)))
               | _ \<Rightarrow> ret_a (fst (longest_idle best rest)))))"

definition tryClaim :: "gotime \<Rightarrow> int \<Rightarrow> ('l, string, bool) aact" where
  "tryClaim now agent = try_a (SetNX now agent) (\<lambda>r. ret_a (r = Inr True))"

definition releaseClaim :: "int \<Rightarrow> ('l, string, unit) aact" where
  "releaseClaim agent = ignore_a (DelClaim agent)"

section \<open>Dispatch\<close>

definition log_routed :: "int \<Rightarrow> int \<Rightarrow> gotime \<Rightarrow> ('l, string, unit) aact" where
  "log_routed callID agent now = modify_a (\<lambda>w. w\<lparr>aw_routed := aw_routed w @ [(callID, agent, now)]\<rparr>)"

definition hand_over ::
  "'l acd_config \<Rightarrow> gotime \<Rightarrow> env \<Rightarrow> int \<Rightarrow> zentry \<Rightarrow> int \<Rightarrow> int \<Rightarrow> ('l, string, unit) aact" where
  "hand_over cf now e g x callID agent =
     try_a (ZRem g (z_member x)) (\<lambda>r. case r of
       Inr (Suc _) \<Rightarrow>
         try_a (on_backend (ac_ring cf e callID agent)) (\<lambda>rung. case rung of
           Inl _ \<Rightarrow> seq_a (releaseClaim agent) (ignore_a (ZAdd g (z_score x) (z_member x)))
         | Inr _ \<Rightarrow> log_routed callID agent now)
     | _ \<Rightarrow> releaseClaim agent)"

definition dispatchOne ::
  "'l acd_config \<Rightarrow> gotime \<Rightarrow> env \<Rightarrow> nat \<Rightarrow> int \<Rightarrow> skill_group \<Rightarrow> ('l, string, unit) aact" where
  "dispatchOne cf now e rnd g sg =
     try_a (ZRange g) (\<lambda>r. case r of
       Inr (x # _) \<Rightarrow>
         (case parseMember (z_member x) of
            (callID, _, ok) \<Rightarrow>
              if \<not> ok then ignore_a (ZRem g (z_member x))
              else try_a (pickAgent cf now rnd sg callID) (\<lambda>picked. case picked of
                     Inl _ \<Rightarrow> ret_a ()
                   | Inr agent \<Rightarrow>
                       if agent = 0 then ret_a ()
                       else bind_a (tryClaim now agent) (\<lambda>mine.
                              when_a mine (hand_over cf now e g x callID agent))))
     | _ \<Rightarrow> ret_a ())"

text \<open>
  One tick: the groups of the active set that exist, in the order the iteration over the map comes
  upon them. A visit carries the readings of the clock and the random draw made for its group.
\<close>

record visit =
  v_group :: string
  v_expire :: gotime
  v_now :: gotime
  v_envs :: "nat \<Rightarrow> env"
  v_env :: env
  v_rnd :: nat

definition visit_group :: "'l acd_config \<Rightarrow> visit \<Rightarrow> ('l, string, unit) aact" where
  "visit_group cf v =
     (case parse_int64 (v_group v) of
        None \<Rightarrow> ret_a ()
      | Some g \<Rightarrow> (case ac_group cf g of
          None \<Rightarrow> ret_a ()
        | Some sg \<Rightarrow> seq_a (expireQueued cf (v_expire v) (v_envs v) g sg)
                           (dispatchOne cf (v_now v) (v_env v) (v_rnd v) g sg)))"

primrec visit_groups :: "'l acd_config \<Rightarrow> visit list \<Rightarrow> ('l, string, unit) aact" where
  "visit_groups cf [] = ret_a ()"
| "visit_groups cf (v # vs) = seq_a (visit_group cf v) (visit_groups cf vs)"

definition tick_acd :: "'l acd_config \<Rightarrow> visit list \<Rightarrow> ('l, string, unit) aact" where
  "tick_acd cf vs = try_a SMembers (\<lambda>r. case r of
     Inl _ \<Rightarrow> ret_a ()
   | Inr raws \<Rightarrow> visit_groups cf (filter (\<lambda>v. v_group v \<in> set raws) vs))"

section \<open>Affinity and workload\<close>

definition day :: int where "day = 86400 * second"

definition RememberAgent_acd ::
  "'l acd_config \<Rightarrow> gotime \<Rightarrow> int \<Rightarrow> string \<Rightarrow> int \<Rightarrow> int \<Rightarrow> ('l, string, unit) aact" where
  "RememberAgent_acd cf now tenantID caller agent ttlDays =
     (if \<not> ac_rdb cf \<or> caller = [] \<or> agent = 0 \<or> ttlDays \<le> 0 then ret_a ()
      else ignore_a (SetStr (familiarKey tenantID caller) (itoa agent) (now + ttlDays * day)))"

record media_capacity =
  mc_Media :: string
  mc_MaxSlots :: int
  mc_ActiveSlots :: int

record agent_slots =
  as_MaxConcurrent :: int
  as_MaxChatSlots :: int
  as_MaxEmailSlots :: int

definition readActiveCount :: "gotime \<Rightarrow> int \<Rightarrow> string \<Rightarrow> ('l, string, int) aact" where
  "readActiveCount now agent media =
     try_a (GetStr now (''acd:active:'' @ itoa agent @ '':'' @ media)) (\<lambda>r. case r of
       Inr (Some s) \<Rightarrow> ret_a (case parse_int64 s of None \<Rightarrow> 0 | Some n \<Rightarrow> n)
     | _ \<Rightarrow> ret_a 0)"

text \<open>The agent lookup: not wired, failed, or the row.\<close>

definition GetMediaCapacity ::
  "(int \<Rightarrow> agent_slots option) option \<Rightarrow> gotime \<Rightarrow> int \<Rightarrow> ('l, string, media_capacity list) aact" where
  "GetMediaCapacity find_agent now agentID =
     (case find_agent of
        None \<Rightarrow> throw_a ''acd: agent lookup not configured''
      | Some get \<Rightarrow> (case get agentID of
          None \<Rightarrow> throw_a ''agent''
        | Some a \<Rightarrow>
            bind_a (readActiveCount now agentID ''voice'') (\<lambda>voice.
            bind_a (readActiveCount now agentID ''chat'') (\<lambda>chat.
            bind_a (readActiveCount now agentID ''email'') (\<lambda>email.
            ret_a [\<lparr>mc_Media = ''voice'', mc_MaxSlots = (if as_MaxConcurrent a = 0 then 1 else as_MaxConcurrent a), mc_ActiveSlots = voice\<rparr>,
                   \<lparr>mc_Media = ''chat'', mc_MaxSlots = (if as_MaxChatSlots a = 0 then 5 else as_MaxChatSlots a), mc_ActiveSlots = chat\<rparr>,
                   \<lparr>mc_Media = ''email'', mc_MaxSlots = (if as_MaxEmailSlots a = 0 then 10 else as_MaxEmailSlots a), mc_ActiveSlots = email\<rparr>])))))"

definition HasCapacity :: "media_capacity \<Rightarrow> bool" where
  "HasCapacity mc \<longleftrightarrow> mc_ActiveSlots mc < mc_MaxSlots mc"

record workload_summary =
  ws_AgentID :: int
  ws_Capacities :: "media_capacity list"
  ws_TotalActive :: int
  ws_TotalMax :: int
  ws_Utilization :: rat

definition GetWorkloadSummary ::
  "(int \<Rightarrow> agent_slots option) option \<Rightarrow> gotime \<Rightarrow> int \<Rightarrow> ('l, string, workload_summary) aact" where
  "GetWorkloadSummary find_agent now agentID =
     bind_a (GetMediaCapacity find_agent now agentID) (\<lambda>caps.
       let active = sum_list (map mc_ActiveSlots caps); max_slots = sum_list (map mc_MaxSlots caps)
       in ret_a \<lparr>ws_AgentID = agentID, ws_Capacities = caps, ws_TotalActive = active, ws_TotalMax = max_slots,
                 ws_Utilization = (if 0 < max_slots then of_int active / of_int max_slots * 100 else 0)\<rparr>)"

end
