(* ===== verification/AcdQueue.thy ===== *)
theory AcdQueue
  imports Acd
begin

text \<open>
  What the queues of the dispatcher guarantee whatever the backend does: the members can be read
  back, \<open>Enqueue\<close> returns exactly when the overflow chain leads somewhere, the entries stay in order,
  and an agent is not handed two calls within the life of a claim.
\<close>

section \<open>Members\<close>

lemma split_colon_append: "CHR '':'' \<notin> set a \<Longrightarrow> split_colon (a @ CHR '':'' # b) = Some (a, b)"
  by (induction a) auto

lemma split_colon_none: "CHR '':'' \<notin> set a \<Longrightarrow> split_colon a = None"
  by (induction a) auto

lemma parseMember_memberFor_int:
  "int64 c \<Longrightarrow> int64 (unix_milli t) \<Longrightarrow> parseMember (memberFor c t) = (c, unix_milli t, True)"
  by (simp add: parseMember_def memberFor_def split_colon_append itoa_no_colon)

text \<open>
  A queue member is read back as it was written: the call and the millisecond it was enqueued.
  A bare call number, the older format, is read as a call of unknown age.
\<close>

theorem parseMember_memberFor:
  assumes "int64 callID" "int64 (unix_milli t)"
  shows "parseMember (memberFor callID t) = (callID, unix_milli t, True) \<and>
         parseMember (itoa callID) = (callID, 0, True)"
  using assms parseMember_memberFor_int by (simp add: parseMember_def split_colon_none itoa_no_colon)

theorem parseMember_memberFor_witness:
  "parseMember (memberFor (- 7) (63000000000000000000 :: int)) = (- 7, 864403200000, True) \<and>
   parseMember (itoa (- 7)) = (- 7, 0, True)"
proof -
  have "unix_milli 63000000000000000000 = 864403200000" by (simp add: unix_milli_def)
  with parseMember_memberFor [of "- 7" 63000000000000000000] show ?thesis by (simp add: int64_def)
qed

section \<open>Redis when it answers\<close>

lemma redis_up: "aw_redis w = [] \<Longrightarrow> redis f w = (case f w of (a, w') \<Rightarrow> (Inr a, w'))"
proof -
  assume *: "aw_redis w = []"
  then have w: "w\<lparr>aw_redis := []\<rparr> = w" by (cases w) simp
  show ?thesis unfolding redis_def * list.case list.sel w ..
qed

lemma queue_length_up [simp]:
  "aw_redis w = [] \<Longrightarrow> queue_length g w = (int (length (aw_queues w g)), w)"
  by (simp add: queue_length_def ZCard_def redis_up)

section \<open>Enqueue returns\<close>

text \<open>A group that passes the call on, and the group it passes it to.\<close>

definition passes_on :: "'l acd_config \<Rightarrow> 'l acd_world \<Rightarrow> int \<Rightarrow> bool" where
  "passes_on cf w g \<longleftrightarrow> (case ac_group cf g of None \<Rightarrow> False
     | Some sg \<Rightarrow> 0 < sg_MaxQueueSize sg \<and> sg_MaxQueueSize sg \<le> int (length (aw_queues w g)) \<and> sg_OverflowGroup sg \<noteq> None)"

definition backup :: "'l acd_config \<Rightarrow> int \<Rightarrow> int" where
  "backup cf g = (case ac_group cf g of None \<Rightarrow> g
     | Some sg \<Rightarrow> (case sg_OverflowGroup sg of None \<Rightarrow> g | Some h \<Rightarrow> h))"

lemma Enqueue_pass:
  assumes "ac_rdb cf" "aw_redis w = []" "passes_on cf w g"
  shows "Enqueue cf now c g p w = Enqueue cf now c (backup cf g) p w"
  using assms by (subst Enqueue.simps) (auto simp: passes_on_def backup_def split: option.splits)

lemma Enqueue_stop:
  assumes "aw_redis w = []" "\<not> passes_on cf w g"
  shows "Enqueue cf now c g p w \<noteq> None"
  using assms by (subst Enqueue.simps) (auto simp: passes_on_def split: option.splits)

lemma Enqueue_defined:
  assumes "Enqueue cf now c g p w = Some y"
  shows "ac_rdb cf \<longrightarrow> aw_redis w = [] \<longrightarrow> (\<exists>n. \<not> passes_on cf w ((backup cf ^^ n) g))"
proof (rule Enqueue.raw_induct [OF _ assms, where P = "\<lambda>cf now c g p w y.
    ac_rdb cf \<longrightarrow> aw_redis w = [] \<longrightarrow> (\<exists>n. \<not> passes_on cf w ((backup cf ^^ n) g))"], intro impI, goal_cases)
  case (1 Enq cf now c g p w y)
  show ?case
  proof (cases "passes_on cf w g")
    case False
    then show ?thesis by (intro exI [of _ 0]) simp
  next
    case True
    with 1(2,3,4) have "Enq cf now c (backup cf g) p w = Some y"
      by (auto simp: passes_on_def backup_def split: option.splits)
    from 1(1) [OF this] 1(3,4) obtain n where "\<not> passes_on cf w ((backup cf ^^ n) (backup cf g))" by blast
    then show ?thesis by (intro exI [of _ "Suc n"]) (simp add: funpow_swap1)
  qed
qed

lemma Enqueue_hops:
  assumes up: "ac_rdb cf" "aw_redis w = []" and "\<And>i. i < n \<Longrightarrow> passes_on cf w ((backup cf ^^ i) g)"
  shows "Enqueue cf now c g p w = Enqueue cf now c ((backup cf ^^ n) g) p w"
  using assms(3) by (induction n) (auto simp: Enqueue_pass [OF up])

text \<open>
  \<open>Enqueue\<close> follows the overflow groups of full queues, and it returns exactly when that chain
  reaches a group that does not pass the call on: one with room, one without a limit, one without a
  backup. It then does there what an \<open>Enqueue\<close> on that group does. Around a cycle of full groups it
  does not return.
\<close>

theorem Enqueue_terminates:
  assumes "ac_rdb cf" "aw_redis w = []"
  shows "(Enqueue cf now c g p w \<noteq> None) = (\<exists>n. \<not> passes_on cf w ((backup cf ^^ n) g)) \<and>
         (\<forall>n. (\<forall>i < n. passes_on cf w ((backup cf ^^ i) g)) \<longrightarrow>
              Enqueue cf now c g p w = Enqueue cf now c ((backup cf ^^ n) g) p w)"
proof (intro conjI iffI allI impI)
  assume "Enqueue cf now c g p w \<noteq> None"
  with assms show "\<exists>n. \<not> passes_on cf w ((backup cf ^^ n) g)" by (auto dest: Enqueue_defined)
next
  assume ex: "\<exists>n. \<not> passes_on cf w ((backup cf ^^ n) g)"
  define n where "n = (LEAST n. \<not> passes_on cf w ((backup cf ^^ n) g))"
  from LeastI_ex [OF ex] have stop: "\<not> passes_on cf w ((backup cf ^^ n) g)" by (simp add: n_def)
  have "passes_on cf w ((backup cf ^^ i) g)" if "i < n" for i
    using not_less_Least [OF that [unfolded n_def]] by simp
  from Enqueue_hops [OF assms this] have "Enqueue cf now c g p w = Enqueue cf now c ((backup cf ^^ n) g) p w" .
  with Enqueue_stop [OF assms(2) stop] show "Enqueue cf now c g p w \<noteq> None" by simp
next
  fix n assume "\<forall>i < n. passes_on cf w ((backup cf ^^ i) g)"
  then show "Enqueue cf now c g p w = Enqueue cf now c ((backup cf ^^ n) g) p w"
    by (intro Enqueue_hops [OF assms]) simp
qed


section \<open>Runs of the dispatcher\<close>

text \<open>
  Requests, ticks and what happens around them, in any order. The state carries the latest time a
  claim was made; the readings of the clock at the claims do not go back.
\<close>

inductive acd_step :: "'l acd_config \<Rightarrow> gotime \<times> 'l acd_world \<Rightarrow> gotime \<times> 'l acd_world \<Rightarrow> bool" for cf where
  step_enqueue: "Enqueue cf now c g p w = Some (r, w') \<Longrightarrow> acd_step cf (T, w) (T, w')"
| step_tick: "sorted (T # map v_now vs) \<Longrightarrow>
    acd_step cf (T, w) (last (T # map v_now vs), snd (tick_acd cf vs w))"
| step_remember: "acd_step cf (T, w) (T, snd (RememberAgent_acd cf now tenant caller agent ttl w))"
| step_backend: "acd_step cf (T, w) (T, w\<lparr>aw_backend := b\<rparr>)"
| step_redis: "acd_step cf (T, w) (T, w\<lparr>aw_redis := bs\<rparr>)"

inductive_cases acd_stepE: "acd_step cf x y"

definition acd_start :: "'l acd_world \<Rightarrow> bool" where
  "acd_start w \<longleftrightarrow> (\<forall>g. aw_queues w g = []) \<and> aw_routed w = []"

text \<open>The observations that neither the backend nor the state of the connection takes part in.\<close>

lemma inv_redis:
  assumes "\<And>w bs. I w \<Longrightarrow> I (w\<lparr>aw_redis := bs\<rparr>)" "\<And>w. I w \<Longrightarrow> I (snd (f w))"
  shows "inv_a I (redis f) (\<lambda>_. True)"
  using assms unfolding inv_a_def redis_def
  by (fastforce split: list.splits bool.splits prod.splits dest: arg_cong [of _ _ snd])

lemma inv_on_backend:
  "(\<And>w b. I w \<Longrightarrow> I (w\<lparr>aw_backend := b\<rparr>)) \<Longrightarrow> inv_a I (on_backend m) (\<lambda>_. True)"
  unfolding inv_a_def on_backend_def by (auto simp: act_simps split: prod.splits)

lemma preserves_redis:
  assumes "\<And>w bs. h (w\<lparr>aw_redis := bs\<rparr>) = h w" "\<And>w. h (snd (f w)) = h w"
  shows "preserves h (redis f)"
  unfolding preserves_def
proof
  fix w
  show "h (snd (redis f w)) = h w"
    using assms(2) [of "w\<lparr>aw_redis := tl (aw_redis w)\<rparr>"]
    by (auto simp: redis_def assms(1) split: list.splits bool.splits prod.splits)
qed

lemma preserves_on_backend:
  "(\<And>w b. h (w\<lparr>aw_backend := b\<rparr>) = h w) \<Longrightarrow> preserves h (on_backend m)"
  unfolding on_backend_def by (rule preserves_zoom_other) simp

section \<open>The queues\<close>

text \<open>An entry as \<open>Enqueue\<close> writes it; a queue in order with one entry per member.\<close>

definition enqueued :: "zentry \<Rightarrow> bool" where
  "enqueued x \<longleftrightarrow> (\<exists>p c t. x = ZEntry (scoreFor p t) (memberFor c t))"

definition queues_ok :: "'l acd_world \<Rightarrow> bool" where
  "queues_ok w \<longleftrightarrow> (\<forall>g. zset_ok (aw_queues w g) \<and> (\<forall>x \<in> set (aw_queues w g). enqueued x))"

lemma queues_ok_frame [simp]:
  "queues_ok (w\<lparr>aw_redis := bs\<rparr>) = queues_ok w" "queues_ok (w\<lparr>aw_backend := b\<rparr>) = queues_ok w"
  "queues_ok (w\<lparr>aw_claims := f\<rparr>) = queues_ok w" "queues_ok (w\<lparr>aw_active := l\<rparr>) = queues_ok w"
  "queues_ok (w\<lparr>aw_cursors := g\<rparr>) = queues_ok w" "queues_ok (w\<lparr>aw_strings := h\<rparr>) = queues_ok w"
  "queues_ok (w\<lparr>aw_routed := r\<rparr>) = queues_ok w"
  by (simp_all add: queues_ok_def)

lemma queues_ok_zrem: "queues_ok w \<Longrightarrow> queues_ok (w\<lparr>aw_queues := (aw_queues w)(g := zrem m (aw_queues w g))\<rparr>)"
  by (auto simp: queues_ok_def)

lemma queues_ok_zadd:
  "queues_ok w \<Longrightarrow> enqueued (ZEntry s m) \<Longrightarrow>
   queues_ok (w\<lparr>aw_queues := (aw_queues w)(g := zadd s m (aw_queues w g))\<rparr>)"
  by (auto simp: queues_ok_def)

lemma inv_commands [inv_intros]:
  "inv_a queues_ok (ZRem g m) (\<lambda>_. True)"
  "inv_a queues_ok (ZCard g) (\<lambda>_. True)"
  "inv_a queues_ok (SAdd g) (\<lambda>_. True)"
  "inv_a queues_ok SMembers (\<lambda>_. True)"
  "inv_a queues_ok (SetNX t a) (\<lambda>_. True)"
  "inv_a queues_ok (DelClaim a) (\<lambda>_. True)"
  "inv_a queues_ok (Incr g) (\<lambda>_. True)"
  "inv_a queues_ok (GetStr t key) (\<lambda>_. True)"
  "inv_a queues_ok (SetStr key v t) (\<lambda>_. True)"
  "inv_a queues_ok (on_backend mb) (\<lambda>_. True)"
  unfolding ZRem_def ZCard_def SAdd_def SMembers_def SetNX_def DelClaim_def Incr_def GetStr_def SetStr_def
  by (auto intro!: inv_redis inv_on_backend queues_ok_zrem)

lemma inv_ZAdd: "enqueued (ZEntry s m) \<Longrightarrow> inv_a queues_ok (ZAdd g s m) (\<lambda>_. True)"
  unfolding ZAdd_def by (auto intro!: inv_redis queues_ok_zadd)

lemma inv_ZRange: "inv_a queues_ok (ZRange g) (\<lambda>q. \<forall>x \<in> set q. enqueued x)"
  unfolding inv_a_def ZRange_def redis_def
  by (auto simp: queues_ok_def split: list.splits bool.splits)


lemma inv_cases [inv_intros]:
  "(inv_a I m Q) \<Longrightarrow> (\<And>y. inv_a I (k y) Q) \<Longrightarrow> inv_a I (case x of None \<Rightarrow> m | Some y \<Rightarrow> k y) Q"
  "(\<And>e. inv_a I (f e) Q) \<Longrightarrow> (\<And>y. inv_a I (g y) Q) \<Longrightarrow> inv_a I (case r of Inl e \<Rightarrow> f e | Inr y \<Rightarrow> g y) Q"
  "(\<And>y z. inv_a I (h y z) Q) \<Longrightarrow> inv_a I (case pr of (y, z) \<Rightarrow> h y z) Q"
  "inv_a I m Q \<Longrightarrow> (\<And>y. inv_a I (s y) Q) \<Longrightarrow> inv_a I (case n of 0 \<Rightarrow> m | Suc y \<Rightarrow> s y) Q"
  by (auto split: option.split sum.split prod.split nat.split)

lemma inv_case_list [inv_intros]:
  "inv_a I m Q \<Longrightarrow> (\<And>y ys. inv_a I (c y ys) Q) \<Longrightarrow> inv_a I (case l of [] \<Rightarrow> m | y # ys \<Rightarrow> c y ys) Q"
  by (auto split: list.split)

lemma inv_case_policy:
  "inv_a I m1 Q \<Longrightarrow> inv_a I m2 Q \<Longrightarrow> inv_a I m3 Q \<Longrightarrow> inv_a I m4 Q \<Longrightarrow> inv_a I m5 Q \<Longrightarrow>
   inv_a I (case r of RoutingPolicyRoundRobin \<Rightarrow> m1 | RoutingPolicyLeastRecent \<Rightarrow> m2 | RoutingPolicyRandom \<Rightarrow> m3
      | RoutingPolicySkillWeight \<Rightarrow> m4 | RoutingPolicyFamiliar \<Rightarrow> m5) Q"
  by (cases r) simp_all

lemma inv_expire_entries [inv_intros]: "inv_a queues_ok (expire_entries cf es g d ms) (\<lambda>_. True)"
  by (induction ms arbitrary: es)
    (simp_all, (rule inv_intros TrueI | simp only: expire_entry_def)+)

lemma inv_expireQueued [inv_intros]: "inv_a queues_ok (expireQueued cf now es g sg) (\<lambda>_. True)"
  unfolding expireQueued_def by (rule inv_ZRange inv_intros TrueI)+

lemma inv_lookupFamiliarAgent [inv_intros]: "inv_a queues_ok (lookupFamiliarAgent cf now c) (\<lambda>_. True)"
  unfolding lookupFamiliarAgent_def by (rule TrueI inv_intros)+

lemma inv_pickAgent [inv_intros]: "inv_a queues_ok (pickAgent cf now rnd sg c) (\<lambda>_. True)"
  unfolding pickAgent_def Let_def by (rule TrueI inv_intros inv_case_policy)+

lemma inv_tryClaim [inv_intros]: "inv_a queues_ok (tryClaim t a) (\<lambda>_. True)"
  unfolding tryClaim_def by (rule inv_intros TrueI)+

lemma inv_hand_over: "enqueued x \<Longrightarrow> inv_a queues_ok (hand_over cf t e g x c a) (\<lambda>_. True)"
  unfolding hand_over_def releaseClaim_def log_routed_def
  by (rule inv_ZAdd inv_intros TrueI | simp)+

lemma inv_dispatchOne [inv_intros]: "inv_a queues_ok (dispatchOne cf now e rnd g sg) (\<lambda>_. True)"
  unfolding dispatchOne_def
  by (rule inv_try [OF inv_ZRange]) (auto intro!: inv_intros inv_hand_over split: sum.split list.split prod.split)

lemma inv_visit_groups [inv_intros]: "inv_a queues_ok (visit_groups cf vs) (\<lambda>_. True)"
  by (induction vs) (simp_all add: visit_group_def, (rule inv_intros TrueI | assumption)+)

lemma inv_tick: "inv_a queues_ok (tick_acd cf vs) (\<lambda>_. True)"
  unfolding tick_acd_def by (rule inv_intros TrueI)+

lemma inv_enqueue_here: "inv_a queues_ok (enqueue_here now c g p) (\<lambda>_. True)"
  unfolding enqueue_here_def
  by (rule inv_seq inv_wrap inv_ZAdd inv_commands | force simp: enqueued_def)+

lemma queue_length_ok: "queues_ok w \<Longrightarrow> queues_ok (snd (queue_length g w))"
  using inv_snd [OF inv_commands(2), of w g]
  by (auto simp: queue_length_def split: sum.splits prod.splits)

lemma Enqueue_queues_ok:
  assumes "Enqueue cf now c g p w = Some y"
  shows "queues_ok w \<longrightarrow> queues_ok (snd y)"
proof (rule Enqueue.raw_induct [OF _ assms, where P = "\<lambda>cf now c g p w y. queues_ok w \<longrightarrow> queues_ok (snd y)"],
    intro impI, goal_cases)
  case (1 Enq cf now c g p w y)
  note here = inv_snd [OF inv_enqueue_here, of _ now c g p] and card = queue_length_ok [OF 1(3), of g]
  show ?case
    using 1(2,3) here card 1(1) [of cf now c _ p "snd (queue_length g w)" y]
    by (auto split: if_splits option.splits)
qed

lemma acd_step_queues: "acd_step cf x y \<Longrightarrow> queues_ok (snd x) \<Longrightarrow> queues_ok (snd y)"
proof (induction rule: acd_step.induct)
  case (step_enqueue now c g p w r w' T)
  then show ?case using Enqueue_queues_ok [of cf now c g p w "(r, w')"] by simp
next
  case (step_tick T vs w)
  then show ?case using inv_snd [OF inv_tick] by simp
next
  case (step_remember T w now tenant caller agent ttl)
  have "inv_a queues_ok (RememberAgent_acd cf now tenant caller agent ttl) (\<lambda>_. True)"
    unfolding RememberAgent_acd_def by (rule inv_intros TrueI)+
  with step_remember show ?case using inv_snd by simp
qed simp_all

lemma sorted_nth_less: "sorted q \<Longrightarrow> i < length q \<Longrightarrow> j < length q \<Longrightarrow> q ! i < q ! j \<Longrightarrow> i < j"
  using sorted_nth_mono [of q j i] by (metis leD linorder_not_less)

text \<open>
  C9. Along any run the queue of a group holds each member once, every entry is one an \<open>Enqueue\<close>
  wrote, and the entries stand in the order they are served in: a call comes before another when
  its priority exceeds the other's by more than their enqueue times differ in units of 10^10
  milliseconds (116 days), so calls of one priority are served first come, first served.
\<close>

theorem queues_in_order:
  assumes "(acd_step cf)\<^sup>*\<^sup>* (T0, w0) (T, w)" "acd_start w0"
  shows "distinct (map z_member (aw_queues w g)) \<and> (\<forall>x \<in> set (aw_queues w g). enqueued x) \<and>
     (\<forall>i j p c t p' c' t'. i < length (aw_queues w g) \<longrightarrow> j < length (aw_queues w g) \<longrightarrow>
        aw_queues w g ! i = ZEntry (scoreFor p t) (memberFor c t) \<longrightarrow>
        aw_queues w g ! j = ZEntry (scoreFor p' t') (memberFor c' t') \<longrightarrow>
        unix_milli t - unix_milli t' < (p - p') * 10 ^ 10 \<longrightarrow> i < j)"
proof -
  have "queues_ok w0" using assms(2) by (simp add: acd_start_def queues_ok_def)
  with assms(1) have "queues_ok w"
    by (induction "(T0, w0)" "(T, w)" arbitrary: T w rule: rtranclp.induct) (auto dest: acd_step_queues)
  then have *: "zset_ok (aw_queues w g)" "\<forall>x \<in> set (aw_queues w g). enqueued x"
    by (simp_all add: queues_ok_def)
  have "i < j" if "i < length (aw_queues w g)" "j < length (aw_queues w g)"
     "aw_queues w g ! i = ZEntry (scoreFor p t) (memberFor c t)"
     "aw_queues w g ! j = ZEntry (scoreFor p' t') (memberFor c' t')"
     "unix_milli t - unix_milli t' < (p - p') * 10 ^ 10" for i j p c t p' c' t'
  proof (rule sorted_nth_less [OF _ that(1,2)])
    show "sorted (aw_queues w g)" using *(1) by (simp add: zset_ok_def)
    show "aw_queues w g ! i < aw_queues w g ! j"
      using that(5) unfolding that(3,4) by (simp add: less_zentry_def scoreFor_def algebra_simps)
  qed
  with * show ?thesis by (simp add: zset_ok_def)
qed


section \<open>Claims\<close>

definition claim_view :: "'l acd_world \<Rightarrow> (int \<Rightarrow> gotime option) \<times> (int \<times> int \<times> gotime) list" where
  "claim_view w = (aw_claims w, aw_routed w)"

lemma claim_view_frame [simp]:
  "claim_view (w\<lparr>aw_redis := bs\<rparr>) = claim_view w" "claim_view (w\<lparr>aw_backend := b\<rparr>) = claim_view w"
  "claim_view (w\<lparr>aw_queues := q\<rparr>) = claim_view w" "claim_view (w\<lparr>aw_active := l\<rparr>) = claim_view w"
  "claim_view (w\<lparr>aw_cursors := g\<rparr>) = claim_view w" "claim_view (w\<lparr>aw_strings := h\<rparr>) = claim_view w"
  by (simp_all add: claim_view_def)

lemma claim_frame [frame_intros]:
  "preserves claim_view (ZAdd g s m)" "preserves claim_view (ZRem g m)" "preserves claim_view (ZCard g)"
  "preserves claim_view (ZRange g)" "preserves claim_view (SAdd g)" "preserves claim_view SMembers"
  "preserves claim_view (Incr g)" "preserves claim_view (GetStr t key)" "preserves claim_view (SetStr key v t)"
  "preserves claim_view (on_backend mb)"
  unfolding ZAdd_def ZRem_def ZCard_def ZRange_def SAdd_def SMembers_def Incr_def GetStr_def SetStr_def
  by (rule preserves_redis preserves_on_backend; simp)+

lemma frame_cases [frame_intros]:
  "preserves h m \<Longrightarrow> (\<And>y. preserves h (k y)) \<Longrightarrow> preserves h (case x of None \<Rightarrow> m | Some y \<Rightarrow> k y)"
  "(\<And>e. preserves h (f e)) \<Longrightarrow> (\<And>y. preserves h (g y)) \<Longrightarrow> preserves h (case r of Inl e \<Rightarrow> f e | Inr y \<Rightarrow> g y)"
  "(\<And>y z. preserves h (i y z)) \<Longrightarrow> preserves h (case pr of (y, z) \<Rightarrow> i y z)"
  "preserves h m \<Longrightarrow> (\<And>y. preserves h (s y)) \<Longrightarrow> preserves h (case n of 0 \<Rightarrow> m | Suc y \<Rightarrow> s y)"
  "preserves h m' \<Longrightarrow> (\<And>y ys. preserves h (c y ys)) \<Longrightarrow> preserves h (case l of [] \<Rightarrow> m' | y # ys \<Rightarrow> c y ys)"
  by (auto split: option.split sum.split prod.split nat.split list.split)

lemma frame_policy:
  "preserves h m1 \<Longrightarrow> preserves h m2 \<Longrightarrow> preserves h m3 \<Longrightarrow> preserves h m4 \<Longrightarrow> preserves h m5 \<Longrightarrow>
   preserves h (case r of RoutingPolicyRoundRobin \<Rightarrow> m1 | RoutingPolicyLeastRecent \<Rightarrow> m2 | RoutingPolicyRandom \<Rightarrow> m3
      | RoutingPolicySkillWeight \<Rightarrow> m4 | RoutingPolicyFamiliar \<Rightarrow> m5)"
  by (cases r) simp_all

lemma claim_frame_expire [frame_intros]: "preserves claim_view (expireQueued cf now es g sg)"
proof -
  have each: "preserves claim_view (expire_entries cf es g d ms)" for es d ms
    by (induction ms arbitrary: es) (simp_all, (rule frame_intros | simp only: expire_entry_def)+)
  show ?thesis unfolding expireQueued_def by (rule frame_intros each)+
qed

lemma claim_frame_pick [frame_intros]: "preserves claim_view (pickAgent cf now rnd sg c)"
  unfolding pickAgent_def lookupFamiliarAgent_def Let_def by (rule frame_intros frame_policy)+

text \<open>
  A call handed to an agent is followed by the life of the claim, so hand-overs to one agent are
  that far apart.
\<close>

definition apart :: "int \<times> int \<times> gotime \<Rightarrow> int \<times> int \<times> gotime \<Rightarrow> bool" where
  "apart x y \<longleftrightarrow> fst (snd x) = fst (snd y) \<longrightarrow> snd (snd x) + agentClaimTTL \<le> snd (snd y)"

definition claims_ok :: "gotime \<Rightarrow> 'l acd_world \<Rightarrow> bool" where
  "claims_ok T w \<longleftrightarrow> sorted_wrt apart (aw_routed w) \<and>
     (\<forall>(c, a, t) \<in> set (aw_routed w). t + agentClaimTTL \<le> T \<or> (\<exists>e. aw_claims w a = Some e \<and> t + agentClaimTTL \<le> e))"

definition claim_held :: "gotime \<Rightarrow> int \<Rightarrow> 'l acd_world \<Rightarrow> bool" where
  "claim_held T a w \<longleftrightarrow> claims_ok T w \<and> aw_claims w a = Some (T + agentClaimTTL) \<and>
     (\<forall>(c, b, t) \<in> set (aw_routed w). b = a \<longrightarrow> t + agentClaimTTL \<le> T)"

lemma claims_ok_cong: "claim_view v = claim_view w \<Longrightarrow> claims_ok T v = claims_ok T w"
  and claim_held_cong: "claim_view v = claim_view w \<Longrightarrow> claim_held T a v = claim_held T a w"
  by (simp_all add: claim_view_def claims_ok_def claim_held_def)

lemma claims_ok_later: "claims_ok T w \<Longrightarrow> T \<le> T' \<Longrightarrow> claims_ok T' w"
  by (fastforce simp: claims_ok_def)

lemma claims_ok_frame: "preserves claim_view m \<Longrightarrow> claims_ok T w \<Longrightarrow> claims_ok T (snd (m w))"
  by (metis claims_ok_cong preserves_def)

lemma claims_ok_release:
  "claim_held T a w \<Longrightarrow> claims_ok T (snd (releaseClaim a w))"
  by (fastforce simp: releaseClaim_def act_simps DelClaim_def redis_def claims_ok_def claim_held_def
      split: list.splits bool.splits)

lemma claims_ok_log: "claim_held T a w \<Longrightarrow> claims_ok T (snd (log_routed c a T w))"
  by (fastforce simp: log_routed_def act_simps claims_ok_def claim_held_def sorted_wrt_append apart_def)

lemma hand_over_claims:
  assumes "claim_held T a w"
  shows "claims_ok T (snd (hand_over cf T e g x c a w))"
proof -
  obtain r w1 where z: "ZRem g (z_member x) w = (r, w1)" by fastforce
  with assms have w1: "claim_held T a w1" by (metis claim_frame(2) claim_held_cong preservesD)
  obtain u w2 where b: "on_backend (ac_ring cf e c a) w1 = (u, w2)" by fastforce
  with w1 have w2: "claim_held T a w2" by (metis claim_frame(10) claim_held_cong preservesD)
  have requeued: "claims_ok T (snd (seq_a (releaseClaim a) (ignore_a (ZAdd g (z_score x) (z_member x))) w2))"
    using claims_ok_frame [OF claim_frame(1) claims_ok_release [OF w2]]
    by (simp add: releaseClaim_def act_simps)
  show ?thesis
    using requeued claims_ok_log [OF w2] claims_ok_release [OF w1]
    by (simp add: hand_over_def act_simps z b split: sum.split nat.split)
qed

lemma claim_taken:
  assumes "claims_ok T w" "tryClaim T a w = (Inr mine, w1)"
  shows "claims_ok T w1 \<and> (mine \<longrightarrow> claim_held T a w1)"
  using assms
  by (fastforce simp: tryClaim_def act_simps SetNX_def redis_def claims_ok_def claim_held_def claimed_def
      split: list.splits bool.splits option.splits if_splits)

lemma tryClaim_Inr: "\<exists>mine w1. tryClaim T a w = (Inr mine, w1)"
  by (auto simp: tryClaim_def act_simps split: prod.split)

lemma dispatchOne_claims:
  assumes "claims_ok T w"
  shows "claims_ok T (snd (dispatchOne cf T e rnd g sg w))"
proof -
  obtain r w1 where z: "ZRange g w = (r, w1)" by fastforce
  have w1: "claims_ok T w1" using claims_ok_frame [OF claim_frame(4) assms, of g] z by simp
  show ?thesis
  proof (cases "\<exists>x q c ms. r = Inr (x # q) \<and> parseMember (z_member x) = (c, ms, True)")
    case False
    then show ?thesis
      using z w1 claims_ok_frame [OF claim_frame(2) w1]
      by (fastforce simp: dispatchOne_def act_simps split: sum.split list.split prod.split)
  next
    case True
    then obtain x q c ms where r: "r = Inr (x # q)" "parseMember (z_member x) = (c, ms, True)" by blast
    obtain p w2 where p: "pickAgent cf T rnd sg c w1 = (p, w2)" by fastforce
    have w2: "claims_ok T w2" using claims_ok_frame [OF claim_frame_pick w1, of cf T rnd sg c] p by simp
    show ?thesis
    proof (cases p)
      case (Inl err)
      with z r p w2 show ?thesis by (simp add: dispatchOne_def act_simps)
    next
      case (Inr a)
      obtain mine w3 where t: "tryClaim T a w2 = (Inr mine, w3)" using tryClaim_Inr by blast
      from claim_taken [OF w2 t] hand_over_claims [of T a w3 cf e g x c] z r p w2 Inr t
      show ?thesis by (simp add: dispatchOne_def act_simps)
    qed
  qed
qed


lemma visit_group_claims:
  assumes "claims_ok (v_now v) w"
  shows "claims_ok (v_now v) (snd (visit_group cf v w))"
proof -
  have "claims_ok (v_now v) (snd (seq_a (expireQueued cf (v_expire v) (v_envs v) g sg)
      (dispatchOne cf (v_now v) (v_env v) (v_rnd v) g sg) w))" for g sg
  proof (cases "expireQueued cf (v_expire v) (v_envs v) g sg w")
    case (Pair r w1)
    with claims_ok_frame [OF claim_frame_expire assms, of cf "v_expire v" "v_envs v" g sg]
    have "claims_ok (v_now v) w1" by simp
    with Pair dispatchOne_claims [OF this] show ?thesis by (simp add: act_simps split: sum.split)
  qed
  with assms show ?thesis by (simp add: visit_group_def act_simps split: option.split)
qed

lemma le_last: "sorted (T # ts) \<Longrightarrow> T \<le> last (T # ts)"
  by (cases ts rule: rev_cases) auto

lemma visit_groups_claims:
  assumes "sorted (T # map v_now vs)" "claims_ok T w"
  shows "claims_ok (last (T # map v_now vs)) (snd (visit_groups cf vs w))"
  using assms
proof (induction vs arbitrary: T w)
  case (Cons v vs)
  obtain r w1 where v: "visit_group cf v w = (r, w1)" by fastforce
  from Cons.prems have "claims_ok (v_now v) w" by (auto intro: claims_ok_later)
  from visit_group_claims [OF this, of cf] v have w1: "claims_ok (v_now v) w1" by simp
  have later: "v_now v \<le> last (v_now v # map v_now vs)"
    using Cons.prems(1) by (intro le_last) simp
  from Cons.IH [OF _ w1] Cons.prems(1)
  have "claims_ok (last (v_now v # map v_now vs)) (snd (visit_groups cf vs w1))" by simp
  with v claims_ok_later [OF w1 later] show ?case by (auto simp: act_simps split: sum.split if_splits)
qed (simp add: act_simps)

lemma tick_claims:
  assumes "sorted (T # map v_now vs)" "claims_ok T w"
  shows "claims_ok (last (T # map v_now vs)) (snd (tick_acd cf vs w))"
proof -
  obtain r w1 where s: "SMembers w = (r, w1)" by fastforce
  have w1: "claims_ok T w1" using claims_ok_frame [OF claim_frame(6) assms(2)] s by simp
  have le: "T \<le> last (T # map v_now vs)"
    by (rule le_last [OF assms(1)])
  show ?thesis
  proof (cases r)
    case (Inl e)
    with s claims_ok_later [OF w1 le] show ?thesis by (simp add: tick_acd_def act_simps)
  next
    case (Inr raws)
    let ?vs = "filter (\<lambda>v. v_group v \<in> set raws) vs"
    have sub: "sorted (T # map v_now ?vs)" using assms(1) by (auto intro: sorted_filter)
    have "last (T # map v_now ?vs) \<le> last (T # map v_now vs)"
      using assms(1) by (induction vs arbitrary: T) auto
    from claims_ok_later [OF visit_groups_claims [OF sub w1] this]
    have "claims_ok (last (T # map v_now vs)) (snd (visit_groups cf ?vs w1))" .
    moreover have "tick_acd cf vs w = visit_groups cf ?vs w1"
      using Inr s by (simp add: tick_acd_def act_simps)
    ultimately show ?thesis by metis
  qed
qed

lemma Enqueue_claim_view:
  assumes "Enqueue cf now c g p w = Some y"
  shows "claim_view (snd y) = claim_view w"
proof (rule Enqueue.raw_induct [OF _ assms, where P = "\<lambda>cf now c g p w y. claim_view (snd y) = claim_view w"],
    goal_cases)
  case (1 Enq cf now c g p w y)
  have here: "preserves claim_view (enqueue_here now c g p)"
    unfolding enqueue_here_def by (rule frame_intros)+
  have card: "claim_view (snd (queue_length g w)) = claim_view w"
    by (cases "ZCard g w"; cases "fst (ZCard g w)")
      (auto simp: queue_length_def dest: preservesD [OF claim_frame(3)])
  show ?case
    using 1(2) here card 1(1) [of cf now c _ p "snd (queue_length g w)" y]
    by (auto simp: preserves_def split: if_splits option.splits)
qed

lemma acd_step_claims: "acd_step cf x y \<Longrightarrow> claims_ok (fst x) (snd x) \<Longrightarrow> claims_ok (fst y) (snd y)"
proof (induction rule: acd_step.induct)
  case (step_enqueue now c g p w r w' T)
  from claims_ok_cong [OF Enqueue_claim_view [OF step_enqueue(1)]] step_enqueue(2) show ?case by simp
next
  case (step_tick T vs w)
  from tick_claims [OF step_tick(1)] step_tick(2) show ?case unfolding fst_conv snd_conv .
next
  case (step_remember T w now tenant caller agent ttl)
  have "preserves claim_view (RememberAgent_acd cf now tenant caller agent ttl)"
    unfolding RememberAgent_acd_def by (rule frame_intros)+
  from claims_ok_frame [OF this] step_remember show ?case by simp
next
  case (step_backend T w b)
  then show ?case by (simp add: claims_ok_cong [OF claim_view_frame(2)])
next
  case (step_redis T w bs)
  then show ?case by (simp add: claims_ok_cong [OF claim_view_frame(1)])
qed

text \<open>
  Along any run of the dispatcher, with the clock not going back, two calls handed to the same
  agent are handed over at least the life of a claim (30 seconds) apart: an agent is never rung
  for two calls at once, even when its presence is read as idle in between.
\<close>

theorem hand_overs_apart:
  assumes "(acd_step cf)\<^sup>*\<^sup>* (T0, w0) (T, w)" "acd_start w0" "i < j" "j < length (aw_routed w)"
    "aw_routed w ! i = (c, agent, t)" "aw_routed w ! j = (c', agent, t')"
  shows "t + 30 * second \<le> t'"
proof -
  have "claims_ok T0 w0" using assms(2) by (simp add: acd_start_def claims_ok_def)
  with assms(1) have "claims_ok T w"
    by (induction "(T0, w0)" "(T, w)" arbitrary: T w rule: rtranclp.induct) (auto dest: acd_step_claims)
  then have "sorted_wrt apart (aw_routed w)" by (simp add: claims_ok_def)
  from sorted_wrt_nth_less [OF this assms(3,4)] assms(5,6) show ?thesis
    by (simp add: apart_def agentClaimTTL_def)
qed

end
