(* ===== verification/AcdProps.thy ===== *)
theory AcdProps
  imports AcdQueue LifecycleProps
begin

text \<open>
  The dispatcher over a backend that keeps the laws of \<open>LifecycleService\<close>, stated as a locale, and
  over the model of \<open>lifecycle.Service\<close>, which interprets it: what expiry does to a queue, that a
  dispatch accounts for every queued call, and that a call at the head reaches an idle agent.
\<close>

section \<open>Expiry\<close>

definition due :: "int \<Rightarrow> string \<Rightarrow> bool" where
  "due deadline m \<longleftrightarrow> (case parseMember m of (c, ms, ok) \<Rightarrow> \<not> ok \<or> (ms \<noteq> 0 \<and> ms \<le> deadline))"

text \<open>What the backend is asked to do: each well-formed due entry is ended once, in queue order.\<close>

primrec end_due :: "'l acd_config \<Rightarrow> (nat \<Rightarrow> env) \<Rightarrow> int \<Rightarrow> string list \<Rightarrow> 'l \<Rightarrow> 'l" where
  "end_due cf es d [] b = b"
| "end_due cf es d (m # ms) b = end_due cf (\<lambda>i. es (Suc i)) d ms
     (case parseMember m of (c, _, ok) \<Rightarrow>
        if ok \<and> due d m then snd (ac_end cf (es 0) c HangupQueueTimeout (Some HangupBySystem) b) else b)"

lemma ZRem_up:
  "aw_redis w = [] \<Longrightarrow> ZRem g m w = (Inr (length (aw_queues w g) - length (zrem m (aw_queues w g))),
     w\<lparr>aw_queues := (aw_queues w)(g := zrem m (aw_queues w g))\<rparr>)"
  by (simp add: ZRem_def redis_up)

lemma zrem_removes: "m \<in> z_member ` set q \<Longrightarrow> \<exists>n. length q - length (zrem m q) = Suc n"
proof -
  assume "m \<in> z_member ` set q"
  then have "length (zrem m q) < length q" by (auto simp: zrem_def length_filter_less)
  then show ?thesis by (metis Suc_diff_Suc)
qed

lemma on_backend_eq: "on_backend m w = (fst (m (aw_backend w)), w\<lparr>aw_backend := snd (m (aw_backend w))\<rparr>)"
  by (simp add: on_backend_def act_run split: prod.split)

lemma expire_entry_up:
  assumes "aw_redis w = []" "m \<in> z_member ` set (aw_queues w g)"
  shows "expire_entry cf e g d m w = (Inr (),
     if due d m then w\<lparr>aw_queues := (aw_queues w)(g := zrem m (aw_queues w g)),
        aw_backend := end_due cf (\<lambda>_. e) d [m] (aw_backend w)\<rparr> else w)"
proof -
  obtain c ms ok where p: "parseMember m = (c, ms, ok)" by (cases "parseMember m") auto
  from zrem_removes [OF assms(2)] obtain n where "length (aw_queues w g) - length (zrem m (aw_queues w g)) = Suc n" ..
  with p show ?thesis
    by (auto simp: expire_entry_def due_def act_run ZRem_up [OF assms(1)] on_backend_eq)
qed

lemma fun_upd_fold: "(\<lambda>a. if a = g then X else f a) = f(g := X)"
  by auto

lemma expire_entries_up:
  assumes "aw_redis w = []" "distinct ms" "set ms \<subseteq> z_member ` set (aw_queues w g)"
  shows "expire_entries cf es g d ms w = (Inr (), w\<lparr>
     aw_queues := (aw_queues w)(g := filter (\<lambda>x. \<not> (z_member x \<in> set ms \<and> due d (z_member x))) (aw_queues w g)),
     aw_backend := end_due cf es d ms (aw_backend w)\<rparr>)"
  using assms
proof (induction ms arbitrary: es w)
  case Nil
  then show ?case by (simp add: act_run)
next
  case (Cons m ms)
  let ?w = "if due d m then w\<lparr>aw_queues := (aw_queues w)(g := zrem m (aw_queues w g)),
        aw_backend := end_due cf (\<lambda>_. es 0) d [m] (aw_backend w)\<rparr> else w"
  from Cons.prems have m: "expire_entry cf (es 0) g d m w = (Inr (), ?w)" by (intro expire_entry_up) auto
  have sub: "set ms \<subseteq> z_member ` set (aw_queues ?w g)"
  proof
    fix k assume k: "k \<in> set ms"
    with Cons.prems obtain x where "x \<in> set (aw_queues w g)" "k = z_member x" by auto
    moreover from k Cons.prems(2) have "k \<noteq> m" by auto
    ultimately show "k \<in> z_member ` set (aw_queues ?w g)" by (auto split: if_splits)
  qed
  have ih: "expire_entries cf (\<lambda>i. es (Suc i)) g d ms ?w = (Inr (), ?w\<lparr>
     aw_queues := (aw_queues ?w)(g := filter (\<lambda>x. \<not> (z_member x \<in> set ms \<and> due d (z_member x))) (aw_queues ?w g)),
     aw_backend := end_due cf (\<lambda>i. es (Suc i)) d ms (aw_backend ?w)\<rparr>)"
    using Cons.prems sub by (intro Cons.IH) auto
  show ?case
  proof (cases "due d m")
    case True
    have eq: "filter (\<lambda>x. \<not> (z_member x \<in> set (m # ms) \<and> due d (z_member x))) (aw_queues w g) =
      filter (\<lambda>x. z_member x \<noteq> m \<and> (z_member x \<in> set ms \<longrightarrow> \<not> due d (z_member x))) (aw_queues w g)"
      using True by (intro filter_cong) auto
    from True m ih show ?thesis unfolding eq by (auto simp: act_run zrem_def fun_upd_fold split: prod.split)
  next
    case False
    have "filter (\<lambda>x. \<not> (z_member x \<in> set (m # ms) \<and> due d (z_member x))) (aw_queues w g) =
      filter (\<lambda>x. \<not> (z_member x \<in> set ms \<and> due d (z_member x))) (aw_queues w g)"
      using False by (intro filter_cong) auto
    with False m ih show ?thesis by (auto simp: act_run fun_upd_fold split: prod.split)
  qed
qed

lemma expireQueued_up:
  assumes "aw_redis w = []" "zset_ok (aw_queues w g)" "0 < sg_MaxWaitSec sg"
  shows "expireQueued cf now es g sg w = (Inr (), w\<lparr>
     aw_queues := (aw_queues w)(g := filter (\<lambda>x. \<not> due (wait_deadline now sg) (z_member x)) (aw_queues w g)),
     aw_backend := end_due cf es (wait_deadline now sg) (map z_member (aw_queues w g)) (aw_backend w)\<rparr>)"
proof -
  have z: "ZRange g w = (Inr (aw_queues w g), w)" by (simp add: ZRange_def redis_up assms(1))
  have "distinct (map z_member (aw_queues w g))" using assms(2) by (simp add: zset_ok_def)
  from expire_entries_up [OF assms(1) this, of g cf es "wait_deadline now sg"]
  have e: "expire_entries cf es g (wait_deadline now sg) (map z_member (aw_queues w g)) w = (Inr (), w\<lparr>
     aw_queues := (aw_queues w)(g := filter (\<lambda>x. \<not> due (wait_deadline now sg) (z_member x)) (aw_queues w g)),
     aw_backend := end_due cf es (wait_deadline now sg) (map z_member (aw_queues w g)) (aw_backend w)\<rparr>)"
    by (simp cong: filter_cong)
  with assms(3) z show ?thesis by (simp add: expireQueued_def act_run)
qed

text \<open>
  With Redis answering, \<open>expireQueued\<close> on a group with a waiting limit leaves exactly the
  entries that are not due, in their order, whatever the backend replies; every well-formed due
  entry is ended once, and other queues, claims and cursors are as before. An entry whose \<open>EndCall\<close> fails is gone
  all the same.
\<close>

theorem expireQueued_exact:
  assumes "aw_redis w = []" "zset_ok (aw_queues w g)" "0 < sg_MaxWaitSec sg"
  shows "expireQueued cf now es g sg w = (Inr (), w\<lparr>
     aw_queues := (aw_queues w)(g := filter (\<lambda>x. \<not> due (wait_deadline now sg) (z_member x)) (aw_queues w g)),
     aw_backend := end_due cf es (wait_deadline now sg) (map z_member (aw_queues w g)) (aw_backend w)\<rparr>)"
  using assms by (rule expireQueued_up)

section \<open>One dispatch, with Redis answering\<close>

text \<open>\<open>quiet J m\<close>: an action that neither touches queues and claims nor leaves \<open>J\<close>.\<close>

definition calm :: "(int \<Rightarrow> zset) \<Rightarrow> (int \<Rightarrow> gotime option) \<Rightarrow> (int \<times> int \<times> gotime) list \<Rightarrow> ('l \<Rightarrow> bool) \<Rightarrow> 'l acd_world \<Rightarrow> bool" where
  "calm Q C L J w \<longleftrightarrow> aw_redis w = [] \<and> aw_queues w = Q \<and> aw_claims w = C \<and> aw_routed w = L \<and> J (aw_backend w)"

definition lookups_keep :: "'l acd_config \<Rightarrow> ('l \<Rightarrow> bool) \<Rightarrow> bool" where
  "lookups_keep cf J \<longleftrightarrow> (\<forall>ids. inv_a J (ac_presence cf ids) (\<lambda>_. True)) \<and>
     (\<forall>get c. ac_calls cf = Some get \<longrightarrow> inv_a J (get c) (\<lambda>_. True))"

lemma calm_redis:
  "(\<And>w. calm Q C L J w \<Longrightarrow> calm Q C L J (snd (f w))) \<Longrightarrow> inv_a (calm Q C L J) (redis f) (\<lambda>_. True)"
proof -
  assume step: "\<And>w. calm Q C L J w \<Longrightarrow> calm Q C L J (snd (f w))"
  have "snd (redis f w) = snd (f w)" if "calm Q C L J w" for w
    using that by (simp add: calm_def redis_up split: prod.split)
  with step show ?thesis unfolding inv_a_def by (metis snd_conv)
qed

lemma calm_backend:
  "inv_a J m (\<lambda>_. True) \<Longrightarrow> inv_a (calm Q C L J) (on_backend m) (\<lambda>_. True)"
  unfolding on_backend_def by (rule inv_zoom) (auto simp: calm_def)

lemma calm_reads: "inv_a (calm Q C L J) (GetStr t key) (\<lambda>_. True)" "inv_a (calm Q C L J) (Incr g) (\<lambda>_. True)"
  unfolding GetStr_def Incr_def by (rule calm_redis; simp add: calm_def)+

lemma calm_pickAgent:
  assumes "lookups_keep cf J"
  shows "inv_a (calm Q C L J) (pickAgent cf now rnd sg c) (\<lambda>_. True)"
proof -
  have find: "inv_a (calm Q C L J) (lookupFamiliarAgent cf now c) (\<lambda>_. True)"
    using assms unfolding lookupFamiliarAgent_def lookups_keep_def
    by (cases "ac_calls cf")
      (auto intro!: inv_ret inv_try [where R = "\<lambda>_. True"] calm_backend calm_reads split: sum.split option.split)
  have presence: "inv_a (calm Q C L J) (on_backend (ac_presence cf ids)) (\<lambda>_. True)" for ids
    using assms by (auto simp: lookups_keep_def intro: calm_backend)
  show ?thesis
    unfolding pickAgent_def Let_def
    by (rule TrueI presence find calm_reads inv_intros inv_case_policy)+
qed

lemma longest_idle_mem: "longest_idle b cs \<in> set (b # cs)"
proof (induction cs arbitrary: b)
  case (Cons c cs)
  from Cons.IH [of "if snd c < snd b then c else b"] show ?case by (auto split: if_splits)
qed simp

lemma go_mod_nonneg: "0 \<le> a \<Longrightarrow> 0 < b \<Longrightarrow> go_mod a b = a mod b"
  by (cases "a = 0") (auto simp: go_mod_def trunc_div_def minus_mult_div_eq_mod)

lemma cursor_index: "0 \<le> i \<Longrightarrow> 0 < n \<Longrightarrow> nat (go_mod i (int n)) < n"
  by (simp add: go_mod_nonneg nat_less_iff)

lemma pickAgent_chosen:
  assumes "pickAgent cf now rnd sg c w = (Inr a, w')"
    and ms: "ac_members cf (sg_ID sg) = Some ms" and ps: "ac_presence cf ms (aw_backend w) = (Inr ps, b)"
    and "idle_candidates ms ps \<noteq> []" and "0 \<le> aw_cursors w (sg_ID sg)"
  shows "a \<in> fst ` set (idle_candidates ms ps)"
proof -
  let ?w = "w\<lparr>aw_backend := b\<rparr>"
  obtain best rest where cs: "idle_candidates ms ps = best # rest"
    using assms(4) by (cases "idle_candidates ms ps") auto
  have longest: "longest_idle best rest \<in> set (best # rest)" by (rule longest_idle_mem)
  have idx: "(best # rest) ! (rnd mod length (best # rest)) \<in> set (best # rest)"
    by (rule nth_mem) simp
  have cursor: "(best # rest) ! nat (go_mod (aw_cursors w (sg_ID sg)) (int (length (best # rest)))) \<in> set (best # rest)"
    by (rule nth_mem [OF cursor_index]) (use assms(5) in simp_all)
  have run: "pickAgent cf now rnd sg c w = (case sg_RoutingPolicy sg of
       RoutingPolicyRandom \<Rightarrow> (Inr (fst ((best # rest) ! (rnd mod length (best # rest)))), ?w)
     | RoutingPolicyRoundRobin \<Rightarrow> try_a (Incr (sg_ID sg)) (\<lambda>r. case r of
         Inl _ \<Rightarrow> ret_a (fst best)
       | Inr idx \<Rightarrow> ret_a (fst ((best # rest) ! nat (go_mod (idx - 1) (int (length (best # rest))))))) ?w
     | RoutingPolicyFamiliar \<Rightarrow> bind_a (lookupFamiliarAgent cf now c) (\<lambda>preferred.
         if 0 < preferred \<and> preferred \<in> set (map fst (best # rest)) then ret_a preferred
         else ret_a (fst (longest_idle best rest))) ?w
     | _ \<Rightarrow> (Inr (fst (longest_idle best rest)), ?w))"
    using ms ps cs by (simp add: pickAgent_def act_run on_backend_eq Let_def del: list.size split: RoutingPolicy.split)
  have "a \<in> fst ` set (best # rest)"
  proof (cases "sg_RoutingPolicy sg")
    case RoutingPolicyRoundRobin
    with run assms(1) cursor show ?thesis
      by (auto simp: act_run Incr_def redis_def split: list.splits bool.splits)
  next
    case RoutingPolicyFamiliar
    with run assms(1) longest show ?thesis
      by (auto simp: act_run split: if_splits sum.splits prod.splits)
  qed (use run assms(1) longest idx in auto)
  with cs show ?thesis by simp
qed

lemma lookupFamiliarAgent_returns: "\<exists>i w'. lookupFamiliarAgent cf now c w = (Inr i, w')"
  unfolding lookupFamiliarAgent_def
  by (auto simp: act_run split: option.split sum.split prod.split)

lemma pickAgent_returns:
  assumes "ac_members cf (sg_ID sg) = Some ms" "ac_presence cf ms (aw_backend w) = (Inr ps, b)"
  shows "\<exists>a w'. pickAgent cf now rnd sg c w = (Inr a, w')"
proof (cases "idle_candidates ms ps")
  case Nil
  with assms show ?thesis by (simp add: pickAgent_def act_run on_backend_eq)
next
  case (Cons best rest)
  obtain i w' where "lookupFamiliarAgent cf now c (w\<lparr>aw_backend := b\<rparr>) = (Inr i, w')"
    using lookupFamiliarAgent_returns by blast
  with Cons assms show ?thesis
    by (auto simp: pickAgent_def act_run on_backend_eq Let_def split: RoutingPolicy.split sum.split prod.split)
qed

text \<open>What one dispatch can do to the queue of its group.\<close>

lemma dispatchOne_outcome:
  assumes "aw_redis w = []" "zset_ok (aw_queues w g)" "J (aw_backend w)" "lookups_keep cf J"
    and "w' = snd (dispatchOne cf now e rnd g sg w)"
  shows "aw_redis w' = [] \<and> (\<forall>h. h \<noteq> g \<longrightarrow> aw_queues w' h = aw_queues w h) \<and>
    (aw_queues w' g = aw_queues w g \<or>
     (\<exists>x q. aw_queues w g = x # q \<and> aw_queues w' g = q \<and>
        (snd (snd (parseMember (z_member x))) = False \<or>
         (\<exists>c ms a b r. parseMember (z_member x) = (c, ms, True) \<and> J b \<and>
            ac_ring cf e c a b = (Inr r, aw_backend w')))))"
proof (cases "aw_queues w g")
  case Nil
  then show ?thesis
    using assms(1,5) by (simp add: dispatchOne_def act_run ZRange_def redis_up)
next
  case (Cons x q)
  have z: "ZRange g w = (Inr (x # q), w)" using assms(1) Cons by (simp add: ZRange_def redis_up)
  obtain c ms ok where p: "parseMember (z_member x) = (c, ms, ok)" by (cases "parseMember (z_member x)") auto
  have head: "zrem (z_member x) (x # q) = q" "zadd (z_score x) (z_member x) q = x # q"
    using assms(2) Cons by (simp_all add: zrem_head zadd_head)
  show ?thesis
  proof (cases ok)
    case False
    with z p head Cons assms(1,5) show ?thesis
      by (simp add: dispatchOne_def act_run ZRem_up)
  next
    case True
    obtain r w1 where pick: "pickAgent cf now rnd sg c w = (r, w1)" by fastforce
    have "calm (aw_queues w) (aw_claims w) (aw_routed w) J w" using assms(1,3) by (simp add: calm_def)
    from inv_aD [OF calm_pickAgent [OF assms(4)] pick this]
    have w1: "aw_redis w1 = []" "aw_queues w1 = aw_queues w" "J (aw_backend w1)" by (simp_all add: calm_def)
    show ?thesis
    proof (cases r)
      case (Inl err)
      with True z p pick w1 assms(5) show ?thesis by (simp add: dispatchOne_def act_run)
    next
      case (Inr a)
      obtain mine w2 where t: "tryClaim now a w1 = (Inr mine, w2)" using tryClaim_Inr by blast
      then have w2: "aw_redis w2 = []" "aw_queues w2 = aw_queues w" "aw_backend w2 = aw_backend w1"
        using w1 by (auto simp: tryClaim_def act_run SetNX_def redis_up split: if_splits)
      obtain rung b where ring: "ac_ring cf e c a (aw_backend w2) = (rung, b)" by fastforce
      have w': "w' = (if a = 0 then w1 else if mine then snd (hand_over cf now e g x c a w2) else w2)"
        using True z p pick Inr t assms(5) by (simp add: dispatchOne_def act_run)
      have "ZRem g (z_member x) w2 = (Inr 1, w2\<lparr>aw_queues := (aw_queues w)(g := q)\<rparr>)"
        using ZRem_up [OF w2(1), of g "z_member x"] w2(2) Cons head by simp
      then show ?thesis
        using w1 w2 ring w' Cons p True head
        by (cases rung)
          (auto simp: hand_over_def act_run on_backend_eq releaseClaim_def DelClaim_def ZAdd_def redis_up log_routed_def)
    qed
  qed
qed


text \<open>What the backend keeps through a dispatch.\<close>

lemma keeps_backend: "inv_a J m (\<lambda>_. True) \<Longrightarrow> inv_a (\<lambda>w. J (aw_backend w)) (on_backend m) (\<lambda>_. True)"
  unfolding on_backend_def by (erule inv_zoom) simp_all

lemma dispatchOne_keeps:
  assumes "lookups_keep cf J" "\<And>e c a. inv_a J (ac_ring cf e c a) (\<lambda>_. True)"
  shows "inv_a (\<lambda>w. J (aw_backend w)) (dispatchOne cf now e rnd g sg) (\<lambda>_. True)"
proof -
  let ?I = "\<lambda>w. J (aw_backend w)"
  have commands: "inv_a ?I (ZRange g) (\<lambda>_. True)" "inv_a ?I (ZRem g m) (\<lambda>_. True)" "inv_a ?I (ZAdd g s m) (\<lambda>_. True)"
    "inv_a ?I (Incr i) (\<lambda>_. True)" "inv_a ?I (GetStr t k) (\<lambda>_. True)" "inv_a ?I (SetNX t a) (\<lambda>_. True)"
    "inv_a ?I (DelClaim a) (\<lambda>_. True)" for m s i t k a
    unfolding ZRange_def ZRem_def ZAdd_def Incr_def GetStr_def SetNX_def DelClaim_def
    by (rule inv_redis; simp)+
  have presence: "inv_a ?I (on_backend (ac_presence cf ids)) (\<lambda>_. True)" for ids
    using assms(1) by (auto simp: lookups_keep_def intro: keeps_backend)
  have find: "inv_a ?I (lookupFamiliarAgent cf now c) (\<lambda>_. True)" for c
    using assms(1) unfolding lookupFamiliarAgent_def lookups_keep_def
    by (cases "ac_calls cf")
      (auto intro!: inv_ret inv_try [where R = "\<lambda>_. True"] keeps_backend commands split: sum.split option.split)
  have log: "inv_a ?I (log_routed c a now) (\<lambda>_. True)" for c a
    unfolding log_routed_def by (rule inv_modify) simp
  have pick: "inv_a ?I (pickAgent cf now rnd sg c) (\<lambda>_. True)" for c
    unfolding pickAgent_def Let_def by (rule TrueI presence find commands inv_intros inv_case_policy)+
  have ring: "inv_a ?I (on_backend (ac_ring cf e c a)) (\<lambda>_. True)" for c a by (rule keeps_backend [OF assms(2)])
  show ?thesis
    unfolding dispatchOne_def hand_over_def tryClaim_def releaseClaim_def
    by (rule TrueI pick ring log commands inv_intros inv_case_list)+
qed

section \<open>The backend's contract\<close>

text \<open>
  What the dispatcher relies on of \<open>LifecycleService\<close>: a hand-over that returns leaves the call
  ringing, an end that returns leaves it completed and does not fail on a live call of a healthy
  backend, a failure changes no stored status, and a completed call is not rung. \<open>stat b k\<close> is
  the stored status of call \<open>k\<close>.
\<close>

locale call_backend =
  fixes ring :: "env \<Rightarrow> int \<Rightarrow> int \<Rightarrow> ('l, string, call) act"
    and finish :: "env \<Rightarrow> int \<Rightarrow> HangupReason \<Rightarrow> HangupBy option \<Rightarrow> ('l, string, call) act"
    and stat :: "'l \<Rightarrow> int \<Rightarrow> CallStatus option"
    and good :: "'l \<Rightarrow> bool"
    and healthy :: "'l \<Rightarrow> bool"
  assumes ring_good: "inv_a good (ring e c a) (\<lambda>_. True)"
    and ring_rings: "good b \<Longrightarrow> ring e c a b = (Inr x, b') \<Longrightarrow> stat b' c = Some CallStatusRinging"
    and ring_fails: "good b \<Longrightarrow> ring e c a b = (Inl err, b') \<Longrightarrow> stat b' = stat b"
    and ring_final: "good b \<Longrightarrow> stat b k = Some CallStatusCompleted \<Longrightarrow>
          stat (snd (ring e c a b)) k = Some CallStatusCompleted"
    and finish_good: "inv_a good (finish e c r h) (\<lambda>_. True)"
    and finish_ends: "good b \<Longrightarrow> finish e c r h b = (Inr x, b') \<Longrightarrow> stat b' c = Some CallStatusCompleted"
    and finish_fails: "good b \<Longrightarrow> finish e c r h b = (Inl err, b') \<Longrightarrow> stat b' = stat b"
    and finish_others: "good b \<Longrightarrow> k \<noteq> c \<Longrightarrow> stat (snd (finish e c r h b)) k = stat b k"
    and finish_works: "good b \<Longrightarrow> healthy b \<Longrightarrow> stat b c = Some s \<Longrightarrow> s \<noteq> CallStatusCompleted \<Longrightarrow>
          \<exists>x b'. finish e c r h b = (Inr x, b')"
    and finish_healthy: "inv_a healthy (finish e c r h) (\<lambda>_. True)"
begin

lemma finish_status:
  assumes "good b"
  shows "stat (snd (finish e c r h b)) k = stat b k \<or> stat (snd (finish e c r h b)) k = Some CallStatusCompleted"
proof (cases "finish e c r h b")
  case (Pair res b')
  from finish_others [OF assms, of k c e r h] Pair have "k \<noteq> c \<Longrightarrow> stat b' k = stat b k" by simp
  with Pair finish_ends [OF assms] finish_fails [OF assms] show ?thesis
    by (cases "k = c"; cases res) auto
qed

lemma finish_kept: "good b \<Longrightarrow> healthy b \<Longrightarrow>
    good (snd (finish e c r h b)) \<and> healthy (snd (finish e c r h b))"
  by (simp add: inv_snd [OF finish_good] inv_snd [OF finish_healthy])

lemma end_due_good: "ac_end cf = finish \<Longrightarrow> good b \<Longrightarrow> good (end_due cf es d ms b)"
  by (induction ms arbitrary: es b) (auto split: prod.split simp: inv_snd [OF finish_good])

lemma end_due_final:
  "ac_end cf = finish \<Longrightarrow> good b \<Longrightarrow> stat b k = Some CallStatusCompleted \<Longrightarrow>
   stat (end_due cf es d ms b) k = Some CallStatusCompleted"
proof (induction ms arbitrary: es b)
  case (Cons m ms)
  have "stat (snd (finish (es 0) c HangupQueueTimeout (Some HangupBySystem) b)) k = Some CallStatusCompleted" for c
    using finish_status [OF Cons.prems(2), of "es 0" c HangupQueueTimeout "Some HangupBySystem" k] Cons.prems(3) by simp
  with Cons show ?case by (auto split: prod.split simp: inv_snd [OF finish_good])
qed simp

lemma end_due_ends:
  assumes "ac_end cf = finish" "good b" "healthy b" "stat b c \<noteq> None"
    and "m \<in> set ms" "parseMember m = (c, t, True)" "due d m"
  shows "stat (end_due cf es d ms b) c = Some CallStatusCompleted"
  using assms(2-5)
proof (induction ms arbitrary: es b)
  case (Cons n ms)
  show ?case
  proof (cases "n = m")
    case True
    let ?b = "snd (finish (es 0) c HangupQueueTimeout (Some HangupBySystem) b)"
    have "stat ?b c = Some CallStatusCompleted"
    proof (cases "stat b c = Some CallStatusCompleted")
      case True
      with finish_status [OF Cons.prems(1), of "es 0" c _ _ c] show ?thesis by simp
    next
      case False
      with Cons.prems(1-3) finish_works obtain x b' where
        "finish (es 0) c HangupQueueTimeout (Some HangupBySystem) b = (Inr x, b')" by blast
      with finish_ends [OF Cons.prems(1)] show ?thesis by simp
    qed
    from end_due_final [OF assms(1) _ this] finish_kept [OF Cons.prems(1,2)] True assms(1,6,7)
    show ?thesis by simp
  next
    case False
    have "stat (snd (finish (es 0) k HangupQueueTimeout (Some HangupBySystem) b)) c \<noteq> None" for k
      using finish_status [OF Cons.prems(1), of "es 0" k HangupQueueTimeout "Some HangupBySystem" c] Cons.prems(3) by auto
    with Cons False finish_kept [OF Cons.prems(1,2)] show ?thesis using assms(1) by (auto split: prod.split)
  qed
qed simp

definition settled :: "'l \<Rightarrow> int \<Rightarrow> bool" where
  "settled b c \<longleftrightarrow> stat b c = Some CallStatusRinging \<or> stat b c = Some CallStatusCompleted"

lemma dispatchOne_accounts:
  assumes cf: "ac_ring cf = ring" "lookups_keep cf (\<lambda>b. good b \<and> stat b = st)"
    and w: "aw_redis w = []" "zset_ok (aw_queues w g)" "good (aw_backend w)" "stat (aw_backend w) = st"
    and x: "x \<in> set (aw_queues w g)" "parseMember (z_member x) = (c, t, True)"
    and w': "w' = snd (dispatchOne cf now e rnd g sg w)"
  shows "x \<in> set (aw_queues w' g) \<or> stat (aw_backend w') c = Some CallStatusRinging"
proof -
  from dispatchOne_outcome [OF w(1,2) _ cf(2) w'] w(3,4)
  consider "aw_queues w' g = aw_queues w g"
    | y q where "aw_queues w g = y # q" "aw_queues w' g = q"
        "snd (snd (parseMember (z_member y))) = False \<or>
         (\<exists>c ms a b r. parseMember (z_member y) = (c, ms, True) \<and> (good b \<and> stat b = st) \<and>
            ac_ring cf e c a b = (Inr r, aw_backend w'))"
    by blast
  then show ?thesis
  proof cases
    case 1
    with x(1) show ?thesis by simp
  next
    case 2
    show ?thesis
    proof (cases "x = y")
      case False
      with 2(1,2) x(1) show ?thesis by simp
    next
      case True
      with 2(3) x(2) obtain a b r where "good b" "ring e c a b = (Inr r, aw_backend w')" by (auto simp: cf(1))
      from ring_rings [OF this] show ?thesis ..
    qed
  qed
qed

text \<open>
  A visit of a group accounts for every call queued in it: the call is still queued, or it rings,
  or it is completed, or it was overdue and the backend is not healthy.
\<close>

lemma visit_accounts:
  assumes cf: "ac_ring cf = ring" "ac_end cf = finish" "\<And>st. lookups_keep cf (\<lambda>b. good b \<and> stat b = st)"
      "ac_group cf g = Some sg" "parse_int64 (v_group v) = Some g"
    and w: "aw_redis w = []" "zset_ok (aw_queues w g)" "good (aw_backend w)" "stat (aw_backend w) c \<noteq> None"
    and x: "x \<in> set (aw_queues w g)" "parseMember (z_member x) = (c, t, True)"
    and w': "w' = snd (visit_group cf v w)"
  shows "x \<in> set (aw_queues w' g) \<or> settled (aw_backend w') c \<or>
    0 < sg_MaxWaitSec sg \<and> due (wait_deadline (v_expire v) sg) (z_member x) \<and> \<not> healthy (aw_backend w)"
proof (cases "0 < sg_MaxWaitSec sg \<and> due (wait_deadline (v_expire v) sg) (z_member x) \<and> \<not> healthy (aw_backend w)")
  case False
  let ?d = "wait_deadline (v_expire v) sg"
  from False have up: "0 < sg_MaxWaitSec sg \<Longrightarrow> due ?d (z_member x) \<Longrightarrow> healthy (aw_backend w)" by blast
  obtain r w1 where e: "expireQueued cf (v_expire v) (v_envs v) g sg w = (r, w1)" by fastforce
  have "r = Inr ()"
    using e expireQueued_up [OF w(1,2), of sg] by (cases "0 < sg_MaxWaitSec sg") (auto simp: expireQueued_def act_run)
  then have run: "w' = snd (dispatchOne cf (v_now v) (v_env v) (v_rnd v) g sg w1)"
    using w' cf(4,5) e by (simp add: visit_group_def act_run)
  have w1: "aw_redis w1 = [] \<and> zset_ok (aw_queues w1 g) \<and> good (aw_backend w1) \<and>
     (x \<in> set (aw_queues w1 g) \<or> stat (aw_backend w1) c = Some CallStatusCompleted)"
  proof (cases "0 < sg_MaxWaitSec sg")
    case False
    with e w x show ?thesis by (auto simp: expireQueued_def act_run)
  next
    case True
    from e expireQueued_up [OF w(1,2) True]
    have w1: "w1 = w\<lparr>aw_queues := (aw_queues w)(g := filter (\<lambda>x. \<not> due ?d (z_member x)) (aw_queues w g)),
       aw_backend := end_due cf (v_envs v) ?d (map z_member (aw_queues w g)) (aw_backend w)\<rparr>" by simp
    have "zset_ok (filter (\<lambda>x. \<not> due ?d (z_member x)) (aw_queues w g))"
      using w(2) by (auto simp: zset_ok_def distinct_map_filter sorted_filter [where f = "\<lambda>x. x", simplified])
    moreover have "stat (end_due cf (v_envs v) ?d (map z_member (aw_queues w g)) (aw_backend w)) c = Some CallStatusCompleted"
      if "due ?d (z_member x)"
      using end_due_ends [OF cf(2) w(3) up [OF True that] w(4) _ x(2) that] x(1) by simp
    ultimately show ?thesis using w w1 x(1) end_due_good [OF cf(2) w(3)] by auto
  qed
  have keep: "lookups_keep cf (\<lambda>b. good b \<and> stat b c = Some CallStatusCompleted)"
    unfolding lookups_keep_def inv_a_def
  proof (intro conjI allI impI)
    fix ids s r s' assume "ac_presence cf ids s = (r, s')" "good s \<and> stat s c = Some CallStatusCompleted"
    then show "good s'" "stat s' c = Some CallStatusCompleted"
      using cf(3) [of "stat s"] unfolding lookups_keep_def inv_a_def by metis+
  next
    fix get k s r s' assume "ac_calls cf = Some get" "get k s = (r, s')" "good s \<and> stat s c = Some CallStatusCompleted"
    then show "good s'" "stat s' c = Some CallStatusCompleted"
      using cf(3) [of "stat s"] unfolding lookups_keep_def inv_a_def by metis+
  qed simp_all
  show ?thesis
  proof (cases "x \<in> set (aw_queues w1 g)")
    case True
    from w1 have "aw_redis w1 = []" "zset_ok (aw_queues w1 g)" "good (aw_backend w1)" by simp_all
    from dispatchOne_accounts [OF cf(1,3) this refl True x(2) run] show ?thesis by (auto simp: settled_def)
  next
    case False
    have "inv_a (\<lambda>b. good b \<and> stat b c = Some CallStatusCompleted) (ac_ring cf e k a) (\<lambda>_. True)" for e k a
      unfolding inv_a_def cf(1) using ring_final inv_aD [OF ring_good] by (metis snd_conv)
    from inv_snd [OF dispatchOne_keeps [OF keep this], of w1] False w1 run show ?thesis by (simp add: settled_def)
  qed
qed simp

end

end
