(* ===== verification/AcdLifecycle.thy ===== *)
theory AcdLifecycle
  imports AcdProps
begin

text \<open>
  The dispatcher wired as \<open>cmd/server\<close> wires it: its backend is \<open>lifecycle.Service\<close> over the call
  table, the presence table answers \<open>GetByAgentIDs\<close>. The lifecycle interprets the backend's
  contract, so what the dispatcher guarantees over any backend holds of the composed system.
\<close>

section \<open>The wiring\<close>

definition lc_to_string :: "'a lact \<Rightarrow> (lc_world, string, 'a) act" where
  "lc_to_string = wrap_a (\<lambda>_. ''lifecycle'')"

definition lc_ring :: "lc_config \<Rightarrow> env \<Rightarrow> int \<Rightarrow> int \<Rightarrow> (lc_world, string, call) act" where
  "lc_ring cf e c a = lc_to_string (TransitionCallToRinging cf (fst e) (snd e) c a)"

definition lc_end :: "lc_config \<Rightarrow> env \<Rightarrow> int \<Rightarrow> HangupReason \<Rightarrow> HangupBy option \<Rightarrow> (lc_world, string, call) act" where
  "lc_end cf e c r h = lc_to_string (EndCall_lc cf (fst e) (snd e) c r h)"

text \<open>\<open>SELECT * FROM agent_presence WHERE agent_id IN (?)\<close>, not sent for an empty list.\<close>

definition GetByAgentIDs :: "int list \<Rightarrow> (lc_world, string, presence list) act" where
  "GetByAgentIDs ids = (if ids = [] then ret_a []
     else zoom_a lw_presence (\<lambda>p w. w\<lparr>lw_presence := p\<rparr>) (on_presence (sel_all (\<lambda>p. p_AgentID p \<in> set ids))))"

definition find_call :: "int \<Rightarrow> (lc_world, string, call option) act" where
  "find_call c = zoom_a lw_call (\<lambda>x w. w\<lparr>lw_call := x\<rparr>) (on_calls (repo_get CallRepo c))"

definition wired :: "lc_config \<Rightarrow> (int \<Rightarrow> int list option) \<Rightarrow> (int \<Rightarrow> skill_group option) \<Rightarrow> lc_world acd_config" where
  "wired cf members groups = \<lparr>ac_rdb = True, ac_ring = lc_ring cf, ac_end = lc_end cf,
     ac_presence = GetByAgentIDs, ac_members = members, ac_group = groups, ac_calls = Some find_call\<rparr>"

definition lc_stat :: "lc_world \<Rightarrow> int \<Rightarrow> CallStatus option" where
  "lc_stat w k = map_option c_Status (lc_rows w k)"

section \<open>The contract\<close>

lemma to_string_run:
  "lc_to_string m w = (Inr x, w') \<longleftrightarrow> m w = (Inr x, w')"
  "lc_to_string m w = (Inl e, w') \<longleftrightarrow> (\<exists>err. m w = (Inl err, w')) \<and> e = ''lifecycle''"
  "snd (lc_to_string m w) = snd (m w)"
  by (auto simp: lc_to_string_def act_run split: prod.splits sum.splits)

lemma inv_to_string: "inv_a I m Q \<Longrightarrow> inv_a I (lc_to_string m) Q"
  unfolding lc_to_string_def by (rule inv_wrap)

lemma on_call_Inr: "on_call m w = (Inr x, w') \<longleftrightarrow> (\<exists>t. m (lw_call w) = (Inr x, t) \<and> w' = w\<lparr>lw_call := t\<rparr>)"
  by (auto simp: on_call_def act_run split: prod.splits sum.splits)

lemma on_call_err:
  "preserves_err (\<lambda>w. rows (cw_calls w)) m \<Longrightarrow> preserves_err lc_rows (on_call m)"
  by (auto simp: preserves_err_def on_call_def act_run split: prod.splits sum.splits)

abbreviation ring_tail :: "lc_config \<Rightarrow> (nat \<Rightarrow> gotime) \<Rightarrow> (nat \<Rightarrow> int) \<Rightarrow> int \<Rightarrow> call \<Rightarrow> call lact" where
  "ring_tail cf now ids a c \<equiv> seq_a (case lc_presence cf of
       None \<Rightarrow> ret_a ()
     | Some P \<Rightarrow> ignore_a (on_agents (TransitionTo P (\<lambda>i. now (i + 1)) (\<lambda>i. ids (i + 1)) a PresenceDialing)))
     (seq_a (send (lc_notifier cf) (NotifyAgent a ''call.ringing'' (c_ID c))) (ret_a c))"

lemma ring_tail_quiet: "preserves (\<lambda>w. (lc_rows w, lw_hooks w)) (ring_tail cf now ids a c)"
  by (cases "lc_presence cf") (auto intro!: frame_intros quiet_parts)

lemma ring_tail_returns: "\<exists>w'. ring_tail cf now ids a c w = (Inr c, w')"
  by (cases "lc_presence cf") (auto simp: act_run send_def)

lemma ring_run:
  "TransitionCallToRinging cf now ids k a w =
    (case on_call (TransitionToRinging (lc_calls cf) (now 0) (ids 0) k a) w of
       (Inl e, w') \<Rightarrow> (Inl e, w') | (Inr c, w') \<Rightarrow> ring_tail cf now ids a c w')"
  by (simp only: TransitionCallToRinging_def act_run(3))

lemma ring_row:
  assumes "lc_calls cf = NewCallService CallRepo tp" "lc_ok w"
    and "on_call (TransitionToRinging (lc_calls cf) now eid k a) w = (Inr c, w')"
  shows "\<exists>d. lc_rows w' k = Some d \<and> c_Status d = CallStatusRinging \<and> c_AgentUserID d = Some a"
proof -
  obtain t where run: "TransitionToRinging (lc_calls cf) now eid k a (lw_call w) = (Inr c, t)" "w' = w\<lparr>lw_call := t\<rparr>"
    using assms(3) by (auto simp: on_call_Inr)
  from run(1) obtain old t0 t1 u c1 where
    load: "load_call (NewCallService CallRepo tp) k (lw_call w) = (Inr old, t0)" and
    saved: "save_call (NewCallService CallRepo tp) c1 t0 = (Inr u, t1)" and
    t: "rows (cw_calls t) = rows (cw_calls t1)" "c_ID c1 = c_ID old" "c_Status c1 = CallStatusRinging"
      "c_AgentUserID c1 = Some a"
    unfolding TransitionToRinging_def Let_def assms(1)
    by (elim bind_a_Inr [THEN iffD1, elim_format] exE conjE)
      (auto simp: seq_a_Inr emit_run act_run(1,2) split: if_splits)
  from mysql_calls.load_call_row [OF load] have row0: "lc_rows w k = Some old" "rows (cw_calls t0) = lc_rows w" by auto
  from assms(2) row0(1) have id: "c_ID old = k" by (auto simp: lc_ok_def call_table_ok_def)
  from mysql_calls.save_call_row [OF saved] row0 t(2) id
  have "rows (cw_calls t1) = (lc_rows w)(k \<mapsto> CallRepo_update_row old c1)" by simp
  then show ?thesis using t run(2) by (simp add: CallRepo_update_row_def)
qed

lemma lc_ring_Inr:
  assumes "lc_calls cf = NewCallService CallRepo tp" "lc_ok w" "lc_ring cf e k a w = (Inr x, w')"
  shows "\<exists>d. lc_rows w' k = Some d \<and> c_Status d = CallStatusRinging \<and> c_AgentUserID d = Some a"
proof -
  from assms(3) have "TransitionCallToRinging cf (fst e) (snd e) k a w = (Inr x, w')"
    by (simp add: lc_ring_def to_string_run)
  then obtain c w1 where w1: "on_call (TransitionToRinging (lc_calls cf) (fst e 0) (snd e 0) k a) w = (Inr c, w1)"
    "ring_tail cf (fst e) (snd e) a c w1 = (Inr x, w')"
    by (auto simp: ring_run split: prod.splits sum.splits)
  from preservesD [OF ring_tail_quiet w1(2)] ring_row [OF assms(1,2) w1(1)] show ?thesis by auto
qed

lemma lc_ring_Inl:
  assumes "lc_calls cf = NewCallService CallRepo tp" "lc_ring cf e k a w = (Inl err, w')"
  shows "lc_rows w' = lc_rows w"
proof -
  from assms(2) obtain er where "TransitionCallToRinging cf (fst e) (snd e) k a w = (Inl er, w')"
    by (auto simp: lc_ring_def to_string_run)
  moreover have "ring_tail cf (fst e) (snd e) a c w1 \<noteq> (Inl er, w')" for c w1
    using ring_tail_returns [where cf = cf and now = "fst e" and ids = "snd e" and a = a and c = c and w = w1] by auto
  ultimately have "on_call (TransitionToRinging (lc_calls cf) (fst e 0) (snd e 0) k a) w = (Inl er, w')"
    by (auto simp: ring_run split: prod.splits sum.splits)
  with preserves_errD [OF on_call_err [OF mysql_calls.err_transitions(3)]] show ?thesis by (simp add: assms(1))
qed

lemma lc_ring_evolves:
  assumes "lc_calls cf = NewCallService CallRepo tp"
  shows "call_evolves (lc_rows w) (lc_rows (snd (lc_ring cf e k a w)))"
proof -
  obtain r w1 where w1: "on_call (TransitionToRinging (lc_calls cf) (fst e 0) (snd e 0) k a) w = (r, w1)" by fastforce
  then have "w1 = w\<lparr>lw_call := snd (TransitionToRinging (lc_calls cf) (fst e 0) (snd e 0) k a (lw_call w))\<rparr>"
    by (auto simp: on_call_def act_run split: prod.splits sum.splits)
  with mysql_calls.moves_TransitionToRinging have ev: "call_evolves (lc_rows w) (lc_rows w1)"
    unfolding moves_def assms by simp
  have "lc_rows (snd (ring_tail cf (fst e) (snd e) a c w1)) = lc_rows w1" for c
    using ring_tail_quiet unfolding preserves_def by blast
  with ev w1 show ?thesis
    by (cases r) (simp_all add: lc_ring_def to_string_run ring_run)
qed


text \<open>Ending a call writes no row but its own.\<close>

definition others :: "int \<Rightarrow> call option \<Rightarrow> lc_world \<Rightarrow> bool" where
  "others j R w \<longleftrightarrow> lc_rows w j = R \<and> (\<forall>i c. lc_rows w i = Some c \<longrightarrow> c_ID c = i)"

lemma others_quiet:
  assumes "preserves (\<lambda>w. (lc_rows w, lw_hooks w)) m"
  shows "inv_a (others j R) m (\<lambda>_. True)"
  unfolding inv_a_def others_def using preservesD [OF assms] by auto

lemma others_update:
  assumes "lc_calls cf = NewCallService CallRepo tp" "c_ID c = k" "k \<noteq> j"
  shows "inv_a (others j R) (ignore_a (on_call (UpdateDurations (lc_calls cf) c)) :: unit lact) (\<lambda>_. True)"
  using assms(2,3) unfolding inv_a_def others_def
  by (auto simp: assms(1) UpdateDurations_def save_call_def on_call_def NewCallService_def CallRepo_def on_calls_def
      CallRepo_update_row_def act_run sql_defs split: list.splits option.splits)

lemma others_EndCall:
  assumes "lc_calls cf = NewCallService CallRepo tp" "k \<noteq> j"
  shows "inv_a (others j R) (on_call (EndCall (lc_calls cf) now eid k reason hby)) (\<lambda>c. c_ID c = k)"
proof -
  let ?J = "\<lambda>w :: (call table) call_world. rows (cw_calls w) j = R \<and> (\<forall>i c. rows (cw_calls w) i = Some c \<longrightarrow> c_ID c = i)"
  have load: "inv_a ?J (load_call (NewCallService CallRepo tp) k) (\<lambda>c. c_ID c = k)"
    unfolding inv_a_def by (auto dest!: mysql_calls.load_call_row
        simp: load_call_def NewCallService_def CallRepo_def on_calls_def act_run sql_defs split: list.splits option.splits)
  have save: "inv_a ?J (save_call (NewCallService CallRepo tp) c) (\<lambda>_. True)" if "c_ID c = k" for c
    using that assms(2) unfolding inv_a_def
    by (auto simp: save_call_def NewCallService_def CallRepo_def on_calls_def
        CallRepo_update_row_def act_run sql_defs split: list.splits option.splits)
  have emit: "inv_a ?J (emit eid c ev d now) (\<lambda>_. True)" for c ev d
    unfolding inv_a_def by (auto simp: emit_run)
  have "inv_a ?J (EndCall (lc_calls cf) now eid k reason hby) (\<lambda>c. c_ID c = k)"
    unfolding EndCall_def Let_def assms(1)
    by (intro inv_bind [OF load] inv_if inv_throw inv_seq save emit inv_ret) (simp_all split: option.split)
  then show ?thesis
    unfolding on_call_def by (intro inv_wrap) (erule inv_zoom; auto simp: others_def)
qed

lemma others_EndCall_lc:
  assumes "lc_calls cf = NewCallService CallRepo tp" "k \<noteq> j"
  shows "inv_a (others j R) (EndCall_lc cf now ids k reason hby) (\<lambda>_. True)"
proof -
  have saved: "inv_a (others j R) (save_recording cf t n c) (\<lambda>c'. c_ID c' = k)" if "c_ID c = k" for t n c
  proof -
    have upd: "inv_a (others j R) (ignore_a (on_call (UpdateDurations (lc_calls cf) (c\<lparr>c_RecordingURL := u\<rparr>))) :: unit lact) (\<lambda>_. True)" for u
      using that assms(2) by (intro others_update [OF assms(1), of _ k]) simp_all
    have rec: "inv_a (others j R) (ignore_a (zoom_a lw_recordings (\<lambda>jr w. w\<lparr>lw_recordings := jr\<rparr>) (journal_add x)) :: unit lact) (\<lambda>_. True)" for x
      by (intro others_quiet frame_intros quiet_parts)
    show ?thesis
      using that unfolding save_recording_def Let_def
      by (auto intro!: inv_ret inv_seq upd rec split: option.split)
  qed
  have counted: "inv_a (others j R) (count_durations cf k c) (\<lambda>c'. c_ID c' = k)" if "c_ID c = k" for c
  proof -
    have "inv_a (others j R) (seq_a (ignore_a (on_call (UpdateDurations (lc_calls cf) c'))) (ret_a c') :: call lact) (\<lambda>c'. c_ID c' = k)"
      if "c_ID c' = k" for c'
      using that assms(2) by (auto intro!: inv_seq inv_ret others_update [OF assms(1), of _ k])
    then have upd: "inv_a (others j R) (seq_a (ignore_a (on_call (UpdateDurations (lc_calls cf) (CalculateDurations c evs))))
        (ret_a (CalculateDurations c evs)) :: call lact) (\<lambda>c'. c_ID c' = k)" for evs
      using that CalculateDurations_agrees by simp
    show ?thesis
      unfolding inv_a_def count_durations_def Let_def
    proof (intro allI impI)
      fix w :: lc_world and r :: "lc_error + call" and w'
      assume run: "(if ListEvents k (lw_call w) \<noteq> []
         then seq_a (ignore_a (on_call (UpdateDurations (lc_calls cf) (CalculateDurations c (ListEvents k (lw_call w))))))
               (ret_a (CalculateDurations c (ListEvents k (lw_call w)))) w
         else (Inr c, w)) = (r, w')" and I: "others j R w"
      show "others j R w' \<and> (\<forall>a. r = Inr a \<longrightarrow> c_ID a = k)"
      proof (cases "ListEvents k (lw_call w) = []")
        case True
        with run I that show ?thesis by auto
      next
        case False
        with run have run': "seq_a (ignore_a (on_call (UpdateDurations (lc_calls cf) (CalculateDurations c (ListEvents k (lw_call w))))))
               (ret_a (CalculateDurations c (ListEvents k (lw_call w)))) w = (r, w')" by (simp only: if_True not_False_eq_True)
        from inv_aD [OF upd run' I] run' show ?thesis
          using inv_aD_result [OF upd _ I] by fast
      qed
    qed
  qed
  have hooks: "inv_a (others j R) (spawn_hooks c) (\<lambda>_. True)" for c
    unfolding spawn_hooks_def by (rule inv_modify) (simp add: others_def)
  note quiet = others_quiet [OF quiet_parts(1)] others_quiet [OF quiet_parts(2)] others_quiet [OF quiet_parts(3)]
    others_quiet [OF quiet_parts(5)] others_quiet [OF preserves_when [OF quiet_parts(6)]]
  show ?thesis
    unfolding EndCall_lc_def
    by (rule inv_bind [OF others_EndCall [OF assms]] inv_bind [OF saved] inv_bind [OF counted] inv_seq quiet hooks
        inv_ret TrueI | assumption)+
qed

text \<open>The lifecycle keeps the dispatcher's contract, and with it the laws proved from it.\<close>

lemma lc_end_Inr:
  assumes "lc_calls cf = NewCallService CallRepo tp" "lc_ok w" "lc_end cf e k r h w = (Inr x, w')"
  shows "lc_stat w' k = Some CallStatusCompleted"
proof -
  from assms(3) have run: "EndCall_lc cf (fst e) (snd e) k r h w = (Inr x, w')"
    by (simp add: lc_end_def to_string_run)
  then obtain c w1 where ended: "on_call (EndCall (lc_calls cf) (fst e 0) (snd e 0) k r h) w = (Inr c, w1)"
    by (auto simp: EndCall_lc_def bind_a_Inr)
  obtain c4 w6 where c4: "keeps_track k 0 (w6, c4)" "agrees c c4"
    "EndCall_lc cf (fst e) (snd e) k r h w = lc_tail cf c4 (w6\<lparr>lw_hooks := lw_hooks w6 @ [(c4, False)]\<rparr>)"
    using EndCall_lc_run [where now = "fst e" and ids = "snd e", OF assms(1,2) ended] by blast
  have "lc_rows w' = lc_rows w6"
    using tail_up [of cf c4 "w6\<lparr>lw_hooks := lw_hooks w6 @ [(c4, False)]\<rparr>"] unfolding c4(3) [symmetric] run by simp
  with c4(1,2) EndCall_ended [OF assms(1,2) ended] show ?thesis
    by (auto simp: lc_stat_def keeps_track_def tracks_def agrees_def)
qed

lemma EndCall_lc_Inl:
  assumes "lc_calls cf = NewCallService CallRepo tp" "lc_ok w" "EndCall_lc cf now ids k r h w = (Inl err, w')"
  shows "lc_rows w' = lc_rows w"
proof -
  obtain re w1 where ended: "on_call (EndCall (lc_calls cf) (now 0) (ids 0) k r h) w = (re, w1)" by fastforce
  show ?thesis
  proof (cases re)
    case (Inl er)
    with ended assms(3) have "w' = w1" by (simp add: EndCall_lc_def act_run(3))
    with preserves_errD [OF on_call_err [OF mysql_calls.err_transitions(1)] ended [unfolded Inl assms(1)]]
    show ?thesis by simp
  next
    case (Inr c)
    obtain c4 w6 where "EndCall_lc cf now ids k r h w = lc_tail cf c4 (w6\<lparr>lw_hooks := lw_hooks w6 @ [(c4, False)]\<rparr>)"
      using EndCall_lc_run [where now = now and ids = ids, OF assms(1,2) ended [unfolded Inr]] by blast
    with assms(3) show ?thesis by (auto simp: act_run send_def Release_def split: if_splits)
  qed
qed

lemma stat_completed: "lc_stat w k = Some CallStatusCompleted \<longleftrightarrow> is_completed (lc_rows w) k"
  by (auto simp: lc_stat_def is_completed_def)

lemma lc_backend_laws:
  assumes "lc_calls cf = NewCallService CallRepo tp"
  shows "call_backend (lc_ring cf) (lc_end cf) lc_stat lc_ok lc_up"
proof (unfold_locales, goal_cases)
  case (1 e c a)
  show ?case unfolding lc_ring_def by (rule inv_to_string [OF inv_lc_calls(3) [OF assms]])
next
  case (2 b e c a x b')
  with lc_ring_Inr [OF assms] show ?case by (fastforce simp: lc_stat_def)
next
  case (3 b e c a err b')
  with lc_ring_Inl [OF assms] show ?case by (simp add: lc_stat_def fun_eq_iff)
next
  case (4 b k e c a)
  then show ?case
    using completed_persists [OF lc_ring_evolves [OF assms]] by (simp add: stat_completed lc_ok_def)
next
  case (5 e c r h)
  show ?case unfolding lc_end_def by (rule inv_to_string [OF inv_EndCall_lc [OF assms]])
next
  case (6 b e c r h x b')
  then show ?case by (intro lc_end_Inr [OF assms])
next
  case (7 b e c r h err b')
  then have "\<exists>er. EndCall_lc cf (fst e) (snd e) c r h b = (Inl er, b')" by (auto simp: lc_end_def to_string_run)
  with EndCall_lc_Inl [OF assms 7(1)] show ?case by (auto simp: lc_stat_def fun_eq_iff)
next
  case (8 b k c e r h)
  from 8(1) have "others k (lc_rows b k) b" by (auto simp: others_def lc_ok_def call_table_ok_def)
  from inv_snd [OF others_EndCall_lc [OF assms] this] 8(2) show ?case
    by (simp add: others_def lc_stat_def lc_end_def to_string_run)
next
  case (9 b c s e r h)
  from 9(3) obtain row where row: "lc_rows b c = Some row" "c_Status row = s" by (auto simp: lc_stat_def)
  with 9(1) have id: "c_ID row = c" by (auto simp: lc_ok_def call_table_ok_def)
  from mysql_EndCall_healthy [OF 9(2) [unfolded lc_up_def] row(1) id] 9(4) row(2) obtain d t where
    "EndCall (lc_calls cf) (fst e 0) (snd e 0) c r h (lw_call b) = (Inr d, t)" unfolding assms by blast
  then have "on_call (EndCall (lc_calls cf) (fst e 0) (snd e 0) c r h) b = (Inr d, b\<lparr>lw_call := t\<rparr>)"
    by (simp add: on_call_Inr)
  from EndCall_lc_run [where now = "fst e" and ids = "snd e", OF assms 9(1) this] obtain c4 w6 where
    "EndCall_lc cf (fst e) (snd e) c r h b = lc_tail cf c4 (w6\<lparr>lw_hooks := lw_hooks w6 @ [(c4, False)]\<rparr>)" by blast
  then have "\<exists>w'. EndCall_lc cf (fst e) (snd e) c r h b = (Inr c4, w')"
    by (auto simp: act_run send_def Release_def)
  then show ?case by (auto simp: lc_end_def to_string_run)
next
  case (10 e c r h)
  show ?case unfolding lc_end_def by (rule inv_to_string [OF up_EndCall_lc [OF assms]])
qed

text \<open>Every lifecycle wired to the MySQL repository of calls.\<close>

abbreviation over_mysql :: "lc_config \<Rightarrow> bool \<Rightarrow> lc_config" where
  "over_mysql cf tp \<equiv> cf\<lparr>lc_calls := NewCallService CallRepo tp\<rparr>"

interpretation lifecycle: call_backend "lc_ring (over_mysql cf tp)" "lc_end (over_mysql cf tp)" lc_stat lc_ok lc_up
  for cf :: lc_config and tp :: bool
  by (rule lc_backend_laws) simp

lemma lookups_wired:
  assumes "\<And>w w'. lc_rows w' = lc_rows w \<Longrightarrow> lw_hooks w' = lw_hooks w \<Longrightarrow>
      (outages (cw_calls (lw_call w)) = [] \<Longrightarrow> outages (cw_calls (lw_call w')) = []) \<Longrightarrow> J w \<Longrightarrow> J w'"
  shows "lookups_keep (wired cf members groups) J"
proof -
  let ?same = "\<lambda>w w'. lc_rows w' = lc_rows w \<and> lw_hooks w' = lw_hooks w \<and>
      (outages (cw_calls (lw_call w)) = [] \<longrightarrow> outages (cw_calls (lw_call w')) = [])"
  have keep: "?same w w' \<Longrightarrow> J w \<Longrightarrow> J w'" for w w' using assms by blast
  have "?same w (snd (GetByAgentIDs ids w))" for ids w
    by (simp add: GetByAgentIDs_def act_run split: prod.split)
  then have "inv_a J (GetByAgentIDs ids) (\<lambda>_. True)" for ids
    unfolding inv_a_def using keep by (metis snd_conv)
  moreover have "?same w (snd (find_call c w))" for c w
    by (auto simp: find_call_def act_run CallRepo_def on_calls_def sql_defs split: list.splits)
  then have "inv_a J (find_call c) (\<lambda>_. True)" for c
    unfolding inv_a_def using keep by (metis snd_conv)
  ultimately show ?thesis by (simp add: lookups_keep_def wired_def)
qed

section \<open>No queued call is lost\<close>

text \<open>
  C3. While Redis answers, whatever the call table does, a visit of a skill group (expiry, then one
  dispatch) accounts for every stored call queued in it: afterwards the call is still queued, or its row says
  that it rings, or that it is completed; the one call that can be lost is one that was overdue at the visit, and
  only when the call table fails (\<open>failed_expiry_loses_call\<close> shows that it then is).
\<close>

theorem queued_calls_accounted:
  assumes "groups g = Some sg" "parse_int64 (v_group v) = Some g"
    and "aw_redis w = []" "zset_ok (aw_queues w g)" "lc_ok (aw_backend w)"
    and "x \<in> set (aw_queues w g)" "parseMember (z_member x) = (c, t, True)" "lc_stat (aw_backend w) c \<noteq> None"
    and "w' = snd (visit_group (wired (over_mysql cf tp) members groups) v w)"
  shows "x \<in> set (aw_queues w' g) \<or> lc_stat (aw_backend w') c = Some CallStatusRinging \<or>
         lc_stat (aw_backend w') c = Some CallStatusCompleted \<or>
         0 < sg_MaxWaitSec sg \<and> due (wait_deadline (v_expire v) sg) (z_member x) \<and> \<not> lc_up (aw_backend w)"
proof -
  have keep: "lookups_keep (wired (over_mysql cf tp) members groups) (\<lambda>b. lc_ok b \<and> lc_stat b = st)" for st
    by (rule lookups_wired) (auto simp: lc_stat_def fun_eq_iff intro: lc_ok_same)
  show ?thesis
    using lifecycle.visit_accounts [OF _ _ keep _ assms(2-5,8,6,7,9)] assms(1)
    by (auto simp: wired_def lifecycle.settled_def)
qed

text \<open>
  An overdue call is taken off its queue before it is ended, and not put back when the end
  fails: with the call table down for one statement, the only entry of the queue is gone while the
  stored call is as it was, waiting for ever.
\<close>

theorem failed_expiry_loses_call:
  assumes "aw_redis w = []" "aw_queues w g = [x]" "0 < sg_MaxWaitSec sg"
    and "parseMember (z_member x) = (c, t, True)" "t \<noteq> 0" "t \<le> wait_deadline now sg"
    and "outages (cw_calls (lw_call (aw_backend w))) = True # rest"
  shows "aw_queues (snd (expireQueued (wired (over_mysql cf tp) members groups) now es g sg w)) g = [] \<and>
         lc_rows (aw_backend (snd (expireQueued (wired (over_mysql cf tp) members groups) now es g sg w))) =
         lc_rows (aw_backend w)"
proof -
  have ok: "zset_ok (aw_queues w g)" by (simp add: assms(2) zset_ok_def)
  have d: "due (wait_deadline now sg) (z_member x)" using assms(4-6) by (simp add: due_def)
  let ?b = "aw_backend w"
  have "\<exists>er w1. on_call (EndCall (NewCallService CallRepo tp) (fst (es 0) 0) (snd (es 0) 0) c HangupQueueTimeout (Some HangupBySystem)) ?b =
      (Inl er, w1) \<and> lc_rows w1 = lc_rows ?b"
    using assms(7) by (auto simp: on_call_def act_run EndCall_def load_call_def NewCallService_def CallRepo_def on_calls_def sql_defs)
  then have "lc_rows (snd (EndCall_lc (over_mysql cf tp) (fst (es 0)) (snd (es 0)) c HangupQueueTimeout (Some HangupBySystem) ?b)) = lc_rows ?b"
    by (auto simp: EndCall_lc_def act_run(3))
  with d assms(2,4) show ?thesis
    by (simp add: expireQueued_up [OF assms(1) ok assms(3)] wired_def lc_end_def to_string_run)
qed

section \<open>A call reaches an idle agent\<close>

definition idle_members :: "int list \<Rightarrow> 'l acd_world \<Rightarrow> ('l \<Rightarrow> presence ltable) \<Rightarrow> (int \<times> gotime) list" where
  "idle_members ms w tab = idle_candidates ms (filter (\<lambda>p. p_AgentID p \<in> set ms) (lrows (tab (aw_backend w))))"

lemma GetByAgentIDs_up:
  assumes "loutages (pw_presence (lw_presence b)) = []"
  shows "\<exists>ps. GetByAgentIDs ms b = (Inr ps, b) \<and> ps = filter (\<lambda>p. p_AgentID p \<in> set ms) (lrows (pw_presence (lw_presence b)))"
proof -
  have "b\<lparr>lw_presence := (lw_presence b)\<lparr>pw_presence := pw_presence (lw_presence b)\<rparr>\<rparr> = b" by simp
  with assms show ?thesis
    by (cases "ms = []") (simp_all add: GetByAgentIDs_def act_run on_presence_def)
qed

lemma ring_up:
  assumes "lc_ok b" "lc_up b" "lc_rows b c = Some row" "c_Status row = CallStatusQueue \<or> c_Status row = CallStatusIVR"
  shows "\<exists>x b'. lc_ring (over_mysql cf tp) e c a b = (Inr x, b')"
proof -
  have "\<exists>d t. TransitionToRinging (NewCallService CallRepo tp) (fst e 0) (snd e 0) c a (lw_call b) = (Inr d, t)"
    using assms(2-4) by (auto simp: TransitionToRinging_def call_run_simps lc_up_def split: option.splits)
  then obtain d t where "on_call (TransitionToRinging (NewCallService CallRepo tp) (fst e 0) (snd e 0) c a) b = (Inr d, b\<lparr>lw_call := t\<rparr>)"
    by (auto simp: on_call_Inr)
  moreover obtain w' where "ring_tail (over_mysql cf tp) (fst e) (snd e) a d (b\<lparr>lw_call := t\<rparr>) = (Inr d, w')"
    using ring_tail_returns by blast
  ultimately have "TransitionCallToRinging (over_mysql cf tp) (fst e) (snd e) c a b = (Inr d, w')"
    by (simp add: ring_run)
  then show ?thesis by (auto simp: lc_ring_def to_string_run)
qed

text \<open>
  C20. Progress: with Redis and the tables answering, when the head of a queue is a stored call that
  waits, and the group has an idle member, and no idle member is claimed, then this one dispatch
  hands the call to an idle member: the entry leaves the queue, the row rings at that member, and
  the member is claimed for 30 seconds.
\<close>

theorem dispatch_reaches_agent:
  assumes up: "aw_redis w = []" "lc_ok (aw_backend w)" "lc_up (aw_backend w)"
      "loutages (pw_presence (lw_presence (aw_backend w))) = []"
    and head: "aw_queues w g = x # q" "zset_ok (aw_queues w g)" "parseMember (z_member x) = (c, t, True)"
      "lc_rows (aw_backend w) c = Some row" "c_Status row = CallStatusQueue \<or> c_Status row = CallStatusIVR"
    and idle: "members (sg_ID sg) = Some ms" "idle_members ms w (\<lambda>b. pw_presence (lw_presence b)) \<noteq> []"
      "\<forall>a \<in> fst ` set (idle_members ms w (\<lambda>b. pw_presence (lw_presence b))). a \<noteq> 0 \<and> \<not> claimed now a w"
      "0 \<le> aw_cursors w (sg_ID sg)"
    and w': "w' = snd (dispatchOne (wired (over_mysql cf tp) members groups) now e rnd g sg w)"
  shows "aw_queues w' g = q \<and>
    (\<exists>a \<in> fst ` set (idle_members ms w (\<lambda>b. pw_presence (lw_presence b))).
       (\<exists>d. lc_rows (aw_backend w') c = Some d \<and> c_Status d = CallStatusRinging \<and> c_AgentUserID d = Some a) \<and>
       aw_claims w' a = Some (now + 30 * second) \<and> aw_routed w' = aw_routed w @ [(c, a, now)])"
proof -
  let ?cf = "wired (over_mysql cf tp) members groups"
  let ?J = "\<lambda>b. lc_ok b \<and> lc_up b \<and> lc_rows b = lc_rows (aw_backend w)"
  have keep: "lookups_keep ?cf ?J" by (rule lookups_wired) (auto simp: lc_up_def intro: lc_ok_same)
  obtain ps where ps: "ac_presence ?cf ms (aw_backend w) = (Inr ps, aw_backend w)"
    "ps = filter (\<lambda>p. p_AgentID p \<in> set ms) (lrows (pw_presence (lw_presence (aw_backend w))))"
    using GetByAgentIDs_up [OF up(4), of ms] by (auto simp: wired_def)
  have ms: "ac_members ?cf (sg_ID sg) = Some ms" using idle(1) by (simp add: wired_def)
  have cands: "idle_candidates ms ps = idle_members ms w (\<lambda>b. pw_presence (lw_presence b))"
    by (simp add: idle_members_def ps(2))
  from pickAgent_returns [OF ms ps(1)] obtain a w1 where pick: "pickAgent ?cf now rnd sg c w = (Inr a, w1)" by blast
  have "calm (aw_queues w) (aw_claims w) (aw_routed w) ?J w" using up by (simp add: calm_def)
  from inv_aD [OF calm_pickAgent [OF keep] pick this]
  have w1: "aw_redis w1 = []" "aw_queues w1 = aw_queues w" "aw_claims w1 = aw_claims w" "aw_routed w1 = aw_routed w"
    "?J (aw_backend w1)" by (simp_all add: calm_def)
  have a: "a \<in> fst ` set (idle_members ms w (\<lambda>b. pw_presence (lw_presence b)))"
    using pickAgent_chosen [OF pick ms ps(1) _ idle(4)] idle(2) unfolding cands by simp
  have z: "ZRange g w = (Inr (x # q), w)" using up(1) head(1) by (simp add: ZRange_def redis_up)
  let ?w2 = "w1\<lparr>aw_claims := (aw_claims w)(a := Some (now + agentClaimTTL))\<rparr>"
  have claim: "tryClaim now a w1 = (Inr True, ?w2)"
    using idle(3) a w1(1,3) by (auto simp: tryClaim_def act_run SetNX_def redis_up claimed_def)
  have "w' = snd (hand_over ?cf now e g x c a ?w2)"
    using w' z head(3) pick claim idle(3) a by (auto simp: dispatchOne_def act_run)
  moreover have zr: "zrem (z_member x) (x # q) = q" using head(1,2) by (simp add: zrem_head)
  moreover obtain y b where ring: "lc_ring (over_mysql cf tp) e c a (aw_backend w1) = (Inr y, b)"
    using ring_up [of "aw_backend w1" c row, where cf = cf and tp = tp and e = e and a = a] w1(5) head(4,5) by auto
  ultimately have w'': "w' = ?w2\<lparr>aw_queues := (aw_queues w)(g := q), aw_backend := b, aw_routed := aw_routed w @ [(c, a, now)]\<rparr>"
    using w1 head(1) by (simp add: hand_over_def act_run ZRem_up on_backend_eq log_routed_def wired_def)
  from lc_ring_Inr [OF _ _ ring] w1(5) obtain d where
    "lc_rows b c = Some d" "c_Status d = CallStatusRinging" "c_AgentUserID d = Some a" by auto
  with a w'' show ?thesis by (auto simp: agentClaimTTL_def)
qed


section \<open>Concrete runs\<close>

definition group0 :: skill_group where
  "group0 = \<lparr>sg_ID = 7, sg_TenantID = 1, sg_Code = ''sales'', sg_Name = ''Sales'', sg_Description = [],
     sg_RoutingPolicy = RoutingPolicyRoundRobin, sg_Priority = 0, sg_MaxQueueSize = 1, sg_MaxWaitSec = 60,
     sg_OverflowGroup = None, sg_Status = ''active'', sg_CreatedAt = 0, sg_UpdatedAt = 0\<rparr>"

text \<open>Groups 7 and 8, each the backup of the other.\<close>

definition ring_of_two :: "int \<Rightarrow> skill_group option" where
  "ring_of_two g = (if g = 7 then Some (group0\<lparr>sg_OverflowGroup := Some 8\<rparr>)
     else if g = 8 then Some (group0\<lparr>sg_ID := 8, sg_OverflowGroup := Some 7\<rparr>) else None)"

definition noon :: gotime where "noon = 63000000000000000000"

definition lc_idle0 :: lc_world where
  "lc_idle0 = (lc_world_of call_world1)\<lparr>lw_presence := presence_world_empty\<lparr>pw_presence := \<lparr>lrows =
     [\<lparr>p_ID = 1, p_TenantID = 1, p_AgentID = 42, p_Status = PresenceIdle, p_SubState = [], p_WorkMode = WorkModeOffice,
       p_BreakReasonCode = [], p_DispositionCode = [], p_CurrentCallID = None, p_ACWSeconds = 0, p_CheckedInAt = None,
       p_LastStatusAt = 0, p_UpdatedAt = 0\<rparr>], loutages = []\<rparr>\<rparr>\<rparr>"

definition acd_world0 :: "lc_world acd_world" where
  "acd_world0 = \<lparr>aw_queues = (\<lambda>_. []), aw_active = [], aw_claims = (\<lambda>_. None), aw_cursors = (\<lambda>_. 0),
     aw_strings = (\<lambda>_. None), aw_redis = [], aw_routed = [], aw_backend = lc_idle0\<rparr>"

definition acd_world1 :: "lc_world acd_world" where
  "acd_world1 = acd_world0\<lparr>aw_queues := (\<lambda>_. [ZEntry (scoreFor 0 noon) (memberFor 1 noon)]), aw_active := [''7'', ''8'']\<rparr>"

definition acd_config1 :: "lc_world acd_config" where
  "acd_config1 = wired (over_mysql lc_config0 True) (\<lambda>_. Some [42]) ring_of_two"

lemma noon_milli: "unix_milli noon = 864403200000"
  by (simp add: unix_milli_def noon_def)

lemma noon_member: "parseMember (memberFor 1 noon) = (1, 864403200000, True)"
  using parseMember_memberFor_int [of 1 noon] by (simp add: noon_milli int64_def)

lemma lc_idle0_ok: "lc_ok lc_idle0" "lc_up lc_idle0"
  using lc_world1_ok by (simp_all add: lc_idle0_def lc_ok_def lc_up_def hooks_of_def)

theorem Enqueue_terminates_witness: "Enqueue acd_config1 noon 9 7 0 acd_world1 = None"
proof -
  have "(backup acd_config1 ^^ n) 7 = 7 \<or> (backup acd_config1 ^^ n) 7 = 8" for n
    by (induction n) (auto simp: backup_def acd_config1_def wired_def ring_of_two_def)
  moreover have "passes_on acd_config1 acd_world1 7" "passes_on acd_config1 acd_world1 8"
    by (simp_all add: passes_on_def acd_config1_def wired_def ring_of_two_def group0_def acd_world1_def)
  ultimately have "passes_on acd_config1 acd_world1 ((backup acd_config1 ^^ n) 7)" for n by metis
  moreover have "ac_rdb acd_config1" "aw_redis acd_world1 = []"
    by (simp_all add: acd_config1_def wired_def acd_world1_def acd_world0_def)
  ultimately show ?thesis using Enqueue_terminates [of acd_config1 acd_world1 noon 9 7 0] by blast
qed

lemma acd_start0: "acd_start acd_world0"
  by (simp add: acd_start_def acd_world0_def)

text \<open>Two calls are queued in group 7, which is without a limit here; the visit hands over the first.\<close>

definition acd_config2 :: "lc_world acd_config" where
  "acd_config2 = wired (over_mysql lc_config0 True) (\<lambda>_. Some [42]) (\<lambda>g. if g = 7 then Some (group0\<lparr>sg_MaxQueueSize := 0\<rparr>) else None)"

definition acd_world2 :: "lc_world acd_world" where
  "acd_world2 = acd_world0\<lparr>aw_queues := (aw_queues acd_world0)(7 := [ZEntry (scoreFor 0 noon) (memberFor 1 noon)]), aw_active := [itoa 7]\<rparr>"

lemma enqueue_2: "Enqueue acd_config2 noon 1 7 0 acd_world0 = Some (Inr (), acd_world2)"
  by (subst Enqueue.simps)
    (simp add: acd_config2_def wired_def group0_def enqueue_here_def act_run ZAdd_def SAdd_def redis_up acd_world0_def
      acd_world2_def zadd_def zrem_def)

theorem queues_in_order_witness:
  "distinct (map z_member (aw_queues acd_world2 7)) \<and> enqueued (ZEntry (scoreFor 0 noon) (memberFor 1 noon))"
proof -
  have "(acd_step acd_config2)\<^sup>*\<^sup>* (0, acd_world0) (0, acd_world2)"
    by (rule r_into_rtranclp) (rule step_enqueue [OF enqueue_2])
  from queues_in_order [OF this acd_start0, of 7] show ?thesis by (simp add: acd_world2_def)
qed


text \<open>A backend that always accepts, with agent 42 always idle: two calls, two ticks.\<close>

definition presence42 :: presence where
  "presence42 = \<lparr>p_ID = 1, p_TenantID = 1, p_AgentID = 42, p_Status = PresenceIdle, p_SubState = [],
     p_WorkMode = WorkModeOffice, p_BreakReasonCode = [], p_DispositionCode = [], p_CurrentCallID = None,
     p_ACWSeconds = 0, p_CheckedInAt = None, p_LastStatusAt = 0, p_UpdatedAt = 0\<rparr>"

definition acd_config3 :: "unit acd_config" where
  "acd_config3 = \<lparr>ac_rdb = True, ac_ring = (\<lambda>_ _ _. ret_a call_zero), ac_end = (\<lambda>_ _ _ _. ret_a call_zero),
     ac_presence = (\<lambda>_. ret_a [presence42]), ac_members = (\<lambda>_. Some [42]),
     ac_group = (\<lambda>g. if g = 7 then Some (group0\<lparr>sg_MaxQueueSize := 0, sg_MaxWaitSec := 0\<rparr>) else None), ac_calls = None\<rparr>"

definition visit7 :: "gotime \<Rightarrow> visit" where
  "visit7 t = \<lparr>v_group = ''7'', v_expire = t, v_now = t, v_envs = (\<lambda>_. (\<lambda>_. t, \<lambda>_. 0)), v_env = (\<lambda>_. t, \<lambda>_. 0), v_rnd = 0\<rparr>"

definition acd_queued3 :: "zset \<Rightarrow> unit acd_world" where
  "acd_queued3 q = \<lparr>aw_queues = (\<lambda>_. [])(7 := q), aw_active = [''7''], aw_claims = (\<lambda>_. None), aw_cursors = (\<lambda>_. 0),
     aw_strings = (\<lambda>_. None), aw_redis = [], aw_routed = [], aw_backend = ()\<rparr>"

definition acd_empty3 :: "unit acd_world" where
  "acd_empty3 = (acd_queued3 [])\<lparr>aw_active := []\<rparr>"

definition past :: "int \<Rightarrow> gotime" where
  "past c = noon + c * 1000000"

definition entry_of :: "int \<Rightarrow> zentry" where
  "entry_of c = ZEntry (scoreFor 0 (past c)) (memberFor c (past c))"

lemma itoa7: "itoa 7 = ''7''"
  by (simp add: itoa_def nat_str.simps)

lemma parse7: "parse_int64 ''7'' = Some 7"
  using parse_int64_itoa [of 7] by (simp add: itoa7 int64_def)

lemma past_milli: "unix_milli (past c) = 864403200000 + c"
  by (simp add: unix_milli_def past_def noon_def)

lemma parse_entry:
  "parseMember (memberFor 1 (past 1)) = (1, 864403200001, True)"
  "parseMember (memberFor 2 (past 2)) = (2, 864403200002, True)"
  using parseMember_memberFor_int [of 1 "past 1"] parseMember_memberFor_int [of 2 "past 2"]
  by (simp_all add: past_milli int64_def)

lemma members_differ: "memberFor 1 (past 1) \<noteq> memberFor 2 (past 2)"
  using parse_entry by (metis one_eq_numeral_iff prod.inject semiring_norm(83))

lemma members_score: "scoreFor 0 (past 1) = 864403200001" "scoreFor 0 (past 2) = 864403200002"
  by (simp_all add: scoreFor_def past_milli)

lemmas acd_run3 = acd_config3_def acd_queued3_def acd_empty3_def entry_of_def act_run redis_up itoa7 parse7 members_score

lemma enqueue_3:
  "Enqueue acd_config3 (past 1) 1 7 0 acd_empty3 = Some (Inr (), acd_queued3 [entry_of 1])"
  "Enqueue acd_config3 (past 2) 2 7 0 (acd_queued3 [entry_of 1]) = Some (Inr (), acd_queued3 [entry_of 1, entry_of 2])"
proof -
  show "Enqueue acd_config3 (past 1) 1 7 0 acd_empty3 = Some (Inr (), acd_queued3 [entry_of 1])"
    by (subst Enqueue.simps) (simp add: acd_run3 group0_def enqueue_here_def ZAdd_def SAdd_def zadd_def zrem_def)
  show "Enqueue acd_config3 (past 2) 2 7 0 (acd_queued3 [entry_of 1]) = Some (Inr (), acd_queued3 [entry_of 1, entry_of 2])"
    using members_differ
    by (subst Enqueue.simps)
      (simp add: acd_run3 group0_def enqueue_here_def ZAdd_def SAdd_def zadd_def zrem_def less_eq_zentry_def)
qed

definition after_tick :: "gotime \<Rightarrow> unit acd_world \<Rightarrow> unit acd_world" where
  "after_tick t w = snd (tick_acd acd_config3 [visit7 t] w)"

lemma routed_3: "aw_routed (after_tick (noon + 30 * second) (after_tick noon (acd_queued3 [entry_of 1, entry_of 2]))) =
    [(1, 42, noon), (2, 42, noon + 30 * second)]"
  using members_differ
  by (simp add: after_tick_def tick_acd_def SMembers_def visit7_def visit_group_def acd_run3 expireQueued_def
      dispatchOne_def group0_def ZRange_def parse_entry pickAgent_def on_backend_def idle_candidates_def presence42_def
      Incr_def go_mod_def trunc_div_def tryClaim_def SetNX_def claimed_def hand_over_def ZRem_def zrem_def log_routed_def
      agentClaimTTL_def)

lemma acd_step_tick1: "T \<le> t \<Longrightarrow> acd_step acd_config3 (T, w) (t, after_tick t w)"
  using step_tick [of T "[visit7 t]" acd_config3 w] by (simp add: after_tick_def visit7_def)

theorem hand_overs_apart_witness:
  "\<exists>w. aw_routed w = [(1, 42, noon), (2, 42, noon + 30 * second)] \<and>
     (acd_step acd_config3)\<^sup>*\<^sup>* (0, acd_empty3) (noon + 30 * second, w) \<and> noon + 30 * second \<le> noon + 30 * second"
proof -
  let ?q = "acd_queued3 [entry_of 1, entry_of 2]"
  let ?w = "after_tick (noon + 30 * second) (after_tick noon ?q)"
  have "acd_step acd_config3 (0, acd_empty3) (0, acd_queued3 [entry_of 1])" by (rule step_enqueue [OF enqueue_3(1)])
  moreover have "acd_step acd_config3 (0, acd_queued3 [entry_of 1]) (0, ?q)" by (rule step_enqueue [OF enqueue_3(2)])
  moreover have "acd_step acd_config3 (0, ?q) (noon, after_tick noon ?q)" by (rule acd_step_tick1) (simp add: noon_def)
  moreover have "acd_step acd_config3 (noon, after_tick noon ?q) (noon + 30 * second, ?w)"
    by (rule acd_step_tick1) (simp add: second_def)
  ultimately have run: "(acd_step acd_config3)\<^sup>*\<^sup>* (0, acd_empty3) (noon + 30 * second, ?w)"
    by (meson converse_rtranclp_into_rtranclp rtranclp.rtrancl_refl)
  have start: "acd_start acd_empty3" by (simp add: acd_start_def acd_empty3_def acd_queued3_def)
  have "noon + 30 * second \<le> noon + 30 * second"
    by (rule hand_overs_apart [OF run start, of 0 1 1 42 noon 2]) (simp_all add: routed_3)
  with run routed_3 show ?thesis by blast
qed

theorem expireQueued_exact_witness:
  "aw_queues (snd (expireQueued acd_config3 (noon + 61 * second) (\<lambda>_. (\<lambda>_. 0, \<lambda>_. 0)) 7 group0
     (acd_queued3 [entry_of 1, entry_of 2]))) 7 = []"
proof -
  have "zset_ok (aw_queues (acd_queued3 [entry_of 1, entry_of 2]) 7)"
    using members_differ by (simp add: zset_ok_def acd_queued3_def entry_of_def members_score less_eq_zentry_def)
  moreover have "aw_redis (acd_queued3 [entry_of 1, entry_of 2]) = []" "0 < sg_MaxWaitSec group0"
    by (simp_all add: acd_queued3_def group0_def)
  moreover have "due (wait_deadline (noon + 61 * second) group0) (z_member (entry_of c))" if "c = 1 \<or> c = 2" for c
    using that parse_entry by (auto simp: due_def entry_of_def wait_deadline_def group0_def unix_milli_def noon_def second_def)
  ultimately show ?thesis by (simp add: expireQueued_exact) (simp add: acd_queued3_def)
qed

text \<open>The same state over the lifecycle.\<close>

definition visit_noon :: visit where
  "visit_noon = visit7 (noon + second)"

lemma acd_world2_ok: "aw_redis acd_world2 = []" "zset_ok (aw_queues acd_world2 7)" "lc_ok (aw_backend acd_world2)"
  "lc_up (aw_backend acd_world2)" "aw_queues acd_world2 7 = [ZEntry (scoreFor 0 noon) (memberFor 1 noon)]"
  using lc_idle0_ok by (simp_all add: acd_world2_def acd_world0_def zset_ok_def)

lemma call1_waits: "\<exists>row. lc_rows (aw_backend acd_world2) 1 = Some row \<and> c_Status row = CallStatusIVR"
  by (simp add: acd_world2_def acd_world0_def lc_idle0_def call_world1_eq)

theorem queued_calls_accounted_witness:
  "ZEntry (scoreFor 0 noon) (memberFor 1 noon) \<in> set (aw_queues (snd (visit_group acd_config2 visit_noon acd_world2)) 7) \<or>
   lc_stat (aw_backend (snd (visit_group acd_config2 visit_noon acd_world2))) 1 = Some CallStatusRinging \<or>
   lc_stat (aw_backend (snd (visit_group acd_config2 visit_noon acd_world2))) 1 = Some CallStatusCompleted"
proof -
  have "lc_stat (aw_backend acd_world2) 1 \<noteq> None" using call1_waits by (auto simp: lc_stat_def)
  with queued_calls_accounted [where groups = "\<lambda>g. if g = 7 then Some (group0\<lparr>sg_MaxQueueSize := 0\<rparr>) else None" and
      cf = lc_config0 and tp = True and members = "\<lambda>_. Some [42]" and v = visit_noon and c = 1 and t = 864403200000 and
      x = "ZEntry (scoreFor 0 noon) (memberFor 1 noon)", OF _ _ acd_world2_ok(1-3) _ _ _ refl] acd_world2_ok(4)
  show ?thesis
    by (simp add: acd_config2_def acd_world2_ok(5) noon_member visit_noon_def visit7_def parse7)
qed

theorem dispatch_reaches_agent_witness:
  "\<exists>d. lc_rows (aw_backend (snd (dispatchOne acd_config2 (noon + second) (\<lambda>_. 0, \<lambda>_. 0) 0 7 group0 acd_world2))) 1 = Some d \<and>
     c_Status d = CallStatusRinging \<and> c_AgentUserID d = Some 42"
proof -
  obtain row where row: "lc_rows (aw_backend acd_world2) 1 = Some row" "c_Status row = CallStatusIVR" using call1_waits by blast
  have idle: "idle_members [42] acd_world2 (\<lambda>b. pw_presence (lw_presence b)) = [(42, 0)]"
    by (simp add: idle_members_def idle_candidates_def acd_world2_def acd_world0_def lc_idle0_def)
  have up: "loutages (pw_presence (lw_presence (aw_backend acd_world2))) = []" "0 \<le> aw_cursors acd_world2 (sg_ID group0)"
    "\<not> claimed (noon + second) 42 acd_world2"
    by (simp_all add: acd_world2_def acd_world0_def lc_idle0_def claimed_def)
  have free: "\<forall>a \<in> fst ` set (idle_members [42] acd_world2 (\<lambda>b. pw_presence (lw_presence b))). a \<noteq> 0 \<and> \<not> claimed (noon + second) a acd_world2"
    and some: "idle_members [42] acd_world2 (\<lambda>b. pw_presence (lw_presence b)) \<noteq> []"
    using idle up(3) by simp_all
  have parsed: "parseMember (z_member (ZEntry (scoreFor 0 noon) (memberFor 1 noon))) = (1, 864403200000, True)"
    by (simp add: noon_member)
  from conjunct2 [OF dispatch_reaches_agent [where members = "\<lambda>_. Some [42]" and cf = lc_config0 and tp = True and
      groups = "\<lambda>g. if g = 7 then Some (group0\<lparr>sg_MaxQueueSize := 0\<rparr>) else None", folded acd_config2_def,
      OF acd_world2_ok(1,3,4) up(1) acd_world2_ok(5,2) parsed row(1) disjI2 [OF row(2)] refl some free up(2) refl]]
  show ?thesis unfolding idle by auto
qed

end
