(* ===== verification/IVRProps.thy ===== *)
theory IVRProps
  imports IVRRun
begin

text \<open>
  What a run of a flow guarantees: a valid graph never sends it astray, it ends when no flow
  contains itself, no request leaves for a private host, and the conditions of a branch mean what
  their names say.
\<close>

section \<open>What every handler keeps\<close>

definition requests_ok :: "ivr_env \<Rightarrow> ivr_state \<Rightarrow> bool" where
  "requests_ok env st \<longleftrightarrow> (\<forall>rq. HttpDo rq \<in> set (st_trace st) \<longrightarrow> validateURL env (hr_URL rq)) \<and>
     (\<forall>u. HttpRedirect u \<in> set (st_trace st) \<longrightarrow> (\<exists>rq. HttpDo rq \<in> set (st_trace st) \<and> u \<in> set (fst (en_http env rq))))"

text \<open>A handler returns an exit, sends no request that was not checked, is redirected only by the answer to one that was, and writes no history.\<close>

definition tame :: "ivr_env \<Rightarrow> 'a iact \<Rightarrow> bool" where
  "tame env m \<longleftrightarrow> (\<forall>st. \<exists>x st'. m st = (Inr x, st') \<and> st_history st' = st_history st \<and>
     (requests_ok env st \<longrightarrow> requests_ok env st'))"

named_theorems tame_intros \<open>handlers are tame\<close>

lemma tame_ret [tame_intros]: "tame env (ret_a x)"
  by (simp add: tame_def act_run)

lemma tame_bind [tame_intros]: "tame env m \<Longrightarrow> (\<And>x. tame env (f x)) \<Longrightarrow> tame env (bind_a m f)"
  unfolding tame_def by (simp add: act_run) (metis (mono_tags, lifting) old.prod.case old.sum.simps(6))

lemma tame_seq [tame_intros]: "tame env m \<Longrightarrow> tame env k \<Longrightarrow> tame env (seq_a m k)"
  by (simp add: seq_a_def tame_bind)

lemma tame_if [tame_intros]: "(b \<Longrightarrow> tame env m) \<Longrightarrow> (\<not> b \<Longrightarrow> tame env k) \<Longrightarrow> tame env (if b then m else k)"
  by simp

lemma tame_when [tame_intros]: "tame env m \<Longrightarrow> tame env (when_a b m)"
  by (simp add: when_a_def tame_ret)

lemma tame_ignore [tame_intros]: "tame env (m :: 'a iact) \<Longrightarrow> tame env (ignore_a m :: unit iact)"
  unfolding tame_def by (simp add: act_run) (metis snd_conv)

lemma tame_with_state [tame_intros]: "(\<And>st. tame env (f st)) \<Longrightarrow> tame env (with_state f)"
  by (simp add: tame_def with_state_def)

lemma setv_parts [simp]: "st_history (setv k v st) = st_history st" "st_trace (setv k v st) = st_trace st"
  "st_replies (setv k v st) = st_replies st"
  by (simp_all add: setv_def)

lemma tame_set_var [tame_intros]: "tame env (set_var k v)"
  by (simp add: tame_def set_var_def act_run requests_ok_def)

lemma tame_set_vars [tame_intros]: "tame env (set_vars kvs)"
proof -
  have "st_history (fold (\<lambda>kv. setv (fst kv) (snd kv)) kvs st) = st_history st \<and>
      st_trace (fold (\<lambda>kv. setv (fst kv) (snd kv)) kvs st) = st_trace st" for st
    by (induction kvs arbitrary: st) auto
  then show ?thesis by (simp add: tame_def set_vars_def act_run requests_ok_def)
qed

definition no_http :: "ivr_effect \<Rightarrow> bool" where
  "no_http e \<longleftrightarrow> (case e of HttpDo _ \<Rightarrow> False | HttpRedirect _ \<Rightarrow> False | _ \<Rightarrow> True)"

lemma no_http_simps [simp]:
  "no_http (PlayAudio a b)" "no_http (HangupCall a)" "no_http (TransferCall a b)" "no_http (StartRecording a b)"
  "no_http (SendCommand a)" "no_http (AcdEnqueue i j k)" "no_http (SaveContext i)"
  by (simp_all add: no_http_def)

lemma no_httpD: "no_http e \<Longrightarrow> e \<noteq> HttpDo rq \<and> e \<noteq> HttpRedirect u"
  by (auto simp: no_http_def)

lemma requests_ok_other:
  assumes "requests_ok env st" "no_http e" "st_trace st' = st_trace st @ [e]"
  shows "requests_ok env st'"
  using assms(1) no_httpD [OF assms(2)] unfolding requests_ok_def assms(3) by auto

lemma tame_emit [tame_intros]: "no_http e \<Longrightarrow> tame env (emit_effect e)"
  by (auto simp: tame_def emit_effect_def act_run intro: requests_ok_other)

lemma tame_esl [tame_intros]: "no_http e \<Longrightarrow> tame env (esl_cmd e)"
  by (auto simp: tame_def esl_cmd_def Let_def split: list.split intro: requests_ok_other)

lemma tame_http [tame_intros]:
  assumes "validateURL env (hr_URL rq)"
  shows "tame env (http_do env rq)"
proof -
  have "requests_ok env st \<Longrightarrow> requests_ok env
      (st\<lparr>st_trace := st_trace st @ HttpDo rq # map HttpRedirect (take 9 (fst (en_http env rq)))\<rparr>)" for st
    using assms by (auto simp: requests_ok_def dest: in_set_takeD)
  then show ?thesis by (simp add: tame_def http_do_def emit_effect_def act_run)
qed

lemma tame_cases [tame_intros]:
  "tame env m \<Longrightarrow> (\<And>y. tame env (k y)) \<Longrightarrow> tame env (case x of None \<Rightarrow> m | Some y \<Rightarrow> k y)"
  "(\<And>e. tame env (f e)) \<Longrightarrow> (\<And>y. tame env (g y)) \<Longrightarrow> tame env (case r of Inl e \<Rightarrow> f e | Inr y \<Rightarrow> g y)"
  "(\<And>y z. tame env (h y z)) \<Longrightarrow> tame env (case pr of (y, z) \<Rightarrow> h y z)"
  by (auto split: option.split sum.split prod.split)

lemma tame_set_output [tame_intros]: "tame env (set_output k v)"
  unfolding set_output_def by (intro tame_intros)

lemma tame_ask [tame_intros]: "tame env (ask s cmd answer)"
  unfolding ask_def broadcast_def by (intro tame_intros) simp_all

lemma tame_transfer [tame_intros]: "no_http e \<Longrightarrow> tame env (transfer_with s e)"
  unfolding transfer_with_def by (intro tame_intros) simp_all

lemma tame_requests [tame_intros]:
  "tame env (FunctionHandler env s n)" "tame env (HTTPRequestHandler env s n)" "tame env (SMSHandler env s n)"
  unfolding FunctionHandler_def HTTPRequestHandler_def SMSHandler_def Let_def
  by (rule tame_intros | simp)+

lemma tame_basic [tame_intros]:
  "tame env (StartHandler s n)" "tame env (PlayHandler s n)" "tame env (SetVariableHandler s n)"
  "tame env (HangupReasonHandler s n)" "tame env (EndHandler s n)" "tame env (CollectDTMFHandler s n)"
  "tame env (VoicemailHandler s n)" "tame env (SatisfactionRatingHandler s n)" "tame env (ASRHandler env s n)"
  "tame env (BranchHandler s n)"
  unfolding StartHandler_def PlayHandler_def SetVariableHandler_def HangupReasonHandler_def EndHandler_def
    CollectDTMFHandler_def VoicemailHandler_def SatisfactionRatingHandler_def ASRHandler_def BranchHandler_def Let_def
  by (rule tame_intros | simp)+

lemma tame_routing [tame_intros]:
  "tame env (TransferToAgentHandler env s n)" "tame env (TransferToExternalHandler s n)"
  "tame env (BlindTransferHandler s n)" "tame env (CallbackHandler s n)" "tame env (JSONParserHandler env s n)"
  "tame env (DigitalEmployeeHandler s n)"
  unfolding TransferToAgentHandler_def TransferToExternalHandler_def BlindTransferHandler_def CallbackHandler_def
    JSONParserHandler_def DigitalEmployeeHandler_def broadcast_def Let_def
  by (rule tame_intros | simp)+

lemma tame_providers [tame_intros]:
  "tame env (NLUHandler env s n)" "tame env (QueuePositionHandler env s n)" "tame env (SentimentGateHandler env s n)"
  "tame env (CustomerLookupHandler env s n)"
  unfolding NLUHandler_def QueuePositionHandler_def SentimentGateHandler_def CustomerLookupHandler_def Let_def
  by (rule tame_intros)+

section \<open>The registry\<close>

lemma DefaultEngine_eq: "DefaultEngine env = map_of (rev (default_handlers env))"
proof -
  have "fold (\<lambda>(ty, h). RegisterHandler ty h) hs e = e ++ map_of (rev hs)" for hs e
    by (induction hs arbitrary: e) (auto simp: RegisterHandler_def map_add_def fun_eq_iff split: option.split)
  then show ?thesis by (simp add: DefaultEngine_def)
qed

lemma DefaultEngine_total: "ty \<in> set AllNodeTypes \<Longrightarrow> DefaultEngine env ty \<noteq> None"
proof -
  have "list_all (\<lambda>ty. ty \<in> fst ` set (default_handlers env)) AllNodeTypes"
    by (simp add: AllNodeTypes_def default_handlers_def)
  moreover assume "ty \<in> set AllNodeTypes"
  ultimately show ?thesis by (simp add: DefaultEngine_eq map_of_eq_None_iff list_all_iff)
qed

lemma DefaultEngine_tame: "DefaultEngine env ty = Some (Plain h) \<Longrightarrow> tame env (h s n)"
proof -
  assume "DefaultEngine env ty = Some (Plain h)"
  then have "(ty, Plain h) \<in> set (default_handlers env)"
    by (auto simp: DefaultEngine_eq dest: map_of_SomeD)
  then show ?thesis by (auto simp: default_handlers_def intro!: tame_intros)
qed


section \<open>One step\<close>

lemma subflow_input_parts [simp]:
  "st_history (subflow_input env c st) = st_history st" "st_trace (subflow_input env c st) = st_trace st"
proof -
  have "st_history (fold (\<lambda>(k, v) st. setv (''subflow_'' @ k) (interp env v st) st) kvs st) = st_history st \<and>
     st_trace (fold (\<lambda>(k, v) st. setv (''subflow_'' @ k) (interp env v st) st) kvs st) = st_trace st" for kvs st
    by (induction kvs arbitrary: st) auto
  then show "st_history (subflow_input env c st) = st_history st" "st_trace (subflow_input env c st) = st_trace st"
    by (simp_all add: subflow_input_def)
qed

lemma subflow_leave_parts [simp]:
  "st_history (snd (subflow_leave c st out)) = st_history st" "st_trace (snd (subflow_leave c st out)) = st_trace (snd out)"
proof -
  have "st_history (fold (\<lambda>k s. case map_of vs k of None \<Rightarrow> s | Some v \<Rightarrow> setv k v s) ks s) = st_history s \<and>
     st_trace (fold (\<lambda>k s. case map_of vs k of None \<Rightarrow> s | Some v \<Rightarrow> setv k v s) ks s) = st_trace s" for vs ks s
    by (induction ks arbitrary: s) (auto split: option.split)
  then show "st_history (snd (subflow_leave c st out)) = st_history st"
    "st_trace (snd (subflow_leave c st out)) = st_trace (snd out)"
    by (auto simp: subflow_leave_def Let_def split: sum.split)
qed

lemma visit_node_parts [simp]:
  "st_history (visit_node n x st) = st_history st @ [\<lparr>nv_NodeID = n_ID n, nv_NodeType = n_Type n, nv_ExitName = x\<rparr>]"
  "st_trace (visit_node n x st) = st_trace st"
  by (simp_all add: visit_node_def)

lemma requests_ok_cong: "st_trace v = st_trace w \<Longrightarrow> requests_ok env v = requests_ok env w"
  by (simp add: requests_ok_def)

text \<open>
  What a node answers, with \<open>loop\<close> for the runs of sub-flows; the body of \<open>ivr_loop\<close> in terms of it.
\<close>

definition answer ::
  "(session \<Rightarrow> ivr_graph \<Rightarrow> nat \<Rightarrow> ivr_node \<Rightarrow> ivr_state \<Rightarrow> ((ivr_error + unit) \<times> ivr_state) option) \<Rightarrow>
   ivr_env \<Rightarrow> registered \<Rightarrow> session \<Rightarrow> ivr_node \<Rightarrow> ivr_state \<Rightarrow> ((ivr_error + string) \<times> ivr_state) option" where
  "answer loop env h s n st =
     (case h of
        Plain handle \<Rightarrow> Some (handle s n st)
      | SubFlow \<Rightarrow>
          (let c = subflow_of n; st1 = subflow_input env c st
           in case subflow_target env c of
                Inl exit \<Rightarrow> Some (Inr exit, st1)
              | Inr (k, sub) \<Rightarrow> (case start_node sub of
                  None \<Rightarrow> Some (Inr ''error'', st1)
                | Some start \<Rightarrow>
                    Option.bind (loop (s\<lparr>se_FlowID := k\<rparr>) sub 0 start (subflow_enter st1))
                      (\<lambda>out. Some (apfst Inr (subflow_leave c st1 out))))))"

lemma answer_tame:
  assumes "answer loop env h s n st = Some (res, st1)" "DefaultEngine env ty = Some h"
    and "\<And>s' g' n' st' r' out. loop s' g' 0 n' st' = Some (r', out) \<Longrightarrow> requests_ok env st' \<Longrightarrow> requests_ok env out"
  shows "(\<exists>exit. res = Inr exit) \<and> st_history st1 = st_history st \<and> (requests_ok env st \<longrightarrow> requests_ok env st1)"
proof (cases h)
  case (Plain handle)
  with assms(1,2) DefaultEngine_tame [of env ty handle s n] show ?thesis
    by (auto simp: answer_def tame_def) (metis Pair_inject)+
next
  case SubFlow
  let ?c = "subflow_of n"
  let ?st1 = "subflow_input env ?c st"
  consider (exit) x where "subflow_target env ?c = Inl x"
    | (nostart) k sub where "subflow_target env ?c = Inr (k, sub)" "start_node sub = None"
    | (go) k sub start where "subflow_target env ?c = Inr (k, sub)" "start_node sub = Some start"
    by (cases "subflow_target env ?c") (auto, metis not_None_eq)
  then show ?thesis
  proof cases
    case go
    with SubFlow assms(1) obtain r2 st2 where
      out: "loop (s\<lparr>se_FlowID := k\<rparr>) sub 0 start (subflow_enter ?st1) = Some (r2, st2)"
        "(res, st1) = apfst Inr (subflow_leave ?c ?st1 (r2, st2))"
      by (auto simp: answer_def Let_def split: Option.bind_splits)
    have "requests_ok env (subflow_enter ?st1) = requests_ok env st"
      by (rule requests_ok_cong) (simp add: subflow_enter_def)
    with assms(3) [OF out(1)] have ok: "requests_ok env st \<longrightarrow> requests_ok env st2" by simp
    have st1: "st1 = snd (subflow_leave ?c ?st1 (r2, st2))" "\<exists>x. res = Inr x"
      using out(2) by (auto simp: apfst_def map_prod_def split: prod.splits)
    have "st_history st1 = st_history st" "st_trace st1 = st_trace st2" by (simp_all add: st1(1))
    with ok st1(2) requests_ok_cong [of st1 st2 env] show ?thesis by simp
  qed (use SubFlow assms(1) in \<open>auto simp: answer_def Let_def requests_ok_def\<close>)
qed


definition advance ::
  "(nat \<Rightarrow> ivr_node \<Rightarrow> ivr_state \<Rightarrow> ((ivr_error + unit) \<times> ivr_state) option) \<Rightarrow> ivr_graph \<Rightarrow> nat \<Rightarrow> ivr_node \<Rightarrow>
     (ivr_error + string) \<times> ivr_state \<Rightarrow> ((ivr_error + unit) \<times> ivr_state) option" where
  "advance loop g step n out =
     (case out of
        (Inl e, st') \<Rightarrow> Some (Inl e, st')
      | (Inr exit, st') \<Rightarrow> (case next_node g n exit of
          Inl e \<Rightarrow> Some (Inl e, visit_node n exit st')
        | Inr m \<Rightarrow> loop (Suc step) m (visit_node n exit st')))"

definition step_body ::
  "(session \<Rightarrow> ivr_graph \<Rightarrow> nat \<Rightarrow> ivr_node \<Rightarrow> ivr_state \<Rightarrow> ((ivr_error + unit) \<times> ivr_state) option) \<Rightarrow>
   ivr_env \<Rightarrow> ivr_engine \<Rightarrow> session \<Rightarrow> ivr_graph \<Rightarrow> nat \<Rightarrow> ivr_node \<Rightarrow> ivr_state \<Rightarrow> ((ivr_error + unit) \<times> ivr_state) option" where
  "step_body loop env eng s g step n st =
     (if maxSteps \<le> step then Some (Inl IvrTooManySteps, st)
      else if n_Type n = NodeEnd then Some (Inr (), visit_node n [] st)
      else case eng (n_Type n) of
        None \<Rightarrow> Some (Inl (IvrNoHandler (n_Type n)), st)
      | Some h \<Rightarrow> Option.bind (answer loop env h s n st) (advance (loop s g) g step n))"

lemma ivr_loop_step: "ivr_loop env eng s g step n st = step_body (ivr_loop env eng) env eng s g step n st"
  unfolding step_body_def answer_def advance_def [abs_def] by (rule ivr_loop.simps)

lemma loop_induct [consumes 1, case_names step]:
  assumes "ivr_loop env eng s g step n st = Some y"
    and "\<And>loop s g step n st y. (\<And>s g step n st y. loop s g step n st = Some y \<Longrightarrow> P s g step n st y) \<Longrightarrow>
       step_body loop env eng s g step n st = Some y \<Longrightarrow> P s g step n st y"
  shows "P s g step n st y"
  using assms(1)
proof (rule ivr_loop.raw_induct [where P = "\<lambda>env' eng' s g step n st y. env' = env \<longrightarrow> eng' = eng \<longrightarrow> P s g step n st y",
      THEN mp, THEN mp, rotated])
  fix loop env' eng' s g step n st y
  assume ih: "\<And>env' eng' s g step n st y. loop env' eng' s g step n st = Some y \<Longrightarrow> env' = env \<longrightarrow> eng' = eng \<longrightarrow> P s g step n st y"
    and body: "(if maxSteps \<le> step then Some (Inl IvrTooManySteps, st)
      else if n_Type n = NodeEnd then Some (Inr (), visit_node n [] st)
      else case eng' (n_Type n) of
        None \<Rightarrow> Some (Inl (IvrNoHandler (n_Type n)), st)
      | Some h \<Rightarrow>
          Option.bind
            (case h of
               Plain handle \<Rightarrow> Some (handle s n st)
             | SubFlow \<Rightarrow>
                 (let c = subflow_of n; st1 = subflow_input env' c st
                  in case subflow_target env' c of
                       Inl exit \<Rightarrow> Some (Inr exit, st1)
                     | Inr (k, sub) \<Rightarrow> (case start_node sub of
                         None \<Rightarrow> Some (Inr ''error'', st1)
                       | Some start \<Rightarrow>
                           Option.bind (loop env' eng' (s\<lparr>se_FlowID := k\<rparr>) sub 0 start (subflow_enter st1))
                             (\<lambda>out. Some (apfst Inr (subflow_leave c st1 out))))))
            (\<lambda>out. case out of
               (Inl e, st') \<Rightarrow> Some (Inl e, st')
             | (Inr exit, st') \<Rightarrow> (case next_node g n exit of
                 Inl e \<Rightarrow> Some (Inl e, visit_node n exit st')
               | Inr m \<Rightarrow> loop env' eng' s g (Suc step) m (visit_node n exit st')))) = Some y"
  show "env' = env \<longrightarrow> eng' = eng \<longrightarrow> P s g step n st y"
  proof (intro impI)
    assume eqs: "env' = env" "eng' = eng"
    show "P s g step n st y"
    proof (rule assms(2) [where loop = "loop env eng"])
      show "P s g step n st y" if "loop env eng s g step n st = Some y" for s g step n st y
        using ih [OF that] by simp
      show "step_body (loop env eng) env eng s g step n st = Some y"
        using body unfolding eqs step_body_def answer_def advance_def [abs_def] .
    qed
  qed
qed simp_all


lemma loop_cases [consumes 1, case_names many ends nohandler answered]:
  assumes "step_body loop env eng s g step n st = Some y"
  obtains (many) "maxSteps \<le> step" "y = (Inl IvrTooManySteps, st)"
    | (ends) "step < maxSteps" "n_Type n = NodeEnd" "y = (Inr (), visit_node n [] st)"
    | (nohandler) "step < maxSteps" "eng (n_Type n) = None" "y = (Inl (IvrNoHandler (n_Type n)), st)"
    | (answered) h out where "step < maxSteps" "eng (n_Type n) = Some h" "answer loop env h s n st = Some out"
        "advance (loop s g) g step n out = Some y"
  using assms by (auto simp: step_body_def split: if_splits option.splits Option.bind_splits)

section \<open>What a run keeps\<close>

definition expected_result :: "ivr_graph \<Rightarrow> ivr_error + unit \<Rightarrow> bool" where
  "expected_result g r \<longleftrightarrow> r = Inr () \<or> r = Inl IvrTooManySteps \<or>
     (\<exists>m \<in> set (g_Nodes g). \<exists>x. r = Inl (IvrNoExit (n_ID m) x) \<and>
        map_of (n_Exits m) x = None \<and> map_of (n_Exits m) ''default'' = None)"

lemma node_map_mem: "node_map g t = Some m \<Longrightarrow> m \<in> set (g_Nodes g)"
  by (auto simp: node_map_def dest!: map_of_SomeD)

lemma valid_graphD:
  assumes "valid_graph g"
  shows "n \<in> set (g_Nodes g) \<Longrightarrow> n_Type n \<in> set AllNodeTypes"
    and "n \<in> set (g_Nodes g) \<Longrightarrow> e \<in> set (n_Exits n) \<Longrightarrow> snd e \<in> n_ID ` set (g_Nodes g)"
    and "\<exists>n \<in> set (g_Nodes g). n_Type n = NodeStart"
  using assms unfolding valid_graph_def Let_def by blast+

lemma next_node_cases:
  assumes "n \<in> set (g_Nodes g)"
  shows "(\<exists>m \<in> set (g_Nodes g). next_node g n x = Inr m) \<or> expected_result g (Inl (projl (next_node g n x))) \<or> \<not> valid_graph g"
proof (cases "case map_of (n_Exits n) x of Some t \<Rightarrow> Some t | None \<Rightarrow> map_of (n_Exits n) ''default''")
  case None
  with assms show ?thesis by (auto simp: next_node_def expected_result_def split: option.splits)
next
  case (Some t)
  then have "(x, t) \<in> set (n_Exits n) \<or> (''default'', t) \<in> set (n_Exits n)"
    by (auto split: option.splits dest: map_of_SomeD)
  then have "valid_graph g \<Longrightarrow> t \<in> n_ID ` set (g_Nodes g)"
    using valid_graphD(2) [OF _ assms] by (metis snd_conv)
  then have "valid_graph g \<Longrightarrow> node_map g t \<noteq> None" by (auto simp: node_map_def map_of_eq_None_iff image_image)
  with Some node_map_mem [of g t] show ?thesis
    by (cases "node_map g t") (auto simp: next_node_def)
qed

lemma next_node_mem: "next_node g n x = Inr m \<Longrightarrow> m \<in> set (g_Nodes g)"
  by (auto simp: next_node_def split: option.splits dest: node_map_mem)

lemma loop_facts:
  assumes "ivr_loop env (DefaultEngine env) s g step n st = Some y"
  shows "(requests_ok env st \<longrightarrow> requests_ok env (snd y)) \<and>
     length (st_history (snd y)) \<le> length (st_history st) + (maxSteps - step) \<and>
     (valid_graph g \<longrightarrow> n \<in> set (g_Nodes g) \<longrightarrow> expected_result g (fst y))"
  using assms
proof (induction rule: loop_induct)
  case (step loop s g step n st y)
  from step(2) show ?case
  proof (cases rule: loop_cases)
    case many
    then show ?thesis by (simp add: expected_result_def)
  next
    case ends
    then show ?thesis by (simp add: expected_result_def requests_ok_def)
  next
    case nohandler
    then have "n_Type n \<notin> set AllNodeTypes" using DefaultEngine_total by blast
    with valid_graphD(1) [of g n] nohandler show ?thesis by auto
  next
    case (answered h out)
    obtain res st1 where out: "out = (res, st1)" by (cases out)
    have "(\<exists>exit. res = Inr exit) \<and> st_history st1 = st_history st \<and> (requests_ok env st \<longrightarrow> requests_ok env st1)"
      using step(1) by (intro answer_tame [OF answered(3) [unfolded out] answered(2)]) force
    then obtain x where x: "res = Inr x" "st_history st1 = st_history st" "requests_ok env st \<longrightarrow> requests_ok env st1" by blast
    let ?st2 = "visit_node n x st1"
    have trace: "requests_ok env st \<longrightarrow> requests_ok env ?st2" using x(3) by (simp add: requests_ok_def)
    show ?thesis
    proof (cases "next_node g n x")
      case (Inl e)
      with answered(4) out x(1) have "y = (Inl e, ?st2)" by (simp add: advance_def)
      with Inl trace answered(1) x(2) next_node_cases [of n g x] show ?thesis by auto
    next
      case (Inr m)
      with answered(4) out x(1) have "loop s g (Suc step) m ?st2 = Some y" by (simp add: advance_def)
      from step(1) [OF this] trace answered(1) x(2) next_node_mem [OF Inr] show ?thesis by auto
    qed
  qed
qed

lemma find_mem: "List.find P xs = Some x \<Longrightarrow> x \<in> set xs"
  by (induction xs) (auto split: if_splits)

lemma start_node_mem: "start_node g = Some n \<Longrightarrow> n \<in> set (g_Nodes g)"
  unfolding start_node_def by (drule find_mem) simp

lemma valid_start:
  assumes "valid_graph g"
  shows "start_node g \<noteq> None"
proof -
  obtain n where "n \<in> set (g_Nodes g)" "n_Type n = NodeStart" using valid_graphD(3) [OF assms] by blast
  then show ?thesis by (auto simp: start_node_def find_None_iff)
qed

section \<open>Termination\<close>

text \<open>
  Flow \<open>k\<close> calls flow \<open>j\<close>: a \<open>SubFlow\<close> node of \<open>k\<close> names \<open>j\<close>. Nothing in the engine or in the editor
  keeps this relation free of cycles.
\<close>

definition calls_flow :: "ivr_env \<Rightarrow> (int \<times> int) set" where
  "calls_flow env = {(j, k). \<exists>load g n sub. en_loader env = Some load \<and> load k = Some g \<and>
     n \<in> set (g_Nodes g) \<and> n_Type n = NodeSubFlow \<and> subflow_target env (subflow_of n) = Inr (j, sub)}"

lemma DefaultEngine_subflow: "DefaultEngine env ty = Some SubFlow \<Longrightarrow> ty = NodeSubFlow"
proof -
  assume "DefaultEngine env ty = Some SubFlow"
  then have "(ty, SubFlow) \<in> set (default_handlers env)"
    by (auto simp: DefaultEngine_eq dest: map_of_SomeD)
  then show ?thesis by (simp add: default_handlers_def)
qed

lemma answer_returns:
  assumes "DefaultEngine env (n_Type n) = Some h"
    and "\<And>k sub start st. n_Type n = NodeSubFlow \<Longrightarrow> subflow_target env (subflow_of n) = Inr (k, sub) \<Longrightarrow>
           start_node sub = Some start \<Longrightarrow> loop (s\<lparr>se_FlowID := k\<rparr>) sub 0 start st \<noteq> None"
  shows "answer loop env h s n st \<noteq> None"
proof (cases h)
  case SubFlow
  with assms(1) have "n_Type n = NodeSubFlow" using DefaultEngine_subflow by simp
  note sub = assms(2) [OF this]
  show ?thesis
  proof (cases "subflow_target env (subflow_of n)")
    case (Inr p)
    obtain k g where p: "p = (k, g)" by (cases p)
    show ?thesis
    proof (cases "start_node g")
      case (Some start)
      with sub [OF Inr [unfolded p] Some] Inr p show ?thesis
        by (simp add: answer_def Let_def SubFlow) (metis bind.bind_lunit option.exhaust option.distinct(1) surj_pair)
    qed (simp add: answer_def Let_def SubFlow Inr p)
  qed (simp add: answer_def Let_def SubFlow)
qed (simp add: answer_def)

lemma loop_returns:
  assumes sub: "\<And>n k sub start s st. n \<in> set (g_Nodes g) \<Longrightarrow> n_Type n = NodeSubFlow \<Longrightarrow>
      subflow_target env (subflow_of n) = Inr (k, sub) \<Longrightarrow> start_node sub = Some start \<Longrightarrow>
      ivr_loop env (DefaultEngine env) s sub 0 start st \<noteq> None"
    and "n \<in> set (g_Nodes g)"
  shows "ivr_loop env (DefaultEngine env) s g step n st \<noteq> None"
  using assms(2)
proof (induction "maxSteps - step" arbitrary: step n st rule: less_induct)
  case less
  let ?loop = "ivr_loop env (DefaultEngine env)"
  show ?case
  proof (cases "step < maxSteps \<and> n_Type n \<noteq> NodeEnd \<and> DefaultEngine env (n_Type n) \<noteq> None")
    case True
    then obtain h where h: "DefaultEngine env (n_Type n) = Some h" by blast
    obtain out where out: "answer ?loop env h s n st = Some out"
      using answer_returns [OF h, where loop = ?loop and s = s and st = st] sub [OF less.prems] by blast
    have "advance (?loop s g) g step n out \<noteq> None"
    proof (cases "\<exists>st1 x m. out = (Inr x, st1) \<and> next_node g n x = Inr m")
      case True
      then obtain st1 x m where o': "out = (Inr x, st1)" and m: "next_node g n x = Inr m" by blast
      have "?loop s g (Suc step) m (visit_node n x st1) \<noteq> None"
        using \<open>step < maxSteps \<and> _\<close> diff_less_mono2 [of step "Suc step" maxSteps]
        by (intro less.hyps next_node_mem [OF m]) blast
      with o' m show ?thesis by (simp add: advance_def)
    qed (auto simp: advance_def split: prod.split sum.split)
    with True h out show ?thesis by (subst ivr_loop_step) (simp add: step_body_def)
  qed (subst ivr_loop_step, auto simp: step_body_def split: option.split)
qed

lemma acyclic_flow_returns:
  assumes "wf (calls_flow env)" "en_loader env = Some load" "load k = Some g" "n \<in> set (g_Nodes g)"
  shows "ivr_loop env (DefaultEngine env) s g step n st \<noteq> None"
  using assms(1,3,4)
proof (induction k arbitrary: g n s step st rule: wf_induct_rule)
  case (less k)
  show ?case
  proof (rule loop_returns [OF _ less.prems(2)])
    fix m j sub start s st
    assume m: "m \<in> set (g_Nodes g)" "n_Type m = NodeSubFlow"
      and sub: "subflow_target env (subflow_of m) = Inr (j, sub)" and start: "start_node sub = Some start"
    have "(j, k) \<in> calls_flow env" using assms(2) less.prems(1) m sub by (auto simp: calls_flow_def)
    moreover have "load j = Some sub"
      using sub assms(2) by (auto simp: subflow_target_def split: option.splits)
    ultimately show "ivr_loop env (DefaultEngine env) s sub 0 start st \<noteq> None"
      using less.IH start_node_mem [OF start] by blast
  qed
qed

text \<open>
  Without that a run may not end: a flow whose start node leads to a \<open>SubFlow\<close> node for the flow
  itself never returns, the limit of 1000 steps notwithstanding.
\<close>

lemma self_subflow_diverges:
  assumes "en_loader env = Some load" "load k = Some g" "start_node g = Some a"
    and "n_Type a = NodeStart" "next_node g a ''default'' = Inr b"
    and "n_Type b = NodeSubFlow" "parse_int64 (sf_FlowID (subflow_of b)) = Some k"
  shows "ExecuteFlow env (DefaultEngine env) s k st = None"
proof -
  have a: "DefaultEngine env NodeStart = Some (Plain StartHandler)" "DefaultEngine env NodeSubFlow = Some SubFlow"
    by (simp_all add: DefaultEngine_eq default_handlers_def)
  have target: "subflow_target env (subflow_of b) = Inr (k, g)" using assms(1,2,7) by (simp add: subflow_target_def)
  have no: "(step = 0 \<and> n = a \<or> step = 1 \<and> n = b) \<longrightarrow> g' \<noteq> g"
    if "ivr_loop env (DefaultEngine env) s g' step n st = Some y" for s g' step n st y
    using that
  proof (induction rule: loop_induct)
    case (step loop s g' i n st y)
    show ?case
    proof (intro impI notI)
      assume at: "i = 0 \<and> n = a \<or> i = 1 \<and> n = b" and g: "g' = g"
      note body = step(2) [unfolded step_body_def g] and ih = step(1)
      from at show False
      proof
        assume "i = 0 \<and> n = a"
        then have "\<exists>st'. loop s g 1 b st' = Some y" using body assms(4,5) a(1)
          by (auto simp: maxSteps_def answer_def advance_def StartHandler_def act_run set_vars_def)
        then show False using ih by blast
      next
        assume "i = 1 \<and> n = b"
        then have "\<exists>s st' y. loop s g 0 a st' = Some y" using body assms(3,6) a(2) target
          by (auto simp: maxSteps_def answer_def Let_def split: Option.bind_splits)
        then show False using ih by blast
      qed
    qed
  qed
  have "ivr_loop env (DefaultEngine env) s g 0 a st = None"
  proof (rule ccontr)
    assume "\<not> ?thesis"
    then obtain y where "ivr_loop env (DefaultEngine env) s g 0 a st = Some y" by blast
    from no [OF this] show False by simp
  qed
  with assms(1-3) show ?thesis by (simp add: ExecuteFlow_def Execute_def)
qed

section \<open>Properties\<close>

text \<open>
  C6. A stored flow whose graph the validator accepts never sends the engine astray. Where no chain of
  \<open>SubFlow\<close> nodes leads from a flow back to itself, a run returns, and it has ended at an end
  node, or after 1000 steps, or at a node that has neither the exit its handler names nor a default
  exit. A missing start node, an unknown node type, an exit to nowhere and a failing handler are
  ruled out, whatever FreeSWITCH and the providers answer.
\<close>

theorem valid_flow_runs:
  assumes "wf (calls_flow env)" "en_loader env = Some load" "load flow = Some g" "ValidateParsed g = Inr g'"
  shows "\<exists>r st'. ExecuteFlow env (DefaultEngine env) s flow st = Some (r, st') \<and>
    expected_result g r \<and> length (st_history st') \<le> length (st_history st) + 1000"
proof -
  have valid: "valid_graph g" using ValidateParsed_valid assms(4) by blast
  then obtain n where n: "start_node g = Some n" using valid_start by blast
  from acyclic_flow_returns [OF assms(1-3) start_node_mem [OF n]]
  obtain r st' where run: "ivr_loop env (DefaultEngine env) s g 0 n st = Some (r, st')" by fastforce
  with assms(2,3) n have "ExecuteFlow env (DefaultEngine env) s flow st = Some (r, st')"
    by (simp add: ExecuteFlow_def Execute_def)
  with loop_facts [OF run] start_node_mem [OF n] valid show ?thesis by (simp add: maxSteps_def)
qed

definition public_url :: "ivr_env \<Rightarrow> string \<Rightarrow> bool" where
  "public_url env u \<longleftrightarrow> (\<exists>scheme host. en_url env u = Some (scheme, host) \<and>
     (strings_ToLower scheme = ''http'' \<or> strings_ToLower scheme = ''https'') \<and>
     \<not> blocked_host (strings_ToLower host))"

text \<open>
  C21. No node of a flow, and no node of a sub-flow, asks the HTTP client for a URL that
  \<open>validateURL\<close> rejects: every URL asked for has the scheme http or https and a host that is not
  on the list of loopback and private names. The client also follows redirects, which nothing checks: a URL that
  it visits without having been asked for is one that the answer to such a checked request redirects to. A redirect can
  lead to a private host (\<open>redirect_reaches_private\<close>).
\<close>

theorem requests_stay_public:
  assumes "ExecuteFlow env (DefaultEngine env) s flow st = Some (r, st')" "st_trace st = []"
  shows "(HttpDo rq \<in> set (st_trace st') \<longrightarrow> public_url env (hr_URL rq)) \<and>
    (HttpRedirect u \<in> set (st_trace st') \<longrightarrow> (\<exists>rq0. HttpDo rq0 \<in> set (st_trace st') \<and>
       public_url env (hr_URL rq0) \<and> u \<in> set (fst (en_http env rq0))))"
proof -
  have start: "requests_ok env st" by (simp add: requests_ok_def assms(2))
  have "requests_ok env st'"
  proof (cases "\<exists>load g n. en_loader env = Some load \<and> load flow = Some g \<and> start_node g = Some n")
    case True
    then obtain load g n where "en_loader env = Some load" "load flow = Some g" "start_node g = Some n" by blast
    with assms(1) have "ivr_loop env (DefaultEngine env) s g 0 n st = Some (r, st')"
      by (simp add: ExecuteFlow_def Execute_def)
    from loop_facts [OF this] start show ?thesis by simp
  next
    case False
    with assms(1) start show ?thesis by (auto simp: ExecuteFlow_def Execute_def split: option.splits)
  qed
  then have checked: "HttpDo rq0 \<in> set (st_trace st') \<Longrightarrow> validateURL env (hr_URL rq0)"
    and redirected: "HttpRedirect u \<in> set (st_trace st') \<Longrightarrow> \<exists>rq0. HttpDo rq0 \<in> set (st_trace st') \<and> u \<in> set (fst (en_http env rq0))"
    for rq0 by (simp_all add: requests_ok_def)
  have "validateURL env v \<Longrightarrow> public_url env v" for v
    by (auto simp: validateURL_def public_url_def split: option.splits)
  with checked redirected show ?thesis by blast
qed

lemma flow_returns:
  assumes "wf (calls_flow env)"
  shows "\<exists>r st'. ExecuteFlow env (DefaultEngine env) s flow st = Some (r, st')"
proof (cases "\<exists>load g n. en_loader env = Some load \<and> load flow = Some g \<and> start_node g = Some n")
  case True
  then obtain load g n where g: "en_loader env = Some load" "load flow = Some g" "start_node g = Some n" by blast
  then have "ivr_loop env (DefaultEngine env) s g 0 n st \<noteq> None"
    by (intro acyclic_flow_returns [OF assms(1)] start_node_mem)
  with g show ?thesis by (auto simp: ExecuteFlow_def Execute_def)
qed (auto simp: ExecuteFlow_def Execute_def split: option.split)

text \<open>
  C31. A flow returns, whatever its nodes do, when no chain of \<open>SubFlow\<close> nodes leads from a flow back
  to itself (the calls among the stored flows are well-founded): the steps of one flow are bounded by
  1000, the depth of the nesting by the relation.
\<close>

theorem ExecuteFlow_terminates:
  assumes "wf (calls_flow env)"
  shows "\<exists>r st'. ExecuteFlow env (DefaultEngine env) s flow st = Some (r, st')"
  using assms by (rule flow_returns)

lemma contains_from_iff: "contains_from s sub i k \<longleftrightarrow> (\<exists>j. i \<le> j \<and> j < i + k \<and> take (length sub) (drop j s) = sub)"
proof (induction k arbitrary: i)
  case (Suc k)
  show ?case
  proof
    assume "contains_from s sub i (Suc k)"
    then show "\<exists>j. i \<le> j \<and> j < i + Suc k \<and> take (length sub) (drop j s) = sub"
      using Suc.IH [of "Suc i"] by (auto intro: exI [of _ i]) (metis Suc_leD add_Suc)
  next
    assume "\<exists>j. i \<le> j \<and> j < i + Suc k \<and> take (length sub) (drop j s) = sub"
    then obtain j where "i \<le> j" "j < i + Suc k" "take (length sub) (drop j s) = sub" by blast
    then show "contains_from s sub i (Suc k)"
      using Suc.IH [of "Suc i"] by (cases "j = i") auto
  qed
qed simp

lemma contains_iff: "contains s sub \<longleftrightarrow> (\<exists>a b. s = a @ sub @ b)"
proof
  assume "contains s sub"
  then obtain j where "take (length sub) (drop j s) = sub"
    by (auto simp: contains_def contains_from_iff)
  then have "s = take j s @ sub @ drop (length sub) (drop j s)" by (metis append_take_drop_id)
  then show "\<exists>a b. s = a @ sub @ b" by blast
next
  assume "\<exists>a b. s = a @ sub @ b"
  then obtain a b where s: "s = a @ sub @ b" by blast
  then show "contains s sub"
    unfolding contains_def contains_from_iff by (intro exI [of _ "length a"]) simp
qed

text \<open>
  The operators of a branch condition mean what their names say, the loop over windows of the
  text included: \<open>contains\<close> finds a substring anywhere, \<open>starts_with\<close> and \<open>ends_with\<close> a prefix and a
  suffix, and an unknown operator never holds.
\<close>

theorem evaluateCondition_meaning:
  "evaluateCondition actual opr expected \<longleftrightarrow>
     (opr \<in> {''eq'', ''==''} \<and> actual = expected) \<or>
     (opr \<in> {''ne'', ''!=''} \<and> actual \<noteq> expected) \<or>
     (opr = ''contains'' \<and> expected \<noteq> [] \<and> (\<exists>a b. actual = a @ expected @ b)) \<or>
     (opr = ''starts_with'' \<and> (\<exists>b. actual = expected @ b)) \<or>
     (opr = ''ends_with'' \<and> (\<exists>a. actual = a @ expected)) \<or>
     (opr = ''empty'' \<and> actual = []) \<or>
     (opr = ''not_empty'' \<and> actual \<noteq> [])"
proof -
  have "(length expected \<le> length actual \<and> take (length expected) actual = expected) = (\<exists>b. actual = expected @ b)"
    by (metis append_eq_conv_conj length_append le_add1)
  moreover have "(length expected \<le> length actual \<and> drop (length actual - length expected) actual = expected) =
      (\<exists>a. actual = a @ expected)"
    by (metis append_take_drop_id append_eq_append_conv length_append diff_add_inverse2 le_add2 append_eq_conv_conj)
  moreover have "(0 < length actual \<and> 0 < length expected \<and> contains actual expected) =
      (expected \<noteq> [] \<and> (\<exists>a b. actual = a @ expected @ b))"
    by (auto simp: contains_iff)
  ultimately show ?thesis by (simp add: evaluateCondition_def)
qed

section \<open>Witnesses\<close>

text \<open>Flow 1 runs flow 2 and then asks a web service; flow 2 ends at once.\<close>

definition ask_graph :: ivr_graph where
  "ask_graph = \<lparr>g_Nodes =
     [\<lparr>n_ID = ''s'', n_Type = NodeStart, n_Config = CEmpty, n_Exits = [(''default'', ''f'')]\<rparr>,
      \<lparr>n_ID = ''f'', n_Type = NodeSubFlow, n_Config = CSubFlow \<lparr>sf_FlowID = ''2'', sf_InputVars = [], sf_OutputVars = []\<rparr>,
        n_Exits = [(''default'', ''h'')]\<rparr>,
      \<lparr>n_ID = ''h'', n_Type = NodeHTTPRequest, n_Config = CHTTP (http_zero\<lparr>hc_URL := ''u''\<rparr>), n_Exits = [(''success'', ''e'')]\<rparr>,
      \<lparr>n_ID = ''e'', n_Type = NodeEnd, n_Config = CEmpty, n_Exits = []\<rparr>], g_Edges = []\<rparr>"

definition end_graph :: ivr_graph where
  "end_graph = \<lparr>g_Nodes =
     [\<lparr>n_ID = ''s'', n_Type = NodeStart, n_Config = CEmpty, n_Exits = [(''default'', ''e'')]\<rparr>,
      \<lparr>n_ID = ''e'', n_Type = NodeEnd, n_Config = CEmpty, n_Exits = []\<rparr>], g_Edges = []\<rparr>"

definition demo_load :: "int \<Rightarrow> ivr_graph option" where
  "demo_load k = (if k = 1 then Some ask_graph else if k = 2 then Some end_graph else None)"

definition demo_env :: ivr_env where
  "demo_env = \<lparr>en_order = id, en_url = (\<lambda>u. if u = ''u'' then Some (''http'', ''api'') else None),
     en_request = (\<lambda>m u. True), en_http = (\<lambda>rq. ([], Some (200, ''ok''))), en_json = (\<lambda>s. None), en_asr = None,
     en_nlu = None, en_sentiment = None, en_crm = None, en_queue = None, en_aht = 0, en_acd = None,
     en_sink = False, en_loader = Some demo_load\<rparr>"

definition demo_session :: session where
  "demo_session = NewSession 7 1 1 [] False"

definition demo_request :: http_request where
  "demo_request = \<lparr>hr_Method = ''GET'', hr_URL = ''u'', hr_Headers = [], hr_Body = NoBody\<rparr>"

lemma demo_parts [simp]:
  "en_loader demo_env = Some demo_load" "demo_load 1 = Some ask_graph" "demo_load 2 = Some end_graph"
  by (simp_all add: demo_env_def demo_load_def)

lemma demo_subflows:
  "n \<in> set (g_Nodes ask_graph) \<Longrightarrow> n_Type n = NodeSubFlow \<Longrightarrow> sf_FlowID (subflow_of n) = ''2''"
  "n \<in> set (g_Nodes end_graph) \<Longrightarrow> n_Type n \<noteq> NodeSubFlow"
  by (auto simp: ask_graph_def end_graph_def subflow_of_def)

lemma parse_two: "parse_int64 ''2'' = Some 2"
  using parse_int64_itoa [of 2] by (simp add: itoa_def nat_str.simps int64_def)

lemma demo_calls: "calls_flow demo_env \<subseteq> {(2, 1)}"
proof -
  have "(j, k) = (2, 1)" if "(j, k) \<in> calls_flow demo_env" for j k
  proof -
    from that obtain g n sub where g: "demo_load k = Some g" and n: "n \<in> set (g_Nodes g)" "n_Type n = NodeSubFlow"
      and sub: "subflow_target demo_env (subflow_of n) = Inr (j, sub)"
      unfolding calls_flow_def by auto
    from g n demo_subflows(2) have k: "k = 1" "g = ask_graph" unfolding demo_load_def by (metis option.discI option.inject)+
    from demo_subflows(1) n k sub have "j = 2" by (simp add: subflow_target_def parse_two)
    with k show ?thesis by simp
  qed
  then show ?thesis by (metis subrelI singletonI)
qed

lemma demo_wf: "wf {(2 :: int, 1 :: int)}"
  by (rule wf_subset [OF wf_measure [of "\<lambda>k. nat (2 - k)"]]) simp

theorem ExecuteFlow_terminates_witness:
  "\<exists>r st'. ExecuteFlow demo_env (DefaultEngine demo_env) demo_session 1 (session_vars [] []) = Some (r, st')"
proof (rule ExecuteFlow_terminates)
  have "wf {(2 :: int, 1 :: int)}" by (rule wf_subset [OF wf_measure [of "\<lambda>k. nat (2 - k)"]]) simp
  then show "wf (calls_flow demo_env)" using demo_calls by (rule wf_subset)
qed

lemma demo_engine:
  "DefaultEngine demo_env NodeStart = Some (Plain StartHandler)" "DefaultEngine demo_env NodeSubFlow = Some SubFlow"
  "DefaultEngine demo_env NodeHTTPRequest = Some (Plain (HTTPRequestHandler demo_env))"
  by (simp_all add: DefaultEngine_eq default_handlers_def)

lemma plain_step:
  assumes "step < maxSteps" "n_Type n \<noteq> NodeEnd" "eng (n_Type n) = Some (Plain h)"
    and "h s n st = (Inr x, st1)" "next_node g n x = Inr m"
  shows "ivr_loop env eng s g step n st = ivr_loop env eng s g (Suc step) m (visit_node n x st1)"
  using assms by (subst ivr_loop_step) (simp add: step_body_def answer_def advance_def)

lemma end_step: "step < maxSteps \<Longrightarrow> n_Type n = NodeEnd \<Longrightarrow>
   ivr_loop env eng s g step n st = Some (Inr (), visit_node n [] st)"
  by (subst ivr_loop_step) (simp add: step_body_def)

lemma subflow_step:
  assumes "step < maxSteps" "n_Type n = NodeSubFlow" "eng NodeSubFlow = Some SubFlow"
    and "subflow_target env (subflow_of n) = Inr (k, sub)" "start_node sub = Some a"
    and "ivr_loop env eng (s\<lparr>se_FlowID := k\<rparr>) sub 0 a (subflow_enter (subflow_input env (subflow_of n) st)) = Some out"
    and "subflow_leave (subflow_of n) (subflow_input env (subflow_of n) st) out = (x, st1)" "next_node g n x = Inr m"
  shows "ivr_loop env eng s g step n st = ivr_loop env eng s g (Suc step) m (visit_node n x st1)"
  using assms by (subst ivr_loop_step) (simp add: step_body_def answer_def advance_def)

lemma demo_sub:
  "\<exists>st'. ivr_loop demo_env (DefaultEngine demo_env) s end_graph 0 (g_Nodes end_graph ! 0) st = Some (Inr (), st') \<and>
     st_trace st' = st_trace st"
proof -
  have "next_node end_graph (g_Nodes end_graph ! 0) ''default'' = Inr (g_Nodes end_graph ! 1)"
    by (simp add: end_graph_def next_node_def node_map_def)
  moreover have "n_Type (g_Nodes end_graph ! 0) = NodeStart" "n_Type (g_Nodes end_graph ! 1) = NodeEnd"
    "n_Config (g_Nodes end_graph ! 0) = CEmpty"
    by (simp_all add: end_graph_def)
  ultimately have "ivr_loop demo_env (DefaultEngine demo_env) s end_graph 0 (g_Nodes end_graph ! 0) st =
      Some (Inr (), visit_node (g_Nodes end_graph ! 1) [] (visit_node (g_Nodes end_graph ! 0) ''default'' st))"
    by (subst plain_step [where h = StartHandler])
      (auto simp: end_step demo_engine maxSteps_def StartHandler_def act_run set_vars_def)
  then show ?thesis by simp
qed

lemma demo_nodes:
  "map n_Type (g_Nodes ask_graph) = [NodeStart, NodeSubFlow, NodeHTTPRequest, NodeEnd]"
  "next_node ask_graph (g_Nodes ask_graph ! 0) ''default'' = Inr (g_Nodes ask_graph ! 1)"
  "next_node ask_graph (g_Nodes ask_graph ! 1) ''default'' = Inr (g_Nodes ask_graph ! 2)"
  "next_node ask_graph (g_Nodes ask_graph ! 2) ''success'' = Inr (g_Nodes ask_graph ! 3)"
  "start_node ask_graph = Some (g_Nodes ask_graph ! 0)" "start_node end_graph = Some (g_Nodes end_graph ! 0)"
  "n_Config (g_Nodes ask_graph ! 0) = CEmpty"
  "n_Config (g_Nodes ask_graph ! 2) = CHTTP (http_zero\<lparr>hc_URL := ''u''\<rparr>)"
  "subflow_target demo_env \<lparr>sf_FlowID = ''2'', sf_InputVars = [], sf_OutputVars = []\<rparr> = Inr (2, end_graph)"
  "subflow_of (g_Nodes ask_graph ! 1) = \<lparr>sf_FlowID = ''2'', sf_InputVars = [], sf_OutputVars = []\<rparr>"
  by (simp_all add: start_node_def next_node_def node_map_def ask_graph_def end_graph_def subflow_target_def
      subflow_of_def parse_two demo_load_def)

lemma demo_types:
  "n_Type (g_Nodes ask_graph ! 0) = NodeStart" "n_Type (g_Nodes ask_graph ! 1) = NodeSubFlow"
  "n_Type (g_Nodes ask_graph ! 2) = NodeHTTPRequest" "n_Type (g_Nodes ask_graph ! 3) = NodeEnd"
  by (simp_all add: ask_graph_def)

lemma demo_interp:
  "st_vars st = [(''subflow_id'', ''2'')] \<Longrightarrow> interp demo_env ''u'' st = ''u''"
  "st_vars st = [(''subflow_id'', ''2'')] \<Longrightarrow> interp demo_env [] st = []"
  by (simp_all add: interp_def interpolateVars_def demo_env_def replace_all.simps)

lemma demo_http:
  assumes "st_vars st = [(''subflow_id'', ''2'')]"
  shows "\<exists>st'. HTTPRequestHandler demo_env s (g_Nodes ask_graph ! 2) st = (Inr ''success'', st') \<and>
    st_trace st' = st_trace st @ [HttpDo demo_request]"
proof -
  have "validateURL demo_env ''u''"
    unfolding validateURL_def blocked_host_def by (simp add: demo_env_def) code_simp
  moreover have "en_request demo_env m u" "en_http demo_env rq = ([], Some (200, ''ok''))" for m u rq
    by (simp_all add: demo_env_def)
  ultimately show ?thesis
    by (simp add: HTTPRequestHandler_def demo_nodes http_zero_def with_state_def Let_def demo_interp [OF assms]
        interp_headers_def http_do_def emit_effect_def act_run set_output_def set_var_def succeeded_def demo_request_def or_else_def)
qed

lemma demo_valid: "ValidateParsed ask_graph = Inr ask_graph"
proof -
  have "bfs (g_Nodes ask_graph) [''s''] [] = [''e'', ''h'', ''f'', ''s'']" "start_of (g_Nodes ask_graph) = ''s''"
    "list_all (\<lambda>n. n_Type n \<in> set AllNodeTypes) (g_Nodes ask_graph)"
    by (simp_all add: ask_graph_def AllNodeTypes_def start_of_def node_targets_def bfs.simps)
  then show ?thesis
    by (simp add: ValidateParsed_def Let_def) (simp add: ask_graph_def count_type_def)
qed

lemma demo_execute:
  "\<exists>st'. Execute demo_env (DefaultEngine demo_env) demo_session ask_graph (session_vars [] []) = Some (Inr (), st') \<and>
     st_trace st' = [HttpDo demo_request]"
proof -
  let ?eng = "DefaultEngine demo_env" and ?ns = "g_Nodes ask_graph"
  let ?loop = "ivr_loop demo_env ?eng demo_session ask_graph"
  define st0 where "st0 = visit_node (?ns ! 0) ''default'' (session_vars [] [])"
  have first: "?loop 0 (?ns ! 0) (session_vars [] []) = ?loop 1 (?ns ! 1) st0"
    unfolding st0_def
    by (subst plain_step [where h = StartHandler])
      (auto simp: demo_types demo_engine demo_nodes maxSteps_def StartHandler_def act_run set_vars_def)
  let ?c = "subflow_of (?ns ! 1)"
  obtain sub where sub: "ivr_loop demo_env ?eng (demo_session\<lparr>se_FlowID := 2\<rparr>) end_graph 0 (g_Nodes end_graph ! 0)
      (subflow_enter (subflow_input demo_env ?c st0)) = Some (Inr (), sub)"
    and trace: "st_trace sub = []"
    using demo_sub by (fastforce simp: subflow_enter_def st0_def session_vars_def)
  define st1 where "st1 = visit_node (?ns ! 1) ''default'' (snd (subflow_leave ?c (subflow_input demo_env ?c st0) (Inr (), sub)))"
  have second: "?loop (Suc 0) (?ns ! 1) st0 = ?loop (Suc (Suc 0)) (?ns ! 2) st1"
    unfolding st1_def
    by (rule subflow_step [OF _ _ _ _ _ sub])
      (simp_all add: demo_types demo_engine demo_nodes maxSteps_def subflow_leave_def del: One_nat_def)
  have vars1: "st_vars st1 = [(''subflow_id'', ''2'')]" and trace1: "st_trace st1 = []"
    by (simp_all add: st1_def subflow_leave_def Let_def visit_node_def subflow_input_def setv_def demo_nodes
        trace st0_def session_vars_def del: One_nat_def)
  obtain st2 where st2: "HTTPRequestHandler demo_env demo_session (?ns ! 2) st1 = (Inr ''success'', st2)"
    "st_trace st2 = [HttpDo demo_request]"
    using demo_http [OF vars1] trace1 by fastforce
  have "?loop (Suc (Suc 0)) (?ns ! 2) st1 = ?loop (Suc (Suc (Suc 0))) (?ns ! 3) (visit_node (?ns ! 2) ''success'' st2)"
    by (rule plain_step [where h = "HTTPRequestHandler demo_env", OF _ _ _ st2(1)])
      (simp_all add: demo_types demo_engine demo_nodes maxSteps_def)
  with first second have "?loop 0 (?ns ! 0) (session_vars [] []) =
      Some (Inr (), visit_node (?ns ! 3) [] (visit_node (?ns ! 2) ''success'' st2))"
    by (simp add: end_step demo_types maxSteps_def)
  with st2(2) show ?thesis by (simp add: Execute_def demo_nodes)
qed

theorem valid_flow_runs_witness:
  "\<exists>r st'. Execute demo_env (DefaultEngine demo_env) demo_session ask_graph (session_vars [] []) = Some (r, st') \<and>
     expected_result ask_graph r \<and> length (st_history st') \<le> 1000"
proof -
  have "wf (calls_flow demo_env)" by (rule wf_subset [OF _ demo_calls]) (rule demo_wf)
  from valid_flow_runs [OF this _ _ demo_valid, of demo_load 1 demo_session "session_vars [] []"]
  obtain r st1 where "ExecuteFlow demo_env (DefaultEngine demo_env) demo_session 1 (session_vars [] []) = Some (r, st1)"
    "expected_result ask_graph r" "length (st_history st1) \<le> 1000" by (auto simp: session_vars_def)
  then show ?thesis by (auto simp: ExecuteFlow_def)
qed

text \<open>The same node, when the server it asks redirects to a loopback address.\<close>

lemma redirect_reaches_private:
  "st_trace (snd (http_do (demo_env\<lparr>en_http := (\<lambda>rq. ([''http://127.0.0.1/''], Some (200, ''secret'')))\<rparr>) demo_request st)) =
    st_trace st @ [HttpDo demo_request, HttpRedirect ''http://127.0.0.1/'']"
  by (simp add: http_do_def emit_effect_def act_run)

theorem requests_stay_public_witness:
  "\<exists>scheme host. en_url demo_env (hr_URL demo_request) = Some (scheme, host) \<and> \<not> blocked_host (strings_ToLower host)"
proof -
  obtain st' where st': "Execute demo_env (DefaultEngine demo_env) demo_session ask_graph (session_vars [] []) = Some (Inr (), st')"
    "st_trace st' = [HttpDo demo_request]"
    using demo_execute by blast
  then have "ExecuteFlow demo_env (DefaultEngine demo_env) demo_session 1 (session_vars [] []) = Some (Inr (), st')"
    by (simp add: ExecuteFlow_def)
  from requests_stay_public [OF this, of demo_request "''x''"] st'(2) show ?thesis by (auto simp: session_vars_def public_url_def)
qed

end
