(* ===== verification/WechatCrypto.thy ===== *)
theory WechatCrypto
  imports Prelude "HOL-Library.List_Lexorder"
begin

text \<open>
  The message encryption of the WeChat channel: \<open>internal/infrastructure/wechat/crypto.go\<close>, with the
  parts of Go's standard library it uses (base64, CBC mode, big-endian integers). The AES block
  function and SHA-1 are parameters.
\<close>

unbundle bit_operations_syntax

type_synonym byte = "8 word"
type_synonym bytes = "byte list"

section \<open>Base64\<close>

definition b64_char :: "nat \<Rightarrow> byte" where
  "b64_char i = of_nat (if i < 26 then 65 + i else if i < 52 then 71 + i else if i < 62 then i - 4
                        else if i = 62 then 43 else 47)"

definition b64_val :: "byte \<Rightarrow> nat option" where
  "b64_val c = (let n = unat c
     in if 65 \<le> n \<and> n \<le> 90 then Some (n - 65)
        else if 97 \<le> n \<and> n \<le> 122 then Some (n - 71)
        else if 48 \<le> n \<and> n \<le> 57 then Some (n + 4)
        else if n = 43 then Some 62
        else if n = 47 then Some 63
        else None)"

abbreviation b64_pad :: byte where "b64_pad \<equiv> 61"

text \<open>Three bytes as four digits of base 64.\<close>

fun EncodeToString :: "bytes \<Rightarrow> bytes" where
  "EncodeToString [] = []"
| "EncodeToString [a] = (let v = unat a * 16 in [b64_char (v div 64), b64_char (v mod 64), b64_pad, b64_pad])"
| "EncodeToString [a, b] = (let v = (unat a * 256 + unat b) * 4
     in [b64_char (v div 4096), b64_char (v div 64 mod 64), b64_char (v mod 64), b64_pad])"
| "EncodeToString (a # b # c # rest) = (let v = (unat a * 256 + unat b) * 256 + unat c
     in [b64_char (v div 262144), b64_char (v div 4096 mod 64), b64_char (v div 64 mod 64), b64_char (v mod 64)] @
        EncodeToString rest)"

text \<open>
  Decoding: groups of four digits, padding only in the last group, the unused bits of a padded group
  ignored.
\<close>

fun b64_groups :: "bytes \<Rightarrow> bytes option" where
  "b64_groups [] = Some []"
| "b64_groups (a # b # c # d # rest) =
     (case (b64_val a, b64_val b) of
        (Some i, Some j) \<Rightarrow>
          if c = b64_pad then
            (if d = b64_pad \<and> rest = [] then Some [of_nat ((i * 64 + j) div 16)] else None)
          else (case b64_val c of
              None \<Rightarrow> None
            | Some k \<Rightarrow>
                if d = b64_pad then
                  (if rest = [] then let v = ((i * 64 + j) * 64 + k) div 4 in Some [of_nat (v div 256), of_nat (v mod 256)]
                   else None)
                else (case b64_val d of
                    None \<Rightarrow> None
                  | Some l \<Rightarrow> (let v = ((i * 64 + j) * 64 + k) * 64 + l
                      in map_option (\<lambda>out. of_nat (v div 65536) # of_nat (v div 256 mod 256) # of_nat (v mod 256) # out)
                           (b64_groups rest))))
      | _ \<Rightarrow> None)"
| "b64_groups _ = None"

text \<open>\<open>base64.StdEncoding.DecodeString\<close> skips line breaks.\<close>

definition DecodeString :: "bytes \<Rightarrow> bytes option" where
  "DecodeString s = b64_groups (filter (\<lambda>c. c \<noteq> 10 \<and> c \<noteq> 13) s)"

lemma b64_val_char: "i < 64 \<Longrightarrow> b64_val (b64_char i) = Some i"
proof -
  assume "i < 64"
  then have "i \<in> set [0..<64]" by simp
  moreover have "list_all (\<lambda>i. b64_val (b64_char i) = Some i) [0..<64]" by code_simp
  ultimately show ?thesis by (simp only: list_all_iff)
qed

lemma b64_char_plain: "i < 64 \<Longrightarrow> b64_char i \<noteq> b64_pad \<and> b64_char i \<noteq> 10 \<and> b64_char i \<noteq> 13"
proof -
  assume "i < 64"
  then have "i \<in> set [0..<64]" by simp
  moreover have "list_all (\<lambda>i. b64_char i \<noteq> b64_pad \<and> b64_char i \<noteq> 10 \<and> b64_char i \<noteq> 13) [0..<64]" by code_simp
  ultimately show ?thesis unfolding list_all_iff by blast
qed

lemma b64_plain [simp]: "i < 64 \<Longrightarrow> b64_char i \<noteq> b64_pad" "i < 64 \<Longrightarrow> b64_char i \<noteq> 10" "i < 64 \<Longrightarrow> b64_char i \<noteq> 13"
  using b64_char_plain by auto

lemma byte_small: "unat (a :: byte) < 256"
  using unsigned_less [of a] by simp

lemma byte_le: "unat (a :: byte) \<le> 255"
  using byte_small [of a] by linarith

lemma bounds64:
  fixes a b c :: nat
  assumes "a \<le> 255" "b \<le> 255" "c \<le> 255"
  shows "a * 16 div 64 < 64" "(a * 256 + b) * 4 div 4096 < 64" "((a * 256 + b) * 256 + c) div 262144 < 64"
proof -
  have "a * 16 < 64 * 64" "(a * 256 + b) * 4 < 64 * 4096" "(a * 256 + b) * 256 + c < 64 * 262144"
    using assms by simp_all
  then show "a * 16 div 64 < 64" "(a * 256 + b) * 4 div 4096 < 64" "((a * 256 + b) * 256 + c) div 262144 < 64"
    by (simp_all only: less_mult_imp_div_less)
qed

lemma digits64:
  fixes v :: nat
  shows "v div 64 * 64 + v mod 64 = v"
    and "(v div 4096 * 64 + v div 64 mod 64) * 64 + v mod 64 = v"
    and "((v div 262144 * 64 + v div 4096 mod 64) * 64 + v div 64 mod 64) * 64 + v mod 64 = v"
proof -
  show 1: "v div 64 * 64 + v mod 64 = v" for v :: nat by (rule div_mult_mod_eq)
  have "v div 4096 = v div 64 div 64" for v :: nat by (simp add: div_mult2_eq [symmetric])
  with 1 [of "v div 64"] 1 [of v]
  show 2: "(v div 4096 * 64 + v div 64 mod 64) * 64 + v mod 64 = v" for v :: nat
    using 1 by metis
  have "v div 262144 = v div 64 div 4096" "v div 4096 = v div 64 div 64" by (simp_all add: div_mult2_eq [symmetric])
  with 2 [of "v div 64"] 1 [of v]
  show "((v div 262144 * 64 + v div 4096 mod 64) * 64 + v div 64 mod 64) * 64 + v mod 64 = v" by simp
qed

lemma split256:
  fixes m c :: nat
  assumes "c < 256"
  shows "(m * 256 + c) div 256 = m" "(m * 256 + c) mod 256 = c"
  using assms by simp_all

lemma bytes64:
  fixes a b c :: nat
  assumes "b < 256" "c < 256"
  shows "a * 16 div 16 = a" "(a * 256 + b) * 4 div 4 div 256 = a" "(a * 256 + b) * 4 div 4 mod 256 = b"
    and "((a * 256 + b) * 256 + c) div 65536 = a" "((a * 256 + b) * 256 + c) div 256 mod 256 = b"
    and "((a * 256 + b) * 256 + c) mod 256 = c"
proof -
  have "v div 65536 = v div 256 div 256" for v :: nat by (simp add: div_mult2_eq [symmetric])
  then show "((a * 256 + b) * 256 + c) div 65536 = a" by (simp only: split256 assms)
  have "(x * 4) div 4 = x" for x :: nat by simp
  then show "(a * 256 + b) * 4 div 4 div 256 = a" "(a * 256 + b) * 4 div 4 mod 256 = b"
    by (simp_all only: split256 assms)
  show "((a * 256 + b) * 256 + c) div 256 mod 256 = b" "((a * 256 + b) * 256 + c) mod 256 = c"
    by (simp_all only: split256 assms)
qed simp

lemma byte_unat: "of_nat (unat (a :: byte)) = a"
  by simp

lemma encoded_plain: "c \<in> set (EncodeToString xs) \<Longrightarrow> c \<noteq> 10 \<and> c \<noteq> 13"
proof (induction xs rule: EncodeToString.induct)
  case (2 a)
  then show ?case using bounds64(1) [OF byte_le [of a] byte_le byte_le] by (auto simp: Let_def)
next
  case (3 a b)
  then show ?case using bounds64(2) [OF byte_le [of a] byte_le [of b] byte_le] by (auto simp: Let_def)
next
  case (4 a b c' rest)
  then show ?case using bounds64(3) [OF byte_le [of a] byte_le [of b] byte_le [of c']] by (auto simp: Let_def)
qed simp

lemma group_1:
  assumes "v div 64 < 64"
  shows "b64_groups [b64_char (v div 64), b64_char (v mod 64), b64_pad, b64_pad] = Some [of_nat (v div 16)]"
  using assms by (simp add: b64_val_char)

lemma group_2:
  assumes "v div 4096 < 64"
  shows "b64_groups [b64_char (v div 4096), b64_char (v div 64 mod 64), b64_char (v mod 64), b64_pad] =
    Some [of_nat (v div 4 div 256), of_nat (v div 4 mod 256)]"
proof -
  have "v div 64 mod 64 < 64" "v mod 64 < 64" by simp_all
  then show ?thesis
    by (simp only: b64_groups.simps b64_val_char assms digits64 Let_def option.case prod.case b64_plain if_False simp_thms if_True)
qed

lemma group_3:
  assumes "v div 262144 < 64"
  shows "b64_groups (b64_char (v div 262144) # b64_char (v div 4096 mod 64) # b64_char (v div 64 mod 64) # b64_char (v mod 64) # rest) =
    map_option (\<lambda>out. of_nat (v div 65536) # of_nat (v div 256 mod 256) # of_nat (v mod 256) # out) (b64_groups rest)"
proof -
  have "v div 4096 mod 64 < 64" "v div 64 mod 64 < 64" "v mod 64 < 64" by simp_all
  then show ?thesis
    by (simp only: append_Cons append_Nil b64_groups.simps b64_val_char assms digits64 Let_def option.case prod.case
        b64_plain if_False)
qed

lemma groups_encode: "b64_groups (EncodeToString xs) = Some xs"
proof (induction xs rule: EncodeToString.induct)
  case (2 a)
  then show ?case
    by (simp only: EncodeToString.simps Let_def group_1 bounds64(1) [OF byte_le byte_le byte_le] bytes64(1) [OF byte_small byte_small]
        byte_unat)
next
  case (3 a b)
  then show ?case
    by (simp only: EncodeToString.simps Let_def group_2 bounds64(2) [OF byte_le byte_le byte_le] bytes64 [OF byte_small byte_small]
        byte_unat)
next
  case (4 a b c rest)
  show ?case
    by (simp only: 4 [OF refl] append_Cons append_Nil EncodeToString.simps Let_def group_3 bounds64(3) [OF byte_le byte_le byte_le] bytes64 [OF byte_small byte_small]
        byte_unat option.map)
qed simp

theorem DecodeString_EncodeToString: "DecodeString (EncodeToString xs) = Some xs"
proof -
  have "filter (\<lambda>c. c \<noteq> 10 \<and> c \<noteq> 13) (EncodeToString xs) = EncodeToString xs"
    using encoded_plain by (auto simp: filter_id_conv)
  then show ?thesis by (simp add: DecodeString_def groups_encode)
qed

section \<open>CBC mode and padding\<close>

text \<open>
  \<open>cipher.NewCBCDecrypter\<close> and \<open>NewCBCEncrypter\<close> with the block function \<open>D\<close> or \<open>E\<close> of a key; the
  blocks are 16 bytes long.
\<close>

definition BlockSize :: nat where "BlockSize = 16"

definition xor_block :: "bytes \<Rightarrow> bytes \<Rightarrow> bytes" where
  "xor_block x y = map2 (\<lambda>a b. a XOR b) x y"

fun cbc_encrypt :: "(bytes \<Rightarrow> bytes) \<Rightarrow> bytes \<Rightarrow> bytes list \<Rightarrow> bytes" where
  "cbc_encrypt E iv [] = []"
| "cbc_encrypt E iv (b # bs) = (let c = E (xor_block b iv) in c @ cbc_encrypt E c bs)"

fun cbc_decrypt :: "(bytes \<Rightarrow> bytes) \<Rightarrow> bytes \<Rightarrow> bytes list \<Rightarrow> bytes" where
  "cbc_decrypt D iv [] = []"
| "cbc_decrypt D iv (c # cs) = xor_block (D c) iv @ cbc_decrypt D c cs"

function blocks :: "bytes \<Rightarrow> bytes list" where
  "blocks xs = (if xs = [] then [] else take BlockSize xs # blocks (drop BlockSize xs))"
  by pat_completeness auto
termination
  by (relation "measure length") (auto simp: BlockSize_def)

declare blocks.simps [simp del]

definition pkcs7Pad :: "bytes \<Rightarrow> nat \<Rightarrow> bytes" where
  "pkcs7Pad data blockSize = (let padding = blockSize - length data mod blockSize
     in data @ replicate padding (of_nat padding))"

definition pkcs7Unpad :: "bytes \<Rightarrow> bytes" where
  "pkcs7Unpad data =
     (if data = [] then data
      else let padding = unat (last data)
       in if padding < 1 \<or> padding > length data \<or> padding > BlockSize then data
          else if list_ex (\<lambda>i. data ! (length data - 1 - i) \<noteq> of_nat padding) [0..<padding] then data
          else take (length data - padding) data)"

text \<open>\<open>binary.BigEndian.PutUint32\<close> and \<open>Uint32\<close>.\<close>

definition PutUint32 :: "32 word \<Rightarrow> bytes" where
  "PutUint32 v = [ucast (drop_bit 24 v), ucast (drop_bit 16 v), ucast (drop_bit 8 v), ucast v]"

definition Uint32 :: "bytes \<Rightarrow> 32 word" where
  "Uint32 b = ucast (b ! 3) OR push_bit 8 (ucast (b ! 2)) OR push_bit 16 (ucast (b ! 1)) OR push_bit 24 (ucast (b ! 0))"

section \<open>Messages\<close>

record msg_crypt =
  mc_token :: bytes
  mc_encodingAESKey :: bytes
  mc_appID :: bytes
  mc_aesKey :: bytes

datatype wechat_error = WxKeyLength | WxKeyDecode | WxBase64 | WxCipher | WxShort | WxLength | WxRandom | WxPanic

definition NewMsgCrypt :: "bytes \<Rightarrow> bytes \<Rightarrow> bytes \<Rightarrow> wechat_error + msg_crypt" where
  "NewMsgCrypt token encodingAESKey appID =
     (if length encodingAESKey \<noteq> 43 then Inl WxKeyLength
      else case DecodeString (encodingAESKey @ [b64_pad]) of
          None \<Rightarrow> Inl WxKeyDecode
        | Some aesKey \<Rightarrow> Inr \<lparr>mc_token = token, mc_encodingAESKey = encodingAESKey, mc_appID = appID, mc_aesKey = aesKey\<rparr>)"

text \<open>\<open>aes.NewCipher\<close> takes keys of 16, 24 and 32 bytes.\<close>

definition key_ok :: "bytes \<Rightarrow> bool" where
  "key_ok k \<longleftrightarrow> length k \<in> {16, 24, 32}"

text \<open>
  The slices at the end: \<open>20 + msgLen\<close> is computed in 32 bits, and Go panics at a slice whose bounds
  are out of order or beyond the end, as \<open>CryptBlocks\<close> does on input that is not whole blocks.
\<close>

definition DecryptMessage :: "(bytes \<Rightarrow> bytes \<Rightarrow> bytes) \<Rightarrow> msg_crypt \<Rightarrow> bytes \<Rightarrow> wechat_error + (bytes \<times> bytes)" where
  "DecryptMessage D mc encrypted =
     (case DecodeString encrypted of
        None \<Rightarrow> Inl WxBase64
      | Some cipherText \<Rightarrow>
          if \<not> key_ok (mc_aesKey mc) then Inl WxCipher
          else if length cipherText mod BlockSize \<noteq> 0 then Inl WxPanic
          else
            let plainText = pkcs7Unpad (cbc_decrypt (D (mc_aesKey mc)) (take BlockSize (mc_aesKey mc)) (blocks cipherText));
                msgLen = Uint32 (take 4 (drop 16 plainText));
                hi = unat (20 + msgLen)
            in if length plainText < 20 then Inl WxShort
               else if unat msgLen + 20 > length plainText then Inl WxLength
               else if hi < 20 \<or> length plainText < hi then Inl WxPanic
               else Inr (take (hi - 20) (drop 20 plainText), drop hi plainText))"

text \<open>\<open>random\<close>: what \<open>rand.Reader\<close> gave, None for its error.\<close>

definition EncryptMessage ::
  "(bytes \<Rightarrow> bytes \<Rightarrow> bytes) \<Rightarrow> msg_crypt \<Rightarrow> bytes option \<Rightarrow> bytes \<Rightarrow> wechat_error + bytes" where
  "EncryptMessage E mc random plainText =
     (case random of
        None \<Rightarrow> Inl WxRandom
      | Some randomBytes \<Rightarrow>
          let buf = randomBytes @ PutUint32 (of_nat (length plainText)) @ plainText @ mc_appID mc;
              padded = pkcs7Pad buf BlockSize
          in if \<not> key_ok (mc_aesKey mc) then Inl WxCipher
             else Inr (EncodeToString (cbc_encrypt (E (mc_aesKey mc)) (take BlockSize (mc_aesKey mc)) (blocks padded))))"

text \<open>Signatures: the SHA-1 sum, in hexadecimal, of the parts in order.\<close>

definition hex_char :: "nat \<Rightarrow> byte" where
  "hex_char d = of_nat (if d < 10 then 48 + d else 87 + d)"

definition hex :: "bytes \<Rightarrow> bytes" where
  "hex bs = concat (map (\<lambda>b. [hex_char (unat b div 16), hex_char (unat b mod 16)]) bs)"

definition GenerateSignature :: "(bytes \<Rightarrow> bytes) \<Rightarrow> msg_crypt \<Rightarrow> bytes \<Rightarrow> bytes \<Rightarrow> bytes \<Rightarrow> bytes" where
  "GenerateSignature sha1 mc timestamp nonce encrypt = hex (sha1 (concat (sort [mc_token mc, timestamp, nonce, encrypt])))"

definition VerifySignature :: "(bytes \<Rightarrow> bytes) \<Rightarrow> msg_crypt \<Rightarrow> bytes \<Rightarrow> bytes \<Rightarrow> bytes \<Rightarrow> bool" where
  "VerifySignature sha1 mc signature timestamp nonce \<longleftrightarrow>
     hex (sha1 (concat (sort [mc_token mc, timestamp, nonce]))) = signature"

definition VerifyEncryptedSignature :: "(bytes \<Rightarrow> bytes) \<Rightarrow> msg_crypt \<Rightarrow> bytes \<Rightarrow> bytes \<Rightarrow> bytes \<Rightarrow> bytes \<Rightarrow> bool" where
  "VerifyEncryptedSignature sha1 mc signature timestamp nonce encrypt \<longleftrightarrow>
     hex (sha1 (concat (sort [mc_token mc, timestamp, nonce, encrypt]))) = signature"

section \<open>Round trips\<close>

lemma xor_block_length [simp]: "length (xor_block x y) = min (length x) (length y)"
  by (simp add: xor_block_def)

lemma xor_block_back: "length x = length y \<Longrightarrow> xor_block (xor_block x y) y = x"
  by (induction x y rule: list_induct2) (simp_all add: xor_block_def xor.assoc)

lemma blocks_concat: "concat (blocks xs) = xs"
proof (induction xs rule: blocks.induct)
  case (1 xs)
  then show ?case by (subst blocks.simps) simp
qed

lemma blocks_length:
  assumes "16 dvd length xs"
  shows "\<forall>b \<in> set (blocks xs). length b = BlockSize"
  using assms
proof (induction xs rule: blocks.induct)
  case (1 xs)
  show ?case
  proof (cases "xs = []")
    case False
    then have len: "16 \<le> length xs" using 1(2) by (simp add: dvd_imp_le)
    have "16 dvd length (drop BlockSize xs)" using 1(2) by (simp add: BlockSize_def dvd_diff_nat)
    note ih = 1(1) [OF False this]
    have "length (take BlockSize xs) = BlockSize" using len by (simp add: BlockSize_def)
    moreover have "blocks xs = take BlockSize xs # blocks (drop BlockSize xs)"
      by (subst blocks.simps) (rule if_not_P [OF False])
    ultimately show ?thesis using ih by simp
  qed (subst blocks.simps, simp)
qed

lemma blocks_append: "length x = BlockSize \<Longrightarrow> blocks (x @ ys) = x # blocks ys"
  by (subst blocks.simps) (auto simp: BlockSize_def)

lemma blocks_nil: "blocks [] = []"
  by (subst blocks.simps) simp

definition block_cipher :: "(bytes \<Rightarrow> bytes) \<Rightarrow> (bytes \<Rightarrow> bytes) \<Rightarrow> bool" where
  "block_cipher E D \<longleftrightarrow> (\<forall>b. length b = BlockSize \<longrightarrow> length (E b) = BlockSize \<and> D (E b) = b)"

lemma cbc_round_trip:
  assumes "block_cipher E D" "\<forall>b \<in> set bs. length b = BlockSize" "length iv = BlockSize"
  shows "cbc_decrypt D iv (blocks (cbc_encrypt E iv bs)) = concat bs \<and>
    length (cbc_encrypt E iv bs) = BlockSize * length bs"
  using assms(2,3)
proof (induction bs arbitrary: iv)
  case (Cons b bs)
  then have "length (E (xor_block b iv)) = BlockSize" "D (E (xor_block b iv)) = xor_block b iv"
    using assms(1) by (simp_all add: block_cipher_def)
  with Cons show ?case by (simp add: Let_def blocks_append xor_block_back)
qed (simp add: blocks_nil)

lemma pad_length: "16 dvd length (pkcs7Pad data BlockSize)"
proof -
  have "length data mod 16 \<le> 16" by simp
  then have "(length data + (16 - length data mod 16)) mod 16 = 0" by presburger
  then show ?thesis by (simp add: pkcs7Pad_def BlockSize_def Let_def dvd_eq_mod_eq_0)
qed

lemma unpad_pad: "pkcs7Unpad (pkcs7Pad data BlockSize) = data"
proof -
  define p where "p = 16 - length data mod 16"
  have p: "1 \<le> p" "p \<le> 16" by (auto simp: p_def)
  then have unat: "unat (of_nat p :: byte) = p" by (simp add: unat_of_nat)
  have pad: "pkcs7Pad data BlockSize = data @ replicate p (of_nat p)"
    by (simp add: pkcs7Pad_def BlockSize_def p_def Let_def)
  have "\<not> list_ex (\<lambda>i. (data @ replicate p (of_nat p)) ! (length (data @ replicate p (of_nat p :: byte)) - 1 - i) \<noteq> of_nat p) [0..<p]"
    by (auto simp: list_ex_iff nth_append)
  with p unat show ?thesis
    unfolding pad pkcs7Unpad_def by (simp add: BlockSize_def Let_def)
qed

lemma Uint32_PutUint32: "Uint32 (PutUint32 v) = v"
proof (rule bit_word_eqI)
  fix n assume "n < LENGTH(32)"
  then show "bit (Uint32 (PutUint32 v)) n = bit v n"
    by (cases "24 \<le> n"; cases "16 \<le> n"; cases "8 \<le> n") (auto simp: Uint32_def PutUint32_def bit_simps)
qed

lemma frame_parts:
  fixes appID :: bytes
  assumes "length rnd = 16" "length plain + 20 < 2 ^ 32"
  defines "buf \<equiv> rnd @ PutUint32 (of_nat (length plain)) @ plain @ appID"
  shows "length buf = 20 + length plain + length appID"
    and "Uint32 (take 4 (drop 16 buf)) = of_nat (length plain)"
    and "unat (of_nat (length plain) :: 32 word) = length plain"
    and "unat (20 + of_nat (length plain) :: 32 word) = 20 + length plain"
    and "take (length plain) (drop 20 buf) = plain" and "drop (20 + length plain) buf = appID"
proof -
  have len4: "length (PutUint32 v) = 4" for v by (simp add: PutUint32_def)
  show "length buf = 20 + length plain + length appID" by (simp add: buf_def assms(1) len4)
  have "drop 16 buf = PutUint32 (of_nat (length plain)) @ plain @ appID" by (simp add: buf_def assms(1))
  then show "Uint32 (take 4 (drop 16 buf)) = of_nat (length plain)" by (simp add: len4 Uint32_PutUint32)
  have nat: "unat (of_nat n :: 32 word) = n" if "n < 2 ^ 32" for n
    using that by (simp add: unat_of_nat)
  show "unat (of_nat (length plain) :: 32 word) = length plain" using assms(2) by (intro nat) simp
  have "(20 + of_nat (length plain) :: 32 word) = of_nat (20 + length plain)" by simp
  then show "unat (20 + of_nat (length plain) :: 32 word) = 20 + length plain"
    using nat [of "20 + length plain"] assms(2) by simp
  show "take (length plain) (drop 20 buf) = plain" "drop (20 + length plain) buf = appID"
    by (simp_all add: buf_def assms(1) len4)
qed

text \<open>
  C34. A reply that \<open>EncryptMessage\<close> produced is decrypted to the same message and application id:
  base64, CBC mode, padding and the length field cancel out, for every key and random prefix, as long
  as the frame fits into 32 bits.
\<close>

theorem DecryptMessage_EncryptMessage:
  assumes "NewMsgCrypt token aesKey appID = Inr mc" "key_ok (mc_aesKey mc)"
    and "block_cipher (E (mc_aesKey mc)) (D (mc_aesKey mc))"
    and "length rnd = 16" "length plain + 20 < 2 ^ 32"
  shows "\<exists>c. EncryptMessage E mc (Some rnd) plain = Inr c \<and> DecryptMessage D mc c = Inr (plain, appID)"
proof -
  let ?E = "E (mc_aesKey mc)" and ?D = "D (mc_aesKey mc)" and ?iv = "take BlockSize (mc_aesKey mc)"
  define buf where "buf = rnd @ PutUint32 (of_nat (length plain)) @ plain @ appID"
  define ct where "ct = cbc_encrypt ?E ?iv (blocks (pkcs7Pad buf BlockSize))"
  have app: "mc_appID mc = appID" using assms(1) by (auto simp: NewMsgCrypt_def split: if_splits option.splits)
  have iv: "length ?iv = BlockSize" using assms(2) by (auto simp: key_ok_def BlockSize_def)
  have "cbc_decrypt ?D ?iv (blocks ct) = pkcs7Pad buf BlockSize \<and> length ct mod BlockSize = 0"
    using cbc_round_trip [OF assms(3) blocks_length [OF pad_length] iv] by (simp add: ct_def blocks_concat)
  then have ct: "pkcs7Unpad (cbc_decrypt ?D ?iv (blocks ct)) = buf" "length ct mod BlockSize = 0"
    by (simp_all add: unpad_pad)
  note parts = frame_parts(1,2,5,6) [where appID = appID, OF assms(4,5), folded buf_def] frame_parts(3,4) [OF assms(4,5)]
  have "EncryptMessage E mc (Some rnd) plain = Inr (EncodeToString ct)"
    using assms(2) by (simp add: EncryptMessage_def app buf_def ct_def Let_def)
  moreover have "DecryptMessage D mc (EncodeToString ct) = Inr (plain, appID)"
    unfolding DecryptMessage_def DecodeString_EncodeToString option.case ct(1) Let_def
    by (simp only: ct(2) assms(2) parts simp_thms if_False not_True_eq_False) (use parts in \<open>simp add: add.commute\<close>)
  ultimately show ?thesis by blast
qed

text \<open>A cipher text that is not whole blocks makes \<open>CryptBlocks\<close> panic: its length is not checked.\<close>

lemma DecryptMessage_panics:
  "DecodeString encrypted = Some ct \<Longrightarrow> key_ok (mc_aesKey mc) \<Longrightarrow> length ct mod 16 \<noteq> 0 \<Longrightarrow>
   DecryptMessage D mc encrypted = Inl WxPanic"
  by (simp add: DecryptMessage_def BlockSize_def)

text \<open>The slices never do, for a cipher text below 4 GiB.\<close>

lemma slices_in_range:
  assumes "length txt < 2 ^ 32" "unat m + 20 \<le> length txt"
  shows "unat (20 + m :: 32 word) = 20 + unat m"
proof -
  have "unat (of_nat (20 + unat m) :: 32 word) = 20 + unat m"
    using assms by (simp only: unat_of_nat) simp
  then show ?thesis by simp
qed

definition demo_key :: bytes where
  "demo_key = replicate 43 (b64_char 0)"

lemma demo_key_decoded: "DecodeString (demo_key @ [b64_pad]) = Some (replicate 32 0)"
proof -
  have enc: "EncodeToString (concat (replicate n [0, 0, 0]) @ [0, 0]) =
      concat (replicate n [b64_char 0, b64_char 0, b64_char 0, b64_char 0]) @ [b64_char 0, b64_char 0, b64_char 0, b64_pad]" for n
    by (induction n) (simp_all add: Let_def)
  have "replicate 32 x = concat (replicate 10 [x, x, x]) @ [x, x]" for x :: byte by (simp add: eval_nat_numeral)
  moreover have "replicate 43 x = concat (replicate 10 [x, x, x, x]) @ [x, x, x]" for x :: byte by (simp add: eval_nat_numeral)
  ultimately have "EncodeToString (replicate 32 0) = demo_key @ [b64_pad]"
    by (simp only: demo_key_def enc append_assoc append_Cons append_Nil)
  then show ?thesis by (metis DecodeString_EncodeToString)
qed

theorem DecryptMessage_EncryptMessage_witness:
  "\<exists>mc c. NewMsgCrypt [1] demo_key [7, 8] = Inr mc \<and> EncryptMessage (\<lambda>k b. rev b) mc (Some (replicate 16 9)) [1, 2, 3] = Inr c \<and>
     DecryptMessage (\<lambda>k b. rev b) mc c = Inr ([1, 2, 3], [7, 8])"
proof -
  let ?mc = "\<lparr>mc_token = [1], mc_encodingAESKey = demo_key, mc_appID = [7, 8], mc_aesKey = replicate 32 0\<rparr>"
  have mc: "NewMsgCrypt [1] demo_key [7, 8] = Inr ?mc"
    by (simp add: NewMsgCrypt_def demo_key_decoded) (simp add: demo_key_def)
  have "\<exists>c. EncryptMessage (\<lambda>k b. rev b) ?mc (Some (replicate 16 9)) [1, 2, 3] = Inr c \<and>
      DecryptMessage (\<lambda>k b. rev b) ?mc c = Inr ([1, 2, 3], [7, 8])"
    by (rule DecryptMessage_EncryptMessage [OF mc]) (simp_all add: key_ok_def block_cipher_def)
  with mc show ?thesis by blast
qed

end
