(* ===== verification/Postcall.thy ===== *)
theory Postcall
  imports CallEntity
begin

text \<open>
  Daily call statistics: the consumer of \<open>ccc.call.*\<close> events, the transaction that folds a call into
  \<open>daily_cdr_summary\<close> and the nightly reconciliation, \<open>internal/application/postcall\<close>
  (\<open>worker.go\<close>, \<open>cdr_repo.go\<close>, \<open>reconcile.go\<close>).
\<close>

section \<open>Entries and totals\<close>

definition one_day :: int where "one_day = 86400 * second"

text \<open>
  A calendar day is its number since the zero time: \<open>t.Format("2006-01-02")\<close> in a zone that is \<open>off\<close>
  nanoseconds ahead of UTC.
\<close>

definition calendar_day :: "int \<Rightarrow> gotime \<Rightarrow> int" where
  "calendar_day off t = (t + off) div one_day"

record cdr_entry =
  ce_CallID :: int
  ce_TenantID :: int
  ce_BucketDate :: int
  ce_Inbound :: int
  ce_Outbound :: int
  ce_Answered :: int
  ce_Abandoned :: int
  ce_TalkSeconds :: int
  ce_RingSeconds :: int
  ce_QueueSeconds :: int

text \<open>A row of \<open>daily_cdr_summary\<close>, by tenant and day.\<close>

record cdr_totals =
  ct_inbound :: int
  ct_outbound :: int
  ct_answered :: int
  ct_abandoned :: int
  ct_talk :: int
  ct_ring :: int
  ct_queue :: int

definition bucket :: "cdr_entry \<Rightarrow> int \<times> int" where
  "bucket e = (ce_TenantID e, ce_BucketDate e)"

definition first_totals :: "cdr_entry \<Rightarrow> cdr_totals" where
  "first_totals e = \<lparr>ct_inbound = ce_Inbound e, ct_outbound = ce_Outbound e, ct_answered = ce_Answered e,
     ct_abandoned = ce_Abandoned e, ct_talk = ce_TalkSeconds e, ct_ring = ce_RingSeconds e, ct_queue = ce_QueueSeconds e\<rparr>"

definition add_totals :: "cdr_totals \<Rightarrow> cdr_entry \<Rightarrow> cdr_totals" where
  "add_totals t e = \<lparr>ct_inbound = ct_inbound t + ce_Inbound e, ct_outbound = ct_outbound t + ce_Outbound e,
     ct_answered = ct_answered t + ce_Answered e, ct_abandoned = ct_abandoned t + ce_Abandoned e,
     ct_talk = ct_talk t + ce_TalkSeconds e, ct_ring = ct_ring t + ce_RingSeconds e,
     ct_queue = ct_queue t + ce_QueueSeconds e\<rparr>"

definition call_entry :: "int \<Rightarrow> call \<Rightarrow> cdr_entry" where
  "call_entry date c = \<lparr>ce_CallID = c_ID c, ce_TenantID = c_TenantID c, ce_BucketDate = date,
     ce_Inbound = (if c_Direction c = DirectionInbound then 1 else 0),
     ce_Outbound = (if c_Direction c = DirectionInbound then 0 else 1),
     ce_Answered = (if c_AnsweredAt c = None then 0 else 1),
     ce_Abandoned = (if c_AnsweredAt c = None then 1 else 0),
     ce_TalkSeconds = c_DurationSec c, ce_RingSeconds = c_RingDurationSec c, ce_QueueSeconds = c_QueueDurationSec c\<rparr>"

section \<open>The transaction\<close>

text \<open>
  What becomes of a statement: it is done, the connection is down before it reaches the server, or
  it is lost after the server carried it out and before the reply. A transaction that did not
  commit is rolled back. An exhausted script is a healthy connection.
\<close>

datatype sql_reply = Done | Down | ReplyLost

record cdr_world =
  cd_processed :: "int set"
  cd_summary :: "int \<times> int \<Rightarrow> cdr_totals option"
  cd_script :: "sql_reply list"
  cd_calls :: "call list"
  cd_inspected :: "(int \<times> int) list"

datatype cdr_error = CdrNoCallID | CdrStore

type_synonym 'a cdact = "(cdr_world, cdr_error, 'a) act"

definition sql_outcome :: "sql_reply cdact" where
  "sql_outcome w = (case cd_script w of [] \<Rightarrow> (Inr Done, w) | o1 # os \<Rightarrow> (Inr o1, w\<lparr>cd_script := os\<rparr>))"

text \<open>A statement inside the transaction: without its reply the transaction is given up.\<close>

definition sql_step :: "unit cdact" where
  "sql_step = bind_a sql_outcome (\<lambda>r. guard_a (r = Done) CdrStore)"

definition commit_entry :: "cdr_entry \<Rightarrow> cdr_world \<Rightarrow> cdr_world" where
  "commit_entry e w = w\<lparr>cd_processed := insert (ce_CallID e) (cd_processed w),
     cd_summary := (cd_summary w)(bucket e \<mapsto>
       (case cd_summary w (bucket e) of None \<Rightarrow> first_totals e | Some t \<Rightarrow> add_totals t e))\<rparr>"

definition tx_commit :: "cdr_entry \<Rightarrow> unit cdact" where
  "tx_commit e = bind_a sql_outcome (\<lambda>r. case r of
     Done \<Rightarrow> modify_a (commit_entry e)
   | Down \<Rightarrow> throw_a CdrStore
   | ReplyLost \<Rightarrow> seq_a (modify_a (commit_entry e)) (throw_a CdrStore))"

text \<open>BEGIN, the insert into the dedup table, the upsert of the summary, COMMIT.\<close>

definition UpsertDailyCDR :: "cdr_entry \<Rightarrow> unit cdact" where
  "UpsertDailyCDR e =
     (if ce_CallID e = 0 then throw_a CdrNoCallID
      else seq_a sql_step (seq_a sql_step (\<lambda>w.
        if ce_CallID e \<in> cd_processed w then ret_a () w
        else seq_a sql_step (tx_commit e) w)))"

section \<open>The consumer\<close>

text \<open>
  \<open>cdr\<close>, \<open>qa\<close>: whether the repository and the QA trigger are wired. \<open>data\<close> is the event, None when it
  does not parse; \<open>off\<close> is the zone its start time is written in.
\<close>

definition handleCallEnded :: "bool \<Rightarrow> bool \<Rightarrow> int \<Rightarrow> call option \<Rightarrow> unit cdact" where
  "handleCallEnded cdr qa off data =
     (case data of
        None \<Rightarrow> ret_a ()
      | Some c \<Rightarrow>
          seq_a (when_a (cdr \<and> 0 < c_ID c) (UpsertDailyCDR (call_entry (calendar_day off (c_StartedAt c)) c)))
          (when_a (qa \<and> c_AnsweredAt c \<noteq> None)
            (modify_a (\<lambda>w. w\<lparr>cd_inspected := cd_inspected w @ [(c_TenantID c, c_ID c)]\<rparr>))))"

definition HandleMessage :: "bool \<Rightarrow> bool \<Rightarrow> int \<Rightarrow> string \<Rightarrow> call option \<Rightarrow> unit cdact" where
  "HandleMessage cdr qa off subject data =
     (if subject = ''ccc.call.ended'' then handleCallEnded cdr qa off data
      else ret_a ())"

section \<open>Reconciliation\<close>

text \<open>
  The next run after \<open>now\<close> (in UTC) at the given hour, and yesterday's calls that are not in the
  dedup table; \<open>dboff\<close> is the zone of the database session that \<open>DATE(started_at)\<close> is taken in.
\<close>

definition nextDailyRun :: "gotime \<Rightarrow> int \<Rightarrow> gotime" where
  "nextDailyRun now hour =
     (let candidate = now div one_day * one_day + hour * 3600 * second
      in if candidate > now then candidate else candidate + one_day)"

definition missing_calls :: "int \<Rightarrow> int \<Rightarrow> cdr_world \<Rightarrow> call list" where
  "missing_calls dboff yesterday w = filter (\<lambda>c. calendar_day dboff (c_StartedAt c) = yesterday \<and>
     c_ID c \<notin> cd_processed w \<and> c_EndedAt c \<noteq> None) (cd_calls w)"

primrec repair_all :: "int \<Rightarrow> call list \<Rightarrow> unit cdact" where
  "repair_all yesterday [] = ret_a ()"
| "repair_all yesterday (c # cs) = seq_a (ignore_a (UpsertDailyCDR (call_entry yesterday c))) (repair_all yesterday cs)"

definition reconcileYesterday :: "int \<Rightarrow> gotime \<Rightarrow> unit cdact" where
  "reconcileYesterday dboff now =
     (let yesterday = calendar_day 0 (now - one_day)
      in bind_a sql_outcome (\<lambda>r.
           if r = Done then (\<lambda>w. repair_all yesterday (missing_calls dboff yesterday w) w) else ret_a ()))"

section \<open>Runs\<close>

text \<open>A delivery of an event (NATS delivers at least once), or a run of the reconciliation.\<close>

datatype cdr_op = Deliver string "call option" | Reconcile gotime

fun cdr_exec :: "bool \<Rightarrow> int \<Rightarrow> int \<Rightarrow> cdr_op \<Rightarrow> unit cdact" where
  "cdr_exec qa off dboff (Deliver subject data) = HandleMessage True qa off subject data"
| "cdr_exec qa off dboff (Reconcile now) = reconcileYesterday dboff now"

definition run_cdr :: "bool \<Rightarrow> int \<Rightarrow> int \<Rightarrow> cdr_op list \<Rightarrow> cdr_world \<Rightarrow> cdr_world" where
  "run_cdr qa off dboff ops w = fold (\<lambda>opn w. snd (cdr_exec qa off dboff opn w)) ops w"

section \<open>Every call is counted once\<close>

definition totals_of :: "cdr_entry list \<Rightarrow> cdr_totals" where
  "totals_of es = \<lparr>ct_inbound = sum_list (map ce_Inbound es), ct_outbound = sum_list (map ce_Outbound es),
     ct_answered = sum_list (map ce_Answered es), ct_abandoned = sum_list (map ce_Abandoned es),
     ct_talk = sum_list (map ce_TalkSeconds es), ct_ring = sum_list (map ce_RingSeconds es),
     ct_queue = sum_list (map ce_QueueSeconds es)\<rparr>"

definition summary_of :: "cdr_entry list \<Rightarrow> int \<times> int \<Rightarrow> cdr_totals option" where
  "summary_of es k = (let here = filter (\<lambda>e. bucket e = k) es in if here = [] then None else Some (totals_of here))"

text \<open>The tables hold exactly the entries \<open>es\<close>, each call once.\<close>

definition counted :: "cdr_entry list \<Rightarrow> cdr_world \<Rightarrow> bool" where
  "counted es w \<longleftrightarrow> distinct (map ce_CallID es) \<and> cd_processed w = ce_CallID ` set es \<and>
     cd_summary w = summary_of es"

lemma totals_one: "first_totals e = totals_of [e]" and totals_snoc: "add_totals (totals_of es) e = totals_of (es @ [e])"
  by (simp_all add: first_totals_def totals_of_def add_totals_def)

lemma commit_counted:
  assumes "counted es w" "ce_CallID e \<notin> cd_processed w"
  shows "counted (es @ [e]) (commit_entry e w)"
proof -
  have "summary_of (es @ [e]) k = (if k = bucket e
      then Some (case summary_of es (bucket e) of None \<Rightarrow> first_totals e | Some t \<Rightarrow> add_totals t e)
      else summary_of es k)" for k
    by (auto simp: summary_of_def Let_def totals_one totals_snoc)
  then have "summary_of (es @ [e]) = (summary_of es)(bucket e \<mapsto>
      (case summary_of es (bucket e) of None \<Rightarrow> first_totals e | Some t \<Rightarrow> add_totals t e))"
    by (intro ext) simp
  with assms show ?thesis by (simp add: counted_def commit_entry_def)
qed

lemma counted_cong: "cd_processed v = cd_processed w \<Longrightarrow> cd_summary v = cd_summary w \<Longrightarrow> counted es v = counted es w"
  by (simp add: counted_def)

text \<open>What an operation may add to the tables.\<close>

definition adds :: "cdr_entry set \<Rightarrow> cdr_world \<Rightarrow> cdr_world \<Rightarrow> bool" where
  "adds S w w' \<longleftrightarrow> cd_calls w' = cd_calls w \<and>
     (\<forall>es. counted es w \<longrightarrow> (\<exists>fs. set fs \<subseteq> S \<and> counted (es @ fs) w'))"

lemma adds_refl: "cd_processed w' = cd_processed w \<Longrightarrow> cd_summary w' = cd_summary w \<Longrightarrow> cd_calls w' = cd_calls w \<Longrightarrow> adds S w w'"
  unfolding adds_def using counted_cong [of w' w] by (metis append_Nil2 empty_subsetI list.set(1))

lemma adds_trans: "adds S u v \<Longrightarrow> adds S v w \<Longrightarrow> adds S u w"
  unfolding adds_def by (metis append_assoc le_sup_iff set_append)

lemma adds_mono: "adds S v w \<Longrightarrow> S \<subseteq> T \<Longrightarrow> adds T v w"
  unfolding adds_def by (meson subset_trans)

lemma adds_commit: "ce_CallID e \<notin> cd_processed w \<Longrightarrow> adds {e} w (commit_entry e w)"
  unfolding adds_def using commit_counted [of _ w e]
  by (auto simp: commit_entry_def intro!: exI [of _ "[e]"])

lemma sql_outcome_parts:
  "\<exists>r. sql_outcome w = (Inr r, w\<lparr>cd_script := drop 1 (cd_script w)\<rparr>)"
  by (cases "cd_script w") (simp_all add: sql_outcome_def)

lemma sql_step_parts:
  "snd (sql_step w) = w\<lparr>cd_script := drop 1 (cd_script w)\<rparr>"
  using sql_outcome_parts [of w] by (auto simp: sql_step_def act_simps)

lemma script_adds: "adds S v (w\<lparr>cd_script := os\<rparr>) = adds S v w" "adds S (v\<lparr>cd_script := os\<rparr>) w = adds S v w"
  by (simp_all add: adds_def counted_def)

lemma tx_commit_adds:
  assumes "ce_CallID e \<notin> cd_processed w"
  shows "adds {e} w (snd (tx_commit e w))"
proof -
  obtain r where r: "sql_outcome w = (Inr r, w\<lparr>cd_script := drop 1 (cd_script w)\<rparr>)" using sql_outcome_parts by blast
  have "adds {e} w (commit_entry e (w\<lparr>cd_script := drop 1 (cd_script w)\<rparr>))"
    using adds_commit [of e "w\<lparr>cd_script := drop 1 (cd_script w)\<rparr>"] assms by (simp add: script_adds)
  then show ?thesis
    by (cases r) (simp_all add: tx_commit_def act_run r script_adds adds_refl)
qed

lemma upsert_adds: "adds {e} w (snd (UpsertDailyCDR e w))"
proof -
  have step: "adds {e} w (snd (seq_a sql_step m w))"
    if "\<And>os. adds {e} (w\<lparr>cd_script := os\<rparr>) (snd (m (w\<lparr>cd_script := os\<rparr>)))" for m :: "unit cdact" and w
    using that sql_step_parts [of w]
    by (cases "sql_step w") (auto simp: act_run script_adds adds_refl split: sum.split)
  have commit: "adds {e} v (snd (seq_a sql_step (tx_commit e) v))" if "ce_CallID e \<notin> cd_processed v" for v
    using that by (intro step tx_commit_adds) simp
  show ?thesis
  proof (cases "ce_CallID e = 0")
    case False
    have "adds {e} w (snd (seq_a sql_step (seq_a sql_step (\<lambda>w. if ce_CallID e \<in> cd_processed w then ret_a () w
        else seq_a sql_step (tx_commit e) w)) w))"
      by (intro step) (simp add: commit act_run(1) adds_refl)
    with False show ?thesis by (simp add: UpsertDailyCDR_def)
  qed (simp add: UpsertDailyCDR_def act_run adds_refl)
qed

lemma upsert_success: "UpsertDailyCDR e w = (Inr (), w') \<Longrightarrow> ce_CallID e \<in> cd_processed w'"
  by (auto simp: UpsertDailyCDR_def act_run tx_commit_def commit_entry_def split: if_splits prod.splits sum.splits sql_reply.splits)

lemma sql_outcome_healthy: "cd_script w = [] \<Longrightarrow> sql_outcome w = (Inr Done, w)"
  by (simp add: sql_outcome_def)

lemma upsert_healthy:
  "cd_script w = [] \<Longrightarrow> ce_CallID e \<noteq> 0 \<Longrightarrow>
   UpsertDailyCDR e w = (Inr (), if ce_CallID e \<in> cd_processed w then w else commit_entry e w)"
  by (simp add: UpsertDailyCDR_def sql_step_def tx_commit_def act_run sql_outcome_healthy)

text \<open>What the operations of a run may count.\<close>

definition op_entries :: "int \<Rightarrow> call list \<Rightarrow> cdr_op \<Rightarrow> cdr_entry set" where
  "op_entries off calls opn = (case opn of
     Deliver subject data \<Rightarrow> (case data of None \<Rightarrow> {} | Some c \<Rightarrow> {call_entry (calendar_day off (c_StartedAt c)) c})
   | Reconcile now \<Rightarrow> call_entry (calendar_day 0 (now - one_day)) ` set calls)"

lemma repair_adds: "adds (call_entry date ` set cs) w (snd (repair_all date cs w))"
proof (induction cs arbitrary: w)
  case (Cons c cs)
  let ?S = "call_entry date ` set (c # cs)"
  have "adds ?S w (snd (UpsertDailyCDR (call_entry date c) w))"
    by (rule adds_mono [OF upsert_adds]) simp
  moreover have "adds ?S (snd (UpsertDailyCDR (call_entry date c) w))
      (snd (repair_all date cs (snd (UpsertDailyCDR (call_entry date c) w))))"
    by (rule adds_mono [OF Cons.IH]) auto
  ultimately show ?case by (auto simp: act_run intro: adds_trans)
qed (simp add: act_run adds_refl)

lemma exec_adds: "adds (op_entries off (cd_calls w) opn) w (snd (cdr_exec qa off dboff opn w))"
proof (cases opn)
  case (Deliver subject data)
  have inspect: "adds S v (w'\<lparr>cd_inspected := is\<rparr>) = adds S v w'" for S v w' "is"
    by (simp add: adds_def counted_def)
  show ?thesis
  proof (cases "subject = ''ccc.call.ended'' \<and> data \<noteq> None")
    case True
    then obtain c where c: "data = Some c" by blast
    let ?e = "call_entry (calendar_day off (c_StartedAt c)) c"
    have "adds {?e} w (snd (UpsertDailyCDR ?e w))" by (rule upsert_adds)
    with True show ?thesis
      unfolding Deliver c by (cases "UpsertDailyCDR ?e w")
        (auto simp: HandleMessage_def handleCallEnded_def act_run op_entries_def inspect adds_refl split: sum.split)
  qed (auto simp: Deliver HandleMessage_def handleCallEnded_def act_run adds_refl split: option.split)
next
  case (Reconcile now)
  obtain r where r: "sql_outcome w = (Inr r, w\<lparr>cd_script := drop 1 (cd_script w)\<rparr>)" using sql_outcome_parts by blast
  let ?w = "w\<lparr>cd_script := drop 1 (cd_script w)\<rparr>" and ?y = "calendar_day 0 (now - one_day)"
  have "adds (call_entry ?y ` set (cd_calls w)) ?w (snd (repair_all ?y (missing_calls dboff ?y ?w) ?w))"
    by (rule adds_mono [OF repair_adds]) (auto simp: missing_calls_def)
  then show ?thesis
    by (simp add: Reconcile reconcileYesterday_def Let_def act_run r op_entries_def script_adds adds_refl)
qed

lemma exec_calls: "cd_calls (snd (cdr_exec qa off dboff opn w)) = cd_calls w"
  using exec_adds [of off w opn qa dboff] by (simp add: adds_def)

lemma run_adds:
  "adds (\<Union>opn \<in> set ops. op_entries off (cd_calls w) opn) w (run_cdr qa off dboff ops w)"
proof (induction ops arbitrary: w)
  case (Cons opn ops)
  let ?S = "\<Union>p \<in> set (opn # ops). op_entries off (cd_calls w) p"
  have "adds ?S w (snd (cdr_exec qa off dboff opn w))" by (rule adds_mono [OF exec_adds]) auto
  moreover have "adds ?S (snd (cdr_exec qa off dboff opn w)) (run_cdr qa off dboff ops (snd (cdr_exec qa off dboff opn w)))"
    using Cons.IH [of "snd (cdr_exec qa off dboff opn w)"] by (rule adds_mono) (auto simp: exec_calls)
  ultimately show ?case by (simp add: run_cdr_def adds_trans)
qed (simp add: run_cdr_def adds_refl)

section \<open>Properties\<close>

text \<open>
  C12. The daily statistics count every call at most once. After any sequence of deliveries and
  redeliveries of events and of reconciliations, with any failures of the database (also commits
  whose reply is lost), there is a list of entries of delivered calls and of stored calls, no two of
  the same call, such that the dedup table holds exactly their calls and every row of the summary is
  the sum of the entries of its tenant and day.
\<close>

theorem daily_totals_count_once:
  assumes "cd_processed w = {}" "cd_summary w = (\<lambda>_. None)"
  shows "\<exists>es. set es \<subseteq> (\<Union>opn \<in> set ops. op_entries off (cd_calls w) opn) \<and> distinct (map ce_CallID es) \<and>
     cd_processed (run_cdr qa off dboff ops w) = ce_CallID ` set es \<and>
     cd_summary (run_cdr qa off dboff ops w) = summary_of es"
proof -
  have "counted [] w" using assms by (auto simp: counted_def summary_of_def)
  with run_adds [where off = off and w = w and qa = qa and dboff = dboff and ops = ops] show ?thesis by (force simp: adds_def counted_def)
qed

lemma repair_healthy:
  assumes "cd_script w = []" "\<forall>c \<in> set cs. c_ID c \<noteq> 0" "distinct (map c_ID cs)" "c_ID ` set cs \<inter> cd_processed w = {}"
  shows "repair_all date cs w = (Inr (), fold (\<lambda>c. commit_entry (call_entry date c)) cs w)"
  using assms
proof (induction cs arbitrary: w)
  case (Cons c cs)
  have "UpsertDailyCDR (call_entry date c) w = (Inr (), commit_entry (call_entry date c) w)"
    using Cons.prems by (subst upsert_healthy) (auto simp: call_entry_def)
  moreover have "c_ID ` set cs \<inter> cd_processed (commit_entry (call_entry date c) w) = {}"
    using Cons.prems by (auto simp: commit_entry_def call_entry_def)
  ultimately show ?case
    using Cons.IH [of "commit_entry (call_entry date c) w"] Cons.prems by (simp add: act_run commit_entry_def)
qed (simp add: act_run)

lemma commits_counted:
  assumes "counted es w" "distinct (map c_ID cs)" "c_ID ` set cs \<inter> cd_processed w = {}"
  shows "counted (es @ map (call_entry date) cs) (fold (\<lambda>c. commit_entry (call_entry date c)) cs w)"
  using assms
proof (induction cs arbitrary: es w)
  case (Cons c cs)
  have "counted (es @ [call_entry date c]) (commit_entry (call_entry date c) w)"
    using Cons.prems by (intro commit_counted) (auto simp: call_entry_def)
  moreover have "c_ID ` set cs \<inter> cd_processed (commit_entry (call_entry date c) w) = {}"
    using Cons.prems by (auto simp: commit_entry_def call_entry_def)
  ultimately show ?case using Cons.IH [of "es @ [call_entry date c]" "commit_entry (call_entry date c) w"] Cons.prems by simp
qed simp

lemma commits_fields:
  "cd_script (fold (\<lambda>c. commit_entry (call_entry date c)) cs w) = cd_script w"
  "cd_calls (fold (\<lambda>c. commit_entry (call_entry date c)) cs w) = cd_calls w"
  "cd_processed (fold (\<lambda>c. commit_entry (call_entry date c)) cs w) = c_ID ` set cs \<union> cd_processed w"
  by (induction cs arbitrary: w) (auto simp: commit_entry_def call_entry_def)

text \<open>
  With a healthy database one reconciliation adds exactly the calls of yesterday that have ended
  and were not counted, each with its own durations, so afterwards every such call is counted; running
  it again changes nothing.
\<close>

theorem reconciliation_completes:
  assumes "cd_script w = []" "\<forall>c \<in> set (cd_calls w). c_ID c \<noteq> 0" "distinct (map c_ID (cd_calls w))" "counted es w"
  shows "\<exists>w'. reconcileYesterday dboff now w = (Inr (), w') \<and>
     counted (es @ map (call_entry (calendar_day 0 (now - one_day))) (missing_calls dboff (calendar_day 0 (now - one_day)) w)) w' \<and>
     (\<forall>c \<in> set (cd_calls w). calendar_day dboff (c_StartedAt c) = calendar_day 0 (now - one_day) \<longrightarrow> c_EndedAt c \<noteq> None \<longrightarrow>
        c_ID c \<in> cd_processed w') \<and>
     reconcileYesterday dboff now w' = (Inr (), w')"
proof -
  define y where "y = calendar_day 0 (now - one_day)"
  define cs where "cs = missing_calls dboff y w"
  define w' where "w' = fold (\<lambda>c. commit_entry (call_entry y c)) cs w"
  have cs: "\<forall>c \<in> set cs. c_ID c \<noteq> 0" "distinct (map c_ID cs)" "c_ID ` set cs \<inter> cd_processed w = {}"
    using assms(2,3) by (auto simp: cs_def missing_calls_def distinct_map_filter)
  have run: "reconcileYesterday dboff now w = (Inr (), w')"
    using assms(1) repair_healthy [OF assms(1) cs]
    by (simp add: reconcileYesterday_def Let_def act_run sql_outcome_healthy y_def [symmetric] cs_def [symmetric] w'_def)
  have all_in: "\<forall>c \<in> set (cd_calls w). calendar_day dboff (c_StartedAt c) = y \<longrightarrow> c_EndedAt c \<noteq> None \<longrightarrow> c_ID c \<in> cd_processed w'"
    by (auto simp: w'_def commits_fields cs_def missing_calls_def)
  then have "missing_calls dboff y w' = []"
    by (auto simp: missing_calls_def w'_def commits_fields filter_empty_conv)
  then have "reconcileYesterday dboff now w' = (Inr (), w')"
    using assms(1) by (simp add: reconcileYesterday_def Let_def act_run sql_outcome_healthy y_def [symmetric] w'_def commits_fields)
  moreover have "counted (es @ map (call_entry y) cs) w'" unfolding w'_def by (rule commits_counted [OF assms(4) cs(2,3)])
  ultimately show ?thesis using run all_in unfolding y_def [symmetric] cs_def [symmetric] by blast
qed

text \<open>The reconciliation runs once a day, at the hour.\<close>

lemma nextDailyRun_bounds:
  assumes "0 \<le> hour" "hour < 24"
  shows "now < nextDailyRun now hour" "nextDailyRun now hour \<le> now + one_day" "nextDailyRun now hour mod one_day = hour * 3600 * second"
proof -
  obtain k r where k: "now div one_day * one_day = k" "now mod one_day = r" "now = k + r"
    using div_mult_mod_eq [of now one_day] by metis
  define q where "q = hour * 3600 * second"
  have h: "0 \<le> q" "q < one_day" unfolding q_def using assms by (simp_all add: second_def one_day_def)
  have m: "0 \<le> r" "r < one_day" by (simp_all add: k(2) [symmetric] one_day_def second_def)
  show "now < nextDailyRun now hour" "nextDailyRun now hour \<le> now + one_day"
    using h m unfolding nextDailyRun_def Let_def k(1) q_def [symmetric] by (simp_all add: k(3))
  show "nextDailyRun now hour mod one_day = hour * 3600 * second"
    using h unfolding q_def [symmetric] by (auto simp: nextDailyRun_def Let_def q_def [symmetric])
qed

section \<open>Witnesses\<close>

definition demo_cdr_call :: call where
  "demo_cdr_call = call_zero\<lparr>c_ID := 7, c_TenantID := 1, c_Direction := DirectionInbound, c_StartedAt := 5, c_EndedAt := Some 9,
     c_DurationSec := 30\<rparr>"

definition demo_cdr_world :: cdr_world where
  "demo_cdr_world = \<lparr>cd_processed = {}, cd_summary = (\<lambda>_. None), cd_script = [], cd_calls = [demo_cdr_call], cd_inspected = []\<rparr>"

definition demo_lossy_world :: cdr_world where
  "demo_lossy_world = demo_cdr_world\<lparr>cd_script := [Done, Done, Done, ReplyLost]\<rparr>"

text \<open>An event whose commit lost its reply is delivered twice.\<close>

theorem daily_totals_count_once_witness:
  "\<exists>es. distinct (map ce_CallID es) \<and>
     cd_summary (run_cdr False 0 0 [Deliver ''ccc.call.ended'' (Some demo_cdr_call), Deliver ''ccc.call.ended'' (Some demo_cdr_call)]
       demo_lossy_world) = summary_of es"
  using daily_totals_count_once [where w = demo_lossy_world and off = 0 and dboff = 0 and qa = False and
      ops = "[Deliver ''ccc.call.ended'' (Some demo_cdr_call), Deliver ''ccc.call.ended'' (Some demo_cdr_call)]"]
  by (auto simp: demo_lossy_world_def demo_cdr_world_def)

theorem reconciliation_completes_witness:
  "\<exists>w'. reconcileYesterday 0 (one_day + 100) demo_cdr_world = (Inr (), w') \<and> 7 \<in> cd_processed w'"
proof -
  have "counted [] demo_cdr_world" by (simp add: counted_def summary_of_def demo_cdr_world_def fun_eq_iff)
  moreover have "calendar_day 0 5 = 0" "calendar_day 0 100 = 0" by (simp_all add: calendar_day_def one_day_def second_def)
  ultimately show ?thesis
    using reconciliation_completes [of demo_cdr_world "[]" 0 "one_day + 100"]
    by (simp add: demo_cdr_world_def demo_cdr_call_def call_zero_def) metis
qed

end
