(* ===== verification/Telephony.thy ===== *)
theory Telephony
  imports Tables GoStrings
begin

text \<open>
  Outbound telephony: routing rules, caller-id policies and the health of trunks,
  \<open>internal/domain/telephony/service.go\<close> with its repositories, and the health monitor
  \<open>internal/application/trunk/service.go\<close>.
\<close>

section \<open>Strings\<close>

text \<open>\<open>strings.Split\<close> at a single character, \<open>strings.SplitN(_, _, 2)\<close> and \<open>strings.TrimSpace\<close>.\<close>

fun split_on :: "char \<Rightarrow> string \<Rightarrow> string list" where
  "split_on c [] = [[]]"
| "split_on c (x # xs) = (if x = c then [] # split_on c xs else (case split_on c xs of p # ps \<Rightarrow> (x # p) # ps | [] \<Rightarrow> [[x]]))"

definition split_2 :: "char \<Rightarrow> string \<Rightarrow> string list" where
  "split_2 c s = (if c \<in> set s then [takeWhile (\<lambda>x. x \<noteq> c) s, tl (dropWhile (\<lambda>x. x \<noteq> c) s)] else [s])"

definition is_space :: "char \<Rightarrow> bool" where
  "is_space c \<longleftrightarrow> (of_char c :: nat) \<in> {9, 10, 11, 12, 13, 32}"

definition TrimSpace :: "string \<Rightarrow> string" where
  "TrimSpace s = rev (dropWhile is_space (rev (dropWhile is_space s)))"

definition digit_val :: "char \<Rightarrow> nat option" where
  "digit_val c = (let n = (of_char c :: nat) in if 48 \<le> n \<and> n \<le> 57 then Some (n - 48) else None)"

text \<open>\<open>time.Parse("15:04", s)\<close>: an hour of one or two digits, a colon, two digits of minutes.\<close>

definition parse_minutes :: "string \<Rightarrow> nat option" where
  "parse_minutes s =
     (case s of
        [c, m1, m2] \<Rightarrow> (case (digit_val m1, digit_val m2) of
            (Some i, Some j) \<Rightarrow> if c = CHR '':'' \<and> 10 * i + j < 60 then Some (10 * i + j) else None
          | _ \<Rightarrow> None)
      | _ \<Rightarrow> None)"

definition parse_clock :: "string \<Rightarrow> nat option" where
  "parse_clock s =
     (case s of
        [] \<Rightarrow> None
      | h1 # rest \<Rightarrow> (case digit_val h1 of
            None \<Rightarrow> None
          | Some i \<Rightarrow>
              (case (case rest of [] \<Rightarrow> None | h2 # _ \<Rightarrow> digit_val h2) of
                 None \<Rightarrow> map_option (\<lambda>m. 60 * i + m) (parse_minutes rest)
               | Some j \<Rightarrow> if 10 * i + j < 24 then map_option (\<lambda>m. 60 * (10 * i + j) + m) (parse_minutes (tl rest)) else None)))"

section \<open>Routing rules\<close>

record routing_rule =
  rr_ID :: int
  rr_TenantID :: int
  rr_Name :: string
  rr_MatchType :: string
  rr_MatchValue :: string
  rr_SIPTrunkID :: int
  rr_Priority :: int
  rr_IsActive :: bool
  rr_CreatedAt :: gotime
  rr_UpdatedAt :: gotime

record cli_policy =
  cp_ID :: int
  cp_TenantID :: int
  cp_Name :: string
  cp_Strategy :: string
  cp_FixedNumberID :: "int option"
  cp_NumberPoolIDs :: string
  cp_IsDefault :: bool
  cp_CreatedAt :: gotime
  cp_UpdatedAt :: gotime

record phone_number =
  pn_ID :: int
  pn_TenantID :: int
  pn_Number :: string
  pn_DisplayName :: string
  pn_Usage :: string
  pn_SIPTrunkID :: "int option"
  pn_IVRFlowID :: "int option"
  pn_SkillGroupID :: "int option"
  pn_Status :: string
  pn_CreatedAt :: gotime
  pn_UpdatedAt :: gotime

text \<open>The rules one instance keeps for the tenant it routed for last, until they expire.\<close>

record rule_cache =
  rc_rules :: "routing_rule list"
  rc_tenant :: int
  rc_expires :: gotime

record tel_world =
  tw_rules :: "routing_rule ltable"
  tw_policies :: "cli_policy ltable"
  tw_phones :: "phone_number ltable"
  tw_cache :: rule_cache
  tw_counter :: "64 word"

datatype tel_error = ErrNoMatchingRoute | ErrNoCLIPolicy | ErrNoCLINumber | ErrTrunkGroupNotFound | ErrNoHealthyTrunk
  | ErrInvalidPhoneFormat | ErrTelStore string

type_synonym 'a tact = "(tel_world, tel_error, 'a) act"

definition on_rules :: "(routing_rule ltable, string, 'a) act \<Rightarrow> (tel_world, string, 'a) act" where
  "on_rules = zoom_a tw_rules (\<lambda>d w. w\<lparr>tw_rules := d\<rparr>)"

definition on_policies :: "(cli_policy ltable, string, 'a) act \<Rightarrow> (tel_world, string, 'a) act" where
  "on_policies = zoom_a tw_policies (\<lambda>d w. w\<lparr>tw_policies := d\<rparr>)"

definition on_phones :: "(phone_number ltable, string, 'a) act \<Rightarrow> (tel_world, string, 'a) act" where
  "on_phones = zoom_a tw_phones (\<lambda>d w. w\<lparr>tw_phones := d\<rparr>)"

text \<open>\<open>ORDER BY priority\<close>; rules of one priority come in the order they were stored.\<close>

definition ListActive :: "int \<Rightarrow> (tel_world, string, routing_rule list) act" where
  "ListActive tenantID = bind_a (on_rules (sel_all (\<lambda>r. rr_TenantID r = tenantID \<and> rr_IsActive r)))
     (\<lambda>rs. ret_a (sort_key rr_Priority rs))"

definition routingCacheTTL :: int where "routingCacheTTL = 10 * second"

text \<open>\<open>now 0\<close>, \<open>now 1\<close> and \<open>now 2\<close> are the readings of the clock in the order they are made.\<close>

definition getCachedRules :: "(nat \<Rightarrow> gotime) \<Rightarrow> int \<Rightarrow> routing_rule list tact" where
  "getCachedRules now tenantID w =
     (let c = tw_cache w
      in if rc_tenant c = tenantID \<and> now 0 < rc_expires c then (Inr (rc_rules c), w)
         else bind_a (wrap_a ErrTelStore (ListActive tenantID)) (\<lambda>rules.
           seq_a (modify_a (\<lambda>w. w\<lparr>tw_cache := \<lparr>rc_rules = rules, rc_tenant = tenantID,
               rc_expires = now 1 + routingCacheTTL\<rparr>\<rparr>))
           (ret_a rules)) w)"

text \<open>The minute of the day at a time, in a zone \<open>off\<close> nanoseconds ahead of UTC.\<close>

definition minute_of_day :: "int \<Rightarrow> gotime \<Rightarrow> nat" where
  "minute_of_day off t = nat ((t + off) mod (86400 * second) div (60 * second))"

definition matchTimeOfDay :: "int \<Rightarrow> string \<Rightarrow> gotime \<Rightarrow> bool" where
  "matchTimeOfDay off value now =
     (case split_2 CHR ''-'' value of
        [a, b] \<Rightarrow> (case (parse_clock (TrimSpace a), parse_clock (TrimSpace b)) of
            (Some s, Some e) \<Rightarrow>
              (let current = minute_of_day off now
               in if s < e then s \<le> current \<and> current < e else s \<le> current \<or> current < e)
          | _ \<Rightarrow> False)
      | _ \<Rightarrow> False)"

definition matchesRule :: "int \<Rightarrow> routing_rule \<Rightarrow> string \<Rightarrow> gotime \<Rightarrow> bool" where
  "matchesRule off r callee now =
     (if rr_MatchType r = ''prefix'' then strings_HasPrefix callee (rr_MatchValue r)
      else if rr_MatchType r = ''time_of_day'' then matchTimeOfDay off (rr_MatchValue r) now
      else rr_MatchType r = ''any'')"

fun best_rule :: "(routing_rule \<Rightarrow> bool) \<Rightarrow> routing_rule option \<Rightarrow> routing_rule list \<Rightarrow> routing_rule option" where
  "best_rule ok best [] = best"
| "best_rule ok best (r # rs) =
     (if \<not> ok r then best_rule ok best rs
      else best_rule ok (case best of None \<Rightarrow> Some r | Some b \<Rightarrow> if rr_Priority r < rr_Priority b then Some r else Some b) rs)"

definition MatchRule :: "int \<Rightarrow> (nat \<Rightarrow> gotime) \<Rightarrow> int \<Rightarrow> string \<Rightarrow> routing_rule tact" where
  "MatchRule off now tenantID callee =
     bind_a (getCachedRules now tenantID) (\<lambda>rules.
     case best_rule (\<lambda>r. matchesRule off r callee (now 2)) None rules of
       None \<Rightarrow> throw_a ErrNoMatchingRoute
     | Some r \<Rightarrow> ret_a r)"

section \<open>Caller ids\<close>

abbreviation CLIStrategyFixed :: string where "CLIStrategyFixed \<equiv> ''fixed''"
abbreviation CLIStrategyRoundRobin :: string where "CLIStrategyRoundRobin \<equiv> ''round_robin''"
abbreviation CLIStrategyRandom :: string where "CLIStrategyRandom \<equiv> ''random''"
abbreviation CLIStrategyMatchArea :: string where "CLIStrategyMatchArea \<equiv> ''match_area''"

text \<open>The identifiers of a pool; the accumulator is an int64 and wraps.\<close>

fun pool_id :: "64 word \<Rightarrow> string \<Rightarrow> int option" where
  "pool_id a [] = Some (sint a)"
| "pool_id a (c # cs) = (case digit_val c of None \<Rightarrow> None | Some d \<Rightarrow> pool_id (a * 10 + of_nat d) cs)"

definition parseNumberPool :: "string \<Rightarrow> int list" where
  "parseNumberPool ids =
     (if ids = [] then []
      else List.map_filter (\<lambda>p. if TrimSpace p = [] then None else pool_id 0 (TrimSpace p)) (split_on CHR '','' ids))"

text \<open>\<open>GetByID\<close> and \<open>GetDefault\<close> report a missing policy as an error.\<close>

definition get_policy :: "int \<Rightarrow> int option \<Rightarrow> cli_policy tact" where
  "get_policy tenantID policyID =
     try_a (on_policies (case policyID of
         Some k \<Rightarrow> bind_a (sel_row cp_ID k) (\<lambda>r. ret_a (case r of None \<Rightarrow> [] | Some p \<Rightarrow> [p]))
       | None \<Rightarrow> sel_all (\<lambda>p. cp_TenantID p = tenantID \<and> cp_IsDefault p)))
     (\<lambda>r. case r of Inr (p # _) \<Rightarrow> ret_a p | _ \<Rightarrow> throw_a ErrNoCLIPolicy)"

definition get_phone :: "int \<Rightarrow> phone_number option tact" where
  "get_phone k = wrap_a ErrTelStore (on_phones (sel_row pn_ID k))"

primrec load_pool :: "int list \<Rightarrow> phone_number list \<Rightarrow> phone_number list tact" where
  "load_pool [] acc = ret_a acc"
| "load_pool (k # ks) acc = try_a (get_phone k) (\<lambda>r.
     load_pool ks (case r of Inr (Some p) \<Rightarrow> acc @ [p] | _ \<Rightarrow> acc))"

definition same_area :: "string \<Rightarrow> phone_number \<Rightarrow> bool" where
  "same_area callee p \<longleftrightarrow> 4 \<le> length callee \<and> 4 \<le> length (pn_Number p) \<and> take 4 (pn_Number p) = take 4 callee"

text \<open>\<open>rnd n\<close> is what \<open>rand.Intn(n)\<close> gives.\<close>

definition SelectCLI :: "(nat \<Rightarrow> nat) \<Rightarrow> int \<Rightarrow> int option \<Rightarrow> string \<Rightarrow> phone_number option tact" where
  "SelectCLI rnd tenantID policyID callee =
     bind_a (get_policy tenantID policyID) (\<lambda>policy.
     let pool = parseNumberPool (cp_NumberPoolIDs policy)
     in if cp_Strategy policy = CLIStrategyFixed then
          (case cp_FixedNumberID policy of None \<Rightarrow> throw_a ErrNoCLINumber | Some k \<Rightarrow> get_phone k)
        else if cp_Strategy policy = CLIStrategyRoundRobin then
          (if pool = [] then throw_a ErrNoCLINumber
           else seq_a (modify_a (\<lambda>w. w\<lparr>tw_counter := tw_counter w + 1\<rparr>))
             (\<lambda>w. get_phone (pool ! (unat (tw_counter w) mod length pool)) w))
        else if cp_Strategy policy = CLIStrategyRandom then
          (if pool = [] then throw_a ErrNoCLINumber else get_phone (pool ! rnd (length pool)))
        else if cp_Strategy policy = CLIStrategyMatchArea then
          (if pool = [] then throw_a ErrNoCLINumber
           else bind_a (load_pool pool []) (\<lambda>numbers.
             case numbers of
               [] \<Rightarrow> throw_a ErrNoCLINumber
             | first # _ \<Rightarrow> (case find (same_area callee) numbers of
                   Some p \<Rightarrow> ret_a (Some p) | None \<Rightarrow> ret_a (Some first))))
        else throw_a ErrNoCLIPolicy)"

section \<open>Phone numbers\<close>

definition ValidateE164 :: "string \<Rightarrow> bool" where
  "ValidateE164 number \<longleftrightarrow> 2 \<le> length number \<and> hd number = CHR ''+'' \<and>
     (let digits = tl number in 7 \<le> length digits \<and> length digits \<le> 15 \<and> list_all (\<lambda>c. digit_val c \<noteq> None) digits)"

section \<open>Trunk health\<close>

datatype TrunkStatus = TrunkStatusActive | TrunkStatusDown | TrunkStatusDraining

record trunk_health =
  th_TrunkID :: int
  th_Status :: TrunkStatus
  th_LastCheckAt :: gotime
  th_FailCount :: int

type_synonym health_map = "int \<rightharpoonup> trunk_health"

definition fresh_health :: "int \<Rightarrow> trunk_health" where
  "fresh_health k = \<lparr>th_TrunkID = k, th_Status = TrunkStatusActive, th_LastCheckAt = 0, th_FailCount = 0\<rparr>"

definition GetHealthStatus :: "health_map \<Rightarrow> int \<Rightarrow> trunk_health" where
  "GetHealthStatus m k = (case m k of None \<Rightarrow> fresh_health k | Some h \<Rightarrow> h)"

definition RecordHealthCheck :: "gotime \<Rightarrow> int \<Rightarrow> bool \<Rightarrow> health_map \<Rightarrow> health_map" where
  "RecordHealthCheck now k success m =
     (let h = (case m k of None \<Rightarrow> fresh_health k | Some h \<Rightarrow> h)\<lparr>th_LastCheckAt := now\<rparr>
      in m(k \<mapsto> (if success then h\<lparr>th_Status := TrunkStatusActive, th_FailCount := 0\<rparr>
                 else let h1 = h\<lparr>th_FailCount := th_FailCount h + 1\<rparr>
                      in if 3 \<le> th_FailCount h1 then h1\<lparr>th_Status := TrunkStatusDown\<rparr> else h1)))"

text \<open>The trunks of a group in the order of their priority, and the trunk rows that can be read.\<close>

fun first_healthy :: "health_map \<Rightarrow> (int \<Rightarrow> 't option) \<Rightarrow> int list \<Rightarrow> 't option" where
  "first_healthy m trunks [] = None"
| "first_healthy m trunks (k # ks) =
     (if th_Status (GetHealthStatus m k) = TrunkStatusDown then first_healthy m trunks ks
      else case trunks k of None \<Rightarrow> first_healthy m trunks ks | Some t \<Rightarrow> Some t)"

definition SelectHealthyTrunk :: "health_map \<Rightarrow> (int \<Rightarrow> 't option) \<Rightarrow> tel_error + int list \<Rightarrow> tel_error + 't" where
  "SelectHealthyTrunk m trunks members =
     (case members of
        Inl e \<Rightarrow> Inl e
      | Inr ks \<Rightarrow> if ks = [] then Inl ErrTrunkGroupNotFound
                  else (case first_healthy m trunks ks of None \<Rightarrow> Inl ErrNoHealthyTrunk | Some t \<Rightarrow> Inr t))"

text \<open>\<open>sendOPTIONS\<close>: the reply of \<open>sofia status gateway\<close>; no client counts as healthy.\<close>

definition sendOPTIONS :: "bool \<Rightarrow> string + string \<Rightarrow> bool" where
  "sendOPTIONS wired reply =
     (if \<not> wired then True
      else case reply of
          Inl _ \<Rightarrow> False
        | Inr resp \<Rightarrow> (strings_Contains resp ''REGED'' \<and> \<not> strings_Contains resp ''UNREGED'') \<or> strings_Contains resp ''NOREG'')"

text \<open>One round of checks: at most the first 100 trunks, newest first, each with the reply it gets.\<close>

definition checkAll :: "bool \<Rightarrow> (int \<Rightarrow> gotime) \<Rightarrow> (int \<Rightarrow> string + string) \<Rightarrow> int list \<Rightarrow> health_map \<Rightarrow> health_map" where
  "checkAll wired now reply trunks m = fold (\<lambda>k. RecordHealthCheck (now k) k (sendOPTIONS wired (reply k))) (take 100 trunks) m"

section \<open>The rule that is chosen\<close>

lemma best_rule_some:
  "best_rule ok best rs = Some r \<Longrightarrow>
   (r \<in> set rs \<and> ok r \<or> best = Some r) \<and>
   (\<forall>b. best = Some b \<longrightarrow> rr_Priority r \<le> rr_Priority b) \<and>
   (\<forall>x \<in> set rs. ok x \<longrightarrow> rr_Priority r \<le> rr_Priority x)"
proof (induction ok best rs rule: best_rule.induct)
  case (2 ok best x xs)
  then show ?case by (cases best) (fastforce split: if_splits)+
qed simp

lemma best_rule_none: "best_rule ok best rs = None \<longleftrightarrow> best = None \<and> (\<forall>x \<in> set rs. \<not> ok x)"
  by (induction ok best rs rule: best_rule.induct) (auto split: option.split)

text \<open>The rules a call is matched against: the kept ones while they are fresh, the stored ones else.\<close>

definition rules_in_force :: "(nat \<Rightarrow> gotime) \<Rightarrow> int \<Rightarrow> tel_world \<Rightarrow> routing_rule list" where
  "rules_in_force now tenantID w =
     (if rc_tenant (tw_cache w) = tenantID \<and> now 0 < rc_expires (tw_cache w) then rc_rules (tw_cache w)
      else sort_key rr_Priority (filter (\<lambda>r. rr_TenantID r = tenantID \<and> rr_IsActive r) (lrows (tw_rules w))))"

definition first_match_of :: "(routing_rule \<Rightarrow> bool) \<Rightarrow> routing_rule list \<Rightarrow> routing_rule \<Rightarrow> bool" where
  "first_match_of ok rs r \<longleftrightarrow> r \<in> set rs \<and> ok r \<and> (\<forall>x \<in> set rs. ok x \<longrightarrow> rr_Priority r \<le> rr_Priority x)"

lemma getCachedRules_ok:
  "getCachedRules now tenantID w = (Inr rs, w') \<Longrightarrow>
   rs = rules_in_force now tenantID w \<and> tw_phones w' = tw_phones w"
  by (auto simp: getCachedRules_def rules_in_force_def ListActive_def on_rules_def act_simps Let_def sel_all_def on_link_def
      split: if_splits prod.splits sum.splits list.splits)

lemma MatchRule_ok:
  "MatchRule off now tenantID callee w = (Inr r, w') \<Longrightarrow>
   first_match_of (\<lambda>r. matchesRule off r callee (now 2)) (rules_in_force now tenantID w) r \<and> tw_phones w' = tw_phones w"
  unfolding MatchRule_def
  by (auto simp: act_simps first_match_of_def split: option.splits prod.splits sum.splits
      dest!: getCachedRules_ok best_rule_some)

section \<open>The caller id that is chosen\<close>

definition phone_rows :: "tel_world \<Rightarrow> phone_number list" where
  "phone_rows w = lrows (tw_phones w)"

lemma phone_rows_simps [simp]:
  "phone_rows (w\<lparr>tw_policies := p\<rparr>) = phone_rows w"
  "phone_rows (w\<lparr>tw_counter := n\<rparr>) = phone_rows w"
  by (simp_all add: phone_rows_def)

lemma get_phone_run:
  "get_phone k w = (r, w') \<Longrightarrow> phone_rows w' = phone_rows w \<and> (\<forall>p. r = Inr (Some p) \<longrightarrow> p \<in> set (phone_rows w))"
  by (auto simp: get_phone_def on_phones_def act_simps sel_row_def on_link_def phone_rows_def lrow_def find_Some_iff
      split: prod.splits sum.splits list.splits if_splits)

lemma load_pool_run:
  "load_pool ks acc w = (Inr ps, w') \<Longrightarrow> set acc \<subseteq> set (phone_rows w) \<Longrightarrow>
   phone_rows w' = phone_rows w \<and> set ps \<subseteq> set (phone_rows w)"
proof (induction ks arbitrary: acc w)
  case (Cons k ks)
  obtain r v where g: "get_phone k w = (r, v)" by fastforce
  note run = get_phone_run [OF g]
  have "load_pool ks (case r of Inr (Some p) \<Rightarrow> acc @ [p] | _ \<Rightarrow> acc) v = (Inr ps, w')"
    using Cons.prems(1) g by (simp add: act_simps)
  from Cons.IH [OF this] run Cons.prems(2) show ?case by (auto split: sum.splits option.splits)
qed (simp add: act_simps)

lemma get_policy_run: "get_policy t p w = (r, w') \<Longrightarrow> phone_rows w' = phone_rows w"
  by (auto simp: get_policy_def on_policies_def act_simps split: prod.splits sum.splits list.splits option.splits)

lemma SelectCLI_ok:
  assumes "SelectCLI rnd tenantID policyID callee w = (Inr (Some p), w')"
  shows "p \<in> set (phone_rows w)"
proof -
  obtain policy v where v: "get_policy tenantID policyID w = (Inr policy, v)"
    using assms by (auto simp: SelectCLI_def act_simps split: prod.splits sum.splits)
  note same = get_policy_run [OF v]
  have step: "get_phone k v' = (Inr (Some p), w') \<Longrightarrow> phone_rows v' = phone_rows v \<Longrightarrow> p \<in> set (phone_rows w)" for k v'
    using get_phone_run [of k v'] same by auto
  have pool: "load_pool ks [] v = (Inr ps, u) \<Longrightarrow> q \<in> set ps \<Longrightarrow> q \<in> set (phone_rows w)" for ks ps u q
    using load_pool_run [of ks "[]" v ps u] same by auto
  have area: "p \<in> set (phone_rows w)"
    if "bind_a (load_pool ks []) (\<lambda>numbers.
             case numbers of
               [] \<Rightarrow> throw_a ErrNoCLINumber
             | first # _ \<Rightarrow> (case find (same_area callee) numbers of
                   Some p \<Rightarrow> ret_a (Some p) | None \<Rightarrow> ret_a (Some first))) v = (Inr (Some p), w')" for ks
  proof -
    from that obtain ps u where ps: "load_pool ks [] v = (Inr ps, u)"
      "(case ps of [] \<Rightarrow> throw_a ErrNoCLINumber
             | first # _ \<Rightarrow> (case find (same_area callee) ps of
                   Some p \<Rightarrow> ret_a (Some p) | None \<Rightarrow> ret_a (Some first))) u = (Inr (Some p), w')"
      by (auto simp: bind_a_Inr)
    then have "p \<in> set ps"
      by (cases ps; cases "find (same_area callee) ps") (auto simp: act_simps(1,2) find_Some_iff split: if_splits)
    with ps(1) show ?thesis by (rule pool)
  qed
  let ?pool = "parseNumberPool (cp_NumberPoolIDs policy)"
  have run: "(if cp_Strategy policy = CLIStrategyFixed then
          (case cp_FixedNumberID policy of None \<Rightarrow> throw_a ErrNoCLINumber | Some k \<Rightarrow> get_phone k)
        else if cp_Strategy policy = CLIStrategyRoundRobin then
          (if ?pool = [] then throw_a ErrNoCLINumber
           else seq_a (modify_a (\<lambda>w. w\<lparr>tw_counter := tw_counter w + 1\<rparr>))
             (\<lambda>w. get_phone (?pool ! (unat (tw_counter w) mod length ?pool)) w))
        else if cp_Strategy policy = CLIStrategyRandom then
          (if ?pool = [] then throw_a ErrNoCLINumber else get_phone (?pool ! rnd (length ?pool)))
        else if cp_Strategy policy = CLIStrategyMatchArea then
          (if ?pool = [] then throw_a ErrNoCLINumber
           else bind_a (load_pool ?pool []) (\<lambda>numbers.
             case numbers of
               [] \<Rightarrow> throw_a ErrNoCLINumber
             | first # _ \<Rightarrow> (case find (same_area callee) numbers of
                   Some p \<Rightarrow> ret_a (Some p) | None \<Rightarrow> ret_a (Some first))))
        else throw_a ErrNoCLIPolicy) v = (Inr (Some p), w')"
    using assms v unfolding SelectCLI_def Let_def by (simp add: act_simps(3))
  show ?thesis
  proof (cases "cp_Strategy policy = CLIStrategyMatchArea")
    case True
    with run area [of ?pool] show ?thesis by (auto simp: act_simps(2) split: if_splits)
  next
    case False
    with run show ?thesis
      by (auto simp: act_simps split: if_splits option.splits intro: step)
  qed
qed

section \<open>The health of a trunk\<close>

text \<open>A history of checks: the trunk, the time and the outcome of each.\<close>

definition run_checks :: "(int \<times> gotime \<times> bool) list \<Rightarrow> health_map \<Rightarrow> health_map" where
  "run_checks cs m = fold (\<lambda>c. RecordHealthCheck (fst (snd c)) (fst c) (snd (snd c))) cs m"

definition outcomes :: "int \<Rightarrow> (int \<times> gotime \<times> bool) list \<Rightarrow> bool list" where
  "outcomes k cs = map (\<lambda>c. snd (snd c)) (filter (\<lambda>c. fst c = k) cs)"

text \<open>The failures since the last success.\<close>

definition trailing_failures :: "int \<Rightarrow> (int \<times> gotime \<times> bool) list \<Rightarrow> nat" where
  "trailing_failures k cs = length (takeWhile Not (rev (outcomes k cs)))"

lemma run_checks_snoc:
  "run_checks (cs @ [c]) m = RecordHealthCheck (fst (snd c)) (fst c) (snd (snd c)) (run_checks cs m)"
  by (simp add: run_checks_def)

lemma run_checks_health:
  "th_FailCount (GetHealthStatus (run_checks cs Map.empty) k) = int (trailing_failures k cs) \<and>
   th_Status (GetHealthStatus (run_checks cs Map.empty) k) =
     (if 3 \<le> trailing_failures k cs then TrunkStatusDown else TrunkStatusActive)"
proof (induction cs rule: rev_induct)
  case Nil
  show ?case by (simp add: run_checks_def GetHealthStatus_def fresh_health_def trailing_failures_def outcomes_def)
next
  case (snoc c cs)
  let ?m = "run_checks cs Map.empty"
  show ?case
  proof (cases "fst c = k")
    case False
    then have "GetHealthStatus (run_checks (cs @ [c]) Map.empty) k = GetHealthStatus ?m k"
      by (simp add: run_checks_snoc GetHealthStatus_def RecordHealthCheck_def Let_def)
    moreover have "trailing_failures k (cs @ [c]) = trailing_failures k cs"
      using False by (simp add: trailing_failures_def outcomes_def)
    ultimately show ?thesis using snoc by simp
  next
    case True
    then have t: "trailing_failures k (cs @ [c]) = (if snd (snd c) then 0 else Suc (trailing_failures k cs))"
      by (simp add: trailing_failures_def outcomes_def)
    have "GetHealthStatus (run_checks (cs @ [c]) Map.empty) k =
      (let h = GetHealthStatus ?m k\<lparr>th_LastCheckAt := fst (snd c)\<rparr>
       in if snd (snd c) then h\<lparr>th_Status := TrunkStatusActive, th_FailCount := 0\<rparr>
          else let h1 = h\<lparr>th_FailCount := th_FailCount h + 1\<rparr>
               in if 3 \<le> th_FailCount h1 then h1\<lparr>th_Status := TrunkStatusDown\<rparr> else h1)"
      using True by (simp add: run_checks_snoc GetHealthStatus_def RecordHealthCheck_def Let_def)
    with t snoc show ?thesis by (simp add: Let_def)
  qed
qed

lemma first_healthy_split:
  "first_healthy m trunks ks = Some t \<Longrightarrow>
   \<exists>pre k post. ks = pre @ k # post \<and> trunks k = Some t \<and> th_Status (GetHealthStatus m k) \<noteq> TrunkStatusDown \<and>
     (\<forall>j \<in> set pre. th_Status (GetHealthStatus m j) = TrunkStatusDown \<or> trunks j = None)"
proof (induction m trunks ks rule: first_healthy.induct)
  case (2 m trunks k ks)
  show ?case
  proof (cases "th_Status (GetHealthStatus m k) \<noteq> TrunkStatusDown \<and> trunks k \<noteq> None")
    case True
    with 2(3) have "trunks k = Some t" by auto
    with True show ?thesis by (intro exI [of _ "[]"] exI [of _ k] exI [of _ ks]) simp
  next
    case False
    with 2 obtain pre j post where "ks = pre @ j # post" "trunks j = Some t"
      "th_Status (GetHealthStatus m j) \<noteq> TrunkStatusDown"
      "\<forall>j \<in> set pre. th_Status (GetHealthStatus m j) = TrunkStatusDown \<or> trunks j = None"
      by (auto split: if_splits)
    with False show ?thesis by (intro exI [of _ "k # pre"] exI [of _ j] exI [of _ post]) auto
  qed
qed simp

text \<open>
  Whatever health checks have been recorded, in any order and for any trunks, the trunk a group
  gives for a call is its first member, by priority, that can be loaded and is not down, and a trunk
  is down exactly when its last three checks or more have all failed: one success is enough to put it back.
\<close>

theorem healthy_trunk_selected:
  assumes "SelectHealthyTrunk (run_checks cs Map.empty) trunks (Inr ks) = Inr t"
  shows "\<exists>pre k post. ks = pre @ k # post \<and> trunks k = Some t \<and> trailing_failures k cs < 3 \<and>
    (\<forall>j \<in> set pre. 3 \<le> trailing_failures j cs \<or> trunks j = None)"
proof -
  have "first_healthy (run_checks cs Map.empty) trunks ks = Some t"
    using assms by (auto simp: SelectHealthyTrunk_def split: if_splits option.splits)
  from first_healthy_split [OF this] obtain pre k post where *: "ks = pre @ k # post" "trunks k = Some t"
    "th_Status (GetHealthStatus (run_checks cs Map.empty) k) \<noteq> TrunkStatusDown"
    "\<forall>j \<in> set pre. th_Status (GetHealthStatus (run_checks cs Map.empty) j) = TrunkStatusDown \<or> trunks j = None"
    by blast
  then have "trailing_failures k cs < 3" using run_checks_health [of cs k] by (auto simp: not_less split: if_splits)
  moreover have "\<forall>j \<in> set pre. 3 \<le> trailing_failures j cs \<or> trunks j = None"
    using *(4) run_checks_health [of cs] by (auto split: if_splits)
  ultimately show ?thesis using * by blast
qed

definition checks0 :: "(int \<times> gotime \<times> bool) list" where
  "checks0 = [(1, 10, False), (2, 11, False), (1, 20, False), (2, 21, True), (1, 30, False), (2, 31, False)]"

lemma healthy_trunk_selected_witness:
  "\<exists>pre k post. [1, 2, 3] = pre @ k # post \<and> (\<lambda>k. if k = 3 then None else Some k) k = Some (2::int) \<and>
    trailing_failures k checks0 < 3 \<and>
    (\<forall>j \<in> set pre. 3 \<le> trailing_failures j checks0 \<or> (\<lambda>k. if k = 3 then None else Some k) j = None)"
  by (rule healthy_trunk_selected)
    (simp add: checks0_def SelectHealthyTrunk_def run_checks_def RecordHealthCheck_def GetHealthStatus_def
      fresh_health_def Let_def)

end
