(* ===== verification/Outbound.thy ===== *)
theory Outbound
  imports Telephony Campaign CallService
begin

text \<open>
  Dialing out: \<open>internal/application/outbound/service.go\<close>, which puts the do-not-call list, the routing
  rules, the caller-id policies and the call service together, and the callback scheduler
  \<open>internal/application/callback/service.go\<close> that calls back the customers who asked for it.
\<close>

section \<open>Dialing\<close>

text \<open>\<open>ow_spawned\<close>: the calls of \<open>Originate\<close> that run in goroutines.\<close>

record 'd out_world =
  ow_tel :: tel_world
  ow_dnc :: campaign_world
  ow_calls :: "'d call_world"
  ow_spawned :: "(string \<times> string \<times> string) list"

datatype out_error = OutDNC campaign_error | OutRouting tel_error | OutCLI tel_error | OutNoNumber | OutCall call_error
  | OutCallbacks string

definition on_tel :: "(tel_world, 'e, 'a) act \<Rightarrow> ('d out_world, 'e, 'a) act" where
  "on_tel = zoom_a ow_tel (\<lambda>d w. w\<lparr>ow_tel := d\<rparr>)"

definition on_dnc :: "(campaign_world, 'e, 'a) act \<Rightarrow> ('d out_world, 'e, 'a) act" where
  "on_dnc = zoom_a ow_dnc (\<lambda>d w. w\<lparr>ow_dnc := d\<rparr>)"

definition on_call_world :: "('d call_world, 'e, 'a) act \<Rightarrow> ('d out_world, 'e, 'a) act" where
  "on_call_world = zoom_a ow_calls (\<lambda>d w. w\<lparr>ow_calls := d\<rparr>)"

record dial_request =
  dr_TenantID :: int
  dr_AgentUserID :: int
  dr_Callee :: string
  dr_MediaType :: string
  dr_CLIPolicyID :: "int option"
  dr_CampaignCaseID :: "int option"

definition dial_input :: "dial_request \<Rightarrow> routing_rule \<Rightarrow> phone_number \<Rightarrow> create_call_input" where
  "dial_input req rule cli = \<lparr>in_TenantID = dr_TenantID req, in_Direction = [], in_CallType = [],
     in_MediaType = dr_MediaType req, in_Caller = pn_Number cli, in_Callee = dr_Callee req, in_ChannelUUID = [],
     in_AgentUserID = Some (dr_AgentUserID req), in_IVRFlowID = None, in_PhoneNumberID = Some (pn_ID cli),
     in_CarrierID = None, in_SIPTrunkID = Some (rr_SIPTrunkID rule), in_CampaignCaseID = dr_CampaignCaseID req\<rparr>"

text \<open>
  \<open>now\<close>: the readings of the clock, 0 by the do-not-call check, 1 to 3 by the routing, 4 by the call
  service; \<open>off\<close>: the zone of the server; \<open>rnd\<close>: \<open>rand.Intn\<close>; \<open>nid\<close>, \<open>eid\<close>: the identifiers drawn.
\<close>

definition Dial ::
  "'d call_svc \<Rightarrow> int \<Rightarrow> (nat \<Rightarrow> nat) \<Rightarrow> (nat \<Rightarrow> gotime) \<Rightarrow> int \<Rightarrow> int \<Rightarrow> dial_request \<Rightarrow> ('d out_world, out_error, call) act" where
  "Dial S off rnd now nid eid req =
     seq_a (wrap_a OutDNC (on_dnc (CheckDNC (now 0) (dr_TenantID req) (dr_Callee req))))
     (bind_a (wrap_a OutRouting (on_tel (MatchRule off (\<lambda>i. now (i + 1)) (dr_TenantID req) (dr_Callee req)))) (\<lambda>rule.
      bind_a (wrap_a OutCLI (on_tel (SelectCLI rnd (dr_TenantID req) (dr_CLIPolicyID req) (dr_Callee req)))) (\<lambda>found.
      case found of
        None \<Rightarrow> throw_a OutNoNumber
      | Some cli \<Rightarrow> wrap_a OutCall (on_call_world (CreateOutboundCall S (now 4) nid eid (dial_input req rule cli))))))"

record internal_request =
  ir_TenantID :: int
  ir_CallerAgentID :: int
  ir_CalleeAgentID :: int
  ir_CallerExt :: string
  ir_CalleeExt :: string
  ir_MediaType :: string

text \<open>\<open>wired\<close>: there is an ESL client.\<close>

definition DialInternal ::
  "'d call_svc \<Rightarrow> bool \<Rightarrow> gotime \<Rightarrow> int \<Rightarrow> int \<Rightarrow> internal_request \<Rightarrow> ('d out_world, out_error, call) act" where
  "DialInternal S wired now nid eid req =
     bind_a (wrap_a OutCall (on_call_world (CreateInternalCall S now nid eid
        \<lparr>in_TenantID = ir_TenantID req, in_Direction = [], in_CallType = [], in_MediaType = ir_MediaType req,
         in_Caller = ir_CallerExt req, in_Callee = ir_CalleeExt req, in_ChannelUUID = [],
         in_AgentUserID = Some (ir_CallerAgentID req), in_IVRFlowID = None, in_PhoneNumberID = None,
         in_CarrierID = None, in_SIPTrunkID = None, in_CampaignCaseID = None\<rparr>))) (\<lambda>c.
     seq_a (when_a wired (modify_a (\<lambda>w. w\<lparr>ow_spawned := ow_spawned w @
         [(''user/'' @ ir_CalleeExt req, ir_CallerExt req, ''default'')]\<rparr>)))
     (ret_a c))"

section \<open>Callbacks\<close>

abbreviation CallTypeCallback :: string where "CallTypeCallback \<equiv> ''CALLBACK''"

text \<open>
  The open requests; \<open>ids\<close> are the keys of the table in the order of \<open>created_at\<close>.
\<close>

definition callback_open :: "callback_request \<Rightarrow> bool" where
  "callback_open cb \<longleftrightarrow> cb_Status cb = ''pending'' \<or> cb_Status cb = ''retry''"

definition open_callbacks ::
  "(callback_request \<Rightarrow> bool) \<Rightarrow> int list \<Rightarrow> (callback_request table, string, callback_request list) act" where
  "open_callbacks mine ids = with_link (\<lambda>t. (Inr (filter (\<lambda>cb. callback_open cb \<and> mine cb) (List.map_filter (rows t) ids)), t))"

definition ListAllPending :: "int list \<Rightarrow> ('d out_world, out_error, callback_request list) act" where
  "ListAllPending ids = wrap_a OutCallbacks (on_call_world (on_callbacks (open_callbacks (\<lambda>_. True) ids)))"

definition ListPending :: "int list \<Rightarrow> int \<Rightarrow> ('d out_world, out_error, callback_request list) act" where
  "ListPending ids tenantID = wrap_a OutCallbacks (on_call_world (on_callbacks (open_callbacks (\<lambda>cb. cb_TenantID cb = tenantID) ids)))"

definition save_callback :: "callback_request \<Rightarrow> ('d out_world, out_error, unit) act" where
  "save_callback cb = ignore_a (on_call_world (on_callbacks (sql_update cb_ID CallbackRepo_update_row cb)))"

text \<open>
  What a tick knows: \<open>ck_now k\<close> the readings of the clock while callback \<open>k\<close> is processed (0 at the
  schedule, 1 after the call, 2 for exhausted attempts, from 3 on inside the dialing), \<open>ck_ids k\<close> the
  identifiers its call and event get.
\<close>

record tick_env =
  ck_now :: "int \<Rightarrow> nat \<Rightarrow> gotime"
  ck_ids :: "int \<Rightarrow> int \<times> int"
  ck_rnd :: "nat \<Rightarrow> nat"
  ck_off :: int

definition max_attempts :: "callback_request \<Rightarrow> int" where
  "max_attempts cb = (if cb_MaxAttempts cb \<le> 0 then 3 else cb_MaxAttempts cb)"

definition place_callback ::
  "'d call_svc \<Rightarrow> bool \<Rightarrow> tick_env \<Rightarrow> callback_request \<Rightarrow> ('d out_world, out_error, call) act" where
  "place_callback S outbound E cb =
     (let k = cb_ID cb; now = (\<lambda>i. ck_now E k (i + 3))
      in if outbound then
           Dial S (ck_off E) (ck_rnd E) now (fst (ck_ids E k)) (snd (ck_ids E k))
             \<lparr>dr_TenantID = cb_TenantID cb, dr_AgentUserID = 0, dr_Callee = cb_Caller cb, dr_MediaType = MediaTypeAudio,
              dr_CLIPolicyID = None, dr_CampaignCaseID = None\<rparr>
         else wrap_a OutCall (on_call_world (CreateOutboundCall S (now 0) (fst (ck_ids E k)) (snd (ck_ids E k))
             \<lparr>in_TenantID = cb_TenantID cb, in_Direction = DirectionOutbound, in_CallType = CallTypeCallback,
              in_MediaType = [], in_Caller = ''callback'', in_Callee = cb_Caller cb, in_ChannelUUID = [],
              in_AgentUserID = None, in_IVRFlowID = None, in_PhoneNumberID = None, in_CarrierID = None,
              in_SIPTrunkID = None, in_CampaignCaseID = None\<rparr>)))"

definition process_callback ::
  "'d call_svc \<Rightarrow> bool \<Rightarrow> tick_env \<Rightarrow> callback_request \<Rightarrow> ('d out_world, out_error, nat) act" where
  "process_callback S outbound E cb =
     (let k = cb_ID cb
      in if max_attempts cb \<le> cb_AttemptCount cb then
           seq_a (save_callback (cb\<lparr>cb_Status := ''max_attempts'', cb_LastAttemptAt := Some (ck_now E k 2)\<rparr>)) (ret_a 0)
         else if (case cb_ScheduledAt cb of None \<Rightarrow> False | Some t \<Rightarrow> t > ck_now E k 0) then ret_a 0
         else try_a (place_callback S outbound E cb) (\<lambda>r.
           let cb1 = cb\<lparr>cb_AttemptCount := cb_AttemptCount cb + 1, cb_LastAttemptAt := Some (ck_now E k 1)\<rparr>;
               cb2 = (case r of
                   Inl _ \<Rightarrow> cb1\<lparr>cb_Status := ''retry''\<rparr>
                 | Inr _ \<Rightarrow> cb1\<lparr>cb_Status := ''completed'', cb_CompletedAt := Some (ck_now E k 1)\<rparr>)
           in seq_a (save_callback cb2) (ret_a (case r of Inl _ \<Rightarrow> 0 | Inr _ \<Rightarrow> 1))))"

primrec processList ::
  "'d call_svc \<Rightarrow> bool \<Rightarrow> tick_env \<Rightarrow> callback_request list \<Rightarrow> nat \<Rightarrow> ('d out_world, out_error, nat) act" where
  "processList S outbound E [] n = ret_a n"
| "processList S outbound E (cb # cbs) n =
     bind_a (process_callback S outbound E cb) (\<lambda>m. processList S outbound E cbs (n + m))"

definition ProcessAllPending ::
  "'d call_svc \<Rightarrow> bool \<Rightarrow> tick_env \<Rightarrow> int list \<Rightarrow> ('d out_world, out_error, nat) act" where
  "ProcessAllPending S outbound E ids = bind_a (ListAllPending ids) (\<lambda>cbs. processList S outbound E cbs 0)"

definition ProcessPending ::
  "'d call_svc \<Rightarrow> bool \<Rightarrow> tick_env \<Rightarrow> int list \<Rightarrow> int \<Rightarrow> ('d out_world, out_error, nat) act" where
  "ProcessPending S outbound E ids tenantID = bind_a (ListPending ids tenantID) (\<lambda>cbs. processList S outbound E cbs 0)"

end
