(* ===== verification/OutboundProps.thy ===== *)
theory OutboundProps
  imports Outbound CampaignProps CallProps
begin

text \<open>
  What dialing out guarantees: the checks that precede every call of \<open>Dial\<close>, and how often and how
  long the callback scheduler tries a request.
\<close>

section \<open>What dialing does\<close>

text \<open>The commands FreeSWITCH got between two states of the media.\<close>

definition sent :: "media \<Rightarrow> media \<Rightarrow> tp_cmd list" where
  "sent m m' = map fst (drop (length (transcript m)) (transcript m'))"

lemma media_exec_transcript:
  "media_exec cmd m = (r, m') \<Longrightarrow> transcript m' = transcript m @ [(cmd, r)]"
  by (auto simp: media_exec_def split: list.splits)

lemma CreateOutboundCall_effect:
  assumes "CreateOutboundCall S now nid eid inp v = (r, v')"
  shows "cw_calls v' = cw_calls v \<and> cw_media v' = cw_media v \<or>
    sent (cw_media v) (cw_media v') =
      (if svc_tp S then [TpOriginate (in_Callee inp) (in_Caller inp) ''default''] else [])"
  using assms
  unfolding CreateOutboundCall_def Let_def
  by (auto simp: act_simps tp_call_def on_media_def on_calls_def insert_call_def emit_run lift_result_def sent_def
      split: if_splits prod.splits sum.splits dest!: media_exec_transcript)

lemma CheckDNC_ok:
  assumes "fst (CheckDNC now t n w) = Inr u" "\<not> next_statement_fails (gw_dnc w)" "dnc_unique w"
    "e \<in> set (lrows (gw_dnc w))" "dnc_TenantID e = t" "dnc_Number e = n"
  shows "\<exists>x. dnc_ExpiresAt e = Some x \<and> x < now"
proof -
  let ?es = "filter (\<lambda>e. dnc_TenantID e = t \<and> dnc_Number e = n) (lrows (gw_dnc w))"
  have "e \<in> set ?es" using assms by simp
  then have "?es \<noteq> []" by (metis empty_iff empty_set)
  with unique_entry [OF assms(3), of t n] obtain x where "?es = [x]" by blast
  with \<open>e \<in> set ?es\<close> have es: "?es = [e]" by (metis empty_iff empty_set set_ConsD)
  have "fst (CheckDNC now t n w) \<noteq> Inl ErrDNCBlocked" using assms(1) by simp
  with es assms(2) show ?thesis by (auto simp: CheckDNC_result split: option.splits)
qed

definition effect_free :: "'d out_world \<Rightarrow> 'd out_world \<Rightarrow> bool" where
  "effect_free w w' \<longleftrightarrow> cw_calls (ow_calls w') = cw_calls (ow_calls w) \<and> cw_media (ow_calls w') = cw_media (ow_calls w)"

lemma Dial_effect:
  assumes "Dial S off rnd now nid eid req w = (r, w')" "\<not> effect_free w w'"
  obtains u rule p where "fst (CheckDNC (now 0) (dr_TenantID req) (dr_Callee req) (ow_dnc w)) = Inr u"
    "first_match_of (\<lambda>x. matchesRule off x (dr_Callee req) (now 3))
       (rules_in_force (\<lambda>i. now (i + 1)) (dr_TenantID req) (ow_tel w)) rule"
    "p \<in> set (phone_rows (ow_tel w))"
    "sent (cw_media (ow_calls w)) (cw_media (ow_calls w')) =
      (if svc_tp S then [TpOriginate (dr_Callee req) (pn_Number p) ''default''] else [])"
proof -
  obtain c g where c: "CheckDNC (now 0) (dr_TenantID req) (dr_Callee req) (ow_dnc w) = (c, g)" by fastforce
  obtain m t1 where m: "MatchRule off (\<lambda>i. now (i + 1)) (dr_TenantID req) (dr_Callee req) (ow_tel w) = (m, t1)" by fastforce
  obtain s t2 where s: "SelectCLI rnd (dr_TenantID req) (dr_CLIPolicyID req) (dr_Callee req) t1 = (s, t2)" by fastforce
  have "\<exists>u rule p. c = Inr u \<and> m = Inr rule \<and> s = Inr (Some p)"
  proof (rule ccontr)
    assume "\<not> ?thesis"
    with c m s assms(1) have "effect_free w w'"
      by (auto simp: Dial_def act_simps on_dnc_def on_tel_def effect_free_def
          split: sum.splits option.splits)
    with assms(2) show False by simp
  qed
  then obtain u rule p where ok: "c = Inr u" "m = Inr rule" "s = Inr (Some p)" by blast
  obtain o1 v where v: "CreateOutboundCall S (now 4) nid eid (dial_input req rule p) (ow_calls w) = (o1, v)" by fastforce
  have w': "cw_calls (ow_calls w') = cw_calls v" "cw_media (ow_calls w') = cw_media v"
    using assms(1) c m s ok v
    by (auto simp: Dial_def act_simps on_dnc_def on_tel_def on_call_world_def split: sum.splits)
  have "p \<in> set (phone_rows t1)" using SelectCLI_ok s ok(3) by blast
  with MatchRule_ok [OF m [unfolded ok]] have
    "p \<in> set (phone_rows (ow_tel w))" by (simp add: phone_rows_def)
  moreover have "first_match_of (\<lambda>x. matchesRule off x (dr_Callee req) (now 3))
       (rules_in_force (\<lambda>i. now (i + 1)) (dr_TenantID req) (ow_tel w)) rule"
    using MatchRule_ok [OF m [unfolded ok]] by (simp add: numeral_eq_Suc)
  moreover have "sent (cw_media (ow_calls w)) (cw_media (ow_calls w')) =
      (if svc_tp S then [TpOriginate (dr_Callee req) (pn_Number p) ''default''] else [])"
    using CreateOutboundCall_effect [OF v] w' assms(2) by (auto simp: effect_free_def dial_input_def split: if_splits)
  ultimately show ?thesis using that c ok by simp
qed

text \<open>
  C4. Dialing has an effect, on the stored calls or on FreeSWITCH, only when the query of the
  do-not-call list failed or every entry of the list for the callee has expired, and in either case a rule in
  force matches (the one of the least priority is taken) and the caller id is the number of a stored phone;
  FreeSWITCH then gets exactly one command, which originates the call from that number. That a
  failed query lets the number pass is the code's choice (\<open>failed_dnc_query_dials\<close> below). A tenant has
  at most one entry for a number, which is the unique key of the table.
\<close>

theorem Dial_respects_checks:
  assumes "Dial S off rnd now nid eid req w = (r, w')" "\<not> effect_free w w'" "dnc_unique (ow_dnc w)"
  shows "(next_statement_fails (gw_dnc (ow_dnc w)) \<or>
     (\<forall>e \<in> set (lrows (gw_dnc (ow_dnc w))).
       dnc_TenantID e = dr_TenantID req \<longrightarrow> dnc_Number e = dr_Callee req \<longrightarrow> (\<exists>x. dnc_ExpiresAt e = Some x \<and> x < now 0))) \<and>
    (\<exists>rule. first_match_of (\<lambda>x. matchesRule off x (dr_Callee req) (now 3))
       (rules_in_force (\<lambda>i. now (i + 1)) (dr_TenantID req) (ow_tel w)) rule) \<and>
    (\<exists>p \<in> set (phone_rows (ow_tel w)). sent (cw_media (ow_calls w)) (cw_media (ow_calls w')) =
       (if svc_tp S then [TpOriginate (dr_Callee req) (pn_Number p) ''default''] else []))"
proof (rule Dial_effect [OF assms(1,2)])
  fix u rule p
  assume u: "fst (CheckDNC (now 0) (dr_TenantID req) (dr_Callee req) (ow_dnc w)) = Inr u"
    and rest: "first_match_of (\<lambda>x. matchesRule off x (dr_Callee req) (now 3))
       (rules_in_force (\<lambda>i. now (i + 1)) (dr_TenantID req) (ow_tel w)) rule"
      "p \<in> set (phone_rows (ow_tel w))"
      "sent (cw_media (ow_calls w)) (cw_media (ow_calls w')) =
        (if svc_tp S then [TpOriginate (dr_Callee req) (pn_Number p) ''default''] else [])"
  show ?thesis using CheckDNC_ok [OF u _ assms(3)] rest by blast
qed

section \<open>A concrete call\<close>

definition tel_world0 :: tel_world where
  "tel_world0 = \<lparr>tw_rules = \<lparr>lrows = [\<lparr>rr_ID = 1, rr_TenantID = 7, rr_Name = ''mobile'', rr_MatchType = ''prefix'',
       rr_MatchValue = ''1'', rr_SIPTrunkID = 9, rr_Priority = 5, rr_IsActive = True, rr_CreatedAt = 0, rr_UpdatedAt = 0\<rparr>],
       loutages = []\<rparr>,
     tw_policies = \<lparr>lrows = [\<lparr>cp_ID = 2, cp_TenantID = 7, cp_Name = ''main'', cp_Strategy = CLIStrategyFixed,
       cp_FixedNumberID = Some 3, cp_NumberPoolIDs = [], cp_IsDefault = True, cp_CreatedAt = 0, cp_UpdatedAt = 0\<rparr>],
       loutages = []\<rparr>,
     tw_phones = \<lparr>lrows = [\<lparr>pn_ID = 3, pn_TenantID = 7, pn_Number = ''800'', pn_DisplayName = [], pn_Usage = [],
       pn_SIPTrunkID = None, pn_IVRFlowID = None, pn_SkillGroupID = None, pn_Status = [], pn_CreatedAt = 0, pn_UpdatedAt = 0\<rparr>],
       loutages = []\<rparr>,
     tw_cache = \<lparr>rc_rules = [], rc_tenant = 0, rc_expires = 0\<rparr>, tw_counter = 0\<rparr>"

definition out_world0 :: "(call table) out_world" where
  "out_world0 = \<lparr>ow_tel = tel_world0, ow_dnc = campaign_world0\<lparr>gw_dnc := \<lparr>lrows = [\<lparr>dnc_ID = 4, dnc_TenantID = 7,
       dnc_Number = ''100'', dnc_Reason = [], dnc_Source = [], dnc_ExpiresAt = Some 50, dnc_CreatedAt = 0\<rparr>], loutages = []\<rparr>\<rparr>,
     ow_calls = call_world0, ow_spawned = []\<rparr>"

definition dial0 :: dial_request where
  "dial0 = \<lparr>dr_TenantID = 7, dr_AgentUserID = 8, dr_Callee = ''100'', dr_MediaType = [], dr_CLIPolicyID = None,
     dr_CampaignCaseID = None\<rparr>"

lemma dial0_run:
  "\<exists>w'. Dial (NewCallService CallRepo True) 0 (\<lambda>_. 0) (\<lambda>_. 90) 1 2 dial0 out_world0 = (Inr
      (call_zero\<lparr>c_ID := 1, c_TenantID := 7, c_Direction := DirectionOutbound, c_CallType := CallTypeNormal,
        c_MediaType := MediaTypeAudio, c_Caller := ''800'', c_Callee := ''100'', c_AgentUserID := Some 8,
        c_PhoneNumberID := Some 3, c_SIPTrunkID := Some 9, c_Status := CallStatusRinging, c_StartedAt := 90\<rparr>), w') \<and>
    transcript (cw_media (ow_calls w')) = [(TpOriginate ''100'' ''800'' ''default'', Inr [])]"
  by (simp add: Dial_def dial0_def out_world0_def tel_world0_def campaign_world0_def call_world0_def act_simps
      on_dnc_def on_tel_def on_call_world_def CheckDNC_def GetByNumber_def MatchRule_def getCachedRules_def ListActive_def
      on_rules_def on_policies_def on_phones_def SelectCLI_def get_policy_def get_phone_def matchesRule_def
      lrow_def dial_input_def Let_def CreateOutboundCall_def lift_result_def resolveMediaType_def
      tp_call_def on_media_def media_exec_def insert_call_def on_calls_def NewCallService_def CallRepo_def emit_run call_zero_def)

text \<open>The same call goes out to a number on the list when the query of the list fails.\<close>

lemma failed_dnc_query_dials:
  "transcript (cw_media (ow_calls (snd (Dial (NewCallService CallRepo True) 0 (\<lambda>_. 0) (\<lambda>_. 40) 1 2 dial0
      (out_world0\<lparr>ow_dnc := (ow_dnc out_world0)\<lparr>gw_dnc := (gw_dnc (ow_dnc out_world0))\<lparr>loutages := [True]\<rparr>\<rparr>\<rparr>))))) =
    [(TpOriginate ''100'' ''800'' ''default'', Inr [])]"
  by (simp add: Dial_def dial0_def out_world0_def tel_world0_def campaign_world0_def call_world0_def act_simps
      on_dnc_def on_tel_def on_call_world_def CheckDNC_def GetByNumber_def MatchRule_def getCachedRules_def ListActive_def
      on_rules_def on_policies_def on_phones_def SelectCLI_def get_policy_def get_phone_def matchesRule_def
      lrow_def dial_input_def Let_def CreateOutboundCall_def lift_result_def resolveMediaType_def
      tp_call_def on_media_def media_exec_def insert_call_def on_calls_def NewCallService_def CallRepo_def emit_run call_zero_def
      sel_all_def on_link_def)

lemma Dial_respects_checks_witness:
  "\<exists>w' :: (call table) out_world. transcript (cw_media (ow_calls w')) \<noteq> [] \<and>
    (\<forall>e \<in> set (lrows (gw_dnc (ow_dnc out_world0))).
       dnc_TenantID e = 7 \<longrightarrow> dnc_Number e = ''100'' \<longrightarrow> (\<exists>x. dnc_ExpiresAt e = Some x \<and> x < 90)) \<and>
    (\<exists>p \<in> set (phone_rows tel_world0). sent (cw_media (ow_calls out_world0)) (cw_media (ow_calls w')) =
       [TpOriginate ''100'' (pn_Number p) ''default''])"
proof -
  obtain w' r where d: "Dial (NewCallService CallRepo True) 0 (\<lambda>_. 0) (\<lambda>_. 90) 1 2 dial0 out_world0 = (r, w')"
    and t: "transcript (cw_media (ow_calls w')) = [(TpOriginate ''100'' ''800'' ''default'', Inr [])]"
    using dial0_run by blast
  have "\<not> effect_free out_world0 w'" using t by (auto simp: effect_free_def out_world0_def call_world0_def)
  from Dial_respects_checks [OF d this] t show ?thesis
    by (intro exI [of _ w'])
      (simp add: out_world0_def dial0_def dnc_unique_def next_statement_fails_def NewCallService_def)
qed

section \<open>Callbacks\<close>

text \<open>The row a tick leaves for an open request, as a step relation.\<close>

definition callback_due :: "tick_env \<Rightarrow> callback_request \<Rightarrow> bool" where
  "callback_due E cb \<longleftrightarrow> (case cb_ScheduledAt cb of None \<Rightarrow> True | Some t \<Rightarrow> t \<le> ck_now E (cb_ID cb) 0)"

inductive callback_step :: "tick_env \<Rightarrow> callback_request \<Rightarrow> callback_request \<Rightarrow> bool" for E where
  exhausted: "max_attempts cb \<le> cb_AttemptCount cb \<Longrightarrow>
    callback_step E cb (cb\<lparr>cb_Status := ''max_attempts'', cb_LastAttemptAt := Some (ck_now E (cb_ID cb) 2)\<rparr>)"
| early: "cb_AttemptCount cb < max_attempts cb \<Longrightarrow> \<not> callback_due E cb \<Longrightarrow> callback_step E cb cb"
| failed: "cb_AttemptCount cb < max_attempts cb \<Longrightarrow> callback_due E cb \<Longrightarrow>
    callback_step E cb (cb\<lparr>cb_AttemptCount := cb_AttemptCount cb + 1,
      cb_LastAttemptAt := Some (ck_now E (cb_ID cb) 1), cb_Status := ''retry''\<rparr>)"
| answered: "cb_AttemptCount cb < max_attempts cb \<Longrightarrow> callback_due E cb \<Longrightarrow>
    callback_step E cb (cb\<lparr>cb_AttemptCount := cb_AttemptCount cb + 1,
      cb_LastAttemptAt := Some (ck_now E (cb_ID cb) 1), cb_Status := ''completed'',
      cb_CompletedAt := Some (ck_now E (cb_ID cb) 1)\<rparr>)"

abbreviation callback_table :: "'d out_world \<Rightarrow> callback_request table" where
  "callback_table w \<equiv> cw_callbacks (ow_calls w)"

lemma place_callback_frame: "place_callback S b E cb w = (r, w') \<Longrightarrow> callback_table w' = callback_table w"
proof -
  have create: "CreateOutboundCall S now nid eid inp v = (q, v') \<Longrightarrow> cw_callbacks v' = cw_callbacks v"
    for now nid eid inp q and v v' :: "'a call_world"
    unfolding CreateOutboundCall_def Let_def
    by (auto simp: act_simps tp_call_def on_media_def on_calls_def insert_call_def emit_run lift_result_def
      split: if_splits prod.splits sum.splits)
  show "place_callback S b E cb w = (r, w') \<Longrightarrow> callback_table w' = callback_table w"
    by (auto simp: place_callback_def Let_def Dial_def on_dnc_def on_tel_def on_call_world_def act_simps
      split: if_splits prod.splits sum.splits option.splits dest: create)
qed

text \<open>The failures the table still has in store.\<close>

definition failures_left :: "'d out_world \<Rightarrow> nat" where
  "failures_left w = length (filter id (outages (callback_table w)))"

lemma save_callback_row:
  assumes "rows (callback_table w) (cb_ID x) = Some old" "save_callback x w = (r, w')"
  shows "r = Inr () \<and>
    (rows (callback_table w') = (rows (callback_table w))(cb_ID x \<mapsto> CallbackRepo_update_row old x) \<and>
       failures_left w' = failures_left w \<or>
     rows (callback_table w') = rows (callback_table w) \<and> failures_left w' < failures_left w)"
proof (cases "outages (callback_table w)")
  case Nil
  with assms show ?thesis
    by (auto simp: save_callback_def on_call_world_def on_callbacks_def act_simps failures_left_def)
next
  case (Cons down later)
  with assms show ?thesis
    by (cases down) (auto simp: save_callback_def on_call_world_def on_callbacks_def act_simps failures_left_def
        sql_update_def with_link_def)
qed

text \<open>A processed request makes its step, or its update fails and its row stays.\<close>

definition processed_row :: "tick_env \<Rightarrow> callback_request \<Rightarrow> callback_request \<Rightarrow> nat \<Rightarrow> nat \<Rightarrow> bool" where
  "processed_row E cb cb' f f' \<longleftrightarrow> callback_step E cb cb' \<and> f' \<le> f \<or> cb' = cb \<and> f' < f"

lemma process_callback_row:
  assumes "process_callback S b E cb w = (r, w')" "rows (callback_table w) (cb_ID cb) = Some cb"
  shows "\<exists>cb' m. processed_row E cb cb' (failures_left w) (failures_left w') \<and>
    rows (callback_table w') = (rows (callback_table w))(cb_ID cb \<mapsto> cb') \<and> r = Inr m"
proof -
  have save: "\<exists>cb'. processed_row E cb cb' (failures_left w) (failures_left v') \<and>
      rows (callback_table v') = (rows (callback_table w))(cb_ID cb \<mapsto> cb')"
    if "save_callback x v = (s, v')" "callback_table v = callback_table w" "cb_ID x = cb_ID cb"
      "callback_step E cb (CallbackRepo_update_row cb x)" for x v v' s
  proof -
    have f: "failures_left v = failures_left w" using that(2) by (simp add: failures_left_def)
    from assms(2) have same: "rows (callback_table w) = (rows (callback_table w))(cb_ID cb \<mapsto> cb)" by (simp add: fun_upd_idem)
    from save_callback_row [OF _ that(1), of cb] that(2,3) assms(2)
    consider "rows (callback_table v') = (rows (callback_table w))(cb_ID cb \<mapsto> CallbackRepo_update_row cb x)"
        "failures_left v' = failures_left v"
      | "rows (callback_table v') = rows (callback_table w)" "failures_left v' < failures_left v" by auto
    then show ?thesis
    proof cases
      case 1
      with that(4) f show ?thesis by (auto simp: processed_row_def)
    next
      case 2
      with f same show ?thesis by (intro exI [of _ cb]) (simp add: processed_row_def)
    qed
  qed
  consider (ex) "max_attempts cb \<le> cb_AttemptCount cb"
    | (early) "cb_AttemptCount cb < max_attempts cb" "\<not> callback_due E cb"
    | (tried) "cb_AttemptCount cb < max_attempts cb" "callback_due E cb" by linarith
  then show ?thesis
  proof cases
    case ex
    let ?x = "cb\<lparr>cb_Status := ''max_attempts'', cb_LastAttemptAt := Some (ck_now E (cb_ID cb) 2)\<rparr>"
    obtain s v' where s: "save_callback ?x w = (s, v')" by fastforce
    with ex assms(1) have "w' = v'" "r = Inr 0"
      by (auto simp: process_callback_def Let_def act_simps save_callback_def split: prod.splits)
    moreover have "CallbackRepo_update_row cb ?x = ?x" by (cases cb) (simp add: CallbackRepo_update_row_def)
    ultimately show ?thesis using save [OF s refl] callback_step.exhausted [OF ex, of E] by simp
  next
    case early
    then have "w' = w \<and> r = Inr 0" using assms(1)
      by (auto simp: process_callback_def Let_def act_simps callback_due_def split: option.splits)
    with assms(2) callback_step.early [OF early] show ?thesis
      by (intro exI [of _ cb]) (simp add: processed_row_def fun_upd_idem)
  next
    case tried
    obtain q v where q: "place_callback S b E cb w = (q, v)" by fastforce
    let ?x1 = "cb\<lparr>cb_AttemptCount := cb_AttemptCount cb + 1, cb_LastAttemptAt := Some (ck_now E (cb_ID cb) 1)\<rparr>"
    let ?x = "case q of Inl _ \<Rightarrow> ?x1\<lparr>cb_Status := ''retry''\<rparr>
      | Inr _ \<Rightarrow> ?x1\<lparr>cb_Status := ''completed'', cb_CompletedAt := Some (ck_now E (cb_ID cb) 1)\<rparr>"
    obtain s v' where s: "save_callback ?x v = (s, v')" by fastforce
    have "w' = v' \<and> r = Inr (case q of Inl _ \<Rightarrow> 0 | Inr _ \<Rightarrow> 1)"
      using assms(1) q tried s
      by (auto simp: process_callback_def Let_def act_simps save_callback_def callback_due_def
          split: prod.splits sum.splits option.splits)
    moreover have "CallbackRepo_update_row cb ?x = ?x"
      by (cases q; cases cb) (simp_all add: CallbackRepo_update_row_def)
    moreover have "cb_ID ?x = cb_ID cb" by (cases q) simp_all
    moreover have "callback_step E cb ?x"
      using callback_step.failed [OF tried] callback_step.answered [OF tried] by (cases q) simp_all
    ultimately show ?thesis using save [OF s place_callback_frame [OF q]] by auto
  qed
qed

lemma callback_step_id: "callback_step E cb cb' \<Longrightarrow> cb_ID cb' = cb_ID cb"
  by (auto elim: callback_step.cases)

lemma processed_row_id: "processed_row E cb cb' f f' \<Longrightarrow> cb_ID cb' = cb_ID cb"
  by (auto simp: processed_row_def dest: callback_step_id)

lemma processed_row_less: "processed_row E cb cb' f f' \<Longrightarrow> f' \<le> f"
  by (auto simp: processed_row_def)

lemma processed_row_mono: "processed_row E cb cb' f f' \<Longrightarrow> f \<le> g \<Longrightarrow> g' \<le> f' \<Longrightarrow> processed_row E cb cb' g g'"
  by (auto simp: processed_row_def)

lemma processList_rows:
  assumes "distinct (map cb_ID cbs)" "\<forall>x \<in> set cbs. rows (callback_table w) (cb_ID x) = Some x"
    "processList S b E cbs n w = (r, w')"
  shows "failures_left w' \<le> failures_left w \<and>
    (\<forall>k. k \<notin> cb_ID ` set cbs \<longrightarrow> rows (callback_table w') k = rows (callback_table w) k) \<and>
    (\<forall>x \<in> set cbs. \<exists>y. rows (callback_table w') (cb_ID x) = Some y \<and>
       processed_row E x y (failures_left w) (failures_left w'))"
  using assms
proof (induction cbs arbitrary: n w)
  case Nil
  then show ?case by (auto simp: act_simps)
next
  case (Cons cb cbs)
  obtain q v where q: "process_callback S b E cb w = (q, v)" by fastforce
  from process_callback_row [OF q] Cons.prems(2) obtain cb' i where cb': "q = Inr i"
    "processed_row E cb cb' (failures_left w) (failures_left v)"
    "rows (callback_table v) = (rows (callback_table w))(cb_ID cb \<mapsto> cb')" by auto
  with q Cons.prems(3) have rest: "processList S b E cbs (n + i) v = (r, w')" by (simp add: act_simps)
  have "\<forall>x \<in> set cbs. cb_ID x \<noteq> cb_ID cb" using Cons.prems(1) by (auto simp: image_iff)
  with Cons.prems(2) cb'(3) have "\<forall>x \<in> set cbs. rows (callback_table v) (cb_ID x) = Some x" by simp
  from Cons.IH [OF _ this rest] Cons.prems(1) have IH: "failures_left w' \<le> failures_left v"
    "\<And>k. k \<notin> cb_ID ` set cbs \<Longrightarrow> rows (callback_table w') k = rows (callback_table v) k"
    "\<And>x. x \<in> set cbs \<Longrightarrow> \<exists>y. rows (callback_table w') (cb_ID x) = Some y \<and>
       processed_row E x y (failures_left v) (failures_left w')" by auto
  note less = processed_row_less [OF cb'(2)]
  have "cb_ID cb \<notin> cb_ID ` set cbs" using Cons.prems(1) by simp
  then have "rows (callback_table w') (cb_ID cb) = Some cb'" using IH(2) cb'(3) by simp
  moreover have "processed_row E cb cb' (failures_left w) (failures_left w')"
    using processed_row_mono [OF cb'(2) order_refl IH(1)] .
  moreover have "\<exists>y. rows (callback_table w') (cb_ID x) = Some y \<and>
       processed_row E x y (failures_left w) (failures_left w')" if "x \<in> set cbs" for x
    using IH(3) [OF that] processed_row_mono [OF _ less order_refl] by blast
  ultimately show ?case using IH(1,2) less cb'(3) by auto
qed

text \<open>Every row stands under its own key.\<close>

definition callbacks_ok :: "'d out_world \<Rightarrow> bool" where
  "callbacks_ok w \<longleftrightarrow> (\<forall>k x. rows (callback_table w) k = Some x \<longrightarrow> cb_ID x = k)"

lemma set_map_filter: "set (List.map_filter f xs) = {y. \<exists>x \<in> set xs. f x = Some y}"
  by (induction xs) (auto simp: List.map_filter_simps split: option.splits)

lemma open_rows:
  assumes "distinct ids" "callbacks_ok w"
  defines "cbs \<equiv> filter callback_open (List.map_filter (rows (callback_table w)) ids)"
  shows "distinct (map cb_ID cbs)" and "\<forall>x \<in> set cbs. rows (callback_table w) (cb_ID x) = Some x"
    and "set cbs = {x. callback_open x \<and> cb_ID x \<in> set ids \<and> rows (callback_table w) (cb_ID x) = Some x}"
proof -
  have key: "rows (callback_table w) k = Some x \<Longrightarrow> cb_ID x = k" for k x
    using assms(2) by (auto simp: callbacks_ok_def)
  show set: "set cbs = {x. callback_open x \<and> cb_ID x \<in> set ids \<and> rows (callback_table w) (cb_ID x) = Some x}"
    using key by (auto simp: cbs_def set_map_filter)
  then show "\<forall>x \<in> set cbs. rows (callback_table w) (cb_ID x) = Some x" by auto
  have "map cb_ID (List.map_filter (rows (callback_table w)) ids) = filter (\<lambda>k. rows (callback_table w) k \<noteq> None) ids"
    using key by (induction ids) (auto simp: List.map_filter_simps split: option.splits)
  then have "distinct (map cb_ID (List.map_filter (rows (callback_table w)) ids))" using assms(1) by simp
  then show "distinct (map cb_ID cbs)" by (simp add: cbs_def distinct_map_filter)
qed

text \<open>The listing of a tick answers with the open rows, or fails and uses up one failure.\<close>

lemma listing:
  assumes "ProcessAllPending S b E ids w = (r, w')"
  obtains (failed) "rows (callback_table w') = rows (callback_table w)" "failures_left w' < failures_left w"
    | (listed) v where "rows (callback_table v) = rows (callback_table w)" "failures_left v \<le> failures_left w"
        "processList S b E (filter callback_open (List.map_filter (rows (callback_table w)) ids)) 0 v = (r, w')"
proof (cases "outages (callback_table w)")
  case Nil
  with assms show ?thesis
    by (intro listed [of w])
      (simp_all add: ProcessAllPending_def ListAllPending_def open_callbacks_def on_call_world_def on_callbacks_def
        act_simps with_link_def)
next
  case (Cons down later)
  let ?v = "w\<lparr>ow_calls := (ow_calls w)\<lparr>cw_callbacks := (callback_table w)\<lparr>outages := later\<rparr>\<rparr>\<rparr>"
  show ?thesis
  proof (cases down)
    case True
    with Cons assms have "w' = ?v"
      by (simp add: ProcessAllPending_def ListAllPending_def open_callbacks_def on_call_world_def on_callbacks_def
          act_simps with_link_def)
    with Cons True show ?thesis by (intro failed) (simp_all add: failures_left_def)
  next
    case False
    with Cons assms show ?thesis
      by (intro listed [of ?v])
        (simp_all add: ProcessAllPending_def ListAllPending_def open_callbacks_def on_call_world_def on_callbacks_def
          act_simps with_link_def failures_left_def)
  qed
qed

lemma tick_rows:
  assumes "callbacks_ok w" "distinct ids" "ProcessAllPending S b E ids w = (r, w')"
  shows "callbacks_ok w' \<and> failures_left w' \<le> failures_left w \<and>
    (\<forall>k \<in> set ids. \<forall>x. rows (callback_table w) k = Some x \<longrightarrow>
       (\<exists>y. rows (callback_table w') k = Some y \<and>
         (if callback_open x then processed_row E x y (failures_left w) (failures_left w') else y = x)))"
  using assms(3)
proof (cases rule: listing)
  case failed
  with assms(1) show ?thesis by (auto simp: callbacks_ok_def processed_row_def)
next
  case (listed v)
  let ?cbs = "filter callback_open (List.map_filter (rows (callback_table w)) ids)"
  note ok = open_rows [OF assms(2,1)]
  have "\<forall>x \<in> set ?cbs. rows (callback_table v) (cb_ID x) = Some x" using ok(2) unfolding listed(1) .
  from processList_rows [OF ok(1) this listed(3)] have m: "failures_left w' \<le> failures_left v"
    "\<And>k. k \<notin> cb_ID ` set ?cbs \<Longrightarrow> rows (callback_table w') k = rows (callback_table w) k"
    "\<And>x. x \<in> set ?cbs \<Longrightarrow> \<exists>y. rows (callback_table w') (cb_ID x) = Some y \<and>
       processed_row E x y (failures_left v) (failures_left w')" unfolding listed(1) by blast+
  have key: "rows (callback_table w) k = Some x \<Longrightarrow> cb_ID x = k" for k x
    using assms(1) by (auto simp: callbacks_ok_def)
  have "rows (callback_table w') k = Some y \<Longrightarrow> cb_ID y = k" for k y
  proof (cases "k \<in> cb_ID ` set ?cbs")
    case True
    then obtain x where "x \<in> set ?cbs" "k = cb_ID x" by blast
    with m(3) [of x] show "rows (callback_table w') k = Some y \<Longrightarrow> cb_ID y = k"
      by (auto dest: processed_row_id)
  qed (use m(2) key in auto)
  then have "callbacks_ok w'" by (simp add: callbacks_ok_def)
  moreover have "\<exists>y. rows (callback_table w') k = Some y \<and>
      (if callback_open x then processed_row E x y (failures_left w) (failures_left w') else y = x)"
    if "k \<in> set ids" "rows (callback_table w) k = Some x" for k x
  proof (cases "callback_open x")
    case True
    with that key [OF that(2)] have "x \<in> set ?cbs" unfolding ok(3) by simp
    from m(3) [OF this] True key [OF that(2)] processed_row_mono [OF _ listed(2) order_refl] show ?thesis by auto
  next
    case False
    have "k \<notin> cb_ID ` set ?cbs"
    proof
      assume "k \<in> cb_ID ` set ?cbs"
      then obtain z where "z \<in> set ?cbs" "k = cb_ID z" by blast
      with that(2) have "callback_open z" "z = x" unfolding ok(3) by simp_all
      with False show False by simp
    qed
    from m(2) [OF this] False that(2) show ?thesis by simp
  qed
  ultimately show ?thesis using m(1) listed(2) by auto
qed

primrec run_ticks :: "'d call_svc \<Rightarrow> bool \<Rightarrow> (tick_env \<times> int list) list \<Rightarrow> 'd out_world \<Rightarrow> 'd out_world" where
  "run_ticks S b [] w = w"
| "run_ticks S b (q # qs) w = run_ticks S b qs (snd (ProcessAllPending S b (fst q) (snd q) w))"

inductive_cases callback_stepE: "callback_step E cb cb'"

lemma callback_step_facts:
  assumes "callback_step E cb cb'"
  shows "max_attempts cb' = max_attempts cb \<and> (callback_due F cb' \<longleftrightarrow> callback_due F cb) \<and>
    cb_AttemptCount cb' \<le> max (cb_AttemptCount cb) (max_attempts cb) \<and>
    (callback_due E cb \<longrightarrow> callback_open cb' \<longrightarrow>
       cb_AttemptCount cb' = cb_AttemptCount cb + 1 \<and> cb_AttemptCount cb < max_attempts cb)"
  using assms by (rule callback_stepE) (auto simp: max_attempts_def callback_due_def callback_open_def split: option.splits)

lemma processed_row_facts:
  assumes "processed_row E cb cb' f f'"
  shows "max_attempts cb' = max_attempts cb" "callback_due F cb' \<longleftrightarrow> callback_due F cb"
    "cb_AttemptCount cb' \<le> max (cb_AttemptCount cb) (max_attempts cb)"
    "callback_due E cb \<Longrightarrow> callback_open cb' \<Longrightarrow>
       max 0 (max_attempts cb' - cb_AttemptCount cb') + int f' + 1 \<le> max 0 (max_attempts cb - cb_AttemptCount cb) + int f"
  using assms callback_step_facts [of E cb cb' F] by (auto simp: processed_row_def)

lemma run_ticks_row:
  "callbacks_ok w \<Longrightarrow> rows (callback_table w) k = Some cb \<Longrightarrow>
   \<forall>q \<in> set qs. k \<in> set (snd q) \<and> distinct (snd q) \<and> callback_due (fst q) cb \<Longrightarrow>
   \<exists>cb'. rows (callback_table (run_ticks S b qs w)) k = Some cb' \<and>
     cb_AttemptCount cb' \<le> max (cb_AttemptCount cb) (max_attempts cb) \<and>
     (if callback_open cb
      then callback_open cb' \<longrightarrow> int (length qs) \<le> max 0 (max_attempts cb - cb_AttemptCount cb) + int (failures_left w)
      else cb' = cb)"
proof (induction qs arbitrary: w cb)
  case (Cons q qs)
  obtain r v where v: "ProcessAllPending S b (fst q) (snd q) w = (r, v)" by fastforce
  note tick = tick_rows [OF Cons.prems(1) _ v]
  have q: "k \<in> set (snd q)" "distinct (snd q)" using Cons.prems(3) by simp_all
  obtain y where y: "callbacks_ok v" "rows (callback_table v) k = Some y" "failures_left v \<le> failures_left w"
    "if callback_open cb then processed_row (fst q) cb y (failures_left w) (failures_left v) else y = cb"
    using tick [OF q(2)] q(1) Cons.prems(2) by blast
  have due: "callback_due (fst q) cb" using Cons.prems(3) by simp
  have "\<forall>q \<in> set qs. k \<in> set (snd q) \<and> distinct (snd q) \<and> callback_due (fst q) y"
    using Cons.prems(3) y(4) by (auto simp: processed_row_facts(2) split: if_splits)
  from Cons.IH [OF y(1,2) this] obtain cb' where cb': "rows (callback_table (run_ticks S b qs v)) k = Some cb'"
    "cb_AttemptCount cb' \<le> max (cb_AttemptCount y) (max_attempts y)"
    "if callback_open y
     then callback_open cb' \<longrightarrow> int (length qs) \<le> max 0 (max_attempts y - cb_AttemptCount y) + int (failures_left v)
     else cb' = y" by blast
  show ?case
  proof (cases "callback_open cb")
    case True
    with y(4) have row: "processed_row (fst q) cb y (failures_left w) (failures_left v)" by simp
    note f = processed_row_facts [OF row]
    have "callback_open cb' \<longrightarrow>
        int (length (q # qs)) \<le> max 0 (max_attempts cb - cb_AttemptCount cb) + int (failures_left w)"
      using cb'(3) f(4) [OF due] by (cases "callback_open y") auto
    with True cb' f(1,3) v show ?thesis by (intro exI [of _ cb']) auto
  next
    case False
    with y(4) cb' v show ?thesis by (intro exI [of _ cb']) auto
  qed
qed simp

text \<open>
  C33. Every statement on the table of callback requests may fail. A request that every tick lists and
  finds due is settled, completed or given up, after at most one tick more than the attempts it has left
  and the statements that fail meanwhile; the attempts it has then counted do not exceed its limit. What the dialing
  itself does, and whether it fails, does not matter. A tick whose update fails has dialed without counting the
  attempt, so the number of calls is bounded by the number of ticks only.
\<close>

theorem callbacks_settle:
  assumes "callbacks_ok w" "rows (callback_table w) k = Some cb" "callback_open cb"
    and "\<forall>q \<in> set qs. k \<in> set (snd q) \<and> distinct (snd q) \<and> callback_due (fst q) cb"
    and "max 0 (max_attempts cb - cb_AttemptCount cb) + int (failures_left w) < int (length qs)"
  shows "\<exists>cb'. rows (callback_table (run_ticks S b qs w)) k = Some cb' \<and> \<not> callback_open cb' \<and>
    cb_AttemptCount cb' \<le> max (cb_AttemptCount cb) (max_attempts cb)"
  using run_ticks_row [OF assms(1,2,4), of S b] assms(3,5) by fastforce

definition callback0 :: callback_request where
  "callback0 = \<lparr>cb_ID = 6, cb_TenantID = 7, cb_CallID = 1, cb_SkillGroupID = 0, cb_Caller = ''100'', cb_Status = ''pending'',
     cb_MaxAttempts = 1, cb_ScheduledAt = Some 5, cb_AttemptCount = 0, cb_LastAttemptAt = None, cb_CompletedAt = None,
     cb_CreatedAt = 0\<rparr>"

definition tick0 :: "tick_env \<times> int list" where
  "tick0 = (\<lparr>ck_now = (\<lambda>k i. 90), ck_ids = (\<lambda>k. (k + 100, k + 200)), ck_rnd = (\<lambda>_. 0), ck_off = 0\<rparr>, [6])"

lemma callbacks_settle_witness:
  "\<exists>cb'. rows (callback_table (run_ticks (NewCallService CallRepo True) True [tick0, tick0, tick0]
      (out_world0\<lparr>ow_calls := call_world0\<lparr>cw_callbacks := \<lparr>rows = [6 \<mapsto> callback0], outages = [False, True]\<rparr>\<rparr>\<rparr>))) 6 = Some cb' \<and>
    \<not> callback_open cb' \<and> cb_AttemptCount cb' \<le> max (cb_AttemptCount callback0) (max_attempts callback0)"
  by (rule callbacks_settle)
    (simp_all add: callbacks_ok_def callback0_def callback_open_def tick0_def callback_due_def max_attempts_def
      failures_left_def)

end
