(* ===== verification/IM.thy ===== *)
theory IM
  imports Tables GoStrings Presence "HOL-Library.Char_ord" "HOL-Library.List_Lexorder"
begin

text \<open>
  Instant messaging: \<open>IMService\<close> of \<open>internal/domain/im/service.go\<close>, the social channels of
  \<open>service_social.go\<close> with their webhooks in \<open>interfaces/http/handler/social_channel.go\<close>, the router
  \<open>application/imrouter/service.go\<close>, inbound email \<open>application/email/service.go\<close>, and the statements of
  \<open>infrastructure/mysql/im_repo.go\<close> and \<open>social_channel_repo.go\<close>.
\<close>

section \<open>Entities\<close>

datatype SessionStatus = SessionStatusWaiting | SessionStatusActive | SessionStatusTransferred | SessionStatusClosed

abbreviation ChannelStatusActive :: string where "ChannelStatusActive \<equiv> ''active''"
abbreviation ChannelStatusDisabled :: string where "ChannelStatusDisabled \<equiv> ''disabled''"

definition validChannelTypes :: "string set" where
  "validChannelTypes = {''web_widget'', ''app'', ''mini_program'', ''dingtalk'', ''email'', ''api'', ''wechat'', ''weibo''}"

definition validContentTypes :: "string set" where
  "validContentTypes = {''text'', ''image'', ''file'', ''audio'', ''video'', ''card'', ''system''}"

record im_channel =
  ch_ID :: int
  ch_TenantID :: int
  ch_ChannelType :: string
  ch_Name :: string
  ch_Config :: string
  ch_SkillGroupID :: "int option"
  ch_Status :: string
  ch_CreatedAt :: gotime

record im_session =
  im_ID :: int
  im_TenantID :: int
  im_ChannelID :: int
  im_VisitorID :: string
  im_CustomerID :: "int option"
  im_AgentUserID :: "int option"
  im_SkillGroupID :: "int option"
  im_Status :: SessionStatus
  im_CSATScore :: "int option"
  im_StartAt :: gotime
  im_EndAt :: "gotime option"
  im_CreatedAt :: gotime

record im_message =
  msg_ID :: int
  msg_SessionID :: int
  msg_SenderType :: string
  msg_SenderID :: string
  msg_ContentType :: string
  msg_Content :: string
  msg_CreatedAt :: gotime

record social_config =
  so_ID :: int
  so_TenantID :: int
  so_ChannelID :: int
  so_Platform :: string
  so_AppID :: string
  so_AppSecret :: string
  so_Token :: string
  so_EncodingAESKey :: string
  so_WebhookURL :: string
  so_IsVerified :: bool
  so_CreatedAt :: gotime
  so_UpdatedAt :: gotime

datatype im_error = ErrChannelNotFound | ErrChannelDisabled | ErrSessionNotFound | ErrSessionNotActive
  | ErrSessionNotWaiting | ErrSessionClosed | ErrMaxChatSlots | ErrEmptyMessage | ErrInvalidContentType
  | ErrInvalidChannelType | ErrSocialConfigNotFound | ErrSocialAppIDEmpty | ErrSocialAppSecretEmpty
  | ErrSocialTokenEmpty | ErrSocialInvalidPlatform | ErrSocialOpenIDEmpty | ErrSocialMessageEmpty
  | ErrNoSkillGroup | ErrNoIdleAgent | ErrEmailEmpty | ErrSignature | ErrIMStore string

section \<open>Statements\<close>

text \<open>The columns the UPDATE statements set.\<close>

definition Session_update_row :: "im_session \<Rightarrow> im_session \<Rightarrow> im_session" where
  "Session_update_row old s = old\<lparr>im_AgentUserID := im_AgentUserID s, im_SkillGroupID := im_SkillGroupID s,
     im_Status := im_Status s, im_CSATScore := im_CSATScore s, im_EndAt := im_EndAt s\<rparr>"

definition Channel_update_row :: "im_channel \<Rightarrow> im_channel \<Rightarrow> im_channel" where
  "Channel_update_row old c = old\<lparr>ch_Name := ch_Name c, ch_Config := ch_Config c,
     ch_SkillGroupID := ch_SkillGroupID c, ch_Status := ch_Status c\<rparr>"

definition Social_update_row :: "social_config \<Rightarrow> social_config \<Rightarrow> social_config" where
  "Social_update_row old c = old\<lparr>so_AppID := so_AppID c, so_AppSecret := so_AppSecret c, so_Token := so_Token c,
     so_EncodingAESKey := so_EncodingAESKey c, so_WebhookURL := so_WebhookURL c, so_IsVerified := so_IsVerified c,
     so_UpdatedAt := so_UpdatedAt c\<rparr>"

text \<open>\<open>iw_hooked\<close>: the close hooks that were started, the number of the hook and the session it gets.\<close>

record im_world =
  iw_channels :: "im_channel ltable"
  iw_sessions :: "im_session ltable"
  iw_messages :: "im_message journal"
  iw_configs :: "social_config ltable"
  iw_hooked :: "(nat \<times> im_session) list"

type_synonym 'a imact = "(im_world, im_error, 'a) act"

definition on_channels :: "(im_channel ltable, string, 'a) act \<Rightarrow> 'a imact" where
  "on_channels m = wrap_a ErrIMStore (zoom_a iw_channels (\<lambda>d w. w\<lparr>iw_channels := d\<rparr>) m)"

definition on_sessions :: "(im_session ltable, string, 'a) act \<Rightarrow> 'a imact" where
  "on_sessions m = wrap_a ErrIMStore (zoom_a iw_sessions (\<lambda>d w. w\<lparr>iw_sessions := d\<rparr>) m)"

definition on_messages :: "(im_message journal, string, 'a) act \<Rightarrow> 'a imact" where
  "on_messages m = wrap_a ErrIMStore (zoom_a iw_messages (\<lambda>d w. w\<lparr>iw_messages := d\<rparr>) m)"

definition on_configs :: "(social_config ltable, string, 'a) act \<Rightarrow> 'a imact" where
  "on_configs m = wrap_a ErrIMStore (zoom_a iw_configs (\<lambda>d w. w\<lparr>iw_configs := d\<rparr>) m)"

definition some_or :: "'e \<Rightarrow> 'a option \<Rightarrow> ('s, 'e, 'a) act" where
  "some_or e x = (case x of None \<Rightarrow> throw_a e | Some a \<Rightarrow> ret_a a)"

definition load_channel :: "int \<Rightarrow> im_channel imact" where
  "load_channel k = bind_a (on_channels (sel_row ch_ID k)) (some_or ErrChannelNotFound)"

definition load_session :: "int \<Rightarrow> im_session imact" where
  "load_session k = bind_a (on_sessions (sel_row im_ID k)) (some_or ErrSessionNotFound)"

definition save_session :: "im_session \<Rightarrow> unit imact" where
  "save_session s = on_sessions (upd_rows (\<lambda>r. im_ID r = im_ID s) (\<lambda>r. Session_update_row r s))"

definition insert_session :: "im_session \<Rightarrow> unit imact" where
  "insert_session s = on_sessions (ins_row im_ID (\<lambda>s. s) s)"

text \<open>The column \<open>id\<close> of a message is filled by the database; \<open>mid\<close> is what it draws.\<close>

definition insert_message :: "int \<Rightarrow> im_message \<Rightarrow> im_message imact" where
  "insert_message mid m = seq_a (on_messages (journal_add (m\<lparr>msg_ID := mid\<rparr>))) (ret_a (m\<lparr>msg_ID := mid\<rparr>))"

definition active_of :: "int \<Rightarrow> im_session \<Rightarrow> bool" where
  "active_of a s \<longleftrightarrow> im_AgentUserID s = Some a \<and> im_Status s = SessionStatusActive"

definition CountActiveByAgent :: "int \<Rightarrow> int imact" where
  "CountActiveByAgent a = bind_a (on_sessions (sel_all (active_of a))) (\<lambda>rs. ret_a (int (length rs)))"

section \<open>The service\<close>

record im_service =
  ms_maxChatSlots :: int
  ms_closeHooks :: nat

definition NewIMService :: "int \<Rightarrow> im_service" where
  "NewIMService maxChatSlots = \<lparr>ms_maxChatSlots = (if maxChatSlots \<le> 0 then 5 else maxChatSlots), ms_closeHooks = 0\<rparr>"

definition OnSessionClose :: "im_service \<Rightarrow> im_service" where
  "OnSessionClose S = S\<lparr>ms_closeHooks := ms_closeHooks S + 1\<rparr>"

definition CreateChannel :: "gotime \<Rightarrow> int \<Rightarrow> int \<Rightarrow> string \<Rightarrow> string \<Rightarrow> int option \<Rightarrow> im_channel imact" where
  "CreateChannel now nid tenantID channelType name skillGroupID =
     (if channelType \<notin> validChannelTypes then throw_a ErrInvalidChannelType
      else let ch = \<lparr>ch_ID = nid, ch_TenantID = tenantID, ch_ChannelType = channelType, ch_Name = name, ch_Config = [],
             ch_SkillGroupID = skillGroupID, ch_Status = ChannelStatusActive, ch_CreatedAt = now\<rparr>
           in seq_a (on_channels (ins_row ch_ID (\<lambda>c. c) ch)) (ret_a ch))"

definition UpdateChannel :: "im_channel \<Rightarrow> unit imact" where
  "UpdateChannel c = on_channels (upd_rows (\<lambda>r. ch_ID r = ch_ID c) (\<lambda>r. Channel_update_row r c))"

definition CreateSession :: "gotime \<Rightarrow> int \<Rightarrow> int \<Rightarrow> int \<Rightarrow> string \<Rightarrow> int option \<Rightarrow> im_session imact" where
  "CreateSession now nid tenantID channelID visitorID customerID =
     bind_a (load_channel channelID) (\<lambda>ch.
     if ch_Status ch = ChannelStatusDisabled then throw_a ErrChannelDisabled
     else let s = \<lparr>im_ID = nid, im_TenantID = tenantID, im_ChannelID = channelID, im_VisitorID = visitorID,
            im_CustomerID = customerID, im_AgentUserID = None, im_SkillGroupID = ch_SkillGroupID ch,
            im_Status = SessionStatusWaiting, im_CSATScore = None, im_StartAt = now, im_EndAt = None, im_CreatedAt = now\<rparr>
          in seq_a (insert_session s) (ret_a s))"

text \<open>
  Assigning a session and transferring one read, count and check first, then write; between the two
  parts another request can come in.
\<close>

definition claim_slot :: "im_service \<Rightarrow> SessionStatus \<Rightarrow> im_error \<Rightarrow> int \<Rightarrow> int \<Rightarrow> im_session imact" where
  "claim_slot S from e sessionID agent =
     bind_a (load_session sessionID) (\<lambda>s.
     if im_Status s \<noteq> from then throw_a e
     else bind_a (CountActiveByAgent agent) (\<lambda>count.
       if ms_maxChatSlots S \<le> count then throw_a ErrMaxChatSlots
       else ret_a (s\<lparr>im_AgentUserID := Some agent, im_Status := SessionStatusActive\<rparr>)))"

definition AssignAgent :: "im_service \<Rightarrow> int \<Rightarrow> int \<Rightarrow> unit imact" where
  "AssignAgent S sessionID agent =
     bind_a (claim_slot S SessionStatusWaiting ErrSessionNotWaiting sessionID agent) save_session"

definition TransferSession :: "im_service \<Rightarrow> int \<Rightarrow> int \<Rightarrow> unit imact" where
  "TransferSession S sessionID agent =
     bind_a (claim_slot S SessionStatusActive ErrSessionNotActive sessionID agent) save_session"

definition CloseSession :: "im_service \<Rightarrow> gotime \<Rightarrow> int \<Rightarrow> im_session imact" where
  "CloseSession S now sessionID =
     bind_a (load_session sessionID) (\<lambda>s.
     if im_Status s = SessionStatusClosed then throw_a ErrSessionClosed
     else let s' = s\<lparr>im_Status := SessionStatusClosed, im_EndAt := Some now\<rparr>
          in seq_a (save_session s')
             (seq_a (modify_a (\<lambda>w. w\<lparr>iw_hooked := iw_hooked w @ map (\<lambda>i. (i, s')) [0..<ms_closeHooks S]\<rparr>))
               (ret_a s')))"

definition SendMessage :: "gotime \<Rightarrow> int \<Rightarrow> int \<Rightarrow> string \<Rightarrow> string \<Rightarrow> string \<Rightarrow> string \<Rightarrow> im_message imact" where
  "SendMessage now mid sessionID senderType senderID contentType content =
     bind_a (load_session sessionID) (\<lambda>s.
     if im_Status s = SessionStatusClosed then throw_a ErrSessionClosed
     else if content = [] then throw_a ErrEmptyMessage
     else if contentType \<notin> validContentTypes then throw_a ErrInvalidContentType
     else insert_message mid \<lparr>msg_ID = 0, msg_SessionID = sessionID, msg_SenderType = senderType, msg_SenderID = senderID,
        msg_ContentType = contentType, msg_Content = content, msg_CreatedAt = now\<rparr>)"

section \<open>Social channels\<close>

definition load_config :: "int \<Rightarrow> social_config imact" where
  "load_config channelID = bind_a (on_configs (sel_row so_ChannelID channelID)) (some_or ErrSocialConfigNotFound)"

definition save_config :: "social_config \<Rightarrow> unit imact" where
  "save_config c = on_configs (upd_rows (\<lambda>r. so_ID r = so_ID c) (\<lambda>r. Social_update_row r c))"

text \<open>The table has a unique key on the channel.\<close>

definition CreateConfig ::
  "gotime \<Rightarrow> int \<Rightarrow> int \<Rightarrow> int \<Rightarrow> string \<Rightarrow> string \<Rightarrow> string \<Rightarrow> string \<Rightarrow> string \<Rightarrow> social_config imact" where
  "CreateConfig now nid tenantID channelID platform appID appSecret token aesKey =
     (if platform \<noteq> ''wechat'' \<and> platform \<noteq> ''weibo'' then throw_a ErrSocialInvalidPlatform
      else if appID = [] then throw_a ErrSocialAppIDEmpty
      else if appSecret = [] then throw_a ErrSocialAppSecretEmpty
      else if token = [] then throw_a ErrSocialTokenEmpty
      else bind_a (load_channel channelID) (\<lambda>_.
        let c = \<lparr>so_ID = nid, so_TenantID = tenantID, so_ChannelID = channelID, so_Platform = platform, so_AppID = appID,
          so_AppSecret = appSecret, so_Token = token, so_EncodingAESKey = aesKey, so_WebhookURL = [],
          so_IsVerified = False, so_CreatedAt = now, so_UpdatedAt = now\<rparr>
        in seq_a (on_configs (on_link (\<lambda>t.
             if \<exists>r \<in> set (lrows t). so_ID r = nid \<or> so_ChannelID r = channelID then (Inl ''Error 1062: Duplicate entry'', t)
             else (Inr (), t\<lparr>lrows := lrows t @ [c]\<rparr>)))) (ret_a c)))"

definition UpdateConfig ::
  "gotime \<Rightarrow> int \<Rightarrow> string option \<Rightarrow> string option \<Rightarrow> string option \<Rightarrow> string option \<Rightarrow> social_config imact" where
  "UpdateConfig now channelID appID appSecret token aesKey =
     bind_a (load_config channelID) (\<lambda>c.
     let c' = c\<lparr>so_AppID := (case appID of None \<Rightarrow> so_AppID c | Some x \<Rightarrow> x),
           so_AppSecret := (case appSecret of None \<Rightarrow> so_AppSecret c | Some x \<Rightarrow> x),
           so_Token := (case token of None \<Rightarrow> so_Token c | Some x \<Rightarrow> x),
           so_EncodingAESKey := (case aesKey of None \<Rightarrow> so_EncodingAESKey c | Some x \<Rightarrow> x),
           so_UpdatedAt := now\<rparr>
     in seq_a (save_config c') (ret_a c'))"

definition DeleteConfig :: "int \<Rightarrow> unit imact" where
  "DeleteConfig k = on_configs (on_link (\<lambda>t. (Inr (), t\<lparr>lrows := filter (\<lambda>r. so_ID r \<noteq> k) (lrows t)\<rparr>)))"

definition MarkVerified :: "gotime \<Rightarrow> int \<Rightarrow> unit imact" where
  "MarkVerified now channelID =
     bind_a (load_config channelID) (\<lambda>c. save_config (c\<lparr>so_IsVerified := True, so_UpdatedAt := now\<rparr>))"

text \<open>\<open>sha1\<close>: the SHA-1 sum in hexadecimal.\<close>

definition VerifyWeChatSignature :: "(string \<Rightarrow> string) \<Rightarrow> string \<Rightarrow> string \<Rightarrow> string \<Rightarrow> string \<Rightarrow> bool" where
  "VerifyWeChatSignature sha1 token timestamp nonce signature \<longleftrightarrow> sha1 (concat (sort [token, timestamp, nonce])) = signature"

definition VerifyWeiboSignature :: "(string \<Rightarrow> string) \<Rightarrow> string \<Rightarrow> string \<Rightarrow> string \<Rightarrow> bool" where
  "VerifyWeiboSignature sha1 appSecret body signature \<longleftrightarrow> sha1 (appSecret @ body) = signature"

record social_message =
  sm_Platform :: string
  sm_OpenID :: string
  sm_ContentType :: string
  sm_Content :: string
  sm_MediaURL :: string
  sm_MsgID :: string

definition ProcessInboundMessage ::
  "gotime \<Rightarrow> int \<Rightarrow> int \<Rightarrow> int \<Rightarrow> social_message \<Rightarrow> (im_session \<times> im_message) imact" where
  "ProcessInboundMessage now nid mid channelID m =
     (if sm_OpenID m = [] then throw_a ErrSocialOpenIDEmpty
      else if sm_Content m = [] \<and> sm_MediaURL m = [] then throw_a ErrSocialMessageEmpty
      else bind_a (load_channel channelID) (\<lambda>ch.
        if ch_Status ch = ChannelStatusDisabled then throw_a ErrChannelDisabled
        else let s = \<lparr>im_ID = nid, im_TenantID = ch_TenantID ch, im_ChannelID = channelID, im_VisitorID = sm_OpenID m,
               im_CustomerID = None, im_AgentUserID = None, im_SkillGroupID = ch_SkillGroupID ch,
               im_Status = SessionStatusWaiting, im_CSATScore = None, im_StartAt = now, im_EndAt = None, im_CreatedAt = now\<rparr>
             in seq_a (insert_session s)
                (bind_a (insert_message mid \<lparr>msg_ID = 0, msg_SessionID = nid, msg_SenderType = ''visitor'',
                     msg_SenderID = sm_OpenID m,
                     msg_ContentType = (if sm_ContentType m = [] then ''text'' else sm_ContentType m),
                     msg_Content = (if sm_Content m = [] then sm_MediaURL m else sm_Content m), msg_CreatedAt = now\<rparr>)
                  (\<lambda>msg. ret_a (s, msg)))))"

section \<open>Webhooks\<close>

definition extractXMLTag :: "string \<Rightarrow> string \<Rightarrow> string" where
  "extractXMLTag s tag =
     (let start = ''<'' @ tag @ ''>'';
          plain = (case cut_at start s of
             None \<Rightarrow> []
           | Some (_, val) \<Rightarrow> (case cut_at (''</'' @ tag @ ''>'') val of None \<Rightarrow> [] | Some (v, _) \<Rightarrow> v))
      in case cut_at (start @ ''<![CDATA['') s of
           None \<Rightarrow> plain
         | Some (_, val) \<Rightarrow> (case cut_at '']]>'' val of None \<Rightarrow> plain | Some (v, _) \<Rightarrow> v))"

definition parseWeChatXML :: "string \<Rightarrow> social_message" where
  "parseWeChatXML body =
     (let m = \<lparr>sm_Platform = ''wechat'', sm_OpenID = extractXMLTag body ''FromUserName'', sm_ContentType = ''text'',
            sm_Content = [], sm_MediaURL = [], sm_MsgID = extractXMLTag body ''MsgId''\<rparr>;
          msgType = extractXMLTag body ''MsgType''
      in if msgType = ''image'' then m\<lparr>sm_ContentType := ''image'', sm_MediaURL := extractXMLTag body ''PicUrl'',
           sm_Content := extractXMLTag body ''PicUrl''\<rparr>
         else if msgType = ''voice'' then m\<lparr>sm_ContentType := ''audio'', sm_MediaURL := extractXMLTag body ''MediaId'',
           sm_Content := extractXMLTag body ''Recognition''\<rparr>
         else if msgType = ''video'' \<or> msgType = ''shortvideo'' then m\<lparr>sm_ContentType := ''video'',
           sm_MediaURL := extractXMLTag body ''MediaId'', sm_Content := extractXMLTag body ''MediaId''\<rparr>
         else m\<lparr>sm_Content := extractXMLTag body ''Content''\<rparr>)"

definition WeChatVerify :: "(string \<Rightarrow> string) \<Rightarrow> gotime \<Rightarrow> int \<Rightarrow> string \<Rightarrow> string \<Rightarrow> string \<Rightarrow> string \<Rightarrow> string imact" where
  "WeChatVerify sha1 now channelID sig timestamp nonce echoStr =
     bind_a (load_config channelID) (\<lambda>c.
     if \<not> VerifyWeChatSignature sha1 (so_Token c) timestamp nonce sig then throw_a ErrSignature
     else seq_a (MarkVerified now channelID) (ret_a echoStr))"

definition WeChatReceive ::
  "(string \<Rightarrow> string) \<Rightarrow> gotime \<Rightarrow> int \<Rightarrow> int \<Rightarrow> int \<Rightarrow> string \<Rightarrow> string \<Rightarrow> string \<Rightarrow> string \<Rightarrow> (im_session \<times> im_message) imact" where
  "WeChatReceive sha1 now nid mid channelID sig timestamp nonce body =
     bind_a (load_config channelID) (\<lambda>c.
     if \<not> VerifyWeChatSignature sha1 (so_Token c) timestamp nonce sig then throw_a ErrSignature
     else ProcessInboundMessage now nid mid channelID (parseWeChatXML body))"

definition WeiboVerify :: "(string \<Rightarrow> string) \<Rightarrow> gotime \<Rightarrow> int \<Rightarrow> string \<Rightarrow> string \<Rightarrow> string \<Rightarrow> string \<Rightarrow> string imact" where
  "WeiboVerify sha1 now channelID sig timestamp nonce echoStr =
     bind_a (load_config channelID) (\<lambda>c.
     if \<not> VerifyWeiboSignature sha1 (so_AppSecret c) (so_Token c @ timestamp @ nonce) sig then throw_a ErrSignature
     else seq_a (MarkVerified now channelID) (ret_a echoStr))"

text \<open>\<open>decode\<close>: the sender, the text and the message id \<open>json.Unmarshal\<close> finds in the body.\<close>

definition WeiboReceive ::
  "(string \<Rightarrow> string) \<Rightarrow> (string \<Rightarrow> (string + string \<times> string \<times> string)) \<Rightarrow> gotime \<Rightarrow> int \<Rightarrow> int \<Rightarrow> int \<Rightarrow> string \<Rightarrow> string \<Rightarrow>
   (im_session \<times> im_message) imact" where
  "WeiboReceive sha1 decode now nid mid channelID sig body =
     bind_a (load_config channelID) (\<lambda>c.
     if \<not> VerifyWeiboSignature sha1 (so_AppSecret c) body sig then throw_a ErrSignature
     else case decode body of
         Inl e \<Rightarrow> throw_a (ErrIMStore e)
       | Inr (sender, txt, msgID) \<Rightarrow> ProcessInboundMessage now nid mid channelID
           \<lparr>sm_Platform = ''weibo'', sm_OpenID = sender, sm_ContentType = ''text'', sm_Content = txt, sm_MediaURL = [],
            sm_MsgID = msgID\<rparr>)"

section \<open>Routing\<close>

record skill_member =
  sk_SkillGroupID :: int
  sk_AgentID :: int
  sk_Level :: int

record desk_world =
  dw_im :: im_world
  dw_presence :: "presence ltable"
  dw_members :: "skill_member ltable"

type_synonym 'a deskact = "(desk_world, im_error, 'a) act"

definition on_im :: "'a imact \<Rightarrow> 'a deskact" where
  "on_im = zoom_a dw_im (\<lambda>d w. w\<lparr>dw_im := d\<rparr>)"

definition RouteSession :: "im_service \<Rightarrow> int \<Rightarrow> int \<Rightarrow> unit deskact" where
  "RouteSession S sessionID agent = on_im (AssignAgent S sessionID agent)"

definition GetPresence :: "int \<Rightarrow> presence option deskact" where
  "GetPresence agent = wrap_a ErrIMStore (zoom_a dw_presence (\<lambda>d w. w\<lparr>dw_presence := d\<rparr>) (sel_row p_AgentID agent))"

definition GetMembers :: "int \<Rightarrow> skill_member list deskact" where
  "GetMembers g = wrap_a ErrIMStore (zoom_a dw_members (\<lambda>d w. w\<lparr>dw_members := d\<rparr>) (sel_all (\<lambda>m. sk_SkillGroupID m = g)))"

primrec first_idle :: "im_service \<Rightarrow> int \<Rightarrow> skill_member list \<Rightarrow> unit deskact" where
  "first_idle S sessionID [] = throw_a ErrNoIdleAgent"
| "first_idle S sessionID (m # ms) = try_a (GetPresence (sk_AgentID m)) (\<lambda>r.
     case r of
       Inr (Some p) \<Rightarrow>
         if p_Status p \<noteq> PresenceIdle then first_idle S sessionID ms
         else try_a (on_im (AssignAgent S sessionID (sk_AgentID m))) (\<lambda>q.
           case q of Inl _ \<Rightarrow> first_idle S sessionID ms | Inr _ \<Rightarrow> ret_a ())
     | _ \<Rightarrow> first_idle S sessionID ms)"

definition AutoRouteSession :: "im_service \<Rightarrow> im_session \<Rightarrow> unit deskact" where
  "AutoRouteSession S s = (case im_SkillGroupID s of
       None \<Rightarrow> throw_a ErrNoSkillGroup
     | Some g \<Rightarrow> bind_a (GetMembers g) (first_idle S (im_ID s)))"

text \<open>Inbound email; \<open>routed\<close>: a router is set. The result is the session, if one was made, and the error, if any.\<close>

definition ProcessInbound ::
  "im_service \<Rightarrow> bool \<Rightarrow> gotime \<Rightarrow> int \<Rightarrow> int \<Rightarrow> int \<Rightarrow> int \<Rightarrow> string \<Rightarrow> string \<Rightarrow> string \<Rightarrow> im_session deskact" where
  "ProcessInbound S routed now nid mid tenantID channelID from subject body =
     bind_a (on_im (CreateSession now nid tenantID channelID from None)) (\<lambda>s.
     let content = (if body \<noteq> [] then subject @ [CHR 0x0A, CHR 0x0A] @ body else subject)
     in if content = [] then throw_a ErrEmailEmpty
        else bind_a (on_im (SendMessage now mid (im_ID s) ''visitor'' from ''text'' content)) (\<lambda>_.
          seq_a (when_a routed (ignore_a (AutoRouteSession S s))) (ret_a s)))"

end
