(* ===== verification/IMProps.thy ===== *)
theory IMProps
  imports IM
begin

text \<open>
  The sessions as an abstract desk: agents with a bounded number of chats, and sessions that wait,
  are taken, are handed over and are closed. Every operation of the services is a sequence of such
  steps, whatever fails; two requests that interleave are not.
\<close>

section \<open>The desk\<close>

definition active_count :: "int \<Rightarrow> im_session list \<Rightarrow> nat" where
  "active_count a ss = length (filter (active_of a) ss)"

definition put_session :: "im_session \<Rightarrow> im_session list \<Rightarrow> im_session list" where
  "put_session y = map (\<lambda>r. if im_ID r = im_ID y then y else r)"

inductive desk_step :: "int \<Rightarrow> im_session list \<Rightarrow> im_session list \<Rightarrow> bool" for N where
  opened: "im_Status s = SessionStatusWaiting \<Longrightarrow> im_AgentUserID s = None \<Longrightarrow> im_EndAt s = None \<Longrightarrow>
    im_ID s \<notin> im_ID ` set ss \<Longrightarrow> desk_step N ss (ss @ [s])"
| assigned: "s \<in> set ss \<Longrightarrow> im_Status s = SessionStatusWaiting \<Longrightarrow> int (active_count a ss) < N \<Longrightarrow>
    desk_step N ss (put_session (s\<lparr>im_AgentUserID := Some a, im_Status := SessionStatusActive\<rparr>) ss)"
| transferred: "s \<in> set ss \<Longrightarrow> im_Status s = SessionStatusActive \<Longrightarrow> int (active_count a ss) < N \<Longrightarrow>
    desk_step N ss (put_session (s\<lparr>im_AgentUserID := Some a, im_Status := SessionStatusActive\<rparr>) ss)"
| closed: "s \<in> set ss \<Longrightarrow> im_Status s \<noteq> SessionStatusClosed \<Longrightarrow>
    desk_step N ss (put_session (s\<lparr>im_Status := SessionStatusClosed, im_EndAt := Some t\<rparr>) ss)"

abbreviation desk_steps :: "int \<Rightarrow> im_session list \<Rightarrow> im_session list \<Rightarrow> bool" where
  "desk_steps N \<equiv> (desk_step N)\<^sup>*\<^sup>*"

definition session_inv :: "im_session \<Rightarrow> bool" where
  "session_inv s \<longleftrightarrow> (im_EndAt s \<noteq> None \<longleftrightarrow> im_Status s = SessionStatusClosed) \<and>
     (im_Status s = SessionStatusWaiting \<longrightarrow> im_AgentUserID s = None) \<and>
     (im_Status s = SessionStatusActive \<longrightarrow> im_AgentUserID s \<noteq> None) \<and> im_Status s \<noteq> SessionStatusTransferred"

definition desk_ok :: "int \<Rightarrow> im_session list \<Rightarrow> bool" where
  "desk_ok N ss \<longleftrightarrow> distinct (map im_ID ss) \<and> (\<forall>s \<in> set ss. session_inv s) \<and> (\<forall>a. int (active_count a ss) \<le> N)"

lemma put_session_ids [simp]: "im_ID y = im_ID s \<Longrightarrow> map im_ID (put_session y ss) = map im_ID ss"
  by (simp add: put_session_def)

lemma put_session_mem: "r \<in> set (put_session y ss) \<Longrightarrow> r = y \<or> r \<in> set ss"
  by (auto simp: put_session_def split: if_splits)

text \<open>Replacing one row changes the count of an agent by what the row itself counts.\<close>

lemma active_count_put:
  assumes "distinct (map im_ID ss)" "s \<in> set ss" "im_ID y = im_ID s"
  shows "active_count a (put_session y ss) + (if active_of a s then 1 else 0) =
    active_count a ss + (if active_of a y then 1 else 0)"
  using assms
proof (induction ss)
  case (Cons r ss)
  show ?case
  proof (cases "r = s")
    case True
    with Cons.prems have "\<forall>x \<in> set ss. im_ID x \<noteq> im_ID y" by (auto simp: image_iff)
    then have "put_session y ss = ss" by (auto simp: put_session_def intro: map_idI)
    with True Cons.prems(3) show ?thesis by (simp add: put_session_def active_count_def)
  next
    case False
    with Cons.prems have "s \<in> set ss" "im_ID r \<noteq> im_ID y" by (auto simp: image_iff)
    with Cons show ?thesis by (simp add: put_session_def active_count_def)
  qed
qed simp

lemma desk_step_ok:
  assumes "desk_step N ss ss'" "desk_ok N ss"
  shows "desk_ok N ss'"
  using assms
proof cases
  case (opened s)
  with assms(2) show ?thesis by (auto simp: desk_ok_def session_inv_def active_count_def active_of_def)
next
  case (assigned s a)
  let ?y = "s\<lparr>im_AgentUserID := Some a, im_Status := SessionStatusActive\<rparr>"
  have ok: "distinct (map im_ID ss)" "session_inv s" "\<And>b. int (active_count b ss) \<le> N"
    using assms(2) assigned(2) by (auto simp: desk_ok_def)
  have "int (active_count b (put_session ?y ss)) \<le> N" for b
    using active_count_put [OF ok(1) assigned(2), of ?y b] ok(3) [of b] assigned(4)
    by (auto simp: active_of_def split: if_splits)
  moreover have "session_inv ?y" using ok(2) assigned(3) by (auto simp: session_inv_def)
  ultimately show ?thesis
    using assms(2) assigned(1) put_session_mem [of _ ?y ss] by (auto simp: desk_ok_def)
next
  case (transferred s a)
  let ?y = "s\<lparr>im_AgentUserID := Some a, im_Status := SessionStatusActive\<rparr>"
  have ok: "distinct (map im_ID ss)" "session_inv s" "\<And>b. int (active_count b ss) \<le> N"
    using assms(2) transferred(2) by (auto simp: desk_ok_def)
  have "int (active_count b (put_session ?y ss)) \<le> N" for b
    using active_count_put [OF ok(1) transferred(2), of ?y b] ok(3) [of b] transferred(4)
    by (auto simp: active_of_def split: if_splits)
  moreover have "session_inv ?y" using ok(2) transferred(3) by (auto simp: session_inv_def)
  ultimately show ?thesis
    using assms(2) transferred(1) put_session_mem [of _ ?y ss] by (auto simp: desk_ok_def)
next
  case (closed s t)
  let ?y = "s\<lparr>im_Status := SessionStatusClosed, im_EndAt := Some t\<rparr>"
  have ok: "distinct (map im_ID ss)" "\<And>b. int (active_count b ss) \<le> N"
    using assms(2) by (auto simp: desk_ok_def)
  have "int (active_count b (put_session ?y ss)) \<le> N" for b
    using active_count_put [OF ok(1) closed(2), of ?y b] ok(2) [of b]
    by (auto simp: active_of_def split: if_splits)
  moreover have "session_inv ?y" using assms(2) closed(2,3) by (auto simp: desk_ok_def session_inv_def)
  ultimately show ?thesis
    using assms(2) closed(1) put_session_mem [of _ ?y ss] by (auto simp: desk_ok_def)
qed

lemma desk_steps_ok: "desk_steps N ss ss' \<Longrightarrow> desk_ok N ss \<Longrightarrow> desk_ok N ss'"
  by (induction rule: rtranclp_induct) (auto intro: desk_step_ok)

section \<open>The operations are steps of the desk\<close>

abbreviation sessions_of :: "im_world \<Rightarrow> im_session list" where
  "sessions_of w \<equiv> lrows (iw_sessions w)"

definition desk_path :: "int \<Rightarrow> im_session list \<Rightarrow> im_session list \<Rightarrow> bool" where
  "desk_path N ss ss' \<longleftrightarrow> (distinct (map im_ID ss) \<longrightarrow> distinct (map im_ID ss') \<and> desk_steps N ss ss')"

lemma reflp_desk_path: "reflp (desk_path N)"
  by (simp add: reflp_def desk_path_def)

lemma transp_desk_path: "transp (desk_path N)"
  unfolding transp_def desk_path_def by (meson rtranclp_trans)

lemma sessions_frame [frame_intros]:
  "preserves sessions_of (on_channels m1)" "preserves sessions_of (on_messages m2)" "preserves sessions_of (on_configs m3)"
  unfolding on_channels_def on_messages_def on_configs_def
  by (intro frame_intros preserves_zoom_other; simp)+

lemma preserves_some_or [frame_intros]: "preserves f (some_or e x)"
  unfolding some_or_def by (cases x) (simp_all add: frame_intros)

lemma sessions_sel [frame_intros]:
  "preserves sessions_of (on_sessions (sel_row key k))" "preserves sessions_of (on_sessions (sel_all P))"
  unfolding on_sessions_def preserves_def
  by (auto simp: act_simps sel_row_def sel_all_def on_link_def split: prod.splits sum.splits list.splits if_splits)

lemma load_session_run:
  assumes "load_session k w = (r, w')"
  shows "sessions_of w' = sessions_of w" and "r = Inr s \<Longrightarrow> s \<in> set (sessions_of w) \<and> im_ID s = k"
proof -
  have "preserves sessions_of (load_session k)" unfolding load_session_def by (intro frame_intros)
  from preservesD [OF this assms] show "sessions_of w' = sessions_of w" .
  show "r = Inr s \<Longrightarrow> s \<in> set (sessions_of w) \<and> im_ID s = k"
    using assms
    by (auto simp: load_session_def on_sessions_def some_or_def act_simps sel_row_def on_link_def lrow_def find_Some_iff
        split: prod.splits sum.splits list.splits if_splits option.splits)
qed

lemma CountActive_run:
  assumes "CountActiveByAgent a w = (r, w')"
  shows "sessions_of w' = sessions_of w" and "r = Inr n \<Longrightarrow> n = int (active_count a (sessions_of w))"
  using assms
  by (auto simp: CountActiveByAgent_def on_sessions_def active_count_def act_simps sel_all_def on_link_def
      split: prod.splits sum.splits list.splits if_splits)

lemma claim_slot_run:
  assumes "claim_slot S st e k a w = (r, w')"
  shows "sessions_of w' = sessions_of w"
    and "r = Inr y \<Longrightarrow> \<exists>s \<in> set (sessions_of w). im_Status s = st \<and> int (active_count a (sessions_of w)) < ms_maxChatSlots S \<and>
      y = s\<lparr>im_AgentUserID := Some a, im_Status := SessionStatusActive\<rparr>"
proof -
  have "preserves sessions_of (claim_slot S st e k a)"
    unfolding claim_slot_def load_session_def CountActiveByAgent_def by (intro frame_intros)
  from preservesD [OF this assms] show "sessions_of w' = sessions_of w" .
  assume y: "r = Inr y"
  then obtain s v n where s: "load_session k w = (Inr s, v)" "im_Status s = st"
    and n: "CountActiveByAgent a v = (Inr n, w')" "n < ms_maxChatSlots S"
    and y': "y = s\<lparr>im_AgentUserID := Some a, im_Status := SessionStatusActive\<rparr>"
    using assms by (auto simp: claim_slot_def bind_a_Inr act_simps(1,2) split: if_splits)
  from load_session_run [OF s(1)] CountActive_run [OF n(1)] s(2) n(2) y' show
    "\<exists>s \<in> set (sessions_of w). im_Status s = st \<and> int (active_count a (sessions_of w)) < ms_maxChatSlots S \<and>
      y = s\<lparr>im_AgentUserID := Some a, im_Status := SessionStatusActive\<rparr>" by auto
qed

lemma save_session_run:
  assumes "save_session y w = (r, w')" "distinct (map im_ID (sessions_of w))" "s \<in> set (sessions_of w)"
    "im_ID s = im_ID y" "Session_update_row s y = y"
  shows "sessions_of w' = (if r = Inr () then put_session y (sessions_of w) else sessions_of w)"
proof -
  have "map (\<lambda>r. if im_ID r = im_ID y then Session_update_row r y else r) (sessions_of w) = put_session y (sessions_of w)"
    unfolding put_session_def
  proof (rule map_cong [OF refl])
    fix r assume "r \<in> set (sessions_of w)"
    with assms(2,3) have "im_ID r = im_ID s \<Longrightarrow> r = s" by (metis (no_types) distinct_map inj_onD)
    with assms(4,5) show "(if im_ID r = im_ID y then Session_update_row r y else r) = (if im_ID r = im_ID y then y else r)" by auto
  qed
  then show ?thesis
    using assms(1)
    by (auto simp: save_session_def on_sessions_def act_simps upd_rows_def on_link_def
        split: prod.splits sum.splits list.splits if_splits)
qed

lemma Session_update_same:
  "Session_update_row s (s\<lparr>im_AgentUserID := a, im_Status := st\<rparr>) = s\<lparr>im_AgentUserID := a, im_Status := st\<rparr>"
  "Session_update_row s (s\<lparr>im_Status := st, im_EndAt := t\<rparr>) = s\<lparr>im_Status := st, im_EndAt := t\<rparr>"
  by (cases s; simp add: Session_update_row_def)+

lemma claim_and_save:
  assumes "st = SessionStatusWaiting \<or> st = SessionStatusActive"
  shows "moves sessions_of (desk_path (ms_maxChatSlots S)) (bind_a (claim_slot S st e k a) save_session)"
  unfolding moves_def
proof
  fix w
  obtain r v where c: "claim_slot S st e k a w = (r, v)" by fastforce
  note run = claim_slot_run [OF c]
  show "desk_path (ms_maxChatSlots S) (sessions_of w) (sessions_of (snd (bind_a (claim_slot S st e k a) save_session w)))"
  proof (cases r)
    case (Inl x)
    with c run(1) reflp_desk_path show ?thesis by (simp add: act_simps reflp_def)
  next
    case (Inr y)
    from run(2) [OF this] obtain s where s: "s \<in> set (sessions_of w)" "im_Status s = st"
      "int (active_count a (sessions_of w)) < ms_maxChatSlots S"
      "y = s\<lparr>im_AgentUserID := Some a, im_Status := SessionStatusActive\<rparr>" by blast
    obtain q w' where q: "save_session y v = (q, w')" by fastforce
    have step: "desk_step (ms_maxChatSlots S) (sessions_of w) (put_session y (sessions_of w))"
      using assms s desk_step.assigned [OF s(1) _ s(3)] desk_step.transferred [OF s(1) _ s(3)] by auto
    have "sessions_of w' = (if q = Inr () then put_session y (sessions_of w) else sessions_of w)"
      if "distinct (map im_ID (sessions_of w))"
      using save_session_run [OF q, of s] that s run(1) by (simp add: Session_update_same)
    with step c Inr q s(4) show ?thesis
      by (auto simp: act_simps desk_path_def split: if_splits)
  qed
qed

lemma moves_AssignAgent: "moves sessions_of (desk_path (ms_maxChatSlots S)) (AssignAgent S k a)"
  and moves_TransferSession: "moves sessions_of (desk_path (ms_maxChatSlots S)) (TransferSession S k a)"
  unfolding AssignAgent_def TransferSession_def by (rule claim_and_save, simp)+

lemma moves_CloseSession: "moves sessions_of (desk_path N) (CloseSession S now k)"
  unfolding moves_def
proof
  fix w
  obtain r v where l: "load_session k w = (r, v)" by fastforce
  note run = load_session_run [OF l]
  show "desk_path N (sessions_of w) (sessions_of (snd (CloseSession S now k w)))"
  proof (cases "\<exists>s. r = Inr s \<and> im_Status s \<noteq> SessionStatusClosed")
    case False
    with l run(1) reflp_desk_path show ?thesis
      by (cases r) (auto simp: CloseSession_def act_simps reflp_def)
  next
    case True
    then obtain s where r: "r = Inr s" and open_s: "im_Status s \<noteq> SessionStatusClosed" by blast
    with run(2) have s: "s \<in> set (sessions_of w)" by blast
    let ?y = "s\<lparr>im_Status := SessionStatusClosed, im_EndAt := Some now\<rparr>"
    obtain q w' where q: "save_session ?y v = (q, w')" by fastforce
    have step: "desk_step N (sessions_of w) (put_session ?y (sessions_of w))" by (rule desk_step.closed [OF s open_s])
    have rows: "sessions_of w' = (if q = Inr () then put_session ?y (sessions_of w) else sessions_of w)"
      if "distinct (map im_ID (sessions_of w))"
      using save_session_run [OF q, of s] that s run(1) by (simp add: Session_update_same)
    have "sessions_of (snd (CloseSession S now k w)) = sessions_of w'"
      using l r open_s q by (simp add: CloseSession_def act_simps Let_def split: sum.splits)
    with step rows show ?thesis by (auto simp: desk_path_def)
  qed
qed

lemma moves_insert_session:
  assumes "im_Status s = SessionStatusWaiting" "im_AgentUserID s = None" "im_EndAt s = None"
  shows "moves sessions_of (desk_path N) (insert_session s)"
  unfolding moves_def
proof
  fix w
  have fresh: "lrow im_ID t (im_ID s) = None \<longleftrightarrow> im_ID s \<notin> im_ID ` set (lrows t)" for t
    by (force simp: lrow_def find_None_iff)
  have "sessions_of (snd (insert_session s w)) = sessions_of w \<or>
    im_ID s \<notin> im_ID ` set (sessions_of w) \<and> sessions_of (snd (insert_session s w)) = sessions_of w @ [s]"
    by (auto simp: insert_session_def on_sessions_def act_simps ins_row_def on_link_def fresh
        split: prod.splits sum.splits list.splits if_splits)
  then show "desk_path N (sessions_of w) (sessions_of (snd (insert_session s w)))"
    using desk_step.opened [OF assms, of "sessions_of w" N] by (auto simp: desk_path_def)
qed

lemma frame_load_channel [frame_intros]: "preserves sessions_of (load_channel k)"
  and frame_load_config [frame_intros]: "preserves sessions_of (load_config k)"
  and frame_save_config [frame_intros]: "preserves sessions_of (save_config c)"
  and frame_insert_message [frame_intros]: "preserves sessions_of (insert_message mid m)"
  unfolding load_channel_def load_config_def save_config_def insert_message_def by (intro frame_intros)+

lemma frame_load_session [frame_intros]: "preserves sessions_of (load_session k)"
  unfolding load_session_def by (intro frame_intros)

lemma frame_MarkVerified [frame_intros]: "preserves sessions_of (MarkVerified now c)"
  unfolding MarkVerified_def by (intro frame_intros)

lemma frame_SendMessage [frame_intros]: "preserves sessions_of (SendMessage now mid k st si ct c)"
  unfolding SendMessage_def by (intro frame_intros)

lemma frame_WeChatVerify: "preserves sessions_of (WeChatVerify sha1 now c sig ts nonce echo)"
  and frame_WeiboVerify: "preserves sessions_of (WeiboVerify sha1 now c sig ts nonce echo)"
  unfolding WeChatVerify_def WeiboVerify_def by (intro frame_intros)+

lemma frame_CreateConfig: "preserves sessions_of (CreateConfig now nid t c p ai as tk ak)"
  and frame_UpdateConfig: "preserves sessions_of (UpdateConfig now c ai' as' tk' ak')"
  unfolding CreateConfig_def UpdateConfig_def Let_def by (intro frame_intros)+

lemma frame_CreateChannel: "preserves sessions_of (CreateChannel now nid t ty n g)"
  and frame_UpdateChannel: "preserves sessions_of (UpdateChannel ch)"
  and frame_DeleteConfig: "preserves sessions_of (DeleteConfig k)"
  unfolding CreateChannel_def UpdateChannel_def DeleteConfig_def Let_def by (intro frame_intros)+

lemmas im_frames = frame_SendMessage frame_WeChatVerify frame_WeiboVerify frame_CreateConfig frame_UpdateConfig
  frame_CreateChannel frame_UpdateChannel frame_DeleteConfig

lemma moves_ProcessInbound: "moves sessions_of (desk_path N) (ProcessInboundMessage now nid mid c m)"
  unfolding ProcessInboundMessage_def Let_def
  by (intro moves_if moves_refl [OF reflp_desk_path] moves_bind_pre moves_seq_post moves_insert_session reflp_desk_path
      frame_intros) simp_all

lemma moves_CreateSession: "moves sessions_of (desk_path N) (CreateSession now nid t c v u)"
  unfolding CreateSession_def Let_def
  by (intro moves_if moves_refl [OF reflp_desk_path] moves_bind_pre moves_seq_post moves_insert_session reflp_desk_path
      frame_intros) simp_all

lemma moves_WeChatReceive: "moves sessions_of (desk_path N) (WeChatReceive sha1 now nid mid c sig ts nonce body)"
  unfolding WeChatReceive_def
  by (intro moves_if moves_refl [OF reflp_desk_path] moves_bind_pre moves_ProcessInbound reflp_desk_path frame_intros)

lemma moves_WeiboReceive: "moves sessions_of (desk_path N) (WeiboReceive sha1 decode now nid mid c sig body)"
  unfolding WeiboReceive_def
proof (rule moves_bind_pre [OF frame_load_config _ reflp_desk_path], rule moves_if)
  show "moves sessions_of (desk_path N) (case decode body of
         Inl e \<Rightarrow> throw_a (ErrIMStore e)
       | Inr (sender, txt, msgID) \<Rightarrow> ProcessInboundMessage now nid mid c
           \<lparr>sm_Platform = ''weibo'', sm_OpenID = sender, sm_ContentType = ''text'', sm_Content = txt, sm_MediaURL = [],
            sm_MsgID = msgID\<rparr>)"
    by (auto intro: moves_ProcessInbound moves_refl [OF reflp_desk_path preserves_throw] split: sum.split)
qed (rule moves_refl [OF reflp_desk_path preserves_throw])

section \<open>Runs\<close>

datatype im_op =
    ImOpen int string "int option" | ImAssign int int | ImTransfer int int | ImClose int
  | ImSend int string string string string | ImWeChat string string string string | ImWeibo string string
  | ImUpdateConfig "string option" "string option" "string option" "string option"
  | ImChannel int string string "int option" | ImUpdateChannel im_channel
  | ImConfig int string string string string string | ImDeleteConfig int | ImVerify string string string string
  | ImRoute im_session | ImEmail int string string string

text \<open>
  A request, with the clock, the two identifiers it draws and the channel it comes in on. \<open>sha1\<close> and \<open>decode\<close>
  are as in the webhooks.
\<close>

definition im_exec ::
  "(string \<Rightarrow> string) \<Rightarrow> (string \<Rightarrow> (string + string \<times> string \<times> string)) \<Rightarrow> im_service \<Rightarrow>
   gotime \<times> int \<times> int \<times> int \<Rightarrow> im_op \<Rightarrow> (desk_world, im_error, unit) act" where
  "im_exec sha1 decode S q opn = (case q of (now, nid, mid, c) \<Rightarrow> (case opn of
       ImOpen t v u \<Rightarrow> ignore_a (on_im (CreateSession now nid t c v u))
     | ImAssign k a \<Rightarrow> RouteSession S k a
     | ImTransfer k a \<Rightarrow> on_im (TransferSession S k a)
     | ImClose k \<Rightarrow> ignore_a (on_im (CloseSession S now k))
     | ImSend k st si ct x \<Rightarrow> ignore_a (on_im (SendMessage now mid k st si ct x))
     | ImWeChat sig ts nonce body \<Rightarrow> ignore_a (on_im (WeChatReceive sha1 now nid mid c sig ts nonce body))
     | ImWeibo sig body \<Rightarrow> ignore_a (on_im (WeiboReceive sha1 decode now nid mid c sig body))
     | ImUpdateConfig ai as tk ak \<Rightarrow> ignore_a (on_im (UpdateConfig now c ai as tk ak))
     | ImChannel t ty n g \<Rightarrow> ignore_a (on_im (CreateChannel now nid t ty n g))
     | ImUpdateChannel ch \<Rightarrow> on_im (UpdateChannel ch)
     | ImConfig t p ai as tk ak \<Rightarrow> ignore_a (on_im (CreateConfig now nid t c p ai as tk ak))
     | ImDeleteConfig k \<Rightarrow> on_im (DeleteConfig k)
     | ImVerify sig ts nonce echo \<Rightarrow> ignore_a (on_im (WeChatVerify sha1 now c sig ts nonce echo))
     | ImRoute s \<Rightarrow> AutoRouteSession S s
     | ImEmail t from subject body \<Rightarrow> ignore_a (ProcessInbound S True now nid mid t c from subject body)))"

primrec run_im ::
  "(string \<Rightarrow> string) \<Rightarrow> (string \<Rightarrow> (string + string \<times> string \<times> string)) \<Rightarrow> im_service \<Rightarrow>
   ((gotime \<times> int \<times> int \<times> int) \<times> im_op) list \<Rightarrow> desk_world \<Rightarrow> desk_world" where
  "run_im sha1 decode S [] w = w"
| "run_im sha1 decode S (q # qs) w = run_im sha1 decode S qs (snd (im_exec sha1 decode S (fst q) (snd q) w))"

abbreviation desk_of :: "desk_world \<Rightarrow> im_session list" where
  "desk_of w \<equiv> sessions_of (dw_im w)"

lemma moves_on_im: "moves sessions_of P m \<Longrightarrow> moves desk_of P (on_im m)"
  unfolding on_im_def by (rule moves_zoom) simp_all

lemma desk_GetPresence: "preserves desk_of (GetPresence a)"
  and desk_GetMembers: "preserves desk_of (GetMembers g)"
  unfolding GetPresence_def GetMembers_def by (intro frame_intros preserves_zoom_other; simp)+

lemma moves_first_idle: "moves desk_of (desk_path (ms_maxChatSlots S)) (first_idle S k ms)"
proof (induction ms)
  case Nil
  show ?case by (simp add: moves_refl reflp_desk_path preserves_throw)
next
  case (Cons m ms)
  let ?P = "desk_path (ms_maxChatSlots S)"
  have "moves desk_of ?P (try_a (on_im (AssignAgent S k (sk_AgentID m)))
      (\<lambda>q. case q of Inl _ \<Rightarrow> first_idle S k ms | Inr _ \<Rightarrow> ret_a ()))"
    unfolding moves_def
  proof
    fix w
    obtain r v where r: "on_im (AssignAgent S k (sk_AgentID m)) w = (r, v)" by fastforce
    have one: "?P (desk_of w) (desk_of v)" using movesD [OF moves_on_im [OF moves_AssignAgent] r] .
    have two: "?P (desk_of v) (desk_of (snd (first_idle S k ms v)))" using Cons.IH by (simp add: moves_def)
    from one two transpD [OF transp_desk_path one two] r
    show "?P (desk_of w) (desk_of (snd (try_a (on_im (AssignAgent S k (sk_AgentID m)))
        (\<lambda>q. case q of Inl _ \<Rightarrow> first_idle S k ms | Inr _ \<Rightarrow> ret_a ()) w)))"
      by (cases r) (simp_all add: act_simps)
  qed
  then show ?case
    using Cons.IH unfolding first_idle.simps
    by (intro moves_try_pre desk_GetPresence) (auto split: sum.split option.split)
qed

lemma moves_AutoRoute: "moves desk_of (desk_path (ms_maxChatSlots S)) (AutoRouteSession S s)"
  unfolding AutoRouteSession_def
  by (cases "im_SkillGroupID s")
    (auto intro!: moves_bind_pre moves_first_idle desk_GetMembers reflp_desk_path
      moves_refl [OF reflp_desk_path preserves_throw])

lemma moves_email: "moves desk_of (desk_path (ms_maxChatSlots S)) (ProcessInbound S routed now nid mid t c from subj body)"
proof -
  have send: "preserves desk_of (on_im (SendMessage now mid k st si ct x))" for k st si ct x
    unfolding on_im_def by (rule preserves_zoom [OF frame_SendMessage]) simp_all
  have route: "moves desk_of (desk_path (ms_maxChatSlots S)) (when_a routed (ignore_a (AutoRouteSession S s)))" for s
    unfolding when_a_def by (intro moves_if moves_ignore moves_AutoRoute moves_refl [OF reflp_desk_path] frame_intros)
  show ?thesis
    unfolding ProcessInbound_def Let_def
    by (rule moves_bind_trans [OF moves_on_im [OF moves_CreateSession] _ transp_desk_path])
      (intro moves_if moves_bind_pre moves_seq_post send route reflp_desk_path frame_intros
        moves_refl [OF reflp_desk_path])
qed

lemma moves_im_exec: "moves desk_of (desk_path (ms_maxChatSlots S)) (im_exec sha1 decode S q opn)"
proof -
  obtain now nid mid c where q: "q = (now, nid, mid, c)" by (metis prod_cases4)
  show ?thesis
    unfolding im_exec_def q prod.case
    by (cases opn)
      (auto simp: RouteSession_def intro!: moves_ignore moves_on_im moves_CreateSession moves_AssignAgent
        moves_TransferSession moves_CloseSession moves_WeChatReceive moves_WeiboReceive moves_AutoRoute moves_email
        im_frames [THEN moves_refl [OF reflp_desk_path]])
qed

lemma run_im_path: "desk_path (ms_maxChatSlots S) (desk_of w) (desk_of (run_im sha1 decode S qs w))"
proof (induction qs arbitrary: w)
  case Nil
  show ?case using reflp_desk_path by (simp add: reflp_def)
next
  case (Cons q qs)
  have "desk_path (ms_maxChatSlots S) (desk_of w) (desk_of (snd (im_exec sha1 decode S (fst q) (snd q) w)))"
    using moves_im_exec by (simp add: moves_def)
  from transpD [OF transp_desk_path this Cons.IH] show ?case by simp
qed

text \<open>
  C10. Whatever requests come in one after the other (sessions opened, assigned, routed, transferred and closed,
  messages and webhooks of the social channels, email, changes of the configuration), and whatever
  statements fail, the sessions only move along the steps of the desk, and they stay well-formed: no agent has more
  active chats than the slots allow, a session has an agent when it is active and none while it waits, it has an end
  exactly when it is closed, and the status \<open>transferred\<close> never occurs.
\<close>

theorem im_refines_desk:
  assumes "desk_ok (ms_maxChatSlots S) (desk_of w)"
  shows "desk_steps (ms_maxChatSlots S) (desk_of w) (desk_of (run_im sha1 decode S qs w)) \<and>
    desk_ok (ms_maxChatSlots S) (desk_of (run_im sha1 decode S qs w))"
proof -
  have "desk_steps (ms_maxChatSlots S) (desk_of w) (desk_of (run_im sha1 decode S qs w))"
    using run_im_path [of S w sha1 decode qs] assms by (simp add: desk_path_def desk_ok_def)
  with desk_steps_ok [OF this assms] show ?thesis by blast
qed

definition im_world0 :: im_world where
  "im_world0 = \<lparr>iw_channels = \<lparr>lrows = [\<lparr>ch_ID = 1, ch_TenantID = 7, ch_ChannelType = ''email'', ch_Name = [], ch_Config = [],
       ch_SkillGroupID = Some 4, ch_Status = ChannelStatusActive, ch_CreatedAt = 0\<rparr>], loutages = []\<rparr>,
     iw_sessions = \<lparr>lrows = [], loutages = []\<rparr>, iw_messages = \<lparr>entries = [], journal_outages = []\<rparr>,
     iw_configs = \<lparr>lrows = [], loutages = []\<rparr>, iw_hooked = []\<rparr>"

definition desk_world0 :: desk_world where
  "desk_world0 = \<lparr>dw_im = im_world0, dw_presence = \<lparr>lrows = [], loutages = []\<rparr>, dw_members = \<lparr>lrows = [], loutages = []\<rparr>\<rparr>"

theorem im_refines_desk_witness:
  "desk_ok 1 (desk_of (run_im (\<lambda>s. s) (\<lambda>_. Inl []) (NewIMService 1)
     [((5, 10, 0, 1), ImOpen 7 ''v'' None), ((6, 11, 0, 1), ImAssign 10 3), ((7, 12, 0, 1), ImAssign 10 4)] desk_world0))"
proof -
  have "desk_ok 1 (desk_of desk_world0)"
    by (simp add: desk_ok_def desk_world0_def im_world0_def active_count_def)
  moreover have "ms_maxChatSlots (NewIMService 1) = 1" by (simp add: NewIMService_def)
  ultimately show ?thesis using im_refines_desk [of "NewIMService 1" desk_world0] by (simp only:)
qed

section \<open>Requests that interleave\<close>

definition waiting_session :: "int \<Rightarrow> im_session" where
  "waiting_session k = \<lparr>im_ID = k, im_TenantID = 7, im_ChannelID = 1, im_VisitorID = ''v'', im_CustomerID = None,
     im_AgentUserID = None, im_SkillGroupID = None, im_Status = SessionStatusWaiting, im_CSATScore = None,
     im_StartAt = 0, im_EndAt = None, im_CreatedAt = 0\<rparr>"

text \<open>
  Two requests assign two sessions to one agent, who has one slot. Both read and check before either
  writes: both succeed, and the agent has two active chats.
\<close>

definition desk_two :: im_world where
  "desk_two = im_world0\<lparr>iw_sessions := \<lparr>lrows = [waiting_session 1, waiting_session 2], loutages = []\<rparr>\<rparr>"

lemma interleaved_assigns_overbook:
  "\<exists>y1 y2 w1 w2 w3 w4.
     claim_slot (NewIMService 1) SessionStatusWaiting ErrSessionNotWaiting 1 5 desk_two = (Inr y1, w1) \<and>
     claim_slot (NewIMService 1) SessionStatusWaiting ErrSessionNotWaiting 2 5 w1 = (Inr y2, w2) \<and>
     save_session y1 w2 = (Inr (), w3) \<and> save_session y2 w3 = (Inr (), w4) \<and>
     active_count 5 (sessions_of w4) = 2"
  by (simp add: claim_slot_def load_session_def CountActiveByAgent_def save_session_def on_sessions_def some_or_def act_simps
      desk_two_def im_world0_def waiting_session_def NewIMService_def lrow_def active_of_def active_count_def
      Session_update_row_def)

section \<open>What a WeChat text message says\<close>

lemma cut_at_cdata:
  "\<not> strings_Contains v '']]>'' \<Longrightarrow> cut_at '']]>'' (v @ '']]>'' @ s) = Some (v, s)"
proof (induction v)
  case (Cons c v)
  have "\<not> strings_HasPrefix (c # v @ '']]>'' @ s) '']]>''"
    using Cons.prems by (cases v; cases "tl v") auto
  with Cons show ?case by (simp add: cut_at_miss)
qed (simp add: cut_at_hit)

definition wechat_text :: "string \<Rightarrow> string \<Rightarrow> string \<Rightarrow> string \<Rightarrow> string \<Rightarrow> string" where
  "wechat_text to from time content msgID = ''<xml><ToUserName><![CDATA['' @ to @ '']]></ToUserName><FromUserName><![CDATA['' @ from @
     '']]></FromUserName><CreateTime>'' @ time @ ''</CreateTime><MsgType><![CDATA[text]]></MsgType><Content><![CDATA['' @ content @
     '']]></Content><MsgId>'' @ msgID @ ''</MsgId></xml>''"

text \<open>
  A text message in the form WeChat sends is read back: the sender and the content are those of the
  message, whatever the content is (the end mark of a CDATA section apart): a visitor cannot pass for another one.
\<close>

theorem parse_wechat_text:
  assumes "CHR ''<'' \<notin> set to" "CHR ''<'' \<notin> set from" "CHR ''<'' \<notin> set time"
    and "\<not> strings_Contains from '']]>''" "\<not> strings_Contains content '']]>''"
  shows "sm_OpenID (parseWeChatXML (wechat_text to from time content msgID)) = from \<and>
    sm_ContentType (parseWeChatXML (wechat_text to from time content msgID)) = ''text'' \<and>
    sm_Content (parseWeChatXML (wechat_text to from time content msgID)) = content"
proof -
  have "extractXMLTag (wechat_text to from time content msgID) ''FromUserName'' = from"
    using cut_at_cdata [OF assms(4)] assms(1)
    by (simp add: extractXMLTag_def wechat_text_def cut_at_skips cut_at_miss cut_at_hit Let_def)
  moreover have "extractXMLTag (wechat_text to from time content msgID) ''MsgType'' = ''text''"
    using assms(1-3)
    by (simp add: extractXMLTag_def wechat_text_def cut_at_skips cut_at_miss cut_at_hit Let_def)
  moreover have "extractXMLTag (wechat_text to from time content msgID) ''Content'' = content"
    using cut_at_cdata [OF assms(5)] assms(1-3)
    by (simp add: extractXMLTag_def wechat_text_def cut_at_skips cut_at_miss cut_at_hit Let_def)
  ultimately show ?thesis by (simp add: parseWeChatXML_def Let_def)
qed

theorem parse_wechat_text_witness:
  "sm_OpenID (parseWeChatXML (wechat_text ''gh'' ''oX'' ''12'' ''<FromUserName><![CDATA[other'' ''9'')) = ''oX''"
  using parse_wechat_text [of "''gh''" "''oX''" "''12''" "''<FromUserName><![CDATA[other''" "''9''"] by simp

end
