(* ===== verification/Ticket.thy ===== *)
theory Ticket
  imports Tables Decimal
begin

text \<open>
  Tickets: \<open>internal/domain/ticket/service.go\<close> with the handlers that edit tickets and templates
  (\<open>interfaces/http/handler/ticket.go\<close>) and the statements of \<open>infrastructure/mysql/ticket_repo.go\<close>; the
  satisfaction surveys \<open>application/csat/service.go\<close>, which open a ticket for a low score.
\<close>

section \<open>Entities\<close>

abbreviation TicketStatusOpen :: string where "TicketStatusOpen \<equiv> ''open''"
abbreviation TicketStatusInProgress :: string where "TicketStatusInProgress \<equiv> ''in_progress''"
abbreviation TicketStatusPending :: string where "TicketStatusPending \<equiv> ''pending''"
abbreviation TicketStatusResolved :: string where "TicketStatusResolved \<equiv> ''resolved''"
abbreviation TicketStatusClosed :: string where "TicketStatusClosed \<equiv> ''closed''"

record ticket_category =
  tc_ID :: int
  tc_TenantID :: int
  tc_Name :: string
  tc_ParentID :: "int option"

record ticket_template =
  tm_ID :: int
  tm_TenantID :: int
  tm_Name :: string
  tm_CategoryID :: "int option"
  tm_Fields :: string
  tm_FlowGraph :: string
  tm_OnlineStatus :: string
  tm_CreatedAt :: gotime
  tm_UpdatedAt :: gotime

record ticket =
  tk_ID :: int
  tk_TenantID :: int
  tk_TemplateID :: "int option"
  tk_CategoryID :: "int option"
  tk_Title :: string
  tk_Description :: string
  tk_Status :: string
  tk_Priority :: string
  tk_CustomerID :: "int option"
  tk_AssigneeID :: "int option"
  tk_CallID :: "int option"
  tk_CustomData :: string
  tk_CreatedAt :: gotime
  tk_UpdatedAt :: gotime
  tk_ResolvedAt :: "gotime option"

record ticket_comment =
  co_ID :: int
  co_TicketID :: int
  co_AuthorID :: int
  co_Content :: string
  co_CreatedAt :: gotime

datatype ticket_error = ErrTicketNotFound | ErrTemplateNotFound | ErrInvalidTransition | ErrTemplateNotPublished
  | ErrAlreadyPublished | ErrInvalidPriority | ErrInvalidFlowGraph | ErrTicketStore string

section \<open>Statements\<close>

definition Ticket_update_row :: "ticket \<Rightarrow> ticket \<Rightarrow> ticket" where
  "Ticket_update_row old t = old\<lparr>tk_Title := tk_Title t, tk_Description := tk_Description t, tk_Status := tk_Status t,
     tk_Priority := tk_Priority t, tk_AssigneeID := tk_AssigneeID t, tk_CustomData := tk_CustomData t,
     tk_UpdatedAt := tk_UpdatedAt t, tk_ResolvedAt := tk_ResolvedAt t\<rparr>"

definition Template_update_row :: "ticket_template \<Rightarrow> ticket_template \<Rightarrow> ticket_template" where
  "Template_update_row old t = old\<lparr>tm_Name := tm_Name t, tm_CategoryID := tm_CategoryID t, tm_Fields := tm_Fields t,
     tm_FlowGraph := tm_FlowGraph t, tm_OnlineStatus := tm_OnlineStatus t, tm_UpdatedAt := tm_UpdatedAt t\<rparr>"

definition TicketRepo :: "(ticket ltable, ticket) repo" where
  "TicketRepo = ltable_repo tk_ID (\<lambda>t. t) Ticket_update_row"

definition TicketTemplateRepo :: "(ticket_template ltable, ticket_template) repo" where
  "TicketTemplateRepo = ltable_repo tm_ID (\<lambda>t. t) Template_update_row"

record ticket_world =
  tkw_tickets :: "ticket ltable"
  tkw_templates :: "ticket_template ltable"
  tkw_categories :: "ticket_category ltable"
  tkw_comments :: "ticket_comment journal"

type_synonym 'a tkact = "(ticket_world, ticket_error, 'a) act"

abbreviation put_tickets :: "ticket ltable \<Rightarrow> ticket_world \<Rightarrow> ticket_world" where
  "put_tickets d w \<equiv> w\<lparr>tkw_tickets := d\<rparr>"

abbreviation put_templates :: "ticket_template ltable \<Rightarrow> ticket_world \<Rightarrow> ticket_world" where
  "put_templates d w \<equiv> w\<lparr>tkw_templates := d\<rparr>"

definition load_ticket :: "int \<Rightarrow> ticket tkact" where
  "load_ticket = fetch_a tkw_tickets put_tickets TicketRepo ErrTicketNotFound"

definition save_ticket :: "ticket \<Rightarrow> unit tkact" where
  "save_ticket = store_a tkw_tickets put_tickets TicketRepo ErrTicketStore"

definition load_template :: "int \<Rightarrow> ticket_template tkact" where
  "load_template = fetch_a tkw_templates put_templates TicketTemplateRepo ErrTemplateNotFound"

definition save_template :: "ticket_template \<Rightarrow> unit tkact" where
  "save_template = store_a tkw_templates put_templates TicketTemplateRepo ErrTicketStore"

section \<open>Templates\<close>

text \<open>\<open>valid\<close>: \<open>json.Valid\<close>.\<close>

definition CreateTemplate ::
  "(string \<Rightarrow> bool) \<Rightarrow> gotime \<Rightarrow> int \<Rightarrow> int \<Rightarrow> string \<Rightarrow> int option \<Rightarrow> string \<Rightarrow> string \<Rightarrow> ticket_template tkact" where
  "CreateTemplate valid now nid tenantID name categoryID flds flowGraph =
     (if flowGraph \<noteq> [] \<and> \<not> valid flowGraph then throw_a ErrInvalidFlowGraph
      else let t = \<lparr>tm_ID = nid, tm_TenantID = tenantID, tm_Name = name, tm_CategoryID = categoryID, tm_Fields = flds,
             tm_FlowGraph = flowGraph, tm_OnlineStatus = ''draft'', tm_CreatedAt = now, tm_UpdatedAt = now\<rparr>
           in seq_a (insert_a tkw_templates put_templates TicketTemplateRepo ErrTicketStore t) (ret_a t))"

definition PublishTemplate :: "gotime \<Rightarrow> int \<Rightarrow> ticket_template tkact" where
  "PublishTemplate now k = bind_a (load_template k) (\<lambda>t.
     if tm_OnlineStatus t = ''published'' then throw_a ErrAlreadyPublished
     else let t' = t\<lparr>tm_OnlineStatus := ''published'', tm_UpdatedAt := now\<rparr> in seq_a (save_template t') (ret_a t'))"

definition Offline :: "gotime \<Rightarrow> int \<Rightarrow> ticket_template tkact" where
  "Offline now k = bind_a (load_template k) (\<lambda>t.
     let t' = t\<lparr>tm_OnlineStatus := ''offline'', tm_UpdatedAt := now\<rparr> in seq_a (save_template t') (ret_a t'))"

text \<open>The handler \<open>UpdateTemplate\<close>: the template is read, the fields of the request are set, the template is written.\<close>

definition UpdateTemplate :: "gotime \<Rightarrow> int \<Rightarrow> string option \<Rightarrow> string option \<Rightarrow> string option \<Rightarrow> ticket_template tkact" where
  "UpdateTemplate now k name flds flowGraph = bind_a (load_template k) (\<lambda>t.
     let t' = t\<lparr>tm_Name := (case name of None \<Rightarrow> tm_Name t | Some x \<Rightarrow> x),
           tm_Fields := (case flds of None \<Rightarrow> tm_Fields t | Some x \<Rightarrow> x),
           tm_FlowGraph := (case flowGraph of None \<Rightarrow> tm_FlowGraph t | Some x \<Rightarrow> x), tm_UpdatedAt := now\<rparr>
     in seq_a (save_template t') (ret_a t'))"

definition CreateCategory :: "int \<Rightarrow> int \<Rightarrow> string \<Rightarrow> int option \<Rightarrow> ticket_category tkact" where
  "CreateCategory nid tenantID name parentID =
     (let c = \<lparr>tc_ID = nid, tc_TenantID = tenantID, tc_Name = name, tc_ParentID = parentID\<rparr>
      in seq_a (wrap_a ErrTicketStore (zoom_a tkw_categories (\<lambda>d w. w\<lparr>tkw_categories := d\<rparr>) (ins_row tc_ID (\<lambda>c. c) c)))
         (ret_a c))"

section \<open>Tickets\<close>

definition validPriorities :: "string set" where
  "validPriorities = {''low'', ''medium'', ''high'', ''urgent''}"

definition ticketTransitions :: "string \<Rightarrow> string list" where
  "ticketTransitions s =
     (if s = TicketStatusOpen then [TicketStatusInProgress, TicketStatusPending]
      else if s = TicketStatusInProgress then [TicketStatusPending, TicketStatusResolved]
      else if s = TicketStatusPending then [TicketStatusInProgress, TicketStatusResolved]
      else if s = TicketStatusResolved then [TicketStatusClosed, TicketStatusInProgress]
      else [])"

record create_ticket_input =
  ti_TenantID :: int
  ti_TemplateID :: "int option"
  ti_CategoryID :: "int option"
  ti_Title :: string
  ti_Description :: string
  ti_Priority :: string
  ti_CustomerID :: "int option"
  ti_CallID :: "int option"
  ti_CustomData :: string

definition CreateTicket :: "gotime \<Rightarrow> int \<Rightarrow> create_ticket_input \<Rightarrow> ticket tkact" where
  "CreateTicket now nid inp =
     (if ti_Priority inp \<notin> validPriorities then throw_a ErrInvalidPriority
      else seq_a (case ti_TemplateID inp of
            None \<Rightarrow> ret_a ()
          | Some k \<Rightarrow> bind_a (load_template k) (\<lambda>t. guard_a (tm_OnlineStatus t = ''published'') ErrTemplateNotPublished))
        (let t = \<lparr>tk_ID = nid, tk_TenantID = ti_TenantID inp, tk_TemplateID = ti_TemplateID inp,
               tk_CategoryID = ti_CategoryID inp, tk_Title = ti_Title inp, tk_Description = ti_Description inp,
               tk_Status = TicketStatusOpen, tk_Priority = ti_Priority inp, tk_CustomerID = ti_CustomerID inp,
               tk_AssigneeID = None, tk_CallID = ti_CallID inp, tk_CustomData = ti_CustomData inp,
               tk_CreatedAt = now, tk_UpdatedAt = now, tk_ResolvedAt = None\<rparr>
         in seq_a (insert_a tkw_tickets put_tickets TicketRepo ErrTicketStore t) (ret_a t)))"

text \<open>\<open>Update\<close> writes whatever ticket it is given; the handler \<open>UpdateTicket\<close> gives it the ticket it read, edited.\<close>

definition Update :: "gotime \<Rightarrow> ticket \<Rightarrow> unit tkact" where
  "Update now t = save_ticket (t\<lparr>tk_UpdatedAt := now\<rparr>)"

definition edit_ticket :: "string option \<Rightarrow> string option \<Rightarrow> string option \<Rightarrow> ticket \<Rightarrow> ticket" where
  "edit_ticket title description priority t = t\<lparr>
     tk_Title := (case title of None \<Rightarrow> tk_Title t | Some x \<Rightarrow> x),
     tk_Description := (case description of None \<Rightarrow> tk_Description t | Some x \<Rightarrow> x),
     tk_Priority := (case priority of None \<Rightarrow> tk_Priority t | Some x \<Rightarrow> x)\<rparr>"

definition UpdateTicket :: "gotime \<Rightarrow> int \<Rightarrow> string option \<Rightarrow> string option \<Rightarrow> string option \<Rightarrow> unit tkact" where
  "UpdateTicket now k title description priority =
     bind_a (load_ticket k) (\<lambda>t. Update now (edit_ticket title description priority t))"

definition Assign :: "gotime \<Rightarrow> int \<Rightarrow> int \<Rightarrow> ticket tkact" where
  "Assign now k agentID = bind_a (load_ticket k) (\<lambda>t.
     let t' = t\<lparr>tk_AssigneeID := Some agentID, tk_UpdatedAt := now\<rparr> in seq_a (save_ticket t') (ret_a t'))"

text \<open>\<open>now1\<close> and \<open>now2\<close> are the two readings of the clock.\<close>

definition Transition :: "gotime \<Rightarrow> gotime \<Rightarrow> int \<Rightarrow> string \<Rightarrow> ticket tkact" where
  "Transition now1 now2 k newStatus = bind_a (load_ticket k) (\<lambda>t.
     if newStatus \<notin> set (ticketTransitions (tk_Status t)) then throw_a ErrInvalidTransition
     else let t1 = t\<lparr>tk_Status := newStatus, tk_UpdatedAt := now1\<rparr>;
              t2 = (if newStatus = TicketStatusResolved then t1\<lparr>tk_ResolvedAt := Some now2\<rparr> else t1)
          in seq_a (save_ticket t2) (ret_a t2))"

definition AddComment :: "gotime \<Rightarrow> int \<Rightarrow> int \<Rightarrow> int \<Rightarrow> string \<Rightarrow> unit tkact" where
  "AddComment now nid k authorID content = wrap_a ErrTicketStore (zoom_a tkw_comments (\<lambda>d w. w\<lparr>tkw_comments := d\<rparr>)
     (journal_add \<lparr>co_ID = nid, co_TicketID = k, co_AuthorID = authorID, co_Content = content, co_CreatedAt = now\<rparr>))"

text \<open>The handler \<open>ListByCall\<close> keeps the tickets of the tenant that asks.\<close>

definition ListByCall :: "int \<Rightarrow> int \<Rightarrow> ticket list tkact" where
  "ListByCall tenantID callID = bind_a (wrap_a ErrTicketStore (zoom_a tkw_tickets put_tickets
       (sel_all (\<lambda>t. tk_CallID t = Some callID)))) (\<lambda>ts. ret_a (filter (\<lambda>t. tk_TenantID t = tenantID) ts))"

section \<open>Surveys\<close>

record csat_config =
  cc_ID :: int
  cc_TenantID :: int
  cc_Name :: string
  cc_TriggerType :: string
  cc_IVRFlowID :: "int option"
  cc_SmsTemplateID :: string
  cc_ScaleMin :: int
  cc_ScaleMax :: int
  cc_IsActive :: bool
  cc_CreatedAt :: gotime
  cc_UpdatedAt :: gotime

record csat_result =
  cr_ID :: int
  cr_TenantID :: int
  cr_CallID :: int
  cr_ConfigID :: int
  cr_AgentID :: "int option"
  cr_Rating :: int
  cr_Comment :: string
  cr_Channel :: string
  cr_CreatedAt :: gotime

text \<open>\<open>sw_sms\<close>: the messages handed to the SMS sender (tenant, phone, template, call); what it answers is only logged.\<close>

record survey_world =
  sw_configs :: "csat_config ltable"
  sw_results :: "csat_result journal"
  sw_tickets :: ticket_world
  sw_sms :: "(int \<times> string \<times> string \<times> int) list"

text \<open>\<open>sv_creator\<close>: the threshold when a ticket creator is set; \<open>sv_caller\<close>: the lookup of the caller, when it and a sender are set.\<close>

record csat_service =
  sv_creator :: "int option"
  sv_caller :: "(int \<Rightarrow> string + string) option"

definition sendSMSSurvey :: "csat_service \<Rightarrow> csat_config \<Rightarrow> int \<Rightarrow> int \<Rightarrow> (survey_world, string, unit) act" where
  "sendSMSSurvey S c tenantID callID =
     (case sv_caller S of
        None \<Rightarrow> ret_a ()
      | Some lookup \<Rightarrow>
          if cc_SmsTemplateID c = [] then ret_a ()
          else (case lookup callID of
              Inl _ \<Rightarrow> ret_a ()
            | Inr phone \<Rightarrow> if phone = [] then ret_a ()
                else modify_a (\<lambda>w. w\<lparr>sw_sms := sw_sms w @ [(tenantID, phone, cc_SmsTemplateID c, callID)]\<rparr>)))"

text \<open>No active configuration is no error; the IVR part of a survey is only logged.\<close>

definition TriggerSurvey :: "csat_service \<Rightarrow> int \<Rightarrow> int \<Rightarrow> (survey_world, string, unit) act" where
  "TriggerSurvey S tenantID callID =
     bind_a (zoom_a sw_configs (\<lambda>d w. w\<lparr>sw_configs := d\<rparr>) (sel_all (\<lambda>c. cc_TenantID c = tenantID \<and> cc_IsActive c))) (\<lambda>cs.
     case cs of
       [] \<Rightarrow> ret_a ()
     | c # _ \<Rightarrow> when_a (cc_TriggerType c = ''sms'' \<or> cc_TriggerType c = ''both'') (sendSMSSurvey S c tenantID callID))"

definition auto_ticket :: "int \<Rightarrow> int \<Rightarrow> int \<Rightarrow> string \<Rightarrow> create_ticket_input" where
  "auto_ticket tenantID callID rating comment = \<lparr>ti_TenantID = tenantID, ti_TemplateID = None, ti_CategoryID = None,
     ti_Title = ''Low CSAT (score='' @ itoa rating @ '') for call '' @ itoa callID,
     ti_Description = ''Customer rated '' @ itoa rating @ ''/5. Comment: '' @ comment, ti_Priority = ''high'',
     ti_CustomerID = None, ti_CallID = Some callID, ti_CustomData = []\<rparr>"

definition RecordResult ::
  "csat_service \<Rightarrow> gotime \<Rightarrow> int \<Rightarrow> int \<Rightarrow> int \<Rightarrow> int \<Rightarrow> int \<Rightarrow> int option \<Rightarrow> int \<Rightarrow> string \<Rightarrow> string \<Rightarrow> (survey_world, string, unit) act" where
  "RecordResult S now nid tid tenantID callID configID agentID rating comment channel =
     seq_a (zoom_a sw_results (\<lambda>d w. w\<lparr>sw_results := d\<rparr>) (journal_add \<lparr>cr_ID = nid, cr_TenantID = tenantID,
        cr_CallID = callID, cr_ConfigID = configID, cr_AgentID = agentID, cr_Rating = rating, cr_Comment = comment,
        cr_Channel = channel, cr_CreatedAt = now\<rparr>))
     (case sv_creator S of
        None \<Rightarrow> ret_a ()
      | Some threshold \<Rightarrow> when_a (0 < threshold \<and> rating \<le> threshold)
          (ignore_a (zoom_a sw_tickets (\<lambda>d w. w\<lparr>sw_tickets := d\<rparr>)
             (CreateTicket now tid (auto_ticket tenantID callID rating comment)))))"

end
