(* ===== verification/TicketProps.thy ===== *)
theory TicketProps
  imports Ticket
begin

text \<open>
  The life of a ticket as an instance of the world of tables: what a run of requests can do to a stored
  ticket, what an interleaved edit does, and when a survey opens one.
\<close>

section \<open>The ticket table\<close>

inductive ticket_edge :: "ticket \<Rightarrow> ticket \<Rightarrow> bool" where
  stay: "tk_Status y = tk_Status x \<Longrightarrow> tk_ResolvedAt y = tk_ResolvedAt x \<Longrightarrow> ticket_edge x y"
| move: "tk_Status y \<in> set (ticketTransitions (tk_Status x)) \<Longrightarrow> tk_Status y \<noteq> TicketStatusResolved \<Longrightarrow>
    tk_ResolvedAt y = tk_ResolvedAt x \<Longrightarrow> ticket_edge x y"
| resolve: "TicketStatusResolved \<in> set (ticketTransitions (tk_Status x)) \<Longrightarrow> tk_Status y = TicketStatusResolved \<Longrightarrow>
    tk_ResolvedAt y \<noteq> None \<Longrightarrow> ticket_edge x y"

inductive_cases ticket_edgeE: "ticket_edge x y"

definition ticket_ok :: "ticket \<Rightarrow> bool" where
  "ticket_ok t \<longleftrightarrow> tk_Status t \<in> {TicketStatusOpen, TicketStatusInProgress, TicketStatusPending, TicketStatusResolved, TicketStatusClosed} \<and>
     (tk_Status t \<in> {TicketStatusResolved, TicketStatusClosed} \<longrightarrow> tk_ResolvedAt t \<noteq> None)"

definition ticket_evolves :: "ticket \<Rightarrow> ticket \<Rightarrow> bool" where
  "ticket_evolves x y \<longleftrightarrow> ticket_edge x y \<and> tk_TenantID y = tk_TenantID x \<and> tk_TemplateID y = tk_TemplateID x \<and>
     tk_CategoryID y = tk_CategoryID x \<and> tk_CustomerID y = tk_CustomerID x \<and> tk_CallID y = tk_CallID x \<and>
     tk_CreatedAt y = tk_CreatedAt x"

definition ticket_born :: "ticket \<Rightarrow> bool" where
  "ticket_born t \<longleftrightarrow> tk_Status t = TicketStatusOpen \<and> tk_ResolvedAt t = None \<and> tk_AssigneeID t = None \<and>
     tk_Priority t \<in> validPriorities"

interpretation ticket_rows: listed_table tk_ID "\<lambda>t. t" Ticket_update_row
  by unfold_locales (simp_all add: Ticket_update_row_def)

interpretation tickets: world_table TicketRepo "lrow tk_ID" tk_ID Ticket_update_row "\<lambda>t. t"
    tkw_tickets put_tickets ticket_ok ticket_evolves ticket_born
  unfolding TicketRepo_def
  by unfold_locales (simp_all add: ticket_evolves_def ticket_edge.stay)

abbreviation tickets_of :: "ticket_world \<Rightarrow> int \<rightharpoonup> ticket" where
  "tickets_of w \<equiv> lrow tk_ID (tkw_tickets w)"

abbreviation tickets_evolve :: "(int \<rightharpoonup> ticket) \<Rightarrow> (int \<rightharpoonup> ticket) \<Rightarrow> bool" where
  "tickets_evolve \<equiv> evolves tk_ID ticket_ok ticket_evolves ticket_born"

lemma template_frames [frame_intros]:
  "preserves tickets_of (load_template k)" "preserves tickets_of (save_template t)"
  "preserves tickets_of (insert_a tkw_templates put_templates R g t)"
  "preserves tickets_of (zoom_a tkw_categories (\<lambda>d w. w\<lparr>tkw_categories := d\<rparr>) m)"
  "preserves tickets_of (zoom_a tkw_comments (\<lambda>d w. w\<lparr>tkw_comments := d\<rparr>) m')"
  unfolding load_template_def save_template_def fetch_a_def store_a_def insert_a_def
  by (auto intro!: preserves_wrap preserves_try preserves_zoom_other frame_intros split: sum.split option.split)

lemma moves_load_ticket:
  "(\<And>t. moves tickets_of (\<lambda>T T'. T k = Some t \<longrightarrow> tickets_evolve T T') (f t)) \<Longrightarrow>
   moves tickets_of tickets_evolve (bind_a (load_ticket k) f)"
  unfolding load_ticket_def by (rule tickets.moves_fetch)

lemma moves_save_ticket:
  assumes "tk_ID t = tk_ID old" "ticket_ok old \<Longrightarrow> ticket_ok (Ticket_update_row old t)"
    and "ticket_ok old \<Longrightarrow> ticket_evolves old (Ticket_update_row old t)" "preserves tickets_of m"
  shows "moves tickets_of (\<lambda>T T'. T k = Some old \<longrightarrow> tickets_evolve T T') (seq_a (save_ticket t) m)"
  unfolding save_ticket_def using assms by (rule tickets.moves_stored)

lemmas ticket_effect = ticket_ok_def ticket_evolves_def Ticket_update_row_def

lemma moves_CreateTicket: "moves tickets_of tickets_evolve (CreateTicket now nid inp)"
  unfolding CreateTicket_def Let_def
  by (intro moves_if tickets.moves_throw moves_seq_pre tickets.moves_inserted tickets.reflp_evolves preserves_ret)
    (auto simp: ticket_ok_def ticket_born_def split: option.split intro!: frame_intros)

lemma moves_UpdateTicket: "moves tickets_of tickets_evolve (UpdateTicket now k title description priority)"
  unfolding UpdateTicket_def Update_def save_ticket_def
  by (intro moves_load_ticket [unfolded load_ticket_def] tickets.moves_store moves_load_ticket)
    (auto simp: ticket_effect edit_ticket_def intro: ticket_edge.stay)

lemma moves_Assign: "moves tickets_of tickets_evolve (Assign now k a)"
  unfolding Assign_def Let_def
  by (intro moves_load_ticket moves_save_ticket preserves_ret)
    (auto simp: ticket_effect intro: ticket_edge.stay)

lemma validTransitions_ok:
  "s \<in> set (ticketTransitions st) \<Longrightarrow>
   s \<in> {TicketStatusInProgress, TicketStatusPending, TicketStatusResolved, TicketStatusClosed} \<and>
   (s = TicketStatusClosed \<longrightarrow> st = TicketStatusResolved)"
  by (auto simp: ticketTransitions_def split: if_splits)

lemma transition_row:
  fixes t :: ticket and now1 now2 :: gotime
  assumes "s \<in> set (ticketTransitions (tk_Status t))"
  defines "y \<equiv> Ticket_update_row t (if s = TicketStatusResolved
      then t\<lparr>tk_Status := s, tk_UpdatedAt := now1\<rparr>\<lparr>tk_ResolvedAt := Some now2\<rparr> else t\<lparr>tk_Status := s, tk_UpdatedAt := now1\<rparr>)"
  shows "ticket_ok t \<Longrightarrow> ticket_ok y" and "ticket_evolves t y"
proof -
  have status: "tk_Status y = s" by (simp add: y_def Ticket_update_row_def)
  have resolved: "tk_ResolvedAt y = (if s = TicketStatusResolved then Some now2 else tk_ResolvedAt t)"
    by (simp add: y_def Ticket_update_row_def)
  note ok = validTransitions_ok [OF assms(1)]
  show "ticket_ok y" if "ticket_ok t"
  proof (cases "s = TicketStatusResolved")
    case True
    then show ?thesis unfolding ticket_ok_def status resolved by simp
  next
    case False
    have "tk_ResolvedAt t \<noteq> None" if "s = TicketStatusClosed"
      using \<open>ticket_ok t\<close> that ok unfolding ticket_ok_def by blast
    with ok False show ?thesis unfolding ticket_ok_def status resolved by auto
  qed
  have "ticket_edge t y"
  proof (cases "s = TicketStatusResolved")
    case True
    with assms(1) status resolved show ?thesis by (intro ticket_edge.resolve) auto
  next
    case False
    with assms(1) status resolved show ?thesis by (intro ticket_edge.move) auto
  qed
  then show "ticket_evolves t y" unfolding ticket_evolves_def by (simp add: y_def Ticket_update_row_def)
qed

lemma moves_Transition: "moves tickets_of tickets_evolve (Transition now1 now2 k s)"
  unfolding Transition_def Let_def
proof (rule moves_load_ticket, rule moves_if)
  fix t :: ticket assume v: "\<not> s \<notin> set (ticketTransitions (tk_Status t))"
  then have v: "s \<in> set (ticketTransitions (tk_Status t))" by simp
  show "moves tickets_of (\<lambda>T T'. T k = Some t \<longrightarrow> tickets_evolve T T')
    (seq_a (save_ticket (if s = TicketStatusResolved then t\<lparr>tk_Status := s, tk_UpdatedAt := now1\<rparr>\<lparr>tk_ResolvedAt := Some now2\<rparr>
        else t\<lparr>tk_Status := s, tk_UpdatedAt := now1\<rparr>))
      (ret_a (if s = TicketStatusResolved then t\<lparr>tk_Status := s, tk_UpdatedAt := now1\<rparr>\<lparr>tk_ResolvedAt := Some now2\<rparr>
        else t\<lparr>tk_Status := s, tk_UpdatedAt := now1\<rparr>)))"
    by (rule moves_save_ticket [OF _ transition_row [OF v] preserves_ret]) simp_all
qed (simp add: tickets.moves_throw)

lemma moves_templates:
  "moves tickets_of tickets_evolve (PublishTemplate now k)" "moves tickets_of tickets_evolve (Offline now k)"
  "moves tickets_of tickets_evolve (UpdateTemplate now k n f g)"
  "moves tickets_of tickets_evolve (CreateTemplate valid now nid t n' c f' g')"
  "moves tickets_of tickets_evolve (CreateCategory nid t n' c)"
  "moves tickets_of tickets_evolve (AddComment now nid k a x)"
  unfolding PublishTemplate_def Offline_def UpdateTemplate_def CreateTemplate_def CreateCategory_def AddComment_def Let_def
  by (intro tickets.moves_quiet tickets.reflp_evolves frame_intros)+

section \<open>Runs\<close>

datatype ticket_op = TCreate create_ticket_input | TEdit int "string option" "string option" "string option"
  | TAssign int int | TTransition int string | TComment int int string | TPublish int | TOffline int
  | TTemplate int string "int option" string string | TEditTemplate int "string option" "string option" "string option"
  | TCategory int string "int option"

definition exec_ticket :: "(string \<Rightarrow> bool) \<Rightarrow> (nat \<Rightarrow> gotime) \<times> int \<Rightarrow> ticket_op \<Rightarrow> unit tkact" where
  "exec_ticket valid q opn = (case q of (now, nid) \<Rightarrow> (case opn of
       TCreate inp \<Rightarrow> ignore_a (CreateTicket (now 0) nid inp)
     | TEdit k title description priority \<Rightarrow> UpdateTicket (now 0) k title description priority
     | TAssign k a \<Rightarrow> ignore_a (Assign (now 0) k a)
     | TTransition k s \<Rightarrow> ignore_a (Transition (now 0) (now 1) k s)
     | TComment k a x \<Rightarrow> AddComment (now 0) nid k a x
     | TPublish k \<Rightarrow> ignore_a (PublishTemplate (now 0) k)
     | TOffline k \<Rightarrow> ignore_a (Offline (now 0) k)
     | TTemplate t n c f g \<Rightarrow> ignore_a (CreateTemplate valid (now 0) nid t n c f g)
     | TEditTemplate k n f g \<Rightarrow> ignore_a (UpdateTemplate (now 0) k n f g)
     | TCategory t n p \<Rightarrow> ignore_a (CreateCategory nid t n p)))"

primrec run_tickets :: "(string \<Rightarrow> bool) \<Rightarrow> (((nat \<Rightarrow> gotime) \<times> int) \<times> ticket_op) list \<Rightarrow> ticket_world \<Rightarrow> ticket_world" where
  "run_tickets valid [] w = w"
| "run_tickets valid (q # qs) w = run_tickets valid qs (snd (exec_ticket valid (fst q) (snd q) w))"

lemma moves_exec_ticket: "moves tickets_of tickets_evolve (exec_ticket valid q opn)"
proof -
  obtain now nid where q: "q = (now, nid)" by fastforce
  show ?thesis
    unfolding exec_ticket_def q prod.case
    by (cases opn) (auto intro: moves_ignore moves_CreateTicket moves_UpdateTicket moves_Assign moves_Transition moves_templates)
qed

lemma run_tickets_row:
  "rows_ok tk_ID ticket_ok (tickets_of w) \<Longrightarrow> tickets_of w k = Some t \<Longrightarrow>
   rows_ok tk_ID ticket_ok (tickets_of (run_tickets valid qs w)) \<and>
   (\<exists>t'. tickets_of (run_tickets valid qs w) k = Some t' \<and> ticket_evolves\<^sup>*\<^sup>* t t')"
proof (induction qs arbitrary: w t)
  case (Cons q qs)
  have "tickets_evolve (tickets_of w) (tickets_of (snd (exec_ticket valid (fst q) (snd q) w)))"
    using moves_exec_ticket by (simp add: moves_def)
  note ev = evolvesD [OF this Cons.prems(1)]
  from ev(2) [OF Cons.prems(2)] obtain u where u:
    "tickets_of (snd (exec_ticket valid (fst q) (snd q) w)) k = Some u" "ticket_evolves t u" by blast
  from Cons.IH [OF ev(1) u(1)] u(2) show ?case by (auto intro: converse_rtranclp_into_rtranclp)
qed auto

lemma closed_final: "ticket_evolves\<^sup>*\<^sup>* t t' \<Longrightarrow> tk_Status t = TicketStatusClosed \<Longrightarrow>
    tk_Status t' = TicketStatusClosed \<and> tk_ResolvedAt t' = tk_ResolvedAt t"
  by (induction rule: rtranclp_induct) (auto simp: ticket_evolves_def ticketTransitions_def elim!: ticket_edgeE)

text \<open>
  C11. Whatever requests come in one after the other, and whatever statements fail, a stored ticket stays in the
  table and its status only moves along the transitions the service allows. A ticket that is resolved or closed has the time it was resolved,
  a closed ticket never changes its status again, and its tenant, template, customer and call are those it was created with.
\<close>

theorem ticket_lifecycle:
  assumes "rows_ok tk_ID ticket_ok (tickets_of w)" "tickets_of w k = Some t"
  shows "\<exists>t'. tickets_of (run_tickets valid qs w) k = Some t' \<and> ticket_ok t' \<and> ticket_evolves\<^sup>*\<^sup>* t t' \<and>
    (tk_Status t = TicketStatusClosed \<longrightarrow> tk_Status t' = TicketStatusClosed \<and> tk_ResolvedAt t' = tk_ResolvedAt t)"
proof -
  from run_tickets_row [OF assms] obtain t' where t': "rows_ok tk_ID ticket_ok (tickets_of (run_tickets valid qs w))"
    "tickets_of (run_tickets valid qs w) k = Some t'" "ticket_evolves\<^sup>*\<^sup>* t t'" by blast
  with closed_final [OF t'(3)] show ?thesis by (intro exI [of _ t']) (auto simp: rows_ok_def)
qed

definition ticket1 :: ticket where
  "ticket1 = \<lparr>tk_ID = 1, tk_TenantID = 7, tk_TemplateID = None, tk_CategoryID = None, tk_Title = ''t'', tk_Description = [],
     tk_Status = TicketStatusResolved, tk_Priority = ''high'', tk_CustomerID = None, tk_AssigneeID = None, tk_CallID = Some 9,
     tk_CustomData = [], tk_CreatedAt = 0, tk_UpdatedAt = 3, tk_ResolvedAt = Some 3\<rparr>"

definition ticket_world1 :: ticket_world where
  "ticket_world1 = \<lparr>tkw_tickets = \<lparr>lrows = [ticket1], loutages = []\<rparr>, tkw_templates = \<lparr>lrows = [], loutages = []\<rparr>,
     tkw_categories = \<lparr>lrows = [], loutages = []\<rparr>, tkw_comments = \<lparr>entries = [], journal_outages = []\<rparr>\<rparr>"

theorem ticket_lifecycle_witness:
  "\<exists>t'. tickets_of (run_tickets (\<lambda>_. True) [((\<lambda>_. 5, 2), TTransition 1 TicketStatusClosed),
      ((\<lambda>_. 6, 3), TEdit 1 (Some ''u'') None None)] ticket_world1) 1 = Some t' \<and> ticket_ok t' \<and> ticket_evolves\<^sup>*\<^sup>* ticket1 t'"
proof -
  have "rows_ok tk_ID ticket_ok (tickets_of ticket_world1)" "tickets_of ticket_world1 1 = Some ticket1"
    by (auto simp: rows_ok_def ticket_world1_def lrow_def ticket1_def ticket_ok_def split: if_splits)
  from ticket_lifecycle [OF this] show ?thesis by blast
qed

section \<open>An edit that interleaves\<close>

text \<open>
  The handler reads the ticket, sets the fields of the request and writes every column back. A transition
  between the read and the write is undone: here a ticket that was closed is resolved again.
\<close>

lemma interleaved_edit_reopens:
  "\<exists>t w1 w2 w3. load_ticket 1 ticket_world1 = (Inr t, w1) \<and>
     snd (Transition 5 5 1 TicketStatusClosed w1) = w2 \<and> map_option tk_Status (tickets_of w2 1) = Some TicketStatusClosed \<and>
     Update 6 (edit_ticket (Some ''u'') None None t) w2 = (Inr (), w3) \<and>
     map_option tk_Status (tickets_of w3 1) = Some TicketStatusResolved"
  by (simp add: load_ticket_def fetch_a_def Transition_def Update_def save_ticket_def store_a_def TicketRepo_def ltable_repo_def
      act_simps ticket_world1_def ticket1_def lrow_def edit_ticket_def ticketTransitions_def Ticket_update_row_def Let_def)

section \<open>Surveys\<close>

text \<open>
  A recorded rating at or below the threshold opens exactly one ticket, for the call and the tenant, of high priority and open; a rating
  above it opens none; a rating that is not recorded opens none. The table of tickets must answer and the new key be free.
\<close>

theorem low_rating_opens_ticket:
  assumes "RecordResult S now nid tid tenantID callID configID agentID rating comment channel w = (r, w')"
    and "sv_creator S = Some threshold" "0 < threshold"
    and "loutages (tkw_tickets (sw_tickets w)) = []" "tickets_of (sw_tickets w) tid = None"
  shows "lrows (tkw_tickets (sw_tickets w')) = lrows (tkw_tickets (sw_tickets w)) @
    (if rating \<le> threshold \<and> r = Inr () then
       [\<lparr>tk_ID = tid, tk_TenantID = tenantID, tk_TemplateID = None, tk_CategoryID = None,
         tk_Title = ''Low CSAT (score='' @ itoa rating @ '') for call '' @ itoa callID,
         tk_Description = ''Customer rated '' @ itoa rating @ ''/5. Comment: '' @ comment,
         tk_Status = TicketStatusOpen, tk_Priority = ''high'', tk_CustomerID = None, tk_AssigneeID = None,
         tk_CallID = Some callID, tk_CustomData = [], tk_CreatedAt = now, tk_UpdatedAt = now, tk_ResolvedAt = None\<rparr>]
     else [])"
  using assms
  by (auto simp: RecordResult_def act_simps CreateTicket_def auto_ticket_def validPriorities_def insert_a_def TicketRepo_def
      ltable_repo_def Let_def split: prod.splits sum.splits if_splits)

definition survey_world1 :: survey_world where
  "survey_world1 = \<lparr>sw_configs = \<lparr>lrows = [], loutages = []\<rparr>, sw_results = \<lparr>entries = [], journal_outages = []\<rparr>,
     sw_tickets = ticket_world1, sw_sms = []\<rparr>"

theorem low_rating_opens_ticket_witness:
  "\<exists>w'. RecordResult \<lparr>sv_creator = Some 2, sv_caller = None\<rparr> 8 20 21 7 9 3 None 1 ''bad'' ''ivr'' survey_world1 = (Inr (), w') \<and>
    length (lrows (tkw_tickets (sw_tickets w'))) = 2"
proof -
  obtain r w' where run: "RecordResult \<lparr>sv_creator = Some 2, sv_caller = None\<rparr> 8 20 21 7 9 3 None 1 ''bad'' ''ivr'' survey_world1 = (r, w')"
    by fastforce
  moreover from run have "r = Inr ()"
    by (auto simp: RecordResult_def act_simps survey_world1_def)
  ultimately show ?thesis
    using low_rating_opens_ticket [OF run, of 2]
    by (simp add: survey_world1_def ticket_world1_def lrow_def ticket1_def)
qed

end
