(* ===== verification/Webhook.thy ===== *)
theory Webhook
  imports Store Telephony Decimal
begin

text \<open>
  Webhooks, \<open>internal/application/webhook/service.go\<close>: which subscriptions an event goes to, the delivery with its
  retries, the dead letters, and the check of a subscription against the catalog of events.
\<close>

section \<open>Subscriptions\<close>

record webhook_config =
  wh_ID :: int
  wh_TenantID :: int
  wh_Name :: string
  wh_URL :: string
  wh_Secret :: string
  wh_Events :: string
  wh_IsActive :: bool
  wh_CreatedAt :: gotime
  wh_UpdatedAt :: gotime

record delivery_log =
  dl_ID :: int
  dl_TenantID :: int
  dl_WebhookConfigID :: int
  dl_EventType :: string
  dl_Payload :: string
  dl_ResponseStatus :: int
  dl_ResponseBody :: string
  dl_AttemptCount :: int
  dl_Success :: bool
  dl_ErrorMessage :: string
  dl_CreatedAt :: gotime

definition matchesEvent :: "string \<Rightarrow> string \<Rightarrow> bool" where
  "matchesEvent events eventType \<longleftrightarrow> events = ''*'' \<or> list_ex (\<lambda>e. TrimSpace e = eventType) (split_on CHR '','' events)"

definition EventCatalog :: "string list" where
  "EventCatalog = [''call.created'', ''call.answered'', ''call.ended'', ''call.transferred'', ''call.queued'',
     ''agent.status_changed'', ''agent.checkin'', ''agent.checkout'', ''campaign.started'', ''campaign.completed'',
     ''campaign.paused'', ''ticket.created'', ''ticket.updated'', ''ticket.resolved'', ''csat.submitted'',
     ''im.session.created'', ''im.session.closed'', ''recording.completed'', ''qa.alert'', ''sla.alarm'']"

text \<open>The first event of a subscription that the catalog does not have; \<open>[]\<close> when there is none.\<close>

definition ValidateSubscription :: "string \<Rightarrow> string" where
  "ValidateSubscription events =
     (if events = ''*'' \<or> events = [] then []
      else case find (\<lambda>e. TrimSpace e \<noteq> [] \<and> TrimSpace e \<notin> set EventCatalog) (split_on CHR '','' events) of
          None \<Rightarrow> [] | Some e \<Rightarrow> TrimSpace e)"

section \<open>Delivery\<close>

text \<open>
  What an attempt meets: a request that cannot be built, a transport error, or a response with its
  status and the part of its body that is read.
\<close>

datatype attempt = NoRequest string | NoResponse string | Response int string

definition isRetryable :: "int \<Rightarrow> bool" where
  "isRetryable st \<longleftrightarrow> st = 0 \<or> 500 \<le> st \<or> st = 408 \<or> st = 429"

text \<open>\<open>rnd n\<close> is what \<open>rand.Int63n(n)\<close> gives; the shift is on Go's 64-bit \<open>int\<close>.\<close>

definition backoffFor :: "(int \<Rightarrow> int) \<Rightarrow> nat \<Rightarrow> int" where
  "backoffFor rnd attempt =
     (let base = sint (push_bit attempt (1 :: 64 word) * word_of_int second);
          base = (if base > 60 * second then 60 * second else base)
      in base + rnd (base div 5))"

definition maxRetry :: nat where "maxRetry = 3"

record delivery =
  dv_status :: int
  dv_body :: string
  dv_error :: string
  dv_success :: bool
  dv_attempts :: nat
  dv_sleeps :: "nat list"

text \<open>
  The loop from attempt \<open>n\<close> on; \<open>net\<close> is what each attempt meets. \<open>dv_sleeps\<close> are the attempts after which
  the delivery waits.
\<close>

function deliver_from :: "(nat \<Rightarrow> attempt) \<Rightarrow> nat \<Rightarrow> delivery \<Rightarrow> delivery" where
  "deliver_from net n d =
     (if n > maxRetry then d
      else let d1 = d\<lparr>dv_attempts := n\<rparr>;
               nap = (\<lambda>x. if n < maxRetry then x\<lparr>dv_sleeps := dv_sleeps x @ [n]\<rparr> else x)
           in case net n of
                NoRequest e \<Rightarrow> deliver_from net (n + 1) (d1\<lparr>dv_error := e\<rparr>)
              | NoResponse e \<Rightarrow> deliver_from net (n + 1) (nap (d1\<lparr>dv_error := e, dv_status := 0\<rparr>))
              | Response st body \<Rightarrow>
                  (let d2 = d1\<lparr>dv_status := st, dv_body := body\<rparr>
                   in if 200 \<le> st \<and> st < 300 then d2\<lparr>dv_success := True\<rparr>
                      else let d3 = d2\<lparr>dv_error := ''HTTP '' @ itoa st\<rparr>
                           in if \<not> isRetryable st then d3 else deliver_from net (n + 1) (nap d3)))"
  by auto
termination by (relation "measure (\<lambda>(net, n, d). Suc maxRetry - n)") auto

declare deliver_from.simps [simp del]

definition no_delivery :: delivery where
  "no_delivery = \<lparr>dv_status = 0, dv_body = [], dv_error = [], dv_success = False, dv_attempts = 0, dv_sleeps = []\<rparr>"

text \<open>\<open>wk_pending\<close>: the deliveries that run in goroutines (configuration, event, payload).\<close>

record webhook_world =
  wk_configs :: "webhook_config ltable"
  wk_logs :: "delivery_log ltable"
  wk_pending :: "(webhook_config \<times> string \<times> string) list"

definition deliverToConfig ::
  "(nat \<Rightarrow> attempt) \<Rightarrow> gotime \<Rightarrow> int \<Rightarrow> webhook_config \<Rightarrow> string \<Rightarrow> string \<Rightarrow> (webhook_world, string, unit) act" where
  "deliverToConfig net now nid c eventType payload =
     (let d = deliver_from net 1 no_delivery
      in ignore_a (zoom_a wk_logs (\<lambda>d w. w\<lparr>wk_logs := d\<rparr>) (ins_row dl_ID (\<lambda>l. l)
           \<lparr>dl_ID = nid, dl_TenantID = wh_TenantID c, dl_WebhookConfigID = wh_ID c, dl_EventType = eventType, dl_Payload = payload,
            dl_ResponseStatus = dv_status d, dl_ResponseBody = dv_body d, dl_AttemptCount = int (dv_attempts d),
            dl_Success = dv_success d, dl_ErrorMessage = dv_error d, dl_CreatedAt = now\<rparr>)))"

definition ListActiveByEvent :: "int \<Rightarrow> string \<Rightarrow> (webhook_world, string, webhook_config list) act" where
  "ListActiveByEvent tenantID eventType =
     bind_a (zoom_a wk_configs (\<lambda>d w. w\<lparr>wk_configs := d\<rparr>) (sel_all (\<lambda>c. wh_TenantID c = tenantID \<and> wh_IsActive c)))
       (\<lambda>cs. ret_a (filter (\<lambda>c. matchesEvent (wh_Events c) eventType) cs))"

text \<open>\<open>Deliver\<close> starts a delivery for each subscription; a failed query is only logged.\<close>

definition Deliver :: "int \<Rightarrow> string \<Rightarrow> string \<Rightarrow> (webhook_world, string, unit) act" where
  "Deliver tenantID eventType payload = try_a (ListActiveByEvent tenantID eventType) (\<lambda>r.
     case r of
       Inl _ \<Rightarrow> ret_a ()
     | Inr cs \<Rightarrow> modify_a (\<lambda>w. w\<lparr>wk_pending := wk_pending w @
         map (\<lambda>c. (c, eventType, payload)) (filter (\<lambda>c. matchesEvent (wh_Events c) eventType) cs)\<rparr>))"

definition RetryDLQ :: "int \<Rightarrow> (webhook_world, string, unit) act" where
  "RetryDLQ k =
     bind_a (zoom_a wk_logs (\<lambda>d w. w\<lparr>wk_logs := d\<rparr>) (sel_row dl_ID k)) (\<lambda>l.
     case l of
       None \<Rightarrow> throw_a ''webhook: dlq entry not found''
     | Some l \<Rightarrow> try_a (zoom_a wk_configs (\<lambda>d w. w\<lparr>wk_configs := d\<rparr>) (sel_row wh_ID (dl_WebhookConfigID l))) (\<lambda>c.
         case c of
           Inr (Some c) \<Rightarrow> modify_a (\<lambda>w. w\<lparr>wk_pending := wk_pending w @ [(c, dl_EventType l, dl_Payload l)]\<rparr>)
         | _ \<Rightarrow> throw_a ''webhook: config not found''))"

definition dead_letter :: "int \<Rightarrow> delivery_log \<Rightarrow> bool" where
  "dead_letter tenantID l \<longleftrightarrow> dl_TenantID l = tenantID \<and> \<not> dl_Success l"

definition PurgeDLQ :: "int \<Rightarrow> gotime \<Rightarrow> (webhook_world, string, int) act" where
  "PurgeDLQ tenantID before = zoom_a wk_logs (\<lambda>d w. w\<lparr>wk_logs := d\<rparr>) (on_link (\<lambda>t.
     (Inr (int (length (filter (\<lambda>l. dead_letter tenantID l \<and> dl_CreatedAt l < before) (lrows t)))),
      t\<lparr>lrows := filter (\<lambda>l. \<not> (dead_letter tenantID l \<and> dl_CreatedAt l < before)) (lrows t)\<rparr>)))"

section \<open>What a delivery does\<close>

text \<open>The abstract outcome: an attempt settles the delivery when it is answered with success or a final refusal.\<close>

definition settles :: "attempt \<Rightarrow> bool" where
  "settles a \<longleftrightarrow> (case a of Response st _ \<Rightarrow> (200 \<le> st \<and> st < 300) \<or> \<not> isRetryable st | _ \<Rightarrow> False)"

definition accepts :: "attempt \<Rightarrow> bool" where
  "accepts a \<longleftrightarrow> (case a of Response st _ \<Rightarrow> 200 \<le> st \<and> st < 300 | _ \<Rightarrow> False)"

lemma accepts_settles: "accepts a \<Longrightarrow> settles a"
  by (cases a) (auto simp: accepts_def settles_def)

text \<open>The attempts made: up to the first that settles the delivery, three at most.\<close>

definition attempts_made :: "(nat \<Rightarrow> attempt) \<Rightarrow> nat" where
  "attempts_made net = (if settles (net 1) then 1 else if settles (net 2) then 2 else 3)"

lemma deliver_loop:
  "let d = deliver_from net 1 no_delivery
   in dv_attempts d = attempts_made net \<and> dv_success d = accepts (net (attempts_made net)) \<and>
      (\<forall>st b. net (attempts_made net) = Response st b \<longrightarrow> dv_status d = st \<and> dv_body d = b) \<and>
      (dv_success d \<longrightarrow> (\<exists>st b. net (attempts_made net) = Response st b)) \<and>
      dv_sleeps d = filter (\<lambda>n. \<not> (\<exists>e. net n = NoRequest e)) [1..<attempts_made net]"
proof -
  note unroll = deliver_from.simps [of net "Suc 0"] deliver_from.simps [of net "Suc (Suc 0)"]
    deliver_from.simps [of net "Suc (Suc (Suc 0))"] deliver_from.simps [of net "Suc (Suc (Suc (Suc 0)))"]
  show ?thesis
    by (cases "net 1"; cases "net 2"; cases "net 3")
      (simp_all add: unroll no_delivery_def maxRetry_def attempts_made_def settles_def accepts_def Let_def numeral_eq_Suc)
qed

lemma deliver_bounds: "1 \<le> attempts_made net" "attempts_made net \<le> maxRetry"
  by (simp_all add: attempts_made_def maxRetry_def)

text \<open>
  C35. A delivery makes at most three attempts, stops at the first one that is answered with success or with a
  final refusal, and then inserts one log entry: it is marked as delivered exactly when the last attempt was answered with a status
  of the 200s, and then it bears the status and the body of that answer. The entry is in the log afterwards unless the insert
  fails, because the statement reports an error or its identifier is taken; the delivery is then not recorded, and
  nothing else of the log has changed in any case.
\<close>

theorem delivery_recorded:
  "\<exists>l. lrows (wk_logs (snd (deliverToConfig net now nid c eventType payload w))) =
       (if next_statement_fails (wk_logs w) \<or> lrow dl_ID (wk_logs w) nid \<noteq> None then lrows (wk_logs w)
        else lrows (wk_logs w) @ [l]) \<and>
    dl_ID l = nid \<and> dl_TenantID l = wh_TenantID c \<and> dl_EventType l = eventType \<and>
    dl_WebhookConfigID l = wh_ID c \<and> dl_Payload l = payload \<and> dl_AttemptCount l \<le> 3 \<and>
    dl_AttemptCount l = int (attempts_made net) \<and> (\<forall>n. 1 \<le> n \<and> n < attempts_made net \<longrightarrow> \<not> settles (net n)) \<and>
    (dl_Success l \<longleftrightarrow> (\<exists>st body. net (attempts_made net) = Response st body \<and> 200 \<le> st \<and> st < 300 \<and>
       dl_ResponseStatus l = st \<and> dl_ResponseBody l = body))"
proof -
  let ?d = "deliver_from net 1 no_delivery"
  let ?l = "\<lparr>dl_ID = nid, dl_TenantID = wh_TenantID c, dl_WebhookConfigID = wh_ID c, dl_EventType = eventType, dl_Payload = payload,
            dl_ResponseStatus = dv_status ?d, dl_ResponseBody = dv_body ?d, dl_AttemptCount = int (dv_attempts ?d),
            dl_Success = dv_success ?d, dl_ErrorMessage = dv_error ?d, dl_CreatedAt = now\<rparr>"
  have "wk_logs (snd (deliverToConfig net now nid c eventType payload w)) = snd (ins_row dl_ID (\<lambda>l. l) ?l (wk_logs w))"
    by (simp add: deliverToConfig_def act_simps Let_def split: prod.splits)
  then have "lrows (wk_logs (snd (deliverToConfig net now nid c eventType payload w))) =
       (if next_statement_fails (wk_logs w) \<or> lrow dl_ID (wk_logs w) nid \<noteq> None then lrows (wk_logs w)
        else lrows (wk_logs w) @ [?l])" by (simp add: ins_row_rows)
  moreover have "\<forall>n. 1 \<le> n \<and> n < attempts_made net \<longrightarrow> \<not> settles (net n)"
  proof (intro allI impI)
    fix n assume n: "1 \<le> n \<and> n < attempts_made net"
    then have "n = 1 \<and> \<not> settles (net 1) \<or> n = 2 \<and> \<not> settles (net 2)"
      by (cases "settles (net 1)"; cases "settles (net 2)"; cases "n = 1") (auto simp: attempts_made_def)
    then show "\<not> settles (net n)" by auto
  qed
  moreover have "dv_success ?d \<longleftrightarrow> (\<exists>st body. net (attempts_made net) = Response st body \<and> 200 \<le> st \<and> st < 300 \<and>
       dv_status ?d = st \<and> dv_body ?d = body)"
    using deliver_loop [of net] by (cases "net (attempts_made net)") (auto simp: accepts_def Let_def)
  ultimately show ?thesis
    using deliver_loop [of net] deliver_bounds [of net] by (intro exI [of _ ?l]) (simp add: Let_def maxRetry_def)
qed

definition webhook_config1 :: webhook_config where
  "webhook_config1 = \<lparr>wh_ID = 1, wh_TenantID = 7, wh_Name = [], wh_URL = ''https://x'', wh_Secret = [], wh_Events = ''call.ended, csat.submitted'',
     wh_IsActive = True, wh_CreatedAt = 0, wh_UpdatedAt = 0\<rparr>"

definition webhook_world1 :: webhook_world where
  "webhook_world1 = \<lparr>wk_configs = \<lparr>lrows = [webhook_config1], loutages = []\<rparr>, wk_logs = \<lparr>lrows = [], loutages = []\<rparr>, wk_pending = []\<rparr>"

theorem delivery_recorded_witness:
  "\<exists>l. lrows (wk_logs (snd (deliverToConfig (\<lambda>n. if n = 1 then NoResponse ''reset'' else if n = 2 then Response 204 [] else NoRequest [])
      5 9 webhook_config1 ''call.ended'' ''{}'' webhook_world1))) = [l] \<and> dl_AttemptCount l = 2 \<and> dl_Success l"
proof -
  let ?net = "\<lambda>n :: nat. if n = 1 then NoResponse ''reset'' else if n = 2 then Response 204 [] else NoRequest []"
  have ok: "\<not> next_statement_fails (wk_logs webhook_world1)" "lrow dl_ID (wk_logs webhook_world1) 9 = None"
    by (simp_all add: webhook_world1_def lrow_def next_statement_fails_def)
  from delivery_recorded [of ?net 5 9 webhook_config1 "''call.ended''" "''{}''" webhook_world1] ok obtain l where l:
    "lrows (wk_logs (snd (deliverToConfig ?net 5 9 webhook_config1 ''call.ended'' ''{}'' webhook_world1))) = lrows (wk_logs webhook_world1) @ [l]"
    "dl_AttemptCount l = int (attempts_made ?net)"
    "dl_Success l \<longleftrightarrow> (\<exists>st body. ?net (attempts_made ?net) = Response st body \<and> 200 \<le> st \<and> st < 300 \<and>
       dl_ResponseStatus l = st \<and> dl_ResponseBody l = body)" by auto
  moreover have "attempts_made ?net = 2" by (simp add: attempts_made_def settles_def)
  moreover have "dl_ResponseStatus l = 204 \<and> dl_ResponseBody l = []"
    using l(1) by (auto simp: deliverToConfig_def act_simps Let_def webhook_world1_def lrow_def deliver_from.simps maxRetry_def
        no_delivery_def isRetryable_def)
  ultimately show ?thesis by (intro exI [of _ l]) (simp add: webhook_world1_def)
qed

text \<open>The waits: between the attempt's power of two in seconds and a fifth more, never less.\<close>

lemma backoff_bounds:
  assumes "n = 1 \<or> n = 2" "\<And>k. 0 < k \<Longrightarrow> 0 \<le> rnd k \<and> rnd k < k"
  shows "2 ^ n * second \<le> backoffFor rnd n \<and> backoffFor rnd n < 2 ^ n * second + 2 ^ n * second div 5"
  using assms(1) assms(2) [of 400000000] assms(2) [of 800000000]
  by (auto simp: backoffFor_def second_def Let_def push_bit_eq_mult)

text \<open>
  A subscription the check accepts matches no event outside the catalog, and an event it
  rejects is one of its parts; \<open>*\<close> counts only on its own.
\<close>

lemma ValidateSubscription_sound:
  "ValidateSubscription events = [] \<Longrightarrow> events \<noteq> ''*'' \<Longrightarrow> matchesEvent events ty \<Longrightarrow> ty \<noteq> [] \<Longrightarrow> ty \<in> set EventCatalog"
  by (auto simp: ValidateSubscription_def matchesEvent_def list_ex_iff TrimSpace_def find_None_iff
      split: if_splits option.splits dest!: find_Some_iff [THEN iffD1])

lemma Deliver_pending:
  assumes "loutages (wk_configs w) = []"
  shows "wk_pending (snd (Deliver tenantID eventType payload w)) = wk_pending w @ map (\<lambda>c. (c, eventType, payload))
    (filter (\<lambda>c. wh_TenantID c = tenantID \<and> wh_IsActive c \<and> matchesEvent (wh_Events c) eventType) (lrows (wk_configs w)))"
  using assms by (simp add: Deliver_def ListActiveByEvent_def act_simps)

lemma PurgeDLQ_keeps_delivered:
  assumes "PurgeDLQ tenantID before w = (Inr n, w')"
  shows "filter dl_Success (lrows (wk_logs w')) = filter dl_Success (lrows (wk_logs w)) \<and>
    int (length (lrows (wk_logs w'))) = int (length (lrows (wk_logs w))) - n"
proof -
  let ?old = "\<lambda>l. dead_letter tenantID l \<and> dl_CreatedAt l < before"
  have "lrows (wk_logs w') = filter (\<lambda>l. \<not> ?old l) (lrows (wk_logs w)) \<and> n = int (length (filter ?old (lrows (wk_logs w))))"
    using assms by (auto simp: PurgeDLQ_def act_simps on_link_def split: list.splits if_splits)
  moreover have "filter dl_Success (filter (\<lambda>l. \<not> ?old l) ls) = filter dl_Success ls" for ls
    by (induction ls) (auto simp: dead_letter_def)
  ultimately show ?thesis using sum_length_filter_compl [of ?old "lrows (wk_logs w)"] by simp
qed

end
