(* ===== verification/Auth.thy ===== *)
theory Auth
  imports Store GoStrings Decimal
begin

text \<open>
  Who may call the API: login and token refresh (\<open>interfaces/http/handler/auth.go\<close>), the middleware chain
  \<open>middleware/auth.go\<close>, \<open>tenant_guard.go\<close>, \<open>service_auth.go\<close>, \<open>ratelimit.go\<close> with the Redis script of
  \<open>infrastructure/redis/ratelimiter.go\<close>, and the password change of \<open>domain/identity/service.go\<close>. Tokens are
  opaque: the JWT library, bcrypt, SHA-256 and HMAC are parameters.
\<close>

section \<open>Integers through float64\<close>

text \<open>
  A JSON number decoded without a target type is a float64: 53 significant bits, rounded to the
  nearest, ties to even.
\<close>

fun bit_length :: "nat \<Rightarrow> nat" where
  "bit_length n = (if n = 0 then 0 else Suc (bit_length (n div 2)))"

declare bit_length.simps [simp del]

definition float64_nat :: "nat \<Rightarrow> nat" where
  "float64_nat n =
     (let s = bit_length n - 53; q = n div 2 ^ s; r = n mod 2 ^ s
      in if s = 0 then n
         else if 2 ^ s < 2 * r \<or> (2 ^ s = 2 * r \<and> odd q) then (q + 1) * 2 ^ s else q * 2 ^ s)"

definition float64_of :: "int \<Rightarrow> int" where
  "float64_of i = (if i < 0 then - int (float64_nat (nat (- i))) else int (float64_nat (nat i)))"

section \<open>Users and tokens\<close>

record user =
  u_ID :: int
  u_TenantID :: int
  u_Username :: string
  u_DisplayName :: string
  u_Email :: string
  u_Phone :: string
  u_Role :: string
  u_Status :: string
  u_PasswordHash :: string
  u_CreatedAt :: gotime
  u_UpdatedAt :: gotime

type_synonym user_table = "user ltable"

datatype auth_error = ErrCredentials | ErrRequired | ErrNotSet | ErrTokenInvalid | ErrNotRefresh | ErrRefreshAsAccess
  | ErrNoUser | ErrWeakPassword | ErrWrongPassword | ErrAuthStore string

text \<open>
  \<open>GetByID\<close> and \<open>FindByUsernameGlobal\<close>: rows marked deleted are not seen, a missing row is an error. \<open>same\<close>: the comparison
  of the column \<open>username\<close>, whose collation (\<open>utf8mb4_0900_ai_ci\<close>) takes no account of case and accents.
\<close>

definition GetUserByID :: "int \<Rightarrow> (user_table, string, user) act" where
  "GetUserByID k = bind_a (sel_all (\<lambda>u. u_ID u = k \<and> u_Status u \<noteq> ''deleted'')) (\<lambda>us.
     case us of [] \<Rightarrow> throw_a ''sql: no rows in result set'' | u # _ \<Rightarrow> ret_a u)"

definition FindByUsernameGlobal :: "(string \<Rightarrow> string \<Rightarrow> bool) \<Rightarrow> string \<Rightarrow> (user_table, string, user) act" where
  "FindByUsernameGlobal same name = bind_a (sel_all (\<lambda>u. same (u_Username u) name \<and> u_Status u \<noteq> ''deleted'')) (\<lambda>us.
     case us of [] \<Rightarrow> throw_a ''sql: no rows in result set'' | u # _ \<Rightarrow> ret_a u)"

record claims =
  cl_Sub :: string
  cl_TenantID :: int
  cl_UserID :: int
  cl_Role :: string
  cl_Type :: string
  cl_Iat :: int
  cl_Exp :: int

text \<open>
  The JWT library with the secret of the server: \<open>jwt_sign\<close> makes a token of claims, \<open>jwt_parse\<close> checks signature and expiry at a
  time and gives the claims back.
\<close>

record 'tok jwt =
  jwt_sign :: "claims \<Rightarrow> 'tok"
  jwt_parse :: "gotime \<Rightarrow> 'tok \<Rightarrow> claims option"

definition unix_sec :: "gotime \<Rightarrow> int" where
  "unix_sec t = t div second - 62135596800"

definition issueTokens :: "'tok jwt \<Rightarrow> gotime \<Rightarrow> user \<Rightarrow> 'tok \<times> 'tok" where
  "issueTokens J now u =
     (jwt_sign J \<lparr>cl_Sub = itoa (u_ID u), cl_TenantID = u_TenantID u, cl_UserID = u_ID u, cl_Role = u_Role u, cl_Type = ''access'',
        cl_Iat = unix_sec now, cl_Exp = unix_sec (now + 900 * second)\<rparr>,
      jwt_sign J \<lparr>cl_Sub = itoa (u_ID u), cl_TenantID = u_TenantID u, cl_UserID = u_ID u, cl_Role = [], cl_Type = ''refresh'',
        cl_Iat = unix_sec now, cl_Exp = unix_sec (now + 604800 * second)\<rparr>)"

text \<open>\<open>crypt\<close>: \<open>bcrypt.CompareHashAndPassword\<close> succeeds.\<close>

definition Login ::
  "'tok jwt \<Rightarrow> (string \<Rightarrow> string \<Rightarrow> bool) \<Rightarrow> (string \<Rightarrow> string \<Rightarrow> bool) \<Rightarrow> gotime \<Rightarrow> string \<Rightarrow> string \<Rightarrow>
     (user_table, auth_error, ('tok \<times> 'tok) \<times> user) act" where
  "Login J same crypt now username password =
     (if username = [] \<or> password = [] then throw_a ErrRequired
      else try_a (FindByUsernameGlobal same username) (\<lambda>r.
        case r of
          Inl _ \<Rightarrow> throw_a ErrCredentials
        | Inr u \<Rightarrow>
            if u_PasswordHash u = [] then throw_a ErrNotSet
            else if \<not> crypt (u_PasswordHash u) password then throw_a ErrCredentials
            else ret_a (issueTokens J now u, u)))"

text \<open>The empty token is \<open>None\<close>; the user id of the claims is read as a float64.\<close>

definition RefreshToken ::
  "'tok jwt \<Rightarrow> gotime \<Rightarrow> 'tok option \<Rightarrow> (user_table, auth_error, ('tok \<times> 'tok) \<times> user) act" where
  "RefreshToken J now tok =
     (case tok of
        None \<Rightarrow> throw_a ErrRequired
      | Some t \<Rightarrow> (case jwt_parse J now t of
          None \<Rightarrow> throw_a ErrTokenInvalid
        | Some c \<Rightarrow>
            if cl_Type c \<noteq> ''refresh'' then throw_a ErrNotRefresh
            else try_a (GetUserByID (float64_of (cl_UserID c))) (\<lambda>r.
              case r of Inl _ \<Rightarrow> throw_a ErrNoUser | Inr u \<Rightarrow> ret_a (issueTokens J now u, u))))"

section \<open>The middleware\<close>

record req_ctx =
  cx_TenantID :: int
  cx_UserID :: int
  cx_Role :: string

text \<open>\<open>Auth\<close>: no \<open>Bearer\<close> header is \<open>None\<close>.\<close>

definition AuthMiddleware :: "'tok jwt \<Rightarrow> gotime \<Rightarrow> 'tok option \<Rightarrow> auth_error + req_ctx" where
  "AuthMiddleware J now header =
     (case header of
        None \<Rightarrow> Inl ErrRequired
      | Some t \<Rightarrow> (case jwt_parse J now t of
          None \<Rightarrow> Inl ErrTokenInvalid
        | Some c \<Rightarrow> if cl_Type c = ''refresh'' then Inl ErrRefreshAsAccess
                    else Inr \<lparr>cx_TenantID = cl_TenantID c, cx_UserID = cl_UserID c, cx_Role = cl_Role c\<rparr>))"

definition RequireRole :: "string list \<Rightarrow> req_ctx \<Rightarrow> bool" where
  "RequireRole roles cx \<longleftrightarrow> cx_Role cx \<in> set roles"

definition other_tenant :: "string \<Rightarrow> int \<Rightarrow> bool" where
  "other_tenant s tenant \<longleftrightarrow> (case parse_int64 s of None \<Rightarrow> False | Some tid \<Rightarrow> tid \<noteq> tenant)"

text \<open>The segment after \<open>/tenants/\<close> in a path; a slash at its start is part of it.\<close>

definition tenant_segment :: "string \<Rightarrow> string option" where
  "tenant_segment path = (case cut_at ''/tenants/'' path of
     None \<Rightarrow> None
   | Some (_, rest) \<Rightarrow> Some (case cut_at ''/'' rest of None \<Rightarrow> rest | Some (seg, _) \<Rightarrow> if seg = [] then rest else seg))"

definition TenantGuard :: "req_ctx \<Rightarrow> string \<Rightarrow> string \<Rightarrow> bool" where
  "TenantGuard cx query path \<longleftrightarrow>
     cx_TenantID cx = 0 \<or> cx_Role cx = ''super_admin'' \<or>
     \<not> (query \<noteq> [] \<and> other_tenant query (cx_TenantID cx)) \<and>
     (case tenant_segment path of None \<Rightarrow> True | Some seg \<Rightarrow> \<not> other_tenant seg (cx_TenantID cx))"

section \<open>Calls between services\<close>

record service_request =
  sq_Timestamp :: string
  sq_Token :: string
  sq_Tenant :: string
  sq_Method :: string
  sq_Path :: string
  sq_Body :: string

definition serviceAuthMaxSkew :: int where "serviceAuthMaxSkew = 300 * second"

type_synonym nonce_cache = "string \<rightharpoonup> gotime"

definition seen :: "string \<Rightarrow> gotime \<Rightarrow> nonce_cache \<Rightarrow> bool \<times> nonce_cache" where
  "seen token now c =
     (let kept = (\<lambda>k. case c k of None \<Rightarrow> None
            | Some t \<Rightarrow> if time_sub now t > serviceAuthMaxSkew * 2 then None else Some t)
      in if kept token \<noteq> None then (True, kept) else (False, kept(token \<mapsto> now)))"

text \<open>\<open>mac\<close>: the hexadecimal HMAC-SHA256 under the secret; \<open>sha\<close>: the hexadecimal SHA-256 of a body.\<close>

definition service_payload :: "(string \<Rightarrow> string) \<Rightarrow> int \<Rightarrow> service_request \<Rightarrow> string" where
  "service_payload sha ts q = itoa ts @ [CHR 0x0A] @ sq_Method q @ [CHR 0x0A] @ sq_Path q @ [CHR 0x0A] @ sha (sq_Body q)"

definition time_Unix :: "int \<Rightarrow> gotime" where
  "time_Unix s = (s + 62135596800) * second"

definition ServiceAuth ::
  "string \<Rightarrow> (string \<Rightarrow> string) \<Rightarrow> (string \<Rightarrow> string) \<Rightarrow> gotime \<Rightarrow> service_request \<Rightarrow> nonce_cache \<Rightarrow> req_ctx option \<times> nonce_cache" where
  "ServiceAuth secret mac sha now q c =
     (if secret = [] \<or> sq_Timestamp q = [] \<or> sq_Token q = [] then (None, c)
      else case parse_int64 (sq_Timestamp q) of
        None \<Rightarrow> (None, c)
      | Some ts \<Rightarrow>
          (let d = time_sub now (time_Unix ts)
           in if d > serviceAuthMaxSkew \<or> d < - serviceAuthMaxSkew then (None, c)
              else if mac (service_payload sha ts q) \<noteq> sq_Token q then (None, c)
              else (case seen (sq_Token q) now c of (replayed, c') \<Rightarrow>
                if replayed then (None, c')
                else (Some \<lparr>cx_TenantID = (case parse_int64 (sq_Tenant q) of None \<Rightarrow> 0 | Some t \<Rightarrow> t),
                        cx_UserID = 0, cx_Role = ''service''\<rparr>, c'))))"

section \<open>Rate limits\<close>

text \<open>
  The Redis key of a tenant: its count and when it expires. The script compares, increments, and sets the expiry of one second
  on the first increment. \<open>down\<close>: the script fails, and the request passes.
\<close>

type_synonym bucket_key = "(int \<times> gotime) option"

definition live_key :: "gotime \<Rightarrow> bucket_key \<Rightarrow> bucket_key" where
  "live_key now k = (case k of None \<Rightarrow> None | Some (n, e) \<Rightarrow> if e \<le> now then None else Some (n, e))"

definition Allow :: "int \<Rightarrow> gotime \<Rightarrow> bucket_key \<Rightarrow> bool \<times> bucket_key" where
  "Allow rate now k =
     (case live_key now k of
        None \<Rightarrow> (True, Some (1, now + second))
      | Some (n, e) \<Rightarrow> if rate \<le> n then (False, Some (n, e)) else (True, Some (n + 1, e)))"

record rate_state =
  rs_cache :: "int \<rightharpoonup> int \<times> gotime"
  rs_keys :: "int \<Rightarrow> bucket_key"

definition rateCacheTTL :: int where "rateCacheTTL = 60 * second"

text \<open>\<open>settings\<close>: what the query of the tenant's settings gives.\<close>

definition tenant_rate :: "int option \<Rightarrow> int \<Rightarrow> int" where
  "tenant_rate settings defaultRate = (case settings of None \<Rightarrow> defaultRate | Some r \<Rightarrow> if r > 0 then r else defaultRate)"

definition resolve_rate :: "int option \<Rightarrow> int \<Rightarrow> gotime \<Rightarrow> int \<Rightarrow> rate_state \<Rightarrow> int \<times> rate_state" where
  "resolve_rate settings defaultRate now tenant s =
     (case rs_cache s tenant of
        Some (limit, e) \<Rightarrow> if now < e then (limit, s)
          else (tenant_rate settings defaultRate,
                s\<lparr>rs_cache := (rs_cache s)(tenant \<mapsto> (tenant_rate settings defaultRate, now + rateCacheTTL))\<rparr>)
      | None \<Rightarrow> (tenant_rate settings defaultRate,
                s\<lparr>rs_cache := (rs_cache s)(tenant \<mapsto> (tenant_rate settings defaultRate, now + rateCacheTTL))\<rparr>))"

definition RateLimit :: "bool \<Rightarrow> int option \<Rightarrow> int \<Rightarrow> gotime \<Rightarrow> req_ctx \<Rightarrow> rate_state \<Rightarrow> bool \<times> rate_state" where
  "RateLimit down settings defaultRate now cx s =
     (if cx_TenantID cx = 0 then (True, s)
      else case resolve_rate settings defaultRate now (cx_TenantID cx) s of (limit, s1) \<Rightarrow>
        if down then (True, s1)
        else (case Allow limit now (rs_keys s1 (cx_TenantID cx)) of (ok, k) \<Rightarrow>
          (ok, s1\<lparr>rs_keys := (rs_keys s1)(cx_TenantID cx := k)\<rparr>)))"

section \<open>Passwords\<close>

text \<open>Letters and digits of ASCII; \<open>hash\<close> is \<open>bcrypt.GenerateFromPassword\<close>, which refuses more than 72 bytes.\<close>

definition is_letter :: "char \<Rightarrow> bool" where
  "is_letter c = (let n = (of_char c :: nat) in (65 \<le> n \<and> n \<le> 90) \<or> (97 \<le> n \<and> n \<le> 122))"

definition validatePasswordStrength :: "string \<Rightarrow> bool" where
  "validatePasswordStrength p \<longleftrightarrow> 8 \<le> length p \<and> list_ex is_letter p \<and> list_ex is_digit p"

definition ChangePassword ::
  "(string \<Rightarrow> string \<Rightarrow> bool) \<Rightarrow> (string \<Rightarrow> string option) \<Rightarrow> gotime \<Rightarrow> int \<Rightarrow> string \<Rightarrow> string \<Rightarrow> (user_table, auth_error, unit) act" where
  "ChangePassword crypt hash dbnow k old new =
     bind_a (wrap_a ErrAuthStore (GetUserByID k)) (\<lambda>u.
     if u_PasswordHash u = [] then throw_a ErrNotSet
     else if \<not> crypt (u_PasswordHash u) old then throw_a ErrWrongPassword
     else if \<not> validatePasswordStrength new then throw_a ErrWeakPassword
     else case hash new of
         None \<Rightarrow> throw_a (ErrAuthStore ''bcrypt: password length exceeds 72 bytes'')
       | Some h \<Rightarrow> wrap_a ErrAuthStore (upd_rows (\<lambda>r. u_ID r = k) (\<lambda>r. r\<lparr>u_PasswordHash := h, u_UpdatedAt := dbnow\<rparr>)))"

end
