(* ===== verification/AuthProps.thy ===== *)
theory AuthProps
  imports Auth
begin

text \<open>
  What the tokens are good for and for how long, when a refresh finds its user, that a call between services
  is accepted once, and how many requests a tenant gets through.
\<close>

section \<open>Integers through float64\<close>

lemma bit_length_bound: "n < 2 ^ k \<Longrightarrow> bit_length n \<le> k"
proof (induction k arbitrary: n)
  case 0
  then show ?case by (simp add: bit_length.simps)
next
  case (Suc k)
  then have "n div 2 < 2 ^ k" by auto
  from Suc.IH [OF this] show ?case by (subst bit_length.simps) simp
qed

lemma float64_nat_exact:
  assumes "n < 2 ^ (53 + k)" "2 ^ k dvd n"
  shows "float64_nat n = n"
proof -
  let ?s = "bit_length n - 53"
  have "?s \<le> k" using bit_length_bound [OF assms(1)] by simp
  then have "(2 :: nat) ^ ?s dvd 2 ^ k" by (rule le_imp_power_dvd)
  then have "2 ^ ?s dvd n" using assms(2) by (rule dvd_trans)
  then have "n mod 2 ^ ?s = 0" "n div 2 ^ ?s * 2 ^ ?s = n" by simp_all
  then show ?thesis by (simp add: float64_nat_def Let_def)
qed

lemma float64_of_exact:
  assumes "0 \<le> i" "i < 2 ^ 63" "1024 dvd i"
  shows "float64_of i = i"
proof -
  have "nat i < 2 ^ (53 + 10)" using assms(1,2) by (simp add: nat_less_iff)
  moreover have "2 ^ 10 dvd nat i" using assms(1,3) nat_dvd_iff by (simp add: nat_dvd_iff dvd_nat_abs_iff int_dvd_int_iff [symmetric])
  ultimately have "float64_nat (nat i) = nat i" by (rule float64_nat_exact)
  with assms(1) show ?thesis by (simp add: float64_of_def)
qed

text \<open>An identifier drawn second in its millisecond is read as the first one.\<close>

lemma bit_length_eq: "2 ^ k \<le> n \<Longrightarrow> n < 2 ^ Suc k \<Longrightarrow> bit_length n = Suc k"
proof (induction k arbitrary: n)
  case 0
  then have "n = 1" by simp
  then show ?case by (simp add: bit_length.simps)
next
  case (Suc k)
  then have "2 ^ k \<le> n div 2" "n div 2 < 2 ^ Suc k" "n \<noteq> 0" by auto
  with Suc.IH [of "n div 2"] show ?case by (subst bit_length.simps) simp
qed

lemma float64_of_second: "float64_of 1800000000000000001 = 1800000000000000000"
proof -
  have "bit_length 1800000000000000001 = Suc 60" by (rule bit_length_eq) simp_all
  then show ?thesis by (simp add: float64_of_def float64_nat_def)
qed

section \<open>Tokens\<close>

definition jwt_ok :: "'tok jwt \<Rightarrow> bool" where
  "jwt_ok J \<longleftrightarrow> (\<forall>c t. t < time_Unix (cl_Exp c) \<longrightarrow> jwt_parse J t (jwt_sign J c) = Some c)"

lemma time_Unix_sec: "t - second < time_Unix (unix_sec t)" "time_Unix (unix_sec t) \<le> t"
proof -
  have "second * (t div second) = t - t mod second" by (simp add: minus_mod_eq_mult_div)
  moreover have "t mod second < second" "0 \<le> t mod second" by (simp_all add: second_def)
  ultimately show "t - second < time_Unix (unix_sec t)" "time_Unix (unix_sec t) \<le> t"
    by (simp_all only: time_Unix_def unix_sec_def diff_add_cancel mult.commute [of _ second])
qed

lemma issued:
  assumes "jwt_ok J" "issueTokens J now u = (at', rt)"
  shows "t < now + 899 * second \<Longrightarrow> \<exists>c. jwt_parse J t at' = Some c \<and> cl_Type c = ''access'' \<and> cl_TenantID c = u_TenantID u \<and>
      cl_UserID c = u_ID u \<and> cl_Role c = u_Role u"
    and "t < now + 604799 * second \<Longrightarrow> \<exists>c. jwt_parse J t rt = Some c \<and> cl_Type c = ''refresh'' \<and> cl_UserID c = u_ID u"
proof -
  note exp = time_Unix_sec [of "now + 900 * second"] time_Unix_sec [of "now + 604800 * second"]
  show "t < now + 899 * second \<Longrightarrow> \<exists>c. jwt_parse J t at' = Some c \<and> cl_Type c = ''access'' \<and> cl_TenantID c = u_TenantID u \<and>
      cl_UserID c = u_ID u \<and> cl_Role c = u_Role u"
    using assms exp by (auto simp: issueTokens_def jwt_ok_def second_def)
  show "t < now + 604799 * second \<Longrightarrow> \<exists>c. jwt_parse J t rt = Some c \<and> cl_Type c = ''refresh'' \<and> cl_UserID c = u_ID u"
    using assms exp by (auto simp: issueTokens_def jwt_ok_def second_def)
qed

lemma sel_all_sub: "sel_all P t = (Inr xs, t') \<Longrightarrow> x \<in> set xs \<Longrightarrow> x \<in> set (lrows t) \<and> P x"
  by (auto simp: sel_all_def on_link_def split: list.splits if_splits)

text \<open>
  C13. Who logs in is a stored user whose name the database takes for the given one (the collation ignores case and
  accents), and whose password it is. For the next
  quarter of an hour, less a second, the access token stands for that user, tenant and role; the refresh token is
  no access token, and the access token cannot be refreshed.
\<close>

theorem login_tokens:
  assumes "jwt_ok J" "Login J same crypt now name pw db = (Inr ((at', rt), u), db')" "t < now + 899 * second"
  shows "u \<in> set (lrows db) \<and> same (u_Username u) name \<and> u_PasswordHash u \<noteq> [] \<and> crypt (u_PasswordHash u) pw \<and>
    AuthMiddleware J t (Some at') = Inr \<lparr>cx_TenantID = u_TenantID u, cx_UserID = u_ID u, cx_Role = u_Role u\<rparr> \<and>
    AuthMiddleware J t (Some rt) = Inl ErrRefreshAsAccess \<and>
    fst (RefreshToken J t (Some at') db2) = Inl ErrNotRefresh"
proof -
  from assms(2) have find: "FindByUsernameGlobal same name db = (Inr u, db')" and ok: "u_PasswordHash u \<noteq> []" "crypt (u_PasswordHash u) pw"
    and tok: "issueTokens J now u = (at', rt)"
    by (auto simp: Login_def act_simps split: if_splits prod.splits sum.splits)
  from find obtain us v where us: "sel_all (\<lambda>u. same (u_Username u) name \<and> u_Status u \<noteq> ''deleted'') db = (Inr us, v)"
    and head: "(case us of [] \<Rightarrow> throw_a ''sql: no rows in result set'' | u # _ \<Rightarrow> ret_a u) v = (Inr u, db')"
    by (auto simp: FindByUsernameGlobal_def bind_a_Inr)
  from head have "u \<in> set us" by (cases us) (simp_all add: act_simps(1,2))
  from sel_all_sub [OF us this] have user: "u \<in> set (lrows db)" "same (u_Username u) name" by simp_all
  note acc = issued(1) [OF assms(1) tok assms(3)]
  have "t < now + 604799 * second" using assms(3) by (simp add: second_def)
  note ref = issued(2) [OF assms(1) tok this]
  from acc ref user ok show ?thesis
    by (auto simp: AuthMiddleware_def RefreshToken_def act_simps)
qed

text \<open>
  A refresh token gives new tokens to the user it was issued to, for a week less a second, when the identifier of the user is
  one that a float64 holds: those drawn first in their millisecond are (they are multiples of 4096).
\<close>

theorem refresh_same_user:
  assumes "jwt_ok J" "issueTokens J now u = (at', rt)" "t < now + 604799 * second"
    and "loutages db = []" "filter (\<lambda>v. u_ID v = u_ID u \<and> u_Status v \<noteq> ''deleted'') (lrows db) = [v]"
    and "0 \<le> u_ID u" "u_ID u < 2 ^ 63" "1024 dvd u_ID u"
  shows "RefreshToken J t (Some rt) db = (Inr (issueTokens J t v, v), db) \<and> u_ID v = u_ID u"
proof -
  from issued(2) [OF assms(1-3)] obtain c where c: "jwt_parse J t rt = Some c" "cl_Type c = ''refresh''" "cl_UserID c = u_ID u"
    by blast
  have "v \<in> set (filter (\<lambda>v. u_ID v = u_ID u \<and> u_Status v \<noteq> ''deleted'') (lrows db))" unfolding assms(5) by simp
  then have "u_ID v = u_ID u" by simp
  with c assms(4,5) float64_of_exact [OF assms(6-8)] show ?thesis
    by (simp add: RefreshToken_def GetUserByID_def act_simps)
qed

section \<open>Replays\<close>

text \<open>The requests one process gets, with the time of each, and which of them it lets through.\<close>

primrec serve ::
  "string \<Rightarrow> (string \<Rightarrow> string) \<Rightarrow> (string \<Rightarrow> string) \<Rightarrow> (gotime \<times> service_request) list \<Rightarrow> nonce_cache \<Rightarrow> bool list" where
  "serve secret mac sha [] c = []"
| "serve secret mac sha (q # qs) c = (case ServiceAuth secret mac sha (fst q) (snd q) c of
     (r, c') \<Rightarrow> (r \<noteq> None) # serve secret mac sha qs c')"

text \<open>The payloads of the requests are told apart by the signature.\<close>

definition mac_apart :: "(string \<Rightarrow> string) \<Rightarrow> (string \<Rightarrow> string) \<Rightarrow> (gotime \<times> service_request) list \<Rightarrow> bool" where
  "mac_apart mac sha qs \<longleftrightarrow> (\<forall>p \<in> set qs. \<forall>q \<in> set qs. \<forall>t u.
     parse_int64 (sq_Timestamp (snd p)) = Some t \<longrightarrow> parse_int64 (sq_Timestamp (snd q)) = Some u \<longrightarrow>
     mac (service_payload sha t (snd p)) = mac (service_payload sha u (snd q)) \<longrightarrow>
     service_payload sha t (snd p) = service_payload sha u (snd q))"

lemma newline_not_digit [simp]: "\<not> is_digit CHR 0x0A"
  by (simp add: is_digit_def digit_of_def)

lemma itoa_no_newline: "CHR 0x0A \<notin> set (itoa i)"
  by (auto simp: itoa_def dest: nat_str_digits)

lemma append_sep_inj: "a @ c # b = a' @ c # b' \<Longrightarrow> c \<notin> set a \<Longrightarrow> c \<notin> set a' \<Longrightarrow> a = a'"
proof (induction a arbitrary: a')
  case Nil
  then show ?case by (cases a') auto
next
  case (Cons x a)
  then show ?case by (cases a') auto
qed

lemma payload_time:
  assumes "service_payload sha t p = service_payload sha u q" "int64 t" "int64 u"
  shows "t = u"
proof -
  have "itoa t = itoa u"
    using assms(1) unfolding service_payload_def append_Cons append_Nil
    by (rule append_sep_inj) (rule itoa_no_newline)+
  with assms(2,3) show ?thesis by (metis itoa_inj)
qed

lemma accepted:
  assumes "ServiceAuth secret mac sha now q c = (Some x, c')"
  obtains ts where "parse_int64 (sq_Timestamp q) = Some ts" "mac (service_payload sha ts q) = sq_Token q"
    "\<bar>now - time_Unix ts\<bar> \<le> serviceAuthMaxSkew" "c' (sq_Token q) = Some now"
    "case c (sq_Token q) of None \<Rightarrow> True | Some t \<Rightarrow> time_sub now t > serviceAuthMaxSkew * 2"
proof -
  from assms obtain ts where ts: "parse_int64 (sq_Timestamp q) = Some ts" "mac (service_payload sha ts q) = sq_Token q"
    "time_sub now (time_Unix ts) \<le> serviceAuthMaxSkew" "- serviceAuthMaxSkew \<le> time_sub now (time_Unix ts)"
    "seen (sq_Token q) now c = (False, c')"
    by (auto simp: ServiceAuth_def Let_def not_less split: if_splits option.splits prod.splits)
  have "\<bar>now - time_Unix ts\<bar> \<le> serviceAuthMaxSkew"
    using ts(3,4) by (auto simp: time_sub_def serviceAuthMaxSkew_def second_def min_def max_def split: if_splits)
  moreover have "c' (sq_Token q) = Some now"
    "case c (sq_Token q) of None \<Rightarrow> True | Some t \<Rightarrow> time_sub now t > serviceAuthMaxSkew * 2"
    using ts(5) by (auto simp: seen_def Let_def split: if_splits option.splits)
  ultimately show ?thesis using that ts by blast
qed

lemma cache_kept:
  assumes "ServiceAuth secret mac sha now q c = (r, c')" "c tok = Some t" "time_sub now t \<le> serviceAuthMaxSkew * 2"
  shows "c' tok = Some t"
  using assms
  by (auto simp: ServiceAuth_def seen_def Let_def split: if_splits option.splits prod.splits)

text \<open>A token that is remembered is not accepted again while its timestamp is in range.\<close>

lemma remembered:
  assumes "c tok = Some t" "\<forall>q \<in> set qs. sq_Token (snd q) = tok \<longrightarrow> (\<forall>ts. parse_int64 (sq_Timestamp (snd q)) = Some ts \<longrightarrow>
       mac (service_payload sha ts (snd q)) = tok \<longrightarrow> time_Unix ts \<le> t + serviceAuthMaxSkew)"
    and "sorted (map fst qs)" "i < length qs" "serve secret mac sha qs c ! i"
  shows "sq_Token (snd (qs ! i)) \<noteq> tok"
  using assms
proof (induction qs arbitrary: c i)
  case (Cons q qs)
  obtain r c' where r: "ServiceAuth secret mac sha (fst q) (snd q) c = (r, c')" by fastforce
  show ?case
  proof (cases i)
    case 0
    with Cons.prems(5) r obtain x where "r = Some x" by auto
    with r have acc: "ServiceAuth secret mac sha (fst q) (snd q) c = (Some x, c')" by simp
    show ?thesis
    proof
      assume "sq_Token (snd ((q # qs) ! i)) = tok"
      with 0 have tok: "sq_Token (snd q) = tok" by simp
      from acc obtain ts where ts: "parse_int64 (sq_Timestamp (snd q)) = Some ts" "mac (service_payload sha ts (snd q)) = tok"
        "\<bar>fst q - time_Unix ts\<bar> \<le> serviceAuthMaxSkew"
        "case c tok of None \<Rightarrow> True | Some t \<Rightarrow> time_sub (fst q) t > serviceAuthMaxSkew * 2"
        by (rule accepted) (use tok in auto)
      from Cons.prems(2) tok ts(1,2) have "time_Unix ts \<le> t + serviceAuthMaxSkew" by simp
      with ts(3) have "fst q - t \<le> serviceAuthMaxSkew * 2" by linarith
      then have "time_sub (fst q) t \<le> serviceAuthMaxSkew * 2"
        by (simp add: time_sub_def serviceAuthMaxSkew_def second_def)
      with ts(4) Cons.prems(1) show False by simp
    qed
  next
    case (Suc j)
    show ?thesis
    proof (cases "time_sub (fst q) t \<le> serviceAuthMaxSkew * 2")
      case True
      from cache_kept [OF r Cons.prems(1) True] have "c' tok = Some t" .
      from Cons.IH [where c = c' and i = j, OF this] Cons.prems Suc r show ?thesis by simp
    next
      case False
      show ?thesis
      proof
        let ?q = "qs ! j"
        assume "sq_Token (snd ((q # qs) ! i)) = tok"
        with Suc have tok: "sq_Token (snd ?q) = tok" by simp
        have j: "j < length qs" using Cons.prems(4) Suc by simp
        from Cons.prems(5) Suc r have "serve secret mac sha qs c' ! j" by simp
        then obtain c1 x c2 where "ServiceAuth secret mac sha (fst ?q) (snd ?q) c1 = (Some x, c2)"
          using j
        proof (induction qs arbitrary: c' j)
          case (Cons p ps)
          obtain s d where s: "ServiceAuth secret mac sha (fst p) (snd p) c' = (s, d)" by fastforce
          show ?case
          proof (cases j)
            case 0
            with Cons.prems(2) s obtain y where "s = Some y" by auto
            with Cons.prems(1) [of c' y d] s 0 show ?thesis by simp
          next
            case (Suc l)
            with Cons s show ?thesis by (auto intro: Cons.IH [of l d])
          qed
        qed simp
        then obtain ts where ts: "parse_int64 (sq_Timestamp (snd ?q)) = Some ts" "mac (service_payload sha ts (snd ?q)) = tok"
          "\<bar>fst ?q - time_Unix ts\<bar> \<le> serviceAuthMaxSkew"
          by (rule accepted) (use tok in auto)
        have "?q \<in> set (q # qs)" using j by simp
        with Cons.prems(2) tok ts(1,2) have "time_Unix ts \<le> t + serviceAuthMaxSkew" by blast
        with ts(3) have "fst ?q - t \<le> serviceAuthMaxSkew * 2" by linarith
        moreover have "fst q \<le> fst ?q" using Cons.prems(3) j by simp
        ultimately have "fst q - t \<le> serviceAuthMaxSkew * 2" by linarith
        then have "time_sub (fst q) t \<le> serviceAuthMaxSkew * 2"
          by (simp add: time_sub_def serviceAuthMaxSkew_def second_def)
        with False show False by simp
      qed
    qed
  qed
qed simp

text \<open>
  C14. As long as the clock of the process does not go back and no two signed payloads share a signature,
  no token is accepted twice: a request that is replayed is rejected, as is another request with its token, however many
  requests come in between.
\<close>

theorem service_token_once:
  assumes "mac_apart mac sha qs" "sorted (map fst qs)" "i < j" "j < length qs"
    and "serve secret mac sha qs c ! i" "serve secret mac sha qs c ! j"
  shows "sq_Token (snd (qs ! i)) \<noteq> sq_Token (snd (qs ! j))"
  using assms
proof (induction qs arbitrary: c i j)
  case (Cons q qs)
  obtain r c' where r: "ServiceAuth secret mac sha (fst q) (snd q) c = (r, c')" by fastforce
  from Cons.prems(3) obtain l where l: "j = Suc l" by (cases j) auto
  show ?case
  proof (cases i)
    case 0
    with Cons.prems(5) r obtain x where "r = Some x" by auto
    with r have acc: "ServiceAuth secret mac sha (fst q) (snd q) c = (Some x, c')" by simp
    from acc obtain ts where ts: "parse_int64 (sq_Timestamp (snd q)) = Some ts"
      "mac (service_payload sha ts (snd q)) = sq_Token (snd q)" "\<bar>fst q - time_Unix ts\<bar> \<le> serviceAuthMaxSkew"
      "c' (sq_Token (snd q)) = Some (fst q)" by (rule accepted)
    have "\<forall>p \<in> set qs. sq_Token (snd p) = sq_Token (snd q) \<longrightarrow> (\<forall>u. parse_int64 (sq_Timestamp (snd p)) = Some u \<longrightarrow>
       mac (service_payload sha u (snd p)) = sq_Token (snd q) \<longrightarrow> time_Unix u \<le> fst q + serviceAuthMaxSkew)"
    proof (intro ballI impI allI)
      fix p u assume p: "p \<in> set qs" "parse_int64 (sq_Timestamp (snd p)) = Some u"
        "mac (service_payload sha u (snd p)) = sq_Token (snd q)"
      with Cons.prems(1) ts(1,2) have "service_payload sha u (snd p) = service_payload sha ts (snd q)"
        unfolding mac_apart_def by (metis list.set_intros(1,2))
      from payload_time [OF this] p(2) ts(1) have "u = ts" by (simp add: parse_int64_range)
      then show "time_Unix u \<le> fst q + serviceAuthMaxSkew" using ts(3) by (simp add: abs_le_iff)
    qed
    from remembered [where c = c' and tok = "sq_Token (snd q)", OF ts(4) this, of l secret] Cons.prems r l
    have "sq_Token (snd (qs ! l)) \<noteq> sq_Token (snd q)" by simp
    with 0 l show ?thesis by simp
  next
    case (Suc k)
    have "mac_apart mac sha qs" using Cons.prems(1) by (auto simp: mac_apart_def)
    from Cons.IH [OF this, of k l c'] Cons.prems Suc l r show ?thesis by simp
  qed
qed simp

section \<open>Rates\<close>

primrec allow_run :: "int \<Rightarrow> gotime list \<Rightarrow> bucket_key \<Rightarrow> bool list" where
  "allow_run rate [] k = []"
| "allow_run rate (t # ts) k = (case Allow rate t k of (ok, k') \<Rightarrow> ok # allow_run rate ts k')"

definition let_through :: "bool list \<Rightarrow> nat" where
  "let_through oks = length (filter id oks)"

lemma allow_in_window:
  "\<forall>t \<in> set ts. t < e \<Longrightarrow> let_through (allow_run rate ts (Some (n, e))) = min (length ts) (nat (rate - n))"
proof (induction ts arbitrary: n)
  case (Cons t ts)
  then have live: "live_key t (Some (n, e)) = Some (n, e)" by (simp add: live_key_def)
  show ?case
  proof (cases "rate \<le> n")
    case True
    with Cons live show ?thesis by (simp add: Allow_def let_through_def)
  next
    case False
    then have "nat (rate - n) = Suc (nat (rate - (n + 1)))" by simp
    with Cons live False show ?thesis by (simp add: Allow_def let_through_def)
  qed
qed (simp add: let_through_def)

text \<open>
  Of the requests of a tenant in the second that begins with the first one, exactly as many pass as the
  limit says (one when the limit is not positive): the limiter counts in fixed windows.
\<close>

theorem rate_window:
  assumes "live_key t0 k = None" "\<forall>t \<in> set ts. t < t0 + second"
  shows "let_through (allow_run rate (t0 # ts) k) = min (Suc (length ts)) (nat (max 1 rate))"
proof -
  have "let_through (allow_run rate ts (Some (1, t0 + second))) = min (length ts) (nat (rate - 1))"
    using assms(2) by (intro allow_in_window) simp
  moreover have "Suc (nat (rate - 1)) = nat (max 1 rate)" by simp
  moreover have "let_through (allow_run rate (t0 # ts) k) = Suc (let_through (allow_run rate ts (Some (1, t0 + second))))"
    using assms(1) by (simp add: Allow_def let_through_def)
  ultimately show ?thesis by (simp only: min_Suc_Suc [symmetric])
qed

theorem rate_window_witness:
  "let_through (allow_run 2 [100, 150, 200, 250] (Some (7, 90))) = 2"
  using rate_window [of 100 "Some (7, 90)" "[150, 200, 250]" 2] by (simp add: live_key_def second_def)

section \<open>Concrete users and requests\<close>

definition user0 :: user where
  "user0 = \<lparr>u_ID = 4096, u_TenantID = 7, u_Username = ''ann'', u_DisplayName = [], u_Email = [], u_Phone = [], u_Role = ''agent'',
     u_Status = ''active'', u_PasswordHash = ''h'', u_CreatedAt = 0, u_UpdatedAt = 0\<rparr>"

definition jwt0 :: "claims jwt" where
  "jwt0 = \<lparr>jwt_sign = (\<lambda>c. c), jwt_parse = (\<lambda>t c. if t < time_Unix (cl_Exp c) then Some c else None)\<rparr>"

lemma jwt0_ok: "jwt_ok jwt0"
  by (simp add: jwt_ok_def jwt0_def)

lemma Login_user:
  assumes "loutages db = []" "filter (\<lambda>u. same (u_Username u) name \<and> u_Status u \<noteq> ''deleted'') (lrows db) = u # us"
    and "u_PasswordHash u \<noteq> []" "crypt (u_PasswordHash u) pw" "name \<noteq> []" "pw \<noteq> []"
  shows "Login J same crypt now name pw db = (Inr (issueTokens J now u, u), db)"
  using assms by (simp add: Login_def FindByUsernameGlobal_def act_simps)

theorem login_tokens_witness:
  "\<exists>p rt. issueTokens jwt0 0 user0 = (p, rt) \<and>
     AuthMiddleware jwt0 5 (Some p) = Inr \<lparr>cx_TenantID = 7, cx_UserID = 4096, cx_Role = ''agent''\<rparr> \<and>
     AuthMiddleware jwt0 5 (Some rt) = Inl ErrRefreshAsAccess"
proof -
  let ?db = "\<lparr>lrows = [user0], loutages = []\<rparr>"
  obtain p rt where p: "issueTokens jwt0 0 user0 = (p, rt)" by fastforce
  let ?same = "\<lambda>a b. strings_ToLower a = strings_ToLower b"
  have name: "strings_ToLower ''ann'' = strings_ToLower ''Ann''" by code_simp
  have "Login jwt0 ?same (\<lambda>h q. True) 0 ''Ann'' ''pw'' ?db = (Inr ((p, rt), user0), ?db)"
    using Login_user [of ?db ?same "''Ann''" user0 "[]" "\<lambda>h q. True" "''pw''" jwt0 0] p name by (simp add: user0_def)
  from login_tokens [OF jwt0_ok this, of 5] p show ?thesis by (simp add: second_def user0_def)
qed

theorem refresh_same_user_witness:
  "fst (RefreshToken jwt0 5 (Some (snd (issueTokens jwt0 0 user0))) \<lparr>lrows = [user0], loutages = []\<rparr>) =
     Inr (issueTokens jwt0 5 user0, user0)"
proof -
  obtain p rt where p: "issueTokens jwt0 0 user0 = (p, rt)" by fastforce
  from refresh_same_user [OF jwt0_ok p, of 5 "\<lparr>lrows = [user0], loutages = []\<rparr>" user0] p show ?thesis
    by (simp add: second_def user0_def)
qed

text \<open>The two users were created in the same millisecond; the second one's refresh token is answered with tokens of the first.\<close>

lemma refresh_other_user:
  "\<exists>q rt. issueTokens jwt0 0 (user0\<lparr>u_ID := 1800000000000000001\<rparr>) = (q, rt) \<and>
     fst (RefreshToken jwt0 5 (Some rt) \<lparr>lrows = [user0\<lparr>u_ID := 1800000000000000000\<rparr>, user0\<lparr>u_ID := 1800000000000000001\<rparr>],
        loutages = []\<rparr>) =
     Inr (issueTokens jwt0 5 (user0\<lparr>u_ID := 1800000000000000000\<rparr>), user0\<lparr>u_ID := 1800000000000000000\<rparr>)"
proof -
  obtain q rt where q: "issueTokens jwt0 0 (user0\<lparr>u_ID := 1800000000000000001\<rparr>) = (q, rt)" by fastforce
  from issued(2) [OF jwt0_ok this, of 5] obtain c where
    "jwt_parse jwt0 5 rt = Some c" "cl_Type c = ''refresh''" "cl_UserID c = 1800000000000000001" by (auto simp: second_def)
  with q show ?thesis
    by (simp add: RefreshToken_def GetUserByID_def act_simps float64_of_second user0_def)
qed

text \<open>A user who has been disabled logs in and refreshes like any other.\<close>

lemma disabled_user_logs_in:
  "fst (Login jwt0 (=) (\<lambda>h q. h = q) 0 ''ann'' ''h'' \<lparr>lrows = [user0\<lparr>u_Status := ''disabled''\<rparr>], loutages = []\<rparr>) =
     Inr (issueTokens jwt0 0 (user0\<lparr>u_Status := ''disabled''\<rparr>), user0\<lparr>u_Status := ''disabled''\<rparr>)"
  by (simp add: Login_def FindByUsernameGlobal_def act_simps user0_def)

definition service0 :: service_request where
  "service0 = \<lparr>sq_Timestamp = itoa 100, sq_Token = itoa 100 @ [CHR 0x0A] @ ''POST'' @ [CHR 0x0A] @ ''/internal/v1/calls/inbound'' @ [CHR 0x0A] @ ''{}'',
     sq_Tenant = itoa 7, sq_Method = ''POST'', sq_Path = ''/internal/v1/calls/inbound'', sq_Body = ''{}''\<rparr>"

lemma service0_first: "ServiceAuth ''k'' (\<lambda>s. s) (\<lambda>s. s) (time_Unix 101) service0 Map.empty =
    (Some \<lparr>cx_TenantID = 7, cx_UserID = 0, cx_Role = ''service''\<rparr>, [sq_Token service0 \<mapsto> time_Unix 101])"
proof -
  have "parse_int64 (itoa 100) = Some 100" "parse_int64 (itoa 7) = Some 7" by (simp_all add: int64_def)
  moreover have "itoa 100 \<noteq> []" by (simp add: itoa_def)
  ultimately show ?thesis
    by (simp add: ServiceAuth_def service0_def service_payload_def time_Unix_def time_sub_def serviceAuthMaxSkew_def second_def
        seen_def Let_def)
qed

theorem service_token_once_witness:
  "serve ''k'' (\<lambda>s. s) (\<lambda>s. s) [(time_Unix 101, service0), (time_Unix 102, service0)] Map.empty = [True, False]"
proof -
  let ?qs = "[(time_Unix 101, service0), (time_Unix 102, service0)]"
  obtain b where b: "serve ''k'' (\<lambda>s. s) (\<lambda>s. s) ?qs Map.empty = [True, b]"
    by (simp add: service0_first case_prod_beta)
  have "mac_apart (\<lambda>s. s) (\<lambda>s. s) ?qs" by (simp add: mac_apart_def)
  moreover have "sorted (map fst ?qs)" by (simp add: time_Unix_def second_def)
  ultimately have "\<not> b"
    using service_token_once [of "\<lambda>s. s" "\<lambda>s. s" ?qs 0 1 "''k''" Map.empty] b by auto
  with b show ?thesis by simp
qed

end
