(* ===== verification/Identity.thy ===== *)
theory Identity
  imports Auth Tables
begin

text \<open>
  Tenants, users, agents and skill groups: \<open>internal/domain/identity/service.go\<close> with the statements of
  \<open>infrastructure/mysql/tenant_repo.go\<close>, \<open>user_repo.go\<close>, \<open>agent_repo.go\<close> and \<open>skill_group_repo.go\<close>.
\<close>

section \<open>Entities\<close>

record tenant =
  tn_ID :: int
  tn_Code :: string
  tn_Name :: string
  tn_Status :: string
  tn_CreatedAt :: gotime
  tn_UpdatedAt :: gotime

text \<open>The settings the repository stores and reads; the other fields of the entity have no column in its statements.\<close>

record tenant_settings =
  ts_TenantID :: int
  ts_MaxAgents :: int
  ts_MaxConcurrentCalls :: int
  ts_DefaultACWSeconds :: int
  ts_RecordingRetentionDays :: int
  ts_RecordingStorageBackend :: string
  ts_Timezone :: string
  ts_Language :: string
  ts_APIRateLimitPerSec :: int
  ts_FamiliarAgentDays :: int

record agent =
  ag_ID :: int
  ag_TenantID :: int
  ag_UserID :: int
  ag_EmployeeID :: string
  ag_Extension :: string
  ag_WorkMode :: string
  ag_SIPDeviceStatus :: string
  ag_MaxConcurrent :: int
  ag_MaxChatSlots :: int
  ag_ACWSeconds :: int
  ag_OutboundOnly :: bool
  ag_CreatedAt :: gotime
  ag_UpdatedAt :: gotime

record skill_group_row =
  gr_ID :: int
  gr_TenantID :: int
  gr_Code :: string
  gr_Name :: string
  gr_Description :: string
  gr_RoutingPolicy :: string
  gr_Priority :: int
  gr_MaxQueueSize :: int
  gr_MaxWaitSec :: int
  gr_OverflowGroup :: "int option"
  gr_Status :: string
  gr_CreatedAt :: gotime
  gr_UpdatedAt :: gotime

record group_member =
  gm_SkillGroupID :: int
  gm_AgentID :: int
  gm_Level :: int
  gm_CreatedAt :: gotime

record identity_world =
  idw_tenants :: "tenant ltable"
  idw_settings :: "tenant_settings ltable"
  idw_users :: "user ltable"
  idw_agents :: "agent ltable"
  idw_groups :: "skill_group_row ltable"
  idw_members :: "group_member ltable"

datatype identity_error = ErrTenantNotFound | ErrTenantCodeExists | ErrUserNotFound | ErrUsernameExists | ErrAgentAlreadyExists
  | ErrSkillGroupCodeExists | ErrMemberAlreadyExists | ErrMaxAgentsReached | ErrInvalidRoutingPolicy | ErrIdentityStore string

type_synonym 'a idact = "(identity_world, identity_error, 'a) act"

definition on_tenants :: "(tenant ltable, string, 'a) act \<Rightarrow> (identity_world, string, 'a) act" where
  "on_tenants = zoom_a idw_tenants (\<lambda>d w. w\<lparr>idw_tenants := d\<rparr>)"

definition on_settings :: "(tenant_settings ltable, string, 'a) act \<Rightarrow> (identity_world, string, 'a) act" where
  "on_settings = zoom_a idw_settings (\<lambda>d w. w\<lparr>idw_settings := d\<rparr>)"

definition on_users :: "(user ltable, string, 'a) act \<Rightarrow> (identity_world, string, 'a) act" where
  "on_users = zoom_a idw_users (\<lambda>d w. w\<lparr>idw_users := d\<rparr>)"

definition on_agent_rows :: "(agent ltable, string, 'a) act \<Rightarrow> (identity_world, string, 'a) act" where
  "on_agent_rows = zoom_a idw_agents (\<lambda>d w. w\<lparr>idw_agents := d\<rparr>)"

definition on_groups :: "(skill_group_row ltable, string, 'a) act \<Rightarrow> (identity_world, string, 'a) act" where
  "on_groups = zoom_a idw_groups (\<lambda>d w. w\<lparr>idw_groups := d\<rparr>)"

definition on_members :: "(group_member ltable, string, 'a) act \<Rightarrow> (identity_world, string, 'a) act" where
  "on_members = zoom_a idw_members (\<lambda>d w. w\<lparr>idw_members := d\<rparr>)"

section \<open>Statements\<close>

text \<open>\<open>db.GetContext\<close>: one row, and an error when there is none.\<close>

definition get_one :: "('r \<Rightarrow> bool) \<Rightarrow> ('r ltable, string, 'r) act" where
  "get_one P = bind_a (sel_all P) (\<lambda>rs. case rs of [] \<Rightarrow> throw_a ''sql: no rows in result set'' | r # _ \<Rightarrow> ret_a r)"

text \<open>INSERT into a table with a unique key.\<close>

definition ins_unique :: "('r \<Rightarrow> 'r \<Rightarrow> bool) \<Rightarrow> 'r \<Rightarrow> ('r ltable, string, unit) act" where
  "ins_unique clash x = on_link (\<lambda>t. if \<exists>r \<in> set (lrows t). clash r x then (Inl ''Error 1062: Duplicate entry'', t)
     else (Inr (), t\<lparr>lrows := lrows t @ [x]\<rparr>))"

definition user_clash :: "user \<Rightarrow> user \<Rightarrow> bool" where
  "user_clash r u \<longleftrightarrow> u_ID r = u_ID u \<or> u_TenantID r = u_TenantID u \<and> u_Username r = u_Username u"

definition group_clash :: "skill_group_row \<Rightarrow> skill_group_row \<Rightarrow> bool" where
  "group_clash r g \<longleftrightarrow> gr_ID r = gr_ID g \<or> gr_TenantID r = gr_TenantID g \<and> gr_Code r = gr_Code g"

definition agent_clash :: "agent \<Rightarrow> agent \<Rightarrow> bool" where
  "agent_clash r a \<longleftrightarrow> ag_UserID r = ag_UserID a"

definition tenant_clash :: "tenant \<Rightarrow> tenant \<Rightarrow> bool" where
  "tenant_clash r t \<longleftrightarrow> tn_ID r = tn_ID t \<or> tn_Code r = tn_Code t"

text \<open>
  What the INSERT statements keep: an agent is stored under its user, with the id of the user; a skill
  group loses its priority, its queue size and its overflow group.
\<close>

definition Agent_insert_row :: "agent \<Rightarrow> agent" where
  "Agent_insert_row a = a\<lparr>ag_ID := ag_UserID a, ag_EmployeeID := [], ag_WorkMode := [], ag_SIPDeviceStatus := []\<rparr>"

definition Group_insert_row :: "skill_group_row \<Rightarrow> skill_group_row" where
  "Group_insert_row g = g\<lparr>gr_Priority := 0, gr_MaxQueueSize := 0, gr_OverflowGroup := None\<rparr>"

definition User_insert_row :: "user \<Rightarrow> user" where
  "User_insert_row u = u\<lparr>u_PasswordHash := []\<rparr>"

definition User_update_row :: "user \<Rightarrow> user \<Rightarrow> user" where
  "User_update_row old u = old\<lparr>u_DisplayName := u_DisplayName u, u_Email := u_Email u, u_Phone := u_Phone u,
     u_Role := u_Role u, u_Status := u_Status u, u_UpdatedAt := u_UpdatedAt u\<rparr>"

definition default_settings :: "int \<Rightarrow> tenant_settings" where
  "default_settings k = \<lparr>ts_TenantID = k, ts_MaxAgents = 50, ts_MaxConcurrentCalls = 100, ts_DefaultACWSeconds = 30,
     ts_RecordingRetentionDays = 365, ts_RecordingStorageBackend = ''local'', ts_Timezone = ''Asia/Shanghai'', ts_Language = ''zh-CN'',
     ts_APIRateLimitPerSec = 100, ts_FamiliarAgentDays = 30\<rparr>"

definition UpsertSettings :: "tenant_settings \<Rightarrow> (identity_world, string, unit) act" where
  "UpsertSettings s = on_settings (upsert_row ts_TenantID (\<lambda>s. s) (\<lambda>_ s. s) s)"

section \<open>The services\<close>

definition CreateTenant :: "gotime \<Rightarrow> int \<Rightarrow> string \<Rightarrow> string \<Rightarrow> tenant idact" where
  "CreateTenant now nid code name =
     try_a (on_tenants (get_one (\<lambda>t. tn_Code t = code))) (\<lambda>r.
     case r of
       Inr _ \<Rightarrow> throw_a ErrTenantCodeExists
     | Inl _ \<Rightarrow>
         let t = \<lparr>tn_ID = nid, tn_Code = code, tn_Name = name, tn_Status = ''active'', tn_CreatedAt = now, tn_UpdatedAt = now\<rparr>
         in wrap_a ErrIdentityStore (seq_a (on_tenants (ins_unique tenant_clash t))
              (seq_a (UpsertSettings (default_settings nid)) (ret_a t))))"

text \<open>A missing tenant is the error of the query.\<close>

definition UpdateTenant :: "gotime \<Rightarrow> int \<Rightarrow> string \<Rightarrow> string \<Rightarrow> tenant idact" where
  "UpdateTenant now k name status = wrap_a ErrIdentityStore
     (bind_a (on_tenants (get_one (\<lambda>t. tn_ID t = k))) (\<lambda>t.
        let t' = t\<lparr>tn_Name := name, tn_Status := status, tn_UpdatedAt := now\<rparr>
        in seq_a (on_tenants (upd_rows (\<lambda>r. tn_ID r = k) (\<lambda>r. r\<lparr>tn_Name := name, tn_Status := status, tn_UpdatedAt := now\<rparr>)))
             (ret_a t')))"

record create_user_input =
  ui_TenantID :: int
  ui_Username :: string
  ui_DisplayName :: string
  ui_Email :: string
  ui_Phone :: string
  ui_Role :: string

definition CreateUser :: "gotime \<Rightarrow> int \<Rightarrow> create_user_input \<Rightarrow> user idact" where
  "CreateUser now nid inp =
     try_a (on_users (get_one (\<lambda>u. u_TenantID u = ui_TenantID inp \<and> u_Username u = ui_Username inp \<and> u_Status u \<noteq> ''deleted''))) (\<lambda>r.
     case r of
       Inr _ \<Rightarrow> throw_a ErrUsernameExists
     | Inl _ \<Rightarrow>
         let u = \<lparr>u_ID = nid, u_TenantID = ui_TenantID inp, u_Username = ui_Username inp, u_DisplayName = ui_DisplayName inp,
               u_Email = ui_Email inp, u_Phone = ui_Phone inp, u_Role = ui_Role inp, u_Status = ''active'', u_PasswordHash = [],
               u_CreatedAt = now, u_UpdatedAt = now\<rparr>
         in wrap_a ErrIdentityStore (seq_a (on_users (ins_unique user_clash (User_insert_row u))) (ret_a u)))"

definition UpdateUser :: "gotime \<Rightarrow> int \<Rightarrow> string \<Rightarrow> string \<Rightarrow> string \<Rightarrow> user idact" where
  "UpdateUser now k displayName email phone = wrap_a ErrIdentityStore
     (bind_a (on_users (get_one (\<lambda>u. u_ID u = k \<and> u_Status u \<noteq> ''deleted''))) (\<lambda>u.
        let u' = u\<lparr>u_DisplayName := displayName, u_Email := email, u_Phone := phone, u_UpdatedAt := now\<rparr>
        in seq_a (on_users (upd_rows (\<lambda>r. u_ID r = k) (\<lambda>r. User_update_row r u'))) (ret_a u')))"

record create_agent_input =
  ai_TenantID :: int
  ai_UserID :: int
  ai_EmployeeID :: string
  ai_Extension :: string
  ai_WorkMode :: string
  ai_MaxChatSlots :: int
  ai_ACWSeconds :: int

text \<open>The quota is read and the agents counted before the row is inserted; \<open>count_agents\<close> is the total \<open>List\<close> gives.\<close>

definition count_agents :: "int \<Rightarrow> (identity_world, string, int) act" where
  "count_agents tenant = bind_a (on_agent_rows (sel_all (\<lambda>a. ag_TenantID a = tenant))) (\<lambda>as. ret_a (int (length as)))"

definition check_quota :: "int \<Rightarrow> unit idact" where
  "check_quota tenant =
     bind_a (wrap_a ErrIdentityStore (on_settings (get_one (\<lambda>s. ts_TenantID s = tenant)))) (\<lambda>s.
     bind_a (wrap_a ErrIdentityStore (count_agents tenant)) (\<lambda>n. guard_a (n < ts_MaxAgents s) ErrMaxAgentsReached))"

definition CreateAgent :: "gotime \<Rightarrow> int \<Rightarrow> create_agent_input \<Rightarrow> agent idact" where
  "CreateAgent now nid inp =
     try_a (on_agent_rows (get_one (\<lambda>a. ag_UserID a = ai_UserID inp))) (\<lambda>r.
     case r of
       Inr _ \<Rightarrow> throw_a ErrAgentAlreadyExists
     | Inl _ \<Rightarrow> seq_a (check_quota (ai_TenantID inp))
         (let a = \<lparr>ag_ID = nid, ag_TenantID = ai_TenantID inp, ag_UserID = ai_UserID inp, ag_EmployeeID = ai_EmployeeID inp,
                ag_Extension = ai_Extension inp, ag_WorkMode = ai_WorkMode inp, ag_SIPDeviceStatus = ''unregistered'',
                ag_MaxConcurrent = 1, ag_MaxChatSlots = (if ai_MaxChatSlots inp = 0 then 3 else ai_MaxChatSlots inp),
                ag_ACWSeconds = (if ai_ACWSeconds inp = 0 then 15 else ai_ACWSeconds inp), ag_OutboundOnly = False,
                ag_CreatedAt = now, ag_UpdatedAt = now\<rparr>
          in wrap_a ErrIdentityStore (seq_a (on_agent_rows (ins_unique agent_clash (Agent_insert_row a))) (ret_a a))))"

definition validPolicies :: "string set" where
  "validPolicies = {''round_robin'', ''least_recent'', ''random'', ''skill_weight'', ''familiar''}"

record create_group_input =
  gi_TenantID :: int
  gi_Code :: string
  gi_Name :: string
  gi_Description :: string
  gi_RoutingPolicy :: string
  gi_Priority :: int
  gi_MaxWaitSec :: int

definition CreateSkillGroup :: "gotime \<Rightarrow> int \<Rightarrow> create_group_input \<Rightarrow> skill_group_row idact" where
  "CreateSkillGroup now nid inp =
     try_a (on_groups (get_one (\<lambda>g. gr_TenantID g = gi_TenantID inp \<and> gr_Code g = gi_Code inp \<and> gr_Status g \<noteq> ''deleted''))) (\<lambda>r.
     case r of
       Inr _ \<Rightarrow> throw_a ErrSkillGroupCodeExists
     | Inl _ \<Rightarrow>
         if gi_RoutingPolicy inp \<notin> validPolicies then throw_a ErrInvalidRoutingPolicy
         else let g = \<lparr>gr_ID = nid, gr_TenantID = gi_TenantID inp, gr_Code = gi_Code inp, gr_Name = gi_Name inp,
                gr_Description = gi_Description inp, gr_RoutingPolicy = gi_RoutingPolicy inp, gr_Priority = gi_Priority inp,
                gr_MaxQueueSize = 0, gr_MaxWaitSec = (if gi_MaxWaitSec inp = 0 then 60 else gi_MaxWaitSec inp),
                gr_OverflowGroup = None, gr_Status = ''active'', gr_CreatedAt = now, gr_UpdatedAt = now\<rparr>
              in wrap_a ErrIdentityStore (seq_a (on_groups (ins_unique group_clash (Group_insert_row g))) (ret_a g)))"

definition member_at :: "int \<Rightarrow> int \<Rightarrow> group_member \<Rightarrow> bool" where
  "member_at g a m \<longleftrightarrow> gm_SkillGroupID m = g \<and> gm_AgentID m = a"

definition member_clash :: "group_member \<Rightarrow> group_member \<Rightarrow> bool" where
  "member_clash r m \<longleftrightarrow> member_at (gm_SkillGroupID m) (gm_AgentID m) r"

definition AddMember :: "gotime \<Rightarrow> int \<Rightarrow> int \<Rightarrow> int \<Rightarrow> group_member idact" where
  "AddMember now g a level =
     bind_a (wrap_a ErrIdentityStore (on_members (sel_all (member_at g a)))) (\<lambda>ms.
     if ms \<noteq> [] then throw_a ErrMemberAlreadyExists
     else let m = \<lparr>gm_SkillGroupID = g, gm_AgentID = a, gm_Level = level, gm_CreatedAt = now\<rparr>
          in wrap_a ErrIdentityStore (seq_a (on_members (ins_unique member_clash m)) (ret_a m)))"

definition RemoveMember :: "int \<Rightarrow> int \<Rightarrow> unit idact" where
  "RemoveMember g a = wrap_a ErrIdentityStore (on_members (on_link (\<lambda>t.
     (Inr (), t\<lparr>lrows := filter (\<lambda>m. \<not> member_at g a m) (lrows t)\<rparr>))))"

section \<open>What stays unique, and the quota\<close>

text \<open>Rows no two of which have a key in common, each of which is \<open>good\<close>.\<close>

definition table_ok :: "('r \<Rightarrow> 'r \<Rightarrow> bool) \<Rightarrow> ('r \<Rightarrow> bool) \<Rightarrow> 'r ltable \<Rightarrow> bool" where
  "table_ok clash good t \<longleftrightarrow> sorted_wrt (\<lambda>x y. \<not> clash x y) (lrows t) \<and> (\<forall>r \<in> set (lrows t). good r)"

definition good_group :: "skill_group_row \<Rightarrow> bool" where
  "good_group g \<longleftrightarrow> gr_RoutingPolicy g \<in> validPolicies \<and> gr_OverflowGroup g = None \<and> gr_MaxQueueSize g = 0 \<and> gr_Priority g = 0"

definition identity_ok :: "identity_world \<Rightarrow> bool" where
  "identity_ok w \<longleftrightarrow> table_ok tenant_clash (\<lambda>_. True) (idw_tenants w) \<and> table_ok user_clash (\<lambda>_. True) (idw_users w) \<and>
     table_ok agent_clash (\<lambda>a. ag_ID a = ag_UserID a) (idw_agents w) \<and> table_ok group_clash good_group (idw_groups w) \<and>
     table_ok member_clash (\<lambda>_. True) (idw_members w)"

text \<open>No tenant has more agents than its settings allow; settings belong to a stored tenant, and agents to a tenant with settings.\<close>

definition agents_of :: "int \<Rightarrow> identity_world \<Rightarrow> agent list" where
  "agents_of tenant w = filter (\<lambda>a. ag_TenantID a = tenant) (lrows (idw_agents w))"

definition agent_limit :: "int \<Rightarrow> identity_world \<Rightarrow> int" where
  "agent_limit tenant w = (case find (\<lambda>s. ts_TenantID s = tenant) (lrows (idw_settings w)) of None \<Rightarrow> 0 | Some s \<Rightarrow> ts_MaxAgents s)"

definition quota_ok :: "identity_world \<Rightarrow> bool" where
  "quota_ok w \<longleftrightarrow> (\<forall>k. int (length (agents_of k w)) \<le> agent_limit k w) \<and>
     (\<forall>s \<in> set (lrows (idw_settings w)). ts_TenantID s \<in> tn_ID ` set (lrows (idw_tenants w)))"

datatype identity_op = IdTenant string string | IdEditTenant int string string | IdUser create_user_input
  | IdEditUser int string string string | IdAgent create_agent_input | IdGroup create_group_input
  | IdAddMember int int int | IdRemoveMember int int | IdSettings tenant_settings

definition exec_identity :: "gotime \<Rightarrow> int \<Rightarrow> identity_op \<Rightarrow> unit idact" where
  "exec_identity now nid opn = (case opn of
       IdTenant c n \<Rightarrow> ignore_a (CreateTenant now nid c n)
     | IdEditTenant k n s \<Rightarrow> ignore_a (UpdateTenant now k n s)
     | IdUser inp \<Rightarrow> ignore_a (CreateUser now nid inp)
     | IdEditUser k d e p \<Rightarrow> ignore_a (UpdateUser now k d e p)
     | IdAgent inp \<Rightarrow> ignore_a (CreateAgent now nid inp)
     | IdGroup inp \<Rightarrow> ignore_a (CreateSkillGroup now nid inp)
     | IdAddMember g a l \<Rightarrow> ignore_a (AddMember now g a l)
     | IdRemoveMember g a \<Rightarrow> RemoveMember g a
     | IdSettings s \<Rightarrow> wrap_a ErrIdentityStore (UpsertSettings s))"

primrec run_identity :: "((gotime \<times> int) \<times> identity_op) list \<Rightarrow> identity_world \<Rightarrow> identity_world" where
  "run_identity [] w = w"
| "run_identity (q # qs) w = run_identity qs (snd (exec_identity (fst (fst q)) (snd (fst q)) (snd q) w))"

end
