(* ===== verification/IdentityProps.thy ===== *)
theory IdentityProps
  imports Identity
begin

text \<open>
  What the identity services keep: the unique keys of their tables, the values of the stored rows, and
  the agent quota of a tenant.
\<close>

section \<open>Statements on a table\<close>

lemma inv_get_one [inv_intros]: "inv_a (table_ok clash good) (get_one P) (\<lambda>_. True)"
  unfolding inv_a_def get_one_def
  by (auto simp: act_simps sel_all_def on_link_def table_ok_def split: list.splits if_splits prod.splits sum.splits)

lemma table_ok_sel_all: "inv_a (table_ok clash good) (sel_all P) (\<lambda>_. True)"
  unfolding inv_a_def by (auto simp: sel_all_def on_link_def table_ok_def split: list.splits if_splits)

lemma inv_ins_unique: "good x \<Longrightarrow> inv_a (table_ok clash good) (ins_unique clash x) (\<lambda>_. True)"
  unfolding inv_a_def
  by (auto simp: ins_unique_def on_link_def table_ok_def sorted_wrt_append split: list.splits if_splits)

lemma table_ok_upd_rows:
  assumes "\<And>r s. clash (f r) (f s) \<longleftrightarrow> clash r s" "\<And>r s. clash (f r) s \<longleftrightarrow> clash r s"
    "\<And>r s. clash r (f s) \<longleftrightarrow> clash r s" "\<And>r. good r \<Longrightarrow> good (f r)"
  shows "inv_a (table_ok clash good) (upd_rows P f) (\<lambda>_. True)"
proof -
  have "clash (if P r then f r else r) (if P s then f s else s) \<longleftrightarrow> clash r s" for r s using assms by simp
  then show ?thesis
    unfolding inv_a_def using assms(4)
    by (auto simp: upd_rows_def on_link_def table_ok_def sorted_wrt_map split: list.splits if_splits)
qed

lemma inv_delete: "inv_a (table_ok clash good) (on_link (\<lambda>t. (Inr (), t\<lparr>lrows := filter P (lrows t)\<rparr>))) (\<lambda>_. True)"
  unfolding inv_a_def
  by (auto simp: on_link_def table_ok_def sorted_wrt_filter split: list.splits if_splits)

lemma inv_on_tables:
  "inv_a (table_ok tenant_clash (\<lambda>_. True)) m1 Q \<Longrightarrow> inv_a identity_ok (on_tenants m1) Q"
  "inv_a identity_ok (on_settings m2) (\<lambda>_. True)"
  "inv_a (table_ok user_clash (\<lambda>_. True)) m3 Q \<Longrightarrow> inv_a identity_ok (on_users m3) Q"
  "inv_a (table_ok agent_clash (\<lambda>a. ag_ID a = ag_UserID a)) m4 Q4 \<Longrightarrow> inv_a identity_ok (on_agent_rows m4) Q4"
  "inv_a (table_ok group_clash good_group) m5 Q5 \<Longrightarrow> inv_a identity_ok (on_groups m5) Q5"
  "inv_a (table_ok member_clash (\<lambda>_. True)) m6 Q6 \<Longrightarrow> inv_a identity_ok (on_members m6) Q6"
  unfolding on_tenants_def on_settings_def on_users_def on_agent_rows_def on_groups_def on_members_def
  by (erule inv_zoom, auto simp: identity_ok_def)
    (auto simp: inv_a_def act_simps identity_ok_def split: prod.splits)

lemma inv_sum: "(\<And>e. inv_a I (f e) Q) \<Longrightarrow> (\<And>y. inv_a I (g y) Q) \<Longrightarrow> inv_a I (case r of Inl e \<Rightarrow> f e | Inr y \<Rightarrow> g y) Q"
  by (simp split: sum.split)

lemmas inv_tables = inv_sum inv_on_tables inv_get_one table_ok_sel_all inv_delete

section \<open>The keys stay unique\<close>

lemma CreateTenant_ok: "inv_a identity_ok (CreateTenant now nid code name) (\<lambda>_. True)"
  unfolding CreateTenant_def UpsertSettings_def Let_def
  by (rule inv_intros inv_tables inv_ins_unique TrueI | simp)+

lemma UpdateTenant_ok: "inv_a identity_ok (UpdateTenant now k name status) (\<lambda>_. True)"
  unfolding UpdateTenant_def Let_def
  by (rule inv_intros inv_tables table_ok_upd_rows TrueI | simp add: tenant_clash_def)+

lemma CreateUser_ok: "inv_a identity_ok (CreateUser now nid inp) (\<lambda>_. True)"
  unfolding CreateUser_def Let_def
  by (rule inv_intros inv_tables inv_ins_unique TrueI | simp)+

lemma UpdateUser_ok: "inv_a identity_ok (UpdateUser now k d e p) (\<lambda>_. True)"
  unfolding UpdateUser_def Let_def
  by (rule inv_intros inv_tables table_ok_upd_rows TrueI | simp add: user_clash_def User_update_row_def)+

lemma check_quota_ok: "inv_a identity_ok (check_quota tenant) (\<lambda>_. True)"
proof -
  have "inv_a identity_ok (guard_a b e) (\<lambda>_. True)" for b :: bool and e :: identity_error
    by (simp add: guard_a_def inv_intros)
  moreover have "inv_a identity_ok (count_agents tenant) (\<lambda>_. True)"
    unfolding count_agents_def by (rule inv_bind [OF inv_on_tables(4) [OF table_ok_sel_all]], rule inv_ret, rule TrueI)
  ultimately show ?thesis
    unfolding check_quota_def
    by (intro inv_bind [OF inv_wrap [OF inv_on_tables(2)]] inv_bind [OF inv_wrap, where R = "\<lambda>_. True"])
qed

lemma CreateAgent_ok: "inv_a identity_ok (CreateAgent now nid inp) (\<lambda>_. True)"
proof -
  have ins: "inv_a identity_ok (wrap_a ErrIdentityStore (seq_a (on_agent_rows (ins_unique agent_clash (Agent_insert_row a))) (ret_a a))) (\<lambda>_. True)" for a
    by (rule inv_intros inv_tables inv_ins_unique TrueI | simp add: Agent_insert_row_def)+
  show ?thesis
    unfolding CreateAgent_def Let_def
    by (rule inv_try [OF inv_on_tables(4) [OF inv_get_one]]) (intro inv_sum inv_throw inv_seq check_quota_ok ins)
qed

lemma CreateSkillGroup_ok: "inv_a identity_ok (CreateSkillGroup now nid inp) (\<lambda>_. True)"
  unfolding CreateSkillGroup_def Let_def
  by (rule inv_intros inv_tables inv_ins_unique TrueI | simp add: Group_insert_row_def good_group_def)+

lemma AddMember_ok: "inv_a identity_ok (AddMember now g a l) (\<lambda>_. True)"
  and RemoveMember_ok: "inv_a identity_ok (RemoveMember g a) (\<lambda>_. True)"
  unfolding AddMember_def RemoveMember_def Let_def
  by (rule inv_intros inv_tables inv_ins_unique TrueI)+

lemma exec_identity_ok: "inv_a identity_ok (exec_identity now nid opn) (\<lambda>_. True)"
  unfolding exec_identity_def
  by (cases opn) (auto simp: UpsertSettings_def intro!: inv_ignore inv_wrap inv_on_tables CreateTenant_ok UpdateTenant_ok
      CreateUser_ok UpdateUser_ok CreateAgent_ok CreateSkillGroup_ok AddMember_ok RemoveMember_ok)

section \<open>The agent quota\<close>

definition quota_cols :: "identity_world \<Rightarrow> int list \<times> tenant_settings list \<times> agent list" where
  "quota_cols w = (map tn_ID (lrows (idw_tenants w)), lrows (idw_settings w), lrows (idw_agents w))"

lemma quota_keep: "quota_cols w' = quota_cols w \<Longrightarrow> quota_ok w \<Longrightarrow> quota_ok w'"
  by (simp add: quota_ok_def quota_cols_def agents_of_def agent_limit_def flip: set_map)

lemma preserves_quota:
  "preserves quota_cols (on_users m1)" "preserves quota_cols (on_groups m2)" "preserves quota_cols (on_members m3)"
  unfolding on_users_def on_groups_def on_members_def
  by (rule preserves_zoom_other, simp add: quota_cols_def)+

lemma find_filter: "filter P xs = x # ys \<Longrightarrow> find P xs = Some x"
  by (induction xs) (auto split: if_splits)

lemma get_one_rows: "get_one P t = (r, t') \<Longrightarrow> lrows t' = lrows t \<and> (\<forall>x. r = Inr x \<longrightarrow> find P (lrows t) = Some x)"
  by (auto simp: get_one_def act_simps sel_all_def on_link_def dest: find_filter split: list.splits if_splits prod.splits sum.splits)

lemma get_one_quota: "preserves quota_cols (on_tenants (get_one P))" "preserves quota_cols (on_agent_rows (get_one R))"
  unfolding preserves_def on_tenants_def on_agent_rows_def quota_cols_def
  by (auto simp: act_simps dest: get_one_rows split: prod.splits)

lemma UpdateTenant_quota: "preserves quota_cols (UpdateTenant now k name status)"
  unfolding preserves_def UpdateTenant_def quota_cols_def on_tenants_def
  by (auto simp: act_simps upd_rows_def on_link_def Let_def comp_def intro!: map_cong dest!: get_one_rows
      split: prod.splits sum.splits list.splits if_splits)

lemma ins_unique_rows: "ins_unique clash x t = (r, t') \<Longrightarrow>
    (\<forall>y \<in> set (lrows t). \<not> clash y x) \<and> lrows t' = lrows t @ [x] \<or> (\<exists>e. r = Inl e) \<and> lrows t' = lrows t"
  by (auto simp: ins_unique_def on_link_def split: list.splits if_splits)

lemma quota_add_tenant:
  assumes "quota_ok w" "lrows (idw_tenants w') = lrows (idw_tenants w) @ [t]" "lrows (idw_settings w') = lrows (idw_settings w)"
    "lrows (idw_agents w') = lrows (idw_agents w)"
  shows "quota_ok w'"
  using assms by (auto simp: quota_ok_def agents_of_def agent_limit_def)

lemma quota_add_settings:
  assumes "quota_ok w" "nid \<notin> ts_TenantID ` set (lrows (idw_settings w))" "nid \<in> tn_ID ` set (lrows (idw_tenants w))"
    "lrows (idw_settings w') = lrows (idw_settings w) @ [default_settings nid]" "idw_tenants w' = idw_tenants w" "idw_agents w' = idw_agents w"
  shows "quota_ok w'"
proof -
  have new: "ts_TenantID (default_settings nid) = nid" "ts_MaxAgents (default_settings nid) = 50" by (simp_all add: default_settings_def)
  have "find (\<lambda>s. ts_TenantID s = nid) (lrows (idw_settings w)) = None" using assms(2) by (auto simp: find_None_iff)
  then have "agents_of nid w = []" using assms(1) by (auto simp: quota_ok_def agent_limit_def dest!: spec [of _ nid])
  moreover have "agent_limit k w' = (if k = nid then 50 else agent_limit k w)" for k
    using \<open>find _ _ = None\<close> by (auto simp: agent_limit_def assms(4) find_append new split: option.split)
  moreover have "agents_of k w' = agents_of k w" for k by (simp add: agents_of_def assms(6))
  ultimately show ?thesis using assms new by (auto simp: quota_ok_def)
qed

lemma CreateTenant_quota:
  assumes "quota_ok w" "CreateTenant now nid code name w = (r, w')"
  shows "quota_ok w'"
proof -
  obtain q w1 where q: "on_tenants (get_one (\<lambda>t. tn_Code t = code)) w = (q, w1)" by fastforce
  let ?t = "\<lparr>tn_ID = nid, tn_Code = code, tn_Name = name, tn_Status = ''active'', tn_CreatedAt = now, tn_UpdatedAt = now\<rparr>"
  obtain i w2 where i: "on_tenants (ins_unique tenant_clash ?t) w1 = (i, w2)" by fastforce
  obtain u w3 where u: "UpsertSettings (default_settings nid) w2 = (u, w3)" by fastforce
  have "quota_cols w1 = quota_cols w"
    by (rule preservesD [OF get_one_quota(1) q])
  from quota_keep [OF this assms(1)] have ok1: "quota_ok w1" .
  have w': "w' = w1 \<or> (\<exists>e. i = Inl e) \<and> w' = w2 \<or> (\<exists>x. i = Inr x) \<and> w' = w3"
    using assms(2) unfolding CreateTenant_def Let_def
    by (cases q; cases i; cases u) (simp_all only: bind_a_def seq_a_def try_a_def wrap_a_def ret_a_def throw_a_def q i u
      prod.case sum.case prod.inject, auto)
  have rows2: "idw_settings w2 = idw_settings w1" "idw_agents w2 = idw_agents w1"
    "ins_unique tenant_clash ?t (idw_tenants w1) = (i, idw_tenants w2)"
    using i by (auto simp: on_tenants_def act_simps split: prod.splits)
  from ins_unique_rows [OF rows2(3)] show ?thesis
  proof (elim disjE conjE exE)
    assume new: "\<forall>y \<in> set (lrows (idw_tenants w1)). \<not> tenant_clash y ?t" and app: "lrows (idw_tenants w2) = lrows (idw_tenants w1) @ [?t]"
    have ok2: "quota_ok w2" using quota_add_tenant [OF ok1 app] rows2 by simp
    have fresh: "nid \<notin> ts_TenantID ` set (lrows (idw_settings w2))"
      using new ok1 rows2 by (fastforce simp: quota_ok_def tenant_clash_def)
    then have none: "lrow ts_TenantID (idw_settings w2) (ts_TenantID (default_settings nid)) = None"
      by (auto simp: lrow_def find_None_iff default_settings_def)
    have "quota_ok w3"
    proof (cases u)
      case Inl
      with u have "quota_cols w3 = quota_cols w2"
        by (auto simp: UpsertSettings_def on_settings_def act_simps lsql_defs quota_cols_def split: prod.splits list.splits if_splits)
      then show ?thesis by (rule quota_keep [OF _ ok2])
    next
      case Inr
      with u none have "lrows (idw_settings w3) = lrows (idw_settings w2) @ [default_settings nid]" "idw_tenants w3 = idw_tenants w2"
        "idw_agents w3 = idw_agents w2"
        by (auto simp: UpsertSettings_def on_settings_def act_simps lsql_defs split: prod.splits list.splits if_splits)
      then show ?thesis using quota_add_settings [OF ok2 fresh] app by simp
    qed
    with w' ok1 ok2 show ?thesis by auto
  next
    fix e assume "i = Inl e" "lrows (idw_tenants w2) = lrows (idw_tenants w1)"
    then have "quota_cols w2 = quota_cols w1" using rows2 by (simp add: quota_cols_def)
    with w' ok1 \<open>i = Inl e\<close> show ?thesis using quota_keep [of w2 w1] by auto
  qed
qed

lemma check_quota_run:
  assumes "check_quota tenant w = (r, w')"
  shows "quota_cols w' = quota_cols w \<and> (\<forall>x. r = Inr x \<longrightarrow> int (length (agents_of tenant w)) < agent_limit tenant w)"
  using assms unfolding check_quota_def count_agents_def quota_cols_def agents_of_def agent_limit_def on_settings_def on_agent_rows_def
  by (auto simp: act_simps sel_all_def on_link_def dest!: get_one_rows split: prod.splits sum.splits list.splits if_splits)

lemma CreateAgent_quota:
  assumes "quota_ok w" "CreateAgent now nid inp w = (r, w')"
  shows "quota_ok w'"
proof -
  obtain q w1 where q: "on_agent_rows (get_one (\<lambda>a. ag_UserID a = ai_UserID inp)) w = (q, w1)" by fastforce
  obtain c w2 where c: "check_quota (ai_TenantID inp) w1 = (c, w2)" by fastforce
  have "quota_cols w1 = quota_cols w"
    by (rule preservesD [OF get_one_quota(2) q])
  from quota_keep [OF this assms(1)] have ok1: "quota_ok w1" .
  from check_quota_run [OF c] have same2: "quota_cols w2 = quota_cols w1" by simp
  note ok2 = ok1 quota_keep [OF same2 ok1] same2
  show ?thesis
  proof (cases "\<exists>x. q = Inl x \<and> (\<exists>y. c = Inr y)")
    case False
    with assms(2) have "w' = w1 \<or> w' = w2"
      unfolding CreateAgent_def by (cases q; cases c) (simp_all only: bind_a_def seq_a_def try_a_def wrap_a_def ret_a_def throw_a_def q c
      prod.case sum.case prod.inject, auto)
    with ok2 show ?thesis by auto
  next
    case True
    define a where "a = \<lparr>ag_ID = nid, ag_TenantID = ai_TenantID inp, ag_UserID = ai_UserID inp, ag_EmployeeID = ai_EmployeeID inp,
      ag_Extension = ai_Extension inp, ag_WorkMode = ai_WorkMode inp, ag_SIPDeviceStatus = ''unregistered'',
      ag_MaxConcurrent = 1, ag_MaxChatSlots = (if ai_MaxChatSlots inp = 0 then 3 else ai_MaxChatSlots inp),
      ag_ACWSeconds = (if ai_ACWSeconds inp = 0 then 15 else ai_ACWSeconds inp), ag_OutboundOnly = False,
      ag_CreatedAt = now, ag_UpdatedAt = now\<rparr>"
    obtain i w3 where i: "on_agent_rows (ins_unique agent_clash (Agent_insert_row a)) w2 = (i, w3)" by fastforce
    have "w' = w3" using assms(2) True
      unfolding CreateAgent_def Let_def a_def [symmetric]
      by (cases i) (auto simp only: bind_a_def seq_a_def try_a_def wrap_a_def ret_a_def throw_a_def q c i
        prod.case sum.case prod.inject)
    with i have rows3: "ins_unique agent_clash (Agent_insert_row a) (idw_agents w2) = (i, idw_agents w')"
        "idw_settings w' = idw_settings w2" "idw_tenants w' = idw_tenants w2"
      by (auto simp: on_agent_rows_def act_simps split: prod.splits)
    have a: "ag_TenantID (Agent_insert_row a) = ai_TenantID inp" by (simp add: a_def Agent_insert_row_def)
    have "int (length (agents_of (ai_TenantID inp) w2)) < agent_limit (ai_TenantID inp) w2"
      using check_quota_run [OF c] True ok2(3) by (auto simp: quota_cols_def agents_of_def agent_limit_def)
    with ins_unique_rows [OF rows3(1)] ok2(2) a rows3(2,3) show ?thesis
      by (auto simp: quota_ok_def agents_of_def agent_limit_def)
  qed
qed

lemma others_quota:
  "preserves quota_cols (CreateUser now nid ui)" "preserves quota_cols (UpdateUser now k d e p)"
  "preserves quota_cols (CreateSkillGroup now nid gi)" "preserves quota_cols (AddMember now g a l)"
  "preserves quota_cols (RemoveMember g a)"
  unfolding CreateUser_def UpdateUser_def CreateSkillGroup_def AddMember_def RemoveMember_def Let_def
  by (auto intro!: frame_intros preserves_quota split: sum.split)

lemma exec_identity_quota:
  assumes "quota_ok w" "\<nexists>s. opn = IdSettings s"
  shows "quota_ok (snd (exec_identity now nid opn w))"
proof -
  have quiet: "quota_ok (snd (m w))" if "preserves quota_cols m" for m :: "'a idact"
    using that quota_keep [OF _ assms(1)] by (simp add: preserves_def)
  have new: "quota_ok (snd (CreateTenant now nid c n w))" "quota_ok (snd (CreateAgent now nid inp w))" for c n inp
    using CreateTenant_quota [OF assms(1)] CreateAgent_quota [OF assms(1)] by (metis prod.collapse)+
  show ?thesis
    using assms(2)
    by (cases opn) (simp_all add: exec_identity_def act_simps new quiet [OF UpdateTenant_quota] others_quota [THEN quiet])
qed

text \<open>
  C15. From tables in which it holds, every sequence of requests keeps: no two tenants share an id or a
  code, no two users an id or a name inside a tenant, no two agents a user, no two skill groups an id or
  a code inside a tenant, no two members a group and a user; a stored agent has the id of its user, a
  stored skill group has a known routing policy and neither an overflow group nor a queue limit nor a
  priority. When no request changes the settings, no tenant ever has more agents than its settings allow.
\<close>

theorem identity_invariant:
  assumes "identity_ok w"
  shows "identity_ok (run_identity qs w) \<and>
    (quota_ok w \<longrightarrow> (\<forall>q \<in> set qs. \<nexists>s. snd q = IdSettings s) \<longrightarrow> quota_ok (run_identity qs w))"
  using assms
proof (induction qs arbitrary: w)
  case (Cons q qs)
  let ?w = "snd (exec_identity (fst (fst q)) (snd (fst q)) (snd q) w)"
  have "identity_ok ?w" by (rule inv_snd [OF exec_identity_ok Cons.prems])
  from Cons.IH [OF this] show ?case using exec_identity_quota [of w "snd q"] by auto
qed simp

definition identity_world0 :: identity_world where
  "identity_world0 = \<lparr>idw_tenants = \<lparr>lrows = [], loutages = []\<rparr>, idw_settings = \<lparr>lrows = [], loutages = []\<rparr>,
     idw_users = \<lparr>lrows = [], loutages = []\<rparr>, idw_agents = \<lparr>lrows = [], loutages = []\<rparr>,
     idw_groups = \<lparr>lrows = [], loutages = []\<rparr>, idw_members = \<lparr>lrows = [], loutages = []\<rparr>\<rparr>"

definition agent_input0 :: create_agent_input where
  "agent_input0 = \<lparr>ai_TenantID = 1, ai_UserID = 8, ai_EmployeeID = ''e'', ai_Extension = ''100'', ai_WorkMode = [],
     ai_MaxChatSlots = 0, ai_ACWSeconds = 0\<rparr>"

lemma identity_invariant_witness:
  "let w = run_identity [((5, 1), IdTenant ''acme'' ''Acme''), ((6, 2), IdTenant ''acme'' ''Other''), ((7, 3), IdAgent agent_input0),
       ((8, 4), IdAgent agent_input0)] identity_world0
   in map tn_Name (lrows (idw_tenants w)) = [''Acme''] \<and> map ag_ID (lrows (idw_agents w)) = [8] \<and> identity_ok w \<and> quota_ok w"
proof -
  have start: "identity_ok identity_world0" "quota_ok identity_world0"
    by (simp_all add: identity_ok_def table_ok_def quota_ok_def agents_of_def agent_limit_def identity_world0_def)
  show ?thesis
    using identity_invariant [OF start(1), of "[((5, 1), IdTenant ''acme'' ''Acme''), ((6, 2), IdTenant ''acme'' ''Other''),
        ((7, 3), IdAgent agent_input0), ((8, 4), IdAgent agent_input0)]"] start(2)
    by (simp add: Let_def identity_world0_def exec_identity_def CreateTenant_def CreateAgent_def agent_input0_def check_quota_def
        count_agents_def UpsertSettings_def default_settings_def get_one_def ins_unique_def on_link_def on_tenants_def on_settings_def
        on_agent_rows_def act_simps Agent_insert_row_def lrow_def tenant_clash_def agent_clash_def)
qed

end
