(* ===== verification/Esl.thy ===== *)
theory Esl
  imports Telephony CallService
begin

text \<open>
  The event socket of FreeSWITCH: \<open>internal/infrastructure/esl/client.go\<close> (commands, replies, the pool
  of connections and its circuit breaker), \<open>telephony_adapter.go\<close> and \<open>event_listener.go\<close>.
\<close>

abbreviation LF :: char where "LF \<equiv> CHR 0x0A"
abbreviation CR :: char where "CR \<equiv> CHR 0x0D"

section \<open>Command lines\<close>

text \<open>
  A string is its bytes. \<open>rune_len\<close>: how many bytes of UTF-8 the first character takes, as \<open>range\<close> reads it; \<open>None\<close> for
  bytes that begin no character, of which \<open>range\<close> takes one and reads U+FFFD.
\<close>

definition byte_at :: "string \<Rightarrow> nat \<Rightarrow> nat" where
  "byte_at s i = (if i < length s then of_char (s ! i) else 0)"

definition between :: "nat \<Rightarrow> nat \<Rightarrow> nat \<Rightarrow> bool" where
  "between lo hi b \<longleftrightarrow> lo \<le> b \<and> b \<le> hi"

definition rune_len :: "string \<Rightarrow> nat option" where
  "rune_len s =
     (let b = byte_at s 0; second = byte_at s 1; tail = (\<lambda>i. between 0x80 0xBF (byte_at s i))
      in if b < 0x80 then Some 1
         else if between 0xC2 0xDF b \<and> tail 1 then Some 2
         else if (b = 0xE0 \<and> between 0xA0 0xBF second \<or> between 0xE1 0xEF b \<and> b \<noteq> 0xED \<and> tail 1 \<or>
                  b = 0xED \<and> between 0x80 0x9F second) \<and> tail 2 then Some 3
         else if (b = 0xF0 \<and> between 0x90 0xBF second \<or> between 0xF1 0xF3 b \<and> tail 1 \<or>
                  b = 0xF4 \<and> between 0x80 0x8F second) \<and> tail 2 \<and> tail 3 then Some 4
         else None)"

function sanitizeParam :: "string \<Rightarrow> string" where
  "sanitizeParam [] = []"
| "sanitizeParam (c # cs) =
     (if c = LF \<or> c = CR \<or> c = CHR 0x00 then sanitizeParam cs
      else case rune_len (c # cs) of
        None \<Rightarrow> [CHR 0xEF, CHR 0xBF, CHR 0xBD] @ sanitizeParam cs
      | Some n \<Rightarrow> c # take (n - 1) cs @ sanitizeParam (drop (n - 1) cs))"
  by pat_completeness auto
termination by (relation "measure length") auto

text \<open>\<open>EslRaw\<close>: \<open>SendCommand\<close> with a line its caller has put together, as the nodes of the IVR and the gateway status do.\<close>

datatype esl_op = EslRaw string | EslTelephony tp_cmd | EslBridge string string | EslPlayAudio string string | EslStartRecording string string
  | EslRegisterSIPPhone string string | EslOriginateToPhone string string string string
  | EslOriginateB2B string string string string | EslFlashSMS string string string

text \<open>The commands of an operation, in the order they are sent; each is sent after the one before has succeeded.\<close>

definition eavesdrop_line :: "string \<Rightarrow> string \<Rightarrow> string" where
  "eavesdrop_line spy target = ''uuid_transfer '' @ sanitizeParam spy @ '' eavesdrop:'' @ sanitizeParam target @ '' inline''"

fun tp_lines :: "tp_cmd \<Rightarrow> string list" where
  "tp_lines (TpOriginate dest caller ctx) =
     [''originate {origination_caller_id_number='' @ sanitizeParam caller @ ''}'' @ sanitizeParam dest @ '' '' @ sanitizeParam ctx]"
| "tp_lines (TpHangup u) = [''uuid_kill '' @ sanitizeParam u]"
| "tp_lines (TpHold u) = [''uuid_hold '' @ sanitizeParam u]"
| "tp_lines (TpRetrieve u) = [''uuid_hold off '' @ sanitizeParam u]"
| "tp_lines (TpTransfer u dest) = [''uuid_transfer '' @ sanitizeParam u @ '' '' @ sanitizeParam dest]"
| "tp_lines (TpSendDTMF u ds) = [''uuid_send_dtmf '' @ sanitizeParam u @ '' '' @ sanitizeParam ds]"
| "tp_lines (TpEavesdrop spy target) = [eavesdrop_line spy target]"
| "tp_lines (TpEavesdropWhisper spy target) =
     [''uuid_setvar '' @ sanitizeParam spy @ '' eavesdrop_whisper_bleg true'', eavesdrop_line spy target]"
| "tp_lines (TpEavesdropBarge spy target) =
     [''uuid_setvar '' @ sanitizeParam spy @ '' eavesdrop_whisper_aleg true'',
      ''uuid_setvar '' @ sanitizeParam spy @ '' eavesdrop_whisper_bleg true'', eavesdrop_line spy target]"
| "tp_lines (TpIntercept i target) = [''uuid_transfer '' @ sanitizeParam i @ '' intercept:'' @ sanitizeParam target @ '' inline'']"
| "tp_lines (TpCoach coach target) =
     [''uuid_setvar '' @ sanitizeParam coach @ '' eavesdrop_whisper_bleg true'', eavesdrop_line coach target]"
| "tp_lines (TpConference u conf) = [''uuid_transfer '' @ sanitizeParam u @ '' conference:'' @ sanitizeParam conf @ ''@default inline'']"
| "tp_lines (TpWhisperAnnouncement u f) = [''uuid_broadcast '' @ sanitizeParam u @ '' '' @ sanitizeParam f @ '' aleg'']"

fun esl_lines :: "esl_op \<Rightarrow> string list" where
  "esl_lines (EslRaw c) = [c]"
| "esl_lines (EslTelephony t) = tp_lines t"
| "esl_lines (EslBridge u1 u2) = [''uuid_bridge '' @ sanitizeParam u1 @ '' '' @ sanitizeParam u2]"
| "esl_lines (EslPlayAudio u f) = [''uuid_broadcast '' @ sanitizeParam u @ '' '' @ sanitizeParam f @ '' both'']"
| "esl_lines (EslStartRecording u f) = [''uuid_record '' @ sanitizeParam u @ '' start '' @ sanitizeParam f]"
| "esl_lines (EslRegisterSIPPhone ext realm) = [''sofia_contact */'' @ sanitizeParam ext @ ''@'' @ sanitizeParam realm]"
| "esl_lines (EslOriginateToPhone u phone caller gw) =
     [''uuid_transfer '' @ sanitizeParam u @ '' bridge:{origination_caller_id_number='' @ sanitizeParam caller @ ''}'' @
      ''sofia/gateway/'' @ sanitizeParam gw @ ''/'' @ sanitizeParam phone @ '' inline'']"
| "esl_lines (EslOriginateB2B callerNum calleeNum callerID gw) =
     [''originate {origination_caller_id_number='' @ sanitizeParam callerID @ ''}sofia/gateway/'' @ sanitizeParam gw @ ''/'' @
      sanitizeParam callerNum @ '' &bridge('' @ ''sofia/gateway/'' @ sanitizeParam gw @ ''/'' @ sanitizeParam calleeNum @ '')'']"
| "esl_lines (EslFlashSMS from to msg) = [''chat sms|'' @ sanitizeParam from @ ''|'' @ sanitizeParam to @ ''|'' @ sanitizeParam msg]"

text \<open>What goes over the connection for a command.\<close>

definition api_line :: "string \<Rightarrow> string" where
  "api_line cmd = ''api '' @ cmd @ [LF, LF]"

section \<open>Reading replies\<close>

definition trim_eol :: "string \<Rightarrow> string" where
  "trim_eol s = rev (dropWhile (\<lambda>c. c = LF \<or> c = CR) (rev s))"

lemma cut_at_split: "cut_at sub s = Some (a, b) \<Longrightarrow> s = a @ sub @ b"
proof (induction s arbitrary: a)
  case Nil
  then show ?case by (subst (asm) cut_at.simps) (auto split: if_splits simp: HasPrefix_iff)
next
  case (Cons c s)
  show ?case
  proof (cases "strings_HasPrefix (c # s) sub")
    case True
    with Cons.prems show ?thesis by (auto simp: cut_at_hit HasPrefix_iff)
  next
    case False
    with Cons show ?thesis by (auto simp: cut_at_miss)
  qed
qed

text \<open>One header; a line without a colon and a blank, or with an empty name, is skipped.\<close>

definition put_header :: "string \<Rightarrow> (string \<rightharpoonup> string) \<Rightarrow> (string \<rightharpoonup> string)" where
  "put_header line hs = (case cut_at '': '' line of Some (k, v) \<Rightarrow> if k = [] then hs else hs(k \<mapsto> v) | None \<Rightarrow> hs)"

text \<open>The headers up to the empty line, and what follows; none when the connection ends first.\<close>

function read_headers :: "string \<Rightarrow> (string \<rightharpoonup> string) \<Rightarrow> ((string \<rightharpoonup> string) \<times> string) option" where
  "read_headers s hs = (case cut_at [LF] s of
       None \<Rightarrow> None
     | Some (line, rest) \<Rightarrow> if trim_eol line = [] then Some (hs, rest) else read_headers rest (put_header (trim_eol line) hs))"
  by auto
termination by (relation "measure (length \<circ> fst)") (auto dest: cut_at_split)

declare read_headers.simps [simp del]

definition header :: "(string \<rightharpoonup> string) \<Rightarrow> string \<Rightarrow> string" where
  "header hs k = (case hs k of None \<Rightarrow> [] | Some v \<Rightarrow> v)"

text \<open>
  A TCP connection: the bytes FreeSWITCH sends before the deadline, how many more writes succeed, and
  what has been written.
\<close>

record esl_link =
  lk_in :: string
  lk_writes :: nat
  lk_out :: string

definition content_length :: "(string \<rightharpoonup> string) \<Rightarrow> int" where
  "content_length hs = (if header hs ''Content-Length'' = [] then 0
     else case parse_int64 (header hs ''Content-Length'') of None \<Rightarrow> 0 | Some n \<Rightarrow> n)"

definition reply_of :: "string \<Rightarrow> string + string" where
  "reply_of body = (let b = TrimSpace body in if strings_HasPrefix b ''-ERR'' then Inl (''esl: '' @ b) else Inr b)"

text \<open>One command on a connection: the result, whether the connection is still good, and the connection.\<close>

definition exchange :: "string \<Rightarrow> esl_link \<Rightarrow> (string + string) \<times> bool \<times> esl_link" where
  "exchange cmd l = (case lk_writes l of
       0 \<Rightarrow> (Inl ''esl: send'', False, l)
     | Suc n \<Rightarrow>
         let l1 = l\<lparr>lk_writes := n, lk_out := lk_out l @ api_line cmd\<rparr>
         in (case read_headers (lk_in l) Map.empty of
               None \<Rightarrow> (Inl ''esl: read response'', False, l1\<lparr>lk_in := []\<rparr>)
             | Some (hs, rest) \<Rightarrow>
                 let len = nat (content_length hs)
                 in if len \<le> length rest then (reply_of (take len rest), True, l1\<lparr>lk_in := drop len rest\<rparr>)
                    else (Inl ''esl: read body'', False, l1\<lparr>lk_in := []\<rparr>)))"

text \<open>The handshake on a new connection.\<close>

definition connect_link :: "string \<Rightarrow> esl_link \<Rightarrow> esl_link option" where
  "connect_link pass l = (case read_headers (lk_in l) Map.empty of
       None \<Rightarrow> None
     | Some (hs, rest) \<Rightarrow>
         if header hs ''Content-Type'' \<noteq> ''auth/request'' then None
         else (case lk_writes l of
             0 \<Rightarrow> None
           | Suc n \<Rightarrow> (case read_headers rest Map.empty of
               None \<Rightarrow> None
             | Some (hs2, rest2) \<Rightarrow>
                 if strings_HasPrefix (header hs2 ''Reply-Text'') ''+OK''
                 then Some (l\<lparr>lk_in := rest2, lk_writes := n, lk_out := lk_out l @ ''auth '' @ pass @ [LF, LF]\<rparr>) else None)))"

section \<open>The circuit breaker\<close>

datatype breaker_state = BreakerClosed | BreakerOpen | BreakerHalfOpen

record breaker =
  br_failures :: int
  br_threshold :: int
  br_state :: breaker_state
  br_lastFailure :: gotime
  br_resetTimeout :: int

definition new_breaker :: breaker where
  "new_breaker = \<lparr>br_failures = 0, br_threshold = 5, br_state = BreakerClosed, br_lastFailure = 0, br_resetTimeout = 30 * second\<rparr>"

definition br_allow :: "gotime \<Rightarrow> breaker \<Rightarrow> bool \<times> breaker" where
  "br_allow now b = (case br_state b of
       BreakerOpen \<Rightarrow> if time_sub now (br_lastFailure b) > br_resetTimeout b then (True, b\<lparr>br_state := BreakerHalfOpen\<rparr>) else (False, b)
     | _ \<Rightarrow> (True, b))"

definition recordFailure :: "gotime \<Rightarrow> breaker \<Rightarrow> breaker" where
  "recordFailure now b = (let b1 = b\<lparr>br_failures := br_failures b + 1, br_lastFailure := now\<rparr>
     in if br_threshold b1 \<le> br_failures b1 then b1\<lparr>br_state := BreakerOpen\<rparr> else b1)"

definition recordSuccess :: "breaker \<Rightarrow> breaker" where
  "recordSuccess b = b\<lparr>br_failures := 0, br_state := BreakerClosed\<rparr>"

section \<open>The client\<close>

record esl_conn =
  cn_id :: int
  cn_connected :: bool
  cn_lastUsed :: gotime
  cn_link :: "esl_link option"

text \<open>\<open>es_dials\<close>: what the next connection attempts meet; none once it is used up.\<close>

record esl_client =
  es_pass :: string
  es_pool :: "esl_conn list"
  es_size :: int
  es_next :: int
  es_min :: int
  es_max :: int
  es_closed :: bool
  es_breaker :: breaker
  es_maxIdle :: int
  es_dials :: "esl_link option list"

definition fresh_conn :: "int \<Rightarrow> esl_conn" where
  "fresh_conn k = \<lparr>cn_id = k, cn_connected = False, cn_lastUsed = 0, cn_link = None\<rparr>"

definition NewEslClient :: "string \<Rightarrow> int \<Rightarrow> int \<Rightarrow> int \<Rightarrow> esl_link option list \<Rightarrow> esl_client" where
  "NewEslClient pass poolSize minPool maxPool dials =
     (let p = (if poolSize \<le> 0 then 5 else poolSize);
          mn = (if minPool \<le> 0 then p else minPool);
          mx1 = (if maxPool \<le> 0 then p * 4 else maxPool);
          mx = (if mx1 < p then p else mx1)
      in \<lparr>es_pass = pass, es_pool = map (\<lambda>i. fresh_conn (int i)) [0..<nat p], es_size = p, es_next = p, es_min = mn, es_max = mx,
          es_closed = False, es_breaker = new_breaker, es_maxIdle = 5 * 60 * second, es_dials = dials\<rparr>)"

primrec Grow :: "nat \<Rightarrow> esl_client \<Rightarrow> nat \<times> esl_client" where
  "Grow 0 c = (0, c)"
| "Grow (Suc n) c =
     (if es_max c \<le> es_size c then (0, c)
      else let (a, c') = Grow n (c\<lparr>es_size := es_size c + 1, es_next := es_next c + 1, es_pool := es_pool c @ [fresh_conn (es_next c)]\<rparr>)
           in (Suc a, c'))"

primrec Shrink :: "nat \<Rightarrow> esl_client \<Rightarrow> nat \<times> esl_client" where
  "Shrink 0 c = (0, c)"
| "Shrink (Suc n) c =
     (if es_size c \<le> es_min c then (0, c)
      else case es_pool c of
          [] \<Rightarrow> (0, c)
        | _ # cns \<Rightarrow> let (a, c') = Shrink n (c\<lparr>es_size := es_size c - 1, es_pool := cns\<rparr>) in (Suc a, c'))"

text \<open>One tick of the scaler; the shares are compared as exact fractions.\<close>

definition AutoScale_tick :: "nat \<Rightarrow> esl_client \<Rightarrow> nat \<times> esl_client" where
  "AutoScale_tick idle c =
     (let size = es_size c; used = size - int (length (es_pool c))
      in if size = 0 then (idle, c)
         else if 4 * size < 5 * used then (0, snd (Grow 1 c))
         else if 5 * used < size then (if 2 \<le> Suc idle then (0, snd (Shrink 1 c)) else (Suc idle, c))
         else (0, c))"

text \<open>
  \<open>AcquireConn\<close>: the connection taken, with whether the pool is to grow in the background. A pool with no idle
  connection is an error here: the caller waits for one until its context ends.
\<close>

definition AcquireConn :: "gotime \<Rightarrow> esl_client \<Rightarrow> (string + (esl_conn \<times> esl_link \<times> bool)) \<times> esl_client" where
  "AcquireConn now c =
     (if es_closed c then (Inl ''esl: client closed'', c)
      else let (ok, b) = br_allow now (es_breaker c); c1 = c\<lparr>es_breaker := b\<rparr>
      in if \<not> ok then (Inl ''esl: circuit breaker open'', c1)
      else case es_pool c1 of
          [] \<Rightarrow> (Inl ''context deadline exceeded'', c1)
        | cn # cns \<Rightarrow>
            let c2 = c1\<lparr>es_pool := cns\<rparr>;
                grow = (\<lambda>d. 0 < es_size d \<and> int (length (es_pool d)) * 5 < es_size d);
                redial = (\<not> cn_connected cn \<or> cn_link cn = None \<or> 0 < es_maxIdle c \<and> es_maxIdle c < time_sub now (cn_lastUsed cn))
            in if \<not> redial then (Inr (cn\<lparr>cn_lastUsed := now\<rparr>, the (cn_link cn), grow c2), c2)
               else let dial = (case es_dials c2 of d # _ \<Rightarrow> d | [] \<Rightarrow> None); c3 = c2\<lparr>es_dials := tl (es_dials c2)\<rparr>
                    in case Option.bind dial (connect_link (es_pass c)) of
                         None \<Rightarrow> (Inl ''esl: connect failed'',
                           c3\<lparr>es_pool := es_pool c3 @ [cn\<lparr>cn_connected := False, cn_link := None\<rparr>],
                              es_breaker := recordFailure now (es_breaker c3)\<rparr>)
                       | Some l \<Rightarrow> (Inr (cn\<lparr>cn_connected := True, cn_lastUsed := now\<rparr>, l, grow c3),
                           c3\<lparr>es_breaker := recordSuccess (es_breaker c3)\<rparr>))"

definition ReleaseConn :: "esl_conn \<Rightarrow> esl_client \<Rightarrow> esl_client" where
  "ReleaseConn cn c = (if es_closed c then c else c\<lparr>es_pool := es_pool c @ [cn]\<rparr>)"

definition SendCommand :: "gotime \<Rightarrow> string \<Rightarrow> esl_client \<Rightarrow> (string + string) \<times> esl_client" where
  "SendCommand now cmd c = (case AcquireConn now c of
       (Inl e, c1) \<Rightarrow> (Inl e, c1)
     | (Inr (cn, l, grow), c1) \<Rightarrow>
         let (r, ok, l1) = exchange cmd l;
             c2 = c1\<lparr>es_breaker := (if ok then recordSuccess (es_breaker c1) else recordFailure now (es_breaker c1))\<rparr>;
             c3 = ReleaseConn (cn\<lparr>cn_connected := ok, cn_link := Some l1\<rparr>) c2
         in (r, if grow then snd (Grow 2 c3) else c3))"

primrec SendCommands :: "gotime \<Rightarrow> string list \<Rightarrow> string \<Rightarrow> esl_client \<Rightarrow> (string + string) \<times> esl_client" where
  "SendCommands now [] r c = (Inr r, c)"
| "SendCommands now (cmd # cmds) r c = (case SendCommand now cmd c of
       (Inl e, c1) \<Rightarrow> (Inl e, c1) | (Inr r1, c1) \<Rightarrow> SendCommands now cmds r1 c1)"

definition esl_run :: "gotime \<Rightarrow> esl_op \<Rightarrow> esl_client \<Rightarrow> (string + string) \<times> esl_client" where
  "esl_run now opn c = (case SendCommands now (esl_lines opn) [] c of
       (Inr r, c1) \<Rightarrow> (case opn of
           EslRegisterSIPPhone ext realm \<Rightarrow> if strings_Contains r ''error'' then (Inl (''esl: extension '' @ ext @ ''@'' @ realm @ '' not registered''), c1)
              else (Inr r, c1)
         | _ \<Rightarrow> (Inr r, c1))
     | res \<Rightarrow> res)"

definition health_check :: "gotime \<Rightarrow> esl_client \<Rightarrow> (string + string) \<times> esl_client" where
  "health_check now c = (if es_closed c then (Inr [], c) else SendCommand now ''api status'' c)"

definition CloseEsl :: "esl_client \<Rightarrow> esl_client" where
  "CloseEsl c = (if es_closed c then c else c\<lparr>es_closed := True, es_pool := []\<rparr>)"

section \<open>Events\<close>

definition hex_val :: "char \<Rightarrow> nat option" where
  "hex_val c = (let n = of_char c in if 48 \<le> n \<and> n \<le> 57 then Some (n - 48)
     else if 97 \<le> n \<and> n \<le> 102 then Some (n - 87) else if 65 \<le> n \<and> n \<le> 70 then Some (n - 55) else None)"

fun QueryUnescape :: "string \<Rightarrow> string option" where
  "QueryUnescape [] = Some []"
| "QueryUnescape (c # cs) =
     (if c = CHR ''%'' then (case cs of
         a # b # rest \<Rightarrow> (case (hex_val a, hex_val b) of
             (Some i, Some j) \<Rightarrow> map_option (\<lambda>s. char_of (16 * i + j) # s) (QueryUnescape rest)
           | _ \<Rightarrow> None)
       | _ \<Rightarrow> None)
      else map_option (\<lambda>s. (if c = CHR ''+'' then CHR '' '' else c) # s) (QueryUnescape cs))"

record wire_event =
  ev_Name :: string
  ev_ChannelUUID :: string
  ev_Direction :: string
  ev_HangupCause :: string
  ev_CallerID :: string
  ev_DestNumber :: string
  ev_Headers :: "string \<rightharpoonup> string"

definition event_header :: "(string \<rightharpoonup> string) \<Rightarrow> string \<Rightarrow> (string \<rightharpoonup> string)" where
  "event_header hs line0 = (let line = trim_eol line0 in
     case cut_at '': '' line of
       Some (k, v) \<Rightarrow> if k = [] then hs else hs(k \<mapsto> (case QueryUnescape v of None \<Rightarrow> v | Some d \<Rightarrow> d))
     | None \<Rightarrow> hs)"

definition parseEvent :: "string \<Rightarrow> wire_event" where
  "parseEvent body = (let hs = foldl event_header Map.empty (split_on LF body)
     in \<lparr>ev_Name = header hs ''Event-Name'',
         ev_ChannelUUID = (if header hs ''Unique-ID'' = [] then header hs ''Channel-Call-UUID'' else header hs ''Unique-ID''),
         ev_Direction = header hs ''Call-Direction'', ev_HangupCause = header hs ''Hangup-Cause'',
         ev_CallerID = header hs ''Caller-Caller-ID-Number'', ev_DestNumber = header hs ''Caller-Destination-Number'',
         ev_Headers = hs\<rparr>)"

text \<open>The loop over frames: the events handed to the handler, and the error (or the panic) that ends it.\<close>

datatype listen_end = LsRead | LsLength | LsBody | LsPanic

lemma read_headers_shorter: "read_headers s hs = Some (hs', rest) \<Longrightarrow> length rest < length s"
proof (induction s hs rule: read_headers.induct)
  case (1 s hs)
  show ?case
  proof (cases "cut_at [LF] s")
    case None
    with "1.prems" show ?thesis by (simp add: read_headers.simps)
  next
    case (Some p)
    obtain line r where p: "p = (line, r)" by fastforce
    from Some p have len: "length r < length s" by (auto dest: cut_at_split)
    show ?thesis
    proof (cases "trim_eol line = []")
      case True
      with "1.prems" Some p len show ?thesis by (simp add: read_headers.simps [of s])
    next
      case False
      with "1.prems" Some p have "read_headers r (put_header (trim_eol line) hs) = Some (hs', rest)"
        by (simp add: read_headers.simps [of s])
      from "1.IH" [OF Some p [symmetric] False this] len show ?thesis by simp
    qed
  qed
qed

function consume_frames :: "string \<Rightarrow> wire_event list \<times> listen_end" where
  "consume_frames s = (case read_headers s Map.empty of
       None \<Rightarrow> ([], LsRead)
     | Some (hs, rest) \<Rightarrow>
         if header hs ''Content-Length'' = [] then consume_frames rest
         else (case parse_int64 (header hs ''Content-Length'') of
             None \<Rightarrow> ([], LsLength)
           | Some n \<Rightarrow>
               if n < 0 then ([], LsPanic)
               else if length rest < nat n then ([], LsBody)
               else let ev = parseEvent (take (nat n) rest); (evs, fin) = consume_frames (drop (nat n) rest)
                    in (if header hs ''Content-Type'' = ''text/event-plain'' \<and> ev_Name ev \<noteq> [] then ev # evs else evs, fin)))"
  by auto
termination by (relation "measure length") (auto dest: read_headers_shorter)

declare consume_frames.simps [simp del]

text \<open>
  The waits between the connections of the listener, from one on: every connection ends with an error,
  so that the wait is never set back.
\<close>

primrec reconnect_waits :: "nat \<Rightarrow> int \<Rightarrow> int list" where
  "reconnect_waits 0 b = []"
| "reconnect_waits (Suc n) b = b # reconnect_waits n (if b < 30 * second then 2 * b else b)"

end
