(* ===== verification/EslProps.thy ===== *)
theory EslProps
  imports Esl "HOL-Library.Multiset"
begin

text \<open>
  What the event socket guarantees: commands reach FreeSWITCH one by one, replies and events are read
  in step, the breaker refuses only after failures, and how large the pool can get.
\<close>

section \<open>Commands are not split\<close>

text \<open>FreeSWITCH reads commands up to an empty line.\<close>

function command_frames :: "string \<Rightarrow> string list" where
  "command_frames s = (case cut_at [LF, LF] s of None \<Rightarrow> [] | Some (a, b) \<Rightarrow> a # command_frames b)"
  by auto
termination by (relation "measure length") (auto dest: cut_at_split)

declare command_frames.simps [simp del]

declare sanitizeParam.simps(2) [simp del]

text \<open>The bytes after the first of a character are 128 or more, so none of them is stripped or ends a line.\<close>

lemma rune_tail:
  assumes "rune_len (c # cs) = Some n" "x \<in> set (take (n - 1) cs)"
  shows "0x80 \<le> (of_char x :: nat)"
proof -
  have high: "0x80 \<le> byte_at (c # cs) i" if "1 \<le> i" "i < n" for i
  proof -
    have "i = 1 \<and> n = 2 \<or> i \<in> {1, 2} \<and> n = 3 \<or> i \<in> {1, 2, 3} \<and> n = 4"
      using assms(1) that by (auto simp: rune_len_def Let_def split: if_splits)
    then show ?thesis using assms(1) by (auto simp: rune_len_def Let_def between_def split: if_splits)
  qed
  from assms(2) obtain j where j: "j < length (take (n - 1) cs)" "x = take (n - 1) cs ! j" by (auto simp: in_set_conv_nth)
  then have "Suc j < n" by simp linarith
  with high [of "Suc j"] j show ?thesis by (simp add: byte_at_def)
qed

lemma sanitized_bytes: "x \<in> set (sanitizeParam s) \<Longrightarrow> x \<noteq> LF \<and> x \<noteq> CR \<and> x \<noteq> CHR 0x00"
proof (induction s rule: sanitizeParam.induct)
  case (2 c cs)
  show ?case
  proof (cases "c = LF \<or> c = CR \<or> c = CHR 0x00")
    case True
    with 2 show ?thesis by (simp add: sanitizeParam.simps(2))
  next
    case kept: False
    show ?thesis
    proof (cases "rune_len (c # cs)")
      case None
      with 2 kept show ?thesis by (auto simp: sanitizeParam.simps(2))
    next
      case (Some n)
      with 2(4) kept have "x = c \<or> x \<in> set (take (n - 1) cs) \<or> x \<in> set (sanitizeParam (drop (n - 1) cs))"
        by (simp add: sanitizeParam.simps(2))
      moreover have "y \<in> set (take (n - 1) cs) \<Longrightarrow> y \<noteq> LF \<and> y \<noteq> CR \<and> y \<noteq> CHR 0x00" for y
        by (drule rune_tail [OF Some]) auto
      ultimately show ?thesis using 2(3) [OF kept Some] kept by blast
    qed
  qed
qed simp

lemma sanitized [simp]:
  "LF \<notin> set (sanitizeParam s)" "CR \<notin> set (sanitizeParam s)" "CHR 0x00 \<notin> set (sanitizeParam s)"
  using sanitized_bytes by blast+

text \<open>Of a text in ASCII only the three characters are taken out.\<close>

lemma sanitize_ascii:
  "\<forall>c \<in> set s. (of_char c :: nat) < 0x80 \<Longrightarrow> sanitizeParam s = filter (\<lambda>c. c \<noteq> LF \<and> c \<noteq> CR \<and> c \<noteq> CHR 0x00) s"
  by (induction s) (simp_all add: rune_len_def byte_at_def sanitizeParam.simps(2))

lemma tp_lines_clean: "c \<in> set (tp_lines t) \<Longrightarrow> LF \<notin> set c"
  by (cases t) (auto simp: eavesdrop_line_def)

definition raw_ok :: "esl_op \<Rightarrow> bool" where
  "raw_ok opn \<longleftrightarrow> (case opn of EslRaw c \<Rightarrow> LF \<notin> set c | _ \<Rightarrow> True)"

lemma esl_lines_clean: "raw_ok opn \<Longrightarrow> c \<in> set (esl_lines opn) \<Longrightarrow> LF \<notin> set c"
  using tp_lines_clean by (cases opn) (auto simp: raw_ok_def)

lemma api_line_cut:
  assumes "LF \<notin> set c"
  shows "cut_at [LF, LF] (api_line c @ s) = Some (''api '' @ c, s)"
  using cut_at_skips [of LF "''api '' @ c" "[LF]" "LF # LF # s"] assms by (simp add: api_line_def cut_at_hit)

text \<open>
  C22. FreeSWITCH reads from the connection exactly the commands of the operations, one by one and in order, whatever the
  parameters of the typed operations contain: no parameter of theirs ends a command or begins another. A raw command
  is sent as its caller has put it together; the callers must keep line feeds out of it
  (\<open>raw_command_splits\<close> shows what happens otherwise), and the nodes of the IVR that interpolate variables do not.
\<close>

theorem commands_not_split:
  assumes "\<forall>opn \<in> set ops. raw_ok opn"
  shows "command_frames (concat (map api_line (concat (map esl_lines ops)))) = map (\<lambda>c. ''api '' @ c) (concat (map esl_lines ops))"
proof -
  have "\<forall>c \<in> set cs. LF \<notin> set c \<Longrightarrow> command_frames (concat (map api_line cs)) = map (\<lambda>c. ''api '' @ c) cs" for cs
  proof (induction cs)
    case Nil
    show ?case by (subst command_frames.simps) (simp add: cut_at.simps)
  next
    case (Cons c cs)
    then show ?case by (subst command_frames.simps) (simp add: api_line_cut)
  qed
  moreover have "\<forall>c \<in> set (concat (map esl_lines ops)). LF \<notin> set c" using assms esl_lines_clean by auto
  ultimately show ?thesis by blast
qed

theorem commands_not_split_witness:
  "command_frames (concat (map api_line (concat (map esl_lines
      [EslRaw ''status'', EslTelephony (TpHangup (''u1'' @ [LF, LF] @ ''api shutdown''))])))) =
     [''api status'', ''api uuid_kill u1api shutdown'']"
proof -
  have "\<forall>opn \<in> set [EslRaw ''status'', EslTelephony (TpHangup (''u1'' @ [LF, LF] @ ''api shutdown''))]. raw_ok opn"
    by (simp add: raw_ok_def)
  from commands_not_split [OF this] show ?thesis by (simp add: sanitize_ascii)
qed

lemma raw_command_splits:
  "command_frames (concat (map api_line (esl_lines (EslRaw (''uuid_record u1'' @ [LF, LF] @ ''api shutdown''))))) =
     [''api uuid_record u1'', ''api shutdown'']"
  by (simp add: api_line_def command_frames.simps cut_at.simps)

text \<open>Blanks are not taken out: a parameter can add arguments to its command.\<close>

lemma blank_adds_argument:
  "tp_lines (TpOriginate ''user/1 &park() XML evil'' ''100'' ''default'') =
     [''originate {origination_caller_id_number=100}user/1 &park() XML evil default'']"
  by (simp add: sanitize_ascii)

text \<open>The health check repeats the prefix \<open>api\<close>.\<close>

lemma health_check_line: "api_line ''api status'' = ''api api status'' @ [LF, LF]"
  by (simp add: api_line_def)

section \<open>Headers\<close>

lemma read_headers_end [simp]: "read_headers (LF # s) hs = Some (hs, s)"
  by (subst read_headers.simps) (simp add: cut_at_hit trim_eol_def)

lemma read_headers_line:
  assumes "LF \<notin> set line" "trim_eol line \<noteq> []"
  shows "read_headers (line @ LF # s) hs = read_headers s (put_header (trim_eol line) hs)"
  using assms cut_at_skips [of LF line "[]" "LF # s"] by (subst read_headers.simps) (simp add: cut_at_hit)

lemma trim_eol_id: "line \<noteq> [] \<Longrightarrow> last line \<noteq> LF \<Longrightarrow> last line \<noteq> CR \<Longrightarrow> trim_eol line = line"
  by (cases line rule: rev_cases) (auto simp: trim_eol_def)

lemma put_header_pair: "CHR '':'' \<notin> set k \<Longrightarrow> k \<noteq> [] \<Longrightarrow> put_header (k @ '': '' @ v) hs = hs(k \<mapsto> v)"
  using cut_at_skips [of "CHR '':''" k "'' ''" "'': '' @ v"] by (simp add: put_header_def cut_at_hit)

lemma read_headers_pair:
  assumes "CHR '':'' \<notin> set k" "k \<noteq> []" "LF \<notin> set k" "LF \<notin> set v" "v \<noteq> []" "last v \<noteq> CR"
  shows "read_headers (k @ '': '' @ v @ LF # s) hs = read_headers s (hs(k \<mapsto> v))"
proof -
  have "last v \<noteq> LF" using assms(4,5) by (metis last_in_set)
  then have "trim_eol (k @ '': '' @ v) = k @ '': '' @ v" using assms(5,6) by (intro trim_eol_id) auto
  with read_headers_line [of "k @ '': '' @ v" s hs] put_header_pair [of k v hs] assms show ?thesis by simp
qed

section \<open>Replies in step\<close>

definition api_reply :: "string \<Rightarrow> string" where
  "api_reply body = ''Content-Type'' @ '': '' @ ''api/response'' @ LF # ''Content-Length'' @ '': '' @ itoa (int (length body)) @ LF # LF # body"

primrec exchanges :: "string list \<Rightarrow> esl_link \<Rightarrow> ((string + string) \<times> bool) list \<times> esl_link" where
  "exchanges [] l = ([], l)"
| "exchanges (c # cs) l = (let (r, ok, l1) = exchange c l; (rs, l2) = exchanges cs l1 in ((r, ok) # rs, l2))"

lemma digits_plain: "c \<in> set (nat_str n) \<Longrightarrow> c \<noteq> LF \<and> c \<noteq> CR"
  by (drule nat_str_digits) (auto simp: is_digit_def digit_of_def)

lemma exchange_reply:
  assumes "lk_in l = api_reply body @ s" "lk_writes l = Suc n" "length body < 2 ^ 63"
  shows "exchange c l = (reply_of body, True, l\<lparr>lk_in := s, lk_writes := n, lk_out := lk_out l @ api_line c\<rparr>)"
proof -
  let ?n = "itoa (int (length body))" and ?hs = "Map.empty(''Content-Type'' \<mapsto> ''api/response'')"
  have n: "?n \<noteq> []" "LF \<notin> set ?n" "last ?n \<noteq> CR"
    using digits_plain [of _ "length body"] last_in_set [of "nat_str (length body)"] by (auto simp: itoa_def)
  have "read_headers (lk_in l) Map.empty = read_headers (''Content-Length'' @ '': '' @ ?n @ LF # LF # body @ s) ?hs"
    using read_headers_pair [of "''Content-Type''" "''api/response''" "''Content-Length'' @ '': '' @ ?n @ LF # LF # body @ s" Map.empty]
    by (simp add: assms(1) api_reply_def)
  also have "\<dots> = Some (?hs(''Content-Length'' \<mapsto> ?n), body @ s)"
    using read_headers_pair [of "''Content-Length''" ?n "LF # body @ s" ?hs] n by simp
  finally have r: "read_headers (lk_in l) Map.empty = Some (?hs(''Content-Length'' \<mapsto> ?n), body @ s)" .
  have "content_length (?hs(''Content-Length'' \<mapsto> ?n)) = int (length body)"
    using assms(3) n(1) by (simp add: content_length_def header_def int64_def)
  with r assms(2) show ?thesis by (simp add: exchange_def Let_def)
qed

text \<open>
  C24. On one connection the answers stay in step with the commands: when FreeSWITCH answers each command
  in the framing of the protocol, the first command gets the first answer, the second the second, and so on, trimmed, an answer that
  begins with \<open>-ERR\<close> as an error; what follows the answers is left for later commands, and what was written is the commands in order.
\<close>

theorem replies_in_step:
  assumes "lk_in l = concat (map api_reply bodies) @ s" "length bodies = length cmds" "length cmds \<le> lk_writes l"
    and "\<forall>b \<in> set bodies. length b < 2 ^ 63"
  shows "exchanges cmds l = (map (\<lambda>b. (reply_of b, True)) bodies,
    l\<lparr>lk_in := s, lk_writes := lk_writes l - length cmds, lk_out := lk_out l @ concat (map api_line cmds)\<rparr>)"
  using assms
proof (induction cmds arbitrary: bodies l)
  case (Cons c cs)
  then obtain b bs where b: "bodies = b # bs" by (cases bodies) auto
  from Cons.prems obtain n where n: "lk_writes l = Suc n" by (cases "lk_writes l") auto
  let ?l = "l\<lparr>lk_in := concat (map api_reply bs) @ s, lk_writes := n, lk_out := lk_out l @ api_line c\<rparr>"
  have "exchange c l = (reply_of b, True, ?l)"
    using Cons.prems b n by (intro exchange_reply) auto
  moreover have "exchanges cs ?l = (map (\<lambda>b. (reply_of b, True)) bs,
      ?l\<lparr>lk_in := s, lk_writes := n - length cs, lk_out := lk_out ?l @ concat (map api_line cs)\<rparr>)"
    using Cons.prems b n Cons.IH [of ?l bs] by simp
  ultimately show ?case using b n by simp
qed (cases l; auto)

section \<open>Events\<close>

text \<open>The body of an event: a header per line, the value escaped, and an empty line.\<close>

definition event_body :: "(string \<times> string) list \<Rightarrow> string" where
  "event_body hs = concat (map (\<lambda>(k, e). k @ '': '' @ e @ [LF]) hs) @ [LF]"

definition event_frame :: "string \<Rightarrow> string" where
  "event_frame body = ''Content-Length'' @ '': '' @ itoa (int (length body)) @ LF # ''Content-Type'' @ '': '' @ ''text/event-plain'' @ LF # LF # body"

definition plain_header :: "string \<times> string \<Rightarrow> bool" where
  "plain_header h \<longleftrightarrow> fst h \<noteq> [] \<and> CHR '':'' \<notin> set (fst h) \<and> LF \<notin> set (fst h) \<and> LF \<notin> set (snd h) \<and> snd h \<noteq> [] \<and> last (snd h) \<noteq> CR"

definition unescaped :: "string \<Rightarrow> string" where
  "unescaped e = (case QueryUnescape e of None \<Rightarrow> e | Some d \<Rightarrow> d)"

lemma split_on_line: "c \<notin> set line \<Longrightarrow> split_on c (line @ c # s) = line # split_on c s"
  by (induction line) auto

lemma event_header_pair: "plain_header (k, e) \<Longrightarrow> event_header hs (k @ '': '' @ e) = hs(k \<mapsto> unescaped e)"
proof -
  assume h: "plain_header (k, e)"
  have "last e \<noteq> LF" using h by (auto simp: plain_header_def dest: last_in_set)
  then have "trim_eol (k @ '': '' @ e) = k @ '': '' @ e" using h by (intro trim_eol_id) (auto simp: plain_header_def)
  with h cut_at_skips [of "CHR '':''" k "'' ''" "'': '' @ e"] show ?thesis
    by (simp add: event_header_def plain_header_def cut_at_hit unescaped_def)
qed

lemma event_headers_read:
  assumes "\<forall>h \<in> set hs. plain_header h"
  shows "ev_Headers (parseEvent (event_body hs)) = map_of (rev (map (\<lambda>(k, e). (k, unescaped e)) hs))"
proof -
  have empty: "event_header m [] = m" for m by (simp add: event_header_def trim_eol_def cut_at.simps)
  have lines: "split_on LF (event_body hs) = map (\<lambda>(k, e). k @ '': '' @ e) hs @ [[], []]"
    using assms
  proof (induction hs)
    case Nil
    show ?case by (simp add: event_body_def)
  next
    case (Cons h hs)
    obtain k e where h: "h = (k, e)" by fastforce
    with Cons.prems have "LF \<notin> set (k @ '': '' @ e)" by (auto simp: plain_header_def)
    from split_on_line [OF this, of "event_body hs"] Cons h show ?case by (simp add: event_body_def)
  qed
  have fold: "foldl event_header m (map (\<lambda>(k, e). k @ '': '' @ e) hs) = m ++ map_of (rev (map (\<lambda>(k, e). (k, unescaped e)) hs))" for m
    using assms
  proof (induction hs arbitrary: m)
    case (Cons h hs)
    obtain k e where h: "h = (k, e)" by fastforce
    with Cons event_header_pair [of k e m] show ?case by (simp add: map_add_assoc [symmetric])
  qed simp
  show ?thesis using fold [of Map.empty] by (simp add: parseEvent_def Let_def lines empty)
qed

lemma read_event_frame:
  assumes "length body < 2 ^ 63"
  shows "\<exists>hs. read_headers (event_frame body @ s) Map.empty = Some (hs, body @ s) \<and>
    header hs ''Content-Length'' = itoa (int (length body)) \<and> header hs ''Content-Type'' = ''text/event-plain''"
proof -
  let ?n = "itoa (int (length body))" and ?hs = "[''Content-Length'' \<mapsto> itoa (int (length body))]"
  have n: "?n \<noteq> []" "LF \<notin> set ?n" "last ?n \<noteq> CR"
    using digits_plain [of _ "length body"] last_in_set [of "nat_str (length body)"] by (auto simp: itoa_def)
  have "read_headers (event_frame body @ s) Map.empty = read_headers (''Content-Type'' @ '': '' @ ''text/event-plain'' @ LF # LF # body @ s) ?hs"
    using read_headers_pair [of "''Content-Length''" ?n "''Content-Type'' @ '': '' @ ''text/event-plain'' @ LF # LF # body @ s" Map.empty] n
    by (simp add: event_frame_def)
  also have "\<dots> = Some (?hs(''Content-Type'' \<mapsto> ''text/event-plain''), body @ s)"
    using read_headers_pair [of "''Content-Type''" "''text/event-plain''" "LF # body @ s" ?hs] by simp
  finally show ?thesis by (simp add: header_def)
qed

text \<open>
  Events arrive whole and in order: from a stream of event frames the listener hands over exactly
  the events that have a name, in the order they were sent, each with the headers it was sent with (a header sent twice has its last value),
  unescaped; the loop ends when the stream does.
\<close>

theorem events_in_order:
  assumes "\<forall>hs \<in> set evs. (\<forall>h \<in> set hs. plain_header h) \<and> length (event_body hs) < 2 ^ 63"
  shows "\<exists>es. consume_frames (concat (map (\<lambda>hs. event_frame (event_body hs)) evs)) = (filter (\<lambda>e. ev_Name e \<noteq> []) es, LsRead) \<and>
    map ev_Headers es = map (\<lambda>hs. map_of (rev (map (\<lambda>(k, e). (k, unescaped e)) hs))) evs"
  using assms
proof (induction evs)
  case Nil
  show ?case by (subst consume_frames.simps) (simp add: read_headers.simps cut_at.simps)
next
  case (Cons hs evs)
  let ?s = "concat (map (\<lambda>hs. event_frame (event_body hs)) evs)" and ?ev = "parseEvent (event_body hs)"
  from Cons obtain es where es: "consume_frames ?s = (filter (\<lambda>e. ev_Name e \<noteq> []) es, LsRead)"
    "map ev_Headers es = map (\<lambda>hs. map_of (rev (map (\<lambda>(k, e). (k, unescaped e)) hs))) evs" by auto
  from Cons.prems have len: "length (event_body hs) < 2 ^ 63" by simp
  then have int: "int64 (int (length (event_body hs)))" by (simp add: int64_def)
  from read_event_frame [OF len, of ?s] obtain m where m: "read_headers (event_frame (event_body hs) @ ?s) Map.empty = Some (m, event_body hs @ ?s)"
    "header m ''Content-Length'' = itoa (int (length (event_body hs)))" "header m ''Content-Type'' = ''text/event-plain''" by blast
  have "itoa (int (length (event_body hs))) \<noteq> []" by (simp add: itoa_def)
  with m int es(1) have "consume_frames (event_frame (event_body hs) @ ?s) =
      (if ev_Name ?ev \<noteq> [] then ?ev # filter (\<lambda>e. ev_Name e \<noteq> []) es else filter (\<lambda>e. ev_Name e \<noteq> []) es, LsRead)"
    by (subst consume_frames.simps) (simp add: Let_def)
  moreover have "ev_Headers ?ev = map_of (rev (map (\<lambda>(k, e). (k, unescaped e)) hs))"
    using Cons.prems by (intro event_headers_read) simp
  ultimately show ?case using es(2) by (intro exI [of _ "?ev # es"]) simp
qed

section \<open>The circuit breaker\<close>

datatype breaker_event = BrAllow gotime | BrFail gotime | BrSucceed

fun breaker_step :: "breaker \<Rightarrow> breaker_event \<Rightarrow> breaker" where
  "breaker_step b (BrAllow t) = snd (br_allow t b)"
| "breaker_step b (BrFail t) = recordFailure t b"
| "breaker_step b BrSucceed = recordSuccess b"

text \<open>The failures since the last success.\<close>

fun failures_in_row :: "breaker_event list \<Rightarrow> gotime list" where
  "failures_in_row [] = []"
| "failures_in_row (BrSucceed # es) = []"
| "failures_in_row (BrFail t # es) = t # failures_in_row es"
| "failures_in_row (BrAllow t # es) = failures_in_row es"

lemma breaker_after:
  "let b = foldr (\<lambda>e b. breaker_step b e) es new_breaker; fs = failures_in_row es
   in br_failures b = int (length fs) \<and> br_threshold b = 5 \<and> br_resetTimeout b = 30 * second \<and>
      (br_state b = BreakerClosed \<longleftrightarrow> length fs < 5) \<and> (\<forall>t ts. fs = t # ts \<longrightarrow> br_lastFailure b = t)"
proof (induction es)
  case (Cons e es)
  then show ?case
    by (cases e) (auto simp: Let_def br_allow_def recordFailure_def recordSuccess_def split: breaker_state.splits)
qed (simp add: new_breaker_def)

text \<open>
  The breaker refuses a request only after five failures with no success between them, and for at most
  thirty seconds after the last; right after such a failure it refuses every request for thirty seconds.
  The history is given with the latest event first.
\<close>

theorem breaker_law:
  "let b = foldr (\<lambda>e b. breaker_step b e) es new_breaker; fs = failures_in_row es
   in (\<not> fst (br_allow now b) \<longrightarrow> 5 \<le> length fs \<and> time_sub now (hd fs) \<le> 30 * second) \<and>
      (\<forall>t es'. es = BrFail t # es' \<longrightarrow> 5 \<le> length fs \<longrightarrow> (fst (br_allow now b) \<longleftrightarrow> 30 * second < time_sub now t))"
proof -
  let ?b = "foldr (\<lambda>e b. breaker_step b e) es new_breaker" and ?fs = "failures_in_row es"
  have b: "br_resetTimeout ?b = 30 * second" "br_state ?b = BreakerClosed \<longleftrightarrow> length ?fs < 5" "\<forall>t ts. ?fs = t # ts \<longrightarrow> br_lastFailure ?b = t"
    using breaker_after [of es] by (simp_all add: Let_def)
  have "5 \<le> length ?fs \<and> time_sub now (hd ?fs) \<le> 30 * second" if "\<not> fst (br_allow now ?b)"
  proof -
    from that have "br_state ?b = BreakerOpen" "\<not> 30 * second < time_sub now (br_lastFailure ?b)"
      using b(1) by (auto simp: br_allow_def split: breaker_state.splits if_splits)
    with b(2,3) show ?thesis by (cases ?fs) auto
  qed
  moreover have "fst (br_allow now ?b) \<longleftrightarrow> 30 * second < time_sub now t" if "es = BrFail t # es'" "5 \<le> length ?fs" for t es'
  proof -
    from that have "5 \<le> length (failures_in_row es') + 1" by simp
    with breaker_after [of es'] that(1) b(1) show ?thesis by (auto simp: Let_def recordFailure_def br_allow_def)
  qed
  ultimately show ?thesis unfolding Let_def by blast
qed

section \<open>The size of the pool\<close>

text \<open>
  \<open>Grow\<close>, \<open>Shrink\<close>, \<open>AcquireConn\<close> and \<open>ReleaseConn\<close> run in goroutines of their own; each is a few atomic steps on
  the counter and the channel of connections. \<open>ps_growing\<close> counts the goroutines that have raised the counter and not yet
  drawn an id, \<open>ps_fresh\<close> the connections drawn and not yet sent; \<open>Shrink\<close> is called by the one goroutine of the scaler.
\<close>

record pool_state =
  ps_idle :: "int list"
  ps_busy :: "int list"
  ps_size :: int
  ps_next :: int
  ps_growing :: nat
  ps_fresh :: "int list"
  ps_shrinking :: bool

inductive pool_step :: "int \<Rightarrow> int \<Rightarrow> pool_state \<Rightarrow> pool_state \<Rightarrow> bool" for mn mx where
  take: "ps_idle p = x # xs \<Longrightarrow> pool_step mn mx p (p\<lparr>ps_idle := xs, ps_busy := x # ps_busy p\<rparr>)"
| give: "x \<in> set (ps_busy p) \<Longrightarrow> int (length (ps_idle p)) < mx \<Longrightarrow>
    pool_step mn mx p (p\<lparr>ps_idle := ps_idle p @ [x], ps_busy := remove1 x (ps_busy p)\<rparr>)"
| grow_count: "ps_size p < mx \<Longrightarrow> pool_step mn mx p (p\<lparr>ps_size := ps_size p + 1, ps_growing := ps_growing p + 1\<rparr>)"
| grow_id: "ps_growing p = Suc n \<Longrightarrow>
    pool_step mn mx p (p\<lparr>ps_growing := n, ps_next := ps_next p + 1, ps_fresh := ps_next p # ps_fresh p\<rparr>)"
| grow_send: "x \<in> set (ps_fresh p) \<Longrightarrow> int (length (ps_idle p)) < mx \<Longrightarrow>
    pool_step mn mx p (p\<lparr>ps_idle := ps_idle p @ [x], ps_fresh := remove1 x (ps_fresh p)\<rparr>)"
| shrink_count: "mn < ps_size p \<Longrightarrow> \<not> ps_shrinking p \<Longrightarrow> pool_step mn mx p (p\<lparr>ps_size := ps_size p - 1, ps_shrinking := True\<rparr>)"
| shrink_take: "ps_shrinking p \<Longrightarrow> ps_idle p = x # xs \<Longrightarrow> pool_step mn mx p (p\<lparr>ps_idle := xs, ps_shrinking := False\<rparr>)"
| shrink_none: "ps_shrinking p \<Longrightarrow> ps_idle p = [] \<Longrightarrow> pool_step mn mx p (p\<lparr>ps_size := ps_size p + 1, ps_shrinking := False\<rparr>)"

definition pool_of :: "esl_client \<Rightarrow> pool_state" where
  "pool_of c = \<lparr>ps_idle = map cn_id (es_pool c), ps_busy = [], ps_size = es_size c, ps_next = es_next c, ps_growing = 0, ps_fresh = [],
     ps_shrinking = False\<rparr>"

abbreviation pool_conns :: "pool_state \<Rightarrow> int list" where
  "pool_conns p \<equiv> ps_idle p @ ps_busy p @ ps_fresh p"

definition pool_ok :: "int \<Rightarrow> pool_state \<Rightarrow> bool" where
  "pool_ok mx p \<longleftrightarrow> ps_size p + (if ps_shrinking p then 1 else 0) = int (length (pool_conns p)) + int (ps_growing p) \<and>
     ps_size p + (if ps_shrinking p then 1 else 0) \<le> mx + 1 \<and> distinct (pool_conns p) \<and> (\<forall>x \<in> set (pool_conns p). x < ps_next p)"

lemma pool_ok_moved:
  assumes "pool_ok mx p" "mset (pool_conns p') = mset (pool_conns p)" "ps_size p' = ps_size p" "ps_shrinking p' = ps_shrinking p"
    "ps_growing p' = ps_growing p" "ps_next p' = ps_next p"
  shows "pool_ok mx p'"
  using assms mset_eq_length [OF assms(2)] mset_eq_setD [OF assms(2)] mset_eq_imp_distinct_iff [OF assms(2)]
  unfolding pool_ok_def by (elim conjE, intro conjI; simp only:)

lemma pool_step_ok: "pool_step mn mx p p' \<Longrightarrow> pool_ok mx p \<Longrightarrow> pool_ok mx p'"
proof (induction rule: pool_step.induct)
  case (take p x xs)
  then show ?case by (auto intro: pool_ok_moved)
next
  case (give x p)
  from give.prems show ?case by (rule pool_ok_moved) (use give.hyps in simp_all)
next
  case (grow_send x p)
  from grow_send.prems show ?case by (rule pool_ok_moved) (use grow_send.hyps in simp_all)
next
  case (shrink_take p x xs)
  then show ?case by (simp add: pool_ok_def)
next
  case (grow_id p n)
  then have lt: "\<forall>x \<in> set (pool_conns p). x < ps_next p" unfolding pool_ok_def by blast
  then have "\<forall>x \<in> set (pool_conns p). x \<le> ps_next p" "ps_next p \<notin> set (pool_conns p)" by fastforce+
  with grow_id show ?case unfolding pool_ok_def by (simp split: if_splits)
qed (auto simp: pool_ok_def split: if_splits)

lemma pool_steps_ok: "(pool_step mn mx)\<^sup>*\<^sup>* p p' \<Longrightarrow> pool_ok mx p \<Longrightarrow> pool_ok mx p'"
  by (induction rule: rtranclp_induct) (auto dest: pool_step_ok)

lemma new_client_pool: "pool_ok (es_max (NewEslClient pass n mn mx dials)) (pool_of (NewEslClient pass n mn mx dials))"
  by (simp add: pool_ok_def pool_of_def NewEslClient_def Let_def fresh_conn_def comp_def distinct_map inj_on_def) auto

text \<open>
  However the goroutines that take, return, add and remove connections interleave, no connection
  is in two hands at once, ids are never reused, and there are never more than one connection above the maximum of the client.
\<close>

theorem pool_bounded:
  assumes "c = NewEslClient pass n mn mx dials" "(pool_step (es_min c) (es_max c))\<^sup>*\<^sup>* (pool_of c) p"
  shows "distinct (pool_conns p) \<and> int (length (pool_conns p)) \<le> es_max c + 1 \<and> (\<forall>x \<in> set (pool_conns p). x < ps_next p)"
proof -
  have "pool_ok (es_max c) p" using pool_steps_ok [OF assms(2)] new_client_pool assms(1) by simp
  then show ?thesis by (auto simp: pool_ok_def)
qed

text \<open>The maximum itself can be exceeded: \<open>Shrink\<close> lowers the counter before it looks for an idle connection.\<close>

lemma shrink_races_grow:
  "\<exists>p. (pool_step 1 2)\<^sup>*\<^sup>* (pool_of (NewEslClient [] 2 1 2 [])) p \<and> length (pool_conns p) = 3 \<and> ps_size p = 3"
proof -
  let ?c = "NewEslClient [] 2 1 2 []"
  let ?p0 = "\<lparr>ps_idle = [0, 1], ps_busy = [], ps_size = 2, ps_next = 2, ps_growing = 0, ps_fresh = [], ps_shrinking = False\<rparr>"
  let ?p1 = "\<lparr>ps_idle = [1], ps_busy = [0], ps_size = 2, ps_next = 2, ps_growing = 0, ps_fresh = [], ps_shrinking = False\<rparr>"
  let ?p2 = "\<lparr>ps_idle = [], ps_busy = [1, 0], ps_size = 2, ps_next = 2, ps_growing = 0, ps_fresh = [], ps_shrinking = False\<rparr>"
  let ?p3 = "\<lparr>ps_idle = [], ps_busy = [1, 0], ps_size = 1, ps_next = 2, ps_growing = 0, ps_fresh = [], ps_shrinking = True\<rparr>"
  let ?p4 = "\<lparr>ps_idle = [], ps_busy = [1, 0], ps_size = 2, ps_next = 2, ps_growing = 1, ps_fresh = [], ps_shrinking = True\<rparr>"
  let ?p5 = "\<lparr>ps_idle = [], ps_busy = [1, 0], ps_size = 2, ps_next = 3, ps_growing = 0, ps_fresh = [2], ps_shrinking = True\<rparr>"
  let ?p6 = "\<lparr>ps_idle = [], ps_busy = [1, 0], ps_size = 3, ps_next = 3, ps_growing = 0, ps_fresh = [2], ps_shrinking = False\<rparr>"
  have start: "pool_of ?c = ?p0"
    by (simp add: pool_of_def NewEslClient_def Let_def fresh_conn_def comp_def upt_rec numeral_2_eq_2)
  have "(pool_step 1 2)\<^sup>*\<^sup>* ?p0 ?p1" using pool_step.take [of ?p0 0 "[1]" 1 2] by (simp add: r_into_rtranclp)
  also have "(pool_step 1 2)\<^sup>*\<^sup>* ?p1 ?p2" using pool_step.take [of ?p1 1 "[]" 1 2] by (simp add: r_into_rtranclp)
  also have "(pool_step 1 2)\<^sup>*\<^sup>* ?p2 ?p3" using pool_step.shrink_count [of 1 ?p2 2] by (simp add: r_into_rtranclp)
  also have "(pool_step 1 2)\<^sup>*\<^sup>* ?p3 ?p4" using pool_step.grow_count [of ?p3 2 1] by (simp add: r_into_rtranclp)
  also have "(pool_step 1 2)\<^sup>*\<^sup>* ?p4 ?p5" using pool_step.grow_id [of ?p4 0 1 2] by (simp add: r_into_rtranclp)
  also have "(pool_step 1 2)\<^sup>*\<^sup>* ?p5 ?p6" using pool_step.shrink_none [of ?p5 1 2] by (simp add: r_into_rtranclp)
  finally have "(pool_step 1 2)\<^sup>*\<^sup>* (pool_of ?c) ?p6" unfolding start .
  then show ?thesis by (rule exI [of _ ?p6, OF conjI]) simp
qed

section \<open>Concrete connections\<close>

definition link0 :: esl_link where
  "link0 = \<lparr>lk_in = api_reply ''+OK ready'' @ api_reply ''-ERR no such channel'', lk_writes = 5, lk_out = []\<rparr>"

lemma replies_in_step_witness:
  "exchanges [''status'', ''uuid_kill 7''] link0 = ([(Inr ''+OK ready'', True), (Inl ''esl: -ERR no such channel'', True)],
     link0\<lparr>lk_in := [], lk_writes := 3, lk_out := api_line ''status'' @ api_line ''uuid_kill 7''\<rparr>)"
  using replies_in_step [of link0 "[''+OK ready'', ''-ERR no such channel'']" "[]" "[''status'', ''uuid_kill 7'']"]
  by (simp add: link0_def reply_of_def TrimSpace_def is_space_def Let_def)

definition event0 :: "(string \<times> string) list" where
  "event0 = [(''Event-Name'', ''CHANNEL_ANSWER''), (''Unique-ID'', ''7''), (''Caller-Caller-ID-Number'', ''%2B861'')]"

lemma events_in_order_witness:
  "\<exists>es. consume_frames (event_frame (event_body event0)) = (filter (\<lambda>e. ev_Name e \<noteq> []) es, LsRead) \<and>
    map ev_Headers es = [[''Event-Name'' \<mapsto> ''CHANNEL_ANSWER'', ''Unique-ID'' \<mapsto> ''7'', ''Caller-Caller-ID-Number'' \<mapsto> ''+861'']]"
proof -
  have "(\<forall>h \<in> set event0. plain_header h) \<and> length (event_body event0) < 2 ^ 63"
    by (simp add: event0_def plain_header_def event_body_def)
  moreover have "map_of (rev (map (\<lambda>(k, e). (k, unescaped e)) event0)) =
      [''Event-Name'' \<mapsto> ''CHANNEL_ANSWER'', ''Unique-ID'' \<mapsto> ''7'', ''Caller-Caller-ID-Number'' \<mapsto> ''+861'']"
    by (simp add: event0_def unescaped_def hex_val_def Let_def char_of_def bit_Suc_0_iff)
  ultimately show ?thesis using events_in_order [of "[event0]"] by simp
qed

lemma pool_bounded_witness:
  "distinct (pool_conns \<lparr>ps_idle = [1], ps_busy = [0], ps_size = 2, ps_next = 2, ps_growing = 0, ps_fresh = [], ps_shrinking = False\<rparr>)"
proof -
  let ?c = "NewEslClient [] 2 1 2 []"
  have c: "pool_of ?c = \<lparr>ps_idle = [0, 1], ps_busy = [], ps_size = 2, ps_next = 2, ps_growing = 0, ps_fresh = [], ps_shrinking = False\<rparr>"
    by (simp add: pool_of_def NewEslClient_def Let_def fresh_conn_def comp_def upt_rec numeral_2_eq_2)
  have "(pool_step (es_min ?c) (es_max ?c))\<^sup>*\<^sup>* (pool_of ?c)
      \<lparr>ps_idle = [1], ps_busy = [0], ps_size = 2, ps_next = 2, ps_growing = 0, ps_fresh = [], ps_shrinking = False\<rparr>"
    unfolding c using pool_step.take [of "pool_of ?c" 0 "[1]"] by (simp add: c r_into_rtranclp)
  from pool_bounded [OF refl this] show ?thesis by simp
qed

end
