(* ===== verification/Quality.thy ===== *)
theory Quality
  imports Complex_Main Telephony Tables Decimal
begin

text \<open>
  Quality inspection, digital employees and scorecards: \<open>internal/domain/ai/service_phase9.go\<close> over
  the statements of \<open>infrastructure/mysql/ai_phase9_repo.go\<close>. float64 values are rationals.
\<close>

section \<open>Entities\<close>

record qa_rule =
  qr_ID :: int
  qr_TenantID :: int
  qr_Name :: string
  qr_Type :: string
  qr_Config :: string
  qr_Severity :: string
  qr_IsActive :: bool
  qr_CreatedAt :: gotime
  qr_UpdatedAt :: gotime

record qa_scheme =
  qs_ID :: int
  qs_TenantID :: int
  qs_Name :: string
  qs_RuleIDs :: string
  qs_IsDefault :: bool
  qs_IsActive :: bool
  qs_CreatedAt :: gotime
  qs_UpdatedAt :: gotime

record rule_result =
  rs_RuleID :: int
  rs_RuleName :: string
  rs_RuleType :: string
  rs_Passed :: bool
  rs_Score :: rat
  rs_Detail :: string

record qa_result =
  qq_ID :: int
  qq_TenantID :: int
  qq_CallID :: int
  qq_SchemeID :: int
  qq_Score :: rat
  qq_Details :: string
  qq_Status :: string
  qq_AppealNote :: string
  qq_ReviewNote :: string
  qq_ReviewerID :: "int option"
  qq_CreatedAt :: gotime
  qq_UpdatedAt :: gotime

text \<open>
  What the service gets from outside: the JSON decoder at the type of each configuration, compiled
  regular expressions (an error, or the leftmost match), \<open>fmt\<close> with a number of decimals, the JSON of the rule results, the language model.
\<close>

record qa_env =
  qe_keyword :: "string \<Rightarrow> (string list \<times> string) option"
  qe_regex :: "string \<Rightarrow> (string \<times> string) option"
  qe_silence :: "string \<Rightarrow> rat option"
  qe_range :: "string \<Rightarrow> (rat \<times> rat) option"
  qe_interruption :: "string \<Rightarrow> int option"
  qe_entity :: "string \<Rightarrow> (string list \<times> string) option"
  qe_role :: "string \<Rightarrow> (bool \<times> bool \<times> string list) option"
  qe_llm :: "string \<Rightarrow> (string \<times> rat) option"
  qe_weights :: "string \<Rightarrow> (int \<times> rat) list option"
  qe_compile :: "string \<Rightarrow> string + (string \<Rightarrow> string option)"
  qe_fixed :: "nat \<Rightarrow> rat \<Rightarrow> string"
  qe_details :: "rule_result list \<Rightarrow> string"
  qe_inspect :: "(string \<Rightarrow> string \<Rightarrow> string + (rat \<times> string)) option"

section \<open>Markers in a transcript\<close>

definition containsIgnoreCase :: "string \<Rightarrow> string \<Rightarrow> bool" where
  "containsIgnoreCase s sub \<longleftrightarrow> sub \<noteq> [] \<and> strings_Contains (strings_ToLower s) (strings_ToLower sub)"

text \<open>The matches of \<open>prefix([\d.]+)suffix\<close> from left to right, with what the group matched.\<close>

definition number_char :: "char \<Rightarrow> bool" where
  "number_char c \<longleftrightarrow> digit_val c \<noteq> None \<or> c = CHR ''.''"

definition marker_here :: "string \<Rightarrow> string \<Rightarrow> string \<Rightarrow> (string \<times> string) option" where
  "marker_here pre suf s =
     (if strings_HasPrefix s pre
      then let t = drop (length pre) s; num = takeWhile number_char t; rest = dropWhile number_char t
           in if num \<noteq> [] \<and> strings_HasPrefix rest suf then Some (num, drop (length suf) rest) else None
      else None)"

lemma marker_here_shorter: "marker_here pre suf s = Some (num, rest) \<Longrightarrow> length rest < length s"
proof -
  assume m: "marker_here pre suf s = Some (num, rest)"
  let ?t = "drop (length pre) s"
  have "takeWhile number_char ?t \<noteq> []" "rest = drop (length suf) (dropWhile number_char ?t)"
    using m by (auto simp: marker_here_def Let_def split: if_splits)
  moreover have "length (takeWhile number_char ?t) + length (dropWhile number_char ?t) = length ?t"
    by (metis length_append takeWhile_dropWhile_id)
  ultimately show ?thesis by (cases "takeWhile number_char ?t") auto
qed

function find_markers :: "string \<Rightarrow> string \<Rightarrow> string \<Rightarrow> string list" where
  "find_markers pre suf [] = []"
| "find_markers pre suf (c # cs) = (case marker_here pre suf (c # cs) of
       Some (num, rest) \<Rightarrow> num # find_markers pre suf rest
     | None \<Rightarrow> find_markers pre suf cs)"
  by pat_completeness auto
termination by (relation "measure (\<lambda>(_, _, s). length s)") (auto dest: marker_here_shorter)

text \<open>
  \<open>fmt.Sscanf(s, "%f", &x)\<close> on digits and dots: the digits up to a second dot count, what follows them is not read;
  a text without a digit there is an error.
\<close>

definition is_dec :: "char \<Rightarrow> bool" where
  "is_dec c \<longleftrightarrow> digit_val c \<noteq> None"

definition dec_value :: "string \<Rightarrow> nat" where
  "dec_value ds = foldl (\<lambda>n c. 10 * n + (case digit_val c of Some d \<Rightarrow> d | None \<Rightarrow> 0)) 0 ds"

definition scan_float :: "string \<Rightarrow> rat option" where
  "scan_float s = (let whole = takeWhile is_dec s; rest = dropWhile is_dec s;
       frac = (case rest of c # cs \<Rightarrow> if c = CHR ''.'' then takeWhile is_dec cs else [] | [] \<Rightarrow> [])
     in if whole = [] \<and> frac = [] then None
        else Some (of_nat (dec_value whole) + of_nat (dec_value frac) / 10 ^ length frac))"

text \<open>The value when the error is dropped.\<close>

definition scan_or_zero :: "string \<Rightarrow> rat" where
  "scan_or_zero s = (case scan_float s of None \<Rightarrow> 0 | Some x \<Rightarrow> x)"

definition rune_count :: "string \<Rightarrow> nat" where
  "rune_count s = length (filter (\<lambda>c. (of_char c :: nat) div 64 \<noteq> 2) s)"

lemma cut_at_rest: "cut_at sub s = Some (a, b) \<Longrightarrow> length b \<le> length s - length sub \<and> length sub \<le> length s"
proof (induction s arbitrary: a)
  case Nil
  then show ?case by (subst (asm) cut_at.simps) (auto split: if_splits simp: HasPrefix_iff)
next
  case (Cons c s)
  show ?case
  proof (cases "strings_HasPrefix (c # s) sub")
    case True
    then obtain t where "c # s = sub @ t" by (auto simp: HasPrefix_iff)
    then have "length sub \<le> length (c # s)" by simp
    with True Cons.prems show ?thesis by (auto simp: cut_at_hit)
  next
    case False
    with Cons show ?thesis by (fastforce simp: cut_at_miss)
  qed
qed

function strings_Count :: "string \<Rightarrow> string \<Rightarrow> nat" where
  "strings_Count s sub = (if sub = [] then Suc (rune_count s)
     else case cut_at sub s of None \<Rightarrow> 0 | Some (_, rest) \<Rightarrow> Suc (strings_Count rest sub))"
  by auto
termination by (relation "measure (length \<circ> fst)") (auto dest!: cut_at_rest simp: neq_Nil_conv)

declare strings_Count.simps [simp del]

text \<open>UTF-8 of characters above U+07FF.\<close>

definition zh :: "nat list \<Rightarrow> string" where
  "zh ns = concat (map (\<lambda>n. [char_of (224 + n div 4096), char_of (128 + n div 64 mod 64), char_of (128 + n mod 64)]) ns)"

section \<open>Rules\<close>

definition validQARuleTypes :: "string list" where
  "validQARuleTypes = [''keyword'', ''regex'', ''silence'', ''speed'', ''interruption'', ''energy'', ''duration'', ''entity'',
     ''role'', ''abnormal_hangup'', ''llm'']"

definition empty_result :: "qa_rule \<Rightarrow> rule_result" where
  "empty_result r = \<lparr>rs_RuleID = qr_ID r, rs_RuleName = qr_Name r, rs_RuleType = qr_Type r, rs_Passed = False, rs_Score = 0, rs_Detail = []\<rparr>"

definition passed :: "qa_rule \<Rightarrow> rat \<Rightarrow> string \<Rightarrow> rule_result" where
  "passed r score d = (empty_result r)\<lparr>rs_Passed := True, rs_Score := score, rs_Detail := d\<rparr>"

definition not_passed :: "qa_rule \<Rightarrow> string \<Rightarrow> rule_result" where
  "not_passed r d = (empty_result r)\<lparr>rs_Detail := d\<rparr>"

fun keyword_scan :: "qa_rule \<Rightarrow> string \<Rightarrow> string \<Rightarrow> string list \<Rightarrow> rule_result" where
  "keyword_scan r require transcript [] = (if require = ''present'' then not_passed r ''required keyword not found''
     else passed r 100 ''no forbidden keywords found'')"
| "keyword_scan r require transcript (kw # kws) =
     (let found = containsIgnoreCase transcript kw
      in if require = ''absent'' \<and> found then not_passed r (''forbidden keyword found: '' @ kw)
         else if require = ''present'' \<and> found then passed r 100 (''required keyword found: '' @ kw)
         else keyword_scan r require transcript kws)"

definition evaluateKeywordRule :: "qa_env \<Rightarrow> qa_rule \<Rightarrow> string \<Rightarrow> rule_result" where
  "evaluateKeywordRule e r transcript = (case qe_keyword e (qr_Config r) of
       None \<Rightarrow> not_passed r ''invalid keyword config''
     | Some (kws, require) \<Rightarrow> keyword_scan r require transcript kws)"

definition evaluateRegexRule :: "qa_env \<Rightarrow> qa_rule \<Rightarrow> string \<Rightarrow> rule_result" where
  "evaluateRegexRule e r transcript = (case qe_regex e (qr_Config r) of
       None \<Rightarrow> not_passed r ''invalid regex config''
     | Some (pattern, require) \<Rightarrow> (case qe_compile e pattern of
         Inl err \<Rightarrow> not_passed r (''invalid regex pattern: '' @ err)
       | Inr match \<Rightarrow>
           if require = ''no_match'' then (case match transcript of
               None \<Rightarrow> passed r 100 ''pattern correctly absent''
             | Some text \<Rightarrow> not_passed r (''forbidden pattern matched: '' @ text))
           else if match transcript \<noteq> None then passed r 100 ''required pattern matched''
           else not_passed r ''required pattern not found''))"

text \<open>The longest silence; a marker that is no number does not count.\<close>

definition longest :: "string list \<Rightarrow> rat" where
  "longest ms = foldl (\<lambda>mx m. case scan_float m of Some d \<Rightarrow> if mx < d then d else mx | None \<Rightarrow> mx) 0 ms"

definition evaluateSilenceRule :: "qa_env \<Rightarrow> qa_rule \<Rightarrow> string \<Rightarrow> rule_result" where
  "evaluateSilenceRule e r transcript = (case qe_silence e (qr_Config r) of
       None \<Rightarrow> not_passed r ''invalid silence config''
     | Some limit0 \<Rightarrow>
         let limit = (if limit0 \<le> 0 then 5 else limit0); found = longest (find_markers ''[silence:'' ''s]'' transcript)
         in if limit < found
            then not_passed r (''long silence detected: '' @ qe_fixed e 1 found @ ''s (max: '' @ qe_fixed e 1 limit @ ''s)'')
            else passed r 100 (''no excessive silence (max found: '' @ qe_fixed e 1 found @ ''s, limit: '' @ qe_fixed e 1 limit @ ''s)''))"

definition measured_speed :: "string \<Rightarrow> rat option" where
  "measured_speed transcript = (case find_markers ''[speed:'' ''wpm]'' transcript of
       m # _ \<Rightarrow> Some (scan_or_zero m)
     | [] \<Rightarrow> (case find_markers ''[duration:'' ''s]'' transcript of
         [] \<Rightarrow> None
       | m # _ \<Rightarrow> if 0 < scan_or_zero m then Some (of_nat (rune_count transcript) / (scan_or_zero m / 60)) else None))"

definition evaluateSpeedRule :: "qa_env \<Rightarrow> qa_rule \<Rightarrow> string \<Rightarrow> rule_result" where
  "evaluateSpeedRule e r transcript = (case qe_range e (qr_Config r) of
       None \<Rightarrow> not_passed r ''invalid speed config''
     | Some (mn, mx) \<Rightarrow> (case measured_speed transcript of
         None \<Rightarrow> passed r 100 ''no speed or duration metadata available, skipped''
       | Some speed \<Rightarrow>
           if 0 < mx \<and> mx < speed
           then not_passed r (''speaking too fast: '' @ qe_fixed e 0 speed @ '' wpm (max: '' @ qe_fixed e 0 mx @ '')'')
           else if 0 < mn \<and> speed < mn
           then not_passed r (''speaking too slow: '' @ qe_fixed e 0 speed @ '' wpm (min: '' @ qe_fixed e 0 mn @ '')'')
           else passed r 100 (''speaking speed normal: '' @ qe_fixed e 0 speed @ '' wpm'')))"

definition evaluateInterruptionRule :: "qa_env \<Rightarrow> qa_rule \<Rightarrow> string \<Rightarrow> rule_result" where
  "evaluateInterruptionRule e r transcript = (case qe_interruption e (qr_Config r) of
       None \<Rightarrow> not_passed r ''invalid interruption config''
     | Some limit0 \<Rightarrow>
         let limit = (if limit0 \<le> 0 then 3 else limit0); count = int (strings_Count transcript ''[interruption]'')
         in if limit < count
            then not_passed r (''too many interruptions: '' @ itoa count @ '' (max: '' @ itoa limit @ '')'')
            else passed r 100 (''interruptions within limit: '' @ itoa count @ '' (max: '' @ itoa limit @ '')''))"

definition evaluateEnergyRule :: "qa_env \<Rightarrow> qa_rule \<Rightarrow> string \<Rightarrow> rule_result" where
  "evaluateEnergyRule e r transcript = (case qe_range e (qr_Config r) of
       None \<Rightarrow> not_passed r ''invalid energy config''
     | Some (mn, mx) \<Rightarrow>
         let es = map scan_or_zero (find_markers ''[energy:'' '']'' transcript)
         in if es = [] then passed r 100 ''no energy data available, passed by default''
            else let peak = foldl max 0 es; avg = sum_list es / of_nat (length es)
                 in if 0 < mx \<and> mx < peak
                    then not_passed r (''peak volume too high: '' @ qe_fixed e 0 peak @ '' (max: '' @ qe_fixed e 0 mx @ '')'')
                    else if 0 < mn \<and> avg < mn
                    then not_passed r (''average volume too low: '' @ qe_fixed e 0 avg @ '' (min: '' @ qe_fixed e 0 mn @ '')'')
                    else passed r 100 (''volume normal (avg: '' @ qe_fixed e 0 avg @ '', peak: '' @ qe_fixed e 0 peak @ '')''))"

definition evaluateDurationRule :: "qa_env \<Rightarrow> qa_rule \<Rightarrow> string \<Rightarrow> rule_result" where
  "evaluateDurationRule e r transcript = (case qe_range e (qr_Config r) of
       None \<Rightarrow> not_passed r ''invalid duration config''
     | Some (mn, mx) \<Rightarrow>
         let d = (case find_markers ''[duration:'' ''s]'' transcript of m # _ \<Rightarrow> scan_or_zero m | [] \<Rightarrow> 0)
         in if 0 < mx \<and> mx < d then not_passed r (''call too long: '' @ qe_fixed e 0 d @ ''s (max: '' @ qe_fixed e 0 mx @ ''s)'')
            else if 0 < mn \<and> d < mn then not_passed r (''call too short: '' @ qe_fixed e 0 d @ ''s (min: '' @ qe_fixed e 0 mn @ ''s)'')
            else passed r 100 (''call duration normal: '' @ qe_fixed e 0 d @ ''s''))"

text \<open>The regular expressions of the entities it knows; another name is searched as a keyword.\<close>

abbreviation bs :: string where "bs \<equiv> [CHR 0x5C]"

definition entity_pattern :: "string \<Rightarrow> string option" where
  "entity_pattern name =
     (if name = ''phone'' then Some (''1[3-9]'' @ bs @ ''d{9}'')
      else if name = ''email'' then Some (''[a-zA-Z0-9._%+'' @ bs @ ''-]+@[a-zA-Z0-9.'' @ bs @ ''-]+'' @ bs @ ''.[a-zA-Z]{2,}'')
      else if name = ''order_number'' then Some (''(?i)('' @ zh [0x8BA2, 0x5355] @ ''|order)'' @ bs @ ''s*['' @ zh [0x53F7] @ '':'' @ zh [0xFF1A] @ ''#]?'' @ bs @ ''s*[A-Z0-9]{6,}'')
      else if name = ''id_card'' then Some (bs @ ''d{17}['' @ bs @ ''dXx]'')
      else if name = ''name'' then Some (''(?:'' @ zh [0x6211, 0x53EB] @ ''|'' @ zh [0x59D3, 0x540D] @ ''['' @ zh [0x662F, 0xFF1A] @ '':]'' @ bs @ ''s*|'' @
        zh [0x5148, 0x751F] @ ''|'' @ zh [0x5973, 0x58EB] @ ''|'' @ zh [0x60A8, 0x597D] @ '''' @ bs @ ''s*)['' @ bs @ ''p{Han}]{2,4}'')
      else None)"

definition entity_found :: "qa_env \<Rightarrow> string \<Rightarrow> string \<Rightarrow> bool" where
  "entity_found e transcript name = (case entity_pattern name of
       None \<Rightarrow> containsIgnoreCase transcript name
     | Some p \<Rightarrow> (case qe_compile e p of Inr match \<Rightarrow> match transcript \<noteq> None | Inl _ \<Rightarrow> False))"

definition join :: "string \<Rightarrow> string list \<Rightarrow> string" where
  "join sep xs = (case xs of [] \<Rightarrow> [] | y # ys \<Rightarrow> y @ concat (map (\<lambda>z. sep @ z) ys))"

definition evaluateEntityRule :: "qa_env \<Rightarrow> qa_rule \<Rightarrow> string \<Rightarrow> rule_result" where
  "evaluateEntityRule e r transcript = (case qe_entity e (qr_Config r) of
       None \<Rightarrow> not_passed r ''invalid entity config''
     | Some (names, require) \<Rightarrow>
         let found = filter (entity_found e transcript) names; missing = filter (\<lambda>n. \<not> entity_found e transcript n) names
         in if (if require \<noteq> ''any'' then missing = [] else found \<noteq> []) then passed r 100 (''entities found: '' @ join '', '' found)
            else not_passed r (''entities missing: '' @ join '', '' missing))"

definition greetingPatterns :: "string list" where
  "greetingPatterns = [zh [0x60A8, 0x597D], zh [0x4F60, 0x597D], zh [0x6B22, 0x8FCE], zh [0x611F, 0x8C22, 0x6765, 0x7535], zh [0x611F, 0x8C22, 0x81F4, 0x7535]]"

definition closingPatterns :: "string list" where
  "closingPatterns = [zh [0x518D, 0x89C1], zh [0x518D, 0x4F1A], zh [0x611F, 0x8C22], zh [0x795D, 0x60A8], zh [0x8FD8, 0x6709, 0x4EC0, 0x4E48]]"

definition hangupPatterns :: "string list" where
  "hangupPatterns = [zh [0x518D, 0x89C1], zh [0x518D, 0x4F1A], zh [0x62DC, 0x62DC], zh [0x7ED3, 0x675F], zh [0x6302, 0x4E86]]"

definition evaluateRoleRule :: "qa_env \<Rightarrow> qa_rule \<Rightarrow> string \<Rightarrow> rule_result" where
  "evaluateRoleRule e r transcript = (case qe_role e (qr_Config r) of
       None \<Rightarrow> not_passed r ''invalid role config''
     | Some (greeting, closing, phrases) \<Rightarrow>
         let issues = (if greeting \<and> \<not> list_ex (containsIgnoreCase transcript) greetingPatterns then [''missing greeting''] else []) @
               (if closing \<and> \<not> list_ex (containsIgnoreCase transcript) closingPatterns then [''missing closing''] else []) @
               map (\<lambda>p. ''missing phrase: '' @ p) (filter (\<lambda>p. \<not> containsIgnoreCase transcript p) phrases)
         in if issues = [] then passed r 100 ''all role requirements met'' else not_passed r (join ''; '' issues))"

definition evaluateAbnormalHangupRule :: "qa_rule \<Rightarrow> string \<Rightarrow> rule_result" where
  "evaluateAbnormalHangupRule r transcript =
     (if strings_Contains transcript ''[hangup:abnormal]'' then not_passed r ''abnormal hangup detected''
      else if list_ex (containsIgnoreCase (last (split_on CHR 0x0A transcript))) hangupPatterns then passed r 100 ''normal hangup detected''
      else passed r 80 ''no abnormal hangup marker, but closing phrase not found'')"

definition evaluateLLMRule :: "qa_env \<Rightarrow> qa_rule \<Rightarrow> string \<Rightarrow> rule_result" where
  "evaluateLLMRule e r transcript = (case qe_llm e (qr_Config r) of
       None \<Rightarrow> not_passed r ''invalid LLM rule config''
     | Some (prompt, threshold0) \<Rightarrow>
         let threshold = (if threshold0 \<le> 0 then 60 else threshold0)
         in (case qe_inspect e of
               None \<Rightarrow> passed r 100 ''LLM provider not configured, skipped''
             | Some inspect \<Rightarrow> (case inspect transcript prompt of
                 Inl err \<Rightarrow> not_passed r (''LLM inspection error: '' @ err)
               | Inr (score, d) \<Rightarrow> (empty_result r)\<lparr>rs_Passed := threshold \<le> score, rs_Score := score, rs_Detail := d\<rparr>)))"

definition evaluateRule :: "qa_env \<Rightarrow> qa_rule \<Rightarrow> string \<Rightarrow> rule_result" where
  "evaluateRule e r transcript =
     (if qr_Type r = ''keyword'' then evaluateKeywordRule e r transcript
      else if qr_Type r = ''regex'' then evaluateRegexRule e r transcript
      else if qr_Type r = ''silence'' then evaluateSilenceRule e r transcript
      else if qr_Type r = ''speed'' then evaluateSpeedRule e r transcript
      else if qr_Type r = ''interruption'' then evaluateInterruptionRule e r transcript
      else if qr_Type r = ''energy'' then evaluateEnergyRule e r transcript
      else if qr_Type r = ''duration'' then evaluateDurationRule e r transcript
      else if qr_Type r = ''entity'' then evaluateEntityRule e r transcript
      else if qr_Type r = ''role'' then evaluateRoleRule e r transcript
      else if qr_Type r = ''abnormal_hangup'' then evaluateAbnormalHangupRule r transcript
      else if qr_Type r = ''llm'' then evaluateLLMRule e r transcript
      else passed r 100 ''unknown rule type, passed by default'')"

end
