(* ===== verification/QualityService.thy ===== *)
theory QualityService
  imports Quality
begin

text \<open>
  The services of \<open>internal/domain/ai/service_phase9.go\<close> over their tables: rules, schemes, inspections and
  their appeals, the scenes of digital employees with intent matching, scorecards and their ranking.
\<close>

section \<open>Tables\<close>

record scene =
  de_ID :: int
  de_EmployeeID :: int
  de_TenantID :: int
  de_Name :: string
  de_Intents :: string
  de_FAQs :: string
  de_TransferSkillGroup :: "int option"
  de_Status :: string
  de_CreatedAt :: gotime
  de_UpdatedAt :: gotime

record scorecard =
  sc_ID :: int
  sc_TenantID :: int
  sc_AgentID :: int
  sc_Period :: string
  sc_TotalCalls :: int
  sc_AvgHandleTime :: rat
  sc_AvgQAScore :: rat
  sc_CSATScore :: rat
  sc_FirstCallResolv :: rat
  sc_Adherence :: rat
  sc_OverallScore :: rat
  sc_CreatedAt :: gotime

record qa_world =
  qw_rules :: "qa_rule ltable"
  qw_schemes :: "qa_scheme ltable"
  qw_results :: "qa_result ltable"
  qw_scenes :: "scene ltable"
  qw_cards :: "scorecard ltable"

datatype qa_error = ErrQARuleNotFound | ErrInvalidQARuleType | ErrQASchemeNotFound | ErrQAResultNotFound | ErrQAResultNotAppealable
  | ErrQAResultNotReviewable | ErrEmptyTranscript | ErrSceneNotFound | ErrSceneAlreadyPublished | ErrInvalidIntentConfig
  | ErrWeights | ErrQAStore string

type_synonym 'a qact = "(qa_world, qa_error, 'a) act"

abbreviation put_results :: "qa_result ltable \<Rightarrow> qa_world \<Rightarrow> qa_world" where
  "put_results d w \<equiv> w\<lparr>qw_results := d\<rparr>"

abbreviation put_rules :: "qa_rule ltable \<Rightarrow> qa_world \<Rightarrow> qa_world" where
  "put_rules d w \<equiv> w\<lparr>qw_rules := d\<rparr>"

abbreviation put_schemes :: "qa_scheme ltable \<Rightarrow> qa_world \<Rightarrow> qa_world" where
  "put_schemes d w \<equiv> w\<lparr>qw_schemes := d\<rparr>"

abbreviation put_scenes :: "scene ltable \<Rightarrow> qa_world \<Rightarrow> qa_world" where
  "put_scenes d w \<equiv> w\<lparr>qw_scenes := d\<rparr>"

abbreviation put_cards :: "scorecard ltable \<Rightarrow> qa_world \<Rightarrow> qa_world" where
  "put_cards d w \<equiv> w\<lparr>qw_cards := d\<rparr>"

definition Result_update_row :: "qa_result \<Rightarrow> qa_result \<Rightarrow> qa_result" where
  "Result_update_row old r = old\<lparr>qq_Score := qq_Score r, qq_Details := qq_Details r, qq_Status := qq_Status r,
     qq_AppealNote := qq_AppealNote r, qq_ReviewNote := qq_ReviewNote r, qq_ReviewerID := qq_ReviewerID r, qq_UpdatedAt := qq_UpdatedAt r\<rparr>"

definition Rule_update_row :: "qa_rule \<Rightarrow> qa_rule \<Rightarrow> qa_rule" where
  "Rule_update_row old r = old\<lparr>qr_Name := qr_Name r, qr_Type := qr_Type r, qr_Config := qr_Config r, qr_Severity := qr_Severity r,
     qr_IsActive := qr_IsActive r, qr_UpdatedAt := qr_UpdatedAt r\<rparr>"

definition Scheme_update_row :: "qa_scheme \<Rightarrow> qa_scheme \<Rightarrow> qa_scheme" where
  "Scheme_update_row old s = old\<lparr>qs_Name := qs_Name s, qs_RuleIDs := qs_RuleIDs s, qs_IsDefault := qs_IsDefault s,
     qs_IsActive := qs_IsActive s, qs_UpdatedAt := qs_UpdatedAt s\<rparr>"

definition Scene_update_row :: "scene \<Rightarrow> scene \<Rightarrow> scene" where
  "Scene_update_row old s = old\<lparr>de_Name := de_Name s, de_Intents := de_Intents s, de_FAQs := de_FAQs s,
     de_TransferSkillGroup := de_TransferSkillGroup s, de_Status := de_Status s, de_UpdatedAt := de_UpdatedAt s\<rparr>"

definition QAResultRepo :: "(qa_result ltable, qa_result) repo" where
  "QAResultRepo = ltable_repo qq_ID (\<lambda>r. r) Result_update_row"

definition QARuleRepo :: "(qa_rule ltable, qa_rule) repo" where
  "QARuleRepo = ltable_repo qr_ID (\<lambda>r. r) Rule_update_row"

definition QASchemeRepo :: "(qa_scheme ltable, qa_scheme) repo" where
  "QASchemeRepo = ltable_repo qs_ID (\<lambda>r. r) Scheme_update_row"

definition SceneRepo :: "(scene ltable, scene) repo" where
  "SceneRepo = ltable_repo de_ID (\<lambda>r. r) Scene_update_row"

section \<open>Rules and schemes\<close>

definition IsValidQARuleType :: "string \<Rightarrow> bool" where
  "IsValidQARuleType t \<longleftrightarrow> t \<in> set validQARuleTypes"

definition CreateRule :: "gotime \<Rightarrow> int \<Rightarrow> int \<Rightarrow> string \<Rightarrow> string \<Rightarrow> string \<Rightarrow> string \<Rightarrow> qa_rule qact" where
  "CreateRule now nid tenant name kind config severity =
     (if \<not> IsValidQARuleType kind then throw_a ErrInvalidQARuleType
      else let r = \<lparr>qr_ID = nid, qr_TenantID = tenant, qr_Name = name, qr_Type = kind, qr_Config = config,
             qr_Severity = (if severity = [] then ''warning'' else severity), qr_IsActive = True, qr_CreatedAt = now, qr_UpdatedAt = now\<rparr>
           in seq_a (insert_a qw_rules put_rules QARuleRepo ErrQAStore r) (ret_a r))"

definition UpdateRule :: "gotime \<Rightarrow> qa_rule \<Rightarrow> unit qact" where
  "UpdateRule now r = store_a qw_rules put_rules QARuleRepo ErrQAStore (r\<lparr>qr_UpdatedAt := now\<rparr>)"

definition DeleteRule :: "int \<Rightarrow> unit qact" where
  "DeleteRule k = wrap_a ErrQAStore (zoom_a qw_rules put_rules (on_link (\<lambda>t. (Inr (), t\<lparr>lrows := filter (\<lambda>r. qr_ID r \<noteq> k) (lrows t)\<rparr>))))"

text \<open>\<open>marshal\<close>: the JSON of the weights, or the error of a value JSON has no text for.\<close>

definition CreateScheme :: "((int \<times> rat) list \<Rightarrow> string option) \<Rightarrow> gotime \<Rightarrow> int \<Rightarrow> int \<Rightarrow> string \<Rightarrow> (int \<times> rat) list \<Rightarrow> bool \<Rightarrow> qa_scheme qact" where
  "CreateScheme marshal now nid tenant name weights isDefault = (case marshal weights of
       None \<Rightarrow> throw_a ErrWeights
     | Some js \<Rightarrow> let s = \<lparr>qs_ID = nid, qs_TenantID = tenant, qs_Name = name, qs_RuleIDs = js, qs_IsDefault = isDefault, qs_IsActive = True,
           qs_CreatedAt = now, qs_UpdatedAt = now\<rparr>
         in seq_a (insert_a qw_schemes put_schemes QASchemeRepo ErrQAStore s) (ret_a s))"

definition UpdateScheme :: "gotime \<Rightarrow> qa_scheme \<Rightarrow> unit qact" where
  "UpdateScheme now s = store_a qw_schemes put_schemes QASchemeRepo ErrQAStore (s\<lparr>qs_UpdatedAt := now\<rparr>)"

section \<open>Inspection\<close>

definition ListByIDs :: "int list \<Rightarrow> qa_rule list qact" where
  "ListByIDs ids = (if ids = [] then ret_a []
     else wrap_a ErrQAStore (zoom_a qw_rules put_rules (sel_all (\<lambda>r. qr_ID r \<in> set ids))))"

text \<open>The rules of the scheme in its order, those that are gone left out, each with its weight.\<close>

definition weighted_results :: "qa_env \<Rightarrow> qa_rule list \<Rightarrow> string \<Rightarrow> (int \<times> rat) list \<Rightarrow> (rule_result \<times> rat) list" where
  "weighted_results e rules transcript weights =
     List.map_filter (\<lambda>(k, wt). case find (\<lambda>r. qr_ID r = k) (rev rules) of
         None \<Rightarrow> None | Some r \<Rightarrow> Some (evaluateRule e r transcript, wt)) weights"

definition final_score :: "(rule_result \<times> rat) list \<Rightarrow> rat" where
  "final_score rs = (let score = foldl (\<lambda>t (r, wt). t + rs_Score r * wt) 0 rs; weight = foldl (\<lambda>t (r, wt). t + wt) 0 rs
     in if 0 < weight then score / weight else 0)"

definition RunInspection :: "qa_env \<Rightarrow> gotime \<Rightarrow> int \<Rightarrow> int \<Rightarrow> int \<Rightarrow> int \<Rightarrow> string \<Rightarrow> qa_result qact" where
  "RunInspection e now nid tenant callID schemeID transcript =
     (if transcript = [] then throw_a ErrEmptyTranscript
      else bind_a (fetch_a qw_schemes put_schemes QASchemeRepo ErrQASchemeNotFound schemeID) (\<lambda>s.
        case qe_weights e (qs_RuleIDs s) of
          None \<Rightarrow> throw_a ErrWeights
        | Some weights \<Rightarrow> bind_a (ListByIDs (map fst weights)) (\<lambda>rules.
            let rs = weighted_results e rules transcript weights;
                res = \<lparr>qq_ID = nid, qq_TenantID = tenant, qq_CallID = callID, qq_SchemeID = schemeID, qq_Score = final_score rs,
                  qq_Details = qe_details e (map fst rs), qq_Status = ''completed'', qq_AppealNote = [], qq_ReviewNote = [],
                  qq_ReviewerID = None, qq_CreatedAt = now, qq_UpdatedAt = now\<rparr>
            in seq_a (insert_a qw_results put_results QAResultRepo ErrQAStore res) (ret_a res))))"

text \<open>\<open>AutoInspect\<close>: the source of transcripts is the empty string.\<close>

definition transcriptFor :: "int \<Rightarrow> string" where
  "transcriptFor callID = []"

definition AutoInspect :: "qa_env \<Rightarrow> gotime \<Rightarrow> int \<Rightarrow> int \<Rightarrow> int \<Rightarrow> unit qact" where
  "AutoInspect e now nid tenant callID =
     try_a (zoom_a qw_schemes put_schemes (sel_all (\<lambda>s. qs_TenantID s = tenant))) (\<lambda>r. case r of
       Inl _ \<Rightarrow> ret_a ()
     | Inr [] \<Rightarrow> ret_a ()
     | Inr (s # _) \<Rightarrow> if transcriptFor callID = [] then ret_a ()
         else ignore_a (RunInspection e now nid tenant callID (qs_ID s) (transcriptFor callID)))"

definition load_result :: "int \<Rightarrow> qa_result qact" where
  "load_result = fetch_a qw_results put_results QAResultRepo ErrQAResultNotFound"

definition save_result :: "qa_result \<Rightarrow> unit qact" where
  "save_result = store_a qw_results put_results QAResultRepo ErrQAStore"

definition Appeal :: "gotime \<Rightarrow> int \<Rightarrow> string \<Rightarrow> qa_result qact" where
  "Appeal now k note = bind_a (load_result k) (\<lambda>r.
     if qq_Status r \<noteq> ''completed'' then throw_a ErrQAResultNotAppealable
     else let r' = r\<lparr>qq_Status := ''appealed'', qq_AppealNote := note, qq_UpdatedAt := now\<rparr> in seq_a (save_result r') (ret_a r'))"

definition Review :: "gotime \<Rightarrow> int \<Rightarrow> int \<Rightarrow> string \<Rightarrow> rat \<Rightarrow> qa_result qact" where
  "Review now k reviewer note newScore = bind_a (load_result k) (\<lambda>r.
     if qq_Status r \<noteq> ''appealed'' then throw_a ErrQAResultNotReviewable
     else let r' = r\<lparr>qq_Status := ''reviewed'', qq_ReviewerID := Some reviewer, qq_ReviewNote := note, qq_Score := newScore, qq_UpdatedAt := now\<rparr>
          in seq_a (save_result r') (ret_a r'))"

section \<open>Digital employees\<close>

definition CreateScene :: "(string \<Rightarrow> bool) \<Rightarrow> gotime \<Rightarrow> int \<Rightarrow> int \<Rightarrow> int \<Rightarrow> string \<Rightarrow> string \<Rightarrow> string \<Rightarrow> int option \<Rightarrow> scene qact" where
  "CreateScene valid now nid employee tenant name intents faqs transfer =
     (if intents \<noteq> [] \<and> \<not> valid intents then throw_a ErrInvalidIntentConfig
      else let s = \<lparr>de_ID = nid, de_EmployeeID = employee, de_TenantID = tenant, de_Name = name, de_Intents = intents, de_FAQs = faqs,
             de_TransferSkillGroup = transfer, de_Status = ''draft'', de_CreatedAt = now, de_UpdatedAt = now\<rparr>
           in seq_a (insert_a qw_scenes put_scenes SceneRepo ErrQAStore s) (ret_a s))"

definition load_scene :: "int \<Rightarrow> scene qact" where
  "load_scene = fetch_a qw_scenes put_scenes SceneRepo ErrSceneNotFound"

definition PublishScene :: "gotime \<Rightarrow> int \<Rightarrow> scene qact" where
  "PublishScene now k = bind_a (load_scene k) (\<lambda>s.
     if de_Status s = ''published'' then throw_a ErrSceneAlreadyPublished
     else let s' = s\<lparr>de_Status := ''published'', de_UpdatedAt := now\<rparr>
          in seq_a (store_a qw_scenes put_scenes SceneRepo ErrQAStore s') (ret_a s'))"

record intent =
  in_Name :: string
  in_Keywords :: "string list"
  in_Response :: string
  in_Transfer :: bool

text \<open>
  \<open>decode\<close>: the JSON of the intents; \<open>ask\<close>: the model's reply to the input and the names, when there is
  one. No match is \<open>None\<close>.
\<close>

definition keyword_intent :: "string \<Rightarrow> intent list \<Rightarrow> intent option" where
  "keyword_intent userInput = find (\<lambda>i. list_ex (containsIgnoreCase userInput) (in_Keywords i))"

definition MatchIntent ::
  "(string \<Rightarrow> intent list option) \<Rightarrow> (string \<Rightarrow> string list \<Rightarrow> string + string) option \<Rightarrow> int \<Rightarrow> string \<Rightarrow> intent option qact" where
  "MatchIntent decode ask k userInput = bind_a (load_scene k) (\<lambda>s.
     case (if de_Intents s = [] then Some [] else decode (de_Intents s)) of
       None \<Rightarrow> ret_a None
     | Some intents \<Rightarrow> (case keyword_intent userInput intents of
         Some i \<Rightarrow> ret_a (Some i)
       | None \<Rightarrow> ret_a (case ask of
             None \<Rightarrow> None
           | Some model \<Rightarrow> if intents = [] then None
               else (case model userInput (map in_Name intents) of
                   Inl _ \<Rightarrow> None
                 | Inr reply \<Rightarrow> if reply = [] \<or> reply = ''NONE'' then None
                     else find (\<lambda>i. containsIgnoreCase reply (in_Name i)) intents))))"

section \<open>Scorecards\<close>

record score_weights =
  wt_QA :: rat
  wt_CSAT :: rat
  wt_FCR :: rat
  wt_Adherence :: rat

definition DefaultScorecardWeights :: score_weights where
  "DefaultScorecardWeights = \<lparr>wt_QA = 3 / 10, wt_CSAT = 3 / 10, wt_FCR = 2 / 10, wt_Adherence = 2 / 10\<rparr>"

definition overall_score :: "score_weights \<Rightarrow> rat \<Rightarrow> rat \<Rightarrow> rat \<Rightarrow> rat \<Rightarrow> rat" where
  "overall_score wt qa csat fcr adherence = qa * wt_QA wt + csat * wt_CSAT wt + fcr * wt_FCR wt + adherence * wt_Adherence wt"

definition Generate ::
  "score_weights \<Rightarrow> gotime \<Rightarrow> int \<Rightarrow> int \<Rightarrow> int \<Rightarrow> string \<Rightarrow> int \<Rightarrow> rat \<Rightarrow> rat \<Rightarrow> rat \<Rightarrow> rat \<Rightarrow> rat \<Rightarrow> scorecard qact" where
  "Generate wt now nid tenant agent period calls aht qa csat fcr adherence =
     (let sc = \<lparr>sc_ID = nid, sc_TenantID = tenant, sc_AgentID = agent, sc_Period = period, sc_TotalCalls = calls, sc_AvgHandleTime = aht,
        sc_AvgQAScore = qa, sc_CSATScore = csat, sc_FirstCallResolv = fcr, sc_Adherence = adherence,
        sc_OverallScore = overall_score wt qa csat fcr adherence, sc_CreatedAt = now\<rparr>
      in seq_a (wrap_a ErrQAStore (zoom_a qw_cards put_cards (ins_row sc_ID (\<lambda>r. r) sc))) (ret_a sc))"

text \<open>The inner loop: the card at \<open>j\<close> moves forward past the cards with a smaller score.\<close>

fun sift :: "nat \<Rightarrow> scorecard list \<Rightarrow> scorecard list" where
  "sift 0 cards = cards"
| "sift (Suc j) cards =
     (if sc_OverallScore (cards ! Suc j) > sc_OverallScore (cards ! j)
      then sift j (cards[Suc j := cards ! j, j := cards ! Suc j]) else cards)"

definition rank_sort :: "scorecard list \<Rightarrow> scorecard list" where
  "rank_sort cards = fold sift [1..<length cards] cards"

text \<open>\<open>listing\<close>: the rows of the tenant in the order of the query.\<close>

definition Rank :: "(scorecard list \<Rightarrow> scorecard list) \<Rightarrow> int \<Rightarrow> string \<Rightarrow> (nat \<times> scorecard) list qact" where
  "Rank listing tenant period = bind_a (wrap_a ErrQAStore (zoom_a qw_cards put_cards
       (sel_all (\<lambda>c. sc_TenantID c = tenant \<and> (period = [] \<or> sc_Period c = period))))) (\<lambda>cards.
     let sorted = rank_sort (listing cards) in ret_a (zip [1..<Suc (length sorted)] sorted))"

end
