(* ===== verification/QualityProps.thy ===== *)
theory QualityProps
  imports QualityService "HOL-Library.Multiset"
begin

text \<open>
  The range of an inspection's score, the life of its result, and the order of the ranking.
\<close>

section \<open>Scores\<close>

text \<open>The score of a rule is all or nothing, or what the model says; 80 is for a call that ends without a goodbye.\<close>

definition model_in_range :: "qa_env \<Rightarrow> bool" where
  "model_in_range e \<longleftrightarrow> (\<forall>f t p s d. qe_inspect e = Some f \<longrightarrow> f t p = Inr (s, d) \<longrightarrow> 0 \<le> s \<and> s \<le> 100)"

definition in_range :: "rule_result \<Rightarrow> bool" where
  "in_range r \<longleftrightarrow> 0 \<le> rs_Score r \<and> rs_Score r \<le> 100"

lemma in_range_results [simp]: "in_range (passed r 100 d)" "in_range (passed r 80 d)" "in_range (not_passed r d)"
  by (simp_all add: in_range_def passed_def not_passed_def empty_result_def)

lemma in_range_keywords: "in_range (keyword_scan r require transcript kws)"
  by (induction kws) (simp_all add: Let_def)

lemma in_range_llm: "model_in_range e \<Longrightarrow> in_range (evaluateLLMRule e r transcript)"
  by (auto simp: evaluateLLMRule_def model_in_range_def Let_def in_range_def empty_result_def passed_def not_passed_def
      split: option.split sum.split)

lemmas evaluators = evaluateRegexRule_def evaluateSilenceRule_def evaluateSpeedRule_def evaluateInterruptionRule_def
  evaluateEnergyRule_def evaluateDurationRule_def evaluateEntityRule_def evaluateRoleRule_def evaluateAbnormalHangupRule_def

lemma in_range_evaluators [simp]:
  "in_range (evaluateKeywordRule e r t)" "in_range (evaluateRegexRule e r t)" "in_range (evaluateSilenceRule e r t)"
  "in_range (evaluateSpeedRule e r t)" "in_range (evaluateInterruptionRule e r t)" "in_range (evaluateEnergyRule e r t)"
  "in_range (evaluateDurationRule e r t)" "in_range (evaluateEntityRule e r t)" "in_range (evaluateRoleRule e r t)"
  "in_range (evaluateAbnormalHangupRule r t)"
  by (simp_all add: evaluateKeywordRule_def in_range_keywords evaluators Let_def split: option.split sum.split prod.split)

lemma in_range_rule: "model_in_range e \<Longrightarrow> in_range (evaluateRule e r transcript)"
  by (simp add: evaluateRule_def in_range_llm)

text \<open>The sums the loop builds.\<close>

lemma sums_of_scores:
  assumes "\<forall>(r, wt) \<in> set rs. in_range r \<and> 0 \<le> wt" "0 \<le> s" "s \<le> 100 * t"
  shows "0 \<le> foldl (\<lambda>t (r, wt). t + rs_Score r * wt) s rs \<and>
    foldl (\<lambda>t (r, wt). t + rs_Score r * wt) s rs \<le> 100 * foldl (\<lambda>t (r, wt). t + wt) t rs"
  using assms
proof (induction rs arbitrary: s t)
  case (Cons a rs)
  obtain r wt where a: "a = (r, wt)" by fastforce
  with Cons.prems have r: "0 \<le> rs_Score r" "rs_Score r \<le> 100" "0 \<le> wt" by (auto simp: in_range_def)
  have "rs_Score r * wt \<le> 100 * wt" "0 \<le> rs_Score r * wt" using r by (simp_all add: mult_right_mono)
  with Cons.prems have step: "0 \<le> s + rs_Score r * wt" "s + rs_Score r * wt \<le> 100 * (t + wt)" by (simp_all add: distrib_left)
  have "\<forall>(r, wt) \<in> set rs. in_range r \<and> 0 \<le> wt" using Cons.prems(1) by simp
  from Cons.IH [OF this step] show ?case by (simp add: a)
qed simp

text \<open>
  With weights that are not negative, the score of an inspection is between 0 and 100: every built-in rule scores
  within that range whatever its configuration and the transcript, and the weighted mean stays in it, rules that are gone and a total
  weight of zero included. What a language model answers is not checked, so its scores have to be in the range.
\<close>

theorem inspection_score_range:
  assumes "model_in_range e" "\<forall>p \<in> set weights. 0 \<le> snd p"
  shows "0 \<le> final_score (weighted_results e rules transcript weights) \<and>
    final_score (weighted_results e rules transcript weights) \<le> 100"
proof -
  let ?rs = "weighted_results e rules transcript weights"
  have "\<forall>(r, wt) \<in> set ?rs. in_range r \<and> 0 \<le> wt"
    using assms(2) by (induction weights)
      (auto simp: weighted_results_def List.map_filter_def in_range_rule [OF assms(1)] split: option.splits)
  from sums_of_scores [OF this, of 0 0]
  have b: "0 \<le> foldl (\<lambda>t (r, wt). t + rs_Score r * wt) 0 ?rs"
    "foldl (\<lambda>t (r, wt). t + rs_Score r * wt) 0 ?rs \<le> 100 * foldl (\<lambda>t (r, wt). t + wt) 0 ?rs" by auto
  show ?thesis
    using b by (auto simp: final_score_def Let_def pos_divide_le_eq)
qed

definition rule1 :: qa_rule where
  "rule1 = \<lparr>qr_ID = 1, qr_TenantID = 7, qr_Name = ''bye'', qr_Type = ''abnormal_hangup'', qr_Config = [], qr_Severity = ''warning'',
     qr_IsActive = True, qr_CreatedAt = 0, qr_UpdatedAt = 0\<rparr>"

definition env1 :: qa_env where
  "env1 = \<lparr>qe_keyword = \<lambda>_. None, qe_regex = \<lambda>_. None, qe_silence = \<lambda>_. None, qe_range = \<lambda>_. None, qe_interruption = \<lambda>_. None,
     qe_entity = \<lambda>_. None, qe_role = \<lambda>_. None, qe_llm = \<lambda>_. None, qe_weights = \<lambda>_. None, qe_compile = \<lambda>_. Inl [],
     qe_fixed = \<lambda>_ _. [], qe_details = \<lambda>_. [], qe_inspect = None\<rparr>"

theorem inspection_score_range_witness:
  "0 \<le> final_score (weighted_results env1 [rule1] ''hello'' [(1, 2), (9, 5)]) \<and>
   final_score (weighted_results env1 [rule1] ''hello'' [(1, 2), (9, 5)]) \<le> 100"
  by (rule inspection_score_range) (simp_all add: model_in_range_def env1_def)

text \<open>A negative weight, which nothing refuses, takes the score out of the range.\<close>

lemma negative_weight_leaves_range:
  "final_score [(passed rule1 100 [], 3), (not_passed rule1 [], - 2)] = 300"
  by (simp add: final_score_def passed_def not_passed_def empty_result_def)

text \<open>A call that only opens with the greeting for calling in satisfies the check for a closing too.\<close>

lemma part_contained: "b \<noteq> [] \<Longrightarrow> containsIgnoreCase (a @ b @ c) b"
  unfolding containsIgnoreCase_def Contains_iff strings_ToLower_def by simp (metis append.assoc)

lemma greeting_counts_as_closing:
  assumes "qe_role e (qr_Config r) = Some (True, True, [])"
  shows "rs_Passed (evaluateRoleRule e r (zh [0x611F, 0x8C22, 0x6765, 0x7535]))"
proof -
  let ?t = "zh [0x611F, 0x8C22, 0x6765, 0x7535]"
  have split: "?t = [] @ zh [0x611F, 0x8C22] @ zh [0x6765, 0x7535]" by (simp add: zh_def)
  have "containsIgnoreCase ?t (zh [0x611F, 0x8C22])" by (subst split, rule part_contained) (simp add: zh_def)
  moreover have "containsIgnoreCase ?t ?t" using part_contained [of ?t "[]" "[]"] by (simp add: zh_def)
  ultimately have "list_ex (containsIgnoreCase ?t) greetingPatterns" "list_ex (containsIgnoreCase ?t) closingPatterns"
    by (simp_all add: greetingPatterns_def closingPatterns_def)
  then show ?thesis by (simp add: evaluateRoleRule_def assms passed_def Let_def)
qed

section \<open>The ranking\<close>

abbreviation score_order :: "scorecard list \<Rightarrow> bool" where
  "score_order \<equiv> sorted_wrt (\<lambda>a b. sc_OverallScore b \<le> sc_OverallScore a)"

lemma rank_by_insert: "score_order xs \<longleftrightarrow> sorted (map (\<lambda>c. - sc_OverallScore c) xs)"
  by (simp add: sorted_map)

lemma sift_sorted_prefix:
  assumes "length xs = j" "score_order xs"
  shows "\<exists>ys zs. xs = ys @ zs \<and> sift j (xs @ c # rest) = ys @ c # zs @ rest \<and>
    (\<forall>y \<in> set ys. sc_OverallScore c \<le> sc_OverallScore y) \<and> (\<forall>z \<in> set zs. sc_OverallScore z < sc_OverallScore c)"
  using assms
proof (induction j arbitrary: xs rest)
  case 0
  then show ?case by simp
next
  case (Suc j)
  then obtain ys' x where xs: "xs = ys' @ [x]" by (metis length_Suc_conv_rev)
  with Suc.prems have len: "length ys' = j" and sorted: "score_order ys'" "\<forall>y \<in> set ys'. sc_OverallScore x \<le> sc_OverallScore y"
    by (auto simp: sorted_wrt_append)
  have at: "(xs @ c # rest) ! Suc j = c" "(xs @ c # rest) ! j = x"
    by (simp_all add: xs nth_append len)
  show ?case
  proof (cases "sc_OverallScore x < sc_OverallScore c")
    case True
    have "(xs @ c # rest)[Suc j := x, j := c] = ys' @ c # x # rest"
      by (simp add: xs list_update_append len)
    with True have step: "sift (Suc j) (xs @ c # rest) = sift j (ys' @ c # x # rest)" by (simp add: at)
    from Suc.IH [OF len sorted(1), of "x # rest"] obtain ys zs where h: "ys' = ys @ zs"
      "sift j (ys' @ c # x # rest) = ys @ c # zs @ x # rest"
      "\<forall>y \<in> set ys. sc_OverallScore c \<le> sc_OverallScore y" "\<forall>z \<in> set zs. sc_OverallScore z < sc_OverallScore c" by auto
    with True step show ?thesis by (intro exI [of _ ys] exI [of _ "zs @ [x]"]) (auto simp: xs)
  next
    case False
    have "sift (Suc j) (xs @ c # rest) = xs @ c # [] @ rest" using False by (simp add: at)
    moreover have "\<forall>y \<in> set xs. sc_OverallScore c \<le> sc_OverallScore y" using False sorted by (auto simp: xs not_less intro: order.trans)
    ultimately show ?thesis by (intro exI [of _ xs] exI [of _ "[]"]) simp
  qed
qed

text \<open>Cards of the same score keep their order.\<close>

lemma sift_step:
  assumes "i < length cards" "score_order (take i cards)"
  shows "score_order (take (Suc i) (sift i cards)) \<and> mset (sift i cards) = mset cards \<and>
    length (sift i cards) = length cards \<and>
    (\<forall>v. filter (\<lambda>c. sc_OverallScore c = v) (sift i cards) = filter (\<lambda>c. sc_OverallScore c = v) cards)"
proof -
  let ?xs = "take i cards" and ?c = "cards ! i" and ?rest = "drop (Suc i) cards"
  have split: "cards = ?xs @ ?c # ?rest" using assms(1) by (simp add: id_take_nth_drop)
  from assms(1) have "length ?xs = i" by simp
  from sift_sorted_prefix [OF this assms(2), of ?c ?rest]
  obtain ys zs where h: "?xs = ys @ zs" "sift i cards = ys @ ?c # zs @ ?rest"
    "\<forall>y \<in> set ys. sc_OverallScore ?c \<le> sc_OverallScore y" "\<forall>z \<in> set zs. sc_OverallScore z < sc_OverallScore ?c"
    using split by auto
  have c: "cards = ys @ zs @ ?c # ?rest" using split h(1) by simp
  have len: "length ys + length zs = i" using h(1) assms(1) by (metis length_append length_take min.absorb4)
  then have "Suc i - length ys = Suc (length zs)" by simp
  then have "take (Suc i) (sift i cards) = ys @ ?c # zs" unfolding h(2) using len by simp
  moreover have "score_order (ys @ ?c # zs)"
    using assms(2) h by (auto simp: sorted_wrt_append less_imp_le intro: order.trans)
  moreover have "mset (sift i cards) = mset cards" by (subst c, simp add: h(2))
  moreover have "length (sift i cards) = length cards" by (subst c, simp add: h(2))
  moreover have "filter (\<lambda>c. sc_OverallScore c = v) (sift i cards) = filter (\<lambda>c. sc_OverallScore c = v) cards" for v
  proof -
    have "filter (\<lambda>c. sc_OverallScore c = v) zs = []" if "sc_OverallScore ?c = v"
      using h(4) that by (auto simp: filter_empty_conv)
    then have "filter (\<lambda>c. sc_OverallScore c = v) (ys @ ?c # zs @ ?rest) = filter (\<lambda>c. sc_OverallScore c = v) (ys @ zs @ ?c # ?rest)"
      by simp
    with h(2) c show ?thesis by metis
  qed
  ultimately show ?thesis by simp
qed

lemma fold_sift:
  assumes "n \<le> length cards"
  shows "let out = fold sift [1..<n] cards in score_order (take n out) \<and> mset out = mset cards \<and> length out = length cards \<and>
    (\<forall>v. filter (\<lambda>c. sc_OverallScore c = v) out = filter (\<lambda>c. sc_OverallScore c = v) cards)"
  using assms
proof (induction n)
  case (Suc n)
  show ?case
  proof (cases "n = 0")
    case False
    let ?out = "fold sift [1..<n] cards"
    from Suc have ih: "score_order (take n ?out)" "mset ?out = mset cards" "length ?out = length cards"
      "\<And>v. filter (\<lambda>c. sc_OverallScore c = v) ?out = filter (\<lambda>c. sc_OverallScore c = v) cards" by (auto simp: Let_def)
    with Suc.prems have "n < length ?out" by simp
    from sift_step [OF this ih(1)] ih False show ?thesis by (simp add: Let_def)
  qed (cases cards, auto)
qed simp

lemma fold_sift_length: "length (fold sift [Suc 0..<length cards] cards) = length cards"
  using fold_sift [of "length cards" cards] by (simp add: Let_def)

text \<open>
  C26. The ranking is what the listing says, in the order of the overall score from the highest, and cards with the same
  score keep the order of the listing: the nested loops are a stable sort.
\<close>

theorem ranking_is_a_stable_sort: "rank_sort cards = sort_key (\<lambda>c. - sc_OverallScore c) cards"
proof (rule properties_for_sort_key [symmetric])
  from fold_sift [of "length cards" cards] have h: "score_order (rank_sort cards)" "mset (rank_sort cards) = mset cards"
    "\<And>v. filter (\<lambda>c. sc_OverallScore c = v) (rank_sort cards) = filter (\<lambda>c. sc_OverallScore c = v) cards"
    by (simp_all add: rank_sort_def Let_def fold_sift_length)
  show "mset (rank_sort cards) = mset cards" by (rule h)
  show "sorted (map (\<lambda>c. - sc_OverallScore c) (rank_sort cards))" using h(1) by (simp add: rank_by_insert)
  show "filter (\<lambda>c. - sc_OverallScore k = - sc_OverallScore c) (rank_sort cards) =
      filter (\<lambda>c. - sc_OverallScore k = - sc_OverallScore c) cards" for k
    using h(3) [of "sc_OverallScore k"] by (simp add: eq_commute)
qed

section \<open>The life of a result\<close>

inductive result_edge :: "qa_result \<Rightarrow> qa_result \<Rightarrow> bool" where
  same: "result_edge x x"
| appeal: "qq_Status x = ''completed'' \<Longrightarrow>
    result_edge x (x\<lparr>qq_Status := ''appealed'', qq_AppealNote := txt0, qq_UpdatedAt := now\<rparr>)"
| review: "qq_Status x = ''appealed'' \<Longrightarrow>
    result_edge x (x\<lparr>qq_Status := ''reviewed'', qq_ReviewerID := Some who, qq_ReviewNote := txt0, qq_Score := score, qq_UpdatedAt := now\<rparr>)"

inductive_cases result_edgeE: "result_edge x y"

definition inspection_ok :: "qa_result \<Rightarrow> bool" where
  "inspection_ok r \<longleftrightarrow> qq_Status r \<in> {''completed'', ''appealed'', ''reviewed''} \<and> (qq_Status r = ''reviewed'' \<longleftrightarrow> qq_ReviewerID r \<noteq> None)"

definition result_born :: "qa_result \<Rightarrow> bool" where
  "result_born r \<longleftrightarrow> qq_Status r = ''completed'' \<and> qq_AppealNote r = [] \<and> qq_ReviewNote r = [] \<and> qq_ReviewerID r = None"

interpretation result_rows: listed_table qq_ID "\<lambda>r. r" Result_update_row
  by unfold_locales (simp_all add: Result_update_row_def)

interpretation results: world_table QAResultRepo "lrow qq_ID" qq_ID Result_update_row "\<lambda>r. r"
    qw_results put_results inspection_ok result_edge result_born
  unfolding QAResultRepo_def by unfold_locales (simp_all add: result_edge.same)

abbreviation results_of :: "qa_world \<Rightarrow> int \<rightharpoonup> qa_result" where
  "results_of w \<equiv> lrow qq_ID (qw_results w)"

abbreviation results_evolve :: "(int \<rightharpoonup> qa_result) \<Rightarrow> (int \<rightharpoonup> qa_result) \<Rightarrow> bool" where
  "results_evolve \<equiv> evolves qq_ID inspection_ok result_edge result_born"

lemma other_tables [frame_intros]:
  "preserves results_of (zoom_a qw_rules put_rules m1)" "preserves results_of (zoom_a qw_schemes put_schemes m2)"
  "preserves results_of (zoom_a qw_scenes put_scenes m3)" "preserves results_of (zoom_a qw_cards put_cards m4)"
  by (auto intro!: preserves_zoom_other)

lemma other_rows [frame_intros]:
  "preserves results_of (fetch_a qw_schemes put_schemes R1 e k)" "preserves results_of (fetch_a qw_scenes put_scenes R2 e k)"
  "preserves results_of (store_a qw_rules put_rules R3 g r)" "preserves results_of (store_a qw_schemes put_schemes R1 g s)"
  "preserves results_of (store_a qw_scenes put_scenes R2 g c)" "preserves results_of (insert_a qw_rules put_rules R3 g r)"
  "preserves results_of (insert_a qw_schemes put_schemes R1 g s)" "preserves results_of (insert_a qw_scenes put_scenes R2 g c)"
  unfolding fetch_a_def store_a_def insert_a_def
  by (auto intro!: preserves_wrap preserves_try frame_intros split: sum.split option.split)

lemma moves_load_result:
  "(\<And>t. moves results_of (\<lambda>T T'. T k = Some t \<longrightarrow> results_evolve T T') (f t)) \<Longrightarrow>
   moves results_of results_evolve (bind_a (load_result k) f)"
  unfolding load_result_def by (rule results.moves_fetch)

lemma appeal_row: "Result_update_row t (t\<lparr>qq_Status := s, qq_AppealNote := x, qq_UpdatedAt := now\<rparr>) =
    t\<lparr>qq_Status := s, qq_AppealNote := x, qq_UpdatedAt := now\<rparr>"
  and review_row: "Result_update_row t (t\<lparr>qq_Status := s, qq_ReviewerID := who, qq_ReviewNote := x, qq_Score := score, qq_UpdatedAt := now\<rparr>) =
    t\<lparr>qq_Status := s, qq_ReviewerID := who, qq_ReviewNote := x, qq_Score := score, qq_UpdatedAt := now\<rparr>"
  by (cases t; simp add: Result_update_row_def)+

lemma moves_Appeal: "moves results_of results_evolve (Appeal now k txt0)"
  unfolding Appeal_def Let_def save_result_def
proof (intro moves_load_result moves_if results.moves_throw results.reflp_evolves)
  fix t :: qa_result assume "\<not> qq_Status t \<noteq> ''completed''"
  then show "moves results_of (\<lambda>T T'. T k = Some t \<longrightarrow> results_evolve T T')
    (seq_a (store_a qw_results put_results QAResultRepo ErrQAStore (t\<lparr>qq_Status := ''appealed'', qq_AppealNote := txt0, qq_UpdatedAt := now\<rparr>))
      (ret_a (t\<lparr>qq_Status := ''appealed'', qq_AppealNote := txt0, qq_UpdatedAt := now\<rparr>)))"
    using result_edge.appeal [where x = t]
    by (intro results.moves_stored preserves_ret) (simp_all add: inspection_ok_def appeal_row)
qed

lemma moves_Review: "moves results_of results_evolve (Review now k who txt0 score)"
  unfolding Review_def Let_def save_result_def
proof (intro moves_load_result moves_if results.moves_throw results.reflp_evolves)
  fix t :: qa_result assume "\<not> qq_Status t \<noteq> ''appealed''"
  then show "moves results_of (\<lambda>T T'. T k = Some t \<longrightarrow> results_evolve T T')
    (seq_a (store_a qw_results put_results QAResultRepo ErrQAStore
        (t\<lparr>qq_Status := ''reviewed'', qq_ReviewerID := Some who, qq_ReviewNote := txt0, qq_Score := score, qq_UpdatedAt := now\<rparr>))
      (ret_a (t\<lparr>qq_Status := ''reviewed'', qq_ReviewerID := Some who, qq_ReviewNote := txt0, qq_Score := score, qq_UpdatedAt := now\<rparr>)))"
    using result_edge.review [where x = t]
    by (intro results.moves_stored preserves_ret) (simp_all add: inspection_ok_def review_row)
qed

lemma moves_RunInspection: "moves results_of results_evolve (RunInspection e now nid tenant callID schemeID transcript)"
  unfolding RunInspection_def ListByIDs_def Let_def
  by (intro moves_if results.moves_throw moves_bind_pre results.reflp_evolves frame_intros)
    (auto split: option.split intro!: results.moves_throw moves_bind_pre results.moves_inserted results.reflp_evolves frame_intros
      simp: inspection_ok_def result_born_def)

lemma moves_other_services:
  "moves results_of results_evolve (CreateRule now nid tenant nm kind config severity)"
  "moves results_of results_evolve (UpdateRule now ru)" "moves results_of results_evolve (DeleteRule k)"
  "moves results_of results_evolve (CreateScheme marshal now nid tenant nm weights dflt)"
  "moves results_of results_evolve (UpdateScheme now sch)" "moves results_of results_evolve (PublishScene now k)"
  "moves results_of results_evolve (AutoInspect e now nid tenant k)"
  unfolding CreateRule_def UpdateRule_def DeleteRule_def CreateScheme_def UpdateScheme_def PublishScene_def AutoInspect_def
    load_scene_def transcriptFor_def Let_def
  by (intro results.moves_quiet results.reflp_evolves frame_intros |
      auto split: option.split sum.split list.split intro!: results.moves_quiet results.reflp_evolves frame_intros preserves_wrap preserves_try)+

datatype qa_op = QInspect int int int string | QAuto int int | QAppeal int string | QReview int int string rat
  | QRule int string string string string | QEditRule qa_rule | QDropRule int | QScheme int string "(int \<times> rat) list" bool
  | QEditScheme qa_scheme | QPublish int

definition exec_qa :: "qa_env \<Rightarrow> ((int \<times> rat) list \<Rightarrow> string option) \<Rightarrow> gotime \<times> int \<Rightarrow> qa_op \<Rightarrow> unit qact" where
  "exec_qa e marshal q opn = (case q of (now, nid) \<Rightarrow> (case opn of
       QInspect tenant callID scheme transcript \<Rightarrow> ignore_a (RunInspection e now nid tenant callID scheme transcript)
     | QAuto tenant callID \<Rightarrow> AutoInspect e now nid tenant callID
     | QAppeal k x \<Rightarrow> ignore_a (Appeal now k x)
     | QReview k who x score \<Rightarrow> ignore_a (Review now k who x score)
     | QRule tenant nm kind config severity \<Rightarrow> ignore_a (CreateRule now nid tenant nm kind config severity)
     | QEditRule r \<Rightarrow> UpdateRule now r
     | QDropRule k \<Rightarrow> DeleteRule k
     | QScheme tenant nm weights dflt \<Rightarrow> ignore_a (CreateScheme marshal now nid tenant nm weights dflt)
     | QEditScheme s \<Rightarrow> UpdateScheme now s
     | QPublish k \<Rightarrow> ignore_a (PublishScene now k)))"

primrec run_qa :: "qa_env \<Rightarrow> ((int \<times> rat) list \<Rightarrow> string option) \<Rightarrow> ((gotime \<times> int) \<times> qa_op) list \<Rightarrow> qa_world \<Rightarrow> qa_world" where
  "run_qa e marshal [] w = w"
| "run_qa e marshal (q # qs) w = run_qa e marshal qs (snd (exec_qa e marshal (fst q) (snd q) w))"

lemma moves_exec_qa: "moves results_of results_evolve (exec_qa e marshal q opn)"
proof -
  obtain now nid where q: "q = (now, nid)" by fastforce
  show ?thesis
    unfolding exec_qa_def q prod.case
    by (cases opn) (auto intro: moves_ignore moves_Appeal moves_Review moves_RunInspection moves_other_services)
qed

lemma run_qa_row:
  "rows_ok qq_ID inspection_ok (results_of w) \<Longrightarrow> results_of w k = Some t \<Longrightarrow>
   rows_ok qq_ID inspection_ok (results_of (run_qa e marshal qs w)) \<and>
   (\<exists>t'. results_of (run_qa e marshal qs w) k = Some t' \<and> result_edge\<^sup>*\<^sup>* t t')"
proof (induction qs arbitrary: w t)
  case (Cons q qs)
  have "results_evolve (results_of w) (results_of (snd (exec_qa e marshal (fst q) (snd q) w)))"
    using moves_exec_qa by (simp add: moves_def)
  note ev = evolvesD [OF this Cons.prems(1)]
  from ev(2) [OF Cons.prems(2)] obtain u where u:
    "results_of (snd (exec_qa e marshal (fst q) (snd q) w)) k = Some u" "result_edge t u" by blast
  from Cons.IH [OF ev(1) u(1)] u(2) show ?case by (auto intro: converse_rtranclp_into_rtranclp)
qed auto

text \<open>What stays and what is kept on the way.\<close>

lemma result_fixed:
  "result_edge\<^sup>*\<^sup>* x y \<Longrightarrow> qq_Details y = qq_Details x \<and> qq_TenantID y = qq_TenantID x \<and> qq_CallID y = qq_CallID x \<and>
     qq_SchemeID y = qq_SchemeID x \<and> (qq_Status y \<noteq> ''reviewed'' \<longrightarrow> qq_Score y = qq_Score x)"
proof (induction rule: rtranclp_induct)
  case (step y z)
  then show ?case by (auto elim!: result_edgeE)
qed simp

lemma reviewed_final: "result_edge\<^sup>*\<^sup>* x y \<Longrightarrow> qq_Status x = ''reviewed'' \<Longrightarrow> y = x"
  by (induction rule: rtranclp_induct) (auto elim!: result_edgeE)

text \<open>
  C23. Whatever requests come in one after the other, and whatever statements fail, an inspection's result stays in the
  table with its details, tenant, call and scheme. Its status only goes from completed to appealed to reviewed; until it is reviewed it keeps
  the score it was inspected with, and once reviewed, which has a reviewer, nothing about it changes any more.
\<close>

theorem inspection_result_life:
  assumes "rows_ok qq_ID inspection_ok (results_of w)" "results_of w k = Some r"
  shows "\<exists>r'. results_of (run_qa e marshal qs w) k = Some r' \<and> result_edge\<^sup>*\<^sup>* r r' \<and> inspection_ok r' \<and>
    qq_Details r' = qq_Details r \<and> qq_CallID r' = qq_CallID r \<and> (qq_Status r' \<noteq> ''reviewed'' \<longrightarrow> qq_Score r' = qq_Score r) \<and>
    (qq_Status r = ''reviewed'' \<longrightarrow> r' = r)"
proof -
  from run_qa_row [OF assms] obtain r' where r': "rows_ok qq_ID inspection_ok (results_of (run_qa e marshal qs w))"
    "results_of (run_qa e marshal qs w) k = Some r'" "result_edge\<^sup>*\<^sup>* r r'" by blast
  with result_fixed [OF r'(3)] reviewed_final [OF r'(3)] show ?thesis
    by (intro exI [of _ r']) (auto simp: rows_ok_def)
qed

definition result1 :: qa_result where
  "result1 = \<lparr>qq_ID = 1, qq_TenantID = 7, qq_CallID = 9, qq_SchemeID = 4, qq_Score = 55, qq_Details = ''[]'', qq_Status = ''reviewed'',
     qq_AppealNote = ''a'', qq_ReviewNote = ''b'', qq_ReviewerID = Some 3, qq_CreatedAt = 0, qq_UpdatedAt = 5\<rparr>"

definition qa_world1 :: qa_world where
  "qa_world1 = \<lparr>qw_rules = \<lparr>lrows = [], loutages = []\<rparr>, qw_schemes = \<lparr>lrows = [], loutages = []\<rparr>,
     qw_results = \<lparr>lrows = [result1], loutages = []\<rparr>, qw_scenes = \<lparr>lrows = [], loutages = []\<rparr>, qw_cards = \<lparr>lrows = [], loutages = []\<rparr>\<rparr>"

theorem inspection_result_life_witness:
  "results_of (run_qa env1 (\<lambda>_. None) [((6, 2), QAppeal 1 ''again''), ((7, 3), QReview 1 8 ''up'' 100)] qa_world1) 1 = Some result1"
proof -
  have "rows_ok qq_ID inspection_ok (results_of qa_world1)" "results_of qa_world1 1 = Some result1"
    by (auto simp: rows_ok_def qa_world1_def lrow_def result1_def inspection_ok_def split: if_splits)
  from inspection_result_life [OF this] show ?thesis by (fastforce simp: result1_def)
qed

text \<open>Every row of a new inspection starts as completed.\<close>

lemma automatic_inspection_inspects_nothing:
  "results_of (snd (AutoInspect e now nid tenant callID w)) = results_of w"
  by (auto simp: AutoInspect_def transcriptFor_def act_simps split: prod.splits sum.splits list.splits)

end
