(* ===== verification/Crm.thy ===== *)
theory Crm
  imports Tables Decimal
begin

text \<open>
  Customers, their phones, their contacts and their custom fields: \<open>internal/domain/crm/service.go\<close> with
  the edit of \<open>interfaces/http/handler/customer.go\<close>, over the statements of \<open>infrastructure/mysql/crm_repo.go\<close>.
\<close>

section \<open>Entities and tables\<close>

record customer =
  cu_ID :: int
  cu_TenantID :: int
  cu_Name :: string
  cu_Email :: string
  cu_Company :: string
  cu_Level :: string
  cu_CustomData :: string
  cu_CreatedAt :: gotime
  cu_UpdatedAt :: gotime

record customer_phone =
  cp_ID :: int
  cp_CustomerID :: int
  cp_PhoneType :: string
  cp_Number :: string
  cp_IsPrimary :: bool

record interaction =
  ix_ID :: int
  ix_CustomerID :: int
  ix_TenantID :: int
  ix_Channel :: string
  ix_Direction :: string
  ix_Summary :: string
  ix_CallID :: "int option"
  ix_TicketID :: "int option"
  ix_AgentName :: string
  ix_CreatedAt :: gotime

record field_definition =
  fd_ID :: int
  fd_TenantID :: int
  fd_EntityType :: string
  fd_FieldName :: string
  fd_FieldType :: string
  fd_Options :: string
  fd_IsRequired :: bool
  fd_SortOrder :: int

record phone_input =
  pi_PhoneType :: string
  pi_Number :: string
  pi_IsPrimary :: bool

record customer_input =
  ni_TenantID :: int
  ni_Name :: string
  ni_Email :: string
  ni_Company :: string
  ni_Level :: string
  ni_CustomData :: string
  ni_Phones :: "phone_input list"

datatype crm_error = ErrInvalidLevel | ErrInvalidPhoneType | ErrNoPrimaryPhone | ErrMultiplePrimary | ErrCustomerNotFound
  | ErrInvalidEntityType | ErrInvalidFieldType | ErrGdpr string string | ErrCrmStore string

text \<open>\<open>cw_audit\<close>: the erasures recorded with the auditor, as tenant, customer and who asked.\<close>

record crm_world =
  cw_customers :: "customer ltable"
  cw_phones :: "customer_phone ltable"
  cw_interactions :: "interaction ltable"
  cw_fields :: "field_definition ltable"
  cw_audit :: "(int \<times> int \<times> int) journal"

type_synonym 'a cact = "(crm_world, crm_error, 'a) act"

abbreviation put_customers :: "customer ltable \<Rightarrow> crm_world \<Rightarrow> crm_world" where
  "put_customers d w \<equiv> w\<lparr>cw_customers := d\<rparr>"

abbreviation put_phones :: "customer_phone ltable \<Rightarrow> crm_world \<Rightarrow> crm_world" where
  "put_phones d w \<equiv> w\<lparr>cw_phones := d\<rparr>"

abbreviation put_interactions :: "interaction ltable \<Rightarrow> crm_world \<Rightarrow> crm_world" where
  "put_interactions d w \<equiv> w\<lparr>cw_interactions := d\<rparr>"

abbreviation put_definitions :: "field_definition ltable \<Rightarrow> crm_world \<Rightarrow> crm_world" where
  "put_definitions d w \<equiv> w\<lparr>cw_fields := d\<rparr>"

definition Customer_update_row :: "customer \<Rightarrow> customer \<Rightarrow> customer" where
  "Customer_update_row old c = old\<lparr>cu_Name := cu_Name c, cu_Email := cu_Email c, cu_Company := cu_Company c, cu_Level := cu_Level c,
     cu_CustomData := cu_CustomData c, cu_UpdatedAt := cu_UpdatedAt c\<rparr>"

definition CustomerRepo :: "(customer ltable, customer) repo" where
  "CustomerRepo = ltable_repo cu_ID (\<lambda>c. c) Customer_update_row"

definition DeletePhones :: "int \<Rightarrow> (crm_world, string, unit) act" where
  "DeletePhones k = zoom_a cw_phones put_phones (del_rows (\<lambda>p. cp_CustomerID p = k))"

definition DeleteInteractions :: "int \<Rightarrow> (crm_world, string, unit) act" where
  "DeleteInteractions k = zoom_a cw_interactions put_interactions (del_rows (\<lambda>i. ix_CustomerID i = k))"

definition DeleteCustomerRow :: "int \<Rightarrow> (crm_world, string, unit) act" where
  "DeleteCustomerRow k = zoom_a cw_customers put_customers (del_rows (\<lambda>c. cu_ID c = k))"

section \<open>Creating customers\<close>

definition validLevels :: "string list" where
  "validLevels = [''normal'', ''vip'', ''svip'']"

definition validPhoneTypes :: "string list" where
  "validPhoneTypes = [''mobile'', ''landline'', ''backup'']"

definition validFieldTypes :: "string list" where
  "validFieldTypes = [''text'', ''number'', ''select'', ''date'']"

definition validEntityTypes :: "string list" where
  "validEntityTypes = [''customer'', ''ticket'']"

fun count_primary :: "nat \<Rightarrow> phone_input list \<Rightarrow> crm_error + nat" where
  "count_primary n [] = Inr n"
| "count_primary n (p # ps) =
     (if pi_PhoneType p \<notin> set validPhoneTypes then Inl ErrInvalidPhoneType
      else count_primary (if pi_IsPrimary p then Suc n else n) ps)"

definition validatePhones :: "phone_input list \<Rightarrow> crm_error + unit" where
  "validatePhones ps = (case count_primary 0 ps of
       Inl e \<Rightarrow> Inl e
     | Inr n \<Rightarrow> if n = 0 then Inl ErrNoPrimaryPhone else if 1 < n then Inl ErrMultiplePrimary else Inr ())"

definition phone_row :: "int \<Rightarrow> int \<Rightarrow> phone_input \<Rightarrow> customer_phone" where
  "phone_row nid k p = \<lparr>cp_ID = nid, cp_CustomerID = k, cp_PhoneType = pi_PhoneType p, cp_Number = pi_Number p, cp_IsPrimary = pi_IsPrimary p\<rparr>"

text \<open>\<open>ids\<close>: the ids drawn, in order.\<close>

fun insert_phones :: "(nat \<Rightarrow> int) \<Rightarrow> int \<Rightarrow> phone_input list \<Rightarrow> unit cact" where
  "insert_phones ids k [] = ret_a ()"
| "insert_phones ids k (p # ps) =
     seq_a (wrap_a ErrCrmStore (zoom_a cw_phones put_phones (ins_row cp_ID (\<lambda>r. r) (phone_row (ids 0) k p))))
       (insert_phones (\<lambda>i. ids (Suc i)) k ps)"

definition CreateCustomer :: "gotime \<Rightarrow> (nat \<Rightarrow> int) \<Rightarrow> customer_input \<Rightarrow> customer cact" where
  "CreateCustomer now ids inp =
     (if ni_Level inp \<notin> set validLevels then throw_a ErrInvalidLevel
      else case validatePhones (ni_Phones inp) of
        Inl e \<Rightarrow> throw_a e
      | Inr _ \<Rightarrow>
          let c = \<lparr>cu_ID = ids 0, cu_TenantID = ni_TenantID inp, cu_Name = ni_Name inp, cu_Email = ni_Email inp,
                cu_Company = ni_Company inp, cu_Level = ni_Level inp, cu_CustomData = ni_CustomData inp, cu_CreatedAt = now, cu_UpdatedAt = now\<rparr>
          in seq_a (insert_a cw_customers put_customers CustomerRepo ErrCrmStore c)
            (seq_a (insert_phones (\<lambda>i. ids (Suc i)) (cu_ID c) (ni_Phones inp)) (ret_a c)))"

text \<open>\<open>BatchImport\<close>: the numbers of the rows that failed, from 1, with their errors.\<close>

record import_result =
  im_Success :: int
  im_Failed :: int
  im_Errors :: "(nat \<times> crm_error) list"

fun import_rows ::
  "(nat \<Rightarrow> gotime) \<Rightarrow> (nat \<Rightarrow> nat \<Rightarrow> int) \<Rightarrow> nat \<Rightarrow> customer_input list \<Rightarrow> import_result \<Rightarrow> import_result cact" where
  "import_rows now ids i [] res = ret_a res"
| "import_rows now ids i (rec # recs) res =
     try_a (CreateCustomer (now i) (ids i) rec) (\<lambda>r. case r of
       Inl e \<Rightarrow> import_rows now ids (Suc i) recs (res\<lparr>im_Failed := im_Failed res + 1, im_Errors := im_Errors res @ [(Suc i, e)]\<rparr>)
     | Inr _ \<Rightarrow> import_rows now ids (Suc i) recs (res\<lparr>im_Success := im_Success res + 1\<rparr>))"

definition BatchImport :: "(nat \<Rightarrow> gotime) \<Rightarrow> (nat \<Rightarrow> nat \<Rightarrow> int) \<Rightarrow> customer_input list \<Rightarrow> import_result cact" where
  "BatchImport now ids recs = import_rows now ids 0 recs \<lparr>im_Success = 0, im_Failed = 0, im_Errors = []\<rparr>"

section \<open>Reading and editing\<close>

definition load_customer :: "int \<Rightarrow> customer cact" where
  "load_customer k = bind_a (wrap_a ErrCrmStore (zoom_a cw_customers put_customers (repo_get CustomerRepo k))) (\<lambda>r.
     case r of None \<Rightarrow> throw_a ErrCustomerNotFound | Some c \<Rightarrow> ret_a c)"

text \<open>The handler \<open>Update\<close>: the customer is read, the fields of the request are set, the row is written back.\<close>

definition UpdateCustomer :: "gotime \<Rightarrow> int \<Rightarrow> string option \<Rightarrow> string option \<Rightarrow> string option \<Rightarrow> string option \<Rightarrow> customer cact" where
  "UpdateCustomer now k name email company level = bind_a (load_customer k) (\<lambda>c.
     let c' = c\<lparr>cu_Name := (case name of None \<Rightarrow> cu_Name c | Some x \<Rightarrow> x), cu_Email := (case email of None \<Rightarrow> cu_Email c | Some x \<Rightarrow> x),
           cu_Company := (case company of None \<Rightarrow> cu_Company c | Some x \<Rightarrow> x),
           cu_Level := (case level of None \<Rightarrow> cu_Level c | Some x \<Rightarrow> x), cu_UpdatedAt := now\<rparr>
     in seq_a (store_a cw_customers put_customers CustomerRepo ErrCrmStore c') (ret_a c'))"

text \<open>The join has no order: \<open>pick\<close> is the row the database returns first.\<close>

definition FindByPhone :: "(customer list \<Rightarrow> customer) \<Rightarrow> int \<Rightarrow> string \<Rightarrow> customer option cact" where
  "FindByPhone pick tenant phone = (\<lambda>w. bind_a (wrap_a ErrCrmStore (zoom_a cw_customers put_customers
       (sel_all (\<lambda>c. cu_TenantID c = tenant \<and> (\<exists>p \<in> set (lrows (cw_phones w)). cp_CustomerID p = cu_ID c \<and> cp_Number p = phone)))))
     (\<lambda>cs. ret_a (if cs = [] then None else Some (pick cs))) w)"

definition RecordInteraction ::
  "gotime \<Rightarrow> int \<Rightarrow> int \<Rightarrow> int \<Rightarrow> string \<Rightarrow> string \<Rightarrow> string \<Rightarrow> int option \<Rightarrow> int option \<Rightarrow> string \<Rightarrow> unit cact" where
  "RecordInteraction now nid customer tenant channel direction summary call ticket agentName =
     wrap_a ErrCrmStore (zoom_a cw_interactions put_interactions (ins_row ix_ID (\<lambda>r. r)
       \<lparr>ix_ID = nid, ix_CustomerID = customer, ix_TenantID = tenant, ix_Channel = channel, ix_Direction = direction, ix_Summary = summary,
        ix_CallID = call, ix_TicketID = ticket, ix_AgentName = agentName, ix_CreatedAt = now\<rparr>))"

definition CreateFieldDefinition :: "int \<Rightarrow> field_definition \<Rightarrow> unit cact" where
  "CreateFieldDefinition nid d =
     (if fd_EntityType d \<notin> set validEntityTypes then throw_a ErrInvalidEntityType
      else if fd_FieldType d \<notin> set validFieldTypes then throw_a ErrInvalidFieldType
      else wrap_a ErrCrmStore (zoom_a cw_fields put_definitions (ins_row fd_ID (\<lambda>r. r) (d\<lparr>fd_ID := nid\<rparr>))))"

section \<open>Deleting\<close>

definition DeleteCustomer :: "int \<Rightarrow> unit cact" where
  "DeleteCustomer k = seq_a (wrap_a ErrCrmStore (DeletePhones k))
     (seq_a (wrap_a ErrCrmStore (DeleteInteractions k)) (wrap_a ErrCrmStore (DeleteCustomerRow k)))"

text \<open>\<open>auditor\<close>: whether one is set; its error is dropped.\<close>

definition EraseCustomer :: "bool \<Rightarrow> int \<Rightarrow> int \<Rightarrow> int \<Rightarrow> unit cact" where
  "EraseCustomer auditor tenant k requestedBy =
     bind_a (fetch_a cw_customers put_customers CustomerRepo ErrCustomerNotFound k) (\<lambda>c.
       if cu_TenantID c \<noteq> tenant then throw_a ErrCustomerNotFound
       else seq_a (wrap_a (ErrGdpr ''interactions'') (DeleteInteractions k))
         (seq_a (wrap_a (ErrGdpr ''phones'') (DeletePhones k))
         (seq_a (wrap_a (ErrGdpr ''customer'') (DeleteCustomerRow k))
         (when_a auditor (ignore_a (zoom_a cw_audit (\<lambda>d w. w\<lparr>cw_audit := d\<rparr>) (journal_add (tenant, k, requestedBy))))))))"

section \<open>The journey of a customer\<close>

record journey =
  jy_Customer :: customer
  jy_Phones :: "customer_phone list"
  jy_Interactions :: "interaction list"
  jy_ChannelStats :: "string \<Rightarrow> int"
  jy_FirstContact :: "gotime option"
  jy_LastContact :: "gotime option"
  jy_TotalContacts :: int

definition add_contact :: "journey \<Rightarrow> interaction \<Rightarrow> journey" where
  "add_contact j ix = j\<lparr>jy_ChannelStats := (jy_ChannelStats j)(ix_Channel ix := jy_ChannelStats j (ix_Channel ix) + 1),
     jy_FirstContact := (case jy_FirstContact j of None \<Rightarrow> Some (ix_CreatedAt ix)
       | Some t \<Rightarrow> if ix_CreatedAt ix < t then Some (ix_CreatedAt ix) else Some t),
     jy_LastContact := (case jy_LastContact j of None \<Rightarrow> Some (ix_CreatedAt ix)
       | Some t \<Rightarrow> if t < ix_CreatedAt ix then Some (ix_CreatedAt ix) else Some t)\<rparr>"

text \<open>\<open>ORDER BY created_at DESC LIMIT ? OFFSET ?\<close>; \<open>latest_first\<close> is the order the database finds.\<close>

definition ListByCustomer :: "(interaction list \<Rightarrow> interaction list) \<Rightarrow> int \<Rightarrow> nat \<Rightarrow> nat \<Rightarrow> (crm_world, string, interaction list) act" where
  "ListByCustomer latest_first k offset limit = bind_a (zoom_a cw_interactions put_interactions (sel_all (\<lambda>i. ix_CustomerID i = k)))
     (\<lambda>is. ret_a (take limit (drop offset (latest_first is))))"

text \<open>A list is empty when its query fails.\<close>

definition list_or_empty :: "(crm_world, string, 'a list) act \<Rightarrow> 'a list cact" where
  "list_or_empty m = try_a m (\<lambda>r. ret_a (case r of Inl _ \<Rightarrow> [] | Inr xs \<Rightarrow> xs))"

definition GetJourney :: "(interaction list \<Rightarrow> interaction list) \<Rightarrow> int \<Rightarrow> journey cact" where
  "GetJourney latest_first k = bind_a (fetch_a cw_customers put_customers CustomerRepo ErrCustomerNotFound k) (\<lambda>c.
     bind_a (list_or_empty (zoom_a cw_phones put_phones (sel_all (\<lambda>p. cp_CustomerID p = k)))) (\<lambda>ps.
     bind_a (list_or_empty (ListByCustomer latest_first k 0 500)) (\<lambda>is.
       ret_a (foldl add_contact \<lparr>jy_Customer = c, jy_Phones = ps, jy_Interactions = is, jy_ChannelStats = (\<lambda>_. 0),
         jy_FirstContact = None, jy_LastContact = None, jy_TotalContacts = int (length is)\<rparr> is))))"

end
