(* ===== verification/CrmProps.thy ===== *)
theory CrmProps
  imports Crm "HOL-Library.Multiset"
begin

text \<open>
  What erasing a customer leaves, what a new customer brings with it, what an import counts, and what the
  journey of a customer sums up.
\<close>

section \<open>Erasure\<close>

lemma del_rows_outcome:
  "del_rows P t = (r, t') \<Longrightarrow>
   (r = Inr () \<and> lrows t' = filter (\<lambda>x. \<not> P x) (lrows t)) \<or> ((\<exists>e. r = Inl e) \<and> lrows t' = lrows t)"
  by (auto simp: del_rows_def on_link_def split: list.splits if_splits)

text \<open>The three tables of a customer, and what of them belongs to others.\<close>

abbreviation customers_in :: "crm_world \<Rightarrow> customer list" where "customers_in w \<equiv> lrows (cw_customers w)"
abbreviation phones_in :: "crm_world \<Rightarrow> customer_phone list" where "phones_in w \<equiv> lrows (cw_phones w)"
abbreviation interactions_in :: "crm_world \<Rightarrow> interaction list" where "interactions_in w \<equiv> lrows (cw_interactions w)"

lemma delete_outcomes:
  "DeletePhones k w = (r, w') \<Longrightarrow> customers_in w' = customers_in w \<and> interactions_in w' = interactions_in w \<and>
     cw_audit w' = cw_audit w \<and> cw_fields w' = cw_fields w \<and>
     (r = Inr () \<and> phones_in w' = filter (\<lambda>p. cp_CustomerID p \<noteq> k) (phones_in w) \<or> (\<exists>e. r = Inl e) \<and> phones_in w' = phones_in w)"
  "DeleteInteractions k w = (r, w') \<Longrightarrow> customers_in w' = customers_in w \<and> phones_in w' = phones_in w \<and>
     cw_audit w' = cw_audit w \<and> cw_fields w' = cw_fields w \<and>
     (r = Inr () \<and> interactions_in w' = filter (\<lambda>i. ix_CustomerID i \<noteq> k) (interactions_in w) \<or>
      (\<exists>e. r = Inl e) \<and> interactions_in w' = interactions_in w)"
  "DeleteCustomerRow k w = (r, w') \<Longrightarrow> phones_in w' = phones_in w \<and> interactions_in w' = interactions_in w \<and>
     cw_audit w' = cw_audit w \<and> cw_fields w' = cw_fields w \<and>
     (r = Inr () \<and> customers_in w' = filter (\<lambda>c. cu_ID c \<noteq> k) (customers_in w) \<or> (\<exists>e. r = Inl e) \<and> customers_in w' = customers_in w)"
  by (auto simp: DeletePhones_def DeleteInteractions_def DeleteCustomerRow_def act_simps split: prod.splits dest: del_rows_outcome)

lemma fetch_customer:
  assumes "fetch_a cw_customers put_customers CustomerRepo e k w = (r, w')"
  shows "customers_in w' = customers_in w" "cw_phones w' = cw_phones w" "cw_interactions w' = cw_interactions w"
    "cw_audit w' = cw_audit w" "cw_fields w' = cw_fields w"
    "r = Inl e \<or> (\<exists>c. r = Inr c \<and> lrow cu_ID (cw_customers w) k = Some c)"
  using assms
  by (auto simp: fetch_a_def act_simps CustomerRepo_def ltable_repo_def sel_row_def on_link_def lrow_def
      split: list.splits if_splits option.splits sum.splits)

lemma audit_rows:
  "when_a b (ignore_a (zoom_a cw_audit (\<lambda>d w. w\<lparr>cw_audit := d\<rparr>) m)) w = (r, w') \<Longrightarrow>
   r = Inr () \<and> (\<exists>a. w' = w\<lparr>cw_audit := a\<rparr>) \<and> cw_audit w' = (if b then snd (m (cw_audit w)) else cw_audit w)"
  by (cases w) (auto simp: when_a_def act_simps split: prod.splits if_splits)

lemma erase_effect:
  assumes "EraseCustomer auditor tenant k by w = (r, w')"
  shows "(\<exists>c. r = Inr () \<and> lrow cu_ID (cw_customers w) k = Some c \<and> cu_TenantID c = tenant \<and>
        customers_in w' = filter (\<lambda>c. cu_ID c \<noteq> k) (customers_in w) \<and>
        phones_in w' = filter (\<lambda>p. cp_CustomerID p \<noteq> k) (phones_in w) \<and>
        interactions_in w' = filter (\<lambda>i. ix_CustomerID i \<noteq> k) (interactions_in w) \<and>
        cw_audit w' = (if auditor then snd (journal_add (tenant, k, by) (cw_audit w)) else cw_audit w)) \<or>
     (r = Inl ErrCustomerNotFound \<and> customers_in w' = customers_in w \<and> phones_in w' = phones_in w \<and>
        interactions_in w' = interactions_in w \<and> cw_audit w' = cw_audit w) \<or>
     (\<exists>what e. r = Inl (ErrGdpr what e) \<and> customers_in w' = customers_in w \<and> cw_audit w' = cw_audit w \<and>
        phones_in w' \<in> {phones_in w, filter (\<lambda>p. cp_CustomerID p \<noteq> k) (phones_in w)} \<and>
        interactions_in w' \<in> {interactions_in w, filter (\<lambda>i. ix_CustomerID i \<noteq> k) (interactions_in w)})"
proof -
  obtain r1 w1 where f: "fetch_a cw_customers put_customers CustomerRepo ErrCustomerNotFound k w = (r1, w1)" by fastforce
  note F = fetch_customer [OF f]
  show ?thesis
  proof (cases "\<exists>c. r1 = Inr c \<and> cu_TenantID c = tenant")
    case False
    with f F assms have "r = Inl ErrCustomerNotFound" "w' = w1"
      by (auto simp: EraseCustomer_def act_simps split: if_splits)
    with F show ?thesis by simp
  next
    case True
    then obtain c where c: "r1 = Inr c" "cu_TenantID c = tenant" by blast
    with F have row: "lrow cu_ID (cw_customers w) k = Some c" by auto
    obtain r2 w2 where i: "DeleteInteractions k w1 = (r2, w2)" by fastforce
    obtain r3 w3 where p: "DeletePhones k w2 = (r3, w3)" by fastforce
    obtain r4 w4 where d: "DeleteCustomerRow k w3 = (r4, w4)" by fastforce
    note I = delete_outcomes(2) [OF i] and P = delete_outcomes(1) [OF p] and D = delete_outcomes(3) [OF d]
    show ?thesis
    proof (cases r2)
      case (Inl e)
      with f c i assms have "r = Inl (ErrGdpr ''interactions'' e)" "w' = w2"
        by (auto simp: EraseCustomer_def act_simps)
      with F I Inl show ?thesis by auto
    next
      case (Inr u2)
      show ?thesis
      proof (cases r3)
        case (Inl e)
        with f c i p Inr assms have "r = Inl (ErrGdpr ''phones'' e)" "w' = w3"
          by (auto simp: EraseCustomer_def act_simps)
        with F I P Inl Inr show ?thesis by auto
      next
        case (Inr u3)
        show ?thesis
        proof (cases r4)
          case (Inl e)
          with f c i p d \<open>r2 = Inr u2\<close> Inr assms have "r = Inl (ErrGdpr ''customer'' e)" "w' = w4"
            by (auto simp: EraseCustomer_def act_simps)
          with F I P D Inl Inr \<open>r2 = Inr u2\<close> show ?thesis by auto
        next
          case (Inr u4)
          let ?tail = "when_a auditor (ignore_a (zoom_a cw_audit (\<lambda>d w. w\<lparr>cw_audit := d\<rparr>) (journal_add (tenant, k, by))))"
          from f c i p d \<open>r2 = Inr u2\<close> \<open>r3 = Inr u3\<close> Inr assms have "?tail w4 = (r, w')"
            by (simp add: EraseCustomer_def act_simps)
          from audit_rows [OF this]
          have "r = Inr ()" "customers_in w' = customers_in w4" "phones_in w' = phones_in w4" "interactions_in w' = interactions_in w4"
            "cw_audit w' = (if auditor then snd (journal_add (tenant, k, by) (cw_audit w4)) else cw_audit w4)" by auto
          with F I P D Inr \<open>r2 = Inr u2\<close> \<open>r3 = Inr u3\<close> row c show ?thesis by auto
        qed
      qed
    qed
  qed
qed

lemma erase_healthy:
  assumes "lrow cu_ID (cw_customers w) k = Some c" "cu_TenantID c = tenant" "loutages (cw_customers w) = []"
    "loutages (cw_phones w) = []" "loutages (cw_interactions w) = []"
  shows "fst (EraseCustomer auditor tenant k by w) = Inr ()"
  using assms
  by (simp add: EraseCustomer_def fetch_a_def CustomerRepo_def ltable_repo_def act_simps DeletePhones_def DeleteInteractions_def
      DeleteCustomerRow_def del_rows_def on_link_def when_a_def split: prod.splits)

text \<open>
  C29. An erasure that reports success has removed every row of the customer, and only a customer of the tenant that
  asked, and where an auditor is set it has recorded who asked for it, as the one new entry of the audit unless that insert fails (its
  error is dropped); nothing of anyone else is touched, whatever happens. When it fails the customer is still stored, so it can be asked
  for again: one more erasure on a healthy connection then removes the rest.
\<close>

theorem erasure_complete_or_repeatable:
  assumes "EraseCustomer auditor tenant k by w = (r, w')"
  shows "(r = Inr () \<longrightarrow> (\<forall>c \<in> set (customers_in w'). cu_ID c \<noteq> k) \<and> (\<forall>p \<in> set (phones_in w'). cp_CustomerID p \<noteq> k) \<and>
        (\<forall>i \<in> set (interactions_in w'). ix_CustomerID i \<noteq> k) \<and>
        (\<exists>c. lrow cu_ID (cw_customers w) k = Some c \<and> cu_TenantID c = tenant) \<and>
        entries (cw_audit w') = (if auditor \<and> \<not> journal_down (cw_audit w) then entries (cw_audit w) @ [(tenant, k, by)]
          else entries (cw_audit w))) \<and>
    filter (\<lambda>c. cu_ID c \<noteq> k) (customers_in w') = filter (\<lambda>c. cu_ID c \<noteq> k) (customers_in w) \<and>
    filter (\<lambda>p. cp_CustomerID p \<noteq> k) (phones_in w') = filter (\<lambda>p. cp_CustomerID p \<noteq> k) (phones_in w) \<and>
    filter (\<lambda>i. ix_CustomerID i \<noteq> k) (interactions_in w') = filter (\<lambda>i. ix_CustomerID i \<noteq> k) (interactions_in w) \<and>
    (r \<noteq> Inr () \<longrightarrow> customers_in w' = customers_in w \<and> cw_audit w' = cw_audit w) \<and>
    (\<forall>c. r \<noteq> Inr () \<and> lrow cu_ID (cw_customers w) k = Some c \<and> cu_TenantID c = tenant \<and> loutages (cw_customers w') = [] \<and>
        loutages (cw_phones w') = [] \<and> loutages (cw_interactions w') = [] \<longrightarrow>
        fst (EraseCustomer auditor' tenant k by' w') = Inr ())"
proof -
  have again: "fst (EraseCustomer auditor' tenant k by' w') = Inr ()"
    if "customers_in w' = customers_in w" "lrow cu_ID (cw_customers w) k = Some c" "cu_TenantID c = tenant" "loutages (cw_customers w') = []"
      "loutages (cw_phones w') = []" "loutages (cw_interactions w') = []" for c
  proof -
    from that have "lrow cu_ID (cw_customers w') k = Some c" by (simp add: lrow_def)
    with that show ?thesis by (intro erase_healthy)
  qed
  from erase_effect [OF assms] show ?thesis
  proof (elim disjE exE conjE)
    assume "r = Inl ErrCustomerNotFound" "customers_in w' = customers_in w" "phones_in w' = phones_in w"
      "interactions_in w' = interactions_in w" "cw_audit w' = cw_audit w"
    then show ?thesis using again by auto
  next
    fix what e
    assume "r = Inl (ErrGdpr what e)" "customers_in w' = customers_in w" "cw_audit w' = cw_audit w"
      "phones_in w' \<in> {phones_in w, filter (\<lambda>p. cp_CustomerID p \<noteq> k) (phones_in w)}"
      "interactions_in w' \<in> {interactions_in w, filter (\<lambda>i. ix_CustomerID i \<noteq> k) (interactions_in w)}"
    then show ?thesis using again by auto
  qed (simp add: journal_add_result)
qed

text \<open>A contact recorded after the erasure is stored for the customer that is gone.\<close>

lemma contact_after_erasure:
  "RecordInteraction now nid k tenant ch d sm c t a w = (Inr (), w') \<Longrightarrow> \<exists>i \<in> set (interactions_in w'). ix_CustomerID i = k"
  by (auto simp: RecordInteraction_def act_simps ins_row_def on_link_def split: list.splits if_splits prod.splits sum.splits)

section \<open>New customers\<close>

definition primaries :: "customer_phone list \<Rightarrow> nat" where
  "primaries ps = length (filter cp_IsPrimary ps)"

lemma count_primary_result:
  "count_primary n ps = Inr m \<Longrightarrow> m = n + length (filter pi_IsPrimary ps) \<and> (\<forall>p \<in> set ps. pi_PhoneType p \<in> set validPhoneTypes)"
proof (induction ps arbitrary: n)
  case (Cons p ps)
  then have v: "pi_PhoneType p \<in> set validPhoneTypes" and c: "count_primary (if pi_IsPrimary p then Suc n else n) ps = Inr m"
    by (auto split: if_splits)
  from Cons.IH [OF c] v show ?case by (auto split: if_splits)
qed simp

lemma validatePhones_result:
  "validatePhones ps = Inr u \<Longrightarrow> length (filter pi_IsPrimary ps) = 1 \<and> (\<forall>p \<in> set ps. pi_PhoneType p \<in> set validPhoneTypes)"
proof -
  assume v: "validatePhones ps = Inr u"
  then obtain m where m: "count_primary 0 ps = Inr m" by (auto simp: validatePhones_def split: sum.splits)
  with v have "m = 1" by (auto simp: validatePhones_def split: if_splits)
  with count_primary_result [OF m] show ?thesis by simp
qed

abbreviation new_phones :: "(nat \<Rightarrow> int) \<Rightarrow> int \<Rightarrow> phone_input list \<Rightarrow> customer_phone list" where
  "new_phones ids k ps \<equiv> map (\<lambda>(i, p). phone_row (ids i) k p) (List.enumerate 0 ps)"

lemma enumerate_shift: "List.enumerate (Suc n) xs = map (\<lambda>(i, x). (Suc i, x)) (List.enumerate n xs)"
  by (induction xs arbitrary: n) auto

lemma insert_phones_outcome:
  assumes "insert_phones ids k ps w = (r, w')"
  shows "customers_in w' = customers_in w \<and> interactions_in w' = interactions_in w \<and>
    (\<exists>n \<le> length ps. phones_in w' = phones_in w @ take n (new_phones ids k ps) \<and> (r = Inr () \<longrightarrow> n = length ps))"
  using assms
proof (induction ps arbitrary: ids w)
  case Nil
  then show ?case by (simp add: act_simps)
next
  case (Cons p ps)
  let ?ins = "zoom_a cw_phones put_phones (ins_row cp_ID (\<lambda>r. r) (phone_row (ids 0) k p))"
  obtain r1 w1 where i: "?ins w = (r1, w1)" by fastforce
  then have i1: "customers_in w1 = customers_in w \<and> interactions_in w1 = interactions_in w \<and>
      (r1 = Inr () \<and> phones_in w1 = phones_in w @ [phone_row (ids 0) k p] \<or> (\<exists>e. r1 = Inl e) \<and> phones_in w1 = phones_in w)"
    by (auto simp: act_simps ins_row_def on_link_def split: list.splits if_splits prod.splits)
  have shift: "new_phones ids k (p # ps) = phone_row (ids 0) k p # new_phones (\<lambda>i. ids (Suc i)) k ps"
    by (simp add: enumerate_shift comp_def case_prod_unfold)
  show ?case
  proof (cases r1)
    case (Inl e)
    with Cons.prems i have "w' = w1" "r \<noteq> Inr ()" by (auto simp: act_simps)
    with i1 Inl show ?thesis by (intro conjI exI [of _ 0]) auto
  next
    case (Inr u)
    with Cons.prems i have "insert_phones (\<lambda>i. ids (Suc i)) k ps w1 = (r, w')" by (simp add: act_simps)
    from Cons.IH [OF this] i1 Inr obtain n where "n \<le> length ps"
      "phones_in w' = phones_in w1 @ take n (new_phones (\<lambda>i. ids (Suc i)) k ps)" "r = Inr () \<longrightarrow> n = length ps"
      "customers_in w' = customers_in w1" "interactions_in w' = interactions_in w1" by auto
    with i1 Inr show ?thesis unfolding shift by (intro conjI exI [of _ "Suc n"]) auto
  qed
qed

text \<open>
  A customer that is created is stored with exactly the phones of the request, in their order, each of a known type and
  exactly one of them primary; contacts and other rows are as before. A request that is refused stores nothing, and one that fails later leaves at
  most the customer and the first of its phones.
\<close>

theorem created_customer_has_one_primary:
  assumes "CreateCustomer now ids inp w = (r, w')"
  shows "interactions_in w' = interactions_in w \<and>
    (\<exists>added n. customers_in w' = customers_in w @ added \<and> length added \<le> 1 \<and>
       phones_in w' = phones_in w @ take n (new_phones (\<lambda>i. ids (Suc i)) (ids 0) (ni_Phones inp)) \<and>
       (\<forall>c. r = Inr c \<longrightarrow> added = [c] \<and> cu_ID c = ids 0 \<and> cu_TenantID c = ni_TenantID inp \<and> cu_Level c \<in> set validLevels \<and>
          n = length (ni_Phones inp) \<and> primaries (new_phones (\<lambda>i. ids (Suc i)) (ids 0) (ni_Phones inp)) = 1) \<and>
       (added = [] \<longrightarrow> n = 0))"
proof -
  consider (bad) "ni_Level inp \<notin> set validLevels \<or> (\<exists>e. validatePhones (ni_Phones inp) = Inl e)"
    | (good) u where "ni_Level inp \<in> set validLevels" "validatePhones (ni_Phones inp) = Inr u"
    by (cases "validatePhones (ni_Phones inp)") auto
  then show ?thesis
  proof cases
    case bad
    with assms have "(\<exists>e. r = Inl e) \<and> w' = w" by (auto simp: CreateCustomer_def act_simps split: if_splits)
    then show ?thesis by (auto intro!: exI [of _ "[]"] exI [of _ 0])
  next
    case good
    let ?c = "\<lparr>cu_ID = ids 0, cu_TenantID = ni_TenantID inp, cu_Name = ni_Name inp, cu_Email = ni_Email inp,
      cu_Company = ni_Company inp, cu_Level = ni_Level inp, cu_CustomData = ni_CustomData inp, cu_CreatedAt = now, cu_UpdatedAt = now\<rparr>"
    obtain r1 w1 where i: "insert_a cw_customers put_customers CustomerRepo ErrCrmStore ?c w = (r1, w1)" by fastforce
    then have i1: "phones_in w1 = phones_in w \<and> interactions_in w1 = interactions_in w \<and>
        (r1 = Inr () \<and> customers_in w1 = customers_in w @ [?c] \<or> (\<exists>e. r1 = Inl e) \<and> customers_in w1 = customers_in w)"
      by (auto simp: insert_a_def act_simps CustomerRepo_def ltable_repo_def ins_row_def on_link_def
          split: list.splits if_splits prod.splits sum.splits)
    show ?thesis
    proof (cases r1)
      case (Inl e)
      with assms good i have "r = Inl e" "w' = w1" by (simp_all add: CreateCustomer_def act_simps Let_def)
      with i1 Inl show ?thesis by (auto intro!: exI [of _ "[]"] exI [of _ 0])
    next
      case (Inr v)
      obtain r2 w2 where p: "insert_phones (\<lambda>i. ids (Suc i)) (ids 0) (ni_Phones inp) w1 = (r2, w2)" by fastforce
      with assms good i Inr have w': "w' = w2" "r = (case r2 of Inl e \<Rightarrow> Inl e | Inr _ \<Rightarrow> Inr ?c)"
        by (auto simp: CreateCustomer_def act_simps Let_def split: sum.splits)
      from insert_phones_outcome [OF p] obtain n where n: "customers_in w2 = customers_in w1" "interactions_in w2 = interactions_in w1"
        "phones_in w2 = phones_in w1 @ take n (new_phones (\<lambda>i. ids (Suc i)) (ids 0) (ni_Phones inp))"
        "r2 = Inr () \<longrightarrow> n = length (ni_Phones inp)" by auto
      have "primaries (new_phones f k ps) = length (filter pi_IsPrimary ps)" for f :: "nat \<Rightarrow> int" and k ps
        unfolding primaries_def by (induction ps arbitrary: f) (simp_all add: enumerate_shift comp_def case_prod_unfold phone_row_def)
      with validatePhones_result [OF good(2)] have one: "primaries (new_phones (\<lambda>i. ids (Suc i)) (ids 0) (ni_Phones inp)) = 1" by simp
      from n i1 Inr w' one good(1) show ?thesis
        by (intro conjI exI [of _ "[?c]"] exI [of _ n]) (auto split: sum.splits)
    qed
  qed
qed

text \<open>An import counts every row once, and reports each row that failed.\<close>

lemma import_rows_counts:
  "import_rows now ids i recs res w = (Inr res', w') \<Longrightarrow>
   im_Success res' + im_Failed res' = im_Success res + im_Failed res + int (length recs) \<and>
   int (length (im_Errors res')) - im_Failed res' = int (length (im_Errors res)) - im_Failed res"
proof (induction recs arbitrary: i res w)
  case (Cons rec recs)
  obtain r w1 where c: "CreateCustomer (now i) (ids i) rec w = (r, w1)" by fastforce
  show ?case
  proof (cases r)
    case (Inl e)
    with Cons.prems c have "import_rows now ids (Suc i) recs (res\<lparr>im_Failed := im_Failed res + 1, im_Errors := im_Errors res @ [(Suc i, e)]\<rparr>) w1 = (Inr res', w')"
      by (simp add: act_simps)
    from Cons.IH [OF this] show ?thesis by simp
  next
    case (Inr x)
    with Cons.prems c have "import_rows now ids (Suc i) recs (res\<lparr>im_Success := im_Success res + 1\<rparr>) w1 = (Inr res', w')"
      by (simp add: act_simps)
    from Cons.IH [OF this] show ?thesis by simp
  qed
qed (simp add: act_simps)

section \<open>The journey\<close>

lemma add_contact_fixed:
  "jy_Customer (foldl add_contact j is) = jy_Customer j" "jy_Phones (foldl add_contact j is) = jy_Phones j"
  "jy_Interactions (foldl add_contact j is) = jy_Interactions j" "jy_TotalContacts (foldl add_contact j is) = jy_TotalContacts j"
  by (induction "is" arbitrary: j) (simp_all add: add_contact_def)

lemma add_contact_stats:
  "jy_ChannelStats (foldl add_contact j is) ch = jy_ChannelStats j ch + int (length (filter (\<lambda>i. ix_Channel i = ch) is))"
  by (induction "is" arbitrary: j) (simp_all add: add_contact_def)

lemma first_contact:
  "jy_FirstContact j = Some a \<Longrightarrow> \<exists>f. jy_FirstContact (foldl add_contact j is) = Some f \<and> f \<le> a \<and>
     (\<forall>i \<in> set is. f \<le> ix_CreatedAt i) \<and> f \<in> insert a (ix_CreatedAt ` set is)"
proof (induction "is" arbitrary: j a)
  case (Cons i "is")
  have "jy_FirstContact (add_contact j i) = Some (min a (ix_CreatedAt i))" using Cons.prems by (simp add: add_contact_def)
  from Cons.IH [OF this] obtain f where "jy_FirstContact (foldl add_contact (add_contact j i) is) = Some f" "f \<le> min a (ix_CreatedAt i)"
    "\<forall>i \<in> set is. f \<le> ix_CreatedAt i" "f \<in> insert (min a (ix_CreatedAt i)) (ix_CreatedAt ` set is)" by blast
  then show ?case by (intro exI [of _ f]) (auto simp: min_def split: if_splits)
qed simp

lemma last_contact:
  "jy_LastContact j = Some a \<Longrightarrow> \<exists>l. jy_LastContact (foldl add_contact j is) = Some l \<and> a \<le> l \<and>
     (\<forall>i \<in> set is. ix_CreatedAt i \<le> l) \<and> l \<in> insert a (ix_CreatedAt ` set is)"
proof (induction "is" arbitrary: j a)
  case (Cons i "is")
  have "jy_LastContact (add_contact j i) = Some (max a (ix_CreatedAt i))" using Cons.prems by (simp add: add_contact_def)
  from Cons.IH [OF this] obtain l where "jy_LastContact (foldl add_contact (add_contact j i) is) = Some l" "max a (ix_CreatedAt i) \<le> l"
    "\<forall>i \<in> set is. ix_CreatedAt i \<le> l" "l \<in> insert (max a (ix_CreatedAt i)) (ix_CreatedAt ` set is)" by blast
  then show ?case by (intro exI [of _ l]) (auto simp: max_def split: if_splits)
qed simp

text \<open>\<open>ORDER BY created_at DESC\<close>: the same rows, none before a later one.\<close>

definition latest_first_ok :: "(interaction list \<Rightarrow> interaction list) \<Rightarrow> bool" where
  "latest_first_ok f \<longleftrightarrow> (\<forall>xs. mset (f xs) = mset xs \<and> sorted_wrt (\<lambda>a b. ix_CreatedAt b \<le> ix_CreatedAt a) (f xs))"

text \<open>
  The journey of a customer, with no query failing: it lists the latest 500 contacts of the customer, counts each of
  them once under its channel, and reports as last the time of the latest contact there is and as first the time of the earliest of those listed.
\<close>

theorem journey_sums_up:
  assumes "latest_first_ok f" "GetJourney f k w = (Inr j, w')" "loutages (cw_interactions w) = []"
  defines "all \<equiv> filter (\<lambda>i. ix_CustomerID i = k) (interactions_in w)"
  shows "jy_Interactions j = take 500 (f all) \<and> jy_TotalContacts j = int (min 500 (length all)) \<and>
    (\<forall>ch. jy_ChannelStats j ch = int (length (filter (\<lambda>i. ix_Channel i = ch) (jy_Interactions j)))) \<and>
    (all = [] \<longrightarrow> jy_FirstContact j = None \<and> jy_LastContact j = None) \<and>
    (all \<noteq> [] \<longrightarrow> (\<exists>l e. jy_LastContact j = Some l \<and> l \<in> ix_CreatedAt ` set all \<and> (\<forall>i \<in> set all. ix_CreatedAt i \<le> l) \<and>
       jy_FirstContact j = Some e \<and> e \<in> ix_CreatedAt ` set (jy_Interactions j) \<and> (\<forall>i \<in> set (jy_Interactions j). e \<le> ix_CreatedAt i)))"
proof -
  obtain r1 w1 where fe: "fetch_a cw_customers put_customers CustomerRepo ErrCustomerNotFound k w = (r1, w1)" by fastforce
  with assms(2) obtain c where c: "r1 = Inr c" by (cases r1) (auto simp: GetJourney_def act_simps)
  let ?phones = "list_or_empty (zoom_a cw_phones put_phones (sel_all (\<lambda>p. cp_CustomerID p = k))) :: customer_phone list cact"
  obtain r2 w2 where p: "?phones w1 = (r2, w2)" by fastforce
  then obtain ps where ps: "r2 = Inr ps" and i2: "cw_interactions w2 = cw_interactions w1"
    by (auto simp: list_or_empty_def act_simps split: prod.splits)
  have i2: "cw_interactions w2 = cw_interactions w" using i2 fetch_customer(3) [OF fe] by simp
  have "list_or_empty (ListByCustomer f k 0 500) w2 = ((Inr (take 500 (f all)), w2) :: (crm_error + interaction list) \<times> crm_world)"
    using assms(3) by (simp add: list_or_empty_def ListByCustomer_def act_simps i2 all_def)
  with assms(2) fe c p ps have j: "j = foldl add_contact \<lparr>jy_Customer = c, jy_Phones = ps, jy_Interactions = take 500 (f all),
      jy_ChannelStats = (\<lambda>_. 0), jy_FirstContact = None, jy_LastContact = None, jy_TotalContacts = int (length (take 500 (f all)))\<rparr> (take 500 (f all))"
    by (simp add: GetJourney_def act_simps)
  have len: "length (f all) = length all" and set: "set (f all) = set all" and srt: "sorted_wrt (\<lambda>a b. ix_CreatedAt b \<le> ix_CreatedAt a) (f all)"
    using assms(1) mset_eq_length [of "f all" all] mset_eq_setD [of "f all" all] unfolding latest_first_ok_def by blast+
  have times: "\<exists>l e. jy_LastContact j = Some l \<and> l \<in> ix_CreatedAt ` set all \<and> (\<forall>i \<in> set all. ix_CreatedAt i \<le> l) \<and>
       jy_FirstContact j = Some e \<and> e \<in> ix_CreatedAt ` set (take 500 (f all)) \<and> (\<forall>i \<in> set (take 500 (f all)). e \<le> ix_CreatedAt i)"
    if "all \<noteq> []"
  proof -
    from that len obtain i rest where f: "f all = i # rest" by (cases "f all") auto
    have t: "take 500 (f all) = i # take 499 rest" by (simp add: f)
    let ?j0 = "add_contact \<lparr>jy_Customer = c, jy_Phones = ps, jy_Interactions = take 500 (f all), jy_ChannelStats = (\<lambda>_. 0),
      jy_FirstContact = None, jy_LastContact = None, jy_TotalContacts = int (length (take 500 (f all)))\<rparr> i"
    have j0: "jy_FirstContact ?j0 = Some (ix_CreatedAt i)" "jy_LastContact ?j0 = Some (ix_CreatedAt i)" by (simp_all add: add_contact_def)
    have jj: "j = foldl add_contact ?j0 (take 499 rest)" unfolding j by (simp add: t)
    from first_contact [OF j0(1), of "take 499 rest"] last_contact [OF j0(2), of "take 499 rest"] obtain e l where
      el: "jy_FirstContact j = Some e" "e \<le> ix_CreatedAt i" "\<forall>i \<in> set (take 499 rest). e \<le> ix_CreatedAt i"
      "e \<in> insert (ix_CreatedAt i) (ix_CreatedAt ` set (take 499 rest))"
      "jy_LastContact j = Some l" "ix_CreatedAt i \<le> l" "l \<in> insert (ix_CreatedAt i) (ix_CreatedAt ` set (take 499 rest))"
      unfolding jj by blast
    have "\<forall>x \<in> set all. ix_CreatedAt x \<le> l"
      using srt el(6) unfolding set [symmetric] by (auto simp: f intro: order.trans)
    moreover have "l \<in> ix_CreatedAt ` set all" using el(7) in_set_takeD [of _ 499 rest] unfolding set [symmetric] by (auto simp: f)
    ultimately show ?thesis using el unfolding t by auto
  qed
  have empty: "jy_FirstContact j = None \<and> jy_LastContact j = None" if "all = []"
    using that len by (simp add: j)
  show ?thesis
    using times empty len by (simp add: j add_contact_fixed add_contact_stats)
qed

section \<open>Concrete customers\<close>

definition customer1 :: customer where
  "customer1 = \<lparr>cu_ID = 1, cu_TenantID = 7, cu_Name = ''Li'', cu_Email = [], cu_Company = [], cu_Level = ''vip'', cu_CustomData = [],
     cu_CreatedAt = 0, cu_UpdatedAt = 0\<rparr>"

definition contact1 :: "int \<Rightarrow> int \<Rightarrow> string \<Rightarrow> gotime \<Rightarrow> interaction" where
  "contact1 nid k ch t = \<lparr>ix_ID = nid, ix_CustomerID = k, ix_TenantID = 7, ix_Channel = ch, ix_Direction = ''inbound'', ix_Summary = [],
     ix_CallID = None, ix_TicketID = None, ix_AgentName = [], ix_CreatedAt = t\<rparr>"

definition crm_world1 :: crm_world where
  "crm_world1 = \<lparr>cw_customers = \<lparr>lrows = [customer1, customer1\<lparr>cu_ID := 2\<rparr>], loutages = []\<rparr>,
     cw_phones = \<lparr>lrows = [\<lparr>cp_ID = 3, cp_CustomerID = 1, cp_PhoneType = ''mobile'', cp_Number = ''139'', cp_IsPrimary = True\<rparr>], loutages = [True]\<rparr>,
     cw_interactions = \<lparr>lrows = [contact1 4 1 ''call'' 10, contact1 5 2 ''im'' 11, contact1 6 1 ''im'' 12], loutages = []\<rparr>,
     cw_fields = \<lparr>lrows = [], loutages = []\<rparr>, cw_audit = \<lparr>entries = [], journal_outages = []\<rparr>\<rparr>"

text \<open>The phones cannot be deleted; the second request completes the erasure.\<close>

theorem erasure_complete_or_repeatable_witness:
  "\<exists>r w'. EraseCustomer True 7 1 9 crm_world1 = (r, w') \<and> r = Inl (ErrGdpr ''phones'' ''sql: connection lost'') \<and>
     customers_in w' = customers_in crm_world1 \<and> cw_audit w' = cw_audit crm_world1 \<and> fst (EraseCustomer True 7 1 9 w') = Inr ()"
proof -
  obtain r w' where run: "EraseCustomer True 7 1 9 crm_world1 = (r, w')" by fastforce
  from run have r: "r = Inl (ErrGdpr ''phones'' ''sql: connection lost'')" "loutages (cw_customers w') = []"
    "loutages (cw_phones w') = []" "loutages (cw_interactions w') = []"
    by (auto simp: EraseCustomer_def fetch_a_def CustomerRepo_def ltable_repo_def act_simps DeletePhones_def DeleteInteractions_def
        del_rows_def on_link_def crm_world1_def lrow_def customer1_def)
  have row: "lrow cu_ID (cw_customers crm_world1) 1 = Some customer1" "cu_TenantID customer1 = 7"
    by (simp_all add: crm_world1_def lrow_def customer1_def)
  from erasure_complete_or_repeatable [OF run, of True 9] r row run show ?thesis by auto
qed

theorem journey_sums_up_witness:
  "\<exists>j w'. GetJourney (sort_key (\<lambda>i. - ix_CreatedAt i)) 1 crm_world1 = (Inr j, w') \<and> jy_TotalContacts j = 2 \<and>
     jy_ChannelStats j ''im'' = 1 \<and> jy_FirstContact j = Some 10 \<and> jy_LastContact j = Some 12"
proof -
  let ?f = "sort_key (\<lambda>i. - ix_CreatedAt i)"
  have ok: "latest_first_ok ?f"
    unfolding latest_first_ok_def
  proof (intro allI conjI)
    fix xs :: "interaction list"
    show "mset (?f xs) = mset xs" by simp
    have "sorted (map (\<lambda>i. - ix_CreatedAt i) (?f xs))" by simp
    then show "sorted_wrt (\<lambda>a b. ix_CreatedAt b \<le> ix_CreatedAt a) (?f xs)" by (simp add: sorted_map)
  qed
  obtain j w' where run: "GetJourney ?f 1 crm_world1 = (Inr j, w')"
    by (auto simp: GetJourney_def fetch_a_def list_or_empty_def ListByCustomer_def CustomerRepo_def ltable_repo_def act_simps
        sel_all_def on_link_def crm_world1_def lrow_def customer1_def)
  have all: "filter (\<lambda>i. ix_CustomerID i = 1) (interactions_in crm_world1) = [contact1 4 1 ''call'' 10, contact1 6 1 ''im'' 12]"
    by (simp add: crm_world1_def contact1_def)
  have sorted: "?f [contact1 4 1 ''call'' 10, contact1 6 1 ''im'' 12] = [contact1 6 1 ''im'' 12, contact1 4 1 ''call'' 10]"
    by (simp add: contact1_def)
  from journey_sums_up [OF ok run] show ?thesis
    using run unfolding all sorted by (auto simp: crm_world1_def contact1_def)
qed

theorem created_customer_has_one_primary_witness:
  "\<exists>c w'. CreateCustomer 5 (\<lambda>i. 20 + int i) \<lparr>ni_TenantID = 7, ni_Name = ''Wu'', ni_Email = [], ni_Company = [], ni_Level = ''normal'',
       ni_CustomData = [], ni_Phones = [\<lparr>pi_PhoneType = ''mobile'', pi_Number = ''138'', pi_IsPrimary = True\<rparr>]\<rparr>
       (crm_world1\<lparr>cw_phones := \<lparr>lrows = [], loutages = []\<rparr>\<rparr>) = (Inr c, w') \<and> length (phones_in w') = 1 \<and> primaries (phones_in w') = 1"
proof -
  let ?inp = "\<lparr>ni_TenantID = 7, ni_Name = ''Wu'', ni_Email = [], ni_Company = [], ni_Level = ''normal'',
       ni_CustomData = [], ni_Phones = [\<lparr>pi_PhoneType = ''mobile'', pi_Number = ''138'', pi_IsPrimary = True\<rparr>]\<rparr>"
  let ?w = "crm_world1\<lparr>cw_phones := \<lparr>lrows = [], loutages = []\<rparr>\<rparr>"
  obtain c w' where run: "CreateCustomer 5 (\<lambda>i. 20 + int i) ?inp ?w = (Inr c, w')"
    by (auto simp: CreateCustomer_def validLevels_def validatePhones_def validPhoneTypes_def insert_a_def CustomerRepo_def ltable_repo_def
        act_simps crm_world1_def lrow_def customer1_def ins_row_def on_link_def Let_def)
  from created_customer_has_one_primary [OF run] run show ?thesis by auto
qed

end
