(* ===== verification/Hub.thy ===== *)
theory Hub
  imports Telephony Decimal
begin

text \<open>
  The WebSocket hubs: \<open>internal/application/imhub/service.go\<close>, \<open>agenthub/hub.go\<close>, \<open>transcripthub/hub.go\<close>
  and \<open>dashboard/service.go\<close>. The four share their registry, their broadcast and their writer goroutine;
  what they differ in is who a client is and what is sent to it.
\<close>

section \<open>The registry\<close>

text \<open>
  A client: the key it is registered under (session, agent, call or tenant), the channel \<open>Send\<close> with its
  buffer, whether the channel is open, whether the writer goroutine is in its loop, and what it has written to the socket.
\<close>

record 'm hub_client =
  hc_topic :: int
  hc_buffer :: "'m list"
  hc_open :: bool
  hc_up :: bool
  hc_written :: "'m list"

text \<open>
  \<open>hb_clients\<close>: every client there has been, by its number; \<open>hb_members\<close>: the map of the hub. \<open>hb_sending\<close>: what the
  broadcasts in progress have still to offer, as goroutine, client and message. A broadcast holds the read lock until it has offered
  its message to all: others can be in progress at the same time, but \<open>Register\<close> and \<open>Unregister\<close>, which take the write lock, wait.
\<close>

record 'm hub =
  hb_clients :: "nat \<rightharpoonup> 'm hub_client"
  hb_members :: "int \<rightharpoonup> nat list"
  hb_next :: nat
  hb_sending :: "(nat \<times> nat \<times> 'm) list"

definition NewHub :: "'m hub" where
  "NewHub = \<lparr>hb_clients = Map.empty, hb_members = Map.empty, hb_next = 0, hb_sending = []\<rparr>"

definition members_of :: "'m hub \<Rightarrow> int \<Rightarrow> nat list" where
  "members_of h t = (case hb_members h t of None \<Rightarrow> [] | Some cs \<Rightarrow> cs)"

definition Register :: "int \<Rightarrow> 'm hub \<Rightarrow> 'm hub" where
  "Register t h = h\<lparr>hb_clients := (hb_clients h)(hb_next h \<mapsto> \<lparr>hc_topic = t, hc_buffer = [], hc_open = True, hc_up = True, hc_written = []\<rparr>),
     hb_members := (hb_members h)(t \<mapsto> members_of h t @ [hb_next h]), hb_next := hb_next h + 1\<rparr>"

text \<open>Closing a channel twice panics, which is \<open>None\<close>.\<close>

definition Unregister :: "nat \<Rightarrow> 'm hub \<Rightarrow> 'm hub option" where
  "Unregister c h = (case hb_clients h c of
       None \<Rightarrow> None
     | Some cl \<Rightarrow>
         let ms = (case hb_members h (hc_topic cl) of
               None \<Rightarrow> hb_members h
             | Some cs \<Rightarrow> (hb_members h)(hc_topic cl := (let cs' = removeAll c cs in if cs' = [] then None else Some cs')))
         in if hc_open cl then Some (h\<lparr>hb_members := ms, hb_clients := (hb_clients h)(c \<mapsto> cl\<lparr>hc_open := False\<rparr>)\<rparr>) else None)"

section \<open>Broadcast\<close>

text \<open>The buffer of a client; the hub of the dashboard has 64 instead.\<close>

definition hub_buffer :: nat where
  "hub_buffer = 256"

text \<open>\<open>select { case c.Send <- data: default: }\<close>; sending on a closed channel panics.\<close>

definition offer :: "nat \<Rightarrow> 'm \<Rightarrow> 'm hub_client \<Rightarrow> 'm hub_client option" where
  "offer cap m cl = (if \<not> hc_open cl then None
     else if length (hc_buffer cl) < cap then Some (cl\<lparr>hc_buffer := hc_buffer cl @ [m]\<rparr>) else Some cl)"

text \<open>
  The goroutine \<open>g\<close> takes the read lock to offer each client of a key the message for that key. A goroutine makes one
  broadcast after the other.
\<close>

definition start_offers :: "nat \<Rightarrow> (int \<times> 'm) list \<Rightarrow> 'm hub \<Rightarrow> 'm hub" where
  "start_offers g posts h = h\<lparr>hb_sending := hb_sending h @ concat (map (\<lambda>(t, m). map (\<lambda>c. (g, c, m)) (members_of h t)) posts)\<rparr>"

definition Broadcast :: "nat \<Rightarrow> int \<Rightarrow> 'm \<Rightarrow> 'm hub \<Rightarrow> 'm hub" where
  "Broadcast g t m h = start_offers g [(t, m)] h"

text \<open>The tick of the dashboard: one message for each tenant whose overview could be read.\<close>

definition broadcastAll :: "nat \<Rightarrow> (int \<Rightarrow> 'm option) \<Rightarrow> int list \<Rightarrow> 'm hub \<Rightarrow> 'm hub" where
  "broadcastAll g overview tenants h = start_offers g (List.map_filter (\<lambda>t. map_option (Pair t) (overview t)) tenants) h"

text \<open>The round of the loop for one client; the order in which Go ranges over the clients is random.\<close>

definition offer_to :: "nat \<Rightarrow> nat \<Rightarrow> nat \<Rightarrow> 'm hub \<Rightarrow> 'm hub option" where
  "offer_to cap g c h = (case find (\<lambda>e. fst e = g \<and> fst (snd e) = c) (hb_sending h) of
       None \<Rightarrow> Some h
     | Some (_, _, m) \<Rightarrow> (case Option.bind (hb_clients h c) (offer cap m) of
           None \<Rightarrow> None
         | Some cl \<Rightarrow> Some (h\<lparr>hb_clients := (hb_clients h)(c \<mapsto> cl), hb_sending := remove1 (g, c, m) (hb_sending h)\<rparr>)))"

section \<open>The goroutines of a connection\<close>

text \<open>
  The writer takes a message from the buffer and writes it to the socket; when the write or a ping fails it leaves its loop,
  closes the connection and unregisters the client (\<open>HubLeave\<close>), which waits for the broadcasts in progress. A step that cannot be
  taken (a lock that is held, a goroutine that is not there) changes nothing.
\<close>

datatype 'm hub_op =
    HubConnect int
  | HubSend nat int 'm
  | HubTick nat "int \<Rightarrow> 'm option" "int list"
  | HubOffer nat nat
  | HubWrite nat bool
  | HubPingFails nat
  | HubLeave nat

definition sending :: "nat \<Rightarrow> 'm hub \<Rightarrow> bool" where
  "sending g h \<longleftrightarrow> g \<in> set (map fst (hb_sending h))"

definition writer_fails :: "nat \<Rightarrow> 'm hub_client \<Rightarrow> 'm hub \<Rightarrow> 'm hub" where
  "writer_fails c cl h = h\<lparr>hb_clients := (hb_clients h)(c \<mapsto> cl\<lparr>hc_up := False\<rparr>)\<rparr>"

fun hub_step :: "nat \<Rightarrow> 'm hub_op \<Rightarrow> 'm hub \<Rightarrow> 'm hub option" where
  "hub_step cap (HubConnect t) h = Some (if hb_sending h = [] then Register t h else h)"
| "hub_step cap (HubSend g t m) h = Some (if sending g h then h else Broadcast g t m h)"
| "hub_step cap (HubTick g overview tenants) h = Some (if sending g h then h else broadcastAll g overview tenants h)"
| "hub_step cap (HubOffer g c) h = offer_to cap g c h"
| "hub_step cap (HubWrite c ok) h = Some (case hb_clients h c of
       None \<Rightarrow> h
     | Some cl \<Rightarrow> if \<not> hc_up cl then h
         else (case hc_buffer cl of
             [] \<Rightarrow> h
           | m # ms \<Rightarrow> if ok then h\<lparr>hb_clients := (hb_clients h)(c \<mapsto> cl\<lparr>hc_buffer := ms, hc_written := hc_written cl @ [m]\<rparr>)\<rparr>
               else writer_fails c (cl\<lparr>hc_buffer := ms\<rparr>) h))"
| "hub_step cap (HubPingFails c) h = Some (case hb_clients h c of None \<Rightarrow> h | Some cl \<Rightarrow> writer_fails c cl h)"
| "hub_step cap (HubLeave c) h = (case hb_clients h c of
       None \<Rightarrow> Some h
     | Some cl \<Rightarrow> if hc_up cl \<or> \<not> hc_open cl \<or> hb_sending h \<noteq> [] then Some h else Unregister c h)"

fun hub_run :: "nat \<Rightarrow> 'm hub_op list \<Rightarrow> 'm hub \<Rightarrow> 'm hub option" where
  "hub_run cap [] h = Some h"
| "hub_run cap (x # xs) h = Option.bind (hub_step cap x h) (hub_run cap xs)"

section \<open>Who a client is\<close>

text \<open>
  The agent hub. \<open>parse\<close>: a token under the secret, as its claims \<open>agent_id\<close> and \<open>tenant_id\<close> when it is valid; the result is
  the agent and the tenant, or nothing for 401.
\<close>

definition bearer_token :: "string \<Rightarrow> string \<Rightarrow> string" where
  "bearer_token auth proto = (if strings_HasPrefix auth ''Bearer '' then drop 7 auth else proto)"

definition AgentIdentity ::
  "string \<Rightarrow> (string \<Rightarrow> (int option \<times> int option) option) \<Rightarrow> string \<Rightarrow> string \<Rightarrow> string \<Rightarrow> string \<Rightarrow> (int \<times> int) option" where
  "AgentIdentity secret parse auth proto q_agent q_tenant =
     (let token = bearer_token auth proto;
          from_token = (if secret \<noteq> [] \<and> token \<noteq> []
            then map_option (\<lambda>(a, t). (case a of None \<Rightarrow> 0 | Some x \<Rightarrow> x, case t of None \<Rightarrow> 0 | Some x \<Rightarrow> x)) (parse token)
            else Some (0, 0))
      in map_option (\<lambda>(a, t). if a = 0 then (parse_value q_agent, parse_value q_tenant) else (a, t)) from_token)"

text \<open>The IM hub: the session a message of a client goes to.\<close>

definition im_target :: "int \<Rightarrow> int \<Rightarrow> int" where
  "im_target own session = (if session = 0 then own else session)"

text \<open>The dashboard hub: the tenant a client sees.\<close>

definition dashboard_tenant :: "string \<Rightarrow> int" where
  "dashboard_tenant q = (let t = parse_value q in if t = 0 then 1 else t)"

section \<open>The transcript\<close>

text \<open>The first sensitive word in a text; the alert gets the text as it was said, the clients get it redacted.\<close>

definition sensitive_word :: "string list \<Rightarrow> string \<Rightarrow> string option" where
  "sensitive_word ws text = (if text = [] then None
     else find (\<lambda>w. strings_Contains (strings_ToLower text) (strings_ToLower w)) ws)"

definition BroadcastTranscript ::
  "nat \<Rightarrow> string list \<Rightarrow> (string \<Rightarrow> string) \<Rightarrow> (string \<Rightarrow> 'm option) \<Rightarrow> int \<Rightarrow> string \<Rightarrow> 'm hub \<Rightarrow> (int \<times> string \<times> string) list \<times> 'm hub" where
  "BroadcastTranscript g ws redact marshal callID text h =
     ((case sensitive_word ws text of None \<Rightarrow> [] | Some w \<Rightarrow> [(callID, w, text)]),
      (case marshal (redact text) of None \<Rightarrow> h | Some m \<Rightarrow> Broadcast g callID m h))"

section \<open>Origins\<close>

text \<open>\<open>CheckOrigin\<close> of \<open>pkg/wsutil\<close>; \<open>allowed\<close>: the environment's list.\<close>

definition CheckOrigin :: "string \<Rightarrow> string \<Rightarrow> string \<Rightarrow> bool" where
  "CheckOrigin allowed origin host =
     (if allowed = ''*'' then True
      else if origin = [] then True
      else if allowed \<noteq> [] then origin \<in> set (map TrimSpace (split_on CHR '','' allowed))
      else let suf = ''://'' @ host in length suf \<le> length origin \<and> drop (length origin - length suf) origin = suf)"

end
