(* ===== verification/HubProps.thy ===== *)
theory HubProps
  imports Hub "HOL-Library.Sublist"
begin

text \<open>
  What holds of every run of a hub, however its broadcasts and connections interleave, and who can listen to it.
\<close>

section \<open>What is still to be offered\<close>

definition pending :: "'m hub \<Rightarrow> nat \<Rightarrow> nat \<Rightarrow> 'm list" where
  "pending h g c = map (\<lambda>e. snd (snd e)) (filter (\<lambda>e. fst e = g \<and> fst (snd e) = c) (hb_sending h))"

lemma find_remove1:
  "find P xs = Some x \<Longrightarrow> P x \<and> x \<in> set xs \<and> filter P xs = x # filter P (remove1 x xs)"
  by (induction xs) (auto split: if_splits)

lemma pending_offered:
  assumes "find (\<lambda>e. fst e = g \<and> fst (snd e) = c) (hb_sending h) = Some (g1, c1, m)"
  shows "g1 = g" "c1 = c" "(g, c, m) \<in> set (hb_sending h)"
    "pending (h\<lparr>hb_clients := f, hb_sending := remove1 (g, c, m) (hb_sending h)\<rparr>) g' c' =
      (if g' = g \<and> c' = c then tl (pending h g c) else pending h g' c')"
    "pending h g c = m # tl (pending h g c)"
proof -
  note f = find_remove1 [OF assms]
  then show eqs: "g1 = g" "c1 = c" by auto
  from f eqs show "(g, c, m) \<in> set (hb_sending h)" by simp
  from f eqs have p: "pending h g c = m # pending (h\<lparr>hb_clients := f, hb_sending := remove1 (g, c, m) (hb_sending h)\<rparr>) g c"
    by (simp add: pending_def)
  then show "pending h g c = m # tl (pending h g c)" by simp
  show "pending (h\<lparr>hb_clients := f, hb_sending := remove1 (g, c, m) (hb_sending h)\<rparr>) g' c' =
      (if g' = g \<and> c' = c then tl (pending h g c) else pending h g' c')"
  proof (cases "g' = g \<and> c' = c")
    case True
    with p show ?thesis by simp
  next
    case False
    then have "filter (\<lambda>e. fst e = g' \<and> fst (snd e) = c') (remove1 (g, c, m) (hb_sending h)) =
        filter (\<lambda>e. fst e = g' \<and> fst (snd e) = c') (hb_sending h)"
      unfolding filter_remove1 by (intro remove1_filter_not) auto
    with False show ?thesis by (auto simp: pending_def)
  qed
qed

lemma pending_none: "find (\<lambda>e. fst e = g \<and> fst (snd e) = c) (hb_sending h) = None \<Longrightarrow> pending h g c = []"
  by (auto simp: pending_def find_None_iff filter_empty_conv)

lemma pending_idle: "\<not> sending g h \<Longrightarrow> pending h g c = []"
  by (force simp: pending_def sending_def filter_empty_conv)

lemma pending_upd: "hb_sending h' = hb_sending h \<Longrightarrow> pending h' g c = pending h g c"
  by (simp add: pending_def)

lemma filter_members:
  "distinct cs \<Longrightarrow> filter (\<lambda>e. fst e = g1 \<and> fst (snd e) = c1) (map (\<lambda>c. (g, c, m)) cs) = (if g1 = g \<and> c1 \<in> set cs then [(g, c1, m)] else [])"
  by (induction cs) auto

lemma pending_started:
  assumes "\<And>t. distinct (members_of h t)"
  shows "pending (start_offers g ps h) g' c =
    pending h g' c @ (if g' = g then map snd (filter (\<lambda>p. c \<in> set (members_of h (fst p))) ps) else [])"
proof -
  have "map (\<lambda>e. snd (snd e)) (filter (\<lambda>e. fst e = g' \<and> fst (snd e) = c) (concat (map (\<lambda>(t, m). map (\<lambda>c. (g, c, m)) (members_of h t)) ps))) =
      (if g' = g then map snd (filter (\<lambda>p. c \<in> set (members_of h (fst p))) ps) else [])"
    by (induction ps) (simp_all add: filter_members [OF assms] split_def)
  then show ?thesis by (simp add: pending_def start_offers_def)
qed

section \<open>What holds of every run\<close>

definition hub_ok :: "nat \<Rightarrow> 'm hub \<Rightarrow> bool" where
  "hub_ok cap h \<longleftrightarrow> (\<forall>c cl. hb_clients h c = Some cl \<longrightarrow> c < hb_next h \<and> length (hc_buffer cl) \<le> cap \<and> (hc_up cl \<longrightarrow> hc_open cl)) \<and>
     (\<forall>t c. c \<in> set (members_of h t) \<longleftrightarrow> (\<exists>cl. hb_clients h c = Some cl \<and> hc_open cl \<and> hc_topic cl = t)) \<and>
     (\<forall>t. distinct (members_of h t)) \<and>
     (\<forall>g c m. (g, c, m) \<in> set (hb_sending h) \<longrightarrow> (\<exists>cl. hb_clients h c = Some cl \<and> hc_open cl))"

lemma hub_okD:
  assumes "hub_ok cap h"
  shows "hb_clients h c = Some cl \<Longrightarrow> c < hb_next h" "hb_clients h c = Some cl \<Longrightarrow> length (hc_buffer cl) \<le> cap"
    "hb_clients h c = Some cl \<Longrightarrow> hc_up cl \<Longrightarrow> hc_open cl"
    "c \<in> set (members_of h t) \<longleftrightarrow> (\<exists>cl. hb_clients h c = Some cl \<and> hc_open cl \<and> hc_topic cl = t)" "distinct (members_of h t)"
    "(g, c, m) \<in> set (hb_sending h) \<Longrightarrow> \<exists>cl. hb_clients h c = Some cl \<and> hc_open cl"
  using assms unfolding hub_ok_def by blast+

lemma members_upd: "hb_members h' = hb_members h \<Longrightarrow> members_of h' t = members_of h t"
  by (simp add: members_of_def)

text \<open>A step that changes one client and takes no message to be offered away from another.\<close>

lemma hub_ok_client:
  assumes "hub_ok cap h" "hb_clients h c = Some cl" "hb_clients h' = (hb_clients h)(c \<mapsto> cl')" "hb_members h' = hb_members h" "hb_next h' = hb_next h"
    "set (hb_sending h') \<subseteq> set (hb_sending h)" "hc_topic cl' = hc_topic cl" "hc_open cl' = hc_open cl" "length (hc_buffer cl') \<le> cap" "hc_up cl' \<longrightarrow> hc_up cl"
  shows "hub_ok cap h'"
  unfolding hub_ok_def members_upd [OF assms(4)]
proof (intro conjI allI impI)
  fix d dl assume "hb_clients h' d = Some dl"
  with hub_okD(1,2) [OF assms(1)] assms(2,3,5,9) show "d < hb_next h'" "length (hc_buffer dl) \<le> cap"
    by (auto split: if_splits)
next
  fix d dl assume "hb_clients h' d = Some dl" "hc_up dl"
  with hub_okD(3) [OF assms(1)] assms(2,3,8,10) show "hc_open dl" by (auto split: if_splits)
next
  fix t d show "d \<in> set (members_of h t) \<longleftrightarrow> (\<exists>dl. hb_clients h' d = Some dl \<and> hc_open dl \<and> hc_topic dl = t)"
    unfolding hub_okD(4) [OF assms(1)] using assms(2,3,7,8) by auto
next
  fix g d m assume "(g, d, m) \<in> set (hb_sending h')"
  then have "\<exists>dl. hb_clients h d = Some dl \<and> hc_open dl" using hub_okD(6) [OF assms(1)] assms(6) by blast
  with assms(2,3,8) show "\<exists>dl. hb_clients h' d = Some dl \<and> hc_open dl" by auto
qed (rule hub_okD(5) [OF assms(1)])

lemma offer_fields:
  "offer cap m cl = Some cl' \<Longrightarrow> hc_topic cl' = hc_topic cl \<and> hc_open cl' = hc_open cl \<and> hc_up cl' = hc_up cl \<and> hc_written cl' = hc_written cl \<and>
     (length (hc_buffer cl) \<le> cap \<longrightarrow> length (hc_buffer cl') \<le> cap) \<and>
     hc_buffer cl' = hc_buffer cl @ (if length (hc_buffer cl) < cap then [m] else [])"
  by (auto simp: offer_def split: if_splits)

lemma Register_ok:
  assumes ok: "hub_ok cap h" and "hb_sending h = []"
  shows "hub_ok cap (Register t h)"
proof -
  have fresh: "hb_clients h (hb_next h) = None" using hub_okD(1) [OF ok] by (cases "hb_clients h (hb_next h)") auto
  then have new: "hb_next h \<notin> set (members_of h t')" for t' using hub_okD(4) [OF ok] by auto
  have mem: "members_of (Register t h) t' = (if t' = t then members_of h t @ [hb_next h] else members_of h t')" for t'
    by (auto simp: members_of_def Register_def)
  show ?thesis
    unfolding hub_ok_def mem
  proof (intro conjI allI impI)
    fix c cl assume "hb_clients (Register t h) c = Some cl"
    with hub_okD(1,2) [OF ok, of c cl] show "c < hb_next (Register t h)" "length (hc_buffer cl) \<le> cap"
      by (auto simp: Register_def split: if_splits)
  next
    fix c cl assume "hb_clients (Register t h) c = Some cl" "hc_up cl"
    with hub_okD(3) [OF ok, of c cl] show "hc_open cl" by (auto simp: Register_def split: if_splits)
  next
    fix t' c
    show "c \<in> set (if t' = t then members_of h t @ [hb_next h] else members_of h t') \<longleftrightarrow>
      (\<exists>cl. hb_clients (Register t h) c = Some cl \<and> hc_open cl \<and> hc_topic cl = t')"
      using hub_okD(4) [OF ok, of c t'] new fresh by (auto simp: Register_def)
  next
    fix t' show "distinct (if t' = t then members_of h t @ [hb_next h] else members_of h t')"
      using hub_okD(5) [OF ok] new by simp
  next
    fix g c m assume "(g, c, m) \<in> set (hb_sending (Register t h))"
    with assms(2) show "\<exists>cl. hb_clients (Register t h) c = Some cl \<and> hc_open cl" by (simp add: Register_def)
  qed
qed

lemma Unregister_ok:
  assumes "hub_ok cap h" "hb_clients h c = Some cl" "hc_open cl" "\<not> hc_up cl" "hb_sending h = []"
  obtains h' where "Unregister c h = Some h'" "hub_ok cap h'" "hb_sending h' = []"
    "hb_clients h' = (hb_clients h)(c \<mapsto> cl\<lparr>hc_open := False\<rparr>)"
proof -
  have "c \<in> set (members_of h (hc_topic cl))" using hub_okD(4) [OF assms(1)] assms(2,3) by blast
  then obtain cs where cs: "hb_members h (hc_topic cl) = Some cs" by (cases "hb_members h (hc_topic cl)") (auto simp: members_of_def)
  let ?ms = "(hb_members h)(hc_topic cl := (let cs' = removeAll c cs in if cs' = [] then None else Some cs'))"
  let ?h = "h\<lparr>hb_members := ?ms, hb_clients := (hb_clients h)(c \<mapsto> cl\<lparr>hc_open := False\<rparr>)\<rparr>"
  have run: "Unregister c h = Some ?h" using assms(2,3) cs by (simp add: Unregister_def Let_def)
  have mem: "members_of ?h t = (if t = hc_topic cl then removeAll c cs else members_of h t)" for t
    by (auto simp: members_of_def Let_def)
  have old: "members_of h (hc_topic cl) = cs" using cs by (simp add: members_of_def)
  have "hub_ok cap ?h"
    unfolding hub_ok_def mem
  proof (intro conjI allI impI)
    fix d dl assume "hb_clients ?h d = Some dl"
    with hub_okD(1,2) [OF assms(1)] assms(2) show "d < hb_next ?h" "length (hc_buffer dl) \<le> cap"
      by (auto split: if_splits)
  next
    fix d dl assume "hb_clients ?h d = Some dl" "hc_up dl"
    with hub_okD(3) [OF assms(1), of d dl] assms(2,4) show "hc_open dl" by (auto split: if_splits)
  next
    fix t d
    show "d \<in> set (if t = hc_topic cl then removeAll c cs else members_of h t) \<longleftrightarrow>
      (\<exists>dl. hb_clients ?h d = Some dl \<and> hc_open dl \<and> hc_topic dl = t)"
      using hub_okD(4) [OF assms(1), of d t] old assms(2) by auto
  next
    fix t show "distinct (if t = hc_topic cl then removeAll c cs else members_of h t)"
      using hub_okD(5) [OF assms(1)] old by (metis distinct_removeAll)
  next
    fix g d m assume "(g, d, m) \<in> set (hb_sending ?h)"
    with assms(5) show "\<exists>dl. hb_clients ?h d = Some dl \<and> hc_open dl" by simp
  qed
  from that [OF run this] assms(5) show ?thesis by simp
qed

lemma start_ok:
  assumes "hub_ok cap h"
  shows "hub_ok cap (start_offers g ps h)"
proof -
  have same: "hb_clients (start_offers g ps h) = hb_clients h" "hb_next (start_offers g ps h) = hb_next h"
    "members_of (start_offers g ps h) t = members_of h t" for t
    by (simp_all add: start_offers_def members_of_def)
  have "\<exists>cl. hb_clients h c = Some cl \<and> hc_open cl" if "(g', c, m) \<in> set (hb_sending (start_offers g ps h))" for g' c m
    using that hub_okD(6) [OF assms] hub_okD(4) [OF assms, of c] by (auto simp: start_offers_def)
  with assms show ?thesis unfolding hub_ok_def same by blast
qed

section \<open>The stream of a client\<close>

text \<open>
  What an operation broadcasts, and by which goroutine; what of it a client is due: the messages for its key, when it is registered and the
  goroutine is not in the middle of a broadcast.
\<close>

definition posts_of :: "'m hub_op \<Rightarrow> (nat \<times> (int \<times> 'm) list) option" where
  "posts_of x = (case x of
       HubSend g t m \<Rightarrow> Some (g, [(t, m)])
     | HubTick g overview tenants \<Rightarrow> Some (g, List.map_filter (\<lambda>t. map_option (Pair t) (overview t)) tenants)
     | _ \<Rightarrow> None)"

definition due_now :: "'m hub_op \<Rightarrow> 'm hub \<Rightarrow> nat \<Rightarrow> nat \<Rightarrow> 'm list" where
  "due_now x h g c = (case posts_of x of
       None \<Rightarrow> []
     | Some (g', ps) \<Rightarrow> (case hb_clients h c of
           None \<Rightarrow> []
         | Some cl \<Rightarrow> if g' = g \<and> \<not> sending g h \<and> hc_open cl then map snd (filter (\<lambda>p. fst p = hc_topic cl) ps) else []))"

text \<open>What a client was due from a goroutine along a run, and whether its buffer had room at every offer made to it.\<close>

fun due_stream :: "nat \<Rightarrow> 'm hub_op list \<Rightarrow> 'm hub \<Rightarrow> nat \<Rightarrow> nat \<Rightarrow> 'm list" where
  "due_stream cap [] h g c = []"
| "due_stream cap (x # xs) h g c = due_now x h g c @ (case hub_step cap x h of None \<Rightarrow> [] | Some h' \<Rightarrow> due_stream cap xs h' g c)"

definition room_now :: "nat \<Rightarrow> 'm hub_op \<Rightarrow> 'm hub \<Rightarrow> nat \<Rightarrow> bool" where
  "room_now cap x h c = (case x of
       HubOffer g d \<Rightarrow> (case hb_clients h c of None \<Rightarrow> True | Some cl \<Rightarrow> d \<noteq> c \<or> pending h g c = [] \<or> length (hc_buffer cl) < cap)
     | _ \<Rightarrow> True)"

fun kept_up :: "nat \<Rightarrow> 'm hub_op list \<Rightarrow> 'm hub \<Rightarrow> nat \<Rightarrow> bool" where
  "kept_up cap [] h c = True"
| "kept_up cap (x # xs) h c = (room_now cap x h c \<and> (case hub_step cap x h of None \<Rightarrow> True | Some h' \<Rightarrow> kept_up cap xs h' c))"

text \<open>What a client has got from a goroutine; \<open>author\<close> tells whose a message is.\<close>

definition got :: "('m \<Rightarrow> nat) \<Rightarrow> nat \<Rightarrow> 'm hub_client \<Rightarrow> 'm list" where
  "got author g cl = filter (\<lambda>m. author m = g) (hc_written cl @ hc_buffer cl)"

definition signed :: "('m \<Rightarrow> nat) \<Rightarrow> 'm hub_op \<Rightarrow> bool" where
  "signed author x \<longleftrightarrow> (case posts_of x of None \<Rightarrow> True | Some (g, ps) \<Rightarrow> \<forall>p \<in> set ps. author (snd p) = g)"

definition streams :: "('m \<Rightarrow> nat) \<Rightarrow> 'm hub \<Rightarrow> (nat \<Rightarrow> nat \<Rightarrow> 'm list) \<Rightarrow> (nat \<Rightarrow> bool) \<Rightarrow> bool" where
  "streams author h D K \<longleftrightarrow> (\<forall>g c m. (g, c, m) \<in> set (hb_sending h) \<longrightarrow> author m = g) \<and>
     (\<forall>g c. hb_clients h c = None \<longrightarrow> D g c = []) \<and>
     (\<forall>g c cl. hb_clients h c = Some cl \<longrightarrow> subseq (got author g cl @ pending h g c) (D g c) \<and>
        (hc_up cl \<and> K c \<longrightarrow> got author g cl @ pending h g c = D g c))"

lemma streamsD:
  assumes "streams author h D K"
  shows "(g, c, m) \<in> set (hb_sending h) \<Longrightarrow> author m = g" "hb_clients h c = None \<Longrightarrow> D g c = []"
    "hb_clients h c = Some cl \<Longrightarrow> subseq (got author g cl @ pending h g c) (D g c)"
    "hb_clients h c = Some cl \<Longrightarrow> hc_up cl \<Longrightarrow> K c \<Longrightarrow> got author g cl @ pending h g c = D g c"
  using assms unfolding streams_def by blast+

lemma streams_weaken: "streams author h D K \<Longrightarrow> (\<And>c. K' c \<Longrightarrow> K c) \<Longrightarrow> streams author h D K'"
  unfolding streams_def by blast

lemma streams_client:
  assumes "streams author h D K" "hb_clients h c = Some cl" "hb_clients h' = (hb_clients h)(c \<mapsto> cl')" "hb_sending h' = hb_sending h"
    "subseq (hc_written cl' @ hc_buffer cl') (hc_written cl @ hc_buffer cl)"
    "hc_up cl' \<Longrightarrow> hc_up cl \<and> hc_written cl' @ hc_buffer cl' = hc_written cl @ hc_buffer cl"
  shows "streams author h' D K"
  unfolding streams_def pending_upd [OF assms(4)] assms(4)
proof (intro conjI allI impI)
  fix g d m assume "(g, d, m) \<in> set (hb_sending h)"
  then show "author m = g" by (rule streamsD(1) [OF assms(1)])
next
  fix g d assume "hb_clients h' d = None"
  then have "hb_clients h d = None" using assms(3) by (auto split: if_splits)
  then show "D g d = []" by (rule streamsD(2) [OF assms(1)])
next
  fix g d dl assume d: "hb_clients h' d = Some dl"
  note S = streamsD(3,4) [OF assms(1)]
  show "subseq (got author g dl @ pending h g d) (D g d)"
  proof (cases "d = c")
    case True
    with d assms(3) have "dl = cl'" by simp
    with subseq_filter [OF assms(5)] have "subseq (got author g dl) (got author g cl)" unfolding got_def by (simp only:)
    from list_emb_append_mono [OF this subseq_order.order_refl [of "pending h g c"]] S(1) [OF assms(2), of g]
    have "subseq (got author g dl @ pending h g c) (D g c)" by (rule subseq_order.trans)
    with True show ?thesis by simp
  next
    case False
    with d assms(3) S(1) [of d dl] show ?thesis by simp
  qed
  assume u: "hc_up dl \<and> K d"
  show "got author g dl @ pending h g d = D g d"
  proof (cases "d = c")
    case True
    with d assms(3) have "dl = cl'" by simp
    with True u assms(6) S(2) [OF assms(2), of g] show ?thesis by (simp add: got_def del: filter_append)
  next
    case False
    with d u assms(3) S(2) [of d dl] show ?thesis by simp
  qed
qed

text \<open>A broadcast that starts.\<close>

lemma streams_start:
  assumes "hub_ok cap h" "streams author h D K" "\<not> sending g h" "\<forall>p \<in> set ps. author (snd p) = g" "posts_of x = Some (g, ps)"
  shows "streams author (start_offers g ps h) (\<lambda>g c. D g c @ due_now x h g c) K"
proof -
  have same: "hb_clients (start_offers g ps h) = hb_clients h" by (simp add: start_offers_def)
  have pend: "pending (start_offers g ps h) g' c = pending h g' c @ due_now x h g' c" if "hb_clients h c = Some cl" for g' c cl
  proof -
    have "(c \<in> set (members_of h t)) = (hc_open cl \<and> t = hc_topic cl)" for t
      using hub_okD(4) [OF assms(1), of c t] that by auto
    then show ?thesis
      unfolding pending_started [OF hub_okD(5) [OF assms(1)]] using assms(3,5) that by (auto simp: due_now_def)
  qed
  show ?thesis
    unfolding streams_def same
  proof (intro conjI allI impI)
    fix g' c m assume "(g', c, m) \<in> set (hb_sending (start_offers g ps h))"
    then show "author m = g'" using streamsD(1) [OF assms(2)] assms(4) by (auto simp: start_offers_def)
  next
    fix g' c assume "hb_clients h c = None"
    then show "D g' c @ due_now x h g' c = []" using streamsD(2) [OF assms(2)] by (simp add: due_now_def split: option.split)
  next
    fix g' c cl assume c: "hb_clients h c = Some cl"
    from streamsD(3) [OF assms(2) c, of g']
    show "subseq (got author g' cl @ pending (start_offers g ps h) g' c) (D g' c @ due_now x h g' c)"
      unfolding pend [OF c] append_assoc [symmetric] by (rule list_emb_append_mono) simp
    assume "hc_up cl \<and> K c"
    with streamsD(4) [OF assms(2) c, of g']
    show "got author g' cl @ pending (start_offers g ps h) g' c = D g' c @ due_now x h g' c"
      unfolding pend [OF c] by simp
  qed
qed

text \<open>A message that is offered to a client.\<close>

lemma streams_offer:
  assumes "hub_ok cap h" "streams author h D K"
  shows "\<exists>h'. offer_to cap g c h = Some h' \<and> hub_ok cap h' \<and> streams author h' D (\<lambda>d. K d \<and> room_now cap (HubOffer g c) h d)"
proof (cases "find (\<lambda>e. fst e = g \<and> fst (snd e) = c) (hb_sending h)")
  case None
  then show ?thesis using assms(1) streams_weaken [OF assms(2), of "\<lambda>d. K d \<and> room_now cap (HubOffer g c) h d"]
    by (simp add: offer_to_def)
next
  case (Some e)
  obtain g1 c1 m where e: "e = (g1, c1, m)" by (cases e)
  note P = pending_offered [OF Some [unfolded e]]
  from hub_okD(6) [OF assms(1) P(3)] obtain cl where cl: "hb_clients h c = Some cl" "hc_open cl" by blast
  then obtain cl' where cl': "offer cap m cl = Some cl'" by (cases "offer cap m cl") (auto simp: offer_def split: if_splits)
  note F = offer_fields [OF cl']
  let ?h = "h\<lparr>hb_clients := (hb_clients h)(c \<mapsto> cl'), hb_sending := remove1 (g, c, m) (hb_sending h)\<rparr>"
  have run: "offer_to cap g c h = Some ?h" using Some e P(1,2) cl cl' by (simp add: offer_to_def)
  have ok: "hub_ok cap ?h"
    by (rule hub_ok_client [OF assms(1) cl(1), where cl' = cl'])
      (use F hub_okD(2) [OF assms(1) cl(1)] set_remove1_subset [of "(g, c, m)" "hb_sending h"] in simp_all)
  have m: "author m = g" by (rule streamsD(1) [OF assms(2) P(3)])
  have mine: "got author g' cl' @ pending ?h g' c =
      got author g' cl @ (if g' = g \<and> length (hc_buffer cl) < cap then pending h g c else if g' = g then tl (pending h g c) else pending h g' c)" for g'
    unfolding P(4) got_def using F m P(5) by auto
  have "streams author ?h D (\<lambda>d. K d \<and> room_now cap (HubOffer g c) h d)"
    unfolding streams_def
  proof (intro conjI allI impI)
    fix g' d m' assume "(g', d, m') \<in> set (hb_sending ?h)"
    then have "(g', d, m') \<in> set (hb_sending h)" using set_remove1_subset by fastforce
    then show "author m' = g'" by (rule streamsD(1) [OF assms(2)])
  next
    fix g' d assume "hb_clients ?h d = None"
    then have "hb_clients h d = None" by (auto split: if_splits)
    then show "D g' d = []" by (rule streamsD(2) [OF assms(2)])
  next
    fix g' d dl assume d: "hb_clients ?h d = Some dl"
    show "subseq (got author g' dl @ pending ?h g' d) (D g' d)"
    proof (cases "d = c")
      case True
      with d have dl: "dl = cl'" by simp
      have "subseq (if g' = g \<and> length (hc_buffer cl) < cap then pending h g c else if g' = g then tl (pending h g c) else pending h g' c) (pending h g' c)"
        using P(5) by (auto intro: list_emb_Cons [of _ "tl (pending h g c)", unfolded] simp: subseq_order.order_refl)
      then have "subseq (got author g' dl @ pending ?h g' d) (got author g' cl @ pending h g' c)"
        unfolding True dl mine by (rule list_emb_append_mono [OF subseq_order.order_refl])
      with streamsD(3) [OF assms(2) cl(1), of g'] True show ?thesis by (auto intro: subseq_order.trans)
    next
      case False
      then have "pending ?h g' d = pending h g' d" unfolding P(4) by simp
      with d False streamsD(3) [OF assms(2), of d dl g'] show ?thesis by simp
    qed
    assume u: "hc_up dl \<and> K d \<and> room_now cap (HubOffer g c) h d"
    show "got author g' dl @ pending ?h g' d = D g' d"
    proof (cases "d = c")
      case True
      with d have dl: "dl = cl'" by simp
      from u True cl(1) P(5) have room: "length (hc_buffer cl) < cap" by (auto simp: room_now_def)
      have "got author g' cl @ pending h g' c = D g' c"
        by (rule streamsD(4) [OF assms(2) cl(1)]) (use u dl F True in auto)
      with room mine [of g'] show ?thesis unfolding True dl by (cases "g' = g") simp_all
    next
      case False
      then have "pending ?h g' d = pending h g' d" unfolding P(4) by simp
      with d False u streamsD(4) [OF assms(2), of d dl g'] show ?thesis by simp
    qed
  qed
  with run ok show ?thesis by blast
qed

section \<open>Every step\<close>

lemma quiet_streams:
  assumes "hub_step cap x h = Some h'" "hub_ok cap h'" "streams author h' D K" "posts_of x = None"
  shows "\<exists>h'. hub_step cap x h = Some h' \<and> hub_ok cap h' \<and> streams author h' (\<lambda>g c. D g c @ due_now x h g c) (\<lambda>c. K c \<and> room_now cap x h c)"
  using assms streams_weaken [OF assms(3), of "\<lambda>c. K c \<and> room_now cap x h c"] by (simp add: due_now_def)

lemma posts_step:
  "posts_of x = Some (g, ps) \<Longrightarrow> hub_step cap x h = Some (if sending g h then h else start_offers g ps h)"
  by (cases x) (auto simp: posts_of_def Broadcast_def broadcastAll_def)

lemma hub_step_streams:
  assumes "hub_ok cap h" "streams author h D K" "signed author x"
  shows "\<exists>h'. hub_step cap x h = Some h' \<and> hub_ok cap h' \<and>
    streams author h' (\<lambda>g c. D g c @ due_now x h g c) (\<lambda>c. K c \<and> room_now cap x h c)"
proof (cases "posts_of x")
  case (Some gp)
  obtain g ps where gp: "posts_of x = Some (g, ps)" using Some by (cases gp) simp
  have room: "room_now cap x h c" for c using gp by (cases x) (simp_all add: posts_of_def room_now_def)
  have none: "due_now x h g' c = []" if "sending g h" for g' c
    using gp that by (auto simp: due_now_def split: option.split)
  show ?thesis
  proof (cases "sending g h")
    case True
    then show ?thesis using posts_step [OF gp, of cap h] assms(1,2) room none by simp
  next
    case False
    from streams_start [OF assms(1,2) False _ gp] assms(3) gp have "streams author (start_offers g ps h) (\<lambda>g c. D g c @ due_now x h g c) K"
      by (simp add: signed_def)
    with False posts_step [OF gp, of cap h] start_ok [OF assms(1)] room show ?thesis by simp
  qed
next
  case None
  note quiet = quiet_streams [OF _ _ _ None]
  show ?thesis
  proof (cases x)
    case (HubConnect t)
    have fresh: "hb_clients h (hb_next h) = None" using hub_okD(1) [OF assms(1)] by (cases "hb_clients h (hb_next h)") auto
    show ?thesis
    proof (cases "hb_sending h = []")
      case False
      then show ?thesis using HubConnect assms by (intro quiet [of cap h h author D K]) simp_all
    next
      case True
      have "streams author (Register t h) D K"
        unfolding streams_def
        using streamsD(2) [OF assms(2) fresh] streamsD(2-4) [OF assms(2)] True
        by (auto simp: Register_def got_def pending_def split: if_splits)
      then show ?thesis using HubConnect True Register_ok [OF assms(1) True, of t] by (intro quiet [of cap h _ author D K]) simp_all
    qed
  next
    case (HubOffer g c)
    from streams_offer [OF assms(1,2), of g c] HubOffer None show ?thesis by (auto simp: due_now_def)
  next
    case (HubWrite c ok)
    show ?thesis
    proof (cases "\<exists>cl m ms. hb_clients h c = Some cl \<and> hc_up cl \<and> hc_buffer cl = m # ms")
      case False
      then have "hub_step cap x h = Some h" using HubWrite by (auto split: option.split list.split)
      from quiet [OF this assms(1,2)] show ?thesis .
    next
      case True
      then obtain cl m ms where cl: "hb_clients h c = Some cl" "hc_up cl" "hc_buffer cl = m # ms" by blast
      define cl' where "cl' = (if ok then cl\<lparr>hc_buffer := ms, hc_written := hc_written cl @ [m]\<rparr> else cl\<lparr>hc_buffer := ms, hc_up := False\<rparr>)"
      let ?h = "h\<lparr>hb_clients := (hb_clients h)(c \<mapsto> cl')\<rparr>"
      have run: "hub_step cap x h = Some ?h" using HubWrite cl by (simp add: cl'_def writer_fails_def)
      have ok': "hub_ok cap ?h"
        by (rule hub_ok_client [OF assms(1) cl(1), where cl' = cl']) (use hub_okD(2) [OF assms(1) cl(1)] cl in \<open>auto simp: cl'_def\<close>)
      have "streams author ?h D K"
        by (rule streams_client [OF assms(2) cl(1), where cl' = cl'])
          (use cl in \<open>auto simp: cl'_def subseq_append' intro: list_emb_Cons split: if_splits\<close>)
      from quiet [OF run ok' this] show ?thesis .
    qed
  next
    case (HubPingFails c)
    show ?thesis
    proof (cases "hb_clients h c")
      case None
      then have "hub_step cap x h = Some h" using HubPingFails by simp
      from quiet [OF this assms(1,2)] show ?thesis .
    next
      case (Some cl)
      have run: "hub_step cap x h = Some (writer_fails c cl h)" using HubPingFails Some by simp
      have ok': "hub_ok cap (writer_fails c cl h)"
        by (rule hub_ok_client [OF assms(1) Some, where cl' = "cl\<lparr>hc_up := False\<rparr>"]) (use hub_okD(2) [OF assms(1) Some] in \<open>auto simp: writer_fails_def\<close>)
      have "streams author (writer_fails c cl h) D K"
        by (rule streams_client [OF assms(2) Some, where cl' = "cl\<lparr>hc_up := False\<rparr>"]) (auto simp: writer_fails_def)
      from quiet [OF run ok' this] show ?thesis .
    qed
  next
    case (HubLeave c)
    show ?thesis
    proof (cases "\<exists>cl. hb_clients h c = Some cl \<and> \<not> hc_up cl \<and> hc_open cl \<and> hb_sending h = []")
      case False
      then have "hub_step cap x h = Some h" using HubLeave by (auto split: option.split)
      from quiet [OF this assms(1,2)] show ?thesis .
    next
      case True
      then obtain cl where cl: "hb_clients h c = Some cl" "\<not> hc_up cl" "hc_open cl" "hb_sending h = []" by blast
      from Unregister_ok [OF assms(1) cl(1,3,2,4)] obtain h' where h': "Unregister c h = Some h'" "hub_ok cap h'" "hb_sending h' = []"
        "hb_clients h' = (hb_clients h)(c \<mapsto> cl\<lparr>hc_open := False\<rparr>)" by blast
      have run: "hub_step cap x h = Some h'" using HubLeave cl h'(1) by simp
      have "streams author h' D K"
        by (rule streams_client [OF assms(2) cl(1), where cl' = "cl\<lparr>hc_open := False\<rparr>"]) (use h'(3,4) cl in auto)
      from quiet [OF run h'(2) this] show ?thesis .
    qed
  qed (use None in \<open>simp_all add: posts_of_def\<close>)
qed

lemma hub_run_streams:
  "hub_ok cap h \<Longrightarrow> streams author h D K \<Longrightarrow> (\<forall>x \<in> set xs. signed author x) \<Longrightarrow>
   \<exists>h'. hub_run cap xs h = Some h' \<and> hub_ok cap h' \<and> streams author h' (\<lambda>g c. D g c @ due_stream cap xs h g c) (\<lambda>c. K c \<and> kept_up cap xs h c)"
proof (induction xs arbitrary: h D K)
  case (Cons x xs)
  have "signed author x" using Cons.prems(3) by simp
  from hub_step_streams [OF Cons.prems(1,2) this] obtain h1 where h1: "hub_step cap x h = Some h1" "hub_ok cap h1"
    "streams author h1 (\<lambda>g c. D g c @ due_now x h g c) (\<lambda>c. K c \<and> room_now cap x h c)" by blast
  have "\<forall>x \<in> set xs. signed author x" using Cons.prems(3) by simp
  from Cons.IH [OF h1(2,3) this] h1(1) show ?case by (auto simp: conj_assoc)
qed auto

text \<open>
  C30. Goroutines broadcast, clients connect, connections fail and writers write, interleaved in any way; broadcasts in progress overlap each
  other. No goroutine of a hub sends on a closed channel or closes one twice. From every goroutine a client has got, written or still in its buffer, only what that
  goroutine broadcast under the client's key since it was registered, in that order; and while the writer of the client runs and its buffer had
  room at every offer made to it, it has got all of that, but for what the broadcast in progress has not offered yet. The registry
  holds exactly the clients whose channel is open. Messages are told apart by the goroutine that sends them (\<open>author\<close>); two goroutines that broadcast at the same
  time can reach two clients in different orders (\<open>overlapping_broadcasts\<close> below).
\<close>

theorem hub_streams_in_order:
  assumes "\<forall>x \<in> set xs. signed author x"
  shows "\<exists>h. hub_run cap xs NewHub = Some h \<and>
     (\<forall>t c. c \<in> set (members_of h t) \<longleftrightarrow> (\<exists>cl. hb_clients h c = Some cl \<and> hc_open cl \<and> hc_topic cl = t)) \<and>
     (\<forall>c cl. hb_clients h c = Some cl \<longrightarrow> length (hc_buffer cl) \<le> cap \<and>
        (\<forall>g. subseq (filter (\<lambda>m. author m = g) (hc_written cl @ hc_buffer cl)) (due_stream cap xs NewHub g c) \<and>
          (hc_up cl \<and> kept_up cap xs NewHub c \<longrightarrow>
            filter (\<lambda>m. author m = g) (hc_written cl @ hc_buffer cl) @ pending h g c = due_stream cap xs NewHub g c)))"
proof -
  have ok: "hub_ok cap NewHub" by (simp add: hub_ok_def NewHub_def members_of_def)
  have st: "streams author NewHub (\<lambda>_ _. []) (\<lambda>_. True)" by (simp add: streams_def NewHub_def)
  from hub_run_streams [OF ok st assms] obtain h where h: "hub_run cap xs NewHub = Some h" "hub_ok cap h"
    "streams author h (\<lambda>g c. due_stream cap xs NewHub g c) (\<lambda>c. kept_up cap xs NewHub c)" by auto
  show ?thesis
  proof (rule exI [of _ h], intro conjI allI impI)
    show "hub_run cap xs NewHub = Some h" by (rule h(1))
  next
    fix c cl g assume c: "hb_clients h c = Some cl"
    have "subseq (got author g cl) (got author g cl @ pending h g c)" by (rule subseq_rev_drop_many) (rule subseq_order.order_refl)
    with streamsD(3) [OF h(3) c, of g] show "subseq (filter (\<lambda>m. author m = g) (hc_written cl @ hc_buffer cl)) (due_stream cap xs NewHub g c)"
      unfolding got_def by (rule subseq_order.trans [rotated])
  qed (use hub_okD(2,4) [OF h(2)] streamsD(4) [OF h(3), unfolded got_def] in blast)+
qed

definition demo_ops :: "(nat \<times> nat) hub_op list" where
  "demo_ops = [HubConnect 7, HubConnect 7, HubSend 1 7 (1, 1), HubSend 2 7 (2, 9), HubOffer 1 0, HubOffer 2 1, HubOffer 2 0, HubOffer 1 1, HubWrite 0 True]"

lemmas hub_evaluate = demo_ops_def NewHub_def Register_def Broadcast_def start_offers_def members_of_def offer_def offer_to_def hub_buffer_def sending_def

text \<open>Two broadcasts in progress at the same time reach two clients in different orders.\<close>

lemma overlapping_broadcasts:
  "\<exists>h a b. hub_run hub_buffer demo_ops NewHub = Some h \<and> hb_clients h 0 = Some a \<and> hb_clients h 1 = Some b \<and>
     hc_written a @ hc_buffer a = [(1, 1), (2, 9)] \<and> hc_written b @ hc_buffer b = [(2, 9), (1, 1)]"
  by (simp add: hub_evaluate)

theorem hub_streams_in_order_witness:
  "\<exists>h cl. hub_run hub_buffer demo_ops NewHub = Some h \<and> hb_clients h 0 = Some cl \<and> filter (\<lambda>m. fst m = 1) (hc_written cl @ hc_buffer cl) @ pending h 1 0 = [(1, 1)]"
proof -
  have "\<forall>x \<in> set demo_ops. signed fst x" by (simp add: demo_ops_def signed_def posts_of_def)
  from hub_streams_in_order [OF this, of hub_buffer] obtain h where h: "hub_run hub_buffer demo_ops NewHub = Some h"
    "\<And>c cl. hb_clients h c = Some cl \<Longrightarrow> hc_up cl \<and> kept_up hub_buffer demo_ops NewHub c \<Longrightarrow>
        filter (\<lambda>m. fst m = 1) (hc_written cl @ hc_buffer cl) @ pending h 1 c = due_stream hub_buffer demo_ops NewHub 1 c" by blast
  from h(1) obtain cl where cl: "hb_clients h 0 = Some cl" "hc_up cl" by (auto simp: hub_evaluate)
  have "kept_up hub_buffer demo_ops NewHub 0" by (simp add: hub_evaluate room_now_def)
  moreover have "due_stream hub_buffer demo_ops NewHub 1 0 = [(1, 1)]" by (simp add: hub_evaluate due_now_def posts_of_def)
  ultimately show ?thesis using h cl by metis
qed

section \<open>Who can listen\<close>

text \<open>
  Without a token, or with one that carries no agent, the agent hub takes the agent and the tenant from the query: anyone
  who can reach the socket listens to the agent he names.
\<close>

lemma agent_events_by_query:
  "AgentIdentity secret parse [] [] q_agent q_tenant = Some (parse_value q_agent, parse_value q_tenant)"
  "parse token = Some (None, t) \<Longrightarrow> secret \<noteq> [] \<Longrightarrow> token \<noteq> [] \<Longrightarrow>
   AgentIdentity secret parse (''Bearer '' @ token) proto q_agent q_tenant = Some (parse_value q_agent, parse_value q_tenant)"
  by (simp_all add: AgentIdentity_def bearer_token_def)

text \<open>The hub of a client of another session: the session in the message decides, not the one the client is in.\<close>

lemma im_message_to_other_session: "session \<noteq> 0 \<Longrightarrow> im_target own session = session"
  by (simp add: im_target_def)

end
