(* ===== verification/Dashboard.thy ===== *)
theory Dashboard
  imports Complex_Main CallEntity Presence Tables
begin

text \<open>
  The live dashboard: the counts of today's calls (\<open>infrastructure/mysql/call_repo.go\<close>), the refresher
  and its alarms (\<open>internal/application/dashboard/refresher.go\<close>), the snapshot in Redis (\<open>infrastructure/redis/dashboard.go\<close>) and
  the rates of \<open>internal/domain/report/service.go\<close>. float64 values are rationals.
\<close>

section \<open>Today's calls\<close>

record call_counts =
  cc_total :: int
  cc_inbound :: int
  cc_outbound :: int
  cc_answered :: int
  cc_abandoned :: int
  cc_active :: int
  cc_queued :: int

definition count_calls :: "(call \<Rightarrow> bool) \<Rightarrow> call list \<Rightarrow> int" where
  "count_calls P cs = int (length (filter P cs))"

text \<open>\<open>WHERE tenant_id = ? AND started_at >= CURDATE()\<close>\<close>

definition todays :: "gotime \<Rightarrow> int \<Rightarrow> call \<Rightarrow> bool" where
  "todays midnight tenant c \<longleftrightarrow> c_TenantID c = tenant \<and> midnight \<le> c_StartedAt c"

text \<open>\<open>SUM\<close> over no rows is NULL, which \<open>Scan\<close> refuses for an int.\<close>

definition CountTodayByTenant :: "gotime \<Rightarrow> int \<Rightarrow> (call ltable, string, call_counts) act" where
  "CountTodayByTenant midnight tenant = bind_a (sel_all (todays midnight tenant)) (\<lambda>cs.
     if cs = [] then throw_a ''sql: Scan error: converting NULL to int is unsupported''
     else ret_a \<lparr>cc_total = int (length cs), cc_inbound = count_calls (\<lambda>c. c_Direction c = DirectionInbound) cs,
       cc_outbound = count_calls (\<lambda>c. c_Direction c = DirectionOutbound) cs,
       cc_answered = count_calls (\<lambda>c. c_AnsweredAt c \<noteq> None) cs,
       cc_abandoned = count_calls (\<lambda>c. c_HangupReason c = Some HangupAbandon) cs,
       cc_active = count_calls (\<lambda>c. c_Status c \<in> {CallStatusActive, CallStatusRinging}) cs,
       cc_queued = count_calls (\<lambda>c. c_Status c = CallStatusQueue) cs\<rparr>)"

text \<open>\<open>AVG\<close> of integers keeps four decimals.\<close>

definition sql_avg :: "int list \<Rightarrow> rat" where
  "sql_avg xs = (if xs = [] then 0 else of_int (round (10000 * rat_of_int (sum_list xs) / of_nat (length xs))) / 10000)"

record sla_counts =
  sl_avgWait :: rat
  sl_within20 :: int
  sl_offered :: int
  sl_longest :: int

definition SLATodayByTenant :: "gotime \<Rightarrow> int \<Rightarrow> (call ltable, string, sla_counts) act" where
  "SLATodayByTenant midnight tenant = bind_a (sel_all (todays midnight tenant)) (\<lambda>cs.
     if cs = [] then throw_a ''sql: Scan error: converting NULL to int is unsupported''
     else ret_a \<lparr>sl_avgWait = sql_avg (map c_QueueDurationSec cs),
       sl_within20 = count_calls (\<lambda>c. c_AnsweredAt c \<noteq> None \<and> c_QueueDurationSec c \<le> 20) cs,
       sl_offered = count_calls (\<lambda>c. c_Direction c = DirectionInbound) cs,
       sl_longest = foldl max 0 (map (\<lambda>c. if c_Status c = CallStatusQueue then c_QueueDurationSec c else 0) cs)\<rparr>)"

section \<open>Rates\<close>

definition CalculateServiceLevel20s :: "int \<Rightarrow> int \<Rightarrow> rat" where
  "CalculateServiceLevel20s fast offered = (if offered = 0 then 0 else of_int fast / of_int offered * 100)"

definition CalculateAgentUtilization :: "int \<Rightarrow> int \<Rightarrow> int \<Rightarrow> int \<Rightarrow> rat" where
  "CalculateAgentUtilization talk acw dialing online = (if online = 0 then 0 else of_int (talk + acw + dialing) / of_int online * 100)"

section \<open>The snapshot\<close>

record overview =
  ov_TenantID :: int
  ov_TotalCallsToday :: int
  ov_InboundCalls :: int
  ov_OutboundCalls :: int
  ov_ActiveCalls :: int
  ov_QueuedCalls :: int
  ov_AbandonedCalls :: int
  ov_AnsweredCalls :: int
  ov_ServiceLevel20s :: rat
  ov_AvgWaitSec :: rat
  ov_AvgTalkSec :: rat
  ov_AgentsOnline :: int
  ov_AgentsIdle :: int
  ov_AgentsTalking :: int
  ov_AgentsACW :: int
  ov_AgentsBreak :: int
  ov_AgentsDialing :: int
  ov_LongestWaitSec :: int
  ov_GeneratedAt :: gotime

text \<open>A Redis hash with its expiry; \<open>rd_up\<close>: whether the next commands reach the server, from an exhausted list on they do.\<close>

record dash_redis =
  rd_hashes :: "int \<rightharpoonup> ((string \<rightharpoonup> string) \<times> gotime)"
  rd_up :: "bool list"

definition on_dash :: "(dash_redis \<Rightarrow> 'a \<times> dash_redis) \<Rightarrow> (dash_redis, string, 'a) act" where
  "on_dash f r = (case rd_up r of
       [] \<Rightarrow> (let (a, r') = f r in (Inr a, r'))
     | up # rest \<Rightarrow> if up then (let (a, r') = f (r\<lparr>rd_up := rest\<rparr>) in (Inr a, r')) else (Inl ''redis: connection refused'', r\<lparr>rd_up := rest\<rparr>))"

text \<open>The fields of the hash; \<open>ftoa\<close> is how the driver writes a float64.\<close>

definition overview_fields :: "(rat \<Rightarrow> string) \<Rightarrow> overview \<Rightarrow> (string \<times> string) list" where
  "overview_fields ftoa o1 =
     [(''total_calls_today'', itoa (ov_TotalCallsToday o1)), (''inbound_calls'', itoa (ov_InboundCalls o1)),
      (''outbound_calls'', itoa (ov_OutboundCalls o1)), (''active_calls'', itoa (ov_ActiveCalls o1)),
      (''queued_calls'', itoa (ov_QueuedCalls o1)), (''abandoned_calls'', itoa (ov_AbandonedCalls o1)),
      (''answered_calls'', itoa (ov_AnsweredCalls o1)), (''service_level_20s'', ftoa (ov_ServiceLevel20s o1)),
      (''avg_wait_sec'', ftoa (ov_AvgWaitSec o1)), (''avg_talk_sec'', ftoa (ov_AvgTalkSec o1)),
      (''agents_online'', itoa (ov_AgentsOnline o1)), (''agents_idle'', itoa (ov_AgentsIdle o1)),
      (''agents_talking'', itoa (ov_AgentsTalking o1)), (''agents_acw'', itoa (ov_AgentsACW o1)),
      (''agents_break'', itoa (ov_AgentsBreak o1)), (''agents_dialing'', itoa (ov_AgentsDialing o1)),
      (''longest_wait_sec'', itoa (ov_LongestWaitSec o1))]"

definition UpdateOverview :: "(rat \<Rightarrow> string) \<Rightarrow> gotime \<Rightarrow> overview \<Rightarrow> (dash_redis, string, unit) act" where
  "UpdateOverview ftoa now o1 = on_dash (\<lambda>r.
     ((), r\<lparr>rd_hashes := (rd_hashes r)(ov_TenantID o1 \<mapsto> (map_of (overview_fields ftoa o1), now + 5 * 60 * second))\<rparr>))"

text \<open>\<open>HGETALL\<close> of a key that is absent or has expired is empty.\<close>

definition dash_hash :: "gotime \<Rightarrow> int \<Rightarrow> dash_redis \<Rightarrow> string \<rightharpoonup> string" where
  "dash_hash now tenant r = (case rd_hashes r tenant of
       None \<Rightarrow> Map.empty | Some (m, expiry) \<Rightarrow> if now < expiry then m else Map.empty)"

definition field_int :: "(string \<rightharpoonup> string) \<Rightarrow> string \<Rightarrow> int" where
  "field_int m k = parse_value (case m k of None \<Rightarrow> [] | Some v \<Rightarrow> v)"

definition field_rat :: "(string \<Rightarrow> rat) \<Rightarrow> (string \<rightharpoonup> string) \<Rightarrow> string \<Rightarrow> rat" where
  "field_rat atof m k = atof (case m k of None \<Rightarrow> [] | Some v \<Rightarrow> v)"

text \<open>\<open>atof\<close>: \<open>strconv.ParseFloat\<close> with the error dropped.\<close>

definition GetOverview :: "(string \<Rightarrow> rat) \<Rightarrow> gotime \<Rightarrow> int \<Rightarrow> (dash_redis, string, overview) act" where
  "GetOverview atof now tenant = on_dash (\<lambda>r. let m = dash_hash now tenant r in
     (\<lparr>ov_TenantID = tenant, ov_TotalCallsToday = field_int m ''total_calls_today'', ov_InboundCalls = field_int m ''inbound_calls'',
       ov_OutboundCalls = field_int m ''outbound_calls'', ov_ActiveCalls = field_int m ''active_calls'',
       ov_QueuedCalls = field_int m ''queued_calls'', ov_AbandonedCalls = field_int m ''abandoned_calls'',
       ov_AnsweredCalls = field_int m ''answered_calls'', ov_ServiceLevel20s = field_rat atof m ''service_level_20s'',
       ov_AvgWaitSec = field_rat atof m ''avg_wait_sec'', ov_AvgTalkSec = field_rat atof m ''avg_talk_sec'',
       ov_AgentsOnline = field_int m ''agents_online'', ov_AgentsIdle = field_int m ''agents_idle'',
       ov_AgentsTalking = field_int m ''agents_talking'', ov_AgentsACW = field_int m ''agents_acw'',
       ov_AgentsBreak = field_int m ''agents_break'', ov_AgentsDialing = field_int m ''agents_dialing'',
       ov_LongestWaitSec = field_int m ''longest_wait_sec'', ov_GeneratedAt = now\<rparr>, r))"

section \<open>The refresher\<close>

record presence_counts =
  pc_online :: int
  pc_idle :: int
  pc_talking :: int
  pc_acw :: int
  pc_break :: int
  pc_dialing :: int

definition count_presence :: "presence_counts \<Rightarrow> presence \<Rightarrow> presence_counts" where
  "count_presence n p = (case p_Status p of
       PresenceOnline \<Rightarrow> n\<lparr>pc_online := pc_online n + 1, pc_idle := pc_idle n + 1\<rparr>
     | PresenceIdle \<Rightarrow> n\<lparr>pc_online := pc_online n + 1, pc_idle := pc_idle n + 1\<rparr>
     | PresenceTalking \<Rightarrow> n\<lparr>pc_online := pc_online n + 1, pc_talking := pc_talking n + 1\<rparr>
     | PresenceACW \<Rightarrow> n\<lparr>pc_online := pc_online n + 1, pc_acw := pc_acw n + 1\<rparr>
     | PresenceBreak \<Rightarrow> n\<lparr>pc_online := pc_online n + 1, pc_break := pc_break n + 1\<rparr>
     | PresenceDialing \<Rightarrow> n\<lparr>pc_online := pc_online n + 1, pc_dialing := pc_dialing n + 1\<rparr>
     | PresenceOffline \<Rightarrow> n)"

definition presence_zero :: presence_counts where
  "presence_zero = \<lparr>pc_online = 0, pc_idle = 0, pc_talking = 0, pc_acw = 0, pc_break = 0, pc_dialing = 0\<rparr>"

datatype alarm_level = AlarmWarning | AlarmCritical | AlarmEmergency

type_synonym alarm = "int \<times> alarm_level \<times> string \<times> rat \<times> rat"

definition evaluateAlarms :: "overview \<Rightarrow> alarm list" where
  "evaluateAlarms o1 =
     (if 0 < ov_ServiceLevel20s o1 \<or> 0 < ov_InboundCalls o1 then
        (if ov_ServiceLevel20s o1 < 40 then [(ov_TenantID o1, AlarmEmergency, ''service_level_20s'', ov_ServiceLevel20s o1, 40)]
         else if ov_ServiceLevel20s o1 < 60 then [(ov_TenantID o1, AlarmCritical, ''service_level_20s'', ov_ServiceLevel20s o1, 60)]
         else if ov_ServiceLevel20s o1 < 80 then [(ov_TenantID o1, AlarmWarning, ''service_level_20s'', ov_ServiceLevel20s o1, 80)] else [])
      else []) @
     (if 60 < ov_AvgWaitSec o1 then [(ov_TenantID o1, AlarmCritical, ''avg_wait_sec'', ov_AvgWaitSec o1, 60)]
      else if 30 < ov_AvgWaitSec o1 then [(ov_TenantID o1, AlarmWarning, ''avg_wait_sec'', ov_AvgWaitSec o1, 30)] else []) @
     (if 120 < ov_LongestWaitSec o1 then [(ov_TenantID o1, AlarmCritical, ''longest_wait_sec'', of_int (ov_LongestWaitSec o1), 120)] else [])"

record dash_world =
  dw_call_rows :: "call ltable"
  dw_presence_rows :: "presence ltable"
  dw_redis :: dash_redis
  dw_alarms :: "alarm list"

abbreviation dash_calls :: "(call ltable, string, 'a) act \<Rightarrow> (dash_world, string, 'a) act" where
  "dash_calls \<equiv> zoom_a dw_call_rows (\<lambda>d w. w\<lparr>dw_call_rows := d\<rparr>)"

abbreviation dash_presence :: "(presence ltable, string, 'a) act \<Rightarrow> (dash_world, string, 'a) act" where
  "dash_presence \<equiv> zoom_a dw_presence_rows (\<lambda>d w. w\<lparr>dw_presence_rows := d\<rparr>)"

abbreviation dash_store :: "(dash_redis, string, 'a) act \<Rightarrow> (dash_world, string, 'a) act" where
  "dash_store \<equiv> zoom_a dw_redis (\<lambda>d w. w\<lparr>dw_redis := d\<rparr>)"

definition sla_zero :: sla_counts where
  "sla_zero = \<lparr>sl_avgWait = 0, sl_within20 = 0, sl_offered = 0, sl_longest = 0\<rparr>"

definition overview_of :: "gotime \<Rightarrow> int \<Rightarrow> call_counts \<Rightarrow> presence_counts \<Rightarrow> sla_counts \<Rightarrow> overview" where
  "overview_of now tenant n p s = \<lparr>ov_TenantID = tenant, ov_TotalCallsToday = cc_total n, ov_InboundCalls = cc_inbound n,
     ov_OutboundCalls = cc_outbound n, ov_ActiveCalls = cc_active n, ov_QueuedCalls = cc_queued n, ov_AbandonedCalls = cc_abandoned n,
     ov_AnsweredCalls = cc_answered n, ov_ServiceLevel20s = CalculateServiceLevel20s (sl_within20 s) (sl_offered s),
     ov_AvgWaitSec = sl_avgWait s, ov_AvgTalkSec = 0, ov_AgentsOnline = pc_online p, ov_AgentsIdle = pc_idle p,
     ov_AgentsTalking = pc_talking p, ov_AgentsACW = pc_acw p, ov_AgentsBreak = pc_break p, ov_AgentsDialing = pc_dialing p,
     ov_LongestWaitSec = sl_longest s, ov_GeneratedAt = now\<rparr>"

text \<open>\<open>notifier\<close>: whether one is set.\<close>

definition refreshTenant :: "bool \<Rightarrow> (rat \<Rightarrow> string) \<Rightarrow> gotime \<Rightarrow> gotime \<Rightarrow> int \<Rightarrow> (dash_world, string, unit) act" where
  "refreshTenant notifier ftoa now midnight tenant =
     bind_a (dash_calls (CountTodayByTenant midnight tenant)) (\<lambda>n.
     bind_a (dash_presence (sel_all (\<lambda>p. p_TenantID p = tenant))) (\<lambda>ps.
     try_a (dash_calls (SLATodayByTenant midnight tenant)) (\<lambda>r.
       let s = (case r of Inl _ \<Rightarrow> sla_zero | Inr s \<Rightarrow> s); o1 = overview_of now tenant n (foldl count_presence presence_zero ps) s
       in seq_a (dash_store (UpdateOverview ftoa now o1))
            (when_a notifier (modify_a (\<lambda>w. w\<lparr>dw_alarms := dw_alarms w @ evaluateAlarms o1\<rparr>))))))"

section \<open>The wallboard\<close>

record wallboard =
  wb_TenantID :: int
  wb_CallsToday :: int
  wb_ActiveCalls :: int
  wb_QueuedCalls :: int
  wb_AbandonedCalls :: int
  wb_ServiceLevel :: rat
  wb_AvgWaitSec :: rat
  wb_LongestWaitSec :: int
  wb_AbandonRate :: rat
  wb_AgentsOnline :: int
  wb_AgentsIdle :: int
  wb_AgentsBusy :: int

definition wallboard_of :: "int \<Rightarrow> overview \<Rightarrow> wallboard" where
  "wallboard_of tenant o1 = \<lparr>wb_TenantID = tenant, wb_CallsToday = ov_TotalCallsToday o1, wb_ActiveCalls = ov_ActiveCalls o1,
     wb_QueuedCalls = ov_QueuedCalls o1, wb_AbandonedCalls = ov_AbandonedCalls o1, wb_ServiceLevel = ov_ServiceLevel20s o1,
     wb_AvgWaitSec = ov_AvgWaitSec o1, wb_LongestWaitSec = ov_LongestWaitSec o1,
     wb_AbandonRate = (if 0 < ov_InboundCalls o1 then of_int (ov_AbandonedCalls o1) / of_int (ov_InboundCalls o1) * 100 else 0),
     wb_AgentsOnline = ov_AgentsOnline o1, wb_AgentsIdle = ov_AgentsIdle o1, wb_AgentsBusy = ov_AgentsTalking o1 + ov_AgentsDialing o1\<rparr>"

definition GetWallboard :: "(string \<Rightarrow> rat) \<Rightarrow> gotime \<Rightarrow> int \<Rightarrow> (dash_redis, string, wallboard) act" where
  "GetWallboard atof now tenant = bind_a (GetOverview atof now tenant) (\<lambda>o1. ret_a (wallboard_of tenant o1))"

end
