(* ===== verification/DashboardProps.thy ===== *)
theory DashboardProps
  imports Dashboard "HOL-Library.Countable"
begin

text \<open>
  What a snapshot of the dashboard says about the calls and agents it was taken from, and that Redis gives it back.
\<close>

section \<open>Counts\<close>

lemma presence_counts_add:
  "let n' = foldl count_presence n ps in
     pc_online n' - (pc_idle n' + pc_talking n' + pc_acw n' + pc_break n' + pc_dialing n') =
       pc_online n - (pc_idle n + pc_talking n + pc_acw n + pc_break n + pc_dialing n) \<and>
     pc_online n' = pc_online n + int (length (filter (\<lambda>p. p_Status p \<noteq> PresenceOffline) ps))"
proof (induction ps arbitrary: n)
  case (Cons p ps)
  from Cons.IH [of "count_presence n p"] show ?case
    by (cases "p_Status p") (simp_all add: count_presence_def Let_def)
qed simp

lemma filter_disjoint: "(\<And>x. P x \<Longrightarrow> \<not> Q x) \<Longrightarrow> length (filter P xs) + length (filter Q xs) \<le> length xs"
  by (induction xs) auto

section \<open>Numbers in Redis\<close>

text \<open>
  The laws of the standard library the snapshot relies on: what \<open>strconv.FormatFloat\<close> writes, \<open>strconv.ParseFloat\<close> reads back.
\<close>

definition overview_fits :: "overview \<Rightarrow> bool" where
  "overview_fits o1 \<longleftrightarrow> list_all int64 [ov_TotalCallsToday o1, ov_InboundCalls o1, ov_OutboundCalls o1, ov_ActiveCalls o1,
     ov_QueuedCalls o1, ov_AbandonedCalls o1, ov_AnsweredCalls o1, ov_AgentsOnline o1, ov_AgentsIdle o1, ov_AgentsTalking o1,
     ov_AgentsACW o1, ov_AgentsBreak o1, ov_AgentsDialing o1, ov_LongestWaitSec o1]"

text \<open>
  A snapshot that was stored is read back as it was for five minutes, every number of it, with the time of the reading; after that
  the dashboard shows zeros.
\<close>

theorem snapshot_round_trip:
  assumes "\<And>x. atof (ftoa x) = x" "atof [] = 0" "overview_fits o1" "UpdateOverview ftoa now o1 r = (Inr (), r1)"
    "GetOverview atof later (ov_TenantID o1) r1 = (Inr o2, r2)"
  shows "(later < now + 5 * 60 * second \<longrightarrow> o2 = o1\<lparr>ov_GeneratedAt := later\<rparr>) \<and>
    (now + 5 * 60 * second \<le> later \<longrightarrow> ov_TotalCallsToday o2 = 0 \<and> ov_AgentsOnline o2 = 0 \<and> ov_ServiceLevel20s o2 = 0)"
proof -
  let ?m = "map_of (overview_fields ftoa o1)"
  have stored: "rd_hashes r1 (ov_TenantID o1) = Some (?m, now + 5 * 60 * second)"
    using assms(4) by (auto simp: UpdateOverview_def on_dash_def split: list.splits if_splits)
  have o2: "o2 = \<lparr>ov_TenantID = ov_TenantID o1, ov_TotalCallsToday = field_int m ''total_calls_today'', ov_InboundCalls = field_int m ''inbound_calls'',
       ov_OutboundCalls = field_int m ''outbound_calls'', ov_ActiveCalls = field_int m ''active_calls'',
       ov_QueuedCalls = field_int m ''queued_calls'', ov_AbandonedCalls = field_int m ''abandoned_calls'',
       ov_AnsweredCalls = field_int m ''answered_calls'', ov_ServiceLevel20s = field_rat atof m ''service_level_20s'',
       ov_AvgWaitSec = field_rat atof m ''avg_wait_sec'', ov_AvgTalkSec = field_rat atof m ''avg_talk_sec'',
       ov_AgentsOnline = field_int m ''agents_online'', ov_AgentsIdle = field_int m ''agents_idle'',
       ov_AgentsTalking = field_int m ''agents_talking'', ov_AgentsACW = field_int m ''agents_acw'',
       ov_AgentsBreak = field_int m ''agents_break'', ov_AgentsDialing = field_int m ''agents_dialing'',
       ov_LongestWaitSec = field_int m ''longest_wait_sec'', ov_GeneratedAt = later\<rparr>"
    if "m = (if later < now + 5 * 60 * second then ?m else Map.empty)" for m
    using assms(5) stored unfolding that
    by (auto simp: GetOverview_def on_dash_def dash_hash_def Let_def split: list.splits if_splits)
  show ?thesis
  proof (cases "later < now + 5 * 60 * second")
    case True
    then have m: "?m = (if later < now + 5 * 60 * second then ?m else Map.empty)" by simp
    have "o2 = o1\<lparr>ov_GeneratedAt := later\<rparr>"
      unfolding o2 [OF m] using assms(1,3)
      by (simp add: field_int_def field_rat_def overview_fields_def parse_value_itoa overview_fits_def)
    with True show ?thesis by simp
  next
    case False
    then have m: "Map.empty = (if later < now + 5 * 60 * second then ?m else Map.empty)" by simp
    show ?thesis
      using False assms(2) unfolding o2 [OF m] by (simp add: field_int_def field_rat_def parse_value_def)
  qed
qed

section \<open>A refresh\<close>

lemma sel_all_outcome:
  "sel_all P t = (r, t') \<Longrightarrow> lrows t' = lrows t \<and> (r = Inr (filter P (lrows t)) \<or> (\<exists>e. r = Inl e))"
  by (auto simp: sel_all_def on_link_def split: list.splits if_splits)

lemma CountToday_outcome:
  "CountTodayByTenant midnight tenant t = (r, t') \<Longrightarrow> lrows t' = lrows t \<and>
     (\<forall>n. r = Inr n \<longrightarrow> (let cs = filter (todays midnight tenant) (lrows t) in cs \<noteq> [] \<and> cc_total n = int (length cs) \<and>
        cc_inbound n = count_calls (\<lambda>c. c_Direction c = DirectionInbound) cs \<and> cc_outbound n = count_calls (\<lambda>c. c_Direction c = DirectionOutbound) cs \<and>
        cc_answered n = count_calls (\<lambda>c. c_AnsweredAt c \<noteq> None) cs \<and> cc_abandoned n = count_calls (\<lambda>c. c_HangupReason c = Some HangupAbandon) cs \<and>
        cc_active n = count_calls (\<lambda>c. c_Status c \<in> {CallStatusActive, CallStatusRinging}) cs \<and>
        cc_queued n = count_calls (\<lambda>c. c_Status c = CallStatusQueue) cs))"
  unfolding CountTodayByTenant_def
  by (cases "sel_all (todays midnight tenant) t")
    (auto simp: act_simps Let_def dest!: sel_all_outcome split: sum.splits if_splits)

text \<open>
  A refresh that succeeds stores a snapshot whose numbers agree with the rows it read: it counts every call of the
  day, those by direction, by answer and by state within them, every agent that is not offline is online and in exactly one of the states
  shown; the alarms raised are those of that snapshot. It never succeeds for a tenant without a call today, and a refresh that fails leaves the
  snapshot and the alarms as they were.
\<close>

theorem refresh_counts_agree:
  assumes "refreshTenant notifier ftoa now midnight tenant w = (r, w')"
  shows "(r \<noteq> Inr () \<longrightarrow> rd_hashes (dw_redis w') = rd_hashes (dw_redis w) \<and> dw_alarms w' = dw_alarms w) \<and>
    (r = Inr () \<longrightarrow> (\<exists>o1 cs ps. cs = filter (todays midnight tenant) (lrows (dw_call_rows w)) \<and> cs \<noteq> [] \<and>
       ps = filter (\<lambda>p. p_TenantID p = tenant \<and> p_Status p \<noteq> PresenceOffline) (lrows (dw_presence_rows w)) \<and>
       rd_hashes (dw_redis w') = (rd_hashes (dw_redis w))(tenant \<mapsto> (map_of (overview_fields ftoa o1), now + 5 * 60 * second)) \<and>
       dw_alarms w' = dw_alarms w @ (if notifier then evaluateAlarms o1 else []) \<and>
       ov_TotalCallsToday o1 = int (length cs) \<and> ov_InboundCalls o1 + ov_OutboundCalls o1 \<le> ov_TotalCallsToday o1 \<and>
       ov_ActiveCalls o1 + ov_QueuedCalls o1 \<le> ov_TotalCallsToday o1 \<and> ov_AnsweredCalls o1 \<le> ov_TotalCallsToday o1 \<and>
       ov_AgentsOnline o1 = int (length ps) \<and>
       ov_AgentsOnline o1 = ov_AgentsIdle o1 + ov_AgentsTalking o1 + ov_AgentsACW o1 + ov_AgentsBreak o1 + ov_AgentsDialing o1))"
proof -
  obtain r1 t1 where c: "CountTodayByTenant midnight tenant (dw_call_rows w) = (r1, t1)" by fastforce
  obtain r2 t2 where p: "sel_all (\<lambda>p. p_TenantID p = tenant) (dw_presence_rows w) = (r2, t2)" by fastforce
  obtain r3 t3 where s: "SLATodayByTenant midnight tenant t1 = (r3, t3)" by fastforce
  note C = CountToday_outcome [OF c] and P = sel_all_outcome [OF p]
  show ?thesis
  proof (cases r1)
    case (Inl e)
    with assms c have "r = Inl e" "w' = w\<lparr>dw_call_rows := t1\<rparr>" by (auto simp: refreshTenant_def act_simps)
    then show ?thesis by simp
  next
    case (Inr n)
    note n = this
    show ?thesis
    proof (cases r2)
      case (Inl e)
      with assms c p n have "r = Inl e" "w' = w\<lparr>dw_call_rows := t1, dw_presence_rows := t2\<rparr>" by (auto simp: refreshTenant_def act_simps)
      then show ?thesis by simp
    next
      case (Inr ps)
      let ?o = "overview_of now tenant n (foldl count_presence presence_zero ps) (case r3 of Inl _ \<Rightarrow> sla_zero | Inr s \<Rightarrow> s)"
      obtain r4 d where u: "UpdateOverview ftoa now ?o (dw_redis w) = (r4, d)" by fastforce
      then have d: "(r4 = Inr () \<and> rd_hashes d = (rd_hashes (dw_redis w))(tenant \<mapsto> (map_of (overview_fields ftoa ?o), now + 5 * 60 * second))) \<or>
          ((\<exists>e. r4 = Inl e) \<and> rd_hashes d = rd_hashes (dw_redis w))"
        by (auto simp: UpdateOverview_def on_dash_def overview_of_def split: list.splits if_splits)
      from assms c p s u n Inr have run: "r = r4" "dw_redis w' = d" "dw_alarms w' = dw_alarms w @ (if r4 = Inr () \<and> notifier then evaluateAlarms ?o else [])"
        by (auto simp: refreshTenant_def act_simps when_a_def Let_def split: sum.splits if_splits)
      let ?cs = "filter (todays midnight tenant) (lrows (dw_call_rows w))"
      from C n have cs: "?cs \<noteq> []" "cc_total n = int (length ?cs)"
        "cc_inbound n = count_calls (\<lambda>c. c_Direction c = DirectionInbound) ?cs" "cc_outbound n = count_calls (\<lambda>c. c_Direction c = DirectionOutbound) ?cs"
        "cc_answered n = count_calls (\<lambda>c. c_AnsweredAt c \<noteq> None) ?cs"
        "cc_active n = count_calls (\<lambda>c. c_Status c \<in> {CallStatusActive, CallStatusRinging}) ?cs"
        "cc_queued n = count_calls (\<lambda>c. c_Status c = CallStatusQueue) ?cs" by (auto simp: Let_def)
      have d1: "length (filter (\<lambda>c. c_Direction c = DirectionInbound) ?cs) + length (filter (\<lambda>c. c_Direction c = DirectionOutbound) ?cs) \<le> length ?cs"
        by (rule filter_disjoint) simp
      have d2: "length (filter (\<lambda>c. c_Status c \<in> {CallStatusActive, CallStatusRinging}) ?cs) + length (filter (\<lambda>c. c_Status c = CallStatusQueue) ?cs) \<le> length ?cs"
        by (rule filter_disjoint) auto
      have le: "cc_inbound n + cc_outbound n \<le> cc_total n" "cc_active n + cc_queued n \<le> cc_total n" "cc_answered n \<le> cc_total n"
        unfolding cs count_calls_def
        using d1 d2 length_filter_le [of "\<lambda>c. c_AnsweredAt c \<noteq> None" ?cs] by linarith+
      have "ps = filter (\<lambda>p. p_TenantID p = tenant) (lrows (dw_presence_rows w))" using P Inr by auto
      with presence_counts_add [of presence_zero ps]
      have pres: "pc_online (foldl count_presence presence_zero ps) =
          int (length (filter (\<lambda>p. p_TenantID p = tenant \<and> p_Status p \<noteq> PresenceOffline) (lrows (dw_presence_rows w))))"
        "let n' = foldl count_presence presence_zero ps in pc_online n' = pc_idle n' + pc_talking n' + pc_acw n' + pc_break n' + pc_dialing n'"
        by (auto simp: Let_def presence_zero_def conj_commute)
      show ?thesis
        using d run cs le pres by (auto simp: overview_of_def Let_def intro!: exI [of _ ?o])
    qed
  qed
qed

text \<open>Outbound calls count as answered in time but not as offered: the service level is not bounded by 100.\<close>

lemma service_level_over_100:
  "SLATodayByTenant 0 7 \<lparr>lrows = [call_zero\<lparr>c_ID := 1, c_TenantID := 7, c_Direction := DirectionInbound, c_AnsweredAt := Some 1\<rparr>,
       call_zero\<lparr>c_ID := 2, c_TenantID := 7, c_Direction := DirectionOutbound, c_AnsweredAt := Some 1\<rparr>], loutages = []\<rparr> = (Inr s, t') \<Longrightarrow>
   CalculateServiceLevel20s (sl_within20 s) (sl_offered s) = 200"
  by (auto simp: SLATodayByTenant_def act_simps todays_def call_zero_def count_calls_def CalculateServiceLevel20s_def)

section \<open>Concrete snapshots\<close>

definition dash_world1 :: dash_world where
  "dash_world1 = \<lparr>dw_call_rows = \<lparr>lrows = [call_zero\<lparr>c_ID := 1, c_TenantID := 7, c_Direction := DirectionInbound, c_StartedAt := 50\<rparr>], loutages = []\<rparr>,
     dw_presence_rows = \<lparr>lrows = [], loutages = []\<rparr>, dw_redis = \<lparr>rd_hashes = Map.empty, rd_up = []\<rparr>, dw_alarms = []\<rparr>"

theorem refresh_counts_agree_witness:
  "\<exists>w' o1. refreshTenant True (\<lambda>_. ''0'') 100 40 7 dash_world1 = (Inr (), w') \<and> ov_TotalCallsToday o1 = 1 \<and>
     rd_hashes (dw_redis w') 7 = Some (map_of (overview_fields (\<lambda>_. ''0'') o1), 100 + 5 * 60 * second)"
proof -
  obtain w' where run: "refreshTenant True (\<lambda>_. ''0'') 100 40 7 dash_world1 = (Inr (), w')"
    by (auto simp: refreshTenant_def CountTodayByTenant_def SLATodayByTenant_def UpdateOverview_def on_dash_def act_simps dash_world1_def todays_def
        call_zero_def when_a_def Let_def)
  from refresh_counts_agree [OF run] obtain o1 where
    "ov_TotalCallsToday o1 = int (length (filter (todays 40 7) (lrows (dw_call_rows dash_world1))))"
    "rd_hashes (dw_redis w') = (rd_hashes (dw_redis dash_world1))(7 \<mapsto> (map_of (overview_fields (\<lambda>_. ''0'') o1), 100 + 5 * 60 * second))" by auto
  with run show ?thesis by (intro exI conjI) (auto simp: dash_world1_def todays_def call_zero_def)
qed

definition overview1 :: overview where
  "overview1 = overview_of 5 7 \<lparr>cc_total = 3, cc_inbound = 2, cc_outbound = 1, cc_answered = 2, cc_abandoned = 0, cc_active = 1, cc_queued = 0\<rparr>
     presence_zero sla_zero"

theorem snapshot_round_trip_witness:
  "\<exists>r1 o2 r2. UpdateOverview (\<lambda>x. replicate (Suc (to_nat x)) CHR ''i'') 5 overview1 \<lparr>rd_hashes = Map.empty, rd_up = []\<rparr> = (Inr (), r1) \<and>
     GetOverview (\<lambda>s. if s = [] then 0 else from_nat (length s - 1)) 9 7 r1 = (Inr o2, r2) \<and> o2 = overview1\<lparr>ov_GeneratedAt := 9\<rparr>"
proof -
  let ?ftoa = "\<lambda>x :: rat. replicate (Suc (to_nat x)) CHR ''i''" and ?atof = "\<lambda>s. if s = [] then 0 else from_nat (length s - 1) :: rat"
  have law: "?atof (?ftoa x) = x" for x by simp
  have fits: "overview_fits overview1" and tenant: "ov_TenantID overview1 = 7"
    by (simp_all add: overview_fits_def overview1_def overview_of_def presence_zero_def sla_zero_def int64_def)
  obtain r1 where up: "UpdateOverview ?ftoa 5 overview1 \<lparr>rd_hashes = Map.empty, rd_up = []\<rparr> = (Inr (), r1)" and "rd_up r1 = []"
    by (auto simp: UpdateOverview_def on_dash_def)
  moreover obtain o2 r2 where get: "GetOverview ?atof 9 (ov_TenantID overview1) r1 = (Inr o2, r2)"
    using \<open>rd_up r1 = []\<close> by (auto simp: GetOverview_def on_dash_def Let_def)
  ultimately show ?thesis
    using snapshot_round_trip [OF law _ fits up get] tenant by (simp add: second_def)
qed

end
