(* ===== verification/CallList.thy ===== *)
theory CallList
  imports CallEntity GoStrings
begin

text \<open>
  The lists of calls: the filters and the two kinds of pages of \<open>internal/infrastructure/mysql/call_repo.go\<close>, the
  parameters of a request (\<open>pkg/pagination\<close>), and the handlers \<open>List\<close>, \<open>ListCursor\<close> and \<open>Export\<close> of
  \<open>interfaces/http/handler/call.go\<close>.
\<close>

section \<open>The parameters of a page\<close>

text \<open>A request's query: the value of a parameter, empty when it is absent.\<close>

type_synonym query = "string \<Rightarrow> string"

definition ParseLimitOffset :: "query \<Rightarrow> int \<Rightarrow> int \<Rightarrow> int \<times> int" where
  "ParseLimitOffset q dflt mx =
     (let l0 = parse_value (q ''limit''); l1 = (if l0 \<le> 0 then dflt else l0); o0 = parse_value (q ''offset'')
      in (if mx < l1 then mx else l1, if o0 < 0 then 0 else o0))"

definition page_size :: "query \<Rightarrow> int" where
  "page_size q = (let n = parse_value (q ''page_size'') in if n < 1 \<or> 100 < n then 20 else n)"

text \<open>The page, its size and its offset.\<close>

definition ParsePage :: "query \<Rightarrow> int \<times> int \<times> int" where
  "ParsePage q = (let p0 = parse_value (q ''page''); p = (if p0 < 1 then 1 else p0)
     in (p, page_size q, wrap64 (wrap64 (p - 1) * page_size q)))"

definition ParseCursor :: "query \<Rightarrow> int \<times> int" where
  "ParseCursor q = (parse_value (q ''cursor''), page_size q)"

section \<open>Filters\<close>

fun call_status_str :: "CallStatus \<Rightarrow> string" where
  "call_status_str CallStatusIVR = ''ivr''"
| "call_status_str CallStatusQueue = ''queue''"
| "call_status_str CallStatusRinging = ''ringing''"
| "call_status_str CallStatusActive = ''active''"
| "call_status_str CallStatusHeld = ''held''"
| "call_status_str CallStatusConsulting = ''consulting''"
| "call_status_str CallStatusConference = ''conference''"
| "call_status_str CallStatusCompleted = ''completed''"
| "call_status_str CallStatusAbandoned = ''abandoned''"
| "call_status_str CallStatusFailed = ''failed''"

record call_filter =
  cf_Direction :: "string option"
  cf_CallType :: "string option"
  cf_MediaType :: "string option"
  cf_Status :: "string option"
  cf_Caller :: string
  cf_Callee :: string
  cf_StartFrom :: "gotime option"
  cf_StartTo :: "gotime option"

text \<open>\<open>LIKE\<close>: a percent sign stands for any text, an underscore for any character, a backslash quotes the next one.\<close>

fun sql_like :: "string \<Rightarrow> string \<Rightarrow> bool" where
  "sql_like [] s = (s = [])"
| "sql_like (p # ps) [] = (p = CHR ''%'' \<and> sql_like ps [])"
| "sql_like (p # ps) (c # cs) =
     (if p = CHR ''%'' then sql_like ps (c # cs) \<or> sql_like (p # ps) cs
      else if p = CHR ''_'' then sql_like ps cs
      else if p = CHR 0x5C then (case ps of [] \<Rightarrow> c = p \<and> cs = [] | q # qs \<Rightarrow> c = q \<and> sql_like qs cs)
      else c = p \<and> sql_like ps cs)"

definition like_part :: "string \<Rightarrow> string \<Rightarrow> bool" where
  "like_part x s \<longleftrightarrow> x = [] \<or> sql_like (CHR ''%'' # x @ ''%'') s"

definition asked :: "'a option \<Rightarrow> 'a \<Rightarrow> bool" where
  "asked q v \<longleftrightarrow> (case q of None \<Rightarrow> True | Some x \<Rightarrow> v = x)"

definition call_matches :: "int \<Rightarrow> call_filter \<Rightarrow> call \<Rightarrow> bool" where
  "call_matches tenant f c \<longleftrightarrow> c_TenantID c = tenant \<and> asked (cf_Direction f) (c_Direction c) \<and> asked (cf_CallType f) (c_CallType c) \<and>
     asked (cf_MediaType f) (c_MediaType c) \<and> asked (cf_Status f) (call_status_str (c_Status c)) \<and>
     like_part (cf_Caller f) (c_Caller c) \<and> like_part (cf_Callee f) (c_Callee c) \<and>
     (case cf_StartFrom f of None \<Rightarrow> True | Some t \<Rightarrow> t \<le> c_StartedAt c) \<and>
     (case cf_StartTo f of None \<Rightarrow> True | Some t \<Rightarrow> c_StartedAt c \<le> t)"

section \<open>The two list statements\<close>

text \<open>
  \<open>ORDER BY started_at DESC LIMIT ? OFFSET ?\<close> after a count whose error is dropped; \<open>latest_first\<close> is the order the
  database finds, which calls that started together leave open.
\<close>

definition ListWithFilter ::
  "(call list \<Rightarrow> call list) \<Rightarrow> int \<Rightarrow> call_filter \<Rightarrow> int \<Rightarrow> int \<Rightarrow> (call ltable, string, call list \<times> int) act" where
  "ListWithFilter latest_first tenant f offset limit =
     try_a (sel_all (call_matches tenant f)) (\<lambda>r.
       let total = (case r of Inl _ \<Rightarrow> 0 | Inr cs \<Rightarrow> int (length cs))
       in bind_a (sel_all (call_matches tenant f)) (\<lambda>cs. ret_a (take (nat limit) (drop (nat offset) (latest_first cs)), total)))"

text \<open>\<open>WHERE id < ? ... ORDER BY id DESC LIMIT ?\<close>\<close>

definition ListWithCursor :: "int \<Rightarrow> call_filter \<Rightarrow> int \<Rightarrow> int \<Rightarrow> (call ltable, string, call list) act" where
  "ListWithCursor tenant f cursor limit =
     bind_a (sel_all (\<lambda>c. call_matches tenant f c \<and> (0 < cursor \<longrightarrow> c_ID c < cursor)))
       (\<lambda>cs. ret_a (take (nat limit) (rev (sort_key c_ID cs))))"

section \<open>The handlers\<close>

text \<open>\<open>rfc\<close>: \<open>time.Parse(time.RFC3339, _)\<close>.\<close>

definition some_param :: "query \<Rightarrow> string \<Rightarrow> string option" where
  "some_param q k = (if q k = [] then None else Some (q k))"

definition time_param :: "(string \<Rightarrow> gotime option) \<Rightarrow> query \<Rightarrow> string \<Rightarrow> gotime option" where
  "time_param rfc q k = (if q k = [] then None else rfc (q k))"

definition list_filter :: "(string \<Rightarrow> gotime option) \<Rightarrow> query \<Rightarrow> call_filter" where
  "list_filter rfc q = \<lparr>cf_Direction = some_param q ''direction'', cf_CallType = some_param q ''call_type'',
     cf_MediaType = some_param q ''media_type'', cf_Status = some_param q ''status'', cf_Caller = q ''caller'', cf_Callee = q ''callee'',
     cf_StartFrom = time_param rfc q ''start_from'', cf_StartTo = time_param rfc q ''start_to''\<rparr>"

definition cursor_filter :: "(string \<Rightarrow> gotime option) \<Rightarrow> query \<Rightarrow> call_filter" where
  "cursor_filter rfc q = \<lparr>cf_Direction = some_param q ''direction'', cf_CallType = None,
     cf_MediaType = None, cf_Status = some_param q ''status'', cf_Caller = q ''caller'', cf_Callee = q ''callee'',
     cf_StartFrom = time_param rfc q ''start_from'', cf_StartTo = time_param rfc q ''start_to''\<rparr>"

definition export_filter :: "(string \<Rightarrow> gotime option) \<Rightarrow> query \<Rightarrow> call_filter" where
  "export_filter rfc q = \<lparr>cf_Direction = some_param q ''direction'', cf_CallType = some_param q ''call_type'',
     cf_MediaType = None, cf_Status = some_param q ''status'', cf_Caller = q ''caller'', cf_Callee = q ''callee'',
     cf_StartFrom = time_param rfc q ''start_from'', cf_StartTo = time_param rfc q ''start_to''\<rparr>"

definition ListCalls ::
  "(call list \<Rightarrow> call list) \<Rightarrow> (string \<Rightarrow> gotime option) \<Rightarrow> int \<Rightarrow> query \<Rightarrow> (call ltable, string, call list \<times> int) act" where
  "ListCalls latest_first rfc tenant q = (let (limit, offset) = ParseLimitOffset q 20 200
     in ListWithFilter latest_first tenant (list_filter rfc q) offset limit)"

text \<open>The answer: the calls and the next cursor, 0 when there is none.\<close>

definition ListCursor :: "(string \<Rightarrow> gotime option) \<Rightarrow> int \<Rightarrow> query \<Rightarrow> (call ltable, string, call list \<times> int) act" where
  "ListCursor rfc tenant q = (let (cursor, limit) = ParseCursor q
     in bind_a (ListWithCursor tenant (cursor_filter rfc q) cursor limit)
          (\<lambda>cs. ret_a (cs, if int (length cs) = limit then c_ID (last cs) else 0)))"

section \<open>CSV\<close>

text \<open>
  \<open>csv.Writer\<close> of the standard library: a field is quoted when it holds a comma, a quote, CR or LF, when it is the
  end-of-data mark of Postgres, or when it begins with white space (of Unicode, as its bytes in UTF-8).
\<close>

abbreviation DQ :: char where "DQ \<equiv> CHR 0x22"
abbreviation COMMA :: char where "COMMA \<equiv> CHR '',''"
abbreviation NL :: char where "NL \<equiv> CHR 0x0A"
abbreviation CRET :: char where "CRET \<equiv> CHR 0x0D"

definition csv_space :: "string \<Rightarrow> bool" where
  "csv_space s \<longleftrightarrow> (case map (\<lambda>c. of_char c :: nat) (take 3 s) of
       [] \<Rightarrow> False
     | a # bs \<Rightarrow> a \<in> {9, 10, 11, 12, 13, 32} \<or>
         (case bs of [] \<Rightarrow> False | b # cs \<Rightarrow> a = 0xC2 \<and> b \<in> {0x85, 0xA0} \<or>
           (case cs of [] \<Rightarrow> False | c # _ \<Rightarrow> a = 0xE1 \<and> b = 0x9A \<and> c = 0x80 \<or>
              a = 0xE2 \<and> b = 0x80 \<and> (0x80 \<le> c \<and> c \<le> 0x8A \<or> c \<in> {0xA8, 0xA9, 0xAF}) \<or>
              a = 0xE2 \<and> b = 0x81 \<and> c = 0x9F \<or> a = 0xE3 \<and> b = 0x80 \<and> c = 0x80)))"

definition fieldNeedsQuotes :: "string \<Rightarrow> bool" where
  "fieldNeedsQuotes s \<longleftrightarrow> s \<noteq> [] \<and> (s = [CHR 0x5C, CHR ''.''] \<or> (\<exists>c \<in> set s. c \<in> {NL, CRET, DQ, COMMA}) \<or> csv_space s)"

definition csv_field :: "string \<Rightarrow> string" where
  "csv_field s = (if fieldNeedsQuotes s then [DQ] @ concat (map (\<lambda>c. if c = DQ then [DQ, DQ] else [c]) s) @ [DQ] else s)"

fun csv_record :: "string list \<Rightarrow> string" where
  "csv_record [] = [NL]"
| "csv_record [f] = csv_field f @ [NL]"
| "csv_record (f # fs) = csv_field f @ [COMMA] @ csv_record fs"

definition csv_text :: "string list list \<Rightarrow> string" where
  "csv_text recs = concat (map csv_record recs)"

section \<open>Export\<close>

definition maxExportRows :: int where
  "maxExportRows = 10000"

definition utf8_bom :: string where
  "utf8_bom = [CHR 0xEF, CHR 0xBB, CHR 0xBF]"

definition export_header :: "string list" where
  "export_header = [''id'', ''direction'', ''call_type'', ''caller'', ''callee'', ''status'', ''agent_user_id'', ''skill_group_id'',
     ''started_at'', ''answered_at'', ''ended_at'', ''duration_sec'', ''ring_duration_sec'', ''queue_duration_sec'', ''hangup_reason'']"

text \<open>\<open>fmt\<close>: \<open>Format(time.RFC3339)\<close>.\<close>

definition or_blank :: "('a \<Rightarrow> string) \<Rightarrow> 'a option \<Rightarrow> string" where
  "or_blank g x = (case x of None \<Rightarrow> [] | Some v \<Rightarrow> g v)"

definition export_row :: "(gotime \<Rightarrow> string) \<Rightarrow> call \<Rightarrow> string list" where
  "export_row fmt c = [itoa (c_ID c), c_Direction c, c_CallType c, c_Caller c, c_Callee c, call_status_str (c_Status c),
     or_blank itoa (c_AgentUserID c), or_blank itoa (c_SkillGroupID c), fmt (c_StartedAt c), or_blank fmt (c_AnsweredAt c),
     or_blank fmt (c_EndedAt c), itoa (c_DurationSec c), itoa (c_RingDurationSec c), itoa (c_QueueDurationSec c),
     or_blank hangup_reason_str (c_HangupReason c)]"

definition ExportCalls ::
  "(call list \<Rightarrow> call list) \<Rightarrow> (string \<Rightarrow> gotime option) \<Rightarrow> (gotime \<Rightarrow> string) \<Rightarrow> int \<Rightarrow> query \<Rightarrow> (call ltable, string, string) act" where
  "ExportCalls latest_first rfc fmt tenant q =
     bind_a (ListWithFilter latest_first tenant (export_filter rfc q) 0 maxExportRows)
       (\<lambda>(cs, total). ret_a (utf8_bom @ csv_text (export_header # map (export_row fmt) cs)))"

end
