(* ===== verification/CallListProps.thy ===== *)
theory CallListProps
  imports CallList "HOL-Library.Sublist"
begin

text \<open>
  Paging through the calls by cursor, the text of an export read back, and what the filters select.
\<close>

section \<open>Pages\<close>

text \<open>A client that asks for page after page until the next cursor is 0; \<open>T i\<close> is the table at request \<open>i\<close>.\<close>

fun cursor_pages ::
  "nat \<Rightarrow> (string \<Rightarrow> gotime option) \<Rightarrow> int \<Rightarrow> query \<Rightarrow> (nat \<Rightarrow> call ltable) \<Rightarrow> call list option" where
  "cursor_pages 0 rfc tenant q T = None"
| "cursor_pages (Suc n) rfc tenant q T = (case fst (ListCursor rfc tenant q (T 0)) of
       Inl _ \<Rightarrow> None
     | Inr (cs, nxt) \<Rightarrow> if nxt = 0 then Some cs
         else map_option (\<lambda>ds. cs @ ds) (cursor_pages n rfc tenant (q(''cursor'' := itoa nxt)) (\<lambda>i. T (Suc i))))"

definition by_id_down :: "call list \<Rightarrow> call list" where
  "by_id_down cs = rev (sort_key c_ID cs)"

lemma by_id_down_filter: "filter P (by_id_down cs) = by_id_down (filter P cs)"
  by (simp add: by_id_down_def filter_sort rev_filter [symmetric])

lemma sorted_by_id_down: "distinct (map c_ID cs) \<Longrightarrow> sorted_wrt (\<lambda>c d. c_ID d < c_ID c) (by_id_down cs)"
proof -
  assume d: "distinct (map c_ID cs)"
  have "distinct (map c_ID (sort_key c_ID cs))"
    using d by (metis distinct_map distinct_sort inj_on_def set_sort)
  then have "sorted_wrt (<) (map c_ID (sort_key c_ID cs))" by (simp add: strict_sorted_iff)
  then show ?thesis by (simp add: by_id_down_def sorted_wrt_rev sorted_wrt_map)
qed

lemma after_prefix:
  assumes "sorted_wrt (\<lambda>c d. c_ID d < c_ID c) xs" "take n xs \<noteq> []"
  shows "filter (\<lambda>c. c_ID c < c_ID (last (take n xs))) xs = drop n xs"
proof -
  let ?l = "last (take n xs)"
  have s: "sorted_wrt (\<lambda>c d. c_ID d < c_ID c) (take n xs @ drop n xs)" using assms(1) by simp
  obtain ys where t: "take n xs = ys @ [?l]" using assms(2) by (metis append_butlast_last_id)
  have "filter (\<lambda>c. c_ID c < c_ID ?l) (take n xs) = []"
  proof (rule filter_False, rule ballI)
    fix c assume c: "c \<in> set (take n xs)"
    have "sorted_wrt (\<lambda>c d. c_ID d < c_ID c) (ys @ [?l])" using s t by (simp add: sorted_wrt_append)
    moreover have "c \<in> set ys \<or> c = ?l" using c t by (metis Un_iff empty_iff empty_set set_ConsD set_append)
    ultimately show "\<not> c_ID c < c_ID ?l" by (auto simp: sorted_wrt_append)
  qed
  moreover have "filter (\<lambda>c. c_ID c < c_ID ?l) (drop n xs) = drop n xs"
  proof (rule filter_True, rule ballI)
    fix c assume c: "c \<in> set (drop n xs)"
    have "?l \<in> set (take n xs)" using assms(2) by (rule last_in_set)
    with s c show "c_ID c < c_ID ?l" unfolding sorted_wrt_append by blast
  qed
  ultimately show ?thesis by (metis append_Nil append_take_drop_id filter_append)
qed

lemma ListCursor_page:
  assumes "loutages t = []" "parse_value (q ''cursor'') = k"
  shows "fst (ListCursor rfc tenant q t) =
    (let cs = take (nat (page_size q)) (by_id_down (filter (\<lambda>c. call_matches tenant (cursor_filter rfc q) c \<and> (0 < k \<longrightarrow> c_ID c < k)) (lrows t)))
     in Inr (cs, if int (length cs) = page_size q then c_ID (last cs) else 0))"
  using assms by (simp add: ListCursor_def ParseCursor_def ListWithCursor_def by_id_down_def act_simps lsql_defs Let_def)

lemma cursor_filter_next [simp]: "cursor_filter rfc (q(''cursor'' := s)) = cursor_filter rfc q"
  by (simp add: cursor_filter_def some_param_def time_param_def)

lemma page_size_next [simp]: "page_size (q(''cursor'' := s)) = page_size q"
  by (simp add: page_size_def)

lemma page_size_pos: "1 \<le> page_size q"
  by (simp add: page_size_def Let_def)

text \<open>
  The rows the requests find: every statement answers, ids are unique in a table (they are its primary key), and all that are ever
  in use lie in the finite set \<open>A\<close>. Rows may come, change and go between two requests.
\<close>

definition pages_table :: "int set \<Rightarrow> (nat \<Rightarrow> call ltable) \<Rightarrow> bool" where
  "pages_table A T \<longleftrightarrow> finite A \<and> (\<forall>a \<in> A. 0 < a \<and> a < 2 ^ 63) \<and>
     (\<forall>i. loutages (T i) = [] \<and> distinct (map c_ID (lrows (T i))) \<and> c_ID ` set (lrows (T i)) \<subseteq> A)"

definition below :: "int \<Rightarrow> int \<Rightarrow> bool" where
  "below k a \<longleftrightarrow> (0 < k \<longrightarrow> a < k)"

definition shown :: "int \<Rightarrow> call_filter \<Rightarrow> int \<Rightarrow> call ltable \<Rightarrow> call list" where
  "shown tenant f k t = filter (\<lambda>c. call_matches tenant f c \<and> below k (c_ID c)) (lrows t)"

lemma pages_table_next: "pages_table A T \<Longrightarrow> pages_table A (\<lambda>i. T (Suc i))"
  by (simp add: pages_table_def)

lemma set_by_id_down [simp]: "set (by_id_down cs) = set cs"
  by (simp add: by_id_down_def)

lemma sorted_shown: "pages_table A T \<Longrightarrow> sorted_wrt (\<lambda>c d. c_ID d < c_ID c) (by_id_down (shown tenant f k (T i)))"
  by (intro sorted_by_id_down) (simp add: pages_table_def shown_def distinct_map_filter)

lemma full_page_ids:
  assumes "sorted_wrt (\<lambda>c d. c_ID d < c_ID c) xs" "c_ID ` set xs \<subseteq> {a \<in> A. below k a}" "finite A"
    and "length (take l xs) = l" "take l xs \<noteq> []" "0 < c_ID (last (take l xs))" "below k (c_ID (last (take l xs)))"
  shows "card {a \<in> A. below (c_ID (last (take l xs))) a} + l \<le> card {a \<in> A. below k a}"
proof -
  let ?e = "c_ID (last (take l xs))"
  have s: "sorted_wrt (\<lambda>c d. c_ID d < c_ID c) (take l xs)" using assms(1) by (rule sorted_wrt_take)
  then have "sorted_wrt (>) (map c_ID (take l xs))" by (simp add: sorted_wrt_map)
  then have "distinct (map c_ID (take l xs))"
    by (metis distinct_rev sorted_wrt_rev rev_rev_ident strict_sorted_iff sorted_wrt_mono_rel)
  then have page: "card (c_ID ` set (take l xs)) = l"
    using assms(4) by (metis card_image distinct_map distinct_card length_map set_map)
  have low: "?e \<le> c_ID c" if "c \<in> set (take l xs)" for c
  proof -
    obtain ys where ys: "take l xs = ys @ [last (take l xs)]" using assms(5) by (metis append_butlast_last_id)
    with s have "sorted_wrt (\<lambda>c d. c_ID d < c_ID c) (ys @ [last (take l xs)])" by simp
    moreover have "c \<in> set ys \<or> c = last (take l xs)" using that ys by (metis Un_iff empty_iff empty_set set_ConsD set_append)
    ultimately show ?thesis by (auto simp: sorted_wrt_append)
  qed
  have "{a \<in> A. below ?e a} \<inter> c_ID ` set (take l xs) = {}" using low assms(6) by (force simp: below_def)
  moreover have "{a \<in> A. below ?e a} \<union> c_ID ` set (take l xs) \<subseteq> {a \<in> A. below k a}"
    using assms(2,6,7) set_take_subset [of l xs] by (fastforce simp: below_def)
  ultimately show ?thesis
    using card_Un_disjoint [of "{a \<in> A. below ?e a}" "c_ID ` set (take l xs)"] assms(3) page
      card_mono [of "{a \<in> A. below k a}" "{a \<in> A. below ?e a} \<union> c_ID ` set (take l xs)"] by simp
qed

text \<open>The pages from a cursor on; a cursor of 0 is none.\<close>

lemma pages_from:
  assumes "pages_table A T" "parse_value (q ''cursor'') = k" "f = cursor_filter rfc q"
    and "card {a \<in> A. below k a} < n * nat (page_size q)"
  shows "\<exists>cs. cursor_pages n rfc tenant q T = Some cs \<and> sorted_wrt (\<lambda>c d. c_ID d < c_ID c) cs \<and>
    (\<forall>c \<in> set cs. below k (c_ID c) \<and> (\<exists>i. c \<in> set (lrows (T i)) \<and> call_matches tenant f c)) \<and>
    (\<forall>a. below k a \<and> (\<forall>i. \<exists>c \<in> set (lrows (T i)). c_ID c = a \<and> call_matches tenant f c) \<longrightarrow> a \<in> c_ID ` set cs)"
  using assms
proof (induction n arbitrary: T q k)
  case (Suc n)
  let ?R = "by_id_down (shown tenant f k (T 0))" and ?l = "nat (page_size q)"
  have up: "loutages (T 0) = []" and fin: "finite A" using Suc.prems(1) by (simp_all add: pages_table_def)
  have page: "fst (ListCursor rfc tenant q (T 0)) =
      Inr (take ?l ?R, if int (length (take ?l ?R)) = page_size q then c_ID (last (take ?l ?R)) else 0)"
    using ListCursor_page [of "T 0" q k rfc tenant, OF up Suc.prems(2)] Suc.prems(3)
    by (simp add: Let_def shown_def below_def)
  note sorted = sorted_shown [OF Suc.prems(1), of tenant f k 0]
  have in_R: "c \<in> set ?R \<longleftrightarrow> c \<in> set (lrows (T 0)) \<and> call_matches tenant f c \<and> below k (c_ID c)" for c
    by (auto simp: shown_def)
  show ?case
  proof (cases "int (length (take ?l ?R)) = page_size q")
    case False
    with page_size_pos [of q] have "take ?l ?R = ?R" by (auto simp: nat_less_iff min_def split: if_splits)
    moreover from False page have "cursor_pages (Suc n) rfc tenant q T = Some (take ?l ?R)" by simp
    ultimately show ?thesis using sorted in_R by (intro exI [of _ ?R]) (auto, blast)
  next
    case True
    let ?e = "last (take ?l ?R)"
    have ne: "take ?l ?R \<noteq> []" using True page_size_pos [of q] by auto
    have len: "length (take ?l ?R) = ?l" using True page_size_pos [of q] by (metis nat_int)
    have "?e \<in> set ?R" using last_in_set [OF ne] in_set_takeD by fast
    then have e: "?e \<in> set (lrows (T 0))" "below k (c_ID ?e)" using in_R by blast+
    then have id: "0 < c_ID ?e" "c_ID ?e < 2 ^ 63" using Suc.prems(1) by (auto simp: pages_table_def)
    then have k: "parse_value (itoa (c_ID ?e)) = c_ID ?e" by (auto intro!: parse_value_itoa simp: int64_def)
    have "c_ID ` set (lrows (T 0)) \<subseteq> A" using Suc.prems(1) by (simp add: pages_table_def)
    then have "c_ID ` set ?R \<subseteq> {a \<in> A. below k a}" using in_R by blast
    from full_page_ids [OF sorted this fin len ne id(1) e(2)] Suc.prems(4)
    have less: "card {a \<in> A. below (c_ID ?e) a} < n * ?l" by simp
    obtain q' where q': "q' = q(''cursor'' := itoa (c_ID ?e))" by blast
    have q'_eqs: "f = cursor_filter rfc q'" "page_size q' = page_size q" "parse_value (q' ''cursor'') = c_ID ?e"
      by (simp_all add: q' Suc.prems(3) del: fun_upd_apply) (simp add: k [unfolded Suc.prems(3)])
    from Suc.IH [where q = q', OF pages_table_next [OF Suc.prems(1)] q'_eqs(3,1)] less
    obtain ds where ds: "cursor_pages n rfc tenant q' (\<lambda>i. T (Suc i)) = Some ds"
      "sorted_wrt (\<lambda>c d. c_ID d < c_ID c) ds"
      "\<And>c. c \<in> set ds \<Longrightarrow> below (c_ID ?e) (c_ID c) \<and> (\<exists>i. c \<in> set (lrows (T (Suc i))) \<and> call_matches tenant f c)"
      "\<And>a. below (c_ID ?e) a \<Longrightarrow> \<forall>i. \<exists>c \<in> set (lrows (T (Suc i))). c_ID c = a \<and> call_matches tenant f c \<Longrightarrow> a \<in> c_ID ` set ds"
      unfolding q'_eqs(2) by blast
    have run: "cursor_pages (Suc n) rfc tenant q T = Some (take ?l ?R @ ds)"
      using page True id(1) ds(1) by (simp add: q')
    have sorted_take: "sorted_wrt (\<lambda>c d. c_ID d < c_ID c) (take ?l ?R)" using sorted by (rule sorted_wrt_take)
    have low: "c_ID ?e \<le> c_ID c" if "c \<in> set (take ?l ?R)" for c
    proof -
      obtain ys where ys: "take ?l ?R = ys @ [?e]" using ne by (metis append_butlast_last_id)
      with sorted_take have "sorted_wrt (\<lambda>c d. c_ID d < c_ID c) (ys @ [?e])" by simp
      moreover have "c \<in> set ys \<or> c = ?e" using that ys by (metis Un_iff empty_iff empty_set set_ConsD set_append)
      ultimately show ?thesis by (auto simp: sorted_wrt_append)
    qed
    have "c_ID d < c_ID c" if "c \<in> set (take ?l ?R)" "d \<in> set ds" for c d
      using low [OF that(1)] ds(3) [OF that(2)] id(1) by (auto simp: below_def)
    with sorted_take ds(2) have "sorted_wrt (\<lambda>c d. c_ID d < c_ID c) (take ?l ?R @ ds)" by (simp add: sorted_wrt_append)
    moreover have "below k (c_ID c) \<and> (\<exists>i. c \<in> set (lrows (T i)) \<and> call_matches tenant f c)" if "c \<in> set (take ?l ?R @ ds)" for c
    proof (cases "c \<in> set ds")
      case True
      with ds(3) [of c] e(2) id(1) show ?thesis by (auto simp: below_def)
    next
      case False
      with that in_R [of c] in_set_takeD [of c ?l ?R] show ?thesis by auto
    qed
    moreover have "a \<in> c_ID ` set (take ?l ?R @ ds)"
      if a: "below k a" "\<forall>i. \<exists>c \<in> set (lrows (T i)). c_ID c = a \<and> call_matches tenant f c" for a
    proof (cases "a < c_ID ?e")
      case True
      with ds(4) [of a] a(2) show ?thesis by (auto simp: below_def)
    next
      case False
      from a obtain c where c: "c \<in> set ?R" "c_ID c = a" using in_R by blast
      have "c \<notin> set (drop ?l ?R)"
      proof
        assume "c \<in> set (drop ?l ?R)"
        then have "c \<in> set (filter (\<lambda>c. c_ID c < c_ID ?e) ?R)" unfolding after_prefix [OF sorted ne] .
        with False c(2) show False by simp
      qed
      with c(1) have "c \<in> set (take ?l ?R)" by (metis Un_iff append_take_drop_id set_append)
      with c(2) show ?thesis by auto
    qed
    ultimately show ?thesis using run by blast
  qed
qed simp

text \<open>
  C40. A client follows the cursors while calls are created, change and disappear, with new ids larger or smaller than the old ones.
  If every query answers, it comes to an end, and what it gets is in strictly falling order of the ids, so that no call
  comes twice; every call it gets matched the filter when its page was read, and every id whose call is in the table and matches the
  filter at every request is among them.
\<close>

theorem cursor_pages_complete:
  assumes "pages_table A T" "q ''cursor'' = []" "card A < n * nat (page_size q)"
  shows "\<exists>cs. cursor_pages n rfc tenant q T = Some cs \<and> sorted_wrt (\<lambda>c d. c_ID d < c_ID c) cs \<and>
    (\<forall>c \<in> set cs. \<exists>i. c \<in> set (lrows (T i)) \<and> call_matches tenant (cursor_filter rfc q) c) \<and>
    (\<forall>a. (\<forall>i. \<exists>c \<in> set (lrows (T i)). c_ID c = a \<and> call_matches tenant (cursor_filter rfc q) c) \<longrightarrow> a \<in> c_ID ` set cs)"
proof -
  have "parse_value (q ''cursor'') = 0" using assms(2) by (simp add: parse_value_def)
  from pages_from [where q = q and k = 0 and f = "cursor_filter rfc q" and n = n and tenant = tenant, OF assms(1) this refl] assms(3) show ?thesis by (simp add: below_def)
qed

section \<open>Reading an export back\<close>

text \<open>A reader of CSV after RFC 4180: the state, the field and the record read so far, and the text.\<close>

datatype csv_mode = CsvStart | CsvPlain | CsvQuoted | CsvClosed

fun csv_read :: "csv_mode \<Rightarrow> string \<Rightarrow> string list \<Rightarrow> string \<Rightarrow> string list list" where
  "csv_read m f r [] = (if m = CsvStart \<and> r = [] then [] else [r @ [f]])"
| "csv_read m f r (c # cs) =
     (if m = CsvQuoted then (if c = DQ then csv_read CsvClosed f r cs else csv_read CsvQuoted (f @ [c]) r cs)
      else if c = COMMA then csv_read CsvStart [] (r @ [f]) cs
      else if c = NL then (r @ [f]) # csv_read CsvStart [] [] cs
      else if c = DQ \<and> m = CsvStart then csv_read CsvQuoted [] r cs
      else if c = DQ \<and> m = CsvClosed then csv_read CsvQuoted (f @ [DQ]) r cs
      else csv_read CsvPlain (f @ [c]) r cs)"

definition csv_quote :: "string \<Rightarrow> string" where
  "csv_quote s = concat (map (\<lambda>c. if c = DQ then [DQ, DQ] else [c]) s)"

lemma read_quoted: "csv_read CsvQuoted f r (csv_quote s @ DQ # cs) = csv_read CsvClosed (f @ s) r cs"
  by (induction s arbitrary: f) (auto simp: csv_quote_def)

lemma read_plain:
  "\<forall>c \<in> set s. c \<notin> {NL, DQ, COMMA} \<Longrightarrow> csv_read CsvPlain f r (s @ cs) = csv_read CsvPlain (f @ s) r cs"
  by (induction s arbitrary: f) auto

text \<open>A field is read back when what follows ends it.\<close>

lemma read_field:
  assumes "c = COMMA \<or> c = NL"
  shows "csv_read CsvStart [] r (csv_field s @ c # cs) = csv_read CsvPlain s r (c # cs)"
proof (cases "fieldNeedsQuotes s")
  case True
  then have "csv_field s @ c # cs = DQ # csv_quote s @ DQ # c # cs" by (simp add: csv_field_def csv_quote_def)
  then have "csv_read CsvStart [] r (csv_field s @ c # cs) = csv_read CsvClosed s r (c # cs)"
    using read_quoted [of "[]" r s "c # cs"] by simp
  with assms show ?thesis by auto
next
  case False
  then have plain: "csv_field s = s" "\<forall>x \<in> set s. x \<notin> {NL, DQ, COMMA}"
    by (auto simp: csv_field_def fieldNeedsQuotes_def)
  show ?thesis
  proof (cases s)
    case Nil
    with plain(1) assms show ?thesis by auto
  next
    case (Cons x xs)
    with plain(2) have "csv_read CsvStart [] r (s @ c # cs) = csv_read CsvPlain [x] r (xs @ c # cs)" by simp
    with plain Cons read_plain [of xs "[x]" r "c # cs"] show ?thesis by simp
  qed
qed

lemma read_record:
  assumes "fs \<noteq> []"
  shows "csv_read CsvStart [] r (csv_record fs @ cs) = (r @ fs) # csv_read CsvStart [] [] cs"
  using assms
proof (induction fs arbitrary: r rule: csv_record.induct)
  case (2 f)
  then show ?case using read_field [of NL r f cs] by simp
next
  case (3 f g fs)
  have "csv_read CsvStart [] r (csv_record (f # g # fs) @ cs) = csv_read CsvPlain f r (COMMA # csv_record (g # fs) @ cs)"
    using read_field [of COMMA r f "csv_record (g # fs) @ cs"] by simp
  with "3.IH" [of "r @ [f]"] show ?case by simp
qed simp

lemma csv_text_read:
  assumes "\<forall>fs \<in> set recs. fs \<noteq> []"
  shows "csv_read CsvStart [] [] (csv_text recs) = recs"
  using assms by (induction recs) (simp_all add: csv_text_def read_record)

text \<open>
  C25. An export that succeeds is the byte order mark and a text that a reader of CSV turns back into the header and one record for each of the first 10000
  calls that match, field by field, whatever characters the numbers and texts of the calls hold.
\<close>

theorem export_reads_back:
  assumes "fst (ExportCalls latest_first rfc fmt tenant q t) = Inr out" and "loutages t = []"
  shows "take 3 out = utf8_bom \<and>
    csv_read CsvStart [] [] (drop 3 out) = export_header #
      map (export_row fmt) (take 10000 (latest_first (filter (call_matches tenant (export_filter rfc q)) (lrows t))))"
proof -
  let ?cs = "take 10000 (latest_first (filter (call_matches tenant (export_filter rfc q)) (lrows t)))"
  have out: "out = utf8_bom @ csv_text (export_header # map (export_row fmt) ?cs)"
    using assms by (auto simp: ExportCalls_def ListWithFilter_def act_simps lsql_defs maxExportRows_def)
  have "\<forall>fs \<in> set (export_header # map (export_row fmt) ?cs). fs \<noteq> []"
    by (auto simp: export_header_def export_row_def)
  from csv_text_read [OF this] out show ?thesis by (simp add: utf8_bom_def)
qed

section \<open>Filters and offsets\<close>

lemma like_any: "sql_like (CHR ''%'' # ps) s \<longleftrightarrow> (\<exists>a b. s = a @ b \<and> sql_like ps b)"
  by (induction s) (auto simp: Cons_eq_append_conv)

lemma like_literal:
  "\<forall>c \<in> set x. c \<notin> {CHR ''%'', CHR ''_'', CHR 0x5C} \<Longrightarrow> sql_like (x @ ps) s \<longleftrightarrow> (\<exists>b. s = x @ b \<and> sql_like ps b)"
  proof (induction x arbitrary: s)
  case (Cons p x)
  from Cons.prems have p: "p \<noteq> CHR ''%''" "p \<noteq> CHR ''_''" "p \<noteq> CHR 0x5C" by simp_all
  from Cons.prems have IH: "sql_like (x @ ps) t \<longleftrightarrow> (\<exists>b. t = x @ b \<and> sql_like ps b)" for t by (intro Cons.IH) simp
  show ?case by (cases s) (simp_all add: p IH)
qed simp

text \<open>A text without wildcards is looked for as it is; one with a percent sign selects more than that.\<close>

lemma like_part_plain:
  assumes "\<forall>c \<in> set x. c \<notin> {CHR ''%'', CHR ''_'', CHR 0x5C}"
  shows "like_part x s \<longleftrightarrow> strings_Contains s x"
proof -
  have tail: "sql_like ''%'' b" for b by (induction b) simp_all
  show ?thesis
  proof (cases "x = []")
    case True
    then show ?thesis by (cases s) (simp_all add: like_part_def)
  next
    case False
    have "like_part x s \<longleftrightarrow> (\<exists>a b. s = a @ b \<and> (\<exists>t. b = x @ t))"
      unfolding like_part_def like_any like_literal [OF assms] using False tail by simp
    then show ?thesis unfolding Contains_iff by blast
  qed
qed

lemma like_part_wildcard: "like_part ''1_3'' ''1234'' \<and> \<not> strings_Contains ''1234'' ''1_3''"
  by (simp add: like_part_def)

lemma page_offset_wraps:
  assumes "parse_value (q ''page'') = 2 ^ 63 - 1" "parse_value (q ''page_size'') = 10"
  shows "ParsePage q = (2 ^ 63 - 1, 10, - 20)"
  using assms by (simp add: ParsePage_def page_size_def wrap64_def)

section \<open>Witnesses\<close>

definition listed_call :: "int \<Rightarrow> call" where
  "listed_call k = call_zero\<lparr>c_ID := k, c_TenantID := 7, c_Caller := ''a,b''\<rparr>"

definition call_tables :: "nat \<Rightarrow> call ltable" where
  "call_tables i = \<lparr>lrows = [listed_call 3, listed_call 1, listed_call 2] @ (if i = 0 then [] else [listed_call 9]), loutages = []\<rparr>"

definition page_query :: query where
  "page_query = (\<lambda>k. if k = ''page_size'' then itoa 2 else [])"

definition any_call :: call_filter where
  "any_call = \<lparr>cf_Direction = None, cf_CallType = None, cf_MediaType = None, cf_Status = None, cf_Caller = [], cf_Callee = [],
     cf_StartFrom = None, cf_StartTo = None\<rparr>"

lemma page_query_filter: "cursor_filter rfc page_query = any_call" "export_filter rfc (\<lambda>_. []) = any_call"
  by (simp_all add: cursor_filter_def export_filter_def some_param_def time_param_def any_call_def) (simp add: page_query_def)

lemma call_tables_match: "filter (call_matches 7 any_call) (lrows (call_tables 0)) = lrows (call_tables 0)"
  by (simp add: call_tables_def call_matches_def any_call_def asked_def like_part_def listed_call_def)

theorem cursor_pages_complete_witness:
  "\<exists>cs. cursor_pages 3 (\<lambda>_. None) 7 page_query call_tables = Some cs \<and> {1, 2, 3} \<subseteq> c_ID ` set cs \<and> distinct (map c_ID cs)"
proof -
  have size: "page_size page_query = 2" by (simp add: page_size_def page_query_def parse_value_itoa int64_def)
  have rows: "set (lrows (call_tables i)) \<supseteq> {listed_call 1, listed_call 2, listed_call 3}" for i by (auto simp: call_tables_def)
  have match: "call_matches 7 any_call (listed_call k)" for k
    by (simp add: call_matches_def any_call_def asked_def like_part_def listed_call_def)
  have id: "c_ID (listed_call k) = k" for k by (simp add: listed_call_def)
  have "pages_table {1, 2, 3, 9} call_tables" by (simp add: pages_table_def call_tables_def listed_call_def)
  moreover have "page_query ''cursor'' = []" by (simp add: page_query_def)
  moreover have "card {1, 2, 3, 9 :: int} < 3 * nat (page_size page_query)" by (simp add: size)
  ultimately obtain cs where cs: "cursor_pages 3 (\<lambda>_. None) 7 page_query call_tables = Some cs"
    "sorted_wrt (\<lambda>c d. c_ID d < c_ID c) cs"
    "\<And>a. \<forall>i. \<exists>c \<in> set (lrows (call_tables i)). c_ID c = a \<and> call_matches 7 any_call c \<Longrightarrow> a \<in> c_ID ` set cs"
    using cursor_pages_complete [of "{1, 2, 3, 9}" call_tables page_query 3 "\<lambda>_. None" 7] unfolding page_query_filter by blast
  have "a \<in> c_ID ` set cs" if "a \<in> {1, 2, 3}" for a
    by (rule cs(3), intro allI bexI [of _ "listed_call a"] conjI id match) (use rows that in blast)
  then have "{1, 2, 3} \<subseteq> c_ID ` set cs" by blast
  moreover have "sorted_wrt (>) (map c_ID cs)" using cs(2) by (simp add: sorted_wrt_map)
  then have "distinct (map c_ID cs)"
    by (metis distinct_rev sorted_wrt_rev rev_rev_ident strict_sorted_iff sorted_wrt_mono_rel)
  ultimately show ?thesis using cs(1) by blast
qed

theorem export_reads_back_witness:
  "csv_read CsvStart [] [] (drop 3 (utf8_bom @ csv_text (export_header # map (export_row itoa) (lrows (call_tables 0))))) =
     export_header # map (export_row itoa) (lrows (call_tables 0))"
proof -
  have m: "filter (call_matches 7 (export_filter (\<lambda>_. None) (\<lambda>_. []))) (lrows (call_tables 0)) = lrows (call_tables 0)"
    by (simp add: page_query_filter call_tables_match)
  have up: "loutages (call_tables 0) = []" by (simp add: call_tables_def)
  have few: "take 10000 (lrows (call_tables 0)) = lrows (call_tables 0)" by (simp add: call_tables_def)
  have "fst (ExportCalls (\<lambda>cs. cs) (\<lambda>_. None) itoa 7 (\<lambda>_. []) (call_tables 0)) =
      Inr (utf8_bom @ csv_text (export_header # map (export_row itoa) (lrows (call_tables 0))))"
    by (simp add: ExportCalls_def ListWithFilter_def act_simps lsql_defs up m few maxExportRows_def)
  from export_reads_back [OF this up] m few show ?thesis by simp
qed

end
