(* ===== verification/AdvancedAI.thy ===== *)
theory AdvancedAI
  imports Complex_Main Tables Decimal "HOL-Library.Signed_Division"
begin

text \<open>
  Conversation agents, voice profiles, batch analyses, training and the call-progress settings:
  \<open>internal/domain/ai/service_advanced.go\<close> and \<open>internal/application/advancedai/service.go\<close> over the statements of
  \<open>internal/infrastructure/mysql/advanced_ai_repo.go\<close>. What a model provider answers is an argument.
\<close>

section \<open>Entities\<close>

record comm_agent =
  ca_ID :: int
  ca_TenantID :: int
  ca_DigitalEmployeeID :: int
  ca_Name :: string
  ca_Mode :: string
  ca_SystemPrompt :: string
  ca_MaxTurns :: int
  ca_TransferSkillGroupID :: "int option"
  ca_LLMModelID :: "int option"
  ca_IsActive :: bool
  ca_CreatedAt :: gotime
  ca_UpdatedAt :: gotime

datatype agent_session_status = AgentSessionActive | AgentSessionCompleted | AgentSessionTransfer | AgentSessionFailed

record comm_session =
  cs_ID :: int
  cs_TenantID :: int
  cs_CommAgentID :: int
  cs_CallID :: int
  cs_Status :: agent_session_status
  cs_TurnCount :: int
  cs_Transcript :: string
  cs_Summary :: string
  cs_TransferredTo :: "int option"
  cs_StartedAt :: gotime
  cs_EndedAt :: "gotime option"

datatype voice_status = VoiceProfilePending | VoiceProfileTraining | VoiceProfileReady | VoiceProfileFailed

record voice_profile =
  vp_ID :: int
  vp_TenantID :: int
  vp_Name :: string
  vp_SampleAudioURL :: string
  vp_ProviderJobID :: string
  vp_ProviderVoiceID :: string
  vp_Status :: voice_status
  vp_Language :: string
  vp_CreatedAt :: gotime
  vp_UpdatedAt :: gotime

datatype analysis_status = AnalysisTaskPending | AnalysisTaskRunning | AnalysisTaskCompleted | AnalysisTaskFailed

record analysis_task =
  at_ID :: int
  at_TenantID :: int
  at_Name :: string
  at_Type :: string
  at_DateFrom :: string
  at_DateTo :: string
  at_TotalCalls :: int
  at_ProcessedCalls :: int
  at_Status :: analysis_status
  at_ResultJSON :: string
  at_CreatedAt :: gotime
  at_CompletedAt :: "gotime option"

datatype course_status = CourseStatusDraft | CourseStatusPublished | CourseStatusArchived

datatype exam_status = ExamStatusPending | ExamStatusPassed | ExamStatusFailed

record course =
  co_ID :: int
  co_TenantID :: int
  co_Title :: string
  co_Description :: string
  co_ContentJSON :: string
  co_PassScore :: int
  co_Status :: course_status
  co_CreatedAt :: gotime
  co_UpdatedAt :: gotime

record exam =
  ex_ID :: int
  ex_TenantID :: int
  ex_CourseID :: int
  ex_AgentID :: int
  ex_Score :: int
  ex_MaxScore :: int
  ex_Status :: exam_status
  ex_AnswersJSON :: string
  ex_CreatedAt :: gotime

record simulated_call =
  sm_ID :: int
  sm_TenantID :: int
  sm_AgentID :: int
  sm_ScenarioID :: int
  sm_Transcript :: string
  sm_AIFeedback :: string
  sm_Score :: int
  sm_DurationSec :: int
  sm_CreatedAt :: gotime

record ring_config =
  rc_ID :: int
  rc_TenantID :: int
  rc_Enabled :: bool
  rc_DetectionTimeoutMs :: int
  rc_HangUpOnVoicemail :: bool
  rc_HangUpOnFax :: bool
  rc_CreatedAt :: gotime
  rc_UpdatedAt :: gotime

record ring_log =
  rl_ID :: int
  rl_TenantID :: int
  rl_CallID :: int
  rl_Result :: string
  rl_Confidence :: rat
  rl_DurationMs :: int
  rl_CreatedAt :: gotime

record duplex_config =
  du_ID :: int
  du_TenantID :: int
  du_Enabled :: bool
  du_InterruptionEnabled :: bool
  du_SilenceThresholdMs :: int
  du_InterruptionSensitivity :: rat
  du_VoiceContinuity :: bool
  du_CreatedAt :: gotime
  du_UpdatedAt :: gotime

datatype adv_error = ErrCommAgentNameEmpty | ErrCommAgentPromptEmpty | ErrCommAgentMaxTurns | ErrSessionAlreadyEnded | ErrSessionMaxTurns
  | ErrVoiceProfileNameEmpty | ErrVoiceSampleURLEmpty | ErrAnalysisNameEmpty | ErrAnalysisDateRange | ErrCourseNameEmpty | ErrCoursePassScore
  | ErrFullDuplexSensitivity | ErrUnsupportedAnalysis string | ErrVoiceTraining string | ErrAdvProvider string | ErrAdvStore string

record adv_world =
  av_agents :: "comm_agent ltable"
  av_sessions :: "comm_session ltable"
  av_voices :: "voice_profile ltable"
  av_tasks :: "analysis_task ltable"
  av_courses :: "course ltable"
  av_exams :: "exam ltable"
  av_sims :: "simulated_call ltable"
  av_rings :: "ring_config ltable"
  av_ringlogs :: "ring_log ltable"
  av_duplex :: "duplex_config ltable"

type_synonym 'a vact = "(adv_world, adv_error, 'a) act"

abbreviation on_agents :: "(comm_agent ltable, string, 'a) act \<Rightarrow> 'a vact" where
  "on_agents m \<equiv> wrap_a ErrAdvStore (zoom_a av_agents (\<lambda>d w. w\<lparr>av_agents := d\<rparr>) m)"

abbreviation on_sessions :: "(comm_session ltable, string, 'a) act \<Rightarrow> 'a vact" where
  "on_sessions m \<equiv> wrap_a ErrAdvStore (zoom_a av_sessions (\<lambda>d w. w\<lparr>av_sessions := d\<rparr>) m)"

abbreviation on_voices :: "(voice_profile ltable, string, 'a) act \<Rightarrow> 'a vact" where
  "on_voices m \<equiv> wrap_a ErrAdvStore (zoom_a av_voices (\<lambda>d w. w\<lparr>av_voices := d\<rparr>) m)"

abbreviation on_tasks :: "(analysis_task ltable, string, 'a) act \<Rightarrow> 'a vact" where
  "on_tasks m \<equiv> wrap_a ErrAdvStore (zoom_a av_tasks (\<lambda>d w. w\<lparr>av_tasks := d\<rparr>) m)"

abbreviation on_courses :: "(course ltable, string, 'a) act \<Rightarrow> 'a vact" where
  "on_courses m \<equiv> wrap_a ErrAdvStore (zoom_a av_courses (\<lambda>d w. w\<lparr>av_courses := d\<rparr>) m)"

abbreviation on_exams :: "(exam ltable, string, 'a) act \<Rightarrow> 'a vact" where
  "on_exams m \<equiv> wrap_a ErrAdvStore (zoom_a av_exams (\<lambda>d w. w\<lparr>av_exams := d\<rparr>) m)"

text \<open>\<open>SELECT * ... WHERE ...\<close> into one row: no row is an error.\<close>

definition select_one :: "('r \<Rightarrow> bool) \<Rightarrow> ('r ltable, string, 'r) act" where
  "select_one P = bind_a (sel_all P) (\<lambda>rs. case rs of [] \<Rightarrow> throw_a ''sql: no rows in result set'' | r # _ \<Rightarrow> ret_a r)"

section \<open>Conversation agents\<close>

record comm_agent_input =
  ni2_TenantID :: int
  ni2_DigitalEmployeeID :: int
  ni2_Name :: string
  ni2_Mode :: string
  ni2_SystemPrompt :: string
  ni2_MaxTurns :: int
  ni2_TransferSkillGroupID :: "int option"
  ni2_LLMModelID :: "int option"

definition CreateCommAgent :: "gotime \<Rightarrow> int \<Rightarrow> comm_agent_input \<Rightarrow> comm_agent vact" where
  "CreateCommAgent now nid inp =
     (if ni2_Name inp = [] then throw_a ErrCommAgentNameEmpty
      else if ni2_SystemPrompt inp = [] then throw_a ErrCommAgentPromptEmpty
      else if ni2_MaxTurns inp < 1 \<or> 100 < ni2_MaxTurns inp then throw_a ErrCommAgentMaxTurns
      else let a = \<lparr>ca_ID = nid, ca_TenantID = ni2_TenantID inp, ca_DigitalEmployeeID = ni2_DigitalEmployeeID inp, ca_Name = ni2_Name inp,
             ca_Mode = (if ni2_Mode inp = [] then ''inbound'' else ni2_Mode inp), ca_SystemPrompt = ni2_SystemPrompt inp,
             ca_MaxTurns = ni2_MaxTurns inp, ca_TransferSkillGroupID = ni2_TransferSkillGroupID inp, ca_LLMModelID = ni2_LLMModelID inp,
             ca_IsActive = True, ca_CreatedAt = now, ca_UpdatedAt = now\<rparr>
        in seq_a (on_agents (ins_row ca_ID (\<lambda>x. x) a)) (ret_a a))"

definition GetCommAgent :: "int \<Rightarrow> int \<Rightarrow> comm_agent vact" where
  "GetCommAgent tenant k = on_agents (select_one (\<lambda>a. ca_TenantID a = tenant \<and> ca_ID a = k))"

definition DeleteCommAgent :: "int \<Rightarrow> int \<Rightarrow> unit vact" where
  "DeleteCommAgent tenant k = on_agents (on_link (\<lambda>t.
     (Inr (), t\<lparr>lrows := filter (\<lambda>a. \<not> (ca_TenantID a = tenant \<and> ca_ID a = k)) (lrows t)\<rparr>)))"

definition GetSession :: "int \<Rightarrow> int \<Rightarrow> comm_session vact" where
  "GetSession tenant k = on_sessions (select_one (\<lambda>s. cs_TenantID s = tenant \<and> cs_ID s = k))"

definition StartSession :: "gotime \<Rightarrow> int \<Rightarrow> int \<Rightarrow> int \<Rightarrow> int \<Rightarrow> comm_session vact" where
  "StartSession now nid tenant agent callID =
     (let s = \<lparr>cs_ID = nid, cs_TenantID = tenant, cs_CommAgentID = agent, cs_CallID = callID, cs_Status = AgentSessionActive, cs_TurnCount = 0,
          cs_Transcript = [], cs_Summary = [], cs_TransferredTo = None, cs_StartedAt = now, cs_EndedAt = None\<rparr>
      in seq_a (on_sessions (ins_row cs_ID (\<lambda>x. x) s)) (ret_a s))"

definition Comm_update_row :: "comm_session \<Rightarrow> comm_session \<Rightarrow> comm_session" where
  "Comm_update_row old s = old\<lparr>cs_Status := cs_Status s, cs_TurnCount := cs_TurnCount s, cs_Transcript := cs_Transcript s,
     cs_Summary := cs_Summary s, cs_TransferredTo := cs_TransferredTo s, cs_EndedAt := cs_EndedAt s\<rparr>"

definition save_comm_session :: "comm_session \<Rightarrow> unit vact" where
  "save_comm_session s = on_sessions (upd_rows (\<lambda>r. cs_TenantID r = cs_TenantID s \<and> cs_ID r = cs_ID s) (\<lambda>r. Comm_update_row r s))"

definition turn_text :: "string \<Rightarrow> string \<Rightarrow> string" where
  "turn_text user reply = ''User: '' @ user @ [CHR 0x0A] @ ''AI: '' @ reply @ [CHR 0x0A]"

text \<open>\<open>AddTurn\<close> changes the session of its caller, also when it fails.\<close>

definition AddTurn :: "comm_session \<Rightarrow> string \<Rightarrow> string \<Rightarrow> int \<Rightarrow> comm_session \<times> unit vact" where
  "AddTurn sess user reply maxTurns =
     (if cs_Status sess \<noteq> AgentSessionActive then (sess, throw_a ErrSessionAlreadyEnded)
      else let s1 = sess\<lparr>cs_TurnCount := cs_TurnCount sess + 1\<rparr>
        in if maxTurns < cs_TurnCount s1 then (s1, throw_a ErrSessionMaxTurns)
           else let s2 = s1\<lparr>cs_Transcript := cs_Transcript s1 @ turn_text user reply\<rparr> in (s2, save_comm_session s2))"

definition EndSession :: "gotime \<Rightarrow> comm_session \<Rightarrow> agent_session_status \<Rightarrow> string \<Rightarrow> int option \<Rightarrow> unit vact" where
  "EndSession now sess status summary transferTo =
     (if cs_Status sess \<noteq> AgentSessionActive then throw_a ErrSessionAlreadyEnded
      else save_comm_session (sess\<lparr>cs_Status := status, cs_Summary := summary, cs_EndedAt := Some now, cs_TransferredTo := transferTo\<rparr>))"

text \<open>
  One turn as it comes in: whose, the session when there is one, what the user said, what the provider replies and
  whether it recommends a transfer, with the reason; \<open>tr_fresh\<close> is the id drawn for a new session.
\<close>

record turn_request =
  tr_tenant :: int
  tr_agent :: int
  tr_call :: int
  tr_session :: "int option"
  tr_user :: string
  tr_reply :: "string + string"
  tr_transfer :: "string + (bool \<times> string)"
  tr_fresh :: int
  tr_now :: gotime

definition turn_session :: "turn_request \<Rightarrow> comm_session vact" where
  "turn_session q = (case tr_session q of
       Some k \<Rightarrow> GetSession (tr_tenant q) k
     | None \<Rightarrow> StartSession (tr_now q) (tr_fresh q) (tr_tenant q) (tr_agent q) (tr_call q))"

text \<open>What follows the reply; the result is the reply, whether the conversation is over, and the session.\<close>

definition record_turn :: "turn_request \<Rightarrow> comm_agent \<Rightarrow> comm_session \<Rightarrow> string \<Rightarrow> (string \<times> bool \<times> int) vact" where
  "record_turn q a sess reply =
     (let (s1, m) = AddTurn sess (tr_user q) reply (ca_MaxTurns a)
      in try_a m (\<lambda>r. case r of
           Inl e \<Rightarrow>
             if e = ErrSessionMaxTurns then
               seq_a (ignore_a (EndSession (tr_now q) (s1\<lparr>cs_Transcript := cs_Transcript s1 @ turn_text (tr_user q) reply\<rparr>)
                   AgentSessionCompleted ''max turns reached'' None))
                 (ret_a (reply, True, cs_ID sess))
             else throw_a e
         | Inr _ \<Rightarrow>
             (case tr_transfer q of
                Inl _ \<Rightarrow> ret_a (reply, False, cs_ID sess)
              | Inr (go, reason) \<Rightarrow>
                  seq_a (when_a go (ignore_a (EndSession (tr_now q) s1 AgentSessionTransfer reason (ca_TransferSkillGroupID a))))
                    (ret_a (reply, go, cs_ID sess)))))"

definition HandleConversationTurn :: "turn_request \<Rightarrow> (string \<times> bool \<times> int) vact" where
  "HandleConversationTurn q =
     bind_a (GetCommAgent (tr_tenant q) (tr_agent q)) (\<lambda>a.
     bind_a (turn_session q) (\<lambda>sess. case tr_reply q of
         Inl e \<Rightarrow> throw_a (ErrAdvProvider e)
       | Inr reply \<Rightarrow> record_turn q a sess reply))"

section \<open>Voice profiles\<close>

definition CreateVoiceProfile :: "gotime \<Rightarrow> int \<Rightarrow> int \<Rightarrow> string \<Rightarrow> string \<Rightarrow> string \<Rightarrow> voice_profile vact" where
  "CreateVoiceProfile now nid tenant name url language =
     (if name = [] then throw_a ErrVoiceProfileNameEmpty
      else if url = [] then throw_a ErrVoiceSampleURLEmpty
      else let v = \<lparr>vp_ID = nid, vp_TenantID = tenant, vp_Name = name, vp_SampleAudioURL = url, vp_ProviderJobID = [], vp_ProviderVoiceID = [],
             vp_Status = VoiceProfilePending, vp_Language = (if language = [] then ''zh-CN'' else language), vp_CreatedAt = now, vp_UpdatedAt = now\<rparr>
        in seq_a (on_voices (ins_row vp_ID (\<lambda>x. x) v)) (ret_a v))"

definition GetVoiceProfile :: "int \<Rightarrow> int \<Rightarrow> voice_profile vact" where
  "GetVoiceProfile tenant k = on_voices (select_one (\<lambda>v. vp_TenantID v = tenant \<and> vp_ID v = k))"

text \<open>Neither statement names the column of the provider's job.\<close>

definition Voice_update_row :: "voice_profile \<Rightarrow> voice_profile \<Rightarrow> voice_profile" where
  "Voice_update_row old v = old\<lparr>vp_Name := vp_Name v, vp_SampleAudioURL := vp_SampleAudioURL v, vp_ProviderVoiceID := vp_ProviderVoiceID v,
     vp_Status := vp_Status v, vp_Language := vp_Language v, vp_UpdatedAt := vp_UpdatedAt v\<rparr>"

definition save_voice :: "voice_profile \<Rightarrow> unit vact" where
  "save_voice v = on_voices (upd_rows (\<lambda>r. vp_TenantID r = vp_TenantID v \<and> vp_ID r = vp_ID v) (\<lambda>r. Voice_update_row r v))"

text \<open>\<open>job\<close>: what the provider answers, \<open>None\<close> when there is no provider.\<close>

definition StartTraining :: "gotime \<Rightarrow> (string + string) option \<Rightarrow> int \<Rightarrow> int \<Rightarrow> voice_profile vact" where
  "StartTraining now job tenant k = bind_a (GetVoiceProfile tenant k) (\<lambda>v.
     bind_a (case job of None \<Rightarrow> ret_a v | Some (Inl e) \<Rightarrow> throw_a (ErrVoiceTraining e) | Some (Inr j) \<Rightarrow> ret_a (v\<lparr>vp_ProviderJobID := j\<rparr>)) (\<lambda>v1.
       let v2 = v1\<lparr>vp_Status := VoiceProfileTraining, vp_UpdatedAt := now\<rparr> in seq_a (save_voice v2) (ret_a v2)))"

definition MarkReady :: "gotime \<Rightarrow> int \<Rightarrow> int \<Rightarrow> string \<Rightarrow> voice_profile vact" where
  "MarkReady now tenant k voiceID = bind_a (GetVoiceProfile tenant k) (\<lambda>v.
     let v1 = v\<lparr>vp_Status := VoiceProfileReady, vp_ProviderVoiceID := voiceID, vp_UpdatedAt := now\<rparr> in seq_a (save_voice v1) (ret_a v1))"

section \<open>Batch analyses\<close>

definition CreateAnalysis :: "gotime \<Rightarrow> int \<Rightarrow> int \<Rightarrow> string \<Rightarrow> string \<Rightarrow> string \<Rightarrow> string \<Rightarrow> int \<Rightarrow> analysis_task vact" where
  "CreateAnalysis now nid tenant name type dfrom dto nCalls =
     (if name = [] then throw_a ErrAnalysisNameEmpty
      else if dfrom = [] \<or> dto = [] then throw_a ErrAnalysisDateRange
      else let t = \<lparr>at_ID = nid, at_TenantID = tenant, at_Name = name, at_Type = type, at_DateFrom = dfrom, at_DateTo = dto, at_TotalCalls = nCalls,
             at_ProcessedCalls = 0, at_Status = AnalysisTaskPending, at_ResultJSON = [], at_CreatedAt = now, at_CompletedAt = None\<rparr>
        in seq_a (on_tasks (ins_row at_ID (\<lambda>x. x) t)) (ret_a t))"

definition Task_update_row :: "analysis_task \<Rightarrow> analysis_task \<Rightarrow> analysis_task" where
  "Task_update_row old t = old\<lparr>at_Status := at_Status t, at_ProcessedCalls := at_ProcessedCalls t, at_ResultJSON := at_ResultJSON t,
     at_CompletedAt := at_CompletedAt t\<rparr>"

definition save_task :: "analysis_task \<Rightarrow> unit vact" where
  "save_task t = on_tasks (upd_rows (\<lambda>r. at_TenantID r = at_TenantID t \<and> at_ID r = at_ID t) (\<lambda>r. Task_update_row r t))"

definition analysis_types :: "string list" where
  "analysis_types = [''intent_mining'', ''sop_discovery'', ''sales_script'', ''topic_cluster'']"

text \<open>\<open>answer\<close>: what the provider's function for the type answers.\<close>

definition RunConversationAnalysis :: "gotime \<Rightarrow> (string \<Rightarrow> string + string) \<Rightarrow> int \<Rightarrow> int \<Rightarrow> unit vact" where
  "RunConversationAnalysis now answer tenant k =
     bind_a (on_tasks (select_one (\<lambda>t. at_TenantID t = tenant \<and> at_ID t = k))) (\<lambda>t.
     let t1 = t\<lparr>at_Status := AnalysisTaskRunning\<rparr> in
     seq_a (save_task t1)
       (if at_Type t1 \<notin> set analysis_types then throw_a (ErrUnsupportedAnalysis (at_Type t1))
        else case answer (at_Type t1) of
            Inl e \<Rightarrow> throw_a (ErrAdvProvider e)
          | Inr json \<Rightarrow> save_task (t1\<lparr>at_Status := AnalysisTaskCompleted, at_ResultJSON := json, at_ProcessedCalls := at_TotalCalls t1,
              at_CompletedAt := Some now\<rparr>)))"

section \<open>Training\<close>

definition CreateCourse :: "gotime \<Rightarrow> int \<Rightarrow> int \<Rightarrow> string \<Rightarrow> string \<Rightarrow> string \<Rightarrow> int \<Rightarrow> course vact" where
  "CreateCourse now nid tenant title description json pass =
     (if title = [] then throw_a ErrCourseNameEmpty
      else if pass < 1 \<or> 100 < pass then throw_a ErrCoursePassScore
      else let c = \<lparr>co_ID = nid, co_TenantID = tenant, co_Title = title, co_Description = description, co_ContentJSON = json, co_PassScore = pass,
             co_Status = CourseStatusDraft, co_CreatedAt = now, co_UpdatedAt = now\<rparr>
        in seq_a (on_courses (ins_row co_ID (\<lambda>x. x) c)) (ret_a c))"

definition GetCourse :: "int \<Rightarrow> int \<Rightarrow> course vact" where
  "GetCourse tenant k = on_courses (select_one (\<lambda>c. co_TenantID c = tenant \<and> co_ID c = k))"

definition Course_update_row :: "course \<Rightarrow> course \<Rightarrow> course" where
  "Course_update_row old c = old\<lparr>co_Title := co_Title c, co_Description := co_Description c, co_ContentJSON := co_ContentJSON c,
     co_PassScore := co_PassScore c, co_Status := co_Status c, co_UpdatedAt := co_UpdatedAt c\<rparr>"

definition PublishCourse :: "gotime \<Rightarrow> int \<Rightarrow> int \<Rightarrow> course vact" where
  "PublishCourse now tenant k = bind_a (GetCourse tenant k) (\<lambda>c.
     let c1 = c\<lparr>co_Status := CourseStatusPublished, co_UpdatedAt := now\<rparr>
     in seq_a (on_courses (upd_rows (\<lambda>r. co_TenantID r = co_TenantID c1 \<and> co_ID r = co_ID c1) (\<lambda>r. Course_update_row r c1))) (ret_a c1))"

record exam_input =
  xi_TenantID :: int
  xi_CourseID :: int
  xi_AgentID :: int
  xi_Score :: int
  xi_MaxScore :: int
  xi_AnswersJSON :: string

text \<open>Go's division truncates towards zero, and the product wraps.\<close>

definition exam_percent :: "int \<Rightarrow> int \<Rightarrow> int" where
  "exam_percent score mx = (if 0 < mx then wrap64 (score * 100) sdiv mx else 0)"

definition SubmitExam :: "gotime \<Rightarrow> int \<Rightarrow> exam_input \<Rightarrow> exam vact" where
  "SubmitExam now nid inp = bind_a (GetCourse (xi_TenantID inp) (xi_CourseID inp)) (\<lambda>c.
     let e = \<lparr>ex_ID = nid, ex_TenantID = xi_TenantID inp, ex_CourseID = xi_CourseID inp, ex_AgentID = xi_AgentID inp, ex_Score = xi_Score inp,
           ex_MaxScore = xi_MaxScore inp,
           ex_Status = (if co_PassScore c \<le> exam_percent (xi_Score inp) (xi_MaxScore inp) then ExamStatusPassed else ExamStatusFailed),
           ex_AnswersJSON = xi_AnswersJSON inp, ex_CreatedAt = now\<rparr>
     in seq_a (on_exams (ins_row ex_ID (\<lambda>x. x) e)) (ret_a e))"

definition CreateSimulatedCall :: "gotime \<Rightarrow> int \<Rightarrow> simulated_call \<Rightarrow> simulated_call vact" where
  "CreateSimulatedCall now nid inp = (let s = inp\<lparr>sm_ID := nid, sm_CreatedAt := now\<rparr>
     in seq_a (wrap_a ErrAdvStore (zoom_a av_sims (\<lambda>d w. w\<lparr>av_sims := d\<rparr>) (ins_row sm_ID (\<lambda>x. x) s))) (ret_a s))"

section \<open>Settings of a tenant\<close>

text \<open>
  \<open>INSERT ... ON DUPLICATE KEY UPDATE\<close> of a table with a primary key and the tenant as a unique key: a row with the id of the new one, and
  without such a row the one of its tenant, is updated.
\<close>

definition upsert_keys :: "('r \<Rightarrow> int) \<Rightarrow> ('r \<Rightarrow> int) \<Rightarrow> ('r \<Rightarrow> 'r \<Rightarrow> 'r) \<Rightarrow> 'r \<Rightarrow> ('r ltable, string, unit) act" where
  "upsert_keys key tenant kept x = on_link (\<lambda>t. (Inr (),
     if lrow key t (key x) \<noteq> None then t\<lparr>lrows := map (\<lambda>r. if key r = key x then kept r x else r) (lrows t)\<rparr>
     else if lrow tenant t (tenant x) \<noteq> None then t\<lparr>lrows := map (\<lambda>r. if tenant r = tenant x then kept r x else r) (lrows t)\<rparr>
     else t\<lparr>lrows := lrows t @ [x]\<rparr>))"

definition Ring_update_row :: "ring_config \<Rightarrow> ring_config \<Rightarrow> ring_config" where
  "Ring_update_row old c = old\<lparr>rc_Enabled := rc_Enabled c, rc_DetectionTimeoutMs := rc_DetectionTimeoutMs c,
     rc_HangUpOnVoicemail := rc_HangUpOnVoicemail c, rc_HangUpOnFax := rc_HangUpOnFax c, rc_UpdatedAt := rc_UpdatedAt c\<rparr>"

definition Duplex_update_row :: "duplex_config \<Rightarrow> duplex_config \<Rightarrow> duplex_config" where
  "Duplex_update_row old c = old\<lparr>du_Enabled := du_Enabled c, du_InterruptionEnabled := du_InterruptionEnabled c,
     du_SilenceThresholdMs := du_SilenceThresholdMs c, du_InterruptionSensitivity := du_InterruptionSensitivity c,
     du_VoiceContinuity := du_VoiceContinuity c, du_UpdatedAt := du_UpdatedAt c\<rparr>"

definition UpsertRingConfig :: "gotime \<Rightarrow> int \<Rightarrow> ring_config \<Rightarrow> unit vact" where
  "UpsertRingConfig now nid c = (let c1 = c\<lparr>rc_ID := (if rc_ID c = 0 then nid else rc_ID c), rc_UpdatedAt := now\<rparr>
     in wrap_a ErrAdvStore (zoom_a av_rings (\<lambda>d w. w\<lparr>av_rings := d\<rparr>)
       (upsert_keys rc_ID rc_TenantID Ring_update_row c1)))"

definition LogRingResult :: "gotime \<Rightarrow> int \<Rightarrow> int \<Rightarrow> int \<Rightarrow> string \<Rightarrow> rat \<Rightarrow> int \<Rightarrow> ring_log vact" where
  "LogRingResult now nid tenant callID result confidence ms =
     (let l = \<lparr>rl_ID = nid, rl_TenantID = tenant, rl_CallID = callID, rl_Result = result, rl_Confidence = confidence, rl_DurationMs = ms, rl_CreatedAt = now\<rparr>
      in seq_a (wrap_a ErrAdvStore (zoom_a av_ringlogs (\<lambda>d w. w\<lparr>av_ringlogs := d\<rparr>) (ins_row rl_ID (\<lambda>x. x) l))) (ret_a l))"

definition UpsertDuplexConfig :: "gotime \<Rightarrow> int \<Rightarrow> duplex_config \<Rightarrow> unit vact" where
  "UpsertDuplexConfig now nid c =
     (if du_InterruptionSensitivity c < 0 \<or> 1 < du_InterruptionSensitivity c then throw_a ErrFullDuplexSensitivity
      else let c1 = c\<lparr>du_ID := (if du_ID c = 0 then nid else du_ID c), du_UpdatedAt := now\<rparr>
        in wrap_a ErrAdvStore (zoom_a av_duplex (\<lambda>d w. w\<lparr>av_duplex := d\<rparr>)
          (upsert_keys du_ID du_TenantID Duplex_update_row c1)))"

end
