(* ===== verification/AdvancedAIProps.thy ===== *)
theory AdvancedAIProps
  imports AdvancedAI "HOL-Library.Sublist"
begin

text \<open>
  What a conversation agent's sessions go through, who passes an exam, and what the other operations can do to rows that are not theirs.
\<close>

section \<open>The life of a session\<close>

text \<open>A session: its transcript holds exactly the turns counted, and an active one has at most 100.\<close>

definition session_ok :: "comm_session \<Rightarrow> bool" where
  "session_ok s \<longleftrightarrow> (\<exists>ts. cs_Transcript s = concat (map (\<lambda>(u, r). turn_text u r) ts) \<and> cs_TurnCount s = int (length ts)) \<and>
     cs_TurnCount s \<le> (if cs_Status s = AgentSessionActive then 100 else 101)"

definition session_evolves :: "comm_session \<Rightarrow> comm_session \<Rightarrow> bool" where
  "session_evolves s s' \<longleftrightarrow> cs_ID s' = cs_ID s \<and> cs_TenantID s' = cs_TenantID s \<and> cs_CommAgentID s' = cs_CommAgentID s \<and> cs_CallID s' = cs_CallID s \<and>
     prefix (cs_Transcript s) (cs_Transcript s') \<and> cs_TurnCount s \<le> cs_TurnCount s' \<and>
     (cs_Status s \<noteq> AgentSessionActive \<longrightarrow> s' = s) \<and>
     (cs_Status s' = cs_Status s \<or> cs_Status s' \<in> {AgentSessionCompleted, AgentSessionTransfer} \<and> cs_EndedAt s' \<noteq> None)"

definition agents_ok :: "comm_agent list \<Rightarrow> bool" where
  "agents_ok as \<longleftrightarrow> (\<forall>a \<in> set as. 1 \<le> ca_MaxTurns a \<and> ca_MaxTurns a \<le> 100)"

definition sessions_ok :: "comm_session list \<Rightarrow> bool" where
  "sessions_ok ss \<longleftrightarrow> distinct (map cs_ID ss) \<and> (\<forall>s \<in> set ss. session_ok s)"

text \<open>What one operation does to the table.\<close>

definition sessions_evolve :: "comm_session list \<Rightarrow> comm_session list \<Rightarrow> bool" where
  "sessions_evolve xs ys \<longleftrightarrow> sessions_ok xs \<longrightarrow> sessions_ok ys \<and> (\<forall>s \<in> set xs. \<exists>s' \<in> set ys. session_evolves s s')"

lemma session_evolves_refl [simp]: "session_evolves s s"
  by (simp add: session_evolves_def)

lemma session_evolves_trans: "session_evolves s t \<Longrightarrow> session_evolves t u \<Longrightarrow> session_evolves s u"
  unfolding session_evolves_def by (auto intro: prefix_order.trans)

lemma sessions_evolve_refl [simp]: "sessions_evolve xs xs"
  unfolding sessions_evolve_def by (blast intro: session_evolves_refl)

lemma sessions_evolve_trans: "sessions_evolve xs ys \<Longrightarrow> sessions_evolve ys zs \<Longrightarrow> sessions_evolve xs zs"
  unfolding sessions_evolve_def by (blast intro: session_evolves_trans)

abbreviation session_rows :: "adv_world \<Rightarrow> comm_session list" where
  "session_rows w \<equiv> lrows (av_sessions w)"

lemma on_sessions_cases:
  assumes "on_sessions m w = (r, w')"
  obtains r0 t where "m (av_sessions w) = (r0, t)" "w' = w\<lparr>av_sessions := t\<rparr>" "r = (case r0 of Inl e \<Rightarrow> Inl (ErrAdvStore e) | Inr x \<Rightarrow> Inr x)"
  using assms by (cases "m (av_sessions w)") (auto simp: act_simps split: sum.splits)

lemma on_link_cases:
  assumes "on_link m t = (r, t')"
  obtains (down) os where "r = Inl ''sql: connection lost''" "t' = t\<lparr>loutages := os\<rparr>"
    | (up) os where "m (t\<lparr>loutages := os\<rparr>) = (r, t')"
proof (cases "loutages t")
  case Nil
  then have eq: "t\<lparr>loutages := []\<rparr> = t" by (cases t) simp
  have "m (t\<lparr>loutages := []\<rparr>) = (r, t')" unfolding eq using assms Nil by (simp add: on_link_def)
  then show ?thesis by (rule up)
next
  case (Cons d rest)
  with assms down up show ?thesis by (cases d) (auto simp: on_link_def)
qed

text \<open>Writing back a session that was read.\<close>

lemma save_session_rows:
  assumes "save_comm_session s w = (r, w')"
  shows "av_agents w' = av_agents w \<and> ((\<exists>e. r = Inl (ErrAdvStore e)) \<and> session_rows w' = session_rows w \<or>
    r = Inr () \<and> session_rows w' = map (\<lambda>x. if cs_TenantID x = cs_TenantID s \<and> cs_ID x = cs_ID s then Comm_update_row x s else x) (session_rows w))"
proof -
  obtain r0 t where t: "upd_rows (\<lambda>x. cs_TenantID x = cs_TenantID s \<and> cs_ID x = cs_ID s) (\<lambda>x. Comm_update_row x s) (av_sessions w) = (r0, t)"
    "w' = w\<lparr>av_sessions := t\<rparr>" "r = (case r0 of Inl e \<Rightarrow> Inl (ErrAdvStore e) | Inr x \<Rightarrow> Inr x)"
    using assms unfolding save_comm_session_def by (rule on_sessions_cases)
  from t(1) [unfolded upd_rows_def] show ?thesis by (cases rule: on_link_cases) (auto simp: t(2,3))
qed

lemma saved_evolves:
  assumes old: "old \<in> set xs" and act: "cs_Status old = AgentSessionActive" and upd: "Comm_update_row old s = s" "cs_ID s = cs_ID old" "cs_TenantID s = cs_TenantID old"
    and ok: "session_ok old \<Longrightarrow> session_ok s" and ev: "session_evolves old s"
  defines "ys \<equiv> map (\<lambda>x. if cs_TenantID x = cs_TenantID s \<and> cs_ID x = cs_ID s then Comm_update_row x s else x) xs"
  shows "sessions_evolve xs ys" and "sessions_ok xs \<Longrightarrow> s \<in> set ys"
proof -
  have ys: "ys = map (\<lambda>x. if x = old then s else x) xs" if "sessions_ok xs"
    unfolding ys_def using that old upd by (intro map_cong) (auto simp: sessions_ok_def inj_on_def distinct_map)
  show "sessions_evolve xs ys" unfolding sessions_evolve_def
  proof (intro impI)
    assume ok_xs: "sessions_ok xs"
    have "map cs_ID ys = map cs_ID xs" using upd(2) by (simp add: ys [OF ok_xs] comp_def cong: map_cong)
    moreover have "\<forall>y \<in> set ys. session_ok y" using ok_xs ok old unfolding sessions_ok_def ys [OF ok_xs] by auto
    ultimately have "sessions_ok ys" using ok_xs by (simp add: sessions_ok_def)
    moreover have "\<exists>y \<in> set ys. session_evolves x y" if "x \<in> set xs" for x
    proof (cases "x = old")
      case True
      with that ev show ?thesis unfolding ys [OF ok_xs] by (intro bexI [of _ s]) (auto simp: image_iff)
    next
      case False
      with that show ?thesis unfolding ys [OF ok_xs] by (intro bexI [of _ x]) (auto simp: image_iff)
    qed
    ultimately show "sessions_ok ys \<and> (\<forall>x \<in> set xs. \<exists>y \<in> set ys. session_evolves x y)" by blast
  qed
  show "s \<in> set ys" if "sessions_ok xs" using old unfolding ys [OF that] by (auto simp: image_iff)
qed

lemma turn_added_ok:
  assumes "session_ok s" "cs_TurnCount s' = cs_TurnCount s + 1" "cs_Transcript s' = cs_Transcript s @ turn_text u r"
    and "cs_TurnCount s' \<le> (if cs_Status s' = AgentSessionActive then 100 else 101)"
  shows "session_ok s'"
proof -
  from assms(1) obtain ts where "cs_Transcript s = concat (map (\<lambda>(u, r). turn_text u r) ts)" "cs_TurnCount s = int (length ts)"
    unfolding session_ok_def by blast
  with assms(2,3) have "cs_Transcript s' = concat (map (\<lambda>(u, r). turn_text u r) (ts @ [(u, r)])) \<and> cs_TurnCount s' = int (length (ts @ [(u, r)]))"
    by simp
  with assms(4) show ?thesis unfolding session_ok_def by blast
qed

text \<open>The two ways a turn writes a session: with the turn added, and closed.\<close>

lemma added_turn:
  fixes u r :: string
  assumes "cs_Status s = AgentSessionActive" "cs_TurnCount s + 1 \<le> 100" "session_ok s"
  defines "s2 \<equiv> s\<lparr>cs_TurnCount := cs_TurnCount s + 1, cs_Transcript := cs_Transcript s @ turn_text u r\<rparr>"
  shows "Comm_update_row s s2 = s2" "session_ok s2" "session_evolves s s2"
proof -
  show "Comm_update_row s s2 = s2" by (simp add: Comm_update_row_def s2_def)
  show "session_ok s2" by (rule turn_added_ok [OF assms(3)]) (use assms(1,2) in \<open>simp_all add: s2_def\<close>)
  show "session_evolves s s2" using assms(1) by (simp add: session_evolves_def s2_def)
qed

lemma closed_session:
  fixes summary :: string and now :: gotime and dest :: "int option"
  assumes "cs_Status s = AgentSessionActive" "status \<in> {AgentSessionCompleted, AgentSessionTransfer}" "session_ok s"
  defines "s2 \<equiv> s\<lparr>cs_Status := status, cs_Summary := summary, cs_EndedAt := Some now, cs_TransferredTo := dest\<rparr>"
  shows "Comm_update_row s s2 = s2" "session_ok s2" "session_evolves s s2"
  using assms by (auto simp: Comm_update_row_def s2_def session_ok_def session_evolves_def)

text \<open>The turn above the limit is kept, and closes the session.\<close>

lemma last_turn:
  fixes u r summary :: string and now :: gotime and dest :: "int option"
  assumes "cs_Status s = AgentSessionActive" "session_ok s"
  defines "s2 \<equiv> s\<lparr>cs_TurnCount := cs_TurnCount s + 1, cs_Transcript := cs_Transcript s @ turn_text u r,
      cs_Status := AgentSessionCompleted, cs_Summary := summary, cs_EndedAt := Some now, cs_TransferredTo := dest\<rparr>"
  shows "Comm_update_row s s2 = s2" "session_ok s2" "session_evolves s s2"
proof -
  show "Comm_update_row s s2 = s2" by (simp add: Comm_update_row_def s2_def)
  have "cs_TurnCount s \<le> 100" using assms(1,2) by (auto simp: session_ok_def)
  then show "session_ok s2" by (intro turn_added_ok [OF assms(2)]) (simp_all add: s2_def)
  show "session_evolves s s2" using assms(1) by (simp add: session_evolves_def s2_def)
qed

lemma saved_rows:
  assumes "save_comm_session s w = (r, w')" "old \<in> set (session_rows w)" "cs_Status old = AgentSessionActive"
    and "Comm_update_row old s = s" "session_ok old \<Longrightarrow> session_ok s" "session_evolves old s"
  shows "av_agents w' = av_agents w \<and> sessions_evolve (session_rows w) (session_rows w') \<and>
    (\<forall>e. r = Inl e \<longrightarrow> (\<exists>d. e = ErrAdvStore d)) \<and> (r = Inr () \<longrightarrow> sessions_ok (session_rows w) \<longrightarrow> s \<in> set (session_rows w'))"
proof -
  have ids: "cs_ID s = cs_ID old" "cs_TenantID s = cs_TenantID old" using assms(6) by (simp_all add: session_evolves_def)
  from save_session_rows [OF assms(1)] saved_evolves [OF assms(2,3,4) ids assms(5,6)] show ?thesis by auto
qed

section \<open>Turns\<close>

text \<open>What follows the reply, for a session read from the table.\<close>

lemma preserves_save [frame_intros]: "preserves av_agents (save_comm_session s)"
  unfolding save_comm_session_def by (simp add: preserves_def act_simps split: prod.split sum.split)

lemma preserves_record_turn: "preserves av_agents (record_turn q a s reply)"
  unfolding record_turn_def AddTurn_def EndSession_def Let_def
  by (auto intro!: frame_intros split: sum.split prod.split)

lemma record_turn_rows:
  assumes run: "record_turn q a s reply w = (r, w')" and s: "s \<in> set (session_rows w)" and a: "1 \<le> ca_MaxTurns a" "ca_MaxTurns a \<le> 100"
  shows "av_agents w' = av_agents w \<and> sessions_evolve (session_rows w) (session_rows w')"
proof (cases "sessions_ok (session_rows w)")
  case True
  then have ok: "session_ok s" using s by (auto simp: sessions_ok_def)
  let ?n = "cs_TurnCount s + 1" and ?t = "turn_text (tr_user q) reply"
  show ?thesis
  proof (cases "cs_Status s = AgentSessionActive")
    case False
    with run show ?thesis by (auto simp: record_turn_def AddTurn_def Let_def act_simps)
  next
    case act: True
    show ?thesis
    proof (cases "ca_MaxTurns a < ?n")
      case over: True
      let ?s2 = "s\<lparr>cs_TurnCount := ?n, cs_Transcript := cs_Transcript s @ ?t, cs_Status := AgentSessionCompleted, cs_Summary := ''max turns reached'',
          cs_EndedAt := Some (tr_now q), cs_TransferredTo := None\<rparr>"
      from run act over have "w' = snd (save_comm_session ?s2 w)" by (auto simp: record_turn_def AddTurn_def EndSession_def Let_def act_simps)
      then obtain r0 where "save_comm_session ?s2 w = (r0, w')" by (metis prod.collapse)
      from saved_rows [OF this s act last_turn(1,2,3) [OF act]] ok show ?thesis by blast
    next
      case under: False
      let ?s2 = "s\<lparr>cs_TurnCount := ?n, cs_Transcript := cs_Transcript s @ ?t\<rparr>"
      obtain r0 w1 where save: "save_comm_session ?s2 w = (r0, w1)" by (cases "save_comm_session ?s2 w") auto
      have added: "Comm_update_row s ?s2 = ?s2" "session_ok s \<Longrightarrow> session_ok ?s2" "session_evolves s ?s2"
        using added_turn [OF act _ ok] under a by simp_all
      from saved_rows [OF save s act added] have w1: "av_agents w1 = av_agents w" "sessions_evolve (session_rows w) (session_rows w1)"
        "\<forall>e. r0 = Inl e \<longrightarrow> (\<exists>d. e = ErrAdvStore d)" "r0 = Inr () \<longrightarrow> ?s2 \<in> set (session_rows w1)" using True by auto
      show ?thesis
      proof (cases r0)
        case (Inl e)
        with run act under save w1(3) have "w' = w1" by (auto simp: record_turn_def AddTurn_def Let_def act_simps)
        with w1 show ?thesis by simp
      next
        case (Inr u)
        then have in1: "?s2 \<in> set (session_rows w1)" using w1(4) by simp
        show ?thesis
        proof (cases "tr_transfer q = Inr (True, snd (projr (tr_transfer q)))")
          case False
          with run act under save Inr have "w' = w1"
            by (auto simp: record_turn_def AddTurn_def Let_def act_simps split: sum.splits prod.splits if_splits)
          with w1 show ?thesis by simp
        next
          case go: True
          let ?reason = "snd (projr (tr_transfer q))"
          let ?s3 = "?s2\<lparr>cs_Status := AgentSessionTransfer, cs_Summary := ?reason, cs_EndedAt := Some (tr_now q), cs_TransferredTo := ca_TransferSkillGroupID a\<rparr>"
          from go run act under save Inr have "w' = snd (save_comm_session ?s3 w1)"
            by (cases "tr_transfer q") (auto simp: record_turn_def AddTurn_def EndSession_def Let_def act_simps)
          then obtain r1 where save2: "save_comm_session ?s3 w1 = (r1, w')" by (metis prod.collapse)
          have act2: "cs_Status ?s2 = AgentSessionActive" using act by simp
          have "Comm_update_row ?s2 ?s3 = ?s3 \<and> session_ok ?s3 \<and> session_evolves ?s2 ?s3"
            using closed_session [OF act2, where status = AgentSessionTransfer and summary = ?reason and now = "tr_now q" and dest = "ca_TransferSkillGroupID a"] added(2) ok by simp
          with saved_rows [OF save2 in1 act2] w1(1,2) show ?thesis by (metis sessions_evolve_trans)
        qed
      qed
    qed
  qed
next
  case False
  with preservesD [OF preserves_record_turn run] show ?thesis by (simp add: sessions_evolve_def)
qed

lemma filter_Cons_in: "filter P xs = x # ys \<Longrightarrow> x \<in> set xs \<and> P x"
  by (drule arg_cong [where f = set]) auto

lemma select_one_cases:
  assumes "select_one P t = (r, t')"
  shows "lrows t' = lrows t \<and> (\<forall>x. r = Inr x \<longrightarrow> x \<in> set (lrows t) \<and> P x)"
  using assms
  by (auto simp: select_one_def sel_all_def on_link_def act_simps Let_def split: list.splits sum.splits prod.splits if_splits dest: filter_Cons_in)

lemma GetCommAgent_rows:
  assumes "GetCommAgent tenant k w = (r, w')"
  shows "lrows (av_agents w') = lrows (av_agents w) \<and> av_sessions w' = av_sessions w \<and> (\<forall>a. r = Inr a \<longrightarrow> a \<in> set (lrows (av_agents w)))"
proof (cases "select_one (\<lambda>a. ca_TenantID a = tenant \<and> ca_ID a = k) (av_agents w)")
  case (Pair r0 t)
  with assms select_one_cases [OF Pair] show ?thesis by (auto simp: GetCommAgent_def act_simps split: sum.splits)
qed

lemma turn_session_rows:
  assumes "turn_session q w = (r, w')"
  shows "av_agents w' = av_agents w \<and> sessions_evolve (session_rows w) (session_rows w') \<and> (\<forall>s. r = Inr s \<longrightarrow> s \<in> set (session_rows w'))"
proof (cases "tr_session q")
  case (Some k)
  then have "on_sessions (select_one (\<lambda>s. cs_TenantID s = tr_tenant q \<and> cs_ID s = k)) w = (r, w')"
    using assms by (simp add: turn_session_def GetSession_def)
  then obtain r0 t where t: "select_one (\<lambda>s. cs_TenantID s = tr_tenant q \<and> cs_ID s = k) (av_sessions w) = (r0, t)"
    "w' = w\<lparr>av_sessions := t\<rparr>" "r = (case r0 of Inl e \<Rightarrow> Inl (ErrAdvStore e) | Inr x \<Rightarrow> Inr x)"
    by (rule on_sessions_cases)
  with select_one_cases [OF t(1)] show ?thesis by (auto split: sum.splits)
next
  case None
  let ?s = "\<lparr>cs_ID = tr_fresh q, cs_TenantID = tr_tenant q, cs_CommAgentID = tr_agent q, cs_CallID = tr_call q, cs_Status = AgentSessionActive,
      cs_TurnCount = 0, cs_Transcript = [], cs_Summary = [], cs_TransferredTo = None, cs_StartedAt = tr_now q, cs_EndedAt = None\<rparr>"
  have new: "session_ok ?s" by (simp add: session_ok_def)
  obtain r0 w1 where ins: "on_sessions (ins_row cs_ID (\<lambda>x. x) ?s) w = (r0, w1)"
    and w': "w' = w1" "r = (case r0 of Inl e \<Rightarrow> Inl e | Inr _ \<Rightarrow> Inr ?s)"
    using assms None by (cases "on_sessions (ins_row cs_ID (\<lambda>x. x) ?s) w") (auto simp: turn_session_def StartSession_def act_simps Let_def split: sum.splits)
  from ins obtain r1 t where t: "ins_row cs_ID (\<lambda>x. x) ?s (av_sessions w) = (r1, t)" "w1 = w\<lparr>av_sessions := t\<rparr>"
    "r0 = (case r1 of Inl e \<Rightarrow> Inl (ErrAdvStore e) | Inr x \<Rightarrow> Inr x)" by (rule on_sessions_cases)
  from t(1) [unfolded ins_row_def] show ?thesis
  proof (cases rule: on_link_cases)
    case (down os)
    with t w' show ?thesis by simp
  next
    case (up os)
    show ?thesis
    proof (cases "lrow cs_ID (av_sessions w) (cs_ID ?s) = None")
      case True
      then have "cs_ID ?s \<notin> cs_ID ` set (session_rows w)" by (auto simp: lrow_def find_None_iff)
      with new have "sessions_evolve (session_rows w) (session_rows w @ [?s])"
        unfolding sessions_evolve_def sessions_ok_def by (auto intro!: bexI session_evolves_refl)
      with True up t w' show ?thesis by (simp add: lrow_def) (auto simp: lrow_def split: if_splits)
    next
      case False
      with up t w' show ?thesis by (auto simp: lrow_def split: if_splits)
    qed
  qed
qed

lemma turn_rows:
  assumes "HandleConversationTurn q w = (r, w')" "agents_ok (lrows (av_agents w))"
  shows "lrows (av_agents w') = lrows (av_agents w) \<and> sessions_evolve (session_rows w) (session_rows w')"
proof -
  obtain ra w1 where a: "GetCommAgent (tr_tenant q) (tr_agent q) w = (ra, w1)" by (cases "GetCommAgent (tr_tenant q) (tr_agent q) w") auto
  note A = GetCommAgent_rows [OF a]
  show ?thesis
  proof (cases ra)
    case (Inl e)
    with assms(1) a A show ?thesis by (simp add: HandleConversationTurn_def act_simps)
  next
    case (Inr ag)
    with A assms(2) have lim: "1 \<le> ca_MaxTurns ag" "ca_MaxTurns ag \<le> 100" by (auto simp: agents_ok_def)
    obtain rs w2 where s: "turn_session q w1 = (rs, w2)" by (cases "turn_session q w1") auto
    note S = turn_session_rows [OF s]
    show ?thesis
    proof (cases "\<exists>sess reply. rs = Inr sess \<and> tr_reply q = Inr reply")
      case False
      with assms(1) a Inr s have "w' = w2"
        by (auto simp: HandleConversationTurn_def act_simps split: sum.splits)
      with A S show ?thesis by simp
    next
      case True
      then obtain sess reply where sr: "rs = Inr sess" "tr_reply q = Inr reply" by blast
      with assms(1) a Inr s have "record_turn q ag sess reply w2 = (r, w')" by (simp add: HandleConversationTurn_def act_simps)
      from record_turn_rows [OF this _ lim] S sr(1) A show ?thesis by (auto intro: sessions_evolve_trans)
    qed
  qed
qed

fun run_turns :: "turn_request list \<Rightarrow> adv_world \<Rightarrow> adv_world" where
  "run_turns [] w = w"
| "run_turns (q # qs) w = run_turns qs (snd (HandleConversationTurn q w))"

text \<open>
  C36. Whatever turns come in one after the other, with failures of the provider and of the database, the transcript of every session holds
  exactly the turns it counts, at most 100 while it is active and 101 when it has ended; turns are only added, and an ended session never changes again.
\<close>

theorem conversation_life:
  assumes "agents_ok (lrows (av_agents w))" "sessions_ok (session_rows w)"
  shows "sessions_ok (session_rows (run_turns qs w)) \<and> (\<forall>s \<in> set (session_rows w). \<exists>s' \<in> set (session_rows (run_turns qs w)). session_evolves s s')"
proof -
  have "sessions_evolve (session_rows w) (session_rows (run_turns qs w))" using assms(1)
  proof (induction qs arbitrary: w)
    case (Cons q qs)
    from turn_rows [of q w, OF prod.collapse [symmetric] Cons.prems] Cons.prems
    have "agents_ok (lrows (av_agents (snd (HandleConversationTurn q w))))" "sessions_evolve (session_rows w) (session_rows (snd (HandleConversationTurn q w)))"
      by auto
    with Cons.IH show ?case by (auto intro: sessions_evolve_trans)
  qed simp
  with assms(2) show ?thesis unfolding sessions_evolve_def by blast
qed

section \<open>Exams\<close>

lemma le_div_iff_int: "0 < m \<Longrightarrow> p \<le> a div m \<longleftrightarrow> p * m \<le> (a :: int)"
proof
  assume m: "0 < m" and "p \<le> a div m"
  then have "p * m \<le> a div m * m" by (simp add: mult_right_mono)
  also have "\<dots> \<le> a" using m by (simp add: minus_mod_eq_div_mult [symmetric])
  finally show "p * m \<le> a" .
next
  assume m: "0 < m" and "p * m \<le> a"
  then have "p * m div m \<le> a div m" by (intro zdiv_mono1)
  with m show "p \<le> a div m" by simp
qed

lemma percent_reaches:
  assumes "0 < mx" "1 \<le> p"
  shows "p \<le> (score * 100) sdiv mx \<longleftrightarrow> p * mx \<le> score * (100 :: int)"
proof (cases "0 \<le> score")
  case True
  with assms have "(score * 100) sdiv mx = (score * 100) div mx" by (auto simp: signed_divide_int_def sgn_if)
  with assms show ?thesis by (simp add: le_div_iff_int)
next
  case False
  with assms have "(score * 100) sdiv mx = - (\<bar>score * 100\<bar> div mx)" by (simp add: signed_divide_int_def sgn_if)
  moreover have "0 \<le> \<bar>score * 100\<bar> div mx" using assms by (simp add: pos_imp_zdiv_nonneg_iff)
  moreover have "0 < p * mx" using assms by simp
  moreover have "score * 100 < 0" using False by simp
  ultimately show ?thesis using assms(2) by linarith
qed

text \<open>
  An exam that is recorded is passed exactly when the share of points reached is at least the score the course asks for, without
  rounding in favour of the agent, as long as a hundred times the points fits an int.
\<close>

theorem exam_passed_exactly:
  assumes "fst (SubmitExam now nid inp w) = Inr e" and "int64 (xi_Score inp * 100)"
    and "\<forall>c \<in> set (lrows (av_courses w)). 1 \<le> co_PassScore c \<and> co_PassScore c \<le> 100"
  shows "\<exists>c \<in> set (lrows (av_courses w)). co_TenantID c = xi_TenantID inp \<and> co_ID c = xi_CourseID inp \<and>
    ex_Status e = (if 0 < xi_MaxScore inp \<and> co_PassScore c * xi_MaxScore inp \<le> xi_Score inp * 100 then ExamStatusPassed else ExamStatusFailed) \<and>
    e \<in> set (lrows (av_exams (snd (SubmitExam now nid inp w))))"
proof -
  obtain rc t where g: "select_one (\<lambda>c. co_TenantID c = xi_TenantID inp \<and> co_ID c = xi_CourseID inp) (av_courses w) = (rc, t)"
    by (cases "select_one (\<lambda>c. co_TenantID c = xi_TenantID inp \<and> co_ID c = xi_CourseID inp) (av_courses w)") auto
  obtain c where c: "rc = Inr c"
    using assms(1) g by (cases rc) (auto simp: SubmitExam_def GetCourse_def act_simps)
  from select_one_cases [OF g] c have in_c: "c \<in> set (lrows (av_courses w))" "co_TenantID c = xi_TenantID inp" "co_ID c = xi_CourseID inp" by auto
  have pass: "co_PassScore c \<le> exam_percent (xi_Score inp) (xi_MaxScore inp) \<longleftrightarrow>
      0 < xi_MaxScore inp \<and> co_PassScore c * xi_MaxScore inp \<le> xi_Score inp * 100"
    using percent_reaches [of "xi_MaxScore inp" "co_PassScore c" "xi_Score inp"] assms(3) in_c(1)
    by (auto simp: exam_percent_def wrap64_id [OF assms(2)])
  have "ex_Status e = (if 0 < xi_MaxScore inp \<and> co_PassScore c * xi_MaxScore inp \<le> xi_Score inp * 100 then ExamStatusPassed else ExamStatusFailed) \<and>
      e \<in> set (lrows (av_exams (snd (SubmitExam now nid inp w))))"
    using assms(1) g c unfolding pass [symmetric]
    by (auto simp: SubmitExam_def GetCourse_def act_simps Let_def ins_row_def on_link_def split: sum.splits prod.splits list.splits if_splits)
  with in_c show ?thesis by blast
qed

section \<open>What goes wrong\<close>

text \<open>Two turns on one session that overlap: both read it before either writes, and the turn written first is lost.\<close>

lemma concurrent_turn_lost:
  assumes "cs_Status s = AgentSessionActive" "cs_TurnCount s + 1 \<le> mx"
    and "AddTurn s u1 r1 mx = (s1, m1)" "AddTurn s u2 r2 mx = (s2, m2)"
    and "lrows (av_sessions w) = [s]" "loutages (av_sessions w) = []"
  shows "lrows (av_sessions (snd (seq_a m1 m2 w))) = [s2]" and "cs_TurnCount s2 = cs_TurnCount s + 1"
    and "cs_Transcript s2 = cs_Transcript s @ turn_text u2 r2"
  using assms
  by (auto simp: AddTurn_def Let_def save_comm_session_def act_simps upd_rows_def on_link_def Comm_update_row_def)

text \<open>An analysis whose provider fails stays running.\<close>

lemma failed_analysis_runs:
  assumes "lrows (av_tasks w) = [t]" "loutages (av_tasks w) = []" "at_Type t \<in> set analysis_types" "answer (at_Type t) = Inl e"
  shows "lrows (av_tasks (snd (RunConversationAnalysis now answer (at_TenantID t) (at_ID t) w))) = [t\<lparr>at_Status := AnalysisTaskRunning\<rparr>]"
  using assms
  by (simp add: RunConversationAnalysis_def select_one_def save_task_def act_simps lsql_defs Let_def Task_update_row_def)

text \<open>The provider's job of a training is not stored.\<close>

lemma training_job_lost:
  assumes "lrows (av_voices w) = [v]" "loutages (av_voices w) = []"
  shows "lrows (av_voices (snd (StartTraining now (Some (Inr job)) (vp_TenantID v) (vp_ID v) w))) =
    [v\<lparr>vp_Status := VoiceProfileTraining, vp_UpdatedAt := now\<rparr>]"
  using assms
  by (simp add: StartTraining_def GetVoiceProfile_def select_one_def save_voice_def act_simps lsql_defs Let_def Voice_update_row_def)

text \<open>The settings of another tenant are overwritten by its id.\<close>

lemma settings_of_other_tenant:
  assumes "lrows (av_rings w) = [old]" "loutages (av_rings w) = []" "rc_ID c = rc_ID old" "rc_ID c \<noteq> 0" "rc_TenantID c \<noteq> rc_TenantID old"
  shows "lrows (av_rings (snd (UpsertRingConfig now nid c w))) = [Ring_update_row old (c\<lparr>rc_UpdatedAt := now\<rparr>)]"
  using assms by (simp add: UpsertRingConfig_def upsert_keys_def act_simps on_link_def lrow_def Let_def) (simp add: Ring_update_row_def)

section \<open>Witnesses\<close>

definition demo_agent :: comm_agent where
  "demo_agent = \<lparr>ca_ID = 5, ca_TenantID = 7, ca_DigitalEmployeeID = 1, ca_Name = ''a'', ca_Mode = ''inbound'', ca_SystemPrompt = ''p'', ca_MaxTurns = 1,
     ca_TransferSkillGroupID = None, ca_LLMModelID = None, ca_IsActive = True, ca_CreatedAt = 0, ca_UpdatedAt = 0\<rparr>"

definition demo_course :: course where
  "demo_course = \<lparr>co_ID = 3, co_TenantID = 7, co_Title = ''c'', co_Description = [], co_ContentJSON = [], co_PassScore = 67,
     co_Status = CourseStatusDraft, co_CreatedAt = 0, co_UpdatedAt = 0\<rparr>"

abbreviation rows_of :: "'r list \<Rightarrow> 'r ltable" where
  "rows_of xs \<equiv> \<lparr>lrows = xs, loutages = []\<rparr>"

definition demo_adv :: adv_world where
  "demo_adv = \<lparr>av_agents = rows_of [demo_agent], av_sessions = rows_of [], av_voices = rows_of [], av_tasks = rows_of [], av_courses = rows_of [demo_course],
     av_exams = rows_of [], av_sims = rows_of [], av_rings = rows_of [], av_ringlogs = rows_of [], av_duplex = rows_of []\<rparr>"

definition demo_turn :: "int option \<Rightarrow> turn_request" where
  "demo_turn k = \<lparr>tr_tenant = 7, tr_agent = 5, tr_call = 9, tr_session = k, tr_user = ''u'', tr_reply = Inr ''r'', tr_transfer = Inl ''down'',
     tr_fresh = 11, tr_now = 0\<rparr>"

theorem conversation_life_witness:
  "sessions_ok (session_rows (run_turns [demo_turn None, demo_turn (Some 11), demo_turn (Some 11)] demo_adv)) \<and>
   map (\<lambda>s. (cs_TurnCount s, cs_Status s)) (session_rows (run_turns [demo_turn None, demo_turn (Some 11), demo_turn (Some 11)] demo_adv)) =
     [(2, AgentSessionCompleted)]"
proof -
  have "agents_ok (lrows (av_agents demo_adv))" "sessions_ok (session_rows demo_adv)"
    by (simp_all add: agents_ok_def sessions_ok_def demo_adv_def demo_agent_def)
  from conversation_life [OF this, of "[demo_turn None, demo_turn (Some 11), demo_turn (Some 11)]"]
  have "sessions_ok (session_rows (run_turns [demo_turn None, demo_turn (Some 11), demo_turn (Some 11)] demo_adv))" by (rule conjunct1)
  moreover have "map (\<lambda>s. (cs_TurnCount s, cs_Status s)) (session_rows (run_turns [demo_turn None, demo_turn (Some 11), demo_turn (Some 11)] demo_adv)) =
     [(2, AgentSessionCompleted)]"
    by code_simp
  ultimately show ?thesis ..
qed

definition demo_exam :: exam_input where
  "demo_exam = \<lparr>xi_TenantID = 7, xi_CourseID = 3, xi_AgentID = 5, xi_Score = 2, xi_MaxScore = 3, xi_AnswersJSON = []\<rparr>"

theorem exam_passed_exactly_witness: "map_sum id ex_Status (fst (SubmitExam 0 21 demo_exam demo_adv)) = Inr ExamStatusFailed"
proof -
  obtain e where e: "fst (SubmitExam 0 21 demo_exam demo_adv) = Inr e"
    by (simp add: SubmitExam_def GetCourse_def select_one_def act_simps lsql_defs Let_def demo_adv_def demo_exam_def demo_course_def lrow_def)
  have "int64 (xi_Score demo_exam * 100)" by (simp add: demo_exam_def int64_def)
  moreover have "\<forall>c \<in> set (lrows (av_courses demo_adv)). 1 \<le> co_PassScore c \<and> co_PassScore c \<le> 100"
    by (simp add: demo_adv_def demo_course_def)
  ultimately have "ex_Status e = ExamStatusFailed"
    using exam_passed_exactly [OF e] by (simp add: demo_adv_def demo_course_def demo_exam_def)
  with e show ?thesis by simp
qed

end
