(* ===== verification/Annotation.thy ===== *)
theory Annotation
  imports Tables Decimal
begin

text \<open>
  Annotation tasks and the configurations of language models: \<open>internal/domain/ai/service_phase10.go\<close> over the statements of
  \<open>internal/infrastructure/mysql/ai_phase10_repo.go\<close>, and the edit of \<open>interfaces/http/handler/llm_gateway.go\<close>.
\<close>

section \<open>Entities\<close>

datatype ann_status = AnnPending | AnnInProgress | AnnCompleted | AnnCancelled

record ann_task =
  an_ID :: int
  an_TenantID :: int
  an_Name :: string
  an_Type :: string
  an_DatasetID :: string
  an_AssigneeID :: "int option"
  an_TotalItems :: int
  an_LabeledItems :: int
  an_Status :: ann_status
  an_CreatedAt :: gotime
  an_UpdatedAt :: gotime

record ann_result =
  ar_ID :: int
  ar_TaskID :: int
  ar_TenantID :: int
  ar_ItemIndex :: int
  ar_RawText :: string
  ar_Label :: string
  ar_Metadata :: string
  ar_AnnotatorID :: int
  ar_CreatedAt :: gotime

record ann_input =
  ai2_TenantID :: int
  ai2_Name :: string
  ai2_Type :: string
  ai2_DatasetID :: string
  ai2_AssigneeID :: "int option"
  ai2_TotalItems :: int

record submit_input =
  si_TaskID :: int
  si_TenantID :: int
  si_ItemIndex :: int
  si_RawText :: string
  si_Label :: string
  si_Metadata :: string
  si_AnnotatorID :: int

record llm_config =
  lm_ID :: int
  lm_TenantID :: int
  lm_Name :: string
  lm_ProviderType :: string
  lm_Endpoint :: string
  lm_APIKey :: string
  lm_ModelName :: string
  lm_IsDefault :: bool
  lm_IsActive :: bool
  lm_CreatedAt :: gotime
  lm_UpdatedAt :: gotime

datatype ann_error = ErrInvalidAnnotationType | ErrAnnotationTaskNotFound | ErrAnnotationTaskCompleted | ErrAnnotationTaskCancelled
  | ErrAnnotationResultExists | ErrInvalidProviderType | ErrLLMModelConfigNotFound | ErrNoDefaultLLMModel | ErrAnnStore string

record ann_world =
  nw_tasks :: "ann_task ltable"
  nw_results :: "ann_result ltable"
  nw_models :: "llm_config ltable"

type_synonym 'a nact = "(ann_world, ann_error, 'a) act"

abbreviation on_ann_tasks :: "(ann_task ltable, string, 'a) act \<Rightarrow> 'a nact" where
  "on_ann_tasks m \<equiv> wrap_a ErrAnnStore (zoom_a nw_tasks (\<lambda>d w. w\<lparr>nw_tasks := d\<rparr>) m)"

abbreviation on_ann_results :: "(ann_result ltable, string, 'a) act \<Rightarrow> 'a nact" where
  "on_ann_results m \<equiv> wrap_a ErrAnnStore (zoom_a nw_results (\<lambda>d w. w\<lparr>nw_results := d\<rparr>) m)"

abbreviation on_models :: "(llm_config ltable, string, 'a) act \<Rightarrow> 'a nact" where
  "on_models m \<equiv> wrap_a ErrAnnStore (zoom_a nw_models (\<lambda>d w. w\<lparr>nw_models := d\<rparr>) m)"

section \<open>Tasks\<close>

definition isValidAnnotationType :: "string \<Rightarrow> bool" where
  "isValidAnnotationType t \<longleftrightarrow> t \<in> set [''intent'', ''entity'', ''sentiment'', ''faq'']"

definition CreateTask :: "gotime \<Rightarrow> int \<Rightarrow> ann_input \<Rightarrow> ann_task nact" where
  "CreateTask now nid inp =
     (if \<not> isValidAnnotationType (ai2_Type inp) then throw_a ErrInvalidAnnotationType
      else let t = \<lparr>an_ID = nid, an_TenantID = ai2_TenantID inp, an_Name = ai2_Name inp, an_Type = ai2_Type inp, an_DatasetID = ai2_DatasetID inp,
             an_AssigneeID = ai2_AssigneeID inp, an_TotalItems = ai2_TotalItems inp, an_LabeledItems = 0, an_Status = AnnPending,
             an_CreatedAt = now, an_UpdatedAt = now\<rparr>
        in seq_a (on_ann_tasks (ins_row an_ID (\<lambda>x. x) t)) (ret_a t))"

definition load_task :: "int \<Rightarrow> ann_task nact" where
  "load_task k = bind_a (on_ann_tasks (sel_row an_ID k)) (\<lambda>r. case r of None \<Rightarrow> throw_a ErrAnnotationTaskNotFound | Some t \<Rightarrow> ret_a t)"

definition Task_row_update :: "ann_task \<Rightarrow> ann_task \<Rightarrow> ann_task" where
  "Task_row_update old t = old\<lparr>an_Name := an_Name t, an_AssigneeID := an_AssigneeID t, an_LabeledItems := an_LabeledItems t,
     an_Status := an_Status t, an_UpdatedAt := an_UpdatedAt t\<rparr>"

definition update_task :: "ann_task \<Rightarrow> unit nact" where
  "update_task t = on_ann_tasks (upd_rows (\<lambda>r. an_ID r = an_ID t) (\<lambda>r. Task_row_update r t))"

definition StartTask :: "gotime \<Rightarrow> int \<Rightarrow> ann_task nact" where
  "StartTask now k = bind_a (load_task k) (\<lambda>t.
     if an_Status t = AnnCompleted then throw_a ErrAnnotationTaskCompleted
     else if an_Status t = AnnCancelled then throw_a ErrAnnotationTaskCancelled
     else let t1 = t\<lparr>an_Status := AnnInProgress, an_UpdatedAt := now\<rparr> in seq_a (update_task t1) (ret_a t1))"

definition CompleteTask :: "gotime \<Rightarrow> int \<Rightarrow> ann_task nact" where
  "CompleteTask now k = bind_a (load_task k) (\<lambda>t.
     let t1 = t\<lparr>an_Status := AnnCompleted, an_UpdatedAt := now\<rparr> in seq_a (update_task t1) (ret_a t1))"

definition CancelTask :: "gotime \<Rightarrow> int \<Rightarrow> ann_task nact" where
  "CancelTask now k = bind_a (load_task k) (\<lambda>t.
     if an_Status t = AnnCompleted then throw_a ErrAnnotationTaskCompleted
     else let t1 = t\<lparr>an_Status := AnnCancelled, an_UpdatedAt := now\<rparr> in seq_a (update_task t1) (ret_a t1))"

text \<open>The result, and the task with one more item labelled.\<close>

definition result_of :: "gotime \<Rightarrow> int \<Rightarrow> submit_input \<Rightarrow> ann_result" where
  "result_of now nid inp = \<lparr>ar_ID = nid, ar_TaskID = si_TaskID inp, ar_TenantID = si_TenantID inp, ar_ItemIndex = si_ItemIndex inp,
     ar_RawText = si_RawText inp, ar_Label = si_Label inp, ar_Metadata = si_Metadata inp, ar_AnnotatorID = si_AnnotatorID inp, ar_CreatedAt = now\<rparr>"

definition labelled :: "gotime \<Rightarrow> ann_task \<Rightarrow> ann_task" where
  "labelled now t = (let t1 = t\<lparr>an_LabeledItems := an_LabeledItems t + 1, an_UpdatedAt := now\<rparr>
     in if an_TotalItems t1 \<le> an_LabeledItems t1 then t1\<lparr>an_Status := AnnCompleted\<rparr>
        else if an_Status t1 = AnnPending then t1\<lparr>an_Status := AnnInProgress\<rparr> else t1)"

text \<open>The error of the look-up for an earlier result is dropped.\<close>

definition SubmitAnnotation :: "gotime \<Rightarrow> int \<Rightarrow> submit_input \<Rightarrow> ann_result nact" where
  "SubmitAnnotation now nid inp = bind_a (load_task (si_TaskID inp)) (\<lambda>t.
     if an_Status t = AnnCompleted then throw_a ErrAnnotationTaskCompleted
     else if an_Status t = AnnCancelled then throw_a ErrAnnotationTaskCancelled
     else try_a (on_ann_results (sel_all (\<lambda>r. ar_TaskID r = si_TaskID inp \<and> ar_ItemIndex r = si_ItemIndex inp))) (\<lambda>found.
       if (case found of Inl _ \<Rightarrow> False | Inr rs \<Rightarrow> rs \<noteq> []) then throw_a ErrAnnotationResultExists
       else seq_a (on_ann_results (ins_row ar_ID (\<lambda>x. x) (result_of now nid inp)))
              (seq_a (update_task (labelled now t)) (ret_a (result_of now nid inp)))))"

section \<open>Language models\<close>

definition isValidProviderType :: "string \<Rightarrow> bool" where
  "isValidProviderType t \<longleftrightarrow> t \<in> set [''tongyi'', ''openai'', ''bailian'', ''self_hosted'']"

definition CreateModelConfig :: "gotime \<Rightarrow> int \<Rightarrow> llm_config \<Rightarrow> llm_config nact" where
  "CreateModelConfig now nid inp =
     (if \<not> isValidProviderType (lm_ProviderType inp) then throw_a ErrInvalidProviderType
      else let c = inp\<lparr>lm_ID := nid, lm_IsActive := True, lm_CreatedAt := now, lm_UpdatedAt := now\<rparr>
        in seq_a (on_models (ins_row lm_ID (\<lambda>x. x) c)) (ret_a c))"

definition Model_row_update :: "llm_config \<Rightarrow> llm_config \<Rightarrow> llm_config" where
  "Model_row_update old c = old\<lparr>lm_Name := lm_Name c, lm_ProviderType := lm_ProviderType c, lm_Endpoint := lm_Endpoint c, lm_APIKey := lm_APIKey c,
     lm_ModelName := lm_ModelName c, lm_IsDefault := lm_IsDefault c, lm_IsActive := lm_IsActive c, lm_UpdatedAt := lm_UpdatedAt c\<rparr>"

definition or_kept :: "string \<Rightarrow> string \<Rightarrow> string" where
  "or_kept new old = (if new \<noteq> [] then new else old)"

text \<open>The handler: fields that are empty in the request keep their value.\<close>

definition UpdateModelConfig ::
  "gotime \<Rightarrow> int \<Rightarrow> string \<Rightarrow> string \<Rightarrow> string \<Rightarrow> string \<Rightarrow> string \<Rightarrow> bool option \<Rightarrow> bool option \<Rightarrow> llm_config nact" where
  "UpdateModelConfig now k name provider endpoint key model dflt active =
     bind_a (on_models (sel_row lm_ID k)) (\<lambda>r. case r of
       None \<Rightarrow> throw_a ErrLLMModelConfigNotFound
     | Some c \<Rightarrow>
         let c1 = c\<lparr>lm_Name := or_kept name (lm_Name c), lm_ProviderType := or_kept provider (lm_ProviderType c),
               lm_Endpoint := or_kept endpoint (lm_Endpoint c), lm_APIKey := or_kept key (lm_APIKey c), lm_ModelName := or_kept model (lm_ModelName c),
               lm_IsDefault := (case dflt of None \<Rightarrow> lm_IsDefault c | Some b \<Rightarrow> b),
               lm_IsActive := (case active of None \<Rightarrow> lm_IsActive c | Some b \<Rightarrow> b), lm_UpdatedAt := now\<rparr>
         in seq_a (on_models (upd_rows (\<lambda>x. lm_ID x = lm_ID c1) (\<lambda>x. Model_row_update x c1))) (ret_a c1))"

definition DeleteModelConfig :: "int \<Rightarrow> unit nact" where
  "DeleteModelConfig k = on_models (on_link (\<lambda>t. (Inr (), t\<lparr>lrows := filter (\<lambda>c. lm_ID c \<noteq> k) (lrows t)\<rparr>)))"

text \<open>\<open>LIMIT 1\<close> without an order: \<open>pick\<close> is the row the database returns.\<close>

definition GetDefaultModel :: "(llm_config list \<Rightarrow> llm_config) \<Rightarrow> int \<Rightarrow> llm_config nact" where
  "GetDefaultModel pick tenant = bind_a (on_models (sel_all (\<lambda>c. lm_TenantID c = tenant \<and> lm_IsDefault c \<and> lm_IsActive c)))
     (\<lambda>cs. if cs = [] then throw_a ErrNoDefaultLLMModel else ret_a (pick cs))"

end
