(* ===== verification/AnnotationProps.thy ===== *)
theory AnnotationProps
  imports Annotation
begin

text \<open>
  Annotation tasks along any sequence of operations: what is counted, and that a task that is closed stays so.
\<close>

datatype ann_op = AnnCreate gotime int ann_input | AnnStart gotime int | AnnComplete gotime int | AnnCancel gotime int
  | AnnSubmit gotime int submit_input

fun ann_step :: "ann_op \<Rightarrow> ann_world \<Rightarrow> ann_world" where
  "ann_step (AnnCreate now nid inp) w = snd (CreateTask now nid inp w)"
| "ann_step (AnnStart now k) w = snd (StartTask now k w)"
| "ann_step (AnnComplete now k) w = snd (CompleteTask now k w)"
| "ann_step (AnnCancel now k) w = snd (CancelTask now k w)"
| "ann_step (AnnSubmit now nid inp) w = snd (SubmitAnnotation now nid inp w)"

definition ann_run :: "ann_op list \<Rightarrow> ann_world \<Rightarrow> ann_world" where
  "ann_run xs w = foldl (\<lambda>w x. ann_step x w) w xs"

abbreviation ann_tasks :: "ann_world \<Rightarrow> ann_task list" where
  "ann_tasks w \<equiv> lrows (nw_tasks w)"

abbreviation ann_results :: "ann_world \<Rightarrow> ann_result list" where
  "ann_results w \<equiv> lrows (nw_results w)"

definition labels_of :: "ann_world \<Rightarrow> int \<Rightarrow> int list" where
  "labels_of w k = map ar_ItemIndex (filter (\<lambda>r. ar_TaskID r = k) (ann_results w))"

definition closed_task :: "ann_task \<Rightarrow> bool" where
  "closed_task t \<longleftrightarrow> an_Status t \<in> {AnnCompleted, AnnCancelled}"

definition task_ok :: "ann_world \<Rightarrow> ann_task \<Rightarrow> bool" where
  "task_ok w t \<longleftrightarrow> an_LabeledItems t = int (length (labels_of w (an_ID t))) \<and> distinct (labels_of w (an_ID t)) \<and>
     (\<not> closed_task t \<and> 0 < an_LabeledItems t \<longrightarrow> an_LabeledItems t < an_TotalItems t)"

definition ann_ok :: "ann_world \<Rightarrow> bool" where
  "ann_ok w \<longleftrightarrow> loutages (nw_tasks w) = [] \<and> loutages (nw_results w) = [] \<and> distinct (map an_ID (ann_tasks w)) \<and>
     (\<forall>t \<in> set (ann_tasks w). task_ok w t) \<and> (\<forall>r \<in> set (ann_results w). ar_TaskID r \<in> an_ID ` set (ann_tasks w))"

text \<open>What a later state may have made of a task.\<close>

definition task_later :: "ann_world \<Rightarrow> ann_world \<Rightarrow> bool" where
  "task_later w w' \<longleftrightarrow> (\<forall>t \<in> set (ann_tasks w). \<exists>t' \<in> set (ann_tasks w'). an_ID t' = an_ID t \<and> an_LabeledItems t \<le> an_LabeledItems t' \<and>
     (closed_task t \<longrightarrow> closed_task t' \<and> labels_of w' (an_ID t) = labels_of w (an_ID t)))"

lemma task_later_refl: "task_later w w"
  by (auto simp: task_later_def)

lemma task_later_trans: "task_later u v \<Longrightarrow> task_later v w \<Longrightarrow> task_later u w"
  unfolding task_later_def by (metis order_trans)

text \<open>One task is rewritten and perhaps one result added.\<close>

lemma rewrite_task:
  assumes ok: "ann_ok w" and t: "t \<in> set (ann_tasks w)" and t': "an_ID t' = an_ID t" "Task_row_update t t' = t'" "an_LabeledItems t \<le> an_LabeledItems t'"
    and tasks: "nw_tasks w' = \<lparr>lrows = map (\<lambda>r. if an_ID r = an_ID t' then Task_row_update r t' else r) (ann_tasks w), loutages = []\<rparr>"
    and results: "nw_results w' = \<lparr>lrows = ann_results w @ new, loutages = []\<rparr>" "\<forall>r \<in> set new. ar_TaskID r = an_ID t"
    and closed: "closed_task t \<Longrightarrow> closed_task t' \<and> new = []" and tok: "task_ok w' t'"
  shows "ann_ok w' \<and> task_later w w'"
proof -
  have one: "x = t" if "x \<in> set (ann_tasks w)" "an_ID x = an_ID t" for x
    using that ok t by (auto simp: ann_ok_def distinct_map inj_on_def)
  have rows: "ann_tasks w' = map (\<lambda>x. if x = t then t' else x) (ann_tasks w)"
    unfolding tasks using one t' t by (auto intro!: map_cong)
  have labels: "labels_of w' k = labels_of w k" if "k \<noteq> an_ID t" for k
    using results that by (auto simp: labels_of_def intro!: filter_False)
  have other: "task_ok w' x" if "x \<in> set (ann_tasks w)" "x \<noteq> t" for x
  proof -
    from that one [of x] have "an_ID x \<noteq> an_ID t" by blast
    moreover have "task_ok w x" using that(1) ok by (simp add: ann_ok_def)
    ultimately show ?thesis using labels [of "an_ID x"] unfolding task_ok_def by auto
  qed
  have ids: "map an_ID (ann_tasks w') = map an_ID (ann_tasks w)" using t'(1) by (simp add: rows)
  then have id_set: "an_ID ` set (ann_tasks w') = an_ID ` set (ann_tasks w)" by (metis set_map)
  have "ann_ok w'" unfolding ann_ok_def
  proof (intro conjI)
    show "loutages (nw_tasks w') = []" "loutages (nw_results w') = []" by (simp_all add: tasks results)
    show "distinct (map an_ID (ann_tasks w'))" using ok ids by (simp add: ann_ok_def)
    show "\<forall>x \<in> set (ann_tasks w'). task_ok w' x" using other tok by (auto simp: rows)
    show "\<forall>r \<in> set (ann_results w'). ar_TaskID r \<in> an_ID ` set (ann_tasks w')"
      using ok results t unfolding id_set by (auto simp: ann_ok_def)
  qed
  moreover have "task_later w w'" unfolding task_later_def
  proof
    fix x assume x: "x \<in> set (ann_tasks w)"
    show "\<exists>x' \<in> set (ann_tasks w'). an_ID x' = an_ID x \<and> an_LabeledItems x \<le> an_LabeledItems x' \<and>
        (closed_task x \<longrightarrow> closed_task x' \<and> labels_of w' (an_ID x) = labels_of w (an_ID x))"
    proof (cases "x = t")
      case True
      with x t' closed results show ?thesis by (intro bexI [of _ t']) (auto simp: rows labels_of_def)
    next
      case False
      with x one [of x] labels [of "an_ID x"] show ?thesis by (intro bexI [of _ x]) (auto simp: rows)
    qed
  qed
  ultimately show ?thesis ..
qed

lemma load_task_ok:
  assumes "ann_ok w"
  shows "load_task k w = (case find (\<lambda>t. an_ID t = k) (ann_tasks w) of None \<Rightarrow> Inl ErrAnnotationTaskNotFound | Some t \<Rightarrow> Inr t, w)"
  using assms by (auto simp: load_task_def act_simps lsql_defs lrow_def ann_ok_def split: option.split)

lemma update_task_ok:
  assumes "loutages (nw_tasks w) = []"
  shows "update_task t w = (Inr (), w\<lparr>nw_tasks := \<lparr>lrows = map (\<lambda>r. if an_ID r = an_ID t then Task_row_update r t else r) (ann_tasks w), loutages = []\<rparr>\<rparr>)"
  using assms by (cases "nw_tasks w") (simp add: update_task_def act_simps lsql_defs)

lemma find_task: "find (\<lambda>t. an_ID t = k) ts = Some t \<Longrightarrow> t \<in> set ts \<and> an_ID t = k"
  by (auto simp: find_Some_iff)

text \<open>Setting a status keeps the counts.\<close>

lemma set_status:
  fixes now :: gotime
  assumes ok: "ann_ok w" and t: "t \<in> set (ann_tasks w)" and st: "closed_task t \<Longrightarrow> st \<in> {AnnCompleted, AnnCancelled}"
  defines "t1 \<equiv> t\<lparr>an_Status := st, an_UpdatedAt := now\<rparr>"
  shows "ann_ok (snd (update_task t1 w)) \<and> task_later w (snd (update_task t1 w))"
proof -
  have up: "loutages (nw_tasks w) = []" "loutages (nw_results w) = []" using ok by (simp_all add: ann_ok_def)
  let ?w = "snd (update_task t1 w)"
  have res: "nw_results ?w = nw_results w" and tasks: "nw_tasks ?w = \<lparr>lrows = map (\<lambda>r. if an_ID r = an_ID t1 then Task_row_update r t1 else r) (ann_tasks w), loutages = []\<rparr>"
    by (simp_all add: update_task_ok [OF up(1)])
  have labels: "labels_of ?w k = labels_of w k" for k by (simp add: labels_of_def res)
  have "task_ok w t" using ok t by (auto simp: ann_ok_def)
  then have "task_ok ?w t1" using st unfolding task_ok_def labels by (auto simp: t1_def closed_task_def)
  moreover have "nw_results ?w = \<lparr>lrows = ann_results w @ [], loutages = []\<rparr>" using res up(2) by (cases "nw_results w") simp
  ultimately show ?thesis using st tasks
    by (intro rewrite_task [OF ok t, where new = "[]"]) (auto simp: t1_def Task_row_update_def closed_task_def)
qed

lemma submit_ok:
  assumes ok: "ann_ok w"
  shows "ann_ok (snd (SubmitAnnotation now nid inp w)) \<and> task_later w (snd (SubmitAnnotation now nid inp w))"
proof (cases "find (\<lambda>t. an_ID t = si_TaskID inp) (ann_tasks w)")
  case None
  with ok task_later_refl show ?thesis by (simp add: SubmitAnnotation_def act_simps load_task_ok)
next
  case (Some t)
  from find_task [OF Some] have t: "t \<in> set (ann_tasks w)" "an_ID t = si_TaskID inp" by auto
  have up: "loutages (nw_tasks w) = []" "loutages (nw_results w) = []" using ok by (simp_all add: ann_ok_def)
  have seen: "si_ItemIndex inp \<notin> set (labels_of w (an_ID t))"
    if "filter (\<lambda>r. ar_TaskID r = si_TaskID inp \<and> ar_ItemIndex r = si_ItemIndex inp) (ann_results w) = []"
    using that t(2) by (auto simp: labels_of_def filter_empty_conv)
  let ?r = "result_of now nid inp" and ?t2 = "labelled now t"
  show ?thesis
  proof (cases "closed_task t \<or> filter (\<lambda>r. ar_TaskID r = si_TaskID inp \<and> ar_ItemIndex r = si_ItemIndex inp) (ann_results w) \<noteq> [] \<or>
      lrow ar_ID (nw_results w) nid \<noteq> None")
    case True
    with ok task_later_refl [of w] Some up show ?thesis
      by (auto simp: SubmitAnnotation_def act_simps load_task_ok closed_task_def lsql_defs result_of_def)
  next
    case False
    let ?w1 = "w\<lparr>nw_results := \<lparr>lrows = ann_results w @ [?r], loutages = []\<rparr>\<rparr>"
    have res: "(nw_results w)\<lparr>lrows := x\<rparr> = \<lparr>lrows = x, loutages = []\<rparr>" for x using up(2) by (cases "nw_results w") simp
    have rid: "ar_ID ?r = nid" by (simp add: result_of_def)
    let ?w2 = "snd (update_task ?t2 ?w1)"
    have run: "snd (SubmitAnnotation now nid inp w) = ?w2"
      using False Some ok up by (simp add: SubmitAnnotation_def act_simps load_task_ok closed_task_def lsql_defs res rid update_task_ok)
    have w2: "nw_tasks ?w2 = \<lparr>lrows = map (\<lambda>x. if an_ID x = an_ID ?t2 then Task_row_update x ?t2 else x) (ann_tasks w), loutages = []\<rparr>"
      "nw_results ?w2 = \<lparr>lrows = ann_results w @ [?r], loutages = []\<rparr>"
      using up by (simp_all add: update_task_ok)
    have labels: "labels_of ?w2 (an_ID t) = labels_of w (an_ID t) @ [si_ItemIndex inp]"
      unfolding labels_of_def w2(2) using t(2) by (simp add: result_of_def)
    have tk: "task_ok w t" using ok t by (auto simp: ann_ok_def)
    have fields: "an_ID ?t2 = an_ID t" "an_LabeledItems ?t2 = an_LabeledItems t + 1" "an_TotalItems ?t2 = an_TotalItems t" "Task_row_update t ?t2 = ?t2"
      by (simp_all add: labelled_def Let_def Task_row_update_def)
    have "closed_task ?t2 \<or> an_LabeledItems t + 1 < an_TotalItems t" by (auto simp: labelled_def Let_def closed_task_def)
    then have "task_ok ?w2 ?t2"
      using tk seen False labels unfolding task_ok_def fields by auto
    with False w2 fields t(2) show ?thesis unfolding run
      by (intro rewrite_task [OF ok t(1), where new = "[?r]"]) (auto simp: result_of_def)
  qed
qed

lemma ann_step_ok:
  assumes ok: "ann_ok w"
  shows "ann_ok (ann_step x w) \<and> task_later w (ann_step x w)"
proof (cases x)
  case (AnnCreate now nid inp)
  have up: "loutages (nw_tasks w) = []" using ok by (simp add: ann_ok_def)
  show ?thesis
  proof (cases "isValidAnnotationType (ai2_Type inp) \<and> lrow an_ID (nw_tasks w) nid = None")
    case False
    with ok up task_later_refl [of w] AnnCreate show ?thesis
      by (auto simp: CreateTask_def act_simps lsql_defs Let_def)
  next
    case True
    let ?t = "\<lparr>an_ID = nid, an_TenantID = ai2_TenantID inp, an_Name = ai2_Name inp, an_Type = ai2_Type inp, an_DatasetID = ai2_DatasetID inp,
        an_AssigneeID = ai2_AssigneeID inp, an_TotalItems = ai2_TotalItems inp, an_LabeledItems = 0, an_Status = AnnPending, an_CreatedAt = now, an_UpdatedAt = now\<rparr>"
    have w': "ann_step x w = w\<lparr>nw_tasks := \<lparr>lrows = ann_tasks w @ [?t], loutages = []\<rparr>\<rparr>"
      using True up AnnCreate by (cases "nw_tasks w") (simp add: CreateTask_def act_simps lsql_defs Let_def)
    have labels: "labels_of (ann_step x w) k = labels_of w k" for k by (simp add: labels_of_def w')
    have fresh: "nid \<notin> an_ID ` set (ann_tasks w)" using True by (auto simp: lrow_def find_None_iff)
    then have "labels_of w nid = []" using ok by (auto simp: labels_of_def filter_empty_conv ann_ok_def)
    then have "task_ok (ann_step x w) ?t" by (simp add: task_ok_def labels)
    moreover have "task_ok (ann_step x w) t" if "t \<in> set (ann_tasks w)" for t
      using that ok by (auto simp: ann_ok_def task_ok_def labels)
    ultimately have "ann_ok (ann_step x w)" using ok fresh unfolding ann_ok_def by (auto simp: w')
    moreover have "set (ann_tasks w) \<subseteq> set (ann_tasks (ann_step x w))" by (auto simp: w')
    then have "task_later w (ann_step x w)" unfolding task_later_def labels by blast
    ultimately show ?thesis ..
  qed
next
  case (AnnStart now k)
  show ?thesis
  proof (cases "find (\<lambda>t. an_ID t = k) (ann_tasks w)")
    case None
    with ok task_later_refl AnnStart show ?thesis by (simp add: StartTask_def act_simps load_task_ok)
  next
    case (Some t)
    with find_task [OF Some] ok task_later_refl [of w] AnnStart set_status [OF ok, of t AnnInProgress now] show ?thesis
      by (auto simp: StartTask_def act_simps load_task_ok Let_def closed_task_def split: prod.split sum.split)
  qed
next
  case (AnnComplete now k)
  show ?thesis
  proof (cases "find (\<lambda>t. an_ID t = k) (ann_tasks w)")
    case None
    with ok task_later_refl AnnComplete show ?thesis by (simp add: CompleteTask_def act_simps load_task_ok)
  next
    case (Some t)
    with find_task [OF Some] ok AnnComplete set_status [OF ok, of t AnnCompleted now] show ?thesis
      by (auto simp: CompleteTask_def act_simps load_task_ok Let_def split: prod.split sum.split)
  qed
next
  case (AnnCancel now k)
  show ?thesis
  proof (cases "find (\<lambda>t. an_ID t = k) (ann_tasks w)")
    case None
    with ok task_later_refl AnnCancel show ?thesis by (simp add: CancelTask_def act_simps load_task_ok)
  next
    case (Some t)
    with find_task [OF Some] ok task_later_refl [of w] AnnCancel set_status [OF ok, of t AnnCancelled now] show ?thesis
      by (auto simp: CancelTask_def act_simps load_task_ok Let_def split: prod.split sum.split)
  qed
next
  case (AnnSubmit now nid inp)
  with submit_ok [OF ok] show ?thesis by simp
qed

text \<open>
  Along any sequence of operations, while the database answers, a task counts exactly the results stored for it, no item is labelled twice, a task that has
  labels and is open has items left (the last one completes it), and a task that is completed or cancelled stays closed and gets no more results.
\<close>

theorem annotation_counts:
  assumes "ann_ok w"
  shows "ann_ok (ann_run xs w) \<and> task_later w (ann_run xs w)"
  using assms
proof (induction xs arbitrary: w)
  case Nil
  then show ?case by (simp add: ann_run_def task_later_refl)
next
  case (Cons x xs)
  from ann_step_ok [OF Cons.prems, of x] Cons.IH [of "ann_step x w"] task_later_trans show ?case
    by (auto simp: ann_run_def)
qed

text \<open>When the look-up fails an item is labelled twice, and the task counts it twice.\<close>

lemma lost_lookup_labels_twice:
  assumes "nw_tasks w = \<lparr>lrows = [t], loutages = []\<rparr>" "nw_results w = \<lparr>lrows = [r], loutages = [True]\<rparr>"
    and "\<not> closed_task t" "ar_TaskID r = an_ID t" "nid \<noteq> ar_ID r" "si_TaskID inp = an_ID t" "si_ItemIndex inp = ar_ItemIndex r"
  shows "labels_of (snd (SubmitAnnotation now nid inp w)) (an_ID t) = [ar_ItemIndex r, ar_ItemIndex r]"
  using assms by (simp add: SubmitAnnotation_def load_task_def update_task_def act_simps lsql_defs lrow_def closed_task_def labels_of_def result_of_def labelled_def Let_def)

text \<open>A cancelled task can be completed.\<close>

lemma cancelled_completed:
  assumes "nw_tasks w = \<lparr>lrows = [t], loutages = []\<rparr>" "an_Status t = AnnCancelled"
  shows "map an_Status (ann_tasks (snd (CompleteTask now (an_ID t) w))) = [AnnCompleted]"
  using assms by (simp add: CompleteTask_def load_task_def update_task_def act_simps lsql_defs lrow_def Let_def Task_row_update_def)

section \<open>Witness\<close>

definition ann_empty :: ann_world where
  "ann_empty = \<lparr>nw_tasks = \<lparr>lrows = [], loutages = []\<rparr>, nw_results = \<lparr>lrows = [], loutages = []\<rparr>, nw_models = \<lparr>lrows = [], loutages = []\<rparr>\<rparr>"

definition ann_demo :: "ann_op list" where
  "ann_demo = (let s = \<lparr>si_TaskID = 1, si_TenantID = 7, si_ItemIndex = 0, si_RawText = [], si_Label = ''x'', si_Metadata = [], si_AnnotatorID = 2\<rparr> in
     [AnnCreate 0 1 \<lparr>ai2_TenantID = 7, ai2_Name = ''n'', ai2_Type = ''faq'', ai2_DatasetID = [], ai2_AssigneeID = None, ai2_TotalItems = 2\<rparr>,
      AnnSubmit 1 11 s, AnnSubmit 2 12 s, AnnSubmit 3 13 (s\<lparr>si_ItemIndex := 1\<rparr>), AnnStart 4 1])"

theorem annotation_counts_witness:
  "ann_ok (ann_run ann_demo ann_empty) \<and> map (\<lambda>t. (an_LabeledItems t, an_Status t)) (ann_tasks (ann_run ann_demo ann_empty)) = [(2, AnnCompleted)]"
proof -
  have "ann_ok ann_empty" by (simp add: ann_ok_def ann_empty_def)
  from annotation_counts [OF this, of ann_demo] have "ann_ok (ann_run ann_demo ann_empty)" by (rule conjunct1)
  moreover have "map (\<lambda>t. (an_LabeledItems t, an_Status t)) (ann_tasks (ann_run ann_demo ann_empty)) = [(2, AnnCompleted)]"
    by code_simp
  ultimately show ?thesis ..
qed

end
