(* ===== verification/Dialog.thy ===== *)
theory Dialog
  imports Complex_Main Quality
begin

text \<open>
  The dialog of a digital employee as a state machine (\<open>internal/domain/ai/conversation.go\<close>) and the agent's copilot
  (\<open>internal/domain/ai/copilot.go\<close>).
\<close>

section \<open>The machine\<close>

datatype dialog_state = StateGreeting | StateIdentify | StateInquiry | StateConfirm | StateTransfer | StateCompleted

record transition =
  tn_From :: dialog_state
  tn_Trigger :: string
  tn_To :: dialog_state
  tn_Action :: string

record dialog_fsm =
  fsm_Transitions :: "transition list"
  fsm_Initial :: dialog_state

definition arc :: "dialog_state \<Rightarrow> string \<Rightarrow> dialog_state \<Rightarrow> string \<Rightarrow> transition" where
  "arc s t s' a = \<lparr>tn_From = s, tn_Trigger = t, tn_To = s', tn_Action = a\<rparr>"

definition DefaultDialogFSM :: dialog_fsm where
  "DefaultDialogFSM = \<lparr>fsm_Transitions =
     [arc StateGreeting ''*'' StateIdentify ''ask_identity'',
      arc StateIdentify ''identified'' StateInquiry ''ask_inquiry'',
      arc StateIdentify ''skip'' StateInquiry ''ask_inquiry'',
      arc StateInquiry ''matched'' StateConfirm ''confirm_intent'',
      arc StateInquiry ''transfer'' StateTransfer ''transfer_agent'',
      arc StateInquiry ''unmatched'' StateInquiry ''ask_again'',
      arc StateConfirm ''yes'' StateCompleted ''resolve'',
      arc StateConfirm ''no'' StateInquiry ''ask_inquiry'',
      arc StateConfirm ''transfer'' StateTransfer ''transfer_agent''], fsm_Initial = StateGreeting\<rparr>"

definition Next :: "dialog_fsm \<Rightarrow> dialog_state \<Rightarrow> string \<Rightarrow> transition option" where
  "Next fsm s trigger = find (\<lambda>t. tn_From t = s \<and> (tn_Trigger t = trigger \<or> tn_Trigger t = ''*'')) (fsm_Transitions fsm)"

record dialog_turn =
  dt_Role :: string
  dt_Content :: string
  dt_Intent :: string

record dialog_session =
  ds_SessionID :: string
  ds_DigitalEmployeeID :: int
  ds_SceneID :: int
  ds_TenantID :: int
  ds_CallerID :: string
  ds_State :: dialog_state
  ds_TurnCount :: int
  ds_Slots :: "string \<rightharpoonup> string"
  ds_History :: "dialog_turn list"
  ds_CreatedAt :: gotime
  ds_UpdatedAt :: gotime

definition NewConversationSession :: "gotime \<Rightarrow> string \<Rightarrow> int \<Rightarrow> int \<Rightarrow> int \<Rightarrow> string \<Rightarrow> dialog_session" where
  "NewConversationSession now sid de scene tenant caller = \<lparr>ds_SessionID = sid, ds_DigitalEmployeeID = de, ds_SceneID = scene, ds_TenantID = tenant,
     ds_CallerID = caller, ds_State = StateGreeting, ds_TurnCount = 0, ds_Slots = Map.empty, ds_History = [], ds_CreatedAt = now, ds_UpdatedAt = now\<rparr>"

definition AddDialogTurn :: "gotime \<Rightarrow> string \<Rightarrow> string \<Rightarrow> string \<Rightarrow> dialog_session \<Rightarrow> dialog_session" where
  "AddDialogTurn now role content intent s = s\<lparr>ds_History := ds_History s @ [\<lparr>dt_Role = role, dt_Content = content, dt_Intent = intent\<rparr>],
     ds_TurnCount := ds_TurnCount s + 1, ds_UpdatedAt := now\<rparr>"

definition Advance :: "gotime \<Rightarrow> dialog_fsm \<Rightarrow> string \<Rightarrow> dialog_session \<Rightarrow> string \<times> dialog_session" where
  "Advance now fsm trigger s = (case Next fsm (ds_State s) trigger of
       None \<Rightarrow> ([], s)
     | Some t \<Rightarrow> (tn_Action t, s\<lparr>ds_State := tn_To t, ds_UpdatedAt := now\<rparr>))"

definition IsTerminal :: "dialog_session \<Rightarrow> bool" where
  "IsTerminal s \<longleftrightarrow> ds_State s = StateCompleted \<or> ds_State s = StateTransfer"

section \<open>The copilot\<close>

record nba_action =
  nba_Action :: string
  nba_Label :: string
  nba_Confidence :: rat
  nba_Reason :: string

definition defaultNBA :: "string \<Rightarrow> nba_action list" where
  "defaultNBA level =
     (if level = ''svip'' then [\<lparr>nba_Action = ''transfer_vip'', nba_Label = zh [0x8F6C, 0x63A5] @ ''VIP'' @ zh [0x4E13, 0x7EBF], nba_Confidence = 9 / 10,
          nba_Reason = ''SVIP'' @ zh [0x5BA2, 0x6237, 0x5EFA, 0x8BAE, 0x4F18, 0x5148, 0x7531] @ ''VIP'' @ zh [0x4E13, 0x7EBF, 0x5904, 0x7406]\<rparr>]
      else if level = ''vip'' then [\<lparr>nba_Action = ''prioritize'', nba_Label = zh [0x63D0, 0x5347, 0x670D, 0x52A1, 0x4F18, 0x5148, 0x7EA7], nba_Confidence = 8 / 10,
          nba_Reason = ''VIP'' @ zh [0x5BA2, 0x6237, 0x5E94, 0x83B7, 0x5F97, 0x4F18, 0x5148, 0x670D, 0x52A1]\<rparr>]
      else []) @
     [\<lparr>nba_Action = ''create_ticket'', nba_Label = zh [0x521B, 0x5EFA, 0x5DE5, 0x5355], nba_Confidence = 5 / 10,
       nba_Reason = zh [0x8BB0, 0x5F55, 0x5BA2, 0x6237, 0x8BC9, 0x6C42, 0x4EE5, 0x4FBF, 0x8DDF, 0x8FDB]\<rparr>]"

text \<open>\<open>provider\<close> and \<open>retriever\<close>: what they answer, when there is one; \<open>SuggestArticles\<close> gives the number of articles it asks for.\<close>

definition NextBestActions :: "(string \<Rightarrow> string \<Rightarrow> string + nba_action list) option \<Rightarrow> string \<Rightarrow> string \<Rightarrow> string + nba_action list" where
  "NextBestActions provider level text = (case provider of Some p \<Rightarrow> p level text | None \<Rightarrow> Inr (defaultNBA level))"

definition SuggestArticles :: "(int \<Rightarrow> string \<Rightarrow> int \<Rightarrow> string + 'a list) option \<Rightarrow> int \<Rightarrow> string \<Rightarrow> int \<Rightarrow> string + 'a list" where
  "SuggestArticles retriever tenant text topK = (case retriever of None \<Rightarrow> Inr [] | Some f \<Rightarrow> f tenant text (if topK \<le> 0 then 3 else topK))"

end
