(* ===== verification/DialogProps.thy ===== *)
theory DialogProps
  imports Dialog "HOL-Library.Sublist"
begin

text \<open>
  Which triggers a dialog has seen when it is in a state, that the final states are final, and what cannot be reached.
\<close>

datatype dialog_op = DialogTurn string string string | DialogTrigger string

fun dialog_step :: "gotime \<Rightarrow> dialog_op \<Rightarrow> dialog_session \<Rightarrow> dialog_session" where
  "dialog_step now (DialogTurn role content intent) s = AddDialogTurn now role content intent s"
| "dialog_step now (DialogTrigger t) s = snd (Advance now DefaultDialogFSM t s)"

text \<open>The operations with their times, the latest first.\<close>

fun dialog_run :: "(gotime \<times> dialog_op) list \<Rightarrow> dialog_session \<Rightarrow> dialog_session" where
  "dialog_run [] s = s"
| "dialog_run ((now, x) # xs) s = dialog_step now x (dialog_run xs s)"

fun triggers_of :: "(gotime \<times> dialog_op) list \<Rightarrow> string list" where
  "triggers_of [] = []"
| "triggers_of ((now, DialogTurn r c i) # xs) = triggers_of xs"
| "triggers_of ((now, DialogTrigger t) # xs) = triggers_of xs @ [t]"

fun turns_of :: "(gotime \<times> dialog_op) list \<Rightarrow> dialog_turn list" where
  "turns_of [] = []"
| "turns_of ((now, DialogTurn r c i) # xs) = turns_of xs @ [\<lparr>dt_Role = r, dt_Content = c, dt_Intent = i\<rparr>]"
| "turns_of ((now, DialogTrigger t) # xs) = turns_of xs"

text \<open>The route to a state: triggers that were given, in this order.\<close>

definition came_by :: "string list \<Rightarrow> dialog_state \<Rightarrow> bool" where
  "came_by ts s \<longleftrightarrow> (case s of
       StateGreeting \<Rightarrow> ts = []
     | StateIdentify \<Rightarrow> ts \<noteq> []
     | StateInquiry \<Rightarrow> (\<exists>g. \<exists>i \<in> {''identified'', ''skip''}. subseq [g, i] ts)
     | StateConfirm \<Rightarrow> (\<exists>g. \<exists>i \<in> {''identified'', ''skip''}. subseq [g, i, ''matched''] ts)
     | StateCompleted \<Rightarrow> (\<exists>g. \<exists>i \<in> {''identified'', ''skip''}. subseq [g, i, ''matched'', ''yes''] ts)
     | StateTransfer \<Rightarrow> (\<exists>g. \<exists>i \<in> {''identified'', ''skip''}. subseq [g, i, ''transfer''] ts))"

lemma subseq_snoc: "subseq xs ts \<Longrightarrow> subseq (xs @ [t]) (ts @ [t])"
  by (rule list_emb_append_mono) auto

lemma subseq_later: "subseq xs ts \<Longrightarrow> subseq xs (ts @ [t])"
  by (rule subseq_order.trans) auto

lemma subseq_drop_third: "subseq [g, i, m] ts \<Longrightarrow> subseq [g, i] ts"
  by (rule subseq_order.trans [of _ "[g, i, m]"]) auto

lemma advance_state:
  "ds_State (snd (Advance now DefaultDialogFSM t s)) = (case ds_State s of
      StateGreeting \<Rightarrow> StateIdentify
    | StateIdentify \<Rightarrow> if t = ''identified'' \<or> t = ''skip'' then StateInquiry else StateIdentify
    | StateInquiry \<Rightarrow> if t = ''matched'' then StateConfirm else if t = ''transfer'' then StateTransfer else StateInquiry
    | StateConfirm \<Rightarrow> if t = ''yes'' then StateCompleted else if t = ''no'' then StateInquiry else if t = ''transfer'' then StateTransfer else StateConfirm
    | StateTransfer \<Rightarrow> StateTransfer | StateCompleted \<Rightarrow> StateCompleted)"
  by (cases "ds_State s") (auto simp: Advance_def Next_def DefaultDialogFSM_def arc_def)

lemma came_by_step:
  assumes "came_by ts (ds_State s)"
  shows "came_by (ts @ [t]) (ds_State (snd (Advance now DefaultDialogFSM t s)))"
proof (cases "ds_State s")
  case StateIdentify
  with assms obtain g us where ts: "ts = g # us" by (cases ts) (auto simp: came_by_def)
  have "subseq [g, t] (ts @ [t])" using subseq_snoc [of "[g]" ts t] by (simp add: ts)
  with StateIdentify ts show ?thesis unfolding advance_state came_by_def by auto
next
  case StateInquiry
  with assms obtain g i where i: "i \<in> {''identified'', ''skip''}" "subseq [g, i] ts" by (auto simp: came_by_def)
  with StateInquiry subseq_snoc [OF i(2), of t] subseq_later [OF i(2), of t] show ?thesis
    unfolding advance_state came_by_def by auto
next
  case StateConfirm
  with assms obtain g i where i: "i \<in> {''identified'', ''skip''}" "subseq [g, i, ''matched''] ts" by (auto simp: came_by_def)
  with StateConfirm subseq_snoc [OF i(2), of t] subseq_later [OF i(2), of t] subseq_later [OF subseq_drop_third [OF i(2)], of t]
    subseq_snoc [OF subseq_drop_third [OF i(2)], of t] show ?thesis
    unfolding advance_state came_by_def by auto
next
  case StateTransfer
  with assms show ?thesis unfolding advance_state came_by_def by (auto intro: subseq_later)
next
  case StateCompleted
  with assms show ?thesis unfolding advance_state came_by_def by (auto intro: subseq_later)
qed (simp add: advance_state came_by_def)

lemma run_keeps: "ds_TurnCount (dialog_run xs s) = ds_TurnCount s + int (length (turns_of xs))"
  "ds_History (dialog_run xs s) = ds_History s @ turns_of xs"
proof -
  have "ds_TurnCount (dialog_run xs s) = ds_TurnCount s + int (length (turns_of xs)) \<and> ds_History (dialog_run xs s) = ds_History s @ turns_of xs"
    by (induction xs rule: triggers_of.induct) (auto simp: AddDialogTurn_def Advance_def split: option.split)
  then show "ds_TurnCount (dialog_run xs s) = ds_TurnCount s + int (length (turns_of xs))" "ds_History (dialog_run xs s) = ds_History s @ turns_of xs"
    by auto
qed

text \<open>
  Whatever a dialog is told, its state is reached by the route of the design: it is completed only after an identification (or its being skipped), a match and a yes, in this
  order, handed over only after an identification and a request, and a final state is never left; every turn is in its history, and counted.
\<close>

theorem dialog_route:
  fixes xs :: "(gotime \<times> dialog_op) list" and now :: gotime and sid caller :: string and de scene tenant :: int
  defines "s \<equiv> dialog_run xs (NewConversationSession now sid de scene tenant caller)"
  shows "came_by (triggers_of xs) (ds_State s) \<and> ds_History s = turns_of xs \<and> ds_TurnCount s = int (length (turns_of xs)) \<and>
    (IsTerminal s \<longrightarrow> (\<forall>ys. ds_State (dialog_run ys s) = ds_State s))"
proof -
  let ?s0 = "NewConversationSession now sid de scene tenant caller"
  have "came_by (triggers_of xs) (ds_State (dialog_run xs ?s0))"
  proof (induction xs rule: triggers_of.induct)
    case 1
    show ?case by (simp add: NewConversationSession_def came_by_def)
  next
    case (2 t r c i xs)
    then show ?case by (simp add: AddDialogTurn_def)
  next
    case (3 t tr xs)
    from came_by_step [OF this] show ?case by simp
  qed
  moreover have fin: "ds_State (dialog_run ys u) = ds_State u" if "IsTerminal u" for ys u
  proof (induction ys rule: triggers_of.induct)
    case (2 t r c i xs)
    then show ?case by (simp add: AddDialogTurn_def)
  next
    case (3 t tr xs)
    from that have "ds_State u = StateCompleted \<or> ds_State u = StateTransfer" unfolding IsTerminal_def .
    with 3 show ?case by (elim disjE) (simp_all add: advance_state)
  qed simp
  moreover have "ds_History (dialog_run xs ?s0) = turns_of xs" "ds_TurnCount (dialog_run xs ?s0) = int (length (turns_of xs))"
    unfolding run_keeps by (simp_all add: NewConversationSession_def)
  ultimately show ?thesis unfolding s_def by (intro conjI impI allI) (assumption | rule fin)+
qed

text \<open>Before the inquiry a caller cannot ask for a person.\<close>

lemma no_transfer_before_inquiry:
  "ds_State s = StateIdentify \<Longrightarrow> Advance now DefaultDialogFSM ''transfer'' s = ([], s)"
  by (simp add: Advance_def Next_def DefaultDialogFSM_def arc_def)

theorem dialog_route_witness:
  "came_by [''hi'', ''skip'', ''matched'', ''yes''] StateCompleted"
proof -
  let ?xs = "[(4, DialogTrigger ''yes''), (3, DialogTrigger ''matched''), (2, DialogTrigger ''skip''), (1 :: gotime, DialogTrigger ''hi'')]"
  from dialog_route [where xs = ?xs and now = 0 and sid = "[]" and de = 1 and scene = 1 and tenant = 1 and caller = "[]"]
  have "came_by (triggers_of ?xs) (ds_State (dialog_run ?xs (NewConversationSession 0 [] 1 1 1 [])))" by (rule conjunct1)
  then show ?thesis by (simp add: advance_state NewConversationSession_def)
qed

end
