(* ===== verification/Http.thy ===== *)
theory Http
  imports Auth Telephony
begin

text \<open>
  The middleware of the API server that is not about credentials (\<open>middleware/cors.go\<close>, \<open>request_id.go\<close>,
  \<open>audit.go\<close>, \<open>pii_redact.go\<close>), the masking of \<open>src/pkg/redact\<close> and the answers of \<open>src/pkg/response\<close>.
\<close>

section \<open>Answers\<close>

text \<open>What a handler does with its \<open>http.ResponseWriter\<close>, in order; and what the server has sent.\<close>

datatype wr_op = SetHeader string string | WriteHeader int | WriteBody string

record http_out =
  ho_Header :: "string \<rightharpoonup> string"
  ho_Status :: "int option"
  ho_Body :: string

text \<open>The writer of \<open>net/http\<close>: the first status counts, and a body without one sends 200.\<close>

fun std_write :: "http_out \<Rightarrow> wr_op \<Rightarrow> http_out" where
  "std_write w (SetHeader k v) = w\<lparr>ho_Header := (ho_Header w)(k \<mapsto> v)\<rparr>"
| "std_write w (WriteHeader st) = (if ho_Status w = None then w\<lparr>ho_Status := Some st\<rparr> else w)"
| "std_write w (WriteBody b) = w\<lparr>ho_Status := (case ho_Status w of None \<Rightarrow> Some 200 | st \<Rightarrow> st), ho_Body := ho_Body w @ b\<rparr>"

text \<open>
  \<open>response.JSON\<close> and \<open>response.Error\<close>; \<open>encode\<close> is \<open>json.Encoder.Encode\<close> of the envelope with code, message and data.
\<close>

definition respond_JSON :: "(int \<Rightarrow> string \<Rightarrow> 'd option \<Rightarrow> string) \<Rightarrow> int \<Rightarrow> 'd \<Rightarrow> wr_op list" where
  "respond_JSON encode st x = [SetHeader ''Content-Type'' ''application/json'', WriteHeader st, WriteBody (encode 0 ''ok'' (Some x))]"

definition respond_Error :: "(int \<Rightarrow> string \<Rightarrow> 'd option \<Rightarrow> string) \<Rightarrow> int \<Rightarrow> string \<Rightarrow> wr_op list" where
  "respond_Error encode st msg = [SetHeader ''Content-Type'' ''application/json'', WriteHeader st, WriteBody (encode st msg None)]"

section \<open>Masking\<close>

text \<open>
  \<open>redact.Mask\<close>: the two regular expressions match a run of ASCII word characters between two word boundaries. A matcher gives the
  length of the match that begins here and its replacement.
\<close>

definition is_word_char :: "char \<Rightarrow> bool" where
  "is_word_char c \<longleftrightarrow> is_digit c \<or> is_letter c \<or> c = CHR ''_''"

text \<open>The boundary at the end of a match: the match ends in a word character.\<close>

definition word_ends :: "string \<Rightarrow> bool" where
  "word_ends rest \<longleftrightarrow> (case rest of [] \<Rightarrow> True | c # _ \<Rightarrow> \<not> is_word_char c)"

definition digits_at :: "nat \<Rightarrow> string \<Rightarrow> bool" where
  "digits_at n s \<longleftrightarrow> length (take n s) = n \<and> list_all is_digit (take n s)"

definition phone_at :: "string \<Rightarrow> (nat \<times> string) option" where
  "phone_at s = (if digits_at 11 s \<and> s ! 0 = CHR ''1'' \<and> s ! 1 \<in> set ''3456789'' \<and> word_ends (drop 11 s)
     then Some (11, take 3 s @ ''****'' @ take 4 (drop 7 s)) else None)"

text \<open>Six digits, eight, two, a digit or X, and perhaps one digit more, which is tried first.\<close>

definition id_at :: "string \<Rightarrow> (nat \<times> string) option" where
  "id_at s = (if digits_at 16 s \<and> drop 16 s \<noteq> [] \<and> (is_digit (s ! 16) \<or> s ! 16 \<in> set ''Xx'') then
       (if digits_at 1 (drop 17 s) \<and> word_ends (drop 18 s) then Some (18, take 6 s @ ''********'' @ take 4 (drop 14 s))
        else if word_ends (drop 17 s) then Some (17, take 6 s @ ''********'' @ take 3 (drop 14 s)) else None)
     else None)"

text \<open>\<open>ReplaceAllString\<close>, from the left; \<open>prev\<close>: the byte before is a word character.\<close>

function regex_replace :: "(string \<Rightarrow> (nat \<times> string) option) \<Rightarrow> bool \<Rightarrow> string \<Rightarrow> string" where
  "regex_replace m prev [] = []"
| "regex_replace m prev (c # cs) = (case (if prev then None else m (c # cs)) of
       Some (n, r) \<Rightarrow> r @ regex_replace m True (drop (n - 1) cs)
     | None \<Rightarrow> c # regex_replace m (is_word_char c) cs)"
  by pat_completeness auto
termination by (relation "measure (\<lambda>(m, prev, s). length s)") auto

definition Mask :: "string \<Rightarrow> string" where
  "Mask s = regex_replace id_at False (regex_replace phone_at False s)"

text \<open>The writer of \<open>PIIRedact\<close>: a JSON body is held back, everything else goes through.\<close>

record redact_writer =
  rw_out :: http_out
  rw_buf :: string
  rw_status :: int
  rw_isJSON :: bool

fun redact_write :: "redact_writer \<Rightarrow> wr_op \<Rightarrow> redact_writer" where
  "redact_write w (SetHeader k v) = w\<lparr>rw_out := std_write (rw_out w) (SetHeader k v)\<rparr>"
| "redact_write w (WriteHeader st) =
     (let ct = (case ho_Header (rw_out w) ''Content-Type'' of None \<Rightarrow> [] | Some v \<Rightarrow> v);
          w1 = w\<lparr>rw_status := st, rw_isJSON := strings_Contains ct ''application/json''\<rparr>
      in if rw_isJSON w1 then w1 else w1\<lparr>rw_out := std_write (rw_out w1) (WriteHeader st)\<rparr>)"
| "redact_write w (WriteBody b) =
     (if rw_isJSON w then w\<lparr>rw_buf := rw_buf w @ b\<rparr> else w\<lparr>rw_out := std_write (rw_out w) (WriteBody b)\<rparr>)"

definition PIIRedact :: "wr_op list \<Rightarrow> http_out \<Rightarrow> http_out" where
  "PIIRedact handler out =
     (let w = foldl redact_write \<lparr>rw_out = out, rw_buf = [], rw_status = 200, rw_isJSON = False\<rparr> handler
      in if rw_isJSON w \<and> rw_buf w \<noteq> []
         then std_write (std_write (rw_out w) (WriteHeader (rw_status w))) (WriteBody (Mask (rw_buf w)))
         else rw_out w)"

section \<open>Cross-origin requests, request ids\<close>

text \<open>
  \<open>allowed\<close>: the environment's list; the result is the headers set and whether the request is answered here (a preflight, with 204).
\<close>

definition cors_origin :: "string \<Rightarrow> string \<Rightarrow> string" where
  "cors_origin allowed origin =
     (let allowedSet = (if allowed \<noteq> [] \<and> allowed \<noteq> ''*'' then map TrimSpace (split_on CHR '','' allowed) else [])
      in if allowedSet \<noteq> [] \<and> origin \<in> set allowedSet then origin
         else if allowedSet \<noteq> [] then []
         else if allowed = [] \<and> origin \<noteq> [] then origin
         else ''*'')"

definition CORS :: "string \<Rightarrow> string \<Rightarrow> string \<Rightarrow> wr_op list \<times> bool" where
  "CORS allowed origin meth =
     (let o' = cors_origin allowed origin;
          hs = (if o' = [] then [] else
            [SetHeader ''Access-Control-Allow-Origin'' o',
             SetHeader ''Access-Control-Allow-Methods'' ''GET, POST, PUT, PATCH, DELETE, OPTIONS'',
             SetHeader ''Access-Control-Allow-Headers'' ''Accept, Authorization, Content-Type, X-Request-ID'',
             SetHeader ''Access-Control-Max-Age'' ''86400''] @
            (if o' \<noteq> ''*'' then [SetHeader ''Access-Control-Allow-Credentials'' ''true'', SetHeader ''Vary'' ''Origin''] else []))
      in if meth = ''OPTIONS'' then (hs @ [WriteHeader 204], True) else (hs, False))"

text \<open>\<open>fresh\<close>: \<open>uuid.New().String()\<close>.\<close>

definition RequestID :: "string \<Rightarrow> string \<Rightarrow> wr_op list" where
  "RequestID fresh given = [SetHeader ''X-Request-ID'' (if given = [] then fresh else given)]"

section \<open>The audit log\<close>

record http_req =
  rq_Method :: string
  rq_Path :: string
  rq_TenantQuery :: string
  rq_Headers :: "string \<Rightarrow> string"
  rq_RemoteAddr :: string

record audit_log =
  al_ID :: int
  al_TenantID :: int
  al_UserID :: int
  al_Action :: string
  al_Resource :: string
  al_IP :: string
  al_UserAgent :: string
  al_CreatedAt :: gotime

definition sensitiveGETPaths :: "string list" where
  "sensitiveGETPaths = [''/api/v1/recordings'', ''/api/v1/audit-logs'', ''/api/v1/customers'', ''/api/v1/calls'', ''/api/v1/agents'',
     ''/api/v1/reports'', ''/api/v1/voicemails'', ''/api/v1/tickets'']"

definition isSensitiveGET :: "string \<Rightarrow> bool" where
  "isSensitiveGET path \<longleftrightarrow> list_ex (strings_HasPrefix path) sensitiveGETPaths"

definition clientIP :: "http_req \<Rightarrow> string" where
  "clientIP r =
     (let xff = rq_Headers r ''X-Forwarded-For''; xri = rq_Headers r ''X-Real-IP'' in
      if xff \<noteq> [] then (case cut_at '','' xff of
           Some (hd', _) \<Rightarrow> if hd' \<noteq> [] then TrimSpace hd' else TrimSpace xff
         | None \<Rightarrow> TrimSpace xff)
      else if xri \<noteq> [] then xri else rq_RemoteAddr r)"

text \<open>
  After the handler: the entry whose insert a goroutine is started for, when there is one. The insert comes later (\<open>audit_insert\<close> in
  \<open>Router\<close>), and its error is dropped.
\<close>

definition AuditLog :: "gotime \<Rightarrow> int \<Rightarrow> req_ctx \<Rightarrow> http_req \<Rightarrow> audit_log option" where
  "AuditLog now nid cx r =
     (if rq_Method r = ''HEAD'' \<or> rq_Method r = ''OPTIONS'' then None
      else if rq_Method r = ''GET'' \<and> \<not> isSensitiveGET (rq_Path r) then None
      else if cx_TenantID cx = 0 then None
      else Some \<lparr>al_ID = nid, al_TenantID = cx_TenantID cx, al_UserID = cx_UserID cx, al_Action = rq_Method r, al_Resource = rq_Path r,
             al_IP = clientIP r, al_UserAgent = rq_Headers r ''User-Agent'', al_CreatedAt = now\<rparr>)"

end
