(* ===== verification/Router.thy ===== *)
theory Router
  imports Http
begin

text \<open>
  The routes of the API server and what stands before their handlers (\<open>interfaces/http/router.go\<close>), with the middleware of the
  theories Auth and Http. How chi picks a route is a parameter; a handler is named as the table names it.
\<close>

section \<open>Routes\<close>

text \<open>A pattern that ends in a slash is the root of a mounted router and is reached with and without the slash.\<close>

record route =
  rt_Method :: string
  rt_Pattern :: string
  rt_Handler :: string

definition Post :: "string \<Rightarrow> string \<Rightarrow> route" where
  "Post pat h = \<lparr>rt_Method = ''POST'', rt_Pattern = pat, rt_Handler = h\<rparr>"

definition Get :: "string \<Rightarrow> string \<Rightarrow> route" where
  "Get pat h = \<lparr>rt_Method = ''GET'', rt_Pattern = pat, rt_Handler = h\<rparr>"

definition Put :: "string \<Rightarrow> string \<Rightarrow> route" where
  "Put pat h = \<lparr>rt_Method = ''PUT'', rt_Pattern = pat, rt_Handler = h\<rparr>"

definition Delete :: "string \<Rightarrow> string \<Rightarrow> route" where
  "Delete pat h = \<lparr>rt_Method = ''DELETE'', rt_Pattern = pat, rt_Handler = h\<rparr>"

definition Handle :: "string \<Rightarrow> string \<Rightarrow> route" where
  "Handle pat h = \<lparr>rt_Method = ''*'', rt_Pattern = pat, rt_Handler = h\<rparr>"

definition Route :: "string \<Rightarrow> route list \<Rightarrow> route list" where
  "Route prefix rs = map (\<lambda>r. r\<lparr>rt_Pattern := prefix @ rt_Pattern r\<rparr>) rs"

section \<open>Open to anybody\<close>

definition open_routes :: "route list" where
  "open_routes =
    [Get ''/health'' ''Health'',
     Get ''/readyz'' ''Readyz'',
     Handle ''/metrics'' ''promhttp.Handler'',
     Post ''/api/v1/auth/login'' ''AuthHandler.Login'',
     Post ''/api/v1/auth/refresh'' ''AuthHandler.RefreshToken'']"

text \<open>The WebSocket hubs, when they are wired: dashboard, chat, agents, transcripts.\<close>

definition ws_routes :: "bool \<Rightarrow> bool \<Rightarrow> bool \<Rightarrow> bool \<Rightarrow> route list" where
  "ws_routes dashboard im agents transcripts =
     (if dashboard then [Get ''/api/v1/ws/dashboard'' ''DashboardHub.ServeWS''] else []) @
     (if im then [Get ''/api/v1/ws/im'' ''IMHub.ServeWS''] else []) @
     (if agents then [Get ''/api/v1/ws/agent-events'' ''AgentHub.ServeWS''] else []) @
     (if transcripts then [Get ''/api/v1/ws/transcript'' ''TranscriptHub.ServeWS''] else [])"

definition public_routes :: "route list" where
  "public_routes =
    Route ''/api/v1/widget''
      [Post ''/sessions'' ''WidgetHandler.CreateSession'',
       Post ''/sessions/{id}/messages'' ''WidgetHandler.SendMessage''] @
    Route ''/api/v1/webchat''
      [Post ''/sessions'' ''WidgetHandler.CreateSession'',
       Get ''/sessions/{id}/messages'' ''WidgetHandler.ListMessages'',
       Post ''/sessions/{id}/messages'' ''WidgetHandler.SendMessage''] @
    [Post ''/api/v1/email/inbound'' ''EmailInboundHandler.Inbound'']"

definition social_routes :: "route list" where
  "social_routes =
    Route ''/api/v1/social''
      [Get ''/wechat/{channelID}'' ''SocialChannelHandler.WeChatVerify'',
       Post ''/wechat/{channelID}'' ''SocialChannelHandler.WeChatReceive'',
       Get ''/weibo/{channelID}'' ''SocialChannelHandler.WeiboVerify'',
       Post ''/weibo/{channelID}'' ''SocialChannelHandler.WeiboReceive'']"

section \<open>For services\<close>

definition internal_routes :: "route list" where
  "internal_routes =
    Route ''/internal/v1''
      [Post ''/calls/inbound'' ''CallControlHandler.InboundCall'']"

section \<open>The API\<close>

definition phase0_routes :: "route list" where
  "phase0_routes =
    Route ''/tenants''
      [Post ''/'' ''TenantHandler.Create'',
       Get ''/'' ''TenantHandler.List'',
       Get ''/{id}'' ''TenantHandler.Get'',
       Put ''/{id}'' ''TenantHandler.Update''] @
    Route ''/users''
      [Post ''/'' ''UserHandler.Create'',
       Get ''/'' ''UserHandler.List'',
       Get ''/{id}'' ''UserHandler.Get'',
       Put ''/{id}'' ''UserHandler.Update''] @
    Route ''/agents''
      [Post ''/'' ''AgentHandler.Create'',
       Get ''/'' ''AgentHandler.List'',
       Get ''/{id}'' ''AgentHandler.Get''] @
    Route ''/skill-groups''
      [Post ''/'' ''SkillGroupHandler.Create'',
       Get ''/'' ''SkillGroupHandler.List'',
       Get ''/{id}'' ''SkillGroupHandler.Get'',
       Post ''/{id}/members'' ''SkillGroupHandler.AddMember'',
       Delete ''/{id}/members/{agentId}'' ''SkillGroupHandler.RemoveMember'',
       Get ''/{id}/members'' ''SkillGroupHandler.GetMembers'']"

definition phase1_routes :: "route list" where
  "phase1_routes =
    Route ''/ivr-flows''
      [Post ''/'' ''IVRFlowHandler.Create'',
       Get ''/'' ''IVRFlowHandler.List'',
       Get ''/{id}'' ''IVRFlowHandler.Get'',
       Put ''/{id}'' ''IVRFlowHandler.Update'',
       Post ''/{id}/publish'' ''IVRFlowHandler.Publish'',
       Post ''/{id}/lock'' ''IVRFlowHandler.Lock'',
       Post ''/{id}/unlock'' ''IVRFlowHandler.Unlock'',
       Post ''/{id}/clone'' ''IVRFlowHandler.Clone'',
       Get ''/{id}/versions'' ''IVRFlowHandler.Versions'',
       Post ''/{id}/rollback/{version}'' ''IVRFlowHandler.Rollback''] @
    Route ''/carriers''
      [Post ''/'' ''CarrierHandler.Create'',
       Get ''/'' ''CarrierHandler.List''] @
    Route ''/sip-trunks''
      [Post ''/'' ''SIPTrunkHandler.Create'',
       Get ''/'' ''SIPTrunkHandler.List'',
       Get ''/{id}'' ''SIPTrunkHandler.Get'',
       Put ''/{id}'' ''SIPTrunkHandler.Update''] @
    Route ''/phone-numbers''
      [Post ''/'' ''PhoneNumberHandler.Create'',
       Get ''/'' ''PhoneNumberHandler.List'',
       Get ''/{id}'' ''PhoneNumberHandler.Get'',
       Put ''/{id}'' ''PhoneNumberHandler.Update''] @
    Route ''/call-number-tags''
      [Post ''/'' ''CallNumberTagHandler.Create'',
       Get ''/'' ''CallNumberTagHandler.List'',
       Delete ''/{id}'' ''CallNumberTagHandler.Delete''] @
    Route ''/auto-tag-rules''
      [Post ''/'' ''AutoTagRuleHandler.Create'',
       Get ''/'' ''AutoTagRuleHandler.List'',
       Put ''/{id}'' ''AutoTagRuleHandler.Update'',
       Delete ''/{id}'' ''AutoTagRuleHandler.Delete''] @
    Route ''/recordings''
      [Get ''/'' ''RecordingHandler.List'',
       Get ''/{id}'' ''RecordingHandler.Get'',
       Get ''/{id}/stream'' ''RecordingHandler.Stream'',
       Get ''/{id}/download'' ''RecordingHandler.Download''] @
    Route ''/voicemails''
      [Get ''/'' ''VoicemailHandler.List'',
       Get ''/{id}'' ''VoicemailHandler.Get'',
       Put ''/{id}/read'' ''VoicemailHandler.MarkRead'',
       Delete ''/{id}'' ''VoicemailHandler.Delete'']"

definition phase2_routes :: "route list" where
  "phase2_routes =
    Route ''/routing-rules''
      [Post ''/'' ''RoutingRuleHandler.Create'',
       Get ''/'' ''RoutingRuleHandler.List'',
       Put ''/{id}'' ''RoutingRuleHandler.Update'',
       Delete ''/{id}'' ''RoutingRuleHandler.Delete''] @
    Route ''/cli-policies''
      [Post ''/'' ''CLIPolicyHandler.Create'',
       Get ''/'' ''CLIPolicyHandler.List'',
       Put ''/{id}'' ''CLIPolicyHandler.Update''] @
    Route ''/dnc-list''
      [Post ''/'' ''DNCHandler.Create'',
       Get ''/'' ''DNCHandler.List'',
       Delete ''/{id}'' ''DNCHandler.Delete'',
       Post ''/check'' ''DNCHandler.Check''] @
    Route ''/calls''
      [Get ''/'' ''CallHandler.List'',
       Get ''/cursor'' ''CallHandler.ListCursor'',
       Get ''/export'' ''CallHandler.Export'',
       Get ''/{id}'' ''CallHandler.Get'',
       Get ''/{id}/events'' ''CallHandler.GetEvents'',
       Get ''/{id}/ivr-tracking'' ''CallHandler.GetIVRTracking'',
       Post ''/dial'' ''CallHandler.Dial'',
       Post ''/internal-dial'' ''CallHandler.InternalDial'',
       Post ''/{id}/tags'' ''CallHandler.AddTag'',
       Delete ''/{id}/tags/{tagId}'' ''CallHandler.RemoveTag'',
       Post ''/{id}/hold'' ''CallControlHandler.Hold'',
       Post ''/{id}/retrieve'' ''CallControlHandler.Retrieve'',
       Post ''/{id}/blind-transfer'' ''CallControlHandler.BlindTransfer'',
       Post ''/{id}/dtmf'' ''CallControlHandler.SendDTMF''] @
    [Post ''/callbacks'' ''CallControlHandler.RequestCallback'']"

definition phase3_routes :: "route list" where
  "phase3_routes =
    Route ''/agent-presence''
      [Get ''/'' ''AgentPresenceHandler.ListByTenant'',
       Post ''/check-in'' ''AgentPresenceHandler.CheckIn'',
       Post ''/status'' ''AgentPresenceHandler.ChangeStatus'',
       Post ''/{agentId}/check-out'' ''AgentPresenceHandler.CheckOut'',
       Post ''/{agentId}/transition'' ''AgentPresenceHandler.Transition'',
       Post ''/{agentId}/break'' ''AgentPresenceHandler.SetBreak'',
       Post ''/{agentId}/acw'' ''AgentPresenceHandler.SetACW'',
       Post ''/{agentId}/work-mode'' ''AgentPresenceHandler.SwitchWorkMode'',
       Get ''/{agentId}'' ''AgentPresenceHandler.GetPresence''] @
    Route ''/webhook-configs''
      [Post ''/'' ''WebhookConfigHandler.Create'',
       Get ''/'' ''WebhookConfigHandler.List'',
       Put ''/{id}'' ''WebhookConfigHandler.Update'',
       Delete ''/{id}'' ''WebhookConfigHandler.Delete''] @
    Route ''/screen-pop-configs''
      [Post ''/'' ''ScreenPopConfigHandler.Create'',
       Get ''/'' ''ScreenPopConfigHandler.List'',
       Put ''/{id}'' ''ScreenPopConfigHandler.Update'',
       Delete ''/{id}'' ''ScreenPopConfigHandler.Delete''] @
    Route ''/quick-replies''
      [Post ''/'' ''QuickReplyHandler.Create'',
       Get ''/'' ''QuickReplyHandler.List'',
       Put ''/{id}'' ''QuickReplyHandler.Update'',
       Delete ''/{id}'' ''QuickReplyHandler.Delete'',
       Get ''/available'' ''QuickReplyHandler.Available''] @
    Route ''/sms-configs''
      [Post ''/'' ''SmsConfigHandler.Create'',
       Get ''/'' ''SmsConfigHandler.List'',
       Put ''/{id}'' ''SmsConfigHandler.Update'',
       Delete ''/{id}'' ''SmsConfigHandler.Delete'']"

definition phase4_routes :: "route list" where
  "phase4_routes =
    Route ''/dashboard''
      [Get ''/overview'' ''DashboardHandler.Overview'',
       Get ''/agents'' ''DashboardHandler.AgentStatus'',
       Get ''/skill-groups'' ''DashboardHandler.SkillGroupStatus'',
       Get ''/trend'' ''DashboardHandler.CallTrend'',
       Get ''/funnel'' ''DashboardHandler.CallFunnel''] @
    Route ''/reports''
      [Get ''/agents'' ''ReportHandler.AgentReport'',
       Get ''/agents/export'' ''ReportHandler.AgentReportExport'',
       Get ''/group-agents'' ''ReportHandler.GroupAgentReport'',
       Get ''/group-agents/export'' ''ReportHandler.GroupAgentReportExport'',
       Get ''/skill-groups'' ''ReportHandler.SkillGroupReport'',
       Get ''/skill-groups/export'' ''ReportHandler.SkillGroupReportExport'',
       Get ''/back2back'' ''ReportHandler.Back2BackReport'',
       Get ''/internal-calls'' ''ReportHandler.InternalCallReport'',
       Get ''/agent-status-log'' ''ReportHandler.AgentStatusLog'',
       Get ''/campaigns'' ''ReportHandler.CampaignReport''] @
    Route ''/csat''
      [Post ''/config'' ''CSATHandler.CreateConfig'',
       Get ''/config'' ''CSATHandler.ListConfigs'',
       Put ''/config'' ''CSATHandler.UpdateConfig'',
       Get ''/results'' ''CSATHandler.ListResults'']"

definition phase5_routes :: "route list" where
  "phase5_routes =
    [Post ''/calls/{id}/queue'' ''CallControlHandler.TransitionToQueue'',
     Post ''/calls/{id}/ring'' ''CallControlHandler.TransitionToRinging'',
     Post ''/calls/{id}/disposition'' ''CallControlHandler.SetDisposition'',
     Post ''/calls/{id}/attended-transfer'' ''CallControlHandler.AttendedTransfer'',
     Post ''/campaigns/{id}/resume'' ''CampaignHandler.Start'',
     Post ''/calls/{id}/consult'' ''CallControlHandler.Consult'',
     Post ''/calls/{id}/consult-transfer'' ''CallControlHandler.ConsultTransfer'',
     Post ''/calls/{id}/consult-cancel'' ''CallControlHandler.ConsultCancel'',
     Post ''/calls/{id}/conference'' ''CallControlHandler.Conference'',
     Post ''/calls/{id}/monitor'' ''CallControlHandler.Monitor'',
     Post ''/calls/{id}/whisper'' ''CallControlHandler.Whisper'',
     Post ''/calls/{id}/barge'' ''CallControlHandler.Barge'',
     Post ''/calls/{id}/intercept'' ''CallControlHandler.InterceptCall'',
     Post ''/calls/{id}/coach'' ''CallControlHandler.Coach'',
     Post ''/calls/{id}/end'' ''CallControlHandler.EndCall'',
     Post ''/calls/{id}/answer'' ''CallControlHandler.AnswerCall''] @
    Route ''/me''
      [Get ''/overview'' ''ProfileHandler.Overview'',
       Get ''/profile'' ''ProfileHandler.Overview'',
       Put ''/profile'' ''ProfileHandler.UpdateProfile'',
       Put ''/password'' ''ProfileHandler.ChangePassword'',
       Post ''/reset-state'' ''ProfileHandler.ResetState'']"

definition phase6_routes :: "route list" where
  "phase6_routes =
    Route ''/campaigns''
      [Post ''/'' ''CampaignHandler.Create'',
       Get ''/'' ''CampaignHandler.List'',
       Get ''/{id}'' ''CampaignHandler.GetByID'',
       Put ''/{id}'' ''CampaignHandler.Update'',
       Post ''/{id}/start'' ''CampaignHandler.Start'',
       Post ''/{id}/pause'' ''CampaignHandler.Pause'',
       Post ''/{id}/abort'' ''CampaignHandler.Abort'',
       Post ''/{id}/cases/import'' ''CampaignHandler.ImportCases'',
       Get ''/{id}/cases'' ''CampaignHandler.ListCases'',
       Get ''/{id}/stats'' ''CampaignHandler.Stats''] @
    [Get ''/supervisor/active-calls'' ''SupervisorHandler.ActiveCalls'',
     Get ''/screen-pop/lookup'' ''ScreenPopHandler.Lookup'',
     Get ''/campaigns/preview/current'' ''PreviewCaseHandler.Current'',
     Post ''/campaigns/{campaignId}/cases/{caseId}/dial'' ''PreviewCaseHandler.DialCase'',
     Post ''/campaigns/{campaignId}/cases/{caseId}/skip'' ''PreviewCaseHandler.SkipCase'',
     Post ''/calls/back2back'' ''B2BHandler.Back2BackCall'',
     Post ''/calls/encrypted'' ''B2BHandler.EncryptedCall'',
     Post ''/flash-sms'' ''B2BHandler.FlashSMS''] @
    Route ''/sip-trunk-groups''
      [Post ''/'' ''TrunkGroupHandler.Create'',
       Get ''/'' ''TrunkGroupHandler.List'',
       Post ''/{id}/members'' ''TrunkGroupHandler.AddMember'',
       Get ''/{id}/members'' ''TrunkGroupHandler.ListMembers'']"

definition phase7_routes :: "route list" where
  "phase7_routes =
    Route ''/customers''
      [Post ''/'' ''CustomerHandler.Create'',
       Get ''/'' ''CustomerHandler.List'',
       Get ''/{id}'' ''CustomerHandler.GetByID'',
       Put ''/{id}'' ''CustomerHandler.Update'',
       Delete ''/{id}'' ''CustomerHandler.Delete'',
       Post ''/import'' ''CustomerHandler.Import'',
       Get ''/by-phone/{phone}'' ''CustomerHandler.FindByPhone'',
       Get ''/{id}/interactions'' ''CustomerHandler.ListInteractions''] @
    Route ''/custom-fields''
      [Post ''/'' ''CustomerHandler.CreateFieldDefinition'',
       Get ''/'' ''CustomerHandler.ListFieldDefinitions''] @
    Route ''/ticket-categories''
      [Post ''/'' ''TicketHandler.CreateCategory'',
       Get ''/'' ''TicketHandler.ListCategories''] @
    Route ''/ticket-templates''
      [Post ''/'' ''TicketHandler.CreateTemplate'',
       Get ''/'' ''TicketHandler.ListTemplates'',
       Get ''/{id}'' ''TicketHandler.GetTemplate'',
       Put ''/{id}'' ''TicketHandler.UpdateTemplate'',
       Post ''/{id}/publish'' ''TicketHandler.PublishTemplate'',
       Post ''/{id}/offline'' ''TicketHandler.OfflineTemplate''] @
    Route ''/tickets''
      [Post ''/'' ''TicketHandler.Create'',
       Get ''/'' ''TicketHandler.ListTickets'',
       Get ''/{id}'' ''TicketHandler.GetTicket'',
       Put ''/{id}'' ''TicketHandler.UpdateTicket'',
       Post ''/{id}/assign'' ''TicketHandler.AssignTicket'',
       Post ''/{id}/comments'' ''TicketHandler.AddComment''] @
    Route ''/knowledge''
      (Route ''/categories''
        [Post ''/'' ''KnowledgeHandler.CreateCategory'',
         Get ''/'' ''KnowledgeHandler.ListCategories''] @
      Route ''/articles''
        [Post ''/'' ''KnowledgeHandler.CreateArticle'',
         Get ''/'' ''KnowledgeHandler.ListArticles'',
         Get ''/search'' ''KnowledgeHandler.Search'',
         Get ''/{id}'' ''KnowledgeHandler.GetArticle'',
         Put ''/{id}'' ''KnowledgeHandler.UpdateArticle'']) @
    Route ''/agent-scripts''
      [Post ''/'' ''AgentScriptHandler.Create'',
       Get ''/'' ''AgentScriptHandler.List'',
       Put ''/{id}'' ''AgentScriptHandler.Update''] @
    Route ''/session-info-templates''
      [Post ''/'' ''SessionInfoHandler.Create'',
       Get ''/'' ''SessionInfoHandler.List'',
       Put ''/{id}'' ''SessionInfoHandler.Update'']"

definition phase8_routes :: "route list" where
  "phase8_routes =
    Route ''/im''
      (Route ''/channels''
        [Post ''/'' ''IMChannelHandler.Create'',
         Get ''/'' ''IMChannelHandler.List'',
         Put ''/{id}'' ''IMChannelHandler.Update''] @
      Route ''/sessions''
        [Get ''/'' ''IMSessionHandler.List'',
         Get ''/{id}'' ''IMSessionHandler.Get'',
         Post ''/{id}/transfer'' ''IMSessionHandler.Transfer'',
         Post ''/{id}/close'' ''IMSessionHandler.Close'',
         Get ''/{id}/messages'' ''IMSessionHandler.ListMessages'',
         Post ''/{id}/messages'' ''IMSessionHandler.SendMessage'']) @
    Route ''/im/ai-assist''
      [Post ''/correct'' ''IMAssistHandler.Correct'',
       Post ''/expand'' ''IMAssistHandler.Expand'',
       Post ''/optimize'' ''IMAssistHandler.Optimize'']"

definition phase9_routes :: "route list" where
  "phase9_routes =
    Route ''/digital-employees''
      [Post ''/'' ''DigitalEmployeeHandler.Create'',
       Get ''/'' ''DigitalEmployeeHandler.List'',
       Get ''/{id}'' ''DigitalEmployeeHandler.Get'',
       Put ''/{id}'' ''DigitalEmployeeHandler.Update'',
       Post ''/{id}/scenes'' ''DigitalEmployeeHandler.CreateScene'',
       Get ''/{id}/scenes'' ''DigitalEmployeeHandler.ListScenes'',
       Post ''/{id}/scenes/{sceneId}/publish'' ''DigitalEmployeeHandler.PublishScene'',
       Post ''/{id}/scenes/{sceneId}/test'' ''DigitalEmployeeHandler.TestIntent''] @
    Route ''/qa/rules''
      [Post ''/'' ''QAHandler.CreateRule'',
       Get ''/'' ''QAHandler.ListRules'',
       Get ''/{id}'' ''QAHandler.GetRule'',
       Put ''/{id}'' ''QAHandler.UpdateRule'',
       Delete ''/{id}'' ''QAHandler.DeleteRule''] @
    Route ''/qa/schemes''
      [Post ''/'' ''QAHandler.CreateScheme'',
       Get ''/'' ''QAHandler.ListSchemes'',
       Get ''/{id}'' ''QAHandler.GetScheme'',
       Put ''/{id}'' ''QAHandler.UpdateScheme'',
       Delete ''/{id}'' ''QAHandler.DeleteScheme''] @
    Route ''/qa''
      [Post ''/run'' ''QAHandler.RunInspection'',
       Get ''/results'' ''QAHandler.ListResults'',
       Get ''/results/{id}'' ''QAHandler.GetResult'',
       Post ''/results/{id}/appeal'' ''QAHandler.Appeal'',
       Post ''/results/{id}/review'' ''QAHandler.Review''] @
    [Post ''/calls/{callId}/ai-summary'' ''AIAnalysisHandler.Summary'',
     Post ''/calls/{callId}/ai-sentiment'' ''AIAnalysisHandler.Sentiment'',
     Post ''/calls/{callId}/ai-tags'' ''AIAnalysisHandler.Tags'',
     Post ''/calls/{callId}/ai-satisfaction'' ''AIAnalysisHandler.Satisfaction'',
     Post ''/calls/{callId}/ai-ivr-analysis'' ''AIAnalysisHandler.IVRAnalysis'',
     Post ''/calls/{callId}/ai-completion'' ''AIAnalysisHandler.Completion'',
     Post ''/calls/{callId}/ai-post-actions'' ''AIAnalysisHandler.PostCallActions'',
     Post ''/calls/{callId}/auto-fill-ticket'' ''AIAnalysisHandler.AutoFill'',
     Post ''/calls/{callId}/script-recommendations'' ''AIAnalysisHandler.ScriptRecommend'',
     Get ''/ai/script-recommend/{callId}'' ''AIAnalysisHandler.ScriptRecommend'',
     Post ''/session-tag-analysis'' ''AIAnalysisHandler.BatchTags'',
     Post ''/hotword-analysis'' ''AIAnalysisHandler.HotwordAnalysis'',
     Post ''/ai/stt/transcribe'' ''STTHandler.Transcribe'',
     Post ''/ai/tts/synthesize'' ''TTSHandler.Synthesize''] @
    Route ''/asr-hotwords''
      [Post ''/'' ''ASRHotwordsHandler.Create'',
       Get ''/'' ''ASRHotwordsHandler.List'',
       Get ''/{id}'' ''ASRHotwordsHandler.Get'',
       Put ''/{id}'' ''ASRHotwordsHandler.Update'',
       Delete ''/{id}'' ''ASRHotwordsHandler.Delete''] @
    Route ''/performance-scorecards''
      [Get ''/'' ''PerformanceHandler.List'',
       Post ''/generate'' ''PerformanceHandler.Generate'']"

definition phase10_routes :: "route list" where
  "phase10_routes =
    Route ''/annotation-tasks''
      [Post ''/'' ''AnnotationHandler.CreateTask'',
       Get ''/'' ''AnnotationHandler.ListTasks'',
       Get ''/{id}'' ''AnnotationHandler.GetTask'',
       Post ''/{id}/start'' ''AnnotationHandler.StartTask'',
       Post ''/{id}/complete'' ''AnnotationHandler.CompleteTask'',
       Post ''/{id}/cancel'' ''AnnotationHandler.CancelTask'',
       Post ''/{id}/annotations'' ''AnnotationHandler.SubmitAnnotation'',
       Get ''/{id}/annotations'' ''AnnotationHandler.ListResults''] @
    Route ''/llm-models''
      [Post ''/'' ''LLMGatewayHandler.CreateConfig'',
       Get ''/'' ''LLMGatewayHandler.ListConfigs'',
       Get ''/default'' ''LLMGatewayHandler.GetDefault'',
       Get ''/{id}'' ''LLMGatewayHandler.GetConfig'',
       Put ''/{id}'' ''LLMGatewayHandler.UpdateConfig'',
       Delete ''/{id}'' ''LLMGatewayHandler.DeleteConfig''] @
    [Post ''/webrtc-quality'' ''WebRTCQualityHandler.Save'',
     Get ''/calls/{callId}/webrtc-quality'' ''WebRTCQualityHandler.ListByCall'',
     Get ''/calls/{callId}/tickets'' ''TicketHandler.ListByCall'',
     Get ''/agents/{agentId}/webrtc-quality'' ''WebRTCQualityHandler.ListByAgent'']"

definition advanced_routes :: "route list" where
  "advanced_routes =
    Route ''/comm-agents''
      [Get ''/'' ''ListCommAgents'',
       Post ''/'' ''CreateCommAgent'',
       Get ''/{id}'' ''GetCommAgent'',
       Delete ''/{id}'' ''DeleteCommAgent''] @
    Route ''/voice-profiles''
      [Get ''/'' ''ListVoiceProfiles'',
       Post ''/'' ''CreateVoiceProfile'',
       Get ''/{id}'' ''GetVoiceProfile'',
       Post ''/{id}/train'' ''StartVoiceTraining'',
       Delete ''/{id}'' ''DeleteVoiceProfile''] @
    Route ''/ai/voice-clone''
      [Get ''/tasks'' ''ListVoiceProfiles'',
       Post ''/tasks'' ''CreateVoiceProfile'',
       Get ''/tasks/{id}'' ''GetVoiceProfile''] @
    Route ''/conversation-analysis''
      [Get ''/'' ''ListAnalysisTasks'',
       Post ''/'' ''CreateAnalysisTask'',
       Get ''/{id}'' ''GetAnalysisTask'',
       Post ''/{id}/run'' ''RunAnalysisTask''] @
    [Post ''/ai/conversation-analytics/analyze'' ''CreateAnalysisTask''] @
    Route ''/training/courses''
      [Get ''/'' ''ListCourses'',
       Post ''/'' ''CreateCourse'',
       Get ''/{id}'' ''GetCourse'',
       Post ''/{id}/publish'' ''PublishCourse''] @
    [Post ''/training/exams'' ''SubmitExam'',
     Get ''/training/agents/{agentID}/exams'' ''ListExamsByAgent'',
     Post ''/training/simulated-calls'' ''CreateSimulatedCall'',
     Get ''/training/agents/{agentID}/simulated-calls'' ''ListSimulatedCalls'',
     Post ''/ai/training/generate-questions'' ''CreateCourse'',
     Post ''/ai/training/evaluate'' ''SubmitExam'',
     Get ''/ring-analysis/config'' ''GetRingAnalysisConfig'',
     Put ''/ring-analysis/config'' ''UpsertRingAnalysisConfig'',
     Get ''/calls/{callID}/ring-analysis'' ''GetRingAnalysisLogs'',
     Get ''/full-duplex/config'' ''GetFullDuplexConfig'',
     Put ''/full-duplex/config'' ''UpsertFullDuplexConfig'']"

definition config_routes :: "route list" where
  "config_routes =
    Route ''/break-reasons''
      [Post ''/'' ''BreakReasonHandler.Create'',
       Get ''/'' ''BreakReasonHandler.List'',
       Get ''/{id}'' ''BreakReasonHandler.Get'',
       Put ''/{id}'' ''BreakReasonHandler.Update'',
       Delete ''/{id}'' ''BreakReasonHandler.Delete''] @
    Route ''/disposition-codes''
      [Post ''/'' ''DispositionCodeHandler.Create'',
       Get ''/'' ''DispositionCodeHandler.List'',
       Get ''/{id}'' ''DispositionCodeHandler.Get'',
       Put ''/{id}'' ''DispositionCodeHandler.Update'',
       Delete ''/{id}'' ''DispositionCodeHandler.Delete''] @
    Route ''/audio-files''
      [Post ''/'' ''AudioFileHandler.Create'',
       Get ''/'' ''AudioFileHandler.List'',
       Get ''/{id}'' ''AudioFileHandler.Get'',
       Delete ''/{id}'' ''AudioFileHandler.Delete''] @
    Route ''/business-hours''
      [Post ''/'' ''BusinessHoursHandler.Create'',
       Get ''/'' ''BusinessHoursHandler.List'',
       Get ''/{id}'' ''BusinessHoursHandler.Get'',
       Put ''/{id}'' ''BusinessHoursHandler.Update'',
       Delete ''/{id}'' ''BusinessHoursHandler.Delete''] @
    Route ''/call-tags''
      [Post ''/'' ''CallTagDefHandler.Create'',
       Get ''/'' ''CallTagDefHandler.List'',
       Get ''/{id}'' ''CallTagDefHandler.Get'',
       Put ''/{id}'' ''CallTagDefHandler.Update'',
       Delete ''/{id}'' ''CallTagDefHandler.Delete''] @
    Route ''/audit-logs''
      [Get ''/'' ''AuditLogHandler.List''] @
    Route ''/tenant-settings''
      [Get ''/'' ''TenantSettingsHandler.Get'',
       Put ''/'' ''TenantSettingsHandler.Update''] @
    Route ''/social-channels''
      [Post ''/'' ''SocialChannelHandler.CreateConfig'',
       Get ''/'' ''SocialChannelHandler.ListConfigs'',
       Get ''/{channelID}'' ''SocialChannelHandler.GetConfig'',
       Put ''/{channelID}'' ''SocialChannelHandler.UpdateConfig'',
       Delete ''/{id}'' ''SocialChannelHandler.DeleteConfig'']"

definition api_routes :: "route list" where
  "api_routes = Route ''/api/v1'' (phase0_routes @ phase1_routes @ phase2_routes @ phase3_routes @ phase4_routes @ phase5_routes @
     phase6_routes @ phase7_routes @ phase8_routes @ phase9_routes @ phase10_routes @ advanced_routes @
     config_routes)"

text \<open>What stands before the handlers of a route.\<close>

datatype guard = Open | Credentials | Service

definition router_table :: "bool \<Rightarrow> bool \<Rightarrow> bool \<Rightarrow> bool \<Rightarrow> (guard \<times> route) list" where
  "router_table dashboard im agents transcripts =
     map (Pair Open) (open_routes @ ws_routes dashboard im agents transcripts) @ map (Pair Credentials) api_routes @
     map (Pair Open) public_routes @ map (Pair Service) internal_routes @ map (Pair Open) social_routes"

section \<open>Matching\<close>

text \<open>\<open>{name}\<close> stands for anything up to the next slash.\<close>

definition is_param :: "string \<Rightarrow> bool" where
  "is_param seg \<longleftrightarrow> seg \<noteq> [] \<and> hd seg = CHR ''{'' \<and> last seg = CHR ''}''"

definition segs_match :: "string list \<Rightarrow> string list \<Rightarrow> bool" where
  "segs_match ps ss \<longleftrightarrow> list_all2 (\<lambda>p s. is_param p \<or> p = s) ps ss"

definition pattern_matches :: "string \<Rightarrow> string \<Rightarrow> bool" where
  "pattern_matches pat path \<longleftrightarrow> (let ps = split_on CHR ''/'' pat; ss = split_on CHR ''/'' path in
     segs_match ps ss \<or> (last ps = [] \<and> segs_match (butlast ps) ss))"

definition route_matches :: "string \<Rightarrow> string \<Rightarrow> route \<Rightarrow> bool" where
  "route_matches meth path r \<longleftrightarrow> (rt_Method r = ''*'' \<or> rt_Method r = meth) \<and> pattern_matches (rt_Pattern r) path"

text \<open>\<open>chi.URLParam\<close>: the segment where the pattern has the parameter; a segment that is not there is empty.\<close>

definition URLParam :: "string \<Rightarrow> string \<Rightarrow> string \<Rightarrow> string" where
  "URLParam pat path name = (case find (\<lambda>(p, s). p = ''{'' @ name @ ''}'') (zip (split_on CHR ''/'' pat) (split_on CHR ''/'' path)) of
     None \<Rightarrow> [] | Some (_, s) \<Rightarrow> s)"

text \<open>
  chi: a route of the table, or the status of the router that answers (404, 405), with what stands before it. What chi documents: a route
  that is picked is one of the table and matches.
\<close>

datatype target = Found route | Missing int

type_synonym chi_mux = "(guard \<times> route) list \<Rightarrow> string \<Rightarrow> string \<Rightarrow> guard \<times> target"

definition chi_ok :: "chi_mux \<Rightarrow> bool" where
  "chi_ok chi \<longleftrightarrow> (\<forall>table meth path g r. chi table meth path = (g, Found r) \<longrightarrow> (g, r) \<in> set table \<and> route_matches meth path r)"

section \<open>Before the handler\<close>

record 'tok inbound =
  ib_req :: http_req
  ib_bearer :: "'tok option"
  ib_service :: service_request

record 'tok api_env =
  en_jwt :: "'tok jwt"
  en_secret :: string
  en_mac :: "string \<Rightarrow> string"
  en_sha :: "string \<Rightarrow> string"
  en_settings :: "int \<Rightarrow> int option"
  en_redis_down :: bool

text \<open>\<open>sv_pending\<close>: the entries of the audit log whose goroutines have not run yet.\<close>

record srv_state =
  sv_rates :: rate_state
  sv_nonces :: nonce_cache
  sv_audit :: "audit_log journal"
  sv_pending :: "audit_log list"

definition no_ctx :: req_ctx where
  "no_ctx = \<lparr>cx_TenantID = 0, cx_UserID = 0, cx_Role = []\<rparr>"

text \<open>The status of a refusal, or the context of the request.\<close>

definition api_gate :: "'tok api_env \<Rightarrow> gotime \<Rightarrow> 'tok inbound \<Rightarrow> srv_state \<Rightarrow> (int + req_ctx) \<times> srv_state" where
  "api_gate E now ib st =
     (case AuthMiddleware (en_jwt E) now (ib_bearer ib) of
        Inl _ \<Rightarrow> (Inl 401, st)
      | Inr cx \<Rightarrow>
          if \<not> TenantGuard cx (rq_TenantQuery (ib_req ib)) (rq_Path (ib_req ib)) then (Inl 403, st)
          else (case RateLimit (en_redis_down E) (en_settings E (cx_TenantID cx)) 100 now cx (sv_rates st) of
            (allowed, rates) \<Rightarrow> (if allowed then Inr cx else Inl 429, st\<lparr>sv_rates := rates\<rparr>)))"

definition service_gate :: "'tok api_env \<Rightarrow> gotime \<Rightarrow> 'tok inbound \<Rightarrow> srv_state \<Rightarrow> (int + req_ctx) \<times> srv_state" where
  "service_gate E now ib st =
     (case ServiceAuth (en_secret E) (en_mac E) (en_sha E) now (ib_service ib) (sv_nonces st) of
        (r, nonces) \<Rightarrow> (case r of None \<Rightarrow> Inl (if en_secret E = [] then 503 else 401) | Some cx \<Rightarrow> Inr cx, st\<lparr>sv_nonces := nonces\<rparr>))"

definition gate :: "'tok api_env \<Rightarrow> gotime \<Rightarrow> guard \<Rightarrow> 'tok inbound \<Rightarrow> srv_state \<Rightarrow> (int + req_ctx) \<times> srv_state" where
  "gate E now g ib st = (case g of Open \<Rightarrow> (Inr no_ctx, st) | Credentials \<Rightarrow> api_gate E now ib st | Service \<Rightarrow> service_gate E now ib st)"

definition dispatch ::
  "'tok api_env \<Rightarrow> chi_mux \<Rightarrow> (guard \<times> route) list \<Rightarrow> gotime \<Rightarrow> 'tok inbound \<Rightarrow> srv_state \<Rightarrow> (int + guard \<times> target \<times> req_ctx) \<times> srv_state" where
  "dispatch E chi table now ib st =
     (case chi table (rq_Method (ib_req ib)) (rq_Path (ib_req ib)) of (g, t) \<Rightarrow>
        (case gate E now g ib st of (Inl code, st') \<Rightarrow> (Inl code, st') | (Inr cx, st') \<Rightarrow> (Inr (g, t, cx), st')))"

section \<open>A request\<close>

text \<open>
  \<open>handlers\<close>: what the handlers do with their writer and the rest of the program; of a refusal only the status is modelled. \<open>allowed\<close>: the
  origins of the environment, \<open>fresh\<close>: a new request id.
\<close>

definition serve_request ::
  "'tok api_env \<Rightarrow> chi_mux \<Rightarrow> (guard \<times> route) list \<Rightarrow> (string \<Rightarrow> req_ctx \<Rightarrow> 'tok inbound \<Rightarrow> 'w \<Rightarrow> wr_op list \<times> 'w) \<Rightarrow>
   string \<Rightarrow> string \<Rightarrow> gotime \<Rightarrow> int \<Rightarrow> 'tok inbound \<Rightarrow> srv_state \<Rightarrow> 'w \<Rightarrow> http_out \<times> srv_state \<times> 'w" where
  "serve_request E chi table handlers allowed fresh now nid ib st w =
     (case CORS allowed (rq_Headers (ib_req ib) ''Origin'') (rq_Method (ib_req ib)) of (cors, answered) \<Rightarrow>
      let out = foldl std_write \<lparr>ho_Header = Map.empty, ho_Status = None, ho_Body = []\<rparr> (RequestID fresh (rq_Headers (ib_req ib) ''X-Request-ID'') @ cors)
      in if answered then (out, st, w)
         else case dispatch E chi table now ib st of
             (Inl code, st') \<Rightarrow> (std_write out (WriteHeader code), st', w)
           | (Inr (g, t, cx), st') \<Rightarrow>
               (case (case t of Found r \<Rightarrow> handlers (rt_Handler r) cx ib w | Missing code \<Rightarrow> ([WriteHeader code], w)) of (ops, w') \<Rightarrow>
                 if g = Credentials then (PIIRedact ops out, st'\<lparr>sv_pending := sv_pending st' @ (case AuditLog now nid cx (ib_req ib) of None \<Rightarrow> [] | Some e \<Rightarrow> [e])\<rparr>, w')
                 else (foldl std_write out ops, st', w')))"

text \<open>A goroutine of the audit log, whenever it runs: its insert, whose error is dropped.\<close>

definition audit_insert :: "nat \<Rightarrow> srv_state \<Rightarrow> srv_state" where
  "audit_insert i st =
     (if i < length (sv_pending st)
      then st\<lparr>sv_pending := take i (sv_pending st) @ drop (Suc i) (sv_pending st),
              sv_audit := snd (journal_add (sv_pending st ! i) (sv_audit st))\<rparr>
      else st)"

end
