(* ===== verification/HttpProps.thy ===== *)
theory HttpProps
  imports Http
begin

text \<open>
  What the masking leaves of an answer, what the audit log holds, and who may read answers across origins.
\<close>

section \<open>Words\<close>

abbreviation run_of :: "string \<Rightarrow> string" where
  "run_of s \<equiv> takeWhile is_word_char s"

text \<open>The maximal runs of word characters of a text; \<open>prev\<close>: a run is going on.\<close>

fun words :: "bool \<Rightarrow> string \<Rightarrow> string list" where
  "words prev [] = []"
| "words prev (c # cs) = (if \<not> prev \<and> is_word_char c then (c # run_of cs) # words True cs else words (is_word_char c) cs)"

definition phone_word :: "string \<Rightarrow> bool" where
  "phone_word w \<longleftrightarrow> length w = 11 \<and> list_all is_digit w \<and> w ! 0 = CHR ''1'' \<and> w ! 1 \<in> set ''3456789''"

definition id_word :: "string \<Rightarrow> bool" where
  "id_word w \<longleftrightarrow> (length w = 17 \<or> length w = 18) \<and> list_all is_digit (take 16 w) \<and> (is_digit (w ! 16) \<or> w ! 16 \<in> set ''Xx'') \<and>
     list_all is_digit (drop 17 w)"

lemma run_split: "run_of s = w \<longleftrightarrow> (\<exists>t. s = w @ t \<and> list_all is_word_char w \<and> word_ends t)"
proof
  assume "run_of s = w"
  moreover have "word_ends (dropWhile is_word_char s)" by (induction s) (simp_all add: word_ends_def)
  ultimately show "\<exists>t. s = w @ t \<and> list_all is_word_char w \<and> word_ends t"
    by (intro exI [of _ "dropWhile is_word_char s"]) (auto simp: list_all_iff dest: set_takeWhileD)
next
  assume "\<exists>t. s = w @ t \<and> list_all is_word_char w \<and> word_ends t"
  then obtain t where "s = w @ t" "list_all is_word_char w" "word_ends t" by blast
  then show "run_of s = w" by (cases t) (simp_all add: list_all_iff word_ends_def takeWhile_append)
qed

lemma words_run: "list_all is_word_char a \<Longrightarrow> words True (a @ t) = words True t"
  by (induction a) auto

lemma run_append: "list_all is_word_char a \<Longrightarrow> run_of (a @ t) = a @ run_of t"
  by (induction a) auto

lemma words_begin: "list_all is_word_char a \<Longrightarrow> a \<noteq> [] \<Longrightarrow> words False (a @ t) = (a @ run_of t) # words True t"
  by (cases a) (auto simp: words_run run_append)

lemma words_gap: "\<not> is_word_char c \<Longrightarrow> words p (c # t) = words False t"
  by simp

lemma star_no_word [simp]: "\<not> is_word_char CHR ''*''"
  by code_simp

lemma words_stars: "words p (replicate n (CHR ''*'') @ t) = words (p \<and> n = 0) t"
  by (induction n arbitrary: p) (auto simp: words_gap)

lemma words_ends: "word_ends t \<Longrightarrow> words True t = words False t"
  by (cases t) (auto simp: word_ends_def)

lemma digit_word: "is_digit c \<Longrightarrow> is_word_char c"
  by (simp add: is_word_char_def)

section \<open>Replacing words\<close>

text \<open>A matcher that takes exactly the words with a property, and writes short words around stars for them.\<close>

definition short_word :: "string \<Rightarrow> bool" where
  "short_word w \<longleftrightarrow> list_all is_word_char w \<and> length w \<in> {3, 4, 6}"

definition takes_words :: "(string \<Rightarrow> bool) \<Rightarrow> (string \<Rightarrow> (nat \<times> string) option) \<Rightarrow> bool" where
  "takes_words P m \<longleftrightarrow> (\<forall>s. (m s \<noteq> None \<longleftrightarrow> P (run_of s)) \<and>
     (\<forall>n r. m s = Some (n, r) \<longrightarrow> 0 < n \<and> take n s = run_of s \<and>
        (\<exists>a k b. r = a @ replicate (Suc k) (CHR ''*'') @ b \<and> short_word a \<and> short_word b)))"

lemma takes_wordsD:
  assumes "takes_words P m" "m s = Some (n, r)"
  obtains a k b where "P (run_of s)" "0 < n" "take n s = run_of s" "r = a @ replicate (Suc k) (CHR ''*'') @ b" "short_word a" "short_word b"
  using assms unfolding takes_words_def by (metis option.distinct(1))

lemma takes_words_None: "takes_words P m \<Longrightarrow> m s = None \<Longrightarrow> \<not> P (run_of s)"
  unfolding takes_words_def by metis

lemma takes_words_Some: "takes_words P m \<Longrightarrow> m s \<noteq> None \<Longrightarrow> P (run_of s)"
  unfolding takes_words_def by metis

lemma run_replace: "run_of (regex_replace m True s) = run_of s"
proof (induction s)
  case (Cons c cs)
  then show ?case by (cases "is_word_char c") simp_all
qed simp

lemma words_replace:
  assumes "takes_words P m"
  shows "set (words prev (regex_replace m prev s)) \<subseteq> {w \<in> set (words prev s). \<not> P w} \<union> {w. short_word w}"
  using assms
proof (induction m prev s rule: regex_replace.induct [case_names nil cons])
  case (nil m prev)
  then show ?case by simp
next
  case (cons m prev c cs)
  show ?case
  proof (cases "if prev then None else m (c # cs)")
    case None
    note IH = cons.IH(1) [OF None cons.prems]
    show ?thesis
    proof (cases "\<not> prev \<and> is_word_char c")
      case True
      with None have "\<not> P (run_of (c # cs))" by (intro takes_words_None [OF cons.prems]) simp
      with True None IH show ?thesis by (auto simp: run_replace)
    next
      case False
      with None IH show ?thesis by auto
    qed
  next
    case (Some nr)
    obtain n r where nr: "nr = (n, r)" by (cases nr)
    with Some have prev: "\<not> prev" and m: "m (c # cs) = Some (n, r)" by (auto split: if_splits)
    obtain a k b where P: "P (run_of (c # cs))" "0 < n" "take n (c # cs) = run_of (c # cs)"
      and r: "r = a @ replicate (Suc k) (CHR ''*'') @ b" "short_word a" "short_word b"
      by (rule takes_wordsD [OF cons.prems m])
    let ?t = "drop (n - 1) cs"
    from P(2) have t: "?t = drop n (c # cs)" by (cases n) simp_all
    have split: "c # cs = run_of (c # cs) @ ?t" using P(3) append_take_drop_id [of n "c # cs"] t by simp
    have run: "list_all is_word_char (run_of (c # cs))" "run_of (c # cs) \<noteq> []"
      using P(2,3) by (auto simp: list_all_iff dest: set_takeWhileD) (metis list.distinct(1) list.size(3) take_eq_Nil less_irrefl)
    have "words False (c # cs) = (run_of (c # cs) @ run_of ?t) # words True ?t"
      by (subst split) (rule words_begin [OF run])
    then have old: "set (words True ?t) \<subseteq> set (words False (c # cs))" by auto
    from split have end': "run_of ?t = []" by (metis append_self_conv run_append run(1))
    have short: "list_all is_word_char a" "a \<noteq> []" "list_all is_word_char b" "b \<noteq> []" using r(2,3) by (auto simp: short_word_def)
    have "words False (r @ regex_replace m True ?t) = a # b # words True (regex_replace m True ?t)"
      unfolding r(1) append_assoc using short end'
      by (simp add: words_begin words_stars words_gap run_replace del: words.simps replicate.simps)
    moreover have "set (words True (regex_replace m True ?t)) \<subseteq> {w \<in> set (words True ?t). \<not> P w} \<union> {w. short_word w}"
      using cons.IH(2) [OF Some nr [symmetric] cons.prems] .
    ultimately show ?thesis using Some nr prev old r(2,3) by auto
  qed
qed

text \<open>Without such words nothing is replaced.\<close>

lemma replace_none:
  assumes "takes_words P m" "\<forall>w \<in> set (words prev s). \<not> P w"
  shows "regex_replace m prev s = s"
  using assms
proof (induction m prev s rule: regex_replace.induct [case_names nil cons])
  case (cons m prev c cs)
  have "(if prev then None else m (c # cs)) = None"
  proof (cases "\<not> prev \<and> is_word_char c")
    case True
    with cons.prems(2) have "\<not> P (run_of (c # cs))" by simp
    then have "m (c # cs) = None" using takes_words_Some [OF cons.prems(1)] by blast
    then show ?thesis by simp
  next
    case False
    show ?thesis
    proof (rule ccontr)
      assume "(if prev then None else m (c # cs)) \<noteq> None"
      with False obtain n r where "m (c # cs) = Some (n, r)" "\<not> is_word_char c" by (auto split: if_splits)
      with takes_wordsD [OF cons.prems(1)] show False by (metis list.distinct(1) takeWhile.simps(2) take_eq_Nil less_irrefl)
    qed
  qed
  moreover have "\<forall>w \<in> set (words (is_word_char c) cs). \<not> P w" using cons.prems(2) by (cases "is_word_char c") (auto split: if_splits)
  ultimately show ?case using cons.IH(1) cons.prems(1) by simp
qed simp

section \<open>Phones and identity cards\<close>

lemma digits_at_append: "digits_at n s \<longleftrightarrow> (\<exists>d t. s = d @ t \<and> length d = n \<and> list_all is_digit d)"
  unfolding digits_at_def by (metis append_take_drop_id append_eq_conv_conj)

text \<open>A run of digits before a boundary is a word.\<close>

lemma run_is: "list_all is_word_char w \<Longrightarrow> word_ends t \<Longrightarrow> run_of (w @ t) = w"
  using run_split by blast

lemma phone_takes: "takes_words phone_word phone_at"
  unfolding takes_words_def
proof (intro allI conjI impI)
  fix s :: string
  show "(phone_at s \<noteq> None) = phone_word (run_of s)"
  proof
    assume "phone_at s \<noteq> None"
    then have s: "digits_at 11 s" "s ! 0 = CHR ''1''" "s ! 1 \<in> set ''3456789''" "word_ends (drop 11 s)"
      by (auto simp: phone_at_def split: if_splits)
    then obtain d t where d: "s = d @ t" "length d = 11" "list_all is_digit d" by (auto simp: digits_at_append)
    then have "list_all is_word_char d" by (simp add: list_all_iff digit_word)
    with d s(4) have "run_of s = d" by (simp add: run_is)
    with s d show "phone_word (run_of s)" by (simp add: phone_word_def nth_append)
  next
    assume w: "phone_word (run_of s)"
    obtain t where "s = run_of s @ t" "word_ends t" using run_split [of s "run_of s"] by blast
    with w show "phone_at s \<noteq> None" unfolding phone_at_def phone_word_def digits_at_append
      by (smt (verit) append_eq_conv_conj nth_append option.distinct(1) zero_less_numeral one_less_numeral_iff semiring_norm)
  qed
  fix n r assume m: "phone_at s = Some (n, r)"
  then have s: "n = 11" "r = take 3 s @ ''****'' @ take 4 (drop 7 s)" "digits_at 11 s" "word_ends (drop 11 s)"
    by (auto simp: phone_at_def split: if_splits)
  then obtain d t where d: "s = d @ t" "length d = 11" "list_all is_digit d" by (auto simp: digits_at_append)
  then have "list_all is_word_char d" by (simp add: list_all_iff digit_word)
  then have sub: "list_all is_word_char (take i (drop j d))" for i j by (auto simp: list_all_iff dest!: in_set_takeD in_set_dropD)
  show "0 < n" using s by simp
  show "take n s = run_of s" using s d \<open>list_all is_word_char d\<close> by (simp add: run_is)
  have "short_word (take 3 d)" "short_word (take 4 (drop 7 d))" using d(2) sub [of 3 0] sub [of 4 7] by (simp_all add: short_word_def)
  then show "\<exists>a k b. r = a @ replicate (Suc k) CHR ''*'' @ b \<and> short_word a \<and> short_word b"
    using s(2) d by (intro exI [of _ "take 3 d"] exI [of _ 3] exI [of _ "take 4 (drop 7 d)"]) (simp add: numeral_eq_Suc)
qed

lemma id_word_chars:
  assumes "id_word w"
  shows "list_all is_word_char w"
proof -
  from assms have "w = take 16 w @ w ! 16 # drop 17 w" using id_take_nth_drop [of 16 w] by (auto simp: id_word_def)
  moreover have "list_all is_word_char (take 16 w)" "list_all is_word_char (drop 17 w)" "is_word_char (w ! 16)"
    using assms by (auto simp: id_word_def list_all_iff digit_word is_word_char_def is_letter_def)
  ultimately show ?thesis by (metis list_all_append list.pred_inject(2))
qed

lemma id_atE:
  assumes "id_at s = Some (n, r)"
  obtains d t where "s = d @ t" "length d = n" "id_word d" "word_ends t" "r = take 6 d @ ''********'' @ drop 14 d"
proof -
  from assms have s: "digits_at 16 s" "drop 16 s \<noteq> []" "is_digit (s ! 16) \<or> s ! 16 \<in> set ''Xx''"
    and n: "n = 18 \<and> digits_at 1 (drop 17 s) \<and> word_ends (drop 18 s) \<and> r = take 6 s @ ''********'' @ take 4 (drop 14 s) \<or>
        n = 17 \<and> word_ends (drop 17 s) \<and> r = take 6 s @ ''********'' @ take 3 (drop 14 s)"
    by (auto simp: id_at_def split: if_splits)
  have len: "n \<le> length s" using n s(2) by (auto simp: digits_at_def)
  let ?d = "take n s"
  have "list_all is_digit (drop 17 ?d)" using n by (auto simp: digits_at_def drop_take)
  then have "id_word ?d" using s n len by (auto simp: id_word_def digits_at_def min_def)
  moreover have "r = take 6 ?d @ ''********'' @ drop 14 ?d" using n by (auto simp: drop_take)
  ultimately show ?thesis using n len by (intro that [of ?d "drop n s"]) auto
qed

lemma id_takes: "takes_words id_word id_at"
  unfolding takes_words_def
proof (intro allI conjI impI)
  fix s :: string
  show "(id_at s \<noteq> None) = id_word (run_of s)"
  proof
    assume "id_at s \<noteq> None"
    then obtain n r where "id_at s = Some (n, r)" by auto
    then obtain d t where "s = d @ t" "id_word d" "word_ends t" by (rule id_atE)
    then show "id_word (run_of s)" by (simp add: run_is id_word_chars)
  next
    assume w: "id_word (run_of s)"
    define w where "w = run_of s"
    obtain t where t: "s = w @ t" "word_ends t" using run_split [of s w] by (auto simp: w_def)
    have iw: "id_word w" using w by (simp add: w_def)
    then have "digits_at 16 s" "s ! 16 = w ! 16" "drop 16 s \<noteq> []" "is_digit (w ! 16) \<or> w ! 16 \<in> set ''Xx''"
      by (auto simp: t(1) id_word_def digits_at_def nth_append)
    moreover have "digits_at 1 (drop 17 s) \<and> word_ends (drop 18 s) \<or> word_ends (drop 17 s)"
      using iw t(2) by (auto simp: t(1) id_word_def digits_at_def list_all_iff dest: in_set_takeD)
    ultimately show "id_at s \<noteq> None" by (auto simp: id_at_def)
  qed
  fix n r assume m: "id_at s = Some (n, r)"
  then obtain d t where d: "s = d @ t" "length d = n" "id_word d" "word_ends t" "r = take 6 d @ ''********'' @ drop 14 d" by (rule id_atE)
  have n: "n = 17 \<or> n = 18" using d(2,3) by (auto simp: id_word_def)
  then show "0 < n" by auto
  show "take n s = run_of s" using d by (simp add: run_is id_word_chars)
  have "list_all is_word_char (take 6 d)" "list_all is_word_char (drop 14 d)"
    using id_word_chars [OF d(3)] by (auto simp: list_all_iff dest: in_set_takeD in_set_dropD)
  then have "short_word (take 6 d)" "short_word (drop 14 d)" using n d(2) by (auto simp: short_word_def)
  then show "\<exists>a k b. r = a @ replicate (Suc k) CHR ''*'' @ b \<and> short_word a \<and> short_word b"
    using d(5) by (intro exI [of _ "take 6 d"] exI [of _ 7] exI [of _ "drop 14 d"]) (simp add: numeral_eq_Suc)
qed

lemma short_not: "short_word w \<Longrightarrow> \<not> phone_word w \<and> \<not> id_word w"
  by (auto simp: short_word_def phone_word_def id_word_def)

lemma Mask_clean: "w \<in> set (words False (Mask s)) \<Longrightarrow> \<not> phone_word w \<and> \<not> id_word w"
  using words_replace [OF id_takes, of False "regex_replace phone_at False s"] words_replace [OF phone_takes, of False s] short_not
  unfolding Mask_def by blast

lemma Mask_none: "\<forall>w \<in> set (words False s). \<not> phone_word w \<and> \<not> id_word w \<Longrightarrow> Mask s = s"
  by (simp add: Mask_def replace_none [OF phone_takes] replace_none [OF id_takes])

text \<open>A word of a text is one of its words.\<close>

lemma word_in_text:
  assumes "list_all is_word_char w" "w \<noteq> []" "word_ends t" "a = [] \<or> \<not> is_word_char (last a)"
  shows "w \<in> set (words False (a @ w @ t))"
proof -
  have "w \<in> set (words p (a @ w @ t))" if "a \<noteq> [] \<or> \<not> p" for p
    using assms(4) that
  proof (induction a arbitrary: p)
    case Nil
    from assms(3) have "run_of t = []" by (cases t) (simp_all add: word_ends_def)
    with Nil assms(1,2) show ?case by (simp add: words_begin)
  next
    case (Cons c a)
    then show ?case by (cases "a = []") auto
  qed
  then show ?thesis by simp
qed

section \<open>Answers\<close>

text \<open>How much of a list of writes is held back.\<close>

definition json_answer :: "int \<Rightarrow> string list \<Rightarrow> wr_op list" where
  "json_answer st bodies = SetHeader ''Content-Type'' ''application/json'' # WriteHeader st # map WriteBody bodies"

lemma respond_json: "respond_JSON encode st x = json_answer st [encode 0 ''ok'' (Some x)]" "respond_Error encode st msg = json_answer st [encode st msg None]"
  by (simp_all add: respond_JSON_def respond_Error_def json_answer_def)

lemma held_back: "foldl redact_write w (map WriteBody bs) = w\<lparr>rw_buf := rw_buf w @ concat bs\<rparr>" if "rw_isJSON w"
  using that by (induction bs arbitrary: w) simp_all

lemma json_redacted:
  assumes "ho_Status out = None" "ho_Body out = []"
  shows "ho_Body (PIIRedact (json_answer st bs) out) = Mask (concat bs) \<and>
    (concat bs \<noteq> [] \<longrightarrow> ho_Status (PIIRedact (json_answer st bs) out) = Some st)"
proof -
  have json: "strings_Contains ''application/json'' ''application/json''" by code_simp
  have nil: "Mask [] = []" by (simp add: Mask_def)
  show ?thesis
  proof (cases "concat bs = []")
    case True
    with assms nil show ?thesis by (simp add: PIIRedact_def json_answer_def held_back json Let_def del: concat_eq_Nil_conv)
  next
    case False
    with assms show ?thesis by (simp add: PIIRedact_def json_answer_def held_back json Let_def del: concat_eq_Nil_conv)
  qed
qed

end
