(* ===== verification/RouterProps.thy ===== *)
theory RouterProps
  imports Router HttpProps
begin

text \<open>
  Who reaches a handler, and what the answers of the API carry.
\<close>

section \<open>Paths\<close>

text \<open>The parts of the server that anybody may call, by the beginning of the path.\<close>

definition open_parts :: "string list" where
  "open_parts = [''auth'', ''ws'', ''widget'', ''webchat'', ''email'', ''social'']"

definition public_path :: "string \<Rightarrow> bool" where
  "public_path path \<longleftrightarrow> (case split_on CHR ''/'' path of
     [a, b] \<Rightarrow> a = [] \<and> b \<in> set [''health'', ''readyz'', ''metrics'']
   | a # b # c # d # _ \<Rightarrow> a = [] \<and> b = ''api'' \<and> c = ''v1'' \<and> d \<in> set open_parts
   | _ \<Rightarrow> False)"

text \<open>What a pattern says of the paths it matches: its first four segments, when they are not parameters.\<close>

definition pattern_public :: "string \<Rightarrow> bool option" where
  "pattern_public pat = (case split_on CHR ''/'' pat of
     [a, b] \<Rightarrow> if is_param a \<or> is_param b then None else Some (a = [] \<and> b \<in> set [''health'', ''readyz'', ''metrics''])
   | a # b # c # d # _ \<Rightarrow> if d = [] \<or> list_ex is_param [a, b, c, d] then None else Some (a = [] \<and> b = ''api'' \<and> c = ''v1'' \<and> d \<in> set open_parts)
   | _ \<Rightarrow> None)"

lemma segs_match_Cons: "segs_match (p # ps) ss \<longleftrightarrow> (\<exists>s ss'. ss = s # ss' \<and> (is_param p \<or> p = s) \<and> segs_match ps ss')"
  by (auto simp: segs_match_def list_all2_Cons1)

lemma segs_match_Nil: "segs_match [] ss \<longleftrightarrow> ss = []"
  by (simp add: segs_match_def)

lemma pattern_public_decides:
  assumes "pattern_public pat = Some b" "pattern_matches pat path"
  shows "public_path path = b"
proof -
  let ?ps = "split_on CHR ''/'' pat" and ?ss = "split_on CHR ''/'' path"
  from assms(1) consider (two) p q where "?ps = [p, q]" | (four) p q u v ts where "?ps = p # q # u # v # ts"
    by (auto simp: pattern_public_def split: list.splits)
  then show ?thesis
  proof cases
    case two
    with assms(1) have b: "\<not> is_param p" "\<not> is_param q" "b = (p = [] \<and> q \<in> set [''health'', ''readyz'', ''metrics''])"
      by (auto simp: pattern_public_def split: if_splits)
    from assms(2) two b(1,2) have "?ss = [p, q] \<or> (q = [] \<and> ?ss = [p])"
      by (auto simp: pattern_matches_def Let_def segs_match_Cons segs_match_Nil)
    with b(3) show ?thesis by (auto simp: public_path_def)
  next
    case four
    with assms(1) have b: "v \<noteq> []" "\<not> is_param p" "\<not> is_param q" "\<not> is_param u" "\<not> is_param v"
      "b = (p = [] \<and> q = ''api'' \<and> u = ''v1'' \<and> v \<in> set open_parts)"
      by (auto simp: pattern_public_def split: if_splits)
    from assms(2) four b(1-5) obtain rest where "?ss = p # q # u # v # rest"
      by (cases ts) (auto simp: pattern_matches_def Let_def segs_match_Cons segs_match_Nil)
    with b(6) show ?thesis by (simp add: public_path_def)
  qed
qed

text \<open>The table, evaluated: no route behind credentials or service tokens has a path of the open parts, and all the open ones have.\<close>

lemma guarded_patterns: "list_all (\<lambda>r. pattern_public (rt_Pattern r) = Some False) (api_routes @ internal_routes)"
  by code_simp

lemma open_patterns: "list_all (\<lambda>r. pattern_public (rt_Pattern r) = Some True) (open_routes @ ws_routes True True True True @ public_routes @ social_routes)"
  by code_simp

lemma ws_sub: "set (ws_routes a b c d) \<subseteq> set (ws_routes True True True True)"
  by (auto simp: ws_routes_def)

lemma table_public:
  assumes "(g, r) \<in> set (router_table a b c d)" "route_matches meth path r"
  shows "public_path path \<longleftrightarrow> g = Open"
proof -
  have "pattern_public (rt_Pattern r) = Some True" if "g = Open"
    using assms(1) that ws_sub [of a b c d] by (intro bspec [OF open_patterns [unfolded list_all_iff]]) (auto simp: router_table_def)
  moreover have "pattern_public (rt_Pattern r) = Some False" if "g \<noteq> Open"
    using assms(1) that by (intro bspec [OF guarded_patterns [unfolded list_all_iff]]) (auto simp: router_table_def)
  ultimately have "pattern_public (rt_Pattern r) = Some (g = Open)" by (cases "g = Open") simp_all
  with assms(2) show ?thesis by (auto simp: route_matches_def dest: pattern_public_decides)
qed

section \<open>Credentials\<close>

definition ctx_of :: "claims \<Rightarrow> req_ctx" where
  "ctx_of c = \<lparr>cx_TenantID = cl_TenantID c, cx_UserID = cl_UserID c, cx_Role = cl_Role c\<rparr>"

text \<open>
  C16. A handler runs without credentials only for a path of the open parts: health and metrics, login, the WebSocket hubs, the chat widget, inbound mail and
  the callbacks of social platforms. Every other handler runs for a bearer token that is valid and not a refresh token, with the tenant and the user of its claims and
  past the tenant guard, except the inbound call of a service, which runs for an accepted service token.
\<close>

theorem only_with_credentials:
  assumes chi: "chi_ok chi" and run: "dispatch E chi (router_table a b c d) now ib st = (Inr (g, Found r, cx), st')"
  shows "(if public_path (rq_Path (ib_req ib)) then g = Open \<and> cx = no_ctx
     else if rt_Handler r = ''CallControlHandler.InboundCall''
     then fst (ServiceAuth (en_secret E) (en_mac E) (en_sha E) now (ib_service ib) (sv_nonces st)) = Some cx
     else \<exists>tok c. ib_bearer ib = Some tok \<and> jwt_parse (en_jwt E) now tok = Some c \<and> cl_Type c \<noteq> ''refresh'' \<and> cx = ctx_of c \<and>
       TenantGuard cx (rq_TenantQuery (ib_req ib)) (rq_Path (ib_req ib)))"
proof -
  obtain g' t where hit: "chi (router_table a b c d) (rq_Method (ib_req ib)) (rq_Path (ib_req ib)) = (g', t)" by force
  with run have gt: "g' = g" "t = Found r" and pass: "gate E now g ib st = (Inr cx, st')"
    by (auto simp: dispatch_def split: prod.splits sum.splits)
  with chi hit have r: "(g, r) \<in> set (router_table a b c d)" "route_matches (rq_Method (ib_req ib)) (rq_Path (ib_req ib)) r"
    unfolding chi_ok_def by blast+
  note pub = table_public [OF this]
  show ?thesis
  proof (cases g)
    case Open
    with pub pass show ?thesis by (simp add: gate_def)
  next
    case Service
    with r(1) have "rt_Handler r = ''CallControlHandler.InboundCall''"
      by (auto simp: router_table_def internal_routes_def Route_def Post_def)
    with Service pub pass show ?thesis by (auto simp: gate_def service_gate_def split: prod.splits option.splits)
  next
    case Credentials
    with r(1) have "r \<in> set api_routes" by (auto simp: router_table_def)
    moreover have "list_all (\<lambda>r. rt_Handler r \<noteq> ''CallControlHandler.InboundCall'') api_routes" by code_simp
    ultimately have "rt_Handler r \<noteq> ''CallControlHandler.InboundCall''" by (simp add: list_all_iff)
    with Credentials pub pass show ?thesis
      by (auto simp: gate_def api_gate_def AuthMiddleware_def ctx_of_def split: prod.splits option.splits if_splits)
  qed
qed

section \<open>What the API answers and records\<close>

text \<open>Of a text: neither a mobile phone number nor the number of an identity card stands in it as a word.\<close>

definition carries_no_pii :: "string \<Rightarrow> bool" where
  "carries_no_pii s \<longleftrightarrow> \<not> (\<exists>a w b. s = a @ w @ b \<and> (a = [] \<or> \<not> is_word_char (last a)) \<and> word_ends b \<and> (phone_word w \<or> id_word w))"

text \<open>A word of a text occurs in it between boundaries.\<close>

lemma word_occurs:
  assumes "x \<in> set (words False s)"
  shows "\<exists>a b. s = a @ x @ b \<and> (a = [] \<or> \<not> is_word_char (last a)) \<and> word_ends b"
proof -
  have "\<exists>a b. s = a @ x @ b \<and> (if a = [] then \<not> p else \<not> is_word_char (last a)) \<and> word_ends b" if "x \<in> set (words p s)" for p
    using that
  proof (induction s arbitrary: p)
    case (Cons c cs)
    show ?case
    proof (cases "\<not> p \<and> is_word_char c \<and> x = c # run_of cs")
      case True
      obtain t where "cs = run_of cs @ t" "word_ends t" using run_split [of cs "run_of cs"] by blast
      with True show ?thesis by (intro exI [of _ "[]"] exI [of _ t]) simp
    next
      case False
      with Cons.prems have "x \<in> set (words (is_word_char c) cs)" by (auto split: if_splits)
      from Cons.IH [OF this] obtain a b where "cs = a @ x @ b" "if a = [] then \<not> is_word_char c else \<not> is_word_char (last a)" "word_ends b" by blast
      then show ?thesis by (intro exI [of _ "c # a"] exI [of _ b]) (auto split: if_splits)
    qed
  qed simp
  from this [OF assms] show ?thesis by metis
qed

lemma phone_word_chars: "phone_word w \<Longrightarrow> list_all is_word_char w"
  by (simp add: phone_word_def list_all_iff digit_word)

lemma Mask_no_pii: "carries_no_pii (Mask s)"
proof -
  have False if "Mask s = a @ w @ b" "a = [] \<or> \<not> is_word_char (last a)" "word_ends b" "phone_word w \<or> id_word w" for a w b
  proof -
    have "list_all is_word_char w" "w \<noteq> []" using that(4) phone_word_chars id_word_chars by (auto simp: phone_word_def id_word_def)
    from word_in_text [OF this that(3,2)] have "w \<in> set (words False (Mask s))" by (simp add: that(1))
    with Mask_clean that(4) show False by blast
  qed
  then show ?thesis unfolding carries_no_pii_def by blast
qed

lemma head_unsent:
  fixes fresh given :: string
  assumes "CORS allowed origin meth = (cors, False)"
  defines "out \<equiv> foldl std_write \<lparr>ho_Header = Map.empty, ho_Status = None, ho_Body = []\<rparr> (RequestID fresh given @ cors)"
  shows "ho_Status out = None" "ho_Body out = []"
proof -
  have keep: "ho_Status (foldl std_write w hs) = ho_Status w \<and> ho_Body (foldl std_write w hs) = ho_Body w" if "\<forall>h \<in> set hs. \<exists>k v. h = SetHeader k v" for w hs
    using that by (induction hs arbitrary: w) auto
  have "\<forall>h \<in> set (RequestID fresh given @ cors). \<exists>k v. h = SetHeader k v"
    using assms(1) by (auto simp: CORS_def RequestID_def Let_def split: if_splits)
  from keep [OF this] show "ho_Status out = None" "ho_Body out = []" by (simp_all add: out_def)
qed

text \<open>
  C17. When a handler of the API answers with JSON, the body sent is the masked one: it carries no mobile phone number and no identity card number, whatever the handler wrote, and a
  text without them goes out as it is. For a request with a tenant that may change something, or reads one of the sensitive parts, a goroutine is started that inserts one entry into the
  audit log, with its tenant, user, method and path, and for no other request; the log itself has not changed yet. When the goroutine runs it adds this entry and nothing else, or nothing when
  the insert fails.
\<close>

theorem api_answers:
  assumes "dispatch E chi table now ib st = (Inr (Credentials, Found r, cx), st')" "rq_Method (ib_req ib) \<noteq> ''OPTIONS''"
    and "handlers (rt_Handler r) cx ib w = (json_answer code bodies, w')"
    and served: "serve_request E chi table handlers allowed fresh now nid ib st w = (answer, st'', w'')"
  shows "carries_no_pii (ho_Body answer) \<and> (carries_no_pii (concat bodies) \<longrightarrow> ho_Body answer = concat bodies) \<and>
    sv_audit st'' = sv_audit st' \<and>
    (\<exists>e. al_TenantID e = cx_TenantID cx \<and> al_UserID e = cx_UserID cx \<and> al_Action e = rq_Method (ib_req ib) \<and> al_Resource e = rq_Path (ib_req ib) \<and>
      (if cx_TenantID cx \<noteq> 0 \<and> rq_Method (ib_req ib) \<noteq> ''HEAD'' \<and>
          (rq_Method (ib_req ib) = ''GET'' \<longrightarrow> (\<exists>p \<in> set sensitiveGETPaths. strings_HasPrefix (rq_Path (ib_req ib)) p))
       then sv_pending st'' = sv_pending st' @ [e] \<and>
         entries (sv_audit (audit_insert (length (sv_pending st')) st'')) =
           (if journal_down (sv_audit st') then entries (sv_audit st') else entries (sv_audit st') @ [e])
       else sv_pending st'' = sv_pending st'))"
proof -
  obtain cors answered where cors: "CORS allowed (rq_Headers (ib_req ib) ''Origin'') (rq_Method (ib_req ib)) = (cors, answered)" by force
  with assms(2) have "\<not> answered" by (auto simp: CORS_def Let_def)
  let ?out = "foldl std_write \<lparr>ho_Header = Map.empty, ho_Status = None, ho_Body = []\<rparr> (RequestID fresh (rq_Headers (ib_req ib) ''X-Request-ID'') @ cors)"
  let ?e = "\<lparr>al_ID = nid, al_TenantID = cx_TenantID cx, al_UserID = cx_UserID cx, al_Action = rq_Method (ib_req ib), al_Resource = rq_Path (ib_req ib),
      al_IP = clientIP (ib_req ib), al_UserAgent = rq_Headers (ib_req ib) ''User-Agent'', al_CreatedAt = now\<rparr>"
  have out: "ho_Status ?out = None" "ho_Body ?out = []" using head_unsent cors \<open>\<not> answered\<close> by simp_all
  have res: "answer = PIIRedact (json_answer code bodies) ?out"
    "st'' = st'\<lparr>sv_pending := sv_pending st' @ (case AuditLog now nid cx (ib_req ib) of None \<Rightarrow> [] | Some e \<Rightarrow> [e])\<rparr>"
    using assms(1,3) cors \<open>\<not> answered\<close> served by (simp_all add: serve_request_def Let_def)
  have body: "ho_Body answer = Mask (concat bodies)" using json_redacted [OF out] by (simp add: res)
  have same: "Mask (concat bodies) = concat bodies" if "carries_no_pii (concat bodies)"
  proof (rule Mask_none, intro ballI)
    fix x assume "x \<in> set (words False (concat bodies))"
    from word_occurs [OF this] that show "\<not> phone_word x \<and> \<not> id_word x" unfolding carries_no_pii_def by blast
  qed
  let ?log = "cx_TenantID cx \<noteq> 0 \<and> rq_Method (ib_req ib) \<noteq> ''HEAD'' \<and>
      (rq_Method (ib_req ib) = ''GET'' \<longrightarrow> (\<exists>p \<in> set sensitiveGETPaths. strings_HasPrefix (rq_Path (ib_req ib)) p))"
  have "AuditLog now nid cx (ib_req ib) = (if ?log then Some ?e else None)"
    using assms(2) by (auto simp: AuditLog_def isSensitiveGET_def list_ex_iff)
  then have "if ?log then sv_pending st'' = sv_pending st' @ [?e] \<and>
         entries (sv_audit (audit_insert (length (sv_pending st')) st'')) =
           (if journal_down (sv_audit st') then entries (sv_audit st') else entries (sv_audit st') @ [?e])
       else sv_pending st'' = sv_pending st'"
    by (simp add: res audit_insert_def journal_add_result)
  then show ?thesis using body same Mask_no_pii res(2) by (intro conjI exI [of _ ?e]) simp_all
qed

section \<open>Findings\<close>

text \<open>With no origin configured, any origin is given credentials.\<close>

lemma any_origin_with_credentials:
  assumes "origin \<noteq> []" "origin \<noteq> ''*''"
  shows "SetHeader ''Access-Control-Allow-Origin'' origin \<in> set (fst (CORS [] origin meth)) \<and>
    SetHeader ''Access-Control-Allow-Credentials'' ''true'' \<in> set (fst (CORS [] origin meth))"
  using assms by (simp add: CORS_def cors_origin_def Let_def)

text \<open>A number of eleven digits in JSON is masked as well, and is no number any more.\<close>

lemma number_masked: "Mask ''{n:13812345678}'' = ''{n:138****5678}''"
  by code_simp

text \<open>The address in the audit log is the one the client names.\<close>

lemma address_forged:
  assumes "rq_Headers r ''X-Forwarded-For'' = ip" "ip \<noteq> []" "CHR '','' \<notin> set ip"
  shows "clientIP r = TrimSpace ip"
proof -
  have "cut_at '','' s = None" if "CHR '','' \<notin> set s" for s
    using that
  proof (induction s)
    case Nil
    show ?case by (subst cut_at.simps) simp
  next
    case (Cons c s)
    then have "c \<noteq> CHR '',''" by auto
    with Cons show ?case by (simp add: cut_at_skip)
  qed
  with assms show ?thesis by (simp add: clientIP_def)
qed

section \<open>Witnesses\<close>

definition first_route :: chi_mux where
  "first_route table meth path = (case find (\<lambda>(g, r). route_matches meth path r) table of None \<Rightarrow> (Open, Missing 404) | Some (g, r) \<Rightarrow> (g, Found r))"

lemma first_route_ok: "chi_ok first_route"
  by (auto simp: chi_ok_def first_route_def find_Some_iff in_set_conv_nth split: option.splits)

definition claims1 :: claims where
  "claims1 = \<lparr>cl_Sub = ''7'', cl_TenantID = 3, cl_UserID = 7, cl_Role = ''agent'', cl_Type = ''access'', cl_Iat = 0, cl_Exp = 900\<rparr>"

definition api_env1 :: "string api_env" where
  "api_env1 = \<lparr>en_jwt = \<lparr>jwt_sign = (\<lambda>_. ''t''), jwt_parse = (\<lambda>_ tok. if tok = ''t'' then Some claims1 else None)\<rparr>, en_secret = ''k'', en_mac = id, en_sha = id,
     en_settings = (\<lambda>_. None), en_redis_down = False\<rparr>"

definition post1 :: "string inbound" where
  "post1 = \<lparr>ib_req = \<lparr>rq_Method = ''POST'', rq_Path = ''/api/v1/tickets/5/assign'', rq_TenantQuery = [], rq_Headers = (\<lambda>_. []), rq_RemoteAddr = ''1.2.3.4''\<rparr>,
     ib_bearer = Some ''t'', ib_service = \<lparr>sq_Timestamp = [], sq_Token = [], sq_Tenant = [], sq_Method = [], sq_Path = [], sq_Body = []\<rparr>\<rparr>"

definition idle1 :: srv_state where
  "idle1 = \<lparr>sv_rates = \<lparr>rs_cache = Map.empty, rs_keys = (\<lambda>_. None)\<rparr>, sv_nonces = Map.empty, sv_audit = \<lparr>entries = [], journal_outages = []\<rparr>, sv_pending = []\<rparr>"

definition assign1 :: route where
  "assign1 = Post ''/api/v1/tickets/{id}/assign'' ''TicketHandler.AssignTicket''"

lemma picked1: "first_route (router_table True True True True) ''POST'' ''/api/v1/tickets/5/assign'' = (Credentials, Found assign1)"
  by code_simp

lemma gate1: "gate api_env1 0 Credentials post1 idle1 =
    (Inr (ctx_of claims1), idle1\<lparr>sv_rates := \<lparr>rs_cache = [3 \<mapsto> (100, 60 * second)], rs_keys = (\<lambda>_. None)(3 := Some (1, second))\<rparr>\<rparr>)"
proof -
  have "tenant_segment ''/api/v1/tickets/5/assign'' = None" by code_simp
  then show ?thesis
    by (simp add: gate_def api_gate_def AuthMiddleware_def api_env1_def post1_def idle1_def claims1_def ctx_of_def TenantGuard_def RateLimit_def resolve_rate_def
        tenant_rate_def Allow_def live_key_def rateCacheTTL_def)
qed

definition served1 :: srv_state where
  "served1 = snd (gate api_env1 0 Credentials post1 idle1)"

lemma dispatched1: "dispatch api_env1 first_route (router_table True True True True) 0 post1 idle1 = (Inr (Credentials, Found assign1, ctx_of claims1), served1)"
proof -
  have "rq_Method (ib_req post1) = ''POST''" "rq_Path (ib_req post1) = ''/api/v1/tickets/5/assign''" by (simp_all add: post1_def)
  then show ?thesis unfolding dispatch_def by (simp only: picked1 prod.case gate1 served1_def sum.case snd_conv)
qed

theorem only_with_credentials_witness: "\<exists>tok c. ib_bearer post1 = Some tok \<and> jwt_parse (en_jwt api_env1) 0 tok = Some c \<and> ctx_of claims1 = ctx_of c"
proof -
  have "\<not> public_path (rq_Path (ib_req post1))" "rt_Handler assign1 \<noteq> ''CallControlHandler.InboundCall''" by code_simp+
  with only_with_credentials [OF first_route_ok dispatched1] show ?thesis by auto
qed

definition handlers1 :: "string \<Rightarrow> req_ctx \<Rightarrow> string inbound \<Rightarrow> unit \<Rightarrow> wr_op list \<times> unit" where
  "handlers1 h cx ib w = (json_answer 200 [''{phone:'', ''13812345678}''], w)"

theorem api_answers_witness:
  "\<exists>answer st w. serve_request api_env1 first_route (router_table True True True True) handlers1 [] ''id'' 0 9 post1 idle1 () = (answer, st, w) \<and>
     carries_no_pii (ho_Body answer) \<and> length (sv_pending st) = 1 \<and> length (entries (sv_audit (audit_insert 0 st))) = 1"
proof -
  obtain answer st w where served: "serve_request api_env1 first_route (router_table True True True True) handlers1 [] ''id'' 0 9 post1 idle1 () = (answer, st, w)"
    by (metis prod_cases3)
  have post: "rq_Method (ib_req post1) = ''POST''" and tenant: "cx_TenantID (ctx_of claims1) \<noteq> 0" by (simp_all add: post1_def ctx_of_def claims1_def)
  then have meth: "rq_Method (ib_req post1) \<noteq> ''OPTIONS''" by simp
  have "handlers1 (rt_Handler assign1) (ctx_of claims1) post1 () = (json_answer 200 [''{phone:'', ''13812345678}''], ())" by (simp add: handlers1_def)
  note api = api_answers [OF dispatched1 meth this served]
  from api have ans: "carries_no_pii (ho_Body answer)" by (rule conjunct1)
  from api [THEN conjunct2, THEN conjunct2, THEN conjunct2] obtain e where e: "sv_pending st = sv_pending served1 @ [e]"
      "entries (sv_audit (audit_insert (length (sv_pending served1)) st)) =
        (if journal_down (sv_audit served1) then entries (sv_audit served1) else entries (sv_audit served1) @ [e])"
    using post tenant by (elim exE) (simp split del: if_split)
  have "sv_pending served1 = []" "\<not> journal_down (sv_audit served1)" "entries (sv_audit served1) = []"
    unfolding served1_def gate1 by (simp_all add: idle1_def journal_down_def)
  with ans e served show ?thesis by (intro exI [of _ answer] exI [of _ st] exI [of _ w]) simp
qed

end
