(* ===== verification/Json.thy ===== *)
theory Json
  imports Store Decimal
begin

text \<open>
  What handlers read of a JSON body and of a path, and the answers they give: what the program uses of \<open>encoding/json\<close>
  and \<open>strconv.ParseInt\<close>.
\<close>

section \<open>Bodies\<close>

text \<open>
  A body as \<open>encoding/json\<close> reads it: \<open>None\<close> is no JSON object, and a member that is missing or null leaves the field at its zero
  value.
\<close>

datatype json_value = JInt int | JStr string | JBool bool | JNull | JOther

type_synonym json_object = "string \<rightharpoonup> json_value"

definition int_field :: "string \<Rightarrow> json_object \<Rightarrow> int option" where
  "int_field n b = (case b n of None \<Rightarrow> Some 0 | Some JNull \<Rightarrow> Some 0 | Some (JInt i) \<Rightarrow> if int64 i then Some i else None | _ \<Rightarrow> None)"

definition int_ptr_field :: "string \<Rightarrow> json_object \<Rightarrow> int option option" where
  "int_ptr_field n b = (case b n of None \<Rightarrow> Some None | Some JNull \<Rightarrow> Some None | Some (JInt i) \<Rightarrow> if int64 i then Some (Some i) else None | _ \<Rightarrow> None)"

definition str_field :: "string \<Rightarrow> json_object \<Rightarrow> string option" where
  "str_field n b = (case b n of None \<Rightarrow> Some [] | Some JNull \<Rightarrow> Some [] | Some (JStr s) \<Rightarrow> Some s | _ \<Rightarrow> None)"

text \<open>\<open>id, _ := strconv.ParseInt(s, 10, 64)\<close>: 0 when it is no number, the nearest value when it is out of range.\<close>

definition path_id :: "string \<Rightarrow> int" where
  "path_id s = (case parse_int64 s of
     Some i \<Rightarrow> i
   | None \<Rightarrow> (case s of
       [] \<Rightarrow> 0
     | c # cs \<Rightarrow> if c = CHR ''-'' then (case parse_nat cs of None \<Rightarrow> 0 | Some _ \<Rightarrow> - (2 ^ 63))
         else (case parse_nat (if c = CHR ''+'' then cs else s) of None \<Rightarrow> 0 | Some _ \<Rightarrow> 2 ^ 63 - 1)))"

text \<open>Members that are strings, numbers or booleans, absent or given (a pointer in Go).\<close>

definition str_ptr_field :: "string \<Rightarrow> json_object \<Rightarrow> string option option" where
  "str_ptr_field n b = (case b n of None \<Rightarrow> Some None | Some JNull \<Rightarrow> Some None | Some (JStr s) \<Rightarrow> Some (Some s) | _ \<Rightarrow> None)"

definition bool_field :: "string \<Rightarrow> json_object \<Rightarrow> bool option" where
  "bool_field n b = (case b n of None \<Rightarrow> Some False | Some JNull \<Rightarrow> Some False | Some (JBool x) \<Rightarrow> Some x | _ \<Rightarrow> None)"

definition bool_ptr_field :: "string \<Rightarrow> json_object \<Rightarrow> bool option option" where
  "bool_ptr_field n b = (case b n of None \<Rightarrow> Some None | Some JNull \<Rightarrow> Some None | Some (JBool x) \<Rightarrow> Some (Some x) | _ \<Rightarrow> None)"

text \<open>\<open>if p != nil { x = *p }\<close>\<close>

definition given :: "'a option \<Rightarrow> 'a \<Rightarrow> 'a" where
  "given p old = (case p of None \<Rightarrow> old | Some x \<Rightarrow> x)"

section \<open>Answers\<close>

text \<open>The status and what is answered; the texts of errors are not modelled.\<close>

datatype 'a http_answer = Failure int | Success int 'a

definition respond :: "int \<Rightarrow> int \<Rightarrow> ('a \<Rightarrow> 'b) \<Rightarrow> ('w, 'e, 'a) act \<Rightarrow> 'w \<Rightarrow> 'b http_answer \<times> 'w" where
  "respond bad ok f m w = (case m w of (Inl _, w') \<Rightarrow> (Failure bad, w') | (Inr a, w') \<Rightarrow> (Success ok (f a), w'))"

definition decoded :: "json_object option \<Rightarrow> (json_object \<Rightarrow> 'x option) \<Rightarrow> ('x \<Rightarrow> 'w \<Rightarrow> 'b http_answer \<times> 'w) \<Rightarrow> 'w \<Rightarrow> 'b http_answer \<times> 'w" where
  "decoded body f k = (case Option.bind body f of None \<Rightarrow> (\<lambda>w. (Failure 400, w)) | Some x \<Rightarrow> k x)"

end
