(* ===== verification/CallControl.thy ===== *)
theory CallControl
  imports LifecycleProps Router Json
begin

text \<open>
  The handlers of call control (\<open>interfaces/http/handler/call_control.go\<close>): what they read of a request, the operation they
  call and the status they answer with.
\<close>

section \<open>Requests and answers\<close>

datatype answer_data = CallData call | CallbackData callback_request | NoData

type_synonym control = "lc_world \<Rightarrow> answer_data http_answer \<times> lc_world"

section \<open>Handlers\<close>

definition inbound_fields :: "int \<Rightarrow> json_object \<Rightarrow> create_call_input option" where
  "inbound_fields tenant b =
     (case (str_field ''caller'' b, str_field ''callee'' b, str_field ''channel_uuid'' b, int_ptr_field ''ivr_flow_id'' b, int_ptr_field ''phone_number_id'' b, int_ptr_field ''carrier_id'' b) of
        (Some caller, Some callee, Some uuid, Some flow, Some phone, Some carrier) \<Rightarrow>
          Some \<lparr>in_TenantID = tenant, in_Direction = [], in_CallType = [], in_MediaType = [], in_Caller = caller, in_Callee = callee, in_ChannelUUID = uuid,
                in_AgentUserID = None, in_IVRFlowID = flow, in_PhoneNumberID = phone, in_CarrierID = carrier, in_SIPTrunkID = None, in_CampaignCaseID = None\<rparr>
      | _ \<Rightarrow> None)"

definition target_fields :: "json_object \<Rightarrow> transfer_target option" where
  "target_fields b =
     (case (str_field ''type'' b, int_ptr_field ''skill_group_id'' b, int_ptr_field ''agent_user_id'' b, str_field ''external_num'' b) of
        (Some t, Some sg, Some agent, Some num) \<Rightarrow> Some \<lparr>tt_Type = t, tt_SkillGroupID = sg, tt_AgentUserID = agent, tt_ExternalNum = num\<rparr>
      | _ \<Rightarrow> None)"

definition reason_of :: "string \<Rightarrow> HangupReason" where
  "reason_of s = (case find (\<lambda>r. hangup_reason_str r = s) [HangupNormal, HangupBusy, HangupNoAnswer, HangupReject, HangupAbandon, HangupQueueTimeout,
       HangupQueueOverflow, HangupBlacklist, HangupOffHours, HangupIVRHangup, HangupSystemError, HangupTransferFailed, HangupVoicemailCompleted] of
     None \<Rightarrow> HangupOther s | Some r \<Rightarrow> r)"

definition InboundCall_h :: "lc_config \<Rightarrow> (nat \<Rightarrow> gotime) \<Rightarrow> (nat \<Rightarrow> int) \<Rightarrow> int \<Rightarrow> json_object option \<Rightarrow> control" where
  "InboundCall_h cf now ids tenant body = decoded body (inbound_fields tenant) (\<lambda>inp. respond 400 201 CallData (HandleInboundCall cf now ids inp))"

definition TransitionToQueue_h :: "lc_config \<Rightarrow> (nat \<Rightarrow> gotime) \<Rightarrow> (nat \<Rightarrow> int) \<Rightarrow> string \<Rightarrow> json_object option \<Rightarrow> control" where
  "TransitionToQueue_h cf now ids p body = decoded body (int_field ''skill_group_id'') (\<lambda>sg. respond 400 200 CallData (TransitionCallToQueue cf now ids (path_id p) sg))"

definition TransitionToRinging_h :: "lc_config \<Rightarrow> (nat \<Rightarrow> gotime) \<Rightarrow> (nat \<Rightarrow> int) \<Rightarrow> string \<Rightarrow> json_object option \<Rightarrow> control" where
  "TransitionToRinging_h cf now ids p body = decoded body (int_field ''agent_user_id'') (\<lambda>a. respond 400 200 CallData (TransitionCallToRinging cf now ids (path_id p) a))"

definition SetDisposition_h :: "lc_config \<Rightarrow> (nat \<Rightarrow> gotime) \<Rightarrow> (nat \<Rightarrow> int) \<Rightarrow> string \<Rightarrow> json_object option \<Rightarrow> control" where
  "SetDisposition_h cf now ids p body = decoded body (str_field ''disposition_code'')
     (\<lambda>code. respond 400 200 CallData (on_call (SetDisposition (lc_calls cf) (now 0) (ids 0) (path_id p) code)))"

definition Hold_h :: "lc_config \<Rightarrow> (nat \<Rightarrow> gotime) \<Rightarrow> (nat \<Rightarrow> int) \<Rightarrow> string \<Rightarrow> control" where
  "Hold_h cf now ids p = respond 400 200 CallData (on_call (HoldCall (lc_calls cf) (now 0) (ids 0) (path_id p)))"

definition Retrieve_h :: "lc_config \<Rightarrow> (nat \<Rightarrow> gotime) \<Rightarrow> (nat \<Rightarrow> int) \<Rightarrow> string \<Rightarrow> control" where
  "Retrieve_h cf now ids p = respond 400 200 CallData (on_call (RetrieveCall (lc_calls cf) (now 0) (ids 0) (path_id p)))"

definition BlindTransfer_h :: "lc_config \<Rightarrow> (nat \<Rightarrow> gotime) \<Rightarrow> (nat \<Rightarrow> int) \<Rightarrow> string \<Rightarrow> json_object option \<Rightarrow> control" where
  "BlindTransfer_h cf now ids p body = decoded body target_fields
     (\<lambda>t. respond 400 200 CallData (on_call (BlindTransfer (lc_calls cf) (now 0) (ids 0) (path_id p) t)))"

definition SendDTMF_h :: "lc_config \<Rightarrow> (nat \<Rightarrow> gotime) \<Rightarrow> (nat \<Rightarrow> int) \<Rightarrow> string \<Rightarrow> json_object option \<Rightarrow> control" where
  "SendDTMF_h cf now ids p body = decoded body (str_field ''digits'')
     (\<lambda>digits. respond 400 200 (\<lambda>_. NoData) (on_call (SendDTMF (lc_calls cf) (now 0) (ids 0) (path_id p) digits)))"

definition callback_fields :: "int \<Rightarrow> json_object \<Rightarrow> callback_request option" where
  "callback_fields tenant b =
     (case (int_field ''call_id'' b, int_field ''skill_group_id'' b, str_field ''caller'' b) of
        (Some k, Some sg, Some caller) \<Rightarrow> Some \<lparr>cb_ID = 0, cb_TenantID = tenant, cb_CallID = k, cb_SkillGroupID = sg, cb_Caller = caller, cb_Status = [], cb_MaxAttempts = 0,
            cb_ScheduledAt = None, cb_AttemptCount = 0, cb_LastAttemptAt = None, cb_CompletedAt = None, cb_CreatedAt = 0\<rparr>
      | _ \<Rightarrow> None)"

definition RequestCallback_h :: "(nat \<Rightarrow> gotime) \<Rightarrow> (nat \<Rightarrow> int) \<Rightarrow> int \<Rightarrow> json_object option \<Rightarrow> control" where
  "RequestCallback_h now ids tenant body = decoded body (callback_fields tenant)
     (\<lambda>cb. respond 500 201 (\<lambda>_. CallbackData (cb\<lparr>cb_ID := ids 0, cb_Status := ''pending'', cb_CreatedAt := now 0\<rparr>)) (on_call (RequestCallback (now 0) (ids 0) cb)))"

definition AttendedTransfer_h :: "lc_config \<Rightarrow> (nat \<Rightarrow> gotime) \<Rightarrow> (nat \<Rightarrow> int) \<Rightarrow> string \<Rightarrow> json_object option \<Rightarrow> control" where
  "AttendedTransfer_h cf now ids p body = decoded body target_fields
     (\<lambda>t. respond 400 200 CallData (on_call (AttendedTransfer (lc_calls cf) (now 0) (ids 0) (path_id p) t)))"

definition Consult_h :: "lc_config \<Rightarrow> (nat \<Rightarrow> gotime) \<Rightarrow> (nat \<Rightarrow> int) \<Rightarrow> string \<Rightarrow> json_object option \<Rightarrow> control" where
  "Consult_h cf now ids p body = decoded body target_fields
     (\<lambda>t. respond 400 200 CallData (on_call (InitiateConsult (lc_calls cf) (now 0) (ids 0) (path_id p) t)))"

definition ConsultTransfer_h :: "lc_config \<Rightarrow> (nat \<Rightarrow> gotime) \<Rightarrow> (nat \<Rightarrow> int) \<Rightarrow> string \<Rightarrow> control" where
  "ConsultTransfer_h cf now ids p = respond 400 200 CallData (on_call (CompleteConsultTransfer (lc_calls cf) (now 0) (ids 0) (path_id p)))"

definition ConsultCancel_h :: "lc_config \<Rightarrow> (nat \<Rightarrow> gotime) \<Rightarrow> (nat \<Rightarrow> int) \<Rightarrow> string \<Rightarrow> control" where
  "ConsultCancel_h cf now ids p = respond 400 200 CallData (on_call (CancelConsult (lc_calls cf) (now 0) (ids 0) (path_id p)))"

definition Conference_h :: "lc_config \<Rightarrow> (nat \<Rightarrow> gotime) \<Rightarrow> (nat \<Rightarrow> int) \<Rightarrow> string \<Rightarrow> control" where
  "Conference_h cf now ids p = respond 400 200 CallData (on_call (StartConference (lc_calls cf) (now 0) (ids 0) (path_id p)))"

text \<open>\<open>GetByID\<close> of the target: its error is 404. The tenant of the new call is the target's.\<close>

definition with_target :: "lc_config \<Rightarrow> int \<Rightarrow> (call \<Rightarrow> control) \<Rightarrow> control" where
  "with_target cf k f w = (case on_call (load_call (lc_calls cf) k) w of (Inl _, w') \<Rightarrow> (Failure 404, w') | (Inr c, w') \<Rightarrow> f c w')"

definition supervise_h :: "string \<Rightarrow> lc_config \<Rightarrow> (nat \<Rightarrow> gotime) \<Rightarrow> (nat \<Rightarrow> int) \<Rightarrow> string \<Rightarrow> json_object option \<Rightarrow> control" where
  "supervise_h mode cf now ids p body = decoded body (int_field ''supervisor_id'') (\<lambda>sv. with_target cf (path_id p)
     (\<lambda>target. respond 400 200 CallData (on_call (MonitorCall (lc_calls cf) (now 0) (ids 0) (ids 1) (c_TenantID target) (path_id p) sv mode))))"

definition Monitor_h :: "lc_config \<Rightarrow> (nat \<Rightarrow> gotime) \<Rightarrow> (nat \<Rightarrow> int) \<Rightarrow> string \<Rightarrow> json_object option \<Rightarrow> control" where
  "Monitor_h = supervise_h ''listen''"

definition Whisper_h :: "lc_config \<Rightarrow> (nat \<Rightarrow> gotime) \<Rightarrow> (nat \<Rightarrow> int) \<Rightarrow> string \<Rightarrow> json_object option \<Rightarrow> control" where
  "Whisper_h = supervise_h ''whisper''"

definition Barge_h :: "lc_config \<Rightarrow> (nat \<Rightarrow> gotime) \<Rightarrow> (nat \<Rightarrow> int) \<Rightarrow> string \<Rightarrow> json_object option \<Rightarrow> control" where
  "Barge_h = supervise_h ''barge''"

definition InterceptCall_h :: "lc_config \<Rightarrow> (nat \<Rightarrow> gotime) \<Rightarrow> (nat \<Rightarrow> int) \<Rightarrow> string \<Rightarrow> json_object option \<Rightarrow> control" where
  "InterceptCall_h = supervise_h ''intercept''"

definition coach_fields :: "json_object \<Rightarrow> (int \<times> int) option" where
  "coach_fields b = (case (int_field ''coach_id'' b, int_field ''timeout_sec'' b) of (Some c, Some t) \<Rightarrow> Some (c, t) | _ \<Rightarrow> None)"

definition Coach_h :: "lc_config \<Rightarrow> (nat \<Rightarrow> gotime) \<Rightarrow> (nat \<Rightarrow> int) \<Rightarrow> string \<Rightarrow> json_object option \<Rightarrow> control" where
  "Coach_h cf now ids p body = decoded body coach_fields (\<lambda>(coach, secs). with_target cf (path_id p)
     (\<lambda>target. respond 400 200 CallData (on_call (CoachCall (lc_calls cf) (now 0) (ids 0) (ids 1) (c_TenantID target) (path_id p) coach secs))))"

definition EndCall_h :: "lc_config \<Rightarrow> (nat \<Rightarrow> gotime) \<Rightarrow> (nat \<Rightarrow> int) \<Rightarrow> string \<Rightarrow> json_object option \<Rightarrow> control" where
  "EndCall_h cf now ids p body = decoded body (str_field ''reason'')
     (\<lambda>reason. respond 400 200 CallData (EndCall_lc cf now ids (path_id p) (reason_of reason) None))"

text \<open>The data for the agent's screen that come with the answer are not modelled.\<close>

definition AnswerCall_h :: "lc_config \<Rightarrow> (nat \<Rightarrow> gotime) \<Rightarrow> (nat \<Rightarrow> int) \<Rightarrow> string \<Rightarrow> json_object option \<Rightarrow> control" where
  "AnswerCall_h cf now ids p body = decoded body (int_field ''agent_user_id'') (\<lambda>a. respond 400 200 CallData (AnswerCall_lc cf now ids (path_id p) a))"

text \<open>The handlers by their name in the table of routes, with the tenant of the request, the parameter of the path and the body.\<close>

definition control_table ::
  "lc_config \<Rightarrow> (nat \<Rightarrow> gotime) \<Rightarrow> (nat \<Rightarrow> int) \<Rightarrow> int \<Rightarrow> string \<Rightarrow> json_object option \<Rightarrow> (string \<times> control) list" where
  "control_table cf now ids tenant p body =
     [(''InboundCall'', InboundCall_h cf now ids tenant body), (''TransitionToQueue'', TransitionToQueue_h cf now ids p body),
      (''TransitionToRinging'', TransitionToRinging_h cf now ids p body), (''SetDisposition'', SetDisposition_h cf now ids p body),
      (''Hold'', Hold_h cf now ids p), (''Retrieve'', Retrieve_h cf now ids p), (''BlindTransfer'', BlindTransfer_h cf now ids p body),
      (''SendDTMF'', SendDTMF_h cf now ids p body), (''RequestCallback'', RequestCallback_h now ids tenant body),
      (''AttendedTransfer'', AttendedTransfer_h cf now ids p body), (''Consult'', Consult_h cf now ids p body), (''ConsultTransfer'', ConsultTransfer_h cf now ids p),
      (''ConsultCancel'', ConsultCancel_h cf now ids p), (''Conference'', Conference_h cf now ids p), (''Monitor'', Monitor_h cf now ids p body),
      (''Whisper'', Whisper_h cf now ids p body), (''Barge'', Barge_h cf now ids p body), (''InterceptCall'', InterceptCall_h cf now ids p body),
      (''Coach'', Coach_h cf now ids p body), (''EndCall'', EndCall_h cf now ids p body), (''AnswerCall'', AnswerCall_h cf now ids p body)]"

end
