(* ===== verification/CallControlProps.thy ===== *)
theory CallControlProps
  imports CallControl IVRProps
begin

text \<open>
  What an answer of call control says of the calls: an error has changed none, a success has moved the call table as the call
  service may.
\<close>

section \<open>Actions that do not fail\<close>

definition never_fails :: "('s, 'e, 'a) act \<Rightarrow> bool" where
  "never_fails m \<longleftrightarrow> (\<forall>s e t. m s \<noteq> (Inl e, t))"

lemma never_fails_intros:
  "never_fails (ret_a a)" "never_fails (modify_a f)" "never_fails (ignore_a m)"
  "never_fails m1 \<Longrightarrow> never_fails k1 \<Longrightarrow> never_fails (seq_a m1 k1)"
  "never_fails m2 \<Longrightarrow> never_fails (when_a b m2)"
  "(\<And>r. never_fails (k2 r)) \<Longrightarrow> never_fails (try_a m' k2)"
  "never_fails m3 \<Longrightarrow> (\<And>x. never_fails (k3 x)) \<Longrightarrow> never_fails (bind_a m3 k3)"
  by (auto simp: never_fails_def act_run split: prod.splits sum.splits)

lemma never_fails_parts:
  "never_fails (send b msg)" "never_fails (esl_send b cmd)" "never_fails (notify_agent cf ev c)" "never_fails (Release t)"
  "never_fails (agent_to_acw cf now ids c)" "never_fails (spawn_hooks c)" "never_fails (save_recording cf t n c)" "never_fails (count_durations cf k c)"
  unfolding send_def esl_send_def notify_agent_def Release_def agent_to_acw_def spawn_hooks_def save_recording_def Let_def
  by (auto split: option.split intro!: never_fails_intros) (auto simp: count_durations_def never_fails_def act_run Let_def split: prod.splits sum.splits if_splits)

lemma err_then:
  "preserves_err f m \<Longrightarrow> (\<And>a. never_fails (k a)) \<Longrightarrow> preserves_err f (bind_a m k)"
  by (auto simp: preserves_err_def never_fails_def act_run split: prod.splits sum.splits)

lemma err_on_call: "preserves_err (\<lambda>w. rows (cw_calls w)) m \<Longrightarrow> preserves_err lc_rows (on_call m)"
  by (auto simp: preserves_err_def on_call_def act_run split: prod.splits sum.splits)

lemma err_lc_calls:
  assumes "lc_calls cf = NewCallService CallRepo tp"
  shows "preserves_err lc_rows (AnswerCall_lc cf now ids k agent)" "preserves_err lc_rows (TransitionCallToQueue cf now ids k sg)"
    "preserves_err lc_rows (TransitionCallToRinging cf now ids k agent)" "preserves_err lc_rows (EndCall_lc cf now ids k reason hby)"
  unfolding AnswerCall_lc_def TransitionCallToQueue_def TransitionCallToRinging_def EndCall_lc_def assms
  by (rule err_then err_on_call mysql_calls.err_transitions never_fails_intros never_fails_parts | auto split: option.split intro!: never_fails_intros never_fails_parts)+

lemma check_frame: "preserves lc_rows (checkConcurrencyLimit cf t)"
proof -
  have add: "preserves lc_rows (redis_add t d)" for t d
    by (auto simp: preserves_def redis_add_def split: list.split bool.split)
  have "preserves lc_rows (Acquire t n)" for n unfolding Acquire_def by (intro frame_intros add)
  then show ?thesis unfolding checkConcurrencyLimit_def
    by (cases "lc_concurrency cf") (auto intro!: frame_intros split: sum.split bool.split)
qed

text \<open>No stored flow leads back to itself through \<open>SubFlow\<close> nodes: then the run of a flow returns.\<close>

definition flows_return :: "lc_config \<Rightarrow> bool" where
  "flows_return cf \<longleftrightarrow> (\<forall>ivr_of c. lc_ivr cf = Some ivr_of \<longrightarrow> wf (calls_flow (fst (ivr_of c))))"

lemma run_ivr_never_fails:
  assumes "flows_return cf"
  shows "never_fails (run_ivr cf t n c)"
proof -
  have returns: False if "lc_ivr cf = Some ivr_of" "ivr_of c = (env, x)" "ExecuteFlow env (DefaultEngine env) s flow st = None" for env ivr_of x s flow st
  proof -
    from assms that(1) have "wf (calls_flow (fst (ivr_of c)))" by (simp add: flows_return_def)
    with that(2) have "wf (calls_flow env)" by simp
    from flow_returns [OF this, of s flow st] that(3) show ?thesis by simp
  qed
  show ?thesis
    unfolding run_ivr_def
    by (auto split: option.split prod.split sum.split intro!: never_fails_intros dest: returns)
qed

lemma err_HandleInboundCall:
  assumes "lc_calls cf = NewCallService CallRepo tp" "flows_return cf"
  shows "preserves_err lc_rows (HandleInboundCall cf now ids inp)"
  unfolding HandleInboundCall_def assms(1)
  by (rule preserves_err_seq [OF check_frame] err_then err_on_call mysql_calls.err_creates never_fails_intros never_fails_parts
      run_ivr_never_fails [OF assms(2)])+

section \<open>Answers\<close>

definition answer_ok :: "lc_world \<Rightarrow> answer_data http_answer \<Rightarrow> lc_world \<Rightarrow> bool" where
  "answer_ok w ans w' \<longleftrightarrow> lc_ok w' \<and> (case ans of
       Failure code \<Rightarrow> code \<in> {400, 404, 500} \<and> lc_rows w' = lc_rows w
     | Success code _ \<Rightarrow> code \<in> {200, 201})"

definition handler_ok :: "control \<Rightarrow> bool" where
  "handler_ok h \<longleftrightarrow> (\<forall>w. lc_ok w \<longrightarrow> answer_ok w (fst (h w)) (snd (h w)))"

lemma handler_respond:
  assumes "inv_a lc_ok m (\<lambda>_. True)" "preserves_err lc_rows m" "bad \<in> {400, 404, 500}" "ok \<in> {200, 201}"
  shows "handler_ok (respond bad ok f m)"
  unfolding handler_ok_def
proof (intro allI impI)
  fix w assume w: "lc_ok w"
  obtain r w' where run: "m w = (r, w')" by force
  from inv_aD [OF assms(1) run w] have "lc_ok w'" by simp
  with run assms(2-4) show "answer_ok w (fst (respond bad ok f m w)) (snd (respond bad ok f m w))"
    by (cases r) (auto simp: respond_def answer_ok_def dest: preserves_errD)
qed

lemma handler_decoded: "(\<And>x. handler_ok (k x)) \<Longrightarrow> handler_ok (decoded body f k)"
  by (auto simp: decoded_def handler_ok_def answer_ok_def split: option.split)

lemma handler_target:
  assumes "lc_calls cf = NewCallService CallRepo tp" "\<And>c. handler_ok (f c)"
  shows "handler_ok (with_target cf k f)"
  unfolding handler_ok_def
proof (intro allI impI)
  fix w assume w: "lc_ok w"
  obtain r w' where run: "on_call (load_call (lc_calls cf) k) w = (r, w')" by force
  have same: "lc_rows w' = lc_rows w" "lw_hooks w' = lw_hooks w"
    using run preservesD [OF mysql_calls.preserves_load] unfolding assms(1) by (auto simp: on_call_def act_run split: prod.splits sum.splits)
  with w have w': "lc_ok w'" by (rule lc_ok_same)
  show "answer_ok w (fst (with_target cf k f w)) (snd (with_target cf k f w))"
  proof (cases r)
    case (Inl e)
    with run w' same show ?thesis by (simp add: with_target_def answer_ok_def)
  next
    case (Inr c)
    have "answer_ok w' (fst (f c w')) (snd (f c w'))" using assms(2) [of c] w' by (simp add: handler_ok_def)
    with run Inr same(1) show ?thesis by (cases "fst (f c w')") (simp_all add: with_target_def answer_ok_def)
  qed
qed

text \<open>The operations of the call service, called directly.\<close>

lemma inv_direct:
  assumes "lc_calls cf = NewCallService CallRepo tp"
  shows "inv_a lc_ok (on_call (SetDisposition (lc_calls cf) t eid k code)) (\<lambda>_. True)" "inv_a lc_ok (on_call (HoldCall (lc_calls cf) t eid k)) (\<lambda>_. True)"
    "inv_a lc_ok (on_call (RetrieveCall (lc_calls cf) t eid k)) (\<lambda>_. True)" "inv_a lc_ok (on_call (BlindTransfer (lc_calls cf) t eid k tt)) (\<lambda>_. True)"
    "inv_a lc_ok (on_call (SendDTMF (lc_calls cf) t eid k digits)) (\<lambda>_. True)" "inv_a lc_ok (on_call (RequestCallback t eid cb)) (\<lambda>_. True)"
    "inv_a lc_ok (on_call (AttendedTransfer (lc_calls cf) t eid k tt)) (\<lambda>_. True)" "inv_a lc_ok (on_call (InitiateConsult (lc_calls cf) t eid k tt)) (\<lambda>_. True)"
    "inv_a lc_ok (on_call (CompleteConsultTransfer (lc_calls cf) t eid k)) (\<lambda>_. True)" "inv_a lc_ok (on_call (CancelConsult (lc_calls cf) t eid k)) (\<lambda>_. True)"
    "inv_a lc_ok (on_call (StartConference (lc_calls cf) t eid k)) (\<lambda>_. True)" "inv_a lc_ok (on_call (MonitorCall (lc_calls cf) t nid eid tn k sv mode)) (\<lambda>_. True)"
    "inv_a lc_ok (on_call (CoachCall (lc_calls cf) t nid eid tn k sv secs)) (\<lambda>_. True)"
  unfolding assms by (rule lc_on_call, rule call_moves)+

lemma err_direct:
  assumes "lc_calls cf = NewCallService CallRepo tp"
  shows "preserves_err lc_rows (on_call (SetDisposition (lc_calls cf) t eid k code))" "preserves_err lc_rows (on_call (HoldCall (lc_calls cf) t eid k))"
    "preserves_err lc_rows (on_call (RetrieveCall (lc_calls cf) t eid k))" "preserves_err lc_rows (on_call (BlindTransfer (lc_calls cf) t eid k tt))"
    "preserves_err lc_rows (on_call (SendDTMF (lc_calls cf) t eid k digits))" "preserves_err lc_rows (on_call (RequestCallback t eid cb))"
    "preserves_err lc_rows (on_call (AttendedTransfer (lc_calls cf) t eid k tt))" "preserves_err lc_rows (on_call (InitiateConsult (lc_calls cf) t eid k tt))"
    "preserves_err lc_rows (on_call (CompleteConsultTransfer (lc_calls cf) t eid k))" "preserves_err lc_rows (on_call (CancelConsult (lc_calls cf) t eid k))"
    "preserves_err lc_rows (on_call (StartConference (lc_calls cf) t eid k))" "preserves_err lc_rows (on_call (MonitorCall (lc_calls cf) t nid eid tn k sv mode))"
    "preserves_err lc_rows (on_call (CoachCall (lc_calls cf) t nid eid tn k sv secs))"
  unfolding assms
  by ((rule err_on_call, (rule mysql_calls.err_transitions mysql_calls.err_transfers mysql_calls.err_annotated mysql_calls.err_MonitorCall
      | (rule preserves_imp_err, rule mysql_calls.inert_ops)))+)

lemmas handler_rules = handler_decoded handler_respond

text \<open>
  C18. Requests of call control that do not overlap, with any body, whatever the switch answers and whichever statements of the database fail (a statement
  that reports an error has had no effect: an answer of the database that is lost is not modelled), while no stored IVR flow leads back to itself through sub-flows:
  an answer that is an error, 400, 404 or 500, comes with no call changed, and after every answer the stored calls are well formed and no post-call effect has
  been started twice.
\<close>

theorem call_control_answers:
  assumes "lc_config_ok cf" and "flows_return cf" and "lc_ok w" and "(name, h) \<in> set (control_table cf now ids tenant p body)" and "h w = (ans, w')"
  shows "lc_ok w' \<and> (case ans of Failure code \<Rightarrow> code \<in> {400, 404, 500} \<and> lc_rows w' = lc_rows w | Success code _ \<Rightarrow> code \<in> {200, 201})"
proof -
  from assms(1) obtain tp where S: "lc_calls cf = NewCallService CallRepo tp" by (auto simp: lc_config_ok_def)
  have codes: "(400::int) \<in> {400, 404, 500}" "(500::int) \<in> {400, 404, 500}" "(200::int) \<in> {200, 201}" "(201::int) \<in> {200, 201}" by simp_all
  note rules = handler_rules handler_target [OF S] inv_direct [OF S] err_direct [OF S] inv_lc_calls [OF S] err_lc_calls [OF S] inv_EndCall_lc [OF S]
    inv_HandleInboundCall [OF assms(1)] err_HandleInboundCall [OF S assms(2)] codes list.pred_inject(1)
  have "list_all (\<lambda>nh. handler_ok (snd nh)) (control_table cf now ids tenant p body)"
    unfolding control_table_def list.pred_inject(2) snd_conv InboundCall_h_def TransitionToQueue_h_def TransitionToRinging_h_def SetDisposition_h_def Hold_h_def
      Retrieve_h_def BlindTransfer_h_def SendDTMF_h_def RequestCallback_h_def AttendedTransfer_h_def Consult_h_def ConsultTransfer_h_def ConsultCancel_h_def
      Conference_h_def Monitor_h_def Whisper_h_def Barge_h_def InterceptCall_h_def supervise_h_def Coach_h_def EndCall_h_def AnswerCall_h_def split_def
    by (intro conjI TrueI rules)
  with assms(4) have "handler_ok h" by (auto simp: list_all_iff)
  with assms(3,5) show ?thesis unfolding handler_ok_def answer_ok_def by (metis fst_conv snd_conv)
qed

text \<open>The routes of the table lead to these handlers.\<close>

lemma control_routed:
  "\<forall>name \<in> fst ` set (control_table cf now ids tenant p body). \<exists>r \<in> set (phase2_routes @ phase5_routes @ internal_routes). rt_Handler r = ''CallControlHandler.'' @ name"
proof -
  have "map fst (control_table cf now ids tenant p body) = [''InboundCall'', ''TransitionToQueue'', ''TransitionToRinging'', ''SetDisposition'', ''Hold'', ''Retrieve'',
      ''BlindTransfer'', ''SendDTMF'', ''RequestCallback'', ''AttendedTransfer'', ''Consult'', ''ConsultTransfer'', ''ConsultCancel'', ''Conference'', ''Monitor'',
      ''Whisper'', ''Barge'', ''InterceptCall'', ''Coach'', ''EndCall'', ''AnswerCall'']" (is "_ = ?names")
    by (simp add: control_table_def)
  moreover have "list_all (\<lambda>name. list_ex (\<lambda>r. rt_Handler r = ''CallControlHandler.'' @ name) (phase2_routes @ phase5_routes @ internal_routes)) ?names" by code_simp
  ultimately show ?thesis unfolding list_all_iff list_ex_iff by (metis set_map)
qed

text \<open>A supervisor of one tenant can listen to a call of another: the caller's tenant is not an argument, and the spy call is filed under the target's.\<close>

lemma monitor_any_tenant:
  "map_of (control_table cf now ids tenant p body) ''Monitor'' = map_of (control_table cf now ids tenant' p body) ''Monitor''"
  by (simp add: control_table_def)

text \<open>Any text is stored as the reason of a hangup.\<close>

lemma any_reason: "reason_of ''nonsense'' = HangupOther ''nonsense''"
  by code_simp

section \<open>Witness\<close>

theorem call_control_answers_witness:
  "lc_ok (snd (EndCall_h lc_config0 (\<lambda>_. 9) (\<lambda>_. 5) ''x1'' (Some (Map.empty(''reason'' \<mapsto> JStr ''BUSY''))) (lc_world_of call_world1)))"
proof -
  let ?b = "Some (Map.empty(''reason'' \<mapsto> JStr ''BUSY''))"
  let ?h = "EndCall_h lc_config0 (\<lambda>_. 9) (\<lambda>_. 5) ''x1'' ?b"
  obtain ans w' where run: "?h (lc_world_of call_world1) = (ans, w')" by force
  have table: "(''EndCall'', ?h) \<in> set (control_table lc_config0 (\<lambda>_. 9) (\<lambda>_. 5) 1 ''x1'' ?b)" by (simp add: control_table_def)
  have "flows_return lc_config0" by (simp add: flows_return_def lc_config0_def)
  from call_control_answers [OF lc_config0_ok(1) this lc_world1_ok(1) table run] run show ?thesis by simp
qed

end
