(* ===== verification/Settings.thy ===== *)
theory Settings
  imports Json
begin

text \<open>
  The settings of a tenant: break reasons, disposition codes, audio files, business hours and the definitions of call tags. The
  handlers of \<open>interfaces/http/handler/config.go\<close> over the statements of \<open>infrastructure/mysql/config_repos.go\<close>. Of the
  schema the primary keys are modelled.
\<close>

section \<open>Records\<close>

record break_reason =
  br_ID :: int
  br_TenantID :: int
  br_Code :: string
  br_Name :: string
  br_IsSystem :: bool
  br_SortOrder :: int
  br_Enabled :: bool
  br_CreatedAt :: gotime
  br_UpdatedAt :: gotime

record disposition_code =
  dc_ID :: int
  dc_TenantID :: int
  dc_Code :: string
  dc_Name :: string
  dc_Category :: string
  dc_SortOrder :: int
  dc_Enabled :: bool
  dc_CreatedAt :: gotime
  dc_UpdatedAt :: gotime

record audio_file =
  af_ID :: int
  af_TenantID :: int
  af_Name :: string
  af_FileName :: string
  af_Category :: string
  af_FilePath :: string
  af_FileSize :: int
  af_Duration :: int
  af_MimeType :: string
  af_CreatedAt :: gotime

record business_hours =
  bh_ID :: int
  bh_TenantID :: int
  bh_Name :: string
  bh_IsDefault :: bool
  bh_Timezone :: string
  bh_CreatedAt :: gotime
  bh_UpdatedAt :: gotime

record hours_schedule =
  hs_ID :: int
  hs_BusinessHoursID :: int
  hs_DayType :: string
  hs_DayOfWeek :: "int option"
  hs_SpecificDate :: "string option"
  hs_StartTime :: string
  hs_EndTime :: string
  hs_CreatedAt :: gotime

record call_tag_def =
  td_ID :: int
  td_TenantID :: int
  td_Name :: string
  td_Color :: string
  td_CreatedAt :: gotime

section \<open>The statements\<close>

text \<open>\<open>SELECT * ... WHERE id = ?\<close> of a missing row is an error.\<close>

definition get_row :: "('r \<Rightarrow> int) \<Rightarrow> int \<Rightarrow> ('r ltable, string, 'r) act" where
  "get_row key k = bind_a (sel_row key k) (\<lambda>r. case r of None \<Rightarrow> throw_a ''sql: no rows in result set'' | Some x \<Rightarrow> ret_a x)"

text \<open>\<open>Create\<close>, \<open>Get\<close>, \<open>List\<close> and \<open>Delete\<close> as the five handlers share them; the order of a list is not modelled.\<close>

definition create_record :: "('r \<Rightarrow> int) \<Rightarrow> 'r \<Rightarrow> 'r ltable \<Rightarrow> 'r http_answer \<times> 'r ltable" where
  "create_record key x = respond 500 201 (\<lambda>_. x) (ins_row key id x)"

definition show_record :: "('r \<Rightarrow> int) \<Rightarrow> string \<Rightarrow> 'r ltable \<Rightarrow> 'r http_answer \<times> 'r ltable" where
  "show_record key p = respond 404 200 id (get_row key (path_id p))"

definition list_records :: "('r \<Rightarrow> bool) \<Rightarrow> 'r ltable \<Rightarrow> 'r list http_answer \<times> 'r ltable" where
  "list_records P = respond 500 200 id (sel_all P)"

definition delete_record :: "('r \<Rightarrow> int) \<Rightarrow> string \<Rightarrow> 'r ltable \<Rightarrow> unit http_answer \<times> 'r ltable" where
  "delete_record key p = respond 500 204 id (del_rows (\<lambda>r. key r = path_id p))"

text \<open>\<open>Update\<close>: the record is read, edited with the fields of the body and written back; \<open>kept\<close> is what the statement stores.\<close>

definition write_record :: "('r \<Rightarrow> int) \<Rightarrow> ('r \<Rightarrow> 'r \<Rightarrow> 'r) \<Rightarrow> 'r \<Rightarrow> 'r ltable \<Rightarrow> 'r http_answer \<times> 'r ltable" where
  "write_record key kept x = respond 500 200 (\<lambda>_. x) (upd_rows (\<lambda>r. key r = key x) (\<lambda>r. kept r x))"

definition edit_record ::
  "('r \<Rightarrow> int) \<Rightarrow> ('r \<Rightarrow> 'r \<Rightarrow> 'r) \<Rightarrow> (json_object \<Rightarrow> ('r \<Rightarrow> 'r) option) \<Rightarrow> string \<Rightarrow> json_object option \<Rightarrow> 'r ltable \<Rightarrow> 'r http_answer \<times> 'r ltable" where
  "edit_record key kept edit p body t =
     (case get_row key (path_id p) t of
        (Inl _, t') \<Rightarrow> (Failure 404, t')
      | (Inr x, t') \<Rightarrow> decoded body edit (\<lambda>f. write_record key kept (f x)) t')"

section \<open>Break reasons\<close>

definition break_fields :: "gotime \<Rightarrow> int \<Rightarrow> int \<Rightarrow> json_object \<Rightarrow> break_reason option" where
  "break_fields now nid tenant b =
     (case (str_field ''code'' b, str_field ''name'' b, bool_field ''is_system'' b, int_field ''sort_order'' b, bool_field ''enabled'' b) of
        (Some code, Some name, Some sys, Some so, Some en) \<Rightarrow>
          if code = [] \<or> name = [] then None
          else Some \<lparr>br_ID = nid, br_TenantID = tenant, br_Code = code, br_Name = name, br_IsSystem = sys, br_SortOrder = so, br_Enabled = en,
                     br_CreatedAt = now, br_UpdatedAt = now\<rparr>
      | _ \<Rightarrow> None)"

definition CreateBreakReason :: "gotime \<Rightarrow> int \<Rightarrow> int \<Rightarrow> json_object option \<Rightarrow> break_reason ltable \<Rightarrow> break_reason http_answer \<times> break_reason ltable" where
  "CreateBreakReason now nid tenant body = decoded body (break_fields now nid tenant) (create_record br_ID)"

definition ListBreakReasons :: "int \<Rightarrow> break_reason ltable \<Rightarrow> break_reason list http_answer \<times> break_reason ltable" where
  "ListBreakReasons tenant = list_records (\<lambda>r. br_TenantID r = tenant)"

definition GetBreakReason :: "string \<Rightarrow> break_reason ltable \<Rightarrow> break_reason http_answer \<times> break_reason ltable" where
  "GetBreakReason = show_record br_ID"

definition break_edit :: "gotime \<Rightarrow> json_object \<Rightarrow> (break_reason \<Rightarrow> break_reason) option" where
  "break_edit now b =
     (case (str_ptr_field ''code'' b, str_ptr_field ''name'' b, bool_ptr_field ''is_system'' b, int_ptr_field ''sort_order'' b, bool_ptr_field ''enabled'' b) of
        (Some code, Some name, Some sys, Some so, Some en) \<Rightarrow>
          Some (\<lambda>r. r\<lparr>br_Code := given code (br_Code r), br_Name := given name (br_Name r), br_IsSystem := given sys (br_IsSystem r),
                      br_SortOrder := given so (br_SortOrder r), br_Enabled := given en (br_Enabled r), br_UpdatedAt := now\<rparr>)
      | _ \<Rightarrow> None)"

definition break_row_update :: "break_reason \<Rightarrow> break_reason \<Rightarrow> break_reason" where
  "break_row_update old r = old\<lparr>br_Code := br_Code r, br_Name := br_Name r, br_IsSystem := br_IsSystem r, br_SortOrder := br_SortOrder r,
     br_Enabled := br_Enabled r, br_UpdatedAt := br_UpdatedAt r\<rparr>"

definition UpdateBreakReason :: "gotime \<Rightarrow> string \<Rightarrow> json_object option \<Rightarrow> break_reason ltable \<Rightarrow> break_reason http_answer \<times> break_reason ltable" where
  "UpdateBreakReason now = edit_record br_ID break_row_update (break_edit now)"

definition DeleteBreakReason :: "string \<Rightarrow> break_reason ltable \<Rightarrow> unit http_answer \<times> break_reason ltable" where
  "DeleteBreakReason = delete_record br_ID"

section \<open>Disposition codes\<close>

definition disposition_fields :: "gotime \<Rightarrow> int \<Rightarrow> int \<Rightarrow> json_object \<Rightarrow> disposition_code option" where
  "disposition_fields now nid tenant b =
     (case (str_field ''code'' b, str_field ''name'' b, str_field ''category'' b, int_field ''sort_order'' b, bool_field ''enabled'' b) of
        (Some code, Some name, Some cat, Some so, Some en) \<Rightarrow>
          if code = [] \<or> name = [] then None
          else Some \<lparr>dc_ID = nid, dc_TenantID = tenant, dc_Code = code, dc_Name = name, dc_Category = cat, dc_SortOrder = so, dc_Enabled = en,
                     dc_CreatedAt = now, dc_UpdatedAt = now\<rparr>
      | _ \<Rightarrow> None)"

definition CreateDispositionCode :: "gotime \<Rightarrow> int \<Rightarrow> int \<Rightarrow> json_object option \<Rightarrow> disposition_code ltable \<Rightarrow> disposition_code http_answer \<times> disposition_code ltable" where
  "CreateDispositionCode now nid tenant body = decoded body (disposition_fields now nid tenant) (create_record dc_ID)"

definition ListDispositionCodes :: "int \<Rightarrow> disposition_code ltable \<Rightarrow> disposition_code list http_answer \<times> disposition_code ltable" where
  "ListDispositionCodes tenant = list_records (\<lambda>r. dc_TenantID r = tenant)"

definition GetDispositionCode :: "string \<Rightarrow> disposition_code ltable \<Rightarrow> disposition_code http_answer \<times> disposition_code ltable" where
  "GetDispositionCode = show_record dc_ID"

definition disposition_edit :: "gotime \<Rightarrow> json_object \<Rightarrow> (disposition_code \<Rightarrow> disposition_code) option" where
  "disposition_edit now b =
     (case (str_ptr_field ''code'' b, str_ptr_field ''name'' b, str_ptr_field ''category'' b, int_ptr_field ''sort_order'' b, bool_ptr_field ''enabled'' b) of
        (Some code, Some name, Some cat, Some so, Some en) \<Rightarrow>
          Some (\<lambda>r. r\<lparr>dc_Code := given code (dc_Code r), dc_Name := given name (dc_Name r), dc_Category := given cat (dc_Category r),
                      dc_SortOrder := given so (dc_SortOrder r), dc_Enabled := given en (dc_Enabled r), dc_UpdatedAt := now\<rparr>)
      | _ \<Rightarrow> None)"

definition disposition_row_update :: "disposition_code \<Rightarrow> disposition_code \<Rightarrow> disposition_code" where
  "disposition_row_update old r = old\<lparr>dc_Code := dc_Code r, dc_Name := dc_Name r, dc_Category := dc_Category r, dc_SortOrder := dc_SortOrder r,
     dc_Enabled := dc_Enabled r, dc_UpdatedAt := dc_UpdatedAt r\<rparr>"

definition UpdateDispositionCode :: "gotime \<Rightarrow> string \<Rightarrow> json_object option \<Rightarrow> disposition_code ltable \<Rightarrow> disposition_code http_answer \<times> disposition_code ltable" where
  "UpdateDispositionCode now = edit_record dc_ID disposition_row_update (disposition_edit now)"

definition DeleteDispositionCode :: "string \<Rightarrow> disposition_code ltable \<Rightarrow> unit http_answer \<times> disposition_code ltable" where
  "DeleteDispositionCode = delete_record dc_ID"

section \<open>Audio files\<close>

definition audio_fields :: "gotime \<Rightarrow> int \<Rightarrow> int \<Rightarrow> json_object \<Rightarrow> audio_file option" where
  "audio_fields now nid tenant b =
     (case (str_field ''name'' b, str_field ''file_name'' b, str_field ''category'' b, str_field ''file_path'' b, int_field ''file_size'' b, int_field ''duration'' b, str_field ''mime_type'' b) of
        (Some name, Some file, Some cat, Some path, Some sz, Some dur, Some mime) \<Rightarrow>
          if name = [] then None
          else Some \<lparr>af_ID = nid, af_TenantID = tenant, af_Name = name, af_FileName = file, af_Category = cat, af_FilePath = path, af_FileSize = sz,
                     af_Duration = dur, af_MimeType = mime, af_CreatedAt = now\<rparr>
      | _ \<Rightarrow> None)"

definition CreateAudioFile :: "gotime \<Rightarrow> int \<Rightarrow> int \<Rightarrow> json_object option \<Rightarrow> audio_file ltable \<Rightarrow> audio_file http_answer \<times> audio_file ltable" where
  "CreateAudioFile now nid tenant body = decoded body (audio_fields now nid tenant) (create_record af_ID)"

definition ListAudioFiles :: "int \<Rightarrow> string \<Rightarrow> audio_file ltable \<Rightarrow> audio_file list http_answer \<times> audio_file ltable" where
  "ListAudioFiles tenant category = list_records (\<lambda>r. af_TenantID r = tenant \<and> (category = [] \<or> af_Category r = category))"

definition GetAudioFile :: "string \<Rightarrow> audio_file ltable \<Rightarrow> audio_file http_answer \<times> audio_file ltable" where
  "GetAudioFile = show_record af_ID"

definition DeleteAudioFile :: "string \<Rightarrow> audio_file ltable \<Rightarrow> unit http_answer \<times> audio_file ltable" where
  "DeleteAudioFile = delete_record af_ID"

section \<open>Business hours\<close>

definition hours_fields :: "gotime \<Rightarrow> int \<Rightarrow> int \<Rightarrow> json_object \<Rightarrow> business_hours option" where
  "hours_fields now nid tenant b =
     (case (str_field ''name'' b, bool_field ''is_default'' b, str_field ''timezone'' b) of
        (Some name, Some dflt, Some tz) \<Rightarrow>
          if name = [] then None
          else Some \<lparr>bh_ID = nid, bh_TenantID = tenant, bh_Name = name, bh_IsDefault = dflt, bh_Timezone = tz, bh_CreatedAt = now, bh_UpdatedAt = now\<rparr>
      | _ \<Rightarrow> None)"

definition CreateBusinessHours :: "gotime \<Rightarrow> int \<Rightarrow> int \<Rightarrow> json_object option \<Rightarrow> business_hours ltable \<Rightarrow> business_hours http_answer \<times> business_hours ltable" where
  "CreateBusinessHours now nid tenant body = decoded body (hours_fields now nid tenant) (create_record bh_ID)"

definition ListBusinessHours :: "int \<Rightarrow> business_hours ltable \<Rightarrow> business_hours list http_answer \<times> business_hours ltable" where
  "ListBusinessHours tenant = list_records (\<lambda>r. bh_TenantID r = tenant)"

text \<open>With the schedules; a failure to read them leaves the answer without.\<close>

definition GetBusinessHours ::
  "string \<Rightarrow> business_hours ltable \<times> hours_schedule ltable \<Rightarrow> (business_hours \<times> hours_schedule list) http_answer \<times> business_hours ltable \<times> hours_schedule ltable" where
  "GetBusinessHours p w =
     (case get_row bh_ID (path_id p) (fst w) of
        (Inl _, t') \<Rightarrow> (Failure 404, t', snd w)
      | (Inr x, t') \<Rightarrow> (case sel_all (\<lambda>s. hs_BusinessHoursID s = path_id p) (snd w) of
            (r, s') \<Rightarrow> (Success 200 (x, case r of Inl _ \<Rightarrow> [] | Inr ss \<Rightarrow> ss), t', s')))"

definition hours_edit :: "gotime \<Rightarrow> json_object \<Rightarrow> (business_hours \<Rightarrow> business_hours) option" where
  "hours_edit now b =
     (case (str_ptr_field ''name'' b, bool_ptr_field ''is_default'' b, str_ptr_field ''timezone'' b) of
        (Some name, Some dflt, Some tz) \<Rightarrow>
          Some (\<lambda>r. r\<lparr>bh_Name := given name (bh_Name r), bh_IsDefault := given dflt (bh_IsDefault r), bh_Timezone := given tz (bh_Timezone r), bh_UpdatedAt := now\<rparr>)
      | _ \<Rightarrow> None)"

definition hours_row_update :: "business_hours \<Rightarrow> business_hours \<Rightarrow> business_hours" where
  "hours_row_update old r = old\<lparr>bh_Name := bh_Name r, bh_IsDefault := bh_IsDefault r, bh_Timezone := bh_Timezone r, bh_UpdatedAt := bh_UpdatedAt r\<rparr>"

definition UpdateBusinessHours :: "gotime \<Rightarrow> string \<Rightarrow> json_object option \<Rightarrow> business_hours ltable \<Rightarrow> business_hours http_answer \<times> business_hours ltable" where
  "UpdateBusinessHours now = edit_record bh_ID hours_row_update (hours_edit now)"

definition DeleteBusinessHours ::
  "string \<Rightarrow> business_hours ltable \<times> hours_schedule ltable \<Rightarrow> unit http_answer \<times> business_hours ltable \<times> hours_schedule ltable" where
  "DeleteBusinessHours p w =
     (let s' = snd (del_rows (\<lambda>s. hs_BusinessHoursID s = path_id p) (snd w))
      in case delete_record bh_ID p (fst w) of (a, t') \<Rightarrow> (a, t', s'))"

section \<open>Call tags\<close>

definition tag_fields :: "gotime \<Rightarrow> int \<Rightarrow> int \<Rightarrow> json_object \<Rightarrow> call_tag_def option" where
  "tag_fields now nid tenant b = (case (str_field ''name'' b, str_field ''color'' b) of
     (Some name, Some color) \<Rightarrow>
       if name = [] then None else Some \<lparr>td_ID = nid, td_TenantID = tenant, td_Name = name, td_Color = color, td_CreatedAt = now\<rparr>
   | _ \<Rightarrow> None)"

definition CreateCallTagDef :: "gotime \<Rightarrow> int \<Rightarrow> int \<Rightarrow> json_object option \<Rightarrow> call_tag_def ltable \<Rightarrow> call_tag_def http_answer \<times> call_tag_def ltable" where
  "CreateCallTagDef now nid tenant body = decoded body (tag_fields now nid tenant) (create_record td_ID)"

definition ListCallTagDefs :: "int \<Rightarrow> call_tag_def ltable \<Rightarrow> call_tag_def list http_answer \<times> call_tag_def ltable" where
  "ListCallTagDefs tenant = list_records (\<lambda>r. td_TenantID r = tenant)"

definition GetCallTagDef :: "string \<Rightarrow> call_tag_def ltable \<Rightarrow> call_tag_def http_answer \<times> call_tag_def ltable" where
  "GetCallTagDef = show_record td_ID"

definition tag_edit :: "json_object \<Rightarrow> (call_tag_def \<Rightarrow> call_tag_def) option" where
  "tag_edit b = (case (str_field ''name'' b, str_field ''color'' b) of
     (Some name, Some color) \<Rightarrow> Some (\<lambda>r. r\<lparr>td_Name := (if name = [] then td_Name r else name), td_Color := (if color = [] then td_Color r else color)\<rparr>)
   | _ \<Rightarrow> None)"

definition tag_row_update :: "call_tag_def \<Rightarrow> call_tag_def \<Rightarrow> call_tag_def" where
  "tag_row_update old r = old\<lparr>td_Name := td_Name r, td_Color := td_Color r\<rparr>"

text \<open>Here the body is read first.\<close>

definition UpdateCallTagDef :: "string \<Rightarrow> json_object option \<Rightarrow> call_tag_def ltable \<Rightarrow> call_tag_def http_answer \<times> call_tag_def ltable" where
  "UpdateCallTagDef p body = decoded body tag_edit (\<lambda>f t. case get_row td_ID (path_id p) t of
     (Inl _, t') \<Rightarrow> (Failure 404, t') | (Inr x, t') \<Rightarrow> write_record td_ID tag_row_update (f x) t')"

definition DeleteCallTagDef :: "string \<Rightarrow> call_tag_def ltable \<Rightarrow> unit http_answer \<times> call_tag_def ltable" where
  "DeleteCallTagDef = delete_record td_ID"

end
