(* ===== verification/SettingsProps.thy ===== *)
theory SettingsProps
  imports Settings
begin

text \<open>
  Whose record a setting is: along any requests of any tenants a record keeps its id and its tenant, and a tenant's lists show its own
  records only.
\<close>

section \<open>Records of tenants\<close>

definition owned :: "('r \<Rightarrow> int) \<Rightarrow> ('r \<Rightarrow> int) \<Rightarrow> 'r ltable \<Rightarrow> (int \<times> int) list" where
  "owned key tenant t = map (\<lambda>r. (key r, tenant r)) (lrows t)"

text \<open>What one request may make of them; \<open>new\<close>: the record it may create.\<close>

definition owners_step :: "(int \<times> int) option \<Rightarrow> (int \<times> int) list \<Rightarrow> (int \<times> int) list \<Rightarrow> bool" where
  "owners_step new xs ys \<longleftrightarrow> (distinct (map fst xs) \<longrightarrow> distinct (map fst ys)) \<and> set ys \<subseteq> set xs \<union> set_option new"

lemma owners_refl [simp]: "owners_step new xs xs"
  by (auto simp: owners_step_def)

locale tenant_records =
  fixes key tenant :: "'r \<Rightarrow> int" and kept :: "'r \<Rightarrow> 'r \<Rightarrow> 'r"
  assumes kept_key: "key (kept old x) = key old" and kept_tenant: "tenant (kept old x) = tenant old"
begin

lemma create_owned:
  "owners_step (Some (key x, tenant x)) (owned key tenant t) (owned key tenant (snd (create_record key x t)))"
proof -
  have "lrows (snd (create_record key x t)) = lrows t \<or>
      lrows (snd (create_record key x t)) = lrows t @ [x] \<and> key x \<notin> key ` set (lrows t)"
    by (auto simp: create_record_def respond_def ins_row_def on_link_def lrow_def find_None_iff split: list.split)
  then show ?thesis by (auto simp: owners_step_def owned_def o_def)
qed

lemma read_rows:
  "lrows (snd (show_record key p t)) = lrows t" "lrows (snd (list_records P t)) = lrows t" "lrows (snd (get_row key k t)) = lrows t"
  by (auto simp: show_record_def list_records_def respond_def get_row_def act_run sel_row_def sel_all_def on_link_def split: list.split option.split sum.split)

lemma write_owned: "owned key tenant (snd (write_record key kept x t)) = owned key tenant t"
  by (auto simp: write_record_def respond_def upd_rows_def on_link_def owned_def kept_key kept_tenant split: list.split)

lemma edit_owned: "owned key tenant (snd (edit_record key kept edit p body t)) = owned key tenant t"
proof (cases "get_row key (path_id p) t")
  case (Pair r t')
  then have "owned key tenant t' = owned key tenant t" using read_rows(3) [of "path_id p" t] by (simp add: owned_def)
  with Pair show ?thesis
    by (auto simp: edit_record_def decoded_def write_owned split: sum.split option.split)
qed

lemma delete_owned: "owners_step new (owned key tenant t) (owned key tenant (snd (delete_record key p t)))"
proof -
  have "lrows (snd (delete_record key p t)) = lrows t \<or> lrows (snd (delete_record key p t)) = filter (\<lambda>r. key r \<noteq> path_id p) (lrows t)"
    by (auto simp: delete_record_def respond_def del_rows_def on_link_def split: list.split)
  then show ?thesis by (auto simp: owners_step_def owned_def o_def distinct_map intro: inj_on_subset)
qed

lemma decoded_create:
  assumes "\<And>b x. f b = Some x \<Longrightarrow> key x = nid \<and> tenant x = who"
  shows "owners_step (Some (nid, who)) (owned key tenant t) (owned key tenant (snd (decoded body f (create_record key) t)))"
proof (cases "Option.bind body f")
  case (Some x)
  then obtain b where "f b = Some x" by (cases body) auto
  with assms Some create_owned [of x t] show ?thesis by (simp add: decoded_def)
qed (simp add: decoded_def)

text \<open>What a list shows.\<close>

lemma list_shows:
  assumes "fst (list_records (\<lambda>r. tenant r = who \<and> P r) t) = Success c rs" "r \<in> set rs"
  shows "(key r, who) \<in> set (owned key tenant t)"
  using assms by (auto simp: list_records_def respond_def sel_all_def on_link_def owned_def split: list.splits if_splits)

end

interpretation breaks: tenant_records br_ID br_TenantID break_row_update
  by unfold_locales (simp_all add: break_row_update_def)

interpretation dispositions: tenant_records dc_ID dc_TenantID disposition_row_update
  by unfold_locales (simp_all add: disposition_row_update_def)

interpretation audio: tenant_records af_ID af_TenantID "\<lambda>old _. old"
  by unfold_locales simp_all

interpretation hours: tenant_records bh_ID bh_TenantID hours_row_update
  by unfold_locales (simp_all add: hours_row_update_def)

interpretation tags: tenant_records td_ID td_TenantID tag_row_update
  by unfold_locales (simp_all add: tag_row_update_def)

section \<open>Requests\<close>

record settings =
  st_breaks :: "break_reason ltable"
  st_dispositions :: "disposition_code ltable"
  st_audio :: "audio_file ltable"
  st_hours :: "business_hours ltable"
  st_schedules :: "hours_schedule ltable"
  st_tags :: "call_tag_def ltable"

datatype setting = Breaks | Dispositions | Audio | Hours | Tags

text \<open>A request of a tenant: the operation with the clock, the new id, the tenant, the parameter of the path and the body.\<close>

datatype settings_op = Create | Show | Edit | Remove | List string

record settings_req =
  sr_setting :: setting
  sr_op :: settings_op
  sr_now :: gotime
  sr_id :: int
  sr_tenant :: int
  sr_path :: string
  sr_body :: "json_object option"

fun breaks_step :: "settings_op \<Rightarrow> settings_req \<Rightarrow> break_reason ltable \<Rightarrow> break_reason ltable" where
  "breaks_step Create q t = snd (CreateBreakReason (sr_now q) (sr_id q) (sr_tenant q) (sr_body q) t)"
| "breaks_step Show q t = snd (GetBreakReason (sr_path q) t)"
| "breaks_step Edit q t = snd (UpdateBreakReason (sr_now q) (sr_path q) (sr_body q) t)"
| "breaks_step Remove q t = snd (DeleteBreakReason (sr_path q) t)"
| "breaks_step (List _) q t = snd (ListBreakReasons (sr_tenant q) t)"

fun dispositions_step :: "settings_op \<Rightarrow> settings_req \<Rightarrow> disposition_code ltable \<Rightarrow> disposition_code ltable" where
  "dispositions_step Create q t = snd (CreateDispositionCode (sr_now q) (sr_id q) (sr_tenant q) (sr_body q) t)"
| "dispositions_step Show q t = snd (GetDispositionCode (sr_path q) t)"
| "dispositions_step Edit q t = snd (UpdateDispositionCode (sr_now q) (sr_path q) (sr_body q) t)"
| "dispositions_step Remove q t = snd (DeleteDispositionCode (sr_path q) t)"
| "dispositions_step (List _) q t = snd (ListDispositionCodes (sr_tenant q) t)"

text \<open>Audio files are not edited.\<close>

fun audio_step :: "settings_op \<Rightarrow> settings_req \<Rightarrow> audio_file ltable \<Rightarrow> audio_file ltable" where
  "audio_step Create q t = snd (CreateAudioFile (sr_now q) (sr_id q) (sr_tenant q) (sr_body q) t)"
| "audio_step Show q t = snd (GetAudioFile (sr_path q) t)"
| "audio_step Edit q t = t"
| "audio_step Remove q t = snd (DeleteAudioFile (sr_path q) t)"
| "audio_step (List category) q t = snd (ListAudioFiles (sr_tenant q) category t)"

fun hours_step :: "settings_op \<Rightarrow> settings_req \<Rightarrow> business_hours ltable \<times> hours_schedule ltable \<Rightarrow> business_hours ltable \<times> hours_schedule ltable" where
  "hours_step Create q w = (snd (CreateBusinessHours (sr_now q) (sr_id q) (sr_tenant q) (sr_body q) (fst w)), snd w)"
| "hours_step Show q w = snd (GetBusinessHours (sr_path q) w)"
| "hours_step Edit q w = (snd (UpdateBusinessHours (sr_now q) (sr_path q) (sr_body q) (fst w)), snd w)"
| "hours_step Remove q w = snd (DeleteBusinessHours (sr_path q) w)"
| "hours_step (List _) q w = (snd (ListBusinessHours (sr_tenant q) (fst w)), snd w)"

fun tags_step :: "settings_op \<Rightarrow> settings_req \<Rightarrow> call_tag_def ltable \<Rightarrow> call_tag_def ltable" where
  "tags_step Create q t = snd (CreateCallTagDef (sr_now q) (sr_id q) (sr_tenant q) (sr_body q) t)"
| "tags_step Show q t = snd (GetCallTagDef (sr_path q) t)"
| "tags_step Edit q t = snd (UpdateCallTagDef (sr_path q) (sr_body q) t)"
| "tags_step Remove q t = snd (DeleteCallTagDef (sr_path q) t)"
| "tags_step (List _) q t = snd (ListCallTagDefs (sr_tenant q) t)"

definition settings_step :: "settings \<Rightarrow> settings_req \<Rightarrow> settings" where
  "settings_step s q = (case sr_setting q of
     Breaks \<Rightarrow> s\<lparr>st_breaks := breaks_step (sr_op q) q (st_breaks s)\<rparr>
   | Dispositions \<Rightarrow> s\<lparr>st_dispositions := dispositions_step (sr_op q) q (st_dispositions s)\<rparr>
   | Audio \<Rightarrow> s\<lparr>st_audio := audio_step (sr_op q) q (st_audio s)\<rparr>
   | Hours \<Rightarrow> (case hours_step (sr_op q) q (st_hours s, st_schedules s) of (h, sch) \<Rightarrow> s\<lparr>st_hours := h, st_schedules := sch\<rparr>)
   | Tags \<Rightarrow> s\<lparr>st_tags := tags_step (sr_op q) q (st_tags s)\<rparr>)"

definition records_of :: "settings \<Rightarrow> setting \<Rightarrow> (int \<times> int) list" where
  "records_of s k = (case k of
     Breaks \<Rightarrow> owned br_ID br_TenantID (st_breaks s) | Dispositions \<Rightarrow> owned dc_ID dc_TenantID (st_dispositions s)
   | Audio \<Rightarrow> owned af_ID af_TenantID (st_audio s) | Hours \<Rightarrow> owned bh_ID bh_TenantID (st_hours s) | Tags \<Rightarrow> owned td_ID td_TenantID (st_tags s))"

text \<open>The ids in the list a tenant is shown; none when the query fails.\<close>

definition shown :: "settings \<Rightarrow> setting \<Rightarrow> string \<Rightarrow> int \<Rightarrow> int set" where
  "shown s k category who =
     (case k of
        Breaks \<Rightarrow> (case fst (ListBreakReasons who (st_breaks s)) of Failure _ \<Rightarrow> {} | Success _ rs \<Rightarrow> br_ID ` set rs)
      | Dispositions \<Rightarrow> (case fst (ListDispositionCodes who (st_dispositions s)) of Failure _ \<Rightarrow> {} | Success _ rs \<Rightarrow> dc_ID ` set rs)
      | Audio \<Rightarrow> (case fst (ListAudioFiles who category (st_audio s)) of Failure _ \<Rightarrow> {} | Success _ rs \<Rightarrow> af_ID ` set rs)
      | Hours \<Rightarrow> (case fst (ListBusinessHours who (st_hours s)) of Failure _ \<Rightarrow> {} | Success _ rs \<Rightarrow> bh_ID ` set rs)
      | Tags \<Rightarrow> (case fst (ListCallTagDefs who (st_tags s)) of Failure _ \<Rightarrow> {} | Success _ rs \<Rightarrow> td_ID ` set rs))"

section \<open>Ownership\<close>

abbreviation new_of :: "settings_req \<Rightarrow> (int \<times> int) option" where
  "new_of q \<equiv> (if sr_op q = Create then Some (sr_id q, sr_tenant q) else None)"

lemma fields_owner:
  "break_fields now nid who b = Some x1 \<Longrightarrow> br_ID x1 = nid \<and> br_TenantID x1 = who"
  "disposition_fields now nid who b = Some x2 \<Longrightarrow> dc_ID x2 = nid \<and> dc_TenantID x2 = who"
  "audio_fields now nid who b = Some x3 \<Longrightarrow> af_ID x3 = nid \<and> af_TenantID x3 = who"
  "hours_fields now nid who b = Some x4 \<Longrightarrow> bh_ID x4 = nid \<and> bh_TenantID x4 = who"
  "tag_fields now nid who b = Some x5 \<Longrightarrow> td_ID x5 = nid \<and> td_TenantID x5 = who"
  by (auto simp: break_fields_def disposition_fields_def audio_fields_def hours_fields_def tag_fields_def split: option.splits if_splits)

lemma same_rows: "lrows t' = lrows t \<Longrightarrow> owned key tenant t' = owned key tenant t"
  by (simp add: owned_def)

lemma breaks_owned: "owners_step (new_of q) (owned br_ID br_TenantID t) (owned br_ID br_TenantID (breaks_step (sr_op q) q t))"
  by (cases "sr_op q")
    (simp_all add: CreateBreakReason_def GetBreakReason_def UpdateBreakReason_def DeleteBreakReason_def ListBreakReasons_def
      breaks.decoded_create fields_owner breaks.edit_owned breaks.delete_owned same_rows [OF breaks.read_rows(1)] same_rows [OF breaks.read_rows(2)])

lemma dispositions_owned: "owners_step (new_of q) (owned dc_ID dc_TenantID t) (owned dc_ID dc_TenantID (dispositions_step (sr_op q) q t))"
  by (cases "sr_op q")
    (simp_all add: CreateDispositionCode_def GetDispositionCode_def UpdateDispositionCode_def DeleteDispositionCode_def ListDispositionCodes_def
      dispositions.decoded_create fields_owner dispositions.edit_owned dispositions.delete_owned same_rows [OF dispositions.read_rows(1)] same_rows [OF dispositions.read_rows(2)])

lemma audio_owned: "owners_step (new_of q) (owned af_ID af_TenantID t) (owned af_ID af_TenantID (audio_step (sr_op q) q t))"
  by (cases "sr_op q")
    (simp_all add: CreateAudioFile_def GetAudioFile_def DeleteAudioFile_def ListAudioFiles_def
      audio.decoded_create fields_owner audio.delete_owned same_rows [OF audio.read_rows(1)] same_rows [OF audio.read_rows(2)])

lemma hours_read: "owned bh_ID bh_TenantID (fst (snd (GetBusinessHours p w))) = owned bh_ID bh_TenantID (fst w)"
  using same_rows [OF hours.read_rows(3) [of "path_id p" "fst w"], of bh_ID bh_TenantID]
  by (auto simp: GetBusinessHours_def split: prod.split sum.split)

lemma hours_deleted: "fst (snd (DeleteBusinessHours p w)) = snd (delete_record bh_ID p (fst w))"
  by (simp add: DeleteBusinessHours_def Let_def split: prod.split)

lemma hours_owned: "owners_step (new_of q) (owned bh_ID bh_TenantID (fst w)) (owned bh_ID bh_TenantID (fst (hours_step (sr_op q) q w)))"
  by (cases "sr_op q")
    (simp_all add: CreateBusinessHours_def UpdateBusinessHours_def ListBusinessHours_def hours_read hours_deleted
      hours.decoded_create fields_owner hours.edit_owned hours.delete_owned same_rows [OF hours.read_rows(2)])

lemma tag_edited: "owned td_ID td_TenantID (snd (UpdateCallTagDef p body t)) = owned td_ID td_TenantID t"
proof (cases "get_row td_ID (path_id p) t")
  case (Pair r t')
  then have "owned td_ID td_TenantID t' = owned td_ID td_TenantID t" using same_rows [OF tags.read_rows(3) [of "path_id p" t]] by simp
  with Pair show ?thesis by (auto simp: UpdateCallTagDef_def decoded_def tags.write_owned split: sum.split option.split)
qed

lemma tags_owned: "owners_step (new_of q) (owned td_ID td_TenantID t) (owned td_ID td_TenantID (tags_step (sr_op q) q t))"
  by (cases "sr_op q")
    (simp_all add: CreateCallTagDef_def GetCallTagDef_def DeleteCallTagDef_def ListCallTagDefs_def tag_edited
      tags.decoded_create fields_owner tags.delete_owned same_rows [OF tags.read_rows(1)] same_rows [OF tags.read_rows(2)])

lemma settings_step_owned:
  "owners_step (if sr_setting q = k then new_of q else None) (records_of s k) (records_of (settings_step s q) k)"
proof -
  obtain h sch where hours: "hours_step (sr_op q) q (st_hours s, st_schedules s) = (h, sch)" by force
  have "owners_step (new_of q) (owned bh_ID bh_TenantID (st_hours s)) (owned bh_ID bh_TenantID h)"
    using hours_owned [of q "(st_hours s, st_schedules s)"] unfolding hours by (simp only: fst_conv)
  with breaks_owned [of q "st_breaks s"] dispositions_owned [of q "st_dispositions s"] audio_owned [of q "st_audio s"] tags_owned [of q "st_tags s"]
  show ?thesis by (cases "sr_setting q"; cases k) (simp_all add: settings_step_def records_of_def hours del: hours_step.simps split del: if_split)
qed

lemma shown_owned: "x \<in> shown s k category who \<Longrightarrow> (x, who) \<in> set (records_of s k)"
  using breaks.list_shows [of who "\<lambda>_. True"] dispositions.list_shows [of who "\<lambda>_. True"] hours.list_shows [of who "\<lambda>_. True"]
    tags.list_shows [of who "\<lambda>_. True"] audio.list_shows [of who "\<lambda>r. category = [] \<or> af_Category r = category"]
  by (cases k) (auto simp: shown_def records_of_def ListBreakReasons_def ListDispositionCodes_def ListAudioFiles_def ListBusinessHours_def ListCallTagDefs_def
      split: http_answer.splits)

text \<open>
  C37. Along any requests of any tenants, with any failures of the database, ids stay unique and a record keeps the tenant that created it: what a tenant is shown in a list was there for it
  at the start or was created by a request of its own.
\<close>

theorem settings_keep_tenant:
  assumes "\<forall>k. distinct (map fst (records_of s k))"
  shows "distinct (map fst (records_of (foldl settings_step s qs) k)) \<and>
    (\<forall>x \<in> shown (foldl settings_step s qs) k category who. (x, who) \<in> set (records_of s k) \<or>
      (\<exists>q \<in> set qs. sr_setting q = k \<and> sr_op q = Create \<and> sr_id q = x \<and> sr_tenant q = who))"
proof -
  have "distinct (map fst (records_of (foldl settings_step s qs) k)) \<and>
      (\<forall>x w. (x, w) \<in> set (records_of (foldl settings_step s qs) k) \<longrightarrow> (x, w) \<in> set (records_of s k) \<or>
        (\<exists>q \<in> set qs. sr_setting q = k \<and> sr_op q = Create \<and> sr_id q = x \<and> sr_tenant q = w))"
  proof (induction qs rule: rev_induct)
    case Nil
    with assms show ?case by simp
  next
    case (snoc q qs)
    from settings_step_owned [of q k "foldl settings_step s qs"] snoc.IH show ?case
      by (auto simp: owners_step_def split: if_splits)
  qed
  with shown_owned show ?thesis by blast
qed

text \<open>Any tenant edits and deletes the records of any other, by their id.\<close>

lemma deleted_by_anybody:
  assumes "loutages t = []" "lrows t = [r]" "int64 (br_ID r)"
  shows "lrows (snd (DeleteBreakReason (itoa (br_ID r)) t)) = []"
  using assms by (simp add: DeleteBreakReason_def delete_record_def respond_def del_rows_def on_link_def path_id_def)

text \<open>An edit leaves a code empty, which no new record may have.\<close>

lemma edited_to_empty:
  assumes "br_Code r \<noteq> []"
  shows "\<exists>f. break_edit now [''code'' \<mapsto> JStr []] = Some f \<and> br_Code (f r) = []"
  by (simp add: break_edit_def str_ptr_field_def bool_ptr_field_def int_ptr_field_def given_def)

section \<open>Witness\<close>

definition no_settings :: settings where
  "no_settings = \<lparr>st_breaks = \<lparr>lrows = [], loutages = []\<rparr>, st_dispositions = \<lparr>lrows = [], loutages = []\<rparr>, st_audio = \<lparr>lrows = [], loutages = []\<rparr>,
     st_hours = \<lparr>lrows = [], loutages = []\<rparr>, st_schedules = \<lparr>lrows = [], loutages = []\<rparr>, st_tags = \<lparr>lrows = [], loutages = []\<rparr>\<rparr>"

definition tag_req :: "int \<Rightarrow> int \<Rightarrow> settings_req" where
  "tag_req nid who = \<lparr>sr_setting = Tags, sr_op = Create, sr_now = 0, sr_id = nid, sr_tenant = who, sr_path = [], sr_body = Some [''name'' \<mapsto> JStr ''vip'']\<rparr>"

theorem settings_keep_tenant_witness:
  "shown (foldl settings_step no_settings [tag_req 1 7, tag_req 2 8]) Tags [] 7 = {1}"
proof -
  let ?s = "foldl settings_step no_settings [tag_req 1 7, tag_req 2 8]"
  have "distinct (map fst (records_of no_settings k))" for k by (cases k) (simp_all add: records_of_def owned_def no_settings_def)
  then have "\<forall>x \<in> shown ?s Tags [] 7. (x, 7) \<in> set (records_of no_settings Tags) \<or>
      (\<exists>q \<in> set [tag_req 1 7, tag_req 2 8]. sr_setting q = Tags \<and> sr_op q = Create \<and> sr_id q = x \<and> sr_tenant q = 7)"
    using settings_keep_tenant [of no_settings "[tag_req 1 7, tag_req 2 8]" Tags "[]" 7] by blast
  then have "shown ?s Tags [] 7 \<subseteq> {1}" by (auto simp: records_of_def owned_def no_settings_def tag_req_def)
  moreover have "1 \<in> shown ?s Tags [] 7" by code_simp
  ultimately show ?thesis by blast
qed

end
