(* ===== verification/Analysis.thy ===== *)
theory Analysis
  imports Complex_Main
begin

text \<open>
  The analysis of calls by a language model and the count of frequent words (\<open>internal/application/aianalysis/service.go\<close>).
  Transcripts are lists of code points, as Go ranges over a string. What the model answers, or its error, is an argument.
\<close>

section \<open>One call\<close>

type_synonym runes = "int list"

text \<open>The answer of the model is put next to the call's id; an error is handed on.\<close>

definition about_call :: "int \<Rightarrow> 'e + 'a \<Rightarrow> 'e + int \<times> 'a" where
  "about_call callID r = (case r of Inl e \<Rightarrow> Inl e | Inr a \<Rightarrow> Inr (callID, a))"

definition GenerateSummary :: "(runes \<Rightarrow> 'e + runes) \<Rightarrow> int \<Rightarrow> runes \<Rightarrow> 'e + int \<times> runes" where
  "GenerateSummary llm callID transcript = about_call callID (llm transcript)"

definition AnalyzeSentiment :: "(runes \<Rightarrow> 'e + runes \<times> rat) \<Rightarrow> int \<Rightarrow> runes \<Rightarrow> 'e + int \<times> runes \<times> rat" where
  "AnalyzeSentiment llm callID transcript = about_call callID (llm transcript)"

definition ExtractTags :: "(runes \<Rightarrow> 'e + runes list) \<Rightarrow> int \<Rightarrow> runes \<Rightarrow> 'e + int \<times> runes list" where
  "ExtractTags llm callID transcript = about_call callID (llm transcript)"

definition PredictSatisfaction :: "(runes \<Rightarrow> 'e + rat) \<Rightarrow> int \<Rightarrow> runes \<Rightarrow> 'e + int \<times> rat" where
  "PredictSatisfaction llm callID transcript = about_call callID (llm transcript)"

definition AnalyzeIVRPath :: "(runes \<Rightarrow> 'e + runes) \<Rightarrow> int \<Rightarrow> runes \<Rightarrow> 'e + int \<times> runes" where
  "AnalyzeIVRPath llm callID path = about_call callID (llm path)"

definition JudgeCompletion :: "(runes \<Rightarrow> 'e + rat) \<Rightarrow> int \<Rightarrow> runes \<Rightarrow> 'e + int \<times> rat" where
  "JudgeCompletion llm callID transcript = about_call callID (llm transcript)"

definition ExtractPostCallActions :: "(runes \<Rightarrow> 'e + runes list) \<Rightarrow> int \<Rightarrow> runes \<Rightarrow> 'e + int \<times> runes list" where
  "ExtractPostCallActions llm callID transcript = about_call callID (llm transcript)"

definition AutoFillTicket :: "(runes \<Rightarrow> 'e + (runes \<rightharpoonup> runes)) \<Rightarrow> int \<Rightarrow> runes \<Rightarrow> 'e + int \<times> (runes \<rightharpoonup> runes)" where
  "AutoFillTicket llm callID transcript = about_call callID (llm transcript)"

definition RecommendScript :: "(runes \<Rightarrow> runes list \<Rightarrow> 'e + runes) \<Rightarrow> int \<Rightarrow> runes \<Rightarrow> runes list \<Rightarrow> 'e + int \<times> runes" where
  "RecommendScript llm callID transcript scripts = about_call callID (llm transcript scripts)"

section \<open>Many calls\<close>

text \<open>Calls without a transcript end the loop, calls the model fails for are left out.\<close>

fun RunBatchTagAnalysis :: "(runes \<Rightarrow> 'e + runes list) \<Rightarrow> int list \<Rightarrow> runes list \<Rightarrow> (int \<times> runes list) list" where
  "RunBatchTagAnalysis llm (k # ks) (t # ts) = (case llm t of
       Inl _ \<Rightarrow> RunBatchTagAnalysis llm ks ts
     | Inr tags \<Rightarrow> (k, tags) # RunBatchTagAnalysis llm ks ts)"
| "RunBatchTagAnalysis llm _ _ = []"

section \<open>Frequent words\<close>

text \<open>Blank, comma, line feed, and the full-width stop, comma, question mark and exclamation mark.\<close>

definition is_separator :: "int \<Rightarrow> bool" where
  "is_separator r \<longleftrightarrow> r \<in> set [0x20, 0x2C, 0x3002, 0xFF0C, 0xFF1F, 0xFF01, 0x0A]"

definition split_step :: "runes list \<times> runes \<Rightarrow> int \<Rightarrow> runes list \<times> runes" where
  "split_step st r = (case st of (words, current) \<Rightarrow>
     if is_separator r then (if current \<noteq> [] then (words @ [current], []) else (words, current))
     else (words, current @ [r]))"

definition splitWords :: "runes \<Rightarrow> runes list" where
  "splitWords s = (case foldl split_step ([], []) s of (words, current) \<Rightarrow> if current \<noteq> [] then words @ [current] else words)"

text \<open>\<open>len(w)\<close> counts the bytes of the UTF-8 encoding.\<close>

definition utf8_len :: "int \<Rightarrow> nat" where
  "utf8_len r = (if r < 0x80 then 1 else if r < 0x800 then 2 else if r < 0x10000 then 3 else 4)"

definition byte_len :: "runes \<Rightarrow> nat" where
  "byte_len w = sum_list (map utf8_len w)"

definition count_word :: "(runes \<rightharpoonup> int) \<Rightarrow> runes \<Rightarrow> runes \<rightharpoonup> int" where
  "count_word freq w = (if 2 \<le> byte_len w then freq(w \<mapsto> (case freq w of None \<Rightarrow> 0 | Some c \<Rightarrow> c) + 1) else freq)"

text \<open>\<open>range freq\<close> goes over the keys of the map in an order of its own.\<close>

definition AnalyzeHotwords :: "((runes \<rightharpoonup> int) \<Rightarrow> runes list) \<Rightarrow> runes list \<Rightarrow> (runes \<times> int) list" where
  "AnalyzeHotwords iter transcripts =
     (let freq = foldl (\<lambda>freq t. foldl count_word freq (splitWords t)) Map.empty transcripts
      in map (\<lambda>w. (w, the (freq w))) (iter freq))"

end
