(* ===== verification/AnalysisProps.thy ===== *)
theory AnalysisProps
  imports Analysis
begin

text \<open>
  The words counted are the runs between separators, and each is counted as often as it occurs.
\<close>

section \<open>The splitter\<close>

text \<open>A text cut at every separator.\<close>

fun pieces :: "runes \<Rightarrow> runes list" where
  "pieces [] = [[]]"
| "pieces (r # s) = (if is_separator r then [] # pieces s else (r # hd (pieces s)) # tl (pieces s))"

abbreviation nonempty :: "runes list \<Rightarrow> runes list" where
  "nonempty ws \<equiv> filter (\<lambda>w. w \<noteq> []) ws"

lemma pieces_some [simp]: "pieces s \<noteq> []"
  by (cases s) auto

lemma split_steps:
  assumes "foldl split_step (ws, cur) s = (ws', cur')"
  shows "ws' @ nonempty [cur'] = ws @ nonempty ((cur @ hd (pieces s)) # tl (pieces s))"
  using assms
proof (induction s arbitrary: ws cur)
  case (Cons r s)
  obtain p ps where ps: "pieces s = p # ps" by (cases "pieces s") auto
  show ?case
  proof (cases "is_separator r")
    case True
    with Cons.prems have "foldl split_step (if cur \<noteq> [] then ws @ [cur] else ws, []) s = (ws', cur')"
      by (auto simp: split_step_def [of "(ws, cur)" r] split: if_splits)
    from Cons.IH [OF this] True ps show ?thesis by (auto split: if_splits)
  next
    case False
    with Cons.prems have "foldl split_step (ws, cur @ [r]) s = (ws', cur')" by (simp add: split_step_def [of "(ws, cur)" r])
    from Cons.IH [OF this] False ps show ?thesis by simp
  qed
qed auto

lemma splitWords_pieces: "splitWords s = nonempty (pieces s)"
proof -
  obtain ws cur where "foldl split_step ([], []) s = (ws, cur)" by force
  with split_steps [OF this] show ?thesis by (cases "pieces s") (auto simp: splitWords_def split: if_splits)
qed

section \<open>Counts\<close>

lemma count_words:
  "foldl count_word freq ws w =
     (if byte_len w < 2 \<or> w \<notin> set ws then freq w else Some ((case freq w of None \<Rightarrow> 0 | Some c \<Rightarrow> c) + int (count_list ws w)))"
  by (induction ws arbitrary: freq) (auto simp: count_word_def not_less split: option.split)

lemma count_transcripts:
  "foldl (\<lambda>freq t. foldl count_word freq (splitWords t)) freq ts = foldl count_word freq (concat (map splitWords ts))"
  by (induction ts arbitrary: freq) simp_all

definition iter_ok :: "((runes \<rightharpoonup> int) \<Rightarrow> runes list) \<Rightarrow> bool" where
  "iter_ok iter \<longleftrightarrow> (\<forall>m. finite (dom m) \<longrightarrow> distinct (iter m) \<and> set (iter m) = dom m)"

text \<open>
  The frequent words: each run between separators of two bytes and more is listed exactly once, with the number of its occurrences in all transcripts, in whatever order Go goes over
  its map, and nothing else is listed.
\<close>

theorem hotwords_counted:
  fixes ts :: "runes list"
  assumes "iter_ok iter"
  defines "ws \<equiv> nonempty (concat (map pieces ts))"
  shows "distinct (map fst (AnalyzeHotwords iter ts)) \<and>
    set (AnalyzeHotwords iter ts) = {(w, int (count_list ws w)) | w. w \<in> set ws \<and> 2 \<le> byte_len w}"
proof -
  have ws: "concat (map splitWords ts) = ws" unfolding ws_def by (induction ts) (simp_all add: splitWords_pieces)
  let ?freq = "foldl count_word Map.empty ws"
  have freq: "?freq w = (if byte_len w < 2 \<or> w \<notin> set ws then None else Some (int (count_list ws w)))" for w
    by (simp add: count_words)
  have dom: "dom ?freq = {w \<in> set ws. 2 \<le> byte_len w}" by (auto simp: dom_def freq)
  have run: "AnalyzeHotwords iter ts = map (\<lambda>w. (w, the (?freq w))) (iter ?freq)"
    by (simp add: AnalyzeHotwords_def count_transcripts ws Let_def)
  have "finite (dom ?freq)" by (simp add: dom)
  with assms(1) have r: "distinct (iter ?freq)" "set (iter ?freq) = {w \<in> set ws. 2 \<le> byte_len w}"
    unfolding iter_ok_def dom [symmetric] by blast+
  have "set (AnalyzeHotwords iter ts) = (\<lambda>w. (w, the (?freq w))) ` {w \<in> set ws. 2 \<le> byte_len w}" by (simp only: run set_map r(2))
  also have "\<dots> = {(w, int (count_list ws w)) | w. w \<in> set ws \<and> 2 \<le> byte_len w}" by (auto simp: freq not_less)
  finally show ?thesis using r(1) by (simp add: run o_def)
qed

text \<open>The batch gives tags for calls that were asked for, in their order.\<close>

lemma batch_order: "RunBatchTagAnalysis llm ks ts = concat (map (\<lambda>(k, t). case llm t of Inl _ \<Rightarrow> [] | Inr tags \<Rightarrow> [(k, tags)]) (zip ks ts))"
  by (induction llm ks ts rule: RunBatchTagAnalysis.induct) (auto split: sum.split)

text \<open>A single Chinese character is counted, though the comment says that pairs of characters are; a question mark of ASCII stays part of its word.\<close>

lemma single_character_counted: "2 \<le> byte_len [0x6211]"
  by code_simp

lemma ascii_mark_kept: "splitWords [0x61, 0x3F, 0x20, 0x61] = [[0x61, 0x3F], [0x61]]"
  by code_simp

section \<open>Witness\<close>

theorem hotwords_counted_witness:
  "\<exists>iter. iter_ok iter \<and> (([0x61, 0x62], 2) \<in> set (AnalyzeHotwords iter [[0x61, 0x62, 0x20, 0x63], [0x61, 0x62]]))"
proof -
  define pick :: "(runes \<rightharpoonup> int) \<Rightarrow> runes list" where "pick m = (SOME xs. distinct xs \<and> set xs = dom m)" for m
  have "iter_ok pick" unfolding iter_ok_def pick_def
    using finite_distinct_list by (metis (mono_tags, lifting) someI_ex)
  moreover have "[0x61, 0x62] \<in> set (nonempty (concat (map pieces [[0x61, 0x62, 0x20, 0x63], [0x61, 0x62]]))) \<and> 2 \<le> byte_len [0x61, 0x62] \<and>
      count_list (nonempty (concat (map pieces [[0x61, 0x62, 0x20, 0x63], [0x61, 0x62]]))) [0x61, 0x62] = 2"
    by code_simp
  ultimately show ?thesis using hotwords_counted [of pick "[[0x61, 0x62, 0x20, 0x63], [0x61, 0x62]]"] by (intro exI [of _ pick]) (auto intro!: exI [of _ "[0x61, 0x62]"])
qed

end
