(* ===== verification/PrivateCall.thy ===== *)
theory PrivateCall
  imports Esl CallProps
begin

text \<open>
  Calls between two outside numbers and calls that hide the callee (\<open>internal/application/b2b/service.go\<close>). The originate command is
  sent by a goroutine, whose outcome nobody looks at: it is recorded as it is issued.
\<close>

section \<open>The service\<close>

definition MaskNumber :: "string \<Rightarrow> string" where
  "MaskNumber phone = (if length phone \<le> 7 then phone
     else take 3 phone @ replicate (length phone - 7) (CHR ''*'') @ drop (length phone - 4) phone)"

record pc_world =
  pc_calls :: "(call table) call_world"
  pc_esl :: "esl_op list"

abbreviation CallTypeDoubleCall :: string where "CallTypeDoubleCall \<equiv> ''DOUBLE_CALL''"

text \<open>\<open>wired\<close>: there is a client of the switch.\<close>

definition originate :: "bool \<Rightarrow> esl_op \<Rightarrow> (pc_world, call_error, unit) act" where
  "originate wired cmd = modify_a (\<lambda>w. if wired then w\<lparr>pc_esl := pc_esl w @ [cmd]\<rparr> else w)"

abbreviation on_pc_calls :: "((call table) call_world, call_error, 'a) act \<Rightarrow> (pc_world, call_error, 'a) act" where
  "on_pc_calls m \<equiv> zoom_a pc_calls (\<lambda>c w. w\<lparr>pc_calls := c\<rparr>) m"

definition double_call :: "gotime \<Rightarrow> int \<Rightarrow> int \<Rightarrow> string \<Rightarrow> string \<Rightarrow> string option \<Rightarrow> call" where
  "double_call now nid tenant caller callee masked = call_zero\<lparr>c_ID := nid, c_TenantID := tenant, c_CallType := CallTypeDoubleCall,
     c_Direction := DirectionOutbound, c_MediaType := MediaTypeAudio, c_Caller := caller, c_Callee := callee, c_MaskedCallee := masked,
     c_Status := CallStatusRinging, c_StartedAt := now\<rparr>"

definition Back2BackCall ::
  "(call table) call_svc \<Rightarrow> bool \<Rightarrow> gotime \<Rightarrow> int \<Rightarrow> int \<Rightarrow> int \<Rightarrow> string \<Rightarrow> string \<Rightarrow> string \<Rightarrow> (pc_world, call_error, call) act" where
  "Back2BackCall S wired now nid eid tenant caller callee gateway =
     (let c = double_call now nid tenant caller callee None in
      seq_a (on_pc_calls (insert_call S c))
      (seq_a (on_pc_calls (emit eid c ''b2b_initiated'' (caller @ ''->'' @ callee) now))
      (seq_a (originate (wired \<and> gateway \<noteq> []) (EslOriginateB2B caller callee caller gateway))
      (ret_a c))))"

definition EncryptedCall ::
  "(call table) call_svc \<Rightarrow> bool \<Rightarrow> gotime \<Rightarrow> int \<Rightarrow> int \<Rightarrow> int \<Rightarrow> string \<Rightarrow> string \<Rightarrow> string \<Rightarrow> (pc_world, call_error, call) act" where
  "EncryptedCall S wired now nid eid tenant caller callee intermediate =
     (let c = double_call now nid tenant caller intermediate (Some (MaskNumber callee)) in
      seq_a (on_pc_calls (insert_call S c))
      (seq_a (on_pc_calls (emit eid c ''encrypted_call'' (''intermediate:'' @ intermediate) now))
      (seq_a (originate (wired \<and> intermediate \<noteq> []) (EslOriginateB2B caller callee intermediate ''default''))
      (ret_a c))))"

text \<open>\<open>send\<close>: the command is sent and answered; a flash message leaves nothing behind.\<close>

definition FlashSMS :: "(esl_op \<Rightarrow> string option) option \<Rightarrow> string \<Rightarrow> string \<Rightarrow> string + unit" where
  "FlashSMS send_cmd phone message = (case send_cmd of
     None \<Rightarrow> Inr ()
   | Some f \<Rightarrow> (case f (EslFlashSMS ''system'' phone message) of None \<Rightarrow> Inr () | Some err \<Rightarrow> Inl err))"

section \<open>What is kept of the callee\<close>

lemma mask_length: "length (MaskNumber p) = length p"
  by (simp add: MaskNumber_def)

lemma mask_same:
  assumes "length p = length q" "7 < length p" "take 3 p = take 3 q" "drop (length p - 4) p = drop (length q - 4) q"
  shows "MaskNumber p = MaskNumber q"
  using assms by (simp add: MaskNumber_def)

lemma encrypted_world:
  "fst (EncryptedCall S wired now nid eid tenant caller callee intermediate w) =
     fst (EncryptedCall S wired' now nid eid tenant caller callee' intermediate w) \<and>
   pc_calls (snd (EncryptedCall S wired now nid eid tenant caller callee intermediate w)) =
     pc_calls (snd (EncryptedCall S wired' now nid eid tenant caller callee' intermediate w))"
  if "MaskNumber callee = MaskNumber callee'"
  using that by (auto simp: EncryptedCall_def Let_def act_run originate_def emit_def split: prod.split sum.split)

text \<open>
  C38. Of the callee of an encrypted call the tables and the answer hold the first three and the last four digits and the length, nothing else: two numbers of more than seven
  digits that agree in these leave the same calls, the same events and the same answer, whatever the database does; and the calls stay well formed.
\<close>

theorem callee_stays_private:
  assumes "length callee = length callee'" and "7 < length callee" and "take 3 callee = take 3 callee'"
    and "drop (length callee - 4) callee = drop (length callee' - 4) callee'" and "call_table_ok (rows (cw_calls (pc_calls w)))"
    and "EncryptedCall (NewCallService CallRepo tp) wired now nid eid tenant caller callee intermediate w = (r, w1)"
    and "EncryptedCall (NewCallService CallRepo tp) wired now nid eid tenant caller callee' intermediate w = (r', w2)"
  shows "r = r' \<and> pc_calls w1 = pc_calls w2 \<and> call_table_ok (rows (cw_calls (pc_calls w1)))"
proof -
  have m: "MaskNumber callee = MaskNumber callee'" by (rule mask_same [OF assms(1-4)])
  from encrypted_world [OF m, of "NewCallService CallRepo tp" wired now nid eid tenant caller intermediate w wired] assms(6,7)
  have same: "r = r' \<and> pc_calls w1 = pc_calls w2" by simp
  let ?c = "double_call now nid tenant caller intermediate (Some (MaskNumber callee))"
  obtain q u where ins: "insert_call (NewCallService CallRepo tp) ?c (pc_calls w) = (q, u)" by force
  have "call_table_ok (rows (cw_calls (pc_calls w1)))"
  proof (cases q)
    case (Inl e)
    with preserves_errD [OF mysql_calls.insert_call_err] ins assms(5,6)
    show ?thesis by (auto simp: EncryptedCall_def Let_def act_run split: prod.splits)
  next
    case (Inr x)
    from mysql_calls.insert_call_row [OF ins [unfolded Inr]]
    have row: "rows (cw_calls u) = (rows (cw_calls (pc_calls w)))(c_ID ?c \<mapsto> CallRepo_insert_row ?c)" by simp
    have "call_inv (CallRepo_insert_row ?c)" by (simp add: CallRepo_insert_row_def double_call_def call_zero_def call_inv_def)
    with row assms(5) have "call_table_ok (rows (cw_calls u))" by (auto simp: call_table_ok_def CallRepo_insert_row_def)
    moreover have "rows (cw_calls (pc_calls w1)) = rows (cw_calls u)"
      using assms(6) ins Inr preservesD [OF mysql_calls.preserves_emit]
      by (auto simp: EncryptedCall_def Let_def act_run originate_def split: prod.splits sum.splits)
    ultimately show ?thesis by simp
  qed
  with same show ?thesis by blast
qed

text \<open>A short number is kept as it is.\<close>

lemma short_number_unmasked: "MaskNumber ''1234567'' = ''1234567''"
  by code_simp

section \<open>Witness\<close>

definition pc_world0 :: pc_world where
  "pc_world0 = \<lparr>pc_calls = call_world0, pc_esl = []\<rparr>"

theorem callee_stays_private_witness:
  "pc_calls (snd (EncryptedCall (NewCallService CallRepo True) True 5 1 2 7 ''100'' ''13811112222'' ''95500'' pc_world0)) =
   pc_calls (snd (EncryptedCall (NewCallService CallRepo True) True 5 1 2 7 ''100'' ''13899992222'' ''95500'' pc_world0))"
proof -
  obtain r w1 where 1: "EncryptedCall (NewCallService CallRepo True) True 5 1 2 7 ''100'' ''13811112222'' ''95500'' pc_world0 = (r, w1)" by force
  obtain r' w2 where 2: "EncryptedCall (NewCallService CallRepo True) True 5 1 2 7 ''100'' ''13899992222'' ''95500'' pc_world0 = (r', w2)" by force
  have "call_table_ok (rows (cw_calls (pc_calls pc_world0)))" by (simp add: pc_world0_def call_world0_def)
  from callee_stays_private [OF _ _ _ _ this 1 2] 1 2 show ?thesis by simp
qed

end
