(* ===== verification/Integrations.thy ===== *)
theory Integrations
  imports Settings Webhook
begin

text \<open>
  The settings of a tenant's integrations: webhooks, text messages, screen pops and quick replies. The handlers of
  \<open>interfaces/http/handler/webhook_config.go\<close>, \<open>sms_config.go\<close>, \<open>screen_pop_config.go\<close> and \<open>quick_reply.go\<close> over the statements of
  \<open>infrastructure/mysql\<close>; and the sending of a text message (\<open>application/sms/service.go\<close>).
\<close>

section \<open>Records\<close>

record sms_provider =
  sf_ID :: int
  sf_TenantID :: int
  sf_Provider :: string
  sf_AccessKeyID :: string
  sf_SignName :: string
  sf_TemplateMap :: string
  sf_IsActive :: bool
  sf_CreatedAt :: gotime
  sf_UpdatedAt :: gotime

record pop_config =
  pf_ID :: int
  pf_TenantID :: int
  pf_Name :: string
  pf_URLTemplate :: string
  pf_Position :: int
  pf_IsActive :: bool
  pf_CreatedAt :: gotime
  pf_UpdatedAt :: gotime

record quick_reply =
  qk_ID :: int
  qk_TenantID :: int
  qk_Scope :: string
  qk_ScopeID :: "int option"
  qk_Title :: string
  qk_Content :: string
  qk_Shortcut :: string
  qk_SortOrder :: int
  qk_IsActive :: bool
  qk_CreatedAt :: gotime
  qk_UpdatedAt :: gotime

section \<open>The handlers\<close>

text \<open>
  As the four handlers share them. A record of another tenant is answered like one that is not there. The update reads the record before the
  body; its statement does not write the tenant, and of quick replies not the scope.
\<close>

definition own_row :: "('r \<Rightarrow> int) \<Rightarrow> ('r \<Rightarrow> int) \<Rightarrow> int \<Rightarrow> string \<Rightarrow> ('r ltable, string, 'r) act" where
  "own_row key tenant who p = bind_a (get_row key (path_id p)) (\<lambda>x. if tenant x \<noteq> who then throw_a ''not found'' else ret_a x)"

definition edit_own ::
  "('r \<Rightarrow> int) \<Rightarrow> ('r \<Rightarrow> int) \<Rightarrow> ('r \<Rightarrow> 'r \<Rightarrow> 'r) \<Rightarrow> (json_object \<Rightarrow> ('r \<Rightarrow> 'r) option) \<Rightarrow> int \<Rightarrow> string \<Rightarrow> json_object option \<Rightarrow>
   'r ltable \<Rightarrow> 'r http_answer \<times> 'r ltable" where
  "edit_own key tenant kept edit who p body t =
     (case own_row key tenant who p t of
        (Inl _, t') \<Rightarrow> (Failure 404, t')
      | (Inr x, t') \<Rightarrow> decoded body edit (\<lambda>f. write_record key kept (f x)) t')"

definition delete_own :: "('r \<Rightarrow> int) \<Rightarrow> ('r \<Rightarrow> int) \<Rightarrow> int \<Rightarrow> string \<Rightarrow> 'r ltable \<Rightarrow> unit http_answer \<times> 'r ltable" where
  "delete_own key tenant who p t =
     (case own_row key tenant who p t of
        (Inl _, t') \<Rightarrow> (Failure 404, t')
      | (Inr _, t') \<Rightarrow> delete_record key p t')"

text \<open>
  \<open>List\<close> of a repository: the count, whose error is dropped, and a page; rows of the same rank come in the order of the table, which the
  database does not promise.
\<close>

definition page_of :: "('r \<Rightarrow> bool) \<Rightarrow> ('r \<Rightarrow> int) \<Rightarrow> nat \<Rightarrow> ('r ltable, string, 'r list \<times> int) act" where
  "page_of P rank limit =
     bind_a (try_a (sel_all P) (\<lambda>r. ret_a (case r of Inl _ \<Rightarrow> 0 | Inr rs \<Rightarrow> int (length rs)))) (\<lambda>count.
     bind_a (sel_all P) (\<lambda>rs. ret_a (take limit (sort_key rank rs), count)))"

definition list_page :: "('r \<Rightarrow> bool) \<Rightarrow> ('r \<Rightarrow> int) \<Rightarrow> 'r ltable \<Rightarrow> ('r list \<times> int) http_answer \<times> 'r ltable" where
  "list_page P rank = respond 500 200 id (page_of P rank 50)"

subsection \<open>Webhooks\<close>

definition webhook_fields :: "gotime \<Rightarrow> int \<Rightarrow> int \<Rightarrow> json_object \<Rightarrow> webhook_config option" where
  "webhook_fields now nid who b =
     (case (str_field ''name'' b, str_field ''url'' b, str_field ''secret'' b, str_field ''events'' b, bool_field ''is_active'' b) of
        (Some name, Some url, Some secret, Some events, Some active) \<Rightarrow>
          Some \<lparr>wh_ID = nid, wh_TenantID = who, wh_Name = name, wh_URL = url, wh_Secret = secret, wh_Events = events, wh_IsActive = active,
                wh_CreatedAt = now, wh_UpdatedAt = now\<rparr>
      | _ \<Rightarrow> None)"

definition webhook_edit :: "gotime \<Rightarrow> json_object \<Rightarrow> (webhook_config \<Rightarrow> webhook_config) option" where
  "webhook_edit now b = map_option (\<lambda>x r. r\<lparr>wh_Name := wh_Name x, wh_URL := wh_URL x, wh_Secret := wh_Secret x, wh_Events := wh_Events x,
       wh_IsActive := wh_IsActive x, wh_UpdatedAt := now\<rparr>) (webhook_fields now 0 0 b)"

definition webhook_row_update :: "webhook_config \<Rightarrow> webhook_config \<Rightarrow> webhook_config" where
  "webhook_row_update old r = old\<lparr>wh_Name := wh_Name r, wh_URL := wh_URL r, wh_Secret := wh_Secret r, wh_Events := wh_Events r,
     wh_IsActive := wh_IsActive r, wh_UpdatedAt := wh_UpdatedAt r\<rparr>"

definition CreateWebhook :: "gotime \<Rightarrow> int \<Rightarrow> int \<Rightarrow> json_object option \<Rightarrow> webhook_config ltable \<Rightarrow> webhook_config http_answer \<times> webhook_config ltable" where
  "CreateWebhook now nid who body = decoded body (webhook_fields now nid who) (create_record wh_ID)"

definition ListWebhooks :: "int \<Rightarrow> webhook_config ltable \<Rightarrow> (webhook_config list \<times> int) http_answer \<times> webhook_config ltable" where
  "ListWebhooks who = list_page (\<lambda>r. wh_TenantID r = who) (\<lambda>r. - wh_CreatedAt r)"

definition UpdateWebhook :: "gotime \<Rightarrow> int \<Rightarrow> string \<Rightarrow> json_object option \<Rightarrow> webhook_config ltable \<Rightarrow> webhook_config http_answer \<times> webhook_config ltable" where
  "UpdateWebhook now = edit_own wh_ID wh_TenantID webhook_row_update (webhook_edit now)"

definition DeleteWebhook :: "int \<Rightarrow> string \<Rightarrow> webhook_config ltable \<Rightarrow> unit http_answer \<times> webhook_config ltable" where
  "DeleteWebhook = delete_own wh_ID wh_TenantID"

subsection \<open>Text messages\<close>

definition sms_fields :: "gotime \<Rightarrow> int \<Rightarrow> int \<Rightarrow> json_object \<Rightarrow> sms_provider option" where
  "sms_fields now nid who b =
     (case (str_field ''provider'' b, str_field ''access_key_id'' b, str_field ''sign_name'' b, str_field ''template_map'' b, bool_field ''is_active'' b) of
        (Some provider, Some akey, Some sign, Some tmap, Some active) \<Rightarrow>
          Some \<lparr>sf_ID = nid, sf_TenantID = who, sf_Provider = provider, sf_AccessKeyID = akey, sf_SignName = sign, sf_TemplateMap = tmap,
                sf_IsActive = active, sf_CreatedAt = now, sf_UpdatedAt = now\<rparr>
      | _ \<Rightarrow> None)"

definition sms_edit :: "gotime \<Rightarrow> json_object \<Rightarrow> (sms_provider \<Rightarrow> sms_provider) option" where
  "sms_edit now b = map_option (\<lambda>x r. r\<lparr>sf_Provider := sf_Provider x, sf_AccessKeyID := sf_AccessKeyID x, sf_SignName := sf_SignName x,
       sf_TemplateMap := sf_TemplateMap x, sf_IsActive := sf_IsActive x, sf_UpdatedAt := now\<rparr>) (sms_fields now 0 0 b)"

definition sms_row_update :: "sms_provider \<Rightarrow> sms_provider \<Rightarrow> sms_provider" where
  "sms_row_update old r = old\<lparr>sf_Provider := sf_Provider r, sf_AccessKeyID := sf_AccessKeyID r, sf_SignName := sf_SignName r,
     sf_TemplateMap := sf_TemplateMap r, sf_IsActive := sf_IsActive r, sf_UpdatedAt := sf_UpdatedAt r\<rparr>"

definition CreateSms :: "gotime \<Rightarrow> int \<Rightarrow> int \<Rightarrow> json_object option \<Rightarrow> sms_provider ltable \<Rightarrow> sms_provider http_answer \<times> sms_provider ltable" where
  "CreateSms now nid who body = decoded body (sms_fields now nid who) (create_record sf_ID)"

definition ListSms :: "int \<Rightarrow> sms_provider ltable \<Rightarrow> (sms_provider list \<times> int) http_answer \<times> sms_provider ltable" where
  "ListSms who = list_page (\<lambda>r. sf_TenantID r = who) (\<lambda>r. - sf_CreatedAt r)"

definition UpdateSms :: "gotime \<Rightarrow> int \<Rightarrow> string \<Rightarrow> json_object option \<Rightarrow> sms_provider ltable \<Rightarrow> sms_provider http_answer \<times> sms_provider ltable" where
  "UpdateSms now = edit_own sf_ID sf_TenantID sms_row_update (sms_edit now)"

definition DeleteSms :: "int \<Rightarrow> string \<Rightarrow> sms_provider ltable \<Rightarrow> unit http_answer \<times> sms_provider ltable" where
  "DeleteSms = delete_own sf_ID sf_TenantID"

text \<open>
  \<open>sms.Service.Send\<close>: the first active one of the ten latest configurations. \<open>parse\<close> reads the JSON of its templates; \<open>sender\<close> is the provider's
  client, given the signature, the template, the number and the parameters.
\<close>

datatype sms_error = SmsList | SmsNoConfig | SmsTemplates | SmsUnknownTemplate | SmsSend string

definition SendSms ::
  "(string \<Rightarrow> (string \<rightharpoonup> string) option) \<Rightarrow> (string \<Rightarrow> string \<Rightarrow> string \<Rightarrow> 'p \<Rightarrow> string option) \<Rightarrow> int \<Rightarrow> string \<Rightarrow> string \<Rightarrow> 'p \<Rightarrow>
   (sms_provider ltable, sms_error, unit) act" where
  "SendSms parse sender who phone code params =
     bind_a (wrap_a (\<lambda>_. SmsList) (page_of (\<lambda>r. sf_TenantID r = who) (\<lambda>r. - sf_CreatedAt r) 10)) (\<lambda>(cfgs, _).
       case find sf_IsActive cfgs of
         None \<Rightarrow> throw_a SmsNoConfig
       | Some cfg \<Rightarrow> (case parse (sf_TemplateMap cfg) of
           None \<Rightarrow> throw_a SmsTemplates
         | Some templates \<Rightarrow> (case templates code of
             None \<Rightarrow> throw_a SmsUnknownTemplate
           | Some template \<Rightarrow> (case sender (sf_SignName cfg) template phone params of None \<Rightarrow> ret_a () | Some e \<Rightarrow> throw_a (SmsSend e)))))"

subsection \<open>Screen pops\<close>

definition pop_fields :: "gotime \<Rightarrow> int \<Rightarrow> int \<Rightarrow> json_object \<Rightarrow> pop_config option" where
  "pop_fields now nid who b =
     (case (str_field ''name'' b, str_field ''url_template'' b, int_field ''position'' b, bool_field ''is_active'' b) of
        (Some name, Some url, Some pos, Some active) \<Rightarrow>
          Some \<lparr>pf_ID = nid, pf_TenantID = who, pf_Name = name, pf_URLTemplate = url, pf_Position = pos, pf_IsActive = active,
                pf_CreatedAt = now, pf_UpdatedAt = now\<rparr>
      | _ \<Rightarrow> None)"

definition pop_edit :: "gotime \<Rightarrow> json_object \<Rightarrow> (pop_config \<Rightarrow> pop_config) option" where
  "pop_edit now b = map_option (\<lambda>x r. r\<lparr>pf_Name := pf_Name x, pf_URLTemplate := pf_URLTemplate x, pf_Position := pf_Position x,
       pf_IsActive := pf_IsActive x, pf_UpdatedAt := now\<rparr>) (pop_fields now 0 0 b)"

definition pop_row_update :: "pop_config \<Rightarrow> pop_config \<Rightarrow> pop_config" where
  "pop_row_update old r = old\<lparr>pf_Name := pf_Name r, pf_URLTemplate := pf_URLTemplate r, pf_Position := pf_Position r,
     pf_IsActive := pf_IsActive r, pf_UpdatedAt := pf_UpdatedAt r\<rparr>"

definition CreatePop :: "gotime \<Rightarrow> int \<Rightarrow> int \<Rightarrow> json_object option \<Rightarrow> pop_config ltable \<Rightarrow> pop_config http_answer \<times> pop_config ltable" where
  "CreatePop now nid who body = decoded body (pop_fields now nid who) (create_record pf_ID)"

definition ListPops :: "int \<Rightarrow> pop_config ltable \<Rightarrow> (pop_config list \<times> int) http_answer \<times> pop_config ltable" where
  "ListPops who = list_page (\<lambda>r. pf_TenantID r = who) pf_Position"

definition UpdatePop :: "gotime \<Rightarrow> int \<Rightarrow> string \<Rightarrow> json_object option \<Rightarrow> pop_config ltable \<Rightarrow> pop_config http_answer \<times> pop_config ltable" where
  "UpdatePop now = edit_own pf_ID pf_TenantID pop_row_update (pop_edit now)"

definition DeletePop :: "int \<Rightarrow> string \<Rightarrow> pop_config ltable \<Rightarrow> unit http_answer \<times> pop_config ltable" where
  "DeletePop = delete_own pf_ID pf_TenantID"

subsection \<open>Quick replies\<close>

definition reply_fields :: "gotime \<Rightarrow> int \<Rightarrow> int \<Rightarrow> json_object \<Rightarrow> quick_reply option" where
  "reply_fields now nid who b =
     (case (str_field ''scope'' b, int_ptr_field ''scope_id'' b, str_field ''title'' b, str_field ''content'' b, str_field ''shortcut'' b,
            int_field ''sort_order'' b, bool_field ''is_active'' b) of
        (Some scope, Some sid, Some title, Some content, Some shortcut, Some so, Some active) \<Rightarrow>
          Some \<lparr>qk_ID = nid, qk_TenantID = who, qk_Scope = scope, qk_ScopeID = sid, qk_Title = title, qk_Content = content, qk_Shortcut = shortcut,
                qk_SortOrder = so, qk_IsActive = active, qk_CreatedAt = now, qk_UpdatedAt = now\<rparr>
      | _ \<Rightarrow> None)"

text \<open>The scope is not among the fields of an update.\<close>

definition reply_edit :: "gotime \<Rightarrow> json_object \<Rightarrow> (quick_reply \<Rightarrow> quick_reply) option" where
  "reply_edit now b =
     (case (str_field ''title'' b, str_field ''content'' b, str_field ''shortcut'' b, int_field ''sort_order'' b, bool_field ''is_active'' b) of
        (Some title, Some content, Some shortcut, Some so, Some active) \<Rightarrow>
          Some (\<lambda>r. r\<lparr>qk_Title := title, qk_Content := content, qk_Shortcut := shortcut, qk_SortOrder := so, qk_IsActive := active, qk_UpdatedAt := now\<rparr>)
      | _ \<Rightarrow> None)"

definition reply_row_update :: "quick_reply \<Rightarrow> quick_reply \<Rightarrow> quick_reply" where
  "reply_row_update old r = old\<lparr>qk_Title := qk_Title r, qk_Content := qk_Content r, qk_Shortcut := qk_Shortcut r,
     qk_SortOrder := qk_SortOrder r, qk_IsActive := qk_IsActive r, qk_UpdatedAt := qk_UpdatedAt r\<rparr>"

definition CreateReply :: "gotime \<Rightarrow> int \<Rightarrow> int \<Rightarrow> json_object option \<Rightarrow> quick_reply ltable \<Rightarrow> quick_reply http_answer \<times> quick_reply ltable" where
  "CreateReply now nid who body = decoded body (reply_fields now nid who) (create_record qk_ID)"

definition ListReplies :: "int \<Rightarrow> quick_reply ltable \<Rightarrow> (quick_reply list \<times> int) http_answer \<times> quick_reply ltable" where
  "ListReplies who = list_page (\<lambda>r. qk_TenantID r = who) qk_SortOrder"

definition UpdateReply :: "gotime \<Rightarrow> int \<Rightarrow> string \<Rightarrow> json_object option \<Rightarrow> quick_reply ltable \<Rightarrow> quick_reply http_answer \<times> quick_reply ltable" where
  "UpdateReply now = edit_own qk_ID qk_TenantID reply_row_update (reply_edit now)"

definition DeleteReply :: "int \<Rightarrow> string \<Rightarrow> quick_reply ltable \<Rightarrow> unit http_answer \<times> quick_reply ltable" where
  "DeleteReply = delete_own qk_ID qk_TenantID"

text \<open>\<open>ListAvailable\<close>; the handler asks for no agent and no group.\<close>

definition ListAvailable :: "int \<Rightarrow> int option \<Rightarrow> int option \<Rightarrow> (quick_reply ltable, string, quick_reply list) act" where
  "ListAvailable who agent grp =
     bind_a (sel_all (\<lambda>r. qk_TenantID r = who \<and> qk_IsActive r \<and> (qk_Scope r = ''global'' \<or>
         (agent \<noteq> None \<and> qk_Scope r = ''agent'' \<and> qk_ScopeID r = agent) \<or> (grp \<noteq> None \<and> qk_Scope r = ''skill_group'' \<and> qk_ScopeID r = grp))))
       (\<lambda>rs. ret_a (sort_key qk_SortOrder rs))"

definition AvailableReplies :: "int \<Rightarrow> quick_reply ltable \<Rightarrow> quick_reply list http_answer \<times> quick_reply ltable" where
  "AvailableReplies who = respond 500 200 id (ListAvailable who None None)"

end
