(* ===== verification/IntegrationsProps.thy ===== *)
theory IntegrationsProps
  imports Integrations SettingsProps
begin

text \<open>
  The settings of integrations are kept apart by tenant: what a request changes and what it shows belongs to the tenant that sends it.
\<close>

section \<open>Requests\<close>

record integrations =
  in_hooks :: "webhook_config ltable"
  in_sms :: "sms_provider ltable"
  in_pops :: "pop_config ltable"
  in_replies :: "quick_reply ltable"

datatype integration = HookRow webhook_config | SmsRow sms_provider | PopRow pop_config | ReplyRow quick_reply

fun tenant_of :: "integration \<Rightarrow> int" where
  "tenant_of (HookRow x) = wh_TenantID x"
| "tenant_of (SmsRow x) = sf_TenantID x"
| "tenant_of (PopRow x) = pf_TenantID x"
| "tenant_of (ReplyRow x) = qk_TenantID x"

datatype integration_kind = Webhooks | Sms | Pops | Replies

datatype integration_op = AddIt | ListIt | EditIt | DropIt | AvailableIt

record integration_req =
  iq_kind :: integration_kind
  iq_op :: integration_op
  iq_now :: gotime
  iq_id :: int
  iq_tenant :: int
  iq_path :: string
  iq_body :: "json_object option"

text \<open>The records an answer shows.\<close>

definition shown_of :: "('a \<Rightarrow> integration list) \<Rightarrow> 'a http_answer \<times> 't \<Rightarrow> integration list \<times> 't" where
  "shown_of f r = (case r of (Failure _, t) \<Rightarrow> ([], t) | (Success _ a, t) \<Rightarrow> (f a, t))"

definition hooks_req :: "integration_req \<Rightarrow> webhook_config ltable \<Rightarrow> integration list \<times> webhook_config ltable" where
  "hooks_req q t = (case iq_op q of
     AddIt \<Rightarrow> shown_of (\<lambda>x. [HookRow x]) (CreateWebhook (iq_now q) (iq_id q) (iq_tenant q) (iq_body q) t)
   | ListIt \<Rightarrow> shown_of (\<lambda>(xs, _). map HookRow xs) (ListWebhooks (iq_tenant q) t)
   | EditIt \<Rightarrow> shown_of (\<lambda>x. [HookRow x]) (UpdateWebhook (iq_now q) (iq_tenant q) (iq_path q) (iq_body q) t)
   | DropIt \<Rightarrow> shown_of (\<lambda>_. []) (DeleteWebhook (iq_tenant q) (iq_path q) t)
   | AvailableIt \<Rightarrow> ([], t))"

definition sms_req :: "integration_req \<Rightarrow> sms_provider ltable \<Rightarrow> integration list \<times> sms_provider ltable" where
  "sms_req q t = (case iq_op q of
     AddIt \<Rightarrow> shown_of (\<lambda>x. [SmsRow x]) (CreateSms (iq_now q) (iq_id q) (iq_tenant q) (iq_body q) t)
   | ListIt \<Rightarrow> shown_of (\<lambda>(xs, _). map SmsRow xs) (ListSms (iq_tenant q) t)
   | EditIt \<Rightarrow> shown_of (\<lambda>x. [SmsRow x]) (UpdateSms (iq_now q) (iq_tenant q) (iq_path q) (iq_body q) t)
   | DropIt \<Rightarrow> shown_of (\<lambda>_. []) (DeleteSms (iq_tenant q) (iq_path q) t)
   | AvailableIt \<Rightarrow> ([], t))"

definition pops_req :: "integration_req \<Rightarrow> pop_config ltable \<Rightarrow> integration list \<times> pop_config ltable" where
  "pops_req q t = (case iq_op q of
     AddIt \<Rightarrow> shown_of (\<lambda>x. [PopRow x]) (CreatePop (iq_now q) (iq_id q) (iq_tenant q) (iq_body q) t)
   | ListIt \<Rightarrow> shown_of (\<lambda>(xs, _). map PopRow xs) (ListPops (iq_tenant q) t)
   | EditIt \<Rightarrow> shown_of (\<lambda>x. [PopRow x]) (UpdatePop (iq_now q) (iq_tenant q) (iq_path q) (iq_body q) t)
   | DropIt \<Rightarrow> shown_of (\<lambda>_. []) (DeletePop (iq_tenant q) (iq_path q) t)
   | AvailableIt \<Rightarrow> ([], t))"

definition replies_req :: "integration_req \<Rightarrow> quick_reply ltable \<Rightarrow> integration list \<times> quick_reply ltable" where
  "replies_req q t = (case iq_op q of
     AddIt \<Rightarrow> shown_of (\<lambda>x. [ReplyRow x]) (CreateReply (iq_now q) (iq_id q) (iq_tenant q) (iq_body q) t)
   | ListIt \<Rightarrow> shown_of (\<lambda>(xs, _). map ReplyRow xs) (ListReplies (iq_tenant q) t)
   | EditIt \<Rightarrow> shown_of (\<lambda>x. [ReplyRow x]) (UpdateReply (iq_now q) (iq_tenant q) (iq_path q) (iq_body q) t)
   | DropIt \<Rightarrow> shown_of (\<lambda>_. []) (DeleteReply (iq_tenant q) (iq_path q) t)
   | AvailableIt \<Rightarrow> shown_of (map ReplyRow) (AvailableReplies (iq_tenant q) t))"

definition integrations_req :: "integration_req \<Rightarrow> integrations \<Rightarrow> integration list \<times> integrations" where
  "integrations_req q s = (case iq_kind q of
     Webhooks \<Rightarrow> (case hooks_req q (in_hooks s) of (xs, t) \<Rightarrow> (xs, s\<lparr>in_hooks := t\<rparr>))
   | Sms \<Rightarrow> (case sms_req q (in_sms s) of (xs, t) \<Rightarrow> (xs, s\<lparr>in_sms := t\<rparr>))
   | Pops \<Rightarrow> (case pops_req q (in_pops s) of (xs, t) \<Rightarrow> (xs, s\<lparr>in_pops := t\<rparr>))
   | Replies \<Rightarrow> (case replies_req q (in_replies s) of (xs, t) \<Rightarrow> (xs, s\<lparr>in_replies := t\<rparr>)))"

definition integrations_run :: "integration_req list \<Rightarrow> integrations \<Rightarrow> integrations" where
  "integrations_run qs s = foldl (\<lambda>s q. snd (integrations_req q s)) s qs"

text \<open>The rows of a tenant in the four tables, and the primary keys.\<close>

definition rows_owned :: "('r \<Rightarrow> int) \<Rightarrow> int \<Rightarrow> 'r ltable \<Rightarrow> 'r list" where
  "rows_owned tenant who t = filter (\<lambda>r. tenant r = who) (lrows t)"

definition of_tenant :: "int \<Rightarrow> integrations \<Rightarrow> integration list" where
  "of_tenant who s = map HookRow (rows_owned wh_TenantID who (in_hooks s)) @ map SmsRow (rows_owned sf_TenantID who (in_sms s)) @
     map PopRow (rows_owned pf_TenantID who (in_pops s)) @ map ReplyRow (rows_owned qk_TenantID who (in_replies s))"

definition keys_unique :: "integrations \<Rightarrow> bool" where
  "keys_unique s \<longleftrightarrow> distinct (map wh_ID (lrows (in_hooks s))) \<and> distinct (map sf_ID (lrows (in_sms s))) \<and>
     distinct (map pf_ID (lrows (in_pops s))) \<and> distinct (map qk_ID (lrows (in_replies s)))"

section \<open>One table\<close>

text \<open>What a request of a tenant may do to a table, and show.\<close>

definition own_step :: "('r \<Rightarrow> int) \<Rightarrow> ('r \<Rightarrow> int) \<Rightarrow> int \<Rightarrow> ('r \<Rightarrow> integration) \<Rightarrow> 'r ltable \<Rightarrow> integration list \<times> 'r ltable \<Rightarrow> bool" where
  "own_step key tenant who C t r \<longleftrightarrow> (distinct (map key (lrows t)) \<longrightarrow>
     distinct (map key (lrows (snd r))) \<and> (\<forall>other. other \<noteq> who \<longrightarrow> rows_owned tenant other (snd r) = rows_owned tenant other t)) \<and>
     set (fst r) \<subseteq> C ` {y. tenant y = who}"

lemma own_step_same: "lrows t' = lrows t \<Longrightarrow> own_step key tenant who C t ([], t')"
  by (simp add: own_step_def rows_owned_def)

lemma own_stepI:
  assumes "distinct (map key (lrows t)) \<Longrightarrow> distinct (map key (lrows t'))"
    and "\<And>other. distinct (map key (lrows t)) \<Longrightarrow> other \<noteq> who \<Longrightarrow> rows_owned tenant other t' = rows_owned tenant other t"
    and "set xs \<subseteq> C ` {y. tenant y = who}"
  shows "own_step key tenant who C t (xs, t')"
  using assms by (auto simp: own_step_def)

lemma filter_others: "\<forall>r \<in> set rs. P r \<longrightarrow> Q r \<and> Q (f r) \<or> \<not> Q r \<and> \<not> Q (f r) \<Longrightarrow> \<forall>r \<in> set rs. P r \<longrightarrow> \<not> Q r \<Longrightarrow>
    filter Q (map (\<lambda>r. if P r then f r else r) rs) = filter Q rs"
  by (induction rs) auto

locale own_records = tenant_records +
  fixes fields :: "gotime \<Rightarrow> int \<Rightarrow> int \<Rightarrow> json_object \<Rightarrow> 'a option" and edit :: "gotime \<Rightarrow> json_object \<Rightarrow> ('a \<Rightarrow> 'a) option"
  assumes fields_own: "fields now nid who b = Some x \<Longrightarrow> tenant x = who"
    and edit_own: "edit now b = Some f \<Longrightarrow> key (f r) = key r \<and> tenant (f r) = tenant r"
begin

lemma create_step: "own_step key tenant who C t (shown_of (\<lambda>x. [C x]) (decoded body (fields now nid who) (create_record key) t))"
proof (cases "Option.bind body (fields now nid who)")
  case None
  then show ?thesis by (simp add: decoded_def shown_of_def own_step_same)
next
  case (Some x)
  then have x: "tenant x = who" by (cases body) (auto dest: fields_own)
  have "(\<exists>c t'. create_record key x t = (Failure c, t') \<and> lrows t' = lrows t) \<or>
      (\<exists>c t'. create_record key x t = (Success c x, t') \<and> lrows t' = lrows t @ [x] \<and> key x \<notin> key ` set (lrows t))"
    by (auto simp: create_record_def respond_def ins_row_def on_link_def lrow_def find_None_iff split: list.split)
  with Some x show ?thesis
    by (auto simp: decoded_def shown_of_def own_step_same rows_owned_def intro!: own_stepI)
qed

lemma own_row_cases:
  obtains e t' where "own_row key tenant who p t = (Inl e, t')" "lrows t' = lrows t"
  | x t' where "own_row key tenant who p t = (Inr x, t')" "lrows t' = lrows t" "x \<in> set (lrows t)" "tenant x = who" "key x = path_id p"
proof -
  have "lrows (snd (own_row key tenant who p t)) = lrows t \<and>
      (\<forall>x. fst (own_row key tenant who p t) = Inr x \<longrightarrow> x \<in> set (lrows t) \<and> tenant x = who \<and> key x = path_id p)"
    by (auto simp: own_row_def get_row_def act_run sel_row_def on_link_def lrow_def find_Some_iff split: list.split option.split)
  with that show ?thesis by (cases "own_row key tenant who p t"; cases "fst (own_row key tenant who p t)") auto
qed

lemma edit_step: "own_step key tenant who C t (shown_of (\<lambda>x. [C x]) (Integrations.edit_own key tenant kept (edit now) who p body t))"
proof (cases rule: own_row_cases [of who p t])
  case (1 e t')
  then show ?thesis by (simp add: Integrations.edit_own_def shown_of_def own_step_same)
next
  case (2 x t')
  note own = this
  show ?thesis
  proof (cases "Option.bind body (edit now)")
    case None
    with own show ?thesis by (simp add: Integrations.edit_own_def decoded_def shown_of_def own_step_same)
  next
    case (Some f)
    then have f: "key (f r) = key r" "tenant (f r) = tenant r" for r by (cases body; auto dest: edit_own)+
    let ?new = "map (\<lambda>r. if key r = key (f x) then kept r (f x) else r) (lrows t)"
    have "(\<exists>c t''. write_record key kept (f x) t' = (Failure c, t'') \<and> lrows t'' = lrows t) \<or>
        (\<exists>c t''. write_record key kept (f x) t' = (Success c (f x), t'') \<and> lrows t'' = ?new)"
      using own(2) by (auto simp: write_record_def respond_def upd_rows_def on_link_def split: list.split)
    moreover have "map key ?new = map key (lrows t)" by (simp add: kept_key)
    moreover have "filter (\<lambda>r. tenant r = other) ?new = filter (\<lambda>r. tenant r = other) (lrows t)"
      if "distinct (map key (lrows t))" "other \<noteq> who" for other
    proof (rule filter_others; intro ballI impI)
      fix r assume r: "r \<in> set (lrows t)" "key r = key (f x)"
      with own(3) that(1) f(1) have "r = x" by (simp add: distinct_map inj_on_def)
      with own(4) that(2) show "\<not> tenant r = other" by simp
      then show "tenant r = other \<and> tenant (kept r (f x)) = other \<or> tenant r \<noteq> other \<and> tenant (kept r (f x)) \<noteq> other" by (simp add: kept_tenant)
    qed
    ultimately show ?thesis using own Some f
      by (auto simp: Integrations.edit_own_def decoded_def shown_of_def own_step_same rows_owned_def simp del: map_map intro!: own_stepI)
  qed
qed

lemma delete_step: "own_step key tenant who C t (shown_of (\<lambda>_. []) (delete_own key tenant who p t))"
proof (cases rule: own_row_cases [of who p t])
  case (1 e t')
  then show ?thesis by (simp add: delete_own_def shown_of_def own_step_same)
next
  case (2 x t')
  have "(\<exists>c t''. delete_record key p t' = (Failure c, t'') \<and> lrows t'' = lrows t) \<or>
      (\<exists>c t''. delete_record key p t' = (Success c (), t'') \<and> lrows t'' = filter (\<lambda>r. key r \<noteq> path_id p) (lrows t))"
    using 2(2) by (auto simp: delete_record_def respond_def del_rows_def on_link_def split: list.split)
  moreover have "filter (\<lambda>r. tenant r = other) (filter (\<lambda>r. key r \<noteq> path_id p) (lrows t)) = filter (\<lambda>r. tenant r = other) (lrows t)"
    if "distinct (map key (lrows t))" "other \<noteq> who" for other
  proof -
    have "key r \<noteq> path_id p" if "r \<in> set (lrows t)" "tenant r = other" for r
      using that 2(3-5) \<open>distinct (map key (lrows t))\<close> \<open>other \<noteq> who\<close> by (auto simp: distinct_map inj_on_def)
    then show ?thesis by (auto simp: filter_filter intro: filter_cong)
  qed
  ultimately show ?thesis using 2
    by (auto simp: delete_own_def shown_of_def own_step_same rows_owned_def intro!: own_stepI distinct_map_filter)
qed

lemma list_step: "own_step key tenant who C t (shown_of (\<lambda>(xs, _). map C xs) (list_page (\<lambda>r. tenant r = who) rank t))"
proof -
  have "set (take 50 (sort_key rank (filter (\<lambda>r. tenant r = who) (lrows t)))) \<subseteq> {y. tenant y = who}" by (auto dest: in_set_takeD)
  then show ?thesis
    by (auto simp: list_page_def page_of_def respond_def act_run sel_all_def on_link_def shown_of_def own_step_def rows_owned_def split: list.split)
qed

end

interpretation hooks: own_records wh_ID wh_TenantID webhook_row_update webhook_fields webhook_edit
  by unfold_locales (auto simp: webhook_row_update_def webhook_fields_def webhook_edit_def split: option.splits)

interpretation texts: own_records sf_ID sf_TenantID sms_row_update sms_fields sms_edit
  by unfold_locales (auto simp: sms_row_update_def sms_fields_def sms_edit_def split: option.splits)

interpretation pops: own_records pf_ID pf_TenantID pop_row_update pop_fields pop_edit
  by unfold_locales (auto simp: pop_row_update_def pop_fields_def pop_edit_def split: option.splits)

interpretation replies: own_records qk_ID qk_TenantID reply_row_update reply_fields reply_edit
  by unfold_locales (auto simp: reply_row_update_def reply_fields_def reply_edit_def split: option.splits)

section \<open>All of them\<close>

lemma hooks_own: "own_step wh_ID wh_TenantID (iq_tenant q) HookRow t (hooks_req q t)"
  by (cases "iq_op q") (simp_all add: hooks_req_def CreateWebhook_def ListWebhooks_def UpdateWebhook_def DeleteWebhook_def own_step_same
      hooks.create_step hooks.list_step hooks.edit_step hooks.delete_step)

lemma texts_own: "own_step sf_ID sf_TenantID (iq_tenant q) SmsRow t (sms_req q t)"
  by (cases "iq_op q") (simp_all add: sms_req_def CreateSms_def ListSms_def UpdateSms_def DeleteSms_def own_step_same
      texts.create_step texts.list_step texts.edit_step texts.delete_step)

lemma pops_own: "own_step pf_ID pf_TenantID (iq_tenant q) PopRow t (pops_req q t)"
  by (cases "iq_op q") (simp_all add: pops_req_def CreatePop_def ListPops_def UpdatePop_def DeletePop_def own_step_same
      pops.create_step pops.list_step pops.edit_step pops.delete_step)

lemma available_own: "own_step qk_ID qk_TenantID who ReplyRow t (shown_of (map ReplyRow) (AvailableReplies who t))"
  by (auto simp: AvailableReplies_def ListAvailable_def respond_def act_run sel_all_def on_link_def shown_of_def own_step_def rows_owned_def split: list.split)

lemma replies_own: "own_step qk_ID qk_TenantID (iq_tenant q) ReplyRow t (replies_req q t)"
  by (cases "iq_op q") (simp_all add: replies_req_def CreateReply_def ListReplies_def UpdateReply_def DeleteReply_def available_own
      replies.create_step replies.list_step replies.edit_step replies.delete_step)

lemma request_own:
  assumes "keys_unique s" "integrations_req q s = (xs, s')"
  shows "keys_unique s' \<and> (\<forall>other. other \<noteq> iq_tenant q \<longrightarrow> of_tenant other s' = of_tenant other s) \<and> (\<forall>x \<in> set xs. tenant_of x = iq_tenant q)"
  using assms hooks_own [of q "in_hooks s"] texts_own [of q "in_sms s"] pops_own [of q "in_pops s"] replies_own [of q "in_replies s"]
  by (cases "iq_kind q") (auto simp: integrations_req_def keys_unique_def of_tenant_def own_step_def split: prod.splits)

lemma run_unique: "keys_unique s \<Longrightarrow> keys_unique (integrations_run qs s)"
proof (induction qs rule: rev_induct)
  case (snoc q qs)
  then show ?case using request_own [of "integrations_run qs s" q] by (auto simp: integrations_run_def) (metis prod.collapse)
qed (simp add: integrations_run_def)

text \<open>
  C39. Along any requests of any tenants to webhooks, text messages, screen pops and quick replies, with any failures of the database: a request changes no row of another tenant,
  whatever id its path and whatever body it has, and its answer shows rows of its own tenant only.
\<close>

theorem tenants_apart:
  assumes "keys_unique s" and "integrations_req q (integrations_run qs s) = (answer, s')"
  shows "(\<forall>other. other \<noteq> iq_tenant q \<longrightarrow> of_tenant other s' = of_tenant other (integrations_run qs s)) \<and> (\<forall>x \<in> set answer. tenant_of x = iq_tenant q)"
  using request_own [OF run_unique [OF assms(1)] assms(2)] by blast

text \<open>A text message goes out with a configuration of the tenant that is active, and for a template it names.\<close>

lemma sms_from_own_config:
  assumes "SendSms parse sender who phone code params t = (Inr (), t')"
  obtains cfg templates template where "cfg \<in> set (rows_owned sf_TenantID who t)" "sf_IsActive cfg" "parse (sf_TemplateMap cfg) = Some templates"
    "templates code = Some template" "sender (sf_SignName cfg) template phone params = None"
proof -
  obtain cfgs c t1 where page: "page_of (\<lambda>r. sf_TenantID r = who) (\<lambda>r. - sf_CreatedAt r) 10 t = (Inr (cfgs, c), t1)"
    using assms by (auto simp: SendSms_def act_run split: sum.splits prod.splits)
  then have own: "set cfgs \<subseteq> set (rows_owned sf_TenantID who t)"
    by (auto simp: page_of_def act_run sel_all_def on_link_def rows_owned_def dest: in_set_takeD split: list.splits if_splits)
  from page assms obtain cfg where f: "find sf_IsActive cfgs = Some cfg"
    by (auto simp: SendSms_def act_run split: option.splits)
  then have "cfg \<in> set cfgs" "sf_IsActive cfg" by (auto simp: find_Some_iff)
  with own page assms f that show ?thesis by (auto simp: SendSms_def act_run split: option.splits)
qed

text \<open>A quick reply of an agent or of a skill group is never offered: the handler asks for neither.\<close>

lemma scoped_reply_never_offered:
  assumes "fst (AvailableReplies who t) = Success code rs" "r \<in> set rs"
  shows "qk_Scope r = ''global''"
  using assms by (auto simp: AvailableReplies_def ListAvailable_def respond_def act_run sel_all_def on_link_def split: list.splits if_splits)

section \<open>Witness\<close>

definition pop1 :: pop_config where
  "pop1 = \<lparr>pf_ID = 4, pf_TenantID = 2, pf_Name = ''crm'', pf_URLTemplate = ''http://crm/?c=${caller}'', pf_Position = 1, pf_IsActive = True,
     pf_CreatedAt = 0, pf_UpdatedAt = 0\<rparr>"

definition desk1 :: integrations where
  "desk1 = \<lparr>in_hooks = \<lparr>lrows = [], loutages = []\<rparr>, in_sms = \<lparr>lrows = [], loutages = []\<rparr>, in_pops = \<lparr>lrows = [pop1], loutages = []\<rparr>,
     in_replies = \<lparr>lrows = [], loutages = []\<rparr>\<rparr>"

text \<open>Tenant 7 tries to delete the screen pop of tenant 2.\<close>

definition foreign_delete :: integration_req where
  "foreign_delete = \<lparr>iq_kind = Pops, iq_op = DropIt, iq_now = 9, iq_id = 0, iq_tenant = 7, iq_path = ''4'', iq_body = None\<rparr>"

theorem tenants_apart_witness: "of_tenant 2 (snd (integrations_req foreign_delete desk1)) = [PopRow pop1]"
proof -
  have k: "keys_unique desk1" by (simp add: keys_unique_def desk1_def)
  have "integrations_req foreign_delete (integrations_run [] desk1) =
      (fst (integrations_req foreign_delete desk1), snd (integrations_req foreign_delete desk1))" by (simp add: integrations_run_def)
  from tenants_apart [OF k this]
  have "of_tenant 2 (snd (integrations_req foreign_delete desk1)) = of_tenant 2 (integrations_run [] desk1)"
    by (simp add: foreign_delete_def)
  then show ?thesis by (simp add: integrations_run_def of_tenant_def desk1_def rows_owned_def pop1_def)
qed

end
