(* ===== verification/ScreenPop.thy ===== *)
theory ScreenPop
  imports Integrations Crm CallEntity
begin

text \<open>
  What an agent's screen shows with a call (\<open>application/screenpop/service.go\<close>): addresses made from the tenant's templates, the customer with the
  number, and what the caller told the IVR, which \<open>infrastructure/redis/ivr_context.go\<close> keeps for an hour; and the look-up of
  \<open>interfaces/http/handler/phone_extras.go\<close>.
\<close>

section \<open>The IVR context of a call\<close>

text \<open>An entry of Redis with the time it ends; commands may fail.\<close>

record context_store =
  ct_entries :: "int \<rightharpoonup> string \<times> gotime"
  ct_outages :: "bool list"

definition contextTTL :: int where "contextTTL = 3600 * second"

definition ctx_cmd :: "(context_store, string, 'a) act \<Rightarrow> (context_store, string, 'a) act" where
  "ctx_cmd m t =
     (case ct_outages t of
        [] \<Rightarrow> m t
      | down # rest \<Rightarrow> if down then (Inl ''redis: connection lost'', t\<lparr>ct_outages := rest\<rparr>) else m (t\<lparr>ct_outages := rest\<rparr>))"

text \<open>\<open>marshal\<close> and \<open>unmarshal\<close>: \<open>encoding/json\<close> on a map of strings.\<close>

definition SaveContext :: "((string \<rightharpoonup> string) \<Rightarrow> string) \<Rightarrow> gotime \<Rightarrow> int \<Rightarrow> (string \<rightharpoonup> string) \<Rightarrow> (context_store, string, unit) act" where
  "SaveContext marshal now k vars =
     (if dom vars = {} then ret_a ()
      else ctx_cmd (\<lambda>t. (Inr (), t\<lparr>ct_entries := (ct_entries t)(k \<mapsto> (marshal vars, now + contextTTL))\<rparr>)))"

definition LoadContext :: "(string \<Rightarrow> (string \<rightharpoonup> string) option) \<Rightarrow> gotime \<Rightarrow> int \<Rightarrow> (context_store, string, (string \<rightharpoonup> string) option) act" where
  "LoadContext unmarshal now k =
     ctx_cmd (\<lambda>t. case ct_entries t k of
        None \<Rightarrow> (Inr None, t)
      | Some (d, end_at) \<Rightarrow> if end_at \<le> now then (Inr None, t)
          else (case unmarshal d of None \<Rightarrow> (Inl ''invalid JSON'', t) | Some vars \<Rightarrow> (Inr (Some vars), t)))"

section \<open>Templates\<close>

text \<open>
  \<open>strings.NewReplacer\<close> and \<open>Replace\<close>: at each place the first pair whose text begins here is written in its place, and what is written is not
  looked at again.
\<close>

function replacer :: "(string \<times> string) list \<Rightarrow> string \<Rightarrow> string" where
  "replacer ps [] = []"
| "replacer ps (c # cs) = (case find (\<lambda>(k, v). strings_HasPrefix (c # cs) k) ps of
     None \<Rightarrow> c # replacer ps cs
   | Some (k, v) \<Rightarrow> v @ replacer ps (drop (length k - 1) cs))"
  by pat_completeness auto
termination by (relation "measure (\<lambda>(ps, s). length s)") auto

record call_info =
  ki_CallID :: int
  ki_Caller :: string
  ki_Callee :: string
  ki_Direction :: string
  ki_SkillGroupID :: "int option"
  ki_AgentUserID :: "int option"

definition pop_pairs :: "call_info \<Rightarrow> (string \<times> string) list" where
  "pop_pairs info =
     [(''${call_id}'', itoa (ki_CallID info)), (''${caller}'', ki_Caller info), (''${callee}'', ki_Callee info), (''${direction}'', ki_Direction info)] @
     (case ki_SkillGroupID info of None \<Rightarrow> [] | Some g \<Rightarrow> [(''${skill_group_id}'', itoa g)]) @
     (case ki_AgentUserID info of None \<Rightarrow> [] | Some a \<Rightarrow> [(''${agent_user_id}'', itoa a)])"

definition substitute :: "string \<Rightarrow> call_info \<Rightarrow> string" where
  "substitute tmpl info = replacer (pop_pairs info) tmpl"

section \<open>The data of a pop\<close>

record pop_data =
  pd_URLs :: "string list"
  pd_Customer :: "customer option"
  pd_Phones :: "customer_phone list"
  pd_Interactions :: "interaction list"
  pd_IVRContext :: "(string \<rightharpoonup> string) option"

record pop_world =
  pw_configs :: "pop_config ltable"
  pw_crm :: crm_world
  pw_context :: context_store

text \<open>The program's own set-up: \<open>unmarshal\<close>, the row a join without an order gives first, and the order of the contacts.\<close>

record pop_env =
  pe_unmarshal :: "string \<Rightarrow> (string \<rightharpoonup> string) option"
  pe_pick :: "customer list \<Rightarrow> customer"
  pe_latest_first :: "interaction list \<Rightarrow> interaction list"

abbreviation on_pop_crm :: "(crm_world, 'e, 'a) act \<Rightarrow> (pop_world, 'e, 'a) act" where
  "on_pop_crm m \<equiv> zoom_a pw_crm (\<lambda>d w. w\<lparr>pw_crm := d\<rparr>) m"

text \<open>The context, when it can be read and is not empty.\<close>

definition pop_context :: "pop_env \<Rightarrow> gotime \<Rightarrow> call_info \<Rightarrow> (pop_world, 'e, (string \<rightharpoonup> string) option) act" where
  "pop_context E now info =
     (if ki_CallID info \<le> 0 then ret_a None
      else try_a (zoom_a pw_context (\<lambda>d w. w\<lparr>pw_context := d\<rparr>) (LoadContext (pe_unmarshal E) now (ki_CallID info)))
        (\<lambda>r. ret_a (case r of Inr (Some vars) \<Rightarrow> if dom vars = {} then None else Some vars | _ \<Rightarrow> None)))"

definition pop_number :: "call_info \<Rightarrow> string" where
  "pop_number info = (if ki_Direction info = ''outbound'' then ki_Callee info else ki_Caller info)"

text \<open>The customer with the number, the phones and the latest ten contacts; errors leave them out.\<close>

definition pop_customer :: "pop_env \<Rightarrow> int \<Rightarrow> call_info \<Rightarrow> (pop_world, 'e, customer option \<times> customer_phone list \<times> interaction list) act" where
  "pop_customer E who info = try_a (on_pop_crm (FindByPhone (pe_pick E) who (pop_number info))) (\<lambda>r. case r of
       Inr (Some c) \<Rightarrow>
         try_a (on_pop_crm (list_or_empty (zoom_a cw_phones put_phones (sel_all (\<lambda>p. cp_CustomerID p = cu_ID c))))) (\<lambda>ps.
         try_a (on_pop_crm (list_or_empty (ListByCustomer (pe_latest_first E) (cu_ID c) 0 10))) (\<lambda>is.
           ret_a (Some c, case_sum (\<lambda>_. []) id ps, case_sum (\<lambda>_. []) id is)))
     | _ \<Rightarrow> ret_a (None, [], []))"

text \<open>The templates are those of the first five configurations that are active.\<close>

definition BuildScreenPop :: "pop_env \<Rightarrow> gotime \<Rightarrow> int \<Rightarrow> call_info \<Rightarrow> (pop_world, string, pop_data) act" where
  "BuildScreenPop E now who info =
     bind_a (zoom_a pw_configs (\<lambda>d w. w\<lparr>pw_configs := d\<rparr>) (page_of (\<lambda>r. pf_TenantID r = who) pf_Position 5)) (\<lambda>(cfgs, _).
     bind_a (pop_context E now info) (\<lambda>vars.
     bind_a (pop_customer E who info) (\<lambda>(c, ps, is).
       ret_a \<lparr>pd_URLs = map (\<lambda>cfg. substitute (pf_URLTemplate cfg) info) (filter pf_IsActive cfgs), pd_Customer = c, pd_Phones = ps,
              pd_Interactions = is, pd_IVRContext = vars\<rparr>)))"

definition BuildURLs :: "pop_env \<Rightarrow> gotime \<Rightarrow> int \<Rightarrow> call_info \<Rightarrow> (pop_world, string, string list) act" where
  "BuildURLs E now who info = bind_a (BuildScreenPop E now who info) (\<lambda>d. ret_a (pd_URLs d))"

section \<open>The look-up\<close>

datatype lookup_answer = PopData pop_data | CustomerOnly "customer option" | LookupFailed

text \<open>\<open>get_call\<close>: what \<open>GetByID\<close> of the calls answers, an error and no row alike.\<close>

definition info_of :: "call \<Rightarrow> call_info" where
  "info_of c = \<lparr>ki_CallID = c_ID c, ki_Caller = c_Caller c, ki_Callee = c_Callee c, ki_Direction = c_Direction c,
     ki_SkillGroupID = c_SkillGroupID c, ki_AgentUserID = c_AgentUserID c\<rparr>"

definition LookupPop :: "pop_env \<Rightarrow> gotime \<Rightarrow> (int \<Rightarrow> call option) \<Rightarrow> int \<Rightarrow> string \<Rightarrow> string \<Rightarrow> pop_world \<Rightarrow> lookup_answer \<times> pop_world" where
  "LookupPop E now get_call who call_id phone w =
     (if call_id \<noteq> [] then
        (case get_call (path_id call_id) of
           None \<Rightarrow> (CustomerOnly None, w)
         | Some c \<Rightarrow> if c_TenantID c \<noteq> who then (CustomerOnly None, w)
             else (case BuildScreenPop E now who (info_of c) w of (Inl _, w') \<Rightarrow> (LookupFailed, w') | (Inr d, w') \<Rightarrow> (PopData d, w')))
      else if phone = [] then (CustomerOnly None, w)
      else (case on_pop_crm (FindByPhone (pe_pick E) who phone) w of
          (Inl _, w') \<Rightarrow> (CustomerOnly None, w')
        | (Inr c, w') \<Rightarrow> (CustomerOnly c, w')))"

end
