(* ===== verification/ScreenPopProps.thy ===== *)
theory ScreenPopProps
  imports ScreenPop IntegrationsProps
begin

text \<open>
  How a template is filled, how long the IVR context lasts, and whose data a screen pop shows.
\<close>

section \<open>Templates\<close>

text \<open>A template as its author reads it: texts and names in braces.\<close>

datatype piece = Txt string | Hole string

fun piece_text :: "piece \<Rightarrow> string" where
  "piece_text (Txt s) = s"
| "piece_text (Hole n) = ''${'' @ n @ ''}''"

definition template_of :: "piece list \<Rightarrow> string" where
  "template_of ps = concat (map piece_text ps)"

fun piece_ok :: "piece \<Rightarrow> bool" where
  "piece_ok (Txt s) = (CHR ''$'' \<notin> set s)"
| "piece_ok (Hole n) = (CHR ''$'' \<notin> set n \<and> CHR ''}'' \<notin> set n)"

text \<open>The value of a name: an unknown one, and one whose value is missing, stays as it is.\<close>

definition known :: "call_info \<Rightarrow> (string \<times> string) list" where
  "known info = [(''call_id'', itoa (ki_CallID info)), (''caller'', ki_Caller info), (''callee'', ki_Callee info), (''direction'', ki_Direction info)] @
     (case ki_SkillGroupID info of None \<Rightarrow> [] | Some g \<Rightarrow> [(''skill_group_id'', itoa g)]) @
     (case ki_AgentUserID info of None \<Rightarrow> [] | Some a \<Rightarrow> [(''agent_user_id'', itoa a)])"

fun fill :: "call_info \<Rightarrow> piece \<Rightarrow> string" where
  "fill info (Txt s) = s"
| "fill info (Hole n) = (case map_of (known info) n of None \<Rightarrow> piece_text (Hole n) | Some v \<Rightarrow> v)"

definition hole_pairs :: "(string \<times> string) list \<Rightarrow> (string \<times> string) list" where
  "hole_pairs kvs = map (\<lambda>(n, v). (piece_text (Hole n), v)) kvs"

lemma pop_pairs_known: "pop_pairs info = hole_pairs (known info)"
  by (simp add: pop_pairs_def known_def hole_pairs_def split: option.split)

lemma known_plain: "(n, v) \<in> set (known info) \<Longrightarrow> CHR ''}'' \<notin> set n"
  by (auto simp: known_def split: option.splits)

lemma prefix_find_none: "\<forall>(n, v) \<in> set kvs. \<not> strings_HasPrefix s (piece_text (Hole n)) \<Longrightarrow> find (\<lambda>(k, v). strings_HasPrefix s k) (hole_pairs kvs) = None"
  by (auto simp: find_None_iff hole_pairs_def)

lemma replacer_text: "CHR ''$'' \<notin> set s \<Longrightarrow> replacer (hole_pairs kvs) (s @ t) = s @ replacer (hole_pairs kvs) t"
proof (induction s)
  case (Cons c cs)
  then have "find (\<lambda>(k, v). strings_HasPrefix (c # cs @ t) k) (hole_pairs kvs) = None" by (intro prefix_find_none) auto
  with Cons show ?case by simp
qed simp

lemma brace_prefix:
  assumes "CHR ''}'' \<notin> set m" "CHR ''}'' \<notin> set n"
  shows "strings_HasPrefix (m @ ''}'' @ t) (n @ ''}'') \<longleftrightarrow> m = n"
proof
  assume "strings_HasPrefix (m @ ''}'' @ t) (n @ ''}'')"
  then obtain u where u: "m @ ''}'' @ t = n @ ''}'' @ u" by (auto simp: HasPrefix_iff)
  then have "takeWhile (\<lambda>c. c \<noteq> CHR ''}'') (m @ ''}'' @ t) = takeWhile (\<lambda>c. c \<noteq> CHR ''}'') (n @ ''}'' @ u)" by simp
  moreover have "takeWhile (\<lambda>c. c \<noteq> CHR ''}'') (x @ ''}'' @ y) = x" if "CHR ''}'' \<notin> set x" for x y
    using that by (induction x) auto
  ultimately show "m = n" using assms by simp
qed (auto simp: HasPrefix_iff)

lemma find_hole:
  assumes "CHR ''}'' \<notin> set n" "\<forall>(m, v) \<in> set kvs. CHR ''}'' \<notin> set m"
  shows "find (\<lambda>(k, v). strings_HasPrefix (piece_text (Hole n) @ t) k) (hole_pairs kvs) = map_option (\<lambda>v. (piece_text (Hole n), v)) (map_of kvs n)"
  using assms(2)
proof (induction kvs)
  case (Cons kv kvs)
  obtain m v where kv: "kv = (m, v)" by (cases kv)
  with Cons.prems have "strings_HasPrefix (n @ ''}'' @ t) (m @ ''}'') \<longleftrightarrow> n = m" by (intro brace_prefix [OF assms(1)]) auto
  with Cons kv show ?case by (auto simp: hole_pairs_def)
qed (simp add: hole_pairs_def)

lemma replacer_hole:
  assumes "CHR ''}'' \<notin> set n" "CHR ''$'' \<notin> set n" "\<forall>(m, v) \<in> set kvs. CHR ''}'' \<notin> set m"
  shows "replacer (hole_pairs kvs) (piece_text (Hole n) @ t) =
    (case map_of kvs n of None \<Rightarrow> piece_text (Hole n) | Some v \<Rightarrow> v) @ replacer (hole_pairs kvs) t"
proof (cases "map_of kvs n")
  case None
  with find_hole [OF assms(1,3), of t] have "replacer (hole_pairs kvs) (piece_text (Hole n) @ t) = CHR ''$'' # replacer (hole_pairs kvs) ((''{'' @ n @ ''}'') @ t)" by simp
  also have "replacer (hole_pairs kvs) ((''{'' @ n @ ''}'') @ t) = (''{'' @ n @ ''}'') @ replacer (hole_pairs kvs) t"
    using assms(2) by (intro replacer_text) auto
  finally show ?thesis using None by simp
next
  case (Some v)
  with find_hole [OF assms(1,3), of t] show ?thesis by simp
qed

lemma template_filled:
  assumes "list_all piece_ok ps"
  shows "substitute (template_of ps) info = concat (map (fill info) ps)"
proof -
  have known: "\<forall>(m, v) \<in> set (known info). CHR ''}'' \<notin> set m" using known_plain by fast
  have "replacer (hole_pairs (known info)) (template_of ps) = concat (map (fill info) ps)"
    using assms
  proof (induction ps)
    case (Cons p ps)
    then show ?case by (cases p) (simp_all add: template_of_def replacer_text replacer_hole [OF _ _ known] del: piece_text.simps(2) append.simps)
  qed (simp add: template_of_def)
  then show ?thesis by (simp add: substitute_def pop_pairs_known)
qed

section \<open>The context\<close>

text \<open>What was saved is read back for an hour, by whoever asks for the call.\<close>

lemma context_kept:
  assumes "unmarshal (marshal vars) = Some vars" "dom vars \<noteq> {}" "ct_outages t = []"
  shows "fst (LoadContext unmarshal later k (snd (SaveContext marshal now k vars t))) = (if later < now + contextTTL then Inr (Some vars) else Inr None)"
  using assms by (simp add: SaveContext_def LoadContext_def ctx_cmd_def)

section \<open>The data\<close>

lemma page_rows: "page_of P rank n t = (Inr (rs, c), t') \<Longrightarrow> set rs \<subseteq> set (filter P (lrows t))"
  by (auto simp: page_of_def act_run sel_all_def on_link_def dest: in_set_takeD split: list.splits if_splits)

lemma found_customer:
  assumes "FindByPhone pick who phone w = (Inr (Some c), w')" "\<And>cs. cs \<noteq> [] \<Longrightarrow> pick cs \<in> set cs"
  shows "c \<in> set (rows_owned cu_TenantID who (cw_customers w)) \<and> (\<exists>p \<in> set (lrows (cw_phones w)). cp_CustomerID p = cu_ID c \<and> cp_Number p = phone)"
proof -
  define P where "P c \<longleftrightarrow> cu_TenantID c = who \<and> (\<exists>p \<in> set (lrows (cw_phones w)). cp_CustomerID p = cu_ID c \<and> cp_Number p = phone)" for c :: customer
  have "FindByPhone pick who phone w = bind_a (wrap_a ErrCrmStore (zoom_a cw_customers put_customers (sel_all P))) (\<lambda>cs. ret_a (if cs = [] then None else Some (pick cs))) w"
    by (simp add: FindByPhone_def P_def [abs_def])
  with assms(1) have "filter P (lrows (cw_customers w)) \<noteq> [] \<and> c = pick (filter P (lrows (cw_customers w)))"
    by (auto simp: act_run sel_all_def on_link_def split: list.splits if_splits)
  with assms(2) have "c \<in> set (filter P (lrows (cw_customers w)))" by metis
  then show ?thesis by (auto simp: rows_owned_def P_def)
qed

lemma listed_rows:
  assumes "list_or_empty (zoom_a cw_phones put_phones (sel_all P)) w = (Inr ps, w1)"
  shows "set ps \<subseteq> Collect P"
  using assms by (auto simp: list_or_empty_def act_run sel_all_def on_link_def split: list.splits if_splits)

lemma listed_contacts:
  assumes "list_or_empty (ListByCustomer latest k 0 n) w = (Inr is, w1)" "\<And>xs. set (latest xs) \<subseteq> set xs"
  shows "length is \<le> n \<and> (\<forall>i \<in> set is. ix_CustomerID i = k)"
proof -
  let ?is = "filter (\<lambda>i. ix_CustomerID i = k) (lrows (cw_interactions w))"
  from assms(1) have "is = [] \<or> is = take n (latest ?is)"
    by (auto simp: list_or_empty_def ListByCustomer_def act_run sel_all_def on_link_def split: list.splits if_splits)
  moreover have "set (take n (latest ?is)) \<subseteq> set ?is" using assms(2) set_take_subset by (rule subset_trans [rotated])
  ultimately show ?thesis by auto
qed

lemma list_or_empty_run: obtains xs w' where "list_or_empty m w = (Inr xs, w')"
  by (cases "m w") (auto simp: list_or_empty_def act_run split: sum.splits)

text \<open>What an agent sees of a customer.\<close>

definition contact_shown :: "pop_world \<Rightarrow> int \<Rightarrow> string \<Rightarrow> customer \<Rightarrow> customer_phone list \<Rightarrow> interaction list \<Rightarrow> bool" where
  "contact_shown w who number c ps is \<longleftrightarrow>
     c \<in> set (rows_owned cu_TenantID who (cw_customers (pw_crm w))) \<and>
     (\<exists>p \<in> set (lrows (cw_phones (pw_crm w))). cp_CustomerID p = cu_ID c \<and> cp_Number p = number) \<and>
     (\<forall>p \<in> set ps. cp_CustomerID p = cu_ID c) \<and> (\<forall>i \<in> set is. ix_CustomerID i = cu_ID c) \<and> length is \<le> 10"

lemma pop_customer_shown:
  assumes run: "pop_customer E who info w = (Inr (found, ps, is), w')"
    and env: "\<And>cs. cs \<noteq> [] \<Longrightarrow> pe_pick E cs \<in> set cs" "\<And>xs. set (pe_latest_first E xs) \<subseteq> set xs"
  shows "case found of None \<Rightarrow> ps = [] \<and> is = [] | Some c \<Rightarrow> contact_shown w who (pop_number info) c ps is"
proof -
  obtain r v where fnd: "FindByPhone (pe_pick E) who (pop_number info) (pw_crm w) = (r, v)" by force
  show ?thesis
  proof (cases "\<exists>c. r = Inr (Some c)")
    case False
    with run fnd show ?thesis by (auto simp: pop_customer_def act_run split: sum.splits option.splits)
  next
    case True
    then obtain c where r: "r = Inr (Some c)" by blast
    obtain qs v1 where qs: "list_or_empty (zoom_a cw_phones put_phones (sel_all (\<lambda>p. cp_CustomerID p = cu_ID c))) v = (Inr qs, v1)" by (rule list_or_empty_run)
    obtain js v2 where js: "list_or_empty (ListByCustomer (pe_latest_first E) (cu_ID c) 0 10) v1 = (Inr js, v2)" by (rule list_or_empty_run)
    from run fnd r qs js have res: "found = Some c" "ps = qs" "is = js" by (auto simp: pop_customer_def act_run)
    from found_customer [OF fnd [unfolded r] env(1)] listed_rows [OF qs] listed_contacts [OF js env(2)] show ?thesis
      by (auto simp: res contact_shown_def)
  qed
qed

text \<open>
  C1. A screen pop is shown for a call of the agent's own tenant only, and shows that tenant's data only: each address comes from an active template of the tenant, with every name it knows
  replaced by the value of the call and everything else as it stands, and the customer is one of the tenant's with the number of the call, with phones and at most ten contacts of its own.
\<close>

theorem screen_pop_own_data:
  assumes "\<And>cs. cs \<noteq> [] \<Longrightarrow> pe_pick E cs \<in> set cs" and "\<And>xs. set (pe_latest_first E xs) \<subseteq> set xs"
    and "LookupPop E now get_call who call_id phone w = (PopData d, w')"
  shows "\<exists>c. get_call (path_id call_id) = Some c \<and> c_TenantID c = who \<and>
    (\<forall>u \<in> set (pd_URLs d). \<exists>cfg \<in> set (rows_owned pf_TenantID who (pw_configs w)). pf_IsActive cfg \<and>
       (\<forall>ps. list_all piece_ok ps \<and> pf_URLTemplate cfg = template_of ps \<longrightarrow> u = concat (map (fill (info_of c)) ps))) \<and>
    (case pd_Customer d of None \<Rightarrow> pd_Phones d = [] \<and> pd_Interactions d = []
       | Some cu \<Rightarrow> contact_shown w who (pop_number (info_of c)) cu (pd_Phones d) (pd_Interactions d))"
proof -
  from assms(3) obtain c where c: "get_call (path_id call_id) = Some c" "c_TenantID c = who"
    and run: "BuildScreenPop E now who (info_of c) w = (Inr d, w')"
    by (auto simp: LookupPop_def split: if_splits option.splits prod.splits sum.splits)
  from run obtain cfgs n t where page: "page_of (\<lambda>r. pf_TenantID r = who) pf_Position 5 (pw_configs w) = (Inr (cfgs, n), t)"
    by (auto simp: BuildScreenPop_def act_run split: prod.splits sum.splits)
  let ?w1 = "w\<lparr>pw_configs := t\<rparr>"
  obtain vars w2 where ctx: "(pop_context E now (info_of c) :: (pop_world, string, _) act) ?w1 = (Inr vars, w2)" "pw_crm w2 = pw_crm w"
  proof -
    have "\<exists>vars u. (pop_context E now (info_of c) :: (pop_world, string, _) act) ?w1 = (Inr vars, u) \<and> pw_crm u = pw_crm w"
      by (auto simp: pop_context_def act_run split: prod.splits sum.splits)
    with that show ?thesis by blast
  qed
  obtain found ps js w3 where cust: "(pop_customer E who (info_of c) :: (pop_world, string, _) act) w2 = (Inr (found, ps, js), w3)"
    using run page ctx(1) by (auto simp: BuildScreenPop_def act_run split: prod.splits sum.splits)
  have d: "d = \<lparr>pd_URLs = map (\<lambda>cfg. substitute (pf_URLTemplate cfg) (info_of c)) (filter pf_IsActive cfgs), pd_Customer = found, pd_Phones = ps,
      pd_Interactions = js, pd_IVRContext = vars\<rparr>"
    using run page ctx(1) cust by (simp add: BuildScreenPop_def act_run)
  have own: "set cfgs \<subseteq> set (rows_owned pf_TenantID who (pw_configs w))" using page_rows [OF page] by (simp add: rows_owned_def)
  have "contact_shown w2 = contact_shown w" by (simp add: contact_shown_def fun_eq_iff ctx(2))
  with pop_customer_shown [OF cust assms(1,2)] c own template_filled show ?thesis
    by (intro exI [of _ c]) (auto simp: d split: option.splits)
qed

text \<open>A value goes into an address as it is: what a caller calls himself can add parameters.\<close>

lemma value_not_escaped: "substitute ''http://crm/?n=${caller}'' \<lparr>ki_CallID = 1, ki_Caller = ''1&admin=1'', ki_Callee = [], ki_Direction = ''inbound'',
    ki_SkillGroupID = None, ki_AgentUserID = None\<rparr> = ''http://crm/?n=1&admin=1''"
  by code_simp

end
