(* ===== verification/Spec2Isabelle.thy ===== *)
theory Spec2Isabelle
  imports CallProps PresenceProps IVRFlowProps DialerProps LifecycleProps AcdLifecycle IVRProps WechatCrypto Postcall OutboundProps IMProps TicketProps Webhook AuthProps IdentityProps EslProps QualityProps CrmProps HubProps DashboardProps CallListProps AdvancedAIProps AnnotationProps DialogProps RouterProps CallControlProps SettingsProps AnalysisProps PrivateCall IntegrationsProps ScreenPopProps
begin

text \<open>
  A verification library for a cloud call centre: a Go server that takes calls from FreeSWITCH, queues and routes them to agents, runs IVR flows and
  outbound campaigns, and keeps tickets, chats, customers, quality inspections, statistics and the settings of its tenants. Paths are relative to
  \<open>src/internal\<close> unless they begin with \<open>src\<close>.

  \<^bold>\<open>How the program works.\<close> FreeSWITCH reports events over its event socket (\<open>infrastructure/esl\<close>); the lifecycle service (\<open>application/lifecycle\<close>) turns them into
  operations of the call service (\<open>domain/call\<close>), which stores each change of a call in MySQL and tells the switch what to do. A call that waits is put into a Redis
  queue of its skill group; the dispatcher (\<open>application/acd\<close>) hands it to an idle agent, whose presence (\<open>domain/identity\<close>) follows the call. Before that the
  interpreter of IVR flows (\<open>application/ivr\<close>) may run a graph that the editor (\<open>domain/routing\<close>) has validated. The dialer (\<open>application/dialer\<close>) places the
  calls of campaigns (\<open>domain/campaign\<close>) and the outbound service (\<open>application/outbound\<close>) those of agents, after the do-not-call list and the concurrency limit. When
  a call ends the post-call effects run once: satisfaction survey, quality inspection, webhooks, and an event for the statistics worker
  (\<open>application/postcall\<close>). Requests come in over HTTP (\<open>interfaces/http\<close>): the router, the middleware, the handlers.

  \<^bold>\<open>How it is modelled.\<close> A Go function that can fail and has effects is an action, \<open>'w \<Rightarrow> ('e + 'a) \<times> 'w\<close> (theory \<open>Prelude\<close>): the world it leaves is there
  also when it returns an error, so that what a failure leaves behind is part of every theorem. The tables of MySQL and the keys of Redis are values of the world; each
  statement may fail without effect, by a list of outages the world carries (theories \<open>Store\<close>, \<open>Tables\<close>): theorems hold for every such list. Transactions, conditional updates and unique
  keys are written out where the code uses them. What the clock, the id generator, the switch, a model provider, a hash, the JSON encoder or chi answers is an argument,
  and what is assumed of it stands in the theorem (for instance \<open>chi_ok\<close>: a route the router picks is in its table and matches). Strings are lists of bytes, except in
  \<open>Analysis\<close>, where Go ranges over code points. Go's machine integers wrap where a value can get large (pagination, exam points, time stamps); counters of rows are
  unbounded. \<open>float64\<close> is \<open>rat\<close>; the rounding of an id that goes through JSON as a \<open>float64\<close> is modelled in \<open>Auth\<close>. Goroutines
  that share state are steps of an interleaving (dispatcher, dialer, presence, broadcasts of the hubs, statistics, post-call effects, audit entries). One request is one
  step: two requests on the same call, chat or ticket do not overlap, and where the code lets them, a lemma shows what happens (\<open>overlapping_ends_start_twice\<close>,
  \<open>interleaved_assigns_overbook\<close>, \<open>overlapping_broadcasts\<close>). That a statement has an effect and its reply is lost is modelled in \<open>Postcall\<close> only. Names of
  users are compared by the collation of the column, which is an argument.

  \<^bold>\<open>Theories, in the order of the program.\<close>

  \<^item> \<open>Prelude\<close>, \<open>Store\<close>, \<open>Tables\<close>, \<open>GoStrings\<close>, \<open>Decimal\<close>, \<open>Json\<close>: actions and their rules (\<open>preserves\<close>, \<open>preserves_err\<close>, \<open>never_fails\<close>),
    the locales of a repository and of a world of tables, Go's \<open>strings\<close> and \<open>strconv\<close>, bodies and answers.
  \<^item> \<open>CallEntity\<close>, \<open>CallService\<close>, \<open>CallRules\<close>, \<open>CallOps\<close>, \<open>CallMachine\<close>, \<open>CallLegs\<close>, \<open>CallProps\<close>: \<open>domain/call\<close>. Every operation is shown to move the call table
    as the abstract machine may (\<open>call_refines_machine\<close>), to keep the invariant of a stored call, and to leave no leg open when it fails (but for one whose hangup FreeSWITCH refuses).
  \<^item> \<open>Presence\<close>, \<open>PresenceProps\<close>: agent presence with its wrap-up timers; any interleaving takes steps of the state machine.
  \<^item> \<open>FlowGraph\<close>, \<open>IVRFlowService\<close>, \<open>IVRFlowProps\<close>, \<open>IVREngine\<close>, \<open>IVRRun\<close>, \<open>IVRProps\<close>: the validator decides what it should, a valid flow never runs off its graph,
    a run ends where no flow leads back to itself, requests stay off private hosts (the redirects the client follows are unchecked).
  \<^item> \<open>Campaign\<close>, \<open>CampaignProps\<close>, \<open>Dialer\<close>, \<open>DialerProps\<close>, \<open>Telephony\<close>, \<open>Outbound\<close>, \<open>OutboundProps\<close>: campaigns, the do-not-call list, pacing, trunks, routing, callbacks.
  \<^item> \<open>Esl\<close>, \<open>EslProps\<close>, \<open>Lifecycle\<close>, \<open>LifecycleProps\<close>: the event socket and the orchestration of a call's life, with the
    runs of the IVR engine of inbound calls.
  \<^item> \<open>Acd\<close>, \<open>AcdQueue\<close>, \<open>AcdProps\<close>, \<open>AcdLifecycle\<close>: the dispatcher over a locale of its backend, interpreted on the lifecycle service; which queued calls can be lost, order, claims.
  \<^item> \<open>Postcall\<close>, \<open>Dashboard\<close>, \<open>DashboardProps\<close>, \<open>Analysis\<close>, \<open>AnalysisProps\<close>: daily totals that count a call once, the live dashboard, frequent words.
  \<^item> \<open>IM\<close>, \<open>IMProps\<close>, \<open>WechatCrypto\<close>, \<open>Ticket\<close>, \<open>TicketProps\<close>, \<open>Crm\<close>, \<open>CrmProps\<close>, \<open>Webhook\<close>, \<open>Hub\<close>, \<open>HubProps\<close>: chat, tickets and surveys, customers and their
    erasure, webhooks, live events.
  \<^item> \<open>Quality\<close>, \<open>QualityService\<close>, \<open>QualityProps\<close>, \<open>AdvancedAI\<close>, \<open>AdvancedAIProps\<close>, \<open>Annotation\<close>, \<open>AnnotationProps\<close>, \<open>Dialog\<close>, \<open>DialogProps\<close>: inspections and
    scorecards, conversation agents, training, annotation, the dialog machine.
  \<^item> \<open>Auth\<close>, \<open>AuthProps\<close>, \<open>Identity\<close>, \<open>IdentityProps\<close>: tokens, service tokens, the tenant guard, the rate limit; tenants, users, agents, quotas.
  \<^item> \<open>Http\<close>, \<open>HttpProps\<close>, \<open>Router\<close>, \<open>RouterProps\<close>, \<open>CallControl\<close>, \<open>CallControlProps\<close>, \<open>CallList\<close>, \<open>CallListProps\<close>, \<open>Settings\<close>, \<open>SettingsProps\<close>,
    \<open>PrivateCall\<close>, \<open>Integrations\<close>, \<open>IntegrationsProps\<close>, \<open>ScreenPop\<close>, \<open>ScreenPopProps\<close>: masking, audit, origins; the route table and who reaches a handler; the handlers of call control, of the lists of calls with their export, of the settings and
    integrations, whose tenants stay apart; private calls; what an agent's screen shows.

  A theory named after a component holds its records, datatypes and one definition per function of the code, with the function's name where Isabelle allows it; its
  \<open>Props\<close> theory holds the lemmas and the properties. Sums over rows, permutations and searches are those of the library.

  \<^bold>\<open>Bounds and fuel.\<close> The IVR engine counts its steps: \<open>maxSteps\<close> is 1000 in the code, and the model counts as it does; it is a partial function, whose value \<open>None\<close> is a run that does not return: calls of
  sub-flows have no bound in the code, and a run returns where no stored flow contains itself (\<open>ExecuteFlow_terminates\<close>). A
  webhook is tried three times; the buffers of a hub hold 256 messages (agents, chat, transcripts) or 64 (dashboard); a page has at most the rows \<open>Parse\<close> allows.
  Everything else recurses on its data.

  \<^bold>\<open>What the properties show.\<close> Invariants of the stored rows along any requests and failures; refinements of abstract machines; that effects happen once; that
  loops end; that what is written is read back; that a failure leaves what the caller can repeat or undo. Where the code does less than its comments say, a lemma shows the case: two
  requests that overlap (chat slots, turns of a conversation, ticket edits), rows of another tenant, an error that is dropped.

  \<^bold>\<open>Not modelled.\<close> The staffing calculator (Erlang C), whose answers depend on the overflow of \<open>float64\<close>. The clients of external services (model providers, NATS, Kafka, MinIO, SMS, the APIs of WeChat and Weibo): what they answer is an argument. The wiring in
  \<open>src/cmd/server/main.go\<close>: what it fixes is a hypothesis or a constant. Handlers that only decode a body and call one operation that is modelled with its component. The
  aggregating statements of reports, which read tables no code writes as they expect. Tracing, metrics, logging and configuration files, on which no decision depends; of \<open>redact.Text\<close> the
  patterns are a parameter. Records that are only stored, listed and overwritten (knowledge articles, scripts, templates). Test doubles. Go's scheduler is an arbitrary interleaving of the steps
  given; its memory model is not part of the development, and the server's texts of errors are not.
\<close>

end
